(* ===== verification/DpPrelude.thy ===== *)
theory DpPrelude
  imports Main "HOL-Library.AList" "HOL-Library.Char_ord" "HOL-Library.Code_Target_Nat" "HOL-Library.List_Lexorder"
    "HOL-Library.Sublist" "HOL-Library.Word"
begin

text \<open>
  Shared vocabulary of the development: the string and number functions of the C++ standard
  library that the device profile service uses (substring search, splitting, \<open>std::to_string\<close>,
  \<open>std::atoi\<close>), ordered maps (\<open>std::map\<close>) as association lists sorted by key, unordered maps
  (\<open>std::unordered_map\<close>) as association lists in iteration order (which C++ leaves open; no
  property depends on it), and the lemma collections every component uses.
\<close>

named_theorems dp_def \<open>definitions that proofs about operations unfold\<close>
named_theorems key_simps \<open>facts on database keys, splitting and joining\<close>

type_synonym ('k, 'v) umap = "('k \<times> 'v) list"
type_synonym ('k, 'v) omap = "('k \<times> 'v) list"

section \<open>Strings\<close>

text \<open>\<open>s.find(p)\<close>: the position of the first occurrence, \<open>None\<close> for \<open>npos\<close>.\<close>

fun str_find :: "string \<Rightarrow> string \<Rightarrow> nat option" where
  "str_find p [] = (if p = [] then Some 0 else None)"
| "str_find p (c # cs) =
     (if prefix p (c # cs) then Some 0 else map_option Suc (str_find p cs))"

lemma str_find_single: "str_find [d] s = (if d \<in> set s then Some (length (takeWhile (\<lambda>c. c \<noteq> d) s)) else None)"
  by (induction s) auto

lemma str_find_0_iff: "str_find p s = Some 0 \<longleftrightarrow> prefix p s"
  by (cases s) auto

text \<open>The fields of a string between the occurrences of a separator character.\<close>

fun split_on :: "char \<Rightarrow> string \<Rightarrow> string list" where
  "split_on d [] = [[]]"
| "split_on d (c # cs) =
     (if c = d then [] # split_on d cs
      else (case split_on d cs of [] \<Rightarrow> [[c]] | f # fs \<Rightarrow> (c # f) # fs))"

lemma split_on_not_Nil [simp]: "split_on d s \<noteq> []"
  by (induction s) (auto split: list.splits)

lemma split_on_no_sep [key_simps]: "d \<notin> set s \<Longrightarrow> split_on d s = [s]"
  by (induction s) auto

lemma split_on_sep [key_simps]: "d \<notin> set s \<Longrightarrow> split_on d (s @ d # t) = s # split_on d t"
  by (induction s) auto

lemma split_on_append: "split_on d (s @ d # t) = split_on d s @ split_on d t"
  by (induction s) (auto split: list.splits)

lemma split_on_fields: "f \<in> set (split_on d s) \<Longrightarrow> d \<notin> set f"
  by (induction s arbitrary: f) (auto split: list.splits if_splits)

fun join_with :: "string \<Rightarrow> string list \<Rightarrow> string" where
  "join_with d [] = []"
| "join_with d [x] = x"
| "join_with d (x # y # ys) = x @ d @ join_with d (y # ys)"

lemma join_with_Cons: "xs \<noteq> [] \<Longrightarrow> join_with d (x # xs) = x @ d @ join_with d xs"
  by (cases xs) auto

lemma join_split: "join_with [d] (split_on d s) = s"
proof (induction s)
  case (Cons c cs)
  obtain f fs where fs: "split_on d cs = f # fs"
    by (cases "split_on d cs") auto
  with Cons show ?case by (cases fs) (auto simp: join_with_Cons)
qed simp

lemma split_join:
  "xs \<noteq> [] \<Longrightarrow> \<forall>x\<in>set xs. d \<notin> set x \<Longrightarrow> split_on d (join_with [d] xs) = xs"
  by (induction xs rule: induct_list012) (auto simp: key_simps)

section \<open>Decimal numbers\<close>

definition digit :: "nat \<Rightarrow> char" where
  "digit n = char_of (48 + n)"

definition digit_val :: "char \<Rightarrow> nat" where
  "digit_val c = of_char c - 48"

definition is_digit :: "char \<Rightarrow> bool" where
  "is_digit c \<longleftrightarrow> (48 :: nat) \<le> of_char c \<and> of_char c \<le> (57 :: nat)"

fun nat_string :: "nat \<Rightarrow> string" where
  "nat_string n = (if n < 10 then [digit n] else nat_string (n div 10) @ [digit (n mod 10)])"

declare nat_string.simps [simp del]

definition num_val :: "string \<Rightarrow> nat" where
  "num_val s = foldl (\<lambda>a c. 10 * a + digit_val c) 0 s"

text \<open>\<open>std::to_string\<close> on the signed integer types.\<close>

definition to_string :: "int \<Rightarrow> string" where
  "to_string i = (if i < 0 then CHR ''-'' # nat_string (nat (- i)) else nat_string (nat i))"

text \<open>
  \<open>std::atoi\<close>: white space, an optional sign, the longest run of digits. Where the value
  does not fit in an \<open>int\<close> the C standard leaves the result open; the function keeps the low
  32 bits, which no property relies on.
\<close>

definition is_space :: "char \<Rightarrow> bool" where
  "is_space c \<longleftrightarrow> of_char c = (32 :: nat) \<or> ((9 :: nat) \<le> of_char c \<and> of_char c \<le> (13 :: nat))"

definition to_i32 :: "int \<Rightarrow> int" where
  "to_i32 i = signed_take_bit 31 i"

definition atoi_val :: "string \<Rightarrow> int" where
  "atoi_val s =
     (case dropWhile is_space s of
        [] \<Rightarrow> 0
      | c # cs \<Rightarrow>
          if c = CHR ''-'' then - int (num_val (takeWhile is_digit cs))
          else if c = CHR ''+'' then int (num_val (takeWhile is_digit cs))
          else int (num_val (takeWhile is_digit (c # cs))))"

definition atoi :: "string \<Rightarrow> int" where
  "atoi s = to_i32 (atoi_val s)"

lemma to_i32_id: "- (2 ^ 31) \<le> i \<Longrightarrow> i < 2 ^ 31 \<Longrightarrow> to_i32 i = i"
  by (simp add: to_i32_def signed_take_bit_int_eq_self)

lemma of_char_digit: "n < 10 \<Longrightarrow> of_char (digit n) = 48 + n"
  by (simp add: digit_def)

lemma digit_val_digit: "n < 10 \<Longrightarrow> digit_val (digit n) = n"
  by (simp add: digit_val_def of_char_digit)

lemma is_digit_digit: "n < 10 \<Longrightarrow> is_digit (digit n)"
  by (simp add: is_digit_def of_char_digit)

lemma nat_string_digits: "list_all is_digit (nat_string n)"
proof (induction n rule: nat_string.induct)
  case (1 n)
  then show ?case
    by (subst nat_string.simps) (auto simp: is_digit_digit)
qed

lemma nat_string_not_Nil [simp]: "nat_string n \<noteq> []"
  by (subst nat_string.simps) simp

lemma num_val_nat_string: "num_val (nat_string n) = n"
proof (induction n rule: nat_string.induct)
  case (1 n)
  show ?case
  proof (cases "n < 10")
    case True
    then show ?thesis by (subst nat_string.simps) (simp add: num_val_def digit_val_digit)
  next
    case False
    with 1 have "num_val (nat_string (n div 10)) = n div 10" by simp
    with False show ?thesis
      by (subst nat_string.simps) (simp add: num_val_def digit_val_digit)
  qed
qed

lemma is_digit_not_space: "is_digit c \<Longrightarrow> \<not> is_space c"
  by (auto simp: is_digit_def is_space_def)

lemma takeWhile_digits: "list_all is_digit s \<Longrightarrow> takeWhile is_digit s = s"
  by (induction s) auto

lemma is_digit_not_sign: "is_digit c \<Longrightarrow> c \<noteq> CHR ''-'' \<and> c \<noteq> CHR ''+'' \<and> c \<noteq> CHR ''#''"
  by (auto simp: is_digit_def)

lemma atoi_val_to_string: "atoi_val (to_string i) = i"
proof (cases "i < 0")
  case True
  then show ?thesis
    by (simp add: atoi_val_def to_string_def is_space_def takeWhile_digits nat_string_digits
        num_val_nat_string)
next
  case False
  obtain c cs where cs: "nat_string (nat i) = c # cs"
    by (cases "nat_string (nat i)") auto
  with nat_string_digits [of "nat i"] have "list_all is_digit (c # cs)" and c: "is_digit c"
    by auto
  then have "list_all is_digit cs" by simp
  with cs num_val_nat_string [of "nat i"] False c show ?thesis
    by (simp add: atoi_val_def to_string_def is_digit_not_sign is_digit_not_space takeWhile_digits)
qed

theorem atoi_to_string: "- (2 ^ 31) \<le> i \<Longrightarrow> i < 2 ^ 31 \<Longrightarrow> atoi (to_string i) = i"
  by (simp add: atoi_def atoi_val_to_string to_i32_id)

lemma sep_notin_nat_string: "CHR ''#'' \<notin> set (nat_string n)"
  using nat_string_digits [of n] by (auto simp: list_all_iff dest: is_digit_not_sign)

lemma sep_notin_to_string [key_simps]: "CHR ''#'' \<notin> set (to_string i)"
  by (simp add: to_string_def sep_notin_nat_string)

lemma length_nat_string: "n < 10 ^ k \<Longrightarrow> 0 < k \<Longrightarrow> length (nat_string n) \<le> k"
proof (induction k arbitrary: n)
  case (Suc k)
  then show ?case
    by (subst nat_string.simps) (cases k; auto)
qed simp

lemma length_to_string: "- (2 ^ 31) \<le> i \<Longrightarrow> i < 2 ^ 31 \<Longrightarrow> length (to_string i) \<le> 11"
  using length_nat_string [of "nat i" 10] length_nat_string [of "nat (- i)" 10]
  by (cases "i < 0") (simp_all add: to_string_def nat_less_iff)

section \<open>Ordered maps\<close>

text \<open>\<open>std::map\<close>: an association list strictly sorted by key; \<open>m[k] = v\<close> is \<open>omap_put\<close>.\<close>

fun omap_put :: "'k::linorder \<Rightarrow> 'v \<Rightarrow> ('k, 'v) omap \<Rightarrow> ('k, 'v) omap" where
  "omap_put k v [] = [(k, v)]"
| "omap_put k v ((k', v') # m) =
     (if k < k' then (k, v) # (k', v') # m
      else if k = k' then (k, v) # m
      else (k', v') # omap_put k v m)"

definition omap_wf :: "('k::linorder, 'v) omap \<Rightarrow> bool" where
  "omap_wf m \<longleftrightarrow> sorted_wrt (<) (map fst m)"

lemma omap_wf_Nil [simp]: "omap_wf []"
  by (simp add: omap_wf_def)

lemma key_in_map: "k \<in> fst ` set m \<longleftrightarrow> map_of m k \<noteq> None"
  by (simp add: map_of_eq_None_iff)

lemma map_of_omap_put [simp]: "map_of (omap_put k v m) = (map_of m)(k \<mapsto> v)"
  by (induction m) (auto simp: fun_eq_iff)

lemma set_keys_omap_put [simp]: "fst ` set (omap_put k v m) = insert k (fst ` set m)"
  by (induction k v m rule: omap_put.induct) auto

lemma omap_put_not_Nil [simp]: "omap_put k v m \<noteq> []"
  by (cases "(k, v, m)" rule: omap_put.cases) auto

lemma set_map_fst_omap_put: "set (map fst (omap_put k v m)) = insert k (set (map fst m))"
  by simp

lemma omap_wf_Cons: "omap_wf (p # m) \<longleftrightarrow> (\<forall>x\<in>set (map fst m). fst p < x) \<and> omap_wf m"
  by (simp add: omap_wf_def)

lemma omap_wf_put: "omap_wf m \<Longrightarrow> omap_wf (omap_put k v m)"
proof (induction k v m rule: omap_put.induct)
  case (2 k v k' v' m)
  then have wf: "omap_wf m" and lt: "\<forall>x\<in>set (map fst m). k' < x"
    by (simp_all add: omap_wf_Cons)
  show ?case
  proof (cases k k' rule: linorder_cases)
    case less
    with lt have "\<forall>x\<in>set (map fst m). k < x" by (metis order.strict_trans)
    with less lt wf show ?thesis by (simp add: omap_wf_Cons)
  next
    case equal
    with lt wf show ?thesis by (simp add: omap_wf_Cons)
  next
    case greater
    then have ne: "\<not> k < k'" "k \<noteq> k'" by auto
    with 2 wf have "omap_wf (omap_put k v m)" by blast
    with ne greater lt show ?thesis by (simp add: omap_wf_Cons)
  qed
qed (simp add: omap_wf_def)

text \<open>\<open>m.emplace(k, v)\<close> keeps an entry that is already there.\<close>

definition omap_emplace :: "'k::linorder \<Rightarrow> 'v \<Rightarrow> ('k, 'v) omap \<Rightarrow> ('k, 'v) omap" where
  "omap_emplace k v m = (case map_of m k of None \<Rightarrow> omap_put k v m | Some _ \<Rightarrow> m)"

lemma length_omap_put: "length (omap_put k v m) \<le> Suc (length m)"
  by (induction k v m rule: omap_put.induct) auto

declare omap_put.simps [simp del]

definition omap_of :: "('k::linorder \<times> 'v) list \<Rightarrow> ('k, 'v) omap" where
  "omap_of kvs = fold (\<lambda>(k, v). omap_put k v) kvs []"

lemma omap_wf_fold: "omap_wf m \<Longrightarrow> omap_wf (fold (\<lambda>(k, v). omap_put k v) kvs m)"
  by (induction kvs arbitrary: m) (auto simp: omap_wf_put)

lemma omap_wf_delete: "omap_wf m \<Longrightarrow> omap_wf (AList.delete k m)"
  by (simp add: AList.delete_eq omap_wf_def sorted_wrt_map sorted_wrt_filter)

lemma omap_wf_of: "omap_wf (omap_of kvs)"
  unfolding omap_of_def by (rule omap_wf_fold) (simp add: omap_wf_def)

lemma omap_wf_distinct: "omap_wf m \<Longrightarrow> distinct (map fst m)"
  by (auto simp: omap_wf_def strict_sorted_iff)

lemma omap_ext:
  assumes "omap_wf m" "omap_wf n" "map_of m = map_of n"
  shows "m = n"
proof -
  have d: "distinct (map fst m)" "distinct (map fst n)"
    using assms by (simp_all add: omap_wf_distinct)
  have "set m = set n"
    using assms(3) d by (metis map_of_eq_Some_iff subrelI subset_antisym)
  moreover have "sorted (map fst m)" "sorted (map fst n)"
    using assms(1,2) by (simp_all add: omap_wf_def strict_sorted_iff)
  ultimately show ?thesis
    using d by (intro map_sorted_distinct_set_unique) (auto simp: distinct_map)
qed

section \<open>Unordered maps\<close>

lemma umap_update_distinct [simp]:
  "distinct (map fst m) \<Longrightarrow> distinct (map fst (AList.update k v m))"
  by (rule distinct_update)

lemma umap_delete_distinct [simp]:
  "distinct (map fst m) \<Longrightarrow> distinct (map fst (AList.delete k m))"
  by (rule distinct_delete)

lemma umap_update_length:
  "length (AList.update k v m) = (if k \<in> fst ` set m then length m else Suc (length m))"
  by (induction m) auto

lemma map_of_umap_update [simp]: "map_of (AList.update k v m) = (map_of m)(k \<mapsto> v)"
  by (rule update_conv')

lemma map_of_umap_delete [simp]: "map_of (AList.delete k m) = (map_of m)(k := None)"
  by (rule delete_conv')

lemma umap_delete_length: "length (AList.delete k m) \<le> length m"
  by (rule length_delete_le)

lemma map_of_NoneD: "map_of m k = None \<Longrightarrow> k \<notin> fst ` set m"
  by (simp add: map_of_eq_None_iff)

end
