(* ===== verification/DpErrors.thy ===== *)
theory DpErrors
  imports Main
begin

text \<open>
  The result codes of \<open>common/include/constants/distributed_device_profile_errors.h\<close>. Every
  operation of the service returns one; they are plain 32-bit integers in the code and integers
  here, with the source's names as input abbreviations.
\<close>

type_synonym dp_ret = int

abbreviation (input) "DP_SUCCESS \<equiv> (0 :: dp_ret)"
abbreviation (input) "DP_INVALID_PARAMS \<equiv> (98566144 :: dp_ret)"
abbreviation (input) "DP_INTERFACE_CHECK_FAILED \<equiv> (98566145 :: dp_ret)"
abbreviation (input) "DP_GET_LOCAL_UDID_FAILED \<equiv> (98566146 :: dp_ret)"
abbreviation (input) "DP_GET_SERVICE_FAILED \<equiv> (98566147 :: dp_ret)"
abbreviation (input) "DP_INIT_DB_FAILED \<equiv> (98566148 :: dp_ret)"
abbreviation (input) "DP_NOT_SUBSCRIBED \<equiv> (98566149 :: dp_ret)"
abbreviation (input) "DP_UNSUBSCRIBE_FAILED \<equiv> (98566150 :: dp_ret)"
abbreviation (input) "DP_SUBSCRIBE_FAILED \<equiv> (98566151 :: dp_ret)"
abbreviation (input) "DP_SUBSCRIBE_LIMIT_EXCEEDED \<equiv> (98566152 :: dp_ret)"
abbreviation (input) "DP_POST_TASK_FAILED \<equiv> (98566153 :: dp_ret)"
abbreviation (input) "DP_DEVICE_SYNC_BUSY \<equiv> (98566154 :: dp_ret)"
abbreviation (input) "DP_PERMISSION_DENIED \<equiv> (98566155 :: dp_ret)"
abbreviation (input) "DP_UNTRUSTED_GROUP \<equiv> (98566156 :: dp_ret)"
abbreviation (input) "DP_NOT_INIT_DB \<equiv> (98566157 :: dp_ret)"
abbreviation (input) "DP_GET_NETWORKID_FAILED \<equiv> (98566158 :: dp_ret)"
abbreviation (input) "DP_FILE_FAILED_ERR \<equiv> (98566159 :: dp_ret)"
abbreviation (input) "DP_LOAD_SERVICE_ERR \<equiv> (98566160 :: dp_ret)"
abbreviation (input) "DP_PUT_DEVICE_CACHE_ERR \<equiv> (98566161 :: dp_ret)"
abbreviation (input) "DP_PUT_SERVICE_CACHE_ERR \<equiv> (98566162 :: dp_ret)"
abbreviation (input) "DP_PUT_CHARACTERISTIC_CACHE_ERR \<equiv> (98566163 :: dp_ret)"
abbreviation (input) "DP_CACHE_EXIST \<equiv> (98566164 :: dp_ret)"
abbreviation (input) "DP_CACHE_NOT_EXIST \<equiv> (98566165 :: dp_ret)"
abbreviation (input) "DP_IPC_REMOTE_OBJECT_NULLPTR \<equiv> (98566166 :: dp_ret)"
abbreviation (input) "DP_GET_ACL_PROFILE_FAIL \<equiv> (98566167 :: dp_ret)"
abbreviation (input) "DP_GET_TRUST_DEVICE_PROFILE_FAIL \<equiv> (98566168 :: dp_ret)"
abbreviation (input) "DP_GET_ALL_TRUST_DEVICE_PROFILE_FAIL \<equiv> (98566169 :: dp_ret)"
abbreviation (input) "DP_PUT_ACL_PROFILE_FAIL \<equiv> (98566170 :: dp_ret)"
abbreviation (input) "DP_UPDATE_ACL_PROFILE_FAIL \<equiv> (98566171 :: dp_ret)"
abbreviation (input) "DP_UNLOAD_HANDLER_NULLPTR \<equiv> (98566172 :: dp_ret)"
abbreviation (input) "DP_CACHE_INIT_FAIL \<equiv> (98566173 :: dp_ret)"
abbreviation (input) "DP_DEVICE_MANAGER_INIT_FAIL \<equiv> (98566174 :: dp_ret)"
abbreviation (input) "DP_TRUST_PROFILE_MANAGER_INIT_FAIL \<equiv> (98566175 :: dp_ret)"
abbreviation (input) "DP_DEVICE_PROFILE_MANAGER_INIT_FAIL \<equiv> (98566176 :: dp_ret)"
abbreviation (input) "DP_SUBSCRIBE_PROFILE_MANAGER_INIT_FAIL \<equiv> (98566177 :: dp_ret)"
abbreviation (input) "DP_PROFILE_DATA_MANAGER_INIT_FAIL \<equiv> (98566178 :: dp_ret)"
abbreviation (input) "DP_CONTENT_SENSOR_MANAGER_INIT_FAIL \<equiv> (98566179 :: dp_ret)"
abbreviation (input) "DP_CACHE_UNINIT_FAIL \<equiv> (98566180 :: dp_ret)"
abbreviation (input) "DP_DEVICE_MANAGER_UNINIT_FAIL \<equiv> (98566181 :: dp_ret)"
abbreviation (input) "DP_TRUST_PROFILE_MANAGER_UNINIT_FAIL \<equiv> (98566182 :: dp_ret)"
abbreviation (input) "DP_DEVICE_PROFILE_MANAGER_UNINIT_FAIL \<equiv> (98566183 :: dp_ret)"
abbreviation (input) "DP_SUBSCRIBE_TRUST_PROFILE_MANAGER_UNINIT_FAIL \<equiv> (98566184 :: dp_ret)"
abbreviation (input) "DP_SUBSCRIBE_DEVICE_PROFILE_MANAGER_UNINIT_FAIL \<equiv> (98566185 :: dp_ret)"
abbreviation (input) "DP_CONTENT_SENSOR_MANAGER_UNINIT_FAIL \<equiv> (98566186 :: dp_ret)"
abbreviation (input) "DP_CS_COLLECTOR_HANDLER_INIT_FAIL \<equiv> (98566187 :: dp_ret)"
abbreviation (input) "DP_CS_POST_TASK_FAIL \<equiv> (98566188 :: dp_ret)"
abbreviation (input) "DP_KV_DB_PTR_NULL \<equiv> (98566189 :: dp_ret)"
abbreviation (input) "DP_KV_DB_INIT_FAIL \<equiv> (98566190 :: dp_ret)"
abbreviation (input) "DP_REGISTER_KV_DATA_LISTENER_FAILED \<equiv> (98566191 :: dp_ret)"
abbreviation (input) "DP_UNREGISTER_KV_DATA_LISTENER_FAILED \<equiv> (98566192 :: dp_ret)"
abbreviation (input) "DP_REGISTER_KV_SYNC_LISTENER_FAILED \<equiv> (98566193 :: dp_ret)"
abbreviation (input) "DP_UNREGISTER_KV_SYNC_LISTENER_FAILED \<equiv> (98566194 :: dp_ret)"
abbreviation (input) "DP_REGISTER_KV_DEATH_LISTENER_FAILED \<equiv> (98566195 :: dp_ret)"
abbreviation (input) "DP_UNREGISTER_KV_DEATH_LISTENER_FAILED \<equiv> (98566196 :: dp_ret)"
abbreviation (input) "DP_PUT_KV_DB_FAIL \<equiv> (98566197 :: dp_ret)"
abbreviation (input) "DP_DEL_KV_DB_FAIL \<equiv> (98566198 :: dp_ret)"
abbreviation (input) "DP_GET_KV_DB_FAIL \<equiv> (98566199 :: dp_ret)"
abbreviation (input) "DP_MANAGER_INIT_FAIL \<equiv> (98566200 :: dp_ret)"
abbreviation (input) "DP_EXCEED_MAX_SIZE_FAIL \<equiv> (98566201 :: dp_ret)"
abbreviation (input) "DP_NOT_FOUND_FAIL \<equiv> (98566202 :: dp_ret)"
abbreviation (input) "DP_SYNC_DEVICE_FAIL \<equiv> (98566203 :: dp_ret)"
abbreviation (input) "DP_KV_SYNC_FAIL \<equiv> (98566204 :: dp_ret)"
abbreviation (input) "DP_GET_SA_MANAGER_FAIL \<equiv> (98566205 :: dp_ret)"
abbreviation (input) "DP_GET_SA_PROXY_FAIL \<equiv> (98566206 :: dp_ret)"
abbreviation (input) "DP_PARSE_PERMISSION_JSON_FAIL \<equiv> (98566207 :: dp_ret)"
abbreviation (input) "DP_RDBADAPTER_PUT_FAIL \<equiv> (98566209 :: dp_ret)"
abbreviation (input) "DP_RDBADAPTER_DELETE_FAIL \<equiv> (98566210 :: dp_ret)"
abbreviation (input) "DP_RDBADAPTER_UPDATE_FAIL \<equiv> (98566211 :: dp_ret)"
abbreviation (input) "DP_RDBADAPTER_CREATE_TABLE_FAIL \<equiv> (98566212 :: dp_ret)"
abbreviation (input) "DP_RDBADAPTER_INIT_FAIL \<equiv> (98566213 :: dp_ret)"
abbreviation (input) "DP_GET_RDBSTORE_FAIL \<equiv> (98566214 :: dp_ret)"
abbreviation (input) "DP_RDBADAPTER_TABLE_NOT_EXIST \<equiv> (98566215 :: dp_ret)"
abbreviation (input) "DP_UNINIT_FAIL \<equiv> (98566216 :: dp_ret)"
abbreviation (input) "DP_PUT_SUBSCRIBE_TRUST_INFO_TABLE_FAIL \<equiv> (98566217 :: dp_ret)"
abbreviation (input) "DP_PUT_TRUST_DEVICE_PROFILE_FAIL \<equiv> (98566218 :: dp_ret)"
abbreviation (input) "DP_NOTIFY_TRUST_DEVICE_FAIL \<equiv> (98566219 :: dp_ret)"
abbreviation (input) "DP_GET_RESULTSET_FAIL \<equiv> (98566220 :: dp_ret)"
abbreviation (input) "DP_NOT_FIND_DATA \<equiv> (98566221 :: dp_ret)"
abbreviation (input) "DP_NOTIFY_STATUS_UPDATE_FAIL \<equiv> (98566222 :: dp_ret)"
abbreviation (input) "DP_RESULTSET_TO_VALUES_FAIL \<equiv> (98566223 :: dp_ret)"
abbreviation (input) "DP_DELETE_TRUST_DEVICE_PROFILE_FAIL \<equiv> (98566224 :: dp_ret)"
abbreviation (input) "DP_DELETE_ACCESS_CONTROL_PROFILE_FAIL \<equiv> (98566225 :: dp_ret)"
abbreviation (input) "DP_CREATE_TABLE_FAIL \<equiv> (98566226 :: dp_ret)"
abbreviation (input) "DP_CREATE_UNIQUE_INDEX_FAIL \<equiv> (98566227 :: dp_ret)"
abbreviation (input) "DP_PUT_ACCESSER_PROFILE_FAIL \<equiv> (98566228 :: dp_ret)"
abbreviation (input) "DP_PUT_ACCESSEE_PROFILE_FAIL \<equiv> (98566229 :: dp_ret)"
abbreviation (input) "DP_UPDATE_TRUST_DEVICE_PROFILE_FAIL \<equiv> (98566230 :: dp_ret)"
abbreviation (input) "DP_DELETE_ACCESSER_PROFILE_FAIL \<equiv> (98566231 :: dp_ret)"
abbreviation (input) "DP_DELETE_ACCESSEE_PROFILE_FAIL \<equiv> (98566232 :: dp_ret)"
abbreviation (input) "DP_GET_SYSTEM_ABILITY_FAIL \<equiv> (98566233 :: dp_ret)"
abbreviation (input) "DP_GET_PROXY_FAIL \<equiv> (98566234 :: dp_ret)"
abbreviation (input) "DP_WRITE_PARCEL_FAIL \<equiv> (98566235 :: dp_ret)"
abbreviation (input) "DP_READ_PARCEL_FAIL \<equiv> (98566236 :: dp_ret)"
abbreviation (input) "DP_UNLOAD_SA_FAIL \<equiv> (98566237 :: dp_ret)"
abbreviation (input) "DP_UPDATE_ACCESSER_PROFILE_FAIL \<equiv> (98566238 :: dp_ret)"
abbreviation (input) "DP_UPDATE_ACCESSEE_PROFILE_FAIL \<equiv> (98566239 :: dp_ret)"
abbreviation (input) "DP_SYNC_INIT_FAILED \<equiv> (98566240 :: dp_ret)"
abbreviation (input) "DP_SYNC_PROFILE_FAILED \<equiv> (98566241 :: dp_ret)"
abbreviation (input) "DP_UNSUPPORTED_METHOD \<equiv> (98566242 :: dp_ret)"
abbreviation (input) "DP_NO_MEMORY \<equiv> (98566243 :: dp_ret)"
abbreviation (input) "DP_SESSION_ERROR \<equiv> (98566244 :: dp_ret)"
abbreviation (input) "DP_INVALID_PARAM \<equiv> (98566245 :: dp_ret)"
abbreviation (input) "DP_CREATE_SESSION_FAILED \<equiv> (98566246 :: dp_ret)"
abbreviation (input) "DP_RUN_LOADED_FUNCTION_FAILED \<equiv> (98566247 :: dp_ret)"
abbreviation (input) "DP_LOAD_SYNC_ADAPTER_FAILED \<equiv> (98566248 :: dp_ret)"
abbreviation (input) "DP_UPDATE_ACL_NOT_ALLOW \<equiv> (98566249 :: dp_ret)"
abbreviation (input) "DP_RDB_DB_PTR_NULL \<equiv> (98566250 :: dp_ret)"
abbreviation (input) "DP_NOTIFY_ACCESS_CONTROL_FAIL \<equiv> (98566251 :: dp_ret)"
abbreviation (input) "DP_DM_ADAPTER_INIT_FAIL \<equiv> (98566252 :: dp_ret)"
abbreviation (input) "DP_DATA_EXISTS \<equiv> (98566253 :: dp_ret)"
abbreviation (input) "DP_STATIC_COLLECT_FAIL \<equiv> (98566254 :: dp_ret)"
abbreviation (input) "DP_LOAD_STATIC_CAP_FAIL \<equiv> (98566255 :: dp_ret)"
abbreviation (input) "DP_LOAD_STATIC_INFO_FAIL \<equiv> (98566256 :: dp_ret)"
abbreviation (input) "DP_GET_STATIC_CAP_FAIL \<equiv> (98566257 :: dp_ret)"
abbreviation (input) "DP_GET_STATIC_INFO_FAIL \<equiv> (98566258 :: dp_ret)"
abbreviation (input) "DP_PARSE_STATIC_CAP_FAIL \<equiv> (98566259 :: dp_ret)"
abbreviation (input) "DP_PARSE_STATIC_INFO_FAIL \<equiv> (98566260 :: dp_ret)"
abbreviation (input) "DP_LOAD_JSON_FILE_FAIL \<equiv> (98566261 :: dp_ret)"
abbreviation (input) "DP_SET_SWITCH_CHARPROFILE_FAIL \<equiv> (98566262 :: dp_ret)"
abbreviation (input) "DP_NOTIFYSWITCHUPDATE_FAIL \<equiv> (98566263 :: dp_ret)"
abbreviation (input) "DP_PUT_CHAR_BATCH_FAIL \<equiv> (98566264 :: dp_ret)"
abbreviation (input) "DP_GET_SWITCH_FAIL \<equiv> (98566265 :: dp_ret)"
abbreviation (input) "DP_GET_NETWORKID_BY_UDID_FAIL \<equiv> (98566266 :: dp_ret)"
abbreviation (input) "DP_GET_UDID_BY_NETWORKID_FAIL \<equiv> (98566267 :: dp_ret)"
abbreviation (input) "DP_GET_SERVICENAME_BY_POS_FAIL \<equiv> (98566268 :: dp_ret)"
abbreviation (input) "DP_GENERATE_SWITCH_NOTIFY_FAIL \<equiv> (98566269 :: dp_ret)"
abbreviation (input) "DP_LOAD_SWITCH_JSON_FAIL \<equiv> (98566270 :: dp_ret)"
abbreviation (input) "DP_GET_SWITCH_INFO_FAIL \<equiv> (98566271 :: dp_ret)"
abbreviation (input) "DP_INIT_SWITCH_PROFILE_MANAGER_FAIL \<equiv> (98566272 :: dp_ret)"
abbreviation (input) "DP_NULLPTR \<equiv> (98566273 :: dp_ret)"
abbreviation (input) "DP_SUBSCRIBE_INITED_FALI \<equiv> (98566274 :: dp_ret)"
abbreviation (input) "DP_GET_DEVICE_ENTRIES_FAIL \<equiv> (98566275 :: dp_ret)"
abbreviation (input) "DP_RDB_DATABASE_RESTORE_FAIL \<equiv> (98566276 :: dp_ret)"
abbreviation (input) "DP_GET_FOREGROUND_ID_FAIL \<equiv> (98566277 :: dp_ret)"
abbreviation (input) "DP_GET_MULTI_USER_PROFILE_PARAMS_INVALID \<equiv> (98566278 :: dp_ret)"
abbreviation (input) "DP_GET_LOCAL_PROFILE_IS_NOT_FOREGROUND_ID \<equiv> (98566279 :: dp_ret)"
abbreviation (input) "DP_GET_USER_ID_IS_NOT_TRUSTED \<equiv> (98566280 :: dp_ret)"
abbreviation (input) "DP_MULTI_USER_MANAGER_INIT_FAIL \<equiv> (98566281 :: dp_ret)"
abbreviation (input) "DP_MULTI_USER_MANAGER_UNINIT_FAIL \<equiv> (98566282 :: dp_ret)"
abbreviation (input) "DP_DM_ADAPTER_UNINIT_FAIL \<equiv> (98566283 :: dp_ret)"
abbreviation (input) "DP_PUT_DEVICE_ICON_INFO_FAIL \<equiv> (98566284 :: dp_ret)"
abbreviation (input) "DP_DEL_DEVICE_ICON_INFO_FAIL \<equiv> (98566286 :: dp_ret)"
abbreviation (input) "DP_UPDATE_DEVICE_ICON_INFO_FAIL \<equiv> (98566287 :: dp_ret)"
abbreviation (input) "DP_PUT_PRODUCT_INFO_FAIL \<equiv> (98566288 :: dp_ret)"
abbreviation (input) "DP_DEL_PRODUCT_INFO_FAIL \<equiv> (98566289 :: dp_ret)"
abbreviation (input) "DP_UPDATE_PRODUCT_INFO_FAIL \<equiv> (98566290 :: dp_ret)"
abbreviation (input) "DP_RDB_PUT_SERVICE_PROFILE_FAIL \<equiv> (98566291 :: dp_ret)"
abbreviation (input) "DP_RDB_DELETE_SERVICE_PROFILE_FAIL \<equiv> (98566292 :: dp_ret)"
abbreviation (input) "DP_RDB_UPDATE_SERVICE_PROFILE_FAIL \<equiv> (98566293 :: dp_ret)"
abbreviation (input) "DP_RDB_GET_SERVICE_PROFILE_FAIL \<equiv> (98566294 :: dp_ret)"
abbreviation (input) "DP_RDB_SET_SERVICE_PROFILE_ID_FAIL \<equiv> (98566295 :: dp_ret)"
abbreviation (input) "DP_DEVICE_PROFILE_NOT_FOUND \<equiv> (98566296 :: dp_ret)"
abbreviation (input) "DP_SERVICE_PROFILE_NOT_FOUND \<equiv> (98566297 :: dp_ret)"
abbreviation (input) "DP_DEVICE_PROFILE_DAO_INIT_FAIL \<equiv> (98566298 :: dp_ret)"
abbreviation (input) "DP_SERVICE_PROFILE_DAO_INIT_FAIL \<equiv> (98566299 :: dp_ret)"
abbreviation (input) "DP_CHAR_PROFILE_DAO_INIT_FAIL \<equiv> (98566300 :: dp_ret)"
abbreviation (input) "DP_PRODUCT_INFO_DAO_INIT_FAIL \<equiv> (98566301 :: dp_ret)"
abbreviation (input) "DP_DEVICE_ICON_INFO_DAO_INIT_FAIL \<equiv> (98566302 :: dp_ret)"
abbreviation (input) "DP_DEVICE_PROFILE_DAO_UNINIT_FAIL \<equiv> (98566303 :: dp_ret)"
abbreviation (input) "DP_SERVICE_PROFILE_DAO_UNINIT_FAIL \<equiv> (98566304 :: dp_ret)"
abbreviation (input) "DP_CHAR_PROFILE_DAO_UNINIT_FAIL \<equiv> (98566305 :: dp_ret)"
abbreviation (input) "DP_PRODUCT_INFO_DAO_UNINIT_FAIL \<equiv> (98566306 :: dp_ret)"
abbreviation (input) "DP_DEVICE_ICON_INFO_DAO_UNINIT_FAIL \<equiv> (98566307 :: dp_ret)"
abbreviation (input) "DP_CREATE_INDEX_FAIL \<equiv> (98566308 :: dp_ret)"
abbreviation (input) "DP_SETTINGSDATA_MANAGER_INIT_FAIL \<equiv> (98566309 :: dp_ret)"
abbreviation (input) "DP_SETTINGSDATA_MANAGER_UNINIT_FAIL \<equiv> (98566310 :: dp_ret)"
abbreviation (input) "DP_PROFILE_DATA_MANAGER_UNINIT_FAIL \<equiv> (98566311 :: dp_ret)"
abbreviation (input) "DP_SERVICE_INFO_MANAGER_INIT_FAIL \<equiv> (98566312 :: dp_ret)"
abbreviation (input) "DP_PUT_SERVICE_INFO_FAIL \<equiv> (98566313 :: dp_ret)"
abbreviation (input) "DP_DELETE_SERVICE_INFO_FAIL \<equiv> (98566314 :: dp_ret)"
abbreviation (input) "DP_UPDATE_SERVICE_INFO_PROFILE_FAIL \<equiv> (98566315 :: dp_ret)"
abbreviation (input) "DP_ASSET_DUPLICATED \<equiv> (98566316 :: dp_ret)"
abbreviation (input) "DP_PUT_ASSET_ERROR \<equiv> (98566317 :: dp_ret)"
abbreviation (input) "DP_UPDATE_ASSET_ERROR \<equiv> (98566318 :: dp_ret)"
abbreviation (input) "DP_GET_ASSET_ERROE \<equiv> (98566319 :: dp_ret)"
abbreviation (input) "DP_GET_ASSET_NOT_FIND \<equiv> (98566320 :: dp_ret)"
abbreviation (input) "DP_DELETE_ASSET_ERROR \<equiv> (98566321 :: dp_ret)"
abbreviation (input) "DP_PARSE_ASSET_ERROR \<equiv> (98566322 :: dp_ret)"
abbreviation (input) "DP_SUBSCRIBE_PINCODE_INVALID \<equiv> (98566323 :: dp_ret)"
abbreviation (input) "DP_SERVICE_INFO_PROFILE_EXISTS \<equiv> (98566324 :: dp_ret)"
abbreviation (input) "DP_LOCAL_SERVICE_INFO_EXISTS \<equiv> (98566325 :: dp_ret)"
abbreviation (input) "DP_PUT_LOCAL_SERVICE_INFO_FAIL \<equiv> (98566326 :: dp_ret)"
abbreviation (input) "DP_DELETE_LOCAL_SERVICE_INFO_FAIL \<equiv> (98566327 :: dp_ret)"
abbreviation (input) "DP_UPDATE_LOCAL_SERVICE_INFO_FAIL \<equiv> (98566328 :: dp_ret)"
abbreviation (input) "DP_LOCAL_SERVICE_INFO_MANAGER_INIT_FAIL \<equiv> (98566329 :: dp_ret)"
abbreviation (input) "DP_SERVICE_ON_IDLE \<equiv> (98566330 :: dp_ret)"
abbreviation (input) "DP_SERVICE_STOPPED \<equiv> (98566331 :: dp_ret)"
abbreviation (input) "DP_BUSINESS_EVENT_MANAGER_INIT_FAIL \<equiv> (98566332 :: dp_ret)"
abbreviation (input) "DP_BUSINESS_EVENT_MANAGER_UNINIT_FAIL \<equiv> (98566333 :: dp_ret)"
abbreviation (input) "DP_PUT_BUSINESS_EVENT_FAIL \<equiv> (98566334 :: dp_ret)"
abbreviation (input) "DP_GET_BUSINESS_EVENT_FAIL \<equiv> (98566335 :: dp_ret)"
abbreviation (input) "DP_NOTIFY_BUSINESS_EVENT_FAIL \<equiv> (98566336 :: dp_ret)"
abbreviation (input) "DP_INVALID_SQL_RESULT \<equiv> (98566337 :: dp_ret)"
abbreviation (input) "DP_DEVICE_UNSUPPORTED_SWITCH \<equiv> (98566338 :: dp_ret)"
abbreviation (input) "DP_PRE_MIGRATION_DB_AVAILABLE \<equiv> (98566339 :: dp_ret)"
abbreviation (input) "DP_PRE_MIGRATION_DB_UNAVAILABLE \<equiv> (98566340 :: dp_ret)"
abbreviation (input) "DP_NOT_NEED_MIGRATION \<equiv> (98566341 :: dp_ret)"
abbreviation (input) "DP_NOT_SUPPORT \<equiv> (98566342 :: dp_ret)"

definition dp_error_codes :: "(string \<times> dp_ret) list" where
  "dp_error_codes =
    [(''DP_SUCCESS'', DP_SUCCESS),
     (''DP_INVALID_PARAMS'', DP_INVALID_PARAMS),
     (''DP_INTERFACE_CHECK_FAILED'', DP_INTERFACE_CHECK_FAILED),
     (''DP_GET_LOCAL_UDID_FAILED'', DP_GET_LOCAL_UDID_FAILED),
     (''DP_GET_SERVICE_FAILED'', DP_GET_SERVICE_FAILED),
     (''DP_INIT_DB_FAILED'', DP_INIT_DB_FAILED),
     (''DP_NOT_SUBSCRIBED'', DP_NOT_SUBSCRIBED),
     (''DP_UNSUBSCRIBE_FAILED'', DP_UNSUBSCRIBE_FAILED),
     (''DP_SUBSCRIBE_FAILED'', DP_SUBSCRIBE_FAILED),
     (''DP_SUBSCRIBE_LIMIT_EXCEEDED'', DP_SUBSCRIBE_LIMIT_EXCEEDED),
     (''DP_POST_TASK_FAILED'', DP_POST_TASK_FAILED),
     (''DP_DEVICE_SYNC_BUSY'', DP_DEVICE_SYNC_BUSY),
     (''DP_PERMISSION_DENIED'', DP_PERMISSION_DENIED),
     (''DP_UNTRUSTED_GROUP'', DP_UNTRUSTED_GROUP),
     (''DP_NOT_INIT_DB'', DP_NOT_INIT_DB),
     (''DP_GET_NETWORKID_FAILED'', DP_GET_NETWORKID_FAILED),
     (''DP_FILE_FAILED_ERR'', DP_FILE_FAILED_ERR),
     (''DP_LOAD_SERVICE_ERR'', DP_LOAD_SERVICE_ERR),
     (''DP_PUT_DEVICE_CACHE_ERR'', DP_PUT_DEVICE_CACHE_ERR),
     (''DP_PUT_SERVICE_CACHE_ERR'', DP_PUT_SERVICE_CACHE_ERR),
     (''DP_PUT_CHARACTERISTIC_CACHE_ERR'', DP_PUT_CHARACTERISTIC_CACHE_ERR),
     (''DP_CACHE_EXIST'', DP_CACHE_EXIST),
     (''DP_CACHE_NOT_EXIST'', DP_CACHE_NOT_EXIST),
     (''DP_IPC_REMOTE_OBJECT_NULLPTR'', DP_IPC_REMOTE_OBJECT_NULLPTR),
     (''DP_GET_ACL_PROFILE_FAIL'', DP_GET_ACL_PROFILE_FAIL),
     (''DP_GET_TRUST_DEVICE_PROFILE_FAIL'', DP_GET_TRUST_DEVICE_PROFILE_FAIL),
     (''DP_GET_ALL_TRUST_DEVICE_PROFILE_FAIL'', DP_GET_ALL_TRUST_DEVICE_PROFILE_FAIL),
     (''DP_PUT_ACL_PROFILE_FAIL'', DP_PUT_ACL_PROFILE_FAIL),
     (''DP_UPDATE_ACL_PROFILE_FAIL'', DP_UPDATE_ACL_PROFILE_FAIL),
     (''DP_UNLOAD_HANDLER_NULLPTR'', DP_UNLOAD_HANDLER_NULLPTR),
     (''DP_CACHE_INIT_FAIL'', DP_CACHE_INIT_FAIL),
     (''DP_DEVICE_MANAGER_INIT_FAIL'', DP_DEVICE_MANAGER_INIT_FAIL),
     (''DP_TRUST_PROFILE_MANAGER_INIT_FAIL'', DP_TRUST_PROFILE_MANAGER_INIT_FAIL),
     (''DP_DEVICE_PROFILE_MANAGER_INIT_FAIL'', DP_DEVICE_PROFILE_MANAGER_INIT_FAIL),
     (''DP_SUBSCRIBE_PROFILE_MANAGER_INIT_FAIL'', DP_SUBSCRIBE_PROFILE_MANAGER_INIT_FAIL),
     (''DP_PROFILE_DATA_MANAGER_INIT_FAIL'', DP_PROFILE_DATA_MANAGER_INIT_FAIL),
     (''DP_CONTENT_SENSOR_MANAGER_INIT_FAIL'', DP_CONTENT_SENSOR_MANAGER_INIT_FAIL),
     (''DP_CACHE_UNINIT_FAIL'', DP_CACHE_UNINIT_FAIL),
     (''DP_DEVICE_MANAGER_UNINIT_FAIL'', DP_DEVICE_MANAGER_UNINIT_FAIL),
     (''DP_TRUST_PROFILE_MANAGER_UNINIT_FAIL'', DP_TRUST_PROFILE_MANAGER_UNINIT_FAIL),
     (''DP_DEVICE_PROFILE_MANAGER_UNINIT_FAIL'', DP_DEVICE_PROFILE_MANAGER_UNINIT_FAIL),
     (''DP_SUBSCRIBE_TRUST_PROFILE_MANAGER_UNINIT_FAIL'', DP_SUBSCRIBE_TRUST_PROFILE_MANAGER_UNINIT_FAIL),
     (''DP_SUBSCRIBE_DEVICE_PROFILE_MANAGER_UNINIT_FAIL'', DP_SUBSCRIBE_DEVICE_PROFILE_MANAGER_UNINIT_FAIL),
     (''DP_CONTENT_SENSOR_MANAGER_UNINIT_FAIL'', DP_CONTENT_SENSOR_MANAGER_UNINIT_FAIL),
     (''DP_CS_COLLECTOR_HANDLER_INIT_FAIL'', DP_CS_COLLECTOR_HANDLER_INIT_FAIL),
     (''DP_CS_POST_TASK_FAIL'', DP_CS_POST_TASK_FAIL),
     (''DP_KV_DB_PTR_NULL'', DP_KV_DB_PTR_NULL),
     (''DP_KV_DB_INIT_FAIL'', DP_KV_DB_INIT_FAIL),
     (''DP_REGISTER_KV_DATA_LISTENER_FAILED'', DP_REGISTER_KV_DATA_LISTENER_FAILED),
     (''DP_UNREGISTER_KV_DATA_LISTENER_FAILED'', DP_UNREGISTER_KV_DATA_LISTENER_FAILED),
     (''DP_REGISTER_KV_SYNC_LISTENER_FAILED'', DP_REGISTER_KV_SYNC_LISTENER_FAILED),
     (''DP_UNREGISTER_KV_SYNC_LISTENER_FAILED'', DP_UNREGISTER_KV_SYNC_LISTENER_FAILED),
     (''DP_REGISTER_KV_DEATH_LISTENER_FAILED'', DP_REGISTER_KV_DEATH_LISTENER_FAILED),
     (''DP_UNREGISTER_KV_DEATH_LISTENER_FAILED'', DP_UNREGISTER_KV_DEATH_LISTENER_FAILED),
     (''DP_PUT_KV_DB_FAIL'', DP_PUT_KV_DB_FAIL),
     (''DP_DEL_KV_DB_FAIL'', DP_DEL_KV_DB_FAIL),
     (''DP_GET_KV_DB_FAIL'', DP_GET_KV_DB_FAIL),
     (''DP_MANAGER_INIT_FAIL'', DP_MANAGER_INIT_FAIL),
     (''DP_EXCEED_MAX_SIZE_FAIL'', DP_EXCEED_MAX_SIZE_FAIL),
     (''DP_NOT_FOUND_FAIL'', DP_NOT_FOUND_FAIL),
     (''DP_SYNC_DEVICE_FAIL'', DP_SYNC_DEVICE_FAIL),
     (''DP_KV_SYNC_FAIL'', DP_KV_SYNC_FAIL),
     (''DP_GET_SA_MANAGER_FAIL'', DP_GET_SA_MANAGER_FAIL),
     (''DP_GET_SA_PROXY_FAIL'', DP_GET_SA_PROXY_FAIL),
     (''DP_PARSE_PERMISSION_JSON_FAIL'', DP_PARSE_PERMISSION_JSON_FAIL),
     (''DP_RDBADAPTER_PUT_FAIL'', DP_RDBADAPTER_PUT_FAIL),
     (''DP_RDBADAPTER_DELETE_FAIL'', DP_RDBADAPTER_DELETE_FAIL),
     (''DP_RDBADAPTER_UPDATE_FAIL'', DP_RDBADAPTER_UPDATE_FAIL),
     (''DP_RDBADAPTER_CREATE_TABLE_FAIL'', DP_RDBADAPTER_CREATE_TABLE_FAIL),
     (''DP_RDBADAPTER_INIT_FAIL'', DP_RDBADAPTER_INIT_FAIL),
     (''DP_GET_RDBSTORE_FAIL'', DP_GET_RDBSTORE_FAIL),
     (''DP_RDBADAPTER_TABLE_NOT_EXIST'', DP_RDBADAPTER_TABLE_NOT_EXIST),
     (''DP_UNINIT_FAIL'', DP_UNINIT_FAIL),
     (''DP_PUT_SUBSCRIBE_TRUST_INFO_TABLE_FAIL'', DP_PUT_SUBSCRIBE_TRUST_INFO_TABLE_FAIL),
     (''DP_PUT_TRUST_DEVICE_PROFILE_FAIL'', DP_PUT_TRUST_DEVICE_PROFILE_FAIL),
     (''DP_NOTIFY_TRUST_DEVICE_FAIL'', DP_NOTIFY_TRUST_DEVICE_FAIL),
     (''DP_GET_RESULTSET_FAIL'', DP_GET_RESULTSET_FAIL),
     (''DP_NOT_FIND_DATA'', DP_NOT_FIND_DATA),
     (''DP_NOTIFY_STATUS_UPDATE_FAIL'', DP_NOTIFY_STATUS_UPDATE_FAIL),
     (''DP_RESULTSET_TO_VALUES_FAIL'', DP_RESULTSET_TO_VALUES_FAIL),
     (''DP_DELETE_TRUST_DEVICE_PROFILE_FAIL'', DP_DELETE_TRUST_DEVICE_PROFILE_FAIL),
     (''DP_DELETE_ACCESS_CONTROL_PROFILE_FAIL'', DP_DELETE_ACCESS_CONTROL_PROFILE_FAIL),
     (''DP_CREATE_TABLE_FAIL'', DP_CREATE_TABLE_FAIL),
     (''DP_CREATE_UNIQUE_INDEX_FAIL'', DP_CREATE_UNIQUE_INDEX_FAIL),
     (''DP_PUT_ACCESSER_PROFILE_FAIL'', DP_PUT_ACCESSER_PROFILE_FAIL),
     (''DP_PUT_ACCESSEE_PROFILE_FAIL'', DP_PUT_ACCESSEE_PROFILE_FAIL),
     (''DP_UPDATE_TRUST_DEVICE_PROFILE_FAIL'', DP_UPDATE_TRUST_DEVICE_PROFILE_FAIL),
     (''DP_DELETE_ACCESSER_PROFILE_FAIL'', DP_DELETE_ACCESSER_PROFILE_FAIL),
     (''DP_DELETE_ACCESSEE_PROFILE_FAIL'', DP_DELETE_ACCESSEE_PROFILE_FAIL),
     (''DP_GET_SYSTEM_ABILITY_FAIL'', DP_GET_SYSTEM_ABILITY_FAIL),
     (''DP_GET_PROXY_FAIL'', DP_GET_PROXY_FAIL),
     (''DP_WRITE_PARCEL_FAIL'', DP_WRITE_PARCEL_FAIL),
     (''DP_READ_PARCEL_FAIL'', DP_READ_PARCEL_FAIL),
     (''DP_UNLOAD_SA_FAIL'', DP_UNLOAD_SA_FAIL),
     (''DP_UPDATE_ACCESSER_PROFILE_FAIL'', DP_UPDATE_ACCESSER_PROFILE_FAIL),
     (''DP_UPDATE_ACCESSEE_PROFILE_FAIL'', DP_UPDATE_ACCESSEE_PROFILE_FAIL),
     (''DP_SYNC_INIT_FAILED'', DP_SYNC_INIT_FAILED),
     (''DP_SYNC_PROFILE_FAILED'', DP_SYNC_PROFILE_FAILED),
     (''DP_UNSUPPORTED_METHOD'', DP_UNSUPPORTED_METHOD),
     (''DP_NO_MEMORY'', DP_NO_MEMORY),
     (''DP_SESSION_ERROR'', DP_SESSION_ERROR),
     (''DP_INVALID_PARAM'', DP_INVALID_PARAM),
     (''DP_CREATE_SESSION_FAILED'', DP_CREATE_SESSION_FAILED),
     (''DP_RUN_LOADED_FUNCTION_FAILED'', DP_RUN_LOADED_FUNCTION_FAILED),
     (''DP_LOAD_SYNC_ADAPTER_FAILED'', DP_LOAD_SYNC_ADAPTER_FAILED),
     (''DP_UPDATE_ACL_NOT_ALLOW'', DP_UPDATE_ACL_NOT_ALLOW),
     (''DP_RDB_DB_PTR_NULL'', DP_RDB_DB_PTR_NULL),
     (''DP_NOTIFY_ACCESS_CONTROL_FAIL'', DP_NOTIFY_ACCESS_CONTROL_FAIL),
     (''DP_DM_ADAPTER_INIT_FAIL'', DP_DM_ADAPTER_INIT_FAIL),
     (''DP_DATA_EXISTS'', DP_DATA_EXISTS),
     (''DP_STATIC_COLLECT_FAIL'', DP_STATIC_COLLECT_FAIL),
     (''DP_LOAD_STATIC_CAP_FAIL'', DP_LOAD_STATIC_CAP_FAIL),
     (''DP_LOAD_STATIC_INFO_FAIL'', DP_LOAD_STATIC_INFO_FAIL),
     (''DP_GET_STATIC_CAP_FAIL'', DP_GET_STATIC_CAP_FAIL),
     (''DP_GET_STATIC_INFO_FAIL'', DP_GET_STATIC_INFO_FAIL),
     (''DP_PARSE_STATIC_CAP_FAIL'', DP_PARSE_STATIC_CAP_FAIL),
     (''DP_PARSE_STATIC_INFO_FAIL'', DP_PARSE_STATIC_INFO_FAIL),
     (''DP_LOAD_JSON_FILE_FAIL'', DP_LOAD_JSON_FILE_FAIL),
     (''DP_SET_SWITCH_CHARPROFILE_FAIL'', DP_SET_SWITCH_CHARPROFILE_FAIL),
     (''DP_NOTIFYSWITCHUPDATE_FAIL'', DP_NOTIFYSWITCHUPDATE_FAIL),
     (''DP_PUT_CHAR_BATCH_FAIL'', DP_PUT_CHAR_BATCH_FAIL),
     (''DP_GET_SWITCH_FAIL'', DP_GET_SWITCH_FAIL),
     (''DP_GET_NETWORKID_BY_UDID_FAIL'', DP_GET_NETWORKID_BY_UDID_FAIL),
     (''DP_GET_UDID_BY_NETWORKID_FAIL'', DP_GET_UDID_BY_NETWORKID_FAIL),
     (''DP_GET_SERVICENAME_BY_POS_FAIL'', DP_GET_SERVICENAME_BY_POS_FAIL),
     (''DP_GENERATE_SWITCH_NOTIFY_FAIL'', DP_GENERATE_SWITCH_NOTIFY_FAIL),
     (''DP_LOAD_SWITCH_JSON_FAIL'', DP_LOAD_SWITCH_JSON_FAIL),
     (''DP_GET_SWITCH_INFO_FAIL'', DP_GET_SWITCH_INFO_FAIL),
     (''DP_INIT_SWITCH_PROFILE_MANAGER_FAIL'', DP_INIT_SWITCH_PROFILE_MANAGER_FAIL),
     (''DP_NULLPTR'', DP_NULLPTR),
     (''DP_SUBSCRIBE_INITED_FALI'', DP_SUBSCRIBE_INITED_FALI),
     (''DP_GET_DEVICE_ENTRIES_FAIL'', DP_GET_DEVICE_ENTRIES_FAIL),
     (''DP_RDB_DATABASE_RESTORE_FAIL'', DP_RDB_DATABASE_RESTORE_FAIL),
     (''DP_GET_FOREGROUND_ID_FAIL'', DP_GET_FOREGROUND_ID_FAIL),
     (''DP_GET_MULTI_USER_PROFILE_PARAMS_INVALID'', DP_GET_MULTI_USER_PROFILE_PARAMS_INVALID),
     (''DP_GET_LOCAL_PROFILE_IS_NOT_FOREGROUND_ID'', DP_GET_LOCAL_PROFILE_IS_NOT_FOREGROUND_ID),
     (''DP_GET_USER_ID_IS_NOT_TRUSTED'', DP_GET_USER_ID_IS_NOT_TRUSTED),
     (''DP_MULTI_USER_MANAGER_INIT_FAIL'', DP_MULTI_USER_MANAGER_INIT_FAIL),
     (''DP_MULTI_USER_MANAGER_UNINIT_FAIL'', DP_MULTI_USER_MANAGER_UNINIT_FAIL),
     (''DP_DM_ADAPTER_UNINIT_FAIL'', DP_DM_ADAPTER_UNINIT_FAIL),
     (''DP_PUT_DEVICE_ICON_INFO_FAIL'', DP_PUT_DEVICE_ICON_INFO_FAIL),
     (''DP_DEL_DEVICE_ICON_INFO_FAIL'', DP_DEL_DEVICE_ICON_INFO_FAIL),
     (''DP_UPDATE_DEVICE_ICON_INFO_FAIL'', DP_UPDATE_DEVICE_ICON_INFO_FAIL),
     (''DP_PUT_PRODUCT_INFO_FAIL'', DP_PUT_PRODUCT_INFO_FAIL),
     (''DP_DEL_PRODUCT_INFO_FAIL'', DP_DEL_PRODUCT_INFO_FAIL),
     (''DP_UPDATE_PRODUCT_INFO_FAIL'', DP_UPDATE_PRODUCT_INFO_FAIL),
     (''DP_RDB_PUT_SERVICE_PROFILE_FAIL'', DP_RDB_PUT_SERVICE_PROFILE_FAIL),
     (''DP_RDB_DELETE_SERVICE_PROFILE_FAIL'', DP_RDB_DELETE_SERVICE_PROFILE_FAIL),
     (''DP_RDB_UPDATE_SERVICE_PROFILE_FAIL'', DP_RDB_UPDATE_SERVICE_PROFILE_FAIL),
     (''DP_RDB_GET_SERVICE_PROFILE_FAIL'', DP_RDB_GET_SERVICE_PROFILE_FAIL),
     (''DP_RDB_SET_SERVICE_PROFILE_ID_FAIL'', DP_RDB_SET_SERVICE_PROFILE_ID_FAIL),
     (''DP_DEVICE_PROFILE_NOT_FOUND'', DP_DEVICE_PROFILE_NOT_FOUND),
     (''DP_SERVICE_PROFILE_NOT_FOUND'', DP_SERVICE_PROFILE_NOT_FOUND),
     (''DP_DEVICE_PROFILE_DAO_INIT_FAIL'', DP_DEVICE_PROFILE_DAO_INIT_FAIL),
     (''DP_SERVICE_PROFILE_DAO_INIT_FAIL'', DP_SERVICE_PROFILE_DAO_INIT_FAIL),
     (''DP_CHAR_PROFILE_DAO_INIT_FAIL'', DP_CHAR_PROFILE_DAO_INIT_FAIL),
     (''DP_PRODUCT_INFO_DAO_INIT_FAIL'', DP_PRODUCT_INFO_DAO_INIT_FAIL),
     (''DP_DEVICE_ICON_INFO_DAO_INIT_FAIL'', DP_DEVICE_ICON_INFO_DAO_INIT_FAIL),
     (''DP_DEVICE_PROFILE_DAO_UNINIT_FAIL'', DP_DEVICE_PROFILE_DAO_UNINIT_FAIL),
     (''DP_SERVICE_PROFILE_DAO_UNINIT_FAIL'', DP_SERVICE_PROFILE_DAO_UNINIT_FAIL),
     (''DP_CHAR_PROFILE_DAO_UNINIT_FAIL'', DP_CHAR_PROFILE_DAO_UNINIT_FAIL),
     (''DP_PRODUCT_INFO_DAO_UNINIT_FAIL'', DP_PRODUCT_INFO_DAO_UNINIT_FAIL),
     (''DP_DEVICE_ICON_INFO_DAO_UNINIT_FAIL'', DP_DEVICE_ICON_INFO_DAO_UNINIT_FAIL),
     (''DP_CREATE_INDEX_FAIL'', DP_CREATE_INDEX_FAIL),
     (''DP_SETTINGSDATA_MANAGER_INIT_FAIL'', DP_SETTINGSDATA_MANAGER_INIT_FAIL),
     (''DP_SETTINGSDATA_MANAGER_UNINIT_FAIL'', DP_SETTINGSDATA_MANAGER_UNINIT_FAIL),
     (''DP_PROFILE_DATA_MANAGER_UNINIT_FAIL'', DP_PROFILE_DATA_MANAGER_UNINIT_FAIL),
     (''DP_SERVICE_INFO_MANAGER_INIT_FAIL'', DP_SERVICE_INFO_MANAGER_INIT_FAIL),
     (''DP_PUT_SERVICE_INFO_FAIL'', DP_PUT_SERVICE_INFO_FAIL),
     (''DP_DELETE_SERVICE_INFO_FAIL'', DP_DELETE_SERVICE_INFO_FAIL),
     (''DP_UPDATE_SERVICE_INFO_PROFILE_FAIL'', DP_UPDATE_SERVICE_INFO_PROFILE_FAIL),
     (''DP_ASSET_DUPLICATED'', DP_ASSET_DUPLICATED),
     (''DP_PUT_ASSET_ERROR'', DP_PUT_ASSET_ERROR),
     (''DP_UPDATE_ASSET_ERROR'', DP_UPDATE_ASSET_ERROR),
     (''DP_GET_ASSET_ERROE'', DP_GET_ASSET_ERROE),
     (''DP_GET_ASSET_NOT_FIND'', DP_GET_ASSET_NOT_FIND),
     (''DP_DELETE_ASSET_ERROR'', DP_DELETE_ASSET_ERROR),
     (''DP_PARSE_ASSET_ERROR'', DP_PARSE_ASSET_ERROR),
     (''DP_SUBSCRIBE_PINCODE_INVALID'', DP_SUBSCRIBE_PINCODE_INVALID),
     (''DP_SERVICE_INFO_PROFILE_EXISTS'', DP_SERVICE_INFO_PROFILE_EXISTS),
     (''DP_LOCAL_SERVICE_INFO_EXISTS'', DP_LOCAL_SERVICE_INFO_EXISTS),
     (''DP_PUT_LOCAL_SERVICE_INFO_FAIL'', DP_PUT_LOCAL_SERVICE_INFO_FAIL),
     (''DP_DELETE_LOCAL_SERVICE_INFO_FAIL'', DP_DELETE_LOCAL_SERVICE_INFO_FAIL),
     (''DP_UPDATE_LOCAL_SERVICE_INFO_FAIL'', DP_UPDATE_LOCAL_SERVICE_INFO_FAIL),
     (''DP_LOCAL_SERVICE_INFO_MANAGER_INIT_FAIL'', DP_LOCAL_SERVICE_INFO_MANAGER_INIT_FAIL),
     (''DP_SERVICE_ON_IDLE'', DP_SERVICE_ON_IDLE),
     (''DP_SERVICE_STOPPED'', DP_SERVICE_STOPPED),
     (''DP_BUSINESS_EVENT_MANAGER_INIT_FAIL'', DP_BUSINESS_EVENT_MANAGER_INIT_FAIL),
     (''DP_BUSINESS_EVENT_MANAGER_UNINIT_FAIL'', DP_BUSINESS_EVENT_MANAGER_UNINIT_FAIL),
     (''DP_PUT_BUSINESS_EVENT_FAIL'', DP_PUT_BUSINESS_EVENT_FAIL),
     (''DP_GET_BUSINESS_EVENT_FAIL'', DP_GET_BUSINESS_EVENT_FAIL),
     (''DP_NOTIFY_BUSINESS_EVENT_FAIL'', DP_NOTIFY_BUSINESS_EVENT_FAIL),
     (''DP_INVALID_SQL_RESULT'', DP_INVALID_SQL_RESULT),
     (''DP_DEVICE_UNSUPPORTED_SWITCH'', DP_DEVICE_UNSUPPORTED_SWITCH),
     (''DP_PRE_MIGRATION_DB_AVAILABLE'', DP_PRE_MIGRATION_DB_AVAILABLE),
     (''DP_PRE_MIGRATION_DB_UNAVAILABLE'', DP_PRE_MIGRATION_DB_UNAVAILABLE),
     (''DP_NOT_NEED_MIGRATION'', DP_NOT_NEED_MIGRATION),
     (''DP_NOT_SUPPORT'', DP_NOT_SUPPORT)]"

lemma dp_error_codes_ascending: "successively (<) (map snd dp_error_codes)"
  by (simp add: dp_error_codes_def)

lemma dp_error_codes_distinct: "distinct (map snd dp_error_codes)"
  using dp_error_codes_ascending by (simp add: successively_conv_sorted_wrt strict_sorted_iff)

end
