(* ===== verification/DpTypes.thy ===== *)
theory DpTypes
  imports DpPrelude DpErrors "HOL-Library.Product_Lexorder"
begin

text \<open>
  The data model shared by all components: constants
  (\<open>common/include/constants\<close>), enumerations, and the profile classes of
  \<open>common/include/interfaces\<close> as records with the source's fields, together with their
  comparison operators. \<open>TrustedDeviceInfo\<close> is ordered by the code's \<open>operator<\<close>.
\<close>

section \<open>Constants\<close>

abbreviation "SEPARATOR \<equiv> ''#''"
abbreviation "DEV_PREFIX \<equiv> ''dev''"
abbreviation "SVR_PREFIX \<equiv> ''svr''"
abbreviation "CHAR_PREFIX \<equiv> ''char''"
abbreviation "OH_PROFILE_SUFFIX \<equiv> ''_OH''"
abbreviation "OS_SYS_CAPACITY \<equiv> ''osSysCapacity''"
abbreviation "OS_VERSION \<equiv> ''osVersion''"
abbreviation "OS_TYPE \<equiv> ''osType''"
abbreviation "SERVICE_NAME \<equiv> ''serviceName''"
abbreviation "SERVICE_TYPE \<equiv> ''serviceType''"
abbreviation "SERVICE_INFO \<equiv> ''serviceInfo''"
abbreviation "CHARACTERISTIC_KEY \<equiv> ''characteristicKey''"
abbreviation "CHARACTERISTIC_VALUE \<equiv> ''characteristicValue''"
abbreviation "SWITCH_STATUS \<equiv> ''SwitchStatus''"
abbreviation "SWITCH_ON \<equiv> ''1''"
abbreviation "SWITCH_OFF \<equiv> ''0''"
abbreviation "SWITCH_OPERATE_PUT \<equiv> ''PutSwitch''"
abbreviation "SWITCH_OPERATE_GET \<equiv> ''GetSwitch''"
abbreviation "STATIC_CHARACTERISTIC_KEY \<equiv> ''static_capability''"

abbreviation "MAX_STRING_LEN \<equiv> (4096 :: nat)"
abbreviation "MAX_DB_RECORD_SIZE \<equiv> (10000 :: nat)"
abbreviation "MAX_PROFILE_SIZE \<equiv> (10000 :: nat)"
abbreviation "MAX_DB_SIZE \<equiv> (5000 :: nat)"
abbreviation "MAX_DEVICE_SIZE \<equiv> (1000 :: nat)"
abbreviation "MAX_SERVICE_SIZE \<equiv> (5000 :: nat)"
abbreviation "MAX_CHAR_SIZE \<equiv> (1000 :: nat)"
abbreviation "MAX_LISTENER_SIZE \<equiv> (100 :: nat)"
abbreviation "MAX_TRUSTED_DEVICE_SIZE \<equiv> (1000 :: nat)"
abbreviation "MAX_PARAM_SIZE \<equiv> (20 :: nat)"
abbreviation "MIN_OS_TYPE \<equiv> (0 :: int)"
abbreviation "MAX_OS_TYPE \<equiv> (10000 :: int)"
abbreviation "DEFAULT_USER_ID \<equiv> (-1 :: int)"
abbreviation "DEFAULT_ID \<equiv> (-1 :: int)"
abbreviation "OHOS_TYPE \<equiv> (10 :: int)"
abbreviation "BINDTYPE_INIT \<equiv> (-1 :: int)"

section \<open>Enumerations\<close>

datatype ProfileType =
  PROFILE_TYPE_MIN | TRUST_DEVICE_PROFILE | ACCESS_CONTROL_PROFILE | DEVICE_PROFILE
| SERVICE_PROFILE | CHAR_PROFILE | PROFILE_TYPE_MAX

text \<open>\<open>SwitchFlag\<close> is the position of a switch in the 32-bit switch word.\<close>

definition SWITCH_SERVICE_MAP :: "(string, nat) umap" where
  "SWITCH_SERVICE_MAP =
     [(''SwitchStatus_Key_Mouse_Edge_Crossing'', 0),
      (''SwitchStatus_Key_Distributed_Pasteboard'', 1),
      (''SwitchStatus_DcShareSwitch'', 2),
      (''SwitchStatus_Wifi_Display_Service'', 3),
      (''SwitchStatus_Distributed_Super_Manager'', 4)]"

abbreviation "SWITCH_FLAG_MIN \<equiv> (-1 :: int)"
abbreviation "SWITCH_FLAG_MAX \<equiv> (5 :: int)"

section \<open>Profiles\<close>

record DeviceProfile =
  dp_deviceId :: string
  dp_deviceName :: string
  dp_manufactureName :: string
  dp_deviceModel :: string
  dp_storageCapability :: int
  dp_osSysCap :: string
  dp_osApiLevel :: int
  dp_osVersion :: string
  dp_osType :: int
  dp_isMultiUser :: bool
  dp_userId :: int
  dp_id :: int
  dp_devType :: string
  dp_manu :: string
  dp_sn :: string
  dp_productId :: string
  dp_productName :: string
  dp_subProductId :: string
  dp_hiv :: string
  dp_mac :: string
  dp_fwv :: string
  dp_hwv :: string
  dp_swv :: string
  dp_protType :: int
  dp_wiseUserId :: string
  dp_wiseDeviceId :: string
  dp_registerTime :: string
  dp_modifyTime :: string
  dp_shareTime :: string
  dp_accountId :: string
  dp_bleMac :: string
  dp_brMac :: string
  dp_sleMac :: string
  dp_setupType :: int
  dp_internalModel :: string

record ServiceProfile =
  sp_deviceId :: string
  sp_serviceName :: string
  sp_serviceType :: string
  sp_isMultiUser :: bool
  sp_userId :: int

record CharacteristicProfile =
  cp_deviceId :: string
  cp_serviceName :: string
  cp_characteristicKey :: string
  cp_characteristicValue :: string
  cp_isMultiUser :: bool
  cp_userId :: int

text \<open>The default constructors.\<close>

definition DeviceProfile_default :: DeviceProfile where
  "DeviceProfile_default =
     \<lparr>dp_deviceId = [], dp_deviceName = [], dp_manufactureName = [], dp_deviceModel = [],
      dp_storageCapability = 0, dp_osSysCap = [], dp_osApiLevel = 0, dp_osVersion = [],
      dp_osType = 0, dp_isMultiUser = False, dp_userId = DEFAULT_USER_ID, dp_id = 0,
      dp_devType = [], dp_manu = [], dp_sn = [], dp_productId = [], dp_productName = [],
      dp_subProductId = [], dp_hiv = [], dp_mac = [], dp_fwv = [], dp_hwv = [], dp_swv = [],
      dp_protType = 0, dp_wiseUserId = [], dp_wiseDeviceId = [], dp_registerTime = [],
      dp_modifyTime = [], dp_shareTime = [], dp_accountId = [], dp_bleMac = [], dp_brMac = [],
      dp_sleMac = [], dp_setupType = 0, dp_internalModel = []\<rparr>"

definition ServiceProfile_default :: ServiceProfile where
  "ServiceProfile_default =
     \<lparr>sp_deviceId = [], sp_serviceName = [], sp_serviceType = [], sp_isMultiUser = False,
      sp_userId = DEFAULT_USER_ID\<rparr>"

definition CharacteristicProfile_make :: "string \<Rightarrow> string \<Rightarrow> string \<Rightarrow> string \<Rightarrow> CharacteristicProfile" where
  "CharacteristicProfile_make deviceId serviceName charKey charValue =
     \<lparr>cp_deviceId = deviceId, cp_serviceName = serviceName, cp_characteristicKey = charKey,
      cp_characteristicValue = charValue, cp_isMultiUser = False, cp_userId = DEFAULT_USER_ID\<rparr>"

definition CharacteristicProfile_default :: CharacteristicProfile where
  "CharacteristicProfile_default = CharacteristicProfile_make [] [] [] []"

text \<open>\<open>operator!=\<close> of the three classes, field by field as in the code.\<close>

definition DeviceProfile_neq :: "DeviceProfile \<Rightarrow> DeviceProfile \<Rightarrow> bool" where
  "DeviceProfile_neq p q \<longleftrightarrow>
     dp_deviceId p \<noteq> dp_deviceId q \<or> dp_deviceName p \<noteq> dp_deviceName q \<or>
     dp_manufactureName p \<noteq> dp_manufactureName q \<or> dp_deviceModel p \<noteq> dp_deviceModel q \<or>
     dp_storageCapability p \<noteq> dp_storageCapability q \<or> dp_osSysCap p \<noteq> dp_osSysCap q \<or>
     dp_osApiLevel p \<noteq> dp_osApiLevel q \<or> dp_osVersion p \<noteq> dp_osVersion q \<or>
     dp_osType p \<noteq> dp_osType q \<or> dp_isMultiUser p \<noteq> dp_isMultiUser q \<or>
     dp_userId p \<noteq> dp_userId q \<or> dp_devType p \<noteq> dp_devType q \<or>
     dp_manu p \<noteq> dp_manu q \<or> dp_sn p \<noteq> dp_sn q \<or> dp_productId p \<noteq> dp_productId q \<or>
     dp_productName p \<noteq> dp_productName q \<or> dp_subProductId p \<noteq> dp_subProductId q \<or>
     dp_hiv p \<noteq> dp_hiv q \<or> dp_mac p \<noteq> dp_mac q \<or> dp_fwv p \<noteq> dp_fwv q \<or>
     dp_hwv p \<noteq> dp_hwv q \<or> dp_swv p \<noteq> dp_swv q \<or> dp_protType p \<noteq> dp_protType q \<or>
     dp_wiseUserId p \<noteq> dp_wiseUserId q \<or> dp_wiseDeviceId p \<noteq> dp_wiseDeviceId q \<or>
     dp_registerTime p \<noteq> dp_registerTime q \<or> dp_internalModel p \<noteq> dp_internalModel q \<or>
     dp_modifyTime p \<noteq> dp_modifyTime q \<or> dp_shareTime p \<noteq> dp_shareTime q \<or>
     dp_accountId p \<noteq> dp_accountId q \<or> dp_id p \<noteq> dp_id q \<or> dp_bleMac p \<noteq> dp_bleMac q \<or>
     dp_brMac p \<noteq> dp_brMac q \<or> dp_sleMac p \<noteq> dp_sleMac q \<or> dp_setupType p \<noteq> dp_setupType q"

definition ServiceProfile_neq :: "ServiceProfile \<Rightarrow> ServiceProfile \<Rightarrow> bool" where
  "ServiceProfile_neq p q \<longleftrightarrow>
     sp_deviceId p \<noteq> sp_deviceId q \<or> sp_serviceName p \<noteq> sp_serviceName q \<or>
     sp_serviceType p \<noteq> sp_serviceType q \<or> sp_isMultiUser p \<noteq> sp_isMultiUser q \<or>
     sp_userId p \<noteq> sp_userId q"

definition CharacteristicProfile_neq :: "CharacteristicProfile \<Rightarrow> CharacteristicProfile \<Rightarrow> bool" where
  "CharacteristicProfile_neq p q \<longleftrightarrow>
     cp_deviceId p \<noteq> cp_deviceId q \<or> cp_serviceName p \<noteq> cp_serviceName q \<or>
     cp_characteristicKey p \<noteq> cp_characteristicKey q \<or>
     cp_characteristicValue p \<noteq> cp_characteristicValue q \<or>
     cp_isMultiUser p \<noteq> cp_isMultiUser q \<or> cp_userId p \<noteq> cp_userId q"

lemma DeviceProfile_neq_iff [simp]: "DeviceProfile_neq p q \<longleftrightarrow> p \<noteq> q"
proof
  assume "p \<noteq> q"
  then show "DeviceProfile_neq p q"
    unfolding DeviceProfile_neq_def by (metis (full_types) DeviceProfile.equality unit_eq)
next
  assume "DeviceProfile_neq p q"
  then show "p \<noteq> q" unfolding DeviceProfile_neq_def by blast
qed

lemma ServiceProfile_neq_iff [simp]: "ServiceProfile_neq p q \<longleftrightarrow> p \<noteq> q"
  unfolding ServiceProfile_neq_def by (cases p; cases q) simp

lemma CharacteristicProfile_neq_iff [simp]: "CharacteristicProfile_neq p q \<longleftrightarrow> p \<noteq> q"
  unfolding CharacteristicProfile_neq_def by (cases p; cases q) simp

section \<open>Trusted devices, ordered\<close>

datatype TrustedDeviceInfo = TrustedDeviceInfo
  (td_networkId: string) (td_authForm: int) (td_deviceTypeId: "16 word")
  (td_osVersion: string) (td_osType: int) (td_udid: string) (td_uuid: string)

instantiation TrustedDeviceInfo :: linorder
begin

definition less_TrustedDeviceInfo :: "TrustedDeviceInfo \<Rightarrow> TrustedDeviceInfo \<Rightarrow> bool" where
  "s < t \<longleftrightarrow>
     td_networkId s < td_networkId t \<or>
     (td_networkId s = td_networkId t \<and> td_authForm s < td_authForm t) \<or>
     (td_networkId s = td_networkId t \<and> td_authForm s = td_authForm t \<and>
       td_deviceTypeId s < td_deviceTypeId t) \<or>
     (td_networkId s = td_networkId t \<and> td_authForm s = td_authForm t \<and>
       td_deviceTypeId s = td_deviceTypeId t \<and> td_osVersion s < td_osVersion t) \<or>
     (td_networkId s = td_networkId t \<and> td_authForm s = td_authForm t \<and>
       td_deviceTypeId s = td_deviceTypeId t \<and> td_osVersion s = td_osVersion t \<and>
       td_osType s < td_osType t) \<or>
     (td_networkId s = td_networkId t \<and> td_authForm s = td_authForm t \<and>
       td_deviceTypeId s = td_deviceTypeId t \<and> td_osVersion s = td_osVersion t \<and>
       td_osType s = td_osType t \<and> td_udid s < td_udid t) \<or>
     (td_networkId s = td_networkId t \<and> td_authForm s = td_authForm t \<and>
       td_deviceTypeId s = td_deviceTypeId t \<and> td_osVersion s = td_osVersion t \<and>
       td_osType s = td_osType t \<and> td_udid s = td_udid t \<and> td_uuid s < td_uuid t)"

definition less_eq_TrustedDeviceInfo :: "TrustedDeviceInfo \<Rightarrow> TrustedDeviceInfo \<Rightarrow> bool" where
  "s \<le> t \<longleftrightarrow> s < t \<or> s = (t :: TrustedDeviceInfo)"

definition td_key :: "TrustedDeviceInfo \<Rightarrow> string \<times> int \<times> 16 word \<times> string \<times> int \<times> string \<times> string" where
  "td_key s = (td_networkId s, td_authForm s, td_deviceTypeId s, td_osVersion s, td_osType s,
     td_udid s, td_uuid s)"

lemma less_td_key: "s < t \<longleftrightarrow> td_key s < td_key t"
  unfolding less_TrustedDeviceInfo_def td_key_def less_prod_simp le_less by blast

lemma td_key_inject: "td_key s = td_key t \<longleftrightarrow> s = t"
  by (cases s; cases t) (simp add: td_key_def)

instance
  by standard
    (auto simp: less_eq_TrustedDeviceInfo_def less_td_key simp flip: td_key_inject)

end

end
