(* ===== verification/ProfileUtils.thy ===== *)
theory ProfileUtils
  imports DpTypes
begin

text \<open>
  \<open>ProfileUtils\<close> (\<open>common/src/utils/profile_utils.cpp\<close>): anonymised logging strings, key
  validation, the layout of database keys (prefix, device id, service name, characteristic key,
  property, user id, joined by \<open>#\<close>), and the translation of profiles to database entries and
  back. The udid of the local device, which the system provides, is the argument \<open>lu\<close>.
\<close>

section \<open>Splitting and joining\<close>

text \<open>
  The loop of \<open>SplitString\<close> for any separator string. It does not end for an empty separator,
  so it is a partial function; \<open>res\<close> collects the pieces.
\<close>

partial_function (option) SplitString_loop ::
  "string \<Rightarrow> string \<Rightarrow> string list \<Rightarrow> string list option" where
  "SplitString_loop splits strs res =
     (case str_find splits strs of
        None \<Rightarrow> Some res
      | Some pos \<Rightarrow>
          SplitString_loop splits (drop (pos + length splits) strs) (res @ [take pos strs]))"

definition SplitString :: "string \<Rightarrow> string \<Rightarrow> (dp_ret \<times> string list) option" where
  "SplitString str splits =
     (if str = [] then Some (DP_INVALID_PARAMS, [])
      else map_option (\<lambda>res. (DP_SUCCESS, res)) (SplitString_loop splits (str @ splits) []))"

definition JoinString :: "string list \<Rightarrow> string \<Rightarrow> string" where
  "JoinString strs delimiter =
     fold (\<lambda>i res. let res = res @ strs ! i
                   in if i \<noteq> length strs - 1 then res @ delimiter else res)
       [0..<length strs] []"

text \<open>
  Every caller passes \<open>SEPARATOR\<close>, one character; the loop then ends and computes the
  reference function \<open>split_on\<close>, and \<open>JoinString\<close> is \<open>join_with\<close>. The key functions below
  are written over \<open>split_key\<close>, where \<open>None\<close> is a result other than \<open>DP_SUCCESS\<close>.
\<close>

lemma SplitString_loop_Nil: "SplitString_loop [d] [] res = Some res"
  by (subst SplitString_loop.simps) simp

lemma SplitString_loop_char:
  "SplitString_loop [d] (s @ [d]) res = Some (res @ split_on d s)"
proof (induction s arbitrary: res rule: length_induct)
  case (1 s)
  show ?case
  proof (cases "d \<in> set s")
    case True
    then obtain a b where s: "s = a @ d # b" and d: "d \<notin> set a" by (meson split_list_first)
    then have "takeWhile (\<lambda>c. c \<noteq> d) (s @ [d]) = a" by (auto simp: takeWhile_append)
    with s 1 [rule_format, of b "res @ [a]"] d show ?thesis
      by (subst SplitString_loop.simps) (simp add: str_find_single key_simps)
  next
    case False
    then have "takeWhile (\<lambda>c. c \<noteq> d) (s @ [d]) = s" by (auto simp: takeWhile_append)
    with False show ?thesis
      by (subst SplitString_loop.simps) (simp add: str_find_single key_simps SplitString_loop_Nil)
  qed
qed

lemma SplitString_char:
  "s \<noteq> [] \<Longrightarrow> SplitString s [d] = Some (DP_SUCCESS, split_on d s)"
  by (simp add: SplitString_def SplitString_loop_char)

text \<open>
  For a separator of any length: the first piece ends where the separator is first found, so no
  piece contains it, and each round of the loop takes at least one character away.
\<close>

lemma str_find_SomeD:
  "str_find p s = Some n \<Longrightarrow>
     s = take n s @ p @ drop (n + length p) s \<and> (p \<noteq> [] \<longrightarrow> str_find p (take n s) = None)"
proof (induction p s arbitrary: n rule: str_find.induct)
  case (2 p c cs)
  show ?case
  proof (cases "prefix p (c # cs)")
    case True
    with 2 (2) show ?thesis by (auto simp: prefix_def)
  next
    case False
    with 2 (2) obtain m where m: "str_find p cs = Some m" "n = Suc m" by auto
    from 2 (1) [OF False m(1)] have cs: "cs = take m cs @ p @ drop (m + length p) cs"
      "p \<noteq> [] \<longrightarrow> str_find p (take m cs) = None" by auto
    have "\<not> prefix p (c # take m cs)"
      using False cs(1) by (metis append_Cons prefix_append)
    with cs m show ?thesis by simp
  qed
qed (auto split: if_splits)

lemma SplitString_loop_returns:
  assumes "sep \<noteq> []"
  shows "\<exists>ps r. SplitString_loop sep s res = Some (res @ ps) \<and>
    s = concat (map (\<lambda>p. p @ sep) ps) @ r \<and>
    (\<forall>p \<in> insert r (set ps). str_find sep p = None)"
proof (induction s arbitrary: res rule: length_induct)
  case (1 s)
  show ?case
  proof (cases "str_find sep s")
    case None
    then show ?thesis
      by (subst SplitString_loop.simps) (auto intro!: exI [of _ "[]"])
  next
    case (Some n)
    let ?s = "drop (n + length sep) s"
    from str_find_SomeD [OF Some] assms
    have s: "s = take n s @ sep @ ?s" and n: "str_find sep (take n s) = None" by auto
    from s assms have "length ?s < length s"
      by (metis add_less_cancel_left append_assoc length_append length_drop length_greater_0_conv
          length_append less_add_same_cancel2 trans_less_add1 add_gr_0)
    with 1 obtain ps r where "SplitString_loop sep ?s (res @ [take n s]) = Some ((res @ [take n s]) @ ps)"
      and c: "?s = concat (map (\<lambda>p. p @ sep) ps) @ r"
      and f: "\<forall>p \<in> insert r (set ps). str_find sep p = None" by meson
    then have "SplitString_loop sep s res = Some (res @ take n s # ps)"
      by (subst SplitString_loop.simps) (simp add: Some)
    moreover have "s = concat (map (\<lambda>p. p @ sep) (take n s # ps)) @ r"
      using s c by simp
    ultimately show ?thesis using f n by (intro exI [of _ "take n s # ps"] exI [of _ r]) auto
  qed
qed

lemma SplitString_loop_empty: "SplitString_loop [] s res = None"
proof -
  have "sep \<noteq> []" if "SplitString_loop sep s res = Some ps" for sep ps
    using _ that
  proof (rule SplitString_loop.raw_induct [where P = "\<lambda>sep s res ps. sep \<noteq> []"])
    fix f :: "string \<Rightarrow> string \<Rightarrow> string list \<Rightarrow> string list option"
    fix sep s :: string and res ps
    assume *: "\<And>sep s res ps. f sep s res = Some ps \<Longrightarrow> sep \<noteq> []"
      "(case str_find sep s of None \<Rightarrow> Some res
        | Some pos \<Rightarrow> f sep (drop (pos + length sep) s) (res @ [take pos s])) = Some ps"
    have "str_find [] s = Some 0" by (cases s) auto
    with * show "sep \<noteq> []" by fastforce
  qed
  then show ?thesis by (cases "SplitString_loop [] s res") auto
qed

text \<open>C40: \<open>SplitString\<close> returns for every string and every separator that is not empty, and for the
  empty string. The pieces, each followed by the separator, are the string with the separator added,
  up to a rest; neither a piece nor the rest contains the separator. For an empty separator the loop
  finds it again and again at the start and does not end, whatever string it is given.\<close>

theorem split_string_returns:
  "(sep \<noteq> [] \<and> str \<noteq> [] \<longrightarrow>
      (\<exists>ps r. SplitString str sep = Some (DP_SUCCESS, ps) \<and>
         str @ sep = concat (map (\<lambda>p. p @ sep) ps) @ r \<and>
         (\<forall>p \<in> insert r (set ps). str_find sep p = None))) \<and>
   SplitString [] sep = Some (DP_INVALID_PARAMS, []) \<and>
   (str \<noteq> [] \<longrightarrow> SplitString str [] = None)"
  using SplitString_loop_returns [of sep "str @ sep" "[]"]
  by (auto simp: SplitString_def SplitString_loop_empty)

lemma split_string_returns_witness:
  "\<exists>ps r. SplitString ''a##b#'' ''##'' = Some (DP_SUCCESS, ps) \<and>
     ''a##b###'' = concat (map (\<lambda>p. p @ ''##'') ps) @ r"
  using split_string_returns [of "''##''" "''a##b#''"] by auto

lemma JoinString_prefix:
  "n < length xs \<Longrightarrow>
   fold (\<lambda>i res. let res = res @ xs ! i in if i \<noteq> length xs - 1 then res @ d else res) [0..<n] []
   = concat (map (\<lambda>x. x @ d) (take n xs))"
  by (induction n) (auto simp: take_Suc_conv_app_nth Let_def)

lemma join_with_snoc: "join_with d (xs @ [x]) = concat (map (\<lambda>x. x @ d) xs) @ x"
  by (induction xs) (auto simp: join_with_Cons)

lemma JoinString_join: "JoinString xs d = join_with d xs"
proof (cases xs rule: rev_cases)
  case (snoc ys y)
  have "[0..<length xs] = [0..<length ys] @ [length ys]" using snoc by simp
  then show ?thesis
    using JoinString_prefix [of "length ys" xs d] snoc
    by (simp add: JoinString_def join_with_snoc)
qed (simp add: JoinString_def)

definition split_key :: "string \<Rightarrow> string list option" where
  "split_key s = (if s = [] then None else Some (split_on CHR ''#'' s))"

section \<open>Anonymised strings\<close>

definition GetAnonyString :: "string \<Rightarrow> string" where
  "GetAnonyString value =
     (let strLen = length value in
      if strLen < 3 then ''***''
      else if strLen \<le> 10 then [value ! 0] @ ''***'' @ [value ! (strLen - 1)]
      else take 4 value @ ''***'' @ drop (strLen - 4) value)"

definition GetDbKeyAnonyString :: "string \<Rightarrow> string" where
  "GetDbKeyAnonyString dbKey =
     (case split_key dbKey of
        None \<Rightarrow> GetAnonyString dbKey
      | Some splitKeys \<Rightarrow>
          if length splitKeys \<le> 1 then GetAnonyString dbKey
          else JoinString (take 1 splitKeys @ map GetAnonyString (drop 1 splitKeys)) SEPARATOR)"

definition GetAnonyInt32 :: "int \<Rightarrow> string" where
  "GetAnonyInt32 value =
     (let tempString = to_string value; n = length tempString in
      if n = 1 then tempString[0 := CHR ''*'']
      else fold (\<lambda>i s. s[i := CHR ''*'']) [1..<n - 1] tempString)"

text \<open>\<open>IsP2p\<close>: \<open>DmAuthForm::INVALID_TYPE\<close> is \<open>-1\<close>, \<open>IDENTICAL_ACCOUNT\<close> is \<open>1\<close>
  (enumeration of the device manager, given as arguments).\<close>

definition IsP2p :: "int \<Rightarrow> int \<Rightarrow> int \<Rightarrow> bool" where
  "IsP2p INVALID_TYPE IDENTICAL_ACCOUNT authForm \<longleftrightarrow>
     \<not> (authForm = INVALID_TYPE \<or> authForm = IDENTICAL_ACCOUNT)"

section \<open>Key tests\<close>

definition StartsWith :: "string \<Rightarrow> string \<Rightarrow> bool" where
  "StartsWith str pre \<longleftrightarrow> str_find pre str = Some 0"

definition EndsWith :: "string \<Rightarrow> string \<Rightarrow> bool" where
  "EndsWith str suf \<longleftrightarrow>
     \<not> length str < length suf \<and> drop (length str - length suf) str = suf"

definition len_ok :: "string \<Rightarrow> bool" where
  "len_ok s \<longleftrightarrow> \<not> (length s = 0 \<or> length s > MAX_STRING_LEN)"

definition GetProfileType :: "string \<Rightarrow> ProfileType" where
  "GetProfileType key =
     (if \<not> len_ok key then PROFILE_TYPE_MIN
      else let t = PROFILE_TYPE_MIN;
               t = (if StartsWith key DEV_PREFIX then DEVICE_PROFILE else t);
               t = (if StartsWith key SVR_PREFIX then SERVICE_PROFILE else t);
               t = (if StartsWith key CHAR_PREFIX then CHAR_PROFILE else t)
           in t)"

definition IsKeyValid :: "string \<Rightarrow> bool" where
  "IsKeyValid key \<longleftrightarrow>
     (if length key = 0 \<or> length key > MAX_STRING_LEN then False
      else str_find SEPARATOR key = None)"

definition IsLocalUdid :: "string \<Rightarrow> string \<Rightarrow> bool" where
  "IsLocalUdid lu udid \<longleftrightarrow>
     (if length udid = 0 \<or> length udid > MAX_STRING_LEN then False else lu = udid)"

definition IsDevProfileValid :: "string \<Rightarrow> DeviceProfile \<Rightarrow> bool" where
  "IsDevProfileValid lu p \<longleftrightarrow> IsKeyValid (dp_deviceId p) \<and> IsLocalUdid lu (dp_deviceId p)"

definition IsSvrProfileValid :: "string \<Rightarrow> ServiceProfile \<Rightarrow> bool" where
  "IsSvrProfileValid lu p \<longleftrightarrow>
     IsKeyValid (sp_deviceId p) \<and> IsLocalUdid lu (sp_deviceId p) \<and> IsKeyValid (sp_serviceName p)"

definition IsCharProfileValid :: "string \<Rightarrow> CharacteristicProfile \<Rightarrow> bool" where
  "IsCharProfileValid lu p \<longleftrightarrow>
     IsKeyValid (cp_deviceId p) \<and> IsLocalUdid lu (cp_deviceId p) \<and>
     IsKeyValid (cp_serviceName p) \<and> IsKeyValid (cp_characteristicKey p)"

definition IsDeviceProfileValid :: "DeviceProfile \<Rightarrow> bool" where
  "IsDeviceProfileValid p \<longleftrightarrow> \<not> (dp_osVersion p = [] \<or> dp_osType p = MIN_OS_TYPE)"

definition IsServiceProfileValid :: "ServiceProfile \<Rightarrow> bool" where
  "IsServiceProfileValid p \<longleftrightarrow> \<not> (sp_serviceName p = [] \<or> sp_serviceType p = [])"

definition IsCharacteristicProfileValid :: "CharacteristicProfile \<Rightarrow> bool" where
  "IsCharacteristicProfileValid p \<longleftrightarrow>
     \<not> (cp_characteristicKey p = [] \<or> cp_characteristicValue p = [])"

lemma IsKeyValid_iff: "IsKeyValid k \<longleftrightarrow> k \<noteq> [] \<and> length k \<le> 4096 \<and> CHR ''#'' \<notin> set k"
  by (auto simp: IsKeyValid_def str_find_single)

lemma StartsWith_iff: "StartsWith s p \<longleftrightarrow> prefix p s"
  by (simp add: StartsWith_def str_find_0_iff)

lemma EndsWith_iff: "EndsWith s p \<longleftrightarrow> suffix p s"
  by (auto simp: EndsWith_def suffix_def intro!: exI [of _ "take (length s - length p) s"])
    (metis append_take_drop_id)

end
