(* ===== verification/ProfileKeys.thy ===== *)
theory ProfileKeys
  imports ProfileUtils
begin

text \<open>
  The database keys of \<open>ProfileUtils\<close> (\<open>common/src/utils/profile_utils.cpp\<close>): how they are
  built from a profile's identity, a property name and a user id, and how each part is read back
  from a key. The lemmas show that the readers invert the builders on every identity that passes
  \<open>IsKeyValid\<close>, and that two such identities never share a key.
\<close>

section \<open>The OpenHarmony suffix\<close>

definition IsNeedAddOhSuffix :: "string \<Rightarrow> bool \<Rightarrow> bool" where
  "IsNeedAddOhSuffix profileName isSvr \<longleftrightarrow>
     (if \<not> len_ok profileName then False
      else if isSvr \<and> profileName \<in>
        {''DistributeModemService'', ''multiScreenAssistantService'', ''appInfo''} then True
      else if \<not> isSvr \<and> profileName \<in> {OS_TYPE, OS_VERSION} then True
      else False)"

definition CheckAndAddOhSuffix :: "string \<Rightarrow> bool \<Rightarrow> string" where
  "CheckAndAddOhSuffix profileName isSvr =
     (if IsNeedAddOhSuffix profileName isSvr then profileName @ OH_PROFILE_SUFFIX
      else profileName)"

definition CheckAndRemoveOhSuffix :: "string \<Rightarrow> string" where
  "CheckAndRemoveOhSuffix profileName =
     (if EndsWith profileName OH_PROFILE_SUFFIX
      then take (length profileName - length OH_PROFILE_SUFFIX) profileName else profileName)"

section \<open>Building keys\<close>

definition GenerateDeviceProfileKey :: "string \<Rightarrow> string" where
  "GenerateDeviceProfileKey deviceId = DEV_PREFIX @ SEPARATOR @ deviceId"

definition GenerateServiceProfileKey :: "string \<Rightarrow> string \<Rightarrow> string" where
  "GenerateServiceProfileKey deviceId serviceName =
     SVR_PREFIX @ SEPARATOR @ deviceId @ SEPARATOR @ serviceName"

definition GenerateCharProfileKey :: "string \<Rightarrow> string \<Rightarrow> string \<Rightarrow> string" where
  "GenerateCharProfileKey deviceId serviceName charKey =
     CHAR_PREFIX @ SEPARATOR @ deviceId @ SEPARATOR @ serviceName @ SEPARATOR @ charKey"

definition GenerateDBKey :: "string \<Rightarrow> string \<Rightarrow> int \<Rightarrow> string" where
  "GenerateDBKey profileKey profileProperty userId =
     (if userId \<noteq> DEFAULT_USER_ID
      then profileKey @ SEPARATOR @ profileProperty @ SEPARATOR @ to_string userId
      else profileKey @ SEPARATOR @ profileProperty)"

definition GenerateServiceDBKey :: "string \<Rightarrow> string \<Rightarrow> int \<Rightarrow> string" where
  "GenerateServiceDBKey regServiceId profileProperty userId =
     SERVICE_INFO @ SEPARATOR @ regServiceId @ SEPARATOR @ to_string userId @ SEPARATOR @
     profileProperty"

definition GetDbKeyByProfile :: "CharacteristicProfile \<Rightarrow> string" where
  "GetDbKeyByProfile p =
     (if cp_deviceId p = [] \<or> cp_serviceName p = [] \<or> cp_characteristicKey p = [] then []
      else CHAR_PREFIX @ SEPARATOR @ cp_deviceId p @ SEPARATOR @
           CheckAndAddOhSuffix (cp_serviceName p) True @ SEPARATOR @ cp_characteristicKey p @
           SEPARATOR @ CHARACTERISTIC_VALUE)"

definition GenerateServiceDBkeys :: "string \<Rightarrow> string \<Rightarrow> bool \<Rightarrow> int \<Rightarrow> string list" where
  "GenerateServiceDBkeys deviceId serviceName isMultiUser userId =
     (let key = GenerateServiceProfileKey deviceId (CheckAndAddOhSuffix serviceName True) in
      if isMultiUser
      then [GenerateDBKey key SERVICE_NAME userId, GenerateDBKey key SERVICE_TYPE userId]
      else [GenerateDBKey key SERVICE_NAME DEFAULT_USER_ID,
            GenerateDBKey key SERVICE_TYPE DEFAULT_USER_ID])"

definition GenerateCharacteristicDBkeys ::
  "string \<Rightarrow> string \<Rightarrow> string \<Rightarrow> bool \<Rightarrow> int \<Rightarrow> string list" where
  "GenerateCharacteristicDBkeys deviceId serviceName charKey isMultiUser userId =
     (let key = GenerateCharProfileKey deviceId (CheckAndAddOhSuffix serviceName True) charKey in
      if isMultiUser
      then [GenerateDBKey key CHARACTERISTIC_KEY userId,
            GenerateDBKey key CHARACTERISTIC_VALUE userId]
      else [GenerateDBKey key CHARACTERISTIC_KEY DEFAULT_USER_ID,
            GenerateDBKey key CHARACTERISTIC_VALUE DEFAULT_USER_ID])"

section \<open>Reading keys\<close>

text \<open>\<open>find_last_of("#")\<close> and the prefix before it.\<close>

definition GetProfileKey :: "string \<Rightarrow> string" where
  "GetProfileKey dbKey =
     (if \<not> len_ok dbKey then []
      else if CHR ''#'' \<notin> set dbKey then []
      else take (length dbKey - 1 - length (takeWhile (\<lambda>c. c \<noteq> CHR ''#'') (rev dbKey))) dbKey)"

definition key_field :: "nat \<Rightarrow> string \<Rightarrow> string" where
  "key_field n dbKey =
     (if \<not> len_ok dbKey then []
      else case split_key dbKey of
             None \<Rightarrow> []
           | Some res \<Rightarrow> if length res \<le> n then [] else res ! n)"

definition GetDeviceIdByDBKey :: "string \<Rightarrow> string" where
  "GetDeviceIdByDBKey dbKey = key_field 1 dbKey"

definition GetServiceNameByDBKey :: "string \<Rightarrow> string" where
  "GetServiceNameByDBKey dbKey = key_field 2 dbKey"

definition GetCharKeyByDBKey :: "string \<Rightarrow> string" where
  "GetCharKeyByDBKey dbKey = key_field 3 dbKey"

definition GetNonOhSuffixServiceNameByDBKey :: "string \<Rightarrow> string" where
  "GetNonOhSuffixServiceNameByDBKey dbKey =
     (let serviceName = GetServiceNameByDBKey dbKey in
      if serviceName = [] then [] else CheckAndRemoveOhSuffix serviceName)"

text \<open>The regular expression \<open>^[-+]?[0-9]+$\<close>.\<close>

definition IsNumStr :: "string \<Rightarrow> bool" where
  "IsNumStr s \<longleftrightarrow>
     (if s = [] then False
      else let t = (if hd s = CHR ''-'' \<or> hd s = CHR ''+'' then tl s else s)
           in t \<noteq> [] \<and> list_all is_digit t)"

definition GetUserIdFromDbKey :: "string \<Rightarrow> int" where
  "GetUserIdFromDbKey dbKey =
     (case split_key dbKey of
        None \<Rightarrow> DEFAULT_USER_ID
      | Some ks \<Rightarrow>
          if length ks < 3 then DEFAULT_USER_ID
          else let u = DEFAULT_USER_ID;
                   u = (if ks ! 0 = DEV_PREFIX \<and> length ks > 3 \<and> IsNumStr (ks ! 3)
                        then atoi (ks ! 3) else u);
                   u = (if ks ! 0 = SVR_PREFIX \<and> length ks > 4 \<and> IsNumStr (ks ! 4)
                        then atoi (ks ! 4) else u);
                   u = (if ks ! 0 = CHAR_PREFIX \<and> length ks > 5 \<and> IsNumStr (ks ! 5)
                        then atoi (ks ! 5) else u)
               in u)"

definition GetProfileProperty :: "string \<Rightarrow> int \<Rightarrow> string" where
  "GetProfileProperty dbKey userId =
     (if \<not> len_ok dbKey then []
      else let getUserId = GetUserIdFromDbKey dbKey;
               pick = (\<lambda>f. if userId \<noteq> DEFAULT_USER_ID \<and> getUserId = DEFAULT_USER_ID then f
                           else if userId = getUserId then f else [])
           in case split_key dbKey of
                None \<Rightarrow> []
              | Some ks \<Rightarrow>
                  if length ks < 3 then []
                  else if ks ! 0 = DEV_PREFIX then pick (ks ! 2)
                  else if ks ! 0 = SVR_PREFIX \<and> length ks \<ge> 4 then pick (ks ! 3)
                  else if ks ! 0 = CHAR_PREFIX \<and> length ks \<ge> 5 then pick (ks ! 4)
                  else [])"

definition erase_at :: "nat \<Rightarrow> 'a list \<Rightarrow> 'a list" where
  "erase_at n xs = take n xs @ drop (Suc n) xs"

definition RemoveUserIdFromDbKey :: "string \<Rightarrow> string" where
  "RemoveUserIdFromDbKey dbKey =
     (case split_key dbKey of
        None \<Rightarrow> []
      | Some ks \<Rightarrow>
          if length ks < 3 then []
          else let ks = (if ks ! 0 = DEV_PREFIX \<and> length ks > 3 \<and> IsNumStr (ks ! 3)
                         then erase_at 3 ks else ks);
                   ks = (if ks ! 0 = SVR_PREFIX \<and> length ks > 4 \<and> IsNumStr (ks ! 4)
                         then erase_at 4 ks else ks);
                   ks = (if ks ! 0 = CHAR_PREFIX \<and> length ks > 5 \<and> IsNumStr (ks ! 5)
                         then erase_at 5 ks else ks)
               in JoinString ks SEPARATOR)"

section \<open>The fields of a built key\<close>

lemma IsNumStr_to_string [key_simps]: "IsNumStr (to_string i)"
proof (cases "i < 0")
  case True
  then show ?thesis by (simp add: IsNumStr_def to_string_def nat_string_digits)
next
  case False
  obtain c cs where cs: "nat_string (nat i) = c # cs"
    by (cases "nat_string (nat i)") auto
  with nat_string_digits [of "nat i"] have "list_all is_digit (c # cs)" and c: "is_digit c"
    by auto
  with False cs show ?thesis by (auto simp: IsNumStr_def to_string_def dest: is_digit_not_sign)
qed

definition user_fields :: "int \<Rightarrow> string list" where
  "user_fields u = (if u \<noteq> DEFAULT_USER_ID then [to_string u] else [])"

lemmas key_build = GenerateDBKey_def GenerateDeviceProfileKey_def GenerateServiceProfileKey_def
  GenerateCharProfileKey_def

lemma split_dev_key [key_simps]:
  assumes "CHR ''#'' \<notin> set d" "CHR ''#'' \<notin> set p"
  shows "split_key (GenerateDBKey (GenerateDeviceProfileKey d) p u)
         = Some ([DEV_PREFIX, d, p] @ user_fields u)"
  using assms by (simp add: key_build user_fields_def split_key_def key_simps)

lemma split_svr_key [key_simps]:
  assumes "CHR ''#'' \<notin> set d" "CHR ''#'' \<notin> set s" "CHR ''#'' \<notin> set p"
  shows "split_key (GenerateDBKey (GenerateServiceProfileKey d s) p u)
         = Some ([SVR_PREFIX, d, s, p] @ user_fields u)"
  using assms by (simp add: key_build user_fields_def split_key_def key_simps)

lemma split_char_key [key_simps]:
  assumes "CHR ''#'' \<notin> set d" "CHR ''#'' \<notin> set s" "CHR ''#'' \<notin> set k" "CHR ''#'' \<notin> set p"
  shows "split_key (GenerateDBKey (GenerateCharProfileKey d s k) p u)
         = Some ([CHAR_PREFIX, d, s, k, p] @ user_fields u)"
  using assms by (simp add: key_build user_fields_def split_key_def key_simps)

section \<open>One key scheme, three kinds of profile\<close>

text \<open>
  The contract between the key builders and the readers: an identity \<open>a\<close> that is \<open>ok\<close> has
  the fields \<open>fs a\<close>, the first of them the prefix of its kind, and a key built for it splits
  into these fields, the property and the user id. The readers' laws follow once for all kinds.
\<close>

locale key_scheme =
  fixes pk :: "'a \<Rightarrow> string" and ok :: "'a \<Rightarrow> bool" and fs :: "'a \<Rightarrow> string list"
    and pre :: string and n :: nat
  assumes kind: "(pre, n) \<in> {(DEV_PREFIX, 2), (SVR_PREFIX, 3), (CHAR_PREFIX, 4)}"
    and fs_length: "length (fs a) = n"
    and fs_prefix: "fs a ! 0 = pre"
    and fs_inject: "fs a = fs b \<Longrightarrow> a = b"
    and split: "ok a \<Longrightarrow> CHR ''#'' \<notin> set p \<Longrightarrow>
      split_key (GenerateDBKey (pk a) p u) = Some (fs a @ p # user_fields u)"
begin

lemma n_pos: "0 < n"
  using kind by auto

lemma user_id:
  assumes "ok a" "CHR ''#'' \<notin> set p" "- (2 ^ 31) \<le> u" "u < 2 ^ 31"
  shows "GetUserIdFromDbKey (GenerateDBKey (pk a) p u) = u"
  using kind assms fs_length [of a] fs_prefix [of a] n_pos
  by (auto simp: GetUserIdFromDbKey_def split user_fields_def nth_append IsNumStr_to_string
      atoi_to_string)

lemma profile_property:
  assumes "ok a" "CHR ''#'' \<notin> set p" "- (2 ^ 31) \<le> u" "u < 2 ^ 31"
    and "len_ok (GenerateDBKey (pk a) p u)"
  shows "GetProfileProperty (GenerateDBKey (pk a) p u) userId =
    (if u = userId \<or> u = DEFAULT_USER_ID then p else [])"
  using kind assms fs_length [of a] fs_prefix [of a] n_pos user_id [OF assms(1-4)]
  by (auto simp: GetProfileProperty_def split user_fields_def nth_append)

lemma remove_user_id:
  assumes "ok a" "CHR ''#'' \<notin> set p" "\<forall>f\<in>set (fs a). CHR ''#'' \<notin> set f"
  shows "RemoveUserIdFromDbKey (GenerateDBKey (pk a) p u) = GenerateDBKey (pk a) p DEFAULT_USER_ID"
proof -
  let ?k = "GenerateDBKey (pk a) p DEFAULT_USER_ID"
  have "split_key ?k = Some (fs a @ [p])"
    using split [OF assms(1,2), of DEFAULT_USER_ID] by (simp add: user_fields_def)
  then have k: "?k = join_with ''#'' (fs a @ [p])"
    by (metis join_split option.distinct(1) option.inject split_key_def)
  from kind consider "pre = DEV_PREFIX" "n = 2" | "pre = SVR_PREFIX" "n = 3"
    | "pre = CHAR_PREFIX" "n = 4" by auto
  then show ?thesis
    unfolding k using split [OF assms(1,2), of u] fs_length [of a] fs_prefix [of a]
    by cases (auto simp: RemoveUserIdFromDbKey_def user_fields_def nth_append
        IsNumStr_to_string erase_at_def JoinString_join)
qed

lemma key_inject:
  assumes "ok a" "ok b" "CHR ''#'' \<notin> set p" "CHR ''#'' \<notin> set q"
    and "- (2 ^ 31) \<le> u" "u < 2 ^ 31" "- (2 ^ 31) \<le> v" "v < 2 ^ 31"
    and eq: "GenerateDBKey (pk a) p u = GenerateDBKey (pk b) q v"
  shows "a = b \<and> p = q \<and> u = v"
proof -
  have "u = v" using user_id assms by metis
  moreover have "fs a @ p # user_fields u = fs b @ q # user_fields v"
    using split eq assms(1-4) by (metis option.inject)
  then have "fs a = fs b \<and> p = q" by (simp add: fs_length)
  ultimately show ?thesis using fs_inject by blast
qed

end

text \<open>Identities whose parts pass \<open>IsKeyValid\<close> hold no separator.\<close>

abbreviation "dev_ok d \<equiv> IsKeyValid d"
abbreviation "svr_ok \<equiv> \<lambda>(d, s). IsKeyValid d \<and> IsKeyValid s"
abbreviation "char_ok \<equiv> \<lambda>(d, s, k). IsKeyValid d \<and> IsKeyValid s \<and> IsKeyValid k"

interpretation dev: key_scheme GenerateDeviceProfileKey IsKeyValid "\<lambda>d. [DEV_PREFIX, d]"
  DEV_PREFIX 2
  by unfold_locales (auto simp: key_simps IsKeyValid_iff)

interpretation svr: key_scheme "\<lambda>(d, s). GenerateServiceProfileKey d s" svr_ok
  "\<lambda>(d, s). [SVR_PREFIX, d, s]" SVR_PREFIX 3
  by unfold_locales (auto simp: key_simps IsKeyValid_iff)

interpretation char: key_scheme "\<lambda>(d, s, k). GenerateCharProfileKey d s k" char_ok
  "\<lambda>(d, s, k). [CHAR_PREFIX, d, s, k]" CHAR_PREFIX 4
  by unfold_locales (auto simp: key_simps IsKeyValid_iff)


lemma GetProfileKey_append:
  assumes "CHR ''#'' \<notin> set p" "len_ok (k @ SEPARATOR @ p)"
  shows "GetProfileKey (k @ SEPARATOR @ p) = k"
proof -
  have "takeWhile (\<lambda>c. c \<noteq> CHR ''#'') (rev (k @ CHR ''#'' # p)) = rev p"
    using assms(1) by (auto simp: takeWhile_append)
  with assms(2) show ?thesis by (simp add: GetProfileKey_def)
qed

lemma key_head:
  "GenerateDBKey (GenerateDeviceProfileKey d) p u \<noteq> GenerateDBKey (GenerateServiceProfileKey d' s') p' u'"
  "GenerateDBKey (GenerateDeviceProfileKey d) p u \<noteq> GenerateDBKey (GenerateCharProfileKey d' s' k') p' u'"
  "GenerateDBKey (GenerateServiceProfileKey d s) p u \<noteq> GenerateDBKey (GenerateCharProfileKey d' s' k') p' u'"
  by (simp_all add: key_build)

section \<open>Round trips and separation of keys\<close>

text \<open>C6: Round trip of the keys of a characteristic. A key built by \<open>GenerateCharProfileKey\<close> and
  \<open>GenerateDBKey\<close> from parts that pass \<open>IsKeyValid\<close> and a 32-bit user id gives back each part:
  the device id, the service name, the characteristic key, the user id and the property; the
  property of a key of another user is not returned; and \<open>RemoveUserIdFromDbKey\<close> gives the key
  the same entry has without a user.\<close>

theorem char_key_roundtrip:
  assumes "IsKeyValid d" "IsKeyValid s" "IsKeyValid k" "IsKeyValid p"
    and "- (2 ^ 31) \<le> u" "u < 2 ^ 31"
    and "len_ok (GenerateDBKey (GenerateCharProfileKey d s k) p u)"
  shows "let key = GenerateDBKey (GenerateCharProfileKey d s k) p u in
    GetProfileType key = CHAR_PROFILE \<and>
    GetDeviceIdByDBKey key = d \<and> GetServiceNameByDBKey key = s \<and> GetCharKeyByDBKey key = k \<and>
    GetUserIdFromDbKey key = u \<and>
    (\<forall>v. GetProfileProperty key v = (if u = v \<or> u = DEFAULT_USER_ID then p else [])) \<and>
    RemoveUserIdFromDbKey key = GenerateDBKey (GenerateCharProfileKey d s k) p DEFAULT_USER_ID \<and>
    GetProfileKey (RemoveUserIdFromDbKey key) = GenerateCharProfileKey d s k"
proof -
  have sep: "CHR ''#'' \<notin> set p" "CHR ''#'' \<notin> set d" "CHR ''#'' \<notin> set s" "CHR ''#'' \<notin> set k"
    using assms(1-4) by (simp_all add: IsKeyValid_iff)
  note ok = assms(7)
  have ok': "len_ok (GenerateDBKey (GenerateCharProfileKey d s k) p DEFAULT_USER_ID)"
    using ok by (auto simp: len_ok_def GenerateDBKey_def GenerateCharProfileKey_def split: if_splits)
  have "GetProfileType (GenerateDBKey (GenerateCharProfileKey d s k) p u) = CHAR_PROFILE"
    using ok by (simp add: GetProfileType_def StartsWith_iff GenerateDBKey_def
        GenerateCharProfileKey_def)
  moreover have "GetProfileKey (GenerateDBKey (GenerateCharProfileKey d s k) p DEFAULT_USER_ID)
      = GenerateCharProfileKey d s k"
    using GetProfileKey_append [OF sep(1)] ok' by (simp add: GenerateDBKey_def)
  ultimately show ?thesis
    using char.user_id [of "(d, s, k)" p u] char.profile_property [of "(d, s, k)" p u]
      char.remove_user_id [of "(d, s, k)" p u] assms sep
    by (simp add: Let_def GetDeviceIdByDBKey_def GetServiceNameByDBKey_def GetCharKeyByDBKey_def
        key_field_def split_char_key)
qed

lemma char_key_roundtrip_witness:
  "let key = GenerateDBKey (GenerateCharProfileKey ''u1'' ''svc'' ''k1'') CHARACTERISTIC_VALUE 100
   in GetUserIdFromDbKey key = 100 \<and> GetCharKeyByDBKey key = ''k1'' \<and>
      GetProfileProperty key 100 = CHARACTERISTIC_VALUE \<and> GetProfileProperty key 101 = []"
  using char_key_roundtrip [of "''u1''" "''svc''" "''k1''" CHARACTERISTIC_VALUE 100]
  by (simp add: IsKeyValid_iff len_ok_def GenerateDBKey_def GenerateCharProfileKey_def
      to_string_def nat_string.simps Let_def)

text \<open>No two entries share a key. Keys built from valid parts and 32-bit user ids are equal
  only for the same kind of profile, the same identity, the same property and the same user.\<close>

theorem db_keys_inject:
  assumes "IsKeyValid d" "IsKeyValid s" "IsKeyValid k" "IsKeyValid p"
    and "IsKeyValid d'" "IsKeyValid s'" "IsKeyValid k'" "IsKeyValid p'"
    and "- (2 ^ 31) \<le> u" "u < 2 ^ 31" "- (2 ^ 31) \<le> u'" "u' < 2 ^ 31"
  shows "(GenerateDBKey (GenerateDeviceProfileKey d) p u =
          GenerateDBKey (GenerateDeviceProfileKey d') p' u' \<longrightarrow> (d, p, u) = (d', p', u')) \<and>
    (GenerateDBKey (GenerateServiceProfileKey d s) p u =
      GenerateDBKey (GenerateServiceProfileKey d' s') p' u' \<longrightarrow> (d, s, p, u) = (d', s', p', u')) \<and>
    (GenerateDBKey (GenerateCharProfileKey d s k) p u =
      GenerateDBKey (GenerateCharProfileKey d' s' k') p' u' \<longrightarrow>
      (d, s, k, p, u) = (d', s', k', p', u')) \<and>
    GenerateDBKey (GenerateDeviceProfileKey d) p u
      \<noteq> GenerateDBKey (GenerateServiceProfileKey d' s') p' u' \<and>
    GenerateDBKey (GenerateDeviceProfileKey d) p u
      \<noteq> GenerateDBKey (GenerateCharProfileKey d' s' k') p' u' \<and>
    GenerateDBKey (GenerateServiceProfileKey d s) p u
      \<noteq> GenerateDBKey (GenerateCharProfileKey d' s' k') p' u'"
proof -
  have sep: "CHR ''#'' \<notin> set p" "CHR ''#'' \<notin> set p'"
    using assms by (simp_all add: IsKeyValid_iff)
  have "GenerateDBKey (GenerateDeviceProfileKey d) p u =
      GenerateDBKey (GenerateDeviceProfileKey d') p' u' \<Longrightarrow> d = d' \<and> p = p' \<and> u = u'"
    by (rule dev.key_inject) (use assms sep in simp_all)
  moreover have "GenerateDBKey (GenerateServiceProfileKey d s) p u =
      GenerateDBKey (GenerateServiceProfileKey d' s') p' u' \<Longrightarrow>
      (d, s) = (d', s') \<and> p = p' \<and> u = u'"
    by (rule svr.key_inject) (use assms sep in simp_all)
  moreover have "GenerateDBKey (GenerateCharProfileKey d s k) p u =
      GenerateDBKey (GenerateCharProfileKey d' s' k') p' u' \<Longrightarrow>
      (d, s, k) = (d', s', k') \<and> p = p' \<and> u = u'"
    by (rule char.key_inject) (use assms sep in simp_all)
  ultimately show ?thesis
    by (simp add: key_head)
qed

lemma db_keys_inject_witness:
  "GenerateDBKey (GenerateServiceProfileKey ''u1'' ''a'') SERVICE_NAME 7
     \<noteq> GenerateDBKey (GenerateCharProfileKey ''u1'' ''a'' ''k'') SERVICE_NAME 7"
  using db_keys_inject [of "''u1''" "''a''" "''k''" SERVICE_NAME "''u1''" "''a''" "''k''"
      SERVICE_NAME 7 7]
  by (simp add: IsKeyValid_iff)

end
