(* ===== verification/ProfileCache.thy ===== *)
theory ProfileCache
  imports ProfileKeys
begin

text \<open>
  \<open>ProfileCache\<close> (\<open>services/core/src/utils/profile_cache.cpp\<close>): the profiles of the local device,
  the static and switch characteristics, the switch word, the devices that are online and the
  registered sync listeners. The state is a record with the class's maps; each operation takes
  and returns it. Out-parameters are returned beside the result code, and keep the value passed in
  where the code does not assign them. A remote listener object is a number, a null pointer
  \<open>None\<close>; the calls that add and remove its death recipient are logged in \<open>deathCalls\<close>.
  The local udid and network id, which other services provide, are arguments.
\<close>

unbundle bit_operations_syntax

section \<open>State\<close>

record ProfileCache =
  curLocalSwitch :: "32 word"
  onlineDevMap :: "(string, TrustedDeviceInfo) umap"
  deviceProfileMap :: "(string, DeviceProfile) umap"
  serviceProfileMap :: "(string, ServiceProfile) umap"
  charProfileMap :: "(string, CharacteristicProfile) umap"
  staticCharProfileMap :: "(string, CharacteristicProfile) umap"
  syncListenerMap :: "(string, nat option) omap"
  deathCalls :: "(nat \<times> bool) list"
  localUuid :: string

definition ProfileCache_new :: ProfileCache where
  "ProfileCache_new =
     \<lparr>curLocalSwitch = 0, onlineDevMap = [], deviceProfileMap = [], serviceProfileMap = [],
      charProfileMap = [], staticCharProfileMap = [], syncListenerMap = [], deathCalls = [],
      localUuid = []\<rparr>"

definition Cache_UnInit :: "ProfileCache \<Rightarrow> dp_ret \<times> ProfileCache" where
  "Cache_UnInit c =
     (DP_SUCCESS,
      c\<lparr>onlineDevMap := [], deviceProfileMap := [], serviceProfileMap := [], charProfileMap := [],
        staticCharProfileMap := [], syncListenerMap := []\<rparr>)"

section \<open>Profiles\<close>

definition Cache_AddDeviceProfile :: "DeviceProfile \<Rightarrow> ProfileCache \<Rightarrow> dp_ret \<times> ProfileCache" where
  "Cache_AddDeviceProfile p c =
     (if \<not> IsKeyValid (dp_deviceId p) then (DP_INVALID_PARAMS, c)
      else let key = GenerateDeviceProfileKey (dp_deviceId p) in
        if length (deviceProfileMap c) > MAX_DEVICE_SIZE then (DP_EXCEED_MAX_SIZE_FAIL, c)
        else (DP_SUCCESS, c\<lparr>deviceProfileMap := AList.update key p (deviceProfileMap c)\<rparr>))"

definition Cache_AddServiceProfile :: "ServiceProfile \<Rightarrow> ProfileCache \<Rightarrow> dp_ret \<times> ProfileCache" where
  "Cache_AddServiceProfile p c =
     (if \<not> IsKeyValid (sp_deviceId p) \<or> \<not> IsKeyValid (sp_serviceName p) then (DP_INVALID_PARAMS, c)
      else let key = GenerateServiceProfileKey (sp_deviceId p) (sp_serviceName p) in
        if length (serviceProfileMap c) > MAX_SERVICE_SIZE then (DP_EXCEED_MAX_SIZE_FAIL, c)
        else (DP_SUCCESS, c\<lparr>serviceProfileMap := AList.update key p (serviceProfileMap c)\<rparr>))"

definition Cache_AddCharProfile ::
  "CharacteristicProfile \<Rightarrow> ProfileCache \<Rightarrow> dp_ret \<times> ProfileCache" where
  "Cache_AddCharProfile p c =
     (if \<not> IsKeyValid (cp_deviceId p) \<or> \<not> IsKeyValid (cp_serviceName p) \<or>
         \<not> IsKeyValid (cp_characteristicKey p) then (DP_INVALID_PARAMS, c)
      else let key = GenerateCharProfileKey (cp_deviceId p) (cp_serviceName p)
                       (cp_characteristicKey p) in
        if length (charProfileMap c) > MAX_CHAR_SIZE then (DP_EXCEED_MAX_SIZE_FAIL, c)
        else (DP_SUCCESS, c\<lparr>charProfileMap := AList.update key p (charProfileMap c)\<rparr>))"

definition Cache_AddStaticCharProfile ::
  "CharacteristicProfile \<Rightarrow> ProfileCache \<Rightarrow> dp_ret \<times> ProfileCache" where
  "Cache_AddStaticCharProfile p c =
     (if \<not> IsKeyValid (cp_deviceId p) \<or> \<not> IsKeyValid (cp_serviceName p) \<or>
         \<not> IsKeyValid (cp_characteristicKey p) then (DP_INVALID_PARAMS, c)
      else let key = GenerateCharProfileKey (cp_deviceId p) (cp_serviceName p)
                       (cp_characteristicKey p) in
        if length (staticCharProfileMap c) > MAX_CHAR_SIZE then (DP_EXCEED_MAX_SIZE_FAIL, c)
        else (DP_SUCCESS,
              c\<lparr>staticCharProfileMap := AList.update key p (staticCharProfileMap c)\<rparr>))"

definition Cache_AddStaticCharProfileBatch ::
  "(string, CharacteristicProfile) umap \<Rightarrow> ProfileCache \<Rightarrow> dp_ret \<times> ProfileCache" where
  "Cache_AddStaticCharProfileBatch charProfiles c =
     (if length charProfiles > MAX_CHAR_SIZE then (DP_INVALID_PARAMS, c)
      else (DP_SUCCESS, fold (\<lambda>(_, p) c. snd (Cache_AddStaticCharProfile p c)) charProfiles c))"

definition Cache_GetDeviceProfile ::
  "string \<Rightarrow> DeviceProfile \<Rightarrow> ProfileCache \<Rightarrow> dp_ret \<times> DeviceProfile" where
  "Cache_GetDeviceProfile deviceId p c =
     (if \<not> IsKeyValid deviceId then (DP_INVALID_PARAMS, p)
      else case map_of (deviceProfileMap c) (GenerateDeviceProfileKey deviceId) of
             None \<Rightarrow> (DP_NOT_FOUND_FAIL, p)
           | Some q \<Rightarrow> (DP_SUCCESS, q))"

definition Cache_GetServiceProfile ::
  "string \<Rightarrow> string \<Rightarrow> ServiceProfile \<Rightarrow> ProfileCache \<Rightarrow> dp_ret \<times> ServiceProfile" where
  "Cache_GetServiceProfile deviceId serviceName p c =
     (if \<not> IsKeyValid deviceId \<or> \<not> IsKeyValid serviceName then (DP_INVALID_PARAMS, p)
      else case map_of (serviceProfileMap c) (GenerateServiceProfileKey deviceId serviceName) of
             None \<Rightarrow> (DP_NOT_FOUND_FAIL, p)
           | Some q \<Rightarrow> (DP_SUCCESS, q))"

definition Cache_GetCharacteristicProfile ::
  "string \<Rightarrow> string \<Rightarrow> string \<Rightarrow> CharacteristicProfile \<Rightarrow> ProfileCache \<Rightarrow>
   dp_ret \<times> CharacteristicProfile" where
  "Cache_GetCharacteristicProfile deviceId serviceName charKey p c =
     (if \<not> IsKeyValid deviceId \<or> \<not> IsKeyValid serviceName \<or> \<not> IsKeyValid charKey
      then (DP_INVALID_PARAMS, p)
      else case map_of (charProfileMap c) (GenerateCharProfileKey deviceId serviceName charKey) of
             None \<Rightarrow> (DP_NOT_FOUND_FAIL, p)
           | Some q \<Rightarrow> (DP_SUCCESS, q))"

definition Cache_GetStaticCharacteristicProfile ::
  "string \<Rightarrow> string \<Rightarrow> string \<Rightarrow> CharacteristicProfile \<Rightarrow> ProfileCache \<Rightarrow>
   dp_ret \<times> CharacteristicProfile" where
  "Cache_GetStaticCharacteristicProfile deviceId serviceName charKey p c =
     (if \<not> IsKeyValid deviceId \<or> \<not> IsKeyValid serviceName \<or> \<not> IsKeyValid charKey
      then (DP_INVALID_PARAMS, p)
      else case map_of (staticCharProfileMap c)
                  (GenerateCharProfileKey deviceId serviceName charKey) of
             None \<Rightarrow> (DP_NOT_FOUND_FAIL, p)
           | Some q \<Rightarrow> (DP_SUCCESS, q))"

definition Cache_DeleteDeviceProfile :: "string \<Rightarrow> ProfileCache \<Rightarrow> dp_ret \<times> ProfileCache" where
  "Cache_DeleteDeviceProfile deviceId c =
     (if \<not> IsKeyValid deviceId then (DP_INVALID_PARAMS, c)
      else (DP_SUCCESS, c\<lparr>deviceProfileMap :=
              AList.delete (GenerateDeviceProfileKey deviceId) (deviceProfileMap c)\<rparr>))"

definition Cache_DeleteServiceProfile ::
  "string \<Rightarrow> string \<Rightarrow> ProfileCache \<Rightarrow> dp_ret \<times> ProfileCache" where
  "Cache_DeleteServiceProfile deviceId serviceName c =
     (if \<not> IsKeyValid deviceId \<or> \<not> IsKeyValid serviceName then (DP_INVALID_PARAMS, c)
      else (DP_SUCCESS, c\<lparr>serviceProfileMap :=
              AList.delete (GenerateServiceProfileKey deviceId serviceName) (serviceProfileMap c)\<rparr>))"

definition Cache_DeleteCharProfile ::
  "string \<Rightarrow> string \<Rightarrow> string \<Rightarrow> ProfileCache \<Rightarrow> dp_ret \<times> ProfileCache" where
  "Cache_DeleteCharProfile deviceId serviceName charKey c =
     (if \<not> IsKeyValid deviceId \<or> \<not> IsKeyValid serviceName \<or> \<not> IsKeyValid charKey
      then (DP_INVALID_PARAMS, c)
      else (DP_SUCCESS, c\<lparr>charProfileMap :=
              AList.delete (GenerateCharProfileKey deviceId serviceName charKey)
                (charProfileMap c)\<rparr>))"

definition Cache_IsDeviceProfileExist :: "DeviceProfile \<Rightarrow> ProfileCache \<Rightarrow> bool" where
  "Cache_IsDeviceProfileExist p c \<longleftrightarrow>
     (if \<not> IsKeyValid (dp_deviceId p) then False
      else case map_of (deviceProfileMap c) (GenerateDeviceProfileKey (dp_deviceId p)) of
             None \<Rightarrow> False
           | Some q \<Rightarrow> \<not> DeviceProfile_neq p q)"

definition Cache_IsServiceProfileExist :: "ServiceProfile \<Rightarrow> ProfileCache \<Rightarrow> bool" where
  "Cache_IsServiceProfileExist p c \<longleftrightarrow>
     (if \<not> IsKeyValid (sp_deviceId p) \<or> \<not> IsKeyValid (sp_serviceName p) then False
      else case map_of (serviceProfileMap c)
                  (GenerateServiceProfileKey (sp_deviceId p) (sp_serviceName p)) of
             None \<Rightarrow> False
           | Some q \<Rightarrow> \<not> ServiceProfile_neq p q)"

definition Cache_IsCharProfileExist :: "CharacteristicProfile \<Rightarrow> ProfileCache \<Rightarrow> bool" where
  "Cache_IsCharProfileExist p c \<longleftrightarrow>
     (if \<not> IsKeyValid (cp_deviceId p) \<or> \<not> IsKeyValid (cp_serviceName p) \<or>
         \<not> IsKeyValid (cp_characteristicKey p) then False
      else case map_of (charProfileMap c)
                  (GenerateCharProfileKey (cp_deviceId p) (cp_serviceName p)
                     (cp_characteristicKey p)) of
             None \<Rightarrow> False
           | Some q \<Rightarrow> \<not> CharacteristicProfile_neq p q)"

definition Cache_RefreshCharProfileCache ::
  "CharacteristicProfile list \<Rightarrow> ProfileCache \<Rightarrow> dp_ret \<times> ProfileCache" where
  "Cache_RefreshCharProfileCache ps c =
     (if ps = [] \<or> length ps > MAX_DB_RECORD_SIZE then (DP_INVALID_PARAMS, c)
      else (DP_SUCCESS, c\<lparr>charProfileMap :=
              fold (\<lambda>p. AList.update (GenerateCharProfileKey (cp_deviceId p) (cp_serviceName p)
                          (cp_characteristicKey p)) p) ps []\<rparr>))"

definition Cache_RefreshStaticProfileCache ::
  "(string, CharacteristicProfile) umap \<Rightarrow> ProfileCache \<Rightarrow> dp_ret \<times> ProfileCache" where
  "Cache_RefreshStaticProfileCache ps c =
     (if ps = [] \<or> length ps > MAX_DB_RECORD_SIZE then (DP_INVALID_PARAMS, c)
      else (DP_SUCCESS, c\<lparr>charProfileMap := fold (\<lambda>(k, p). AList.update k p) ps []\<rparr>))"

text \<open>\<open>RefreshProfileCache\<close> and \<open>Init\<close>: the static manager's characteristics (empty when it has
  none) and, unless switches are compiled out, the switch word read at start are arguments.\<close>

definition Cache_RefreshProfileCache ::
  "CharacteristicProfile list \<Rightarrow> ProfileCache \<Rightarrow> dp_ret \<times> ProfileCache" where
  "Cache_RefreshProfileCache allCharProfiles c =
     (DP_SUCCESS, snd (Cache_RefreshCharProfileCache allCharProfiles c))"

definition Cache_GetSwitchProfilesByServiceName ::
  "string \<Rightarrow> CharacteristicProfile \<Rightarrow> ProfileCache \<Rightarrow>
   dp_ret \<times> CharacteristicProfile \<times> ProfileCache" where
  "Cache_GetSwitchProfilesByServiceName charProfileKey p c =
     (if charProfileKey = [] then (DP_INVALID_PARAMS, p, c)
      else case map_of (charProfileMap c) charProfileKey of
             Some q \<Rightarrow> (DP_SUCCESS, q, c)
           | None \<Rightarrow> (DP_SUCCESS, CharacteristicProfile_default,
               c\<lparr>charProfileMap := AList.update charProfileKey CharacteristicProfile_default
                   (charProfileMap c)\<rparr>))"

definition Cache_IsCharProfileKeyExist :: "string \<Rightarrow> ProfileCache \<Rightarrow> bool" where
  "Cache_IsCharProfileKeyExist charKey c \<longleftrightarrow>
     (if charKey = [] then False else map_of (charProfileMap c) charKey \<noteq> None)"

section \<open>Sync listeners\<close>

definition Cache_AddSyncListener ::
  "string \<Rightarrow> nat option \<Rightarrow> ProfileCache \<Rightarrow> dp_ret \<times> ProfileCache" where
  "Cache_AddSyncListener caller syncListener c =
     (if caller = [] \<or> length caller > MAX_STRING_LEN \<or> syncListener = None
      then (DP_INVALID_PARAMS, c)
      else if length (syncListenerMap c) > MAX_LISTENER_SIZE then (DP_EXCEED_MAX_SIZE_FAIL, c)
      else (DP_SUCCESS,
            c\<lparr>deathCalls := deathCalls c @ [(the syncListener, True)],
              syncListenerMap := omap_put caller syncListener (syncListenerMap c)\<rparr>))"

definition Cache_GetSyncListeners ::
  "(string, nat option) omap \<Rightarrow> ProfileCache \<Rightarrow> dp_ret \<times> (string, nat option) omap" where
  "Cache_GetSyncListeners syncListeners c =
     (DP_SUCCESS, fold (\<lambda>(k, l). omap_put k l) (syncListenerMap c) syncListeners)"

definition remove_calls :: "(string \<times> nat option) list \<Rightarrow> (nat \<times> bool) list" where
  "remove_calls es = map (\<lambda>l. (l, False)) (List.map_filter snd es)"

definition Cache_RemoveSyncListeners ::
  "(string, nat option) omap \<Rightarrow> ProfileCache \<Rightarrow> dp_ret \<times> ProfileCache" where
  "Cache_RemoveSyncListeners syncListeners c =
     (let gone = filter (\<lambda>e. fst e \<in> fst ` set syncListeners) (syncListenerMap c) in
      (DP_SUCCESS,
       c\<lparr>deathCalls := deathCalls c @ remove_calls gone,
         syncListenerMap :=
           filter (\<lambda>e. fst e \<notin> fst ` set syncListeners) (syncListenerMap c)\<rparr>))"

definition Cache_RemoveSyncListener_caller :: "string \<Rightarrow> ProfileCache \<Rightarrow> dp_ret \<times> ProfileCache" where
  "Cache_RemoveSyncListener_caller caller c =
     (if caller = [] \<or> length caller > MAX_STRING_LEN then (DP_INVALID_PARAMS, c)
      else case map_of (syncListenerMap c) caller of
             None \<Rightarrow> (DP_NOT_FOUND_FAIL, c)
           | Some None \<Rightarrow> (DP_NULLPTR, c)
           | Some (Some l) \<Rightarrow>
               (DP_SUCCESS, c\<lparr>deathCalls := deathCalls c @ [(l, False)],
                  syncListenerMap := AList.delete caller (syncListenerMap c)\<rparr>))"

definition Cache_RemoveSyncListener_object ::
  "nat option \<Rightarrow> ProfileCache \<Rightarrow> dp_ret \<times> ProfileCache" where
  "Cache_RemoveSyncListener_object syncListener c =
     (case syncListener of
        None \<Rightarrow> (DP_INVALID_PARAMS, c)
      | Some l \<Rightarrow>
          (case find (\<lambda>e. snd e = Some l) (syncListenerMap c) of
             None \<Rightarrow> (DP_NOT_FOUND_FAIL, c)
           | Some e \<Rightarrow>
               (DP_SUCCESS, c\<lparr>deathCalls := deathCalls c @ [(l, False)],
                  syncListenerMap := AList.delete (fst e) (syncListenerMap c)\<rparr>)))"

section \<open>Switches\<close>

text \<open>\<open>std::from_chars\<close> on a \<open>uint32_t\<close>: the leading decimal digits, an error when there are
  none or the value does not fit.\<close>

definition from_chars_u32 :: "string \<Rightarrow> 32 word option" where
  "from_chars_u32 s =
     (let ds = takeWhile is_digit s in
      if ds = [] \<or> num_val ds \<ge> 2 ^ 32 then None else Some (word_of_nat (num_val ds)))"

definition Cache_IsSwitchValid ::
  "CharacteristicProfile \<Rightarrow> (string, nat) umap \<Rightarrow> string \<Rightarrow> bool" where
  "Cache_IsSwitchValid p switchServiceMap operate \<longleftrightarrow>
     (if cp_characteristicKey p \<noteq> SWITCH_STATUS \<or> switchServiceMap = [] then False
      else if operate = SWITCH_OPERATE_PUT \<and>
              (cp_characteristicValue p = [] \<or>
               (cp_characteristicValue p \<noteq> SWITCH_OFF \<and> cp_characteristicValue p \<noteq> SWITCH_ON))
      then False
      else map_of switchServiceMap (cp_serviceName p) \<noteq> None)"

definition Cache_SetSwitchByProfile ::
  "CharacteristicProfile \<Rightarrow> (string, nat) umap \<Rightarrow> 32 word \<Rightarrow> dp_ret \<times> 32 word" where
  "Cache_SetSwitchByProfile p switchServiceMap outSwitch =
     (if \<not> Cache_IsSwitchValid p switchServiceMap SWITCH_OPERATE_PUT
      then (DP_INVALID_PARAMS, outSwitch)
      else case map_of switchServiceMap (cp_serviceName p) of
        None \<Rightarrow> (DP_INVALID_PARAMS, outSwitch)
      | Some pos \<Rightarrow>
          let mask = push_bit pos (1 :: 32 word) in
          (case from_chars_u32 (cp_characteristicValue p) of
             None \<Rightarrow> (DP_GET_PROXY_FAIL, outSwitch)
           | Some val \<Rightarrow>
               if val \<noteq> 0 then (DP_SUCCESS, outSwitch OR mask)
               else (DP_SUCCESS, outSwitch AND NOT mask)))"

fun switch_batch_loop ::
  "CharacteristicProfile list \<Rightarrow> (string, nat) umap \<Rightarrow> 32 word \<Rightarrow> dp_ret \<times> 32 word" where
  "switch_batch_loop [] switchServiceMap outSwitch = (DP_SUCCESS, outSwitch)"
| "switch_batch_loop (p # ps) switchServiceMap outSwitch =
     (if \<not> Cache_IsSwitchValid p switchServiceMap SWITCH_OPERATE_PUT
      then (DP_INVALID_PARAMS, outSwitch)
      else case map_of switchServiceMap (cp_serviceName p) of
        None \<Rightarrow> (DP_INVALID_PARAMS, outSwitch)
      | Some pos \<Rightarrow>
          let mask = push_bit pos (1 :: 32 word) in
          (case from_chars_u32 (cp_characteristicValue p) of
             None \<Rightarrow> (DP_GET_PROXY_FAIL, outSwitch)
           | Some val \<Rightarrow>
               switch_batch_loop ps switchServiceMap
                 (if val \<noteq> 0 then outSwitch OR mask else outSwitch AND NOT mask)))"

definition Cache_SetSwitchByProfileBatch ::
  "CharacteristicProfile list \<Rightarrow> (string, nat) umap \<Rightarrow> 32 word \<Rightarrow> ProfileCache \<Rightarrow>
   dp_ret \<times> 32 word" where
  "Cache_SetSwitchByProfileBatch ps switchServiceMap outSwitch c =
     (if ps = [] then (DP_INVALID_PARAMS, outSwitch)
      else if length ps > MAX_CHAR_SIZE then (DP_INVALID_PARAMS, outSwitch)
      else switch_batch_loop ps switchServiceMap (curLocalSwitch c))"

definition Cache_SetSwitchProfile ::
  "string \<Rightarrow> CharacteristicProfile \<Rightarrow> 32 word \<Rightarrow> ProfileCache \<Rightarrow>
   dp_ret \<times> CharacteristicProfile \<times> ProfileCache" where
  "Cache_SetSwitchProfile lu p switchValue c =
     (if \<not> Cache_IsSwitchValid p SWITCH_SERVICE_MAP SWITCH_OPERATE_GET
      then (DP_INVALID_PARAMS, p, c)
      else case map_of SWITCH_SERVICE_MAP (cp_serviceName p) of
        None \<Rightarrow> (DP_INVALID_PARAMS, p, c)
      | Some pos \<Rightarrow>
          let mask = push_bit pos (1 :: 32 word);
              p = p\<lparr>cp_characteristicValue :=
                    to_string (uint (drop_bit pos (switchValue AND mask)))\<rparr>;
              c = (if cp_deviceId p = lu then c\<lparr>curLocalSwitch := switchValue\<rparr> else c)
          in (DP_SUCCESS, p, c))"

definition Cache_SetCurSwitch :: "32 word \<Rightarrow> ProfileCache \<Rightarrow> ProfileCache" where
  "Cache_SetCurSwitch newSwitch c = c\<lparr>curLocalSwitch := newSwitch\<rparr>"

definition Cache_GetServiceNameByPos ::
  "int \<Rightarrow> (string, nat) umap \<Rightarrow> string \<Rightarrow> dp_ret \<times> string" where
  "Cache_GetServiceNameByPos pos switchServiceMap serviceName =
     (if pos \<le> SWITCH_FLAG_MIN \<or> pos \<ge> SWITCH_FLAG_MAX \<or> switchServiceMap = []
      then (DP_INVALID_PARAMS, serviceName)
      else if length switchServiceMap > MAX_SERVICE_SIZE then (DP_INVALID_PARAMS, serviceName)
      else case find (\<lambda>e. int (snd e) = pos) switchServiceMap of
             Some e \<Rightarrow> (DP_SUCCESS, fst e)
           | None \<Rightarrow> (DP_GET_SERVICENAME_BY_POS_FAIL, serviceName))"

section \<open>Online devices\<close>

definition trusted_device_valid :: "TrustedDeviceInfo \<Rightarrow> bool" where
  "trusted_device_valid d \<longleftrightarrow>
     \<not> (td_udid d = [] \<or> td_uuid d = [] \<or> td_networkId d = [] \<or> td_authForm d = BINDTYPE_INIT \<or>
        td_osType d = 0)"

definition Cache_OnNodeOnline :: "TrustedDeviceInfo \<Rightarrow> ProfileCache \<Rightarrow> ProfileCache" where
  "Cache_OnNodeOnline d c =
     (if \<not> trusted_device_valid d then c
      else if length (onlineDevMap c) \<ge> MAX_TRUSTED_DEVICE_SIZE then c
      else c\<lparr>onlineDevMap := AList.update (td_udid d) d (onlineDevMap c)\<rparr>)"

fun erase_first :: "('a \<Rightarrow> bool) \<Rightarrow> 'a list \<Rightarrow> 'a list" where
  "erase_first P [] = []"
| "erase_first P (x # xs) = (if P x then xs else x # erase_first P xs)"

definition Cache_OnNodeOffline :: "string \<Rightarrow> ProfileCache \<Rightarrow> ProfileCache" where
  "Cache_OnNodeOffline peerNetworkId c =
     c\<lparr>onlineDevMap := erase_first (\<lambda>e. td_networkId (snd e) = peerNetworkId) (onlineDevMap c)\<rparr>"

definition Cache_GetNetWorkIdByUdid ::
  "string \<Rightarrow> string \<Rightarrow> string \<Rightarrow> string \<Rightarrow> ProfileCache \<Rightarrow> dp_ret \<times> string" where
  "Cache_GetNetWorkIdByUdid lu localNetworkId udid networkId c =
     (if udid = [] then (DP_INVALID_PARAMS, networkId)
      else if udid = lu then (DP_SUCCESS, localNetworkId)
      else case map_of (onlineDevMap c) udid of
             None \<Rightarrow> (DP_GET_NETWORKID_BY_UDID_FAIL, networkId)
           | Some d \<Rightarrow> (DP_SUCCESS, td_networkId d))"

definition Cache_GetUdidByNetWorkId ::
  "string \<Rightarrow> string \<Rightarrow> string \<Rightarrow> string \<Rightarrow> ProfileCache \<Rightarrow> dp_ret \<times> string" where
  "Cache_GetUdidByNetWorkId lu localNetworkId networkId udid c =
     (if networkId = [] then (DP_INVALID_PARAMS, udid)
      else if localNetworkId = networkId then (DP_SUCCESS, lu)
      else case find (\<lambda>e. td_networkId (snd e) = networkId) (onlineDevMap c) of
             Some e \<Rightarrow> (DP_SUCCESS, fst e)
           | None \<Rightarrow> if udid = [] then (DP_GET_UDID_BY_NETWORKID_FAIL, udid) else (DP_SUCCESS, udid))"

text \<open>\<open>GetLocalUuid\<close>: the answer of \<open>DMAdapter::GetUuidByNetworkId\<close> is an argument.\<close>

definition Cache_GetLocalUuid ::
  "string \<Rightarrow> (string \<Rightarrow> bool \<times> string) \<Rightarrow> ProfileCache \<Rightarrow> string \<times> ProfileCache" where
  "Cache_GetLocalUuid localNetworkId GetUuidByNetworkId c =
     (if localUuid c \<noteq> [] then (localUuid c, c)
      else if localNetworkId = [] then ([], c)
      else let (ok, uuid) = GetUuidByNetworkId localNetworkId in
        if \<not> ok \<or> uuid = [] then ([], c)
        else (uuid, c\<lparr>localUuid := uuid\<rparr>))"

definition Cache_AddAllTrustedDevices ::
  "TrustedDeviceInfo list \<Rightarrow> ProfileCache \<Rightarrow> dp_ret \<times> ProfileCache" where
  "Cache_AddAllTrustedDevices deviceInfos c =
     (if deviceInfos = [] \<or> length deviceInfos > MAX_TRUSTED_DEVICE_SIZE then (DP_INVALID_PARAM, c)
      else (DP_SUCCESS,
            c\<lparr>onlineDevMap :=
                fold (\<lambda>d m. if \<not> trusted_device_valid d then m else AList.update (td_udid d) d m)
                  deviceInfos []\<rparr>))"

definition Cache_FilterAndGroupOnlineDevices ::
  "(int \<Rightarrow> bool) \<Rightarrow> string list \<Rightarrow> string list \<Rightarrow> (string \<times> string \<times> bool) list \<Rightarrow> ProfileCache \<Rightarrow>
   bool \<times> string list \<times> (string \<times> string \<times> bool) list" where
  "Cache_FilterAndGroupOnlineDevices isP2p deviceList ohBasedDevices notOHBasedDevices c =
     (if length deviceList = 0 \<or> length deviceList > MAX_DEVICE_SIZE
      then (False, ohBasedDevices, notOHBasedDevices)
      else let (oh, notOh) =
             fold (\<lambda>(_, d) (oh, notOh).
                     if td_networkId d \<notin> set deviceList then (oh, notOh)
                     else if td_osType d = OHOS_TYPE then (oh @ [td_networkId d], notOh)
                     else (oh, notOh @ [(td_udid d, td_networkId d, isP2p (td_authForm d))]))
               (onlineDevMap c) (ohBasedDevices, notOHBasedDevices)
           in (True, oh, notOh))"

definition Cache_IsDeviceOnline :: "ProfileCache \<Rightarrow> bool" where
  "Cache_IsDeviceOnline c \<longleftrightarrow> onlineDevMap c \<noteq> []"

end
