(* ===== verification/CacheLaws.thy ===== *)
theory CacheLaws
  imports ProfileCache
begin

text \<open>
  The laws of \<open>ProfileCache\<close>: each kind of profile has a table addressed by the profile's identity
  (locale \<open>keyed_cache\<close>, extended by deletion in \<open>keyed_cache_del\<close>, interpreted for devices,
  services, characteristics and static characteristics); the invariant of every reachable cache;
  the switch word; the online devices; the sync listeners.
\<close>

section \<open>Tables addressed by identity\<close>

locale keyed_cache =
  fixes add :: "'p \<Rightarrow> ProfileCache \<Rightarrow> dp_ret \<times> ProfileCache"
    and get :: "'i \<Rightarrow> 'p \<Rightarrow> ProfileCache \<Rightarrow> dp_ret \<times> 'p"
    and ident :: "'p \<Rightarrow> 'i" and valid :: "'i \<Rightarrow> bool" and key :: "'i \<Rightarrow> string"
    and tab :: "ProfileCache \<Rightarrow> (string, 'p) umap" and cap :: nat
  assumes add_ok: "valid (ident p) \<Longrightarrow> length (tab c) \<le> cap \<Longrightarrow>
      \<exists>c'. add p c = (DP_SUCCESS, c') \<and> tab c' = AList.update (key (ident p)) p (tab c)"
    and add_invalid: "\<not> valid (ident p) \<Longrightarrow> add p c = (DP_INVALID_PARAMS, c)"
    and add_full: "valid (ident p) \<Longrightarrow> cap < length (tab c) \<Longrightarrow> add p c = (DP_EXCEED_MAX_SIZE_FAIL, c)"
    and get: "valid i \<Longrightarrow> get i q c =
      (case map_of (tab c) (key i) of None \<Rightarrow> (DP_NOT_FOUND_FAIL, q) | Some p \<Rightarrow> (DP_SUCCESS, p))"
    and key_inject: "valid i \<Longrightarrow> valid j \<Longrightarrow> key i = key j \<Longrightarrow> i = j"
begin

lemma get_after_add:
  assumes "add p c = (DP_SUCCESS, c')" "valid i"
  shows "get i q c' = (if i = ident p then (DP_SUCCESS, p) else get i q c)"
proof -
  from assms(1) have v: "valid (ident p)" and "length (tab c) \<le> cap"
    using add_invalid [of p c] add_full [of p c] by (auto simp: not_le [symmetric])
  with add_ok [of p c] assms(1) have "tab c' = AList.update (key (ident p)) p (tab c)" by auto
  with get [OF assms(2)] key_inject [OF assms(2) v] show ?thesis by auto
qed

lemma add_result: "fst (add p c) \<in> {DP_SUCCESS, DP_INVALID_PARAMS, DP_EXCEED_MAX_SIZE_FAIL}"
  using add_ok [of p c] add_invalid [of p c] add_full [of p c]
  by (cases "valid (ident p)"; cases "length (tab c) \<le> cap") auto

definition tab_ok :: "(string, 'p) umap \<Rightarrow> bool" where
  "tab_ok m \<longleftrightarrow> distinct (map fst m) \<and> length m \<le> Suc cap \<and>
     (\<forall>k p. map_of m k = Some p \<longrightarrow> k = key (ident p) \<and> valid (ident p))"

lemma tab_ok_Nil: "tab_ok []"
  by (simp add: tab_ok_def)

lemma tab_ok_update:
  "tab_ok m \<Longrightarrow> length m \<le> cap \<Longrightarrow> valid (ident p) \<Longrightarrow> tab_ok (AList.update (key (ident p)) p m)"
  by (auto simp: tab_ok_def umap_update_length)

lemma tab_ok_set: "tab_ok m \<Longrightarrow> (k, p) \<in> set m \<Longrightarrow> k = key (ident p) \<and> valid (ident p)"
  unfolding tab_ok_def by (metis map_of_is_SomeI)

lemma tab_ok_length: "tab_ok m \<Longrightarrow> length m \<le> Suc cap"
  by (simp add: tab_ok_def)

lemma tab_ok_delete: "tab_ok m \<Longrightarrow> tab_ok (AList.delete k m)"
  using umap_delete_length [of k m] by (auto simp: tab_ok_def)

lemma tab_ok_add: "tab_ok (tab c) \<Longrightarrow> tab_ok (tab (snd (add p c)))"
  using add_ok [of p c] add_invalid [of p c] add_full [of p c] tab_ok_update [of "tab c" p]
  by (cases "valid (ident p)"; cases "length (tab c) \<le> cap") auto

end

locale keyed_cache_del = keyed_cache add get ident valid key tab cap
  for add :: "'p \<Rightarrow> ProfileCache \<Rightarrow> dp_ret \<times> ProfileCache"
    and get :: "'i \<Rightarrow> 'p \<Rightarrow> ProfileCache \<Rightarrow> dp_ret \<times> 'p"
    and ident valid key tab cap +
  fixes del :: "'i \<Rightarrow> ProfileCache \<Rightarrow> dp_ret \<times> ProfileCache"
    and exist :: "'p \<Rightarrow> ProfileCache \<Rightarrow> bool"
  assumes del_ok: "valid i \<Longrightarrow>
      \<exists>c'. del i c = (DP_SUCCESS, c') \<and> tab c' = AList.delete (key i) (tab c)"
    and del_invalid: "\<not> valid i \<Longrightarrow> del i c = (DP_INVALID_PARAMS, c)"
    and exist: "exist p c \<longleftrightarrow> valid (ident p) \<and> map_of (tab c) (key (ident p)) = Some p"
begin

lemma get_after_del:
  assumes "valid i" "valid j"
  shows "get j q (snd (del i c)) = (if j = i then (DP_NOT_FOUND_FAIL, q) else get j q c)"
  using del_ok [OF assms(1), of c] key_inject [OF assms] get [OF assms(2)] by auto

lemma exist_iff_get: "exist p c \<longleftrightarrow> valid (ident p) \<and> (\<forall>q. get (ident p) q c = (DP_SUCCESS, p))"
  using exist [of p c] get [of "ident p"] by (auto split: option.splits if_splits)

lemma exist_after_add: "add p c = (DP_SUCCESS, c') \<Longrightarrow> exist p c'"
  using add_invalid [of p c] get_after_add [of p c c' "ident p"] exist_iff_get [of p c']
  by (cases "valid (ident p)") auto

lemma tab_ok_del: "tab_ok (tab c) \<Longrightarrow> tab_ok (tab (snd (del i c)))"
  using del_ok [of i c] del_invalid [of i c] tab_ok_delete [of "tab c" "key i"]
  by (cases "valid i") auto

end

text \<open>Identities of services and characteristics, and their keys.\<close>

abbreviation "svr_ident \<equiv> \<lambda>p. (sp_deviceId p, sp_serviceName p)"
abbreviation "char_ident \<equiv> \<lambda>p. (cp_deviceId p, cp_serviceName p, cp_characteristicKey p)"
abbreviation "svr_key \<equiv> \<lambda>(d, s). GenerateServiceProfileKey d s"
abbreviation "char_key \<equiv> \<lambda>(d, s, k). GenerateCharProfileKey d s k"

lemma svr_key_inject:
  assumes "svr_ok i" "svr_ok j" "svr_key i = svr_key j"
  shows "i = j"
proof -
  have "split_on CHR ''#'' (svr_key i) = [SVR_PREFIX, fst i, snd i]" if "svr_ok i" for i
    using that by (auto simp: GenerateServiceProfileKey_def key_simps IsKeyValid_iff)
  with assms show ?thesis by (metis list.inject prod.collapse)
qed

lemma char_key_inject:
  assumes "char_ok i" "char_ok j" "char_key i = char_key j"
  shows "i = j"
proof -
  have "split_on CHR ''#'' (char_key i) = [CHAR_PREFIX, fst i, fst (snd i), snd (snd i)]"
    if "char_ok i" for i
    using that by (auto simp: GenerateCharProfileKey_def key_simps IsKeyValid_iff)
  with assms show ?thesis by (metis list.inject prod.collapse)
qed

interpretation dev_cache: keyed_cache_del Cache_AddDeviceProfile Cache_GetDeviceProfile dp_deviceId
  IsKeyValid GenerateDeviceProfileKey deviceProfileMap MAX_DEVICE_SIZE Cache_DeleteDeviceProfile
  Cache_IsDeviceProfileExist
  by unfold_locales
    (auto simp: Cache_AddDeviceProfile_def Cache_GetDeviceProfile_def Cache_DeleteDeviceProfile_def
      Cache_IsDeviceProfileExist_def GenerateDeviceProfileKey_def split: option.splits if_splits)

interpretation svr_cache: keyed_cache_del Cache_AddServiceProfile
  "\<lambda>(d, s). Cache_GetServiceProfile d s" svr_ident svr_ok svr_key serviceProfileMap
  MAX_SERVICE_SIZE "\<lambda>(d, s). Cache_DeleteServiceProfile d s" Cache_IsServiceProfileExist
proof (unfold_locales, goal_cases)
  case (5 i j)
  then show ?case by (rule svr_key_inject)
qed (auto simp: Cache_AddServiceProfile_def Cache_GetServiceProfile_def
    Cache_DeleteServiceProfile_def Cache_IsServiceProfileExist_def split: option.splits if_splits)

interpretation char_cache: keyed_cache_del Cache_AddCharProfile
  "\<lambda>(d, s, k). Cache_GetCharacteristicProfile d s k" char_ident char_ok char_key charProfileMap
  MAX_CHAR_SIZE "\<lambda>(d, s, k). Cache_DeleteCharProfile d s k" Cache_IsCharProfileExist
proof (unfold_locales, goal_cases)
  case (5 i j)
  then show ?case by (rule char_key_inject)
qed (auto simp: Cache_AddCharProfile_def Cache_GetCharacteristicProfile_def
    Cache_DeleteCharProfile_def Cache_IsCharProfileExist_def split: option.splits if_splits)

interpretation static_cache: keyed_cache Cache_AddStaticCharProfile
  "\<lambda>(d, s, k). Cache_GetStaticCharacteristicProfile d s k" char_ident char_ok char_key
  staticCharProfileMap MAX_CHAR_SIZE
proof (unfold_locales, goal_cases)
  case (5 i j)
  then show ?case by (rule char_key_inject)
qed (auto simp: Cache_AddStaticCharProfile_def Cache_GetStaticCharacteristicProfile_def
    split: option.splits if_splits)

section \<open>The invariant of the cache\<close>

text \<open>One step of the cache: any public operation on any arguments.\<close>

inductive cache_step :: "ProfileCache \<Rightarrow> ProfileCache \<Rightarrow> bool" where
  uninit: "cache_step c (snd (Cache_UnInit c))"
| add_dev: "cache_step c (snd (Cache_AddDeviceProfile dp c))"
| add_svr: "cache_step c (snd (Cache_AddServiceProfile sp c))"
| add_char: "cache_step c (snd (Cache_AddCharProfile cp c))"
| add_static: "cache_step c (snd (Cache_AddStaticCharProfile cp c))"
| add_statics: "cache_step c (snd (Cache_AddStaticCharProfileBatch cps c))"
| del_dev: "cache_step c (snd (Cache_DeleteDeviceProfile d c))"
| del_svr: "cache_step c (snd (Cache_DeleteServiceProfile d s c))"
| del_char: "cache_step c (snd (Cache_DeleteCharProfile d s k c))"
| refresh: "cache_step c (snd (Cache_RefreshProfileCache cps' c))"
| switch_of: "cache_step c (snd (snd (Cache_GetSwitchProfilesByServiceName key cp c)))"
| add_sync: "cache_step c (snd (Cache_AddSyncListener caller l c))"
| del_syncs: "cache_step c (snd (Cache_RemoveSyncListeners ls c))"
| del_sync: "cache_step c (snd (Cache_RemoveSyncListener_caller caller c))"
| del_sync_object: "cache_step c (snd (Cache_RemoveSyncListener_object l c))"
| set_switch: "cache_step c (snd (snd (Cache_SetSwitchProfile lu cp w c)))"
| set_cur: "cache_step c (Cache_SetCurSwitch w c)"
| online: "cache_step c (Cache_OnNodeOnline t c)"
| offline: "cache_step c (Cache_OnNodeOffline nid c)"
| uuid: "cache_step c (snd (Cache_GetLocalUuid nid f c))"
| trusted: "cache_step c (snd (Cache_AddAllTrustedDevices ts c))"

definition char_tab_ok :: "(string, CharacteristicProfile) umap \<Rightarrow> bool" where
  "char_tab_ok m \<longleftrightarrow> distinct (map fst m) \<and>
     (\<forall>k p. map_of m k = Some p \<longrightarrow> k = char_key (char_ident p) \<or> p = CharacteristicProfile_default)"

definition online_ok :: "(string, TrustedDeviceInfo) umap \<Rightarrow> bool" where
  "online_ok m \<longleftrightarrow> distinct (map fst m) \<and> length m \<le> MAX_TRUSTED_DEVICE_SIZE \<and>
     (\<forall>u t. map_of m u = Some t \<longrightarrow> u = td_udid t \<and> trusted_device_valid t)"

definition sync_ok :: "(string, nat option) omap \<Rightarrow> bool" where
  "sync_ok m \<longleftrightarrow> omap_wf m \<and> length m \<le> Suc MAX_LISTENER_SIZE \<and> None \<notin> snd ` set m"

definition cache_inv :: "ProfileCache \<Rightarrow> bool" where
  "cache_inv c \<longleftrightarrow>
     dev_cache.tab_ok (deviceProfileMap c) \<and> svr_cache.tab_ok (serviceProfileMap c) \<and>
     static_cache.tab_ok (staticCharProfileMap c) \<and> char_tab_ok (charProfileMap c) \<and>
     online_ok (onlineDevMap c) \<and> sync_ok (syncListenerMap c)"

lemma char_tab_ok_set:
  "char_tab_ok m \<Longrightarrow> (k, p) \<in> set m \<Longrightarrow>
   k = char_key (char_ident p) \<or> p = CharacteristicProfile_default"
  unfolding char_tab_ok_def by (metis map_of_is_SomeI)

lemma online_ok_set:
  "online_ok m \<Longrightarrow> (u, t) \<in> set m \<Longrightarrow> u = td_udid t \<and> trusted_device_valid t"
  unfolding online_ok_def by (metis map_of_is_SomeI)

lemma char_tab_ok_update:
  assumes m: "char_tab_ok m"
    and k: "k = char_key (char_ident p) \<or> p = CharacteristicProfile_default"
  shows "char_tab_ok (AList.update k p m)"
proof -
  have "k' = char_key (char_ident p') \<or> p' = CharacteristicProfile_default"
    if "map_of (AList.update k p m) k' = Some p'" for k' p'
  proof (cases "k' = k")
    case True
    with that have "p' = p" by simp
    with k True show ?thesis by blast
  next
    case False
    with that have "map_of m k' = Some p'" by simp
    with m show ?thesis unfolding char_tab_ok_def by blast
  qed
  moreover have "distinct (map fst (AList.update k p m))"
    using m by (simp add: char_tab_ok_def)
  ultimately show ?thesis unfolding char_tab_ok_def by blast
qed

lemma char_tab_ok_delete:
  assumes "char_tab_ok m"
  shows "char_tab_ok (AList.delete k m)"
proof -
  have "map_of m k' = Some p" if "map_of (AList.delete k m) k' = Some p" for k' p
    using that by (simp split: if_splits)
  with assms show ?thesis unfolding char_tab_ok_def by (meson umap_delete_distinct)
qed

lemma char_tab_ok_Nil: "char_tab_ok []"
  by (simp add: char_tab_ok_def)

lemma char_tab_ok_fold:
  "char_tab_ok m \<Longrightarrow>
   char_tab_ok (fold (\<lambda>p. AList.update (GenerateCharProfileKey (cp_deviceId p) (cp_serviceName p)
                 (cp_characteristicKey p)) p) ps m)"
  by (induction ps arbitrary: m) (simp_all add: char_tab_ok_update)

lemma online_ok_update:
  "online_ok m \<Longrightarrow> length m < MAX_TRUSTED_DEVICE_SIZE \<Longrightarrow> trusted_device_valid t \<Longrightarrow>
   online_ok (AList.update (td_udid t) t m)"
  by (auto simp: online_ok_def umap_update_length)

lemma online_ok_fold:
  "online_ok m \<Longrightarrow> length m + length ts \<le> MAX_TRUSTED_DEVICE_SIZE \<Longrightarrow>
   online_ok (fold (\<lambda>d m. if \<not> trusted_device_valid d then m else AList.update (td_udid d) d m) ts m)"
proof (induction ts arbitrary: m)
  case (Cons t ts)
  have "length (AList.update (td_udid t) t m) \<le> Suc (length m)"
    by (simp add: umap_update_length)
  with Cons show ?case by (auto intro!: Cons.IH online_ok_update)
qed simp

lemma delete_filter: "AList.delete k m = filter (\<lambda>e. fst e \<noteq> k) m"
  by (induction m) auto

lemma find_in_set: "find P m = Some x \<Longrightarrow> x \<in> set m \<and> P x"
  by (induction m) (auto split: if_splits)

lemma erase_first_sub: "set (erase_first P m) \<subseteq> set m"
  by (induction m) auto

lemma erase_first_length: "length (erase_first P m) \<le> length m"
  by (induction m) auto

lemma erase_first_distinct: "distinct (map fst m) \<Longrightarrow> distinct (map fst (erase_first P m))"
  by (induction m) (use erase_first_sub in fastforce)+

lemma online_ok_erase: "online_ok m \<Longrightarrow> online_ok (erase_first P m)"
  using erase_first_sub [of P m] erase_first_length [of P m]
  by (auto simp: online_ok_def erase_first_distinct)

lemma sync_ok_filter: "sync_ok m \<Longrightarrow> sync_ok (filter P m)"
  using le_trans [OF length_filter_le [of P m]]
  by (auto simp: sync_ok_def omap_wf_def sorted_wrt_map intro: sorted_wrt_filter)

lemma set_snd_omap_put: "snd ` set (omap_put k v m) \<subseteq> insert v (snd ` set m)"
  by (induction k v m rule: omap_put.induct) (auto simp: omap_put.simps)

lemma sync_ok_put:
  "sync_ok m \<Longrightarrow> length m \<le> MAX_LISTENER_SIZE \<Longrightarrow> sync_ok (omap_put k (Some l) m)"
  using set_snd_omap_put [of k "Some l" m] length_omap_put [of k "Some l" m]
  by (auto simp: sync_ok_def omap_wf_put)

lemma cache_inv_new: "cache_inv ProfileCache_new"
  using static_cache.tab_ok_Nil
  by (simp add: cache_inv_def ProfileCache_new_def dev_cache.tab_ok_Nil svr_cache.tab_ok_Nil
      static_cache.tab_ok_Nil char_tab_ok_Nil online_ok_def sync_ok_def)

lemma cache_inv_static: "cache_inv c \<Longrightarrow> cache_inv (snd (Cache_AddStaticCharProfile p c))"
  using static_cache.tab_ok_add [of c p]
  by (auto simp: cache_inv_def Cache_AddStaticCharProfile_def Let_def)

lemma cache_inv_statics: "cache_inv c \<Longrightarrow> cache_inv (snd (Cache_AddStaticCharProfileBatch ps c))"
proof -
  have "cache_inv c \<Longrightarrow>
      cache_inv (fold (\<lambda>(_, p) c. snd (Cache_AddStaticCharProfile p c)) ps c)" for c
    by (induction ps arbitrary: c) (auto simp: cache_inv_static)
  then show "cache_inv c \<Longrightarrow> ?thesis" by (simp add: Cache_AddStaticCharProfileBatch_def)
qed

lemma cache_step_inv: "cache_step c c' \<Longrightarrow> cache_inv c \<Longrightarrow> cache_inv c'"
proof (induction rule: cache_step.induct)
  case (uninit c)
  then show ?case
    using static_cache.tab_ok_Nil
    by (simp add: cache_inv_def Cache_UnInit_def dev_cache.tab_ok_Nil svr_cache.tab_ok_Nil
        static_cache.tab_ok_Nil char_tab_ok_Nil online_ok_def sync_ok_def)
next
  case (add_dev c p)
  then show ?case using dev_cache.tab_ok_add [of c p]
    by (auto simp: cache_inv_def Cache_AddDeviceProfile_def Let_def)
next
  case (add_svr c p)
  then show ?case using svr_cache.tab_ok_add [of c p]
    by (auto simp: cache_inv_def Cache_AddServiceProfile_def Let_def)
next
  case (add_char c p)
  then show ?case
    by (auto simp: cache_inv_def Cache_AddCharProfile_def Let_def intro!: char_tab_ok_update)
next
  case (add_static c p)
  then show ?case by (rule cache_inv_static)
next
  case (add_statics c ps)
  then show ?case by (rule cache_inv_statics)
next
  case (del_dev c d)
  then show ?case
    by (auto simp: cache_inv_def Cache_DeleteDeviceProfile_def dev_cache.tab_ok_delete)
next
  case (del_svr c d s)
  then show ?case
    by (auto simp: cache_inv_def Cache_DeleteServiceProfile_def svr_cache.tab_ok_delete)
next
  case (del_char c d s k)
  then show ?case
    by (auto simp: cache_inv_def Cache_DeleteCharProfile_def char_tab_ok_delete)
next
  case (refresh c ps)
  then show ?case
    by (simp add: cache_inv_def Cache_RefreshProfileCache_def Cache_RefreshCharProfileCache_def
        char_tab_ok_fold char_tab_ok_Nil)
next
  case (switch_of c key p)
  then show ?case
    by (auto simp: cache_inv_def Cache_GetSwitchProfilesByServiceName_def char_tab_ok_update
        split: option.splits)
next
  case (add_sync c caller l)
  then show ?case
    by (auto simp: cache_inv_def Cache_AddSyncListener_def sync_ok_put)
next
  case (del_syncs c ls)
  then show ?case
    by (simp add: cache_inv_def Cache_RemoveSyncListeners_def sync_ok_filter Let_def)
next
  case (del_sync c caller)
  then show ?case
    by (auto simp: cache_inv_def Cache_RemoveSyncListener_caller_def sync_ok_filter delete_filter
        split: option.splits)
next
  case (del_sync_object c l)
  then show ?case
    by (auto simp: cache_inv_def Cache_RemoveSyncListener_object_def sync_ok_filter delete_filter
        split: option.splits)
next
  case (set_switch c lu p w)
  then show ?case
    by (auto simp: cache_inv_def Cache_SetSwitchProfile_def Let_def split: option.splits)
next
  case (set_cur c w)
  then show ?case by (simp add: cache_inv_def Cache_SetCurSwitch_def)
next
  case (online c t)
  then show ?case by (simp add: cache_inv_def Cache_OnNodeOnline_def online_ok_update)
next
  case (offline c nid)
  then show ?case by (simp add: cache_inv_def Cache_OnNodeOffline_def online_ok_erase)
next
  case (uuid c nid f)
  then show ?case
    by (auto simp: cache_inv_def Cache_GetLocalUuid_def Let_def split: prod.splits)
next
  case (trusted c ts)
  have "online_ok []" by (simp add: online_ok_def)
  with trusted show ?case
    by (simp add: cache_inv_def Cache_AddAllTrustedDevices_def online_ok_fold)
qed

lemma cache_reach_inv: "cache_step\<^sup>*\<^sup>* ProfileCache_new c \<Longrightarrow> cache_inv c"
  by (induction rule: rtranclp_induct) (auto simp: cache_inv_new cache_step_inv)

section \<open>Switches\<close>

unbundle bit_operations_syntax

lemma from_chars_switch: "from_chars_u32 ''0'' = Some 0" "from_chars_u32 ''1'' = Some 1"
  by (simp_all add: from_chars_u32_def is_digit_def num_val_def digit_val_def)

lemma switch_valid_put:
  "Cache_IsSwitchValid p m SWITCH_OPERATE_PUT \<Longrightarrow>
   cp_characteristicValue p \<in> {SWITCH_OFF, SWITCH_ON} \<and>
   (\<exists>pos. map_of m (cp_serviceName p) = Some pos)"
  by (auto simp: Cache_IsSwitchValid_def split: if_splits)

lemma switch_word_bit:
  fixes w :: "32 word"
  assumes "i < 32"
  shows "bit (w OR push_bit pos 1) i \<longleftrightarrow> i = pos \<or> bit w i"
    "bit (w AND NOT (push_bit pos 1)) i \<longleftrightarrow> i \<noteq> pos \<and> bit w i"
  using assms by (auto simp: bit_simps bit_1_iff)

lemma to_string_bit: "to_string 0 = ''0''" "to_string 1 = ''1''"
  by code_simp+

text \<open>The word after a batch: the last profile of a switch decides its bit.\<close>

definition switch_after ::
  "CharacteristicProfile list \<Rightarrow> (string, nat) umap \<Rightarrow> 32 word \<Rightarrow> nat \<Rightarrow> bool" where
  "switch_after ps m w i =
     (case find (\<lambda>p. map_of m (cp_serviceName p) = Some i) (rev ps) of
        None \<Rightarrow> bit w i
      | Some p \<Rightarrow> cp_characteristicValue p = SWITCH_ON)"

lemma find_append: "find P (xs @ ys) = (case find P xs of None \<Rightarrow> find P ys | Some x \<Rightarrow> Some x)"
  by (induction xs) auto

lemma switch_batch_loop_bits:
  "(\<forall>p\<in>set ps. Cache_IsSwitchValid p m SWITCH_OPERATE_PUT) \<Longrightarrow>
   \<exists>w'. switch_batch_loop ps m w = (DP_SUCCESS, w') \<and>
        (\<forall>i<32. bit w' i = switch_after ps m w i)"
proof (induction ps arbitrary: w)
  case Nil
  then show ?case by (simp add: switch_after_def)
next
  case (Cons p ps)
  from Cons.prems have v: "Cache_IsSwitchValid p m SWITCH_OPERATE_PUT" by simp
  from switch_valid_put [OF v] obtain pos where pos: "map_of m (cp_serviceName p) = Some pos"
    and val: "cp_characteristicValue p \<in> {SWITCH_OFF, SWITCH_ON}" by blast
  define w1 where "w1 = (if cp_characteristicValue p = SWITCH_ON then w OR push_bit pos 1
                         else w AND NOT (push_bit pos 1))"
  have step: "switch_batch_loop (p # ps) m w = switch_batch_loop ps m w1"
    using v pos val by (auto simp: w1_def from_chars_switch)
  have "bit w1 i = (if i = pos then cp_characteristicValue p = SWITCH_ON else bit w i)"
    if "i < 32" for i
    using that by (auto simp: w1_def switch_word_bit [unfolded push_bit_of_1])
  then have "switch_after ps m w1 i = switch_after (p # ps) m w i" if "i < 32" for i
    using that pos by (auto simp: switch_after_def find_append split: option.splits)
  with Cons.IH [of w1] Cons.prems step show ?case by auto
qed

lemma switch_batch_loop_fails:
  "\<not> (\<forall>p\<in>set ps. Cache_IsSwitchValid p m SWITCH_OPERATE_PUT) \<Longrightarrow>
   fst (switch_batch_loop ps m w) = DP_INVALID_PARAMS"
proof (induction ps arbitrary: w)
  case (Cons p ps)
  show ?case
  proof (cases "Cache_IsSwitchValid p m SWITCH_OPERATE_PUT")
    case True
    from switch_valid_put [OF True] obtain pos where "map_of m (cp_serviceName p) = Some pos"
      "from_chars_u32 (cp_characteristicValue p) \<noteq> None" by (auto simp: from_chars_switch)
    with Cons True show ?thesis by (auto simp: Let_def)
  qed simp
qed simp

text \<open>C19: The switch word. \<open>SetSwitchByProfileBatch\<close> succeeds exactly on a batch of 1 to
  \<open>MAX_CHAR_SIZE\<close> profiles that are all valid switch settings, and then each bit of the new word
  is what the last profile for that switch says, and is the current word's bit where no profile
  is for it. \<open>SetSwitchByProfile\<close> is the batch of one over the word it is given. Reading a switch
  back with \<open>SetSwitchProfile\<close> gives the bit of that word as \<open>0\<close> or \<open>1\<close>, and makes the word
  the current one only for a profile of the local device.\<close>

theorem switch_word_update:
  "(let (r, w) = Cache_SetSwitchByProfileBatch ps m out c in
      (r = DP_SUCCESS \<longleftrightarrow> ps \<noteq> [] \<and> length ps \<le> MAX_CHAR_SIZE \<and>
         (\<forall>p\<in>set ps. Cache_IsSwitchValid p m SWITCH_OPERATE_PUT)) \<and>
      (r = DP_SUCCESS \<longrightarrow> (\<forall>i<32. bit w i = switch_after ps m (curLocalSwitch c) i))) \<and>
   (Cache_IsSwitchValid p m SWITCH_OPERATE_PUT \<longrightarrow>
      (\<exists>w. Cache_SetSwitchByProfile p m out = (DP_SUCCESS, w) \<and>
           (\<forall>i<32. bit w i = switch_after [p] m out i))) \<and>
   (\<forall>pos. cp_characteristicKey q = SWITCH_STATUS \<and>
          map_of SWITCH_SERVICE_MAP (cp_serviceName q) = Some pos \<longrightarrow>
      Cache_SetSwitchProfile lu q w c =
        (DP_SUCCESS,
         q\<lparr>cp_characteristicValue := (if bit w pos then SWITCH_ON else SWITCH_OFF)\<rparr>,
         if cp_deviceId q = lu then c\<lparr>curLocalSwitch := w\<rparr> else c))"
proof (intro conjI)
  show "let (r, w) = Cache_SetSwitchByProfileBatch ps m out c in
      (r = DP_SUCCESS \<longleftrightarrow> ps \<noteq> [] \<and> length ps \<le> MAX_CHAR_SIZE \<and>
         (\<forall>p\<in>set ps. Cache_IsSwitchValid p m SWITCH_OPERATE_PUT)) \<and>
      (r = DP_SUCCESS \<longrightarrow> (\<forall>i<32. bit w i = switch_after ps m (curLocalSwitch c) i))"
    using switch_batch_loop_bits [of ps m "curLocalSwitch c"]
      switch_batch_loop_fails [of ps m "curLocalSwitch c"]
    by (cases "\<forall>p\<in>set ps. Cache_IsSwitchValid p m SWITCH_OPERATE_PUT")
      (auto simp: Cache_SetSwitchByProfileBatch_def Let_def split: prod.splits)
  have "Cache_SetSwitchByProfile p m out = switch_batch_loop [p] m out"
    by (auto simp: Cache_SetSwitchByProfile_def Let_def split: option.splits)
  then show "Cache_IsSwitchValid p m SWITCH_OPERATE_PUT \<longrightarrow>
      (\<exists>w. Cache_SetSwitchByProfile p m out = (DP_SUCCESS, w) \<and>
           (\<forall>i<32. bit w i = switch_after [p] m out i))"
    using switch_batch_loop_bits [of "[p]" m out] by auto
  show "\<forall>pos. cp_characteristicKey q = SWITCH_STATUS \<and>
          map_of SWITCH_SERVICE_MAP (cp_serviceName q) = Some pos \<longrightarrow>
      Cache_SetSwitchProfile lu q w c =
        (DP_SUCCESS,
         q\<lparr>cp_characteristicValue := (if bit w pos then SWITCH_ON else SWITCH_OFF)\<rparr>,
         if cp_deviceId q = lu then c\<lparr>curLocalSwitch := w\<rparr> else c)"
  proof (intro allI impI)
    fix pos
    assume q: "cp_characteristicKey q = SWITCH_STATUS \<and>
      map_of SWITCH_SERVICE_MAP (cp_serviceName q) = Some pos"
    have "drop_bit pos (w AND push_bit pos 1) = of_bool (bit w pos)"
      by (rule bit_word_eqI) (auto simp: bit_simps bit_1_iff dest: bit_imp_le_length)
    then have "to_string (uint (drop_bit pos (w AND push_bit pos 1)))
        = (if bit w pos then SWITCH_ON else SWITCH_OFF)"
      unfolding \<open>drop_bit pos (w AND push_bit pos 1) = _\<close> by (simp add: to_string_bit)
    with q show "Cache_SetSwitchProfile lu q w c =
        (DP_SUCCESS,
         q\<lparr>cp_characteristicValue := (if bit w pos then SWITCH_ON else SWITCH_OFF)\<rparr>,
         if cp_deviceId q = lu then c\<lparr>curLocalSwitch := w\<rparr> else c)"
      by (simp add: Cache_SetSwitchProfile_def Cache_IsSwitchValid_def SWITCH_SERVICE_MAP_def)
  qed
qed

lemma switch_word_update_witness:
  "let edge = CharacteristicProfile_make ''u'' ''SwitchStatus_Key_Mouse_Edge_Crossing'' SWITCH_STATUS;
       wifi = CharacteristicProfile_make ''u'' ''SwitchStatus_Wifi_Display_Service'' SWITCH_STATUS;
       (r, w) = Cache_SetSwitchByProfileBatch [edge ''1'', wifi ''1'', edge ''0''] SWITCH_SERVICE_MAP
                  0 (ProfileCache_new\<lparr>curLocalSwitch := 5\<rparr>) in
   r = DP_SUCCESS \<and> \<not> bit w 0 \<and> bit w 2 \<and> bit w 3"
proof -
  let ?edge = "CharacteristicProfile_make ''u'' ''SwitchStatus_Key_Mouse_Edge_Crossing'' SWITCH_STATUS"
  let ?wifi = "CharacteristicProfile_make ''u'' ''SwitchStatus_Wifi_Display_Service'' SWITCH_STATUS"
  have v: "\<forall>p\<in>set [?edge ''1'', ?wifi ''1'', ?edge ''0''].
      Cache_IsSwitchValid p SWITCH_SERVICE_MAP SWITCH_OPERATE_PUT"
    by (simp add: Cache_IsSwitchValid_def CharacteristicProfile_make_def SWITCH_SERVICE_MAP_def)
  have b: "bit (5 :: 32 word) 2" by simp
  have s: "\<not> switch_after [?edge ''1'', ?wifi ''1'', ?edge ''0''] SWITCH_SERVICE_MAP 5 0"
    "switch_after [?edge ''1'', ?wifi ''1'', ?edge ''0''] SWITCH_SERVICE_MAP 5 2"
    "switch_after [?edge ''1'', ?wifi ''1'', ?edge ''0''] SWITCH_SERVICE_MAP 5 3"
    using b by (simp_all add: switch_after_def CharacteristicProfile_make_def SWITCH_SERVICE_MAP_def)
  show ?thesis
    using conjunct1 [OF switch_word_update [of "[?edge ''1'', ?wifi ''1'', ?edge ''0'']"
        SWITCH_SERVICE_MAP 0 "ProfileCache_new\<lparr>curLocalSwitch := 5\<rparr>"]] v s
    by (auto simp: Let_def split: prod.splits)
qed

section \<open>Properties of the tables\<close>

text \<open>What the characteristic table promises. After a successful \<open>AddCharProfile\<close> the profile
  is read back under its identity, \<open>IsCharProfileExist\<close> holds of it, and every other valid
  identity reads as before; after \<open>DeleteCharProfile\<close> its identity is not found and the others
  are untouched. Adding fails only for an invalid identity or a full table, without effect.\<close>

theorem cache_char_laws:
  assumes "char_ok (d, s, k)"
  shows "(\<forall>c'. Cache_AddCharProfile p c = (DP_SUCCESS, c') \<longrightarrow>
      Cache_IsCharProfileExist p c' \<and>
      Cache_GetCharacteristicProfile d s k q c' =
        (if (d, s, k) = char_ident p then (DP_SUCCESS, p)
         else Cache_GetCharacteristicProfile d s k q c)) \<and>
    (char_ok (char_ident p) \<longrightarrow>
      Cache_GetCharacteristicProfile d s k q (snd (Cache_DeleteCharProfile (cp_deviceId p)
          (cp_serviceName p) (cp_characteristicKey p) c)) =
        (if (d, s, k) = char_ident p then (DP_NOT_FOUND_FAIL, q)
         else Cache_GetCharacteristicProfile d s k q c)) \<and>
    (fst (Cache_AddCharProfile p c) \<noteq> DP_SUCCESS \<longleftrightarrow>
      \<not> char_ok (char_ident p) \<or> MAX_CHAR_SIZE < length (charProfileMap c)) \<and>
    (fst (Cache_AddCharProfile p c) \<noteq> DP_SUCCESS \<longrightarrow> snd (Cache_AddCharProfile p c) = c)"
proof -
  have "fst (Cache_AddCharProfile p c) \<noteq> DP_SUCCESS \<longleftrightarrow>
      \<not> char_ok (char_ident p) \<or> MAX_CHAR_SIZE < length (charProfileMap c)"
    "fst (Cache_AddCharProfile p c) \<noteq> DP_SUCCESS \<longrightarrow> snd (Cache_AddCharProfile p c) = c"
    by (auto simp: Cache_AddCharProfile_def Let_def)
  then show ?thesis
    using char_cache.get_after_add [of p c _ "(d, s, k)" q] char_cache.exist_after_add [of p c]
      char_cache.get_after_del [of "char_ident p" "(d, s, k)" q c] assms
    by auto
qed

lemma cache_char_laws_witness:
  "let p = CharacteristicProfile_make ''u1'' ''svc'' ''k'' ''v'';
       c' = snd (Cache_AddCharProfile p ProfileCache_new) in
   Cache_GetCharacteristicProfile ''u1'' ''svc'' ''k'' CharacteristicProfile_default c'
     = (DP_SUCCESS, p)"
  using cache_char_laws [of "''u1''" "''svc''" "''k''"
      "CharacteristicProfile_make ''u1'' ''svc'' ''k'' ''v''" ProfileCache_new
      CharacteristicProfile_default]
  by (simp add: Cache_AddCharProfile_def CharacteristicProfile_make_def IsKeyValid_iff
      ProfileCache_new_def)



lemma find_unique:
  assumes "distinct (map f xs)" "x \<in> set xs"
  shows "find (\<lambda>y. f y = f x) xs = Some x"
  using assms by (induction xs) auto

lemma erase_first_unique:
  assumes "distinct (map f xs)" "x \<in> set xs"
  shows "erase_first (\<lambda>y. f y = f x) xs = filter (\<lambda>y. y \<noteq> x) xs"
  using assms
proof (induction xs)
  case (Cons y ys)
  have "filter (\<lambda>z. z \<noteq> y) ys = ys" if "y \<notin> set ys"
    using that by (induction ys) auto
  moreover have "y \<notin> set ys" using Cons.prems(1) by auto
  ultimately show ?case using Cons by auto
qed simp

text \<open>Online devices. In a reachable cache whose online devices have different network ids,
  none of them the local one, the lookups between udid and network id are inverse to each other on
  the online devices; and when a device goes offline exactly its own lookups fail from then on.\<close>

theorem online_lookup_inverse:
  assumes "cache_step\<^sup>*\<^sup>* ProfileCache_new c"
    and "distinct (map (\<lambda>e. td_networkId (snd e)) (onlineDevMap c))"
    and "(u, t) \<in> set (onlineDevMap c)"
    and "lu \<notin> fst ` set (onlineDevMap c)"
    and "ln \<notin> (\<lambda>e. td_networkId (snd e)) ` set (onlineDevMap c)"
  shows "Cache_GetNetWorkIdByUdid lu ln u x c = (DP_SUCCESS, td_networkId t) \<and>
    Cache_GetUdidByNetWorkId lu ln (td_networkId t) y c = (DP_SUCCESS, u) \<and>
    (let c' = Cache_OnNodeOffline (td_networkId t) c in
      Cache_GetUdidByNetWorkId lu ln (td_networkId t) [] c' = (DP_GET_UDID_BY_NETWORKID_FAIL, []) \<and>
      (\<forall>v. v \<noteq> [] \<longrightarrow> Cache_GetNetWorkIdByUdid lu ln v x c' =
        (if v = u then (DP_GET_NETWORKID_BY_UDID_FAIL, x) else Cache_GetNetWorkIdByUdid lu ln v x c)))"
proof -
  let ?m = "onlineDevMap c" and ?f = "\<lambda>e. td_networkId (snd e)"
  have ok: "online_ok ?m" using cache_reach_inv [OF assms(1)] by (simp add: cache_inv_def)
  from online_ok_set [OF ok assms(3)] have u: "u = td_udid t" "u \<noteq> []" "td_networkId t \<noteq> []"
    by (auto simp: trusted_device_valid_def)
  have d: "distinct (map fst ?m)" using ok by (simp add: online_ok_def)
  have lu: "u \<noteq> lu" "ln \<noteq> td_networkId t" using assms(3-5) by force+
  have f: "find (\<lambda>e. td_networkId (snd e) = td_networkId t) ?m = Some (u, t)"
    using find_unique [OF assms(2,3)] by simp
  have e: "erase_first (\<lambda>e. td_networkId (snd e) = td_networkId t) ?m = filter (\<lambda>e. e \<noteq> (u, t)) ?m"
    using erase_first_unique [OF assms(2,3)] by simp
  have inj: "e = (u, t)" if "e \<in> set ?m" "td_networkId (snd e) = td_networkId t" for e
    using that inj_onD [of ?f "set ?m" e "(u, t)"] assms(2,3) by (simp add: distinct_map)
  have gone: "find (\<lambda>e. td_networkId (snd e) = td_networkId t) (filter (\<lambda>e. e \<noteq> (u, t)) ?m) = None"
    using inj by (auto simp: find_None_iff)
  have "filter (\<lambda>e. e \<noteq> (u, t)) ?m = AList.delete u ?m"
    unfolding delete_filter
  proof (rule filter_cong [OF refl])
    fix e
    assume "e \<in> set ?m"
    then show "(e \<noteq> (u, t)) = (fst e \<noteq> u)"
      using eq_key_imp_eq_value [OF d _ assms(3)] by (metis fst_conv prod.collapse)
  qed
  then have m: "map_of (filter (\<lambda>e. e \<noteq> (u, t)) ?m) = (map_of ?m)(u := None)" by simp
  have mu: "map_of ?m u = Some t" using d assms(3) by simp
  show ?thesis
    using u(2,3) lu f gone mu
    by (simp add: Cache_GetNetWorkIdByUdid_def Cache_GetUdidByNetWorkId_def
        Cache_OnNodeOffline_def e m Let_def)
qed

lemma online_lookup_inverse_witness:
  "let a = TrustedDeviceInfo ''nid1'' 1 14 ''6.0'' 10 ''udid1'' ''uuid1'';
       b = TrustedDeviceInfo ''nid2'' 1 14 ''6.0'' 10 ''udid2'' ''uuid2'';
       c = Cache_OnNodeOnline b (Cache_OnNodeOnline a ProfileCache_new) in
   Cache_GetUdidByNetWorkId ''me'' ''mynid'' ''nid1'' [] c = (DP_SUCCESS, ''udid1'') \<and>
   fst (Cache_GetNetWorkIdByUdid ''me'' ''mynid'' ''udid1'' []
     (Cache_OnNodeOffline ''nid1'' c)) = DP_GET_NETWORKID_BY_UDID_FAIL"
proof -
  let ?a = "TrustedDeviceInfo ''nid1'' 1 14 ''6.0'' 10 ''udid1'' ''uuid1''"
  let ?b = "TrustedDeviceInfo ''nid2'' 1 14 ''6.0'' 10 ''udid2'' ''uuid2''"
  let ?c = "Cache_OnNodeOnline ?b (Cache_OnNodeOnline ?a ProfileCache_new)"
  have r: "cache_step\<^sup>*\<^sup>* ProfileCache_new ?c"
    by (meson cache_step.online rtranclp.rtrancl_into_rtrancl rtranclp.rtrancl_refl)
  have m: "onlineDevMap ?c = [(''udid1'', ?a), (''udid2'', ?b)]"
    by (simp add: Cache_OnNodeOnline_def trusted_device_valid_def ProfileCache_new_def)
  show ?thesis
    using online_lookup_inverse [OF r, of "''udid1''" ?a "''me''" "''mynid''" "[]" "[]"]
    by (simp add: m Let_def)
qed

text \<open>\<open>FilterAndGroupOnlineDevices\<close> gives back, in the order of the table, exactly the online
  devices whose network id is in the list: those with the OpenHarmony OS type by network id, the
  others with udid, network id and whether the bind is point to point; an empty or oversized list
  is refused without touching the results.\<close>

theorem filter_group_partition:
  "Cache_FilterAndGroupOnlineDevices p2p ids oh notOh c =
     (if ids = [] \<or> MAX_DEVICE_SIZE < length ids then (False, oh, notOh)
      else (True,
        oh @ map (\<lambda>e. td_networkId (snd e)) (filter (\<lambda>e. td_networkId (snd e) \<in> set ids \<and>
               td_osType (snd e) = OHOS_TYPE) (onlineDevMap c)),
        notOh @ map (\<lambda>e. (td_udid (snd e), td_networkId (snd e), p2p (td_authForm (snd e))))
          (filter (\<lambda>e. td_networkId (snd e) \<in> set ids \<and> td_osType (snd e) \<noteq> OHOS_TYPE)
             (onlineDevMap c))))"
proof -
  have "fold (\<lambda>(_, d) (oh, notOh).
             if td_networkId d \<notin> set ids then (oh, notOh)
             else if td_osType d = OHOS_TYPE then (oh @ [td_networkId d], notOh)
             else (oh, notOh @ [(td_udid d, td_networkId d, p2p (td_authForm d))])) m (oh, notOh) =
      (oh @ map (\<lambda>e. td_networkId (snd e)) (filter (\<lambda>e. td_networkId (snd e) \<in> set ids \<and>
               td_osType (snd e) = OHOS_TYPE) m),
       notOh @ map (\<lambda>e. (td_udid (snd e), td_networkId (snd e), p2p (td_authForm (snd e))))
          (filter (\<lambda>e. td_networkId (snd e) \<in> set ids \<and> td_osType (snd e) \<noteq> OHOS_TYPE) m))"
    for m :: "(string \<times> TrustedDeviceInfo) list"
    by (induction m arbitrary: oh notOh) auto
  then show ?thesis by (simp add: Cache_FilterAndGroupOnlineDevices_def)
qed

end
