(* ===== verification/ProfileEntries.thy ===== *)
theory ProfileEntries
  imports ProfileKeys
begin

text \<open>
  Profiles as database entries (\<open>common/src/utils/profile_utils.cpp\<close>): the \<open>*ToEntries\<close>
  functions write a profile's properties under its keys, once per user when the profile is
  multi-user; the \<open>EntriesTo*\<close> functions read the properties a user may see back from a map of
  entries. The lemmas show that what one user writes the same user reads, that entries without
  a user are read by every user, and that no user reads another user's entries.
\<close>

section \<open>Profiles to entries\<close>

definition DeviceProfileToEntries ::
  "DeviceProfile \<Rightarrow> (string, string) omap \<Rightarrow> bool \<Rightarrow> dp_ret \<times> (string, string) omap" where
  "DeviceProfileToEntries profile values isMultiUser =
     (let key = GenerateDeviceProfileKey (dp_deviceId profile) in
      if isMultiUser then
        let values = omap_put (GenerateDBKey key OS_SYS_CAPACITY (dp_userId profile))
                       (dp_osSysCap profile) values;
            values = omap_put (GenerateDBKey key OS_VERSION (dp_userId profile))
                       (dp_osVersion profile) values;
            values = omap_put (GenerateDBKey key OS_TYPE (dp_userId profile))
                       (to_string (dp_osType profile)) values;
            values = omap_put (GenerateDBKey key (OS_VERSION @ OH_PROFILE_SUFFIX) (dp_userId profile))
                       (dp_osVersion profile) values;
            values = omap_put (GenerateDBKey key (OS_TYPE @ OH_PROFILE_SUFFIX) (dp_userId profile))
                       (to_string (dp_osType profile)) values
        in (DP_SUCCESS, values)
      else
        let values = omap_put (GenerateDBKey key OS_SYS_CAPACITY DEFAULT_USER_ID)
                       (dp_osSysCap profile) values;
            values = omap_put (GenerateDBKey key OS_VERSION DEFAULT_USER_ID)
                       (dp_osVersion profile) values;
            values = omap_put (GenerateDBKey key OS_TYPE DEFAULT_USER_ID)
                       (to_string (dp_osType profile)) values;
            values = omap_put (GenerateDBKey key (OS_VERSION @ OH_PROFILE_SUFFIX) DEFAULT_USER_ID)
                       (dp_osVersion profile) values;
            values = omap_put (GenerateDBKey key (OS_TYPE @ OH_PROFILE_SUFFIX) DEFAULT_USER_ID)
                       (to_string (dp_osType profile)) values
        in (DP_SUCCESS, values))"

definition ServiceProfileToEntries ::
  "ServiceProfile \<Rightarrow> (string, string) omap \<Rightarrow> bool \<Rightarrow> dp_ret \<times> (string, string) omap" where
  "ServiceProfileToEntries profile values isMultiUser =
     (let serviceName = CheckAndAddOhSuffix (sp_serviceName profile) True;
          key = GenerateServiceProfileKey (sp_deviceId profile) serviceName in
      if isMultiUser then
        let values = omap_put (GenerateDBKey key SERVICE_NAME (sp_userId profile))
                       (sp_serviceName profile) values;
            values = omap_put (GenerateDBKey key SERVICE_TYPE (sp_userId profile))
                       (sp_serviceType profile) values
        in (DP_SUCCESS, values)
      else
        let values = omap_put (GenerateDBKey key SERVICE_NAME DEFAULT_USER_ID)
                       (sp_serviceName profile) values;
            values = omap_put (GenerateDBKey key SERVICE_TYPE DEFAULT_USER_ID)
                       (sp_serviceType profile) values
        in (DP_SUCCESS, values))"

definition CharacteristicProfileToEntries ::
  "CharacteristicProfile \<Rightarrow> (string, string) omap \<Rightarrow> bool \<Rightarrow> dp_ret \<times> (string, string) omap" where
  "CharacteristicProfileToEntries profile values isMultiUser =
     (let serviceName = CheckAndAddOhSuffix (cp_serviceName profile) True;
          key = GenerateCharProfileKey (cp_deviceId profile) serviceName
                  (cp_characteristicKey profile) in
      if isMultiUser then
        let values = omap_put (GenerateDBKey key CHARACTERISTIC_KEY (cp_userId profile))
                       (cp_characteristicKey profile) values;
            values = omap_put (GenerateDBKey key CHARACTERISTIC_VALUE (cp_userId profile))
                       (cp_characteristicValue profile) values
        in (DP_SUCCESS, values)
      else
        let values = omap_put (GenerateDBKey key CHARACTERISTIC_KEY DEFAULT_USER_ID)
                       (cp_characteristicKey profile) values;
            values = omap_put (GenerateDBKey key CHARACTERISTIC_VALUE DEFAULT_USER_ID)
                       (cp_characteristicValue profile) values
        in (DP_SUCCESS, values))"

section \<open>Entries to profiles\<close>

text \<open>The two accumulators are the properties without and with a user id.\<close>

definition GetProfilePropertiesMap ::
  "(string, string) omap \<Rightarrow> int \<Rightarrow> (string, string) omap" where
  "GetProfilePropertiesMap dbEntries userId =
     (if userId \<le> 0 \<and> userId \<noteq> DEFAULT_USER_ID then []
      else let (withoutUserId, withUserId) =
             fold (\<lambda>(key, val) (wo, wi).
                     let profileProperty = GetProfileProperty key userId in
                     if profileProperty = [] then (wo, wi)
                     else if GetUserIdFromDbKey key = DEFAULT_USER_ID
                     then (omap_put profileProperty val wo, wi)
                     else (wo, omap_put profileProperty val wi)) dbEntries ([], [])
           in if userId \<noteq> DEFAULT_USER_ID \<and> withUserId \<noteq> [] then withUserId else withoutUserId)"

definition IsPropertyValid :: "(string, string) omap \<Rightarrow> string \<Rightarrow> nat \<Rightarrow> bool" where
  "IsPropertyValid propertyMap prop maxValue \<longleftrightarrow>
     (case map_of propertyMap prop of
        None \<Rightarrow> False
      | Some v \<Rightarrow> 0 < length v \<and> length v < maxValue)"

definition IsPropertyValid_num :: "(string, string) omap \<Rightarrow> string \<Rightarrow> int \<Rightarrow> int \<Rightarrow> bool" where
  "IsPropertyValid_num propertyMap prop minValue maxValue \<longleftrightarrow>
     (if prop = [] then False
      else case map_of propertyMap prop of
             None \<Rightarrow> False
           | Some v \<Rightarrow> IsNumStr v \<and> minValue < atoi v \<and> atoi v < maxValue)"

definition EntriesToDeviceProfile ::
  "(string, string) omap \<Rightarrow> DeviceProfile \<Rightarrow> dp_ret \<times> DeviceProfile" where
  "EntriesToDeviceProfile values profile =
     (if values = [] \<or> length values > MAX_DB_RECORD_SIZE then (DP_INVALID_PARAMS, profile)
      else let m = GetProfilePropertiesMap values (dp_userId profile);
               p = (if IsPropertyValid m OS_SYS_CAPACITY MAX_STRING_LEN
                    then profile\<lparr>dp_osSysCap := the (map_of m OS_SYS_CAPACITY)\<rparr> else profile);
               p = (if IsPropertyValid m OS_VERSION MAX_STRING_LEN
                    then p\<lparr>dp_osVersion := the (map_of m OS_VERSION)\<rparr> else p);
               p = (if IsPropertyValid m (OS_VERSION @ OH_PROFILE_SUFFIX) MAX_STRING_LEN
                    then p\<lparr>dp_osVersion := the (map_of m (OS_VERSION @ OH_PROFILE_SUFFIX))\<rparr> else p);
               p = (if IsPropertyValid_num m OS_TYPE MIN_OS_TYPE MAX_OS_TYPE
                    then p\<lparr>dp_osType := atoi (the (map_of m OS_TYPE))\<rparr> else p);
               p = (if IsPropertyValid_num m (OS_TYPE @ OH_PROFILE_SUFFIX) MIN_OS_TYPE MAX_OS_TYPE
                    then p\<lparr>dp_osType := atoi (the (map_of m (OS_TYPE @ OH_PROFILE_SUFFIX)))\<rparr> else p)
           in (DP_SUCCESS, p))"

definition EntriesToServiceProfile ::
  "(string, string) omap \<Rightarrow> ServiceProfile \<Rightarrow> dp_ret \<times> ServiceProfile" where
  "EntriesToServiceProfile values profile =
     (if values = [] \<or> length values > MAX_DB_RECORD_SIZE then (DP_INVALID_PARAMS, profile)
      else let p = profile\<lparr>sp_deviceId := GetDeviceIdByDBKey (fst (hd values))\<rparr>;
               m = GetProfilePropertiesMap values (sp_userId profile);
               p = (if IsPropertyValid m SERVICE_NAME MAX_STRING_LEN
                    then p\<lparr>sp_serviceName := CheckAndRemoveOhSuffix (the (map_of m SERVICE_NAME))\<rparr>
                    else p);
               p = (if IsPropertyValid m SERVICE_TYPE MAX_STRING_LEN
                    then p\<lparr>sp_serviceType := the (map_of m SERVICE_TYPE)\<rparr> else p)
           in (DP_SUCCESS, p))"

definition EntriesToCharProfile ::
  "(string, string) omap \<Rightarrow> CharacteristicProfile \<Rightarrow> dp_ret \<times> CharacteristicProfile" where
  "EntriesToCharProfile values profile =
     (if values = [] \<or> length values > MAX_DB_RECORD_SIZE then (DP_INVALID_PARAMS, profile)
      else let p = profile\<lparr>cp_deviceId := GetDeviceIdByDBKey (fst (hd values))\<rparr>;
               p = p\<lparr>cp_serviceName := GetNonOhSuffixServiceNameByDBKey (fst (hd values))\<rparr>;
               m = GetProfilePropertiesMap values (cp_userId profile);
               p = (if IsPropertyValid m CHARACTERISTIC_KEY MAX_STRING_LEN
                    then p\<lparr>cp_characteristicKey := the (map_of m CHARACTERISTIC_KEY)\<rparr> else p);
               p = (if IsPropertyValid m CHARACTERISTIC_VALUE MAX_STRING_LEN
                    then p\<lparr>cp_characteristicValue := the (map_of m CHARACTERISTIC_VALUE)\<rparr> else p)
           in (DP_SUCCESS, p))"

section \<open>Which properties a user sees\<close>

lemma map_of_fold_omap_put:
  assumes "inj_on f (fst ` set es)" "distinct (map fst es)" "k \<in> fst ` set es"
  shows "map_of (fold (\<lambda>(k, v). omap_put (f k) v) es m) (f k) = map_of es k"
  using assms
proof (induction es arbitrary: m)
  case (Cons e es)
  obtain k' v' where e: "e = (k', v')" by force
  have other: "map_of (fold (\<lambda>(k, v). omap_put (f k) v) es m) x = map_of m x"
    if "x \<notin> f ` fst ` set es" for x m
    using that by (induction es arbitrary: m) auto
  show ?case
  proof (cases "k \<in> fst ` set es")
    case True
    then have "k \<noteq> k'" using Cons.prems e by auto
    with Cons True e show ?thesis by (auto simp: inj_on_def)
  next
    case False
    with Cons.prems e have k: "k = k'" by auto
    with False Cons.prems e have "f k \<notin> f ` fst ` set es" by (auto simp: inj_on_def)
    with e k show ?thesis by (simp add: other)
  qed
qed simp

lemma fst_in_fold_omap_put:
  "map_of (fold (\<lambda>(k, v). omap_put (f k) v) es m) x \<noteq> None \<longleftrightarrow>
     x \<in> f ` fst ` set es \<or> map_of m x \<noteq> None"
proof (induction es arbitrary: m)
  case (Cons e es)
  then show ?case by (cases e) (auto split: if_splits)
qed simp

context key_scheme
begin

text \<open>The entries \<open>es\<close> of the identity \<open>a\<close> and user \<open>u\<close>, under readable keys.\<close>

definition entries_of :: "'a \<Rightarrow> int \<Rightarrow> (string, string) omap \<Rightarrow> bool" where
  "entries_of a u es \<longleftrightarrow> omap_wf es \<and>
     (\<forall>k\<in>fst ` set es. len_ok k \<and> (\<exists>p. IsKeyValid p \<and> k = GenerateDBKey (pk a) p u))"

lemma entries_of_Nil: "entries_of a u []"
  by (simp add: entries_of_def omap_wf_def)

lemma entries_of_put:
  "entries_of a u es \<Longrightarrow> IsKeyValid p \<Longrightarrow> len_ok (GenerateDBKey (pk a) p u) \<Longrightarrow>
   entries_of a u (omap_put (GenerateDBKey (pk a) p u) x es)"
  by (auto simp: entries_of_def omap_wf_put)

lemma properties_map:
  assumes ok: "ok a" and u: "- (2 ^ 31) \<le> u" "u < 2 ^ 31"
    and es: "entries_of a u es" and v: "v = DEFAULT_USER_ID \<or> 0 < v"
    and p: "IsKeyValid p"
  shows "map_of (GetProfilePropertiesMap es v) p =
    (if v = u \<or> u = DEFAULT_USER_ID then map_of es (GenerateDBKey (pk a) p u) else None)"
proof -
  let ?f = "\<lambda>k. GetProfileProperty k v"
  let ?step = "\<lambda>(key, val) (wo, wi). let pp = GetProfileProperty key v in
                 if pp = [] then (wo, wi)
                 else if GetUserIdFromDbKey key = DEFAULT_USER_ID then (omap_put pp val wo, wi)
                 else (wo, omap_put pp val wi)"
  have key: "GetUserIdFromDbKey k = u \<and> len_ok k \<and>
      (\<exists>q. k = GenerateDBKey (pk a) q u \<and> IsKeyValid q \<and>
         ?f k = (if u = v \<or> u = DEFAULT_USER_ID then q else []))"
    if "k \<in> fst ` set es" for k
    using es that user_id [OF ok _ u] profile_property [OF ok _ u]
    unfolding entries_of_def by (metis IsKeyValid_iff)
  have fold_wi: "fold ?step xs (wo, wi) = (wo, fold (\<lambda>(k, x). omap_put (?f k) x) xs wi)"
    if "set xs \<subseteq> set es" "u = v" "u \<noteq> DEFAULT_USER_ID" for xs wo wi
    using that
  proof (induction xs arbitrary: wi)
    case (Cons x xs)
    then show ?case using key [of "fst x"] by (force simp: IsKeyValid_iff split: prod.splits)
  qed simp
  have fold_wo: "fold ?step xs (wo, wi) = (fold (\<lambda>(k, x). omap_put (?f k) x) xs wo, wi)"
    if "set xs \<subseteq> set es" "u = DEFAULT_USER_ID" for xs wo wi
    using that
  proof (induction xs arbitrary: wo)
    case (Cons x xs)
    then show ?case using key [of "fst x"] by (force simp: IsKeyValid_iff split: prod.splits)
  qed simp
  have fold_no: "fold ?step xs (wo, wi) = (wo, wi)"
    if "set xs \<subseteq> set es" "u \<noteq> v" "u \<noteq> DEFAULT_USER_ID" for xs wo wi
    using that
  proof (induction xs)
    case (Cons x xs)
    then show ?case using key [of "fst x"] by (force split: prod.splits)
  qed simp
  have fold_ne: "fold (\<lambda>(k, x). omap_put (?f k) x) es [] \<noteq> [] \<or> es = []"
    by (cases es rule: rev_cases) (auto split: prod.splits)
  have val: "map_of (fold (\<lambda>(k, x). omap_put (?f k) x) es []) p = map_of es (GenerateDBKey (pk a) p u)"
    if vis: "u = v \<or> u = DEFAULT_USER_ID"
  proof (cases "GenerateDBKey (pk a) p u \<in> fst ` set es")
    case True
    have "inj_on ?f (fst ` set es)"
      by (rule inj_onI) (metis key vis)
    moreover have "?f (GenerateDBKey (pk a) p u) = p"
      using profile_property [OF ok _ u, of p v] key [OF True] p vis
      by (auto simp: IsKeyValid_iff)
    ultimately show ?thesis
      using map_of_fold_omap_put [of ?f es "GenerateDBKey (pk a) p u" "[]"] True es
      by (simp add: entries_of_def omap_wf_distinct)
  next
    case False
    have "p \<notin> ?f ` fst ` set es"
    proof
      assume "p \<in> ?f ` fst ` set es"
      then obtain k where k: "k \<in> fst ` set es" "p = ?f k" by blast
      with key [OF k(1)] vis have "k = GenerateDBKey (pk a) p u" by auto
      with k(1) False show False by metis
    qed
    then have "map_of (fold (\<lambda>(k, x). omap_put (?f k) x) es []) p = None"
      using fst_in_fold_omap_put [of ?f es "[]" p] by auto
    moreover have "map_of es (GenerateDBKey (pk a) p u) = None"
      using False by (simp add: map_of_eq_None_iff)
    ultimately show ?thesis by simp
  qed
  have v': "\<not> (v \<le> 0 \<and> v \<noteq> DEFAULT_USER_ID)" using v by auto
  have eq: "GetProfilePropertiesMap es v =
      (case fold ?step es ([], []) of (wo, wi) \<Rightarrow>
        if v \<noteq> DEFAULT_USER_ID \<and> wi \<noteq> [] then wi else wo)"
    unfolding GetProfilePropertiesMap_def if_not_P [OF v'] Let_def by simp
  consider "u = DEFAULT_USER_ID" | "u \<noteq> DEFAULT_USER_ID" "u = v"
    | "u \<noteq> DEFAULT_USER_ID" "u \<noteq> v" by blast
  then show ?thesis
  proof cases
    case 1
    then show ?thesis unfolding eq fold_wo [OF subset_refl 1] using val by simp
  next
    case 2
    from fold_ne have "map_of (if fold (\<lambda>(k, x). omap_put (?f k) x) es [] \<noteq> []
        then fold (\<lambda>(k, x). omap_put (?f k) x) es [] else []) p
      = map_of (fold (\<lambda>(k, x). omap_put (?f k) x) es []) p" by simp
    then show ?thesis unfolding eq fold_wi [OF subset_refl 2(2,1)] using val 2 by simp
  next
    case 3
    then show ?thesis unfolding eq fold_no [OF subset_refl 3(2,1)] by simp
  qed
qed

end

lemma GenerateDBKey_same_iff [simp]:
  "GenerateDBKey k p u = GenerateDBKey k q u \<longleftrightarrow> p = q"
  by (simp add: GenerateDBKey_def)

lemma len_ok_GenerateDBKey:
  "- (2 ^ 31) \<le> u \<Longrightarrow> u < 2 ^ 31 \<Longrightarrow> length k + length p \<le> 4080 \<Longrightarrow>
   len_ok (GenerateDBKey k p u)"
  using length_to_string [of u] by (auto simp: len_ok_def GenerateDBKey_def)

lemma CheckAndAddOhSuffix_valid: "IsKeyValid s \<Longrightarrow> IsKeyValid (CheckAndAddOhSuffix s True)"
  by (auto simp: CheckAndAddOhSuffix_def IsNeedAddOhSuffix_def IsKeyValid_iff)

lemma CheckAndAddOhSuffix_length: "length (CheckAndAddOhSuffix s b) \<le> length s + 3"
  by (simp add: CheckAndAddOhSuffix_def)

lemma CheckAndRemoveOhSuffix_id: "\<not> EndsWith s OH_PROFILE_SUFFIX \<Longrightarrow> CheckAndRemoveOhSuffix s = s"
  by (simp add: CheckAndRemoveOhSuffix_def)

lemma CheckAndRemove_Add:
  "\<not> EndsWith s OH_PROFILE_SUFFIX \<Longrightarrow> CheckAndRemoveOhSuffix (CheckAndAddOhSuffix s True) = s"
  by (auto simp: CheckAndAddOhSuffix_def CheckAndRemoveOhSuffix_def EndsWith_def)

lemmas property_tests = IsPropertyValid_def IsPropertyValid_num_def

lemma valid_properties:
  "IsKeyValid ''osSysCapacity''" "IsKeyValid ''osVersion''" "IsKeyValid ''osType''"
  "IsKeyValid ''osVersion_OH''" "IsKeyValid ''osType_OH''"
  "IsKeyValid ''serviceName''" "IsKeyValid ''serviceType''"
  "IsKeyValid ''characteristicKey''" "IsKeyValid ''characteristicValue''"
  by (simp_all add: IsKeyValid_iff)

section \<open>Round trips\<close>

abbreviation written_user :: "bool \<Rightarrow> int \<Rightarrow> int" where
  "written_user isMultiUser userId \<equiv> if isMultiUser then userId else DEFAULT_USER_ID"

lemma device_entries_read:
  assumes "IsKeyValid (dp_deviceId p)" "length (dp_deviceId p) \<le> 4000"
    and "- (2 ^ 31) \<le> dp_userId p" "dp_userId p < 2 ^ 31"
    and "dp_osSysCap p \<noteq> []" "length (dp_osSysCap p) < MAX_STRING_LEN"
    and "dp_osVersion p \<noteq> []" "length (dp_osVersion p) < MAX_STRING_LEN"
    and "MIN_OS_TYPE < dp_osType p" "dp_osType p < MAX_OS_TYPE"
    and "dp_userId q = DEFAULT_USER_ID \<or> 0 < dp_userId q"
  shows "let u = written_user mu (dp_userId p) in
    EntriesToDeviceProfile (snd (DeviceProfileToEntries p [] mu)) q =
      (DP_SUCCESS,
       if u = dp_userId q \<or> u = DEFAULT_USER_ID
       then q\<lparr>dp_osSysCap := dp_osSysCap p, dp_osVersion := dp_osVersion p,
              dp_osType := dp_osType p\<rparr>
       else q)"
proof -
  define u where "u = written_user mu (dp_userId p)"
  define K where "K = GenerateDeviceProfileKey (dp_deviceId p)"
  have u: "- (2 ^ 31) \<le> u" "u < 2 ^ 31" using assms(3,4) by (auto simp: u_def)
  have K: "length K \<le> 4004" using assms(2) by (simp add: K_def GenerateDeviceProfileKey_def)
  define es where "es = snd (DeviceProfileToEntries p [] mu)"
  have es: "es = omap_put (GenerateDBKey K ''osType_OH'' u) (to_string (dp_osType p))
      (omap_put (GenerateDBKey K ''osVersion_OH'' u) (dp_osVersion p)
      (omap_put (GenerateDBKey K ''osType'' u) (to_string (dp_osType p))
      (omap_put (GenerateDBKey K ''osVersion'' u) (dp_osVersion p)
      (omap_put (GenerateDBKey K ''osSysCapacity'' u) (dp_osSysCap p) []))))"
    by (simp add: es_def DeviceProfileToEntries_def Let_def K_def u_def)
  have "dev.entries_of (dp_deviceId p) u es"
    unfolding es K_def
    by (intro dev.entries_of_put dev.entries_of_Nil valid_properties len_ok_GenerateDBKey [OF u])
      (use K [unfolded K_def] in simp_all)
  from dev.properties_map [OF assms(1) u this assms(11)] have pm:
    "IsKeyValid x \<Longrightarrow> map_of (GetProfilePropertiesMap es (dp_userId q)) x =
      (if dp_userId q = u \<or> u = DEFAULT_USER_ID then map_of es (GenerateDBKey K x u) else None)" for x
    by (simp add: K_def)
  have ne: "es \<noteq> []" unfolding es by simp
  have le: "length es \<le> 5"
    unfolding es by (rule length_omap_put [THEN order_trans], simp)+
  have at: "atoi (to_string (dp_osType p)) = dp_osType p"
    using assms(9,10) by (intro atoi_to_string) simp_all
  have look: "map_of es (GenerateDBKey K ''osSysCapacity'' u) = Some (dp_osSysCap p)"
    "map_of es (GenerateDBKey K ''osVersion'' u) = Some (dp_osVersion p)"
    "map_of es (GenerateDBKey K ''osVersion_OH'' u) = Some (dp_osVersion p)"
    "map_of es (GenerateDBKey K ''osType'' u) = Some (to_string (dp_osType p))"
    "map_of es (GenerateDBKey K ''osType_OH'' u) = Some (to_string (dp_osType p))"
    by (simp_all add: es)
  define m where "m = GetProfilePropertiesMap es (dp_userId q)"
  define vis where "vis \<longleftrightarrow> dp_userId q = u \<or> u = DEFAULT_USER_ID"
  note mm = valid_properties(1-5) [THEN pm, folded m_def vis_def, unfolded look]
  show ?thesis
  proof (cases vis)
    case True
    with mm ne le assms(5-10) show ?thesis
      unfolding u_def [symmetric] es_def [symmetric] Let_def
      by (simp add: EntriesToDeviceProfile_def property_tests Let_def at IsNumStr_to_string
          m_def [symmetric]) (auto simp: vis_def)
  next
    case False
    with mm ne le show ?thesis
      unfolding u_def [symmetric] es_def [symmetric] Let_def
      by (simp add: EntriesToDeviceProfile_def property_tests Let_def m_def [symmetric])
        (auto simp: vis_def)
  qed
qed

lemma service_entries_read:
  assumes "IsKeyValid (sp_deviceId p)" "IsKeyValid (sp_serviceName p)"
    and "length (sp_deviceId p) + length (sp_serviceName p) \<le> 4000"
    and "- (2 ^ 31) \<le> sp_userId p" "sp_userId p < 2 ^ 31"
    and "\<not> EndsWith (sp_serviceName p) OH_PROFILE_SUFFIX"
    and "sp_serviceType p \<noteq> []" "length (sp_serviceType p) < MAX_STRING_LEN"
    and "sp_userId q = DEFAULT_USER_ID \<or> 0 < sp_userId q"
  shows "let u = written_user mu (sp_userId p) in
    EntriesToServiceProfile (snd (ServiceProfileToEntries p [] mu)) q =
      (DP_SUCCESS,
       if u = sp_userId q \<or> u = DEFAULT_USER_ID
       then q\<lparr>sp_deviceId := sp_deviceId p, sp_serviceName := sp_serviceName p,
              sp_serviceType := sp_serviceType p\<rparr>
       else q\<lparr>sp_deviceId := sp_deviceId p\<rparr>)"
proof -
  define u where "u = written_user mu (sp_userId p)"
  define s where "s = CheckAndAddOhSuffix (sp_serviceName p) True"
  define K where "K = GenerateServiceProfileKey (sp_deviceId p) s"
  have u: "- (2 ^ 31) \<le> u" "u < 2 ^ 31" using assms(4,5) by (auto simp: u_def)
  have s: "IsKeyValid s" using assms(2) by (simp add: s_def CheckAndAddOhSuffix_valid)
  have K: "length K \<le> 4010"
    using assms(3) CheckAndAddOhSuffix_length [of "sp_serviceName p" True]
    by (simp add: K_def s_def GenerateServiceProfileKey_def)
  define es where "es = snd (ServiceProfileToEntries p [] mu)"
  have es: "es = omap_put (GenerateDBKey K ''serviceType'' u) (sp_serviceType p)
      (omap_put (GenerateDBKey K ''serviceName'' u) (sp_serviceName p) [])"
    by (simp add: es_def ServiceProfileToEntries_def Let_def K_def u_def s_def)
  have wf: "svr.entries_of (sp_deviceId p, s) u es"
    unfolding es K_def
    by (intro svr.entries_of_put [of "(sp_deviceId p, s)", simplified] svr.entries_of_Nil
        valid_properties len_ok_GenerateDBKey [OF u])
      (use K [unfolded K_def] in simp_all)
  from svr.properties_map [OF _ u this assms(9)] assms(1) s have pm:
    "IsKeyValid x \<Longrightarrow> map_of (GetProfilePropertiesMap es (sp_userId q)) x =
      (if sp_userId q = u \<or> u = DEFAULT_USER_ID then map_of es (GenerateDBKey K x u) else None)" for x
    by (simp add: K_def)
  have ne: "es \<noteq> []" unfolding es by simp
  have le: "length es \<le> 2"
    unfolding es by (rule length_omap_put [THEN order_trans], simp)+
  from ne have "fst (hd es) \<in> fst ` set es" by (cases es) simp_all
  then obtain x where x: "fst (hd es) = GenerateDBKey K x u" "x \<in> {''serviceType'', ''serviceName''}"
    unfolding es by auto
  have "CHR ''#'' \<notin> set x" using x(2) by auto
  then have dev: "GetDeviceIdByDBKey (fst (hd es)) = sp_deviceId p"
    using s assms(1) x K len_ok_GenerateDBKey [OF u, of K x] unfolding x(1)
    by (auto simp: GetDeviceIdByDBKey_def key_field_def K_def split_svr_key IsKeyValid_iff)
  have look: "map_of es (GenerateDBKey K ''serviceName'' u) = Some (sp_serviceName p)"
    "map_of es (GenerateDBKey K ''serviceType'' u) = Some (sp_serviceType p)"
    by (simp_all add: es)
  define m where "m = GetProfilePropertiesMap es (sp_userId q)"
  define vis where "vis \<longleftrightarrow> sp_userId q = u \<or> u = DEFAULT_USER_ID"
  note mm = valid_properties(6,7) [THEN pm, folded m_def vis_def, unfolded look]
  have name: "sp_serviceName p \<noteq> []" "length (sp_serviceName p) < MAX_STRING_LEN"
    using assms(2,3) by (auto simp: IsKeyValid_iff)
  show ?thesis
  proof (cases vis)
    case True
    with mm ne le name dev assms(6-8) show ?thesis
      unfolding u_def [symmetric] es_def [symmetric] Let_def
      by (simp add: EntriesToServiceProfile_def property_tests Let_def CheckAndRemoveOhSuffix_id
          m_def [symmetric]) (auto simp: vis_def)
  next
    case False
    with mm ne le dev show ?thesis
      unfolding u_def [symmetric] es_def [symmetric] Let_def
      by (simp add: EntriesToServiceProfile_def property_tests Let_def m_def [symmetric])
        (auto simp: vis_def)
  qed
qed

lemma char_entries_read:
  assumes "IsKeyValid (cp_deviceId p)" "IsKeyValid (cp_serviceName p)"
    and "IsKeyValid (cp_characteristicKey p)"
    and "length (cp_deviceId p) + length (cp_serviceName p) + length (cp_characteristicKey p) \<le> 4000"
    and "- (2 ^ 31) \<le> cp_userId p" "cp_userId p < 2 ^ 31"
    and "\<not> EndsWith (cp_serviceName p) OH_PROFILE_SUFFIX"
    and "cp_characteristicValue p \<noteq> []" "length (cp_characteristicValue p) < MAX_STRING_LEN"
    and "cp_userId q = DEFAULT_USER_ID \<or> 0 < cp_userId q"
  shows "let u = written_user mu (cp_userId p);
             q' = q\<lparr>cp_deviceId := cp_deviceId p, cp_serviceName := cp_serviceName p\<rparr> in
    EntriesToCharProfile (snd (CharacteristicProfileToEntries p [] mu)) q =
      (DP_SUCCESS,
       if u = cp_userId q \<or> u = DEFAULT_USER_ID
       then q'\<lparr>cp_characteristicKey := cp_characteristicKey p,
               cp_characteristicValue := cp_characteristicValue p\<rparr>
       else q')"
proof -
  define u where "u = written_user mu (cp_userId p)"
  define s where "s = CheckAndAddOhSuffix (cp_serviceName p) True"
  define k where "k = cp_characteristicKey p"
  define K where "K = GenerateCharProfileKey (cp_deviceId p) s k"
  have u: "- (2 ^ 31) \<le> u" "u < 2 ^ 31" using assms(5,6) by (auto simp: u_def)
  have s: "IsKeyValid s" "IsKeyValid k"
    using assms(2,3) by (simp_all add: s_def k_def CheckAndAddOhSuffix_valid)
  have K: "length K \<le> 4010"
    using assms(4) CheckAndAddOhSuffix_length [of "cp_serviceName p" True]
    by (simp add: K_def s_def k_def GenerateCharProfileKey_def)
  define es where "es = snd (CharacteristicProfileToEntries p [] mu)"
  have es: "es = omap_put (GenerateDBKey K ''characteristicValue'' u) (cp_characteristicValue p)
      (omap_put (GenerateDBKey K ''characteristicKey'' u) k [])"
    by (simp add: es_def CharacteristicProfileToEntries_def Let_def K_def u_def s_def k_def)
  have wf: "char.entries_of (cp_deviceId p, s, k) u es"
    unfolding es K_def
    by (intro char.entries_of_put [of "(cp_deviceId p, s, k)", simplified] char.entries_of_Nil
        valid_properties len_ok_GenerateDBKey [OF u])
      (use K [unfolded K_def] in simp_all)
  from char.properties_map [OF _ u this assms(10)] assms(1) s have pm:
    "IsKeyValid x \<Longrightarrow> map_of (GetProfilePropertiesMap es (cp_userId q)) x =
      (if cp_userId q = u \<or> u = DEFAULT_USER_ID then map_of es (GenerateDBKey K x u) else None)" for x
    by (simp add: K_def)
  have ne: "es \<noteq> []" unfolding es by simp
  have le: "length es \<le> 2"
    unfolding es by (rule length_omap_put [THEN order_trans], simp)+
  from ne have "fst (hd es) \<in> fst ` set es" by (cases es) simp_all
  then obtain x where x: "fst (hd es) = GenerateDBKey K x u"
    "x \<in> {''characteristicValue'', ''characteristicKey''}"
    unfolding es by auto
  have "CHR ''#'' \<notin> set x" using x(2) by auto
  then have dev: "GetDeviceIdByDBKey (fst (hd es)) = cp_deviceId p"
    "GetServiceNameByDBKey (fst (hd es)) = s"
    using s assms(1) x K len_ok_GenerateDBKey [OF u, of K x] unfolding x(1)
    by (auto simp: GetDeviceIdByDBKey_def GetServiceNameByDBKey_def key_field_def K_def
        split_char_key IsKeyValid_iff)
  have svc: "GetNonOhSuffixServiceNameByDBKey (fst (hd es)) = cp_serviceName p"
    using s(1) assms(7) by (auto simp: GetNonOhSuffixServiceNameByDBKey_def dev s_def
        CheckAndRemove_Add IsKeyValid_iff)
  have look: "map_of es (GenerateDBKey K ''characteristicKey'' u) = Some k"
    "map_of es (GenerateDBKey K ''characteristicValue'' u) = Some (cp_characteristicValue p)"
    by (simp_all add: es)
  define m where "m = GetProfilePropertiesMap es (cp_userId q)"
  define vis where "vis \<longleftrightarrow> cp_userId q = u \<or> u = DEFAULT_USER_ID"
  note mm = valid_properties(8,9) [THEN pm, folded m_def vis_def, unfolded look]
  have name: "k \<noteq> []" "length k < MAX_STRING_LEN"
    using assms(3,4) by (auto simp: IsKeyValid_iff k_def)
  show ?thesis
  proof (cases vis)
    case True
    with mm ne le name dev svc assms(8,9) show ?thesis
      unfolding u_def [symmetric] es_def [symmetric] Let_def
      by (simp add: EntriesToCharProfile_def property_tests Let_def m_def [symmetric])
        (auto simp: vis_def k_def)
  next
    case False
    with mm ne le dev svc show ?thesis
      unfolding u_def [symmetric] es_def [symmetric] Let_def
      by (simp add: EntriesToCharProfile_def property_tests Let_def m_def [symmetric])
        (auto simp: vis_def)
  qed
qed

text \<open>C7: Profiles survive the store, and users stay apart. The entries
  \<open>CharacteristicProfileToEntries\<close> writes for a characteristic, read by
  \<open>EntriesToCharProfile\<close> for user \<open>v\<close>, give back the device id, the service name without its
  suffix, the key and the value when they were written for \<open>v\<close> or for no user; the value
  written for another user is not read. The same holds of \<open>DeviceProfileToEntries\<close> and
  \<open>EntriesToDeviceProfile\<close> for the system capability, OS version and OS type.\<close>

theorem profile_entries_roundtrip:
  assumes "IsKeyValid (cp_deviceId p)" "IsKeyValid (cp_serviceName p)"
    and "IsKeyValid (cp_characteristicKey p)"
    and "length (cp_deviceId p) + length (cp_serviceName p) + length (cp_characteristicKey p) \<le> 4000"
    and "- (2 ^ 31) \<le> cp_userId p" "cp_userId p < 2 ^ 31"
    and "\<not> EndsWith (cp_serviceName p) OH_PROFILE_SUFFIX"
    and "cp_characteristicValue p \<noteq> []" "length (cp_characteristicValue p) < MAX_STRING_LEN"
    and "v = DEFAULT_USER_ID \<or> 0 < v"
    and "cp_deviceId p = dp_deviceId d" "dp_userId d = cp_userId p"
    and "dp_osSysCap d \<noteq> []" "length (dp_osSysCap d) < MAX_STRING_LEN"
    and "dp_osVersion d \<noteq> []" "length (dp_osVersion d) < MAX_STRING_LEN"
    and "MIN_OS_TYPE < dp_osType d" "dp_osType d < MAX_OS_TYPE"
  shows "let u = written_user mu (cp_userId p);
             c = CharacteristicProfile_default\<lparr>cp_userId := v\<rparr>;
             e = DeviceProfile_default\<lparr>dp_userId := v\<rparr> in
    EntriesToCharProfile (snd (CharacteristicProfileToEntries p [] mu)) c =
      (DP_SUCCESS,
       if u = v \<or> u = DEFAULT_USER_ID then p\<lparr>cp_isMultiUser := False, cp_userId := v\<rparr>
       else c\<lparr>cp_deviceId := cp_deviceId p, cp_serviceName := cp_serviceName p\<rparr>) \<and>
    EntriesToDeviceProfile (snd (DeviceProfileToEntries d [] mu)) e =
      (DP_SUCCESS,
       if u = v \<or> u = DEFAULT_USER_ID
       then e\<lparr>dp_osSysCap := dp_osSysCap d, dp_osVersion := dp_osVersion d,
              dp_osType := dp_osType d\<rparr>
       else e)"
  using char_entries_read [OF assms(1-9), of "CharacteristicProfile_default\<lparr>cp_userId := v\<rparr>" mu]
    device_entries_read [of d "DeviceProfile_default\<lparr>dp_userId := v\<rparr>" mu] assms
  by (cases p) (simp add: CharacteristicProfile_default_def CharacteristicProfile_make_def
      DeviceProfile_default_def Let_def)

lemma profile_entries_roundtrip_witness:
  "let c = CharacteristicProfile_make ''u1'' ''svc'' ''k'' ''value'';
       d = DeviceProfile_default\<lparr>dp_deviceId := ''u1'', dp_osSysCap := ''cap'',
             dp_osVersion := ''6.0'', dp_osType := 10, dp_userId := 100\<rparr>;
       c = c\<lparr>cp_userId := 100\<rparr> in
   snd (EntriesToCharProfile (snd (CharacteristicProfileToEntries c [] True))
          (CharacteristicProfile_default\<lparr>cp_userId := 100\<rparr>)) = c \<and>
   cp_characteristicValue (snd (EntriesToCharProfile
     (snd (CharacteristicProfileToEntries c [] True))
          (CharacteristicProfile_default\<lparr>cp_userId := 101\<rparr>))) = [] \<and>
   dp_osType (snd (EntriesToDeviceProfile (snd (DeviceProfileToEntries d [] True))
          (DeviceProfile_default\<lparr>dp_userId := 100\<rparr>))) = 10"
  using profile_entries_roundtrip
      [of "CharacteristicProfile_make ''u1'' ''svc'' ''k'' ''value''\<lparr>cp_userId := 100\<rparr>" 100
        "DeviceProfile_default\<lparr>dp_deviceId := ''u1'', dp_osSysCap := ''cap'',
             dp_osVersion := ''6.0'', dp_osType := 10, dp_userId := 100\<rparr>" True]
    profile_entries_roundtrip
      [of "CharacteristicProfile_make ''u1'' ''svc'' ''k'' ''value''\<lparr>cp_userId := 100\<rparr>" 101
        "DeviceProfile_default\<lparr>dp_deviceId := ''u1'', dp_osSysCap := ''cap'',
             dp_osVersion := ''6.0'', dp_osType := 10, dp_userId := 100\<rparr>" True]
  by (simp add: CharacteristicProfile_make_def CharacteristicProfile_default_def
      DeviceProfile_default_def IsKeyValid_iff EndsWith_def Let_def)

end
