(* ===== verification/KvAdapter.thy ===== *)
theory KvAdapter
  imports ProfileUtils
begin

text \<open>
  The key-value storage layer: the interface \<open>IKVAdapter\<close> (\<open>ikv_adapter.h\<close>) and its
  implementation \<open>KVAdapter\<close> (\<open>persistenceadapter/kvadapter/kv_adapter.cpp\<close>). The distributed
  data service below it (\<open>SingleKvStore\<close>, \<open>DistributedKvDataManager\<close>) is not part of this
  repository: its operations are the fields of the records \<open>SingleKvStore\<close> and
  \<open>DistributedKvDataManager\<close>, arguments of the operations here, over opaque states. What the
  code relies on is the locale \<open>kv_store\<close>; what the adapter promises its clients is the locale
  \<open>ikv_adapter\<close>, which the model of the adapter satisfies over every such store. The adapter's
  mutex makes each operation atomic.
\<close>

section \<open>The distributed data service\<close>

text \<open>The statuses the adapter tells apart; \<open>KV_ERROR\<close> is any other one.\<close>

datatype kv_status = KV_SUCCESS | KV_STORE_META_CHANGED | KV_SECURITY_LEVEL_ERROR | KV_ERROR

record 's SingleKvStore =
  ks_Get :: "'s \<Rightarrow> string \<Rightarrow> kv_status \<times> string"
  ks_Put :: "'s \<Rightarrow> string \<Rightarrow> string \<Rightarrow> kv_status \<times> 's"
  ks_PutBatch :: "'s \<Rightarrow> (string \<times> string) list \<Rightarrow> kv_status \<times> 's"
  ks_Delete :: "'s \<Rightarrow> string \<Rightarrow> kv_status \<times> 's"
  ks_DeleteBatch :: "'s \<Rightarrow> string list \<Rightarrow> kv_status \<times> 's"
  ks_GetEntries :: "'s \<Rightarrow> string \<Rightarrow> kv_status \<times> (string \<times> string) list"
  ks_GetDeviceEntries :: "'s \<Rightarrow> string \<Rightarrow> kv_status \<times> (string \<times> string) list"
  ks_Sync :: "'s \<Rightarrow> string list \<Rightarrow> int \<Rightarrow> kv_status \<times> 's"
  ks_RemoveDeviceData :: "'s \<Rightarrow> string \<Rightarrow> kv_status \<times> 's"
  ks_SubscribeKvStore :: "'s \<Rightarrow> bool \<Rightarrow> kv_status \<times> 's"
  ks_UnSubscribeKvStore :: "'s \<Rightarrow> bool \<Rightarrow> kv_status \<times> 's"
  ks_RegisterSyncCallback :: "'s \<Rightarrow> bool \<Rightarrow> kv_status \<times> 's"
  ks_UnRegisterSyncCallback :: "'s \<Rightarrow> kv_status \<times> 's"

text \<open>The manager hands out a store (or a null pointer) and keeps the death recipient.\<close>

record ('m, 's) DistributedKvDataManager =
  km_GetSingleKvStore :: "'m \<Rightarrow> kv_status \<times> 's option \<times> 'm"
  km_CloseKvStore :: "'m \<Rightarrow> 'm"
  km_DeleteKvStore :: "'m \<Rightarrow> 'm"
  km_RegisterDeathRecipient :: "'m \<Rightarrow> bool \<Rightarrow> 'm"
  km_UnRegisterDeathRecipient :: "'m \<Rightarrow> bool \<Rightarrow> 'm"

section \<open>The adapter's state and operations\<close>

text \<open>\<open>None\<close> is a null store pointer; a listener field says whether the pointer is set.\<close>

record ('m, 's) KVAdapter =
  kvStorePtr :: "'s option"
  kvDataMgr :: 'm
  dataChangeListener :: bool
  syncCompletedListener :: bool
  deathRecipient :: bool

abbreviation "MAX_INIT_RETRY_TIMES \<equiv> (30 :: nat)"
abbreviation "MAX_BATCH_SIZE \<equiv> (128 :: nat)"

definition KVAdapter_Put ::
  "'s SingleKvStore \<Rightarrow> string \<Rightarrow> string \<Rightarrow> ('m, 's) KVAdapter \<Rightarrow> dp_ret \<times> ('m, 's) KVAdapter" where
  "KVAdapter_Put ks key val a =
     (if key = [] \<or> length key > MAX_STRING_LEN \<or> val = [] \<or> length val > MAX_STRING_LEN
      then (DP_INVALID_PARAMS, a)
      else case kvStorePtr a of
        None \<Rightarrow> (DP_KV_DB_PTR_NULL, a)
      | Some s \<Rightarrow>
          if ks_Get ks s key = (KV_SUCCESS, val) then (DP_SUCCESS, a)
          else let (status, s) = ks_Put ks s key val; a = a\<lparr>kvStorePtr := Some s\<rparr> in
               if status \<noteq> KV_SUCCESS then (DP_PUT_KV_DB_FAIL, a) else (DP_SUCCESS, a))"

definition KVAdapter_PutBatch ::
  "'s SingleKvStore \<Rightarrow> (string, string) omap \<Rightarrow> ('m, 's) KVAdapter \<Rightarrow> dp_ret \<times> ('m, 's) KVAdapter" where
  "KVAdapter_PutBatch ks values a =
     (if values = [] \<or> length values > MAX_PROFILE_SIZE then (DP_INVALID_PARAMS, a)
      else case kvStorePtr a of
        None \<Rightarrow> (DP_KV_DB_PTR_NULL, a)
      | Some s \<Rightarrow>
          let entries = filter (\<lambda>(key, val). ks_Get ks s key \<noteq> (KV_SUCCESS, val)) values in
          if entries = [] then (DP_SUCCESS, a)
          else let (status, s) = ks_PutBatch ks s entries; a = a\<lparr>kvStorePtr := Some s\<rparr> in
               if status \<noteq> KV_SUCCESS then (DP_PUT_KV_DB_FAIL, a) else (DP_SUCCESS, a))"

definition KVAdapter_Delete ::
  "'s SingleKvStore \<Rightarrow> string \<Rightarrow> ('m, 's) KVAdapter \<Rightarrow> dp_ret \<times> ('m, 's) KVAdapter" where
  "KVAdapter_Delete ks key a =
     (case kvStorePtr a of
        None \<Rightarrow> (DP_KV_DB_PTR_NULL, a)
      | Some s \<Rightarrow>
          let (status, s) = ks_Delete ks s key; a = a\<lparr>kvStorePtr := Some s\<rparr> in
          if status \<noteq> KV_SUCCESS then (DP_DEL_KV_DB_FAIL, a) else (DP_SUCCESS, a))"

definition KVAdapter_Get ::
  "'s SingleKvStore \<Rightarrow> string \<Rightarrow> string \<Rightarrow> ('m, 's) KVAdapter \<Rightarrow> dp_ret \<times> string" where
  "KVAdapter_Get ks key val a =
     (case kvStorePtr a of
        None \<Rightarrow> (DP_KV_DB_PTR_NULL, val)
      | Some s \<Rightarrow>
          let (status, kvValue) = ks_Get ks s key in
          if status \<noteq> KV_SUCCESS then (DP_GET_KV_DB_FAIL, val) else (DP_SUCCESS, kvValue))"

definition put_all :: "(string \<times> string) list \<Rightarrow> (string, string) omap \<Rightarrow> (string, string) omap" where
  "put_all entries values = fold (\<lambda>(k, v). omap_put k v) entries values"

definition KVAdapter_GetByPrefix ::
  "'s SingleKvStore \<Rightarrow> string \<Rightarrow> (string, string) omap \<Rightarrow> ('m, 's) KVAdapter \<Rightarrow>
   dp_ret \<times> (string, string) omap" where
  "KVAdapter_GetByPrefix ks keyPrefix values a =
     (case kvStorePtr a of
        None \<Rightarrow> (DP_KV_DB_PTR_NULL, values)
      | Some s \<Rightarrow>
          let (status, allEntries) = ks_GetEntries ks s keyPrefix in
          if status \<noteq> KV_SUCCESS then (DP_GET_KV_DB_FAIL, values)
          else if length allEntries = 0 \<or> length allEntries > MAX_DB_SIZE
          then (DP_INVALID_PARAMS, values)
          else (DP_SUCCESS, put_all allEntries values))"

definition KVAdapter_DeleteByPrefix ::
  "'s SingleKvStore \<Rightarrow> string \<Rightarrow> ('m, 's) KVAdapter \<Rightarrow> dp_ret \<times> ('m, 's) KVAdapter" where
  "KVAdapter_DeleteByPrefix ks keyPrefix a =
     (case kvStorePtr a of
        None \<Rightarrow> (DP_KV_DB_PTR_NULL, a)
      | Some s \<Rightarrow>
          let (status, allEntries) = ks_GetEntries ks s keyPrefix in
          if status \<noteq> KV_SUCCESS then (DP_DEL_KV_DB_FAIL, a)
          else let (status, s) = ks_DeleteBatch ks s (map fst allEntries);
                   a = a\<lparr>kvStorePtr := Some s\<rparr> in
               if status \<noteq> KV_SUCCESS then (DP_DEL_KV_DB_FAIL, a) else (DP_SUCCESS, a))"

text \<open>\<open>SyncMode\<close>: \<open>MIN = -1\<close>, \<open>PULL = 0\<close>, \<open>PUSH = 1\<close>, \<open>PUSH_PULL = 2\<close>, \<open>MAX = 3\<close>.\<close>

definition KVAdapter_Sync ::
  "'s SingleKvStore \<Rightarrow> string list \<Rightarrow> int \<Rightarrow> ('m, 's) KVAdapter \<Rightarrow> dp_ret \<times> ('m, 's) KVAdapter" where
  "KVAdapter_Sync ks deviceList syncMode a =
     (case kvStorePtr a of
        None \<Rightarrow> (DP_KV_DB_PTR_NULL, a)
      | Some s \<Rightarrow>
          if deviceList = [] \<or> length deviceList > MAX_DEVICE_SIZE then (DP_INVALID_PARAMS, a)
          else if syncMode \<le> -1 \<or> syncMode \<ge> 3 then (DP_INVALID_PARAMS, a)
          else let (status, s) = ks_Sync ks s deviceList syncMode; a = a\<lparr>kvStorePtr := Some s\<rparr> in
               if status \<noteq> KV_SUCCESS then (DP_KV_SYNC_FAIL, a) else (DP_SUCCESS, a))"

definition KVAdapter_GetDeviceEntries ::
  "'s SingleKvStore \<Rightarrow> string \<Rightarrow> (string, string) omap \<Rightarrow> ('m, 's) KVAdapter \<Rightarrow>
   dp_ret \<times> (string, string) omap" where
  "KVAdapter_GetDeviceEntries ks udid values a =
     (if udid = [] then (DP_INVALID_PARAMS, values)
      else case kvStorePtr a of
        None \<Rightarrow> (DP_KV_DB_PTR_NULL, values)
      | Some s \<Rightarrow>
          let (status, entries) = ks_GetDeviceEntries ks s udid in
          if status \<noteq> KV_SUCCESS then (DP_GET_KV_DB_FAIL, values)
          else (DP_SUCCESS, put_all (filter (\<lambda>(k, v). k \<noteq> []) entries) values))"

text \<open>The loop that cuts the keys into batches of at most \<open>MAX_BATCH_SIZE\<close>.\<close>

function delKeyBatches :: "string list \<Rightarrow> nat \<Rightarrow> string list list" where
  "delKeyBatches keys i =
     (if i < length keys
      then let e = if i + MAX_BATCH_SIZE > length keys then length keys else i + MAX_BATCH_SIZE
           in take (e - i) (drop i keys) # delKeyBatches keys (i + MAX_BATCH_SIZE)
      else [])"
  by auto

termination by (relation "measure (\<lambda>(keys, i). length keys - i)") auto

fun delete_batches ::
  "'s SingleKvStore \<Rightarrow> string list list \<Rightarrow> 's \<Rightarrow> dp_ret \<times> 's" where
  "delete_batches ks [] s = (DP_SUCCESS, s)"
| "delete_batches ks (b # bs) s =
     (let (status, s) = ks_DeleteBatch ks s b in
      if status \<noteq> KV_SUCCESS then (DP_DEL_KV_DB_FAIL, s) else delete_batches ks bs s)"

definition KVAdapter_DeleteBatch ::
  "'s SingleKvStore \<Rightarrow> string list \<Rightarrow> ('m, 's) KVAdapter \<Rightarrow> dp_ret \<times> ('m, 's) KVAdapter" where
  "KVAdapter_DeleteBatch ks keys a =
     (if keys = [] \<or> length keys > MAX_PROFILE_SIZE then (DP_INVALID_PARAMS, a)
      else case kvStorePtr a of
        None \<Rightarrow> (DP_KV_DB_PTR_NULL, a)
      | Some s \<Rightarrow>
          let (ret, s) = delete_batches ks (delKeyBatches keys 0) s in
          (ret, a\<lparr>kvStorePtr := Some s\<rparr>))"

definition KVAdapter_RemoveDeviceData ::
  "'s SingleKvStore \<Rightarrow> string \<Rightarrow> ('m, 's) KVAdapter \<Rightarrow> dp_ret \<times> ('m, 's) KVAdapter" where
  "KVAdapter_RemoveDeviceData ks uuid a =
     (if uuid = [] then (DP_INVALID_PARAMS, a)
      else case kvStorePtr a of
        None \<Rightarrow> (DP_KV_DB_PTR_NULL, a)
      | Some s \<Rightarrow>
          let (status, s) = ks_RemoveDeviceData ks s uuid; a = a\<lparr>kvStorePtr := Some s\<rparr> in
          if status \<noteq> KV_SUCCESS then (DP_GET_KV_DB_FAIL, a) else (DP_SUCCESS, a))"

section \<open>Opening and closing the store\<close>

definition with_store ::
  "('m, 's) KVAdapter \<Rightarrow> dp_ret \<Rightarrow> dp_ret \<Rightarrow> ('s \<Rightarrow> kv_status \<times> 's) \<Rightarrow> dp_ret \<times> ('m, 's) KVAdapter" where
  "with_store a null_ret fail_ret f =
     (case kvStorePtr a of
        None \<Rightarrow> (null_ret, a)
      | Some s \<Rightarrow>
          let (status, s) = f s; a = a\<lparr>kvStorePtr := Some s\<rparr> in
          if status \<noteq> KV_SUCCESS then (fail_ret, a) else (DP_SUCCESS, a))"

definition RegisterDataChangeListener where
  "RegisterDataChangeListener ks a =
     with_store a DP_INVALID_PARAMS DP_REGISTER_KV_DATA_LISTENER_FAILED
       (\<lambda>s. ks_SubscribeKvStore ks s (dataChangeListener a))"

definition UnRegisterDataChangeListener where
  "UnRegisterDataChangeListener ks a =
     with_store a DP_KV_DB_PTR_NULL DP_UNREGISTER_KV_DATA_LISTENER_FAILED
       (\<lambda>s. ks_UnSubscribeKvStore ks s (dataChangeListener a))"

definition RegisterSyncCompletedListener where
  "RegisterSyncCompletedListener ks a =
     with_store a DP_KV_DB_PTR_NULL DP_REGISTER_KV_SYNC_LISTENER_FAILED
       (\<lambda>s. ks_RegisterSyncCallback ks s (syncCompletedListener a))"

definition UnRegisterSyncCompletedListener where
  "UnRegisterSyncCompletedListener ks a =
     with_store a DP_KV_DB_PTR_NULL DP_UNREGISTER_KV_SYNC_LISTENER_FAILED
       (\<lambda>s. ks_UnRegisterSyncCallback ks s)"

definition RegisterDeathListener where
  "RegisterDeathListener km a =
     (DP_SUCCESS, a\<lparr>kvDataMgr := km_RegisterDeathRecipient km (kvDataMgr a) (deathRecipient a)\<rparr>)"

definition UnRegisterDeathListener where
  "UnRegisterDeathListener km a =
     (DP_SUCCESS, a\<lparr>kvDataMgr := km_UnRegisterDeathRecipient km (kvDataMgr a) (deathRecipient a)\<rparr>)"

definition DeleteKvStore where
  "DeleteKvStore km a =
     (DP_SUCCESS, a\<lparr>kvDataMgr := km_DeleteKvStore km (km_CloseKvStore km (kvDataMgr a))\<rparr>)"

definition GetKvStorePtr ::
  "('m, 's) DistributedKvDataManager \<Rightarrow> ('m, 's) KVAdapter \<Rightarrow> kv_status \<times> ('m, 's) KVAdapter" where
  "GetKvStorePtr km a =
     (let (status, ptr, m) = km_GetSingleKvStore km (kvDataMgr a);
          a = a\<lparr>kvStorePtr := ptr, kvDataMgr := m\<rparr> in
      (if status = KV_SUCCESS \<and> ptr = None then KV_ERROR else status, a))"

fun KVAdapter_Init_loop ::
  "'s SingleKvStore \<Rightarrow> ('m, 's) DistributedKvDataManager \<Rightarrow> nat \<Rightarrow> ('m, 's) KVAdapter \<Rightarrow>
   dp_ret \<times> ('m, 's) KVAdapter" where
  "KVAdapter_Init_loop ks km 0 a = (DP_KV_DB_INIT_FAIL, a)"
| "KVAdapter_Init_loop ks km (Suc tryTimes) a =
     (let (status, a) = GetKvStorePtr km a in
      if status = KV_SUCCESS
      then let a = snd (RegisterSyncCompletedListener ks a);
               a = snd (RegisterDataChangeListener ks a);
               a = snd (RegisterDeathListener km a)
           in (DP_SUCCESS, a)
      else let a = (if status = KV_STORE_META_CHANGED then snd (DeleteKvStore km a) else a);
               a = (if status = KV_SECURITY_LEVEL_ERROR then snd (DeleteKvStore km a) else a)
           in KVAdapter_Init_loop ks km tryTimes a)"

definition KVAdapter_Init where
  "KVAdapter_Init ks km a = KVAdapter_Init_loop ks km MAX_INIT_RETRY_TIMES a"

definition KVAdapter_UnInit ::
  "'s SingleKvStore \<Rightarrow> ('m, 's) DistributedKvDataManager \<Rightarrow> ('m, 's) KVAdapter \<Rightarrow>
   dp_ret \<times> ('m, 's) KVAdapter" where
  "KVAdapter_UnInit ks km a =
     (let a = snd (UnRegisterSyncCompletedListener ks a);
          a = snd (UnRegisterDataChangeListener ks a);
          a = snd (UnRegisterDeathListener km a);
          a = a\<lparr>syncCompletedListener := False\<rparr>;
          a = a\<lparr>dataChangeListener := False\<rparr>;
          a = a\<lparr>deathRecipient := False\<rparr>;
          a = a\<lparr>kvStorePtr := None\<rparr>
      in (DP_SUCCESS, a))"

declare delKeyBatches.simps [simp del]

section \<open>The interface\<close>

text \<open>\<open>IKVAdapter\<close>: the operations its clients call, over the adapter's state \<open>'a\<close>.\<close>

record 'a IKVAdapter =
  ik_Put :: "string \<Rightarrow> string \<Rightarrow> 'a \<Rightarrow> dp_ret \<times> 'a"
  ik_PutBatch :: "(string, string) omap \<Rightarrow> 'a \<Rightarrow> dp_ret \<times> 'a"
  ik_Delete :: "string \<Rightarrow> 'a \<Rightarrow> dp_ret \<times> 'a"
  ik_DeleteByPrefix :: "string \<Rightarrow> 'a \<Rightarrow> dp_ret \<times> 'a"
  ik_Get :: "string \<Rightarrow> string \<Rightarrow> 'a \<Rightarrow> dp_ret \<times> string"
  ik_GetByPrefix :: "string \<Rightarrow> (string, string) omap \<Rightarrow> 'a \<Rightarrow> dp_ret \<times> (string, string) omap"
  ik_Sync :: "string list \<Rightarrow> int \<Rightarrow> 'a \<Rightarrow> dp_ret \<times> 'a"
  ik_GetDeviceEntries :: "string \<Rightarrow> (string, string) omap \<Rightarrow> 'a \<Rightarrow> dp_ret \<times> (string, string) omap"
  ik_DeleteBatch :: "string list \<Rightarrow> 'a \<Rightarrow> dp_ret \<times> 'a"
  ik_RemoveDeviceData :: "string \<Rightarrow> 'a \<Rightarrow> dp_ret \<times> 'a"

definition KVAdapter_ops :: "'s SingleKvStore \<Rightarrow> ('m, 's) KVAdapter IKVAdapter" where
  "KVAdapter_ops ks =
     \<lparr>ik_Put = KVAdapter_Put ks, ik_PutBatch = KVAdapter_PutBatch ks,
      ik_Delete = KVAdapter_Delete ks, ik_DeleteByPrefix = KVAdapter_DeleteByPrefix ks,
      ik_Get = KVAdapter_Get ks, ik_GetByPrefix = KVAdapter_GetByPrefix ks,
      ik_Sync = KVAdapter_Sync ks, ik_GetDeviceEntries = KVAdapter_GetDeviceEntries ks,
      ik_DeleteBatch = KVAdapter_DeleteBatch ks,
      ik_RemoveDeviceData = KVAdapter_RemoveDeviceData ks\<rparr>"

definition keep_keys :: "(string \<Rightarrow> bool) \<Rightarrow> (string \<rightharpoonup> string) \<Rightarrow> (string \<rightharpoonup> string)" where
  "keep_keys P m = (\<lambda>k. if P k then m k else None)"

text \<open>
  What the documentation of the data service promises of a store, with \<open>kv s\<close> the entries it
  holds: a successful read is right, a successful write or deletion changes the entries it names
  and no others, and an unsuccessful one leaves the entries as they are. Nothing says that an
  operation succeeds.
\<close>

locale kv_store =
  fixes ks :: "'s SingleKvStore" and kv :: "'s \<Rightarrow> string \<rightharpoonup> string"
  assumes get: "ks_Get ks s k = (KV_SUCCESS, v) \<Longrightarrow> kv s k = Some v"
    and put: "ks_Put ks s k v = (st, s') \<Longrightarrow>
      kv s' = (if st = KV_SUCCESS then (kv s)(k \<mapsto> v) else kv s)"
    and put_batch: "ks_PutBatch ks s es = (st, s') \<Longrightarrow> distinct (map fst es) \<Longrightarrow>
      kv s' = (if st = KV_SUCCESS then kv s ++ map_of es else kv s)"
    and delete: "ks_Delete ks s k = (st, s') \<Longrightarrow>
      kv s' = (if st = KV_SUCCESS then (kv s)(k := None) else kv s)"
    and delete_batch: "ks_DeleteBatch ks s del = (st, s') \<Longrightarrow>
      kv s' = (if st = KV_SUCCESS then keep_keys (\<lambda>k. k \<notin> set del) (kv s) else kv s)"
    and entries: "ks_GetEntries ks s p = (KV_SUCCESS, es) \<Longrightarrow>
      distinct (map fst es) \<and> map_of es = keep_keys (\<lambda>k. prefix p k) (kv s)"

text \<open>
  What \<open>IKVAdapter\<close> promises its clients, with \<open>db a\<close> the entries behind the adapter.
\<close>

locale ikv_adapter =
  fixes ik :: "'a IKVAdapter" and db :: "'a \<Rightarrow> string \<rightharpoonup> string"
  assumes put: "ik_Put ik k v a = (r, a') \<Longrightarrow>
      db a' = (if r = DP_SUCCESS then (db a)(k \<mapsto> v) else db a)"
    and put_batch: "ik_PutBatch ik vs a = (r, a') \<Longrightarrow> omap_wf vs \<Longrightarrow>
      db a' = (if r = DP_SUCCESS then db a ++ map_of vs else db a)"
    and delete: "ik_Delete ik k a = (r, a') \<Longrightarrow>
      db a' = (if r = DP_SUCCESS then (db a)(k := None) else db a)"
    and delete_prefix: "ik_DeleteByPrefix ik p a = (r, a') \<Longrightarrow>
      db a' = (if r = DP_SUCCESS then keep_keys (\<lambda>k. \<not> prefix p k) (db a) else db a)"
    and get: "ik_Get ik k v a = (DP_SUCCESS, v') \<Longrightarrow> db a k = Some v'"
    and get_prefix: "ik_GetByPrefix ik p [] a = (DP_SUCCESS, vs) \<Longrightarrow>
      vs \<noteq> [] \<and> omap_wf vs \<and> map_of vs = keep_keys (\<lambda>k. prefix p k) (db a)"
    and delete_batch: "ik_DeleteBatch ik del a = (r, a') \<Longrightarrow>
      (r = DP_SUCCESS \<longrightarrow> db a' = keep_keys (\<lambda>k. k \<notin> set del) (db a)) \<and>
      (\<exists>gone\<subseteq>set del. db a' = keep_keys (\<lambda>k. k \<notin> gone) (db a))"
begin

text \<open>A read after a successful write of a batch sees the batch and what was there before.\<close>

lemma get_after_put_batch:
  assumes "ik_PutBatch ik vs a = (DP_SUCCESS, a')" "omap_wf vs"
    and "ik_GetByPrefix ik p [] a' = (DP_SUCCESS, ws)"
  shows "map_of ws k = (if prefix p k then (db a ++ map_of vs) k else None)"
  using put_batch [OF assms(1,2)] get_prefix [OF assms(3)] by (simp add: keep_keys_def)

lemma delete_batch_untouched:
  "ik_DeleteBatch ik del a = (r, a') \<Longrightarrow> k \<notin> set del \<Longrightarrow> db a' k = db a k"
  using delete_batch [of del a r a'] by (auto simp: keep_keys_def)

lemma delete_batch_subset:
  "ik_DeleteBatch ik del a = (r, a') \<Longrightarrow> db a' \<subseteq>\<^sub>m db a"
  using delete_batch [of del a r a'] by (auto simp: keep_keys_def map_le_def dom_def split: if_splits)

end

section \<open>The adapter keeps the interface's promises\<close>

definition kv_db :: "('s \<Rightarrow> string \<rightharpoonup> string) \<Rightarrow> ('m, 's) KVAdapter \<Rightarrow> string \<rightharpoonup> string" where
  "kv_db kv a = (case kvStorePtr a of None \<Rightarrow> Map.empty | Some s \<Rightarrow> kv s)"

lemma concat_delKeyBatches: "concat (delKeyBatches keys i) = drop i keys"
proof (induction keys i rule: delKeyBatches.induct)
  case (1 keys i)
  show ?case
  proof (cases "i < length keys")
    case True
    with 1 have "concat (delKeyBatches keys (i + MAX_BATCH_SIZE)) = drop (i + MAX_BATCH_SIZE) keys"
      by blast
    moreover have "take MAX_BATCH_SIZE (drop i keys) @ drop (i + MAX_BATCH_SIZE) keys = drop i keys"
      by (metis add.commute append_take_drop_id drop_drop)
    ultimately show ?thesis using True
      by (subst delKeyBatches.simps) (simp add: Let_def)
  next
    case False
    then show ?thesis by (subst delKeyBatches.simps) simp
  qed
qed

lemma delKeyBatches_size:
  "b \<in> set (delKeyBatches keys i) \<Longrightarrow> b \<noteq> [] \<and> length b \<le> MAX_BATCH_SIZE"
proof (induction keys i rule: delKeyBatches.induct)
  case (1 keys i)
  then have "i < length keys" by (subst (asm) delKeyBatches.simps) (auto split: if_splits)
  with 1 show ?case
    by (subst (asm) (2) delKeyBatches.simps) (auto simp: Let_def split: if_splits)
qed

lemma put_all_wf: "omap_wf m \<Longrightarrow> omap_wf (put_all es m)"
  unfolding put_all_def by (rule omap_wf_fold)

lemma map_of_put_all: "distinct (map fst es) \<Longrightarrow> map_of (put_all es m) = map_of m ++ map_of es"
  unfolding put_all_def
proof (induction es arbitrary: m)
  case (Cons e es)
  obtain k v where e: "e = (k, v)" by force
  with Cons.prems have k: "map_of es k = None" and d: "distinct (map fst es)"
    by (auto simp: map_of_eq_None_iff)
  from k Cons.IH [OF d] show ?case by (auto simp: e map_add_def fun_eq_iff split: option.splits)
qed simp

lemma put_all_not_Nil: "es \<noteq> [] \<Longrightarrow> put_all es m \<noteq> []"
  unfolding put_all_def by (cases es rule: rev_cases) (auto split: prod.splits)

context kv_store
begin

lemma delete_batches_kv:
  "delete_batches ks bs s = (r, s') \<Longrightarrow>
   \<exists>gone\<subseteq>set (concat bs). kv s' = keep_keys (\<lambda>k. k \<notin> gone) (kv s) \<and>
     (r = DP_SUCCESS \<longrightarrow> gone = set (concat bs))"
proof (induction bs arbitrary: s)
  case Nil
  then show ?case by (auto simp: keep_keys_def)
next
  case (Cons b bs)
  obtain st s1 where b: "ks_DeleteBatch ks s b = (st, s1)" by force
  show ?case
  proof (cases "st = KV_SUCCESS")
    case True
    with Cons.prems b have "delete_batches ks bs s1 = (r, s')" by simp
    from Cons.IH [OF this] obtain gone where "gone \<subseteq> set (concat bs)"
      "kv s' = keep_keys (\<lambda>k. k \<notin> gone) (kv s1)" "r = DP_SUCCESS \<longrightarrow> gone = set (concat bs)"
      by blast
    with delete_batch [OF b] True show ?thesis
      by (intro exI [of _ "set b \<union> gone"]) (auto simp: keep_keys_def)
  next
    case False
    with Cons.prems b delete_batch [OF b] show ?thesis
      by (intro exI [of _ "{}"]) (auto simp: keep_keys_def)
  qed
qed

lemma put_batch_entries:
  assumes "omap_wf vs" "es = filter (\<lambda>(key, val). ks_Get ks s key \<noteq> (KV_SUCCESS, val)) vs"
  shows "distinct (map fst es)" "kv s ++ map_of es = kv s ++ map_of vs"
proof -
  have d: "distinct (map fst vs)" using assms(1) by (rule omap_wf_distinct)
  then show "distinct (map fst es)" unfolding assms(2) by (rule distinct_map_filter)
  show "kv s ++ map_of es = kv s ++ map_of vs"
  proof
    fix k
    show "(kv s ++ map_of es) k = (kv s ++ map_of vs) k"
    proof (cases "map_of vs k")
      case None
      then have "map_of es k = None" unfolding assms(2) by (auto simp: map_of_eq_None_iff)
      with None show ?thesis by (simp add: map_add_def)
    next
      case (Some v)
      then have kv: "(k, v) \<in> set vs" by (rule map_of_SomeD)
      show ?thesis
      proof (cases "ks_Get ks s k = (KV_SUCCESS, v)")
        case True
        have "k \<notin> fst ` set es"
        proof
          assume "k \<in> fst ` set es"
          then obtain w where "(k, w) \<in> set vs" "ks_Get ks s k \<noteq> (KV_SUCCESS, w)"
            unfolding assms(2) by auto
          with kv d True show False by (metis eq_key_imp_eq_value)
        qed
        then have "map_of es k = None" by (simp add: map_of_eq_None_iff)
        with get [OF True] Some show ?thesis by (simp add: map_add_def)
      next
        case False
        with kv have "(k, v) \<in> set es" unfolding assms(2) by auto
        with \<open>distinct (map fst es)\<close> have "map_of es k = Some v" by simp
        with Some show ?thesis by (simp add: map_add_def)
      qed
    qed
  qed
qed

end

lemmas KVAdapter_defs = KVAdapter_ops_def KVAdapter_Put_def KVAdapter_PutBatch_def
  KVAdapter_Delete_def KVAdapter_DeleteByPrefix_def KVAdapter_Get_def KVAdapter_GetByPrefix_def
  KVAdapter_DeleteBatch_def kv_db_def

lemma keep_keys_all [simp]: "keep_keys (\<lambda>k. True) m = m"
  by (simp add: keep_keys_def)

context kv_store
begin

lemma adapter_put:
  assumes "KVAdapter_Put ks k v a = (r, a')"
  shows "kv_db kv a' = (if r = DP_SUCCESS then (kv_db kv a)(k \<mapsto> v) else kv_db kv a)"
proof (cases "kvStorePtr a")
  case None
  with assms show ?thesis by (auto simp: KVAdapter_Put_def split: if_splits)
next
  case (Some s)
  obtain st s' where p: "ks_Put ks s k v = (st, s')" by force
  show ?thesis
  proof (cases "ks_Get ks s k = (KV_SUCCESS, v)")
    case True
    with assms Some get [OF True] show ?thesis
      by (auto simp: KVAdapter_Put_def kv_db_def fun_upd_idem split: if_splits)
  next
    case False
    with assms Some put [OF p] p show ?thesis
      by (auto simp: KVAdapter_Put_def kv_db_def split: if_splits)
  qed
qed

lemma adapter_put_batch:
  assumes "KVAdapter_PutBatch ks vs a = (r, a')" "omap_wf vs"
  shows "kv_db kv a' = (if r = DP_SUCCESS then kv_db kv a ++ map_of vs else kv_db kv a)"
proof (cases "kvStorePtr a")
  case None
  with assms show ?thesis by (auto simp: KVAdapter_PutBatch_def split: if_splits)
next
  case (Some s)
  define es where "es = filter (\<lambda>(key, val). ks_Get ks s key \<noteq> (KV_SUCCESS, val)) vs"
  note es = put_batch_entries [OF assms(2) es_def]
  obtain st s' where p: "ks_PutBatch ks s es = (st, s')" by force
  show ?thesis
  proof (cases "es = []")
    case True
    with es(2) have "kv s ++ map_of vs = kv s" by simp
    with assms Some True show ?thesis
      by (auto simp: KVAdapter_PutBatch_def kv_db_def es_def [symmetric] Let_def split: if_splits)
  next
    case False
    with assms Some put_batch [OF p es(1)] es(2) p show ?thesis
      by (auto simp: KVAdapter_PutBatch_def kv_db_def es_def [symmetric] Let_def split: if_splits)
  qed
qed

lemma adapter_delete_batch:
  assumes "KVAdapter_DeleteBatch ks del a = (r, a')"
  shows "(r = DP_SUCCESS \<longrightarrow> kv_db kv a' = keep_keys (\<lambda>k. k \<notin> set del) (kv_db kv a)) \<and>
    (\<exists>gone\<subseteq>set del. kv_db kv a' = keep_keys (\<lambda>k. k \<notin> gone) (kv_db kv a))"
proof (cases "kvStorePtr a = None \<or> del = [] \<or> length del > MAX_PROFILE_SIZE")
  case True
  with assms have "a' = a" "r \<noteq> DP_SUCCESS"
    by (auto simp: KVAdapter_DeleteBatch_def split: if_splits option.splits)
  then show ?thesis by (auto intro!: exI [of _ "{}"])
next
  case False
  then obtain s where s: "kvStorePtr a = Some s" by auto
  obtain r' s' where d: "delete_batches ks (delKeyBatches del 0) s = (r', s')" by force
  with assms False s have "r' = r" "kv_db kv a' = kv s'" "kv_db kv a = kv s"
    by (auto simp: KVAdapter_DeleteBatch_def kv_db_def)
  with delete_batches_kv [OF d] show ?thesis by (auto simp: concat_delKeyBatches)
qed

lemma adapter_delete_prefix:
  assumes "KVAdapter_DeleteByPrefix ks p a = (r, a')"
  shows "kv_db kv a' =
    (if r = DP_SUCCESS then keep_keys (\<lambda>k. \<not> prefix p k) (kv_db kv a) else kv_db kv a)"
proof (cases "kvStorePtr a")
  case None
  with assms show ?thesis by (auto simp: KVAdapter_DeleteByPrefix_def)
next
  case (Some s)
  obtain st es where e: "ks_GetEntries ks s p = (st, es)" by force
  obtain st' s' where d: "ks_DeleteBatch ks s (map fst es) = (st', s')" by force
  show ?thesis
  proof (cases "st = KV_SUCCESS")
    case True
    with entries e have m: "map_of es = keep_keys (\<lambda>k. prefix p k) (kv s)" by blast
    have "k \<in> fst ` set es \<longleftrightarrow> prefix p k \<and> kv s k \<noteq> None" for k
      unfolding key_in_map m by (simp add: keep_keys_def)
    then have "keep_keys (\<lambda>k. k \<notin> set (map fst es)) (kv s) = keep_keys (\<lambda>k. \<not> prefix p k) (kv s)"
      by (auto simp: keep_keys_def)
    with assms Some True e d delete_batch [OF d] show ?thesis
      by (auto simp: KVAdapter_DeleteByPrefix_def kv_db_def split: if_splits)
  next
    case False
    with assms Some e show ?thesis by (auto simp: KVAdapter_DeleteByPrefix_def kv_db_def)
  qed
qed

lemma adapter_get_prefix:
  assumes "KVAdapter_GetByPrefix ks p [] a = (DP_SUCCESS, vs)"
  shows "vs \<noteq> [] \<and> omap_wf vs \<and> map_of vs = keep_keys (\<lambda>k. prefix p k) (kv_db kv a)"
proof (cases "kvStorePtr a")
  case None
  with assms show ?thesis by (simp add: KVAdapter_GetByPrefix_def)
next
  case (Some s)
  obtain st es where e: "ks_GetEntries ks s p = (st, es)" by force
  with assms Some have "st = KV_SUCCESS" "es \<noteq> []" "vs = put_all es []"
    by (auto simp: KVAdapter_GetByPrefix_def split: if_splits)
  with Some e entries show ?thesis
    by (auto simp: kv_db_def put_all_not_Nil put_all_wf map_of_put_all)
qed

end

sublocale kv_store \<subseteq> adapter: ikv_adapter "KVAdapter_ops ks" "kv_db kv"
proof
  fix k v r and a a' :: "('m, 's) KVAdapter"
  assume "ik_Delete (KVAdapter_ops ks) k a = (r, a')"
  then show "kv_db kv a' = (if r = DP_SUCCESS then (kv_db kv a)(k := None) else kv_db kv a)"
    by (auto simp: KVAdapter_ops_def KVAdapter_Delete_def kv_db_def delete Let_def
        split: option.splits prod.splits if_splits)
next
  fix k v v' and a :: "('m, 's) KVAdapter"
  assume "ik_Get (KVAdapter_ops ks) k v a = (DP_SUCCESS, v')"
  then show "kv_db kv a k = Some v'"
    by (auto simp: KVAdapter_ops_def KVAdapter_Get_def kv_db_def get Let_def
        split: option.splits prod.splits if_splits)
qed (simp_all add: KVAdapter_ops_def adapter_put adapter_put_batch adapter_delete_batch
    adapter_delete_prefix adapter_get_prefix)

section \<open>A store in memory\<close>

text \<open>An instance of the data service on which the operations can be evaluated.\<close>

definition mem_store :: "(string, string) umap SingleKvStore" where
  "mem_store =
     \<lparr>ks_Get = \<lambda>s k. (case map_of s k of None \<Rightarrow> (KV_ERROR, []) | Some v \<Rightarrow> (KV_SUCCESS, v)),
      ks_Put = \<lambda>s k v. (KV_SUCCESS, AList.update k v s),
      ks_PutBatch = \<lambda>s es. (KV_SUCCESS, fold (\<lambda>(k, v). AList.update k v) es s),
      ks_Delete = \<lambda>s k. (KV_SUCCESS, AList.delete k s),
      ks_DeleteBatch = \<lambda>s del. (KV_SUCCESS, filter (\<lambda>(k, v). k \<notin> set del) s),
      ks_GetEntries = \<lambda>s p. (KV_SUCCESS, filter (\<lambda>(k, v). prefix p k) (AList.clearjunk s)),
      ks_GetDeviceEntries = \<lambda>s u. (KV_SUCCESS, []),
      ks_Sync = \<lambda>s ds mode. (KV_SUCCESS, s),
      ks_RemoveDeviceData = \<lambda>s u. (KV_SUCCESS, s),
      ks_SubscribeKvStore = \<lambda>s l. (KV_SUCCESS, s),
      ks_UnSubscribeKvStore = \<lambda>s l. (KV_SUCCESS, s),
      ks_RegisterSyncCallback = \<lambda>s l. (KV_SUCCESS, s),
      ks_UnRegisterSyncCallback = \<lambda>s. (KV_SUCCESS, s)\<rparr>"

lemma map_of_fold_update:
  "distinct (map fst es) \<Longrightarrow> map_of (fold (\<lambda>(k, v). AList.update k v) es s) = map_of s ++ map_of es"
proof (induction es arbitrary: s)
  case (Cons e es)
  obtain k v where e: "e = (k, v)" by force
  with Cons.prems have k: "map_of es k = None" and d: "distinct (map fst es)"
    by (auto simp: map_of_eq_None_iff)
  from k Cons.IH [OF d] show ?case by (auto simp: e map_add_def fun_eq_iff split: option.splits)
qed simp

lemma map_of_filter_keys: "map_of (filter (\<lambda>(k, v). P k) m) = keep_keys P (map_of m)"
  by (induction m) (auto simp: keep_keys_def fun_eq_iff)

interpretation mem: kv_store mem_store map_of
proof
  fix s :: "(string, string) umap" and p es
  assume "ks_GetEntries mem_store s p = (KV_SUCCESS, es)"
  then show "distinct (map fst es) \<and> map_of es = keep_keys (\<lambda>k. prefix p k) (map_of s)"
    by (auto simp: mem_store_def map_of_filter_keys map_of_clearjunk
        intro!: distinct_map_filter)
qed (auto simp: mem_store_def map_of_fold_update map_of_filter_keys split: option.splits)

definition mem_adapter :: "(string, string) umap \<Rightarrow> (unit, (string, string) umap) KVAdapter" where
  "mem_adapter m = \<lparr>kvStorePtr = Some m, kvDataMgr = (), dataChangeListener = True,
     syncCompletedListener = True, deathRecipient = True\<rparr>"

section \<open>Properties\<close>

text \<open>C9: \<open>PutBatch\<close> refines the update of a map. Over any store that keeps its documented
  laws, a successful \<open>PutBatch\<close> leaves the store with the batch over its old entries and an
  unsuccessful one leaves it unchanged; a batch whose entries are all stored already succeeds
  without writing; and an empty or oversized batch, or a null store pointer, is refused with its
  own code and no effect.\<close>

theorem kv_put_batch_refines:
  assumes "kv_store ks kv" "omap_wf values"
  shows "let (r, a') = KVAdapter_PutBatch ks values a in
    kv_db kv a' = (if r = DP_SUCCESS then kv_db kv a ++ map_of values else kv_db kv a) \<and>
    (values = [] \<or> length values > MAX_PROFILE_SIZE \<longrightarrow> (r, a') = (DP_INVALID_PARAMS, a)) \<and>
    (values \<noteq> [] \<and> length values \<le> MAX_PROFILE_SIZE \<longrightarrow>
      (case kvStorePtr a of
         None \<Rightarrow> (r, a') = (DP_KV_DB_PTR_NULL, a)
       | Some s \<Rightarrow>
           r \<in> {DP_SUCCESS, DP_PUT_KV_DB_FAIL} \<and>
           ((\<forall>(k, v)\<in>set values. ks_Get ks s k = (KV_SUCCESS, v)) \<longrightarrow> (r, a') = (DP_SUCCESS, a))))"
proof -
  obtain r a' where p: "KVAdapter_PutBatch ks values a = (r, a')" by force
  show ?thesis
    using kv_store.adapter_put_batch [OF assms(1) p assms(2)] p
    by (auto simp: KVAdapter_PutBatch_def Let_def filter_empty_conv
        split: option.splits if_splits prod.splits)
qed

lemma kv_put_batch_refines_witness:
  "KVAdapter_PutBatch mem_store [(''a'', ''1''), (''b'', ''2'')] (mem_adapter [(''b'', ''2'')])
     = (DP_SUCCESS, mem_adapter [(''b'', ''2''), (''a'', ''1'')]) \<and>
   kv_db map_of (mem_adapter [(''b'', ''2''), (''a'', ''1'')]) ''a'' = Some ''1''"
  using kv_put_batch_refines [OF mem.kv_store_axioms,
      of "[(''a'', ''1''), (''b'', ''2'')]" "mem_adapter [(''b'', ''2'')]"]
  by (simp add: omap_wf_def KVAdapter_PutBatch_def mem_store_def mem_adapter_def)

text \<open>C10: \<open>DeleteBatch\<close> deletes in batches of at most \<open>MAX_BATCH_SIZE\<close> keys that together are
  exactly the keys it was given, in order. Over any store that keeps its laws, success means
  that exactly these keys are gone; when a batch fails nothing else has changed.\<close>

theorem kv_delete_batch_refines:
  assumes "kv_store ks kv"
  shows "concat (delKeyBatches keys 0) = keys \<and>
    (\<forall>b\<in>set (delKeyBatches keys 0). b \<noteq> [] \<and> length b \<le> MAX_BATCH_SIZE) \<and>
    (let (r, a') = KVAdapter_DeleteBatch ks keys a in
      (r = DP_SUCCESS \<longrightarrow> kv_db kv a' = keep_keys (\<lambda>k. k \<notin> set keys) (kv_db kv a)) \<and>
      (\<forall>k. k \<notin> set keys \<longrightarrow> kv_db kv a' k = kv_db kv a k) \<and> kv_db kv a' \<subseteq>\<^sub>m kv_db kv a)"
proof -
  obtain r a' where d: "KVAdapter_DeleteBatch ks keys a = (r, a')" by force
  from kv_store.adapter_delete_batch [OF assms d] obtain gone where
    "r = DP_SUCCESS \<longrightarrow> kv_db kv a' = keep_keys (\<lambda>k. k \<notin> set keys) (kv_db kv a)"
    "gone \<subseteq> set keys" "kv_db kv a' = keep_keys (\<lambda>k. k \<notin> gone) (kv_db kv a)" by blast
  then show ?thesis
    using delKeyBatches_size [of _ keys 0]
    by (auto simp: concat_delKeyBatches d keep_keys_def map_le_def dom_def split: if_splits)
qed

lemma kv_delete_batch_refines_witness:
  "kv_db map_of (snd (KVAdapter_DeleteBatch mem_store [''a'', ''c'']
     (mem_adapter [(''a'', ''1''), (''b'', ''2'')]))) ''a'' = None"
  using kv_delete_batch_refines [OF mem.kv_store_axioms, of "[''a'', ''c'']"
      "mem_adapter [(''a'', ''1''), (''b'', ''2'')]"]
  by (simp add: KVAdapter_DeleteBatch_def mem_store_def mem_adapter_def delKeyBatches.simps
      keep_keys_def kv_db_def)

lemma with_store_ptr: "kvStorePtr (snd (with_store a n f g)) = None \<longleftrightarrow> kvStorePtr a = None"
  by (auto simp: with_store_def Let_def split: option.splits prod.splits)

lemma KVAdapter_Init_loop_cases:
  "KVAdapter_Init_loop ks km n a = (r, a') \<Longrightarrow>
   (r = DP_SUCCESS \<and> kvStorePtr a' \<noteq> None) \<or> r = DP_KV_DB_INIT_FAIL"
proof (induction n arbitrary: a)
  case (Suc n)
  obtain st a1 where g: "GetKvStorePtr km a = (st, a1)" by force
  show ?case
  proof (cases "st = KV_SUCCESS")
    case True
    then have "kvStorePtr a1 \<noteq> None"
      using g by (auto simp: GetKvStorePtr_def Let_def split: prod.splits if_splits)
    moreover have a': "r = DP_SUCCESS" "a' = snd (RegisterDeathListener km
        (snd (RegisterDataChangeListener ks (snd (RegisterSyncCompletedListener ks a1)))))"
      using Suc.prems g True by (auto simp: Let_def)
    moreover have "kvStorePtr a' = None \<longleftrightarrow> kvStorePtr a1 = None"
      by (simp add: a' RegisterSyncCompletedListener_def RegisterDataChangeListener_def
          RegisterDeathListener_def with_store_ptr)
    ultimately show ?thesis by (simp del: not_None_eq)
  next
    case False
    with Suc g show ?thesis by (simp add: Let_def)
  qed
qed simp

lemma KVAdapter_Init_loop_fails:
  assumes "\<And>m. fst (km_GetSingleKvStore km m) \<noteq> KV_SUCCESS"
  shows "fst (KVAdapter_Init_loop ks km n a) = DP_KV_DB_INIT_FAIL"
proof (induction n arbitrary: a)
  case (Suc n)
  have "fst (GetKvStorePtr km a) \<noteq> KV_SUCCESS"
    using assms [of "kvDataMgr a"] by (auto simp: GetKvStorePtr_def Let_def split: prod.splits)
  then show ?case using Suc by (cases "GetKvStorePtr km a") (auto simp: Let_def)
qed simp

text \<open>Opening and closing the store. \<open>Init\<close> gives up after its bounded number of attempts:
  it returns \<open>DP_SUCCESS\<close> with a store pointer that is set, or \<open>DP_KV_DB_INIT_FAIL\<close>; it does fail
  when the data service never hands out a store, and succeeds when the first attempt gets one.
  After \<open>UnInit\<close> the pointer is null, and every data operation on valid arguments answers
  \<open>DP_KV_DB_PTR_NULL\<close> and changes nothing.\<close>

theorem kv_adapter_lifecycle:
  "(let (r, a') = KVAdapter_Init ks km a in
      (r = DP_SUCCESS \<and> kvStorePtr a' \<noteq> None) \<or> r = DP_KV_DB_INIT_FAIL) \<and>
   ((\<forall>m. fst (km_GetSingleKvStore km m) \<noteq> KV_SUCCESS) \<longrightarrow>
      fst (KVAdapter_Init ks km a) = DP_KV_DB_INIT_FAIL) \<and>
   (\<forall>s m. km_GetSingleKvStore km (kvDataMgr a) = (KV_SUCCESS, Some s, m) \<longrightarrow>
      fst (KVAdapter_Init ks km a) = DP_SUCCESS) \<and>
   (let (r, b) = KVAdapter_UnInit ks km a in
      r = DP_SUCCESS \<and> kvStorePtr b = None \<and>
      (\<forall>k v. k \<noteq> [] \<and> length k \<le> MAX_STRING_LEN \<and> v \<noteq> [] \<and> length v \<le> MAX_STRING_LEN \<longrightarrow>
         KVAdapter_Put ks k v b = (DP_KV_DB_PTR_NULL, b)) \<and>
      (\<forall>k v. KVAdapter_Get ks k v b = (DP_KV_DB_PTR_NULL, v)) \<and>
      (\<forall>p vs. KVAdapter_GetByPrefix ks p vs b = (DP_KV_DB_PTR_NULL, vs)) \<and>
      (\<forall>k. KVAdapter_Delete ks k b = (DP_KV_DB_PTR_NULL, b)) \<and>
      (\<forall>p. KVAdapter_DeleteByPrefix ks p b = (DP_KV_DB_PTR_NULL, b)) \<and>
      (\<forall>ds n. KVAdapter_Sync ks ds n b = (DP_KV_DB_PTR_NULL, b)))"
proof -
  obtain r a' where i: "KVAdapter_Init ks km a = (r, a')" by force
  have "fst (KVAdapter_Init ks km a) = DP_SUCCESS"
    if "km_GetSingleKvStore km (kvDataMgr a) = (KV_SUCCESS, Some s, m)" for s m
    using that by (simp add: KVAdapter_Init_def eval_nat_numeral GetKvStorePtr_def Let_def)
  moreover have "fst (KVAdapter_Init ks km a) = DP_KV_DB_INIT_FAIL"
    if "\<forall>m. fst (km_GetSingleKvStore km m) \<noteq> KV_SUCCESS"
    using that KVAdapter_Init_loop_fails [of km] by (simp add: KVAdapter_Init_def)
  moreover have "(r = DP_SUCCESS \<and> kvStorePtr a' \<noteq> None) \<or> r = DP_KV_DB_INIT_FAIL"
    using KVAdapter_Init_loop_cases i unfolding KVAdapter_Init_def by blast
  ultimately show ?thesis
    by (auto simp: i KVAdapter_UnInit_def Let_def KVAdapter_Put_def KVAdapter_Get_def
        KVAdapter_GetByPrefix_def KVAdapter_Delete_def KVAdapter_DeleteByPrefix_def
        KVAdapter_Sync_def)
qed

definition mem_manager :: "(nat, (string, string) umap) DistributedKvDataManager" where
  "mem_manager =
     \<lparr>km_GetSingleKvStore = \<lambda>m. (case m of 0 \<Rightarrow> (KV_SUCCESS, Some [], 0) | Suc n \<Rightarrow> (KV_ERROR, None, n)),
      km_CloseKvStore = id, km_DeleteKvStore = id,
      km_RegisterDeathRecipient = \<lambda>m d. m, km_UnRegisterDeathRecipient = \<lambda>m d. m\<rparr>"

lemma kv_adapter_lifecycle_witness:
  "let a = \<lparr>kvStorePtr = None, kvDataMgr = 0, dataChangeListener = True,
            syncCompletedListener = True, deathRecipient = True\<rparr> in
   fst (KVAdapter_Init mem_store mem_manager a) = DP_SUCCESS \<and>
   kvStorePtr (snd (KVAdapter_UnInit mem_store mem_manager a)) = None"
  using kv_adapter_lifecycle [of mem_store mem_manager
      "\<lparr>kvStorePtr = None, kvDataMgr = 0, dataChangeListener = True,
        syncCompletedListener = True, deathRecipient = True\<rparr>"]
  by (simp add: Let_def mem_manager_def split: prod.splits)

end
