(* ===== verification/SwitchStore.thy ===== *)
theory SwitchStore
  imports KvAdapter
begin

text \<open>
  \<open>SwitchAdapter\<close> (\<open>persistenceadapter/kvadapter/switch_adapter.cpp\<close>): the switch word of a device
  in the distributed data service. The service's switch calls are the fields of \<open>SwitchData\<close>, an
  argument of the operations, over an opaque state.
\<close>

record 'w SwitchData =
  sd_PutSwitch :: "string \<Rightarrow> 32 word \<Rightarrow> 16 word \<Rightarrow> 'w \<Rightarrow> kv_status \<times> 'w"
  sd_GetSwitch :: "string \<Rightarrow> string \<Rightarrow> 'w \<Rightarrow> kv_status \<times> 32 word \<times> 32 word"
  sd_Subscribe :: "string \<Rightarrow> bool \<Rightarrow> 'w \<Rightarrow> kv_status \<times> 'w"
  sd_Unsubscribe :: "string \<Rightarrow> bool \<Rightarrow> 'w \<Rightarrow> kv_status \<times> 'w"

record 'w SwitchAdapter =
  observer :: bool
  switchData :: 'w

definition SwitchAdapter_Init :: "'w SwitchAdapter \<Rightarrow> 'w SwitchAdapter" where
  "SwitchAdapter_Init a = (if \<not> observer a then a\<lparr>observer := True\<rparr> else a)"

definition SwitchAdapter_PutSwitch ::
  "'w SwitchData \<Rightarrow> string \<Rightarrow> 32 word \<Rightarrow> 16 word \<Rightarrow> 'w SwitchAdapter \<Rightarrow> dp_ret \<times> 'w SwitchAdapter" where
  "SwitchAdapter_PutSwitch sd appId val len a =
     (if appId = [] then (DP_INVALID_PARAMS, a)
      else let (res, w) = sd_PutSwitch sd appId val len (switchData a);
               a = a\<lparr>switchData := w\<rparr> in
           if res \<noteq> KV_SUCCESS then (DP_PUT_KV_DB_FAIL, a) else (DP_SUCCESS, a))"

definition SwitchAdapter_GetSwitch ::
  "'w SwitchData \<Rightarrow> string \<Rightarrow> string \<Rightarrow> 32 word \<Rightarrow> 32 word \<Rightarrow> 'w SwitchAdapter \<Rightarrow>
   dp_ret \<times> 32 word \<times> 32 word" where
  "SwitchAdapter_GetSwitch sd appId networkId val switchLength a =
     (if appId = [] \<or> networkId = [] then (DP_INVALID_PARAMS, val, switchLength)
      else let (res, v, l) = sd_GetSwitch sd appId networkId (switchData a) in
           if res \<noteq> KV_SUCCESS then (DP_GET_KV_DB_FAIL, val, switchLength) else (DP_SUCCESS, v, l))"

definition SwitchAdapter_SubscribeSwitchData ::
  "'w SwitchData \<Rightarrow> string \<Rightarrow> 'w SwitchAdapter \<Rightarrow> dp_ret \<times> 'w SwitchAdapter" where
  "SwitchAdapter_SubscribeSwitchData sd appId a =
     (if appId = [] then (DP_INVALID_PARAMS, a)
      else if \<not> observer a then (DP_INVALID_PARAMS, a)
      else let (res, w) = sd_Subscribe sd appId (observer a) (switchData a);
               a = a\<lparr>switchData := w\<rparr> in
           if res \<noteq> KV_SUCCESS then (DP_SUBSCRIBE_FAILED, a) else (DP_SUCCESS, a))"

definition SwitchAdapter_UnsubscribeSwitchData ::
  "'w SwitchData \<Rightarrow> string \<Rightarrow> 'w SwitchAdapter \<Rightarrow> dp_ret \<times> 'w SwitchAdapter" where
  "SwitchAdapter_UnsubscribeSwitchData sd appId a =
     (if appId = [] then (DP_INVALID_PARAMS, a)
      else let (res, w) = sd_Unsubscribe sd appId (observer a) (switchData a);
               a = a\<lparr>switchData := w\<rparr> in
           if res \<noteq> KV_SUCCESS then (DP_UNSUBSCRIBE_FAILED, a) else (DP_SUCCESS, a))"

end
