(* ===== verification/ProfileControl.thy ===== *)
theory ProfileControl
  imports CacheLaws ProfileEntries SwitchStore
begin

text \<open>
  \<open>ProfileControlUtils\<close> (\<open>services/core/src/utils/profile_control_utils.cpp\<close>) and
  \<open>SwitchProfileManager\<close> (\<open>deviceprofilemanager/switch_profile_manager.cpp\<close>): storing, reading and
  deleting profiles through the key-value adapter and the cache together. The state holds the
  adapter (\<open>None\<close> is a null pointer), the cache and the switch adapter; \<open>ik\<close> is the adapter's
  interface. The local udid \<open>lu\<close>, the local network id \<open>ln\<close> and the current foreground user are
  arguments.
\<close>

record ('a, 'w) Stores =
  st_kv :: "'a option"
  st_cache :: ProfileCache
  st_switch :: "'w SwitchAdapter"

abbreviation "CUR_SWITCH_LEN \<equiv> (5 :: 16 word)"

section \<open>Storing profiles\<close>

definition Ctl_PutDeviceProfile ::
  "'a IKVAdapter \<Rightarrow> string \<Rightarrow> DeviceProfile \<Rightarrow> ('a, 'w) Stores \<Rightarrow> dp_ret \<times> ('a, 'w) Stores" where
  "Ctl_PutDeviceProfile ik lu p st =
     (case st_kv st of
        None \<Rightarrow> (DP_INVALID_PARAMS, st)
      | Some a \<Rightarrow>
          if \<not> IsDevProfileValid lu p then (DP_INVALID_PARAMS, st)
          else if Cache_IsDeviceProfileExist p (st_cache st) then (DP_CACHE_EXIST, st)
          else let entries = snd (DeviceProfileToEntries p [] False);
                   (ret, a) = ik_PutBatch ik entries a;
                   st = st\<lparr>st_kv := Some a\<rparr> in
               if ret \<noteq> DP_SUCCESS then (DP_PUT_KV_DB_FAIL, st)
               else (DP_SUCCESS, st\<lparr>st_cache := snd (Cache_AddDeviceProfile p (st_cache st))\<rparr>))"

definition Ctl_PutServiceProfile ::
  "'a IKVAdapter \<Rightarrow> string \<Rightarrow> ServiceProfile \<Rightarrow> ('a, 'w) Stores \<Rightarrow> dp_ret \<times> ('a, 'w) Stores" where
  "Ctl_PutServiceProfile ik lu p st =
     (case st_kv st of
        None \<Rightarrow> (DP_INVALID_PARAMS, st)
      | Some a \<Rightarrow>
          if \<not> IsSvrProfileValid lu p then (DP_INVALID_PARAMS, st)
          else if Cache_IsServiceProfileExist p (st_cache st) then (DP_CACHE_EXIST, st)
          else let entries = snd (ServiceProfileToEntries p [] False);
                   (ret, a) = ik_PutBatch ik entries a;
                   st = st\<lparr>st_kv := Some a\<rparr> in
               if ret \<noteq> DP_SUCCESS then (DP_PUT_KV_DB_FAIL, st)
               else (DP_SUCCESS, st\<lparr>st_cache := snd (Cache_AddServiceProfile p (st_cache st))\<rparr>))"

definition Ctl_PutServiceProfileBatch ::
  "'a IKVAdapter \<Rightarrow> string \<Rightarrow> ServiceProfile list \<Rightarrow> ('a, 'w) Stores \<Rightarrow>
   dp_ret \<times> ('a, 'w) Stores" where
  "Ctl_PutServiceProfileBatch ik lu ps st =
     (if length ps > MAX_SERVICE_SIZE then (DP_INVALID_PARAMS, st)
      else (DP_SUCCESS, fold (\<lambda>p st. snd (Ctl_PutServiceProfile ik lu p st)) ps st))"

definition Ctl_PutCharacteristicProfile ::
  "'a IKVAdapter \<Rightarrow> string \<Rightarrow> CharacteristicProfile \<Rightarrow> ('a, 'w) Stores \<Rightarrow>
   dp_ret \<times> ('a, 'w) Stores" where
  "Ctl_PutCharacteristicProfile ik lu p st =
     (case st_kv st of
        None \<Rightarrow> (DP_INVALID_PARAMS, st)
      | Some a \<Rightarrow>
          if \<not> IsCharProfileValid lu p then (DP_INVALID_PARAMS, st)
          else if Cache_IsCharProfileExist p (st_cache st) then (DP_CACHE_EXIST, st)
          else let entries = snd (CharacteristicProfileToEntries p [] False);
                   (ret, a) = ik_PutBatch ik entries a;
                   st = st\<lparr>st_kv := Some a\<rparr> in
               if ret \<noteq> DP_SUCCESS then (DP_PUT_KV_DB_FAIL, st)
               else (DP_SUCCESS, st\<lparr>st_cache := snd (Cache_AddCharProfile p (st_cache st))\<rparr>))"

definition Ctl_PutCharacteristicProfileBatch ::
  "'a IKVAdapter \<Rightarrow> string \<Rightarrow> CharacteristicProfile list \<Rightarrow> ('a, 'w) Stores \<Rightarrow>
   dp_ret \<times> ('a, 'w) Stores" where
  "Ctl_PutCharacteristicProfileBatch ik lu ps st =
     (if length ps > MAX_CHAR_SIZE then (DP_INVALID_PARAMS, st)
      else (DP_SUCCESS, fold (\<lambda>p st. snd (Ctl_PutCharacteristicProfile ik lu p st)) ps st))"

definition Ctl_PutSwitchCharacteristicProfile ::
  "'w SwitchData \<Rightarrow> string \<Rightarrow> string \<Rightarrow> CharacteristicProfile \<Rightarrow> ('a, 'w) Stores \<Rightarrow>
   dp_ret \<times> ('a, 'w) Stores" where
  "Ctl_PutSwitchCharacteristicProfile sd lu appId p st =
     (if \<not> IsCharProfileValid lu p then (DP_INVALID_PARAMS, st)
      else if Cache_IsCharProfileExist p (st_cache st) then (DP_CACHE_EXIST, st)
      else let (res, newSwitch) = Cache_SetSwitchByProfile p SWITCH_SERVICE_MAP
                                    (curLocalSwitch (st_cache st)) in
           if res \<noteq> DP_SUCCESS then (res, st)
           else let (res, sw) = SwitchAdapter_PutSwitch sd appId newSwitch CUR_SWITCH_LEN (st_switch st);
                    st = st\<lparr>st_switch := sw\<rparr> in
                if res \<noteq> DP_SUCCESS then (res, st)
                else let c = Cache_SetCurSwitch newSwitch (st_cache st);
                         c = snd (Cache_AddCharProfile p c)
                     in (DP_SUCCESS, st\<lparr>st_cache := c\<rparr>))"

text \<open>The loop over the batch: \<open>Inl\<close> is its early return on an invalid profile. A profile whose
  switch value is refused is skipped with a warning.\<close>

fun switch_items ::
  "string \<Rightarrow> ProfileCache \<Rightarrow> CharacteristicProfile list \<Rightarrow> 32 word \<Rightarrow> dp_ret + 32 word" where
  "switch_items lu c [] newSwitch = Inr newSwitch"
| "switch_items lu c (p # ps) newSwitch =
     (if \<not> IsCharProfileValid lu p then Inl DP_INVALID_PARAMS
      else if Cache_IsCharProfileExist p c then switch_items lu c ps newSwitch
      else switch_items lu c ps (snd (Cache_SetSwitchByProfile p SWITCH_SERVICE_MAP newSwitch)))"

definition Ctl_PutSwitchCharacteristicProfileBatch ::
  "'w SwitchData \<Rightarrow> string \<Rightarrow> string \<Rightarrow> CharacteristicProfile list \<Rightarrow> ('a, 'w) Stores \<Rightarrow>
   dp_ret \<times> ('a, 'w) Stores" where
  "Ctl_PutSwitchCharacteristicProfileBatch sd lu appId ps st =
     (if ps = [] \<or> appId = [] then (DP_INVALID_PARAMS, st)
      else if length ps > MAX_CHAR_SIZE then (DP_INVALID_PARAMS, st)
      else case switch_items lu (st_cache st) ps (curLocalSwitch (st_cache st)) of
        Inl e \<Rightarrow> (e, st)
      | Inr newSwitch \<Rightarrow>
          let (res, sw) = SwitchAdapter_PutSwitch sd appId newSwitch CUR_SWITCH_LEN (st_switch st);
              st = st\<lparr>st_switch := sw\<rparr> in
          if res \<noteq> DP_SUCCESS then (res, st)
          else let c = Cache_SetCurSwitch newSwitch (st_cache st);
                   c = fold (\<lambda>p c. snd (Cache_AddCharProfile p c)) ps c
               in (DP_SUCCESS, st\<lparr>st_cache := c\<rparr>))"

section \<open>Reading profiles\<close>

definition Ctl_GetDeviceProfile ::
  "'a IKVAdapter \<Rightarrow> string \<Rightarrow> DeviceProfile \<Rightarrow> ('a, 'w) Stores \<Rightarrow> dp_ret \<times> DeviceProfile" where
  "Ctl_GetDeviceProfile ik deviceId p st =
     (case st_kv st of
        None \<Rightarrow> (DP_INVALID_PARAMS, p)
      | Some a \<Rightarrow>
          if \<not> IsKeyValid deviceId then (DP_INVALID_PARAMS, p)
          else let (ret, q) = Cache_GetDeviceProfile deviceId p (st_cache st) in
            if ret = DP_SUCCESS then (DP_SUCCESS, q)
            else let (ret, values) = ik_GetByPrefix ik (GenerateDeviceProfileKey deviceId) [] a in
              if ret \<noteq> DP_SUCCESS then (DP_GET_KV_DB_FAIL, q)
              else let (_, q) = EntriesToDeviceProfile values q in
                if \<not> IsDeviceProfileValid q then (DP_GET_KV_DB_FAIL, q) else (DP_SUCCESS, q))"

definition Ctl_GetServiceProfile ::
  "'a IKVAdapter \<Rightarrow> string \<Rightarrow> string \<Rightarrow> ServiceProfile \<Rightarrow> ('a, 'w) Stores \<Rightarrow>
   dp_ret \<times> ServiceProfile" where
  "Ctl_GetServiceProfile ik deviceId serviceName p st =
     (case st_kv st of
        None \<Rightarrow> (DP_INVALID_PARAMS, p)
      | Some a \<Rightarrow>
          if \<not> IsKeyValid deviceId \<or> \<not> IsKeyValid serviceName then (DP_INVALID_PARAMS, p)
          else let (ret, q) = Cache_GetServiceProfile deviceId serviceName p (st_cache st) in
            if ret = DP_SUCCESS then (DP_SUCCESS, q)
            else let (ret, values) =
                   ik_GetByPrefix ik (GenerateServiceProfileKey deviceId serviceName) [] a in
              if ret \<noteq> DP_SUCCESS then (DP_GET_KV_DB_FAIL, q)
              else let (_, q) = EntriesToServiceProfile values q in
                if \<not> IsServiceProfileValid q then (DP_GET_KV_DB_FAIL, q) else (DP_SUCCESS, q))"

definition Ctl_GetCharacteristicProfile ::
  "'a IKVAdapter \<Rightarrow> string \<Rightarrow> string \<Rightarrow> string \<Rightarrow> CharacteristicProfile \<Rightarrow> ('a, 'w) Stores \<Rightarrow>
   dp_ret \<times> CharacteristicProfile" where
  "Ctl_GetCharacteristicProfile ik deviceId serviceName charKey p st =
     (case st_kv st of
        None \<Rightarrow> (DP_INVALID_PARAMS, p)
      | Some a \<Rightarrow>
          if \<not> IsKeyValid deviceId \<or> \<not> IsKeyValid serviceName \<or> \<not> IsKeyValid charKey
          then (DP_INVALID_PARAMS, p)
          else let (ret, q) =
                 (if charKey = STATIC_CHARACTERISTIC_KEY \<or> charKey = SWITCH_STATUS
                  then Cache_GetCharacteristicProfile deviceId serviceName charKey p (st_cache st)
                  else (DP_NOT_FOUND_FAIL, p)) in
            if ret = DP_SUCCESS then (DP_SUCCESS, q)
            else let values =
                   (if IsNeedAddOhSuffix serviceName True
                    then let (ret, vs) = ik_GetByPrefix ik (GenerateCharProfileKey deviceId
                                (CheckAndAddOhSuffix serviceName True) charKey) [] a in
                         if ret \<noteq> DP_SUCCESS then [] else vs
                    else []);
                   (ret, values) =
                   (if values = []
                    then ik_GetByPrefix ik (GenerateCharProfileKey deviceId serviceName charKey) values a
                    else (DP_SUCCESS, values)) in
              if ret \<noteq> DP_SUCCESS then (DP_GET_KV_DB_FAIL, q)
              else let (_, q) = EntriesToCharProfile values q in
                if \<not> IsCharacteristicProfileValid q then (DP_GET_KV_DB_FAIL, q) else (DP_SUCCESS, q))"

definition Ctl_GetSwitchCharacteristicProfile ::
  "'w SwitchData \<Rightarrow> string \<Rightarrow> string \<Rightarrow> string \<Rightarrow> string \<Rightarrow> string \<Rightarrow> string \<Rightarrow>
   CharacteristicProfile \<Rightarrow> ('a, 'w) Stores \<Rightarrow> dp_ret \<times> CharacteristicProfile \<times> ('a, 'w) Stores" where
  "Ctl_GetSwitchCharacteristicProfile sd lu ln appId deviceId serviceName charKey p st =
     (if \<not> IsKeyValid deviceId \<or> \<not> IsKeyValid serviceName \<or> \<not> IsKeyValid charKey \<or> appId = []
      then (DP_INVALID_PARAMS, p, st)
      else let (ret, p) = Cache_GetCharacteristicProfile deviceId serviceName charKey p (st_cache st) in
        if ret = DP_SUCCESS then (DP_SUCCESS, p, st)
        else if \<not> Cache_IsSwitchValid (CharacteristicProfile_make deviceId serviceName charKey [])
                   SWITCH_SERVICE_MAP SWITCH_OPERATE_GET then (DP_INVALID_PARAMS, p, st)
        else let (res, netWorkId) = Cache_GetNetWorkIdByUdid lu ln deviceId [] (st_cache st) in
          if res \<noteq> DP_SUCCESS then (DP_GET_KV_DB_FAIL, p, st)
          else let (res, switchValue, _) =
                 SwitchAdapter_GetSwitch sd appId netWorkId 0 0 (st_switch st) in
            if res \<noteq> DP_SUCCESS then (DP_GET_KV_DB_FAIL, p, st)
            else let p = p\<lparr>cp_deviceId := deviceId, cp_serviceName := serviceName,
                          cp_characteristicKey := charKey\<rparr>;
                     (res, p, c) = Cache_SetSwitchProfile lu p switchValue (st_cache st);
                     st = st\<lparr>st_cache := c\<rparr> in
              if res \<noteq> DP_SUCCESS then (DP_GET_KV_DB_FAIL, p, st)
              else (DP_SUCCESS, p, st\<lparr>st_cache := snd (Cache_AddCharProfile p (st_cache st))\<rparr>))"

text \<open>One round of the loop over the switch positions \<open>SWITCH_FLAG_MIN + 1 .. SWITCH_FLAG_MAX - 1\<close>.\<close>

definition refresh_switch :: "string \<Rightarrow> 32 word \<Rightarrow> nat \<Rightarrow> ProfileCache \<Rightarrow> ProfileCache" where
  "refresh_switch lu newSwitch i c =
     (let itemSwitchValue = to_string (uint (drop_bit i newSwitch AND 1));
          (res, serviceName) = Cache_GetServiceNameByPos (int i) SWITCH_SERVICE_MAP [] in
      if res \<noteq> DP_SUCCESS \<or> serviceName = [] then c
      else snd (Cache_AddCharProfile
             (CharacteristicProfile_make lu serviceName SWITCH_STATUS itemSwitchValue) c))"

definition Ctl_RefreshLocalSwitchProfile ::
  "'w SwitchData \<Rightarrow> string \<Rightarrow> string \<Rightarrow> string \<Rightarrow> ('a, 'w) Stores \<Rightarrow> dp_ret \<times> ('a, 'w) Stores" where
  "Ctl_RefreshLocalSwitchProfile sd lu ln appId st =
     (if ln = [] \<or> lu = [] \<or> appId = [] then (DP_INVALID_PARAMS, st)
      else let (res, newSwitch, _) = SwitchAdapter_GetSwitch sd appId ln 0 0 (st_switch st) in
        if res \<noteq> DP_SUCCESS then (DP_GET_KV_DB_FAIL, st)
        else let c = fold (refresh_switch lu newSwitch) [0..<nat SWITCH_FLAG_MAX] (st_cache st);
                 c = Cache_SetCurSwitch newSwitch c
             in (DP_SUCCESS, st\<lparr>st_cache := c\<rparr>))"

section \<open>Deleting profiles\<close>

definition Ctl_DeleteServiceProfile ::
  "'a IKVAdapter \<Rightarrow> string \<Rightarrow> int \<Rightarrow> string \<Rightarrow> string \<Rightarrow> bool \<Rightarrow> int \<Rightarrow> ('a, 'w) Stores \<Rightarrow>
   dp_ret \<times> ('a, 'w) Stores" where
  "Ctl_DeleteServiceProfile ik lu foreground deviceId serviceName isMultiUser userId st =
     (case st_kv st of
        None \<Rightarrow> (DP_INVALID_PARAMS, st)
      | Some a \<Rightarrow>
          if \<not> IsKeyValid deviceId \<or> \<not> IsLocalUdid lu deviceId \<or> \<not> IsKeyValid serviceName
          then (DP_INVALID_PARAMS, st)
          else let keys =
                 (if isMultiUser
                  then GenerateServiceDBkeys deviceId serviceName True userId @
                       (if foreground = userId
                        then GenerateServiceDBkeys deviceId serviceName False DEFAULT_USER_ID else [])
                  else GenerateServiceDBkeys deviceId serviceName False DEFAULT_USER_ID);
                   (ret, a) = ik_DeleteBatch ik keys a;
                   st = st\<lparr>st_kv := Some a\<rparr> in
            if ret \<noteq> DP_SUCCESS then (DP_DEL_KV_DB_FAIL, st)
            else (DP_SUCCESS,
                  st\<lparr>st_cache := snd (Cache_DeleteServiceProfile deviceId serviceName (st_cache st))\<rparr>))"

definition Ctl_DeleteCharacteristicProfile ::
  "'a IKVAdapter \<Rightarrow> string \<Rightarrow> int \<Rightarrow> string \<Rightarrow> string \<Rightarrow> string \<Rightarrow> bool \<Rightarrow> int \<Rightarrow> ('a, 'w) Stores \<Rightarrow>
   dp_ret \<times> ('a, 'w) Stores" where
  "Ctl_DeleteCharacteristicProfile ik lu foreground deviceId serviceName charKey isMultiUser userId st =
     (case st_kv st of
        None \<Rightarrow> (DP_INVALID_PARAMS, st)
      | Some a \<Rightarrow>
          if \<not> IsKeyValid deviceId \<or> \<not> IsLocalUdid lu deviceId \<or> \<not> IsKeyValid serviceName \<or>
             \<not> IsKeyValid charKey
          then (DP_INVALID_PARAMS, st)
          else let keys =
                 (if isMultiUser
                  then GenerateCharacteristicDBkeys deviceId serviceName charKey True userId @
                       (if foreground = userId
                        then GenerateCharacteristicDBkeys deviceId serviceName charKey False
                               DEFAULT_USER_ID else [])
                  else GenerateCharacteristicDBkeys deviceId serviceName charKey False DEFAULT_USER_ID);
                   (ret, a) = ik_DeleteBatch ik keys a;
                   st = st\<lparr>st_kv := Some a\<rparr> in
            if ret \<noteq> DP_SUCCESS then (DP_DEL_KV_DB_FAIL, st)
            else (DP_SUCCESS,
                  st\<lparr>st_cache := snd (Cache_DeleteCharProfile deviceId serviceName charKey
                                    (st_cache st))\<rparr>))"

section \<open>Reading all profiles\<close>

text \<open>The entries grouped by \<open>GetProfileKey\<close>, as the nested map of the code.\<close>

definition group_entries :: "(string, string) omap \<Rightarrow> (string, (string, string) omap) omap" where
  "group_entries values =
     fold (\<lambda>(k, v) groups.
             let profileKey = GetProfileKey k;
                 m = (case map_of groups profileKey of None \<Rightarrow> [] | Some m \<Rightarrow> m)
             in omap_put profileKey (omap_emplace k v m) groups) values []"

definition Ctl_GetAllDeviceProfile ::
  "'a IKVAdapter \<Rightarrow> DeviceProfile list \<Rightarrow> ('a, 'w) Stores \<Rightarrow> dp_ret \<times> DeviceProfile list" where
  "Ctl_GetAllDeviceProfile ik ps st =
     (case st_kv st of
        None \<Rightarrow> (DP_INVALID_PARAMS, ps)
      | Some a \<Rightarrow>
          let (ret, values) = ik_GetByPrefix ik DEV_PREFIX [] a in
          if ret \<noteq> DP_SUCCESS then (DP_GET_KV_DB_FAIL, ps)
          else (DP_SUCCESS,
            ps @ map (\<lambda>(_, m). snd (EntriesToDeviceProfile m DeviceProfile_default))
                   (group_entries values)))"

definition Ctl_GetAllServiceProfile ::
  "'a IKVAdapter \<Rightarrow> ServiceProfile list \<Rightarrow> ('a, 'w) Stores \<Rightarrow> dp_ret \<times> ServiceProfile list" where
  "Ctl_GetAllServiceProfile ik ps st =
     (case st_kv st of
        None \<Rightarrow> (DP_INVALID_PARAMS, ps)
      | Some a \<Rightarrow>
          let (ret, values) = ik_GetByPrefix ik SVR_PREFIX [] a in
          if ret \<noteq> DP_SUCCESS then (DP_GET_KV_DB_FAIL, ps)
          else (DP_SUCCESS,
            ps @ map (\<lambda>(_, m). snd (EntriesToServiceProfile m ServiceProfile_default))
                   (group_entries values)))"

definition Ctl_GetAllCharacteristicProfile ::
  "'a IKVAdapter \<Rightarrow> CharacteristicProfile list \<Rightarrow> ('a, 'w) Stores \<Rightarrow>
   dp_ret \<times> CharacteristicProfile list" where
  "Ctl_GetAllCharacteristicProfile ik ps st =
     (case st_kv st of
        None \<Rightarrow> (DP_INVALID_PARAMS, ps)
      | Some a \<Rightarrow>
          let (ret, values) = ik_GetByPrefix ik CHAR_PREFIX [] a in
          if ret \<noteq> DP_SUCCESS then (DP_GET_KV_DB_FAIL, ps)
          else (DP_SUCCESS,
            ps @ map (\<lambda>(_, m). snd (EntriesToCharProfile m CharacteristicProfile_default))
                   (group_entries values)))"

section \<open>The switch manager\<close>

abbreviation "APP_ID \<equiv> ''distributed_device_profile_service''"

definition Switch_Init where
  "Switch_Init sd st =
     (let sw = SwitchAdapter_Init (st_switch st);
          (res, sw) = SwitchAdapter_SubscribeSwitchData sd APP_ID sw;
          st = st\<lparr>st_switch := sw\<rparr>
      in if res \<noteq> DP_SUCCESS then (DP_INIT_SWITCH_PROFILE_MANAGER_FAIL, st) else (DP_SUCCESS, st))"

definition Switch_UnInit where
  "Switch_UnInit sd st =
     (let (res, sw) = SwitchAdapter_UnsubscribeSwitchData sd APP_ID (st_switch st);
          st = st\<lparr>st_switch := sw\<rparr>
      in if res \<noteq> DP_SUCCESS then (DP_UNSUBSCRIBE_FAILED, st) else (DP_SUCCESS, st))"

definition Switch_ReInit where
  "Switch_ReInit sd st = Switch_Init sd (snd (Switch_UnInit sd st))"

definition Switch_PutCharacteristicProfile where
  "Switch_PutCharacteristicProfile sd lu p st = Ctl_PutSwitchCharacteristicProfile sd lu APP_ID p st"

definition Switch_PutCharacteristicProfileBatch where
  "Switch_PutCharacteristicProfileBatch sd lu ps st =
     Ctl_PutSwitchCharacteristicProfileBatch sd lu APP_ID ps st"

definition Switch_GetCharacteristicProfile where
  "Switch_GetCharacteristicProfile sd lu ln deviceId serviceName charKey p st =
     Ctl_GetSwitchCharacteristicProfile sd lu ln APP_ID deviceId serviceName charKey p st"

definition Switch_RefreshLocalSwitchProfile where
  "Switch_RefreshLocalSwitchProfile sd lu ln st = Ctl_RefreshLocalSwitchProfile sd lu ln APP_ID st"

definition Switch_GetLocalSwitchFromDB where
  "Switch_GetLocalSwitchFromDB sd ln localSwitch switchLength st =
     SwitchAdapter_GetSwitch sd APP_ID ln localSwitch switchLength (st_switch st)"

end
