(* ===== verification/ControlLaws.thy ===== *)
theory ControlLaws
  imports ProfileControl
begin

text \<open>
  What \<open>ProfileControlUtils\<close> promises over any adapter that keeps the contract \<open>ikv_adapter\<close>: what is
  stored is read back, storing again is a no-op, deletion removes exactly the caller's entries,
  switches and cache agree with the switch word. Two properties show where the code does less.
\<close>

section \<open>Entries of one characteristic\<close>

definition char_db_key :: "CharacteristicProfile \<Rightarrow> string" where
  "char_db_key p = GenerateCharProfileKey (cp_deviceId p)
     (CheckAndAddOhSuffix (cp_serviceName p) True) (cp_characteristicKey p)"

lemma char_entries_map:
  "map_of (snd (CharacteristicProfileToEntries p [] False)) =
     [GenerateDBKey (char_db_key p) CHARACTERISTIC_KEY DEFAULT_USER_ID \<mapsto> cp_characteristicKey p,
      GenerateDBKey (char_db_key p) CHARACTERISTIC_VALUE DEFAULT_USER_ID \<mapsto> cp_characteristicValue p]"
  by (simp add: CharacteristicProfileToEntries_def char_db_key_def Let_def)

lemma char_entries_wf: "omap_wf (snd (CharacteristicProfileToEntries p [] False))"
  by (simp add: CharacteristicProfileToEntries_def Let_def omap_wf_put)

lemma device_entries_wf: "omap_wf (snd (DeviceProfileToEntries p [] False))"
  by (simp add: DeviceProfileToEntries_def Let_def omap_wf_put)

lemma prefix_GenerateDBKey: "prefix k (GenerateDBKey k p u)"
  by (simp add: GenerateDBKey_def)

context ikv_adapter
begin

lemma put_char_success:
  assumes "Ctl_PutCharacteristicProfile ik lu p st = (DP_SUCCESS, st')" "st_kv st = Some a"
  obtains a' where "IsCharProfileValid lu p" "\<not> Cache_IsCharProfileExist p (st_cache st)"
    "ik_PutBatch ik (snd (CharacteristicProfileToEntries p [] False)) a = (DP_SUCCESS, a')"
    "st' = st\<lparr>st_kv := Some a', st_cache := snd (Cache_AddCharProfile p (st_cache st))\<rparr>"
proof -
  obtain r a' where b: "ik_PutBatch ik (snd (CharacteristicProfileToEntries p [] False)) a = (r, a')"
    by force
  show thesis
    by (rule that [of a'])
      (use assms b in \<open>auto simp: Ctl_PutCharacteristicProfile_def Let_def split: if_splits\<close>)
qed

lemma put_char_db:
  assumes "Ctl_PutCharacteristicProfile ik lu p st = (r, st')" "st_kv st = Some a"
  shows "\<exists>a'. st_kv st' = Some a' \<and>
    db a' = (if r = DP_SUCCESS then db a ++ map_of (snd (CharacteristicProfileToEntries p [] False))
             else db a)"
proof -
  obtain r' a' where b: "ik_PutBatch ik (snd (CharacteristicProfileToEntries p [] False)) a = (r', a')"
    by force
  from put_batch [OF b char_entries_wf] b assms show ?thesis
    by (auto simp: Ctl_PutCharacteristicProfile_def Let_def split: if_splits)
qed

lemma get_char_of_db:
  assumes a: "st_kv st = Some a" and valid: "char_ok (d, s, k)"
    and k: "k \<noteq> STATIC_CHARACTERISTIC_KEY" "k \<noteq> SWITCH_STATUS"
    and get: "ik_GetByPrefix ik (GenerateCharProfileKey d (CheckAndAddOhSuffix s True) k) [] a
                = (DP_SUCCESS, vs)"
  shows "Ctl_GetCharacteristicProfile ik d s k q st =
    (let (_, p) = EntriesToCharProfile vs q in
     if \<not> IsCharacteristicProfileValid p then (DP_GET_KV_DB_FAIL, p) else (DP_SUCCESS, p))"
proof -
  have ne: "vs \<noteq> []" using get_prefix [OF get] by simp
  show ?thesis
  proof (cases "IsNeedAddOhSuffix s True")
    case True
    with assms ne show ?thesis
      by (simp add: Ctl_GetCharacteristicProfile_def Let_def)
  next
    case False
    then have "CheckAndAddOhSuffix s True = s" by (simp add: CheckAndAddOhSuffix_def)
    with False assms ne show ?thesis
      by (simp add: Ctl_GetCharacteristicProfile_def Let_def)
  qed
qed

text \<open>Only the two entries of \<open>p\<close> begin with its key: then reading by prefix gives them alone.\<close>

lemma get_prefix_alone:
  assumes db: "db a' = db a ++ map_of (snd (CharacteristicProfileToEntries p [] False))"
    and alone: "\<forall>x. db a x \<noteq> None \<and> prefix (char_db_key p) x \<longrightarrow>
        x \<in> {GenerateDBKey (char_db_key p) CHARACTERISTIC_KEY DEFAULT_USER_ID,
             GenerateDBKey (char_db_key p) CHARACTERISTIC_VALUE DEFAULT_USER_ID}"
    and get: "ik_GetByPrefix ik (char_db_key p) [] a' = (DP_SUCCESS, vs)"
  shows "vs = snd (CharacteristicProfileToEntries p [] False)"
proof (rule omap_ext)
  show "omap_wf vs" using get_prefix [OF get] by simp
  show "omap_wf (snd (CharacteristicProfileToEntries p [] False))" by (rule char_entries_wf)
  have "map_of vs = keep_keys (\<lambda>x. prefix (char_db_key p) x) (db a')"
    using get_prefix [OF get] by simp
  also have "\<dots> = map_of (snd (CharacteristicProfileToEntries p [] False))"
    using alone prefix_GenerateDBKey unfolding db
    by (auto simp: keep_keys_def char_entries_map map_add_def fun_eq_iff split: option.splits)
  finally show "map_of vs = map_of (snd (CharacteristicProfileToEntries p [] False))" .
qed

end

section \<open>Storing and reading characteristics\<close>


text \<open>The stores of the evaluations: a store in memory and a new cache.\<close>

definition mem_stores :: "(string, string) umap \<Rightarrow> ((unit, (string, string) umap) KVAdapter, unit) Stores" where
  "mem_stores m = \<lparr>st_kv = Some (mem_adapter m), st_cache = ProfileCache_new,
     st_switch = \<lparr>observer = True, switchData = ()\<rparr>\<rparr>"

definition sample_char :: "string \<Rightarrow> string \<Rightarrow> CharacteristicProfile" where
  "sample_char k v = CharacteristicProfile_make ''u1'' ''svc'' k v"

definition mem_put :: "CharacteristicProfile \<Rightarrow> ((unit, (string, string) umap) KVAdapter, unit) Stores \<Rightarrow>
    dp_ret \<times> ((unit, (string, string) umap) KVAdapter, unit) Stores" where
  "mem_put p st = Ctl_PutCharacteristicProfile (KVAdapter_ops mem_store) ''u1'' p st"

definition mem_get :: "string \<Rightarrow> ((unit, (string, string) umap) KVAdapter, unit) Stores \<Rightarrow>
    dp_ret \<times> CharacteristicProfile" where
  "mem_get k st = Ctl_GetCharacteristicProfile (KVAdapter_ops mem_store) ''u1'' ''svc'' k
     CharacteristicProfile_default st"

lemma mem_put_ok: "fst (mem_put (sample_char ''k'' ''a'') (mem_stores [])) = DP_SUCCESS"
  by code_simp

lemma mem_get_ok:
  "fst (ik_GetByPrefix (KVAdapter_ops mem_store) (char_db_key (sample_char ''k'' ''a'')) []
     (the (st_kv (snd (mem_put (sample_char ''k'' ''a'') (mem_stores [])))))) = DP_SUCCESS"
  by code_simp


lemma put_dev_again:
  assumes "Ctl_PutDeviceProfile ik lu p st = (DP_SUCCESS, st')"
    and "length (deviceProfileMap (st_cache st)) \<le> MAX_DEVICE_SIZE"
  shows "Ctl_PutDeviceProfile ik lu p st' = (DP_CACHE_EXIST, st')"
proof -
  obtain a where a: "st_kv st = Some a"
    using assms(1) by (cases "st_kv st") (simp_all add: Ctl_PutDeviceProfile_def)
  obtain r a' where b: "ik_PutBatch ik (snd (DeviceProfileToEntries p [] False)) a = (r, a')" by force
  from assms(1) a b have v: "IsDevProfileValid lu p" and r: "r = DP_SUCCESS"
    and st': "st' = st\<lparr>st_kv := Some a', st_cache := snd (Cache_AddDeviceProfile p (st_cache st))\<rparr>"
    by (auto simp: Ctl_PutDeviceProfile_def Let_def split: if_splits)
  have "fst (Cache_AddDeviceProfile p (st_cache st)) = DP_SUCCESS"
    using v assms(2) by (simp add: IsDevProfileValid_def Cache_AddDeviceProfile_def Let_def)
  then have "Cache_AddDeviceProfile p (st_cache st) = (DP_SUCCESS, snd (Cache_AddDeviceProfile p (st_cache st)))"
    by (metis prod.collapse)
  from dev_cache.exist_after_add [OF this] show ?thesis
    using v by (simp add: Ctl_PutDeviceProfile_def st')
qed

lemma put_svr_again:
  assumes "Ctl_PutServiceProfile ik lu p st = (DP_SUCCESS, st')"
    and "length (serviceProfileMap (st_cache st)) \<le> MAX_SERVICE_SIZE"
  shows "Ctl_PutServiceProfile ik lu p st' = (DP_CACHE_EXIST, st')"
proof -
  obtain a where a: "st_kv st = Some a"
    using assms(1) by (cases "st_kv st") (simp_all add: Ctl_PutServiceProfile_def)
  obtain r a' where b: "ik_PutBatch ik (snd (ServiceProfileToEntries p [] False)) a = (r, a')" by force
  from assms(1) a b have v: "IsSvrProfileValid lu p" and r: "r = DP_SUCCESS"
    and st': "st' = st\<lparr>st_kv := Some a', st_cache := snd (Cache_AddServiceProfile p (st_cache st))\<rparr>"
    by (auto simp: Ctl_PutServiceProfile_def Let_def split: if_splits)
  have "fst (Cache_AddServiceProfile p (st_cache st)) = DP_SUCCESS"
    using v assms(2) by (simp add: IsSvrProfileValid_def Cache_AddServiceProfile_def Let_def)
  then have "Cache_AddServiceProfile p (st_cache st) = (DP_SUCCESS, snd (Cache_AddServiceProfile p (st_cache st)))"
    by (metis prod.collapse)
  from svr_cache.exist_after_add [OF this] show ?thesis
    using v by (simp add: Ctl_PutServiceProfile_def st')
qed

lemma put_char_again:
  assumes "Ctl_PutCharacteristicProfile ik lu p st = (DP_SUCCESS, st')"
    and "length (charProfileMap (st_cache st)) \<le> MAX_CHAR_SIZE"
  shows "Ctl_PutCharacteristicProfile ik lu p st' = (DP_CACHE_EXIST, st')"
proof -
  obtain a where a: "st_kv st = Some a"
    using assms(1) by (cases "st_kv st") (simp_all add: Ctl_PutCharacteristicProfile_def)
  obtain r a' where b: "ik_PutBatch ik (snd (CharacteristicProfileToEntries p [] False)) a = (r, a')" by force
  from assms(1) a b have v: "IsCharProfileValid lu p" and r: "r = DP_SUCCESS"
    and st': "st' = st\<lparr>st_kv := Some a', st_cache := snd (Cache_AddCharProfile p (st_cache st))\<rparr>"
    by (auto simp: Ctl_PutCharacteristicProfile_def Let_def split: if_splits)
  have "fst (Cache_AddCharProfile p (st_cache st)) = DP_SUCCESS"
    using v assms(2) by (simp add: IsCharProfileValid_def Cache_AddCharProfile_def Let_def)
  then have "Cache_AddCharProfile p (st_cache st) = (DP_SUCCESS, snd (Cache_AddCharProfile p (st_cache st)))"
    by (metis prod.collapse)
  from char_cache.exist_after_add [OF this] show ?thesis
    using v by (simp add: Ctl_PutCharacteristicProfile_def st')
qed

text \<open>Storing again changes nothing. When a profile was stored and the cache took it, storing
  the same profile again answers \<open>DP_CACHE_EXIST\<close> and leaves the adapter and the cache as they
  are; this holds of devices, services and characteristics, whatever the adapter does.\<close>

theorem ctl_put_again:
  "(\<forall>st'. Ctl_PutDeviceProfile ik lu d st = (DP_SUCCESS, st') \<and>
       length (deviceProfileMap (st_cache st)) \<le> MAX_DEVICE_SIZE \<longrightarrow>
     Ctl_PutDeviceProfile ik lu d st' = (DP_CACHE_EXIST, st')) \<and>
   (\<forall>st'. Ctl_PutServiceProfile ik lu s st = (DP_SUCCESS, st') \<and>
       length (serviceProfileMap (st_cache st)) \<le> MAX_SERVICE_SIZE \<longrightarrow>
     Ctl_PutServiceProfile ik lu s st' = (DP_CACHE_EXIST, st')) \<and>
   (\<forall>st'. Ctl_PutCharacteristicProfile ik lu p st = (DP_SUCCESS, st') \<and>
       length (charProfileMap (st_cache st)) \<le> MAX_CHAR_SIZE \<longrightarrow>
     Ctl_PutCharacteristicProfile ik lu p st' = (DP_CACHE_EXIST, st'))"
  using put_dev_again put_svr_again put_char_again by blast

lemma ctl_put_again_witness:
  "let st = snd (mem_put (sample_char ''k'' ''a'') (mem_stores [])) in
   mem_put (sample_char ''k'' ''a'') st = (DP_CACHE_EXIST, st)"
proof -
  have "Ctl_PutCharacteristicProfile (KVAdapter_ops mem_store) ''u1'' (sample_char ''k'' ''a'')
      (mem_stores []) = (DP_SUCCESS, snd (mem_put (sample_char ''k'' ''a'') (mem_stores [])))"
    using mem_put_ok unfolding mem_put_def by (metis prod.collapse)
  moreover have "length (charProfileMap (st_cache (mem_stores []))) \<le> MAX_CHAR_SIZE"
    by (simp add: mem_stores_def ProfileCache_new_def)
  ultimately show ?thesis
    using ctl_put_again [where ik = "KVAdapter_ops mem_store" and lu = "''u1''"
        and p = "sample_char ''k'' ''a''" and st = "mem_stores []"]
    unfolding mem_put_def Let_def by blast
qed

text \<open>Reading by prefix mixes characteristics. The database is read by the key of the
  characteristic without a closing separator, so the entries of a sibling whose key continues the
  requested one are read as well, and being later in the map they win: once \<open>k\<close> and
  \<open>k2\<close> are stored, reading \<open>k\<close> succeeds and gives the key and the value of \<open>k2\<close>.\<close>

theorem ctl_get_char_reads_sibling:
  "let st = snd (mem_put (sample_char ''k2'' ''b'') (snd (mem_put (sample_char ''k'' ''a'')
              (mem_stores [])))) in
   mem_get ''k'' st = (DP_SUCCESS, sample_char ''k2'' ''b'') \<and>
   mem_get ''k2'' st = (DP_SUCCESS, sample_char ''k2'' ''b'')"
  by code_simp

section \<open>Deleting characteristics\<close>

definition delete_users :: "int \<Rightarrow> bool \<Rightarrow> int \<Rightarrow> int set" where
  "delete_users foreground isMultiUser userId =
     (if isMultiUser
      then (if foreground = userId then {userId, DEFAULT_USER_ID} else {userId})
      else {DEFAULT_USER_ID})"

definition char_delete_keys :: "int \<Rightarrow> bool \<Rightarrow> int \<Rightarrow> string \<Rightarrow> string set" where
  "char_delete_keys foreground isMultiUser userId k =
     (\<Union>u\<in>delete_users foreground isMultiUser userId.
        {GenerateDBKey k CHARACTERISTIC_KEY u, GenerateDBKey k CHARACTERISTIC_VALUE u})"

text \<open>C2: \<open>DeleteCharacteristicProfile\<close> removes the two entries of the characteristic for the
  caller's user, and those without a user exactly when the call is not for a user or that user is
  in the foreground; on success these entries are gone, every other entry of the database is as it
  was, and the cache no longer finds the characteristic and finds all others as before. When it
  fails, the cache is unchanged and no other entry was touched.\<close>

theorem ctl_delete_char:
  assumes "ikv_adapter ik db" "st_kv st = Some a"
    and "Ctl_DeleteCharacteristicProfile ik lu fg d s k mu u st = (r, st')"
  shows "let del = char_delete_keys fg mu u
               (GenerateCharProfileKey d (CheckAndAddOhSuffix s True) k) in
    \<exists>a'. st_kv st' = Some a' \<and>
      (\<forall>x. x \<notin> del \<longrightarrow> db a' x = db a x) \<and>
      (r = DP_SUCCESS \<longrightarrow> (\<forall>x\<in>del. db a' x = None) \<and>
        (\<forall>i q. char_ok i \<longrightarrow>
          (case i of (d', s', k') \<Rightarrow> Cache_GetCharacteristicProfile d' s' k' q (st_cache st') =
            (if i = (d, s, k) then (DP_NOT_FOUND_FAIL, q)
             else Cache_GetCharacteristicProfile d' s' k' q (st_cache st))))) \<and>
      (r \<noteq> DP_SUCCESS \<longrightarrow> st_cache st' = st_cache st)"
proof (cases "char_ok (d, s, k) \<and> IsLocalUdid lu d")
  case False
  with assms(2,3) have "r = DP_INVALID_PARAMS" "st' = st"
    by (auto simp: Ctl_DeleteCharacteristicProfile_def split: if_splits)
  with assms(2) show ?thesis by (simp add: Let_def)
next
  case True
  define keys where "keys =
    (if mu then GenerateCharacteristicDBkeys d s k True u @
          (if fg = u then GenerateCharacteristicDBkeys d s k False DEFAULT_USER_ID else [])
     else GenerateCharacteristicDBkeys d s k False DEFAULT_USER_ID)"
  have del: "set keys = char_delete_keys fg mu u
      (GenerateCharProfileKey d (CheckAndAddOhSuffix s True) k)"
    by (auto simp: keys_def char_delete_keys_def delete_users_def GenerateCharacteristicDBkeys_def
        Let_def)
  obtain r' a' where b: "ik_DeleteBatch ik keys a = (r', a')" by force
  have st': "r = (if r' = DP_SUCCESS then DP_SUCCESS else DP_DEL_KV_DB_FAIL)"
    "st' = (if r' = DP_SUCCESS
            then st\<lparr>st_kv := Some a', st_cache := snd (Cache_DeleteCharProfile d s k (st_cache st))\<rparr>
            else st\<lparr>st_kv := Some a'\<rparr>)"
    using assms(2,3) True b unfolding Ctl_DeleteCharacteristicProfile_def keys_def [symmetric] Let_def
    by (auto split: if_splits)
  have other: "x \<notin> set keys \<Longrightarrow> db a' x = db a x" for x
    by (rule ikv_adapter.delete_batch_untouched [OF assms(1) b])
  have gone: "r' = DP_SUCCESS \<Longrightarrow> x \<in> set keys \<Longrightarrow> db a' x = None" for x
    using ikv_adapter.delete_batch [OF assms(1) b] by (simp add: keep_keys_def)
  have kv: "st_kv st' = Some a'" using st' by simp
  have cache: "case i of (d', s', k') \<Rightarrow> Cache_GetCharacteristicProfile d' s' k' q (st_cache st') =
      (if i = (d, s, k) then (DP_NOT_FOUND_FAIL, q)
       else Cache_GetCharacteristicProfile d' s' k' q (st_cache st))"
    if "r' = DP_SUCCESS" "char_ok i" for i q
    using char_cache.get_after_del [of "(d, s, k)" i q "st_cache st"] True that st'(2)
    by (cases i) simp
  have keep: "st_cache st' = st_cache st" if "r' \<noteq> DP_SUCCESS" using st'(2) that by simp
  have "r = DP_SUCCESS \<longleftrightarrow> r' = DP_SUCCESS" using st'(1) by simp
  with kv other gone cache keep show ?thesis
    unfolding del [symmetric] Let_def by (intro exI [of _ a']) blast
qed

lemma ctl_delete_char_witness:
  "let st = snd (mem_put (sample_char ''k2'' ''b'') (snd (mem_put (sample_char ''k'' ''a'')
              (mem_stores []))));
       (r, st') = Ctl_DeleteCharacteristicProfile (KVAdapter_ops mem_store) ''u1'' 100 ''u1'' ''svc''
                    ''k2'' False DEFAULT_USER_ID st in
   r = DP_SUCCESS \<and> (\<exists>a. st_kv st' = Some a \<and>
     (\<forall>x\<in>char_delete_keys 100 False DEFAULT_USER_ID (char_db_key (sample_char ''k2'' ''b'')).
        kv_db map_of a x = None))"
proof -
  define st where "st = snd (mem_put (sample_char ''k2'' ''b'') (snd (mem_put (sample_char ''k'' ''a'')
              (mem_stores []))))"
  obtain r st' where d: "Ctl_DeleteCharacteristicProfile (KVAdapter_ops mem_store) ''u1'' 100 ''u1''
      ''svc'' ''k2'' False DEFAULT_USER_ID st = (r, st')" by force
  have "st_kv st \<noteq> None \<and> fst (Ctl_DeleteCharacteristicProfile (KVAdapter_ops mem_store) ''u1'' 100
      ''u1'' ''svc'' ''k2'' False DEFAULT_USER_ID st) = DP_SUCCESS"
    unfolding st_def by code_simp
  then obtain a where "st_kv st = Some a" "r = DP_SUCCESS" using d by auto
  with ctl_delete_char [OF mem.adapter.ikv_adapter_axioms _ d, of a] show ?thesis
    unfolding st_def [symmetric] d Let_def
    by (auto simp: char_db_key_def sample_char_def CharacteristicProfile_make_def)
qed

section \<open>Switches\<close>

text \<open>Each switch of the local device that the cache knows has the value of its bit.\<close>

definition switch_value :: "32 word \<Rightarrow> nat \<Rightarrow> string" where
  "switch_value w pos = (if bit w pos then SWITCH_ON else SWITCH_OFF)"

definition switch_coherent :: "string \<Rightarrow> ProfileCache \<Rightarrow> bool" where
  "switch_coherent lu c \<longleftrightarrow>
     (\<forall>(name, pos)\<in>set SWITCH_SERVICE_MAP.
        case Cache_GetCharacteristicProfile lu name SWITCH_STATUS CharacteristicProfile_default c of
          (r, p) \<Rightarrow> r = DP_SUCCESS \<longrightarrow>
             cp_characteristicValue p = switch_value (curLocalSwitch c) pos)"

lemma switch_coherentD:
  "switch_coherent lu c \<Longrightarrow> (name, pos) \<in> set SWITCH_SERVICE_MAP \<Longrightarrow>
   Cache_GetCharacteristicProfile lu name SWITCH_STATUS CharacteristicProfile_default c
     = (DP_SUCCESS, p) \<Longrightarrow> cp_characteristicValue p = switch_value (curLocalSwitch c) pos"
  unfolding switch_coherent_def by force

lemma switch_map_checks:
  "list_all (\<lambda>(name, pos). IsKeyValid name \<and> pos < 5 \<and> map_of SWITCH_SERVICE_MAP name = Some pos)
     SWITCH_SERVICE_MAP"
  "list_all (\<lambda>i. case Cache_GetServiceNameByPos (int i) SWITCH_SERVICE_MAP [] of (r, name) \<Rightarrow>
     r = DP_SUCCESS \<and> (name, i) \<in> set SWITCH_SERVICE_MAP) [0..<5]"
  "distinct (map snd SWITCH_SERVICE_MAP)"
  by code_simp+

lemma switch_names:
  "(name, pos) \<in> set SWITCH_SERVICE_MAP \<Longrightarrow>
   IsKeyValid name \<and> pos < 5 \<and> map_of SWITCH_SERVICE_MAP name = Some pos"
  using switch_map_checks(1) by (auto simp: list_all_iff)

lemma switch_name_of_pos:
  "i < 5 \<Longrightarrow> \<exists>name. (name, i) \<in> set SWITCH_SERVICE_MAP \<and>
     Cache_GetServiceNameByPos (int i) SWITCH_SERVICE_MAP [] = (DP_SUCCESS, name)"
  using switch_map_checks(2) unfolding list_all_iff by fastforce

lemma switch_pos_inject:
  "(name, i) \<in> set SWITCH_SERVICE_MAP \<Longrightarrow> (name', i) \<in> set SWITCH_SERVICE_MAP \<Longrightarrow> name = name'"
  using switch_map_checks(3) unfolding distinct_map inj_on_def by fastforce

lemma refresh_switch_eq:
  assumes "(name, i) \<in> set SWITCH_SERVICE_MAP"
  shows "refresh_switch lu w i c =
    snd (Cache_AddCharProfile (CharacteristicProfile_make lu name SWITCH_STATUS (switch_value w i)) c)"
proof -
  from switch_names [OF assms] have i: "i < 5" "name \<noteq> []" by (simp_all add: IsKeyValid_iff)
  from switch_name_of_pos [OF i(1)] switch_pos_inject [OF assms]
  have g: "Cache_GetServiceNameByPos (int i) SWITCH_SERVICE_MAP [] = (DP_SUCCESS, name)" by blast
  have "drop_bit i w AND 1 = of_bool (bit w i)"
    by (rule bit_word_eqI) (auto simp: bit_simps bit_1_iff)
  then have "to_string (uint (drop_bit i w AND 1)) = switch_value w i"
    unfolding \<open>drop_bit i w AND 1 = _\<close> by (simp add: switch_value_def to_string_bit)
  with g i(2) show ?thesis by (simp add: refresh_switch_def)
qed

lemma add_char_frame:
  "curLocalSwitch (snd (Cache_AddCharProfile p c)) = curLocalSwitch c"
  "length (charProfileMap (snd (Cache_AddCharProfile p c))) \<le> Suc (length (charProfileMap c))"
  by (auto simp: Cache_AddCharProfile_def Let_def umap_update_length)

lemma get_char_after_add:
  assumes "char_ok (char_ident p)" "length (charProfileMap c) \<le> MAX_CHAR_SIZE" "char_ok (d, s, k)"
  shows "Cache_GetCharacteristicProfile d s k q (snd (Cache_AddCharProfile p c)) =
    (if (d, s, k) = char_ident p then (DP_SUCCESS, p)
     else Cache_GetCharacteristicProfile d s k q c)"
proof -
  have "Cache_AddCharProfile p c = (DP_SUCCESS, snd (Cache_AddCharProfile p c))"
    using assms(1,2) by (auto simp: Cache_AddCharProfile_def Let_def)
  from char_cache.get_after_add [OF this, of "(d, s, k)" q] assms(3) show ?thesis by auto
qed

lemma switch_status_valid: "IsKeyValid SWITCH_STATUS"
  by (simp add: IsKeyValid_iff)

lemma refresh_fold:
  assumes "IsKeyValid lu"
  shows "n \<le> 5 \<Longrightarrow> length (charProfileMap c) + n \<le> Suc MAX_CHAR_SIZE \<Longrightarrow>
    curLocalSwitch (fold (refresh_switch lu w) [0..<n] c) = curLocalSwitch c \<and>
    length (charProfileMap (fold (refresh_switch lu w) [0..<n] c)) \<le> length (charProfileMap c) + n \<and>
    (\<forall>(name, pos)\<in>set SWITCH_SERVICE_MAP. pos < n \<longrightarrow> (\<forall>q.
       Cache_GetCharacteristicProfile lu name SWITCH_STATUS q
         (fold (refresh_switch lu w) [0..<n] c) =
       (DP_SUCCESS, CharacteristicProfile_make lu name SWITCH_STATUS (switch_value w pos))))"
proof (induction n)
  case (Suc n)
  let ?c = "fold (refresh_switch lu w) [0..<n] c"
  from Suc.prems switch_name_of_pos [of n] obtain name where
    n: "(name, n) \<in> set SWITCH_SERVICE_MAP" by auto
  let ?p = "CharacteristicProfile_make lu name SWITCH_STATUS (switch_value w n)"
  have c: "fold (refresh_switch lu w) [0..<Suc n] c = snd (Cache_AddCharProfile ?p ?c)"
    using refresh_switch_eq [OF n] by simp
  have ok: "char_ok (char_ident ?p)"
    using assms switch_names [OF n] switch_status_valid
    by (simp add: CharacteristicProfile_make_def)
  from Suc have IH: "curLocalSwitch ?c = curLocalSwitch c"
    "length (charProfileMap ?c) \<le> length (charProfileMap c) + n"
    "\<forall>(name, pos)\<in>set SWITCH_SERVICE_MAP. pos < n \<longrightarrow> (\<forall>q.
       Cache_GetCharacteristicProfile lu name SWITCH_STATUS q ?c =
       (DP_SUCCESS, CharacteristicProfile_make lu name SWITCH_STATUS (switch_value w pos)))"
    by simp_all
  then have room: "length (charProfileMap ?c) \<le> MAX_CHAR_SIZE" using Suc.prems by simp
  have "Cache_GetCharacteristicProfile lu name' SWITCH_STATUS q (snd (Cache_AddCharProfile ?p ?c)) =
      (DP_SUCCESS, CharacteristicProfile_make lu name' SWITCH_STATUS (switch_value w pos))"
    if "(name', pos) \<in> set SWITCH_SERVICE_MAP" "pos < Suc n" for name' pos q
  proof (cases "pos = n")
    case True
    with that n have "name' = name" using switch_pos_inject by blast
    with True ok room show ?thesis
      using get_char_after_add [OF ok room, of lu name' SWITCH_STATUS q]
      by (simp add: CharacteristicProfile_make_def)
  next
    case False
    with that IH(3) have "Cache_GetCharacteristicProfile lu name' SWITCH_STATUS q ?c =
       (DP_SUCCESS, CharacteristicProfile_make lu name' SWITCH_STATUS (switch_value w pos))" by auto
    moreover have "name' \<noteq> name"
      using False switch_names [OF that(1)] switch_names [OF n] by auto
    moreover have "char_ok (lu, name', SWITCH_STATUS)"
      using assms switch_names [OF that(1)] switch_status_valid by simp
    ultimately show ?thesis
      using get_char_after_add [OF ok room, of lu name' SWITCH_STATUS q]
      by (simp add: CharacteristicProfile_make_def)
  qed
  moreover have "length (charProfileMap (snd (Cache_AddCharProfile ?p ?c))) \<le> length (charProfileMap c) + Suc n"
    using add_char_frame(2) [of ?p ?c] IH(2) by simp
  ultimately show ?case
    unfolding c using IH(1) add_char_frame(1) [of ?p ?c] by (simp add: case_prod_beta)
qed simp

lemma get_after_set_cur [simp]:
  "Cache_GetCharacteristicProfile d s k q (Cache_SetCurSwitch w c) =
   Cache_GetCharacteristicProfile d s k q c"
  by (simp add: Cache_GetCharacteristicProfile_def Cache_SetCurSwitch_def)

lemma set_switch_single:
  assumes "Cache_SetSwitchByProfile p SWITCH_SERVICE_MAP w = (DP_SUCCESS, w')"
  shows "cp_characteristicKey p = SWITCH_STATUS \<and>
    cp_characteristicValue p \<in> {SWITCH_OFF, SWITCH_ON} \<and>
    (\<exists>pos. (cp_serviceName p, pos) \<in> set SWITCH_SERVICE_MAP \<and>
       (\<forall>i<32. bit w' i = (if i = pos then cp_characteristicValue p = SWITCH_ON else bit w i)))"
proof -
  have v: "Cache_IsSwitchValid p SWITCH_SERVICE_MAP SWITCH_OPERATE_PUT"
    using assms by (simp add: Cache_SetSwitchByProfile_def split: if_splits)
  have "Cache_SetSwitchByProfile p SWITCH_SERVICE_MAP w = switch_batch_loop [p] SWITCH_SERVICE_MAP w"
    by (auto simp: Cache_SetSwitchByProfile_def Let_def split: option.splits)
  with switch_batch_loop_bits [of "[p]" SWITCH_SERVICE_MAP w] v assms
  have b: "\<forall>i<32. bit w' i = switch_after [p] SWITCH_SERVICE_MAP w i" by auto
  from switch_valid_put [OF v] obtain pos where
    pos: "map_of SWITCH_SERVICE_MAP (cp_serviceName p) = Some pos"
    and val: "cp_characteristicValue p \<in> {SWITCH_OFF, SWITCH_ON}" by blast
  from b pos have "\<forall>i<32. bit w' i = (if i = pos then cp_characteristicValue p = SWITCH_ON else bit w i)"
    by (simp add: switch_after_def)
  with map_of_SomeD [OF pos] val v show ?thesis by (auto simp: Cache_IsSwitchValid_def split: if_splits)
qed

lemma switch_coherent_put:
  assumes "switch_coherent lu c" "length (charProfileMap c) \<le> MAX_CHAR_SIZE"
    and p: "char_ok (char_ident p)" "cp_deviceId p = lu"
    and set: "Cache_SetSwitchByProfile p SWITCH_SERVICE_MAP (curLocalSwitch c) = (DP_SUCCESS, w)"
  shows "switch_coherent lu (snd (Cache_AddCharProfile p (Cache_SetCurSwitch w c)))"
proof -
  from set_switch_single [OF set] obtain pos where
    key: "cp_characteristicKey p = SWITCH_STATUS" "cp_characteristicValue p \<in> {SWITCH_OFF, SWITCH_ON}"
    and pos: "(cp_serviceName p, pos) \<in> set SWITCH_SERVICE_MAP"
    and bits: "\<forall>i<32. bit w i = (if i = pos then cp_characteristicValue p = SWITCH_ON
                              else bit (curLocalSwitch c) i)" by blast
  let ?c = "Cache_SetCurSwitch w c"
  have room: "length (charProfileMap ?c) \<le> MAX_CHAR_SIZE"
    using assms(2) by (simp add: Cache_SetCurSwitch_def)
  have cur: "curLocalSwitch (snd (Cache_AddCharProfile p ?c)) = w"
    by (simp add: add_char_frame Cache_SetCurSwitch_def)
  have "cp_characteristicValue r = switch_value w i"
    if n: "(name, i) \<in> set SWITCH_SERVICE_MAP"
      and g: "Cache_GetCharacteristicProfile lu name SWITCH_STATUS CharacteristicProfile_default
                (snd (Cache_AddCharProfile p ?c)) = (DP_SUCCESS, r)" for name i r
  proof -
    have "char_ok (lu, name, SWITCH_STATUS)"
      using p switch_names [OF n] switch_status_valid by simp
    note ga = get_char_after_add [OF p(1) room this, of CharacteristicProfile_default]
    have i: "i < 32" using switch_names [OF n] by simp
    show ?thesis
    proof (cases "name = cp_serviceName p")
      case True
      with n pos switch_names have "i = pos" by (metis option.inject)
      moreover have "r = p" using ga g True p key by simp
      ultimately show ?thesis using bits i key(2) by (auto simp: switch_value_def)
    next
      case False
      with n pos switch_pos_inject have "i \<noteq> pos" by blast
      moreover have "Cache_GetCharacteristicProfile lu name SWITCH_STATUS
          CharacteristicProfile_default c = (DP_SUCCESS, r)"
        using ga g False by simp
      with assms(1) n have "cp_characteristicValue r = switch_value (curLocalSwitch c) i"
        by (rule switch_coherentD)
      ultimately show ?thesis using bits i by (simp add: switch_value_def)
    qed
  qed
  then show ?thesis unfolding switch_coherent_def cur by blast
qed

text \<open>C8: Switches agree with the switch word. \<open>PutSwitchCharacteristicProfile\<close> keeps, and
  \<open>RefreshLocalSwitchProfile\<close> establishes, that every switch of the local device the cache knows has
  the value of its bit in the current word, while the characteristic table has room; after a
  refresh the word is the one the data service stores and every switch is known.\<close>

theorem ctl_switch_coherent:
  "(switch_coherent lu (st_cache st) \<and> length (charProfileMap (st_cache st)) \<le> MAX_CHAR_SIZE \<longrightarrow>
      switch_coherent lu (st_cache (snd (Ctl_PutSwitchCharacteristicProfile sd lu appId p st)))) \<and>
   (\<forall>st'. Ctl_RefreshLocalSwitchProfile sd lu ln appId st = (DP_SUCCESS, st') \<and> IsKeyValid lu \<and>
       length (charProfileMap (st_cache st)) + 5 \<le> MAX_CHAR_SIZE + 1 \<longrightarrow>
     switch_coherent lu (st_cache st') \<and>
     (\<exists>len. sd_GetSwitch sd appId ln (switchData (st_switch st)) =
        (KV_SUCCESS, curLocalSwitch (st_cache st'), len)) \<and>
     (\<forall>(name, pos)\<in>set SWITCH_SERVICE_MAP. \<forall>q.
        Cache_GetCharacteristicProfile lu name SWITCH_STATUS q (st_cache st') =
        (DP_SUCCESS, CharacteristicProfile_make lu name SWITCH_STATUS
           (switch_value (curLocalSwitch (st_cache st')) pos))))"
proof (intro conjI impI allI)
  assume c: "switch_coherent lu (st_cache st) \<and> length (charProfileMap (st_cache st)) \<le> MAX_CHAR_SIZE"
  obtain r w where s: "Cache_SetSwitchByProfile p SWITCH_SERVICE_MAP (curLocalSwitch (st_cache st)) = (r, w)"
    by force
  obtain r' sw where q: "SwitchAdapter_PutSwitch sd appId w CUR_SWITCH_LEN (st_switch st) = (r', sw)"
    by force
  have "IsCharProfileValid lu p \<Longrightarrow> char_ok (char_ident p) \<and> cp_deviceId p = lu"
    by (auto simp: IsCharProfileValid_def IsLocalUdid_def split: if_splits)
  with switch_coherent_put [of lu "st_cache st" p w] c s q
  show "switch_coherent lu (st_cache (snd (Ctl_PutSwitchCharacteristicProfile sd lu appId p st)))"
    by (auto simp: Ctl_PutSwitchCharacteristicProfile_def Let_def)
next
  fix st'
  assume a: "Ctl_RefreshLocalSwitchProfile sd lu ln appId st = (DP_SUCCESS, st') \<and> IsKeyValid lu \<and>
       length (charProfileMap (st_cache st)) + 5 \<le> MAX_CHAR_SIZE + 1"
  obtain r w len where g: "sd_GetSwitch sd appId ln (switchData (st_switch st)) = (r, w, len)"
    by (cases "sd_GetSwitch sd appId ln (switchData (st_switch st))") auto
  let ?c = "fold (refresh_switch lu w) [0..<5] (st_cache st)"
  from a g have r: "r = KV_SUCCESS" and st': "st' = st\<lparr>st_cache := Cache_SetCurSwitch w ?c\<rparr>"
    by (auto simp: Ctl_RefreshLocalSwitchProfile_def SwitchAdapter_GetSwitch_def Let_def
        split: if_splits)
  have cur: "curLocalSwitch (st_cache st') = w" by (simp add: st' Cache_SetCurSwitch_def)
  have look: "Cache_GetCharacteristicProfile lu name SWITCH_STATUS q (st_cache st') =
      (DP_SUCCESS, CharacteristicProfile_make lu name SWITCH_STATUS (switch_value w pos))"
    if "(name, pos) \<in> set SWITCH_SERVICE_MAP" for name pos q
    using refresh_fold [of lu 5 "st_cache st" w] a that switch_names [OF that]
    by (auto simp: st')
  show "switch_coherent lu (st_cache st')"
    unfolding switch_coherent_def cur
    by (auto simp: look CharacteristicProfile_make_def)
  show "\<exists>len. sd_GetSwitch sd appId ln (switchData (st_switch st)) =
        (KV_SUCCESS, curLocalSwitch (st_cache st'), len)"
    using g r cur by simp
  show "\<forall>(name, pos)\<in>set SWITCH_SERVICE_MAP. \<forall>q.
        Cache_GetCharacteristicProfile lu name SWITCH_STATUS q (st_cache st') =
        (DP_SUCCESS, CharacteristicProfile_make lu name SWITCH_STATUS
           (switch_value (curLocalSwitch (st_cache st')) pos))"
    using look by (auto simp: cur)
qed

text \<open>A switch store in memory, for evaluations.\<close>

definition mem_switch :: "32 word SwitchData" where
  "mem_switch = \<lparr>sd_PutSwitch = \<lambda>app v l w. (KV_SUCCESS, v),
     sd_GetSwitch = \<lambda>app nid w. (KV_SUCCESS, w, 5),
     sd_Subscribe = \<lambda>app ob w. (KV_SUCCESS, w), sd_Unsubscribe = \<lambda>app ob w. (KV_SUCCESS, w)\<rparr>"

definition switch_stores :: "32 word \<Rightarrow> ProfileCache \<Rightarrow> (unit, 32 word) Stores" where
  "switch_stores w c = \<lparr>st_kv = Some (), st_cache = c, st_switch = \<lparr>observer = True, switchData = w\<rparr>\<rparr>"

definition edge :: "string \<Rightarrow> CharacteristicProfile" where
  "edge v = CharacteristicProfile_make ''u1'' ''SwitchStatus_Key_Mouse_Edge_Crossing'' SWITCH_STATUS v"

lemma ctl_switch_coherent_witness:
  "let (r, st') = Ctl_RefreshLocalSwitchProfile mem_switch ''u1'' ''n1'' APP_ID
       (switch_stores 9 ProfileCache_new :: (unit, 32 word) Stores) in
   r = DP_SUCCESS \<and> switch_coherent ''u1'' (st_cache st') \<and>
   switch_coherent ''u1'' (st_cache (snd (Ctl_PutSwitchCharacteristicProfile mem_switch ''u1'' APP_ID
       (edge ''0'') st')))"
proof -
  let ?st = "switch_stores 9 ProfileCache_new :: (unit, 32 word) Stores"
  obtain r st' where f: "Ctl_RefreshLocalSwitchProfile mem_switch ''u1'' ''n1'' APP_ID ?st = (r, st')"
    by force
  have "fst (Ctl_RefreshLocalSwitchProfile mem_switch ''u1'' ''n1'' APP_ID ?st) = DP_SUCCESS \<and>
      length (charProfileMap (st_cache (snd (Ctl_RefreshLocalSwitchProfile mem_switch ''u1'' ''n1''
        APP_ID ?st)))) \<le> MAX_CHAR_SIZE \<and> IsKeyValid ''u1'' \<and>
      length (charProfileMap (st_cache ?st)) + 5 \<le> MAX_CHAR_SIZE + 1"
    by code_simp
  with f have c: "r = DP_SUCCESS" "length (charProfileMap (st_cache st')) \<le> MAX_CHAR_SIZE"
    "IsKeyValid ''u1''" "length (charProfileMap (st_cache ?st)) + 5 \<le> MAX_CHAR_SIZE + 1"
    by auto
  have "switch_coherent ''u1'' (st_cache st')"
    using ctl_switch_coherent [of "''u1''" ?st mem_switch APP_ID "edge ''0''" "''n1''"] f c by blast
  with ctl_switch_coherent [of "''u1''" st' mem_switch APP_ID "edge ''0''" "''n1''"] c(2)
  show ?thesis by (simp add: f c(1))
qed

text \<open>The batch breaks the agreement. \<open>PutSwitchCharacteristicProfileBatch\<close> caches every profile
  of the batch, also one whose value was refused, and skips a profile equal to the cached one even
  when an earlier profile of the batch changed its bit. From a coherent cache both a batch with the
  value \<open>2\<close> and a batch that sets a cached switch to 1 and back to 0 succeed and leave the
  cache disagreeing with the word.\<close>

theorem ctl_switch_batch_incoherent:
  "let st = switch_stores 0 (snd (Cache_AddCharProfile (edge ''0'') ProfileCache_new))
              :: (unit, 32 word) Stores;
       (r1, st1) = Ctl_PutSwitchCharacteristicProfileBatch mem_switch ''u1'' APP_ID [edge ''2''] st;
       (r2, st2) = Ctl_PutSwitchCharacteristicProfileBatch mem_switch ''u1'' APP_ID
                     [edge ''1'', edge ''0''] st in
   switch_coherent ''u1'' (st_cache st) \<and>
   r1 = DP_SUCCESS \<and> \<not> switch_coherent ''u1'' (st_cache st1) \<and>
   r2 = DP_SUCCESS \<and> \<not> switch_coherent ''u1'' (st_cache st2)"
  by code_simp

end
