(* ===== verification/TrustTypes.thy ===== *)
theory TrustTypes
  imports DpTypes
begin

text \<open>
  The data of the trust relations: \<open>TrustDeviceProfile\<close>, \<open>Accesser\<close>, \<open>Accessee\<close>,
  \<open>AccessControlProfile\<close> and \<open>QueryProfile\<close> (\<open>common/include/interfaces\<close>) as records with the
  source's fields and defaults, and their translation to and from rows of the relational store
  (\<open>common/src/utils/profile_utils.cpp\<close>). A row, and the \<open>ValuesBucket\<close> that is written to it,
  is a list of columns with a value each. A row that \<open>GetRow\<close> cannot deliver is \<open>None\<close>.
\<close>

section \<open>Profiles\<close>

record TrustDeviceProfile =
  tp_deviceId :: string
  tp_deviceIdType :: int
  tp_deviceIdHash :: string
  tp_status :: int
  tp_bindType :: int
  tp_peerUserId :: int
  tp_localUserId :: int
  tp_peerAccountId :: string
  tp_localAccountId :: string
  tp_serviceIdList :: "int list"

definition TrustDeviceProfile_default :: TrustDeviceProfile where
  "TrustDeviceProfile_default =
     \<lparr>tp_deviceId = [], tp_deviceIdType = 0, tp_deviceIdHash = [], tp_status = -1,
      tp_bindType = 0, tp_peerUserId = -1, tp_localUserId = -1, tp_peerAccountId = [],
      tp_localAccountId = [], tp_serviceIdList = []\<rparr>"

record Accesser =
  ar_id :: int
  ar_deviceId :: string
  ar_userId :: int
  ar_accountId :: string
  ar_tokenId :: int
  ar_bundleName :: string
  ar_hapSignature :: string
  ar_bindLevel :: int
  ar_deviceName :: string
  ar_serviceName :: string
  ar_credentialId :: int
  ar_credentialIdStr :: string
  ar_status :: int
  ar_sessionKeyId :: int
  ar_skTimeStamp :: int
  ar_extraData :: string

definition Accesser_default :: Accesser where
  "Accesser_default =
     \<lparr>ar_id = 0,
      ar_deviceId = [],
      ar_userId = -1,
      ar_accountId = [],
      ar_tokenId = -1,
      ar_bundleName = [],
      ar_hapSignature = [],
      ar_bindLevel = 0,
      ar_deviceName = [],
      ar_serviceName = [],
      ar_credentialId = -1,
      ar_credentialIdStr = [],
      ar_status = -1,
      ar_sessionKeyId = -1,
      ar_skTimeStamp = -1,
      ar_extraData = []\<rparr>"

record Accessee =
  ae_id :: int
  ae_deviceId :: string
  ae_userId :: int
  ae_accountId :: string
  ae_tokenId :: int
  ae_bundleName :: string
  ae_hapSignature :: string
  ae_bindLevel :: int
  ae_deviceName :: string
  ae_serviceName :: string
  ae_credentialId :: int
  ae_credentialIdStr :: string
  ae_status :: int
  ae_sessionKeyId :: int
  ae_skTimeStamp :: int
  ae_extraData :: string

definition Accessee_default :: Accessee where
  "Accessee_default =
     \<lparr>ae_id = 0,
      ae_deviceId = [],
      ae_userId = -1,
      ae_accountId = [],
      ae_tokenId = -1,
      ae_bundleName = [],
      ae_hapSignature = [],
      ae_bindLevel = 0,
      ae_deviceName = [],
      ae_serviceName = [],
      ae_credentialId = -1,
      ae_credentialIdStr = [],
      ae_status = -1,
      ae_sessionKeyId = -1,
      ae_skTimeStamp = -1,
      ae_extraData = []\<rparr>"

record AccessControlProfile =
  acl_accessControlId :: int
  acl_accesserId :: int
  acl_accesseeId :: int
  acl_sessionKey :: string
  acl_bindType :: int
  acl_authenticationType :: int
  acl_bindLevel :: int
  acl_status :: int
  acl_validPeriod :: int
  acl_lastAuthTime :: int
  acl_trustDeviceId :: string
  acl_deviceIdType :: int
  acl_deviceIdHash :: string
  acl_extraData :: string
  acl_accesser :: Accesser
  acl_accessee :: Accessee

definition AccessControlProfile_default :: AccessControlProfile where
  "AccessControlProfile_default =
     \<lparr>acl_accessControlId = 0,
      acl_accesserId = 0,
      acl_accesseeId = 0,
      acl_sessionKey = [],
      acl_bindType = 0,
      acl_authenticationType = 0,
      acl_bindLevel = 0,
      acl_status = -1,
      acl_validPeriod = -1,
      acl_lastAuthTime = -1,
      acl_trustDeviceId = [],
      acl_deviceIdType = 0,
      acl_deviceIdHash = [],
      acl_extraData = [],
      acl_accesser = Accesser_default, acl_accessee = Accessee_default\<rparr>"

record QueryProfile =
  qp_accesserDeviceId :: string
  qp_accesserUserId :: int
  qp_accesserAccountId :: string
  qp_accesserTokenId :: int
  qp_accesseeDeviceId :: string
  qp_accesseeUserId :: int
  qp_accesseeAccountId :: string
  qp_accesseeTokenId :: int

definition QueryProfile_default :: QueryProfile where
  "QueryProfile_default =
     \<lparr>qp_accesserDeviceId = [], qp_accesserUserId = -1, qp_accesserAccountId = [],
      qp_accesserTokenId = -1, qp_accesseeDeviceId = [], qp_accesseeUserId = -1,
      qp_accesseeAccountId = [], qp_accesseeTokenId = -1\<rparr>"

section \<open>Rows\<close>

datatype rdb_value = RInt int | RStr string | RBlob "8 word list"

type_synonym ValuesBucket = "(string \<times> rdb_value) list"

definition row_int :: "ValuesBucket \<Rightarrow> string \<Rightarrow> int" where
  "row_int r col = (case map_of r col of Some (RInt i) \<Rightarrow> i | _ \<Rightarrow> 0)"

definition row_str :: "ValuesBucket \<Rightarrow> string \<Rightarrow> string" where
  "row_str r col = (case map_of r col of Some (RStr s) \<Rightarrow> s | _ \<Rightarrow> [])"

text \<open>\<open>GetIntValue\<close>, \<open>GetLongValue\<close> and \<open>GetStringValue\<close>: \<open>None\<close> is the result false.\<close>

definition get_int :: "ValuesBucket \<Rightarrow> string \<Rightarrow> int option" where
  "get_int v col = (case map_of v col of Some (RInt i) \<Rightarrow> Some i | _ \<Rightarrow> None)"

definition get_str :: "ValuesBucket \<Rightarrow> string \<Rightarrow> string option" where
  "get_str v col = (case map_of v col of Some (RStr s) \<Rightarrow> Some s | _ \<Rightarrow> None)"

section \<open>Profiles to rows\<close>

definition TrustDeviceProfileToEntries :: "TrustDeviceProfile \<Rightarrow> ValuesBucket" where
  "TrustDeviceProfileToEntries p =
     [(''deviceId'', RStr (tp_deviceId p)), (''deviceIdType'', RInt (tp_deviceIdType p)),
      (''deviceIdHash'', RStr (tp_deviceIdHash p)), (''status'', RInt (tp_status p))]"

definition AccessControlProfileToEntries :: "AccessControlProfile \<Rightarrow> ValuesBucket" where
  "AccessControlProfileToEntries p =
     [(''accessControlId'', RInt (acl_accessControlId p)),
      (''accesserId'', RInt (acl_accesserId p)),
      (''accesseeId'', RInt (acl_accesseeId p)),
      (''trustDeviceId'', RStr (acl_trustDeviceId p)),
      (''authenticationType'', RInt (acl_authenticationType p)),
      (''deviceIdType'', RInt (acl_deviceIdType p)),
      (''deviceIdHash'', RStr (acl_deviceIdHash p)),
      (''bindType'', RInt (acl_bindType p)),
      (''sessionKey'', RStr (acl_sessionKey p)),
      (''lastAuthTime'', RInt (acl_lastAuthTime p)),
      (''validPeriod'', RInt (acl_validPeriod p)),
      (''status'', RInt (acl_status p)),
      (''bindLevel'', RInt (acl_bindLevel p)),
      (''extraData'', RStr (acl_extraData p))]"

definition AccesserToEntries :: "AccessControlProfile \<Rightarrow> ValuesBucket" where
  "AccesserToEntries p =
     (let ar = acl_accesser p in
      [(''accesserId'', RInt (ar_id ar)),
       (''accesserDeviceId'', RStr (ar_deviceId ar)),
       (''accesserUserId'', RInt (ar_userId ar)),
       (''accesserAccountId'', RStr (ar_accountId ar)),
       (''accesserTokenId'', RInt (ar_tokenId ar)),
       (''accesserBundleName'', RStr (ar_bundleName ar)),
       (''accesserHapSignature'', RStr (ar_hapSignature ar)),
       (''accesserBindLevel'', RInt (ar_bindLevel ar)),
       (''accesserDeviceName'', RStr (ar_deviceName ar)),
       (''accesserServiceName'', RStr (ar_serviceName ar)),
       (''accesserCredentialId'', RInt (ar_credentialId ar)),
       (''accesserCredentialIdStr'', RStr (ar_credentialIdStr ar)),
       (''accesserStatus'', RInt (ar_status ar)),
       (''accesserSessionKeyId'', RInt (ar_sessionKeyId ar)),
       (''accesserSKTimeStamp'', RInt (ar_skTimeStamp ar)),
       (''accesserExtraData'', RStr (ar_extraData ar))])"

definition AccesseeToEntries :: "AccessControlProfile \<Rightarrow> ValuesBucket" where
  "AccesseeToEntries p =
     (let ae = acl_accessee p in
      [(''accesseeId'', RInt (ae_id ae)),
       (''accesseeDeviceId'', RStr (ae_deviceId ae)),
       (''accesseeUserId'', RInt (ae_userId ae)),
       (''accesseeAccountId'', RStr (ae_accountId ae)),
       (''accesseeTokenId'', RInt (ae_tokenId ae)),
       (''accesseeBundleName'', RStr (ae_bundleName ae)),
       (''accesseeHapSignature'', RStr (ae_hapSignature ae)),
       (''accesseeBindLevel'', RInt (ae_bindLevel ae)),
       (''accesseeDeviceName'', RStr (ae_deviceName ae)),
       (''accesseeServiceName'', RStr (ae_serviceName ae)),
       (''accesseeCredentialId'', RInt (ae_credentialId ae)),
       (''accesseeCredentialIdStr'', RStr (ae_credentialIdStr ae)),
       (''accesseeStatus'', RInt (ae_status ae)),
       (''accesseeSessionKeyId'', RInt (ae_sessionKeyId ae)),
       (''accesseeSKTimeStamp'', RInt (ae_skTimeStamp ae)),
       (''accesseeExtraData'', RStr (ae_extraData ae))])"

section \<open>Rows to profiles\<close>

definition ConvertToTrustDeviceProfile ::
  "ValuesBucket option \<Rightarrow> TrustDeviceProfile \<Rightarrow> dp_ret \<times> TrustDeviceProfile" where
  "ConvertToTrustDeviceProfile row p =
     (case row of
        None \<Rightarrow> (DP_GET_RESULTSET_FAIL, p)
      | Some r \<Rightarrow>
          (DP_SUCCESS,
           p\<lparr>tp_deviceId := row_str r ''deviceId'', tp_deviceIdType := row_int r ''deviceIdType'',
             tp_deviceIdHash := row_str r ''deviceIdHash'', tp_status := row_int r ''status''\<rparr>))"

definition ConvertToAccesser :: "ValuesBucket option \<Rightarrow> Accesser \<Rightarrow> dp_ret \<times> Accesser" where
  "ConvertToAccesser row p =
     (case row of
        None \<Rightarrow> (DP_GET_RESULTSET_FAIL, p)
      | Some r \<Rightarrow>
          (DP_SUCCESS,
           \<lparr>ar_id = row_int r ''accesserId'',
            ar_deviceId = row_str r ''accesserDeviceId'',
            ar_userId = row_int r ''accesserUserId'',
            ar_accountId = row_str r ''accesserAccountId'',
            ar_tokenId = row_int r ''accesserTokenId'',
            ar_bundleName = row_str r ''accesserBundleName'',
            ar_hapSignature = row_str r ''accesserHapSignature'',
            ar_bindLevel = row_int r ''accesserBindLevel'',
            ar_deviceName = row_str r ''accesserDeviceName'',
            ar_serviceName = row_str r ''accesserServiceName'',
            ar_credentialId = row_int r ''accesserCredentialId'',
            ar_credentialIdStr = row_str r ''accesserCredentialIdStr'',
            ar_status = row_int r ''accesserStatus'',
            ar_sessionKeyId = row_int r ''accesserSessionKeyId'',
            ar_skTimeStamp = row_int r ''accesserSKTimeStamp'',
            ar_extraData = row_str r ''accesserExtraData''\<rparr>))"

definition ConvertToAccessee :: "ValuesBucket option \<Rightarrow> Accessee \<Rightarrow> dp_ret \<times> Accessee" where
  "ConvertToAccessee row p =
     (case row of
        None \<Rightarrow> (DP_GET_RESULTSET_FAIL, p)
      | Some r \<Rightarrow>
          (DP_SUCCESS,
           \<lparr>ae_id = row_int r ''accesseeId'',
            ae_deviceId = row_str r ''accesseeDeviceId'',
            ae_userId = row_int r ''accesseeUserId'',
            ae_accountId = row_str r ''accesseeAccountId'',
            ae_tokenId = row_int r ''accesseeTokenId'',
            ae_bundleName = row_str r ''accesseeBundleName'',
            ae_hapSignature = row_str r ''accesseeHapSignature'',
            ae_bindLevel = row_int r ''accesseeBindLevel'',
            ae_deviceName = row_str r ''accesseeDeviceName'',
            ae_serviceName = row_str r ''accesseeServiceName'',
            ae_credentialId = row_int r ''accesseeCredentialId'',
            ae_credentialIdStr = row_str r ''accesseeCredentialIdStr'',
            ae_status = row_int r ''accesseeStatus'',
            ae_sessionKeyId = row_int r ''accesseeSessionKeyId'',
            ae_skTimeStamp = row_int r ''accesseeSKTimeStamp'',
            ae_extraData = row_str r ''accesseeExtraData''\<rparr>))"

definition ConvertToAccessControlProfile ::
  "ValuesBucket option \<Rightarrow> AccessControlProfile \<Rightarrow> dp_ret \<times> AccessControlProfile" where
  "ConvertToAccessControlProfile row p =
     (case row of
        None \<Rightarrow> (DP_GET_RESULTSET_FAIL, p)
      | Some r \<Rightarrow>
          (DP_SUCCESS,
           p\<lparr>acl_accessControlId := row_int r ''accessControlId'',
             acl_accesserId := row_int r ''accesserId'',
             acl_accesseeId := row_int r ''accesseeId'',
             acl_trustDeviceId := row_str r ''trustDeviceId'',
             acl_sessionKey := row_str r ''sessionKey'',
             acl_bindType := row_int r ''bindType'',
             acl_authenticationType := row_int r ''authenticationType'',
             acl_deviceIdType := row_int r ''deviceIdType'',
             acl_deviceIdHash := row_str r ''deviceIdHash'',
             acl_status := row_int r ''status'',
             acl_validPeriod := row_int r ''validPeriod'',
             acl_lastAuthTime := row_int r ''lastAuthTime'',
             acl_bindLevel := row_int r ''bindLevel'',
             acl_extraData := row_str r ''extraData''\<rparr>))"

text \<open>The trust relation of an access control profile, seen from the local device.\<close>

definition TrustDeviceProfile_of_acl ::
  "AccessControlProfile \<Rightarrow> TrustDeviceProfile \<Rightarrow> TrustDeviceProfile" where
  "TrustDeviceProfile_of_acl acl p =
     (let ar = acl_accesser acl; ae = acl_accessee acl;
          p = p\<lparr>tp_deviceId := acl_trustDeviceId acl, tp_deviceIdType := acl_deviceIdType acl,
                tp_deviceIdHash := acl_deviceIdHash acl, tp_status := acl_status acl,
                tp_bindType := acl_bindType acl\<rparr>;
          (peerUserId, peerAccountId, localUserId, localAccountId) =
            (if ae_deviceId ae = acl_trustDeviceId acl
             then (ae_userId ae, ae_accountId ae, ar_userId ar, ar_accountId ar)
             else (ar_userId ar, ar_accountId ar, ae_userId ae, ae_accountId ae))
      in p\<lparr>tp_peerUserId := peerUserId, tp_peerAccountId := peerAccountId,
           tp_localUserId := localUserId, tp_localAccountId := localAccountId\<rparr>)"

text \<open>
  \<open>ConvertToAccessControlProfiles\<close> appends the profile of the current row, with the first
  accesser and the first accessee of their result sets.
\<close>

definition ConvertToAccessControlProfiles ::
  "ValuesBucket option \<Rightarrow> ValuesBucket list \<Rightarrow> ValuesBucket list \<Rightarrow>
   AccessControlProfile list \<Rightarrow> AccessControlProfile list" where
  "ConvertToAccessControlProfiles row ars aes ps =
     (let first = (\<lambda>rows. case rows of [] \<Rightarrow> None | r # _ \<Rightarrow> Some r);
          ar = snd (ConvertToAccesser (first ars) Accesser_default);
          ae = snd (ConvertToAccessee (first aes) Accessee_default);
          p = snd (ConvertToAccessControlProfile row AccessControlProfile_default)
      in ps @ [p\<lparr>acl_accesser := ar, acl_accessee := ae\<rparr>])"

section \<open>Value buckets to profiles\<close>

definition EntriesToTrustDeviceProfile ::
  "ValuesBucket \<Rightarrow> TrustDeviceProfile \<Rightarrow> dp_ret \<times> TrustDeviceProfile" where
  "EntriesToTrustDeviceProfile v p =
     (let p = (case get_str v ''deviceId'' of None \<Rightarrow> p | Some x \<Rightarrow> p\<lparr>tp_deviceId := x\<rparr>);
          p = (case get_str v ''deviceIdHash'' of None \<Rightarrow> p | Some x \<Rightarrow> p\<lparr>tp_deviceIdHash := x\<rparr>);
          p = (case get_int v ''deviceTypeId'' of None \<Rightarrow> p | Some x \<Rightarrow> p\<lparr>tp_deviceIdType := x\<rparr>);
          p = (case get_int v ''status'' of None \<Rightarrow> p | Some x \<Rightarrow> p\<lparr>tp_status := x\<rparr>)
      in (DP_SUCCESS, p))"

definition EntriesToAccessControlProfile ::
  "ValuesBucket \<Rightarrow> AccessControlProfile \<Rightarrow> dp_ret \<times> AccessControlProfile" where
  "EntriesToAccessControlProfile v p =
     (let p = (case get_int v ''accessControlId'' of None \<Rightarrow> p | Some x \<Rightarrow> p\<lparr>acl_accessControlId := x\<rparr>);
          p = (case get_int v ''accesserId'' of None \<Rightarrow> p | Some x \<Rightarrow> p\<lparr>acl_accesserId := x\<rparr>);
          p = (case get_int v ''accesseeId'' of None \<Rightarrow> p | Some x \<Rightarrow> p\<lparr>acl_accesseeId := x\<rparr>);
          p = (case get_str v ''sessionKey'' of None \<Rightarrow> p | Some x \<Rightarrow> p\<lparr>acl_sessionKey := x\<rparr>);
          p = (case get_int v ''bindType'' of None \<Rightarrow> p | Some x \<Rightarrow> p\<lparr>acl_bindType := x\<rparr>);
          p = (case get_int v ''authenticationType'' of None \<Rightarrow> p | Some x \<Rightarrow> p\<lparr>acl_authenticationType := x\<rparr>);
          p = (case get_int v ''bindLevel'' of None \<Rightarrow> p | Some x \<Rightarrow> p\<lparr>acl_bindLevel := x\<rparr>);
          p = (case get_int v ''status'' of None \<Rightarrow> p | Some x \<Rightarrow> p\<lparr>acl_status := x\<rparr>);
          p = (case get_int v ''validPeriod'' of None \<Rightarrow> p | Some x \<Rightarrow> p\<lparr>acl_validPeriod := x\<rparr>);
          p = (case get_int v ''lastAuthTime'' of None \<Rightarrow> p | Some x \<Rightarrow> p\<lparr>acl_lastAuthTime := x\<rparr>);
          p = (case get_str v ''trustDeviceId'' of None \<Rightarrow> p | Some x \<Rightarrow> p\<lparr>acl_trustDeviceId := x\<rparr>);
          p = (case get_int v ''deviceTypeId'' of None \<Rightarrow> p | Some x \<Rightarrow> p\<lparr>acl_deviceIdType := x\<rparr>);
          p = (case get_str v ''deviceIdHash'' of None \<Rightarrow> p | Some x \<Rightarrow> p\<lparr>acl_deviceIdHash := x\<rparr>);
          p = (case get_str v ''extraData'' of None \<Rightarrow> p | Some x \<Rightarrow> p\<lparr>acl_extraData := x\<rparr>)
      in (DP_SUCCESS, p))"

definition EntriesToAccesserExt :: "ValuesBucket \<Rightarrow> Accesser \<Rightarrow> Accesser" where
  "EntriesToAccesserExt v p =
     (let p = (case get_str v ''accesserDeviceName'' of None \<Rightarrow> p | Some x \<Rightarrow> p\<lparr>ar_deviceName := x\<rparr>);
          p = (case get_str v ''accesserServiceName'' of None \<Rightarrow> p | Some x \<Rightarrow> p\<lparr>ar_serviceName := x\<rparr>);
          p = (case get_int v ''accesserCredentialId'' of None \<Rightarrow> p | Some x \<Rightarrow> p\<lparr>ar_credentialId := x\<rparr>);
          p = (case get_str v ''accesserCredentialIdStr'' of None \<Rightarrow> p | Some x \<Rightarrow> p\<lparr>ar_credentialIdStr := x\<rparr>);
          p = (case get_int v ''accesserStatus'' of None \<Rightarrow> p | Some x \<Rightarrow> p\<lparr>ar_status := x\<rparr>);
          p = (case get_int v ''accesserSessionKeyId'' of None \<Rightarrow> p | Some x \<Rightarrow> p\<lparr>ar_sessionKeyId := x\<rparr>);
          p = (case get_int v ''accesserSKTimeStamp'' of None \<Rightarrow> p | Some x \<Rightarrow> p\<lparr>ar_skTimeStamp := x\<rparr>);
          p = (case get_str v ''accesserExtraData'' of None \<Rightarrow> p | Some x \<Rightarrow> p\<lparr>ar_extraData := x\<rparr>)
      in p)"

definition EntriesToAccesser :: "ValuesBucket \<Rightarrow> Accesser \<Rightarrow> dp_ret \<times> Accesser" where
  "EntriesToAccesser v p =
     (let p = (case get_int v ''accesserId'' of None \<Rightarrow> p | Some x \<Rightarrow> p\<lparr>ar_id := x\<rparr>);
          p = (case get_str v ''accesserDeviceId'' of None \<Rightarrow> p | Some x \<Rightarrow> p\<lparr>ar_deviceId := x\<rparr>);
          p = (case get_int v ''accesserUserId'' of None \<Rightarrow> p | Some x \<Rightarrow> p\<lparr>ar_userId := x\<rparr>);
          p = (case get_str v ''accesserAccountId'' of None \<Rightarrow> p | Some x \<Rightarrow> p\<lparr>ar_accountId := x\<rparr>);
          p = (case get_int v ''accesserTokenId'' of None \<Rightarrow> p | Some x \<Rightarrow> p\<lparr>ar_tokenId := x\<rparr>);
          p = (case get_str v ''accesserBundleName'' of None \<Rightarrow> p | Some x \<Rightarrow> p\<lparr>ar_bundleName := x\<rparr>);
          p = (case get_int v ''accesserBindLevel'' of None \<Rightarrow> p | Some x \<Rightarrow> p\<lparr>ar_bindLevel := x\<rparr>)
      in (DP_SUCCESS, EntriesToAccesserExt v p))"

definition EntriesToAccesseeExt :: "ValuesBucket \<Rightarrow> Accessee \<Rightarrow> Accessee" where
  "EntriesToAccesseeExt v p =
     (let p = (case get_str v ''accesseeDeviceName'' of None \<Rightarrow> p | Some x \<Rightarrow> p\<lparr>ae_deviceName := x\<rparr>);
          p = (case get_str v ''accesseeServiceName'' of None \<Rightarrow> p | Some x \<Rightarrow> p\<lparr>ae_serviceName := x\<rparr>);
          p = (case get_int v ''accesseeCredentialId'' of None \<Rightarrow> p | Some x \<Rightarrow> p\<lparr>ae_credentialId := x\<rparr>);
          p = (case get_str v ''accesseeCredentialIdStr'' of None \<Rightarrow> p | Some x \<Rightarrow> p\<lparr>ae_credentialIdStr := x\<rparr>);
          p = (case get_int v ''accesseeStatus'' of None \<Rightarrow> p | Some x \<Rightarrow> p\<lparr>ae_status := x\<rparr>);
          p = (case get_int v ''accesseeSessionKeyId'' of None \<Rightarrow> p | Some x \<Rightarrow> p\<lparr>ae_sessionKeyId := x\<rparr>);
          p = (case get_int v ''accesseeSKTimeStamp'' of None \<Rightarrow> p | Some x \<Rightarrow> p\<lparr>ae_skTimeStamp := x\<rparr>);
          p = (case get_str v ''accesseeExtraData'' of None \<Rightarrow> p | Some x \<Rightarrow> p\<lparr>ae_extraData := x\<rparr>)
      in p)"

definition EntriesToAccessee :: "ValuesBucket \<Rightarrow> Accessee \<Rightarrow> dp_ret \<times> Accessee" where
  "EntriesToAccessee v p =
     (let p = (case get_int v ''accesseeId'' of None \<Rightarrow> p | Some x \<Rightarrow> p\<lparr>ae_id := x\<rparr>);
          p = (case get_str v ''accesseeDeviceId'' of None \<Rightarrow> p | Some x \<Rightarrow> p\<lparr>ae_deviceId := x\<rparr>);
          p = (case get_int v ''accesseeUserId'' of None \<Rightarrow> p | Some x \<Rightarrow> p\<lparr>ae_userId := x\<rparr>);
          p = (case get_str v ''accesseeAccountId'' of None \<Rightarrow> p | Some x \<Rightarrow> p\<lparr>ae_accountId := x\<rparr>);
          p = (case get_int v ''accesseeTokenId'' of None \<Rightarrow> p | Some x \<Rightarrow> p\<lparr>ae_tokenId := x\<rparr>);
          p = (case get_str v ''accesseeBundleName'' of None \<Rightarrow> p | Some x \<Rightarrow> p\<lparr>ae_bundleName := x\<rparr>);
          p = (case get_int v ''accesseeBindLevel'' of None \<Rightarrow> p | Some x \<Rightarrow> p\<lparr>ae_bindLevel := x\<rparr>)
      in (DP_SUCCESS, EntriesToAccesseeExt v p))"

section \<open>What survives a row\<close>

lemmas row_defs = row_int_def row_str_def get_int_def get_str_def

lemma ConvertToAccesser_row: "ConvertToAccesser (Some (AccesserToEntries p)) x = (DP_SUCCESS, acl_accesser p)"
  by (simp add: ConvertToAccesser_def AccesserToEntries_def row_defs Let_def)

lemma ConvertToAccessee_row: "ConvertToAccessee (Some (AccesseeToEntries p)) x = (DP_SUCCESS, acl_accessee p)"
  by (simp add: ConvertToAccessee_def AccesseeToEntries_def row_defs Let_def)

lemma ConvertToAccessControlProfile_row:
  "ConvertToAccessControlProfile (Some (AccessControlProfileToEntries p)) x =
     (DP_SUCCESS, p\<lparr>acl_accesser := acl_accesser x, acl_accessee := acl_accessee x\<rparr>)"
  by (cases x) (simp add: ConvertToAccessControlProfile_def AccessControlProfileToEntries_def row_defs)

lemma EntriesToAccesser_row:
  "EntriesToAccesser (AccesserToEntries p) x =
     (DP_SUCCESS, acl_accesser p\<lparr>ar_hapSignature := ar_hapSignature x\<rparr>)"
  by (cases x) (simp add: EntriesToAccesser_def EntriesToAccesserExt_def AccesserToEntries_def row_defs Let_def)

end
