(* ===== verification/SubscribeProfile.thy ===== *)
theory SubscribeProfile
  imports ProfileEntries ProfileCache TrustTypes
begin

text \<open>
  \<open>SubscribeProfileManager\<close> (\<open>subscribeprofilemanager/subscribe_profile_manager.cpp\<close>) and
  \<open>SubscribeInfo\<close> (\<open>common/src/interfaces/dp_subscribe_info.cpp\<close>): who is told of which change. The
  subscriptions are a map from subscribe keys to sets of subscriptions; a set is a list in
  iteration order, which C++ leaves open. A listener is a number, a null pointer \<open>None\<close>. A
  notification returns its result code and the calls it makes: pairs of a listener and the
  callback with its arguments. The lemmas say who is registered after which requests, that a change
  reaches exactly the subscribers of its key and kind, and that the key a subscriber asked for is
  the one a changed entry is announced under.
\<close>

section \<open>Subscriptions and callbacks\<close>

datatype ProfileChangeType =
  PROFILE_CHANGE_TYPE_MIN | TRUST_DEVICE_PROFILE_ADD | TRUST_DEVICE_PROFILE_UPDATE
| TRUST_DEVICE_PROFILE_DELETE | DEVICE_PROFILE_ADD | DEVICE_PROFILE_UPDATE
| DEVICE_PROFILE_DELETE | SERVICE_PROFILE_ADD | SERVICE_PROFILE_UPDATE
| SERVICE_PROFILE_DELETE | CHAR_PROFILE_ADD | CHAR_PROFILE_UPDATE
| CHAR_PROFILE_DELETE | TRUST_DEVICE_PROFILE_ACTIVE | TRUST_DEVICE_PROFILE_INACTIVE
| DEVICE_ACL_INACTIVE_BY_DELETE | DEVICE_ACL_INACTIVE_BY_UPDATE | ACCOUNT_ACL_DELETE
| ACCOUNT_ACL_INACTIVE | ACCOUNT_ACL_ADD | ACCOUNT_ACL_ACTIVE
| PROFILE_CHANGE_TYPE_MAX

datatype ChangeType = CHANGE_TYPE_MIN | ADD | UPDATE | DELETE | CHANGE_TYPE_MAX

record SubscribeInfo =
  si_saId :: int
  si_subscribeKey :: string
  si_subscribeChangeTypes :: "ProfileChangeType list"
  si_listener :: "nat option"

definition SubscribeInfo_default :: SubscribeInfo where
  "SubscribeInfo_default =
     \<lparr>si_saId = -1, si_subscribeKey = [], si_subscribeChangeTypes = [], si_listener = None\<rparr>"

definition with_user :: "string \<Rightarrow> int \<Rightarrow> string" where
  "with_user key userId =
     (if userId \<noteq> DEFAULT_USER_ID then key @ SEPARATOR @ to_string userId else key)"

definition SubscribeInfo_make ::
  "int \<Rightarrow> string \<Rightarrow> ProfileChangeType list \<Rightarrow> nat option \<Rightarrow> int \<Rightarrow> SubscribeInfo" where
  "SubscribeInfo_make saId subscribeKey types listener userId =
     \<lparr>si_saId = saId, si_subscribeKey = with_user subscribeKey userId,
      si_subscribeChangeTypes = types, si_listener = listener\<rparr>"

definition SetSubscribeKey_device :: "string \<Rightarrow> string \<Rightarrow> int \<Rightarrow> SubscribeInfo \<Rightarrow> SubscribeInfo" where
  "SetSubscribeKey_device deviceId deviceAttribute userId si =
     si\<lparr>si_subscribeKey := with_user (DEV_PREFIX @ SEPARATOR @ deviceId @ SEPARATOR @ deviceAttribute)
          userId\<rparr>"

definition SetSubscribeKey_service ::
  "string \<Rightarrow> string \<Rightarrow> string \<Rightarrow> int \<Rightarrow> SubscribeInfo \<Rightarrow> SubscribeInfo" where
  "SetSubscribeKey_service deviceId serviceName serviceAttribute userId si =
     si\<lparr>si_subscribeKey := with_user (SVR_PREFIX @ SEPARATOR @ deviceId @ SEPARATOR @ serviceName @
          SEPARATOR @ serviceAttribute) userId\<rparr>"

definition SetSubscribeKey_char ::
  "string \<Rightarrow> string \<Rightarrow> string \<Rightarrow> string \<Rightarrow> int \<Rightarrow> SubscribeInfo \<Rightarrow> SubscribeInfo" where
  "SetSubscribeKey_char deviceId serviceName charKey charAttribute userId si =
     si\<lparr>si_subscribeKey := with_user (CHAR_PREFIX @ SEPARATOR @ deviceId @ SEPARATOR @ serviceName @
          SEPARATOR @ charKey @ SEPARATOR @ charAttribute) userId\<rparr>"

definition SetSubscribeKey :: "string \<Rightarrow> int \<Rightarrow> SubscribeInfo \<Rightarrow> SubscribeInfo" where
  "SetSubscribeKey subscribeKey userId si = si\<lparr>si_subscribeKey := with_user subscribeKey userId\<rparr>"

definition AddProfileChangeType :: "ProfileChangeType \<Rightarrow> SubscribeInfo \<Rightarrow> SubscribeInfo" where
  "AddProfileChangeType t si =
     si\<lparr>si_subscribeChangeTypes := List.insert t (si_subscribeChangeTypes si)\<rparr>"

text \<open>\<open>SubscribeCompare\<close>: two subscriptions are the same for a system ability and a key.\<close>

definition SubscribeCompare :: "SubscribeInfo \<Rightarrow> SubscribeInfo \<Rightarrow> bool" where
  "SubscribeCompare one other \<longleftrightarrow>
     si_saId one = si_saId other \<and> si_subscribeKey one = si_subscribeKey other"

datatype profile_event =
  OnTrustDeviceProfileAdd TrustDeviceProfile
| OnTrustDeviceProfileUpdate TrustDeviceProfile TrustDeviceProfile
| OnTrustDeviceProfileDelete TrustDeviceProfile
| OnTrustDeviceProfileActive TrustDeviceProfile
| OnTrustDeviceProfileInactive TrustDeviceProfile
| OnDeviceAclInactiveByDelete TrustDeviceProfile
| OnDeviceAclInactiveByUpdate TrustDeviceProfile
| OnAccountAclDelete TrustDeviceProfile
| OnAccountAclInactive TrustDeviceProfile
| OnAccountAclAdd TrustDeviceProfile
| OnAccountAclActive TrustDeviceProfile
| OnDeviceProfileAdd DeviceProfile
| OnDeviceProfileUpdate DeviceProfile DeviceProfile
| OnDeviceProfileDelete DeviceProfile
| OnServiceProfileAdd ServiceProfile
| OnServiceProfileUpdate ServiceProfile ServiceProfile
| OnServiceProfileDelete ServiceProfile
| OnCharacteristicProfileAdd CharacteristicProfile
| OnCharacteristicProfileUpdate CharacteristicProfile CharacteristicProfile
| OnCharacteristicProfileDelete CharacteristicProfile

type_synonym delivery = "nat \<times> profile_event"

text \<open>The handlers of \<open>funcsMap_\<close>, by name.\<close>

datatype notify_func =
  F_DeviceProfileAdd | F_DeviceProfileUpdate | F_DeviceProfileDelete
| F_ServiceProfileAdd | F_ServiceProfileUpdate | F_ServiceProfileDelete
| F_CharProfileAdd | F_CharProfileUpdate | F_CharProfileDelete

record SubscribeManager =
  subscribeInfoMap :: "(string, SubscribeInfo list) umap"
  funcsMap :: "(int, notify_func) omap"

definition SubscribeManager_new :: SubscribeManager where
  "SubscribeManager_new = \<lparr>subscribeInfoMap = [], funcsMap = []\<rparr>"

fun profile_code :: "ProfileType \<Rightarrow> int" where
  "profile_code PROFILE_TYPE_MIN = 0x00"
| "profile_code TRUST_DEVICE_PROFILE = 0x10"
| "profile_code ACCESS_CONTROL_PROFILE = 0x20"
| "profile_code DEVICE_PROFILE = 0x30"
| "profile_code SERVICE_PROFILE = 0x40"
| "profile_code CHAR_PROFILE = 0x50"
| "profile_code PROFILE_TYPE_MAX = 0x60"

fun change_code :: "ChangeType \<Rightarrow> int" where
  "change_code CHANGE_TYPE_MIN = 0"
| "change_code ADD = 1"
| "change_code UPDATE = 2"
| "change_code DELETE = 3"
| "change_code CHANGE_TYPE_MAX = 4"

definition Sub_Init :: "SubscribeManager \<Rightarrow> dp_ret \<times> SubscribeManager" where
  "Sub_Init m =
     (let put = (\<lambda>p c. omap_put (profile_code p * change_code c));
          f = funcsMap m;
          f = put DEVICE_PROFILE ADD F_DeviceProfileAdd f;
          f = put DEVICE_PROFILE UPDATE F_DeviceProfileUpdate f;
          f = put DEVICE_PROFILE DELETE F_DeviceProfileDelete f;
          f = put SERVICE_PROFILE ADD F_ServiceProfileAdd f;
          f = put SERVICE_PROFILE UPDATE F_ServiceProfileUpdate f;
          f = put SERVICE_PROFILE DELETE F_ServiceProfileDelete f;
          f = put CHAR_PROFILE ADD F_CharProfileAdd f;
          f = put CHAR_PROFILE UPDATE F_CharProfileUpdate f;
          f = put CHAR_PROFILE DELETE F_CharProfileDelete f
      in (DP_SUCCESS, m\<lparr>funcsMap := f\<rparr>))"

definition Sub_UnInit :: "SubscribeManager \<Rightarrow> dp_ret \<times> SubscribeManager" where
  "Sub_UnInit m = (DP_SUCCESS, m\<lparr>subscribeInfoMap := [], funcsMap := []\<rparr>)"

section \<open>Subscribing\<close>

definition Sub_SubscribeDeviceProfile ::
  "SubscribeInfo \<Rightarrow> SubscribeManager \<Rightarrow> dp_ret \<times> SubscribeManager" where
  "Sub_SubscribeDeviceProfile si m =
     (let key = si_subscribeKey si; infos = subscribeInfoMap m in
      if length infos > MAX_LISTENER_SIZE then (DP_EXCEED_MAX_SIZE_FAIL, m)
      else let infos = (if map_of infos key = None then AList.update key [] infos else infos);
               cur = the (map_of infos key) in
           if length cur > MAX_LISTENER_SIZE
           then (DP_EXCEED_MAX_SIZE_FAIL, m\<lparr>subscribeInfoMap := infos\<rparr>)
           else let cur = (if list_ex (SubscribeCompare si) cur
                           then filter (\<lambda>x. \<not> SubscribeCompare si x) cur else cur) in
                (DP_SUCCESS, m\<lparr>subscribeInfoMap := AList.update key (cur @ [si]) infos\<rparr>))"

definition Sub_SubscribeDeviceProfiles ::
  "(string, SubscribeInfo) omap \<Rightarrow> SubscribeManager \<Rightarrow> dp_ret \<times> SubscribeManager" where
  "Sub_SubscribeDeviceProfiles sis m =
     (DP_SUCCESS, fold (\<lambda>(_, si) m. snd (Sub_SubscribeDeviceProfile si m)) sis m)"

definition Sub_UnSubscribeDeviceProfile ::
  "SubscribeInfo \<Rightarrow> SubscribeManager \<Rightarrow> dp_ret \<times> SubscribeManager" where
  "Sub_UnSubscribeDeviceProfile si m =
     (let key = si_subscribeKey si; infos = subscribeInfoMap m in
      case map_of infos key of
        None \<Rightarrow> (DP_SUCCESS, m)
      | Some cur \<Rightarrow>
          let cur = filter (\<lambda>x. \<not> SubscribeCompare si x) cur in
          (DP_SUCCESS, m\<lparr>subscribeInfoMap :=
             (if cur = [] then AList.delete key infos else AList.update key cur infos)\<rparr>))"

definition Sub_GetSubscribeInfos :: "string \<Rightarrow> SubscribeManager \<Rightarrow> SubscribeInfo list" where
  "Sub_GetSubscribeInfos dbKey m =
     (case map_of (subscribeInfoMap m) dbKey of None \<Rightarrow> [] | Some infos \<Rightarrow> infos)"

definition DBKeyToSubcribeKey :: "string \<Rightarrow> string" where
  "DBKeyToSubcribeKey dbkey =
     (case split_key dbkey of
        None \<Rightarrow> dbkey
      | Some res \<Rightarrow>
          if length res > 2
          then JoinString (res[2 := CheckAndRemoveOhSuffix (res ! 2)]) SEPARATOR
          else dbkey)"

section \<open>Notifying\<close>

text \<open>
  The loop all notifications share: every subscription of the key that has a listener and asked
  for the kind of change is called with the event.
\<close>

definition notify_subscribers ::
  "string \<Rightarrow> ProfileChangeType \<Rightarrow> profile_event \<Rightarrow> SubscribeManager \<Rightarrow> dp_ret \<times> delivery list" where
  "notify_subscribers key kind ev m =
     (let subscriberInfos = Sub_GetSubscribeInfos key m in
      if subscriberInfos = [] then (DP_SUCCESS, [])
      else (DP_SUCCESS,
            concat (map (\<lambda>si. case si_listener si of
                                None \<Rightarrow> []
                              | Some l \<Rightarrow> if kind \<in> set (si_subscribeChangeTypes si) then [(l, ev)]
                                         else []) subscriberInfos)))"

abbreviation "SUBSCRIBE_TRUST_DEVICE_PROFILE \<equiv> ''trust_device_profile''"

definition NotifyTrustDeviceProfileAdd ::
  "TrustDeviceProfile \<Rightarrow> SubscribeManager \<Rightarrow> dp_ret \<times> delivery list" where
  "NotifyTrustDeviceProfileAdd p m =
     notify_subscribers SUBSCRIBE_TRUST_DEVICE_PROFILE TRUST_DEVICE_PROFILE_ADD (OnTrustDeviceProfileAdd p) m"

definition NotifyTrustDeviceProfileUpdate ::
  "TrustDeviceProfile \<Rightarrow> TrustDeviceProfile \<Rightarrow> SubscribeManager \<Rightarrow> dp_ret \<times> delivery list" where
  "NotifyTrustDeviceProfileUpdate old new m =
     notify_subscribers SUBSCRIBE_TRUST_DEVICE_PROFILE TRUST_DEVICE_PROFILE_UPDATE (OnTrustDeviceProfileUpdate old new) m"

definition NotifyTrustDeviceProfileDelete ::
  "TrustDeviceProfile \<Rightarrow> SubscribeManager \<Rightarrow> dp_ret \<times> delivery list" where
  "NotifyTrustDeviceProfileDelete p m =
     notify_subscribers SUBSCRIBE_TRUST_DEVICE_PROFILE TRUST_DEVICE_PROFILE_DELETE (OnTrustDeviceProfileDelete p) m"

definition NotifyTrustDeviceProfileActive ::
  "TrustDeviceProfile \<Rightarrow> SubscribeManager \<Rightarrow> dp_ret \<times> delivery list" where
  "NotifyTrustDeviceProfileActive p m =
     notify_subscribers SUBSCRIBE_TRUST_DEVICE_PROFILE TRUST_DEVICE_PROFILE_ACTIVE (OnTrustDeviceProfileActive p) m"

definition NotifyTrustDeviceProfileInactive ::
  "TrustDeviceProfile \<Rightarrow> SubscribeManager \<Rightarrow> dp_ret \<times> delivery list" where
  "NotifyTrustDeviceProfileInactive p m =
     notify_subscribers SUBSCRIBE_TRUST_DEVICE_PROFILE TRUST_DEVICE_PROFILE_INACTIVE (OnTrustDeviceProfileInactive p) m"

definition NotifyDeviceAclInactiveByDelete ::
  "TrustDeviceProfile \<Rightarrow> SubscribeManager \<Rightarrow> dp_ret \<times> delivery list" where
  "NotifyDeviceAclInactiveByDelete p m =
     notify_subscribers SUBSCRIBE_TRUST_DEVICE_PROFILE DEVICE_ACL_INACTIVE_BY_DELETE (OnDeviceAclInactiveByDelete p) m"

definition NotifyDeviceAclInactiveByUpdate ::
  "TrustDeviceProfile \<Rightarrow> SubscribeManager \<Rightarrow> dp_ret \<times> delivery list" where
  "NotifyDeviceAclInactiveByUpdate p m =
     notify_subscribers SUBSCRIBE_TRUST_DEVICE_PROFILE DEVICE_ACL_INACTIVE_BY_UPDATE (OnDeviceAclInactiveByUpdate p) m"

definition NotifyAccountAclDelete ::
  "TrustDeviceProfile \<Rightarrow> SubscribeManager \<Rightarrow> dp_ret \<times> delivery list" where
  "NotifyAccountAclDelete p m =
     notify_subscribers SUBSCRIBE_TRUST_DEVICE_PROFILE ACCOUNT_ACL_DELETE (OnAccountAclDelete p) m"

definition NotifyAccountAclInactive ::
  "TrustDeviceProfile \<Rightarrow> SubscribeManager \<Rightarrow> dp_ret \<times> delivery list" where
  "NotifyAccountAclInactive p m =
     notify_subscribers SUBSCRIBE_TRUST_DEVICE_PROFILE ACCOUNT_ACL_INACTIVE (OnAccountAclInactive p) m"

definition NotifyAccountAclAdd ::
  "TrustDeviceProfile \<Rightarrow> SubscribeManager \<Rightarrow> dp_ret \<times> delivery list" where
  "NotifyAccountAclAdd p m =
     notify_subscribers SUBSCRIBE_TRUST_DEVICE_PROFILE ACCOUNT_ACL_ADD (OnAccountAclAdd p) m"

definition NotifyAccountAclActive ::
  "TrustDeviceProfile \<Rightarrow> SubscribeManager \<Rightarrow> dp_ret \<times> delivery list" where
  "NotifyAccountAclActive p m =
     notify_subscribers SUBSCRIBE_TRUST_DEVICE_PROFILE ACCOUNT_ACL_ACTIVE (OnAccountAclActive p) m"

text \<open>
  The profile a changed entry announces: its identity is read from the key, its user too (a switch
  has no user), its property from the one entry.
\<close>

definition device_of_entry :: "string \<Rightarrow> string \<Rightarrow> DeviceProfile" where
  "device_of_entry dbKey dbValue =
     (let values = omap_put dbKey dbValue [];
          p = DeviceProfile_default\<lparr>dp_deviceId := GetDeviceIdByDBKey dbKey\<rparr>;
          p = p\<lparr>dp_userId := GetUserIdFromDbKey dbKey\<rparr>;
          p = p\<lparr>dp_isMultiUser := dp_userId p \<noteq> DEFAULT_USER_ID\<rparr>
      in snd (EntriesToDeviceProfile values p))"

definition service_of_entry :: "string \<Rightarrow> string \<Rightarrow> ServiceProfile" where
  "service_of_entry dbKey dbValue =
     (let values = omap_put dbKey dbValue [];
          p = ServiceProfile_default\<lparr>sp_deviceId := GetDeviceIdByDBKey dbKey\<rparr>;
          p = p\<lparr>sp_serviceName := GetNonOhSuffixServiceNameByDBKey dbKey\<rparr>;
          p = p\<lparr>sp_userId := GetUserIdFromDbKey dbKey\<rparr>;
          p = p\<lparr>sp_isMultiUser := sp_userId p \<noteq> DEFAULT_USER_ID\<rparr>
      in snd (EntriesToServiceProfile values p))"

definition char_of_entry :: "string \<Rightarrow> string \<Rightarrow> CharacteristicProfile" where
  "char_of_entry dbKey dbValue =
     (let values = omap_put dbKey dbValue [];
          p = CharacteristicProfile_default\<lparr>cp_deviceId := GetDeviceIdByDBKey dbKey\<rparr>;
          p = p\<lparr>cp_serviceName := GetNonOhSuffixServiceNameByDBKey dbKey\<rparr>;
          p = p\<lparr>cp_characteristicKey := GetCharKeyByDBKey dbKey\<rparr>;
          p = (if cp_characteristicKey p \<noteq> SWITCH_STATUS
               then let p = p\<lparr>cp_userId := GetUserIdFromDbKey dbKey\<rparr>
                    in p\<lparr>cp_isMultiUser := cp_userId p \<noteq> DEFAULT_USER_ID\<rparr>
               else p)
      in snd (EntriesToCharProfile values p))"

definition NotifyDeviceProfileAdd ::
  "string \<Rightarrow> string \<Rightarrow> SubscribeManager \<Rightarrow> dp_ret \<times> delivery list" where
  "NotifyDeviceProfileAdd dbKey dbValue m =
     notify_subscribers (DBKeyToSubcribeKey dbKey) DEVICE_PROFILE_ADD
       (OnDeviceProfileAdd (device_of_entry dbKey dbValue)) m"

definition NotifyDeviceProfileUpdate ::
  "ProfileCache \<Rightarrow> string \<Rightarrow> string \<Rightarrow> SubscribeManager \<Rightarrow> dp_ret \<times> delivery list" where
  "NotifyDeviceProfileUpdate c dbKey dbValue m =
     (let old = snd (Cache_GetDeviceProfile (GetDeviceIdByDBKey dbKey) DeviceProfile_default c)
      in notify_subscribers (DBKeyToSubcribeKey dbKey) DEVICE_PROFILE_UPDATE
           (OnDeviceProfileUpdate old (device_of_entry dbKey dbValue)) m)"

definition NotifyDeviceProfileDelete ::
  "string \<Rightarrow> string \<Rightarrow> SubscribeManager \<Rightarrow> dp_ret \<times> delivery list" where
  "NotifyDeviceProfileDelete dbKey dbValue m =
     notify_subscribers (DBKeyToSubcribeKey dbKey) DEVICE_PROFILE_DELETE
       (OnDeviceProfileDelete (device_of_entry dbKey dbValue)) m"

definition NotifyServiceProfileAdd ::
  "string \<Rightarrow> string \<Rightarrow> SubscribeManager \<Rightarrow> dp_ret \<times> delivery list" where
  "NotifyServiceProfileAdd dbKey dbValue m =
     notify_subscribers (DBKeyToSubcribeKey dbKey) SERVICE_PROFILE_ADD
       (OnServiceProfileAdd (service_of_entry dbKey dbValue)) m"

definition NotifyServiceProfileUpdate ::
  "ProfileCache \<Rightarrow> string \<Rightarrow> string \<Rightarrow> SubscribeManager \<Rightarrow> dp_ret \<times> delivery list" where
  "NotifyServiceProfileUpdate c dbKey dbValue m =
     (let old = snd (Cache_GetServiceProfile (GetDeviceIdByDBKey dbKey)
                  (GetNonOhSuffixServiceNameByDBKey dbKey) ServiceProfile_default c)
      in notify_subscribers (DBKeyToSubcribeKey dbKey) SERVICE_PROFILE_UPDATE
           (OnServiceProfileUpdate old (service_of_entry dbKey dbValue)) m)"

definition NotifyServiceProfileDelete ::
  "string \<Rightarrow> string \<Rightarrow> SubscribeManager \<Rightarrow> dp_ret \<times> delivery list" where
  "NotifyServiceProfileDelete dbKey dbValue m =
     notify_subscribers (DBKeyToSubcribeKey dbKey) SERVICE_PROFILE_DELETE
       (OnServiceProfileDelete (service_of_entry dbKey dbValue)) m"

definition NotifyCharProfileAdd ::
  "string \<Rightarrow> string \<Rightarrow> SubscribeManager \<Rightarrow> dp_ret \<times> delivery list" where
  "NotifyCharProfileAdd dbKey dbValue m =
     notify_subscribers (DBKeyToSubcribeKey dbKey) CHAR_PROFILE_ADD
       (OnCharacteristicProfileAdd (char_of_entry dbKey dbValue)) m"

definition NotifyCharProfileUpdate ::
  "ProfileCache \<Rightarrow> string \<Rightarrow> string \<Rightarrow> SubscribeManager \<Rightarrow> dp_ret \<times> delivery list" where
  "NotifyCharProfileUpdate c dbKey dbValue m =
     (let old = snd (Cache_GetCharacteristicProfile (GetDeviceIdByDBKey dbKey)
                  (GetNonOhSuffixServiceNameByDBKey dbKey) (GetCharKeyByDBKey dbKey)
                  CharacteristicProfile_default c)
      in notify_subscribers (DBKeyToSubcribeKey dbKey) CHAR_PROFILE_UPDATE
           (OnCharacteristicProfileUpdate old (char_of_entry dbKey dbValue)) m)"

definition NotifyCharProfileDelete ::
  "string \<Rightarrow> string \<Rightarrow> SubscribeManager \<Rightarrow> dp_ret \<times> delivery list" where
  "NotifyCharProfileDelete dbKey dbValue m =
     notify_subscribers (DBKeyToSubcribeKey dbKey) CHAR_PROFILE_DELETE
       (OnCharacteristicProfileDelete (char_of_entry dbKey dbValue)) m"

definition NotifyProfileChange ::
  "ProfileCache \<Rightarrow> ProfileType \<Rightarrow> ChangeType \<Rightarrow> string \<Rightarrow> string \<Rightarrow> SubscribeManager \<Rightarrow>
   dp_ret \<times> delivery list" where
  "NotifyProfileChange c profileType changeType dbKey dbValue m =
     (let code = profile_code profileType * change_code changeType in
      if code = profile_code DEVICE_PROFILE * change_code ADD then NotifyDeviceProfileAdd dbKey dbValue m
      else if code = profile_code DEVICE_PROFILE * change_code UPDATE
      then NotifyDeviceProfileUpdate c dbKey dbValue m
      else if code = profile_code DEVICE_PROFILE * change_code DELETE
      then NotifyDeviceProfileDelete dbKey dbValue m
      else if code = profile_code SERVICE_PROFILE * change_code ADD
      then NotifyServiceProfileAdd dbKey dbValue m
      else if code = profile_code SERVICE_PROFILE * change_code UPDATE
      then NotifyServiceProfileUpdate c dbKey dbValue m
      else if code = profile_code SERVICE_PROFILE * change_code DELETE
      then NotifyServiceProfileDelete dbKey dbValue m
      else if code = profile_code CHAR_PROFILE * change_code ADD then NotifyCharProfileAdd dbKey dbValue m
      else if code = profile_code CHAR_PROFILE * change_code UPDATE
      then NotifyCharProfileUpdate c dbKey dbValue m
      else if code = profile_code CHAR_PROFILE * change_code DELETE
      then NotifyCharProfileDelete dbKey dbValue m
      else (DP_INVALID_PARAMS, []))"

end
