(* ===== verification/SubscribeLaws.thy ===== *)
theory SubscribeLaws
  imports SubscribeProfile
begin

text \<open>
  The laws of \<open>SubscribeProfileManager\<close>: the invariant of every reachable table of subscriptions,
  who is subscribed after a request, to whom a change is announced, and that the key a subscriber
  asks for is the one under which the change of an entry is announced.
\<close>

section \<open>The table of subscriptions\<close>

definition subscribed :: "SubscribeManager \<Rightarrow> int \<Rightarrow> string \<Rightarrow> SubscribeInfo option" where
  "subscribed m sa key = find (\<lambda>si. si_saId si = sa) (Sub_GetSubscribeInfos key m)"

definition infos_ok :: "string \<Rightarrow> SubscribeInfo list \<Rightarrow> bool" where
  "infos_ok key infos \<longleftrightarrow> infos \<noteq> [] \<and> distinct (map si_saId infos) \<and>
     (\<forall>si\<in>set infos. si_subscribeKey si = key) \<and> length infos \<le> MAX_LISTENER_SIZE + 1"

definition sub_inv :: "SubscribeManager \<Rightarrow> bool" where
  "sub_inv m \<longleftrightarrow> distinct (map fst (subscribeInfoMap m)) \<and>
     (\<forall>(key, infos)\<in>set (subscribeInfoMap m). infos_ok key infos) \<and>
     length (subscribeInfoMap m) \<le> MAX_LISTENER_SIZE + 1"

inductive sub_step :: "SubscribeManager \<Rightarrow> SubscribeManager \<Rightarrow> bool" where
  init: "sub_step m (snd (Sub_Init m))"
| uninit: "sub_step m (snd (Sub_UnInit m))"
| subscribe: "sub_step m (snd (Sub_SubscribeDeviceProfile si m))"
| subscribe_all: "sub_step m (snd (Sub_SubscribeDeviceProfiles sis m))"
| unsubscribe: "sub_step m (snd (Sub_UnSubscribeDeviceProfile si m))"

lemma find_append_one:
  "find P (xs @ [x]) = (case find P xs of None \<Rightarrow> if P x then Some x else None | Some y \<Rightarrow> Some y)"
  by (induction xs) auto

lemma find_filter_neq:
  "find (\<lambda>x. f x = a) (filter (\<lambda>x. f x \<noteq> b) xs) = (if a = b then None else find (\<lambda>x. f x = a) xs)"
  by (induction xs) auto

lemma filter_not_compare:
  "\<forall>x\<in>set cur. si_subscribeKey x = si_subscribeKey si \<Longrightarrow>
   filter (\<lambda>x. \<not> SubscribeCompare si x) cur = filter (\<lambda>x. si_saId x \<noteq> si_saId si) cur"
  by (rule filter_cong) (auto simp: SubscribeCompare_def)

lemma replace_compare:
  assumes "\<forall>x\<in>set cur. si_subscribeKey x = si_subscribeKey si"
  shows "(if list_ex (SubscribeCompare si) cur then filter (\<lambda>x. \<not> SubscribeCompare si x) cur
          else cur) = filter (\<lambda>x. si_saId x \<noteq> si_saId si) cur"
proof (cases "list_ex (SubscribeCompare si) cur")
  case False
  then have "filter (\<lambda>x. \<not> SubscribeCompare si x) cur = cur"
    by (auto simp: list_ex_iff intro!: filter_True)
  with False filter_not_compare [OF assms] show ?thesis by simp
qed (simp add: filter_not_compare [OF assms])

lemma sub_inv_infos:
  "sub_inv m \<Longrightarrow> map_of (subscribeInfoMap m) key = Some infos \<Longrightarrow> infos_ok key infos"
  by (auto simp: sub_inv_def dest!: map_of_SomeD)

text \<open>A successful subscription, written without the insertion by \<open>operator[]\<close>.\<close>

lemma subscribe_result:
  fixes si :: SubscribeInfo
  assumes "sub_inv m"
  defines "key \<equiv> si_subscribeKey si"
  defines "cur \<equiv> Sub_GetSubscribeInfos key m"
  shows "Sub_SubscribeDeviceProfile si m =
    (if length (subscribeInfoMap m) > MAX_LISTENER_SIZE \<or> length cur > MAX_LISTENER_SIZE
     then (DP_EXCEED_MAX_SIZE_FAIL, m)
     else (DP_SUCCESS, m\<lparr>subscribeInfoMap :=
       AList.update key (filter (\<lambda>x. si_saId x \<noteq> si_saId si) cur @ [si]) (subscribeInfoMap m)\<rparr>))"
proof (cases "map_of (subscribeInfoMap m) key")
  case None
  then have "cur = []" by (simp add: cur_def Sub_GetSubscribeInfos_def)
  moreover have "AList.update key v (AList.update key w xs) = AList.update key v xs" for v w and xs :: "(string, SubscribeInfo list) umap"
    by (induction xs) auto
  ultimately show ?thesis
    using None by (simp add: Sub_SubscribeDeviceProfile_def Let_def key_def)
next
  case (Some infos)
  then have "cur = infos" by (simp add: cur_def Sub_GetSubscribeInfos_def)
  moreover have "\<forall>x\<in>set infos. si_subscribeKey x = si_subscribeKey si"
    using sub_inv_infos [OF assms(1) Some] by (simp add: infos_ok_def key_def)
  from replace_compare [OF this] calculation Some show ?thesis
    by (simp add: Sub_SubscribeDeviceProfile_def Let_def key_def split: if_splits)
qed

lemma unsubscribe_result:
  fixes si :: SubscribeInfo
  assumes "sub_inv m"
  defines "key \<equiv> si_subscribeKey si"
  defines "cur \<equiv> filter (\<lambda>x. si_saId x \<noteq> si_saId si) (Sub_GetSubscribeInfos key m)"
  shows "Sub_UnSubscribeDeviceProfile si m =
    (DP_SUCCESS, if map_of (subscribeInfoMap m) key = None then m
       else m\<lparr>subscribeInfoMap := (if cur = [] then AList.delete key (subscribeInfoMap m)
                                   else AList.update key cur (subscribeInfoMap m))\<rparr>)"
proof (cases "map_of (subscribeInfoMap m) key")
  case None
  then show ?thesis by (simp add: Sub_UnSubscribeDeviceProfile_def Let_def key_def)
next
  case (Some infos)
  then have "\<forall>x\<in>set infos. si_subscribeKey x = si_subscribeKey si"
    using sub_inv_infos [OF assms(1) Some] by (simp add: infos_ok_def key_def)
  from filter_not_compare [OF this] Some show ?thesis
    by (simp add: Sub_UnSubscribeDeviceProfile_def Let_def key_def cur_def Sub_GetSubscribeInfos_def)
qed

lemma set_umap_update:
  "set (AList.update k v m) \<subseteq> insert (k, v) (set m)"
  by (induction m) auto

lemma set_umap_delete: "set (AList.delete k m) \<subseteq> set m"
  by (induction m) auto

lemma infos_ok_filter:
  "infos_ok key infos \<Longrightarrow> filter P infos \<noteq> [] \<Longrightarrow> infos_ok key (filter P infos)"
  by (auto simp: infos_ok_def distinct_map_filter intro: order_trans [OF length_filter_le])

lemma infos_ok_GetSubscribeInfos:
  "sub_inv m \<Longrightarrow> Sub_GetSubscribeInfos key m = [] \<or> infos_ok key (Sub_GetSubscribeInfos key m)"
  by (auto simp: Sub_GetSubscribeInfos_def sub_inv_infos split: option.splits)

lemma sub_inv_subscribe:
  assumes "sub_inv m"
  shows "sub_inv (snd (Sub_SubscribeDeviceProfile si m))"
proof -
  let ?key = "si_subscribeKey si"
  let ?cur = "Sub_GetSubscribeInfos ?key m"
  let ?new = "filter (\<lambda>x. si_saId x \<noteq> si_saId si) ?cur @ [si]"
  have "length ?cur \<le> MAX_LISTENER_SIZE \<Longrightarrow> infos_ok ?key ?new"
    using infos_ok_GetSubscribeInfos [OF assms, of ?key]
    by (auto simp: infos_ok_def distinct_map_filter intro: order_trans [OF length_filter_le])
  with assms set_umap_update [of ?key ?new "subscribeInfoMap m"] show ?thesis
    by (auto simp: subscribe_result [OF assms] sub_inv_def umap_update_length)
qed

lemma sub_inv_unsubscribe:
  assumes "sub_inv m"
  shows "sub_inv (snd (Sub_UnSubscribeDeviceProfile si m))"
proof -
  let ?key = "si_subscribeKey si"
  let ?cur = "filter (\<lambda>x. si_saId x \<noteq> si_saId si) (Sub_GetSubscribeInfos ?key m)"
  have "?cur \<noteq> [] \<Longrightarrow> infos_ok ?key ?cur"
    using infos_ok_GetSubscribeInfos [OF assms, of ?key] infos_ok_filter by fastforce
  with assms set_umap_update [of ?key ?cur "subscribeInfoMap m"]
    set_umap_delete [of ?key "subscribeInfoMap m"] umap_delete_length [of ?key "subscribeInfoMap m"]
  show ?thesis
    by (auto simp: unsubscribe_result [OF assms] sub_inv_def umap_update_length key_in_map)
qed

lemma sub_inv_subscribe_all:
  "sub_inv m \<Longrightarrow> sub_inv (fold (\<lambda>(_, si) m. snd (Sub_SubscribeDeviceProfile si m)) sis m)"
  by (induction sis arbitrary: m) (auto simp: sub_inv_subscribe)

lemma sub_step_inv: "sub_step m m' \<Longrightarrow> sub_inv m \<Longrightarrow> sub_inv m'"
  by (induction rule: sub_step.induct)
    (auto simp: sub_inv_subscribe sub_inv_unsubscribe Sub_SubscribeDeviceProfiles_def
      sub_inv_subscribe_all, auto simp: Sub_Init_def Sub_UnInit_def Let_def sub_inv_def)

lemma sub_reachable_inv: "sub_step\<^sup>*\<^sup>* SubscribeManager_new m \<Longrightarrow> sub_inv m"
  by (induction rule: rtranclp_induct)
    (auto simp: sub_step_inv, simp add: sub_inv_def SubscribeManager_new_def)

lemma GetSubscribeInfos_update:
  "Sub_GetSubscribeInfos k (m\<lparr>subscribeInfoMap := AList.update key v (subscribeInfoMap m)\<rparr>) =
     (if k = key then v else Sub_GetSubscribeInfos k m)"
  by (simp add: Sub_GetSubscribeInfos_def)

lemma GetSubscribeInfos_delete:
  "Sub_GetSubscribeInfos k (m\<lparr>subscribeInfoMap := AList.delete key (subscribeInfoMap m)\<rparr>) =
     (if k = key then [] else Sub_GetSubscribeInfos k m)"
  by (simp add: Sub_GetSubscribeInfos_def)

lemma subscribed_subscribe:
  assumes "sub_inv m" "fst (Sub_SubscribeDeviceProfile si m) = DP_SUCCESS"
  shows "subscribed (snd (Sub_SubscribeDeviceProfile si m)) sa key =
    (if sa = si_saId si \<and> key = si_subscribeKey si then Some si else subscribed m sa key)"
  using assms(2)
  by (auto simp: subscribe_result [OF assms(1)] subscribed_def GetSubscribeInfos_update
      find_append_one find_filter_neq split: option.splits if_splits)

lemma find_filter_Nil:
  "filter (\<lambda>x. f x \<noteq> b) xs = [] \<Longrightarrow> a \<noteq> b \<Longrightarrow> find (\<lambda>x. f x = a) xs = None"
  using find_filter_neq [of f a b xs] by simp

lemma subscribed_unsubscribe:
  assumes "sub_inv m"
  shows "subscribed (snd (Sub_UnSubscribeDeviceProfile si m)) sa key =
    (if sa = si_saId si \<and> key = si_subscribeKey si then None else subscribed m sa key)"
proof (cases "map_of (subscribeInfoMap m) (si_subscribeKey si)")
  case None
  then show ?thesis
    by (auto simp: unsubscribe_result [OF assms] subscribed_def Sub_GetSubscribeInfos_def)
next
  case (Some infos)
  then show ?thesis
    by (auto simp: unsubscribe_result [OF assms] subscribed_def GetSubscribeInfos_update
        GetSubscribeInfos_delete find_filter_neq find_filter_Nil)
qed

text \<open>C20: Who is subscribed. In every table of subscriptions that any sequence of requests reaches,
  \<open>SubscribeDeviceProfile\<close> is refused exactly when there are more than \<open>MAX_LISTENER_SIZE\<close> keys, or
  subscriptions of its key, and then changes nothing; otherwise the subscription is the one of its
  system ability and key, in place of an earlier one, and all others are as before.
  \<open>UnSubscribeDeviceProfile\<close> always succeeds and removes exactly the subscription of its system
  ability and key.\<close>

theorem subscription_laws:
  assumes "sub_step\<^sup>*\<^sup>* SubscribeManager_new m"
  shows "(let (r, m') = Sub_SubscribeDeviceProfile si m;
             full = (length (subscribeInfoMap m) > MAX_LISTENER_SIZE \<or>
                     length (Sub_GetSubscribeInfos (si_subscribeKey si) m) > MAX_LISTENER_SIZE) in
         (r, m') = (if full then (DP_EXCEED_MAX_SIZE_FAIL, m) else (DP_SUCCESS, m')) \<and>
         (full \<or> (\<forall>sa key. subscribed m' sa key =
            (if sa = si_saId si \<and> key = si_subscribeKey si then Some si else subscribed m sa key)))) \<and>
    (let (r, m') = Sub_UnSubscribeDeviceProfile si m in
         r = DP_SUCCESS \<and>
         (\<forall>sa key. subscribed m' sa key =
            (if sa = si_saId si \<and> key = si_subscribeKey si then None else subscribed m sa key)))"
proof -
  have inv: "sub_inv m" using assms by (rule sub_reachable_inv)
  obtain r m' where d: "Sub_SubscribeDeviceProfile si m = (r, m')" by force
  define full where "full \<longleftrightarrow> length (subscribeInfoMap m) > MAX_LISTENER_SIZE \<or>
    length (Sub_GetSubscribeInfos (si_subscribeKey si) m) > MAX_LISTENER_SIZE"
  have c: "(r, m') = (if full then (DP_EXCEED_MAX_SIZE_FAIL, m) else (DP_SUCCESS, m'))"
    using subscribe_result [OF inv, of si] d by (auto simp: full_def)
  then have "full \<or> (\<forall>sa key. subscribed m' sa key =
      (if sa = si_saId si \<and> key = si_subscribeKey si then Some si else subscribed m sa key))"
    using subscribed_subscribe [OF inv, of si] d by auto
  moreover obtain m'' where u: "Sub_UnSubscribeDeviceProfile si m = (DP_SUCCESS, m'')"
    using unsubscribe_result [OF inv, of si] by blast
  then have "\<forall>sa key. subscribed m'' sa key =
      (if sa = si_saId si \<and> key = si_subscribeKey si then None else subscribed m sa key)"
    using subscribed_unsubscribe [OF inv, of si] by simp
  ultimately show ?thesis
    using c unfolding full_def d u Let_def prod.case by blast
qed

lemma subscription_laws_witness:
  "let si = SubscribeInfo_make 7 ''k'' [DEVICE_PROFILE_ADD] (Some 3) 100;
       m = snd (Sub_SubscribeDeviceProfile si SubscribeManager_new) in
   subscribed (snd (Sub_UnSubscribeDeviceProfile si m)) 7 ''k#100'' = None \<and>
   subscribed m 7 ''k#100'' = Some si"
proof -
  let ?si = "SubscribeInfo_make 7 ''k'' [DEVICE_PROFILE_ADD] (Some 3) 100"
  let ?m = "snd (Sub_SubscribeDeviceProfile ?si SubscribeManager_new)"
  have k: "si_saId ?si = 7" "si_subscribeKey ?si = ''k#100''" by code_simp+
  have "sub_step\<^sup>*\<^sup>* SubscribeManager_new ?m"
    using sub_step.subscribe by blast
  from conjunct2 [OF subscription_laws [OF this, of ?si]]
  have "subscribed (snd (Sub_UnSubscribeDeviceProfile ?si ?m)) 7 ''k#100'' = None"
    unfolding split_def Let_def k by simp
  moreover have "subscribed ?m 7 ''k#100'' = Some ?si" by code_simp
  ultimately show ?thesis by (simp add: Let_def)
qed

section \<open>Who is told\<close>

text \<open>
  The listeners a change of kind \<open>kind\<close> is announced to: one call for each system ability whose
  subscription of the key has a listener and names the kind.
\<close>

definition told :: "SubscribeManager \<Rightarrow> string \<Rightarrow> ProfileChangeType \<Rightarrow> int \<Rightarrow> nat option" where
  "told m key kind sa =
     (case subscribed m sa key of
        None \<Rightarrow> None
      | Some si \<Rightarrow> if kind \<in> set (si_subscribeChangeTypes si) then si_listener si else None)"

definition announces ::
  "SubscribeManager \<Rightarrow> string \<Rightarrow> ProfileChangeType \<Rightarrow> profile_event \<Rightarrow> delivery list \<Rightarrow> bool" where
  "announces m key kind ev ds \<longleftrightarrow>
     (\<exists>sas. distinct sas \<and> set sas = {sa. told m key kind sa \<noteq> None} \<and>
            ds = map (\<lambda>sa. (the (told m key kind sa), ev)) sas)"

lemma find_distinct:
  "distinct (map f xs) \<Longrightarrow> x \<in> set xs \<Longrightarrow> find (\<lambda>y. f y = f x) xs = Some x"
  by (induction xs) auto

lemma notify_announces:
  assumes "sub_inv m"
  shows "\<exists>ds. notify_subscribers key kind ev m = (DP_SUCCESS, ds) \<and> announces m key kind ev ds"
proof -
  let ?infos = "Sub_GetSubscribeInfos key m"
  define P where "P si \<longleftrightarrow> si_listener si \<noteq> None \<and> kind \<in> set (si_subscribeChangeTypes si)"
    for si :: SubscribeInfo
  define sas where "sas = map si_saId (filter P ?infos)"
  have d: "distinct (map si_saId ?infos)"
    using infos_ok_GetSubscribeInfos [OF assms, of key] by (auto simp: infos_ok_def)
  have sub: "subscribed m (si_saId si) key = Some si" if "si \<in> set ?infos" for si
    using find_distinct [OF d that] by (simp add: subscribed_def)
  have t: "told m key kind (si_saId si) = (if P si then si_listener si else None)"
    if "si \<in> set ?infos" for si
    using sub [OF that] by (auto simp: told_def P_def)
  have "notify_subscribers key kind ev m =
      (DP_SUCCESS, concat (map (\<lambda>si. if P si then [(the (si_listener si), ev)] else []) ?infos))"
    by (auto simp: notify_subscribers_def Let_def P_def split: option.splits intro!: arg_cong [of _ _ concat])
  also have "concat (map (\<lambda>si. if P si then [(the (si_listener si), ev)] else []) xs) =
      map (\<lambda>sa. (the (told m key kind sa), ev)) (map si_saId (filter P xs))"
    if "set xs \<subseteq> set ?infos" for xs
    using that by (induction xs) (auto simp: t)
  then have "concat (map (\<lambda>si. if P si then [(the (si_listener si), ev)] else []) ?infos) =
      map (\<lambda>sa. (the (told m key kind sa), ev)) sas"
    by (simp add: sas_def)
  finally have n: "notify_subscribers key kind ev m =
      (DP_SUCCESS, map (\<lambda>sa. (the (told m key kind sa), ev)) sas)" .
  have "set sas = {sa. told m key kind sa \<noteq> None}"
  proof (intro set_eqI iffI)
    fix sa assume "sa \<in> set sas"
    then show "sa \<in> {sa. told m key kind sa \<noteq> None}" by (auto simp: sas_def t P_def)
  next
    fix sa assume "sa \<in> {sa. told m key kind sa \<noteq> None}"
    then obtain si where si: "subscribed m sa key = Some si" "told m key kind sa \<noteq> None"
      by (auto simp: told_def split: option.splits)
    then have "si \<in> set ?infos" "si_saId si = sa"
      by (auto simp: subscribed_def find_Some_iff)
    with si t [of si] show "sa \<in> set sas" by (auto simp: sas_def split: if_splits)
  qed
  moreover have "distinct sas" using d by (simp add: sas_def distinct_map_filter)
  ultimately show ?thesis unfolding n announces_def by blast
qed

fun change_kind :: "ProfileType \<Rightarrow> ChangeType \<Rightarrow> ProfileChangeType" where
  "change_kind DEVICE_PROFILE ADD = DEVICE_PROFILE_ADD"
| "change_kind DEVICE_PROFILE UPDATE = DEVICE_PROFILE_UPDATE"
| "change_kind DEVICE_PROFILE DELETE = DEVICE_PROFILE_DELETE"
| "change_kind SERVICE_PROFILE ADD = SERVICE_PROFILE_ADD"
| "change_kind SERVICE_PROFILE UPDATE = SERVICE_PROFILE_UPDATE"
| "change_kind SERVICE_PROFILE DELETE = SERVICE_PROFILE_DELETE"
| "change_kind CHAR_PROFILE ADD = CHAR_PROFILE_ADD"
| "change_kind CHAR_PROFILE UPDATE = CHAR_PROFILE_UPDATE"
| "change_kind CHAR_PROFILE DELETE = CHAR_PROFILE_DELETE"
| "change_kind _ _ = PROFILE_CHANGE_TYPE_MAX"

fun change_event :: "ProfileCache \<Rightarrow> ProfileType \<Rightarrow> ChangeType \<Rightarrow> string \<Rightarrow> string \<Rightarrow> profile_event" where
  "change_event c DEVICE_PROFILE ADD k v = OnDeviceProfileAdd (device_of_entry k v)"
| "change_event c DEVICE_PROFILE UPDATE k v =
     OnDeviceProfileUpdate (snd (Cache_GetDeviceProfile (GetDeviceIdByDBKey k) DeviceProfile_default c))
       (device_of_entry k v)"
| "change_event c DEVICE_PROFILE _ k v = OnDeviceProfileDelete (device_of_entry k v)"
| "change_event c SERVICE_PROFILE ADD k v = OnServiceProfileAdd (service_of_entry k v)"
| "change_event c SERVICE_PROFILE UPDATE k v =
     OnServiceProfileUpdate (snd (Cache_GetServiceProfile (GetDeviceIdByDBKey k)
         (GetNonOhSuffixServiceNameByDBKey k) ServiceProfile_default c)) (service_of_entry k v)"
| "change_event c SERVICE_PROFILE _ k v = OnServiceProfileDelete (service_of_entry k v)"
| "change_event c _ ADD k v = OnCharacteristicProfileAdd (char_of_entry k v)"
| "change_event c _ UPDATE k v =
     OnCharacteristicProfileUpdate (snd (Cache_GetCharacteristicProfile (GetDeviceIdByDBKey k)
         (GetNonOhSuffixServiceNameByDBKey k) (GetCharKeyByDBKey k) CharacteristicProfile_default c))
       (char_of_entry k v)"
| "change_event c _ _ k v = OnCharacteristicProfileDelete (char_of_entry k v)"

lemmas notify_defs = NotifyDeviceProfileAdd_def NotifyDeviceProfileUpdate_def
  NotifyDeviceProfileDelete_def NotifyServiceProfileAdd_def NotifyServiceProfileUpdate_def
  NotifyServiceProfileDelete_def NotifyCharProfileAdd_def NotifyCharProfileUpdate_def
  NotifyCharProfileDelete_def

lemma NotifyProfileChange_dispatch:
  assumes "pt \<in> {DEVICE_PROFILE, SERVICE_PROFILE, CHAR_PROFILE}" "ct \<in> {ADD, UPDATE, DELETE}"
  shows "NotifyProfileChange c pt ct k v m =
    notify_subscribers (DBKeyToSubcribeKey k) (change_kind pt ct) (change_event c pt ct k v) m"
  using assms by (auto simp: NotifyProfileChange_def Let_def notify_defs)



section \<open>The key of a subscription and of a change\<close>

lemma DBKeyToSubcribeKey_split:
  assumes "split_key k = Some fs" "2 < length fs" "\<forall>f\<in>set fs. CHR ''#'' \<notin> set f"
  shows "DBKeyToSubcribeKey k = join_with ''#'' (fs[2 := CheckAndRemoveOhSuffix (fs ! 2)])"
  using assms by (simp add: DBKeyToSubcribeKey_def JoinString_join)

lemma remove_add_suffix:
  "\<not> EndsWith s OH_PROFILE_SUFFIX \<Longrightarrow> CheckAndRemoveOhSuffix (CheckAndAddOhSuffix s b) = s"
  by (auto simp: CheckAndRemoveOhSuffix_def CheckAndAddOhSuffix_def EndsWith_iff suffix_def)

lemma sep_notin_add_suffix: "CHR ''#'' \<notin> set s \<Longrightarrow> CHR ''#'' \<notin> set (CheckAndAddOhSuffix s b)"
  by (auto simp: CheckAndAddOhSuffix_def)

lemma sep_notin_user_fields: "f \<in> set (user_fields u) \<Longrightarrow> CHR ''#'' \<notin> set f"
  by (auto simp: user_fields_def key_simps split: if_splits)

text \<open>C22: Subscribers and changes meet at the same key. For parts without separator whose names do
  not end in the suffix, the key that \<open>SetSubscribeKey\<close> builds for an attribute of a device, a
  service or a characteristic and a user is the one \<open>DBKeyToSubcribeKey\<close> gives for the database
  key of this attribute's entry, whether the suffix was added to the name in the store or not.\<close>

theorem subscribe_key_matches:
  assumes "IsKeyValid d" "IsKeyValid s" "IsKeyValid k" "IsKeyValid a"
    and "\<not> EndsWith s OH_PROFILE_SUFFIX" "\<not> EndsWith a OH_PROFILE_SUFFIX"
  shows "si_subscribeKey (SetSubscribeKey_device d a u si) =
      DBKeyToSubcribeKey (GenerateDBKey (GenerateDeviceProfileKey d) (CheckAndAddOhSuffix a False) u) \<and>
    si_subscribeKey (SetSubscribeKey_service d s a u si) =
      DBKeyToSubcribeKey (GenerateDBKey (GenerateServiceProfileKey d (CheckAndAddOhSuffix s True)) a u) \<and>
    si_subscribeKey (SetSubscribeKey_char d s k a u si) =
      DBKeyToSubcribeKey (GenerateDBKey (GenerateCharProfileKey d (CheckAndAddOhSuffix s True) k) a u)"
proof -
  have v: "CHR ''#'' \<notin> set d" "CHR ''#'' \<notin> set s" "CHR ''#'' \<notin> set k" "CHR ''#'' \<notin> set a"
    using assms by (simp_all add: IsKeyValid_iff)
  note v = v sep_notin_add_suffix [OF v(2), of True] sep_notin_add_suffix [OF v(4), of False]
  note r = remove_add_suffix [OF assms(5), of True] remove_add_suffix [OF assms(6), of False]
  note u = sep_notin_user_fields [of _ u]
  note keys = SetSubscribeKey_device_def SetSubscribeKey_service_def SetSubscribeKey_char_def
    with_user_def user_fields_def
  show ?thesis
  proof (intro conjI)
    show "si_subscribeKey (SetSubscribeKey_device d a u si) =
        DBKeyToSubcribeKey (GenerateDBKey (GenerateDeviceProfileKey d) (CheckAndAddOhSuffix a False) u)"
      using v u r by (subst DBKeyToSubcribeKey_split [OF split_dev_key]) (auto simp: keys)
    show "si_subscribeKey (SetSubscribeKey_service d s a u si) =
        DBKeyToSubcribeKey (GenerateDBKey (GenerateServiceProfileKey d (CheckAndAddOhSuffix s True)) a u)"
      using v u r by (subst DBKeyToSubcribeKey_split [OF split_svr_key]) (auto simp: keys)
    show "si_subscribeKey (SetSubscribeKey_char d s k a u si) =
        DBKeyToSubcribeKey (GenerateDBKey (GenerateCharProfileKey d (CheckAndAddOhSuffix s True) k) a u)"
      using v u r by (subst DBKeyToSubcribeKey_split [OF split_char_key]) (auto simp: keys)
  qed
qed

lemma subscribe_key_matches_witness:
  "si_subscribeKey (SetSubscribeKey_service ''d1'' ''appInfo'' ''t'' 100 SubscribeInfo_default) =
     DBKeyToSubcribeKey (GenerateDBKey (GenerateServiceProfileKey ''d1''
       (CheckAndAddOhSuffix ''appInfo'' True)) ''t'' 100) \<and>
   CheckAndAddOhSuffix ''appInfo'' True = ''appInfo_OH''"
proof -
  have "IsKeyValid ''d1''" "IsKeyValid ''appInfo''" "IsKeyValid ''k''" "IsKeyValid ''t''"
    "\<not> EndsWith ''appInfo'' OH_PROFILE_SUFFIX" "\<not> EndsWith ''t'' OH_PROFILE_SUFFIX"
    by code_simp+
  from subscribe_key_matches [OF this, of 100 SubscribeInfo_default]
  show ?thesis by (intro conjI; (elim conjE; assumption | code_simp))
qed

end
