(* ===== verification/RdbStore.thy ===== *)
theory RdbStore
  imports TrustTypes
begin

text \<open>
  The relational storage layer: the interface \<open>IRdbAdapter\<close> (\<open>irdb_adapter.h\<close>) and its
  implementation \<open>RdbAdapter\<close> (\<open>persistenceadapter/rdbadapter/rdb_adapter.cpp\<close>). The relational
  store below it (\<open>NativeRdb\<close>) is not part of this repository: its operations are the fields of the
  record \<open>RdbStore\<close>, an argument of the operations here, over an opaque state. A query
  \<open>SELECT * FROM t WHERE c1 = ? and c2 = ?\<close> is the value \<open>Select t [c1, c2]\<close>, and a where clause
  is the list of its columns; opening the database (\<open>Init\<close>) is an argument of the interface here. What the code relies on is the locale \<open>rdb_store\<close>; what the adapter
  promises its clients is \<open>rdb_adapter\<close>, which the model of the adapter satisfies over every such
  store.
\<close>

section \<open>The relational store\<close>

text \<open>The statuses the adapter tells apart; \<open>E_RDB_ERROR\<close> is any other one.\<close>

datatype rdb_ret = E_OK | E_SQLITE_CORRUPT | E_RDB_ERROR

text \<open>A condition on a column: a value, or one of so many. The text before \<open>WHERE\<close> of \<open>SelectFirst\<close> is its argument.\<close>

datatype where_cond = WEq string | WIn string nat

fun cond_text :: "where_cond \<Rightarrow> string" where
  "cond_text (WEq c) = c @ '' = ?''"
| "cond_text (WIn c n) = c @ '' IN('' @ join_with '','' (replicate n ''?'') @ '')''"

datatype sql_query = Select string "string list" | PragmaTableInfo string
  | SelectWhere string "where_cond list" | SelectFirst string "where_cond list"

fun sql_text :: "sql_query \<Rightarrow> string" where
  "sql_text (Select t cols) =
     ''SELECT * FROM '' @ t @
     (if cols = [] then [] else '' WHERE '' @ join_with '' and '' (map (\<lambda>c. c @ '' = ?'') cols))"
| "sql_text (PragmaTableInfo t) = ''PRAGMA table_info('' @ t @ '')''"
| "sql_text (SelectWhere t conds) =
     ''SELECT * FROM '' @ t @
     (if conds = [] then [] else '' WHERE '' @ join_with '' AND '' (map cond_text conds))"
| "sql_text (SelectFirst select conds) =
     select @ join_with '' AND '' (map cond_text conds) @ '' ORDER By a.id LIMIT 1 ''"

text \<open>A result set: the status of \<open>GetRowCount\<close> and the rows it can be stepped through.\<close>

record ResultSet =
  rs_status :: rdb_ret
  rs_rows :: "ValuesBucket list"

record 'r RdbStore =
  rdb_Insert :: "string \<Rightarrow> ValuesBucket \<Rightarrow> 'r \<Rightarrow> (rdb_ret \<times> int) \<times> 'r"
  rdb_Update :: "string \<Rightarrow> ValuesBucket \<Rightarrow> string list \<Rightarrow> rdb_value list \<Rightarrow> 'r \<Rightarrow> (rdb_ret \<times> int) \<times> 'r"
  rdb_Delete :: "string \<Rightarrow> string list \<Rightarrow> rdb_value list \<Rightarrow> 'r \<Rightarrow> (rdb_ret \<times> int) \<times> 'r"
  rdb_QueryByStep :: "sql_query \<Rightarrow> rdb_value list \<Rightarrow> 'r \<Rightarrow> ResultSet option"
  rdb_Restore :: "'r \<Rightarrow> rdb_ret \<times> 'r"
  rdb_ExecuteSql :: "string \<Rightarrow> 'r \<Rightarrow> rdb_ret \<times> 'r"

section \<open>The adapter\<close>

abbreviation "TRUST_DEVICE_TABLE \<equiv> ''trust_device_table''"
abbreviation "ACCESS_CONTROL_TABLE \<equiv> ''access_control_table''"
abbreviation "ACCESSER_TABLE \<equiv> ''accesser_table''"
abbreviation "ACCESSEE_TABLE \<equiv> ''accessee_table''"
abbreviation "SUBSCRIBE_TRUST_INFO_TABLE \<equiv> ''subscribe_trust_info_table''"

definition TABLES :: "string list" where
  "TABLES = [TRUST_DEVICE_TABLE, ACCESSER_TABLE, ACCESSEE_TABLE, ACCESS_CONTROL_TABLE,
     SUBSCRIBE_TRUST_INFO_TABLE]"

text \<open>\<open>None\<close> is a null store pointer.\<close>

record 'r RdbAdapter =
  ra_store :: "'r option"
  ra_preMigStore :: "'r option"
  ra_postMigStore :: "'r option"

text \<open>
  The operations of \<open>IRdbAdapter\<close> the clients call. The first argument of \<open>Put\<close>, \<open>Delete\<close> and
  \<open>Update\<close> is the counter the caller passes by reference; it is returned beside the code.
\<close>

record 'a IRdbAdapter =
  ir_Init :: "'a \<Rightarrow> dp_ret \<times> 'a"
  ir_UnInit :: "'a \<Rightarrow> dp_ret \<times> 'a"
  ir_Put :: "int \<Rightarrow> string \<Rightarrow> ValuesBucket \<Rightarrow> 'a \<Rightarrow> (dp_ret \<times> int) \<times> 'a"
  ir_Delete :: "int \<Rightarrow> string \<Rightarrow> string list \<Rightarrow> rdb_value list \<Rightarrow> 'a \<Rightarrow> (dp_ret \<times> int) \<times> 'a"
  ir_Update :: "int \<Rightarrow> string \<Rightarrow> ValuesBucket \<Rightarrow> string list \<Rightarrow> rdb_value list \<Rightarrow> 'a \<Rightarrow>
     (dp_ret \<times> int) \<times> 'a"
  ir_CreateTable :: "string \<Rightarrow> 'a \<Rightarrow> dp_ret \<times> 'a"
  ir_Get :: "sql_query \<Rightarrow> rdb_value list \<Rightarrow> 'a \<Rightarrow> ResultSet option \<times> 'a"

text \<open>
  The shape \<open>Put\<close>, \<open>Delete\<close> and \<open>Update\<close> share: on a corrupt database the store is restored and
  the operation tried once more.
\<close>

definition with_restore ::
  "('r, 'x) RdbStore_scheme \<Rightarrow> ('r \<Rightarrow> (rdb_ret \<times> int) \<times> 'r) \<Rightarrow> dp_ret \<Rightarrow> 'r \<Rightarrow> (dp_ret \<times> int) \<times> 'r" where
  "with_restore rs f fail s =
     (let ((ret, n), s) = f s in
      if ret = E_SQLITE_CORRUPT
      then let (restoreRet, s) = rdb_Restore rs s in
           if restoreRet \<noteq> E_OK then ((DP_RDB_DATABASE_RESTORE_FAIL, n), s)
           else let ((ret, n), s) = f s in ((if ret \<noteq> E_OK then fail else DP_SUCCESS, n), s)
      else ((if ret \<noteq> E_OK then fail else DP_SUCCESS, n), s))"

definition RdbAdapter_UnInit :: "'r RdbAdapter \<Rightarrow> dp_ret \<times> 'r RdbAdapter" where
  "RdbAdapter_UnInit a = (DP_SUCCESS, a\<lparr>ra_store := None\<rparr>)"

definition RdbAdapter_Put ::
  "'r RdbStore \<Rightarrow> int \<Rightarrow> string \<Rightarrow> ValuesBucket \<Rightarrow> 'r RdbAdapter \<Rightarrow> (dp_ret \<times> int) \<times> 'r RdbAdapter" where
  "RdbAdapter_Put rs outRowId table values a =
     (if table \<notin> set TABLES then ((DP_RDBADAPTER_TABLE_NOT_EXIST, outRowId), a)
      else case ra_store a of
        None \<Rightarrow> ((DP_RDB_DB_PTR_NULL, outRowId), a)
      | Some s \<Rightarrow>
          let (r, s) = with_restore rs (rdb_Insert rs table values) DP_RDBADAPTER_PUT_FAIL s
          in (r, a\<lparr>ra_store := Some s\<rparr>))"

definition RdbAdapter_Delete ::
  "'r RdbStore \<Rightarrow> int \<Rightarrow> string \<Rightarrow> string list \<Rightarrow> rdb_value list \<Rightarrow> 'r RdbAdapter \<Rightarrow>
   (dp_ret \<times> int) \<times> 'r RdbAdapter" where
  "RdbAdapter_Delete rs deleteRows table whereClause bindArgs a =
     (if table \<notin> set TABLES then ((DP_RDBADAPTER_TABLE_NOT_EXIST, deleteRows), a)
      else case ra_store a of
        None \<Rightarrow> ((DP_RDB_DB_PTR_NULL, deleteRows), a)
      | Some s \<Rightarrow>
          let (r, s) = with_restore rs (rdb_Delete rs table whereClause bindArgs)
                         DP_RDBADAPTER_DELETE_FAIL s
          in (r, a\<lparr>ra_store := Some s\<rparr>))"

definition RdbAdapter_Update ::
  "'r RdbStore \<Rightarrow> int \<Rightarrow> string \<Rightarrow> ValuesBucket \<Rightarrow> string list \<Rightarrow> rdb_value list \<Rightarrow> 'r RdbAdapter \<Rightarrow>
   (dp_ret \<times> int) \<times> 'r RdbAdapter" where
  "RdbAdapter_Update rs changedRows table values whereClause bindArgs a =
     (if table \<notin> set TABLES then ((DP_RDBADAPTER_TABLE_NOT_EXIST, changedRows), a)
      else case ra_store a of
        None \<Rightarrow> ((DP_RDB_DB_PTR_NULL, changedRows), a)
      | Some s \<Rightarrow>
          let (r, s) = with_restore rs (rdb_Update rs table values whereClause bindArgs)
                         DP_RDBADAPTER_UPDATE_FAIL s
          in (r, a\<lparr>ra_store := Some s\<rparr>))"

definition RdbAdapter_Get ::
  "'r RdbStore \<Rightarrow> sql_query \<Rightarrow> rdb_value list \<Rightarrow> 'r RdbAdapter \<Rightarrow> ResultSet option \<times> 'r RdbAdapter" where
  "RdbAdapter_Get rs sql args a =
     (case ra_store a of
        None \<Rightarrow> (None, a)
      | Some s \<Rightarrow>
          (case rdb_QueryByStep rs sql args s of
             None \<Rightarrow> (None, a)
           | Some resultSet \<Rightarrow>
               if rs_status resultSet = E_SQLITE_CORRUPT
               then let (ret, s) = rdb_Restore rs s; a = a\<lparr>ra_store := Some s\<rparr> in
                    if ret \<noteq> E_OK then (None, a) else (rdb_QueryByStep rs sql args s, a)
               else (Some resultSet, a)))"

definition RdbAdapter_CreateTable ::
  "'r RdbStore \<Rightarrow> string \<Rightarrow> 'r RdbAdapter \<Rightarrow> dp_ret \<times> 'r RdbAdapter" where
  "RdbAdapter_CreateTable rs sql a =
     (case ra_store a of
        None \<Rightarrow> (DP_RDB_DB_PTR_NULL, a)
      | Some s \<Rightarrow>
          let (ret, s) = rdb_ExecuteSql rs sql s; a = a\<lparr>ra_store := Some s\<rparr> in
          if ret \<noteq> E_OK then (DP_RDBADAPTER_CREATE_TABLE_FAIL, a) else (DP_SUCCESS, a))"

definition RdbAdapter_ops ::
  "'r RdbStore \<Rightarrow> ('r RdbAdapter \<Rightarrow> dp_ret \<times> 'r RdbAdapter) \<Rightarrow> 'r RdbAdapter IRdbAdapter" where
  "RdbAdapter_ops rs init =
     \<lparr>ir_Init = init, ir_UnInit = RdbAdapter_UnInit, ir_Put = RdbAdapter_Put rs, ir_Delete = RdbAdapter_Delete rs,
      ir_Update = RdbAdapter_Update rs, ir_CreateTable = RdbAdapter_CreateTable rs,
      ir_Get = RdbAdapter_Get rs\<rparr>"

section \<open>The laws of the store and the contract of the adapter\<close>

definition row_matches :: "string list \<Rightarrow> rdb_value list \<Rightarrow> ValuesBucket \<Rightarrow> bool" where
  "row_matches cols args r \<longleftrightarrow> map (map_of r) cols = map Some args"

definition row_update :: "ValuesBucket \<Rightarrow> ValuesBucket \<Rightarrow> ValuesBucket" where
  "row_update v r = map (\<lambda>(c, x). (c, case map_of v c of None \<Rightarrow> x | Some y \<Rightarrow> y)) r"

text \<open>
  Tables and their primary keys (the \<open>CREATE TABLE\<close> statements): keys are unique, and where the
  key is an integer the rows come in its order.
\<close>

definition key_col :: "string \<Rightarrow> string" where
  "key_col t = (if t = TRUST_DEVICE_TABLE then ''deviceId''
     else if t = ACCESS_CONTROL_TABLE then ''accessControlId''
     else if t = ACCESSER_TABLE then ''accesserId''
     else if t = ACCESSEE_TABLE then ''accesseeId'' else ''saId'')"

definition row_key :: "string \<Rightarrow> ValuesBucket \<Rightarrow> rdb_value option" where
  "row_key t r = map_of r (key_col t)"

definition table_ok :: "string \<Rightarrow> ValuesBucket list \<Rightarrow> bool" where
  "table_ok t rows \<longleftrightarrow> distinct (map (row_key t) rows) \<and>
     (t \<noteq> TRUST_DEVICE_TABLE \<longrightarrow> sorted (map (\<lambda>r. row_int r (key_col t)) rows))"

definition keeps_keys ::
  "string \<Rightarrow> ValuesBucket \<Rightarrow> string list \<Rightarrow> rdb_value list \<Rightarrow> ValuesBucket list \<Rightarrow> bool" where
  "keeps_keys t v cols args rows \<longleftrightarrow>
     (\<forall>r\<in>set rows. row_matches cols args r \<longrightarrow> row_key t v \<in> {None, row_key t r})"

type_synonym tables = "string \<Rightarrow> ValuesBucket list"

definition inserted :: "string \<Rightarrow> ValuesBucket \<Rightarrow> tables \<Rightarrow> tables \<Rightarrow> bool" where
  "inserted t v d d' \<longleftrightarrow> (\<exists>xs ys. d t = xs @ ys \<and> d' = d(t := xs @ v # ys))"

definition updated ::
  "string \<Rightarrow> ValuesBucket \<Rightarrow> string list \<Rightarrow> rdb_value list \<Rightarrow> tables \<Rightarrow> tables" where
  "updated t v cols args d =
     d(t := map (\<lambda>r. if row_matches cols args r then row_update v r else r) (d t))"

definition deleted :: "string \<Rightarrow> string list \<Rightarrow> rdb_value list \<Rightarrow> tables \<Rightarrow> tables" where
  "deleted t cols args d = d(t := filter (\<lambda>r. \<not> row_matches cols args r) (d t))"

definition selected ::
  "string \<Rightarrow> string list \<Rightarrow> rdb_value list \<Rightarrow> tables \<Rightarrow> ValuesBucket list" where
  "selected t cols args d = filter (row_matches cols args) (d t)"

locale rdb_store =
  fixes rs :: "'r RdbStore" and tab :: "'r \<Rightarrow> tables"
  assumes insert: "rdb_Insert rs t v s = ((ret, n), s') \<Longrightarrow>
      (if ret = E_OK then inserted t v (tab s) (tab s') else tab s' = tab s)"
    and update: "rdb_Update rs t v cols args s = ((ret, n), s') \<Longrightarrow>
      (if ret = E_OK then keeps_keys t v cols args (tab s t) \<longrightarrow> tab s' = updated t v cols args (tab s)
       else tab s' = tab s)"
    and delete: "rdb_Delete rs t cols args s = ((ret, n), s') \<Longrightarrow>
      tab s' = (if ret = E_OK then deleted t cols args (tab s) else tab s)"
    and query: "rdb_QueryByStep rs (Select t cols) args s = Some r \<Longrightarrow>
      rs_status r = E_SQLITE_CORRUPT \<or>
      rs_status r = E_OK \<and> rs_rows r = selected t cols args (tab s)"
    and restore: "rdb_Restore rs s = (ret, s') \<Longrightarrow> tab s' = tab s \<and>
      (ret = E_OK \<longrightarrow> (\<forall>q args r. rdb_QueryByStep rs q args s' = Some r \<longrightarrow> rs_status r = E_OK))"
    and keys: "t \<in> set TABLES \<Longrightarrow> table_ok t (tab s t)"

text \<open>The contract of the adapter, over the tables \<open>db\<close> it shows.\<close>

locale rdb_adapter =
  fixes ir :: "'a IRdbAdapter" and db :: "'a \<Rightarrow> tables"
  assumes put: "ir_Put ir n t v a = ((ret, n'), a') \<Longrightarrow>
      (if ret = DP_SUCCESS then inserted t v (db a) (db a') else db a' = db a)"
    and update: "ir_Update ir n t v cols args a = ((ret, n'), a') \<Longrightarrow>
      (if ret = DP_SUCCESS then keeps_keys t v cols args (db a t) \<longrightarrow> db a' = updated t v cols args (db a)
       else db a' = db a)"
    and delete: "ir_Delete ir n t cols args a = ((ret, n'), a') \<Longrightarrow>
      db a' = (if ret = DP_SUCCESS then deleted t cols args (db a) else db a)"
    and get: "ir_Get ir q args a = (r, a') \<Longrightarrow> db a' = db a"
    and rows: "ir_Get ir (Select t cols) args a = (Some x, a') \<Longrightarrow>
      rs_status x = E_OK \<and> rs_rows x = selected t cols args (db a)"
    and keys: "t \<in> set TABLES \<Longrightarrow> table_ok t (db a t)"

text \<open>A store and an adapter whose queries do not fail, in the states \<open>live\<close>.\<close>

locale rdb_reads = rdb_adapter ir db for ir :: "'a IRdbAdapter" and db :: "'a \<Rightarrow> tables" +
  fixes live :: "'a \<Rightarrow> bool"
  assumes live_get: "live a \<Longrightarrow> \<exists>x a'. ir_Get ir q args a = (Some x, a') \<and> live a'"
    and live_put: "live a \<Longrightarrow> live (snd (ir_Put ir n t v a))"
    and live_update: "live a \<Longrightarrow> live (snd (ir_Update ir n t v cols args a))"
    and live_delete: "live a \<Longrightarrow> live (snd (ir_Delete ir n t cols args a))"

locale rdb_store_reads = rdb_store rs tab for rs :: "'r RdbStore" and tab :: "'r \<Rightarrow> tables" +
  assumes query_ok: "\<exists>r. rdb_QueryByStep rs q args s = Some r \<and> rs_status r = E_OK"

definition rdb_db :: "('r \<Rightarrow> tables) \<Rightarrow> 'r RdbAdapter \<Rightarrow> tables" where
  "rdb_db tab a = (case ra_store a of None \<Rightarrow> (\<lambda>_. []) | Some s \<Rightarrow> tab s)"

lemma table_ok_Nil [simp]: "table_ok t []"
  by (simp add: table_ok_def)

lemma with_restore_keeps:
  assumes "\<And>s ret n s'. f s = ((ret, n), s') \<Longrightarrow>
      (if ret = E_OK then P (tab s) (tab s') else tab s' = tab s)"
    and "\<And>s ret s'. rdb_Restore rs s = (ret, s') \<Longrightarrow> tab s' = tab s"
    and "fail \<noteq> DP_SUCCESS" "with_restore rs f fail s = ((ret, n), s')"
  shows "if ret = DP_SUCCESS then P (tab s) (tab s') else tab s' = tab s"
proof -
  obtain r1 n1 s1 where 1: "f s = ((r1, n1), s1)" by (metis prod.exhaust)
  show ?thesis
  proof (cases "r1 = E_SQLITE_CORRUPT")
    case True
    obtain r2 s2 where 2: "rdb_Restore rs s1 = (r2, s2)" by force
    obtain r3 n3 s3 where 3: "f s2 = ((r3, n3), s3)" by (metis prod.exhaust)
    have "tab s1 = tab s" using assms(1) [OF 1] True by simp
    with assms(2) [OF 2] have "tab s2 = tab s" by simp
    with assms(1) [OF 3] assms(3,4) 1 2 3 True show ?thesis
      by (auto simp: with_restore_def \<open>tab s1 = tab s\<close> split: if_splits)
  next
    case False
    with assms(1) [OF 1] assms(3,4) 1 show ?thesis
      by (auto simp: with_restore_def split: if_splits)
  qed
qed

context rdb_store
begin

lemma with_restore_tab:
  assumes "\<And>s ret n s'. f s = ((ret, n), s') \<Longrightarrow>
      (if ret = E_OK then P (tab s) (tab s') else tab s' = tab s)"
    and "fail \<noteq> DP_SUCCESS" "with_restore rs f fail s = ((ret, n), s')"
  shows "if ret = DP_SUCCESS then P (tab s) (tab s') else tab s' = tab s"
  using assms(2,3) by (rule with_restore_keeps [rotated 2]) (fact assms(1), simp add: restore)

lemma restored_query:
  assumes "rdb_Restore rs s = (E_OK, s')" "rdb_QueryByStep rs (Select t cols) args s' = Some x"
  shows "rs_rows x = selected t cols args (tab s)"
  using restore [OF assms(1)] query [OF assms(2)] assms(2) by fastforce

lemma put_tab:
  assumes "with_restore rs (rdb_Insert rs t v) DP_RDBADAPTER_PUT_FAIL s = ((ret, n), s')"
  shows "if ret = DP_SUCCESS then inserted t v (tab s) (tab s') else tab s' = tab s"
  using assms by (rule with_restore_tab [rotated 2]) (auto dest: insert)

lemma update_tab:
  assumes "with_restore rs (rdb_Update rs t v cols args) DP_RDBADAPTER_UPDATE_FAIL s = ((ret, n), s')"
  shows "if ret = DP_SUCCESS
    then keeps_keys t v cols args (tab s t) \<longrightarrow> tab s' = updated t v cols args (tab s)
    else tab s' = tab s"
  using assms
  by (rule with_restore_tab [rotated 2, where
        P = "\<lambda>d d'. keeps_keys t v cols args (d t) \<longrightarrow> d' = updated t v cols args d"])
    (auto dest: update)

lemma delete_tab:
  assumes "with_restore rs (rdb_Delete rs t cols args) DP_RDBADAPTER_DELETE_FAIL s = ((ret, n), s')"
  shows "if ret = DP_SUCCESS then tab s' = deleted t cols args (tab s) else tab s' = tab s"
  using assms
  by (rule with_restore_tab [rotated 2, where P = "\<lambda>d d'. d' = deleted t cols args d"])
    (auto dest: delete)

end

sublocale rdb_store \<subseteq> adapter: rdb_adapter "RdbAdapter_ops rs init" "rdb_db tab"
proof
  fix n t v ret n' and a a' :: "'r RdbAdapter"
  assume "ir_Put (RdbAdapter_ops rs init) n t v a = ((ret, n'), a')"
  then show "if ret = DP_SUCCESS then inserted t v (rdb_db tab a) (rdb_db tab a')
      else rdb_db tab a' = rdb_db tab a"
    by (auto simp: RdbAdapter_ops_def RdbAdapter_Put_def rdb_db_def Let_def
        split: option.splits prod.splits if_splits dest!: put_tab)
next
  fix n t v cols args ret n' and a a' :: "'r RdbAdapter"
  assume "ir_Update (RdbAdapter_ops rs init) n t v cols args a = ((ret, n'), a')"
  then show "if ret = DP_SUCCESS then keeps_keys t v cols args (rdb_db tab a t) \<longrightarrow>
        rdb_db tab a' = updated t v cols args (rdb_db tab a)
      else rdb_db tab a' = rdb_db tab a"
    by (auto simp: RdbAdapter_ops_def RdbAdapter_Update_def rdb_db_def Let_def
        split: option.splits prod.splits if_splits dest!: update_tab)
next
  fix n t cols args ret n' and a a' :: "'r RdbAdapter"
  assume "ir_Delete (RdbAdapter_ops rs init) n t cols args a = ((ret, n'), a')"
  then show "rdb_db tab a' = (if ret = DP_SUCCESS then deleted t cols args (rdb_db tab a)
      else rdb_db tab a)"
    by (auto simp: RdbAdapter_ops_def RdbAdapter_Delete_def rdb_db_def Let_def
        split: option.splits prod.splits if_splits dest!: delete_tab)
next
  fix q args r and a a' :: "'r RdbAdapter"
  assume "ir_Get (RdbAdapter_ops rs init) q args a = (r, a')"
  then show "rdb_db tab a' = rdb_db tab a"
    by (auto simp: RdbAdapter_ops_def RdbAdapter_Get_def rdb_db_def Let_def
        split: option.splits prod.splits if_splits dest: restore)
next
  fix t cols args x and a a' :: "'r RdbAdapter"
  assume "ir_Get (RdbAdapter_ops rs init) (Select t cols) args a = (Some x, a')"
  then show "rs_status x = E_OK \<and> rs_rows x = selected t cols args (rdb_db tab a)"
    by (auto simp: RdbAdapter_ops_def RdbAdapter_Get_def rdb_db_def Let_def
        split: option.splits prod.splits if_splits dest: query restore restored_query)
next
  fix t and a :: "'r RdbAdapter"
  assume "t \<in> set TABLES"
  then show "table_ok t (rdb_db tab a t)"
    by (simp add: rdb_db_def keys split: option.split)
qed

sublocale rdb_store_reads \<subseteq> reads: rdb_reads "RdbAdapter_ops rs init" "rdb_db tab"
  "\<lambda>a. ra_store a \<noteq> None"
proof
  fix q args and a :: "'r RdbAdapter"
  assume "ra_store a \<noteq> None"
  then obtain s where "ra_store a = Some s" by blast
  moreover obtain r where "rdb_QueryByStep rs q args s = Some r" "rs_status r = E_OK"
    using query_ok by blast
  ultimately show "\<exists>x a'. ir_Get (RdbAdapter_ops rs init) q args a = (Some x, a') \<and> ra_store a' \<noteq> None"
    by (simp add: RdbAdapter_ops_def RdbAdapter_Get_def)
qed (auto simp: RdbAdapter_ops_def RdbAdapter_Put_def RdbAdapter_Update_def RdbAdapter_Delete_def
      Let_def split: option.splits prod.splits)

section \<open>A store in memory\<close>

text \<open>
  An executable store that has these laws: the tables as lists, where a table that breaks them
  counts as empty and an operation that would break them fails.
\<close>

type_synonym mem_rdb = "(string, ValuesBucket list) umap"

definition mem_tab :: "mem_rdb \<Rightarrow> tables" where
  "mem_tab s t = (case map_of s t of None \<Rightarrow> []
     | Some rows \<Rightarrow> if t \<notin> set TABLES \<or> table_ok t rows then rows else [])"

definition mem_store_rows :: "string \<Rightarrow> ValuesBucket list \<Rightarrow> mem_rdb \<Rightarrow> (rdb_ret \<times> int) \<times> mem_rdb" where
  "mem_store_rows t rows s =
     (if t \<in> set TABLES \<longrightarrow> table_ok t rows then ((E_OK, int (length rows)), AList.update t rows s)
      else ((E_RDB_ERROR, -1), s))"

definition mem_rdb :: "mem_rdb RdbStore" where
  "mem_rdb =
     \<lparr>rdb_Insert = (\<lambda>t v s.
        let before = (\<lambda>r. t = TRUST_DEVICE_TABLE \<or> row_int r (key_col t) < row_int v (key_col t)) in
        mem_store_rows t (takeWhile before (mem_tab s t) @ v # dropWhile before (mem_tab s t)) s),
      rdb_Update = (\<lambda>t v cols args s. mem_store_rows t (updated t v cols args (mem_tab s) t) s),
      rdb_Delete = (\<lambda>t cols args s. mem_store_rows t (deleted t cols args (mem_tab s) t) s),
      rdb_QueryByStep = (\<lambda>q args s. Some \<lparr>rs_status = E_OK, rs_rows = (case q of Select t cols \<Rightarrow> selected t cols args (mem_tab s) | _ \<Rightarrow> [])\<rparr>),
      rdb_Restore = (\<lambda>s. (E_OK, s)),
      rdb_ExecuteSql = (\<lambda>_ s. (E_OK, s))\<rparr>"

lemma mem_store_rows_tab:
  "mem_store_rows t rows s = ((ret, n), s') \<Longrightarrow>
   mem_tab s' = (if ret = E_OK then (mem_tab s)(t := rows) else mem_tab s)"
  by (auto simp: mem_store_rows_def mem_tab_def fun_eq_iff split: if_splits)

lemma inserted_takeWhile:
  "d' = d(t := takeWhile P (d t) @ v # dropWhile P (d t)) \<Longrightarrow> inserted t v d d'"
  unfolding inserted_def by (metis takeWhile_dropWhile_id)

interpretation mem: rdb_store_reads mem_rdb mem_tab
proof
  fix t v s ret n s'
  assume "rdb_Insert mem_rdb t v s = ((ret, n), s')"
  then show "if ret = E_OK then inserted t v (mem_tab s) (mem_tab s') else mem_tab s' = mem_tab s"
    by (auto simp: mem_rdb_def Let_def dest!: mem_store_rows_tab intro: inserted_takeWhile)
next
  fix t v cols args s ret n s'
  assume "rdb_Update mem_rdb t v cols args s = ((ret, n), s')"
  then show "if ret = E_OK
      then keeps_keys t v cols args (mem_tab s t) \<longrightarrow> mem_tab s' = updated t v cols args (mem_tab s)
      else mem_tab s' = mem_tab s"
    by (auto simp: mem_rdb_def updated_def dest!: mem_store_rows_tab)
next
  fix t cols args s ret n s'
  assume "rdb_Delete mem_rdb t cols args s = ((ret, n), s')"
  then show "mem_tab s' = (if ret = E_OK then deleted t cols args (mem_tab s) else mem_tab s)"
    by (auto simp: mem_rdb_def deleted_def dest!: mem_store_rows_tab)
next
  fix t s
  assume "t \<in> set TABLES"
  then show "table_ok t (mem_tab s t)" by (simp add: mem_tab_def split: option.split)
qed (auto simp: mem_rdb_def)

end
