(* ===== verification/SqlText.thy ===== *)
theory SqlText
  imports Main
begin

text \<open>
  The statements of \<open>common/src/constants/distributed_device_profile_constants.cpp\<close> that create the
  tables and indexes of the access control lists and that upgrade them, as the source has them.
\<close>

definition CREATE_TURST_DEVICE_TABLE_SQL :: string where
  "CREATE_TURST_DEVICE_TABLE_SQL =
     ''CREATE TABLE IF NOT EXISTS trust_device_table('' @
     ''    deviceId        TEXT PRIMARY KEY,    deviceIdType    INTEGER,'' @
     ''    deviceIdHash    TEXT,    status          INTEGER);''"

definition CREATE_ACCESS_CONTROL_TABLE_SQL :: string where
  "CREATE_ACCESS_CONTROL_TABLE_SQL =
     ''CREATE TABLE IF NOT EXISTS access_control_table('' @
     ''    accessControlId    INTEGER PRIMARY KEY,    accesserId         INTEGER,'' @
     ''    accesseeId         INTEGER,    trustDeviceId      TEXT,'' @
     ''    sessionKey         TEXT,    bindType           INTEGER,'' @
     ''    authenticationType INTEGER,    deviceIdType       INTEGER,'' @
     ''    deviceIdHash       TEXT,    status             INTEGER,'' @
     ''    validPeriod        INTEGER,    lastAuthTime       INTEGER,'' @
     ''    bindLevel          INTEGER,    extraData          TEXT);''"

definition CREATE_ACCESSER_TABLE_SQL :: string where
  "CREATE_ACCESSER_TABLE_SQL =
     ''CREATE TABLE IF NOT EXISTS accesser_table('' @
     ''    accesserId               INTEGER PRIMARY KEY,'' @
     ''    accesserDeviceId         TEXT,    accesserUserId           INTEGER,'' @
     ''    accesserAccountId        TEXT,    accesserTokenId          INTEGER,'' @
     ''    accesserBundleName       TEXT,    accesserHapSignature     TEXT,'' @
     ''    accesserBindLevel        INTEGER,    accesserDeviceName       TEXT,'' @
     ''    accesserServiceName      TEXT,    accesserCredentialId     INTEGER,'' @
     ''    accesserCredentialIdStr  TEXT,    accesserStatus           INTEGER,'' @
     ''    accesserSessionKeyId     INTEGER,    accesserSKTimeStamp      INTEGER,'' @
     ''    accesserExtraData        TEXT);''"

definition CREATE_ACCESSEE_TABLE_SQL :: string where
  "CREATE_ACCESSEE_TABLE_SQL =
     ''CREATE TABLE IF NOT EXISTS accessee_table('' @
     ''    accesseeId               INTEGER PRIMARY KEY,'' @
     ''    accesseeDeviceId         TEXT,    accesseeUserId           INTEGER,'' @
     ''    accesseeAccountId        TEXT,    accesseeTokenId          INTEGER,'' @
     ''    accesseeBundleName       TEXT,    accesseeHapSignature     TEXT,'' @
     ''    accesseeBindLevel        INTEGER,    accesseeDeviceName       TEXT,'' @
     ''    accesseeServiceName      TEXT,    accesseeCredentialId     INTEGER,'' @
     ''    accesseeCredentialIdStr  TEXT,    accesseeStatus           INTEGER,'' @
     ''    accesseeSessionKeyId     INTEGER,    accesseeSKTimeStamp      INTEGER,'' @
     ''    accesseeExtraData        TEXT);''"

definition CREATE_TURST_DEVICE_TABLE_UNIQUE_INDEX_SQL :: string where
  "CREATE_TURST_DEVICE_TABLE_UNIQUE_INDEX_SQL =
     ''CREATE UNIQUE INDEX if not exists unique_trust_device_table ON trust_device_table ('' @
     ''    deviceId,    deviceIdType,    deviceIdHash,    status);''"

definition CREATE_ACCESS_CONTROL_TABLE_UNIQUE_INDEX_SQL :: string where
  "CREATE_ACCESS_CONTROL_TABLE_UNIQUE_INDEX_SQL =
     ''CREATE UNIQUE INDEX if not exists unique_access_control_table ON access_control_table ('' @
     ''    accesserId,    accesseeId,    trustDeviceId,    sessionKey,    bindType,'' @
     ''    authenticationType,    deviceIdType,    deviceIdHash,    validPeriod,'' @
     ''    lastAuthTime,    bindLevel);''"

definition CREATE_ACCESSER_TABLE_UNIQUE_INDEX_SQL :: string where
  "CREATE_ACCESSER_TABLE_UNIQUE_INDEX_SQL =
     ''CREATE UNIQUE INDEX if not exists unique_accesser_table ON accesser_table ('' @
     ''    accesserDeviceId,    accesserUserId,    accesserAccountId,'' @
     ''    accesserTokenId,    accesserBundleName,    accesserHapSignature,'' @
     ''    accesserBindLevel,    accesserDeviceName,    accesserServiceName,'' @
     ''    accesserCredentialIdStr,    accesserStatus,    accesserSessionKeyId);''"

definition CREATE_ACCESSEE_TABLE_UNIQUE_INDEX_SQL :: string where
  "CREATE_ACCESSEE_TABLE_UNIQUE_INDEX_SQL =
     ''CREATE UNIQUE INDEX if not exists unique_accessee_table ON accessee_table ('' @
     ''    accesseeDeviceId,    accesseeUserId,    accesseeAccountId,'' @
     ''    accesseeTokenId,    accesseeBundleName,    accesseeHapSignature,'' @
     ''    accesseeBindLevel,    accesseeDeviceName,    accesseeServiceName,'' @
     ''    accesseeCredentialIdStr,    accesseeStatus,    accesseeSessionKeyId);''"

definition DROP_OLD_UNIQUE_INDEX_ON_ACER :: string where
  "DROP_OLD_UNIQUE_INDEX_ON_ACER =
     ''DROP INDEX unique_accesser_table''"

definition DROP_OLD_UNIQUE_INDEX_ON_ACEE :: string where
  "DROP_OLD_UNIQUE_INDEX_ON_ACEE =
     ''DROP INDEX unique_accessee_table''"

definition ALTER_TABLE_ACCESS_CONTROL_ADD_COLUMN_EXTRA_DATA :: string where
  "ALTER_TABLE_ACCESS_CONTROL_ADD_COLUMN_EXTRA_DATA =
     ''ALTER TABLE access_control_table ADD COLUMN extraData TEXT DEFAULT '' @
     [CHR 0x27, CHR 0x27]"

definition ALTER_TABLE_ACER_ADD_COLUMN_ACER_DEVICE_NAME :: string where
  "ALTER_TABLE_ACER_ADD_COLUMN_ACER_DEVICE_NAME =
     ''ALTER TABLE accesser_table ADD COLUMN accesserDeviceName TEXT DEFAULT '' @
     [CHR 0x27, CHR 0x27]"

definition ALTER_TABLE_ACER_ADD_COLUMN_ACER_SERVICE_NAME :: string where
  "ALTER_TABLE_ACER_ADD_COLUMN_ACER_SERVICE_NAME =
     ''ALTER TABLE accesser_table ADD COLUMN accesserServiceName TEXT DEFAULT '' @
     [CHR 0x27, CHR 0x27]"

definition ALTER_TABLE_ACER_ADD_COLUMN_ACER_CREDENTIAL_ID :: string where
  "ALTER_TABLE_ACER_ADD_COLUMN_ACER_CREDENTIAL_ID =
     ''ALTER TABLE accesser_table ADD COLUMN accesserCredentialId INTERGER DEFAULT -1''"

definition ALTER_TABLE_ACER_ADD_COLUMN_ACER_CREDENTIAL_ID_STR :: string where
  "ALTER_TABLE_ACER_ADD_COLUMN_ACER_CREDENTIAL_ID_STR =
     ''ALTER TABLE accesser_table ADD COLUMN accesserCredentialIdStr TEXT DEFAULT '' @
     [CHR 0x27, CHR 0x27]"

definition ALTER_TABLE_ACER_ADD_COLUMN_ACER_STATUS :: string where
  "ALTER_TABLE_ACER_ADD_COLUMN_ACER_STATUS =
     ''ALTER TABLE accesser_table ADD COLUMN accesserStatus INTERGER DEFAULT -1''"

definition ALTER_TABLE_ACER_ADD_COLUMN_ACER_SESSION_KEY_ID :: string where
  "ALTER_TABLE_ACER_ADD_COLUMN_ACER_SESSION_KEY_ID =
     ''ALTER TABLE accesser_table ADD COLUMN accesserSessionKeyId INTERGER DEFAULT -1''"

definition ALTER_TABLE_ACER_ADD_COLUMN_ACER_SESSION_KEY_TIMESTAMP :: string where
  "ALTER_TABLE_ACER_ADD_COLUMN_ACER_SESSION_KEY_TIMESTAMP =
     ''ALTER TABLE accesser_table ADD COLUMN accesserSKTimeStamp INTERGER DEFAULT -1''"

definition ALTER_TABLE_ACER_ADD_COLUMN_ACER_EXTRA_DATA :: string where
  "ALTER_TABLE_ACER_ADD_COLUMN_ACER_EXTRA_DATA =
     ''ALTER TABLE accesser_table ADD COLUMN accesserExtraData TEXT DEFAULT '' @
     [CHR 0x27, CHR 0x27]"

definition ALTER_TABLE_ACEE_ADD_COLUMN_ACEE_DEVICE_NAME :: string where
  "ALTER_TABLE_ACEE_ADD_COLUMN_ACEE_DEVICE_NAME =
     ''ALTER TABLE accessee_table ADD COLUMN accesseeDeviceName TEXT DEFAULT '' @
     [CHR 0x27, CHR 0x27]"

definition ALTER_TABLE_ACEE_ADD_COLUMN_ACEE_SERVICE_NAME :: string where
  "ALTER_TABLE_ACEE_ADD_COLUMN_ACEE_SERVICE_NAME =
     ''ALTER TABLE accessee_table ADD COLUMN accesseeServiceName TEXT DEFAULT '' @
     [CHR 0x27, CHR 0x27]"

definition ALTER_TABLE_ACEE_ADD_COLUMN_ACEE_CREDENTIAL_ID :: string where
  "ALTER_TABLE_ACEE_ADD_COLUMN_ACEE_CREDENTIAL_ID =
     ''ALTER TABLE accessee_table ADD COLUMN accesseeCredentialId INTERGER DEFAULT -1''"

definition ALTER_TABLE_ACEE_ADD_COLUMN_ACEE_CREDENTIAL_ID_STR :: string where
  "ALTER_TABLE_ACEE_ADD_COLUMN_ACEE_CREDENTIAL_ID_STR =
     ''ALTER TABLE accessee_table ADD COLUMN accesseeCredentialIdStr TEXT DEFAULT '' @
     [CHR 0x27, CHR 0x27]"

definition ALTER_TABLE_ACEE_ADD_COLUMN_ACEE_STATUS :: string where
  "ALTER_TABLE_ACEE_ADD_COLUMN_ACEE_STATUS =
     ''ALTER TABLE accessee_table ADD COLUMN accesseeStatus INTERGER DEFAULT -1''"

definition ALTER_TABLE_ACEE_ADD_COLUMN_ACEE_SESSION_KEY_ID :: string where
  "ALTER_TABLE_ACEE_ADD_COLUMN_ACEE_SESSION_KEY_ID =
     ''ALTER TABLE accessee_table ADD COLUMN accesseeSessionKeyId INTERGER DEFAULT -1''"

definition ALTER_TABLE_ACEE_ADD_COLUMN_ACEE_SESSION_KEY_TIMESTAMP :: string where
  "ALTER_TABLE_ACEE_ADD_COLUMN_ACEE_SESSION_KEY_TIMESTAMP =
     ''ALTER TABLE accessee_table ADD COLUMN accesseeSKTimeStamp INTERGER DEFAULT -1''"

definition ALTER_TABLE_ACEE_ADD_COLUMN_ACEE_EXTRA_DATA :: string where
  "ALTER_TABLE_ACEE_ADD_COLUMN_ACEE_EXTRA_DATA =
     ''ALTER TABLE accessee_table ADD COLUMN accesseeExtraData TEXT DEFAULT '' @
     [CHR 0x27, CHR 0x27]"

end
