(* ===== verification/StateLogic.thy ===== *)
theory StateLogic
  imports Main "HOL-Library.State_Monad"
begin

text \<open>
  Weakest preconditions for the state monad, in which the components that thread a state through
  many calls are written: \<open>wp f Q s\<close> says that running \<open>f\<close> from \<open>s\<close> ends in a result and a state
  of which \<open>Q\<close> holds. The rules push \<open>wp\<close> through the monad's operations; an operation of a
  component gets a rule of its own.
\<close>

abbreviation return :: "'a \<Rightarrow> ('s, 'a) state" where
  "return \<equiv> State_Monad.return"

definition wp :: "('s, 'a) state \<Rightarrow> ('a \<Rightarrow> 's \<Rightarrow> bool) \<Rightarrow> 's \<Rightarrow> bool" where
  "wp f Q s \<longleftrightarrow> (case run_state f s of (x, s') \<Rightarrow> Q x s')"

lemma wp_State [simp]: "wp (State f) Q s \<longleftrightarrow> (case f s of (x, s') \<Rightarrow> Q x s')"
  by (simp add: wp_def)

lemma wp_return [simp]: "wp (return x) Q = Q x"
  by (simp add: wp_def fun_eq_iff)

lemma wp_bind [simp]: "wp (f \<bind> g) Q = wp f (\<lambda>x. wp (g x) Q)"
  by (simp add: wp_def fun_eq_iff split: prod.splits)

lemma wp_if: "wp (if b then f else g) Q s \<longleftrightarrow> (b \<longrightarrow> wp f Q s) \<and> (\<not> b \<longrightarrow> wp g Q s)"
  by simp

lemma wp_mono: "wp f Q s \<Longrightarrow> (\<And>x s'. Q x s' \<Longrightarrow> Q' x s') \<Longrightarrow> wp f Q' s"
  by (auto simp: wp_def)

lemma wp_run: "run_state f s = (x, s') \<Longrightarrow> wp f Q s \<Longrightarrow> Q x s'"
  by (simp add: wp_def)

lemma wp_runI: "(\<And>x s'. run_state f s = (x, s') \<Longrightarrow> Q x s') \<Longrightarrow> wp f Q s"
  by (auto simp: wp_def split: prod.split)

lemma wp_iff: "wp f Q s \<longleftrightarrow> (\<forall>x s'. run_state f s = (x, s') \<longrightarrow> Q x s')"
  by (auto simp: wp_def split: prod.split)

lemma wp_result: "wp f Q s \<longleftrightarrow> Q (fst (run_state f s)) (snd (run_state f s))"
  by (simp add: wp_def split: prod.split)

end
