(* ===== verification/TrustManager.thy ===== *)
theory TrustManager
  imports RdbStore SqlText StateLogic SubscribeProfile
begin

text \<open>
  \<open>TrustProfileManager\<close> (\<open>trustprofilemanager/trust_profile_manager.cpp\<close>): the access control lists,
  their accessers and accessees, and the trusted devices, in four tables of the relational store.
  An operation runs in the state monad over the manager's state: the adapter (\<open>None\<close> is a null
  pointer), the table of subscriptions with the log of calls to listeners, and the log of calls to
  the device manager. What the repository does not hold is an argument, collected in \<open>TrustEnv\<close>: the
  adapter's operations, the values that cJSON reads from a text, the service infos. An operation
  that fills a vector or an object by reference returns it beside its code. The mutexes make each
  operation of the tables atomic; the notifications follow outside the lock, here in sequence.
\<close>

section \<open>State and environment\<close>

datatype json_value = JString string | JInteger int | JOther

text \<open>
  \<open>te_json text name\<close> is the member \<open>name\<close> of the object \<open>text\<close>, \<open>None\<close> when the text is not an
  object or has no such member; \<open>JInteger\<close> is a number that is an integer of 64 bits.
\<close>

record ServiceRow =
  sv_udid :: string
  sv_userId :: int
  sv_extraData :: string
  sv_serviceId :: int

record 'a TrustEnv =
  te_rdb :: "'a IRdbAdapter"
  te_new :: 'a
  te_json :: "string \<Rightarrow> string \<Rightarrow> json_value option"
  te_services :: "ServiceRow list"

record 'a TrustManager =
  tm_rdb :: "'a option"
  tm_isInited :: bool
  tm_subscribe :: SubscribeManager
  tm_calls :: "delivery list"
  tm_aclAdded :: "(int \<times> string \<times> int) list"

abbreviation "ROWCOUNT_INIT \<equiv> (-1 :: int)"
abbreviation "STATUS_INIT \<equiv> (0 :: int)"
abbreviation "STATUS_INACTIVE \<equiv> (0 :: int)"
abbreviation "STATUS_ACTIVE \<equiv> (1 :: int)"
abbreviation "BIND_SAME_ACCOUNT \<equiv> (1 :: int)"
abbreviation "BIND_LEVEL_USER \<equiv> (1 :: int)"
abbreviation "DEFAULT_USER_ID_EXTRA \<equiv> (0 :: int)"

section \<open>Access to the store\<close>

definition rowCount :: "ResultSet \<Rightarrow> int" where
  "rowCount rs = (if rs_status rs = E_OK then int (length (rs_rows rs)) else ROWCOUNT_INIT)"

definition first_row :: "ResultSet \<Rightarrow> ValuesBucket option" where
  "first_row rs = (case rs_rows rs of [] \<Rightarrow> None | r # _ \<Rightarrow> Some r)"

definition GetResultSet ::
  "'a TrustEnv \<Rightarrow> sql_query \<Rightarrow> rdb_value list \<Rightarrow> ('a TrustManager, ResultSet option) state" where
  "GetResultSet env sql condition = State (\<lambda>m.
     if sql_text sql = [] \<or> length (sql_text sql) > MAX_STRING_LEN then (None, m)
     else if length condition > MAX_PARAM_SIZE then (None, m)
     else case tm_rdb m of
       None \<Rightarrow> (None, m)
     | Some a \<Rightarrow> let (r, a) = ir_Get (te_rdb env) sql condition a in (r, m\<lparr>tm_rdb := Some a\<rparr>))"

text \<open>The calls of the adapter under the lock; \<open>None\<close> is a null adapter.\<close>

definition rdb_call ::
  "('a \<Rightarrow> (dp_ret \<times> int) \<times> 'a) \<Rightarrow> ('a TrustManager, dp_ret option) state" where
  "rdb_call f = State (\<lambda>m. case tm_rdb m of
       None \<Rightarrow> (None, m)
     | Some a \<Rightarrow> let ((ret, _), a) = f a in (Some ret, m\<lparr>tm_rdb := Some a\<rparr>))"

definition rdb_code :: "dp_ret \<Rightarrow> dp_ret option \<Rightarrow> dp_ret" where
  "rdb_code fail ret = (case ret of None \<Rightarrow> DP_GET_RDBSTORE_FAIL
     | Some r \<Rightarrow> if r \<noteq> DP_SUCCESS then fail else DP_SUCCESS)"

definition notify ::
  "(SubscribeManager \<Rightarrow> dp_ret \<times> delivery list) \<Rightarrow> ('a TrustManager, dp_ret) state" where
  "notify f = State (\<lambda>m. let (ret, calls) = f (tm_subscribe m)
                         in (ret, m\<lparr>tm_calls := tm_calls m @ calls\<rparr>))"

abbreviation "SELECT_TRUST_DEVICE_TABLE \<equiv> Select TRUST_DEVICE_TABLE []"
abbreviation "SELECT_TRUST_DEVICE_TABLE_WHERE_DEVICEID \<equiv> Select TRUST_DEVICE_TABLE [''deviceId'']"
abbreviation "SELECT_ACCESS_CONTROL_TABLE \<equiv> Select ACCESS_CONTROL_TABLE []"
abbreviation "SELECT_ACL_WHERE cols \<equiv> Select ACCESS_CONTROL_TABLE cols"
abbreviation "SELECT_ACCESSER_WHERE cols \<equiv> Select ACCESSER_TABLE cols"
abbreviation "SELECT_ACCESSEE_WHERE cols \<equiv> Select ACCESSEE_TABLE cols"

definition accesser_all :: "string list" where
  "accesser_all =
     [''accesserDeviceId'', ''accesserUserId'', ''accesserAccountId'', ''accesserTokenId'',
      ''accesserBundleName'', ''accesserHapSignature'', ''accesserBindLevel'',
      ''accesserDeviceName'', ''accesserServiceName'', ''accesserCredentialIdStr'',
      ''accesserStatus'', ''accesserSessionKeyId'']"

definition accessee_all :: "string list" where
  "accessee_all =
     [''accesseeDeviceId'', ''accesseeUserId'', ''accesseeAccountId'', ''accesseeTokenId'',
      ''accesseeBundleName'', ''accesseeHapSignature'', ''accesseeBindLevel'',
      ''accesseeDeviceName'', ''accesseeServiceName'', ''accesseeCredentialIdStr'',
      ''accesseeStatus'', ''accesseeSessionKeyId'']"

definition accesser_args :: "Accesser \<Rightarrow> rdb_value list" where
  "accesser_args a =
     [RStr (ar_deviceId a), RInt (ar_userId a), RStr (ar_accountId a), RInt (ar_tokenId a),
      RStr (ar_bundleName a), RStr (ar_hapSignature a), RInt (ar_bindLevel a),
      RStr (ar_deviceName a), RStr (ar_serviceName a), RStr (ar_credentialIdStr a),
      RInt (ar_status a), RInt (ar_sessionKeyId a)]"

definition accessee_args :: "Accessee \<Rightarrow> rdb_value list" where
  "accessee_args a =
     [RStr (ae_deviceId a), RInt (ae_userId a), RStr (ae_accountId a), RInt (ae_tokenId a),
      RStr (ae_bundleName a), RStr (ae_hapSignature a), RInt (ae_bindLevel a),
      RStr (ae_deviceName a), RStr (ae_serviceName a), RStr (ae_credentialIdStr a),
      RInt (ae_status a), RInt (ae_sessionKeyId a)]"

section \<open>Lists of the local network\<close>

definition IsLnnAcl :: "'a TrustEnv \<Rightarrow> AccessControlProfile \<Rightarrow> bool" where
  "IsLnnAcl env p \<longleftrightarrow>
     acl_extraData p \<noteq> [] \<and> te_json env (acl_extraData p) ''IsLnnAcl'' = Some (JString ''true'')"

definition RemoveLnnAcl :: "'a TrustEnv \<Rightarrow> AccessControlProfile list \<Rightarrow> AccessControlProfile list" where
  "RemoveLnnAcl env ps = filter (\<lambda>p. \<not> IsLnnAcl env p) ps"

definition ParseServiceIdFromJson :: "'a TrustEnv \<Rightarrow> string \<Rightarrow> int \<Rightarrow> dp_ret \<times> int" where
  "ParseServiceIdFromJson env jsonStr serviceId =
     (if jsonStr = [] then (DP_INVALID_PARAMS, serviceId)
      else case te_json env jsonStr ''serviceId'' of
             Some (JInteger i) \<Rightarrow> (DP_SUCCESS, i)
           | _ \<Rightarrow> (DP_INVALID_PARAMS, serviceId))"

definition ParseAccountIdFromJson :: "'a TrustEnv \<Rightarrow> string \<Rightarrow> string \<Rightarrow> dp_ret \<times> string" where
  "ParseAccountIdFromJson env jsonStr accountId =
     (if jsonStr = [] then (DP_INVALID_PARAMS, accountId)
      else case te_json env jsonStr ''accountId'' of
             Some (JString s) \<Rightarrow> (DP_SUCCESS, s)
           | _ \<Rightarrow> (DP_INVALID_PARAMS, accountId))"

section \<open>Reading the lists\<close>

text \<open>
  The shape of the functions that read the list of one row: the accessers that match, then the
  accessee; where no accesser matches, the accessees that match, then the accesser.
\<close>

definition acl_by_sides ::
  "'a TrustEnv \<Rightarrow> ValuesBucket \<Rightarrow> string list \<times> rdb_value list \<Rightarrow> string list \<times> rdb_value list \<Rightarrow>
   string list \<times> rdb_value list \<Rightarrow> string list \<times> rdb_value list \<Rightarrow> AccessControlProfile list \<Rightarrow>
   ('a TrustManager, dp_ret \<times> AccessControlProfile list) state" where
  "acl_by_sides env row ar_match ae_peer ae_match ar_peer ps = do {
     accesserResultSet \<leftarrow> GetResultSet env (SELECT_ACCESSER_WHERE (fst ar_match)) (snd ar_match);
     case accesserResultSet of
       None \<Rightarrow> return (DP_GET_RESULTSET_FAIL, ps)
     | Some ars \<Rightarrow>
         if rowCount ars \<noteq> 0 then do {
           accesseeResultSet \<leftarrow> GetResultSet env (SELECT_ACCESSEE_WHERE (fst ae_peer)) (snd ae_peer);
           case accesseeResultSet of
             None \<Rightarrow> return (DP_GET_RESULTSET_FAIL, ps)
           | Some aes \<Rightarrow> return (DP_SUCCESS,
               ConvertToAccessControlProfiles (Some row) (rs_rows ars) (rs_rows aes) ps)
         } else do {
           accesseeResultSet \<leftarrow> GetResultSet env (SELECT_ACCESSEE_WHERE (fst ae_match)) (snd ae_match);
           case accesseeResultSet of
             None \<Rightarrow> return (DP_GET_RESULTSET_FAIL, ps)
           | Some aes \<Rightarrow>
               if rowCount aes \<noteq> 0 then do {
                 accesserResultSet \<leftarrow> GetResultSet env (SELECT_ACCESSER_WHERE (fst ar_peer)) (snd ar_peer);
                 case accesserResultSet of
                   None \<Rightarrow> return (DP_GET_RESULTSET_FAIL, ps)
                 | Some ars \<Rightarrow> return (DP_SUCCESS,
                     ConvertToAccessControlProfiles (Some row) (rs_rows ars) (rs_rows aes) ps)
               } else return (DP_SUCCESS, ps)
         }
   }"

definition GetAclProfileByUserIdAndAccountId ::
  "'a TrustEnv \<Rightarrow> ValuesBucket \<Rightarrow> int \<Rightarrow> int \<Rightarrow> int \<Rightarrow> string \<Rightarrow> AccessControlProfile list \<Rightarrow>
   ('a TrustManager, dp_ret \<times> AccessControlProfile list) state" where
  "GetAclProfileByUserIdAndAccountId env row accesserId accesseeId userId accountId ps =
     acl_by_sides env row
       ([''accesserId'', ''accesserUserId'', ''accesserAccountId''],
        [RInt accesserId, RInt userId, RStr accountId])
       ([''accesseeId''], [RInt accesseeId])
       ([''accesseeId'', ''accesseeUserId'', ''accesseeAccountId''],
        [RInt accesseeId, RInt userId, RStr accountId])
       ([''accesserId''], [RInt accesserId]) ps"

definition GetAccessControlProfilesByDeviceId ::
  "'a TrustEnv \<Rightarrow> ValuesBucket \<Rightarrow> int \<Rightarrow> int \<Rightarrow> string \<Rightarrow> AccessControlProfile list \<Rightarrow>
   ('a TrustManager, dp_ret \<times> AccessControlProfile list) state" where
  "GetAccessControlProfilesByDeviceId env row accesserId accesseeId trustDeviceId ps =
     acl_by_sides env row
       ([''accesserId'', ''accesserDeviceId''], [RInt accesserId, RStr trustDeviceId])
       ([''accesseeId''], [RInt accesseeId])
       ([''accesseeId'', ''accesseeDeviceId''], [RInt accesseeId, RStr trustDeviceId])
       ([''accesserId''], [RInt accesserId]) ps"

definition GetAccessControlProfiles_userBundle ::
  "'a TrustEnv \<Rightarrow> ValuesBucket \<Rightarrow> int \<Rightarrow> int \<Rightarrow> int \<Rightarrow> string \<Rightarrow> AccessControlProfile list \<Rightarrow>
   ('a TrustManager, dp_ret \<times> AccessControlProfile list) state" where
  "GetAccessControlProfiles_userBundle env row accesserId accesseeId userId bundleName ps =
     acl_by_sides env row
       ([''accesserId'', ''accesserUserId'', ''accesserBundleName''],
        [RInt accesserId, RInt userId, RStr bundleName])
       ([''accesseeId''], [RInt accesseeId])
       ([''accesseeId'', ''accesseeUserId'', ''accesseeBundleName''],
        [RInt accesseeId, RInt userId, RStr bundleName])
       ([''accesserId''], [RInt accesserId]) ps"

definition GetAccessControlProfiles_user ::
  "'a TrustEnv \<Rightarrow> ValuesBucket \<Rightarrow> int \<Rightarrow> int \<Rightarrow> int \<Rightarrow> AccessControlProfile list \<Rightarrow>
   ('a TrustManager, dp_ret \<times> AccessControlProfile list) state" where
  "GetAccessControlProfiles_user env row accesserId accesseeId userId ps =
     acl_by_sides env row
       ([''accesserId'', ''accesserUserId''], [RInt accesserId, RInt userId])
       ([''accesseeId''], [RInt accesseeId])
       ([''accesseeId'', ''accesseeUserId''], [RInt accesseeId, RInt userId])
       ([''accesserId''], [RInt accesserId]) ps"

definition GetAccessControlProfiles_bundle ::
  "'a TrustEnv \<Rightarrow> ValuesBucket \<Rightarrow> int \<Rightarrow> int \<Rightarrow> string \<Rightarrow> AccessControlProfile list \<Rightarrow>
   ('a TrustManager, dp_ret \<times> AccessControlProfile list) state" where
  "GetAccessControlProfiles_bundle env row accesserId accesseeId bundleName ps =
     acl_by_sides env row
       ([''accesserId'', ''accesserBundleName''], [RInt accesserId, RStr bundleName])
       ([''accesseeId''], [RInt accesseeId])
       ([''accesseeId'', ''accesseeBundleName''], [RInt accesseeId, RStr bundleName])
       ([''accesserId''], [RInt accesserId]) ps"

definition GetAccessControlProfilesByTokenId ::
  "'a TrustEnv \<Rightarrow> ValuesBucket \<Rightarrow> int \<Rightarrow> int \<Rightarrow> string \<Rightarrow> int \<Rightarrow> AccessControlProfile list \<Rightarrow>
   ('a TrustManager, dp_ret \<times> AccessControlProfile list) state" where
  "GetAccessControlProfilesByTokenId env row accesserId accesseeId trustDeviceId tokenId ps =
     acl_by_sides env row
       ([''accesserId'', ''accesserDeviceId''], [RInt accesserId, RStr trustDeviceId])
       ([''accesseeId'', ''accesseeTokenId''], [RInt accesseeId, RInt tokenId])
       ([''accesseeId'', ''accesseeDeviceId''], [RInt accesseeId, RStr trustDeviceId])
       ([''accesserId'', ''accesserTokenId''], [RInt accesserId, RInt tokenId]) ps"

definition GetAccessControlProfile_row ::
  "'a TrustEnv \<Rightarrow> ValuesBucket \<Rightarrow> int \<Rightarrow> int \<Rightarrow> AccessControlProfile list \<Rightarrow>
   ('a TrustManager, dp_ret \<times> AccessControlProfile list) state" where
  "GetAccessControlProfile_row env row accesserId accesseeId ps = do {
     accesserResultSet \<leftarrow> GetResultSet env (SELECT_ACCESSER_WHERE [''accesserId'']) [RInt accesserId];
     case accesserResultSet of
       None \<Rightarrow> return (DP_GET_RESULTSET_FAIL, ps)
     | Some ars \<Rightarrow>
         if rowCount ars = 0 then return (DP_NOT_FIND_DATA, ps)
         else do {
           accesseeResultSet \<leftarrow> GetResultSet env (SELECT_ACCESSEE_WHERE [''accesseeId'']) [RInt accesseeId];
           case accesseeResultSet of
             None \<Rightarrow> return (DP_GET_RESULTSET_FAIL, ps)
           | Some aes \<Rightarrow>
               if rowCount aes = 0 then return (DP_NOT_FIND_DATA, ps)
               else return (DP_SUCCESS,
                      ConvertToAccessControlProfiles (Some row) (rs_rows ars) (rs_rows aes) ps)
         }
   }"

text \<open>The loops over the rows of a result set; a failing step ends the loop.\<close>

fun acl_loop ::
  "(ValuesBucket \<Rightarrow> AccessControlProfile list \<Rightarrow>
     ('a TrustManager, dp_ret \<times> AccessControlProfile list) state) \<Rightarrow>
   ValuesBucket list \<Rightarrow> AccessControlProfile list \<Rightarrow>
   ('a TrustManager, dp_ret \<times> AccessControlProfile list) state" where
  "acl_loop step [] ps = return (DP_SUCCESS, ps)"
| "acl_loop step (row # rows) ps = do {
     (ret, ps) \<leftarrow> step row ps;
     if ret \<noteq> DP_SUCCESS then return (ret, ps) else acl_loop step rows ps
   }"

definition wide_row :: "ValuesBucket \<Rightarrow> bool" where
  "wide_row row \<longleftrightarrow>
     row_int row ''bindType'' = BIND_SAME_ACCOUNT \<or> row_int row ''bindLevel'' = BIND_LEVEL_USER"

definition GetAclProfileByUserIdAndBundleName ::
  "'a TrustEnv \<Rightarrow> ValuesBucket list \<Rightarrow> int \<Rightarrow> string \<Rightarrow> AccessControlProfile list \<Rightarrow>
   ('a TrustManager, dp_ret \<times> AccessControlProfile list) state" where
  "GetAclProfileByUserIdAndBundleName env rows userId bundleName ps =
     acl_loop (\<lambda>row.
       let accesserId = row_int row ''accesserId''; accesseeId = row_int row ''accesseeId'' in
       if wide_row row then GetAccessControlProfiles_user env row accesserId accesseeId userId
       else GetAccessControlProfiles_userBundle env row accesserId accesseeId userId bundleName)
     rows ps"

definition GetAclProfileByTokenId ::
  "'a TrustEnv \<Rightarrow> ValuesBucket list \<Rightarrow> string \<Rightarrow> int \<Rightarrow> AccessControlProfile list \<Rightarrow>
   ('a TrustManager, dp_ret \<times> AccessControlProfile list) state" where
  "GetAclProfileByTokenId env rows trustDeviceId tokenId ps =
     acl_loop (\<lambda>row.
       let accesserId = row_int row ''accesserId''; accesseeId = row_int row ''accesseeId'' in
       if wide_row row
       then GetAccessControlProfilesByDeviceId env row accesserId accesseeId trustDeviceId
       else GetAccessControlProfilesByTokenId env row accesserId accesseeId trustDeviceId tokenId)
     rows ps"

definition GetAclProfileByBundleName ::
  "'a TrustEnv \<Rightarrow> ValuesBucket list \<Rightarrow> string \<Rightarrow> AccessControlProfile list \<Rightarrow>
   ('a TrustManager, dp_ret \<times> AccessControlProfile list) state" where
  "GetAclProfileByBundleName env rows bundleName ps =
     acl_loop (\<lambda>row.
       let accesserId = row_int row ''accesserId''; accesseeId = row_int row ''accesseeId'' in
       if wide_row row then GetAccessControlProfile_row env row accesserId accesseeId
       else GetAccessControlProfiles_bundle env row accesserId accesseeId bundleName)
     rows ps"

fun all_acl_loop ::
  "'a TrustEnv \<Rightarrow> ValuesBucket list \<Rightarrow> AccessControlProfile list \<Rightarrow>
   ('a TrustManager, AccessControlProfile list) state" where
  "all_acl_loop env [] ps = return ps"
| "all_acl_loop env (row # rows) ps = do {
     (ret, ps) \<leftarrow> GetAccessControlProfile_row env row (row_int row ''accesserId'')
                   (row_int row ''accesseeId'') ps;
     all_acl_loop env rows ps
   }"

definition GetAllAccessControlProfiles ::
  "'a TrustEnv \<Rightarrow> AccessControlProfile list \<Rightarrow>
   ('a TrustManager, dp_ret \<times> AccessControlProfile list) state" where
  "GetAllAccessControlProfiles env ps = do {
     resultSet \<leftarrow> GetResultSet env SELECT_ACCESS_CONTROL_TABLE [];
     case resultSet of
       None \<Rightarrow> return (DP_GET_RESULTSET_FAIL, ps)
     | Some rs \<Rightarrow>
         if rowCount rs = 0 then return (DP_NOT_FIND_DATA, ps)
         else do {
           ps \<leftarrow> all_acl_loop env (rs_rows rs) ps;
           return (if ps = [] then DP_NOT_FIND_DATA else DP_SUCCESS, ps)
         }
   }"

section \<open>Forward and reverse checks of a query\<close>

definition user_ok :: "int \<Rightarrow> int \<Rightarrow> bool" where
  "user_ok stored asked \<longleftrightarrow>
     stored = asked \<or> stored = DEFAULT_USER_ID \<or> stored = DEFAULT_USER_ID_EXTRA"

definition CheckForWardByAcerAndAcee :: "QueryProfile \<Rightarrow> AccessControlProfile \<Rightarrow> bool" where
  "CheckForWardByAcerAndAcee q p \<longleftrightarrow>
     (let ar = acl_accesser p; ae = acl_accessee p in
      if ar_deviceId ar \<noteq> qp_accesserDeviceId q \<or> ae_deviceId ae \<noteq> qp_accesseeDeviceId q \<or>
         acl_status p \<noteq> STATUS_ACTIVE then False
      else if \<not> user_ok (ar_userId ar) (qp_accesserUserId q) \<or>
              \<not> user_ok (ae_userId ae) (qp_accesseeUserId q) then False
      else if acl_bindType p = BIND_SAME_ACCOUNT \<and> ar_accountId ar = qp_accesserAccountId q \<and>
              ae_accountId ae = qp_accesseeAccountId q \<or> acl_bindLevel p = BIND_LEVEL_USER then True
      else ar_tokenId ar = qp_accesserTokenId q \<and> ae_tokenId ae = qp_accesseeTokenId q)"

definition CheckForWardByAcer :: "QueryProfile \<Rightarrow> AccessControlProfile \<Rightarrow> bool" where
  "CheckForWardByAcer q p \<longleftrightarrow>
     (let ar = acl_accesser p; ae = acl_accessee p in
      if ar_deviceId ar \<noteq> qp_accesserDeviceId q \<or> ae_deviceId ae \<noteq> qp_accesseeDeviceId q \<or>
         acl_status p \<noteq> STATUS_ACTIVE then False
      else if \<not> user_ok (ar_userId ar) (qp_accesserUserId q) then False
      else if acl_bindType p = BIND_SAME_ACCOUNT \<and> ar_accountId ar = qp_accesserAccountId q \<or>
              acl_bindLevel p = BIND_LEVEL_USER then True
      else ar_tokenId ar = qp_accesserTokenId q)"

definition CheckReverseByAcerAndAcee :: "QueryProfile \<Rightarrow> AccessControlProfile \<Rightarrow> bool" where
  "CheckReverseByAcerAndAcee q p \<longleftrightarrow>
     (let ar = acl_accesser p; ae = acl_accessee p in
      if ar_deviceId ar \<noteq> qp_accesseeDeviceId q \<or> ae_deviceId ae \<noteq> qp_accesserDeviceId q \<or>
         acl_status p \<noteq> STATUS_ACTIVE then False
      else if \<not> user_ok (ar_userId ar) (qp_accesseeUserId q) \<or>
              \<not> user_ok (ae_userId ae) (qp_accesserUserId q) then False
      else if acl_bindType p = BIND_SAME_ACCOUNT \<and> ar_accountId ar = qp_accesseeAccountId q \<and>
              ae_accountId ae = qp_accesserAccountId q \<or> acl_bindLevel p = BIND_LEVEL_USER then True
      else ar_tokenId ar = qp_accesseeTokenId q \<and> ae_tokenId ae = qp_accesserTokenId q)"

definition CheckReverseByAcer :: "QueryProfile \<Rightarrow> AccessControlProfile \<Rightarrow> bool" where
  "CheckReverseByAcer q p \<longleftrightarrow>
     (let ar = acl_accesser p; ae = acl_accessee p in
      if ar_deviceId ar \<noteq> qp_accesseeDeviceId q \<or> ae_deviceId ae \<noteq> qp_accesserDeviceId q \<or>
         acl_status p \<noteq> STATUS_ACTIVE then False
      else if \<not> user_ok (ae_userId ae) (qp_accesserUserId q) then False
      else if acl_bindType p = BIND_SAME_ACCOUNT \<and> ae_accountId ae = qp_accesserAccountId q \<or>
              acl_bindLevel p = BIND_LEVEL_USER then True
      else ae_tokenId ae = qp_accesserTokenId q)"

datatype QueryType = ACER_AND_ACEE_TOKENID | ACER_TOKENID

definition GetAclByAcerTokenId ::
  "QueryProfile \<Rightarrow> AccessControlProfile list \<Rightarrow> AccessControlProfile list \<Rightarrow>
   AccessControlProfile list" where
  "GetAclByAcerTokenId q aclProfiles ps =
     ps @ filter (\<lambda>p. (acl_trustDeviceId p = qp_accesseeDeviceId q \<or>
                        acl_trustDeviceId p = qp_accesserDeviceId q) \<and>
                       (CheckForWardByAcer q p \<or> CheckReverseByAcer q p)) aclProfiles"

definition GetAclByAcerAndAceeTokenId ::
  "QueryProfile \<Rightarrow> AccessControlProfile list \<Rightarrow> AccessControlProfile list \<Rightarrow>
   AccessControlProfile list" where
  "GetAclByAcerAndAceeTokenId q aclProfiles ps =
     ps @ filter (\<lambda>p. (acl_trustDeviceId p = qp_accesseeDeviceId q \<or>
                        acl_trustDeviceId p = qp_accesserDeviceId q) \<and>
                       (CheckForWardByAcerAndAcee q p \<or> CheckReverseByAcerAndAcee q p)) aclProfiles"

section \<open>Queries\<close>

definition not_lnn ::
  "'a TrustEnv \<Rightarrow> AccessControlProfile list \<Rightarrow>
   ('a TrustManager, dp_ret \<times> AccessControlProfile list) state" where
  "not_lnn env ps = (let ps = RemoveLnnAcl env ps in
     return (if ps = [] then DP_NOT_FIND_DATA else DP_SUCCESS, ps))"

text \<open>The shape of the overloads of \<open>GetAccessControlProfile\<close>: select rows, read their lists.\<close>

definition query_acls ::
  "'a TrustEnv \<Rightarrow> sql_query \<Rightarrow> rdb_value list \<Rightarrow> (dp_ret \<Rightarrow> dp_ret) \<Rightarrow>
   (ValuesBucket list \<Rightarrow> AccessControlProfile list \<Rightarrow>
     ('a TrustManager, dp_ret \<times> AccessControlProfile list) state) \<Rightarrow>
   AccessControlProfile list \<Rightarrow> ('a TrustManager, dp_ret \<times> AccessControlProfile list) state" where
  "query_acls env sql args failed loop ps = do {
     resultSet \<leftarrow> GetResultSet env sql args;
     case resultSet of
       None \<Rightarrow> return (DP_GET_RESULTSET_FAIL, ps)
     | Some rs \<Rightarrow>
         if rowCount rs = 0 then return (DP_NOT_FIND_DATA, ps)
         else do {
           (ret, ps) \<leftarrow> loop (rs_rows rs) ps;
           if ret \<noteq> DP_SUCCESS then return (failed ret, ps) else not_lnn env ps
         }
   }"

definition GetAcl_user_bundle_bind ::
  "'a TrustEnv \<Rightarrow> int \<Rightarrow> string \<Rightarrow> int \<Rightarrow> int \<Rightarrow> AccessControlProfile list \<Rightarrow>
   ('a TrustManager, dp_ret \<times> AccessControlProfile list) state" where
  "GetAcl_user_bundle_bind env userId bundleName bindType status ps =
     (if length bundleName > MAX_STRING_LEN then return (DP_INVALID_PARAMS, ps)
      else query_acls env (SELECT_ACL_WHERE [''bindType'', ''status'']) [RInt bindType, RInt status]
             (\<lambda>_. DP_NOT_FIND_DATA)
             (\<lambda>rows. GetAclProfileByUserIdAndBundleName env rows userId bundleName) ps)"

definition GetAcl_user_bundle_device ::
  "'a TrustEnv \<Rightarrow> int \<Rightarrow> string \<Rightarrow> string \<Rightarrow> int \<Rightarrow> AccessControlProfile list \<Rightarrow>
   ('a TrustManager, dp_ret \<times> AccessControlProfile list) state" where
  "GetAcl_user_bundle_device env userId bundleName trustDeviceId status ps =
     (if length bundleName > MAX_STRING_LEN \<or> length trustDeviceId > MAX_STRING_LEN
      then return (DP_INVALID_PARAMS, ps)
      else query_acls env (SELECT_ACL_WHERE [''trustDeviceId'', ''status''])
             [RStr trustDeviceId, RInt status] id
             (\<lambda>rows. GetAclProfileByUserIdAndBundleName env rows userId bundleName) ps)"

definition GetAccessControlProfileByTokenId ::
  "'a TrustEnv \<Rightarrow> int \<Rightarrow> string \<Rightarrow> int \<Rightarrow> AccessControlProfile list \<Rightarrow>
   ('a TrustManager, dp_ret \<times> AccessControlProfile list) state" where
  "GetAccessControlProfileByTokenId env tokenId trustDeviceId status ps =
     (if length trustDeviceId > MAX_STRING_LEN then return (DP_INVALID_PARAMS, ps)
      else query_acls env (SELECT_ACL_WHERE [''status'']) [RInt status] id
             (\<lambda>rows. GetAclProfileByTokenId env rows trustDeviceId tokenId) ps)"

definition GetAcl_user_account ::
  "'a TrustEnv \<Rightarrow> int \<Rightarrow> string \<Rightarrow> AccessControlProfile list \<Rightarrow>
   ('a TrustManager, dp_ret \<times> AccessControlProfile list) state" where
  "GetAcl_user_account env userId accountId ps =
     (if length accountId > MAX_STRING_LEN then return (DP_INVALID_PARAMS, ps)
      else query_acls env SELECT_ACCESS_CONTROL_TABLE [] id
             (acl_loop (\<lambda>row. GetAclProfileByUserIdAndAccountId env row (row_int row ''accesserId'')
                                (row_int row ''accesseeId'') userId accountId)) ps)"

definition GetAcl_user ::
  "'a TrustEnv \<Rightarrow> int \<Rightarrow> AccessControlProfile list \<Rightarrow>
   ('a TrustManager, dp_ret \<times> AccessControlProfile list) state" where
  "GetAcl_user env userId ps =
     query_acls env SELECT_ACCESS_CONTROL_TABLE [] id
       (acl_loop (\<lambda>row. GetAccessControlProfiles_user env row (row_int row ''accesserId'')
                          (row_int row ''accesseeId'') userId)) ps"

definition GetAcl_query ::
  "'a TrustEnv \<Rightarrow> QueryType \<Rightarrow> QueryProfile \<Rightarrow> AccessControlProfile list \<Rightarrow>
   ('a TrustManager, dp_ret \<times> AccessControlProfile list) state" where
  "GetAcl_query env queryType q ps = do {
     (ret, aclProfiles) \<leftarrow> GetAllAccessControlProfiles env [];
     if ret \<noteq> DP_SUCCESS then return (ret, ps)
     else not_lnn env
       (let ps = (if queryType = ACER_AND_ACEE_TOKENID
                  then GetAclByAcerAndAceeTokenId q aclProfiles ps else ps)
        in if queryType = ACER_TOKENID then GetAclByAcerTokenId q aclProfiles ps else ps)
   }"

definition GetAllAccessControlProfile ::
  "'a TrustEnv \<Rightarrow> AccessControlProfile list \<Rightarrow>
   ('a TrustManager, dp_ret \<times> AccessControlProfile list) state" where
  "GetAllAccessControlProfile env ps = do {
     (ret, ps) \<leftarrow> GetAllAccessControlProfiles env ps;
     if ret \<noteq> DP_SUCCESS then return (ret, ps) else not_lnn env ps
   }"

definition GetAllAclIncludeLnnAcl ::
  "'a TrustEnv \<Rightarrow> AccessControlProfile list \<Rightarrow>
   ('a TrustManager, dp_ret \<times> AccessControlProfile list) state" where
  "GetAllAclIncludeLnnAcl env ps = GetAllAccessControlProfiles env ps"

definition GetAcl_bundle_bind ::
  "'a TrustEnv \<Rightarrow> string \<Rightarrow> int \<Rightarrow> int \<Rightarrow> AccessControlProfile list \<Rightarrow>
   ('a TrustManager, dp_ret \<times> AccessControlProfile list) state" where
  "GetAcl_bundle_bind env bundleName bindType status ps =
     (if length bundleName > MAX_STRING_LEN then return (DP_INVALID_PARAMS, ps)
      else query_acls env (SELECT_ACL_WHERE [''bindType'', ''status'']) [RInt bindType, RInt status] id
             (\<lambda>rows. GetAclProfileByBundleName env rows bundleName) ps)"

definition GetAcl_bundle_device ::
  "'a TrustEnv \<Rightarrow> string \<Rightarrow> string \<Rightarrow> int \<Rightarrow> AccessControlProfile list \<Rightarrow>
   ('a TrustManager, dp_ret \<times> AccessControlProfile list) state" where
  "GetAcl_bundle_device env bundleName trustDeviceId status ps =
     (if length bundleName > MAX_STRING_LEN \<or> length trustDeviceId > MAX_STRING_LEN
      then return (DP_INVALID_PARAMS, ps)
      else query_acls env (SELECT_ACL_WHERE [''trustDeviceId'', ''status''])
             [RStr trustDeviceId, RInt status] id
             (\<lambda>rows. GetAclProfileByBundleName env rows bundleName) ps)"

end
