(* ===== verification/TrustOps.thy ===== *)
theory TrustOps
  imports TrustManager ProfileEntries
begin

text \<open>
  The operations of \<open>TrustProfileManager\<close> (\<open>trustprofilemanager/trust_profile_manager.cpp\<close>) that
  open the tables, dispatch a query given as a map of properties, and put, update and delete lists
  and trusted devices, with the notifications they give.
\<close>

section \<open>Queries given as properties\<close>

definition atoll :: "string \<Rightarrow> int" where
  "atoll s = signed_take_bit 63 (atoi_val s)"

abbreviation "INT32_MIN \<equiv> (- 2147483648 :: int)"
abbreviation "INT32_MAX \<equiv> (2147483647 :: int)"
abbreviation "INT64_MIN \<equiv> (- 9223372036854775808 :: int)"
abbreviation "INT64_MAX \<equiv> (9223372036854775807 :: int)"

definition IsPropertyValidInt64 :: "(string, string) omap \<Rightarrow> string \<Rightarrow> bool" where
  "IsPropertyValidInt64 propertyMap prop \<longleftrightarrow>
     (if prop = [] then False
      else case map_of propertyMap prop of
             None \<Rightarrow> False
           | Some v \<Rightarrow> IsNumStr v \<and> INT64_MIN < atoll v \<and> atoll v < INT64_MAX)"

abbreviation valid_i32 :: "(string, string) omap \<Rightarrow> string \<Rightarrow> bool" where
  "valid_i32 params name \<equiv> IsPropertyValid_num params name INT32_MIN INT32_MAX"

definition param :: "(string, string) omap \<Rightarrow> string \<Rightarrow> string" where
  "param params name = (case map_of params name of None \<Rightarrow> [] | Some v \<Rightarrow> v)"

definition has_param :: "(string, string) omap \<Rightarrow> string \<Rightarrow> bool" where
  "has_param params name \<longleftrightarrow> map_of params name \<noteq> None"

definition GenerateQueryProfile :: "(string, string) omap \<Rightarrow> (QueryType \<times> QueryProfile) option" where
  "GenerateQueryProfile params =
     (if has_param params ''accesserDeviceId'' \<and> has_param params ''accesseeDeviceId'' \<and>
         has_param params ''accesserAccountId'' \<and> valid_i32 params ''accesserUserId'' \<and>
         IsPropertyValidInt64 params ''accesserTokenId''
      then let q = QueryProfile_default
               \<lparr>qp_accesserDeviceId := param params ''accesserDeviceId'',
                qp_accesserUserId := atoi (param params ''accesserUserId''),
                qp_accesserAccountId := param params ''accesserAccountId'',
                qp_accesserTokenId := atoi (param params ''accesserTokenId''),
                qp_accesseeDeviceId := param params ''accesseeDeviceId''\<rparr> in
           if has_param params ''accesseeAccountId'' \<and> valid_i32 params ''accesseeUserId'' \<and>
              IsPropertyValidInt64 params ''accesseeTokenId''
           then Some (ACER_AND_ACEE_TOKENID,
             q\<lparr>qp_accesseeUserId := atoi (param params ''accesseeUserId''),
               qp_accesseeAccountId := param params ''accesseeAccountId'',
               qp_accesseeTokenId := atoi (param params ''accesseeTokenId'')\<rparr>)
           else Some (ACER_TOKENID, q)
      else None)"

definition GetAccessControlProfile ::
  "'a TrustEnv \<Rightarrow> (string, string) omap \<Rightarrow> AccessControlProfile list \<Rightarrow>
   ('a TrustManager, dp_ret \<times> AccessControlProfile list) state" where
  "GetAccessControlProfile env params ps =
     (let byDevice = has_param params ''trustDeviceId'' \<and> valid_i32 params ''status'';
          byBind = valid_i32 params ''bindType'' \<and> valid_i32 params ''status'';
          userId = atoi (param params ''userId''); status = atoi (param params ''status'');
          bindType = atoi (param params ''bindType''); tokenId = atoi (param params ''tokenId'');
          bundleName = param params ''bundleName''; trustDeviceId = param params ''trustDeviceId'' in
      if byDevice \<and> valid_i32 params ''userId'' \<and> has_param params ''bundleName''
      then GetAcl_user_bundle_device env userId bundleName trustDeviceId status ps
      else if byDevice \<and> has_param params ''bundleName''
      then GetAcl_bundle_device env bundleName trustDeviceId status ps
      else if byDevice \<and> IsPropertyValidInt64 params ''tokenId''
      then GetAccessControlProfileByTokenId env tokenId trustDeviceId status ps
      else if byBind \<and> valid_i32 params ''userId'' \<and> has_param params ''bundleName''
      then GetAcl_user_bundle_bind env userId bundleName bindType status ps
      else if byBind \<and> has_param params ''bundleName''
      then GetAcl_bundle_bind env bundleName bindType status ps
      else if valid_i32 params ''userId''
      then if has_param params ''accountId''
           then GetAcl_user_account env userId (param params ''accountId'') ps
           else GetAcl_user env userId ps
      else case GenerateQueryProfile params of
             Some (queryType, q) \<Rightarrow> GetAcl_query env queryType q ps
           | None \<Rightarrow> return (DP_INVALID_PARAMS, ps))"

section \<open>Opening the tables\<close>

fun execute_all ::
  "'a TrustEnv \<Rightarrow> dp_ret \<Rightarrow> string list \<Rightarrow> 'a \<Rightarrow> dp_ret \<times> 'a" where
  "execute_all env fail [] a = (DP_SUCCESS, a)"
| "execute_all env fail (sql # sqls) a =
     (let (ret, a) = ir_CreateTable (te_rdb env) sql a in
      if ret \<noteq> DP_SUCCESS then (fail, a) else execute_all env fail sqls a)"

definition execute_sqls ::
  "'a TrustEnv \<Rightarrow> dp_ret \<Rightarrow> string list \<Rightarrow> ('a TrustManager, dp_ret) state" where
  "execute_sqls env fail sqls = State (\<lambda>m. case tm_rdb m of
       None \<Rightarrow> (DP_GET_RDBSTORE_FAIL, m)
     | Some a \<Rightarrow> let (ret, a) = execute_all env fail sqls a in (ret, m\<lparr>tm_rdb := Some a\<rparr>))"

definition TPM_CreateTable :: "'a TrustEnv \<Rightarrow> ('a TrustManager, dp_ret) state" where
  "TPM_CreateTable env = execute_sqls env DP_CREATE_TABLE_FAIL
     [CREATE_TURST_DEVICE_TABLE_SQL, CREATE_ACCESS_CONTROL_TABLE_SQL, CREATE_ACCESSER_TABLE_SQL,
      CREATE_ACCESSEE_TABLE_SQL]"

definition TPM_CreateUniqueIndex :: "'a TrustEnv \<Rightarrow> ('a TrustManager, dp_ret) state" where
  "TPM_CreateUniqueIndex env = execute_sqls env DP_CREATE_UNIQUE_INDEX_FAIL
     [CREATE_TURST_DEVICE_TABLE_UNIQUE_INDEX_SQL, CREATE_ACCESS_CONTROL_TABLE_UNIQUE_INDEX_SQL,
      CREATE_ACCESSER_TABLE_UNIQUE_INDEX_SQL, CREATE_ACCESSEE_TABLE_UNIQUE_INDEX_SQL]"

definition IsAceeCreIdExistToAceeTable :: "'a TrustEnv \<Rightarrow> ('a TrustManager, bool) state" where
  "IsAceeCreIdExistToAceeTable env = do {
     resultSet \<leftarrow> GetResultSet env (PragmaTableInfo ACCESSEE_TABLE) [];
     return (case resultSet of
       None \<Rightarrow> False
     | Some rs \<Rightarrow> list_ex (\<lambda>row. row_str row ''name'' = ''accesseeCredentialId'') (rs_rows rs))
   }"

definition AddAceeCreIdColumnToAceeTable :: "'a TrustEnv \<Rightarrow> ('a TrustManager, dp_ret) state" where
  "AddAceeCreIdColumnToAceeTable env =
     execute_sqls env DP_CREATE_TABLE_FAIL [ALTER_TABLE_ACEE_ADD_COLUMN_ACEE_CREDENTIAL_ID]"

definition init_rdb :: "'a TrustEnv \<Rightarrow> ('a TrustManager, dp_ret) state" where
  "init_rdb env = State (\<lambda>m. let (ret, a) = ir_Init (te_rdb env) (te_new env)
                              in (ret, m\<lparr>tm_rdb := Some a\<rparr>))"

definition set_inited :: "bool \<Rightarrow> ('a TrustManager, unit) state" where
  "set_inited b = State (\<lambda>m. ((), m\<lparr>tm_isInited := b\<rparr>))"

definition TPM_Init :: "'a TrustEnv \<Rightarrow> ('a TrustManager, dp_ret) state" where
  "TPM_Init env = do {
     m \<leftarrow> State_Monad.get;
     if tm_isInited m then return DP_SUCCESS
     else do {
       ret \<leftarrow> init_rdb env;
       if ret \<noteq> DP_SUCCESS then return DP_INIT_DB_FAILED
       else do {
         _ \<leftarrow> TPM_CreateTable env;
         _ \<leftarrow> TPM_CreateUniqueIndex env;
         exists \<leftarrow> IsAceeCreIdExistToAceeTable env;
         added \<leftarrow> (if exists then return DP_SUCCESS else AddAceeCreIdColumnToAceeTable env);
         if added \<noteq> DP_SUCCESS then return DP_CREATE_TABLE_FAIL
         else do {
           _ \<leftarrow> set_inited True;
           return DP_SUCCESS
         }
       }
     }
   }"

definition TPM_UnInit :: "'a TrustEnv \<Rightarrow> ('a TrustManager, dp_ret) state" where
  "TPM_UnInit env = State (\<lambda>m. case tm_rdb m of
       None \<Rightarrow> (DP_GET_RDBSTORE_FAIL, m)
     | Some a \<Rightarrow> let (ret, a) = ir_UnInit (te_rdb env) a in
         if ret \<noteq> DP_SUCCESS then (DP_UNINIT_FAIL, m\<lparr>tm_rdb := Some a\<rparr>)
         else (DP_SUCCESS, m\<lparr>tm_rdb := None, tm_isInited := False\<rparr>))"

section \<open>Trusted devices\<close>

definition PutTrustDeviceProfile ::
  "'a TrustEnv \<Rightarrow> TrustDeviceProfile \<Rightarrow> ('a TrustManager, dp_ret) state" where
  "PutTrustDeviceProfile env p = do {
     ret \<leftarrow> rdb_call (ir_Put (te_rdb env) (-1) TRUST_DEVICE_TABLE (TrustDeviceProfileToEntries p));
     return (rdb_code DP_PUT_TRUST_DEVICE_PROFILE_FAIL ret)
   }"

definition UpdateTrustDeviceProfileNotify ::
  "TrustDeviceProfile \<Rightarrow> TrustDeviceProfile \<Rightarrow> ('a TrustManager, dp_ret) state" where
  "UpdateTrustDeviceProfileNotify old new =
     (if tp_status old \<noteq> tp_status new then do {
        ret \<leftarrow> notify (NotifyTrustDeviceProfileUpdate old new);
        return (if ret \<noteq> DP_SUCCESS then DP_NOTIFY_TRUST_DEVICE_FAIL else DP_SUCCESS)
      } else return DP_SUCCESS)"

definition UpdateTrustDeviceProfile ::
  "'a TrustEnv \<Rightarrow> TrustDeviceProfile \<Rightarrow> ('a TrustManager, dp_ret) state" where
  "UpdateTrustDeviceProfile env p = do {
     resultSet \<leftarrow> GetResultSet env SELECT_TRUST_DEVICE_TABLE_WHERE_DEVICEID [RStr (tp_deviceId p)];
     case resultSet of
       None \<Rightarrow> return DP_GET_RESULTSET_FAIL
     | Some rs \<Rightarrow>
         if rowCount rs = 0 \<or> first_row rs = None then return DP_NOT_FIND_DATA
         else do {
           let old = snd (ConvertToTrustDeviceProfile (first_row rs) TrustDeviceProfile_default);
           ret \<leftarrow> rdb_call (ir_Update (te_rdb env) (-1) TRUST_DEVICE_TABLE
                    (TrustDeviceProfileToEntries p) [''deviceId''] [RStr (tp_deviceId p)]);
           if rdb_code DP_UPDATE_TRUST_DEVICE_PROFILE_FAIL ret \<noteq> DP_SUCCESS
           then return (rdb_code DP_UPDATE_TRUST_DEVICE_PROFILE_FAIL ret)
           else do {
             _ \<leftarrow> UpdateTrustDeviceProfileNotify old p;
             return DP_SUCCESS
           }
         }
   }"

definition GetTrustDeviceProfile ::
  "'a TrustEnv \<Rightarrow> string \<Rightarrow> TrustDeviceProfile \<Rightarrow>
   ('a TrustManager, dp_ret \<times> TrustDeviceProfile) state" where
  "GetTrustDeviceProfile env deviceId p = do {
     resultSet \<leftarrow> GetResultSet env SELECT_TRUST_DEVICE_TABLE_WHERE_DEVICEID [RStr deviceId];
     case resultSet of
       None \<Rightarrow> return (DP_GET_RESULTSET_FAIL, p)
     | Some rs \<Rightarrow>
         if rowCount rs = 0 \<or> first_row rs = None then return (DP_NOT_FIND_DATA, p)
         else return (DP_SUCCESS, snd (ConvertToTrustDeviceProfile (first_row rs) p))
   }"

definition GetAllTrustDeviceProfile ::
  "'a TrustEnv \<Rightarrow> TrustDeviceProfile list \<Rightarrow>
   ('a TrustManager, dp_ret \<times> TrustDeviceProfile list) state" where
  "GetAllTrustDeviceProfile env ps = do {
     resultSet \<leftarrow> GetResultSet env SELECT_TRUST_DEVICE_TABLE [];
     case resultSet of
       None \<Rightarrow> return (DP_GET_RESULTSET_FAIL, ps)
     | Some rs \<Rightarrow>
         if rowCount rs = 0 then return (DP_NOT_FIND_DATA, ps)
         else let ps = ps @ map (\<lambda>row. snd (ConvertToTrustDeviceProfile (Some row)
                                             TrustDeviceProfile_default)) (rs_rows rs)
              in return (if ps = [] then DP_NOT_FIND_DATA else DP_SUCCESS, ps)
   }"

definition DeleteTrustDeviceProfile ::
  "'a TrustEnv \<Rightarrow> string \<Rightarrow> ('a TrustManager, dp_ret) state" where
  "DeleteTrustDeviceProfile env deviceId = do {
     resultSet \<leftarrow> GetResultSet env SELECT_TRUST_DEVICE_TABLE_WHERE_DEVICEID [RStr deviceId];
     case resultSet of
       None \<Rightarrow> return DP_GET_RESULTSET_FAIL
     | Some rs \<Rightarrow>
         if rowCount rs = 0 then return DP_NOT_FIND_DATA
         else do {
           ret \<leftarrow> rdb_call (ir_Delete (te_rdb env) (-1) TRUST_DEVICE_TABLE [''deviceId''] [RStr deviceId]);
           return (rdb_code DP_DELETE_TRUST_DEVICE_PROFILE_FAIL ret)
         }
   }"

text \<open>The status of a trusted device: active when one of its lists is.\<close>

definition GetResultStatus ::
  "'a TrustEnv \<Rightarrow> string \<Rightarrow> int \<Rightarrow> ('a TrustManager, dp_ret \<times> int) state" where
  "GetResultStatus env trustDeviceId status = do {
     resultSet \<leftarrow> GetResultSet env (SELECT_ACL_WHERE [''trustDeviceId'']) [RStr trustDeviceId];
     return (case resultSet of
       None \<Rightarrow> (DP_GET_RESULTSET_FAIL, status)
     | Some rs \<Rightarrow>
         if rowCount rs = 0 then (DP_NOT_FIND_DATA, status)
         else (DP_SUCCESS, if list_ex (\<lambda>row. row_int row ''status'' = 1) (rs_rows rs) then 1 else 0))
   }"

section \<open>Related lists\<close>

record ProfileQueryParams =
  pq_localDeviceId :: string
  pq_localUserId :: int
  pq_localAccountId :: string
  pq_peerDeviceId :: string
  pq_peerUserId :: int
  pq_peerAccountId :: string

text \<open>The two sides of a list: the side on the trusted device is the peer.\<close>

definition query_params :: "AccessControlProfile \<Rightarrow> ProfileQueryParams" where
  "query_params p =
     (let ar = acl_accesser p; ae = acl_accessee p in
      if ae_deviceId ae = acl_trustDeviceId p
      then \<lparr>pq_localDeviceId = ar_deviceId ar, pq_localUserId = ar_userId ar,
            pq_localAccountId = ar_accountId ar, pq_peerDeviceId = acl_trustDeviceId p,
            pq_peerUserId = ae_userId ae, pq_peerAccountId = ae_accountId ae\<rparr>
      else \<lparr>pq_localDeviceId = ae_deviceId ae, pq_localUserId = ae_userId ae,
            pq_localAccountId = ae_accountId ae, pq_peerDeviceId = acl_trustDeviceId p,
            pq_peerUserId = ar_userId ar, pq_peerAccountId = ar_accountId ar\<rparr>)"

definition IsMatchingAclProfile :: "AccessControlProfile \<Rightarrow> ProfileQueryParams \<Rightarrow> bool" where
  "IsMatchingAclProfile p q \<longleftrightarrow>
     (let ar = acl_accesser p; ae = acl_accessee p in
      if pq_peerDeviceId q \<noteq> acl_trustDeviceId p then False
      else pq_localDeviceId q = ar_deviceId ar \<and> pq_localUserId q = ar_userId ar \<and>
           pq_localAccountId q = ar_accountId ar \<and> pq_peerDeviceId q = ae_deviceId ae \<and>
           pq_peerUserId q = ae_userId ae \<and> pq_peerAccountId q = ae_accountId ae \<or>
           pq_peerDeviceId q = ar_deviceId ar \<and> pq_peerUserId q = ar_userId ar \<and>
           pq_peerAccountId q = ar_accountId ar \<and> pq_localDeviceId q = ae_deviceId ae \<and>
           pq_localUserId q = ae_userId ae \<and> pq_localAccountId q = ae_accountId ae)"

text \<open>The same without the accounts.\<close>

definition same_users :: "AccessControlProfile \<Rightarrow> ProfileQueryParams \<Rightarrow> bool" where
  "same_users p q \<longleftrightarrow>
     (let ar = acl_accesser p; ae = acl_accessee p in
      if pq_peerDeviceId q \<noteq> acl_trustDeviceId p then False
      else pq_localDeviceId q = ar_deviceId ar \<and> pq_localUserId q = ar_userId ar \<and>
           pq_peerDeviceId q = ae_deviceId ae \<and> pq_peerUserId q = ae_userId ae \<or>
           pq_peerDeviceId q = ar_deviceId ar \<and> pq_peerUserId q = ar_userId ar \<and>
           pq_localDeviceId q = ae_deviceId ae \<and> pq_localUserId q = ae_userId ae)"

text \<open>The lists but those of the local network, as the checks read them.\<close>

definition stored_acls ::
  "'a TrustEnv \<Rightarrow> ('a TrustManager, dp_ret \<times> AccessControlProfile list) state" where
  "stored_acls env = do {
     (ret, ps) \<leftarrow> GetAllAccessControlProfiles env [];
     return (ret, RemoveLnnAcl env ps)
   }"

definition acl_exists ::
  "'a TrustEnv \<Rightarrow> (AccessControlProfile \<Rightarrow> bool) \<Rightarrow> ('a TrustManager, dp_ret \<times> bool) state" where
  "acl_exists env P = do {
     (ret, ps) \<leftarrow> stored_acls env;
     return (if ret \<noteq> DP_SUCCESS then (ret, False) else (DP_SUCCESS, list_ex P ps))
   }"

definition acl_count ::
  "'a TrustEnv \<Rightarrow> (AccessControlProfile \<Rightarrow> bool) \<Rightarrow> int \<Rightarrow> ('a TrustManager, dp_ret \<times> int) state" where
  "acl_count env P resultCount = do {
     (ret, ps) \<leftarrow> stored_acls env;
     return (if ret \<noteq> DP_SUCCESS then (ret, resultCount)
             else (DP_SUCCESS, resultCount + int (length (filter P ps))))
   }"

definition CheckDeviceIdAndUserIdActive ::
  "'a TrustEnv \<Rightarrow> AccessControlProfile \<Rightarrow> int \<Rightarrow> ('a TrustManager, dp_ret \<times> int) state" where
  "CheckDeviceIdAndUserIdActive env p resultCount =
     acl_count env (\<lambda>x. acl_status x = STATUS_ACTIVE \<and> same_users x (query_params p)) resultCount"

definition CheckDeviceIdAndUserIdExists ::
  "'a TrustEnv \<Rightarrow> AccessControlProfile \<Rightarrow> ('a TrustManager, dp_ret \<times> bool) state" where
  "CheckDeviceIdAndUserIdExists env p = acl_exists env (\<lambda>x. same_users x (query_params p))"

definition CheckDeviceIdActiveAclExists ::
  "'a TrustEnv \<Rightarrow> AccessControlProfile \<Rightarrow> ('a TrustManager, dp_ret \<times> bool) state" where
  "CheckDeviceIdActiveAclExists env p =
     acl_exists env (\<lambda>x. acl_trustDeviceId p = acl_trustDeviceId x \<and> acl_status x = STATUS_ACTIVE)"

definition CheckAccountAclExists ::
  "'a TrustEnv \<Rightarrow> AccessControlProfile \<Rightarrow> ('a TrustManager, dp_ret \<times> bool) state" where
  "CheckAccountAclExists env p = acl_exists env (\<lambda>x. IsMatchingAclProfile x (query_params p))"

definition CheckAccountAclActiveCount ::
  "'a TrustEnv \<Rightarrow> AccessControlProfile \<Rightarrow> int \<Rightarrow> ('a TrustManager, dp_ret \<times> int) state" where
  "CheckAccountAclActiveCount env p resultCount =
     acl_count env (\<lambda>x. acl_status x = STATUS_ACTIVE \<and> IsMatchingAclProfile x (query_params p)) resultCount"

section \<open>Services of a list\<close>

definition CollectSameAccountServiceIds ::
  "'a TrustEnv \<Rightarrow> string \<Rightarrow> int \<Rightarrow> string \<Rightarrow> int list \<Rightarrow> int list" where
  "CollectSameAccountServiceIds env peerDeviceId peerUserId peerAccountId ids =
     ids @ map sv_serviceId (filter (\<lambda>s.
       sv_udid s = peerDeviceId \<and> sv_userId s = peerUserId \<and>
       (let (ret, accountId) = ParseAccountIdFromJson env (sv_extraData s) []
        in ret = DP_SUCCESS \<and> accountId = peerAccountId)) (te_services env))"

fun service_ids_loop ::
  "'a TrustEnv \<Rightarrow> ProfileQueryParams \<Rightarrow> AccessControlProfile list \<Rightarrow> int list \<Rightarrow> int list" where
  "service_ids_loop env q [] ids = ids"
| "service_ids_loop env q (p # ps) ids =
     service_ids_loop env q ps
       (if \<not> IsMatchingAclProfile p q then ids
        else if acl_bindType p = BIND_SAME_ACCOUNT
        then CollectSameAccountServiceIds env (pq_peerDeviceId q) (pq_peerUserId q)
               (pq_peerAccountId q) ids
        else let (ret, serviceId) = ParseServiceIdFromJson env (ae_extraData (acl_accessee p)) 0
             in if ret = DP_SUCCESS then ids @ [serviceId] else ids)"

definition QueryServiceIdList ::
  "'a TrustEnv \<Rightarrow> AccessControlProfile \<Rightarrow> int list \<Rightarrow> ('a TrustManager, dp_ret \<times> int list) state" where
  "QueryServiceIdList env p ids = do {
     (ret, ps) \<leftarrow> stored_acls env;
     return (if ret \<noteq> DP_SUCCESS then (ret, ids)
             else (DP_SUCCESS, service_ids_loop env (query_params p) ps ids))
   }"

section \<open>Numbering\<close>

text \<open>
  The next number of a table: one more than that of its last row. \<open>-1\<close> is the value of a number
  that no row delivers.
\<close>

definition last_id :: "string \<Rightarrow> ResultSet \<Rightarrow> int" where
  "last_id col rs = (if rs_rows rs = [] then -1 else row_int (last (rs_rows rs)) col)"

definition SetAccessControlId ::
  "'a TrustEnv \<Rightarrow> AccessControlProfile \<Rightarrow> ('a TrustManager, dp_ret \<times> AccessControlProfile) state" where
  "SetAccessControlId env p = do {
     resultSet \<leftarrow> GetResultSet env SELECT_ACCESS_CONTROL_TABLE [];
     return (case resultSet of
       None \<Rightarrow> (DP_GET_RESULTSET_FAIL, p)
     | Some rs \<Rightarrow>
         if rowCount rs = 0 then (DP_SUCCESS, p\<lparr>acl_accessControlId := 1\<rparr>)
         else (DP_SUCCESS, p\<lparr>acl_accessControlId := last_id ''accessControlId'' rs + 1\<rparr>))
   }"

definition SetAccesserId ::
  "'a TrustEnv \<Rightarrow> AccessControlProfile \<Rightarrow> ('a TrustManager, dp_ret \<times> AccessControlProfile) state" where
  "SetAccesserId env p = do {
     resultSet \<leftarrow> GetResultSet env (SELECT_ACCESSER_WHERE accesser_all) (accesser_args (acl_accesser p));
     case resultSet of
       None \<Rightarrow> return (DP_GET_RESULTSET_FAIL, p)
     | Some rs \<Rightarrow>
         if rowCount rs > 0
         then return (DP_SUCCESS, p\<lparr>acl_accesserId := case first_row rs of None \<Rightarrow> -1
                                     | Some row \<Rightarrow> row_int row ''accesserId''\<rparr>)
         else do {
           resultSet \<leftarrow> GetResultSet env (SELECT_ACCESSER_WHERE []) [];
           return (case resultSet of
             None \<Rightarrow> (DP_GET_RESULTSET_FAIL, p)
           | Some rs \<Rightarrow>
               if rowCount rs = 0 then (DP_SUCCESS, p\<lparr>acl_accesserId := 1\<rparr>)
               else (DP_SUCCESS, p\<lparr>acl_accesserId := last_id ''accesserId'' rs + 1\<rparr>))
         }
   }"

definition SetAccesseeId ::
  "'a TrustEnv \<Rightarrow> AccessControlProfile \<Rightarrow> ('a TrustManager, dp_ret \<times> AccessControlProfile) state" where
  "SetAccesseeId env p = do {
     resultSet \<leftarrow> GetResultSet env (SELECT_ACCESSEE_WHERE accessee_all) (accessee_args (acl_accessee p));
     case resultSet of
       None \<Rightarrow> return (DP_GET_RESULTSET_FAIL, p)
     | Some rs \<Rightarrow>
         if rowCount rs > 0
         then return (DP_SUCCESS, p\<lparr>acl_accesseeId := case first_row rs of None \<Rightarrow> -1
                                     | Some row \<Rightarrow> row_int row ''accesseeId''\<rparr>)
         else do {
           resultSet \<leftarrow> GetResultSet env (SELECT_ACCESSEE_WHERE []) [];
           return (case resultSet of
             None \<Rightarrow> (DP_GET_RESULTSET_FAIL, p)
           | Some rs \<Rightarrow>
               if rowCount rs = 0 then (DP_SUCCESS, p\<lparr>acl_accesseeId := 1\<rparr>)
               else (DP_SUCCESS, p\<lparr>acl_accesseeId := last_id ''accesseeId'' rs + 1\<rparr>))
         }
   }"

definition SetAccessControlProfileId ::
  "'a TrustEnv \<Rightarrow> AccessControlProfile \<Rightarrow> ('a TrustManager, dp_ret \<times> AccessControlProfile) state" where
  "SetAccessControlProfileId env p = do {
     (ret, p) \<leftarrow> SetAccessControlId env p;
     if ret \<noteq> DP_SUCCESS then return (ret, p)
     else do {
       (ret, p) \<leftarrow> SetAccesserId env p;
       if ret \<noteq> DP_SUCCESS then return (ret, p)
       else do {
         (ret, p) \<leftarrow> SetAccesseeId env p;
         if ret \<noteq> DP_SUCCESS then return (ret, p)
         else return (DP_SUCCESS,
                p\<lparr>acl_accesser := acl_accesser p\<lparr>ar_id := acl_accesserId p\<rparr>,
                  acl_accessee := acl_accessee p\<lparr>ae_id := acl_accesseeId p\<rparr>\<rparr>)
       }
     }
   }"

section \<open>Putting a list\<close>

definition PutAccesserProfile ::
  "'a TrustEnv \<Rightarrow> AccessControlProfile \<Rightarrow> ('a TrustManager, dp_ret) state" where
  "PutAccesserProfile env p = do {
     resultSet \<leftarrow> GetResultSet env (SELECT_ACCESSER_WHERE accesser_all) (accesser_args (acl_accesser p));
     case resultSet of
       None \<Rightarrow> return DP_GET_RESULTSET_FAIL
     | Some rs \<Rightarrow>
         if rowCount rs > 0 then return DP_SUCCESS
         else do {
           ret \<leftarrow> rdb_call (ir_Put (te_rdb env) (-1) ACCESSER_TABLE (AccesserToEntries p));
           return (rdb_code DP_PUT_ACCESSER_PROFILE_FAIL ret)
         }
   }"

definition PutAccesseeProfile ::
  "'a TrustEnv \<Rightarrow> AccessControlProfile \<Rightarrow> ('a TrustManager, dp_ret) state" where
  "PutAccesseeProfile env p = do {
     resultSet \<leftarrow> GetResultSet env (SELECT_ACCESSEE_WHERE accessee_all) (accessee_args (acl_accessee p));
     case resultSet of
       None \<Rightarrow> return DP_GET_RESULTSET_FAIL
     | Some rs \<Rightarrow>
         if rowCount rs > 0 then return DP_SUCCESS
         else do {
           ret \<leftarrow> rdb_call (ir_Put (te_rdb env) (-1) ACCESSEE_TABLE (AccesseeToEntries p));
           return (rdb_code DP_PUT_ACCESSEE_PROFILE_FAIL ret)
         }
   }"

definition acl_cols :: "string list" where
  "acl_cols =
     [''accesserId'', ''accesseeId'', ''trustDeviceId'', ''sessionKey'', ''bindType'',
      ''authenticationType'', ''deviceIdType'', ''deviceIdHash'', ''validPeriod'',
      ''lastAuthTime'', ''bindLevel'']"

definition acl_args :: "AccessControlProfile \<Rightarrow> rdb_value list" where
  "acl_args p =
     [RInt (acl_accesserId p), RInt (acl_accesseeId p), RStr (acl_trustDeviceId p),
      RStr (acl_sessionKey p), RInt (acl_bindType p), RInt (acl_authenticationType p),
      RInt (acl_deviceIdType p), RStr (acl_deviceIdHash p), RInt (acl_validPeriod p),
      RInt (acl_lastAuthTime p), RInt (acl_bindLevel p)]"

definition IsAclExists ::
  "'a TrustEnv \<Rightarrow> AccessControlProfile \<Rightarrow> ('a TrustManager, dp_ret) state" where
  "IsAclExists env p = do {
     resultSet \<leftarrow> GetResultSet env (SELECT_ACL_WHERE acl_cols) (acl_args p);
     return (case resultSet of
       None \<Rightarrow> DP_GET_RESULTSET_FAIL
     | Some rs \<Rightarrow> if rowCount rs \<noteq> 0 then DP_DATA_EXISTS else DP_SUCCESS)
   }"

definition PutAclCheck ::
  "'a TrustEnv \<Rightarrow> AccessControlProfile \<Rightarrow> bool \<Rightarrow> bool \<Rightarrow> ('a TrustManager, dp_ret) state" where
  "PutAclCheck env p isUserAclExists isAccountAclExists = do {
     let trustProfile = TrustDeviceProfile_of_acl p TrustDeviceProfile_default;
     _ \<leftarrow> (if \<not> isUserAclExists \<and> \<not> IsLnnAcl env p
           then notify (NotifyTrustDeviceProfileAdd trustProfile) else return DP_SUCCESS);
     trustProfile \<leftarrow>
       (if \<not> isAccountAclExists \<and> \<not> IsLnnAcl env p then do {
          (_, serviceIdList) \<leftarrow> QueryServiceIdList env p [];
          let trustProfile = trustProfile\<lparr>tp_serviceIdList := serviceIdList\<rparr>;
          _ \<leftarrow> notify (NotifyAccountAclAdd trustProfile);
          return trustProfile
        } else return trustProfile);
     resultSet \<leftarrow> GetResultSet env SELECT_TRUST_DEVICE_TABLE_WHERE_DEVICEID [RStr (acl_trustDeviceId p)];
     case resultSet of
       None \<Rightarrow> return DP_GET_RESULTSET_FAIL
     | Some rs \<Rightarrow>
         if rowCount rs = 0 then do {
           _ \<leftarrow> PutTrustDeviceProfile env trustProfile;
           return DP_SUCCESS
         } else do {
           (ret, status) \<leftarrow> GetResultStatus env (acl_trustDeviceId p) STATUS_INIT;
           if ret \<noteq> DP_SUCCESS then return DP_GET_RESULTSET_FAIL
           else do {
             ret \<leftarrow> UpdateTrustDeviceProfile env (trustProfile\<lparr>tp_status := status\<rparr>);
             return (if ret \<noteq> DP_SUCCESS then DP_UPDATE_TRUST_DEVICE_PROFILE_FAIL else DP_SUCCESS)
           }
         }
   }"

definition DpAclAdd :: "AccessControlProfile \<Rightarrow> ('a TrustManager, unit) state" where
  "DpAclAdd p = State (\<lambda>m. ((), m\<lparr>tm_aclAdded := tm_aclAdded m @
     [(acl_accessControlId p, acl_trustDeviceId p, acl_bindType p)]\<rparr>))"

text \<open>
  The part of \<open>PutAccessControlProfile\<close> under the lock: it returns the code, the numbered list and
  whether a row was written.
\<close>

definition put_acl ::
  "'a TrustEnv \<Rightarrow> AccessControlProfile \<Rightarrow>
   ('a TrustManager, dp_ret \<times> AccessControlProfile \<times> bool) state" where
  "put_acl env profile = do {
     (ret, p) \<leftarrow> SetAccessControlProfileId env profile;
     if ret \<noteq> DP_SUCCESS then return (ret, p, False)
     else do {
       ret \<leftarrow> PutAccesserProfile env p;
       if ret \<noteq> DP_SUCCESS then return (ret, p, False)
       else do {
         ret \<leftarrow> PutAccesseeProfile env p;
         if ret \<noteq> DP_SUCCESS then return (ret, p, False)
         else do {
           exists \<leftarrow> IsAclExists env p;
           if exists = DP_DATA_EXISTS then return (DP_SUCCESS, p, False)
           else do {
             ret \<leftarrow> rdb_call (ir_Put (te_rdb env) (-1) ACCESS_CONTROL_TABLE
                      (AccessControlProfileToEntries p));
             let ret = rdb_code DP_PUT_ACL_PROFILE_FAIL ret;
             return (ret, p, ret = DP_SUCCESS)
           }
         }
       }
     }
   }"

definition PutAccessControlProfile ::
  "'a TrustEnv \<Rightarrow> AccessControlProfile \<Rightarrow> ('a TrustManager, dp_ret) state" where
  "PutAccessControlProfile env profile = do {
     (_, isUserAclExists) \<leftarrow> CheckDeviceIdAndUserIdExists env profile;
     (_, isAccountAclExists) \<leftarrow> CheckAccountAclExists env profile;
     (ret, p, written) \<leftarrow> put_acl env profile;
     if \<not> written then return ret
     else do {
       ret \<leftarrow> PutAclCheck env p isUserAclExists isAccountAclExists;
       if ret \<noteq> DP_SUCCESS then return ret
       else do {
         _ \<leftarrow> DpAclAdd p;
         return DP_SUCCESS
       }
     }
   }"

section \<open>Updating a list\<close>

definition UpdateAccesserProfile ::
  "'a TrustEnv \<Rightarrow> AccessControlProfile \<Rightarrow> ('a TrustManager, dp_ret) state" where
  "UpdateAccesserProfile env p = do {
     ret \<leftarrow> rdb_call (ir_Update (te_rdb env) (-1) ACCESSER_TABLE (AccesserToEntries p)
              [''accesserId''] [RInt (acl_accesserId p)]);
     return (rdb_code DP_UPDATE_ACCESSER_PROFILE_FAIL ret)
   }"

definition UpdateAccesseeProfile ::
  "'a TrustEnv \<Rightarrow> AccessControlProfile \<Rightarrow> ('a TrustManager, dp_ret) state" where
  "UpdateAccesseeProfile env p = do {
     ret \<leftarrow> rdb_call (ir_Update (te_rdb env) (-1) ACCESSEE_TABLE (AccesseeToEntries p)
              [''accesseeId''] [RInt (acl_accesseeId p)]);
     return (rdb_code DP_UPDATE_ACCESSEE_PROFILE_FAIL ret)
   }"

definition UpdateAclCheck ::
  "'a TrustEnv \<Rightarrow> AccessControlProfile \<Rightarrow> AccessControlProfile \<Rightarrow>
   ('a TrustManager, dp_ret \<times> AccessControlProfile) state" where
  "UpdateAclCheck env p old = do {
     resultSet \<leftarrow> GetResultSet env (SELECT_ACL_WHERE [''accessControlId'']) [RInt (acl_accessControlId p)];
     return (case resultSet of
       None \<Rightarrow> (DP_GET_RESULTSET_FAIL, old)
     | Some rs \<Rightarrow>
         if rowCount rs = 0 then (DP_NOT_FIND_DATA, old)
         else let old = snd (ConvertToAccessControlProfile (first_row rs) old) in
              if acl_accesseeId old \<noteq> ae_id (acl_accessee p) \<or>
                 acl_accesserId old \<noteq> ar_id (acl_accesser p) \<or>
                 acl_accesserId old \<noteq> acl_accesserId p \<or> acl_accesseeId old \<noteq> acl_accesseeId p
              then (DP_UPDATE_ACL_NOT_ALLOW, old) else (DP_SUCCESS, old))
   }"

definition NotifyAccountAclCheck ::
  "'a TrustEnv \<Rightarrow> AccessControlProfile \<Rightarrow> AccessControlProfile \<Rightarrow> ('a TrustManager, dp_ret) state" where
  "NotifyAccountAclCheck env p old = do {
     (ret, active) \<leftarrow> CheckAccountAclActiveCount env p 0;
     if ret \<noteq> DP_SUCCESS then return DP_NOTIFY_TRUST_DEVICE_FAIL
     else do {
       (_, serviceIdList) \<leftarrow> QueryServiceIdList env p [];
       let trustProfile = (TrustDeviceProfile_of_acl p TrustDeviceProfile_default)
             \<lparr>tp_serviceIdList := serviceIdList\<rparr>;
       ret \<leftarrow> (if active = 0 \<and> acl_status p = STATUS_INACTIVE \<and> acl_status old = STATUS_ACTIVE \<and>
                 \<not> IsLnnAcl env p
              then notify (NotifyAccountAclInactive trustProfile) else return DP_SUCCESS);
       if ret \<noteq> DP_SUCCESS then return DP_NOTIFY_TRUST_DEVICE_FAIL
       else do {
         ret \<leftarrow> (if active = 1 \<and> acl_status p = STATUS_ACTIVE \<and> acl_status old = STATUS_INACTIVE \<and>
                   \<not> IsLnnAcl env p
                then notify (NotifyAccountAclActive trustProfile) else return DP_SUCCESS);
         return (if ret \<noteq> DP_SUCCESS then DP_NOTIFY_TRUST_DEVICE_FAIL else DP_SUCCESS)
       }
     }
   }"

definition NotifyCheck ::
  "'a TrustEnv \<Rightarrow> AccessControlProfile \<Rightarrow> AccessControlProfile \<Rightarrow> ('a TrustManager, dp_ret) state" where
  "NotifyCheck env p old = do {
     _ \<leftarrow> NotifyAccountAclCheck env p old;
     (ret, active) \<leftarrow> CheckDeviceIdAndUserIdActive env p 0;
     if ret \<noteq> DP_SUCCESS then return DP_NOTIFY_TRUST_DEVICE_FAIL
     else do {
       let trustProfile = TrustDeviceProfile_of_acl p TrustDeviceProfile_default;
       ret \<leftarrow> (if active = 1 \<and> acl_status p = STATUS_ACTIVE \<and> acl_status old = STATUS_INACTIVE \<and>
                 \<not> IsLnnAcl env p
              then notify (NotifyTrustDeviceProfileActive trustProfile) else return DP_SUCCESS);
       if ret \<noteq> DP_SUCCESS then return DP_NOTIFY_TRUST_DEVICE_FAIL
       else do {
         ret \<leftarrow> (if active = 0 \<and> acl_status p = STATUS_INACTIVE \<and> acl_status old = STATUS_ACTIVE \<and>
                   \<not> IsLnnAcl env p
                then notify (NotifyTrustDeviceProfileInactive trustProfile) else return DP_SUCCESS);
         if ret \<noteq> DP_SUCCESS then return DP_NOTIFY_TRUST_DEVICE_FAIL
         else do {
           (_, isExists) \<leftarrow> CheckDeviceIdActiveAclExists env p;
           ret \<leftarrow> (if \<not> isExists \<and> \<not> IsLnnAcl env p
                  then notify (NotifyDeviceAclInactiveByUpdate trustProfile) else return DP_SUCCESS);
           return (if ret \<noteq> DP_SUCCESS then DP_NOTIFY_TRUST_DEVICE_FAIL else DP_SUCCESS)
         }
       }
     }
   }"

text \<open>The part of \<open>UpdateAccessControlProfile\<close> under the lock.\<close>

definition update_acl ::
  "'a TrustEnv \<Rightarrow> AccessControlProfile \<Rightarrow> ('a TrustManager, dp_ret \<times> AccessControlProfile) state" where
  "update_acl env p = do {
     (ret, old) \<leftarrow> UpdateAclCheck env p AccessControlProfile_default;
     if ret \<noteq> DP_SUCCESS then return (ret, old)
     else do {
       _ \<leftarrow> UpdateAccesserProfile env p;
       _ \<leftarrow> UpdateAccesseeProfile env p;
       ret \<leftarrow> rdb_call (ir_Update (te_rdb env) (-1) ACCESS_CONTROL_TABLE
                (AccessControlProfileToEntries p) [''accessControlId''] [RInt (acl_accessControlId p)]);
       return (rdb_code DP_UPDATE_ACL_PROFILE_FAIL ret, old)
     }
   }"

definition UpdateAccessControlProfile ::
  "'a TrustEnv \<Rightarrow> AccessControlProfile \<Rightarrow> ('a TrustManager, dp_ret) state" where
  "UpdateAccessControlProfile env p = do {
     (ret, old) \<leftarrow> update_acl env p;
     if ret \<noteq> DP_SUCCESS then return ret
     else do {
       _ \<leftarrow> NotifyCheck env p old;
       (_, status) \<leftarrow> GetResultStatus env (acl_trustDeviceId p) STATUS_INIT;
       ret \<leftarrow> UpdateTrustDeviceProfile env
                ((TrustDeviceProfile_of_acl p TrustDeviceProfile_default)\<lparr>tp_status := status\<rparr>);
       return (if ret \<noteq> DP_SUCCESS then DP_UPDATE_TRUST_DEVICE_PROFILE_FAIL else DP_SUCCESS)
     }
   }"

section \<open>Deleting a list\<close>

definition DeleteAccesserCheck ::
  "'a TrustEnv \<Rightarrow> int \<Rightarrow> Accesser \<Rightarrow> ('a TrustManager, dp_ret \<times> Accesser) state" where
  "DeleteAccesserCheck env accesserId accesser = do {
     resultSet \<leftarrow> GetResultSet env (SELECT_ACL_WHERE [''accesserId'']) [RInt accesserId];
     case resultSet of
       None \<Rightarrow> return (DP_GET_RESULTSET_FAIL, accesser)
     | Some acls \<Rightarrow> do {
         resultSet \<leftarrow> GetResultSet env (SELECT_ACCESSER_WHERE [''accesserId'']) [RInt accesserId];
         case resultSet of
           None \<Rightarrow> return (DP_GET_RESULTSET_FAIL, accesser)
         | Some rs \<Rightarrow> do {
             let accesser = snd (ConvertToAccesser (first_row rs) accesser);
             if rowCount acls = 1 then do {
               ret \<leftarrow> rdb_call (ir_Delete (te_rdb env) (-1) ACCESSER_TABLE [''accesserId''] [RInt accesserId]);
               return (rdb_code DP_DELETE_ACCESSER_PROFILE_FAIL ret, accesser)
             } else return (DP_SUCCESS, accesser)
           }
       }
   }"

definition DeleteAccesseeCheck ::
  "'a TrustEnv \<Rightarrow> int \<Rightarrow> Accessee \<Rightarrow> ('a TrustManager, dp_ret \<times> Accessee) state" where
  "DeleteAccesseeCheck env accesseeId accessee = do {
     resultSet \<leftarrow> GetResultSet env (SELECT_ACL_WHERE [''accesseeId'']) [RInt accesseeId];
     case resultSet of
       None \<Rightarrow> return (DP_GET_RESULTSET_FAIL, accessee)
     | Some acls \<Rightarrow> do {
         resultSet \<leftarrow> GetResultSet env (SELECT_ACCESSEE_WHERE [''accesseeId'']) [RInt accesseeId];
         case resultSet of
           None \<Rightarrow> return (DP_GET_RESULTSET_FAIL, accessee)
         | Some rs \<Rightarrow> do {
             let accessee = snd (ConvertToAccessee (first_row rs) accessee);
             if rowCount acls = 1 then do {
               ret \<leftarrow> rdb_call (ir_Delete (te_rdb env) (-1) ACCESSEE_TABLE [''accesseeId''] [RInt accesseeId]);
               return (rdb_code DP_DELETE_ACCESSEE_PROFILE_FAIL ret, accessee)
             } else return (DP_SUCCESS, accessee)
           }
       }
   }"

definition DeleteAccessControlProfileCheck ::
  "'a TrustEnv \<Rightarrow> AccessControlProfile \<Rightarrow> ('a TrustManager, dp_ret \<times> AccessControlProfile) state" where
  "DeleteAccessControlProfileCheck env p = do {
     (ret, accessee) \<leftarrow> DeleteAccesseeCheck env (acl_accesseeId p) Accessee_default;
     if ret \<noteq> DP_SUCCESS then return (ret, p)
     else do {
       (ret, accesser) \<leftarrow> DeleteAccesserCheck env (acl_accesserId p) Accesser_default;
       if ret \<noteq> DP_SUCCESS then return (ret, p)
       else do {
         ret \<leftarrow> rdb_call (ir_Delete (te_rdb env) (-1) ACCESS_CONTROL_TABLE [''accessControlId'']
                  [RInt (acl_accessControlId p)]);
         let ret = rdb_code DP_DELETE_ACCESS_CONTROL_PROFILE_FAIL ret;
         return (ret, if ret \<noteq> DP_SUCCESS then p
                      else p\<lparr>acl_accesser := accesser, acl_accessee := accessee\<rparr>)
       }
     }
   }"

definition DeleteTrustDeviceCheck ::
  "'a TrustEnv \<Rightarrow> AccessControlProfile \<Rightarrow> ('a TrustManager, dp_ret) state" where
  "DeleteTrustDeviceCheck env p = do {
     let trustProfile = TrustDeviceProfile_of_acl p TrustDeviceProfile_default;
     (_, isExists) \<leftarrow> CheckDeviceIdAndUserIdExists env p;
     _ \<leftarrow> (if \<not> isExists \<and> \<not> IsLnnAcl env p
           then notify (NotifyTrustDeviceProfileDelete trustProfile) else return DP_SUCCESS);
     (_, isExists) \<leftarrow> CheckDeviceIdActiveAclExists env p;
     _ \<leftarrow> (if \<not> isExists \<and> \<not> IsLnnAcl env p
           then notify (NotifyDeviceAclInactiveByDelete trustProfile) else return DP_SUCCESS);
     (_, isExists) \<leftarrow> CheckAccountAclExists env p;
     trustProfile \<leftarrow>
       (if \<not> isExists \<and> \<not> IsLnnAcl env p then do {
          (_, serviceIdList) \<leftarrow> QueryServiceIdList env p [];
          let trustProfile = trustProfile\<lparr>tp_serviceIdList := serviceIdList\<rparr>;
          _ \<leftarrow> notify (NotifyAccountAclDelete trustProfile);
          return trustProfile
        } else return trustProfile);
     resultSet \<leftarrow> GetResultSet env (SELECT_ACL_WHERE [''trustDeviceId'']) [RStr (acl_trustDeviceId p)];
     case resultSet of
       None \<Rightarrow> return DP_GET_RESULTSET_FAIL
     | Some rs \<Rightarrow>
         if rowCount rs = 0 then DeleteTrustDeviceProfile env (acl_trustDeviceId p)
         else do {
           (_, status) \<leftarrow> GetResultStatus env (acl_trustDeviceId p) STATUS_INIT;
           UpdateTrustDeviceProfile env (trustProfile\<lparr>tp_status := status\<rparr>)
         }
   }"

text \<open>The part of \<open>DeleteAccessControlProfile\<close> under the lock.\<close>

definition delete_acl ::
  "'a TrustEnv \<Rightarrow> int \<Rightarrow> ('a TrustManager, dp_ret \<times> AccessControlProfile) state" where
  "delete_acl env accessControlId = do {
     resultSet \<leftarrow> GetResultSet env (SELECT_ACL_WHERE [''accessControlId'']) [RInt accessControlId];
     case resultSet of
       None \<Rightarrow> return (DP_GET_RESULTSET_FAIL, AccessControlProfile_default)
     | Some rs \<Rightarrow>
         if rowCount rs = 0 \<or> first_row rs = None then return (DP_NOT_FIND_DATA, AccessControlProfile_default)
         else DeleteAccessControlProfileCheck env
                (snd (ConvertToAccessControlProfile (first_row rs) AccessControlProfile_default))
   }"

definition DeleteAccessControlProfile :: "'a TrustEnv \<Rightarrow> int \<Rightarrow> ('a TrustManager, dp_ret) state" where
  "DeleteAccessControlProfile env accessControlId = do {
     (ret, p) \<leftarrow> delete_acl env accessControlId;
     if ret \<noteq> DP_SUCCESS then return ret else DeleteTrustDeviceCheck env p
   }"

section \<open>Session keys\<close>

definition GetUserIdBySessionKeyId ::
  "'a TrustEnv \<Rightarrow> int \<Rightarrow> int \<Rightarrow> ('a TrustManager, dp_ret \<times> int) state" where
  "GetUserIdBySessionKeyId env sessionKeyId userId = do {
     accesserResultSet \<leftarrow> GetResultSet env (SELECT_ACCESSER_WHERE [''accesserSessionKeyId'']) [RInt sessionKeyId];
     case accesserResultSet of
       None \<Rightarrow> return (DP_GET_RESULTSET_FAIL, userId)
     | Some rs \<Rightarrow>
         if rowCount rs > 0
         then return (DP_SUCCESS, if rs_rows rs = [] then userId
                                  else row_int (last (rs_rows rs)) ''accesserUserId'')
         else do {
           accesseeResultSet \<leftarrow> GetResultSet env (SELECT_ACCESSEE_WHERE [''accesseeSessionKeyId'']) [RInt sessionKeyId];
           return (case accesseeResultSet of
             None \<Rightarrow> (DP_GET_RESULTSET_FAIL, userId)
           | Some rs \<Rightarrow>
               if rowCount rs \<le> 0 then (DP_NOT_FIND_DATA, userId)
               else (DP_SUCCESS, if rs_rows rs = [] then userId
                                 else row_int (last (rs_rows rs)) ''accesseeUserId''))
         }
   }"

definition CheckSessionKeyIdExists :: "'a TrustEnv \<Rightarrow> int \<Rightarrow> ('a TrustManager, bool) state" where
  "CheckSessionKeyIdExists env sessionKeyId = do {
     accesserResultSet \<leftarrow> GetResultSet env (SELECT_ACCESSER_WHERE [''accesserSessionKeyId'']) [RInt sessionKeyId];
     case accesserResultSet of
       None \<Rightarrow> return False
     | Some rs \<Rightarrow>
         if rowCount rs > 0 then return True
         else do {
           accesseeResultSet \<leftarrow> GetResultSet env (SELECT_ACCESSEE_WHERE [''accesseeSessionKeyId'']) [RInt sessionKeyId];
           return (case accesseeResultSet of None \<Rightarrow> False | Some rs \<Rightarrow> rowCount rs > 0)
         }
   }"

end
