(* ===== verification/TrustLogic.thy ===== *)
theory TrustLogic
  imports TrustOps
begin

text \<open>
  The logic of the trust manager's programs: the tables a state shows, and a rule for each access to
  the adapter, proved once from the adapter's contract \<open>rdb_reads\<close>. A state in which reading cannot
  fail is alive; where nothing is known of that, no state is.
\<close>

section \<open>States\<close>

definition tm_tables :: "('a \<Rightarrow> tables) \<Rightarrow> 'a TrustManager \<Rightarrow> tables" where
  "tm_tables db m = (case tm_rdb m of None \<Rightarrow> (\<lambda>_. []) | Some a \<Rightarrow> db a)"

definition tm_alive :: "('a \<Rightarrow> bool) \<Rightarrow> 'a TrustManager \<Rightarrow> bool" where
  "tm_alive live m = (case tm_rdb m of None \<Rightarrow> False | Some a \<Rightarrow> live a)"

text \<open>Only the adapter may differ, and it has not died.\<close>

definition tm_step :: "('a \<Rightarrow> bool) \<Rightarrow> 'a TrustManager \<Rightarrow> 'a TrustManager \<Rightarrow> bool" where
  "tm_step live m m' \<longleftrightarrow> m'\<lparr>tm_rdb := tm_rdb m\<rparr> = m \<and> (tm_alive live m \<longrightarrow> tm_alive live m')"

definition tm_same ::
  "('a \<Rightarrow> tables) \<Rightarrow> ('a \<Rightarrow> bool) \<Rightarrow> 'a TrustManager \<Rightarrow> 'a TrustManager \<Rightarrow> bool" where
  "tm_same db live m m' \<longleftrightarrow> tm_step live m m' \<and> tm_tables db m' = tm_tables db m"

lemma tm_step_refl [simp]: "tm_step live m m"
  by (simp add: tm_step_def)

lemma tm_step_trans: "tm_step live m m' \<Longrightarrow> tm_step live m' m'' \<Longrightarrow> tm_step live m m''"
  by (cases m; cases m'; cases m'') (simp add: tm_step_def)

lemma tm_same_refl [simp]: "tm_same db live m m"
  by (simp add: tm_same_def)

lemma tm_same_trans: "tm_same db live m m' \<Longrightarrow> tm_same db live m' m'' \<Longrightarrow> tm_same db live m m''"
  unfolding tm_same_def by (metis tm_step_trans)

lemma tm_stepD:
  assumes "tm_step live m m'"
  shows "tm_subscribe m' = tm_subscribe m" "tm_calls m' = tm_calls m"
    "tm_aclAdded m' = tm_aclAdded m" "tm_isInited m' = tm_isInited m"
  using assms by (cases m; cases m'; simp add: tm_step_def)+

lemma tm_sameD:
  assumes "tm_same db live m m'"
  shows "tm_tables db m' = tm_tables db m" "tm_alive live m \<Longrightarrow> tm_alive live m'"
    "tm_step live m m'"
  using assms by (simp_all add: tm_same_def tm_step_def)

lemma tm_same_subscribe: "tm_same db live m m' \<Longrightarrow> tm_subscribe m' = tm_subscribe m"
  by (rule tm_stepD(1) [OF tm_sameD(3)])

section \<open>Result sets\<close>

abbreviation rows_of :: "ValuesBucket list \<Rightarrow> ResultSet" where
  "rows_of rows \<equiv> \<lparr>rs_status = E_OK, rs_rows = rows\<rparr>"

lemma rowCount_rows [simp]: "rowCount (rows_of rows) = int (length rows)"
  by (simp add: rowCount_def)

lemma first_row_Cons [simp]: "first_row (rows_of (r # rows)) = Some r"
  by (simp add: first_row_def)

lemma first_row_None [simp]: "first_row (rows_of rows) = None \<longleftrightarrow> rows = []"
  by (simp add: first_row_def split: list.split)

definition short :: "sql_query \<Rightarrow> bool" where
  "short q \<longleftrightarrow> sql_text q \<noteq> [] \<and> length (sql_text q) \<le> MAX_STRING_LEN"

lemma length_join_with:
  "list_all (\<lambda>x. length x \<le> n) xs \<Longrightarrow> length (join_with sep xs) \<le> length xs * (n + length sep)"
  by (induction xs rule: join_with.induct) auto

lemma short_Select:
  assumes "length t \<le> 40" "list_all (\<lambda>c. length c \<le> 40) cols" "length cols \<le> 12"
  shows "short (Select t cols)"
proof -
  have "length (join_with '' and '' (map (\<lambda>c. c @ '' = ?'') cols)) \<le> length cols * (44 + 5)"
    using length_join_with [of 44 "map (\<lambda>c. c @ '' = ?'') cols" "'' and ''"] assms(2)
    by (simp add: list_all_length)
  then show ?thesis using assms by (simp add: short_def)
qed

lemma short_queries [simp]:
  "short (Select TRUST_DEVICE_TABLE [])" "short (Select TRUST_DEVICE_TABLE [''deviceId''])"
  "short (Select ACCESS_CONTROL_TABLE [])" "short (Select ACCESSER_TABLE [])"
  "short (Select ACCESSEE_TABLE [])" "short (Select ACCESSER_TABLE accesser_all)"
  "short (Select ACCESSEE_TABLE accessee_all)" "short (Select ACCESS_CONTROL_TABLE acl_cols)"
  "short (Select ACCESS_CONTROL_TABLE [''trustDeviceId''])"
  "short (Select ACCESS_CONTROL_TABLE [''accessControlId''])"
  "short (Select ACCESS_CONTROL_TABLE [''accesserId''])"
  "short (Select ACCESS_CONTROL_TABLE [''accesseeId''])"
  "short (Select ACCESSER_TABLE [''accesserId''])" "short (Select ACCESSEE_TABLE [''accesseeId''])"
  "short (Select ACCESSER_TABLE [''accesserId'', ''accesserUserId''])"
  "short (Select ACCESSEE_TABLE [''accesseeId'', ''accesseeUserId''])"
  by (rule short_Select; simp add: accesser_all_def accessee_all_def acl_cols_def)+

lemma length_args [simp]:
  "length (accesser_args a) = 12" "length (accessee_args e) = 12" "length (acl_args p) = 11"
  by (simp_all add: accesser_args_def accessee_args_def acl_args_def)

lemma rdb_code_success [simp]:
  "fail \<noteq> DP_SUCCESS \<Longrightarrow> rdb_code fail r = DP_SUCCESS \<longleftrightarrow> r = Some DP_SUCCESS"
  by (simp add: rdb_code_def split: option.split)

section \<open>Rules of the adapter\<close>

lemma rdb_adapter_reads: "rdb_adapter ir db \<Longrightarrow> rdb_reads ir db (\<lambda>_. False)"
  by (simp add: rdb_reads_def rdb_reads_axioms_def)

context rdb_reads
begin

abbreviation tabs :: "'a TrustManager \<Rightarrow> tables" where
  "tabs \<equiv> tm_tables db"

text \<open>\<open>m0\<close> is the state since which nothing was written.\<close>

lemma wp_GetResultSet:
  assumes env: "te_rdb env = ir" and start: "tm_same db live m0 m"
    and q: "short (Select t cols)" "length args \<le> MAX_PARAM_SIZE"
    and some: "\<And>m'. tm_same db live m0 m' \<Longrightarrow> Q (Some (rows_of (selected t cols args (tabs m0)))) m'"
    and none: "\<And>m'. tm_same db live m0 m' \<Longrightarrow> \<not> tm_alive live m0 \<Longrightarrow> Q None m'"
  shows "wp (GetResultSet env (Select t cols) args) Q m"
proof (cases "tm_rdb m")
  case None
  then show ?thesis using none [OF start] tm_sameD(2) [OF start]
    by (auto simp: GetResultSet_def tm_alive_def)
next
  case (Some a)
  obtain r a' where g: "ir_Get ir (Select t cols) args a = (r, a')" by force
  let ?m = "m\<lparr>tm_rdb := Some a'\<rparr>"
  have "live a \<Longrightarrow> \<exists>x. r = Some x \<and> live a'" using live_get [of a "Select t cols" args] g by force
  then have alive: "tm_alive live m \<Longrightarrow> r \<noteq> None \<and> tm_alive live ?m"
    using Some by (auto simp: tm_alive_def)
  have "tm_same db live m ?m"
    using alive get [OF g] Some by (auto simp: tm_same_def tm_step_def tm_tables_def)
  with start have same: "tm_same db live m0 ?m" by (rule tm_same_trans)
  have "r = None \<or> r = Some (rows_of (selected t cols args (tabs m0)))"
    using rows [of t cols args a] g Some tm_sameD(1) [OF start]
    by (cases r) (auto simp: tm_tables_def intro: ResultSet.equality)
  moreover have "wp (GetResultSet env (Select t cols) args) Q m = Q r ?m"
    using q env Some g by (auto simp: GetResultSet_def short_def)
  ultimately show ?thesis using some none same alive tm_sameD(2) [OF start] by auto
qed

lemma wp_rdb_call:
  assumes f: "\<And>a ret n a'. f a = ((ret, n), a') \<Longrightarrow>
      (if ret = DP_SUCCESS then P (db a) (db a') else db a' = db a) \<and> (live a \<longrightarrow> live a')"
    and Q: "\<And>ret m'. tm_step live m m' \<Longrightarrow>
      (if ret = Some DP_SUCCESS then P (tabs m) (tabs m') else tabs m' = tabs m) \<Longrightarrow> Q ret m'"
  shows "wp (rdb_call f) Q m"
proof (cases "tm_rdb m")
  case None
  then show ?thesis using Q [of m None] by (simp add: rdb_call_def)
next
  case (Some a)
  obtain ret n a' where "f a = ((ret, n), a')" by (metis prod.exhaust)
  with f [OF this] Some show ?thesis
    using Q [of "m\<lparr>tm_rdb := Some a'\<rparr>" "Some ret"]
    by (simp add: rdb_call_def tm_step_def tm_alive_def tm_tables_def)
qed

lemma wp_put:
  assumes "te_rdb env = ir"
    and Q: "\<And>ret m'. tm_step live m m' \<Longrightarrow>
      (if ret = Some DP_SUCCESS then inserted t v (tabs m) (tabs m') else tabs m' = tabs m) \<Longrightarrow> Q ret m'"
  shows "wp (rdb_call (ir_Put (te_rdb env) n t v)) Q m"
  unfolding assms(1)
proof (rule wp_rdb_call [OF _ Q])
  fix a ret k a'
  assume "ir_Put ir n t v a = ((ret, k), a')"
  with put [OF this] live_put [of a n t v]
  show "(if ret = DP_SUCCESS then inserted t v (db a) (db a') else db a' = db a) \<and>
      (live a \<longrightarrow> live a')" by simp
qed

lemma wp_update:
  assumes "te_rdb env = ir"
    and Q: "\<And>ret m'. tm_step live m m' \<Longrightarrow>
      (if ret = Some DP_SUCCESS
       then keeps_keys t v cols args (tabs m t) \<longrightarrow> tabs m' = updated t v cols args (tabs m)
       else tabs m' = tabs m) \<Longrightarrow> Q ret m'"
  shows "wp (rdb_call (ir_Update (te_rdb env) n t v cols args)) Q m"
  unfolding assms(1)
proof (rule wp_rdb_call [where P = "\<lambda>d d'. keeps_keys t v cols args (d t) \<longrightarrow>
    d' = updated t v cols args d", OF _ Q])
  fix a ret k a'
  assume "ir_Update ir n t v cols args a = ((ret, k), a')"
  with update [OF this] live_update [of a n t v cols args]
  show "(if ret = DP_SUCCESS
      then keeps_keys t v cols args (db a t) \<longrightarrow> db a' = updated t v cols args (db a)
      else db a' = db a) \<and> (live a \<longrightarrow> live a')" by simp
qed

lemma wp_delete:
  assumes "te_rdb env = ir"
    and Q: "\<And>ret m'. tm_step live m m' \<Longrightarrow>
      (if ret = Some DP_SUCCESS then tabs m' = deleted t cols args (tabs m) else tabs m' = tabs m) \<Longrightarrow>
      Q ret m'"
  shows "wp (rdb_call (ir_Delete (te_rdb env) n t cols args)) Q m"
  unfolding assms(1)
proof (rule wp_rdb_call [where P = "\<lambda>d d'. d' = deleted t cols args d", OF _ Q])
  fix a ret k a'
  assume "ir_Delete ir n t cols args a = ((ret, k), a')"
  with delete [OF this] live_delete [of a n t cols args]
  show "(if ret = DP_SUCCESS then db a' = deleted t cols args (db a) else db a' = db a) \<and>
      (live a \<longrightarrow> live a')" by simp
qed

lemma tabs_ok: "t \<in> set TABLES \<Longrightarrow> table_ok t (tabs m t)"
  by (simp add: tm_tables_def keys split: option.split)

end

lemma wp_notify:
  "(\<And>m'. m' = m\<lparr>tm_calls := tm_calls m @ snd (f (tm_subscribe m))\<rparr> \<Longrightarrow> Q (fst (f (tm_subscribe m))) m') \<Longrightarrow>
   wp (notify f) Q m"
  by (cases "f (tm_subscribe m)") (simp add: notify_def)

end
