(* ===== verification/TrustLaws.thy ===== *)
theory TrustLaws
  imports TrustLogic
begin

text \<open>
  What the trust manager's operations do to the tables. The rows are those of profiles, the numbers
  are positive and each list refers to an accesser and an accessee that exist; putting and updating
  a list keep that whatever fails in between. Each operation is related to a reference function on
  the tables.
\<close>

section \<open>Well-formed tables\<close>

definition acl_of :: "ValuesBucket \<Rightarrow> AccessControlProfile" where
  "acl_of r = snd (ConvertToAccessControlProfile (Some r) AccessControlProfile_default)"

definition accesser_of :: "ValuesBucket \<Rightarrow> Accesser" where
  "accesser_of r = snd (ConvertToAccesser (Some r) Accesser_default)"

definition accessee_of :: "ValuesBucket \<Rightarrow> Accessee" where
  "accessee_of r = snd (ConvertToAccessee (Some r) Accessee_default)"

definition device_of :: "ValuesBucket \<Rightarrow> TrustDeviceProfile" where
  "device_of r = snd (ConvertToTrustDeviceProfile (Some r) TrustDeviceProfile_default)"

text \<open>The row written for what a row reads as is the row.\<close>

definition row_typed :: "string \<Rightarrow> ValuesBucket \<Rightarrow> bool" where
  "row_typed t r \<longleftrightarrow>
     (if t = ACCESS_CONTROL_TABLE then AccessControlProfileToEntries (acl_of r) = r
      else if t = ACCESSER_TABLE
      then AccesserToEntries (AccessControlProfile_default\<lparr>acl_accesser := accesser_of r\<rparr>) = r
      else if t = ACCESSEE_TABLE
      then AccesseeToEntries (AccessControlProfile_default\<lparr>acl_accessee := accessee_of r\<rparr>) = r
      else if t = TRUST_DEVICE_TABLE then TrustDeviceProfileToEntries (device_of r) = r
      else True)"

definition row_id :: "string \<Rightarrow> ValuesBucket \<Rightarrow> int" where
  "row_id t r = row_int r (key_col t)"

definition numbered_tables :: "string list" where
  "numbered_tables = [ACCESS_CONTROL_TABLE, ACCESSER_TABLE, ACCESSEE_TABLE]"

definition rows_ok :: "tables \<Rightarrow> bool" where
  "rows_ok d \<longleftrightarrow>
     (\<forall>t\<in>set (TRUST_DEVICE_TABLE # numbered_tables). list_all (row_typed t) (d t)) \<and>
     (\<forall>t\<in>set numbered_tables. list_all (\<lambda>r. 0 < row_id t r) (d t))"

definition refs_ok :: "tables \<Rightarrow> bool" where
  "refs_ok d \<longleftrightarrow> list_all (\<lambda>r.
     row_int r ''accesserId'' \<in> row_id ACCESSER_TABLE ` set (d ACCESSER_TABLE) \<and>
     row_int r ''accesseeId'' \<in> row_id ACCESSEE_TABLE ` set (d ACCESSEE_TABLE)) (d ACCESS_CONTROL_TABLE)"

definition trust_ok :: "tables \<Rightarrow> bool" where
  "trust_ok d \<longleftrightarrow> rows_ok d \<and> refs_ok d"

lemma key_cols [simp]:
  "key_col TRUST_DEVICE_TABLE = ''deviceId''" "key_col ACCESS_CONTROL_TABLE = ''accessControlId''"
  "key_col ACCESSER_TABLE = ''accesserId''" "key_col ACCESSEE_TABLE = ''accesseeId''"
  by (simp_all add: key_col_def)

section \<open>Written rows\<close>

lemma acl_of_entries [simp]:
  "acl_of (AccessControlProfileToEntries p) =
     p\<lparr>acl_accesser := Accesser_default, acl_accessee := Accessee_default\<rparr>"
  by (simp add: acl_of_def ConvertToAccessControlProfile_row AccessControlProfile_default_def)

lemma accesser_of_entries [simp]: "accesser_of (AccesserToEntries p) = acl_accesser p"
  by (simp add: accesser_of_def ConvertToAccesser_row)

lemma accessee_of_entries [simp]: "accessee_of (AccesseeToEntries p) = acl_accessee p"
  by (simp add: accessee_of_def ConvertToAccessee_row)

lemma entries_typed [simp]:
  "row_typed ACCESS_CONTROL_TABLE (AccessControlProfileToEntries p)"
  "row_typed ACCESSER_TABLE (AccesserToEntries p)"
  "row_typed ACCESSEE_TABLE (AccesseeToEntries p)"
  by (simp_all add: row_typed_def) (simp_all add: AccessControlProfileToEntries_def AccesserToEntries_def AccesseeToEntries_def)

lemma device_typed [simp]: "row_typed TRUST_DEVICE_TABLE (TrustDeviceProfileToEntries p)"
  by (simp add: row_typed_def TrustDeviceProfileToEntries_def device_of_def
      ConvertToTrustDeviceProfile_def row_defs)

lemma entries_int [simp]:
  "row_int (AccessControlProfileToEntries p) ''accessControlId'' = acl_accessControlId p"
  "row_int (AccessControlProfileToEntries p) ''accesserId'' = acl_accesserId p"
  "row_int (AccessControlProfileToEntries p) ''accesseeId'' = acl_accesseeId p"
  "row_int (AccessControlProfileToEntries p) ''status'' = acl_status p"
  "row_int (AccesserToEntries p) ''accesserId'' = ar_id (acl_accesser p)"
  "row_int (AccesseeToEntries p) ''accesseeId'' = ae_id (acl_accessee p)"
  by (simp_all add: AccessControlProfileToEntries_def AccesserToEntries_def AccesseeToEntries_def
      row_defs Let_def)

section \<open>Rows that match\<close>

text \<open>On rows of profiles a match of columns is a match of fields.\<close>

lemma typed_acl: "row_typed ACCESS_CONTROL_TABLE r \<Longrightarrow> r = AccessControlProfileToEntries (acl_of r)"
  by (simp add: row_typed_def)

lemma typed_accesser:
  "row_typed ACCESSER_TABLE r \<Longrightarrow>
   r = AccesserToEntries (AccessControlProfile_default\<lparr>acl_accesser := accesser_of r\<rparr>)"
  by (simp add: row_typed_def)

lemma typed_accessee:
  "row_typed ACCESSEE_TABLE r \<Longrightarrow>
   r = AccesseeToEntries (AccessControlProfile_default\<lparr>acl_accessee := accessee_of r\<rparr>)"
  by (simp add: row_typed_def)

lemma typed_device: "row_typed TRUST_DEVICE_TABLE r \<Longrightarrow> r = TrustDeviceProfileToEntries (device_of r)"
  by (simp add: row_typed_def)

lemma match_entries:
  "row_matches [''accessControlId''] [RInt i] (AccessControlProfileToEntries p) \<longleftrightarrow> acl_accessControlId p = i"
  "row_matches [''accesserId''] [RInt i] (AccessControlProfileToEntries p) \<longleftrightarrow> acl_accesserId p = i"
  "row_matches [''accesseeId''] [RInt i] (AccessControlProfileToEntries p) \<longleftrightarrow> acl_accesseeId p = i"
  "row_matches [''trustDeviceId''] [RStr s] (AccessControlProfileToEntries p) \<longleftrightarrow> acl_trustDeviceId p = s"
  "row_matches acl_cols (acl_args q) (AccessControlProfileToEntries p) \<longleftrightarrow> acl_args p = acl_args q"
  "row_matches [''accesserId''] [RInt i] (AccesserToEntries p) \<longleftrightarrow> ar_id (acl_accesser p) = i"
  "row_matches [''accesseeId''] [RInt i] (AccesseeToEntries p) \<longleftrightarrow> ae_id (acl_accessee p) = i"
  "row_matches accesser_all (accesser_args a) (AccesserToEntries p) \<longleftrightarrow> accesser_args (acl_accesser p) = accesser_args a"
  "row_matches accessee_all (accessee_args e) (AccesseeToEntries p) \<longleftrightarrow> accessee_args (acl_accessee p) = accessee_args e"
  "row_matches [''deviceId''] [RStr s] (TrustDeviceProfileToEntries x) \<longleftrightarrow> tp_deviceId x = s"
  by (simp_all add: row_matches_def AccessControlProfileToEntries_def AccesserToEntries_def
      AccesseeToEntries_def TrustDeviceProfileToEntries_def acl_cols_def acl_args_def
      accesser_all_def accesser_args_def accessee_all_def accessee_args_def Let_def)

lemma acl_args_sides [simp]:
  "acl_args (p\<lparr>acl_accesser := a, acl_accessee := e\<rparr>) = acl_args p"
  by (simp add: acl_args_def)

lemma match_acl:
  assumes "row_typed ACCESS_CONTROL_TABLE r"
  shows "row_matches [''accessControlId''] [RInt i] r \<longleftrightarrow> row_id ACCESS_CONTROL_TABLE r = i"
    "row_matches [''accesserId''] [RInt i] r \<longleftrightarrow> row_int r ''accesserId'' = i"
    "row_matches [''accesseeId''] [RInt i] r \<longleftrightarrow> row_int r ''accesseeId'' = i"
    "row_matches [''trustDeviceId''] [RStr s] r \<longleftrightarrow> acl_trustDeviceId (acl_of r) = s"
    "row_matches acl_cols (acl_args q) r \<longleftrightarrow> acl_args (acl_of r) = acl_args q"
proof -
  obtain p where "r = AccessControlProfileToEntries p" using typed_acl [OF assms] by metis
  then show "row_matches [''accessControlId''] [RInt i] r \<longleftrightarrow> row_id ACCESS_CONTROL_TABLE r = i"
    "row_matches [''accesserId''] [RInt i] r \<longleftrightarrow> row_int r ''accesserId'' = i"
    "row_matches [''accesseeId''] [RInt i] r \<longleftrightarrow> row_int r ''accesseeId'' = i"
    "row_matches [''trustDeviceId''] [RStr s] r \<longleftrightarrow> acl_trustDeviceId (acl_of r) = s"
    "row_matches acl_cols (acl_args q) r \<longleftrightarrow> acl_args (acl_of r) = acl_args q"
    by (simp_all add: match_entries row_id_def)
qed

lemma match_accesser:
  assumes "row_typed ACCESSER_TABLE r"
  shows "row_matches [''accesserId''] [RInt i] r \<longleftrightarrow> row_id ACCESSER_TABLE r = i"
    "row_matches accesser_all (accesser_args a) r \<longleftrightarrow> accesser_args (accesser_of r) = accesser_args a"
proof -
  obtain p where "r = AccesserToEntries p" using typed_accesser [OF assms] by metis
  then show "row_matches [''accesserId''] [RInt i] r \<longleftrightarrow> row_id ACCESSER_TABLE r = i"
    "row_matches accesser_all (accesser_args a) r \<longleftrightarrow> accesser_args (accesser_of r) = accesser_args a"
    by (simp_all add: match_entries row_id_def)
qed

lemma match_accessee:
  assumes "row_typed ACCESSEE_TABLE r"
  shows "row_matches [''accesseeId''] [RInt i] r \<longleftrightarrow> row_id ACCESSEE_TABLE r = i"
    "row_matches accessee_all (accessee_args e) r \<longleftrightarrow> accessee_args (accessee_of r) = accessee_args e"
proof -
  obtain p where "r = AccesseeToEntries p" using typed_accessee [OF assms] by metis
  then show "row_matches [''accesseeId''] [RInt i] r \<longleftrightarrow> row_id ACCESSEE_TABLE r = i"
    "row_matches accessee_all (accessee_args e) r \<longleftrightarrow> accessee_args (accessee_of r) = accessee_args e"
    by (simp_all add: match_entries row_id_def)
qed

section \<open>Numbers\<close>

definition next_id :: "string \<Rightarrow> tables \<Rightarrow> int" where
  "next_id t d = (if d t = [] then 1 else row_id t (last (d t)) + 1)"

definition accesser_id :: "Accesser \<Rightarrow> tables \<Rightarrow> int" where
  "accesser_id a d = (case selected ACCESSER_TABLE accesser_all (accesser_args a) d of
     [] \<Rightarrow> next_id ACCESSER_TABLE d | r # _ \<Rightarrow> row_id ACCESSER_TABLE r)"

definition accessee_id :: "Accessee \<Rightarrow> tables \<Rightarrow> int" where
  "accessee_id e d = (case selected ACCESSEE_TABLE accessee_all (accessee_args e) d of
     [] \<Rightarrow> next_id ACCESSEE_TABLE d | r # _ \<Rightarrow> row_id ACCESSEE_TABLE r)"

definition numbered :: "AccessControlProfile \<Rightarrow> tables \<Rightarrow> AccessControlProfile" where
  "numbered p d =
     (let i = accesser_id (acl_accesser p) d; j = accessee_id (acl_accessee p) d in
      p\<lparr>acl_accessControlId := next_id ACCESS_CONTROL_TABLE d, acl_accesserId := i,
        acl_accesseeId := j, acl_accesser := acl_accesser p\<lparr>ar_id := i\<rparr>,
        acl_accessee := acl_accessee p\<lparr>ae_id := j\<rparr>\<rparr>)"

lemma selected_all [simp]: "selected t [] [] d = d t"
  by (simp add: selected_def row_matches_def)

lemma table_sorted:
  "table_ok t rows \<Longrightarrow> t \<in> set numbered_tables \<Longrightarrow> sorted (map (row_id t) rows)"
  unfolding row_id_def [abs_def] by (auto simp: table_ok_def numbered_tables_def)

lemma table_rows_le:
  assumes "table_ok t rows" "t \<in> set numbered_tables" "r \<in> set rows"
  shows "row_id t r \<le> row_id t (last rows)"
proof -
  have "sorted (map (row_id t) rows)" using assms(1,2) by (rule table_sorted)
  with assms(3) show ?thesis by (induction rows) auto
qed

lemma next_id_fresh:
  "table_ok t (d t) \<Longrightarrow> t \<in> set numbered_tables \<Longrightarrow> r \<in> set (d t) \<Longrightarrow> row_id t r < next_id t d"
  using table_rows_le [of t "d t" r] by (auto simp: next_id_def)

lemma next_id_pos:
  assumes "rows_ok d" "t \<in> set numbered_tables"
  shows "0 < next_id t d"
proof -
  from assms have "\<forall>r\<in>set (d t). 0 < row_id t r" by (auto simp: rows_ok_def list_all_iff)
  then show ?thesis using last_in_set [of "d t"] by (fastforce simp: next_id_def)
qed

text \<open>A row with a number above all others is the last one.\<close>

lemma inserted_last:
  assumes "inserted t v d d'" "table_ok t (d' t)" "t \<in> set numbered_tables"
    and "\<And>r. r \<in> set (d t) \<Longrightarrow> row_id t r < row_id t v"
  shows "d' = d(t := d t @ [v])"
proof -
  obtain xs ys where d: "d t = xs @ ys" and d': "d' = d(t := xs @ v # ys)"
    using assms(1) by (auto simp: inserted_def)
  have "sorted (map (row_id t) (xs @ v # ys))"
    using table_sorted [OF assms(2,3)] d' by simp
  then have "\<forall>y\<in>set ys. row_id t v \<le> row_id t y" by (auto simp: sorted_append)
  with assms(4) d have "ys = []" by (cases ys) force+
  with d d' show ?thesis by simp
qed

context rdb_reads
begin

lemma wp_SetAccessControlId:
  assumes "te_rdb env = ir" "tm_same db live m0 m"
    and "\<And>m'. tm_same db live m0 m' \<Longrightarrow>
      Q (DP_SUCCESS, p\<lparr>acl_accessControlId := next_id ACCESS_CONTROL_TABLE (tabs m0)\<rparr>) m'"
    and "\<And>m'. tm_same db live m0 m' \<Longrightarrow> \<not> tm_alive live m0 \<Longrightarrow> Q (DP_GET_RESULTSET_FAIL, p) m'"
  shows "wp (SetAccessControlId env p) Q m"
  unfolding SetAccessControlId_def
  using assms(2-)
  by (auto intro!: wp_GetResultSet [where ?m0.0 = m0] assms(1) simp: next_id_def last_id_def row_id_def)

lemma wp_SetAccesserId:
  assumes "te_rdb env = ir" "tm_same db live m0 m"
    and "\<And>m'. tm_same db live m0 m' \<Longrightarrow>
      Q (DP_SUCCESS, p\<lparr>acl_accesserId := accesser_id (acl_accesser p) (tabs m0)\<rparr>) m'"
    and "\<And>m'. tm_same db live m0 m' \<Longrightarrow> \<not> tm_alive live m0 \<Longrightarrow> Q (DP_GET_RESULTSET_FAIL, p) m'"
  shows "wp (SetAccesserId env p) Q m"
  unfolding SetAccesserId_def
  using assms(2-)
  by (cases "selected ACCESSER_TABLE accesser_all (accesser_args (acl_accesser p)) (tabs m0)")
    (auto intro!: wp_GetResultSet [where ?m0.0 = m0] assms(1)
      simp: accesser_id_def next_id_def last_id_def row_id_def split: list.splits)

lemma wp_SetAccesseeId:
  assumes "te_rdb env = ir" "tm_same db live m0 m"
    and "\<And>m'. tm_same db live m0 m' \<Longrightarrow>
      Q (DP_SUCCESS, p\<lparr>acl_accesseeId := accessee_id (acl_accessee p) (tabs m0)\<rparr>) m'"
    and "\<And>m'. tm_same db live m0 m' \<Longrightarrow> \<not> tm_alive live m0 \<Longrightarrow> Q (DP_GET_RESULTSET_FAIL, p) m'"
  shows "wp (SetAccesseeId env p) Q m"
  unfolding SetAccesseeId_def
  using assms(2-)
  by (cases "selected ACCESSEE_TABLE accessee_all (accessee_args (acl_accessee p)) (tabs m0)")
    (auto intro!: wp_GetResultSet [where ?m0.0 = m0] assms(1)
      simp: accessee_id_def next_id_def last_id_def row_id_def split: list.splits)

lemma wp_SetAccessControlProfileId:
  assumes "te_rdb env = ir"
    and ok: "\<And>m'. tm_same db live m m' \<Longrightarrow> Q (DP_SUCCESS, numbered p (tabs m)) m'"
    and fail: "\<And>ret q m'. tm_same db live m m' \<Longrightarrow> ret \<noteq> DP_SUCCESS \<Longrightarrow> \<not> tm_alive live m \<Longrightarrow> Q (ret, q) m'"
  shows "wp (SetAccessControlProfileId env p) Q m"
  unfolding SetAccessControlProfileId_def
  using ok fail
  by (auto intro!: wp_SetAccessControlId [where ?m0.0 = m] wp_SetAccesserId [where ?m0.0 = m]
      wp_SetAccesseeId [where ?m0.0 = m] assms(1) simp: numbered_def Let_def)

end

section \<open>Putting a list\<close>

definition put_accesser :: "AccessControlProfile \<Rightarrow> tables \<Rightarrow> tables" where
  "put_accesser q d =
     (if selected ACCESSER_TABLE accesser_all (accesser_args (acl_accesser q)) d = []
      then d(ACCESSER_TABLE := d ACCESSER_TABLE @ [AccesserToEntries q]) else d)"

definition put_accessee :: "AccessControlProfile \<Rightarrow> tables \<Rightarrow> tables" where
  "put_accessee q d =
     (if selected ACCESSEE_TABLE accessee_all (accessee_args (acl_accessee q)) d = []
      then d(ACCESSEE_TABLE := d ACCESSEE_TABLE @ [AccesseeToEntries q]) else d)"

definition put_row :: "AccessControlProfile \<Rightarrow> tables \<Rightarrow> tables" where
  "put_row q d = d(ACCESS_CONTROL_TABLE := d ACCESS_CONTROL_TABLE @ [AccessControlProfileToEntries q])"

text \<open>
  What \<open>put_acl p\<close> may do to the tables \<open>d\<close>: write all rows that are missing, or find that the list
  is there, or fail after any of the writes.
\<close>

definition put_outcome ::
  "AccessControlProfile \<Rightarrow> tables \<Rightarrow> bool \<Rightarrow> dp_ret \<times> AccessControlProfile \<times> bool \<Rightarrow> tables \<Rightarrow> bool" where
  "put_outcome p d alive res d' \<longleftrightarrow>
     (let q = numbered p d; d1 = put_accesser q d; d2 = put_accessee q d1;
          known = selected ACCESS_CONTROL_TABLE acl_cols (acl_args q) d;
          (ret, x, written) = res in
      if written then ret = DP_SUCCESS \<and> x = q \<and> d' = put_row q d2 \<and> (alive \<longrightarrow> known = [])
      else if ret = DP_SUCCESS then d' = d2 \<and> known \<noteq> []
      else d' \<in> {d, d1, d2})"

lemma accesser_args_id [simp]: "accesser_args (a\<lparr>ar_id := i\<rparr>) = accesser_args a"
  by (simp add: accesser_args_def)

lemma accessee_args_id [simp]: "accessee_args (e\<lparr>ae_id := i\<rparr>) = accessee_args e"
  by (simp add: accessee_args_def)

lemma numbered_simps [simp]:
  "acl_accessControlId (numbered p d) = next_id ACCESS_CONTROL_TABLE d"
  "acl_accesserId (numbered p d) = accesser_id (acl_accesser p) d"
  "acl_accesseeId (numbered p d) = accessee_id (acl_accessee p) d"
  "acl_accesser (numbered p d) = acl_accesser p\<lparr>ar_id := accesser_id (acl_accesser p) d\<rparr>"
  "acl_accessee (numbered p d) = acl_accessee p\<lparr>ae_id := accessee_id (acl_accessee p) d\<rparr>"
  "acl_trustDeviceId (numbered p d) = acl_trustDeviceId p" "acl_status (numbered p d) = acl_status p"
  "acl_extraData (numbered p d) = acl_extraData p" "acl_bindType (numbered p d) = acl_bindType p"
  by (simp_all add: numbered_def Let_def)

lemma selected_other [simp]: "t \<noteq> t' \<Longrightarrow> selected t cols args (d(t' := x)) = selected t cols args d"
  by (simp add: selected_def)

lemma put_other [simp]:
  "t \<noteq> ACCESSER_TABLE \<Longrightarrow> put_accesser q d t = d t" "t \<noteq> ACCESSEE_TABLE \<Longrightarrow> put_accessee q d t = d t"
  "t \<noteq> ACCESS_CONTROL_TABLE \<Longrightarrow> put_row q d t = d t"
  by (simp_all add: put_accesser_def put_accessee_def put_row_def)

lemma numbered_new:
  "selected ACCESSER_TABLE accesser_all (accesser_args (acl_accesser p)) d = [] \<Longrightarrow>
   accesser_id (acl_accesser p) d = next_id ACCESSER_TABLE d"
  "selected ACCESSEE_TABLE accessee_all (accessee_args (acl_accessee p)) d = [] \<Longrightarrow>
   accessee_id (acl_accessee p) d = next_id ACCESSEE_TABLE d"
  by (simp_all add: accesser_id_def accessee_id_def)

lemma next_id_other: "d t = d' t \<Longrightarrow> next_id t d = next_id t d'"
  by (simp add: next_id_def)

lemma selected_cong: "d t = d' t \<Longrightarrow> selected t cols args d = selected t cols args d'"
  by (simp add: selected_def)

context rdb_reads
begin

lemma wp_PutAccesserProfile:
  assumes "te_rdb env = ir"
    and id: "selected ACCESSER_TABLE accesser_all (accesser_args (acl_accesser q)) (tabs m) = [] \<Longrightarrow>
      ar_id (acl_accesser q) = next_id ACCESSER_TABLE (tabs m)"
    and Q: "\<And>ret m'. tm_step live m m' \<Longrightarrow>
      tabs m' = (if ret = DP_SUCCESS then put_accesser q (tabs m) else tabs m) \<Longrightarrow> Q ret m'"
  shows "wp (PutAccesserProfile env q) Q m"
proof -
  let ?sel = "selected ACCESSER_TABLE accesser_all (accesser_args (acl_accesser q)) (tabs m)"
  have ins: "tabs m2 = put_accesser q (tabs m)"
    if "?sel = []" "inserted ACCESSER_TABLE (AccesserToEntries q) (tabs m1) (tabs m2)"
      "tabs m1 = tabs m" for m1 m2
    using that(1) inserted_last [OF that(2) tabs_ok] id [OF that(1)] that(3)
      next_id_fresh [of ACCESSER_TABLE "tabs m", OF tabs_ok]
    by (simp add: put_accesser_def TABLES_def numbered_tables_def row_id_def)
  show ?thesis
    unfolding PutAccesserProfile_def wp_bind
    apply (rule wp_GetResultSet [OF assms(1) tm_same_refl])
       apply simp_all
    subgoal for m1
      apply (intro conjI impI)
      subgoal using Q [of m1] by (simp add: tm_same_def put_accesser_def)
      subgoal
        apply (rule wp_put [OF assms(1)])
        subgoal for ret m2
          using Q [OF tm_step_trans [of live m m1 m2], of "rdb_code DP_PUT_ACCESSER_PROFILE_FAIL ret"]
            ins [of m1 m2] tm_sameD [of db live m m1]
          by (cases "ret = Some DP_SUCCESS") simp_all
        done
      done
    subgoal for m1 using Q [of m1 DP_GET_RESULTSET_FAIL] by (simp add: tm_same_def)
    done
qed

lemma wp_PutAccesseeProfile:
  assumes "te_rdb env = ir"
    and id: "selected ACCESSEE_TABLE accessee_all (accessee_args (acl_accessee q)) (tabs m) = [] \<Longrightarrow>
      ae_id (acl_accessee q) = next_id ACCESSEE_TABLE (tabs m)"
    and Q: "\<And>ret m'. tm_step live m m' \<Longrightarrow>
      tabs m' = (if ret = DP_SUCCESS then put_accessee q (tabs m) else tabs m) \<Longrightarrow> Q ret m'"
  shows "wp (PutAccesseeProfile env q) Q m"
proof -
  let ?sel = "selected ACCESSEE_TABLE accessee_all (accessee_args (acl_accessee q)) (tabs m)"
  have ins: "tabs m2 = put_accessee q (tabs m)"
    if "?sel = []" "inserted ACCESSEE_TABLE (AccesseeToEntries q) (tabs m1) (tabs m2)"
      "tabs m1 = tabs m" for m1 m2
    using that(1) inserted_last [OF that(2) tabs_ok] id [OF that(1)] that(3)
      next_id_fresh [of ACCESSEE_TABLE "tabs m", OF tabs_ok]
    by (simp add: put_accessee_def TABLES_def numbered_tables_def row_id_def)
  show ?thesis
    unfolding PutAccesseeProfile_def wp_bind
    apply (rule wp_GetResultSet [OF assms(1) tm_same_refl])
       apply simp_all
    subgoal for m1
      apply (intro conjI impI)
      subgoal using Q [of m1] by (simp add: tm_same_def put_accessee_def)
      subgoal
        apply (rule wp_put [OF assms(1)])
        subgoal for ret m2
          using Q [OF tm_step_trans [of live m m1 m2], of "rdb_code DP_PUT_ACCESSEE_PROFILE_FAIL ret"]
            ins [of m1 m2] tm_sameD [of db live m m1]
          by (cases "ret = Some DP_SUCCESS") simp_all
        done
      done
    subgoal for m1 using Q [of m1 DP_GET_RESULTSET_FAIL] by (simp add: tm_same_def)
    done
qed

lemma put_row_inserted:
  assumes "inserted ACCESS_CONTROL_TABLE (AccessControlProfileToEntries q) (tabs m) (tabs m')"
    and "acl_accessControlId q = next_id ACCESS_CONTROL_TABLE (tabs m)"
  shows "tabs m' = put_row q (tabs m)"
  using inserted_last [OF assms(1) tabs_ok] assms(2)
    next_id_fresh [of ACCESS_CONTROL_TABLE "tabs m", OF tabs_ok]
  by (simp add: put_row_def TABLES_def numbered_tables_def row_id_def)

lemma wp_put_acl:
  assumes "te_rdb env = ir"
    and Q: "\<And>res m'. tm_step live m m' \<Longrightarrow>
      put_outcome p (tabs m) (tm_alive live m) res (tabs m') \<Longrightarrow> Q res m'"
  shows "wp (put_acl env p) Q m"
proof -
  let ?d = "tabs m" and ?q = "numbered p (tabs m)"
  let ?d1 = "put_accesser ?q ?d"
  let ?d2 = "put_accessee ?q ?d1"
  have wrote: "wp (rdb_call (ir_Put (te_rdb env) (-1) ACCESS_CONTROL_TABLE (AccessControlProfileToEntries ?q)))
       (\<lambda>ret. wp (return (rdb_code DP_PUT_ACL_PROFILE_FAIL ret, ?q,
                rdb_code DP_PUT_ACL_PROFILE_FAIL ret = DP_SUCCESS)) Q) m3"
    if "tm_step live m m3" "tabs m3 = ?d2"
      "tm_alive live m \<longrightarrow> selected ACCESS_CONTROL_TABLE acl_cols (acl_args ?q) ?d = []" for m3
  proof (rule wp_put [OF assms(1)])
    fix ret m4
    assume s: "tm_step live m3 m4" and "if ret = Some DP_SUCCESS
      then inserted ACCESS_CONTROL_TABLE (AccessControlProfileToEntries ?q) (tabs m3) (tabs m4)
      else tabs m4 = tabs m3"
    moreover have "next_id ACCESS_CONTROL_TABLE (tabs m3) = next_id ACCESS_CONTROL_TABLE ?d"
      by (rule next_id_other) (simp add: that(2))
    ultimately have "tabs m4 = (if ret = Some DP_SUCCESS then put_row ?q ?d2 else ?d2)"
      using put_row_inserted [of ?q m3 m4] that(2) by (cases "ret = Some DP_SUCCESS") simp_all
    then show "wp (return (rdb_code DP_PUT_ACL_PROFILE_FAIL ret, ?q,
        rdb_code DP_PUT_ACL_PROFILE_FAIL ret = DP_SUCCESS)) Q m4"
      using Q [OF tm_step_trans [OF that(1) s]] that(3) by (simp add: put_outcome_def Let_def)
  qed
  have exists: "wp (IsAclExists env ?q) (\<lambda>exists. wp (if exists = DP_DATA_EXISTS
        then return (DP_SUCCESS, ?q, False)
        else rdb_call (ir_Put (te_rdb env) (-1) ACCESS_CONTROL_TABLE (AccessControlProfileToEntries ?q)) \<bind>
          (\<lambda>ret. return (rdb_code DP_PUT_ACL_PROFILE_FAIL ret, ?q,
             rdb_code DP_PUT_ACL_PROFILE_FAIL ret = DP_SUCCESS))) Q) m2"
    if s: "tm_step live m m2" "tabs m2 = ?d2" for m2
  proof -
    have known: "selected ACCESS_CONTROL_TABLE acl_cols (acl_args ?q) (tabs m2) =
        selected ACCESS_CONTROL_TABLE acl_cols (acl_args ?q) ?d"
      by (rule selected_cong) (simp add: s(2))
    have alive: "tm_alive live m \<Longrightarrow> tm_alive live m2" using s(1) by (simp add: tm_step_def)
    have next1: "tm_step live m m3 \<and> tabs m3 = ?d2" if "tm_same db live m2 m3" for m3
      using that s tm_step_trans by (auto simp: tm_same_def)
    show ?thesis
      unfolding IsAclExists_def wp_bind
      apply (rule wp_GetResultSet [OF assms(1) tm_same_refl])
         apply simp_all
      subgoal for m3
        using next1 [of m3] wrote [of m3] Q [of m3 "(DP_SUCCESS, ?q, False)"]
        by (auto simp: known put_outcome_def Let_def)
      subgoal for m3
        using next1 [of m3] wrote [of m3] alive by auto
      done
  qed
  have failed: "Q (ret, ?q, False) m'" if "tm_step live m m'" "ret \<noteq> DP_SUCCESS"
      "tabs m' \<in> {?d, ?d1, ?d2}" for ret m'
    using that by (intro Q) (auto simp: put_outcome_def Let_def)
  show ?thesis
    unfolding put_acl_def wp_bind Let_def
    apply (rule wp_SetAccessControlProfileId [OF assms(1)])
    subgoal for m1
      apply simp
      apply (rule wp_PutAccesserProfile [OF assms(1)])
      subgoal by (simp add: tm_sameD(1) numbered_new)
      subgoal for ret m2
        apply (cases "ret = DP_SUCCESS")
        subgoal
          apply simp
          apply (rule wp_PutAccesseeProfile [OF assms(1)])
          subgoal
            using numbered_new(2) [of p ?d]
            by (simp add: tm_sameD(1) next_id_def selected_def)
          subgoal for ret' m3
            using exists [of m3, unfolded wp_bind] failed [of m3 ret'] tm_sameD [of db live m m1]
              tm_step_trans [of live m m1 m2] tm_step_trans [of live m m2 m3]
            by (cases "ret' = DP_SUCCESS") simp_all
          done
        subgoal
          using failed [of m2 ret] tm_sameD [of db live m m1] tm_step_trans [of live m m1 m2] by simp
        done
      done
    subgoal for ret q m1
      using Q [of m1 "(ret, q, False)"] by (simp add: tm_same_def put_outcome_def Let_def)
    done
qed

end

section \<open>Deleting a list\<close>

text \<open>One side of a deletion: the row goes when exactly one list refers to it.\<close>

definition delete_side :: "string \<Rightarrow> string \<Rightarrow> int \<Rightarrow> tables \<Rightarrow> tables" where
  "delete_side t col i d =
     (if length (selected ACCESS_CONTROL_TABLE [col] [RInt i] d) = 1 then deleted t [col] [RInt i] d else d)"

definition read_accesser :: "int \<Rightarrow> tables \<Rightarrow> Accesser" where
  "read_accesser i d = snd (ConvertToAccesser
     (first_row (rows_of (selected ACCESSER_TABLE [''accesserId''] [RInt i] d))) Accesser_default)"

definition read_accessee :: "int \<Rightarrow> tables \<Rightarrow> Accessee" where
  "read_accessee i d = snd (ConvertToAccessee
     (first_row (rows_of (selected ACCESSEE_TABLE [''accesseeId''] [RInt i] d))) Accessee_default)"

definition delete_outcome ::
  "int \<Rightarrow> tables \<Rightarrow> dp_ret \<times> AccessControlProfile \<Rightarrow> tables \<Rightarrow> bool" where
  "delete_outcome i d res d' \<longleftrightarrow>
     (case selected ACCESS_CONTROL_TABLE [''accessControlId''] [RInt i] d of
        [] \<Rightarrow> fst res \<noteq> DP_SUCCESS \<and> d' = d
      | r # _ \<Rightarrow>
          let p = acl_of r;
              d1 = delete_side ACCESSEE_TABLE ''accesseeId'' (acl_accesseeId p) d;
              d2 = delete_side ACCESSER_TABLE ''accesserId'' (acl_accesserId p) d1 in
          if fst res = DP_SUCCESS
          then d' = deleted ACCESS_CONTROL_TABLE [''accessControlId''] [RInt (acl_accessControlId p)] d2 \<and>
               snd res = p\<lparr>acl_accesser := read_accesser (acl_accesserId p) d,
                            acl_accessee := read_accessee (acl_accesseeId p) d\<rparr>
          else d' \<in> {d, d1, d2})"

lemma deleted_other [simp]: "t \<noteq> t' \<Longrightarrow> deleted t' cols args d t = d t"
  by (simp add: deleted_def)

lemma delete_side_other [simp]: "t \<noteq> t' \<Longrightarrow> delete_side t' col i d t = d t"
  by (simp add: delete_side_def)

lemma read_accesser_other [simp]: "read_accesser i (delete_side ACCESSEE_TABLE col j d) = read_accesser i d"
  by (simp add: read_accesser_def selected_def)

context rdb_reads
begin

lemma wp_DeleteAccesserCheck:
  assumes "te_rdb env = ir"
    and Q: "\<And>ret a m'. tm_step live m m' \<Longrightarrow>
      tabs m' = (if ret = DP_SUCCESS then delete_side ACCESSER_TABLE ''accesserId'' i (tabs m) else tabs m) \<Longrightarrow>
      ret = DP_SUCCESS \<longrightarrow> a = read_accesser i (tabs m) \<Longrightarrow> Q (ret, a) m'"
  shows "wp (DeleteAccesserCheck env i Accesser_default) Q m"
proof -
  let ?n = "length (selected ACCESS_CONTROL_TABLE [''accesserId''] [RInt i] (tabs m))"
  let ?a = "read_accesser i (tabs m)"
  have del: "wp (rdb_call (ir_Delete (te_rdb env) (-1) ACCESSER_TABLE [''accesserId''] [RInt i]))
      (\<lambda>ret. Q (rdb_code DP_DELETE_ACCESSER_PROFILE_FAIL ret, ?a)) m1"
    if "tm_same db live m m1" "?n = Suc 0" for m1
  proof (rule wp_delete [OF assms(1)])
    fix ret m2
    assume "tm_step live m1 m2" "if ret = Some DP_SUCCESS
      then tabs m2 = deleted ACCESSER_TABLE [''accesserId''] [RInt i] (tabs m1) else tabs m2 = tabs m1"
    then show "Q (rdb_code DP_DELETE_ACCESSER_PROFILE_FAIL ret, ?a) m2"
      using that tm_step_trans [of live m m1 m2] tm_sameD [of db live m m1]
      by (intro Q) (auto simp: delete_side_def split: if_splits)
  qed
  have skip: "Q (DP_SUCCESS, ?a) m1" if "tm_same db live m m1" "?n \<noteq> Suc 0" for m1
    using that by (intro Q) (auto simp: tm_same_def delete_side_def)
  have failed: "Q (DP_GET_RESULTSET_FAIL, Accesser_default) m1" if "tm_same db live m m1" for m1
    using that by (intro Q) (auto simp: tm_same_def)
  show ?thesis
    unfolding DeleteAccesserCheck_def Let_def
    using del skip failed
    by (auto intro!: wp_GetResultSet [where ?m0.0 = m] assms(1) simp: read_accesser_def)
qed

lemma wp_DeleteAccesseeCheck:
  assumes "te_rdb env = ir"
    and Q: "\<And>ret a m'. tm_step live m m' \<Longrightarrow>
      tabs m' = (if ret = DP_SUCCESS then delete_side ACCESSEE_TABLE ''accesseeId'' i (tabs m) else tabs m) \<Longrightarrow>
      ret = DP_SUCCESS \<longrightarrow> a = read_accessee i (tabs m) \<Longrightarrow> Q (ret, a) m'"
  shows "wp (DeleteAccesseeCheck env i Accessee_default) Q m"
proof -
  let ?n = "length (selected ACCESS_CONTROL_TABLE [''accesseeId''] [RInt i] (tabs m))"
  let ?a = "read_accessee i (tabs m)"
  have del: "wp (rdb_call (ir_Delete (te_rdb env) (-1) ACCESSEE_TABLE [''accesseeId''] [RInt i]))
      (\<lambda>ret. Q (rdb_code DP_DELETE_ACCESSEE_PROFILE_FAIL ret, ?a)) m1"
    if "tm_same db live m m1" "?n = Suc 0" for m1
  proof (rule wp_delete [OF assms(1)])
    fix ret m2
    assume "tm_step live m1 m2" "if ret = Some DP_SUCCESS
      then tabs m2 = deleted ACCESSEE_TABLE [''accesseeId''] [RInt i] (tabs m1) else tabs m2 = tabs m1"
    then show "Q (rdb_code DP_DELETE_ACCESSEE_PROFILE_FAIL ret, ?a) m2"
      using that tm_step_trans [of live m m1 m2] tm_sameD [of db live m m1]
      by (intro Q) (auto simp: delete_side_def split: if_splits)
  qed
  have skip: "Q (DP_SUCCESS, ?a) m1" if "tm_same db live m m1" "?n \<noteq> Suc 0" for m1
    using that by (intro Q) (auto simp: tm_same_def delete_side_def)
  have failed: "Q (DP_GET_RESULTSET_FAIL, Accessee_default) m1" if "tm_same db live m m1" for m1
    using that by (intro Q) (auto simp: tm_same_def)
  show ?thesis
    unfolding DeleteAccesseeCheck_def Let_def
    using del skip failed
    by (auto intro!: wp_GetResultSet [where ?m0.0 = m] assms(1) simp: read_accessee_def)
qed

text \<open>The check of one list that was read.\<close>

lemma wp_DeleteAccessControlProfileCheck:
  assumes "te_rdb env = ir"
    and Q: "\<And>ret x m'. tm_step live m m' \<Longrightarrow>
      (let d = tabs m; d1 = delete_side ACCESSEE_TABLE ''accesseeId'' (acl_accesseeId p) d;
           d2 = delete_side ACCESSER_TABLE ''accesserId'' (acl_accesserId p) d1 in
       if ret = DP_SUCCESS
       then tabs m' = deleted ACCESS_CONTROL_TABLE [''accessControlId''] [RInt (acl_accessControlId p)] d2 \<and>
            x = p\<lparr>acl_accesser := read_accesser (acl_accesserId p) d,
                  acl_accessee := read_accessee (acl_accesseeId p) d\<rparr>
       else tabs m' \<in> {d, d1, d2}) \<Longrightarrow> Q (ret, x) m'"
  shows "wp (DeleteAccessControlProfileCheck env p) Q m"
  unfolding DeleteAccessControlProfileCheck_def wp_bind Let_def
  apply (rule wp_DeleteAccesseeCheck [OF assms(1)])
  subgoal for ret1 a1 m1
    apply (cases "ret1 = DP_SUCCESS")
    subgoal
      apply simp
      apply (rule wp_DeleteAccesserCheck [OF assms(1)])
      subgoal for ret2 a2 m2
        apply (cases "ret2 = DP_SUCCESS")
        subgoal
          apply simp
          apply (rule wp_delete [OF assms(1)])
          subgoal for ret3 m3
            using Q [OF tm_step_trans [OF tm_step_trans [of live m m1 m2], of m3],
                of "rdb_code DP_DELETE_ACCESS_CONTROL_PROFILE_FAIL ret3"]
            by (cases "ret3 = Some DP_SUCCESS") (simp_all add: Let_def)
          done
        subgoal
          using Q [OF tm_step_trans [of live m m1 m2], of ret2 p] by (simp add: Let_def)
        done
      done
    subgoal using Q [of m1 ret1 p] by (simp add: Let_def)
    done
  done

lemma wp_delete_acl:
  assumes "te_rdb env = ir"
    and Q: "\<And>res m'. tm_step live m m' \<Longrightarrow> delete_outcome i (tabs m) res (tabs m') \<Longrightarrow> Q res m'"
  shows "wp (delete_acl env i) Q m"
proof -
  let ?sel = "selected ACCESS_CONTROL_TABLE [''accessControlId''] [RInt i] (tabs m)"
  have none: "Q (ret, AccessControlProfile_default) m1"
    if "tm_same db live m m1" "ret \<noteq> DP_SUCCESS" for m1 ret
    using that by (intro Q) (auto simp: tm_same_def delete_outcome_def Let_def split: list.split)
  show ?thesis
    unfolding delete_acl_def wp_bind
    apply (rule wp_GetResultSet [OF assms(1) tm_same_refl])
       apply simp_all
    subgoal for m1
      using none [of m1 DP_NOT_FIND_DATA]
      apply (cases ?sel)
       apply simp
      subgoal for r rs
        apply simp
        apply (rule wp_DeleteAccessControlProfileCheck [OF assms(1)])
        subgoal for ret x m2
          using Q [OF tm_step_trans [of live m m1 m2], of "(ret, x)"] tm_sameD [of db live m m1]
          by (cases "ret = DP_SUCCESS") (simp_all add: delete_outcome_def acl_of_def Let_def)
        done
      done
    subgoal for m1 using none [of m1] by simp
    done
qed

end

section \<open>Updating a list\<close>

definition upd_accesser :: "AccessControlProfile \<Rightarrow> tables \<Rightarrow> tables" where
  "upd_accesser p = updated ACCESSER_TABLE (AccesserToEntries p) [''accesserId''] [RInt (acl_accesserId p)]"

definition upd_accessee :: "AccessControlProfile \<Rightarrow> tables \<Rightarrow> tables" where
  "upd_accessee p = updated ACCESSEE_TABLE (AccesseeToEntries p) [''accesseeId''] [RInt (acl_accesseeId p)]"

definition upd_row :: "AccessControlProfile \<Rightarrow> tables \<Rightarrow> tables" where
  "upd_row p = updated ACCESS_CONTROL_TABLE (AccessControlProfileToEntries p) [''accessControlId'']
     [RInt (acl_accessControlId p)]"

text \<open>The update of either side may fail without being noticed.\<close>

definition upd_sides :: "AccessControlProfile \<Rightarrow> tables \<Rightarrow> tables list" where
  "upd_sides p d = [d, upd_accesser p d, upd_accessee p d, upd_accessee p (upd_accesser p d)]"

definition upd_allowed :: "AccessControlProfile \<Rightarrow> AccessControlProfile \<Rightarrow> bool" where
  "upd_allowed p old \<longleftrightarrow>
     acl_accesserId p = acl_accesserId old \<and> ar_id (acl_accesser p) = acl_accesserId old \<and>
     acl_accesseeId p = acl_accesseeId old \<and> ae_id (acl_accessee p) = acl_accesseeId old"

definition update_outcome ::
  "AccessControlProfile \<Rightarrow> tables \<Rightarrow> dp_ret \<times> AccessControlProfile \<Rightarrow> tables \<Rightarrow> bool" where
  "update_outcome p d res d' \<longleftrightarrow>
     (case selected ACCESS_CONTROL_TABLE [''accessControlId''] [RInt (acl_accessControlId p)] d of
        [] \<Rightarrow> fst res \<noteq> DP_SUCCESS \<and> d' = d
      | r # _ \<Rightarrow>
          if \<not> upd_allowed p (acl_of r) then fst res \<noteq> DP_SUCCESS \<and> d' = d
          else if fst res = DP_SUCCESS
          then snd res = acl_of r \<and> d' \<in> upd_row p ` set (upd_sides p d)
          else d' \<in> set (upd_sides p d))"

lemma keeps_keys_entries:
  "ar_id (acl_accesser p) = i \<Longrightarrow> keeps_keys ACCESSER_TABLE (AccesserToEntries p) [''accesserId''] [RInt i] rows"
  "ae_id (acl_accessee p) = j \<Longrightarrow> keeps_keys ACCESSEE_TABLE (AccesseeToEntries p) [''accesseeId''] [RInt j] rows"
  "acl_accessControlId p = k \<Longrightarrow>
   keeps_keys ACCESS_CONTROL_TABLE (AccessControlProfileToEntries p) [''accessControlId''] [RInt k] rows"
  "tp_deviceId x = s \<Longrightarrow>
   keeps_keys TRUST_DEVICE_TABLE (TrustDeviceProfileToEntries x) [''deviceId''] [RStr s] rows"
  by (auto simp: keeps_keys_def row_matches_def row_key_def AccesserToEntries_def AccesseeToEntries_def
      AccessControlProfileToEntries_def TrustDeviceProfileToEntries_def Let_def)

context rdb_reads
begin

lemma wp_UpdateAccesserProfile:
  assumes "te_rdb env = ir" "ar_id (acl_accesser p) = acl_accesserId p"
    and Q: "\<And>ret m'. tm_step live m m' \<Longrightarrow> tabs m' \<in> {tabs m, upd_accesser p (tabs m)} \<Longrightarrow> Q ret m'"
  shows "wp (UpdateAccesserProfile env p) Q m"
  unfolding UpdateAccesserProfile_def wp_bind wp_return
  by (rule wp_update [OF assms(1)], rule Q)
    (auto simp: upd_accesser_def keeps_keys_entries(1) [OF assms(2)] split: if_splits)

lemma wp_UpdateAccesseeProfile:
  assumes "te_rdb env = ir" "ae_id (acl_accessee p) = acl_accesseeId p"
    and Q: "\<And>ret m'. tm_step live m m' \<Longrightarrow> tabs m' \<in> {tabs m, upd_accessee p (tabs m)} \<Longrightarrow> Q ret m'"
  shows "wp (UpdateAccesseeProfile env p) Q m"
  unfolding UpdateAccesseeProfile_def wp_bind wp_return
  by (rule wp_update [OF assms(1)], rule Q)
    (auto simp: upd_accessee_def keeps_keys_entries(2) [OF assms(2)] split: if_splits)

lemma wp_UpdateAclCheck:
  assumes "te_rdb env = ir"
    and Q: "\<And>ret old m'. tm_same db live m m' \<Longrightarrow>
      (case selected ACCESS_CONTROL_TABLE [''accessControlId''] [RInt (acl_accessControlId p)] (tabs m) of
         [] \<Rightarrow> ret \<noteq> DP_SUCCESS
       | r # _ \<Rightarrow> ret = DP_SUCCESS \<longrightarrow> old = acl_of r \<and> upd_allowed p old) \<Longrightarrow> Q (ret, old) m'"
  shows "wp (UpdateAclCheck env p AccessControlProfile_default) Q m"
proof -
  let ?sel = "selected ACCESS_CONTROL_TABLE [''accessControlId''] [RInt (acl_accessControlId p)] (tabs m)"
  show ?thesis
    unfolding UpdateAclCheck_def wp_bind wp_return
    apply (rule wp_GetResultSet [OF assms(1) tm_same_refl])
       apply simp_all
    subgoal for m1
      using Q [of m1]
      by (cases ?sel) (auto simp: upd_allowed_def acl_of_def Let_def)
    subgoal for m1
      using Q [of m1 DP_GET_RESULTSET_FAIL] by (simp split: list.split)
    done
qed

lemma wp_update_acl:
  assumes "te_rdb env = ir"
    and Q: "\<And>res m'. tm_step live m m' \<Longrightarrow> update_outcome p (tabs m) res (tabs m') \<Longrightarrow> Q res m'"
  shows "wp (update_acl env p) Q m"
proof -
  let ?d = "tabs m"
  let ?sel = "selected ACCESS_CONTROL_TABLE [''accessControlId''] [RInt (acl_accessControlId p)] ?d"
  have last: "wp (rdb_call (ir_Update (te_rdb env) (-1) ACCESS_CONTROL_TABLE (AccessControlProfileToEntries p)
        [''accessControlId''] [RInt (acl_accessControlId p)]))
      (\<lambda>ret. Q (rdb_code DP_UPDATE_ACL_PROFILE_FAIL ret, acl_of r)) m3"
    if "tm_step live m m3" "tabs m3 \<in> set (upd_sides p ?d)" "?sel = r # rs" "upd_allowed p (acl_of r)"
    for m3 r rs
  proof (rule wp_update [OF assms(1)])
    fix ret m4
    assume s: "tm_step live m3 m4" and "if ret = Some DP_SUCCESS
      then keeps_keys ACCESS_CONTROL_TABLE (AccessControlProfileToEntries p) [''accessControlId'']
             [RInt (acl_accessControlId p)] (tabs m3 ACCESS_CONTROL_TABLE) \<longrightarrow>
           tabs m4 = updated ACCESS_CONTROL_TABLE (AccessControlProfileToEntries p) [''accessControlId'']
             [RInt (acl_accessControlId p)] (tabs m3)
      else tabs m4 = tabs m3"
    then have "tabs m4 = (if ret = Some DP_SUCCESS then upd_row p (tabs m3) else tabs m3)"
      by (simp add: upd_row_def keeps_keys_entries(3) split: if_splits)
    with that show "Q (rdb_code DP_UPDATE_ACL_PROFILE_FAIL ret, acl_of r) m4"
      by (intro Q tm_step_trans [OF that(1) s]) (auto simp: update_outcome_def)
  qed
  show ?thesis
    unfolding update_acl_def wp_bind
    apply (rule wp_UpdateAclCheck [OF assms(1)])
    subgoal for ret old m1
      apply (cases "ret = DP_SUCCESS")
      subgoal
        apply (simp split: list.splits)
        apply (rule wp_UpdateAccesserProfile [OF assms(1)])
         apply (simp add: upd_allowed_def)
        apply (rule wp_UpdateAccesseeProfile [OF assms(1)])
         apply (simp add: upd_allowed_def)
        subgoal for r rs ret2 m2 ret3 m3
          using tm_step_trans [OF tm_step_trans [of live m m1 m2], of m3] tm_sameD [of db live m m1]
          by (intro last) (auto simp: upd_sides_def)
        done
      subgoal
        using Q [of m1 "(ret, old)"]
        by (auto simp: tm_same_def update_outcome_def upd_sides_def split: list.split)
      done
    done
qed

end

section \<open>The invariant\<close>

text \<open>The tables of the lists, without that of the devices.\<close>

definition lists_of :: "tables \<Rightarrow> tables" where
  "lists_of d = d(TRUST_DEVICE_TABLE := [])"

lemma selected_head:
  assumes "selected t cols args d = r # rs"
  shows "r \<in> set (d t)" "row_matches cols args r"
proof -
  have "r \<in> set (selected t cols args d)" by (simp add: assms)
  then show "r \<in> set (d t)" "row_matches cols args r" by (simp_all add: selected_def)
qed

lemma rows_okD:
  assumes "rows_ok d" "t \<in> set numbered_tables" "r \<in> set (d t)"
  shows "row_typed t r" "0 < row_id t r"
  using assms by (auto simp: rows_ok_def list_all_iff)

lemma trust_ok_devices:
  assumes "trust_ok d" "lists_of d' = lists_of d" "list_all (row_typed TRUST_DEVICE_TABLE) (d' TRUST_DEVICE_TABLE)"
  shows "trust_ok d'"
proof -
  have "d' t = d t" if "t \<noteq> TRUST_DEVICE_TABLE" for t
    using fun_cong [OF assms(2), of t] that by (simp add: lists_of_def)
  with assms(1,3) show ?thesis by (simp add: trust_ok_def rows_ok_def refs_ok_def numbered_tables_def)
qed

lemma rows_ok_append:
  assumes "rows_ok d" "row_typed t r" "t \<in> set numbered_tables" "0 < row_id t r"
  shows "rows_ok (d(t := d t @ [r]))"
  using assms by (auto simp: rows_ok_def numbered_tables_def)

lemma put_accesser_ok:
  assumes "trust_ok d" "0 < ar_id (acl_accesser q)"
  shows "trust_ok (put_accesser q d)"
proof -
  have "rows_ok (d(ACCESSER_TABLE := d ACCESSER_TABLE @ [AccesserToEntries q]))"
    using assms by (intro rows_ok_append) (auto simp: trust_ok_def numbered_tables_def row_id_def)
  with assms(1) show ?thesis
    by (auto simp: trust_ok_def put_accesser_def refs_ok_def list_all_iff)
qed

lemma put_accessee_ok:
  assumes "trust_ok d" "0 < ae_id (acl_accessee q)"
  shows "trust_ok (put_accessee q d)"
proof -
  have "rows_ok (d(ACCESSEE_TABLE := d ACCESSEE_TABLE @ [AccesseeToEntries q]))"
    using assms by (intro rows_ok_append) (auto simp: trust_ok_def numbered_tables_def row_id_def)
  with assms(1) show ?thesis
    by (auto simp: trust_ok_def put_accessee_def refs_ok_def list_all_iff)
qed

lemma put_row_ok:
  assumes "trust_ok d" "0 < acl_accessControlId q"
    and "acl_accesserId q \<in> row_id ACCESSER_TABLE ` set (d ACCESSER_TABLE)"
    and "acl_accesseeId q \<in> row_id ACCESSEE_TABLE ` set (d ACCESSEE_TABLE)"
  shows "trust_ok (put_row q d)"
proof -
  have "rows_ok (put_row q d)"
    unfolding put_row_def
    using assms by (intro rows_ok_append) (auto simp: trust_ok_def numbered_tables_def row_id_def)
  with assms show ?thesis by (auto simp: trust_ok_def put_row_def refs_ok_def list_all_iff)
qed

lemma accesser_id_in:
  "accesser_id (acl_accesser p) d \<in> row_id ACCESSER_TABLE ` set (put_accesser (numbered p d) d ACCESSER_TABLE)"
proof (cases "selected ACCESSER_TABLE accesser_all (accesser_args (acl_accesser p)) d")
  case (Cons r rs)
  then have "r \<in> set (d ACCESSER_TABLE)" by (rule selected_head)
  with Cons show ?thesis by (simp add: put_accesser_def accesser_id_def)
qed (simp add: put_accesser_def row_id_def)

lemma accessee_id_in:
  "accessee_id (acl_accessee p) d \<in> row_id ACCESSEE_TABLE `
     set (put_accessee (numbered p d) (put_accesser (numbered p d) d) ACCESSEE_TABLE)"
proof (cases "selected ACCESSEE_TABLE accessee_all (accessee_args (acl_accessee p)) d")
  case (Cons r rs)
  then have "r \<in> set (d ACCESSEE_TABLE)" by (rule selected_head)
  moreover have "selected ACCESSEE_TABLE accessee_all (accessee_args (acl_accessee p))
      (put_accesser (numbered p d) d) = r # rs"
    using Cons by (simp add: selected_def)
  ultimately show ?thesis using Cons by (simp add: put_accessee_def accessee_id_def)
next
  case Nil
  then have "selected ACCESSEE_TABLE accessee_all (accessee_args (acl_accessee p))
      (put_accesser (numbered p d) d) = []"
    by (simp add: selected_def)
  with Nil show ?thesis by (simp add: put_accessee_def row_id_def)
qed

lemma ids_pos:
  assumes "trust_ok d"
  shows "0 < accesser_id (acl_accesser p) d" "0 < accessee_id (acl_accessee p) d"
    "0 < next_id ACCESS_CONTROL_TABLE d"
proof -
  have rows: "rows_ok d" using assms by (simp add: trust_ok_def)
  show "0 < next_id ACCESS_CONTROL_TABLE d"
    using next_id_pos [OF rows] by (simp add: numbered_tables_def)
  show "0 < accesser_id (acl_accesser p) d"
    using next_id_pos [OF rows, of ACCESSER_TABLE] rows_okD(2) [OF rows, of ACCESSER_TABLE]
    by (auto simp: accesser_id_def numbered_tables_def split: list.split dest!: selected_head(1))
  show "0 < accessee_id (acl_accessee p) d"
    using next_id_pos [OF rows, of ACCESSEE_TABLE] rows_okD(2) [OF rows, of ACCESSEE_TABLE]
    by (auto simp: accessee_id_def numbered_tables_def split: list.split dest!: selected_head(1))
qed

theorem put_outcome_ok:
  assumes "put_outcome p d alive res d'" "trust_ok d"
  shows "trust_ok d'"
proof -
  let ?q = "numbered p d"
  let ?d1 = "put_accesser ?q d"
  let ?d2 = "put_accessee ?q ?d1"
  have 1: "trust_ok ?d1" using assms(2) ids_pos(1) [OF assms(2)] by (intro put_accesser_ok) simp_all
  have 2: "trust_ok ?d2" using 1 ids_pos(2) [OF assms(2)] by (intro put_accessee_ok) simp_all
  have 3: "trust_ok (put_row ?q ?d2)"
    using 2 ids_pos(3) [OF assms(2)] accesser_id_in [of p d] accessee_id_in [of p d]
    by (intro put_row_ok) simp_all
  from assms 1 2 3 show ?thesis
    by (auto simp: put_outcome_def Let_def split: prod.splits if_splits)
qed

text \<open>Updates and deletions by number.\<close>

lemma row_update_same:
  assumes "map fst v = map fst r" "distinct (map fst r)"
  shows "row_update v r = v"
proof -
  have "row_update v r = map (\<lambda>(c, x). (c, case map_of v c of None \<Rightarrow> x | Some y \<Rightarrow> y)) r"
    by (simp add: row_update_def)
  also have "\<dots> = v"
  proof (rule nth_equalityI)
    show "length (map (\<lambda>(c, x). (c, case map_of v c of None \<Rightarrow> x | Some y \<Rightarrow> y)) r) = length v"
      using arg_cong [OF assms(1), of length] by simp
    fix i
    assume "i < length (map (\<lambda>(c, x). (c, case map_of v c of None \<Rightarrow> x | Some y \<Rightarrow> y)) r)"
    then have i: "i < length r" "i < length v"
      using arg_cong [OF assms(1), of length] by simp_all
    then have c: "fst (r ! i) = fst (v ! i)" using assms(1) by (metis nth_map)
    moreover have "map_of v (fst (v ! i)) = Some (snd (v ! i))"
      using assms i by (intro map_of_is_SomeI) (auto simp: assms(1))
    ultimately show "map (\<lambda>(c, x). (c, case map_of v c of None \<Rightarrow> x | Some y \<Rightarrow> y)) r ! i = v ! i"
      using i by (cases "r ! i"; cases "v ! i") simp
  qed
  finally show ?thesis .
qed

lemma row_update_typed:
  assumes "t \<in> set numbered_tables" "row_typed t v" "row_typed t r"
  shows "row_update v r = v"
proof -
  have cols: "map fst (AccessControlProfileToEntries x) = map fst (AccessControlProfileToEntries y)"
    "map fst (AccesserToEntries x) = map fst (AccesserToEntries y)"
    "map fst (AccesseeToEntries x) = map fst (AccesseeToEntries y)"
    "distinct (map fst (AccessControlProfileToEntries x))" "distinct (map fst (AccesserToEntries x))"
    "distinct (map fst (AccesseeToEntries x))" for x y
    by (simp_all add: AccessControlProfileToEntries_def AccesserToEntries_def AccesseeToEntries_def Let_def)
  from assms(1) consider "t = ACCESS_CONTROL_TABLE" | "t = ACCESSER_TABLE" | "t = ACCESSEE_TABLE"
    by (auto simp: numbered_tables_def)
  then show ?thesis
  proof cases
    case 1
    then show ?thesis using assms(2,3) cols row_update_same by (metis typed_acl)
  next
    case 2
    then show ?thesis using assms(2,3) cols row_update_same by (metis typed_accesser)
  next
    case 3
    then show ?thesis using assms(2,3) cols row_update_same by (metis typed_accessee)
  qed
qed

lemma match_key:
  assumes "t \<in> set numbered_tables" "row_typed t r"
  shows "row_matches [key_col t] [RInt i] r \<longleftrightarrow> row_id t r = i"
  using assms match_acl(1) match_accesser(1) match_accessee(1) by (auto simp: numbered_tables_def)

lemma updated_rows:
  assumes "rows_ok d" "t \<in> set numbered_tables" "row_typed t v"
  shows "updated t v [key_col t] [RInt i] d = d(t := map (\<lambda>r. if row_id t r = i then v else r) (d t))"
proof -
  have "map (\<lambda>r. if row_matches [key_col t] [RInt i] r then row_update v r else r) (d t) =
      map (\<lambda>r. if row_id t r = i then v else r) (d t)"
    using rows_okD(1) [OF assms(1,2)] assms(2,3) match_key row_update_typed by (intro map_cong) auto
  then show ?thesis by (simp only: updated_def)
qed

lemma deleted_rows:
  assumes "rows_ok d" "t \<in> set numbered_tables"
  shows "deleted t [key_col t] [RInt i] d = d(t := filter (\<lambda>r. row_id t r \<noteq> i) (d t))"
proof -
  have "filter (\<lambda>r. \<not> row_matches [key_col t] [RInt i] r) (d t) = filter (\<lambda>r. row_id t r \<noteq> i) (d t)"
    using rows_okD(1) [OF assms(1,2)] assms(2) match_key by (intro filter_cong) auto
  then show ?thesis by (simp only: deleted_def)
qed

lemma rows_ok_replace:
  assumes "rows_ok d" "t \<in> set numbered_tables"
    and "list_all (row_typed t) xs" "list_all (\<lambda>r. 0 < row_id t r) xs"
  shows "rows_ok (d(t := xs))"
  using assms by (simp add: rows_ok_def)

lemma replaced_rows_ok:
  assumes "rows_ok d" "t \<in> set numbered_tables" "row_typed t v" "row_id t v = i"
  shows "rows_ok (d(t := map (\<lambda>r. if row_id t r = i then v else r) (d t)))"
  using assms(4) rows_okD [OF assms(1,2)] assms(3)
  by (intro rows_ok_replace [OF assms(1,2)]) (auto simp: list_all_iff, metis)

lemma replaced_ids:
  assumes "row_id t v = i"
  shows "row_id t ` set (map (\<lambda>r. if row_id t r = i then v else r) xs) = row_id t ` set xs"
proof -
  have "map (row_id t) (map (\<lambda>r. if row_id t r = i then v else r) xs) = map (row_id t) xs"
    using assms by simp
  then show ?thesis by (metis set_map)
qed

lemma updated_ids:
  assumes "rows_ok d" "t \<in> set numbered_tables" "row_typed t v" "row_id t v = i"
  shows "row_id t ` set (updated t v [key_col t] [RInt i] d t) = row_id t ` set (d t)"
  unfolding updated_rows [OF assms(1-3)] fun_upd_same by (rule replaced_ids [OF assms(4)])

lemma upd_other [simp]:
  "t \<noteq> ACCESSER_TABLE \<Longrightarrow> upd_accesser p d t = d t" "t \<noteq> ACCESSEE_TABLE \<Longrightarrow> upd_accessee p d t = d t"
  "t \<noteq> ACCESS_CONTROL_TABLE \<Longrightarrow> upd_row p d t = d t"
  by (simp_all add: upd_accesser_def upd_accessee_def upd_row_def updated_def)

lemma upd_accesser_ids:
  "trust_ok d \<Longrightarrow> ar_id (acl_accesser p) = acl_accesserId p \<Longrightarrow>
   row_id ACCESSER_TABLE ` set (upd_accesser p d ACCESSER_TABLE) = row_id ACCESSER_TABLE ` set (d ACCESSER_TABLE)"
  using updated_ids [of d ACCESSER_TABLE "AccesserToEntries p"]
  by (simp add: upd_accesser_def trust_ok_def numbered_tables_def row_id_def [of _ "AccesserToEntries p"])

lemma upd_accessee_ids:
  "trust_ok d \<Longrightarrow> ae_id (acl_accessee p) = acl_accesseeId p \<Longrightarrow>
   row_id ACCESSEE_TABLE ` set (upd_accessee p d ACCESSEE_TABLE) = row_id ACCESSEE_TABLE ` set (d ACCESSEE_TABLE)"
  using updated_ids [of d ACCESSEE_TABLE "AccesseeToEntries p"]
  by (simp add: upd_accessee_def trust_ok_def numbered_tables_def row_id_def [of _ "AccesseeToEntries p"])

lemma upd_accesser_ok:
  assumes "trust_ok d" "ar_id (acl_accesser p) = acl_accesserId p"
  shows "trust_ok (upd_accesser p d)"
proof -
  have t: "ACCESSER_TABLE \<in> set numbered_tables" by (simp add: numbered_tables_def)
  have id: "row_id ACCESSER_TABLE (AccesserToEntries p) = acl_accesserId p" using assms(2) by (simp add: row_id_def)
  have rows: "rows_ok d" using assms(1) by (simp add: trust_ok_def)
  have u: "upd_accesser p d = d(ACCESSER_TABLE := map (\<lambda>r. if row_id ACCESSER_TABLE r = acl_accesserId p
      then AccesserToEntries p else r) (d ACCESSER_TABLE))"
    using updated_rows [OF rows t, of "AccesserToEntries p"] by (simp add: upd_accesser_def)
  show ?thesis
    using assms(1) replaced_rows_ok [OF rows t _ id] replaced_ids [OF id]
    by (simp add: u trust_ok_def refs_ok_def list_all_iff)
qed

lemma upd_accessee_ok:
  assumes "trust_ok d" "ae_id (acl_accessee p) = acl_accesseeId p"
  shows "trust_ok (upd_accessee p d)"
proof -
  have t: "ACCESSEE_TABLE \<in> set numbered_tables" by (simp add: numbered_tables_def)
  have id: "row_id ACCESSEE_TABLE (AccesseeToEntries p) = acl_accesseeId p" using assms(2) by (simp add: row_id_def)
  have rows: "rows_ok d" using assms(1) by (simp add: trust_ok_def)
  have u: "upd_accessee p d = d(ACCESSEE_TABLE := map (\<lambda>r. if row_id ACCESSEE_TABLE r = acl_accesseeId p
      then AccesseeToEntries p else r) (d ACCESSEE_TABLE))"
    using updated_rows [OF rows t, of "AccesseeToEntries p"] by (simp add: upd_accessee_def)
  show ?thesis
    using assms(1) replaced_rows_ok [OF rows t _ id] replaced_ids [OF id]
    by (simp add: u trust_ok_def refs_ok_def list_all_iff)
qed

lemma upd_row_rows:
  assumes "rows_ok d"
  shows "upd_row p d = d(ACCESS_CONTROL_TABLE := map (\<lambda>r.
    if row_id ACCESS_CONTROL_TABLE r = acl_accessControlId p then AccessControlProfileToEntries p else r)
      (d ACCESS_CONTROL_TABLE))"
  using updated_rows [OF assms, of ACCESS_CONTROL_TABLE "AccessControlProfileToEntries p"]
  by (simp add: upd_row_def numbered_tables_def)

lemma upd_row_ok:
  assumes "trust_ok d" "acl_accesserId p \<in> row_id ACCESSER_TABLE ` set (d ACCESSER_TABLE)"
    and "acl_accesseeId p \<in> row_id ACCESSEE_TABLE ` set (d ACCESSEE_TABLE)"
  shows "trust_ok (upd_row p d)"
proof -
  have t: "ACCESS_CONTROL_TABLE \<in> set numbered_tables" by (simp add: numbered_tables_def)
  have id: "row_id ACCESS_CONTROL_TABLE (AccessControlProfileToEntries p) = acl_accessControlId p" by (simp add: row_id_def)
  have rows: "rows_ok d" using assms(1) by (simp add: trust_ok_def)
  show ?thesis
    using assms replaced_rows_ok [OF rows t _ id]
    by (auto simp: upd_row_rows [OF rows] trust_ok_def refs_ok_def list_all_iff)
qed

theorem update_outcome_ok:
  assumes "update_outcome p d res d'" "trust_ok d"
  shows "trust_ok d'"
proof (cases "selected ACCESS_CONTROL_TABLE [''accessControlId''] [RInt (acl_accessControlId p)] d")
  case Nil
  then show ?thesis using assms by (simp add: update_outcome_def)
next
  case (Cons r rs)
  have "r \<in> set (d ACCESS_CONTROL_TABLE)" using selected_head(1) [OF Cons] .
  with assms(2) have typed: "row_typed ACCESS_CONTROL_TABLE r"
    and refs: "row_int r ''accesserId'' \<in> row_id ACCESSER_TABLE ` set (d ACCESSER_TABLE)"
      "row_int r ''accesseeId'' \<in> row_id ACCESSEE_TABLE ` set (d ACCESSEE_TABLE)"
    by (auto simp: trust_ok_def rows_ok_def refs_ok_def list_all_iff numbered_tables_def)
  show ?thesis
  proof (cases "upd_allowed p (acl_of r)")
    case False
    with Cons assms show ?thesis by (simp add: update_outcome_def)
  next
    case True
    have r: "acl_accesserId p = row_int r ''accesserId''" "acl_accesseeId p = row_int r ''accesseeId''"
      using True by (simp_all add: upd_allowed_def acl_of_def ConvertToAccessControlProfile_def)
    have ids: "ar_id (acl_accesser p) = acl_accesserId p" "ae_id (acl_accessee p) = acl_accesseeId p"
      using True by (simp_all add: upd_allowed_def)
    have rows: "rows_ok d" using assms(2) by (simp add: trust_ok_def)
    have same: "row_id ACCESSER_TABLE ` set (x ACCESSER_TABLE) = row_id ACCESSER_TABLE ` set (d ACCESSER_TABLE) \<and>
        row_id ACCESSEE_TABLE ` set (x ACCESSEE_TABLE) = row_id ACCESSEE_TABLE ` set (d ACCESSEE_TABLE)"
      if "x \<in> set (upd_sides p d)" for x
    proof -
      from that consider "x = d" | "x = upd_accesser p d" | "x = upd_accessee p d"
        | "x = upd_accessee p (upd_accesser p d)" by (auto simp: upd_sides_def)
      then show ?thesis
        by cases (simp_all add: upd_accesser_ids [OF assms(2) ids(1)] upd_accessee_ids [OF assms(2) ids(2)]
            upd_accessee_ids [OF upd_accesser_ok [OF assms(2) ids(1)] ids(2)] del: set_map)
    qed
    have sides: "trust_ok x" if "x \<in> set (upd_sides p d)" for x
      using that upd_accesser_ok [OF assms(2) ids(1)] upd_accessee_ok [OF _ ids(2)] assms(2)
      by (auto simp: upd_sides_def)
    have "trust_ok (upd_row p x)" if "x \<in> set (upd_sides p d)" for x
      using sides [OF that] same [OF that] refs r by (intro upd_row_ok) simp_all
    with sides Cons True assms(1) show ?thesis
      by (auto simp: update_outcome_def split: if_splits)
  qed
qed

text \<open>A deletion that ends well keeps the references, as it takes a row with its only referrer.\<close>

lemma acl_of_ids:
  "acl_accessControlId (acl_of r) = row_id ACCESS_CONTROL_TABLE r"
  "acl_accesserId (acl_of r) = row_int r ''accesserId''" "acl_accesseeId (acl_of r) = row_int r ''accesseeId''"
  "acl_status (acl_of r) = row_int r ''status''" "acl_extraData (acl_of r) = row_str r ''extraData''"
  "acl_trustDeviceId (acl_of r) = row_str r ''trustDeviceId''"
  by (simp_all add: acl_of_def ConvertToAccessControlProfile_def row_id_def)

lemma singleton_filter:
  assumes "length (filter P xs) = 1" "x \<in> set xs" "P x" "y \<in> set xs" "P y"
  shows "x = y"
proof -
  obtain a where a: "filter P xs = [a]" using assms(1) by (auto simp: length_Suc_conv)
  have "x \<in> set (filter P xs)" "y \<in> set (filter P xs)" using assms by simp_all
  then show ?thesis by (simp add: a)
qed

lemma delete_side_rows:
  assumes "rows_ok d" "t \<in> set numbered_tables"
  shows "delete_side t (key_col t) i d =
    (if length (selected ACCESS_CONTROL_TABLE [key_col t] [RInt i] d) = 1
     then d(t := filter (\<lambda>r. row_id t r \<noteq> i) (d t)) else d)"
  by (simp add: delete_side_def deleted_rows [OF assms])

lemma rows_ok_filter:
  "rows_ok d \<Longrightarrow> t \<in> set numbered_tables \<Longrightarrow> rows_ok (d(t := filter P (d t)))"
  by (rule rows_ok_replace) (auto simp: rows_ok_def list_all_iff)

text \<open>What the sides of a deletion leave for the other lists.\<close>

lemma delete_side_keeps:
  assumes "rows_ok d" "t \<in> set numbered_tables" "t \<noteq> ACCESS_CONTROL_TABLE"
    and r: "r \<in> set (d ACCESS_CONTROL_TABLE)" "row_int r (key_col t) = i"
    and x: "x \<in> set (d ACCESS_CONTROL_TABLE)" "x \<noteq> r" "row_int x (key_col t) \<in> row_id t ` set (d t)"
  shows "row_int x (key_col t) \<in> row_id t ` set (delete_side t (key_col t) i d t)"
proof -
  have sel: "row_matches [key_col t] [RInt i] z \<longleftrightarrow> row_int z (key_col t) = i"
    if "z \<in> set (d ACCESS_CONTROL_TABLE)" for z
  proof -
    have z: "row_typed ACCESS_CONTROL_TABLE z"
      using rows_okD(1) [OF assms(1) _ that] by (simp add: numbered_tables_def)
    from assms(2,3) consider "t = ACCESSER_TABLE" | "t = ACCESSEE_TABLE"
      by (auto simp: numbered_tables_def)
    then show ?thesis by cases (simp_all add: match_acl [OF z])
  qed
  have "row_int x (key_col t) \<noteq> i" if "length (selected ACCESS_CONTROL_TABLE [key_col t] [RInt i] d) = 1"
    using singleton_filter [OF that [unfolded selected_def] r(1) _ x(1)] sel [OF r(1)] sel [OF x(1)] r(2) x(2)
    by blast
  with x(3) show ?thesis
    unfolding delete_side_rows [OF assms(1,2)] by (simp add: image_iff) blast
qed

theorem delete_outcome_ok:
  assumes "delete_outcome i d res d'" "trust_ok d" "fst res = DP_SUCCESS"
  shows "trust_ok d'"
proof -
  from assms(1,3) obtain r rs where sel: "selected ACCESS_CONTROL_TABLE [''accessControlId''] [RInt i] d = r # rs"
    by (auto simp: delete_outcome_def split: list.splits)
  let ?d1 = "delete_side ACCESSEE_TABLE ''accesseeId'' (row_int r ''accesseeId'') d"
  let ?d2 = "delete_side ACCESSER_TABLE ''accesserId'' (row_int r ''accesserId'') ?d1"
  have r: "r \<in> set (d ACCESS_CONTROL_TABLE)" using selected_head(1) [OF sel] .
  have rows: "rows_ok d" and refs: "refs_ok d" using assms(2) by (simp_all add: trust_ok_def)
  have 1: "rows_ok ?d1"
    using delete_side_rows [OF rows, of ACCESSEE_TABLE] rows_ok_filter [OF rows, of ACCESSEE_TABLE] rows
    by (simp add: numbered_tables_def)
  have 2: "rows_ok ?d2"
    using delete_side_rows [OF 1, of ACCESSER_TABLE] rows_ok_filter [OF 1, of ACCESSER_TABLE] 1
    by (simp add: numbered_tables_def)
  have d': "d' = deleted ACCESS_CONTROL_TABLE [''accessControlId''] [RInt (row_id ACCESS_CONTROL_TABLE r)] ?d2"
    using assms(1,3) sel by (simp add: delete_outcome_def acl_of_ids Let_def)
  also have "\<dots> = ?d2(ACCESS_CONTROL_TABLE := filter (\<lambda>x. row_id ACCESS_CONTROL_TABLE x \<noteq> row_id ACCESS_CONTROL_TABLE r)
      (d ACCESS_CONTROL_TABLE))"
    using deleted_rows [OF 2, of ACCESS_CONTROL_TABLE] by (simp add: numbered_tables_def)
  finally have d'': "d' = \<dots>" .
  have "rows_ok d'"
    using rows_ok_filter [OF 2, of ACCESS_CONTROL_TABLE] by (simp add: d'' numbered_tables_def)
  moreover have "row_int x ''accesserId'' \<in> row_id ACCESSER_TABLE ` set (?d2 ACCESSER_TABLE) \<and>
      row_int x ''accesseeId'' \<in> row_id ACCESSEE_TABLE ` set (?d2 ACCESSEE_TABLE)"
    if "x \<in> set (d ACCESS_CONTROL_TABLE)" "x \<noteq> r" for x
    using delete_side_keeps [OF rows, of ACCESSEE_TABLE r "row_int r ''accesseeId''" x]
      delete_side_keeps [OF 1, of ACCESSER_TABLE r "row_int r ''accesserId''" x] refs that r
    by (simp add: numbered_tables_def refs_ok_def list_all_iff)
  ultimately show ?thesis
    by (auto simp: trust_ok_def refs_ok_def list_all_iff d'')
qed

end
