(* ===== verification/TrustReads.thy ===== *)
theory TrustReads
  imports TrustLaws
begin

text \<open>
  What the trust manager's queries and checks read from the tables of a live state, and what its
  operations on trusted devices do, as rules over the adapter's contract.
\<close>

section \<open>The stored lists\<close>

text \<open>A list with its accesser and its accessee; where there is none a list is not read.\<close>

definition joined :: "tables \<Rightarrow> ValuesBucket \<Rightarrow> AccessControlProfile" where
  "joined d r = (acl_of r)\<lparr>acl_accesser := read_accesser (row_int r ''accesserId'') d,
     acl_accessee := read_accessee (row_int r ''accesseeId'') d\<rparr>"

definition has_sides :: "tables \<Rightarrow> ValuesBucket \<Rightarrow> bool" where
  "has_sides d r \<longleftrightarrow>
     selected ACCESSER_TABLE [''accesserId''] [RInt (row_int r ''accesserId'')] d \<noteq> [] \<and>
     selected ACCESSEE_TABLE [''accesseeId''] [RInt (row_int r ''accesseeId'')] d \<noteq> []"

definition stored :: "tables \<Rightarrow> AccessControlProfile list" where
  "stored d = map (joined d) (filter (has_sides d) (d ACCESS_CONTROL_TABLE))"

definition visible :: "'a TrustEnv \<Rightarrow> tables \<Rightarrow> AccessControlProfile list" where
  "visible env d = RemoveLnnAcl env (stored d)"

definition has_active :: "tables \<Rightarrow> string \<Rightarrow> bool" where
  "has_active d s \<longleftrightarrow> list_ex (\<lambda>r. row_int r ''status'' = 1)
     (selected ACCESS_CONTROL_TABLE [''trustDeviceId''] [RStr s] d)"

lemma convert_joined:
  "ConvertToAccessControlProfiles (Some r)
     (selected ACCESSER_TABLE [''accesserId''] [RInt (row_int r ''accesserId'')] d)
     (selected ACCESSEE_TABLE [''accesseeId''] [RInt (row_int r ''accesseeId'')] d) ps = ps @ [joined d r]"
  by (simp add: ConvertToAccessControlProfiles_def joined_def read_accesser_def read_accessee_def
      acl_of_def first_row_def Let_def)

lemma trust_ok_sides:
  assumes "trust_ok d" "r \<in> set (d ACCESS_CONTROL_TABLE)"
  shows "has_sides d r"
proof -
  have rows: "rows_ok d" using assms(1) by (simp add: trust_ok_def)
  from assms obtain a e where
    a: "a \<in> set (d ACCESSER_TABLE)" "row_id ACCESSER_TABLE a = row_int r ''accesserId''" and
    e: "e \<in> set (d ACCESSEE_TABLE)" "row_id ACCESSEE_TABLE e = row_int r ''accesseeId''"
    by (auto simp: trust_ok_def refs_ok_def list_all_iff)
  have "row_typed ACCESSER_TABLE a" "row_typed ACCESSEE_TABLE e"
    using rows_okD(1) [OF rows] a(1) e(1) by (simp_all add: numbered_tables_def)
  with a(2) e(2) have "row_matches [''accesserId''] [RInt (row_int r ''accesserId'')] a"
    "row_matches [''accesseeId''] [RInt (row_int r ''accesseeId'')] e"
    by (simp_all add: match_accesser match_accessee)
  with a(1) e(1) show ?thesis
    by (auto simp: has_sides_def selected_def filter_empty_conv)
qed

lemma stored_all: "trust_ok d \<Longrightarrow> stored d = map (joined d) (d ACCESS_CONTROL_TABLE)"
  using trust_ok_sides by (auto simp: stored_def filter_id_conv)

context rdb_reads
begin

lemma wp_GetAccessControlProfile_row:
  assumes "te_rdb env = ir" "tm_same db live m0 m"
    and Q: "\<And>ret ps' m'. tm_same db live m0 m' \<Longrightarrow>
      tm_alive live m0 \<longrightarrow> ps' = (if has_sides (tabs m0) r then ps @ [joined (tabs m0) r] else ps) \<Longrightarrow> Q (ret, ps') m'"
  shows "wp (GetAccessControlProfile_row env r (row_int r ''accesserId'') (row_int r ''accesseeId'') ps) Q m"
  unfolding GetAccessControlProfile_row_def
  using assms(2) Q
  by (auto intro!: wp_GetResultSet [where ?m0.0 = m0] assms(1) simp: convert_joined has_sides_def)

lemma wp_all_acl_loop:
  assumes "te_rdb env = ir" "tm_same db live m0 m"
    and "\<And>ps' m'. tm_same db live m0 m' \<Longrightarrow>
      tm_alive live m0 \<longrightarrow> ps' = ps @ map (joined (tabs m0)) (filter (has_sides (tabs m0)) rows) \<Longrightarrow> Q ps' m'"
  shows "wp (all_acl_loop env rows ps) Q m"
  using assms(2,3)
proof (induction rows arbitrary: ps m)
  case Nil
  then show ?case by simp
next
  case (Cons r rows)
  show ?case
    by (auto intro!: wp_GetAccessControlProfile_row [OF assms(1), where ?m0.0 = m0] Cons.IH Cons.prems
        split: if_splits)
qed

lemma wp_GetAllAccessControlProfiles:
  assumes "te_rdb env = ir" "tm_same db live m0 m"
    and Q: "\<And>ret ps m'. tm_same db live m0 m' \<Longrightarrow>
      tm_alive live m0 \<longrightarrow> ps = stored (tabs m0) \<and> ret = (if stored (tabs m0) = [] then DP_NOT_FIND_DATA else DP_SUCCESS) \<Longrightarrow>
      Q (ret, ps) m'"
  shows "wp (GetAllAccessControlProfiles env []) Q m"
  unfolding GetAllAccessControlProfiles_def wp_bind
proof (rule wp_GetResultSet [OF assms(1,2)])
  let ?rows = "tabs m0 ACCESS_CONTROL_TABLE"
  fix m1
  assume 1: "tm_same db live m0 m1"
  have empty: "Q (DP_NOT_FIND_DATA, []) m1" if "?rows = []"
    using that 1 by (intro Q) (auto simp: stored_def)
  have loop: "wp (all_acl_loop env ?rows []) (\<lambda>ps. Q (if ps = [] then DP_NOT_FIND_DATA else DP_SUCCESS, ps)) m1"
    by (rule wp_all_acl_loop [OF assms(1) 1], rule Q) (auto simp: stored_def)
  show "wp (case Some (rows_of (selected ACCESS_CONTROL_TABLE [] [] (tabs m0))) of
      None \<Rightarrow> return (DP_GET_RESULTSET_FAIL, [])
    | Some rs \<Rightarrow> if rowCount rs = 0 then return (DP_NOT_FIND_DATA, [])
        else all_acl_loop env (rs_rows rs) [] \<bind>
          (\<lambda>ps. return (if ps = [] then DP_NOT_FIND_DATA else DP_SUCCESS, ps))) Q m1"
    using empty loop by simp
next
  fix m1
  assume "tm_same db live m0 m1" "\<not> tm_alive live m0"
  then show "wp (case None of
      None \<Rightarrow> return (DP_GET_RESULTSET_FAIL, [])
    | Some rs \<Rightarrow> if rowCount rs = 0 then return (DP_NOT_FIND_DATA, [])
        else all_acl_loop env (rs_rows rs) [] \<bind>
          (\<lambda>ps. return (if ps = [] then DP_NOT_FIND_DATA else DP_SUCCESS, ps))) Q m1"
    by (simp add: Q)
qed simp_all

lemma wp_stored_acls:
  assumes "te_rdb env = ir" "tm_same db live m0 m"
    and Q: "\<And>ret ps m'. tm_same db live m0 m' \<Longrightarrow>
      tm_alive live m0 \<longrightarrow> ps = visible env (tabs m0) \<and>
        ret = (if stored (tabs m0) = [] then DP_NOT_FIND_DATA else DP_SUCCESS) \<Longrightarrow> Q (ret, ps) m'"
  shows "wp (stored_acls env) Q m"
  unfolding stored_acls_def wp_bind
  by (rule wp_GetAllAccessControlProfiles [OF assms(1,2)]) (auto intro!: Q simp: visible_def)

lemma visible_Nil: "stored d = [] \<Longrightarrow> visible env d = []"
  by (simp add: visible_def RemoveLnnAcl_def)

lemma wp_acl_exists:
  assumes "te_rdb env = ir" "tm_same db live m0 m"
    and Q: "\<And>ret b m'. tm_same db live m0 m' \<Longrightarrow>
      tm_alive live m0 \<longrightarrow> b = list_ex P (visible env (tabs m0)) \<Longrightarrow> Q (ret, b) m'"
  shows "wp (acl_exists env P) Q m"
  unfolding acl_exists_def wp_bind
  by (rule wp_stored_acls [OF assms(1,2)]) (auto intro!: Q simp: visible_Nil split: if_splits)

lemma wp_acl_count:
  assumes "te_rdb env = ir" "tm_same db live m0 m"
    and Q: "\<And>ret n m'. tm_same db live m0 m' \<Longrightarrow>
      tm_alive live m0 \<longrightarrow> n = c + int (length (filter P (visible env (tabs m0)))) \<and>
        ret = (if stored (tabs m0) = [] then DP_NOT_FIND_DATA else DP_SUCCESS) \<Longrightarrow> Q (ret, n) m'"
  shows "wp (acl_count env P c) Q m"
  unfolding acl_count_def wp_bind
  by (rule wp_stored_acls [OF assms(1,2)]) (auto intro!: Q simp: visible_Nil split: if_splits)

lemma wp_QueryServiceIdList:
  assumes "te_rdb env = ir" "tm_same db live m0 m"
    and Q: "\<And>ret ids' m'. tm_same db live m0 m' \<Longrightarrow>
      tm_alive live m0 \<longrightarrow> ids' = service_ids_loop env (query_params p) (visible env (tabs m0)) ids \<Longrightarrow> Q (ret, ids') m'"
  shows "wp (QueryServiceIdList env p ids) Q m"
  unfolding QueryServiceIdList_def wp_bind
  by (rule wp_stored_acls [OF assms(1,2)]) (auto intro!: Q simp: visible_Nil split: if_splits)

lemma wp_GetResultStatus:
  assumes "te_rdb env = ir" "tm_same db live m0 m"
    and Q: "\<And>ret st m'. tm_same db live m0 m' \<Longrightarrow>
      (ret = DP_SUCCESS \<longrightarrow> st = (if has_active (tabs m0) s then 1 else 0)) \<Longrightarrow>
      (tm_alive live m0 \<longrightarrow> (ret \<noteq> DP_SUCCESS \<longrightarrow> st = st0 \<and> \<not> has_active (tabs m0) s \<and>
        selected ACCESS_CONTROL_TABLE [''trustDeviceId''] [RStr s] (tabs m0) = [])) \<Longrightarrow> Q (ret, st) m'"
  shows "wp (GetResultStatus env s st0) Q m"
  unfolding GetResultStatus_def
  using assms(2) Q
  by (auto intro!: wp_GetResultSet [where ?m0.0 = m0] assms(1) simp: has_active_def)

end

section \<open>Notifications\<close>

text \<open>The state after the calls \<open>cs\<close> to listeners, the tables as they were.\<close>

definition tm_told ::
  "('a \<Rightarrow> tables) \<Rightarrow> ('a \<Rightarrow> bool) \<Rightarrow> delivery list \<Rightarrow> 'a TrustManager \<Rightarrow> 'a TrustManager \<Rightarrow> bool" where
  "tm_told db live cs m m' \<longleftrightarrow>
     tm_calls m' = tm_calls m @ cs \<and> tm_same db live m (m'\<lparr>tm_calls := tm_calls m\<rparr>)"

lemma tm_told_same: "tm_told db live [] m m' \<longleftrightarrow> tm_same db live m m'"
  by (cases m; cases m') (auto simp: tm_told_def tm_same_def tm_step_def tm_alive_def tm_tables_def)

lemma tm_toldD:
  assumes "tm_told db live cs m m'"
  shows "tm_tables db m' = tm_tables db m" "tm_alive live m \<Longrightarrow> tm_alive live m'"
    "tm_subscribe m' = tm_subscribe m" "tm_calls m' = tm_calls m @ cs" "tm_aclAdded m' = tm_aclAdded m"
  using assms by (cases m; cases m'; auto simp: tm_told_def tm_same_def tm_step_def tm_alive_def tm_tables_def)+

lemma tm_told_trans:
  "tm_told db live cs m m' \<Longrightarrow> tm_told db live cs' m' m'' \<Longrightarrow> tm_told db live (cs @ cs') m m''"
  by (cases m; cases m'; cases m'') (auto simp: tm_told_def tm_same_def tm_step_def tm_alive_def tm_tables_def)

lemma tm_told_then_same:
  "tm_told db live cs m m' \<Longrightarrow> tm_same db live m' m'' \<Longrightarrow> tm_told db live cs m m''"
  using tm_told_trans [of db live cs m m' "[]"] by (simp add: tm_told_same)

lemma wp_notify_if:
  assumes "fst (f (tm_subscribe m)) = DP_SUCCESS"
    and "\<And>m'. tm_told db live (if c then snd (f (tm_subscribe m)) else []) m m' \<Longrightarrow> Q DP_SUCCESS m'"
  shows "wp (if c then notify f else return DP_SUCCESS) Q m"
proof (cases c)
  case True
  let ?m = "m\<lparr>tm_calls := tm_calls m @ snd (f (tm_subscribe m))\<rparr>"
  have "tm_told db live (if c then snd (f (tm_subscribe m)) else []) m ?m"
    using True by (cases m) (simp add: tm_told_def)
  from assms(2) [OF this] True assms(1) show ?thesis by (auto intro: wp_notify)
next
  case False
  then show ?thesis using assms(2) [of m] by (simp add: tm_told_same)
qed

lemma notify_subscribers_success [simp]: "fst (notify_subscribers key kind ev m) = DP_SUCCESS"
  by (simp add: notify_subscribers_def Let_def)

lemmas trust_notify_defs =
  NotifyTrustDeviceProfileAdd_def NotifyTrustDeviceProfileUpdate_def NotifyTrustDeviceProfileDelete_def
  NotifyTrustDeviceProfileActive_def NotifyTrustDeviceProfileInactive_def
  NotifyDeviceAclInactiveByDelete_def NotifyDeviceAclInactiveByUpdate_def NotifyAccountAclDelete_def
  NotifyAccountAclInactive_def NotifyAccountAclAdd_def NotifyAccountAclActive_def

lemma notify_success [simp]:
  "fst (NotifyTrustDeviceProfileAdd x s) = DP_SUCCESS" "fst (NotifyTrustDeviceProfileUpdate y x s) = DP_SUCCESS"
  "fst (NotifyTrustDeviceProfileDelete x s) = DP_SUCCESS" "fst (NotifyTrustDeviceProfileActive x s) = DP_SUCCESS"
  "fst (NotifyTrustDeviceProfileInactive x s) = DP_SUCCESS" "fst (NotifyDeviceAclInactiveByDelete x s) = DP_SUCCESS"
  "fst (NotifyDeviceAclInactiveByUpdate x s) = DP_SUCCESS" "fst (NotifyAccountAclDelete x s) = DP_SUCCESS"
  "fst (NotifyAccountAclInactive x s) = DP_SUCCESS" "fst (NotifyAccountAclAdd x s) = DP_SUCCESS"
  "fst (NotifyAccountAclActive x s) = DP_SUCCESS"
  by (simp_all add: trust_notify_defs)

section \<open>Trusted devices\<close>

abbreviation device_rows :: "string \<Rightarrow> tables \<Rightarrow> ValuesBucket list" where
  "device_rows s d \<equiv> selected TRUST_DEVICE_TABLE [''deviceId''] [RStr s] d"

definition upd_device :: "TrustDeviceProfile \<Rightarrow> tables \<Rightarrow> tables" where
  "upd_device x = updated TRUST_DEVICE_TABLE (TrustDeviceProfileToEntries x) [''deviceId''] [RStr (tp_deviceId x)]"

text \<open>The calls an update of a device gives rise to: those of a changed status.\<close>

definition device_calls :: "TrustDeviceProfile \<Rightarrow> tables \<Rightarrow> SubscribeManager \<Rightarrow> delivery list" where
  "device_calls x d s = (case device_rows (tp_deviceId x) d of [] \<Rightarrow> []
     | r # _ \<Rightarrow> if tp_status (device_of r) \<noteq> tp_status x
                then snd (NotifyTrustDeviceProfileUpdate (device_of r) x s) else [])"

context rdb_reads
begin

lemma wp_UpdateTrustDeviceProfile:
  assumes "te_rdb env = ir"
    and Q: "\<And>ret m' m1. tm_step live m m1 \<Longrightarrow>
      (if ret = DP_SUCCESS
       then device_rows (tp_deviceId x) (tabs m) \<noteq> [] \<and> tabs m1 = upd_device x (tabs m) \<and>
            tm_told db live (device_calls x (tabs m) (tm_subscribe m)) m1 m'
       else m' = m1 \<and> tabs m1 = tabs m) \<Longrightarrow> Q ret m'"
  shows "wp (UpdateTrustDeviceProfile env x) Q m"
proof -
  let ?rows = "device_rows (tp_deviceId x) (tabs m)"
  have failed: "Q ret m1" if "tm_step live m m1" "tabs m1 = tabs m" "ret \<noteq> DP_SUCCESS" for ret m1
    using that by (intro Q [of m1]) simp_all
  have told: "wp (UpdateTrustDeviceProfileNotify (device_of r) x) (\<lambda>_. Q DP_SUCCESS) m2"
    if "tm_step live m m2" "tabs m2 = upd_device x (tabs m)" "?rows = r # rs" for m2 r rs
  proof -
    have "wp (if tp_status (device_of r) \<noteq> tp_status x then notify (NotifyTrustDeviceProfileUpdate (device_of r) x)
        else return DP_SUCCESS) (\<lambda>_. Q DP_SUCCESS) m2"
    proof (rule wp_notify_if [where db = db and live = live])
      fix m3
      assume t: "tm_told db live (if tp_status (device_of r) \<noteq> tp_status x
        then snd (NotifyTrustDeviceProfileUpdate (device_of r) x (tm_subscribe m2)) else []) m2 m3"
      show "Q DP_SUCCESS m3"
        using t that tm_stepD(1) [OF that(1)]
        by (intro Q [of m2]; cases "tp_status (device_of r) = tp_status x") (simp_all add: device_calls_def)
    qed simp
    then show ?thesis
      by (cases "tp_status (device_of r) = tp_status x") (simp_all add: UpdateTrustDeviceProfileNotify_def)
  qed
  show ?thesis
    unfolding UpdateTrustDeviceProfile_def wp_bind Let_def
    apply (rule wp_GetResultSet [OF assms(1) tm_same_refl])
       apply simp_all
    subgoal for m1
      apply (cases ?rows)
      subgoal using failed [of m1 DP_NOT_FIND_DATA] by (simp add: tm_same_def)
      subgoal for r rs
        apply simp
        apply (rule wp_update [OF assms(1)])
        subgoal for ret m2
          using failed [of m2 "rdb_code DP_UPDATE_TRUST_DEVICE_PROFILE_FAIL ret"] told [of m2 r rs]
            tm_step_trans [of live m m1 m2] tm_sameD [of db live m m1]
          by (cases "ret = Some DP_SUCCESS")
            (simp_all add: keeps_keys_entries(4) upd_device_def device_of_def)
        done
      done
    subgoal for m1 using failed [of m1 DP_GET_RESULTSET_FAIL] by (simp add: tm_same_def)
    done
qed

lemma wp_PutTrustDeviceProfile:
  assumes "te_rdb env = ir"
    and "\<And>ret m'. tm_step live m m' \<Longrightarrow>
      (if ret = DP_SUCCESS then inserted TRUST_DEVICE_TABLE (TrustDeviceProfileToEntries x) (tabs m) (tabs m')
       else tabs m' = tabs m) \<Longrightarrow> Q ret m'"
  shows "wp (PutTrustDeviceProfile env x) Q m"
  unfolding PutTrustDeviceProfile_def wp_bind wp_return
  by (rule wp_put [OF assms(1)], rule assms(2)) (auto split: if_splits)

lemma wp_DeleteTrustDeviceProfile:
  assumes "te_rdb env = ir"
    and Q: "\<And>ret m'. tm_step live m m' \<Longrightarrow>
      tabs m' = (if ret = DP_SUCCESS then deleted TRUST_DEVICE_TABLE [''deviceId''] [RStr s] (tabs m) else tabs m) \<Longrightarrow>
      Q ret m'"
  shows "wp (DeleteTrustDeviceProfile env s) Q m"
proof -
  have failed: "Q ret m1" if "tm_same db live m m1" "ret \<noteq> DP_SUCCESS" for ret m1
    using that by (intro Q) (simp_all add: tm_same_def)
  have del: "wp (rdb_call (ir_Delete (te_rdb env) (-1) TRUST_DEVICE_TABLE [''deviceId''] [RStr s]))
      (\<lambda>ret. Q (rdb_code DP_DELETE_TRUST_DEVICE_PROFILE_FAIL ret)) m1" if "tm_same db live m m1" for m1
  proof (rule wp_delete [OF assms(1)])
    fix ret m2
    assume "tm_step live m1 m2" "if ret = Some DP_SUCCESS
      then tabs m2 = deleted TRUST_DEVICE_TABLE [''deviceId''] [RStr s] (tabs m1) else tabs m2 = tabs m1"
    then show "Q (rdb_code DP_DELETE_TRUST_DEVICE_PROFILE_FAIL ret) m2"
      using that tm_step_trans [of live m m1 m2] tm_sameD [of db live m m1]
      by (intro Q) (auto split: if_splits)
  qed
  show ?thesis
    unfolding DeleteTrustDeviceProfile_def
    using failed del by (auto intro!: wp_GetResultSet [where ?m0.0 = m] assms(1))
qed

end

section \<open>The check after a put\<close>

text \<open>A step of the table of devices for the device \<open>s\<close>.\<close>

definition device_step :: "string \<Rightarrow> tables \<Rightarrow> tables \<Rightarrow> bool" where
  "device_step s d d' \<longleftrightarrow> d' = d \<or> d' = deleted TRUST_DEVICE_TABLE [''deviceId''] [RStr s] d \<or>
     (\<exists>x. tp_deviceId x = s \<and>
       (d' = upd_device x d \<or> inserted TRUST_DEVICE_TABLE (TrustDeviceProfileToEntries x) d d'))"

lemma device_stepI [simp]:
  "device_step s d d" "device_step s d (deleted TRUST_DEVICE_TABLE [''deviceId''] [RStr s] d)"
  "tp_deviceId x = s \<Longrightarrow> device_step s d (upd_device x d)"
  "tp_deviceId x = s \<Longrightarrow> inserted TRUST_DEVICE_TABLE (TrustDeviceProfileToEntries x) d d' \<Longrightarrow> device_step s d d'"
  unfolding device_step_def by blast+

lemma device_step_lists: "device_step s d d' \<Longrightarrow> lists_of d' = lists_of d"
  by (auto simp: device_step_def lists_of_def upd_device_def updated_def deleted_def inserted_def)

lemma device_update_typed:
  assumes "row_typed TRUST_DEVICE_TABLE r"
  shows "row_update (TrustDeviceProfileToEntries x) r = TrustDeviceProfileToEntries x"
proof -
  obtain y where "r = TrustDeviceProfileToEntries y" using typed_device [OF assms] by metis
  then show ?thesis by (intro row_update_same) (simp_all add: TrustDeviceProfileToEntries_def)
qed

lemma device_step_ok:
  assumes "trust_ok d" "device_step s d d'"
  shows "trust_ok d'"
proof (rule trust_ok_devices [OF assms(1) device_step_lists [OF assms(2)]])
  have "\<forall>r\<in>set (d TRUST_DEVICE_TABLE). row_typed TRUST_DEVICE_TABLE r"
    using assms(1) by (simp add: trust_ok_def rows_ok_def list_all_iff)
  then show "list_all (row_typed TRUST_DEVICE_TABLE) (d' TRUST_DEVICE_TABLE)"
    using assms(2)
    by (auto simp: device_step_def upd_device_def updated_def deleted_def inserted_def list_all_iff
        device_update_typed)
qed

definition put_device :: "'a TrustEnv \<Rightarrow> AccessControlProfile \<Rightarrow> bool \<Rightarrow> tables \<Rightarrow> TrustDeviceProfile" where
  "put_device env p isAccountAclExists d =
     (let tp = TrustDeviceProfile_of_acl p TrustDeviceProfile_default in
      if \<not> isAccountAclExists \<and> \<not> IsLnnAcl env p
      then tp\<lparr>tp_serviceIdList := service_ids_loop env (query_params p) (visible env d) []\<rparr> else tp)"

definition put_calls ::
  "'a TrustEnv \<Rightarrow> AccessControlProfile \<Rightarrow> bool \<Rightarrow> bool \<Rightarrow> tables \<Rightarrow> SubscribeManager \<Rightarrow> delivery list" where
  "put_calls env p isUserAclExists isAccountAclExists d s =
     (if \<not> isUserAclExists \<and> \<not> IsLnnAcl env p
      then snd (NotifyTrustDeviceProfileAdd (TrustDeviceProfile_of_acl p TrustDeviceProfile_default) s) else []) @
     (if \<not> isAccountAclExists \<and> \<not> IsLnnAcl env p
      then snd (NotifyAccountAclAdd (put_device env p isAccountAclExists d) s) else [])"

definition active_status :: "tables \<Rightarrow> string \<Rightarrow> int" where
  "active_status d s = (if has_active d s then 1 else 0)"

lemma put_device_id [simp]:
  "tp_deviceId (TrustDeviceProfile_of_acl p x) = acl_trustDeviceId p"
  "tp_status (TrustDeviceProfile_of_acl p x) = acl_status p"
  "tp_deviceId (put_device env p b d) = acl_trustDeviceId p"
  "tp_status (put_device env p b d) = acl_status p"
  by (simp_all add: TrustDeviceProfile_of_acl_def put_device_def Let_def)

text \<open>
  What the check does: in any state a step of the device and nothing to the lists; in a live state
  these calls, the new device where there was none, else the status of its lists.
\<close>

definition put_check_post ::
  "('a \<Rightarrow> tables) \<Rightarrow> ('a \<Rightarrow> bool) \<Rightarrow> 'a TrustEnv \<Rightarrow> AccessControlProfile \<Rightarrow> bool \<Rightarrow> bool \<Rightarrow>
   'a TrustManager \<Rightarrow> dp_ret \<Rightarrow> 'a TrustManager \<Rightarrow> bool" where
  "put_check_post db live env p u a m ret m' \<longleftrightarrow>
     (let d = tm_tables db m; d' = tm_tables db m'; s = acl_trustDeviceId p;
          x = (put_device env p a d)\<lparr>tp_status := active_status d s\<rparr> in
      device_step s d d' \<and> tm_subscribe m' = tm_subscribe m \<and> tm_aclAdded m' = tm_aclAdded m \<and>
      (tm_alive live m \<longrightarrow> tm_alive live m' \<and>
        (if device_rows s d = []
         then ret = DP_SUCCESS \<and> tm_calls m' = tm_calls m @ put_calls env p u a d (tm_subscribe m) \<and>
              (d' = d \<or> inserted TRUST_DEVICE_TABLE (TrustDeviceProfileToEntries (put_device env p a d)) d d')
         else if ret = DP_SUCCESS
         then d' = upd_device x d \<and> tm_calls m' = tm_calls m @ put_calls env p u a d (tm_subscribe m) @
                device_calls x d (tm_subscribe m)
         else d' = d \<and> tm_calls m' = tm_calls m @ put_calls env p u a d (tm_subscribe m))))"

context rdb_reads
begin

lemma put_check_device:
  assumes "te_rdb env = ir" "tm_told db live cs m m1" "tp_deviceId tp = s" "s = acl_trustDeviceId p"
    and alive: "tm_alive live m \<longrightarrow> tp = put_device env p a (tabs m) \<and> cs = put_calls env p u a (tabs m) (tm_subscribe m)"
    and Q: "\<And>ret m'. put_check_post db live env p u a m ret m' \<Longrightarrow> Q ret m'"
  shows "wp (GetResultSet env SELECT_TRUST_DEVICE_TABLE_WHERE_DEVICEID [RStr s] \<bind> (\<lambda>resultSet.
     case resultSet of
       None \<Rightarrow> return DP_GET_RESULTSET_FAIL
     | Some rs \<Rightarrow>
         if rowCount rs = 0 then PutTrustDeviceProfile env tp \<bind> (\<lambda>_. return DP_SUCCESS)
         else GetResultStatus env s STATUS_INIT \<bind> (\<lambda>(ret, status).
           if ret \<noteq> DP_SUCCESS then return DP_GET_RESULTSET_FAIL
           else UpdateTrustDeviceProfile env (tp\<lparr>tp_status := status\<rparr>) \<bind> (\<lambda>ret.
             return (if ret \<noteq> DP_SUCCESS then DP_UPDATE_TRUST_DEVICE_PROFILE_FAIL else DP_SUCCESS))))) Q m1"
proof -
  let ?d = "tabs m"
  note told = tm_toldD [OF assms(2)]
  have put: "wp (PutTrustDeviceProfile env tp) (\<lambda>_. Q DP_SUCCESS) m2"
    if "tm_same db live m1 m2" "device_rows s ?d = []" for m2
  proof (rule wp_PutTrustDeviceProfile [OF assms(1)], rule Q)
    fix ret m3
    assume "tm_step live m2 m3" "if ret = DP_SUCCESS
      then inserted TRUST_DEVICE_TABLE (TrustDeviceProfileToEntries tp) (tabs m2) (tabs m3) else tabs m3 = tabs m2"
    then show "put_check_post db live env p u a m DP_SUCCESS m3"
      using that assms(3,4) alive told tm_sameD [OF that(1)] tm_stepD [of live m2 m3] tm_stepD [of live m1 m2]
      by (auto simp: put_check_post_def Let_def tm_step_def split: if_splits)
  qed
  have fail: "Q ret m2"
    if "tm_same db live m1 m2" "ret \<noteq> DP_SUCCESS" "tm_alive live m \<longrightarrow> device_rows s ?d \<noteq> []" for ret m2
    using that assms(3,4) alive told tm_sameD [OF that(1)] tm_stepD [of live m1 m2]
    by (intro Q) (auto simp: put_check_post_def Let_def)
  have upd: "wp (UpdateTrustDeviceProfile env (tp\<lparr>tp_status := active_status ?d s\<rparr>))
      (\<lambda>ret. Q (if ret \<noteq> DP_SUCCESS then DP_UPDATE_TRUST_DEVICE_PROFILE_FAIL else DP_SUCCESS)) m2"
    if "tm_same db live m1 m2" "device_rows s ?d \<noteq> []" for m2
  proof (rule wp_UpdateTrustDeviceProfile [OF assms(1)])
    fix ret m4 m3
    let ?x = "tp\<lparr>tp_status := active_status ?d s\<rparr>"
    assume s: "tm_step live m2 m3" and r: "if ret = DP_SUCCESS
      then device_rows (tp_deviceId ?x) (tabs m2) \<noteq> [] \<and> tabs m3 = upd_device ?x (tabs m2) \<and>
        tm_told db live (device_calls ?x (tabs m2) (tm_subscribe m2)) m3 m4
      else m4 = m3 \<and> tabs m3 = tabs m2"
    note same = tm_sameD [OF that(1)] and st = tm_stepD [OF s] tm_stepD [OF tm_sameD(3) [OF that(1)]]
    show "Q (if ret \<noteq> DP_SUCCESS then DP_UPDATE_TRUST_DEVICE_PROFILE_FAIL else DP_SUCCESS) m4"
    proof (cases "ret = DP_SUCCESS")
      case True
      with r have t: "tm_told db live (device_calls ?x (tabs m2) (tm_subscribe m2)) m3 m4"
        and u: "tabs m3 = upd_device ?x (tabs m2)" by simp_all
      have "tm_alive live m \<Longrightarrow> tm_alive live m4"
        using s told(2) same(2) tm_toldD(2) [OF t] by (simp add: tm_step_def)
      then show ?thesis
        using True that(2) assms(3,4) alive told same(1) st tm_toldD [OF t] u
        by (intro Q) (auto simp: put_check_post_def Let_def)
    next
      case False
      have "tm_alive live m \<Longrightarrow> tm_alive live m4"
        using s told(2) same(2) r False by (simp add: tm_step_def)
      then show ?thesis
        using False r that(2) assms(3,4) alive told same(1) st
        by (intro Q) (auto simp: put_check_post_def Let_def)
    qed
  qed
  show ?thesis
    unfolding wp_bind
    apply (rule wp_GetResultSet [OF assms(1) tm_same_refl])
       apply simp_all
    subgoal for m2
      apply (intro conjI impI)
      subgoal using put [of m2] told(1) by simp
      subgoal
        apply (rule wp_GetResultStatus [OF assms(1), where ?m0.0 = m1], assumption)
        subgoal for ret st m3
          apply (cases "ret = DP_SUCCESS")
          subgoal using upd [of m3] told(1) by (simp add: active_status_def split: if_splits)
          subgoal using fail [of m3] told(1) by simp
          done
        done
      done
    subgoal for m2 using fail [of m2 DP_GET_RESULTSET_FAIL] told(2) by auto
    done
qed

lemma wp_PutAclCheck:
  assumes "te_rdb env = ir"
    and Q: "\<And>ret m'. put_check_post db live env p u a m ret m' \<Longrightarrow> Q ret m'"
  shows "wp (PutAclCheck env p u a) Q m"
proof -
  let ?tp = "TrustDeviceProfile_of_acl p TrustDeviceProfile_default"
  show ?thesis
    unfolding PutAclCheck_def wp_bind Let_def
    apply (rule wp_notify_if [where db = db and live = live], simp)
    subgoal for m1
      apply (cases "\<not> a \<and> \<not> IsLnnAcl env p")
      subgoal
        apply simp
        apply (rule wp_QueryServiceIdList [OF assms(1) tm_same_refl])
        subgoal for ret ids m2
          apply simp
          apply (rule wp_notify_if [where db = db and live = live and c = True, simplified])
           apply simp
          subgoal for m3
            apply (rule put_check_device [OF assms(1) _ _ _ _ Q, unfolded wp_bind Let_def])
                apply (rule tm_told_trans [OF tm_told_then_same], assumption+)
              apply (simp_all add: put_device_def put_calls_def tm_toldD tm_same_subscribe)
            done
          done
        done
      subgoal
        apply (simp only: if_False wp_return)
        apply (rule put_check_device [OF assms(1) _ _ _ _ Q, unfolded wp_bind Let_def])
            apply assumption
           apply (auto simp: put_device_def put_calls_def)
        done
      done
    done
qed

end

section \<open>The checks after an update and a deletion\<close>

definition update_calls ::
  "'a TrustEnv \<Rightarrow> AccessControlProfile \<Rightarrow> AccessControlProfile \<Rightarrow> tables \<Rightarrow> SubscribeManager \<Rightarrow> delivery list" where
  "update_calls env p old d s =
     (let tp = TrustDeviceProfile_of_acl p TrustDeviceProfile_default;
          tp' = tp\<lparr>tp_serviceIdList := service_ids_loop env (query_params p) (visible env d) []\<rparr>;
          accounts = length (filter (\<lambda>x. acl_status x = STATUS_ACTIVE \<and> IsMatchingAclProfile x (query_params p)) (visible env d));
          users = length (filter (\<lambda>x. acl_status x = STATUS_ACTIVE \<and> same_users x (query_params p)) (visible env d));
          off = acl_status p = STATUS_INACTIVE \<and> acl_status old = STATUS_ACTIVE \<and> \<not> IsLnnAcl env p;
          on = acl_status p = STATUS_ACTIVE \<and> acl_status old = STATUS_INACTIVE \<and> \<not> IsLnnAcl env p in
      if stored d = [] then []
      else (if accounts = 0 \<and> off then snd (NotifyAccountAclInactive tp' s) else []) @
           (if accounts = 1 \<and> on then snd (NotifyAccountAclActive tp' s) else []) @
           (if users = 1 \<and> on then snd (NotifyTrustDeviceProfileActive tp s) else []) @
           (if users = 0 \<and> off then snd (NotifyTrustDeviceProfileInactive tp s) else []) @
           (if \<not> list_ex (\<lambda>x. acl_trustDeviceId p = acl_trustDeviceId x \<and> acl_status x = STATUS_ACTIVE) (visible env d) \<and>
               \<not> IsLnnAcl env p
            then snd (NotifyDeviceAclInactiveByUpdate tp s) else []))"

definition delete_calls ::
  "'a TrustEnv \<Rightarrow> AccessControlProfile \<Rightarrow> tables \<Rightarrow> SubscribeManager \<Rightarrow> delivery list" where
  "delete_calls env p d s =
     (let tp = TrustDeviceProfile_of_acl p TrustDeviceProfile_default;
          tp' = tp\<lparr>tp_serviceIdList := service_ids_loop env (query_params p) (visible env d) []\<rparr> in
      (if \<not> list_ex (\<lambda>x. same_users x (query_params p)) (visible env d) \<and> \<not> IsLnnAcl env p
       then snd (NotifyTrustDeviceProfileDelete tp s) else []) @
      (if \<not> list_ex (\<lambda>x. acl_trustDeviceId p = acl_trustDeviceId x \<and> acl_status x = STATUS_ACTIVE) (visible env d) \<and>
          \<not> IsLnnAcl env p
       then snd (NotifyDeviceAclInactiveByDelete tp s) else []) @
      (if \<not> list_ex (\<lambda>x. IsMatchingAclProfile x (query_params p)) (visible env d) \<and> \<not> IsLnnAcl env p
       then snd (NotifyAccountAclDelete tp' s) else []))"

lemma tm_told_sameD:
  assumes "tm_told db live cs m0 m" "tm_same db live m m'"
  shows "tm_tables db m' = tm_tables db m0" "tm_subscribe m' = tm_subscribe m0"
    "tm_alive live m0 \<Longrightarrow> tm_alive live m'"
  using tm_toldD [OF tm_told_then_same [OF assms]] by simp_all

context rdb_reads
begin

text \<open>The checks of an update call listeners and change nothing else.\<close>

lemma wp_NotifyAccountAclCheck:
  assumes "te_rdb env = ir"
    and Q: "\<And>ret cs m'. tm_told db live cs m m' \<Longrightarrow>
      tm_alive live m \<longrightarrow> (let d = tabs m;
        tp' = (TrustDeviceProfile_of_acl p TrustDeviceProfile_default)
          \<lparr>tp_serviceIdList := service_ids_loop env (query_params p) (visible env d) []\<rparr>;
        accounts = length (filter (\<lambda>x. acl_status x = STATUS_ACTIVE \<and> IsMatchingAclProfile x (query_params p)) (visible env d)) in
       cs = (if stored d = [] then [] else
         (if accounts = 0 \<and> acl_status p = STATUS_INACTIVE \<and> acl_status old = STATUS_ACTIVE \<and> \<not> IsLnnAcl env p
          then snd (NotifyAccountAclInactive tp' (tm_subscribe m)) else []) @
         (if accounts = 1 \<and> acl_status p = STATUS_ACTIVE \<and> acl_status old = STATUS_INACTIVE \<and> \<not> IsLnnAcl env p
          then snd (NotifyAccountAclActive tp' (tm_subscribe m)) else []))) \<Longrightarrow> Q ret m'"
  shows "wp (NotifyAccountAclCheck env p old) Q m"
  unfolding NotifyAccountAclCheck_def CheckAccountAclActiveCount_def wp_bind Let_def
  apply (rule wp_acl_count [OF assms(1) tm_same_refl])
  subgoal for ret n m1
    apply (cases "ret = DP_SUCCESS")
    subgoal
      apply (simp split del: if_split)
      apply (rule wp_QueryServiceIdList [OF assms(1), where ?m0.0 = m], assumption)
      subgoal for ret2 ids m2
        apply (simp split del: if_split)
        apply (rule wp_notify_if [where db = db and live = live], simp)
        subgoal for m3
          apply (simp split del: if_split)
          apply (rule wp_notify_if [where db = db and live = live], simp)
          subgoal for m4
            apply simp
            apply (rule Q)
             apply (rule tm_told_trans [OF tm_told_trans [OF tm_told_same [THEN iffD2, of db live m m2]]], assumption+)
            apply (simp add: tm_same_subscribe tm_toldD(3) Let_def split del: if_split cong: if_cong)
            apply (simp split: if_splits)
            done
          done
        done
      done
    subgoal
      by (auto intro!: Q [of "[]"] simp: tm_told_same Let_def split: if_splits)
    done
  done

lemma wp_NotifyCheck:
  assumes "te_rdb env = ir"
    and Q: "\<And>ret cs m'. tm_told db live cs m m' \<Longrightarrow>
      tm_alive live m \<longrightarrow> cs = update_calls env p old (tabs m) (tm_subscribe m) \<Longrightarrow> Q ret m'"
  shows "wp (NotifyCheck env p old) Q m"
  unfolding NotifyCheck_def CheckDeviceIdAndUserIdActive_def CheckDeviceIdActiveAclExists_def wp_bind Let_def
  apply (rule wp_NotifyAccountAclCheck [OF assms(1)])
  subgoal for ret0 cs0 m1
    apply (rule wp_acl_count [OF assms(1) tm_same_refl])
    subgoal for ret n m2
      apply (cases "ret = DP_SUCCESS")
      subgoal
        apply (simp split del: if_split)
        apply (rule wp_notify_if [where db = db and live = live], simp)
        subgoal for m3
          apply (simp split del: if_split)
          apply (rule wp_notify_if [where db = db and live = live], simp)
          subgoal for m4
            apply (simp split del: if_split)
            apply (rule wp_acl_exists [OF assms(1) tm_same_refl])
            subgoal for ret5 b m5
              apply (simp split del: if_split)
              apply (rule wp_notify_if [where db = db and live = live], simp)
              subgoal premises prems for m6
              proof (rule Q)
                show "tm_told db live (((cs0 @ (if n = 1 \<and> acl_status p = 1 \<and> acl_status old = 0 \<and> \<not> IsLnnAcl env p
                      then snd (NotifyTrustDeviceProfileActive (TrustDeviceProfile_of_acl p TrustDeviceProfile_default)
                        (tm_subscribe m2)) else [])) @
                    (if n = 0 \<and> acl_status p = 0 \<and> acl_status old = 1 \<and> \<not> IsLnnAcl env p
                      then snd (NotifyTrustDeviceProfileInactive (TrustDeviceProfile_of_acl p TrustDeviceProfile_default)
                        (tm_subscribe m3)) else [])) @
                    (if \<not> b \<and> \<not> IsLnnAcl env p
                      then snd (NotifyDeviceAclInactiveByUpdate (TrustDeviceProfile_of_acl p TrustDeviceProfile_default)
                        (tm_subscribe m5)) else [])) m m6" (is "tm_told db live ?cs m m6")
                  by (rule tm_told_trans [OF tm_told_then_same [OF tm_told_trans [OF
                      tm_told_trans [OF tm_told_then_same [OF prems(1,3)] prems(6)] prems(7)] prems(8)] prems(10)])
                have alive: "tm_alive live m1" "tm_alive live m4" if "tm_alive live m"
                  using that tm_toldD(2) [OF prems(1)] tm_sameD(2) [OF prems(3)] tm_toldD(2) [OF prems(6)]
                    tm_toldD(2) [OF prems(7)] by blast+
                have subs: "tm_subscribe m2 = tm_subscribe m" "tm_subscribe m3 = tm_subscribe m"
                  "tm_subscribe m5 = tm_subscribe m" and tabs: "tabs m1 = tabs m" "tabs m4 = tabs m"
                  using tm_toldD(1,3) [OF prems(1)] tm_sameD(1) [OF prems(3)] tm_same_subscribe [OF prems(3)]
                    tm_toldD(1,3) [OF prems(6)] tm_toldD(1,3) [OF prems(7)] tm_same_subscribe [OF prems(8)] by simp_all
                show "tm_alive live m \<longrightarrow> ?cs = update_calls env p old (tabs m) (tm_subscribe m)"
                  using prems(2,4,5,9) alive
                  by (auto simp: subs tabs update_calls_def Let_def split del: if_split cong: if_cong split: if_splits)
              qed
              done
            done
          done
        done
      subgoal premises prems
      proof -
        have "Q DP_NOTIFY_TRUST_DEVICE_FAIL m2"
        proof (rule Q)
          show "tm_told db live cs0 m m2" using prems(1,3) by (rule tm_told_then_same)
          show "tm_alive live m \<longrightarrow> cs0 = update_calls env p old (tabs m) (tm_subscribe m)"
          proof
            assume a: "tm_alive live m"
            then have "stored (tabs m) = []"
              using prems(4,5) tm_toldD(1,2) [OF prems(1)] by (simp split: if_splits)
            then show "cs0 = update_calls env p old (tabs m) (tm_subscribe m)"
              using prems(2) a by (simp add: update_calls_def Let_def)
          qed
        qed
        with prems(5) show ?thesis by simp
      qed
      done
    done
  done

end

definition delete_device :: "'a TrustEnv \<Rightarrow> AccessControlProfile \<Rightarrow> tables \<Rightarrow> TrustDeviceProfile" where
  "delete_device env p d =
     put_device env p (list_ex (\<lambda>x. IsMatchingAclProfile x (query_params p)) (visible env d)) d"

definition delete_check_post ::
  "('a \<Rightarrow> tables) \<Rightarrow> ('a \<Rightarrow> bool) \<Rightarrow> 'a TrustEnv \<Rightarrow> AccessControlProfile \<Rightarrow>
   'a TrustManager \<Rightarrow> dp_ret \<Rightarrow> 'a TrustManager \<Rightarrow> bool" where
  "delete_check_post db live env p m ret m' \<longleftrightarrow>
     (let d = tm_tables db m; d' = tm_tables db m'; s = acl_trustDeviceId p;
          x = (delete_device env p d)\<lparr>tp_status := active_status d s\<rparr> in
      device_step s d d' \<and> tm_subscribe m' = tm_subscribe m \<and> tm_aclAdded m' = tm_aclAdded m \<and>
      (tm_alive live m \<longrightarrow> tm_alive live m' \<and>
        (if selected ACCESS_CONTROL_TABLE [''trustDeviceId''] [RStr s] d = []
         then d' = (if ret = DP_SUCCESS then deleted TRUST_DEVICE_TABLE [''deviceId''] [RStr s] d else d) \<and>
              tm_calls m' = tm_calls m @ delete_calls env p d (tm_subscribe m)
         else if ret = DP_SUCCESS
         then d' = upd_device x d \<and> tm_calls m' = tm_calls m @ delete_calls env p d (tm_subscribe m) @
                device_calls x d (tm_subscribe m)
         else d' = d \<and> tm_calls m' = tm_calls m @ delete_calls env p d (tm_subscribe m))))"

context rdb_reads
begin

lemma delete_check_device:
  assumes "te_rdb env = ir" "tm_told db live cs m m1" "tp_deviceId tp = s" "s = acl_trustDeviceId p"
    and alive: "tm_alive live m \<longrightarrow> tp = delete_device env p (tabs m) \<and> cs = delete_calls env p (tabs m) (tm_subscribe m)"
    and Q: "\<And>ret m'. delete_check_post db live env p m ret m' \<Longrightarrow> Q ret m'"
  shows "wp (GetResultSet env (SELECT_ACL_WHERE [''trustDeviceId'']) [RStr s]) (\<lambda>resultSet. wp (
     case resultSet of
       None \<Rightarrow> return DP_GET_RESULTSET_FAIL
     | Some rs \<Rightarrow>
         if rowCount rs = 0 then DeleteTrustDeviceProfile env s
         else GetResultStatus env s STATUS_INIT \<bind> (\<lambda>(_, status).
           UpdateTrustDeviceProfile env (tp\<lparr>tp_status := status\<rparr>))) Q) m1"
proof -
  let ?d = "tabs m"
  let ?lists = "selected ACCESS_CONTROL_TABLE [''trustDeviceId''] [RStr s] ?d"
  note told = tm_toldD [OF assms(2)]
  have del: "wp (DeleteTrustDeviceProfile env s) Q m2" if "tm_same db live m1 m2" "?lists = []" for m2
  proof (rule wp_DeleteTrustDeviceProfile [OF assms(1)], rule Q)
    fix ret m3
    assume "tm_step live m2 m3" "tabs m3 = (if ret = DP_SUCCESS
      then deleted TRUST_DEVICE_TABLE [''deviceId''] [RStr s] (tabs m2) else tabs m2)"
    then show "delete_check_post db live env p m ret m3"
      using that assms(4) alive told tm_sameD [OF that(1)] tm_stepD [of live m2 m3] tm_stepD [of live m1 m2]
      by (auto simp: delete_check_post_def Let_def tm_step_def split: if_splits)
  qed
  have fail: "Q ret m2" if "tm_same db live m1 m2" "\<not> tm_alive live m" for ret m2
    using that assms(4) told tm_sameD [OF that(1)] tm_stepD [of live m1 m2]
    by (intro Q) (auto simp: delete_check_post_def Let_def)
  have upd: "wp (UpdateTrustDeviceProfile env (tp\<lparr>tp_status := st\<rparr>)) Q m2"
    if same: "tm_same db live m1 m2" and lists: "?lists \<noteq> []"
      and st: "tm_alive live m \<longrightarrow> st = active_status ?d s" for m2 st
  proof (rule wp_UpdateTrustDeviceProfile [OF assms(1)])
    fix ret m4 m3
    let ?x = "tp\<lparr>tp_status := st\<rparr>"
    assume s: "tm_step live m2 m3" and r: "if ret = DP_SUCCESS
      then device_rows (tp_deviceId ?x) (tabs m2) \<noteq> [] \<and> tabs m3 = upd_device ?x (tabs m2) \<and>
        tm_told db live (device_calls ?x (tabs m2) (tm_subscribe m2)) m3 m4
      else m4 = m3 \<and> tabs m3 = tabs m2"
    note same' = tm_sameD [OF same] and ss = tm_stepD [OF s] tm_stepD [OF tm_sameD(3) [OF same]]
    show "Q ret m4"
    proof (cases "ret = DP_SUCCESS")
      case True
      with r have t: "tm_told db live (device_calls ?x (tabs m2) (tm_subscribe m2)) m3 m4"
        and u: "tabs m3 = upd_device ?x (tabs m2)" by simp_all
      have "tm_alive live m \<Longrightarrow> tm_alive live m4"
        using s told(2) same'(2) tm_toldD(2) [OF t] by (simp add: tm_step_def)
      then show ?thesis
        using True lists st assms(3,4) alive told same'(1) ss tm_toldD [OF t] u
        by (intro Q) (auto simp: delete_check_post_def Let_def)
    next
      case False
      have "tm_alive live m \<Longrightarrow> tm_alive live m4"
        using s told(2) same'(2) r False by (simp add: tm_step_def)
      then show ?thesis
        using False r lists assms(3,4) alive told same'(1) ss
        by (intro Q) (auto simp: delete_check_post_def Let_def)
    qed
  qed
  show ?thesis
    apply (rule wp_GetResultSet [OF assms(1) tm_same_refl])
       apply simp_all
    subgoal for m2
      apply (intro conjI impI)
      subgoal using del [of m2] told(1) by simp
      subgoal
        apply (rule wp_GetResultStatus [OF assms(1), where ?m0.0 = m1], assumption)
        subgoal for ret st m3
          using upd [of m3 st] told(1,2) by (cases "ret = DP_SUCCESS") (auto simp: active_status_def)
        done
      done
    subgoal for m2 using fail [of m2] told(2) by auto
    done
qed

lemma wp_DeleteTrustDeviceCheck:
  assumes "te_rdb env = ir"
    and Q: "\<And>ret m'. delete_check_post db live env p m ret m' \<Longrightarrow> Q ret m'"
  shows "wp (DeleteTrustDeviceCheck env p) Q m"
  unfolding DeleteTrustDeviceCheck_def CheckDeviceIdAndUserIdExists_def CheckDeviceIdActiveAclExists_def
    CheckAccountAclExists_def wp_bind Let_def
  apply (rule wp_acl_exists [OF assms(1) tm_same_refl])
  subgoal for ret1 b1 m1
    apply (simp split del: if_split)
    apply (rule wp_notify_if [where db = db and live = live], simp)
    subgoal for m2
      apply (rule wp_acl_exists [OF assms(1) tm_same_refl])
      subgoal for ret3 b3 m3
        apply (simp split del: if_split)
        apply (rule wp_notify_if [where db = db and live = live], simp)
        subgoal for m4
          apply (rule wp_acl_exists [OF assms(1) tm_same_refl])
          subgoal for ret5 b5 m5
            apply (cases "\<not> b5 \<and> \<not> IsLnnAcl env p")
            subgoal
              apply simp
              apply (rule wp_QueryServiceIdList [OF assms(1) tm_same_refl])
              subgoal for ret6 ids m6
                apply simp
                apply (rule wp_notify_if [where db = db and live = live and c = True, simplified])
                 apply simp
                subgoal premises prems for m7
                proof -
                  let ?tp = "TrustDeviceProfile_of_acl p TrustDeviceProfile_default"
                  note told4 = tm_told_trans [OF tm_told_then_same [OF tm_told_trans [OF
                        tm_told_same [THEN iffD2, OF prems(1)] prems(3)] prems(4)] prems(6)]
                  note told6 = tm_told_then_same [OF tm_told_then_same [OF told4 prems(7)] prems(10)]
                  have alive: "tm_alive live m2" "tm_alive live m4" "tm_alive live m5" if "tm_alive live m"
                    using that tm_toldD(2) [OF told4] tm_sameD(2) [OF prems(1)] tm_toldD(2) [OF prems(3)]
                      tm_sameD(2) [OF prems(7)] by blast+
                  have tabs: "tabs m2 = tabs m" "tabs m4 = tabs m" "tabs m5 = tabs m"
                    and subs: "tm_subscribe m1 = tm_subscribe m" "tm_subscribe m3 = tm_subscribe m" "tm_subscribe m6 = tm_subscribe m"
                    using tm_toldD(1,3) [OF told4] tm_toldD(1,3) [OF told6] tm_sameD(1) [OF prems(1)]
                      tm_toldD(1,3) [OF prems(3)] tm_sameD(1) [OF prems(7)] tm_same_subscribe [OF prems(1)]
                      tm_same_subscribe [OF prems(4)] by simp_all
                  show ?thesis
                    by (rule delete_check_device [OF assms(1) tm_told_trans [OF told6 prems(12)] _ _ _ Q, unfolded wp_bind Let_def])
                      (use prems(2,5,8,9,11) alive in \<open>simp_all add: tabs subs delete_device_def delete_calls_def
                        put_device_def Let_def cong: if_cong\<close>)
                qed
                done
              done
            subgoal premises prems
            proof -
              let ?tp = "TrustDeviceProfile_of_acl p TrustDeviceProfile_default"
              note told4 = tm_told_trans [OF tm_told_then_same [OF tm_told_trans [OF
                    tm_told_same [THEN iffD2, OF prems(1)] prems(3)] prems(4)] prems(6)]
              note told5 = tm_told_then_same [OF told4 prems(7)]
              have alive: "tm_alive live m2" "tm_alive live m4" if "tm_alive live m"
                using that tm_toldD(2) [OF told4] tm_sameD(2) [OF prems(1)] tm_toldD(2) [OF prems(3)] by blast+
              have tabs: "tabs m2 = tabs m" "tabs m4 = tabs m"
                and subs: "tm_subscribe m1 = tm_subscribe m" "tm_subscribe m3 = tm_subscribe m"
                using tm_toldD(1,3) [OF told4] tm_sameD(1) [OF prems(1)] tm_toldD(1,3) [OF prems(3)]
                  tm_same_subscribe [OF prems(1)] tm_same_subscribe [OF prems(4)] by simp_all
              have skip: "(if \<not> b5 \<and> \<not> IsLnnAcl env p then f else return ?tp) = return ?tp"
                for f :: "('a TrustManager, TrustDeviceProfile) state"
                using prems(9) by (simp only: if_False)
              show ?thesis
                unfolding prod.case wp_bind skip wp_return
                by (rule delete_check_device [OF assms(1) told5 _ _ _ Q, unfolded wp_bind Let_def])
                  (use prems(2,5,8,9) alive in \<open>auto simp: tabs subs delete_device_def delete_calls_def
                    put_device_def Let_def cong: if_cong\<close>)
            qed
            done
          done
        done
      done
    done
  done

end

end
