(* ===== verification/TrustExample.thy ===== *)
theory TrustExample
  imports TrustReads
begin

text \<open>
  A small instance of the trust manager over the store in memory, on which the witnesses evaluate
  the properties: one list between two devices, put into the empty store.
\<close>

definition demo_env :: "mem_rdb RdbAdapter TrustEnv" where
  "demo_env = \<lparr>te_rdb = RdbAdapter_ops mem_rdb (\<lambda>a. (DP_SUCCESS, a)),
     te_new = \<lparr>ra_store = None, ra_preMigStore = None, ra_postMigStore = None\<rparr>,
     te_json = (\<lambda>_ _. None), te_services = []\<rparr>"

definition demo_state :: "mem_rdb RdbAdapter TrustManager" where
  "demo_state = \<lparr>tm_rdb = Some \<lparr>ra_store = Some [], ra_preMigStore = None, ra_postMigStore = None\<rparr>,
     tm_isInited = True, tm_subscribe = SubscribeManager_new, tm_calls = [], tm_aclAdded = []\<rparr>"

definition demo_acl :: AccessControlProfile where
  "demo_acl = AccessControlProfile_default\<lparr>acl_trustDeviceId := ''b'', acl_status := 1,
     acl_accesser := Accesser_default\<lparr>ar_deviceId := ''a'', ar_userId := 100, ar_tokenId := 7\<rparr>,
     acl_accessee := Accessee_default\<lparr>ae_deviceId := ''b'', ae_userId := 200, ae_tokenId := 9\<rparr>\<rparr>"

abbreviation demo_db :: "mem_rdb RdbAdapter \<Rightarrow> tables" where
  "demo_db \<equiv> rdb_db mem_tab"

abbreviation demo_live :: "mem_rdb RdbAdapter \<Rightarrow> bool" where
  "demo_live \<equiv> \<lambda>a. ra_store a \<noteq> None"

text \<open>The list with its numbers, and the state after it was put.\<close>

definition demo_first :: AccessControlProfile where
  "demo_first = demo_acl\<lparr>acl_accessControlId := 1, acl_accesserId := 1, acl_accesseeId := 1,
     acl_accesser := (acl_accesser demo_acl)\<lparr>ar_id := 1\<rparr>,
     acl_accessee := (acl_accessee demo_acl)\<lparr>ae_id := 1\<rparr>\<rparr>"

definition demo_one :: "mem_rdb RdbAdapter TrustManager" where
  "demo_one = demo_state\<lparr>
     tm_rdb := Some \<lparr>ra_store = Some
       [(ACCESSER_TABLE, [AccesserToEntries demo_first]), (ACCESSEE_TABLE, [AccesseeToEntries demo_first]),
        (ACCESS_CONTROL_TABLE, [AccessControlProfileToEntries demo_first]),
        (TRUST_DEVICE_TABLE, [TrustDeviceProfileToEntries
           (TrustDeviceProfile_of_acl demo_first TrustDeviceProfile_default)])],
       ra_preMigStore = None, ra_postMigStore = None\<rparr>,
     tm_aclAdded := [(1, ''b'', acl_bindType demo_acl)]\<rparr>"

lemma demo_adapter [simp]: "rdb_adapter (te_rdb demo_env) demo_db"
  unfolding demo_env_def TrustEnv.simps by (rule mem.adapter.rdb_adapter_axioms)

lemma demo_reads [simp]: "rdb_reads (te_rdb demo_env) demo_db demo_live"
  unfolding demo_env_def TrustEnv.simps by (rule mem.reads.rdb_reads_axioms)

lemma demo_tables [simp]: "tm_tables demo_db demo_state = (\<lambda>_. [])"
  by (simp add: demo_state_def tm_tables_def rdb_db_def mem_tab_def fun_eq_iff)

lemma empty_trust_ok [simp]: "trust_ok (\<lambda>_. [])"
  by (simp add: trust_ok_def rows_ok_def refs_ok_def)

lemma demo_alive [simp]: "tm_alive demo_live demo_state"
  by (simp add: demo_state_def tm_alive_def)

lemma put_demo: "run_state (PutAccessControlProfile demo_env demo_acl) demo_state = (DP_SUCCESS, demo_one)"
  by code_simp

lemma update_demo: "fst (run_state (UpdateAccessControlProfile demo_env (demo_first\<lparr>acl_status := 0\<rparr>)) demo_one) = DP_SUCCESS"
  by code_simp

lemma delete_demo: "fst (run_state (DeleteAccessControlProfile demo_env 1) demo_one) = DP_SUCCESS"
  by code_simp

lemma demo_one_ok [simp]: "trust_ok (tm_tables demo_db demo_one)"
  by code_simp

lemma demo_one_rows: "tm_tables demo_db demo_one ACCESS_CONTROL_TABLE = [AccessControlProfileToEntries demo_first]"
  by code_simp

lemma demo_one_alive [simp]: "tm_alive demo_live demo_one"
  by (simp add: demo_one_def tm_alive_def)

end
