(* ===== verification/TrustProps.thy ===== *)
theory TrustProps
  imports TrustExample
begin

text \<open>
  The properties of the trust manager: what putting, updating and deleting a list do to the tables,
  the trusted device and the subscribers, for every adapter that keeps its contract; the adapter of
  the source is one over every store that keeps its laws (\<open>RdbStore\<close>).
\<close>

section \<open>Whole operations\<close>

definition put_post ::
  "('a \<Rightarrow> tables) \<Rightarrow> ('a \<Rightarrow> bool) \<Rightarrow> 'a TrustEnv \<Rightarrow> AccessControlProfile \<Rightarrow>
   'a TrustManager \<Rightarrow> dp_ret \<Rightarrow> 'a TrustManager \<Rightarrow> bool" where
  "put_post db live env p m ret m' \<longleftrightarrow>
     (\<exists>res m1. tm_step live m m1 \<and>
       put_outcome p (tm_tables db m) (tm_alive live m) res (tm_tables db m1) \<and>
       (if \<not> snd (snd res) then ret = fst res \<and> m' = m1
        else \<exists>u a m2. (tm_alive live m \<longrightarrow>
              u = list_ex (\<lambda>x. same_users x (query_params p)) (visible env (tm_tables db m)) \<and>
              a = list_ex (\<lambda>x. IsMatchingAclProfile x (query_params p)) (visible env (tm_tables db m))) \<and>
            put_check_post db live env (fst (snd res)) u a m1 ret m2 \<and>
            m' = (if ret = DP_SUCCESS then snd (run_state (DpAclAdd (fst (snd res))) m2) else m2)))"

lemma put_postI:
  assumes "tm_step live m m1" "put_outcome p (tm_tables db m) (tm_alive live m) (r, q, True) (tm_tables db m1)"
    and "tm_alive live m \<longrightarrow>
        u = list_ex (\<lambda>x. same_users x (query_params p)) (visible env (tm_tables db m)) \<and>
        a = list_ex (\<lambda>x. IsMatchingAclProfile x (query_params p)) (visible env (tm_tables db m))"
    and "put_check_post db live env q u a m1 ret m2"
  shows "put_post db live env p m ret (if ret = DP_SUCCESS then snd (run_state (DpAclAdd q) m2) else m2)"
  unfolding put_post_def
  by (rule exI [of _ "(r, q, True)"], rule exI [of _ m1]) (use assms in \<open>simp; blast\<close>)

context rdb_reads
begin

lemma wp_PutAccessControlProfile:
  assumes "te_rdb env = ir"
    and Q: "\<And>ret m'. put_post db live env p m ret m' \<Longrightarrow> Q ret m'"
  shows "wp (PutAccessControlProfile env p) Q m"
  unfolding PutAccessControlProfile_def CheckDeviceIdAndUserIdExists_def CheckAccountAclExists_def wp_bind
  apply (rule wp_acl_exists [OF assms(1) tm_same_refl])
  subgoal for ret1 u m1
    apply simp
    apply (rule wp_acl_exists [OF assms(1), where ?m0.0 = m], assumption)
    subgoal for ret2 a m2
      apply simp
      apply (rule wp_put_acl [OF assms(1)])
      subgoal premises prems for res m3
      proof -
        obtain ret q written where res: "res = (ret, q, written)" by (metis prod.exhaust)
        have step: "tm_step live m m3" using tm_step_trans [OF tm_sameD(3) [OF prems(3)] prems(5)] .
        have out: "put_outcome p (tabs m) (tm_alive live m) res (tabs m3)"
          using prems(3,6) tm_sameD(1,2) [OF prems(3)] by (auto simp: put_outcome_def Let_def split: if_splits)
        show ?thesis
        proof (cases written)
          case False
          have "Q ret m3" using step out False by (intro Q) (auto simp: put_post_def res)
          with False show ?thesis by (simp add: res)
        next
          case True
          have "wp (PutAclCheck env q u a) (\<lambda>ret. wp (if ret \<noteq> DP_SUCCESS then return ret
              else DpAclAdd q \<bind> (\<lambda>_. return DP_SUCCESS)) Q) m3"
          proof (rule wp_PutAclCheck [OF assms(1)])
            fix ret4 m4
            assume c: "put_check_post db live env q u a m3 ret4 m4"
            have "Q ret4 (if ret4 = DP_SUCCESS then snd (run_state (DpAclAdd q) m4) else m4)"
              by (rule Q, rule put_postI [OF step _ _ c]) (use out prems(2,4) True in \<open>simp_all add: res\<close>)
            then show "wp (if ret4 \<noteq> DP_SUCCESS then return ret4 else DpAclAdd q \<bind> (\<lambda>_. return DP_SUCCESS)) Q m4"
              by (cases "ret4 = DP_SUCCESS") (simp_all add: DpAclAdd_def)
          qed
          with True show ?thesis by (simp add: res)
        qed
      qed
      done
    done
  done

lemma wp_DeleteAccessControlProfile:
  assumes "te_rdb env = ir"
    and Q: "\<And>ret q m1 m'. tm_step live m m1 \<Longrightarrow> delete_outcome i (tabs m) (ret, q) (tabs m1) \<Longrightarrow>
      ret \<noteq> DP_SUCCESS \<Longrightarrow> Q ret m1"
    and Q': "\<And>ret q m1 m'. tm_step live m m1 \<Longrightarrow> delete_outcome i (tabs m) (DP_SUCCESS, q) (tabs m1) \<Longrightarrow>
      delete_check_post db live env q m1 ret m' \<Longrightarrow> Q ret m'"
  shows "wp (DeleteAccessControlProfile env i) Q m"
  unfolding DeleteAccessControlProfile_def wp_bind
  apply (rule wp_delete_acl [OF assms(1)])
  subgoal for res m1
    apply (cases res)
    subgoal for ret q
      apply (cases "ret = DP_SUCCESS")
      subgoal
        apply simp
        apply (rule wp_DeleteTrustDeviceCheck [OF assms(1)])
        using Q' by simp
      subgoal using Q by simp
      done
    done
  done

lemma wp_UpdateAccessControlProfile:
  assumes "te_rdb env = ir"
    and Q: "\<And>ret q m1 m'. tm_step live m m1 \<Longrightarrow> update_outcome p (tabs m) (ret, q) (tabs m1) \<Longrightarrow>
      ret \<noteq> DP_SUCCESS \<Longrightarrow> Q ret m1"
    and Q': "\<And>ret old m1 cs m2 st ret3 m3 m'.
      tm_step live m m1 \<Longrightarrow> update_outcome p (tabs m) (DP_SUCCESS, old) (tabs m1) \<Longrightarrow>
      tm_told db live cs m1 m2 \<Longrightarrow> tm_alive live m \<longrightarrow>
        cs = update_calls env p old (tabs m1) (tm_subscribe m) \<and> st = active_status (tabs m1) (acl_trustDeviceId p) \<Longrightarrow>
      tm_step live m2 m3 \<Longrightarrow>
      (let x = (TrustDeviceProfile_of_acl p TrustDeviceProfile_default)\<lparr>tp_status := st\<rparr> in
       if ret = DP_SUCCESS
       then device_rows (acl_trustDeviceId p) (tabs m1) \<noteq> [] \<and> tabs m3 = upd_device x (tabs m1) \<and>
            tm_told db live (device_calls x (tabs m1) (tm_subscribe m)) m3 m'
       else m' = m3 \<and> tabs m3 = tabs m1) \<Longrightarrow> Q ret m'"
  shows "wp (UpdateAccessControlProfile env p) Q m"
  unfolding UpdateAccessControlProfile_def wp_bind
  apply (rule wp_update_acl [OF assms(1)])
  subgoal for res m1
    apply (cases res)
    subgoal for ret old
      apply (cases "ret = DP_SUCCESS")
      subgoal
        apply simp
        apply (rule wp_NotifyCheck [OF assms(1)])
        apply (rule wp_GetResultStatus [OF assms(1) tm_same_refl])
        apply simp
        apply (rule wp_UpdateTrustDeviceProfile [OF assms(1)])
        subgoal premises prems for cs m2 ret3 st m3 ret4 m5 m4
        proof -
          let ?x = "(TrustDeviceProfile_of_acl p TrustDeviceProfile_default)\<lparr>tp_status := st\<rparr>"
          have t: "tm_told db live cs m1 m3" using tm_told_then_same [OF prems(5,7)] .
          have alive: "tm_alive live m1" "tm_alive live m2" if "tm_alive live m"
            using that prems(1) tm_toldD(2) [OF prems(5)] by (simp_all add: tm_step_def)
          have tabs: "tabs m2 = tabs m1" "tabs m3 = tabs m1" using tm_toldD(1) [OF prems(5)] tm_toldD(1) [OF t] by simp_all
          have subs: "tm_subscribe m1 = tm_subscribe m" "tm_subscribe m3 = tm_subscribe m"
            using tm_stepD(1) [OF prems(1)] tm_toldD(3) [OF t] by simp_all
          have st: "tm_alive live m \<longrightarrow> cs = update_calls env p old (tabs m1) (tm_subscribe m) \<and>
              st = active_status (tabs m1) (acl_trustDeviceId p)"
            using prems(6,8,9) alive by (cases "ret3 = DP_SUCCESS") (auto simp: tabs subs active_status_def)
          have step: "tm_step live m m1" and out: "update_outcome p (tabs m) (DP_SUCCESS, old) (tabs m1)"
            using prems(1-4) by simp_all
          show ?thesis
          proof (cases "ret4 = DP_SUCCESS")
            case True
            have "Q DP_SUCCESS m5"
              by (rule Q' [OF step out t st prems(10)]) (use prems(11) True in \<open>simp add: tabs subs Let_def\<close>)
            with True show ?thesis by simp
          next
            case False
            have "Q DP_UPDATE_TRUST_DEVICE_PROFILE_FAIL m5"
              by (rule Q' [OF step out t st prems(10)]) (use prems(11) False in \<open>simp add: tabs Let_def\<close>)
            with False show ?thesis by simp
          qed
        qed
        done
      subgoal using Q by simp
      done
    done
  done

end

section \<open>Outcomes of a put\<close>

lemma query_params_numbered [simp]: "query_params (numbered p d) = query_params p"
  by (simp add: query_params_def Let_def)

lemma IsLnnAcl_numbered [simp]: "IsLnnAcl env (numbered p d) = IsLnnAcl env p"
  by (simp add: IsLnnAcl_def)

lemma TrustDeviceProfile_numbered [simp]:
  "TrustDeviceProfile_of_acl (numbered p d) x = TrustDeviceProfile_of_acl p x"
  by (simp add: TrustDeviceProfile_of_acl_def numbered_def Let_def)

text \<open>A list that is known refers to an accesser and an accessee that are known.\<close>

lemma known_sides:
  assumes "trust_ok d" "table_ok ACCESSER_TABLE (d ACCESSER_TABLE)" "table_ok ACCESSEE_TABLE (d ACCESSEE_TABLE)"
    and known: "selected ACCESS_CONTROL_TABLE acl_cols (acl_args (numbered p d)) d \<noteq> []"
  shows "put_accessee (numbered p d) (put_accesser (numbered p d) d) = d"
    "\<exists>r\<in>set (d ACCESS_CONTROL_TABLE). acl_args (acl_of r) = acl_args (numbered p d)"
proof -
  let ?q = "numbered p d"
  obtain r rs where sel: "selected ACCESS_CONTROL_TABLE acl_cols (acl_args ?q) d = r # rs"
    using known by (cases "selected ACCESS_CONTROL_TABLE acl_cols (acl_args ?q) d") auto
  have r: "r \<in> set (d ACCESS_CONTROL_TABLE)" using selected_head(1) [OF sel] .
  have rows: "rows_ok d" using assms(1) by (simp add: trust_ok_def)
  have args: "acl_args (acl_of r) = acl_args ?q"
    using selected_head(2) [OF sel] match_acl(5) rows_okD(1) [OF rows _ r] by (simp add: numbered_tables_def)
  then show "\<exists>r\<in>set (d ACCESS_CONTROL_TABLE). acl_args (acl_of r) = acl_args ?q" using r by blast
  have ids: "row_int r ''accesserId'' = accesser_id (acl_accesser p) d" "row_int r ''accesseeId'' = accessee_id (acl_accessee p) d"
    using args by (simp_all add: acl_args_def acl_of_ids)
  then have refs: "accesser_id (acl_accesser p) d \<in> row_id ACCESSER_TABLE ` set (d ACCESSER_TABLE)"
    "accessee_id (acl_accessee p) d \<in> row_id ACCESSEE_TABLE ` set (d ACCESSEE_TABLE)"
    using assms(1) r by (simp_all add: trust_ok_def refs_ok_def list_all_iff flip: ids)
  have "selected ACCESSER_TABLE accesser_all (accesser_args (acl_accesser p)) d \<noteq> []"
    using refs(1) numbered_new(1) next_id_fresh [of ACCESSER_TABLE d, OF assms(2)] by (force simp: numbered_tables_def)
  then have 1: "put_accesser ?q d = d" by (simp add: put_accesser_def)
  have "selected ACCESSEE_TABLE accessee_all (accessee_args (acl_accessee p)) d \<noteq> []"
    using refs(2) numbered_new(2) next_id_fresh [of ACCESSEE_TABLE d, OF assms(3)] by (force simp: numbered_tables_def)
  then have "put_accessee ?q d = d" by (simp add: put_accessee_def)
  with 1 show "put_accessee ?q (put_accesser ?q d) = d" by simp
qed

lemma side_shared:
  "(selected ACCESSER_TABLE accesser_all (accesser_args (acl_accesser p)) d = [] \<and>
    put_accesser (numbered p d) d ACCESSER_TABLE = d ACCESSER_TABLE @ [AccesserToEntries (numbered p d)]) \<or>
   (selected ACCESSER_TABLE accesser_all (accesser_args (acl_accesser p)) d \<noteq> [] \<and>
    put_accesser (numbered p d) d ACCESSER_TABLE = d ACCESSER_TABLE)"
  by (simp add: put_accesser_def)

lemma device_step_tables: "device_step s d d' \<Longrightarrow> t \<noteq> TRUST_DEVICE_TABLE \<Longrightarrow> d' t = d t"
  using fun_cong [OF device_step_lists, of s d d' t] by (simp add: lists_of_def)

lemma DpAclAdd_state [simp]:
  "snd (run_state (DpAclAdd q) m) = m\<lparr>tm_aclAdded := tm_aclAdded m @
     [(acl_accessControlId q, acl_trustDeviceId q, acl_bindType q)]\<rparr>"
  by (simp add: DpAclAdd_def)

lemma tm_tables_log [simp]:
  "tm_tables db (m\<lparr>tm_aclAdded := l\<rparr>) = tm_tables db m" "tm_alive live (m\<lparr>tm_aclAdded := l\<rparr>) = tm_alive live m"
  by (simp_all add: tm_tables_def tm_alive_def)

text \<open>What a put leaves of the lists: the outcome of its part under the lock.\<close>

lemma put_post_lists:
  assumes "put_post db live env p m ret m'"
  obtains res d1 where "put_outcome p (tm_tables db m) (tm_alive live m) res d1"
    "device_step (acl_trustDeviceId p) d1 (tm_tables db m')"
    "\<not> snd (snd res) \<longrightarrow> ret = fst res \<and> tm_tables db m' = d1 \<and> tm_aclAdded m' = tm_aclAdded m \<and> tm_calls m' = tm_calls m"
    "snd (snd res) \<and> ret = DP_SUCCESS \<longrightarrow> tm_aclAdded m' = tm_aclAdded m @
       [(next_id ACCESS_CONTROL_TABLE (tm_tables db m), acl_trustDeviceId p, acl_bindType p)]"
proof -
  obtain res m1 where step: "tm_step live m m1"
    and out: "put_outcome p (tm_tables db m) (tm_alive live m) res (tm_tables db m1)"
    and rest: "if \<not> snd (snd res) then ret = fst res \<and> m' = m1
        else \<exists>u a m2. (tm_alive live m \<longrightarrow>
              u = list_ex (\<lambda>x. same_users x (query_params p)) (visible env (tm_tables db m)) \<and>
              a = list_ex (\<lambda>x. IsMatchingAclProfile x (query_params p)) (visible env (tm_tables db m))) \<and>
            put_check_post db live env (fst (snd res)) u a m1 ret m2 \<and>
            m' = (if ret = DP_SUCCESS then snd (run_state (DpAclAdd (fst (snd res))) m2) else m2)"
    using assms unfolding put_post_def by blast
  show ?thesis
  proof (cases "snd (snd res)")
    case False
    with that [OF out] rest tm_stepD [OF step] show ?thesis by simp
  next
    case True
    then obtain u a m2 where c: "put_check_post db live env (fst (snd res)) u a m1 ret m2"
      and m': "m' = (if ret = DP_SUCCESS then snd (run_state (DpAclAdd (fst (snd res))) m2) else m2)"
      using rest by auto
    have q: "fst (snd res) = numbered p (tm_tables db m)"
      using out True by (auto simp: put_outcome_def Let_def split: prod.splits)
    show ?thesis
      by (rule that [OF out]) (use True c m' q tm_stepD [OF step] in \<open>auto simp: put_check_post_def Let_def\<close>)
  qed
qed

section \<open>Properties\<close>

text \<open>C3: The rows of the trust manager's tables stay those of profiles with positive numbers, and
  every access control list keeps an accesser and an accessee: whatever code they return and
  whichever access to the store fails, putting and updating a list and every operation on trusted
  devices keep that; deleting a list keeps it when it succeeds.\<close>

theorem trust_invariant:
  assumes "rdb_adapter (te_rdb env) db" "trust_ok (tm_tables db m)"
  shows "(\<forall>p. trust_ok (tm_tables db (snd (run_state (PutAccessControlProfile env p) m)))) \<and>
    (\<forall>p. trust_ok (tm_tables db (snd (run_state (UpdateAccessControlProfile env p) m)))) \<and>
    (\<forall>i. fst (run_state (DeleteAccessControlProfile env i) m) = DP_SUCCESS \<longrightarrow>
       trust_ok (tm_tables db (snd (run_state (DeleteAccessControlProfile env i) m)))) \<and>
    (\<forall>x. trust_ok (tm_tables db (snd (run_state (PutTrustDeviceProfile env x) m))) \<and>
         trust_ok (tm_tables db (snd (run_state (UpdateTrustDeviceProfile env x) m)))) \<and>
    (\<forall>s. trust_ok (tm_tables db (snd (run_state (DeleteTrustDeviceProfile env s) m))))"
proof -
  note rdb = rdb_adapter_reads [OF assms(1)]
  have put: "wp (PutAccessControlProfile env p) (\<lambda>ret m'. trust_ok (tm_tables db m')) m" for p
    by (rule rdb_reads.wp_PutAccessControlProfile [OF rdb refl], erule put_post_lists)
      (blast intro: device_step_ok put_outcome_ok assms(2))
  have update: "wp (UpdateAccessControlProfile env p) (\<lambda>ret m'. trust_ok (tm_tables db m')) m" for p
  proof (rule rdb_reads.wp_UpdateAccessControlProfile [OF rdb refl])
    fix ret q m1
    assume "update_outcome p (tm_tables db m) (ret, q) (tm_tables db m1)"
    then show "trust_ok (tm_tables db m1)" using assms(2) by (rule update_outcome_ok)
  next
    fix ret old m1 cs m2 st m3 m'
    assume u: "update_outcome p (tm_tables db m) (DP_SUCCESS, old) (tm_tables db m1)"
      and r: "let x = (TrustDeviceProfile_of_acl p TrustDeviceProfile_default)\<lparr>tp_status := st\<rparr> in
       if ret = DP_SUCCESS
       then device_rows (acl_trustDeviceId p) (tm_tables db m1) \<noteq> [] \<and> tm_tables db m3 = upd_device x (tm_tables db m1) \<and>
            tm_told db (\<lambda>_. False) (device_calls x (tm_tables db m1) (tm_subscribe m)) m3 m'
       else m' = m3 \<and> tm_tables db m3 = tm_tables db m1"
    have "device_step (acl_trustDeviceId p) (tm_tables db m1) (tm_tables db m')"
      using r by (auto simp: Let_def tm_toldD(1) split: if_splits)
    with update_outcome_ok [OF u assms(2)] show "trust_ok (tm_tables db m')" by (rule device_step_ok)
  qed
  have delete: "wp (DeleteAccessControlProfile env i)
      (\<lambda>ret m'. ret = DP_SUCCESS \<longrightarrow> trust_ok (tm_tables db m')) m" for i
  proof (rule rdb_reads.wp_DeleteAccessControlProfile [OF rdb refl])
    fix ret q m1 m'
    assume out: "delete_outcome i (tm_tables db m) (DP_SUCCESS, q) (tm_tables db m1)"
      and "delete_check_post db (\<lambda>_. False) env q m1 ret m'"
    then have "device_step (acl_trustDeviceId q) (tm_tables db m1) (tm_tables db m')"
      by (simp add: delete_check_post_def Let_def)
    with delete_outcome_ok [OF out assms(2)] show "ret = DP_SUCCESS \<longrightarrow> trust_ok (tm_tables db m')"
      by (simp add: device_step_ok)
  qed simp
  have put_device: "wp (PutTrustDeviceProfile env x) (\<lambda>ret m'. trust_ok (tm_tables db m')) m" for x
    by (rule rdb_reads.wp_PutTrustDeviceProfile [OF rdb refl])
      (use assms(2) in \<open>auto split: if_splits intro: device_step_ok [OF assms(2) device_stepI(4) [OF refl]]\<close>)
  have update_device: "wp (UpdateTrustDeviceProfile env x) (\<lambda>ret m'. trust_ok (tm_tables db m')) m" for x
  proof (rule rdb_reads.wp_UpdateTrustDeviceProfile [OF rdb refl])
    fix ret m' m1
    assume "if ret = DP_SUCCESS
       then device_rows (tp_deviceId x) (tm_tables db m) \<noteq> [] \<and> tm_tables db m1 = upd_device x (tm_tables db m) \<and>
            tm_told db (\<lambda>_. False) (device_calls x (tm_tables db m) (tm_subscribe m)) m1 m'
       else m' = m1 \<and> tm_tables db m1 = tm_tables db m"
    then have "device_step (tp_deviceId x) (tm_tables db m) (tm_tables db m')"
      by (auto simp: tm_toldD(1) split: if_splits)
    with assms(2) show "trust_ok (tm_tables db m')" by (rule device_step_ok)
  qed
  have delete_device: "wp (DeleteTrustDeviceProfile env s) (\<lambda>ret m'. trust_ok (tm_tables db m')) m" for s
    by (rule rdb_reads.wp_DeleteTrustDeviceProfile [OF rdb refl])
      (use assms(2) in \<open>auto split: if_splits intro: device_step_ok [OF assms(2) device_stepI(2)]\<close>)
  show ?thesis
    using put update delete put_device update_device delete_device by (simp add: wp_result)
qed

lemma trust_invariant_witness:
  "trust_ok (tm_tables demo_db (snd (run_state (UpdateAccessControlProfile demo_env (demo_first\<lparr>acl_status := 0\<rparr>)) demo_one))) \<and>
   trust_ok (tm_tables demo_db (snd (run_state (DeleteAccessControlProfile demo_env 1) demo_one)))"
  using trust_invariant [OF demo_adapter demo_one_ok] delete_demo by blast

lemma accesser_id_args:
  assumes "rows_ok d"
  shows "\<exists>a\<in>set (put_accesser (numbered p d) d ACCESSER_TABLE).
    row_id ACCESSER_TABLE a = accesser_id (acl_accesser p) d \<and> accesser_args (accesser_of a) = accesser_args (acl_accesser p)"
proof (cases "selected ACCESSER_TABLE accesser_all (accesser_args (acl_accesser p)) d")
  case Nil
  then show ?thesis by (simp add: put_accesser_def row_id_def)
next
  case (Cons r rs)
  have r: "r \<in> set (d ACCESSER_TABLE)" using selected_head(1) [OF Cons] .
  then have "row_typed ACCESSER_TABLE r" using rows_okD(1) [OF assms] by (simp add: numbered_tables_def)
  then have "accesser_args (accesser_of r) = accesser_args (acl_accesser p)"
    using selected_head(2) [OF Cons] match_accesser(2) by blast
  with r Cons show ?thesis by (auto simp: put_accesser_def accesser_id_def)
qed

lemma accessee_id_args:
  assumes "rows_ok d"
  shows "\<exists>e\<in>set (put_accessee (numbered p d) (put_accesser (numbered p d) d) ACCESSEE_TABLE).
    row_id ACCESSEE_TABLE e = accessee_id (acl_accessee p) d \<and> accessee_args (accessee_of e) = accessee_args (acl_accessee p)"
proof -
  have sel: "selected ACCESSEE_TABLE accessee_all (accessee_args (acl_accessee p)) (put_accesser (numbered p d) d) =
      selected ACCESSEE_TABLE accessee_all (accessee_args (acl_accessee p)) d"
    by (rule selected_cong) simp
  show ?thesis
  proof (cases "selected ACCESSEE_TABLE accessee_all (accessee_args (acl_accessee p)) d")
    case Nil
    then show ?thesis by (simp add: put_accessee_def row_id_def sel)
  next
    case (Cons r rs)
    have r: "r \<in> set (d ACCESSEE_TABLE)" using selected_head(1) [OF Cons] .
    then have "row_typed ACCESSEE_TABLE r" using rows_okD(1) [OF assms] by (simp add: numbered_tables_def)
    then have "accessee_args (accessee_of r) = accessee_args (acl_accessee p)"
      using selected_head(2) [OF Cons] match_accessee(2) by blast
    with r Cons show ?thesis by (auto simp: put_accessee_def accessee_id_def sel)
  qed
qed

text \<open>C4: A put that succeeds either found a list with the same content, and then changes no list, or
  appends exactly one list, under a number above those of all others, for an accesser and an
  accessee with the content given: rows of that content are shared, rows are added only where there
  was none, and the new list is reported to the device manager.\<close>

theorem put_acl_effect:
  assumes "rdb_adapter (te_rdb env) db" "trust_ok (tm_tables db m)"
    and run: "run_state (PutAccessControlProfile env p) m = (DP_SUCCESS, m')"
  shows "let d = tm_tables db m; d' = tm_tables db m'; q = numbered p d in
    (\<exists>r\<in>set (d ACCESS_CONTROL_TABLE). acl_args (acl_of r) = acl_args q) \<and> d' = d \<and>
      tm_aclAdded m' = tm_aclAdded m \<or>
    d' ACCESS_CONTROL_TABLE = d ACCESS_CONTROL_TABLE @ [AccessControlProfileToEntries q] \<and>
    (\<forall>r\<in>set (d ACCESS_CONTROL_TABLE). row_id ACCESS_CONTROL_TABLE r < acl_accessControlId q) \<and>
    (\<exists>a\<in>set (d' ACCESSER_TABLE). row_id ACCESSER_TABLE a = acl_accesserId q \<and>
       accesser_args (accesser_of a) = accesser_args (acl_accesser p)) \<and>
    (\<exists>e\<in>set (d' ACCESSEE_TABLE). row_id ACCESSEE_TABLE e = acl_accesseeId q \<and>
       accessee_args (accessee_of e) = accessee_args (acl_accessee p)) \<and>
    d' ACCESSER_TABLE = (if selected ACCESSER_TABLE accesser_all (accesser_args (acl_accesser p)) d = []
      then d ACCESSER_TABLE @ [AccesserToEntries q] else d ACCESSER_TABLE) \<and>
    d' ACCESSEE_TABLE = (if selected ACCESSEE_TABLE accessee_all (accessee_args (acl_accessee p)) d = []
      then d ACCESSEE_TABLE @ [AccesseeToEntries q] else d ACCESSEE_TABLE) \<and>
    tm_aclAdded m' = tm_aclAdded m @ [(acl_accessControlId q, acl_trustDeviceId p, acl_bindType p)]"
proof -
  note rdb = rdb_adapter_reads [OF assms(1)]
  let ?d = "tm_tables db m" and ?d' = "tm_tables db m'" and ?q = "numbered p (tm_tables db m)"
  have ok: "table_ok t (?d t)" if "t \<in> set TABLES" for t by (rule rdb_reads.tabs_ok [OF rdb that])
  have rows: "rows_ok ?d" using assms(2) by (simp add: trust_ok_def)
  have "put_post db (\<lambda>_. False) env p m DP_SUCCESS m'"
    by (rule wp_run [OF run], rule rdb_reads.wp_PutAccessControlProfile [OF rdb refl]) simp
  then obtain res d1 where out: "put_outcome p ?d (tm_alive (\<lambda>_. False) m) res d1"
    and step: "device_step (acl_trustDeviceId p) d1 ?d'"
    and known: "\<not> snd (snd res) \<longrightarrow> DP_SUCCESS = fst res \<and> ?d' = d1 \<and> tm_aclAdded m' = tm_aclAdded m \<and> tm_calls m' = tm_calls m"
    and new: "snd (snd res) \<and> DP_SUCCESS = DP_SUCCESS \<longrightarrow> tm_aclAdded m' = tm_aclAdded m @
       [(next_id ACCESS_CONTROL_TABLE ?d, acl_trustDeviceId p, acl_bindType p)]"
    by (rule put_post_lists)
  show ?thesis
  proof (cases "snd (snd res)")
    case False
    have sel: "selected ACCESS_CONTROL_TABLE acl_cols (acl_args ?q) ?d \<noteq> []"
      and d1: "d1 = put_accessee ?q (put_accesser ?q ?d)"
      using out False known False by (auto simp: put_outcome_def Let_def split: prod.splits)
    show ?thesis
      using known False known_sides [OF assms(2) ok ok sel] d1 by (simp add: Let_def TABLES_def)
  next
    case True
    have d1: "d1 = put_row ?q (put_accessee ?q (put_accesser ?q ?d))"
      using out True by (auto simp: put_outcome_def Let_def split: prod.splits)
    have d': "?d' t = d1 t" if "t \<noteq> TRUST_DEVICE_TABLE" for t
      using device_step_tables [OF step that] .
    have fresh: "\<forall>r\<in>set (?d ACCESS_CONTROL_TABLE). row_id ACCESS_CONTROL_TABLE r < next_id ACCESS_CONTROL_TABLE ?d"
      using next_id_fresh [of ACCESS_CONTROL_TABLE ?d] ok by (simp add: TABLES_def numbered_tables_def)
    have sel: "selected ACCESSEE_TABLE accessee_all (accessee_args (acl_accessee p)) (put_accesser ?q ?d) =
        selected ACCESSEE_TABLE accessee_all (accessee_args (acl_accessee p)) ?d"
      by (rule selected_cong) simp
    have tabs: "?d' ACCESS_CONTROL_TABLE = ?d ACCESS_CONTROL_TABLE @ [AccessControlProfileToEntries ?q]"
      "?d' ACCESSER_TABLE = put_accesser ?q ?d ACCESSER_TABLE"
      "?d' ACCESSEE_TABLE = put_accessee ?q (put_accesser ?q ?d) ACCESSEE_TABLE"
      by (simp_all add: d' d1 put_row_def)
    show ?thesis
      unfolding Let_def tabs
      using fresh new True accesser_id_args [OF rows, of p] accessee_id_args [OF rows, of p]
      by (intro disjI2 conjI) (simp_all add: put_accesser_def put_accessee_def sel)
  qed
qed

lemma put_acl_effect_witness:
  "tm_tables demo_db demo_one ACCESSER_TABLE = [AccesserToEntries (numbered demo_acl (\<lambda>_. []))] \<and>
   tm_aclAdded demo_one = [(acl_accessControlId (numbered demo_acl (\<lambda>_. [])), ''b'', acl_bindType demo_acl)]"
  using put_acl_effect [OF demo_adapter _ put_demo]
  by (simp add: Let_def selected_def) (simp add: demo_state_def demo_acl_def)

lemma typed_key:
  assumes "t \<in> set numbered_tables" "row_typed t r"
  shows "row_key t r = Some (RInt (row_id t r))"
proof -
  from match_key [OF assms, of "row_id t r"] show ?thesis
    by (simp add: row_matches_def row_key_def)
qed

lemma same_number:
  assumes "rows_ok d" "table_ok t (d t)" "t \<in> set numbered_tables" "x \<in> set (d t)" "y \<in> set (d t)"
    and "row_id t x = row_id t y"
  shows "x = y"
proof -
  have "row_key t x = row_key t y"
    using assms typed_key rows_okD(1) [OF assms(1,3)] by metis
  with assms(2,4,5) show ?thesis by (auto simp: table_ok_def distinct_map inj_on_def)
qed

text \<open>A side of a deletion goes exactly when no other list refers to it.\<close>

lemma delete_side_filter:
  assumes rows: "rows_ok d" and acls: "table_ok ACCESS_CONTROL_TABLE (d ACCESS_CONTROL_TABLE)"
    and t: "t \<in> {ACCESSER_TABLE, ACCESSEE_TABLE}" and r: "r \<in> set (d ACCESS_CONTROL_TABLE)"
  shows "delete_side t (key_col t) (row_int r (key_col t)) d t = filter (\<lambda>a. row_id t a \<noteq> row_int r (key_col t) \<or>
    (\<exists>x\<in>set (d ACCESS_CONTROL_TABLE). row_id ACCESS_CONTROL_TABLE x \<noteq> row_id ACCESS_CONTROL_TABLE r \<and>
       row_int x (key_col t) = row_id t a)) (d t)"
proof -
  let ?i = "row_int r (key_col t)"
  let ?sel = "selected ACCESS_CONTROL_TABLE [key_col t] [RInt ?i] d"
  let ?other = "\<exists>x\<in>set (d ACCESS_CONTROL_TABLE). row_id ACCESS_CONTROL_TABLE x \<noteq> row_id ACCESS_CONTROL_TABLE r \<and>
      row_int x (key_col t) = ?i"
  have nt: "t \<in> set numbered_tables" using t by (auto simp: numbered_tables_def)
  have acl: "ACCESS_CONTROL_TABLE \<in> set numbered_tables" by (simp add: numbered_tables_def)
  have match: "row_matches [key_col t] [RInt ?i] z \<longleftrightarrow> row_int z (key_col t) = ?i"
    if "z \<in> set (d ACCESS_CONTROL_TABLE)" for z
    using t match_acl(2,3) [OF rows_okD(1) [OF rows acl that]] by auto
  then have sel: "?sel = filter (\<lambda>z. row_int z (key_col t) = ?i) (d ACCESS_CONTROL_TABLE)"
    unfolding selected_def by (intro filter_cong) auto
  have dist: "distinct (d ACCESS_CONTROL_TABLE)" using acls by (auto simp: table_ok_def distinct_map)
  have one: "length ?sel = 1 \<longleftrightarrow> \<not> ?other"
  proof
    assume "length ?sel = 1"
    then show "\<not> ?other"
      unfolding sel using singleton_filter [OF _ _ _ r, of "\<lambda>z. row_int z (key_col t) = ?i"] by auto
  next
    assume no: "\<not> ?other"
    have "set ?sel = {r}"
      unfolding sel using r no same_number [OF rows acls acl _ r] by auto
    moreover have "distinct ?sel" unfolding sel using dist by simp
    ultimately show "length ?sel = 1" using distinct_card [of ?sel] by simp
  qed
  show ?thesis
  proof (cases ?other)
    case True
    then have "filter (\<lambda>a. row_id t a \<noteq> ?i \<or> (\<exists>x\<in>set (d ACCESS_CONTROL_TABLE).
        row_id ACCESS_CONTROL_TABLE x \<noteq> row_id ACCESS_CONTROL_TABLE r \<and> row_int x (key_col t) = row_id t a)) (d t) = d t"
      by (auto simp: filter_id_conv)
    with True one show ?thesis by (simp only: delete_side_def if_False not_True_eq_False)
  next
    case False
    then have "filter (\<lambda>a. row_id t a \<noteq> ?i \<or> (\<exists>x\<in>set (d ACCESS_CONTROL_TABLE).
        row_id ACCESS_CONTROL_TABLE x \<noteq> row_id ACCESS_CONTROL_TABLE r \<and> row_int x (key_col t) = row_id t a)) (d t) =
      filter (\<lambda>a. row_id t a \<noteq> ?i) (d t)"
      by (intro filter_cong) auto
    with False one show ?thesis by (simp only: delete_side_rows [OF rows nt] not_False_eq_True if_True fun_upd_same)
  qed
qed

text \<open>C5: A deletion that succeeds removes exactly the list with the given number, and with it its
  accesser and its accessee exactly when no remaining list refers to them; every other row of
  these tables stays. Where no list has the number the tables stay as they were and an error code
  is returned.\<close>

theorem delete_acl_effect:
  assumes "rdb_adapter (te_rdb env) db" "trust_ok (tm_tables db m)"
    and run: "run_state (DeleteAccessControlProfile env i) m = (ret, m')"
  shows "let d = tm_tables db m; d' = tm_tables db m' in
    (ret = DP_SUCCESS \<longrightarrow>
      (\<exists>r\<in>set (d ACCESS_CONTROL_TABLE). row_id ACCESS_CONTROL_TABLE r = i \<and>
        d' ACCESS_CONTROL_TABLE = filter (\<lambda>x. row_id ACCESS_CONTROL_TABLE x \<noteq> i) (d ACCESS_CONTROL_TABLE) \<and>
        d' ACCESSER_TABLE = filter (\<lambda>a. row_id ACCESSER_TABLE a \<noteq> row_int r ''accesserId'' \<or>
          (\<exists>x\<in>set (d' ACCESS_CONTROL_TABLE). row_int x ''accesserId'' = row_id ACCESSER_TABLE a)) (d ACCESSER_TABLE) \<and>
        d' ACCESSEE_TABLE = filter (\<lambda>e. row_id ACCESSEE_TABLE e \<noteq> row_int r ''accesseeId'' \<or>
          (\<exists>x\<in>set (d' ACCESS_CONTROL_TABLE). row_int x ''accesseeId'' = row_id ACCESSEE_TABLE e)) (d ACCESSEE_TABLE))) \<and>
    ((\<forall>r\<in>set (d ACCESS_CONTROL_TABLE). row_id ACCESS_CONTROL_TABLE r \<noteq> i) \<longrightarrow> ret \<noteq> DP_SUCCESS \<and> d' = d)"
proof -
  note rdb = rdb_adapter_reads [OF assms(1)]
  let ?d = "tm_tables db m"
  have rows: "rows_ok ?d" using assms(2) by (simp add: trust_ok_def)
  have acl: "ACCESS_CONTROL_TABLE \<in> set numbered_tables" by (simp add: numbered_tables_def)
  have ok: "table_ok ACCESS_CONTROL_TABLE (?d ACCESS_CONTROL_TABLE)"
    by (rule rdb_reads.tabs_ok [OF rdb]) (simp add: TABLES_def)
  have match: "row_matches [''accessControlId''] [RInt i] r \<longleftrightarrow> row_id ACCESS_CONTROL_TABLE r = i"
    if "r \<in> set (?d ACCESS_CONTROL_TABLE)" for r
    using match_acl(1) [OF rows_okD(1) [OF rows acl that]] .
  have none: "selected ACCESS_CONTROL_TABLE [''accessControlId''] [RInt i] ?d = []"
    if "\<forall>r\<in>set (?d ACCESS_CONTROL_TABLE). row_id ACCESS_CONTROL_TABLE r \<noteq> i"
    using that match by (auto simp: selected_def filter_empty_conv)
  have "wp (DeleteAccessControlProfile env i) (\<lambda>ret m'.
      (ret = DP_SUCCESS \<longrightarrow> (\<exists>q d1. delete_outcome i ?d (DP_SUCCESS, q) d1 \<and>
         (\<forall>t. t \<noteq> TRUST_DEVICE_TABLE \<longrightarrow> tm_tables db m' t = d1 t))) \<and>
      ((\<forall>r\<in>set (?d ACCESS_CONTROL_TABLE). row_id ACCESS_CONTROL_TABLE r \<noteq> i) \<longrightarrow>
         ret \<noteq> DP_SUCCESS \<and> tm_tables db m' = ?d)) m"
  proof (rule rdb_reads.wp_DeleteAccessControlProfile [OF rdb refl])
    fix ret q m1
    assume out: "delete_outcome i ?d (ret, q) (tm_tables db m1)" "ret \<noteq> DP_SUCCESS"
    then have "tm_tables db m1 = ?d"
      if "\<forall>r\<in>set (?d ACCESS_CONTROL_TABLE). row_id ACCESS_CONTROL_TABLE r \<noteq> i"
      using none [OF that] by (simp add: delete_outcome_def)
    with out(2) show "(ret = DP_SUCCESS \<longrightarrow> (\<exists>q d1. delete_outcome i ?d (DP_SUCCESS, q) d1 \<and>
         (\<forall>t. t \<noteq> TRUST_DEVICE_TABLE \<longrightarrow> tm_tables db m1 t = d1 t))) \<and>
      ((\<forall>r\<in>set (?d ACCESS_CONTROL_TABLE). row_id ACCESS_CONTROL_TABLE r \<noteq> i) \<longrightarrow>
         ret \<noteq> DP_SUCCESS \<and> tm_tables db m1 = ?d)" by simp
  next
    fix ret q m1 m'
    assume out: "delete_outcome i ?d (DP_SUCCESS, q) (tm_tables db m1)"
      and c: "delete_check_post db (\<lambda>_. False) env q m1 ret m'"
    have "device_step (acl_trustDeviceId q) (tm_tables db m1) (tm_tables db m')"
      using c by (simp add: delete_check_post_def Let_def)
    then have "\<forall>t. t \<noteq> TRUST_DEVICE_TABLE \<longrightarrow> tm_tables db m' t = tm_tables db m1 t"
      using device_step_tables by blast
    moreover have "\<not> (\<forall>r\<in>set (?d ACCESS_CONTROL_TABLE). row_id ACCESS_CONTROL_TABLE r \<noteq> i)"
    proof
      assume "\<forall>r\<in>set (?d ACCESS_CONTROL_TABLE). row_id ACCESS_CONTROL_TABLE r \<noteq> i"
      from none [OF this] out show False by (simp add: delete_outcome_def)
    qed
    ultimately show "(ret = DP_SUCCESS \<longrightarrow> (\<exists>q d1. delete_outcome i ?d (DP_SUCCESS, q) d1 \<and>
         (\<forall>t. t \<noteq> TRUST_DEVICE_TABLE \<longrightarrow> tm_tables db m' t = d1 t))) \<and>
      ((\<forall>r\<in>set (?d ACCESS_CONTROL_TABLE). row_id ACCESS_CONTROL_TABLE r \<noteq> i) \<longrightarrow>
         ret \<noteq> DP_SUCCESS \<and> tm_tables db m' = ?d)"
      using out by blast
  qed
  note post = wp_run [OF run this]
  show ?thesis
  proof (cases "ret = DP_SUCCESS")
    case False
    with post show ?thesis by (simp add: Let_def)
  next
    case True
    then obtain q d1 where out: "delete_outcome i ?d (DP_SUCCESS, q) d1"
      and d': "\<And>t. t \<noteq> TRUST_DEVICE_TABLE \<Longrightarrow> tm_tables db m' t = d1 t"
      using post by auto
    from out obtain r rs where sel: "selected ACCESS_CONTROL_TABLE [''accessControlId''] [RInt i] ?d = r # rs"
      by (auto simp: delete_outcome_def split: list.splits)
    have r: "r \<in> set (?d ACCESS_CONTROL_TABLE)" and id: "row_id ACCESS_CONTROL_TABLE r = i"
      using selected_head [OF sel] match by auto
    let ?de = "delete_side ACCESSEE_TABLE ''accesseeId'' (row_int r ''accesseeId'') ?d"
    let ?da = "delete_side ACCESSER_TABLE ''accesserId'' (row_int r ''accesserId'') ?de"
    have rows_de: "rows_ok ?de"
      using delete_side_rows [OF rows, of ACCESSEE_TABLE] rows_ok_filter [OF rows, of ACCESSEE_TABLE] rows
      by (simp add: numbered_tables_def)
    have rows_da: "rows_ok ?da"
      using delete_side_rows [OF rows_de, of ACCESSER_TABLE] rows_ok_filter [OF rows_de, of ACCESSER_TABLE] rows_de
      by (simp add: numbered_tables_def)
    have "d1 = deleted ACCESS_CONTROL_TABLE [''accessControlId''] [RInt i] ?da"
      using out sel id by (simp add: delete_outcome_def acl_of_ids Let_def)
    then have d1: "d1 = ?da(ACCESS_CONTROL_TABLE := filter (\<lambda>x. row_id ACCESS_CONTROL_TABLE x \<noteq> i) (?d ACCESS_CONTROL_TABLE))"
      using deleted_rows [OF rows_da acl, of i] by simp
    have acls: "tm_tables db m' ACCESS_CONTROL_TABLE =
        filter (\<lambda>x. row_id ACCESS_CONTROL_TABLE x \<noteq> i) (?d ACCESS_CONTROL_TABLE)"
      by (simp add: d' d1)
    have accessers: "tm_tables db m' ACCESSER_TABLE = filter (\<lambda>a. row_id ACCESSER_TABLE a \<noteq> row_int r ''accesserId'' \<or>
        (\<exists>x\<in>set (tm_tables db m' ACCESS_CONTROL_TABLE). row_int x ''accesserId'' = row_id ACCESSER_TABLE a)) (?d ACCESSER_TABLE)"
      using delete_side_filter [OF rows_de, of ACCESSER_TABLE r] ok r
      by (simp add: d' d1 acls id Bex_def conj_assoc)
    have accessees: "tm_tables db m' ACCESSEE_TABLE = filter (\<lambda>e. row_id ACCESSEE_TABLE e \<noteq> row_int r ''accesseeId'' \<or>
        (\<exists>x\<in>set (tm_tables db m' ACCESS_CONTROL_TABLE). row_int x ''accesseeId'' = row_id ACCESSEE_TABLE e)) (?d ACCESSEE_TABLE)"
      using delete_side_filter [OF rows, of ACCESSEE_TABLE r] ok r
      by (simp add: d' d1 acls id Bex_def conj_assoc)
    show ?thesis
      using True post r id acls accessers accessees by (simp only: Let_def) blast
  qed
qed

lemma delete_acl_effect_witness:
  "tm_tables demo_db (snd (run_state (DeleteAccessControlProfile demo_env 1) demo_one)) ACCESS_CONTROL_TABLE = [] \<and>
   fst (run_state (DeleteAccessControlProfile demo_env 2) demo_one) \<noteq> DP_SUCCESS"
  using delete_acl_effect [OF demo_adapter demo_one_ok, of 1, OF prod.collapse [symmetric]]
    delete_acl_effect [OF demo_adapter demo_one_ok, of 2, OF prod.collapse [symmetric]] delete_demo
  by (simp add: Let_def demo_one_rows row_id_def)

end
