(* ===== verification/TrustStatus.thy ===== *)
theory TrustStatus
  imports TrustProps
begin

text \<open>
  Properties of the trust manager that span its operations: updates, the status of the trusted
  devices, the notifications, and what the queries return of the stored lists.
\<close>

section \<open>Updating a list\<close>

text \<open>C11: An update that succeeds replaces the one list of its number and keeps its references; of
  the accesser and the accessee it replaces the row or, where that write failed, leaves it. An
  update of an unknown list, or one that would change the accesser or the accessee it refers to, is
  refused without effect.\<close>

theorem update_acl_effect:
  assumes "rdb_adapter (te_rdb env) db" "trust_ok (tm_tables db m)"
    and run: "run_state (UpdateAccessControlProfile env p) m = (ret, m')"
  shows "let d = tm_tables db m; d' = tm_tables db m'; i = acl_accessControlId p in
    (ret = DP_SUCCESS \<longrightarrow>
      (\<exists>r\<in>set (d ACCESS_CONTROL_TABLE). row_id ACCESS_CONTROL_TABLE r = i \<and> upd_allowed p (acl_of r)) \<and>
      d' ACCESS_CONTROL_TABLE = map (\<lambda>r. if row_id ACCESS_CONTROL_TABLE r = i
        then AccessControlProfileToEntries p else r) (d ACCESS_CONTROL_TABLE) \<and>
      d' ACCESSER_TABLE \<in> {d ACCESSER_TABLE, map (\<lambda>a. if row_id ACCESSER_TABLE a = acl_accesserId p
        then AccesserToEntries p else a) (d ACCESSER_TABLE)} \<and>
      d' ACCESSEE_TABLE \<in> {d ACCESSEE_TABLE, map (\<lambda>e. if row_id ACCESSEE_TABLE e = acl_accesseeId p
        then AccesseeToEntries p else e) (d ACCESSEE_TABLE)}) \<and>
    ((\<forall>r\<in>set (d ACCESS_CONTROL_TABLE). row_id ACCESS_CONTROL_TABLE r = i \<longrightarrow> \<not> upd_allowed p (acl_of r)) \<longrightarrow>
      ret \<noteq> DP_SUCCESS \<and> d' = d)"
proof -
  note rdb = rdb_adapter_reads [OF assms(1)]
  let ?d = "tm_tables db m" and ?i = "acl_accessControlId p"
  have rows: "rows_ok ?d" using assms(2) by (simp add: trust_ok_def)
  have nt: "ACCESS_CONTROL_TABLE \<in> set numbered_tables" "ACCESSER_TABLE \<in> set numbered_tables"
    "ACCESSEE_TABLE \<in> set numbered_tables" by (simp_all add: numbered_tables_def)
  have head: "r \<in> set (?d ACCESS_CONTROL_TABLE) \<and> row_id ACCESS_CONTROL_TABLE r = ?i"
    if "selected ACCESS_CONTROL_TABLE [''accessControlId''] [RInt ?i] ?d = r # rs" for r rs
    using selected_head [OF that] match_acl(1) [OF rows_okD(1) [OF rows nt(1)]] by blast
  define P where "P ret d' \<longleftrightarrow>
    (ret = DP_SUCCESS \<longrightarrow> (\<exists>old d1. update_outcome p ?d (DP_SUCCESS, old) d1 \<and>
       (\<forall>t. t \<noteq> TRUST_DEVICE_TABLE \<longrightarrow> d' t = d1 t))) \<and>
    ((\<forall>r\<in>set (?d ACCESS_CONTROL_TABLE). row_id ACCESS_CONTROL_TABLE r = ?i \<longrightarrow> \<not> upd_allowed p (acl_of r)) \<longrightarrow>
       ret \<noteq> DP_SUCCESS \<and> d' = ?d)" for ret d'
  have refused: "fst res \<noteq> DP_SUCCESS \<and> d' = ?d"
    if "update_outcome p ?d res d'"
      "\<forall>r\<in>set (?d ACCESS_CONTROL_TABLE). row_id ACCESS_CONTROL_TABLE r = ?i \<longrightarrow> \<not> upd_allowed p (acl_of r)" for res d'
  proof (cases "selected ACCESS_CONTROL_TABLE [''accessControlId''] [RInt ?i] ?d")
    case Nil
    then show ?thesis using that(1) by (simp add: update_outcome_def)
  next
    case (Cons r rs)
    then show ?thesis using that head [OF Cons] by (simp add: update_outcome_def)
  qed
  have "wp (UpdateAccessControlProfile env p) (\<lambda>ret m'. P ret (tm_tables db m')) m"
  proof (rule rdb_reads.wp_UpdateAccessControlProfile [OF rdb refl])
    fix ret q m1
    assume "update_outcome p ?d (ret, q) (tm_tables db m1)" "ret \<noteq> DP_SUCCESS"
    then show "P ret (tm_tables db m1)" using refused by (auto simp: P_def)
  next
    fix ret old m1 cs m2 st m3 m'
    assume u: "update_outcome p ?d (DP_SUCCESS, old) (tm_tables db m1)"
      and r: "let x = (TrustDeviceProfile_of_acl p TrustDeviceProfile_default)\<lparr>tp_status := st\<rparr> in
       if ret = DP_SUCCESS
       then device_rows (acl_trustDeviceId p) (tm_tables db m1) \<noteq> [] \<and> tm_tables db m3 = upd_device x (tm_tables db m1) \<and>
            tm_told db (\<lambda>_. False) (device_calls x (tm_tables db m1) (tm_subscribe m)) m3 m'
       else m' = m3 \<and> tm_tables db m3 = tm_tables db m1"
    have "device_step (acl_trustDeviceId p) (tm_tables db m1) (tm_tables db m')"
      using r by (auto simp: Let_def tm_toldD(1) split: if_splits)
    then have "\<forall>t. t \<noteq> TRUST_DEVICE_TABLE \<longrightarrow> tm_tables db m' t = tm_tables db m1 t"
      using device_step_tables by blast
    then show "P ret (tm_tables db m')"
      unfolding P_def using u refused [OF u] by auto
  qed
  from wp_run [OF run this] have post: "P ret (tm_tables db m')" .
  show ?thesis
  proof (cases "ret = DP_SUCCESS")
    case False
    with post show ?thesis by (simp add: P_def Let_def)
  next
    case True
    then obtain old d1 where u: "update_outcome p ?d (DP_SUCCESS, old) d1"
      and d': "\<And>t. t \<noteq> TRUST_DEVICE_TABLE \<Longrightarrow> tm_tables db m' t = d1 t"
      using post by (auto simp: P_def)
    obtain r rs where sel: "selected ACCESS_CONTROL_TABLE [''accessControlId''] [RInt ?i] ?d = r # rs"
      using u by (auto simp: update_outcome_def split: list.splits)
    have allowed: "upd_allowed p (acl_of r)" and "d1 \<in> upd_row p ` set (upd_sides p ?d)"
      using u sel by (auto simp: update_outcome_def split: if_splits)
    then obtain x where x: "x \<in> set (upd_sides p ?d)" and d1: "d1 = upd_row p x" by blast
    have ids: "ar_id (acl_accesser p) = acl_accesserId p" "ae_id (acl_accessee p) = acl_accesseeId p"
      using allowed by (simp_all add: upd_allowed_def)
    have accesser: "upd_accesser p y ACCESSER_TABLE = map (\<lambda>a. if row_id ACCESSER_TABLE a = acl_accesserId p
        then AccesserToEntries p else a) (y ACCESSER_TABLE)" if "rows_ok y" for y
      using updated_rows [OF that nt(2), of "AccesserToEntries p"] by (simp add: upd_accesser_def)
    have accessee: "upd_accessee p y ACCESSEE_TABLE = map (\<lambda>a. if row_id ACCESSEE_TABLE a = acl_accesseeId p
        then AccesseeToEntries p else a) (y ACCESSEE_TABLE)" if "rows_ok y" for y
      using updated_rows [OF that nt(3), of "AccesseeToEntries p"] by (simp add: upd_accessee_def)
    have rows_x: "rows_ok y" if "y \<in> set (upd_sides p ?d)" for y
      using that assms(2) upd_accesser_ok [OF assms(2) ids(1)] upd_accessee_ok [OF _ ids(2)]
      by (auto simp: upd_sides_def trust_ok_def)
    have rows_u: "rows_ok (upd_accesser p ?d)" by (rule rows_x) (simp add: upd_sides_def)
    have sides: "x ACCESS_CONTROL_TABLE = ?d ACCESS_CONTROL_TABLE"
      "x ACCESSER_TABLE \<in> {?d ACCESSER_TABLE, upd_accesser p ?d ACCESSER_TABLE}"
      "x ACCESSEE_TABLE \<in> {?d ACCESSEE_TABLE, upd_accessee p ?d ACCESSEE_TABLE}"
      using x accessee [OF rows] accessee [OF rows_u] by (auto simp: upd_sides_def)
    show ?thesis
      using True head [OF sel] allowed sides accesser [OF rows] accessee [OF rows]
        upd_row_rows [OF rows_x [OF x]]
      by (auto simp: Let_def d' d1)
  qed
qed

lemma update_acl_effect_witness:
  "tm_tables demo_db (snd (run_state (UpdateAccessControlProfile demo_env (demo_first\<lparr>acl_status := 0\<rparr>)) demo_one))
     ACCESS_CONTROL_TABLE = [AccessControlProfileToEntries (demo_first\<lparr>acl_status := 0\<rparr>)]"
  using update_acl_effect [OF demo_adapter demo_one_ok prod.collapse [symmetric], of "demo_first\<lparr>acl_status := 0\<rparr>"] update_demo
  by (simp add: Let_def demo_one_rows row_id_def)

section \<open>The status of the trusted devices\<close>

text \<open>Each row of a device has the status its lists give it.\<close>

definition device_status_ok :: "string \<Rightarrow> tables \<Rightarrow> bool" where
  "device_status_ok s d \<longleftrightarrow>
     list_all (\<lambda>r. row_str r ''deviceId'' = s \<longrightarrow> row_int r ''status'' = active_status d s) (d TRUST_DEVICE_TABLE)"

lemma device_entries [simp]:
  "row_str (TrustDeviceProfileToEntries x) ''deviceId'' = tp_deviceId x"
  "row_int (TrustDeviceProfileToEntries x) ''status'' = tp_status x"
  by (simp_all add: TrustDeviceProfileToEntries_def row_defs)

lemma active_status_cong:
  "d ACCESS_CONTROL_TABLE = d' ACCESS_CONTROL_TABLE \<Longrightarrow> active_status d s = active_status d' s"
  by (simp add: active_status_def has_active_def selected_def)

lemma typed_devices: "trust_ok d \<Longrightarrow> r \<in> set (d TRUST_DEVICE_TABLE) \<Longrightarrow> row_typed TRUST_DEVICE_TABLE r"
  by (simp add: trust_ok_def rows_ok_def list_all_iff)

lemma match_device:
  assumes "row_typed TRUST_DEVICE_TABLE r"
  shows "row_matches [''deviceId''] [RStr s] r \<longleftrightarrow> row_str r ''deviceId'' = s"
proof -
  obtain x where "r = TrustDeviceProfileToEntries x" using typed_device [OF assms] by metis
  then show ?thesis by (simp add: match_entries)
qed

text \<open>An update, an insertion or a deletion of a device settles its status.\<close>

lemma upd_device_rows:
  assumes "trust_ok d" "tp_deviceId x = s"
  shows "upd_device x d TRUST_DEVICE_TABLE =
    map (\<lambda>r. if row_str r ''deviceId'' = s then TrustDeviceProfileToEntries x else r) (d TRUST_DEVICE_TABLE)"
  using typed_devices [OF assms(1)] assms(2)
  by (auto simp: upd_device_def updated_def match_device device_update_typed)

lemma upd_device_status:
  assumes "trust_ok d" "tp_deviceId x = s" "tp_status x = active_status d s"
  shows "device_status_ok s (upd_device x d)"
proof -
  have "active_status (upd_device x d) s = active_status d s"
    by (rule active_status_cong) (simp add: upd_device_def updated_def)
  with assms upd_device_rows [OF assms(1,2)] show ?thesis
    by (auto simp: device_status_ok_def list_all_iff)
qed

lemma deleted_device_status:
  assumes "trust_ok d"
  shows "device_status_ok s (deleted TRUST_DEVICE_TABLE [''deviceId''] [RStr s] d)"
  using typed_devices [OF assms] by (auto simp: device_status_ok_def deleted_def list_all_iff match_device)

lemma has_active_iff:
  assumes "rows_ok d"
  shows "has_active d s \<longleftrightarrow>
    (\<exists>r\<in>set (d ACCESS_CONTROL_TABLE). acl_trustDeviceId (acl_of r) = s \<and> acl_status (acl_of r) = STATUS_ACTIVE)"
proof -
  have "row_matches [''trustDeviceId''] [RStr s] r \<longleftrightarrow> acl_trustDeviceId (acl_of r) = s"
    if "r \<in> set (d ACCESS_CONTROL_TABLE)" for r
    using match_acl(4) rows_okD(1) [OF assms _ that] by (simp add: numbered_tables_def)
  then show ?thesis
    by (auto simp: has_active_def selected_def list_ex_iff acl_of_ids(4))
qed

lemma no_device_rows:
  assumes "trust_ok d" "device_rows s d = []" "inserted TRUST_DEVICE_TABLE (TrustDeviceProfileToEntries x) d d'"
    and "tp_deviceId x = s" "tp_status x = active_status d s"
  shows "device_status_ok s d'"
proof -
  have none: "\<forall>r\<in>set (d TRUST_DEVICE_TABLE). row_str r ''deviceId'' \<noteq> s"
    using assms(2) match_device [OF typed_devices [OF assms(1)]] by (auto simp: selected_def filter_empty_conv)
  have "active_status d' s = active_status d s"
    by (rule active_status_cong) (use assms(3) in \<open>auto simp: inserted_def\<close>)
  moreover have "set (d' TRUST_DEVICE_TABLE) = insert (TrustDeviceProfileToEntries x) (set (d TRUST_DEVICE_TABLE))"
    using assms(3) by (auto simp: inserted_def)
  ultimately show ?thesis using none assms(4,5) by (auto simp: device_status_ok_def list_all_iff)
qed

text \<open>The status a first list gives its device.\<close>

lemma first_list_status:
  assumes "rows_ok d" "rows_ok d'" "d' ACCESS_CONTROL_TABLE = d ACCESS_CONTROL_TABLE @ [AccessControlProfileToEntries q]"
    and "\<forall>r\<in>set (d ACCESS_CONTROL_TABLE). acl_trustDeviceId (acl_of r) \<noteq> acl_trustDeviceId q"
    and "acl_status q \<in> {STATUS_INACTIVE, STATUS_ACTIVE}"
  shows "active_status d' (acl_trustDeviceId q) = acl_status q"
  using assms has_active_iff [OF assms(2), of "acl_trustDeviceId q"] by (auto simp: active_status_def)

lemma put_outcome_new:
  assumes "put_outcome p d alive (ret, q, True) d'"
  shows "q = numbered p d" "d' ACCESS_CONTROL_TABLE = d ACCESS_CONTROL_TABLE @ [AccessControlProfileToEntries q]"
    "d' TRUST_DEVICE_TABLE = d TRUST_DEVICE_TABLE"
  using assms by (auto simp: put_outcome_def put_row_def Let_def)

lemma put_outcome_known:
  "put_outcome p d alive (ret, q, False) d' \<Longrightarrow> d' ACCESS_CONTROL_TABLE = d ACCESS_CONTROL_TABLE"
  by (auto simp: put_outcome_def Let_def split: if_splits)

lemma no_rows_status: "trust_ok d \<Longrightarrow> device_rows s d = [] \<Longrightarrow> device_status_ok s d"
  using typed_devices by (auto simp: device_status_ok_def selected_def list_all_iff filter_empty_conv match_device)

lemma put_check_status:
  assumes "put_check_post db live env (numbered p d0) u a m DP_SUCCESS m'" "tm_alive live m"
    and "trust_ok (tm_tables db m)"
    and "device_rows (acl_trustDeviceId p) (tm_tables db m) = [] \<Longrightarrow>
      acl_status p = active_status (tm_tables db m) (acl_trustDeviceId p)"
  shows "device_status_ok (acl_trustDeviceId p) (tm_tables db m')"
proof (cases "device_rows (acl_trustDeviceId p) (tm_tables db m) = []")
  case True
  with assms(1,2) consider "tm_tables db m' = tm_tables db m"
    | "inserted TRUST_DEVICE_TABLE (TrustDeviceProfileToEntries (put_device env (numbered p d0) a (tm_tables db m)))
        (tm_tables db m) (tm_tables db m')"
    by (auto simp: put_check_post_def Let_def)
  then show ?thesis
  proof cases
    case 1
    with no_rows_status [OF assms(3) True] show ?thesis by simp
  next
    case 2
    then show ?thesis by (rule no_device_rows [OF assms(3) True]) (simp_all add: assms(4) [OF True])
  qed
next
  case False
  with assms(1,2) show ?thesis
    by (auto simp: put_check_post_def Let_def intro!: upd_device_status [OF assms(3)])
qed

lemma delete_status:
  assumes "rdb_reads (te_rdb env) db live" "trust_ok (tm_tables db m)" "tm_alive live m"
  shows "wp (DeleteAccessControlProfile env i) (\<lambda>ret m'. ret = DP_SUCCESS \<longrightarrow>
      (\<exists>r\<in>set (tm_tables db m ACCESS_CONTROL_TABLE). row_id ACCESS_CONTROL_TABLE r = i \<and>
        device_status_ok (acl_trustDeviceId (acl_of r)) (tm_tables db m') \<and>
        ((\<forall>x\<in>set (tm_tables db m' ACCESS_CONTROL_TABLE). acl_trustDeviceId (acl_of x) \<noteq> acl_trustDeviceId (acl_of r)) \<longrightarrow>
          device_rows (acl_trustDeviceId (acl_of r)) (tm_tables db m') = []))) m"
proof (rule rdb_reads.wp_DeleteAccessControlProfile [OF assms(1) refl], simp, intro impI)
  let ?d = "tm_tables db m"
  fix ret q m1 m'
  assume step: "tm_step live m m1" and out: "delete_outcome i ?d (DP_SUCCESS, q) (tm_tables db m1)"
    and c: "delete_check_post db live env q m1 ret m'" and ret: "ret = DP_SUCCESS"
  obtain r rs where sel: "selected ACCESS_CONTROL_TABLE [''accessControlId''] [RInt i] ?d = r # rs"
    using out by (auto simp: delete_outcome_def split: list.splits)
  have r: "r \<in> set (?d ACCESS_CONTROL_TABLE)" using selected_head(1) [OF sel] .
  have typed: "row_typed ACCESS_CONTROL_TABLE r"
    using assms(2) r by (simp add: trust_ok_def rows_ok_def numbered_tables_def list_all_iff)
  have id: "row_id ACCESS_CONTROL_TABLE r = i" using selected_head(2) [OF sel] match_acl(1) [OF typed] by simp
  let ?s = "acl_trustDeviceId (acl_of r)"
  have s: "acl_trustDeviceId q = ?s" using out sel by (simp add: delete_outcome_def Let_def)
  have ok: "trust_ok (tm_tables db m1)" using delete_outcome_ok [OF out assms(2)] by simp
  have alive: "tm_alive live m1" using step assms(3) by (simp add: tm_step_def)
  have ds: "device_step ?s (tm_tables db m1) (tm_tables db m')" using c s by (simp add: delete_check_post_def Let_def)
  have acls: "tm_tables db m' ACCESS_CONTROL_TABLE = tm_tables db m1 ACCESS_CONTROL_TABLE"
    using device_step_tables [OF ds] by simp
  have match: "row_matches [''trustDeviceId''] [RStr ?s] x \<longleftrightarrow> acl_trustDeviceId (acl_of x) = ?s"
    if "x \<in> set (tm_tables db m1 ACCESS_CONTROL_TABLE)" for x
    using match_acl(4) ok that by (simp add: trust_ok_def rows_ok_def numbered_tables_def list_all_iff)
  show "\<exists>r\<in>set (?d ACCESS_CONTROL_TABLE). row_id ACCESS_CONTROL_TABLE r = i \<and>
        device_status_ok (acl_trustDeviceId (acl_of r)) (tm_tables db m') \<and>
        ((\<forall>x\<in>set (tm_tables db m' ACCESS_CONTROL_TABLE). acl_trustDeviceId (acl_of x) \<noteq> acl_trustDeviceId (acl_of r)) \<longrightarrow>
          device_rows (acl_trustDeviceId (acl_of r)) (tm_tables db m') = [])"
  proof (rule bexI [OF _ r], intro conjI impI id)
    show "device_status_ok ?s (tm_tables db m')"
    proof (cases "selected ACCESS_CONTROL_TABLE [''trustDeviceId''] [RStr ?s] (tm_tables db m1) = []")
      case True
      with c ret alive s show ?thesis
        by (simp add: delete_check_post_def Let_def deleted_device_status [OF ok])
    next
      case False
      with c ret alive s show ?thesis
        by (auto simp: delete_check_post_def Let_def delete_device_def intro!: upd_device_status [OF ok])
    qed
  next
    assume "\<forall>x\<in>set (tm_tables db m' ACCESS_CONTROL_TABLE). acl_trustDeviceId (acl_of x) \<noteq> ?s"
    then have "selected ACCESS_CONTROL_TABLE [''trustDeviceId''] [RStr ?s] (tm_tables db m1) = []"
      using match by (auto simp: acls selected_def filter_empty_conv)
    with c ret alive s show "device_rows ?s (tm_tables db m') = []"
      by (simp add: delete_check_post_def Let_def selected_def deleted_def)
  qed
qed



end
