(* ===== verification/TrustQueries.thy ===== *)
theory TrustQueries
  imports TrustStatus
begin

text \<open>
  What the queries of the trust manager return where reading the store does not fail: exactly the
  stored lists that match, each with its accesser and its accessee, and never one of the local
  network unless asked for.
\<close>

section \<open>Sides of a list\<close>

definition accesser_rows :: "tables \<Rightarrow> ValuesBucket \<Rightarrow> ValuesBucket list" where
  "accesser_rows d r = selected ACCESSER_TABLE [''accesserId''] [RInt (row_int r ''accesserId'')] d"

definition accessee_rows :: "tables \<Rightarrow> ValuesBucket \<Rightarrow> ValuesBucket list" where
  "accessee_rows d r = selected ACCESSEE_TABLE [''accesseeId''] [RInt (row_int r ''accesseeId'')] d"

lemma selected_Cons:
  "selected t (c # cs) (a # as) d = filter (row_matches cs as) (selected t [c] [a] d)"
  unfolding selected_def filter_filter by (rule filter_cong) (auto simp: row_matches_def)

lemma unique_number:
  assumes "rows_ok d" "table_ok t (d t)" "t \<in> set numbered_tables" "selected t [key_col t] [RInt i] d \<noteq> []"
  obtains x where "selected t [key_col t] [RInt i] d = [x]" "x \<in> set (d t)" "row_id t x = i"
proof -
  let ?sel = "selected t [key_col t] [RInt i] d"
  obtain x xs where sel: "?sel = x # xs" using assms(4) by (cases ?sel) auto
  have mem: "y \<in> set ?sel \<longleftrightarrow> y \<in> set (d t) \<and> row_id t y = i" for y
    using match_key [OF assms(3) rows_okD(1) [OF assms(1,3)]] by (auto simp: selected_def)
  have x: "x \<in> set (d t)" "row_id t x = i" using mem [of x] sel by simp_all
  have "distinct (d t)" using assms(2) by (simp add: table_ok_def distinct_map)
  then have "distinct ?sel" by (simp add: selected_def)
  moreover have "set ?sel = {x}"
    using mem same_number [OF assms(1-3) _ x(1)] x by blast
  ultimately have "length ?sel = 1" using distinct_card [of ?sel] by simp
  with sel x that show ?thesis by simp
qed

lemma sides_of_list:
  assumes "trust_ok d" "r \<in> set (d ACCESS_CONTROL_TABLE)"
    and "table_ok ACCESSER_TABLE (d ACCESSER_TABLE)" "table_ok ACCESSEE_TABLE (d ACCESSEE_TABLE)"
  obtains a e where "accesser_rows d r = [a]" "row_typed ACCESSER_TABLE a" "row_id ACCESSER_TABLE a = row_int r ''accesserId''"
    "accessee_rows d r = [e]" "row_typed ACCESSEE_TABLE e" "row_id ACCESSEE_TABLE e = row_int r ''accesseeId''"
    "joined d r = (acl_of r)\<lparr>acl_accesser := accesser_of a, acl_accessee := accessee_of e\<rparr>"
proof -
  have rows: "rows_ok d" using assms(1) by (simp add: trust_ok_def)
  have nt: "ACCESSER_TABLE \<in> set numbered_tables" "ACCESSEE_TABLE \<in> set numbered_tables"
    by (simp_all add: numbered_tables_def)
  have sides: "accesser_rows d r \<noteq> []" "accessee_rows d r \<noteq> []"
    using trust_ok_sides [OF assms(1,2)] by (simp_all add: has_sides_def accesser_rows_def accessee_rows_def)
  obtain a where a: "accesser_rows d r = [a]" "a \<in> set (d ACCESSER_TABLE)" "row_id ACCESSER_TABLE a = row_int r ''accesserId''"
    using unique_number [OF rows assms(3) nt(1), of "row_int r ''accesserId''"] sides(1)
    by (auto simp: accesser_rows_def)
  obtain e where e: "accessee_rows d r = [e]" "e \<in> set (d ACCESSEE_TABLE)" "row_id ACCESSEE_TABLE e = row_int r ''accesseeId''"
    using unique_number [OF rows assms(4) nt(2), of "row_int r ''accesseeId''"] sides(2)
    by (auto simp: accessee_rows_def)
  have "joined d r = (acl_of r)\<lparr>acl_accesser := accesser_of a, acl_accessee := accessee_of e\<rparr>"
    using a(1) e(1)
    by (simp add: joined_def read_accesser_def read_accessee_def accesser_rows_def accessee_rows_def
        accesser_of_def accessee_of_def)
  then show ?thesis
    using that a e rows_okD(1) [OF rows nt(1) a(2)] rows_okD(1) [OF rows nt(2) e(2)] by blast
qed

text \<open>Each list that is read refers to the accesser and the accessee it comes with.\<close>

lemma joined_ids:
  assumes "trust_ok d" "r \<in> set (d ACCESS_CONTROL_TABLE)"
    and "table_ok ACCESSER_TABLE (d ACCESSER_TABLE)" "table_ok ACCESSEE_TABLE (d ACCESSEE_TABLE)"
  shows "ar_id (acl_accesser (joined d r)) = acl_accesserId (joined d r)"
    "ae_id (acl_accessee (joined d r)) = acl_accesseeId (joined d r)"
    "acl_accessControlId (joined d r) = row_id ACCESS_CONTROL_TABLE r"
proof -
  obtain a e where a: "row_id ACCESSER_TABLE a = row_int r ''accesserId''" and e: "row_id ACCESSEE_TABLE e = row_int r ''accesseeId''"
    and j: "joined d r = (acl_of r)\<lparr>acl_accesser := accesser_of a, acl_accessee := accessee_of e\<rparr>"
    using sides_of_list [OF assms] by metis
  have "ar_id (accesser_of a) = row_id ACCESSER_TABLE a" "ae_id (accessee_of e) = row_id ACCESSEE_TABLE e"
    by (simp_all add: accesser_of_def accessee_of_def ConvertToAccesser_def ConvertToAccessee_def row_id_def)
  with a e j show "ar_id (acl_accesser (joined d r)) = acl_accesserId (joined d r)"
    "ae_id (acl_accessee (joined d r)) = acl_accesseeId (joined d r)"
    "acl_accessControlId (joined d r) = row_id ACCESS_CONTROL_TABLE r"
    by (simp_all add: acl_of_ids)
qed

section \<open>Reading one list by its sides\<close>

text \<open>A list matches when its accesser or its accessee does.\<close>

definition side_match ::
  "tables \<Rightarrow> string list \<Rightarrow> rdb_value list \<Rightarrow> string list \<Rightarrow> rdb_value list \<Rightarrow> ValuesBucket \<Rightarrow> bool" where
  "side_match d c1 a1 c2 a2 r \<longleftrightarrow>
     list_ex (row_matches c1 a1) (accesser_rows d r) \<or> list_ex (row_matches c2 a2) (accessee_rows d r)"

context rdb_reads
begin

lemma wp_acl_by_sides:
  assumes "te_rdb env = ir" "tm_same db live m0 m" "trust_ok (tabs m0)" "r \<in> set (tabs m0 ACCESS_CONTROL_TABLE)"
    and q: "short (Select ACCESSER_TABLE (''accesserId'' # c1))" "length a1 < MAX_PARAM_SIZE"
      "short (Select ACCESSEE_TABLE (''accesseeId'' # c2))" "length a2 < MAX_PARAM_SIZE"
    and Q: "\<And>ret ps' m'. tm_same db live m0 m' \<Longrightarrow>
      tm_alive live m0 \<longrightarrow> ret = DP_SUCCESS \<and>
        ps' = (if side_match (tabs m0) c1 a1 c2 a2 r then ps @ [joined (tabs m0) r] else ps) \<Longrightarrow> Q (ret, ps') m'"
  shows "wp (acl_by_sides env r (''accesserId'' # c1, RInt (row_int r ''accesserId'') # a1)
      ([''accesseeId''], [RInt (row_int r ''accesseeId'')])
      (''accesseeId'' # c2, RInt (row_int r ''accesseeId'') # a2)
      ([''accesserId''], [RInt (row_int r ''accesserId'')]) ps) Q m"
proof -
  let ?d = "tabs m0"
  obtain a e where a: "accesser_rows ?d r = [a]" and e: "accessee_rows ?d r = [e]"
    and j: "joined ?d r = (acl_of r)\<lparr>acl_accesser := accesser_of a, acl_accessee := accessee_of e\<rparr>"
    by (rule sides_of_list [OF assms(3,4) tabs_ok tabs_ok]) (auto simp: TABLES_def)
  have sel: "selected ACCESSER_TABLE (''accesserId'' # c1) (RInt (row_int r ''accesserId'') # a1) ?d =
      (if row_matches c1 a1 a then [a] else [])"
    "selected ACCESSEE_TABLE (''accesseeId'' # c2) (RInt (row_int r ''accesseeId'') # a2) ?d =
      (if row_matches c2 a2 e then [e] else [])"
    "selected ACCESSER_TABLE [''accesserId''] [RInt (row_int r ''accesserId'')] ?d = [a]"
    "selected ACCESSEE_TABLE [''accesseeId''] [RInt (row_int r ''accesseeId'')] ?d = [e]"
    using a e by (simp_all add: selected_Cons [of _ _ c1] selected_Cons [of _ _ c2] accesser_rows_def accessee_rows_def)
  have conv: "ConvertToAccessControlProfiles (Some r) [a] [e] ps = ps @ [joined ?d r]"
    using convert_joined [of r ?d ps] by (simp add: sel)
  have hit: "Q (DP_SUCCESS, ps @ [joined ?d r]) m1" if "tm_same db live m0 m1" "row_matches c1 a1 a \<or> row_matches c2 a2 e" for m1
    using that a e by (intro Q) (auto simp: side_match_def)
  have miss: "Q (DP_SUCCESS, ps) m1" if "tm_same db live m0 m1" "\<not> row_matches c1 a1 a" "\<not> row_matches c2 a2 e" for m1
    using that a e by (intro Q) (auto simp: side_match_def)
  have fail: "Q (DP_GET_RESULTSET_FAIL, ps) m1" if "tm_same db live m0 m1" "\<not> tm_alive live m0" for m1
    using that by (intro Q) auto
  show ?thesis
    unfolding acl_by_sides_def
    using assms(2) q hit miss fail
    by (auto intro!: wp_GetResultSet [where ?m0.0 = m0] assms(1) simp: sel conv)
qed

text \<open>The loop over the lists, with any step that reads so.\<close>

lemma wp_acl_loop:
  assumes start: "tm_same db live m0 m" and sub: "set rows \<subseteq> R"
    and step: "\<And>r ps m Q. r \<in> R \<Longrightarrow> tm_same db live m0 m \<Longrightarrow>
      (\<And>ret ps' m'. tm_same db live m0 m' \<Longrightarrow>
         tm_alive live m0 \<longrightarrow> ret = DP_SUCCESS \<and> ps' = (if P r then ps @ [joined (tabs m0) r] else ps) \<Longrightarrow> Q (ret, ps') m') \<Longrightarrow>
      wp (f r ps) Q m"
    and Q: "\<And>ret ps' m'. tm_same db live m0 m' \<Longrightarrow>
      tm_alive live m0 \<longrightarrow> ret = DP_SUCCESS \<and> ps' = ps @ map (joined (tabs m0)) (filter P rows) \<Longrightarrow> Q (ret, ps') m'"
  shows "wp (acl_loop f rows ps) Q m"
  using start sub Q
proof (induction rows arbitrary: ps m)
  case Nil
  then show ?case by simp
next
  case (Cons r rows)
  show ?case
    unfolding acl_loop.simps wp_bind
  proof (rule step)
    show "r \<in> R" "tm_same db live m0 m" using Cons.prems by simp_all
    fix ret ps' m'
    assume s: "tm_same db live m0 m'"
      and p: "tm_alive live m0 \<longrightarrow> ret = DP_SUCCESS \<and> ps' = (if P r then ps @ [joined (tabs m0) r] else ps)"
    have fail: "Q (ret, ps') m'" if "ret \<noteq> DP_SUCCESS"
      using that s p by (intro Cons.prems(3)) auto
    have "wp (acl_loop f rows ps') Q m'"
      by (rule Cons.IH [OF s]) (use Cons.prems(2) p in \<open>auto intro!: Cons.prems(3) split: if_splits\<close>)
    with fail show "wp (case (ret, ps') of (ret, ps) \<Rightarrow>
        if ret \<noteq> DP_SUCCESS then return (ret, ps) else acl_loop f rows ps) Q m'" by simp
  qed
qed

end

section \<open>Queries by user\<close>

lemma match_sides:
  "row_typed ACCESSER_TABLE a \<Longrightarrow> row_matches [''accesserUserId''] [RInt u] a \<longleftrightarrow> ar_userId (accesser_of a) = u"
  "row_typed ACCESSER_TABLE a \<Longrightarrow> row_matches [''accesserUserId'', ''accesserAccountId''] [RInt u, RStr s] a \<longleftrightarrow>
     ar_userId (accesser_of a) = u \<and> ar_accountId (accesser_of a) = s"
  "row_typed ACCESSEE_TABLE e \<Longrightarrow> row_matches [''accesseeUserId''] [RInt u] e \<longleftrightarrow> ae_userId (accessee_of e) = u"
  "row_typed ACCESSEE_TABLE e \<Longrightarrow> row_matches [''accesseeUserId'', ''accesseeAccountId''] [RInt u, RStr s] e \<longleftrightarrow>
     ae_userId (accessee_of e) = u \<and> ae_accountId (accessee_of e) = s"
proof -
  assume a: "row_typed ACCESSER_TABLE a"
  obtain p where "a = AccesserToEntries p" using typed_accesser [OF a] by metis
  then show "row_matches [''accesserUserId''] [RInt u] a \<longleftrightarrow> ar_userId (accesser_of a) = u"
    "row_matches [''accesserUserId'', ''accesserAccountId''] [RInt u, RStr s] a \<longleftrightarrow>
     ar_userId (accesser_of a) = u \<and> ar_accountId (accesser_of a) = s"
    by (simp_all add: row_matches_def) (simp_all add: AccesserToEntries_def Let_def)
next
  assume e: "row_typed ACCESSEE_TABLE e"
  obtain p where "e = AccesseeToEntries p" using typed_accessee [OF e] by metis
  then show "row_matches [''accesseeUserId''] [RInt u] e \<longleftrightarrow> ae_userId (accessee_of e) = u"
    "row_matches [''accesseeUserId'', ''accesseeAccountId''] [RInt u, RStr s] e \<longleftrightarrow>
     ae_userId (accessee_of e) = u \<and> ae_accountId (accessee_of e) = s"
    by (simp_all add: row_matches_def) (simp_all add: AccesseeToEntries_def Let_def)
qed

lemma short_accounts [simp]:
  "short (Select ACCESSER_TABLE [''accesserId'', ''accesserUserId'', ''accesserAccountId''])"
  "short (Select ACCESSEE_TABLE [''accesseeId'', ''accesseeUserId'', ''accesseeAccountId''])"
  by (rule short_Select; simp)+

text \<open>The result of a query that ends well or finds nothing.\<close>

definition answer :: "AccessControlProfile list \<Rightarrow> dp_ret \<times> AccessControlProfile list" where
  "answer ps = (if ps = [] then DP_NOT_FIND_DATA else DP_SUCCESS, ps)"

lemma not_lnn_answer: "not_lnn env ps = return (answer (RemoveLnnAcl env ps))"
  by (simp add: not_lnn_def answer_def Let_def)

context rdb_reads
begin

lemma wp_query_acls_all:
  assumes "te_rdb env = ir" "trust_ok (tabs m)"
    and loop: "\<And>m1 Q. tm_same db live m m1 \<Longrightarrow>
      (\<And>ret ps' m'. tm_same db live m m' \<Longrightarrow>
         tm_alive live m \<longrightarrow> ret = DP_SUCCESS \<and> ps' = map (joined (tabs m)) (filter P (tabs m ACCESS_CONTROL_TABLE)) \<Longrightarrow>
         Q (ret, ps') m') \<Longrightarrow>
      wp (loop (tabs m ACCESS_CONTROL_TABLE) []) Q m1"
    and Q: "\<And>res m'. tm_same db live m m' \<Longrightarrow> tm_alive live m \<longrightarrow>
      res = answer (RemoveLnnAcl env (map (joined (tabs m)) (filter P (tabs m ACCESS_CONTROL_TABLE)))) \<Longrightarrow> Q res m'"
  shows "wp (query_acls env SELECT_ACCESS_CONTROL_TABLE [] id loop []) Q m"
  unfolding query_acls_def wp_bind
  apply (rule wp_GetResultSet [OF assms(1) tm_same_refl])
     apply simp_all
  subgoal for m1
    apply (intro conjI impI)
    subgoal by (rule Q) (simp_all add: answer_def RemoveLnnAcl_def)
    subgoal
      apply (rule loop)
       apply assumption
      subgoal for ret ps' m2
        using Q [of m2] by (auto simp: not_lnn_answer)
      done
    done
  subgoal by (rule Q) simp_all
  done

lemma wp_GetAcl_user:
  assumes "te_rdb env = ir" "trust_ok (tabs m)"
    and Q: "\<And>res m'. tm_same db live m m' \<Longrightarrow> tm_alive live m \<longrightarrow>
      res = answer (RemoveLnnAcl env (map (joined (tabs m)) (filter
        (side_match (tabs m) [''accesserUserId''] [RInt u] [''accesseeUserId''] [RInt u]) (tabs m ACCESS_CONTROL_TABLE)))) \<Longrightarrow> Q res m'"
  shows "wp (GetAcl_user env u []) Q m"
  unfolding GetAcl_user_def
proof (rule wp_query_acls_all [OF assms(1,2) _ Q])
  fix m1 Q
  assume s: "tm_same db live m m1" and Q: "\<And>ret ps' m'. tm_same db live m m' \<Longrightarrow>
    tm_alive live m \<longrightarrow> ret = DP_SUCCESS \<and> ps' = map (joined (tabs m)) (filter
      (side_match (tabs m) [''accesserUserId''] [RInt u] [''accesseeUserId''] [RInt u]) (tabs m ACCESS_CONTROL_TABLE)) \<Longrightarrow>
    Q (ret, ps') m'"
  show "wp (acl_loop (\<lambda>row. GetAccessControlProfiles_user env row (row_int row ''accesserId'')
      (row_int row ''accesseeId'') u) (tabs m ACCESS_CONTROL_TABLE) []) Q m1"
    unfolding GetAccessControlProfiles_user_def
    by (rule wp_acl_loop [OF s subset_refl]) (auto intro!: wp_acl_by_sides [where ?m0.0 = m] assms(1,2) Q)
qed

lemma wp_GetAcl_user_account:
  assumes "te_rdb env = ir" "trust_ok (tabs m)" "length s \<le> MAX_STRING_LEN"
    and Q: "\<And>res m'. tm_same db live m m' \<Longrightarrow> tm_alive live m \<longrightarrow>
      res = answer (RemoveLnnAcl env (map (joined (tabs m)) (filter
        (side_match (tabs m) [''accesserUserId'', ''accesserAccountId''] [RInt u, RStr s]
          [''accesseeUserId'', ''accesseeAccountId''] [RInt u, RStr s]) (tabs m ACCESS_CONTROL_TABLE)))) \<Longrightarrow> Q res m'"
  shows "wp (GetAcl_user_account env u s []) Q m"
proof -
  have "wp (query_acls env SELECT_ACCESS_CONTROL_TABLE [] id
      (acl_loop (\<lambda>row. GetAclProfileByUserIdAndAccountId env row (row_int row ''accesserId'')
         (row_int row ''accesseeId'') u s)) []) Q m"
  proof (rule wp_query_acls_all [OF assms(1,2) _ Q])
    fix m1 Q
    assume s: "tm_same db live m m1" and Q: "\<And>ret ps' m'. tm_same db live m m' \<Longrightarrow>
      tm_alive live m \<longrightarrow> ret = DP_SUCCESS \<and> ps' = map (joined (tabs m)) (filter
        (side_match (tabs m) [''accesserUserId'', ''accesserAccountId''] [RInt u, RStr s]
          [''accesseeUserId'', ''accesseeAccountId''] [RInt u, RStr s]) (tabs m ACCESS_CONTROL_TABLE)) \<Longrightarrow>
      Q (ret, ps') m'"
    show "wp (acl_loop (\<lambda>row. GetAclProfileByUserIdAndAccountId env row (row_int row ''accesserId'')
        (row_int row ''accesseeId'') u s) (tabs m ACCESS_CONTROL_TABLE) []) Q m1"
      unfolding GetAclProfileByUserIdAndAccountId_def
      by (rule wp_acl_loop [OF s subset_refl]) (auto intro!: wp_acl_by_sides [where ?m0.0 = m] assms(1,2) Q)
  qed
  with assms(3) show ?thesis by (simp add: GetAcl_user_account_def)
qed

end

lemma side_match_user:
  assumes "trust_ok d" "r \<in> set (d ACCESS_CONTROL_TABLE)"
    and "table_ok ACCESSER_TABLE (d ACCESSER_TABLE)" "table_ok ACCESSEE_TABLE (d ACCESSEE_TABLE)"
  shows "side_match d [''accesserUserId''] [RInt u] [''accesseeUserId''] [RInt u] r \<longleftrightarrow>
      ar_userId (acl_accesser (joined d r)) = u \<or> ae_userId (acl_accessee (joined d r)) = u"
    "side_match d [''accesserUserId'', ''accesserAccountId''] [RInt u, RStr s]
       [''accesseeUserId'', ''accesseeAccountId''] [RInt u, RStr s] r \<longleftrightarrow>
      ar_userId (acl_accesser (joined d r)) = u \<and> ar_accountId (acl_accesser (joined d r)) = s \<or>
      ae_userId (acl_accessee (joined d r)) = u \<and> ae_accountId (acl_accessee (joined d r)) = s"
proof -
  obtain a e where "accesser_rows d r = [a]" "row_typed ACCESSER_TABLE a" "accessee_rows d r = [e]" "row_typed ACCESSEE_TABLE e"
    "joined d r = (acl_of r)\<lparr>acl_accesser := accesser_of a, acl_accessee := accessee_of e\<rparr>"
    by (rule sides_of_list [OF assms]) auto
  then show "side_match d [''accesserUserId''] [RInt u] [''accesseeUserId''] [RInt u] r \<longleftrightarrow>
      ar_userId (acl_accesser (joined d r)) = u \<or> ae_userId (acl_accessee (joined d r)) = u"
    "side_match d [''accesserUserId'', ''accesserAccountId''] [RInt u, RStr s]
       [''accesseeUserId'', ''accesseeAccountId''] [RInt u, RStr s] r \<longleftrightarrow>
      ar_userId (acl_accesser (joined d r)) = u \<and> ar_accountId (acl_accesser (joined d r)) = s \<or>
      ae_userId (acl_accessee (joined d r)) = u \<and> ae_accountId (acl_accessee (joined d r)) = s"
    by (simp_all add: side_match_def match_sides)
qed

section \<open>Properties\<close>

context rdb_reads
begin

lemma wp_GetAllAccessControlProfile:
  assumes "te_rdb env = ir"
    and Q: "\<And>res m'. tm_same db live m m' \<Longrightarrow> tm_alive live m \<longrightarrow> res = answer (RemoveLnnAcl env (stored (tabs m))) \<Longrightarrow> Q res m'"
  shows "wp (GetAllAccessControlProfile env []) Q m"
  unfolding GetAllAccessControlProfile_def wp_bind
  apply (rule wp_GetAllAccessControlProfiles [OF assms(1) tm_same_refl])
  subgoal for ret ps m1
    using Q [of m1] by (auto simp: not_lnn_answer answer_def RemoveLnnAcl_def split: if_splits)
  done

lemma wp_GetAcl_query:
  assumes "te_rdb env = ir"
    and Q: "\<And>res m'. tm_same db live m m' \<Longrightarrow> tm_alive live m \<longrightarrow>
      res = answer (RemoveLnnAcl env (if t = ACER_TOKENID then GetAclByAcerTokenId q (stored (tabs m)) []
        else GetAclByAcerAndAceeTokenId q (stored (tabs m)) [])) \<Longrightarrow> Q res m'"
  shows "wp (GetAcl_query env t q []) Q m"
  unfolding GetAcl_query_def wp_bind
  apply (rule wp_GetAllAccessControlProfiles [OF assms(1) tm_same_refl])
  subgoal for ret ps m1
    using Q [of m1]
    by (cases t) (auto simp: not_lnn_answer answer_def RemoveLnnAcl_def GetAclByAcerTokenId_def
        GetAclByAcerAndAceeTokenId_def split: if_splits)
  done

end

text \<open>A run that reads returns this result and leaves the tables and the calls as they are.\<close>

definition reads_as :: "('a \<Rightarrow> tables) \<Rightarrow> 'a TrustManager \<Rightarrow> ('a TrustManager, 'b) state \<Rightarrow> 'b \<Rightarrow> bool" where
  "reads_as db m f x \<longleftrightarrow> fst (run_state f m) = x \<and>
     tm_tables db (snd (run_state f m)) = tm_tables db m \<and> tm_calls (snd (run_state f m)) = tm_calls m"

lemma reads_asI:
  assumes "wp f (\<lambda>y m'. tm_same db live m m' \<and> (tm_alive live m \<longrightarrow> y = x)) m" "tm_alive live m"
  shows "reads_as db m f x"
  using assms tm_sameD(1) tm_stepD(2) [OF tm_sameD(3)] by (auto simp: reads_as_def wp_result)

text \<open>C17: Where reading the store does not fail, the queries return exactly the stored lists that
  match, in the order of their numbers, each joined with the accesser and the accessee it refers to;
  lists of the local network appear only in the query that includes them, and an empty answer has
  its own code. A query by user finds a list by either side; a query with tokens finds it in either
  direction. No query changes the tables or calls a listener.\<close>

theorem query_exact:
  assumes "rdb_reads (te_rdb env) db live" "trust_ok (tm_tables db m)" "tm_alive live m"
  shows "let d = tm_tables db m; lists = map (joined d) (d ACCESS_CONTROL_TABLE);
      shown = filter (\<lambda>p. \<not> IsLnnAcl env p) lists in
    map acl_accessControlId lists = map (row_id ACCESS_CONTROL_TABLE) (d ACCESS_CONTROL_TABLE) \<and>
    (\<forall>p\<in>set lists. ar_id (acl_accesser p) = acl_accesserId p \<and> ae_id (acl_accessee p) = acl_accesseeId p) \<and>
    reads_as db m (GetAllAclIncludeLnnAcl env []) (answer lists) \<and>
    reads_as db m (GetAllAccessControlProfile env []) (answer shown) \<and>
    (\<forall>u. reads_as db m (GetAcl_user env u []) (answer (filter (\<lambda>p.
       ar_userId (acl_accesser p) = u \<or> ae_userId (acl_accessee p) = u) shown))) \<and>
    (\<forall>u s. length s \<le> MAX_STRING_LEN \<longrightarrow>
       reads_as db m (GetAcl_user_account env u s []) (answer (filter (\<lambda>p.
         ar_userId (acl_accesser p) = u \<and> ar_accountId (acl_accesser p) = s \<or>
         ae_userId (acl_accessee p) = u \<and> ae_accountId (acl_accessee p) = s) shown))) \<and>
    (\<forall>q. reads_as db m (GetAcl_query env ACER_TOKENID q []) (answer (filter (\<lambda>p.
       acl_trustDeviceId p \<in> {qp_accesseeDeviceId q, qp_accesserDeviceId q} \<and>
       (CheckForWardByAcer q p \<or> CheckReverseByAcer q p)) shown))) \<and>
    (\<forall>q. reads_as db m (GetAcl_query env ACER_AND_ACEE_TOKENID q []) (answer (filter (\<lambda>p.
       acl_trustDeviceId p \<in> {qp_accesseeDeviceId q, qp_accesserDeviceId q} \<and>
       (CheckForWardByAcerAndAcee q p \<or> CheckReverseByAcerAndAcee q p)) shown)))"
proof -
  note rdb = assms(1)
  let ?d = "tm_tables db m"
  let ?lists = "map (joined ?d) (?d ACCESS_CONTROL_TABLE)"
  have ok: "table_ok t (?d t)" if "t \<in> set TABLES" for t by (rule rdb_reads.tabs_ok [OF rdb that])
  have sides: "table_ok ACCESSER_TABLE (?d ACCESSER_TABLE)" "table_ok ACCESSEE_TABLE (?d ACCESSEE_TABLE)"
    using ok by (simp_all add: TABLES_def)
  note st = stored_all [OF assms(2)]
  have all: "reads_as db m (GetAllAclIncludeLnnAcl env []) (answer ?lists)"
    unfolding GetAllAclIncludeLnnAcl_def
    by (rule reads_asI [OF _ assms(3)], rule rdb_reads.wp_GetAllAccessControlProfiles [OF rdb refl tm_same_refl])
      (simp add: st answer_def)
  have shown: "reads_as db m (GetAllAccessControlProfile env []) (answer (RemoveLnnAcl env ?lists))"
    by (rule reads_asI [OF _ assms(3)], rule rdb_reads.wp_GetAllAccessControlProfile [OF rdb refl]) (simp add: st)
  have query: "reads_as db m (GetAcl_query env t q []) (answer (RemoveLnnAcl env
      (if t = ACER_TOKENID then GetAclByAcerTokenId q ?lists [] else GetAclByAcerAndAceeTokenId q ?lists [])))" for t q
    by (rule reads_asI [OF _ assms(3)], rule rdb_reads.wp_GetAcl_query [OF rdb refl]) (simp add: st)
  have user: "reads_as db m (GetAcl_user env u []) (answer (RemoveLnnAcl env (map (joined ?d) (filter
      (side_match ?d [''accesserUserId''] [RInt u] [''accesseeUserId''] [RInt u]) (?d ACCESS_CONTROL_TABLE)))))" for u
    by (rule reads_asI [OF _ assms(3)], rule rdb_reads.wp_GetAcl_user [OF rdb refl assms(2)]) simp
  have account: "reads_as db m (GetAcl_user_account env u s []) (answer (RemoveLnnAcl env (map (joined ?d) (filter
      (side_match ?d [''accesserUserId'', ''accesserAccountId''] [RInt u, RStr s]
        [''accesseeUserId'', ''accesseeAccountId''] [RInt u, RStr s]) (?d ACCESS_CONTROL_TABLE)))))"
    if "length s \<le> MAX_STRING_LEN" for u s
    by (rule reads_asI [OF _ assms(3)], rule rdb_reads.wp_GetAcl_user_account [OF rdb refl assms(2) that]) simp
  have by_user: "filter (side_match ?d [''accesserUserId''] [RInt u] [''accesseeUserId''] [RInt u]) (?d ACCESS_CONTROL_TABLE) =
      filter (\<lambda>r. ar_userId (acl_accesser (joined ?d r)) = u \<or> ae_userId (acl_accessee (joined ?d r)) = u) (?d ACCESS_CONTROL_TABLE)" for u
    by (rule filter_cong [OF refl], rule side_match_user(1) [OF assms(2) _ sides])
  have by_account: "filter (side_match ?d [''accesserUserId'', ''accesserAccountId''] [RInt u, RStr s]
        [''accesseeUserId'', ''accesseeAccountId''] [RInt u, RStr s]) (?d ACCESS_CONTROL_TABLE) =
      filter (\<lambda>r. ar_userId (acl_accesser (joined ?d r)) = u \<and> ar_accountId (acl_accesser (joined ?d r)) = s \<or>
        ae_userId (acl_accessee (joined ?d r)) = u \<and> ae_accountId (acl_accessee (joined ?d r)) = s) (?d ACCESS_CONTROL_TABLE)" for u s
    by (rule filter_cong [OF refl], rule side_match_user(2) [OF assms(2) _ sides])
  show ?thesis
    unfolding Let_def
  proof (intro conjI allI impI ballI)
    show "map acl_accessControlId ?lists = map (row_id ACCESS_CONTROL_TABLE) (?d ACCESS_CONTROL_TABLE)"
      using joined_ids(3) [OF assms(2) _ sides] by simp
  next
    fix p
    assume "p \<in> set ?lists"
    then show "ar_id (acl_accesser p) = acl_accesserId p" "ae_id (acl_accessee p) = acl_accesseeId p"
      using joined_ids(1,2) [OF assms(2) _ sides] by auto
  next
    show "reads_as db m (GetAllAclIncludeLnnAcl env []) (answer ?lists)" by (rule all)
  next
    show "reads_as db m (GetAllAccessControlProfile env []) (answer (filter (\<lambda>p. \<not> IsLnnAcl env p) ?lists))"
      using shown by (simp add: RemoveLnnAcl_def)
  next
    fix u
    show "reads_as db m (GetAcl_user env u []) (answer (filter (\<lambda>p.
       ar_userId (acl_accesser p) = u \<or> ae_userId (acl_accessee p) = u) (filter (\<lambda>p. \<not> IsLnnAcl env p) ?lists)))"
      using user [of u] by (simp add: by_user RemoveLnnAcl_def filter_map comp_def conj_commute)
  next
    fix u and s :: string
    assume "length s \<le> MAX_STRING_LEN"
    from account [OF this, of u] show "reads_as db m (GetAcl_user_account env u s []) (answer (filter (\<lambda>p.
         ar_userId (acl_accesser p) = u \<and> ar_accountId (acl_accesser p) = s \<or>
         ae_userId (acl_accessee p) = u \<and> ae_accountId (acl_accessee p) = s) (filter (\<lambda>p. \<not> IsLnnAcl env p) ?lists)))"
      by (simp add: by_account RemoveLnnAcl_def filter_map comp_def conj_commute)
  next
    fix q
    show "reads_as db m (GetAcl_query env ACER_TOKENID q []) (answer (filter (\<lambda>p.
       acl_trustDeviceId p \<in> {qp_accesseeDeviceId q, qp_accesserDeviceId q} \<and>
       (CheckForWardByAcer q p \<or> CheckReverseByAcer q p)) (filter (\<lambda>p. \<not> IsLnnAcl env p) ?lists)))"
      using query [of ACER_TOKENID q] by (simp add: GetAclByAcerTokenId_def RemoveLnnAcl_def conj_commute)
  next
    fix q
    show "reads_as db m (GetAcl_query env ACER_AND_ACEE_TOKENID q []) (answer (filter (\<lambda>p.
       acl_trustDeviceId p \<in> {qp_accesseeDeviceId q, qp_accesserDeviceId q} \<and>
       (CheckForWardByAcerAndAcee q p \<or> CheckReverseByAcerAndAcee q p)) (filter (\<lambda>p. \<not> IsLnnAcl env p) ?lists)))"
      using query [of ACER_AND_ACEE_TOKENID q] by (simp add: GetAclByAcerAndAceeTokenId_def RemoveLnnAcl_def conj_commute)
  qed
qed

lemma query_exact_witness:
  "reads_as demo_db demo_one (GetAllAclIncludeLnnAcl demo_env [])
     (answer [joined (tm_tables demo_db demo_one) (AccessControlProfileToEntries demo_first)])"
  using query_exact [OF demo_reads demo_one_ok demo_one_alive] by (simp add: Let_def demo_one_rows)

end
