(* ===== verification/Parcel.thy ===== *)
theory Parcel
  imports DpErrors "HOL-Library.Word"
begin

text \<open>
  The parcels a call between processes is written to and read from. \<open>MessageParcel\<close> belongs to the
  IPC framework, not to this repository: its operations are the fields of the record \<open>Parcel\<close>, an
  argument of the definitions here, over an opaque type of parcels. What the code relies on is the
  locale \<open>parcel\<close>: a value that was written is read back in its turn by the read of its kind. The
  macros of \<open>common/include/utils/macro_utils.h\<close> are the combinators: a sequence of writes stops at the
  first that fails, a sequence of reads at the first that fails, the fields read so far being set.
\<close>

section \<open>Parcels\<close>

datatype int_kind = Int8 | Uint16 | Int32 | Uint32 | Int64

text \<open>A remote object is a number, \<open>None\<close> the null pointer.\<close>

datatype pitem = PBool bool | PInt int_kind int | PString string | PRaw "8 word list"
  | PRemote "nat option" | PToken string

datatype pkind = KBool | KInt int_kind | KString | KRaw int | KRemote | KToken

fun kind_of :: "pitem \<Rightarrow> pkind" where
  "kind_of (PBool _) = KBool"
| "kind_of (PInt k _) = KInt k"
| "kind_of (PString _) = KString"
| "kind_of (PRaw xs) = KRaw (int (length xs))"
| "kind_of (PRemote _) = KRemote"
| "kind_of (PToken _) = KToken"

text \<open>\<open>pa_errFlatten\<close> is the code \<open>ERR_FLATTEN_OBJECT\<close> of the framework.\<close>

record 'p Parcel =
  pa_new :: 'p
  pa_write :: "pitem \<Rightarrow> 'p \<Rightarrow> bool \<times> 'p"
  pa_read :: "pkind \<Rightarrow> 'p \<Rightarrow> pitem option \<times> 'p"
  pa_errFlatten :: int

type_synonym 'p writer = "'p \<Rightarrow> bool \<times> 'p"
type_synonym ('p, 'o) reader = "'o \<Rightarrow> 'p \<Rightarrow> (bool \<times> 'o) \<times> 'p"

section \<open>Writing\<close>

fun write_all :: "'p writer list \<Rightarrow> 'p writer" where
  "write_all [] p = (True, p)"
| "write_all (w # ws) p = (let (ok, p) = w p in if \<not> ok then (False, p) else write_all ws p)"

text \<open>A call whose result the code does not look at.\<close>

definition ignoring :: "'p writer \<Rightarrow> 'p writer" where
  "ignoring w p = (True, snd (w p))"

abbreviation WInt :: "'p Parcel \<Rightarrow> int_kind \<Rightarrow> int \<Rightarrow> 'p writer" where
  "WInt P k i \<equiv> pa_write P (PInt k i)"

abbreviation WString :: "'p Parcel \<Rightarrow> string \<Rightarrow> 'p writer" where
  "WString P s \<equiv> pa_write P (PString s)"

abbreviation WBool :: "'p Parcel \<Rightarrow> bool \<Rightarrow> 'p writer" where
  "WBool P b \<equiv> pa_write P (PBool b)"

abbreviation WRemote :: "'p Parcel \<Rightarrow> nat option \<Rightarrow> 'p writer" where
  "WRemote P r \<equiv> pa_write P (PRemote r)"

section \<open>Reading\<close>

definition ReadInt :: "'p Parcel \<Rightarrow> int_kind \<Rightarrow> 'p \<Rightarrow> int option \<times> 'p" where
  "ReadInt P k p = (case pa_read P (KInt k) p of (Some (PInt _ i), p) \<Rightarrow> (Some i, p) | (_, p) \<Rightarrow> (None, p))"

definition ReadString :: "'p Parcel \<Rightarrow> 'p \<Rightarrow> string option \<times> 'p" where
  "ReadString P p = (case pa_read P KString p of (Some (PString s), p) \<Rightarrow> (Some s, p) | (_, p) \<Rightarrow> (None, p))"

definition ReadBool :: "'p Parcel \<Rightarrow> 'p \<Rightarrow> bool option \<times> 'p" where
  "ReadBool P p = (case pa_read P KBool p of (Some (PBool b), p) \<Rightarrow> (Some b, p) | (_, p) \<Rightarrow> (None, p))"

definition ReadRaw :: "'p Parcel \<Rightarrow> int \<Rightarrow> 'p \<Rightarrow> 8 word list option \<times> 'p" where
  "ReadRaw P n p = (case pa_read P (KRaw n) p of (Some (PRaw xs), p) \<Rightarrow> (Some xs, p) | (_, p) \<Rightarrow> (None, p))"

definition ReadRemote :: "'p Parcel \<Rightarrow> 'p \<Rightarrow> nat option \<times> 'p" where
  "ReadRemote P p = (case pa_read P KRemote p of (Some (PRemote r), p) \<Rightarrow> (r, p) | (_, p) \<Rightarrow> (None, p))"

definition ReadToken :: "'p Parcel \<Rightarrow> 'p \<Rightarrow> string \<times> 'p" where
  "ReadToken P p = (case pa_read P KToken p of (Some (PToken s), p) \<Rightarrow> (s, p) | (_, p) \<Rightarrow> ([], p))"

text \<open>The reads that return the value are 0 or empty when they fail.\<close>

definition ReadInt_value :: "'p Parcel \<Rightarrow> int_kind \<Rightarrow> 'p \<Rightarrow> int \<times> 'p" where
  "ReadInt_value P k p = (let (i, p) = ReadInt P k p in (case i of None \<Rightarrow> 0 | Some i \<Rightarrow> i, p))"

definition ReadString_value :: "'p Parcel \<Rightarrow> 'p \<Rightarrow> string \<times> 'p" where
  "ReadString_value P p = (let (s, p) = ReadString P p in (case s of None \<Rightarrow> [] | Some s \<Rightarrow> s, p))"

text \<open>\<open>READ_HELPER_RET\<close> into a field, given by its update function.\<close>

definition into :: "('p \<Rightarrow> 'v option \<times> 'p) \<Rightarrow> (('v \<Rightarrow> 'v) \<Rightarrow> 'o \<Rightarrow> 'o) \<Rightarrow> ('p, 'o) reader" where
  "into f upd x p = (case f p of (Some v, p) \<Rightarrow> ((True, upd (\<lambda>_. v) x), p) | (None, p) \<Rightarrow> ((False, x), p))"

abbreviation IntTo :: "'p Parcel \<Rightarrow> int_kind \<Rightarrow> ((int \<Rightarrow> int) \<Rightarrow> 'o \<Rightarrow> 'o) \<Rightarrow> ('p, 'o) reader" where
  "IntTo P k \<equiv> into (ReadInt P k)"

abbreviation StringTo :: "'p Parcel \<Rightarrow> ((string \<Rightarrow> string) \<Rightarrow> 'o \<Rightarrow> 'o) \<Rightarrow> ('p, 'o) reader" where
  "StringTo P \<equiv> into (ReadString P)"

abbreviation BoolTo :: "'p Parcel \<Rightarrow> ((bool \<Rightarrow> bool) \<Rightarrow> 'o \<Rightarrow> 'o) \<Rightarrow> ('p, 'o) reader" where
  "BoolTo P \<equiv> into (ReadBool P)"

fun read_all :: "('p, 'o) reader list \<Rightarrow> ('p, 'o) reader" where
  "read_all [] x p = ((True, x), p)"
| "read_all (r # rs) x p = (let ((ok, x), p) = r x p in if \<not> ok then ((False, x), p) else read_all rs x p)"

text \<open>Reading a field that is an object or a vector itself; the code looks at no result.\<close>

definition nested :: "('p, 'f) reader \<Rightarrow> ('o \<Rightarrow> 'f) \<Rightarrow> (('f \<Rightarrow> 'f) \<Rightarrow> 'o \<Rightarrow> 'o) \<Rightarrow> ('p, 'o) reader" where
  "nested r get upd x p = (let ((_, y), p) = r (get x) p in ((True, upd (\<lambda>_. y) x), p))"

section \<open>Vectors\<close>

definition u32 :: "nat \<Rightarrow> int" where
  "u32 n = int n mod 2 ^ 32"

text \<open>\<open>strict\<close>: an empty vector is refused, after its size was written.\<close>

definition write_vec :: "'p Parcel \<Rightarrow> bool \<Rightarrow> nat \<Rightarrow> ('x \<Rightarrow> 'p writer) \<Rightarrow> 'x list \<Rightarrow> 'p writer" where
  "write_vec P strict limit w xs p =
     (let (ok, p) = WInt P Uint32 (u32 (length xs)) p in
      if \<not> ok then (False, p)
      else if strict \<and> xs = [] \<or> length xs > limit then (False, p)
      else write_all (map w xs) p)"

fun read_loop :: "('p, 'x) reader \<Rightarrow> 'x \<Rightarrow> nat \<Rightarrow> ('p, 'x list) reader" where
  "read_loop r d 0 xs p = ((True, xs), p)"
| "read_loop r d (Suc n) xs p =
     (let ((ok, x), p) = r d p in if \<not> ok then ((False, xs), p) else read_loop r d n (xs @ [x]) p)"

definition read_vec :: "'p Parcel \<Rightarrow> bool \<Rightarrow> nat \<Rightarrow> ('p, 'x) reader \<Rightarrow> 'x \<Rightarrow> ('p, 'x list) reader" where
  "read_vec P strict limit r d xs p =
     (let (cnt, p) = ReadInt_value P Uint32 p in
      if cnt = 0 then ((\<not> strict, xs), p)
      else if cnt > int limit then ((False, xs), p)
      else read_loop r d (nat cnt) xs p)"

definition read_value :: "('p \<Rightarrow> 'v option \<times> 'p) \<Rightarrow> ('p, 'v) reader" where
  "read_value f = into f (\<lambda>g. g)"

section \<open>The laws\<close>

text \<open>\<open>view p\<close> is what a parcel still has to be read.\<close>

locale parcel =
  fixes P :: "'p Parcel" and view :: "'p \<Rightarrow> pitem list"
  assumes new: "view (pa_new P) = []"
    and wrote: "pa_write P x p = (True, p') \<Longrightarrow> view p' = view p @ [x]"
    and read: "view p = x # xs \<Longrightarrow> \<exists>p'. pa_read P (kind_of x) p = (Some x, p') \<and> view p' = xs"
    and read_unsigned: "view p = PInt Int32 i # xs \<Longrightarrow>
      \<exists>p'. pa_read P (KInt Uint32) p = (Some (PInt Uint32 (i mod 2 ^ 32)), p') \<and> view p' = xs"

text \<open>
  A parcel that never runs out of room. It takes raw data only once, as a comment of the code says:
  \<open>The same IPC can only call WriteRawData once\<close>.
\<close>

definition is_raw :: "pitem \<Rightarrow> bool" where
  "is_raw x = (case x of PRaw _ \<Rightarrow> True | _ \<Rightarrow> False)"

locale roomy_parcel = parcel P view for P :: "'p Parcel" and view :: "'p \<Rightarrow> pitem list" +
  assumes room: "\<not> is_raw x \<Longrightarrow> fst (pa_write P x p)"
    and room_raw: "list_all (\<lambda>y. \<not> is_raw y) (view p) \<Longrightarrow> fst (pa_write P (PRaw bs) p)"

definition writes :: "('p \<Rightarrow> pitem list) \<Rightarrow> 'p writer \<Rightarrow> pitem list \<Rightarrow> bool" where
  "writes view w xs \<longleftrightarrow> (\<forall>p. \<exists>p'. w p = (True, p') \<and> view p' = view p @ xs)"

definition reads :: "('p \<Rightarrow> pitem list) \<Rightarrow> ('p, 'o) reader \<Rightarrow> pitem list \<Rightarrow> 'o \<Rightarrow> 'o \<Rightarrow> bool" where
  "reads view r xs x y \<longleftrightarrow>
     (\<forall>p rest. view p = xs @ rest \<longrightarrow> (\<exists>p'. r x p = ((True, y), p') \<and> view p' = rest))"

lemma writesD:
  assumes "writes view w xs"
  obtains p' where "w p = (True, p')" "view p' = view p @ xs"
  using assms unfolding writes_def by blast

lemma readsD:
  assumes "reads view r xs x y" "view p = xs @ rest"
  obtains p' where "r x p = ((True, y), p')" "view p' = rest"
  using assms unfolding reads_def by blast

lemma writes_Nil [intro]: "writes view (write_all []) []"
  by (simp add: writes_def)

lemma writes_Cons [intro]:
  assumes "writes view w xs" "writes view (write_all ws) ys"
  shows "writes view (write_all (w # ws)) (xs @ ys)"
  unfolding writes_def
proof
  fix p
  obtain p1 where 1: "w p = (True, p1)" "view p1 = view p @ xs" using assms(1) by (rule writesD)
  obtain p2 where "write_all ws p1 = (True, p2)" "view p2 = view p1 @ ys" using assms(2) by (rule writesD)
  with 1 show "\<exists>p'. write_all (w # ws) p = (True, p') \<and> view p' = view p @ xs @ ys" by simp
qed

lemma writes_map:
  "\<forall>x\<in>set xs. writes view (w x) (items x) \<Longrightarrow> writes view (write_all (map w xs)) (concat (map items xs))"
  by (induction xs) auto

lemma writes_ignoring [intro]: "writes view w xs \<Longrightarrow> writes view (ignoring w) xs"
  unfolding writes_def ignoring_def by (metis snd_conv)

lemma reads_Nil [intro]: "reads view (read_all []) [] x x"
  by (simp add: reads_def)

lemma reads_Cons [intro]:
  assumes "reads view r xs x y" "reads view (read_all rs) ys y z"
  shows "reads view (read_all (r # rs)) (xs @ ys) x z"
  unfolding reads_def
proof (intro allI impI)
  fix p rest
  assume "view p = (xs @ ys) @ rest"
  then have "view p = xs @ (ys @ rest)" by simp
  with assms(1) obtain p1 where 1: "r x p = ((True, y), p1)" "view p1 = ys @ rest" by (rule readsD)
  from assms(2) 1(2) obtain p2 where "read_all rs y p1 = ((True, z), p2)" "view p2 = rest" by (rule readsD)
  with 1 show "\<exists>p'. read_all (r # rs) x p = ((True, z), p') \<and> view p' = rest" by simp
qed

lemma reads_nested [intro]:
  "reads view r xs (get x) y \<Longrightarrow> reads view (nested r get upd) xs x (upd (\<lambda>_. y) x)"
  unfolding reads_def nested_def by (fastforce split: prod.splits)

lemma reads_loop:
  assumes "\<forall>x\<in>set ys. reads view r (items x) d x"
  shows "reads view (read_loop r d (length ys)) (concat (map items ys)) xs (xs @ ys)"
  using assms
proof (induction ys arbitrary: xs)
  case Nil
  then show ?case by (simp add: reads_def)
next
  case (Cons y ys)
  show ?case
    unfolding reads_def
  proof (intro allI impI)
    fix p rest
    assume "view p = concat (map items (y # ys)) @ rest"
    then have "view p = items y @ (concat (map items ys) @ rest)" by simp
    moreover have "reads view r (items y) d y" using Cons.prems by simp
    ultimately obtain p1 where 1: "r d p = ((True, y), p1)" "view p1 = concat (map items ys) @ rest"
      by (metis readsD)
    have "reads view (read_loop r d (length ys)) (concat (map items ys)) (xs @ [y]) ((xs @ [y]) @ ys)"
      by (rule Cons.IH) (use Cons.prems in simp)
    from this 1(2) obtain p2 where
      "read_loop r d (length ys) (xs @ [y]) p1 = ((True, (xs @ [y]) @ ys), p2)" "view p2 = rest"
      by (rule readsD)
    with 1 show "\<exists>p'. read_loop r d (length (y # ys)) xs p = ((True, xs @ y # ys), p') \<and> view p' = rest"
      by simp
  qed
qed

definition vec_items :: "('x \<Rightarrow> pitem list) \<Rightarrow> 'x list \<Rightarrow> pitem list" where
  "vec_items items xs = PInt Uint32 (u32 (length xs)) # concat (map items xs)"

context roomy_parcel
begin

lemma is_raw_simps [simp]:
  "\<not> is_raw (PInt k i)" "\<not> is_raw (PString s)" "\<not> is_raw (PBool b)" "\<not> is_raw (PRemote r)"
  "\<not> is_raw (PToken s)" "is_raw (PRaw bs)"
  by (simp_all add: is_raw_def)

lemma writes_item [intro]:
  assumes "\<not> is_raw x"
  shows "writes view (pa_write P x) [x]"
  unfolding writes_def
proof
  fix p
  have "pa_write P x p = (True, snd (pa_write P x p))" using room [OF assms, of p] by (cases "pa_write P x p") simp
  with wrote [OF this] show "\<exists>p'. pa_write P x p = (True, p') \<and> view p' = view p @ [x]" by blast
qed

lemma write_first:
  assumes "writes view w xs" "\<not> is_raw x"
  shows "\<exists>p'. (let (ok, p) = pa_write P x p in if \<not> ok then (False, p) else w p) = (True, p') \<and>
    view p' = view p @ x # xs"
proof -
  obtain p1 where 1: "pa_write P x p = (True, p1)" "view p1 = view p @ [x]" using writes_item [OF assms(2)] by (rule writesD)
  obtain p2 where "w p1 = (True, p2)" "view p2 = view p1 @ xs" using assms(1) by (rule writesD)
  with 1 show ?thesis by simp
qed

lemma writes_vec:
  assumes "\<forall>x\<in>set xs. writes view (w x) (items x)" "strict \<longrightarrow> xs \<noteq> []" "length xs \<le> limit"
  shows "writes view (write_vec P strict limit w xs) (vec_items items xs)"
  unfolding writes_def
proof
  fix p
  have "write_vec P strict limit w xs = (\<lambda>p. let (ok, p) = WInt P Uint32 (u32 (length xs)) p in
      if \<not> ok then (False, p) else write_all (map w xs) p)"
    using assms(2,3) by (auto simp: write_vec_def fun_eq_iff split: prod.split)
  then show "\<exists>p'. write_vec P strict limit w xs p = (True, p') \<and> view p' = view p @ vec_items items xs"
    unfolding vec_items_def using write_first [OF writes_map [OF assms(1)], of "PInt Uint32 (u32 (length xs))"] by simp
qed

lemma reads_value:
  assumes "\<And>p xs. view p = x # xs \<Longrightarrow> \<exists>p'. f p = (Some v, p') \<and> view p' = xs"
  shows "reads view (into f upd) [x] y (upd (\<lambda>_. v) y)"
  unfolding reads_def into_def by (force dest: assms)

lemma ReadInt_item: "view p = PInt k i # xs \<Longrightarrow> \<exists>p'. ReadInt P k p = (Some i, p') \<and> view p' = xs"
  using read [of p "PInt k i" xs] by (force simp: ReadInt_def)

lemma ReadUint32_item:
  "view p = PInt Int32 i # xs \<Longrightarrow> \<exists>p'. ReadInt P Uint32 p = (Some (i mod 2 ^ 32), p') \<and> view p' = xs"
  using read_unsigned [of p i xs] by (force simp: ReadInt_def)

lemma ReadString_item: "view p = PString s # xs \<Longrightarrow> \<exists>p'. ReadString P p = (Some s, p') \<and> view p' = xs"
  using read [of p "PString s" xs] by (force simp: ReadString_def)

lemma ReadBool_item: "view p = PBool b # xs \<Longrightarrow> \<exists>p'. ReadBool P p = (Some b, p') \<and> view p' = xs"
  using read [of p "PBool b" xs] by (force simp: ReadBool_def)

lemma ReadRemote_item: "view p = PRemote r # xs \<Longrightarrow> \<exists>p'. ReadRemote P p = (r, p') \<and> view p' = xs"
  using read [of p "PRemote r" xs] by (force simp: ReadRemote_def)

lemma ReadToken_item: "view p = PToken s # xs \<Longrightarrow> \<exists>p'. ReadToken P p = (s, p') \<and> view p' = xs"
  using read [of p "PToken s" xs] by (force simp: ReadToken_def)

lemma ReadRaw_item: "view p = PRaw bs # xs \<Longrightarrow> \<exists>p'. ReadRaw P (int (length bs)) p = (Some bs, p') \<and> view p' = xs"
  using read [of p "PRaw bs" xs] by (force simp: ReadRaw_def)

lemmas reads_items [intro] = reads_value [OF ReadInt_item] reads_value [OF ReadString_item] reads_value [OF ReadBool_item]

lemma reads_vec:
  assumes "\<forall>x\<in>set ys. reads view r (items x) d x" "strict \<longrightarrow> ys \<noteq> []" "length ys \<le> limit" "limit < 2 ^ 32"
  shows "reads view (read_vec P strict limit r d) (vec_items items ys) xs (xs @ ys)"
  unfolding reads_def
proof (intro allI impI)
  fix p rest
  assume "view p = vec_items items ys @ rest"
  then obtain p1 where 1: "ReadInt P Uint32 p = (Some (u32 (length ys)), p1)"
    "view p1 = concat (map items ys) @ rest"
    using ReadInt_item [of p Uint32] by (auto simp: vec_items_def)
  have u: "u32 (length ys) = int (length ys)" using assms(3,4) by (simp add: u32_def)
  from reads_loop [OF assms(1)] 1(2) obtain p2 where
    "read_loop r d (length ys) xs p1 = ((True, xs @ ys), p2)" "view p2 = rest" by (rule readsD)
  with 1 u assms(2,3) show "\<exists>p'. read_vec P strict limit r d xs p = ((True, xs @ ys), p') \<and> view p' = rest"
    by (cases "ys = []") (auto simp: read_vec_def ReadInt_value_def)
qed

end

section \<open>Codecs\<close>

text \<open>Written into a new parcel by \<open>m\<close>, \<open>x\<close> is read back from it by \<open>u\<close> into a fresh object.\<close>

definition crosses :: "'p Parcel \<Rightarrow> ('x \<Rightarrow> 'p writer) \<Rightarrow> ('p, 'x) reader \<Rightarrow> 'x \<Rightarrow> 'x \<Rightarrow> bool" where
  "crosses P m u d x = (let (ok, p) = m x (pa_new P); ((ok', y), _) = u d p in ok \<and> ok' \<and> y = x)"

text \<open>
  What a class promises: what \<open>marshal\<close> writes of a value that is \<open>ok\<close>, \<open>unmarshal\<close> reads back into a
  fresh object \<open>d\<close>. The lists of such values are codecs again.
\<close>

locale codec = roomy_parcel P view for P :: "'p Parcel" and view :: "'p \<Rightarrow> pitem list" +
  fixes marshal :: "'x \<Rightarrow> 'p writer" and unmarshal :: "('p, 'x) reader" and d :: 'x
    and items :: "'x \<Rightarrow> pitem list" and ok :: "'x \<Rightarrow> bool"
  assumes writes: "ok x \<Longrightarrow> writes view (marshal x) (items x)"
    and reads: "ok x \<Longrightarrow> reads view unmarshal (items x) d x"
begin

lemma roundtrip:
  assumes "ok x" "marshal x p = (b, p')" "view p = []"
  shows "b \<and> (\<exists>p''. unmarshal d p' = ((True, x), p'') \<and> view p'' = [])"
proof -
  obtain p1 where "marshal x p = (True, p1)" "view p1 = view p @ items x" using writes [OF assms(1)] by (rule writesD)
  with assms(2,3) have "b" "view p' = items x @ []" by simp_all
  with reads [OF assms(1)] show ?thesis by (metis readsD)
qed

lemma value_crosses:
  assumes "ok x"
  shows "crosses P marshal unmarshal d x"
proof -
  obtain b p' where w: "marshal x (pa_new P) = (b, p')" by fastforce
  from roundtrip [OF assms w new] w show ?thesis by (auto simp: crosses_def)
qed

lemma vec_writes:
  assumes "list_all ok xs" "strict \<longrightarrow> xs \<noteq> []" "length xs \<le> limit"
  shows "writes view (write_vec P strict limit marshal xs) (vec_items items xs)"
    "writes view (write_vec P strict limit (\<lambda>x. ignoring (marshal x)) xs) (vec_items items xs)"
  by (rule writes_vec; use assms writes in \<open>auto simp: list_all_iff\<close>)+

lemma vec_reads:
  assumes "list_all ok ys" "strict \<longrightarrow> ys \<noteq> []" "length ys \<le> limit" "limit < 2 ^ 32"
  shows "reads view (read_vec P strict limit unmarshal d) (vec_items items ys) xs (xs @ ys)"
  by (rule reads_vec; use assms reads in \<open>auto simp: list_all_iff\<close>)

end

text \<open>A parcel as the list of its values.\<close>

definition list_parcel :: "pitem list Parcel" where
  "list_parcel = \<lparr>pa_new = [], pa_write = (\<lambda>x p. (True, p @ [x])),
     pa_read = (\<lambda>k p. case p of x # xs \<Rightarrow> if kind_of x = k then (Some x, xs)
       else (case x of PInt Int32 i \<Rightarrow> if k = KInt Uint32 then (Some (PInt Uint32 (i mod 2 ^ 32)), xs) else (None, xs)
             | _ \<Rightarrow> (None, xs)) | [] \<Rightarrow> (None, [])),
     pa_errFlatten = 3\<rparr>"

interpretation list_parcel: roomy_parcel list_parcel "\<lambda>p. p"
  by unfold_locales (auto simp: list_parcel_def)

end
