(* ===== verification/IpcTypes.thy ===== *)
theory IpcTypes
  imports SubscribeProfile
begin

text \<open>
  The classes of \<open>common/include/interfaces\<close> that only the calls between processes use so far, as
  records with their fields and default constructors.
\<close>

record DeviceIconInfo =
  di_id :: int
  di_productId :: string
  di_internalModel :: string
  di_subProductId :: string
  di_imageType :: string
  di_specName :: string
  di_version :: string
  di_wiseVersion :: string
  di_url :: string
  di_icon :: "8 word list"
  di_modifyTime :: int

definition DeviceIconInfo_default :: DeviceIconInfo where
  "DeviceIconInfo_default =
     \<lparr>di_id = 0, di_productId = [], di_internalModel = [], di_subProductId = [], di_imageType = [],
      di_specName = [], di_version = [], di_wiseVersion = [], di_url = [], di_icon = [], di_modifyTime = 0\<rparr>"

record DeviceIconInfoFilterOptions =
  dio_productIds :: "string list"
  dio_internalModel :: string
  dio_subProductId :: string
  dio_imageType :: string
  dio_specName :: string

definition DeviceIconInfoFilterOptions_default :: DeviceIconInfoFilterOptions where
  "DeviceIconInfoFilterOptions_default =
     \<lparr>dio_productIds = [], dio_internalModel = [], dio_subProductId = [], dio_imageType = [], dio_specName = []\<rparr>"

record DeviceProfileFilterOptions =
  dpo_userId :: int
  dpo_accountId :: string
  dpo_deviceIds :: "string list"
  dpo_wiseDeviceIds :: "string list"
  dpo_deviceProfileIds :: "int list"

definition DeviceProfileFilterOptions_default :: DeviceProfileFilterOptions where
  "DeviceProfileFilterOptions_default =
     \<lparr>dpo_userId = -1, dpo_accountId = [], dpo_deviceIds = [], dpo_wiseDeviceIds = [], dpo_deviceProfileIds = []\<rparr>"

text \<open>The operations that fill the vectors keep their bounds; the one of \<open>DpSyncOptions\<close> lets one more in.\<close>

definition AddDeviceIds :: "string \<Rightarrow> DeviceProfileFilterOptions \<Rightarrow> DeviceProfileFilterOptions" where
  "AddDeviceIds s x = (if length (dpo_deviceIds x) \<ge> MAX_DEVICE_SIZE then x
     else x\<lparr>dpo_deviceIds := dpo_deviceIds x @ [s]\<rparr>)"

definition AddWiseDeviceIds :: "string \<Rightarrow> DeviceProfileFilterOptions \<Rightarrow> DeviceProfileFilterOptions" where
  "AddWiseDeviceIds s x = (if length (dpo_wiseDeviceIds x) \<ge> MAX_DEVICE_SIZE then x
     else x\<lparr>dpo_wiseDeviceIds := dpo_wiseDeviceIds x @ [s]\<rparr>)"

definition AddDeviceProfileIds :: "int \<Rightarrow> DeviceProfileFilterOptions \<Rightarrow> DeviceProfileFilterOptions" where
  "AddDeviceProfileIds i x = (if length (dpo_deviceProfileIds x) \<ge> MAX_DEVICE_SIZE then x
     else x\<lparr>dpo_deviceProfileIds := dpo_deviceProfileIds x @ [i]\<rparr>)"

text \<open>The mode of \<open>SyncMode\<close> as its number.\<close>

record DpSyncOptions =
  so_syncMode :: int
  so_syncDeviceIds :: "string list"

definition DpSyncOptions_default :: DpSyncOptions where
  "DpSyncOptions_default = \<lparr>so_syncMode = 2, so_syncDeviceIds = []\<rparr>"

definition AddDevice :: "string \<Rightarrow> DpSyncOptions \<Rightarrow> DpSyncOptions" where
  "AddDevice s x = (if length (so_syncDeviceIds x) > MAX_DEVICE_SIZE then x
     else x\<lparr>so_syncDeviceIds := so_syncDeviceIds x @ [s]\<rparr>)"

record LocalServiceInfo =
  ls_bundleName :: string
  ls_authBoxType :: int
  ls_authType :: int
  ls_pinExchangeType :: int
  ls_pinCode :: string
  ls_description :: string
  ls_extraInfo :: string

definition LocalServiceInfo_default :: LocalServiceInfo where
  "LocalServiceInfo_default =
     \<lparr>ls_bundleName = [], ls_authBoxType = -1, ls_authType = -1, ls_pinExchangeType = -1, ls_pinCode = [],
      ls_description = [], ls_extraInfo = []\<rparr>"

record ProductInfo =
  pi_productId :: string
  pi_model :: string
  pi_productName :: string
  pi_productShortName :: string
  pi_imageVersion :: string

definition ProductInfo_default :: ProductInfo where
  "ProductInfo_default =
     \<lparr>pi_productId = [], pi_model = [], pi_productName = [], pi_productShortName = [], pi_imageVersion = []\<rparr>"

record ServiceInfo =
  svi_udid :: string
  svi_userId :: int
  svi_displayId :: int
  svi_serviceOwnerTokenId :: int
  svi_serviceOwnerPkgName :: string
  svi_serviceRegisterTokenId :: int
  svi_serviceId :: int
  svi_timeStamp :: int
  svi_publishState :: int
  svi_serviceType :: string
  svi_serviceName :: string
  svi_serviceDisplayName :: string
  svi_customData :: string
  svi_serviceCode :: string
  svi_dataLen :: int
  svi_extraData :: string
  svi_version :: string
  svi_description :: string

definition ServiceInfo_default :: ServiceInfo where
  "ServiceInfo_default =
     \<lparr>svi_udid = [], svi_userId = DEFAULT_USER_ID, svi_displayId = -1, svi_serviceOwnerTokenId = -1,
      svi_serviceOwnerPkgName = [], svi_serviceRegisterTokenId = -1, svi_serviceId = -1,
      svi_timeStamp = -1, svi_publishState = -1, svi_serviceType = [], svi_serviceName = [],
      svi_serviceDisplayName = [], svi_customData = [], svi_serviceCode = [], svi_dataLen = 0,
      svi_extraData = [], svi_version = [], svi_description = []\<rparr>"

record ServiceInfoUniqueKey =
  sk_deviceId :: string
  sk_userId :: int
  sk_tokenId :: string
  sk_serviceId :: int
  sk_bundleName :: string

definition ServiceInfoUniqueKey_default :: ServiceInfoUniqueKey where
  "ServiceInfoUniqueKey_default =
     \<lparr>sk_deviceId = [], sk_userId = DEFAULT_USER_ID, sk_tokenId = [], sk_serviceId = -1, sk_bundleName = []\<rparr>"

record UserInfo =
  ui_udid :: string
  ui_userId :: int
  ui_serviceId :: int

definition UserInfo_default :: UserInfo where
  "UserInfo_default = \<lparr>ui_udid = [], ui_userId = DEFAULT_USER_ID, ui_serviceId = -1\<rparr>"

record BusinessEvent =
  be_businessKey :: string
  be_businessValue :: string

definition BusinessEvent_default :: BusinessEvent where
  "BusinessEvent_default = \<lparr>be_businessKey = [], be_businessValue = []\<rparr>"

definition TrustedDeviceInfo_default :: TrustedDeviceInfo where
  "TrustedDeviceInfo_default = TrustedDeviceInfo [] 0 0 [] 0 [] []"

end
