(* ===== verification/Marshalling.thy ===== *)
theory Marshalling
  imports Parcel IpcTypes
begin

text \<open>
  Writing the classes of \<open>common/src/interfaces\<close> into a parcel and reading them back, field by field in
  the order of the code, and the vectors, maps and sets of \<open>common/src/utils/ipc_utils.cpp\<close>.
\<close>

abbreviation "MAX_ID_SIZE \<equiv> (1000 :: nat)"
abbreviation "MAX_ICON_SIZE \<equiv> (4194304 :: nat)"
abbreviation "MAX_SUBSCRIBE_CHANGE_SIZE \<equiv> (20 :: nat)"

section \<open>Vectors of values\<close>

definition Marshalling_strings :: "'p Parcel \<Rightarrow> string list \<Rightarrow> 'p writer" where
  "Marshalling_strings P = write_vec P False MAX_ID_SIZE (WString P)"

definition UnMarshalling_strings :: "'p Parcel \<Rightarrow> ('p, string list) reader" where
  "UnMarshalling_strings P = read_vec P False MAX_ID_SIZE (read_value (ReadString P)) []"

definition Marshalling_ints :: "'p Parcel \<Rightarrow> int list \<Rightarrow> 'p writer" where
  "Marshalling_ints P = write_vec P False MAX_ID_SIZE (WInt P Int32)"

definition UnMarshalling_ints :: "'p Parcel \<Rightarrow> ('p, int list) reader" where
  "UnMarshalling_ints P = read_vec P False MAX_ID_SIZE (read_value (ReadInt P Int32)) 0"

definition Marshalling_bytes :: "'p Parcel \<Rightarrow> 8 word list \<Rightarrow> 'p writer" where
  "Marshalling_bytes P bs p =
     (if length bs > MAX_ICON_SIZE then (False, p)
      else let (ok, p) = WInt P Uint32 (u32 (length bs)) p in
           if \<not> ok then (False, p)
           else if bs = [] then (True, p)
           else pa_write P (PRaw bs) p)"

definition UnMarshalling_bytes :: "'p Parcel \<Rightarrow> ('p, 8 word list) reader" where
  "UnMarshalling_bytes P bs p =
     (let (cnt, p) = ReadInt_value P Uint32 p in
      if cnt = 0 then ((True, bs), p)
      else if cnt > int MAX_ICON_SIZE then ((False, bs), p)
      else case ReadRaw P cnt p of (None, p) \<Rightarrow> ((False, bs), p) | (Some icon, p) \<Rightarrow> ((True, icon), p))"

text \<open>
  A vector inside a class, behind its size: the code refuses a size above the limit and appends to
  the vector the object has.
\<close>

definition read_sized ::
  "'p Parcel \<Rightarrow> int_kind \<Rightarrow> nat \<Rightarrow> ('p \<Rightarrow> 'v option \<times> 'p) \<Rightarrow> 'v \<Rightarrow> ('o \<Rightarrow> 'v list) \<Rightarrow>
   (('v list \<Rightarrow> 'v list) \<Rightarrow> 'o \<Rightarrow> 'o) \<Rightarrow> ('p, 'o) reader" where
  "read_sized P k limit f d get upd x p =
     (case ReadInt P k p of
        (None, p) \<Rightarrow> ((False, x), p)
      | (Some cnt, p) \<Rightarrow>
          if cnt > int limit then ((False, x), p)
          else let ((ok, vs), p) = read_loop (read_value f) d (nat cnt) (get x) p
               in ((ok, upd (\<lambda>_. vs) x), p))"

section \<open>Classes\<close>

definition Accesser_Marshalling :: "'p Parcel \<Rightarrow> Accesser \<Rightarrow> 'p writer" where
  "Accesser_Marshalling P x = write_all
     [WInt P Int64 (ar_id x), WString P (ar_deviceId x), WInt P Int32 (ar_userId x),
       WString P (ar_accountId x), WInt P Int64 (ar_tokenId x), WString P (ar_bundleName x),
       WString P (ar_hapSignature x), WInt P Uint32 (ar_bindLevel x),
       WString P (ar_deviceName x), WString P (ar_serviceName x),
       WInt P Int32 (ar_credentialId x), WString P (ar_credentialIdStr x),
       WInt P Int32 (ar_status x), WInt P Int32 (ar_sessionKeyId x),
       WInt P Int64 (ar_skTimeStamp x), WString P (ar_extraData x)]"

definition Accesser_UnMarshalling :: "'p Parcel \<Rightarrow> ('p, Accesser) reader" where
  "Accesser_UnMarshalling P = read_all
     [IntTo P Int64 ar_id_update, StringTo P ar_deviceId_update,
       IntTo P Int32 ar_userId_update, StringTo P ar_accountId_update,
       IntTo P Int64 ar_tokenId_update, StringTo P ar_bundleName_update,
       StringTo P ar_hapSignature_update, IntTo P Uint32 ar_bindLevel_update,
       StringTo P ar_deviceName_update, StringTo P ar_serviceName_update,
       IntTo P Int32 ar_credentialId_update, StringTo P ar_credentialIdStr_update,
       IntTo P Int32 ar_status_update, IntTo P Int32 ar_sessionKeyId_update,
       IntTo P Int64 ar_skTimeStamp_update, StringTo P ar_extraData_update]"

definition Accessee_Marshalling :: "'p Parcel \<Rightarrow> Accessee \<Rightarrow> 'p writer" where
  "Accessee_Marshalling P x = write_all
     [WInt P Int64 (ae_id x), WString P (ae_deviceId x), WInt P Int32 (ae_userId x),
       WString P (ae_accountId x), WInt P Int64 (ae_tokenId x), WString P (ae_bundleName x),
       WString P (ae_hapSignature x), WInt P Uint32 (ae_bindLevel x),
       WString P (ae_deviceName x), WString P (ae_serviceName x),
       WInt P Int32 (ae_credentialId x), WString P (ae_credentialIdStr x),
       WInt P Int32 (ae_status x), WInt P Int32 (ae_sessionKeyId x),
       WInt P Int64 (ae_skTimeStamp x), WString P (ae_extraData x)]"

definition Accessee_UnMarshalling :: "'p Parcel \<Rightarrow> ('p, Accessee) reader" where
  "Accessee_UnMarshalling P = read_all
     [IntTo P Int64 ae_id_update, StringTo P ae_deviceId_update,
       IntTo P Int32 ae_userId_update, StringTo P ae_accountId_update,
       IntTo P Int64 ae_tokenId_update, StringTo P ae_bundleName_update,
       StringTo P ae_hapSignature_update, IntTo P Uint32 ae_bindLevel_update,
       StringTo P ae_deviceName_update, StringTo P ae_serviceName_update,
       IntTo P Int32 ae_credentialId_update, StringTo P ae_credentialIdStr_update,
       IntTo P Int32 ae_status_update, IntTo P Int32 ae_sessionKeyId_update,
       IntTo P Int64 ae_skTimeStamp_update, StringTo P ae_extraData_update]"

definition AccessControlProfile_Marshalling :: "'p Parcel \<Rightarrow> AccessControlProfile \<Rightarrow> 'p writer" where
  "AccessControlProfile_Marshalling P x = write_all
     [WInt P Int64 (acl_accessControlId x), WInt P Int64 (acl_accesserId x),
       WInt P Int64 (acl_accesseeId x), WString P (acl_sessionKey x),
       WInt P Uint32 (acl_bindType x), WInt P Uint32 (acl_authenticationType x),
       WInt P Uint32 (acl_bindLevel x), WInt P Int32 (acl_status x),
       WInt P Int64 (acl_validPeriod x), WInt P Int64 (acl_lastAuthTime x),
       WString P (acl_trustDeviceId x), WInt P Uint32 (acl_deviceIdType x),
       WString P (acl_deviceIdHash x), WString P (acl_extraData x),
       ignoring (Accesser_Marshalling P (acl_accesser x)),
       ignoring (Accessee_Marshalling P (acl_accessee x))]"

definition AccessControlProfile_UnMarshalling :: "'p Parcel \<Rightarrow> ('p, AccessControlProfile) reader" where
  "AccessControlProfile_UnMarshalling P = read_all
     [IntTo P Int64 acl_accessControlId_update, IntTo P Int64 acl_accesserId_update,
       IntTo P Int64 acl_accesseeId_update, StringTo P acl_sessionKey_update,
       IntTo P Uint32 acl_bindType_update, IntTo P Uint32 acl_authenticationType_update,
       IntTo P Uint32 acl_bindLevel_update, IntTo P Int32 acl_status_update,
       IntTo P Int64 acl_validPeriod_update, IntTo P Int64 acl_lastAuthTime_update,
       StringTo P acl_trustDeviceId_update, IntTo P Uint32 acl_deviceIdType_update,
       StringTo P acl_deviceIdHash_update, StringTo P acl_extraData_update,
       nested (Accesser_UnMarshalling P) acl_accesser acl_accesser_update,
       nested (Accessee_UnMarshalling P) acl_accessee acl_accessee_update]"

definition TrustDeviceProfile_Marshalling :: "'p Parcel \<Rightarrow> TrustDeviceProfile \<Rightarrow> 'p writer" where
  "TrustDeviceProfile_Marshalling P x = write_all
     ([WString P (tp_deviceId x), WInt P Uint32 (tp_deviceIdType x),
       WString P (tp_deviceIdHash x), WInt P Int32 (tp_status x),
       WInt P Uint32 (tp_bindType x), WInt P Int32 (tp_peerUserId x),
       WInt P Int32 (tp_localUserId x), WString P (tp_peerAccountId x),
       WString P (tp_localAccountId x), WInt P Uint32 (u32 (length (tp_serviceIdList x)))] @
     map (WInt P Int64) (tp_serviceIdList x))"

definition TrustDeviceProfile_UnMarshalling :: "'p Parcel \<Rightarrow> ('p, TrustDeviceProfile) reader" where
  "TrustDeviceProfile_UnMarshalling P = read_all
     [StringTo P tp_deviceId_update, IntTo P Uint32 tp_deviceIdType_update,
       StringTo P tp_deviceIdHash_update, IntTo P Int32 tp_status_update,
       IntTo P Uint32 tp_bindType_update, IntTo P Int32 tp_peerUserId_update,
       IntTo P Int32 tp_localUserId_update, StringTo P tp_peerAccountId_update,
       StringTo P tp_localAccountId_update,
       read_sized P Uint32 MAX_SERVICE_SIZE (ReadInt P Int64) 0 tp_serviceIdList tp_serviceIdList_update]"

definition DeviceProfile_Marshalling :: "'p Parcel \<Rightarrow> DeviceProfile \<Rightarrow> 'p writer" where
  "DeviceProfile_Marshalling P x = write_all
     [WString P (dp_deviceId x), WString P (dp_deviceName x),
       WString P (dp_manufactureName x), WString P (dp_deviceModel x),
       WInt P Int64 (dp_storageCapability x), WString P (dp_osSysCap x),
       WInt P Int32 (dp_osApiLevel x), WString P (dp_osVersion x),
       WInt P Int32 (dp_osType x), WBool P (dp_isMultiUser x), WInt P Int32 (dp_userId x),
       WString P (dp_devType x), WString P (dp_manu x), WString P (dp_sn x),
       WString P (dp_productId x), WString P (dp_productName x),
       WString P (dp_subProductId x), WString P (dp_hiv x), WString P (dp_mac x),
       WString P (dp_fwv x), WString P (dp_hwv x), WString P (dp_swv x),
       WInt P Int32 (dp_protType x), WString P (dp_wiseUserId x),
       WString P (dp_wiseDeviceId x), WString P (dp_registerTime x),
       WString P (dp_modifyTime x), WString P (dp_shareTime x), WString P (dp_accountId x),
       WString P (dp_internalModel x), WString P (dp_bleMac x), WString P (dp_brMac x),
       WString P (dp_sleMac x), WInt P Int32 (dp_setupType x)]"

definition DeviceProfile_UnMarshalling :: "'p Parcel \<Rightarrow> ('p, DeviceProfile) reader" where
  "DeviceProfile_UnMarshalling P = read_all
     [StringTo P dp_deviceId_update, StringTo P dp_deviceName_update,
       StringTo P dp_manufactureName_update, StringTo P dp_deviceModel_update,
       IntTo P Int64 dp_storageCapability_update, StringTo P dp_osSysCap_update,
       IntTo P Int32 dp_osApiLevel_update, StringTo P dp_osVersion_update,
       IntTo P Int32 dp_osType_update, BoolTo P dp_isMultiUser_update,
       IntTo P Int32 dp_userId_update, StringTo P dp_devType_update,
       StringTo P dp_manu_update, StringTo P dp_sn_update, StringTo P dp_productId_update,
       StringTo P dp_productName_update, StringTo P dp_subProductId_update,
       StringTo P dp_hiv_update, StringTo P dp_mac_update, StringTo P dp_fwv_update,
       StringTo P dp_hwv_update, StringTo P dp_swv_update, IntTo P Int32 dp_protType_update,
       StringTo P dp_wiseUserId_update, StringTo P dp_wiseDeviceId_update,
       StringTo P dp_registerTime_update, StringTo P dp_modifyTime_update,
       StringTo P dp_shareTime_update, StringTo P dp_accountId_update,
       StringTo P dp_internalModel_update, StringTo P dp_bleMac_update,
       StringTo P dp_brMac_update, StringTo P dp_sleMac_update,
       IntTo P Int32 dp_setupType_update]"

definition ServiceProfile_Marshalling :: "'p Parcel \<Rightarrow> ServiceProfile \<Rightarrow> 'p writer" where
  "ServiceProfile_Marshalling P x = write_all
     [WString P (sp_deviceId x), WString P (sp_serviceName x), WString P (sp_serviceType x),
       WBool P (sp_isMultiUser x), WInt P Int32 (sp_userId x)]"

definition ServiceProfile_UnMarshalling :: "'p Parcel \<Rightarrow> ('p, ServiceProfile) reader" where
  "ServiceProfile_UnMarshalling P = read_all
     [StringTo P sp_deviceId_update, StringTo P sp_serviceName_update,
       StringTo P sp_serviceType_update, BoolTo P sp_isMultiUser_update,
       IntTo P Int32 sp_userId_update]"

definition CharacteristicProfile_Marshalling :: "'p Parcel \<Rightarrow> CharacteristicProfile \<Rightarrow> 'p writer" where
  "CharacteristicProfile_Marshalling P x = write_all
     [WString P (cp_deviceId x), WString P (cp_serviceName x),
       WString P (cp_characteristicKey x), WString P (cp_characteristicValue x),
       WBool P (cp_isMultiUser x), WInt P Int32 (cp_userId x)]"

definition CharacteristicProfile_UnMarshalling :: "'p Parcel \<Rightarrow> ('p, CharacteristicProfile) reader" where
  "CharacteristicProfile_UnMarshalling P = read_all
     [StringTo P cp_deviceId_update, StringTo P cp_serviceName_update,
       StringTo P cp_characteristicKey_update, StringTo P cp_characteristicValue_update,
       BoolTo P cp_isMultiUser_update, IntTo P Int32 cp_userId_update]"

definition QueryProfile_Marshalling :: "'p Parcel \<Rightarrow> QueryProfile \<Rightarrow> 'p writer" where
  "QueryProfile_Marshalling P x = write_all
     [WString P (qp_accesserDeviceId x), WInt P Int32 (qp_accesserUserId x),
       WString P (qp_accesserAccountId x), WInt P Int64 (qp_accesserTokenId x),
       WString P (qp_accesseeDeviceId x), WInt P Int32 (qp_accesseeUserId x),
       WString P (qp_accesseeAccountId x), WInt P Int64 (qp_accesseeTokenId x)]"

definition QueryProfile_UnMarshalling :: "'p Parcel \<Rightarrow> ('p, QueryProfile) reader" where
  "QueryProfile_UnMarshalling P = read_all
     [StringTo P qp_accesserDeviceId_update, IntTo P Int32 qp_accesserUserId_update,
       StringTo P qp_accesserAccountId_update, IntTo P Int64 qp_accesserTokenId_update,
       StringTo P qp_accesseeDeviceId_update, IntTo P Int32 qp_accesseeUserId_update,
       StringTo P qp_accesseeAccountId_update, IntTo P Int64 qp_accesseeTokenId_update]"

definition DeviceIconInfo_Marshalling :: "'p Parcel \<Rightarrow> DeviceIconInfo \<Rightarrow> 'p writer" where
  "DeviceIconInfo_Marshalling P x = write_all
     [WString P (di_productId x), WString P (di_internalModel x),
       WString P (di_subProductId x), WString P (di_imageType x), WString P (di_specName x),
       WString P (di_version x), WString P (di_wiseVersion x), WString P (di_url x),
       WInt P Int64 (di_modifyTime x), ignoring (Marshalling_bytes P (di_icon x))]"

definition DeviceIconInfo_UnMarshalling :: "'p Parcel \<Rightarrow> ('p, DeviceIconInfo) reader" where
  "DeviceIconInfo_UnMarshalling P = read_all
     [StringTo P di_productId_update, StringTo P di_internalModel_update,
       StringTo P di_subProductId_update, StringTo P di_imageType_update,
       StringTo P di_specName_update, StringTo P di_version_update,
       StringTo P di_wiseVersion_update, StringTo P di_url_update,
       IntTo P Int64 di_modifyTime_update,
       nested (UnMarshalling_bytes P) di_icon di_icon_update]"

definition DeviceIconInfoFilterOptions_Marshalling :: "'p Parcel \<Rightarrow> DeviceIconInfoFilterOptions \<Rightarrow> 'p writer" where
  "DeviceIconInfoFilterOptions_Marshalling P x = write_all
     [ignoring (Marshalling_strings P (dio_productIds x)), WString P (dio_internalModel x),
       WString P (dio_subProductId x), WString P (dio_imageType x),
       WString P (dio_specName x)]"

definition DeviceIconInfoFilterOptions_UnMarshalling :: "'p Parcel \<Rightarrow> ('p, DeviceIconInfoFilterOptions) reader" where
  "DeviceIconInfoFilterOptions_UnMarshalling P = read_all
     [nested (UnMarshalling_strings P) dio_productIds dio_productIds_update,
       StringTo P dio_internalModel_update, StringTo P dio_subProductId_update,
       StringTo P dio_imageType_update, StringTo P dio_specName_update]"

definition DeviceProfileFilterOptions_Marshalling :: "'p Parcel \<Rightarrow> DeviceProfileFilterOptions \<Rightarrow> 'p writer" where
  "DeviceProfileFilterOptions_Marshalling P x = write_all
     [WInt P Int32 (dpo_userId x), WString P (dpo_accountId x),
       ignoring (Marshalling_strings P (dpo_deviceIds x)),
       ignoring (Marshalling_strings P (dpo_wiseDeviceIds x)),
       ignoring (Marshalling_ints P (dpo_deviceProfileIds x))]"

definition DeviceProfileFilterOptions_UnMarshalling :: "'p Parcel \<Rightarrow> ('p, DeviceProfileFilterOptions) reader" where
  "DeviceProfileFilterOptions_UnMarshalling P = read_all
     [IntTo P Int32 dpo_userId_update, StringTo P dpo_accountId_update,
       nested (UnMarshalling_strings P) dpo_deviceIds dpo_deviceIds_update,
       nested (UnMarshalling_strings P) dpo_wiseDeviceIds dpo_wiseDeviceIds_update,
       nested (UnMarshalling_ints P) dpo_deviceProfileIds dpo_deviceProfileIds_update]"

definition LocalServiceInfo_Marshalling :: "'p Parcel \<Rightarrow> LocalServiceInfo \<Rightarrow> 'p writer" where
  "LocalServiceInfo_Marshalling P x = write_all
     [WString P (ls_bundleName x), WInt P Int32 (ls_authBoxType x),
       WInt P Int32 (ls_authType x), WInt P Int32 (ls_pinExchangeType x),
       WString P (ls_pinCode x), WString P (ls_description x), WString P (ls_extraInfo x)]"

definition LocalServiceInfo_UnMarshalling :: "'p Parcel \<Rightarrow> ('p, LocalServiceInfo) reader" where
  "LocalServiceInfo_UnMarshalling P = read_all
     [StringTo P ls_bundleName_update, IntTo P Int32 ls_authBoxType_update,
       IntTo P Int32 ls_authType_update, IntTo P Int32 ls_pinExchangeType_update,
       StringTo P ls_pinCode_update, StringTo P ls_description_update,
       StringTo P ls_extraInfo_update]"

definition ProductInfo_Marshalling :: "'p Parcel \<Rightarrow> ProductInfo \<Rightarrow> 'p writer" where
  "ProductInfo_Marshalling P x = write_all
     [WString P (pi_productId x), WString P (pi_model x), WString P (pi_productName x),
       WString P (pi_productShortName x), WString P (pi_imageVersion x)]"

definition ProductInfo_UnMarshalling :: "'p Parcel \<Rightarrow> ('p, ProductInfo) reader" where
  "ProductInfo_UnMarshalling P = read_all
     [StringTo P pi_productId_update, StringTo P pi_model_update,
       StringTo P pi_productName_update, StringTo P pi_productShortName_update,
       StringTo P pi_imageVersion_update]"

definition ServiceInfo_Marshalling :: "'p Parcel \<Rightarrow> ServiceInfo \<Rightarrow> 'p writer" where
  "ServiceInfo_Marshalling P x = write_all
     [WString P (svi_udid x), WInt P Int32 (svi_userId x), WInt P Int64 (svi_displayId x),
       WInt P Int32 (svi_serviceOwnerTokenId x), WString P (svi_serviceOwnerPkgName x),
       WInt P Int32 (svi_serviceRegisterTokenId x), WInt P Int64 (svi_serviceId x),
       WInt P Int64 (svi_timeStamp x), WInt P Int8 (svi_publishState x),
       WString P (svi_serviceType x), WString P (svi_serviceName x),
       WString P (svi_serviceDisplayName x), WString P (svi_customData x),
       WString P (svi_serviceCode x), WInt P Uint32 (svi_dataLen x),
       WString P (svi_extraData x), WString P (svi_version x), WString P (svi_description x)]"

definition ServiceInfo_UnMarshalling :: "'p Parcel \<Rightarrow> ('p, ServiceInfo) reader" where
  "ServiceInfo_UnMarshalling P = read_all
     [StringTo P svi_udid_update, IntTo P Int32 svi_userId_update,
       IntTo P Int64 svi_displayId_update, IntTo P Int32 svi_serviceOwnerTokenId_update,
       StringTo P svi_serviceOwnerPkgName_update,
       IntTo P Int32 svi_serviceRegisterTokenId_update, IntTo P Int64 svi_serviceId_update,
       IntTo P Int64 svi_timeStamp_update, IntTo P Int8 svi_publishState_update,
       StringTo P svi_serviceType_update, StringTo P svi_serviceName_update,
       StringTo P svi_serviceDisplayName_update, StringTo P svi_customData_update,
       StringTo P svi_serviceCode_update, IntTo P Uint32 svi_dataLen_update,
       StringTo P svi_extraData_update, StringTo P svi_version_update,
       StringTo P svi_description_update]"

definition ServiceInfoUniqueKey_Marshalling :: "'p Parcel \<Rightarrow> ServiceInfoUniqueKey \<Rightarrow> 'p writer" where
  "ServiceInfoUniqueKey_Marshalling P x = write_all
     [WString P (sk_deviceId x), WInt P Int32 (sk_userId x), WString P (sk_tokenId x),
       WInt P Int64 (sk_serviceId x), WString P (sk_bundleName x)]"

definition ServiceInfoUniqueKey_UnMarshalling :: "'p Parcel \<Rightarrow> ('p, ServiceInfoUniqueKey) reader" where
  "ServiceInfoUniqueKey_UnMarshalling P = read_all
     [StringTo P sk_deviceId_update, IntTo P Int32 sk_userId_update,
       StringTo P sk_tokenId_update, IntTo P Int64 sk_serviceId_update,
       StringTo P sk_bundleName_update]"

definition UserInfo_Marshalling :: "'p Parcel \<Rightarrow> UserInfo \<Rightarrow> 'p writer" where
  "UserInfo_Marshalling P x = write_all
     [WString P (ui_udid x), WInt P Int32 (ui_userId x), WInt P Int64 (ui_serviceId x)]"

definition UserInfo_UnMarshalling :: "'p Parcel \<Rightarrow> ('p, UserInfo) reader" where
  "UserInfo_UnMarshalling P = read_all
     [StringTo P ui_udid_update, IntTo P Int32 ui_userId_update,
       IntTo P Int64 ui_serviceId_update]"

definition BusinessEvent_Marshalling :: "'p Parcel \<Rightarrow> BusinessEvent \<Rightarrow> 'p writer" where
  "BusinessEvent_Marshalling P x = write_all [WString P (be_businessKey x), WString P (be_businessValue x)]"

definition BusinessEvent_UnMarshalling :: "'p Parcel \<Rightarrow> ('p, BusinessEvent) reader" where
  "BusinessEvent_UnMarshalling P x p =
     (let (key, p) = ReadString_value P p; (val, p) = ReadString_value P p
      in ((True, x\<lparr>be_businessKey := key, be_businessValue := val\<rparr>), p))"

definition TrustedDeviceInfo_Marshalling :: "'p Parcel \<Rightarrow> TrustedDeviceInfo \<Rightarrow> 'p writer" where
  "TrustedDeviceInfo_Marshalling P x = write_all
     [WString P (td_networkId x), WInt P Int32 (td_authForm x), WInt P Uint16 (uint (td_deviceTypeId x)),
      WString P (td_osVersion x), WInt P Int32 (td_osType x), WString P (td_udid x), WString P (td_uuid x)]"

definition TrustedDeviceInfo_UnMarshalling :: "'p Parcel \<Rightarrow> ('p, TrustedDeviceInfo) reader" where
  "TrustedDeviceInfo_UnMarshalling P = read_all
     [StringTo P (\<lambda>f x. case x of TrustedDeviceInfo n a t v y u i \<Rightarrow> TrustedDeviceInfo (f n) a t v y u i),
      IntTo P Int32 (\<lambda>f x. case x of TrustedDeviceInfo n a t v y u i \<Rightarrow> TrustedDeviceInfo n (f a) t v y u i),
      IntTo P Uint16 (\<lambda>f x. case x of TrustedDeviceInfo n a t v y u i \<Rightarrow>
        TrustedDeviceInfo n a (word_of_int (f (uint t))) v y u i),
      StringTo P (\<lambda>f x. case x of TrustedDeviceInfo n a t v y u i \<Rightarrow> TrustedDeviceInfo n a t (f v) y u i),
      IntTo P Int32 (\<lambda>f x. case x of TrustedDeviceInfo n a t v y u i \<Rightarrow> TrustedDeviceInfo n a t v (f y) u i),
      StringTo P (\<lambda>f x. case x of TrustedDeviceInfo n a t v y u i \<Rightarrow> TrustedDeviceInfo n a t v y (f u) i),
      StringTo P (\<lambda>f x. case x of TrustedDeviceInfo n a t v y u i \<Rightarrow> TrustedDeviceInfo n a t v y u (f i))]"

definition DpSyncOptions_Marshalling :: "'p Parcel \<Rightarrow> DpSyncOptions \<Rightarrow> 'p writer" where
  "DpSyncOptions_Marshalling P x = write_all
     ([WInt P Int32 (to_i32 (so_syncMode x)), WInt P Int32 (to_i32 (int (length (so_syncDeviceIds x))))] @
      map (WString P) (so_syncDeviceIds x))"

definition DpSyncOptions_UnMarshalling :: "'p Parcel \<Rightarrow> ('p, DpSyncOptions) reader" where
  "DpSyncOptions_UnMarshalling P = read_all
     [IntTo P Int32 so_syncMode_update,
      read_sized P Int32 MAX_DEVICE_SIZE (ReadString P) [] so_syncDeviceIds so_syncDeviceIds_update]"

section \<open>Subscriptions\<close>

definition CHANGE_TYPES :: "ProfileChangeType list" where
  "CHANGE_TYPES =
     [PROFILE_CHANGE_TYPE_MIN, TRUST_DEVICE_PROFILE_ADD, TRUST_DEVICE_PROFILE_UPDATE,
      TRUST_DEVICE_PROFILE_DELETE, DEVICE_PROFILE_ADD, DEVICE_PROFILE_UPDATE, DEVICE_PROFILE_DELETE,
      SERVICE_PROFILE_ADD, SERVICE_PROFILE_UPDATE, SERVICE_PROFILE_DELETE, CHAR_PROFILE_ADD,
      CHAR_PROFILE_UPDATE, CHAR_PROFILE_DELETE, TRUST_DEVICE_PROFILE_ACTIVE,
      TRUST_DEVICE_PROFILE_INACTIVE, DEVICE_ACL_INACTIVE_BY_DELETE, DEVICE_ACL_INACTIVE_BY_UPDATE,
      ACCOUNT_ACL_DELETE, ACCOUNT_ACL_INACTIVE, ACCOUNT_ACL_ADD, ACCOUNT_ACL_ACTIVE,
      PROFILE_CHANGE_TYPE_MAX]"

definition change_number :: "ProfileChangeType \<Rightarrow> int" where
  "change_number t = int (length (takeWhile (\<lambda>u. u \<noteq> t) CHANGE_TYPES))"

definition Marshalling_changeTypes :: "'p Parcel \<Rightarrow> ProfileChangeType list \<Rightarrow> 'p writer" where
  "Marshalling_changeTypes P = write_vec P True MAX_SUBSCRIBE_CHANGE_SIZE (\<lambda>t. WInt P Int32 (change_number t))"

fun read_types :: "'p Parcel \<Rightarrow> nat \<Rightarrow> ('p, ProfileChangeType list) reader" where
  "read_types P 0 ts p = ((True, ts), p)"
| "read_types P (Suc n) ts p =
     (let (num, p) = ReadInt_value P Uint32 p in
      if num \<le> 0 \<or> num \<ge> 21 then ((False, ts), p)
      else read_types P n (ts @ (let t = CHANGE_TYPES ! nat num in if t \<in> set ts then [] else [t])) p)"

definition UnMarshalling_changeTypes :: "'p Parcel \<Rightarrow> ('p, ProfileChangeType list) reader" where
  "UnMarshalling_changeTypes P ts p =
     (let (cnt, p) = ReadInt_value P Uint32 p in
      if cnt = 0 \<or> cnt > int MAX_SUBSCRIBE_CHANGE_SIZE then ((False, ts), p)
      else read_types P (nat cnt) ts p)"

definition SubscribeInfo_Marshalling :: "'p Parcel \<Rightarrow> SubscribeInfo \<Rightarrow> 'p writer" where
  "SubscribeInfo_Marshalling P x = write_all
     [WInt P Int32 (si_saId x), WString P (si_subscribeKey x),
      ignoring (Marshalling_changeTypes P (si_subscribeChangeTypes x)), WRemote P (si_listener x)]"

definition SubscribeInfo_UnMarshalling :: "'p Parcel \<Rightarrow> ('p, SubscribeInfo) reader" where
  "SubscribeInfo_UnMarshalling P = read_all
     [IntTo P Int32 si_saId_update, StringTo P si_subscribeKey_update,
      nested (UnMarshalling_changeTypes P) si_subscribeChangeTypes si_subscribeChangeTypes_update,
      (\<lambda>x p. let (l, p) = ReadRemote P p in ((l \<noteq> None, x\<lparr>si_listener := l\<rparr>), p))]"

section \<open>Vectors and maps of objects\<close>

definition Marshalling_trustDevices :: "'p Parcel \<Rightarrow> TrustDeviceProfile list \<Rightarrow> 'p writer" where
  "Marshalling_trustDevices P = write_vec P True MAX_PROFILE_SIZE (TrustDeviceProfile_Marshalling P)"

definition UnMarshalling_trustDevices :: "'p Parcel \<Rightarrow> ('p, TrustDeviceProfile list) reader" where
  "UnMarshalling_trustDevices P = read_vec P True MAX_PROFILE_SIZE (TrustDeviceProfile_UnMarshalling P) TrustDeviceProfile_default"

definition Marshalling_acls :: "'p Parcel \<Rightarrow> AccessControlProfile list \<Rightarrow> 'p writer" where
  "Marshalling_acls P = write_vec P False MAX_PROFILE_SIZE (AccessControlProfile_Marshalling P)"

definition UnMarshalling_acls :: "'p Parcel \<Rightarrow> ('p, AccessControlProfile list) reader" where
  "UnMarshalling_acls P = read_vec P True MAX_PROFILE_SIZE (AccessControlProfile_UnMarshalling P) AccessControlProfile_default"

definition Marshalling_devices :: "'p Parcel \<Rightarrow> DeviceProfile list \<Rightarrow> 'p writer" where
  "Marshalling_devices P = write_vec P True MAX_PROFILE_SIZE (DeviceProfile_Marshalling P)"

definition UnMarshalling_devices :: "'p Parcel \<Rightarrow> ('p, DeviceProfile list) reader" where
  "UnMarshalling_devices P = read_vec P True MAX_PROFILE_SIZE (DeviceProfile_UnMarshalling P) DeviceProfile_default"

definition Marshalling_products :: "'p Parcel \<Rightarrow> ProductInfo list \<Rightarrow> 'p writer" where
  "Marshalling_products P = write_vec P True MAX_PROFILE_SIZE (ProductInfo_Marshalling P)"

definition UnMarshalling_products :: "'p Parcel \<Rightarrow> ('p, ProductInfo list) reader" where
  "UnMarshalling_products P = read_vec P True MAX_PROFILE_SIZE (ProductInfo_UnMarshalling P) ProductInfo_default"

definition Marshalling_services :: "'p Parcel \<Rightarrow> ServiceProfile list \<Rightarrow> 'p writer" where
  "Marshalling_services P = write_vec P True MAX_PROFILE_SIZE (ServiceProfile_Marshalling P)"

definition UnMarshalling_services :: "'p Parcel \<Rightarrow> ('p, ServiceProfile list) reader" where
  "UnMarshalling_services P = read_vec P True MAX_PROFILE_SIZE (ServiceProfile_UnMarshalling P) ServiceProfile_default"

definition Marshalling_chars :: "'p Parcel \<Rightarrow> CharacteristicProfile list \<Rightarrow> 'p writer" where
  "Marshalling_chars P = write_vec P True MAX_PROFILE_SIZE (\<lambda>x. ignoring (CharacteristicProfile_Marshalling P x))"

definition UnMarshalling_chars :: "'p Parcel \<Rightarrow> ('p, CharacteristicProfile list) reader" where
  "UnMarshalling_chars P = read_vec P True MAX_PROFILE_SIZE (CharacteristicProfile_UnMarshalling P) CharacteristicProfile_default"

definition Marshalling_trusted :: "'p Parcel \<Rightarrow> TrustedDeviceInfo list \<Rightarrow> 'p writer" where
  "Marshalling_trusted P = write_vec P True MAX_PROFILE_SIZE (\<lambda>x. ignoring (TrustedDeviceInfo_Marshalling P x))"

definition UnMarshalling_trusted :: "'p Parcel \<Rightarrow> ('p, TrustedDeviceInfo list) reader" where
  "UnMarshalling_trusted P = read_vec P True MAX_PROFILE_SIZE (TrustedDeviceInfo_UnMarshalling P) TrustedDeviceInfo_default"

definition Marshalling_icons :: "'p Parcel \<Rightarrow> DeviceIconInfo list \<Rightarrow> 'p writer" where
  "Marshalling_icons P = write_vec P False MAX_PROFILE_SIZE (\<lambda>x. ignoring (DeviceIconInfo_Marshalling P x))"

definition UnMarshalling_icons :: "'p Parcel \<Rightarrow> ('p, DeviceIconInfo list) reader" where
  "UnMarshalling_icons P = read_vec P True MAX_PROFILE_SIZE (DeviceIconInfo_UnMarshalling P) DeviceIconInfo_default"

definition Marshalling_serviceInfos :: "'p Parcel \<Rightarrow> ServiceInfo list \<Rightarrow> 'p writer" where
  "Marshalling_serviceInfos P xs p =
     (if u32 (length xs) > int MAX_PROFILE_SIZE then (False, p)
      else let (ok, p) = WInt P Uint32 (u32 (length xs)) p in
           if \<not> ok then (False, p) else write_all (map (ServiceInfo_Marshalling P) xs) p)"

definition UnMarshalling_serviceInfos :: "'p Parcel \<Rightarrow> ('p, ServiceInfo list) reader" where
  "UnMarshalling_serviceInfos P = read_vec P False MAX_PROFILE_SIZE (ServiceInfo_UnMarshalling P) ServiceInfo_default"

definition Marshalling_params :: "'p Parcel \<Rightarrow> (string, string) omap \<Rightarrow> 'p writer" where
  "Marshalling_params P = write_vec P True MAX_PARAM_SIZE (\<lambda>(k, v). WString P (k @ SEPARATOR @ v))"

definition put_param :: "string \<Rightarrow> (string, string) omap \<Rightarrow> (string, string) omap" where
  "put_param item m = (case str_find SEPARATOR item of
       None \<Rightarrow> m
     | Some i \<Rightarrow> omap_put (take i item) (drop (i + 1) item) m)"

fun read_params :: "'p Parcel \<Rightarrow> nat \<Rightarrow> ('p, (string, string) omap) reader" where
  "read_params P 0 m p = ((True, m), p)"
| "read_params P (Suc n) m p =
     (case ReadString P p of
        (None, p) \<Rightarrow> ((False, m), p)
      | (Some item, p) \<Rightarrow> read_params P n (put_param item m) p)"

definition UnMarshalling_params :: "'p Parcel \<Rightarrow> ('p, (string, string) omap) reader" where
  "UnMarshalling_params P m p =
     (let (cnt, p) = ReadInt_value P Uint32 p in
      if cnt = 0 \<or> cnt > int MAX_PARAM_SIZE then ((False, m), p)
      else read_params P (nat cnt) m p)"

definition Marshalling_listeners :: "'p Parcel \<Rightarrow> (string, SubscribeInfo) omap \<Rightarrow> 'p writer" where
  "Marshalling_listeners P = write_vec P True MAX_LISTENER_SIZE (\<lambda>(_, si). SubscribeInfo_Marshalling P si)"

fun read_listeners :: "'p Parcel \<Rightarrow> nat \<Rightarrow> ('p, (string, SubscribeInfo) omap) reader" where
  "read_listeners P 0 m p = ((True, m), p)"
| "read_listeners P (Suc n) m p =
     (let ((ok, si), p) = SubscribeInfo_UnMarshalling P SubscribeInfo_default p in
      if \<not> ok then ((False, m), p)
      else read_listeners P n
             (omap_put (si_subscribeKey si @ SEPARATOR @ to_string (si_saId si)) si m) p)"

definition UnMarshalling_listeners :: "'p Parcel \<Rightarrow> ('p, (string, SubscribeInfo) omap) reader" where
  "UnMarshalling_listeners P m p =
     (let (cnt, p) = ReadInt_value P Uint32 p in
      if cnt = 0 \<or> cnt > int MAX_LISTENER_SIZE then ((False, m), p)
      else read_listeners P (nat cnt) m p)"

end
