(* ===== verification/MarshallingLaws.thy ===== *)
theory MarshallingLaws
  imports Marshalling
begin

text \<open>
  Every class that crosses the processes is a codec: what one side writes the other reads back, over
  any parcel that keeps its laws. The contract \<open>codec\<close> is shown for each class, and lifted to the
  vectors of its objects once, inside the contract.
\<close>

section \<open>Sequences\<close>

lemma reads_Nil_eq: "x = y \<Longrightarrow> reads view (read_all []) [] x y"
  by (simp add: reads_def)

lemma reads_one: "reads view r xs x y \<Longrightarrow> reads view (read_all [r]) xs x y"
  using reads_Cons [OF _ reads_Nil] by fastforce

context roomy_parcel
begin

lemma writes_more: "\<not> is_raw y \<Longrightarrow> writes view (write_all ws) ys \<Longrightarrow> writes view (write_all (pa_write P y # ws)) (y # ys)"
  using writes_Cons [OF writes_item] by fastforce

lemma reads_more_int:
  "reads view (read_all rs) ys (upd (\<lambda>_. i) x) z \<Longrightarrow> reads view (read_all (IntTo P k upd # rs)) (PInt k i # ys) x z"
  using reads_Cons [OF reads_items(1)] by fastforce

lemma reads_more_string:
  "reads view (read_all rs) ys (upd (\<lambda>_. s) x) z \<Longrightarrow> reads view (read_all (StringTo P upd # rs)) (PString s # ys) x z"
  using reads_Cons [OF reads_items(2)] by fastforce

lemma reads_more_bool:
  "reads view (read_all rs) ys (upd (\<lambda>_. b) x) z \<Longrightarrow> reads view (read_all (BoolTo P upd # rs)) (PBool b # ys) x z"
  using reads_Cons [OF reads_items(3)] by fastforce

lemma reads_more_nested:
  "reads view r xs (get x) y \<Longrightarrow> reads view (read_all rs) ys (upd (\<lambda>_. y) x) z \<Longrightarrow>
   reads view (read_all (nested r get upd # rs)) (xs @ ys) x z"
  by (rule reads_Cons [OF reads_nested])

lemmas writes_steps = writes_more writes_Nil
lemmas reads_steps = reads_more_int reads_more_string reads_more_bool reads_Nil_eq

end

text \<open>What a class writes, as a list.\<close>

abbreviation items :: "(pitem list Parcel \<Rightarrow> 'x \<Rightarrow> pitem list writer) \<Rightarrow> 'x \<Rightarrow> pitem list" where
  "items m x \<equiv> snd (m list_parcel x [])"

lemma list_write [simp]: "pa_write list_parcel x = (\<lambda>p. (True, p @ [x]))"
  by (simp add: list_parcel_def)

sublocale roomy_parcel \<subseteq> accesser: codec P view "Accesser_Marshalling P" "Accesser_UnMarshalling P"
  Accesser_default "items Accesser_Marshalling" "\<lambda>_. True"
proof
  fix x :: Accesser
  show "writes view (Accesser_Marshalling P x) (items Accesser_Marshalling x)"
    by (simp add: Accesser_Marshalling_def) (intro writes_steps; simp)
  show "reads view (Accesser_UnMarshalling P) (items Accesser_Marshalling x) Accesser_default x"
    by (simp add: Accesser_Marshalling_def Accesser_UnMarshalling_def) (intro reads_steps; simp add: Accesser_default_def)
qed

sublocale roomy_parcel \<subseteq> accessee: codec P view "Accessee_Marshalling P" "Accessee_UnMarshalling P"
  Accessee_default "items Accessee_Marshalling" "\<lambda>_. True"
proof
  fix x :: Accessee
  show "writes view (Accessee_Marshalling P x) (items Accessee_Marshalling x)"
    by (simp add: Accessee_Marshalling_def) (intro writes_steps; simp)
  show "reads view (Accessee_UnMarshalling P) (items Accessee_Marshalling x) Accessee_default x"
    by (simp add: Accessee_Marshalling_def Accessee_UnMarshalling_def) (intro reads_steps; simp add: Accessee_default_def)
qed

text \<open>The number of a device profile is not written: it does not cross the processes.\<close>

sublocale roomy_parcel \<subseteq> device: codec P view "DeviceProfile_Marshalling P" "DeviceProfile_UnMarshalling P"
  DeviceProfile_default "items DeviceProfile_Marshalling" "\<lambda>x. dp_id x = 0"
proof
  fix x :: DeviceProfile
  assume id: "dp_id x = 0"
  show "writes view (DeviceProfile_Marshalling P x) (items DeviceProfile_Marshalling x)"
    by (simp add: DeviceProfile_Marshalling_def) (intro writes_steps; simp)
  show "reads view (DeviceProfile_UnMarshalling P) (items DeviceProfile_Marshalling x) DeviceProfile_default x"
    by (simp add: DeviceProfile_Marshalling_def DeviceProfile_UnMarshalling_def) (intro reads_steps; simp add: DeviceProfile_default_def id)
qed

sublocale roomy_parcel \<subseteq> service: codec P view "ServiceProfile_Marshalling P" "ServiceProfile_UnMarshalling P"
  ServiceProfile_default "items ServiceProfile_Marshalling" "\<lambda>_. True"
proof
  fix x :: ServiceProfile
  show "writes view (ServiceProfile_Marshalling P x) (items ServiceProfile_Marshalling x)"
    by (simp add: ServiceProfile_Marshalling_def) (intro writes_steps; simp)
  show "reads view (ServiceProfile_UnMarshalling P) (items ServiceProfile_Marshalling x) ServiceProfile_default x"
    by (simp add: ServiceProfile_Marshalling_def ServiceProfile_UnMarshalling_def) (intro reads_steps; simp add: ServiceProfile_default_def)
qed

sublocale roomy_parcel \<subseteq> char: codec P view "CharacteristicProfile_Marshalling P" "CharacteristicProfile_UnMarshalling P"
  CharacteristicProfile_default "items CharacteristicProfile_Marshalling" "\<lambda>_. True"
proof
  fix x :: CharacteristicProfile
  show "writes view (CharacteristicProfile_Marshalling P x) (items CharacteristicProfile_Marshalling x)"
    by (simp add: CharacteristicProfile_Marshalling_def) (intro writes_steps; simp)
  show "reads view (CharacteristicProfile_UnMarshalling P) (items CharacteristicProfile_Marshalling x) CharacteristicProfile_default x"
    by (simp add: CharacteristicProfile_Marshalling_def CharacteristicProfile_UnMarshalling_def) (intro reads_steps; simp add: CharacteristicProfile_default_def CharacteristicProfile_make_def)
qed

sublocale roomy_parcel \<subseteq> query: codec P view "QueryProfile_Marshalling P" "QueryProfile_UnMarshalling P"
  QueryProfile_default "items QueryProfile_Marshalling" "\<lambda>_. True"
proof
  fix x :: QueryProfile
  show "writes view (QueryProfile_Marshalling P x) (items QueryProfile_Marshalling x)"
    by (simp add: QueryProfile_Marshalling_def) (intro writes_steps; simp)
  show "reads view (QueryProfile_UnMarshalling P) (items QueryProfile_Marshalling x) QueryProfile_default x"
    by (simp add: QueryProfile_Marshalling_def QueryProfile_UnMarshalling_def) (intro reads_steps; simp add: QueryProfile_default_def)
qed

sublocale roomy_parcel \<subseteq> local_service: codec P view "LocalServiceInfo_Marshalling P" "LocalServiceInfo_UnMarshalling P"
  LocalServiceInfo_default "items LocalServiceInfo_Marshalling" "\<lambda>_. True"
proof
  fix x :: LocalServiceInfo
  show "writes view (LocalServiceInfo_Marshalling P x) (items LocalServiceInfo_Marshalling x)"
    by (simp add: LocalServiceInfo_Marshalling_def) (intro writes_steps; simp)
  show "reads view (LocalServiceInfo_UnMarshalling P) (items LocalServiceInfo_Marshalling x) LocalServiceInfo_default x"
    by (simp add: LocalServiceInfo_Marshalling_def LocalServiceInfo_UnMarshalling_def) (intro reads_steps; simp add: LocalServiceInfo_default_def)
qed

sublocale roomy_parcel \<subseteq> product: codec P view "ProductInfo_Marshalling P" "ProductInfo_UnMarshalling P"
  ProductInfo_default "items ProductInfo_Marshalling" "\<lambda>_. True"
proof
  fix x :: ProductInfo
  show "writes view (ProductInfo_Marshalling P x) (items ProductInfo_Marshalling x)"
    by (simp add: ProductInfo_Marshalling_def) (intro writes_steps; simp)
  show "reads view (ProductInfo_UnMarshalling P) (items ProductInfo_Marshalling x) ProductInfo_default x"
    by (simp add: ProductInfo_Marshalling_def ProductInfo_UnMarshalling_def) (intro reads_steps; simp add: ProductInfo_default_def)
qed

sublocale roomy_parcel \<subseteq> service_info: codec P view "ServiceInfo_Marshalling P" "ServiceInfo_UnMarshalling P"
  ServiceInfo_default "items ServiceInfo_Marshalling" "\<lambda>_. True"
proof
  fix x :: ServiceInfo
  show "writes view (ServiceInfo_Marshalling P x) (items ServiceInfo_Marshalling x)"
    by (simp add: ServiceInfo_Marshalling_def) (intro writes_steps; simp)
  show "reads view (ServiceInfo_UnMarshalling P) (items ServiceInfo_Marshalling x) ServiceInfo_default x"
    by (simp add: ServiceInfo_Marshalling_def ServiceInfo_UnMarshalling_def) (intro reads_steps; simp add: ServiceInfo_default_def)
qed

sublocale roomy_parcel \<subseteq> service_key: codec P view "ServiceInfoUniqueKey_Marshalling P" "ServiceInfoUniqueKey_UnMarshalling P"
  ServiceInfoUniqueKey_default "items ServiceInfoUniqueKey_Marshalling" "\<lambda>_. True"
proof
  fix x :: ServiceInfoUniqueKey
  show "writes view (ServiceInfoUniqueKey_Marshalling P x) (items ServiceInfoUniqueKey_Marshalling x)"
    by (simp add: ServiceInfoUniqueKey_Marshalling_def) (intro writes_steps; simp)
  show "reads view (ServiceInfoUniqueKey_UnMarshalling P) (items ServiceInfoUniqueKey_Marshalling x) ServiceInfoUniqueKey_default x"
    by (simp add: ServiceInfoUniqueKey_Marshalling_def ServiceInfoUniqueKey_UnMarshalling_def) (intro reads_steps; simp add: ServiceInfoUniqueKey_default_def)
qed

sublocale roomy_parcel \<subseteq> user_info: codec P view "UserInfo_Marshalling P" "UserInfo_UnMarshalling P"
  UserInfo_default "items UserInfo_Marshalling" "\<lambda>_. True"
proof
  fix x :: UserInfo
  show "writes view (UserInfo_Marshalling P x) (items UserInfo_Marshalling x)"
    by (simp add: UserInfo_Marshalling_def) (intro writes_steps; simp)
  show "reads view (UserInfo_UnMarshalling P) (items UserInfo_Marshalling x) UserInfo_default x"
    by (simp add: UserInfo_Marshalling_def UserInfo_UnMarshalling_def) (intro reads_steps; simp add: UserInfo_default_def)
qed

section \<open>Classes with vectors and objects inside\<close>

lemma concat_singletons: "concat (map (\<lambda>v. [f v]) vs) = map f vs"
  by (induction vs) simp_all

context roomy_parcel
begin

lemma reads_value_string: "reads view (read_value (ReadString P)) [PString s] x s"
  unfolding read_value_def by (rule reads_items(2))

lemma reads_value_int: "reads view (read_value (ReadInt P k)) [PInt k i] x i"
  unfolding read_value_def by (rule reads_items(1))

lemma reads_sized:
  assumes "\<And>v. reads view (read_value f) [it v] d v" "length vs \<le> limit" "n = int (length vs)"
  shows "reads view (read_sized P k limit f d get upd) (PInt k n # map it vs) x (upd (\<lambda>_. get x @ vs) x)"
  unfolding reads_def
proof (intro allI impI)
  fix p rest
  assume "view p = (PInt k n # map it vs) @ rest"
  then obtain p1 where 1: "ReadInt P k p = (Some n, p1)" "view p1 = concat (map (\<lambda>v. [it v]) vs) @ rest"
    using ReadInt_item by (fastforce simp: concat_singletons)
  have "reads view (read_loop (read_value f) d (length vs)) (concat (map (\<lambda>v. [it v]) vs)) (get x) (get x @ vs)"
    by (rule reads_loop) (simp add: assms(1))
  from this 1(2) obtain p2 where
    "read_loop (read_value f) d (length vs) (get x) p1 = ((True, get x @ vs), p2)" "view p2 = rest"
    by (rule readsD)
  with 1 assms(2,3) show "\<exists>p'. read_sized P k limit f d get upd x p = ((True, upd (\<lambda>_. get x @ vs) x), p') \<and> view p' = rest"
    by (simp add: read_sized_def)
qed

lemma writes_map_items:
  "(\<And>v. \<not> is_raw (it v)) \<Longrightarrow> writes view (write_all (map (\<lambda>v. pa_write P (it v)) vs)) (map it vs)"
  using writes_map [of vs view "\<lambda>v. pa_write P (it v)" "\<lambda>v. [it v]"] writes_item by (simp add: concat_singletons)

end

sublocale roomy_parcel \<subseteq> strings: codec P view "Marshalling_strings P" "UnMarshalling_strings P" "[]"
  "vec_items (\<lambda>s. [PString s])" "\<lambda>xs. length xs \<le> MAX_ID_SIZE"
proof
  fix xs :: "string list"
  assume "length xs \<le> MAX_ID_SIZE"
  then show "writes view (Marshalling_strings P xs) (vec_items (\<lambda>s. [PString s]) xs)"
    "reads view (UnMarshalling_strings P) (vec_items (\<lambda>s. [PString s]) xs) [] xs"
    using writes_vec [of xs _ _ False MAX_ID_SIZE] reads_vec [of xs _ _ _ False MAX_ID_SIZE "[]"]
      writes_item reads_value_string
    by (auto simp: Marshalling_strings_def UnMarshalling_strings_def)
qed

sublocale roomy_parcel \<subseteq> ints: codec P view "Marshalling_ints P" "UnMarshalling_ints P" "[]"
  "vec_items (\<lambda>i. [PInt Int32 i])" "\<lambda>xs. length xs \<le> MAX_ID_SIZE"
proof
  fix xs :: "int list"
  assume "length xs \<le> MAX_ID_SIZE"
  then show "writes view (Marshalling_ints P xs) (vec_items (\<lambda>i. [PInt Int32 i]) xs)"
    "reads view (UnMarshalling_ints P) (vec_items (\<lambda>i. [PInt Int32 i]) xs) [] xs"
    using writes_vec [of xs _ _ False MAX_ID_SIZE] reads_vec [of xs _ _ _ False MAX_ID_SIZE "[]"]
      writes_item reads_value_int
    by (auto simp: Marshalling_ints_def UnMarshalling_ints_def)
qed

definition acl_items :: "AccessControlProfile \<Rightarrow> pitem list" where
  "acl_items x =
     [PInt Int64 (acl_accessControlId x), PInt Int64 (acl_accesserId x), PInt Int64 (acl_accesseeId x),
      PString (acl_sessionKey x), PInt Uint32 (acl_bindType x), PInt Uint32 (acl_authenticationType x),
      PInt Uint32 (acl_bindLevel x), PInt Int32 (acl_status x), PInt Int64 (acl_validPeriod x),
      PInt Int64 (acl_lastAuthTime x), PString (acl_trustDeviceId x), PInt Uint32 (acl_deviceIdType x),
      PString (acl_deviceIdHash x), PString (acl_extraData x)] @
     items Accesser_Marshalling (acl_accesser x) @ items Accessee_Marshalling (acl_accessee x) @ []"

sublocale roomy_parcel \<subseteq> acl: codec P view "AccessControlProfile_Marshalling P"
  "AccessControlProfile_UnMarshalling P" AccessControlProfile_default acl_items "\<lambda>_. True"
proof
  fix x :: AccessControlProfile
  show "writes view (AccessControlProfile_Marshalling P x) (acl_items x)"
    unfolding AccessControlProfile_Marshalling_def acl_items_def append_Cons append_Nil
    by (intro writes_steps writes_Cons writes_ignoring accesser.writes accessee.writes; simp)
  have "reads view (Accesser_UnMarshalling P) (items Accesser_Marshalling (acl_accesser x))
      (acl_accesser AccessControlProfile_default) (acl_accesser x)"
    "reads view (Accessee_UnMarshalling P) (items Accessee_Marshalling (acl_accessee x))
      (acl_accessee AccessControlProfile_default) (acl_accessee x)"
    using accesser.reads accessee.reads by (simp_all add: AccessControlProfile_default_def)
  then show "reads view (AccessControlProfile_UnMarshalling P) (acl_items x) AccessControlProfile_default x"
    unfolding AccessControlProfile_UnMarshalling_def acl_items_def append_Cons append_Nil
    by (cases x; intro reads_steps reads_more_nested; simp add: AccessControlProfile_default_def)
qed

definition trust_items :: "TrustDeviceProfile \<Rightarrow> pitem list" where
  "trust_items x =
     [PString (tp_deviceId x), PInt Uint32 (tp_deviceIdType x), PString (tp_deviceIdHash x),
      PInt Int32 (tp_status x), PInt Uint32 (tp_bindType x), PInt Int32 (tp_peerUserId x),
      PInt Int32 (tp_localUserId x), PString (tp_peerAccountId x), PString (tp_localAccountId x)] @
     (PInt Uint32 (u32 (length (tp_serviceIdList x))) # map (PInt Int64) (tp_serviceIdList x))"

lemma u32_small: "n \<le> limit \<Longrightarrow> limit < 2 ^ 32 \<Longrightarrow> u32 n = int n"
  by (simp add: u32_def)

sublocale roomy_parcel \<subseteq> trust_device: codec P view "TrustDeviceProfile_Marshalling P"
  "TrustDeviceProfile_UnMarshalling P" TrustDeviceProfile_default trust_items
  "\<lambda>x. length (tp_serviceIdList x) \<le> MAX_SERVICE_SIZE"
proof
  fix x :: TrustDeviceProfile
  assume len: "length (tp_serviceIdList x) \<le> MAX_SERVICE_SIZE"
  show "writes view (TrustDeviceProfile_Marshalling P x) (trust_items x)"
    unfolding TrustDeviceProfile_Marshalling_def trust_items_def append_Cons append_Nil
    by (intro writes_steps writes_map_items; simp)
  have "reads view (read_sized P Uint32 MAX_SERVICE_SIZE (ReadInt P Int64) 0 tp_serviceIdList tp_serviceIdList_update)
      (PInt Uint32 (u32 (length (tp_serviceIdList x))) # map (PInt Int64) (tp_serviceIdList x)) y
      (y\<lparr>tp_serviceIdList := tp_serviceIdList y @ tp_serviceIdList x\<rparr>)" for y
    by (rule reads_sized [OF reads_value_int len]) (rule u32_small [OF len], simp)
  note sized = reads_one [OF this]
  show "reads view (TrustDeviceProfile_UnMarshalling P) (trust_items x) TrustDeviceProfile_default x"
    unfolding TrustDeviceProfile_UnMarshalling_def trust_items_def append_Cons append_Nil
    by (intro reads_steps)
      (use sized [of "x\<lparr>tp_serviceIdList := []\<rparr>"] in \<open>cases x; simp add: TrustDeviceProfile_default_def\<close>)
qed

sublocale roomy_parcel \<subseteq> trusted_info: codec P view "TrustedDeviceInfo_Marshalling P"
  "TrustedDeviceInfo_UnMarshalling P" TrustedDeviceInfo_default "items TrustedDeviceInfo_Marshalling" "\<lambda>_. True"
proof
  fix x :: TrustedDeviceInfo
  show "writes view (TrustedDeviceInfo_Marshalling P x) (items TrustedDeviceInfo_Marshalling x)"
    by (simp add: TrustedDeviceInfo_Marshalling_def) (intro writes_steps; simp)
  show "reads view (TrustedDeviceInfo_UnMarshalling P) (items TrustedDeviceInfo_Marshalling x) TrustedDeviceInfo_default x"
    by (cases x) (simp add: TrustedDeviceInfo_Marshalling_def TrustedDeviceInfo_UnMarshalling_def,
      intro reads_steps; simp add: TrustedDeviceInfo_default_def)
qed

sublocale roomy_parcel \<subseteq> event: codec P view "BusinessEvent_Marshalling P" "BusinessEvent_UnMarshalling P"
  BusinessEvent_default "\<lambda>x. [PString (be_businessKey x), PString (be_businessValue x)]" "\<lambda>_. True"
proof
  fix x :: BusinessEvent
  show "writes view (BusinessEvent_Marshalling P x) [PString (be_businessKey x), PString (be_businessValue x)]"
    unfolding BusinessEvent_Marshalling_def by (intro writes_steps; simp)
  show "reads view (BusinessEvent_UnMarshalling P) [PString (be_businessKey x), PString (be_businessValue x)]
      BusinessEvent_default x"
    unfolding reads_def
  proof (intro allI impI)
    fix p rest
    assume "view p = [PString (be_businessKey x), PString (be_businessValue x)] @ rest"
    then obtain p1 where 1: "ReadString P p = (Some (be_businessKey x), p1)"
      "view p1 = PString (be_businessValue x) # rest" using ReadString_item by fastforce
    obtain p2 where "ReadString P p1 = (Some (be_businessValue x), p2)" "view p2 = rest"
      using ReadString_item [OF 1(2)] by blast
    with 1 show "\<exists>p'. BusinessEvent_UnMarshalling P BusinessEvent_default p = ((True, x), p') \<and> view p' = rest"
      by (simp add: BusinessEvent_UnMarshalling_def ReadString_value_def BusinessEvent_default_def)
  qed
qed

text \<open>\<open>SyncMode\<close> is one of three; the code bounds the devices only when it reads them.\<close>

lemma to_i32_small: "- 2147483648 \<le> i \<Longrightarrow> i \<le> 2147483647 \<Longrightarrow> to_i32 i = i"
  by (simp add: to_i32_def signed_take_bit_int_eq_self_iff)

definition sync_items :: "DpSyncOptions \<Rightarrow> pitem list" where
  "sync_items x =
     [PInt Int32 (so_syncMode x)] @
     (PInt Int32 (int (length (so_syncDeviceIds x))) # map PString (so_syncDeviceIds x))"

sublocale roomy_parcel \<subseteq> sync: codec P view "DpSyncOptions_Marshalling P" "DpSyncOptions_UnMarshalling P"
  DpSyncOptions_default sync_items "\<lambda>x. so_syncMode x \<in> {0, 1, 2} \<and> length (so_syncDeviceIds x) \<le> MAX_DEVICE_SIZE"
proof
  fix x :: DpSyncOptions
  assume ok: "so_syncMode x \<in> {0, 1, 2} \<and> length (so_syncDeviceIds x) \<le> MAX_DEVICE_SIZE"
  then have i32: "to_i32 (so_syncMode x) = so_syncMode x"
    "to_i32 (int (length (so_syncDeviceIds x))) = int (length (so_syncDeviceIds x))"
    by (auto intro!: to_i32_small)
  show "writes view (DpSyncOptions_Marshalling P x) (sync_items x)"
    unfolding DpSyncOptions_Marshalling_def sync_items_def append_Cons append_Nil i32
    by (intro writes_steps writes_map_items; simp)
  have "reads view (read_sized P Int32 MAX_DEVICE_SIZE (ReadString P) [] so_syncDeviceIds so_syncDeviceIds_update)
      (PInt Int32 (int (length (so_syncDeviceIds x))) # map PString (so_syncDeviceIds x)) y
      (y\<lparr>so_syncDeviceIds := so_syncDeviceIds y @ so_syncDeviceIds x\<rparr>)" for y
    by (rule reads_sized [OF reads_value_string]) (use ok in simp_all)
  note sized = reads_one [OF this]
  show "reads view (DpSyncOptions_UnMarshalling P) (sync_items x) DpSyncOptions_default x"
    unfolding DpSyncOptions_UnMarshalling_def sync_items_def append_Cons append_Nil
    by (intro reads_steps)
      (use sized [of "x\<lparr>so_syncDeviceIds := []\<rparr>"] in \<open>cases x; simp add: DpSyncOptions_default_def\<close>)
qed

definition filter_items :: "DeviceProfileFilterOptions \<Rightarrow> pitem list" where
  "filter_items x =
     [PInt Int32 (dpo_userId x), PString (dpo_accountId x)] @
     vec_items (\<lambda>s. [PString s]) (dpo_deviceIds x) @ vec_items (\<lambda>s. [PString s]) (dpo_wiseDeviceIds x) @
     vec_items (\<lambda>i. [PInt Int32 i]) (dpo_deviceProfileIds x) @ []"

sublocale roomy_parcel \<subseteq> profile_filter: codec P view "DeviceProfileFilterOptions_Marshalling P"
  "DeviceProfileFilterOptions_UnMarshalling P" DeviceProfileFilterOptions_default filter_items
  "\<lambda>x. length (dpo_deviceIds x) \<le> MAX_ID_SIZE \<and> length (dpo_wiseDeviceIds x) \<le> MAX_ID_SIZE \<and>
     length (dpo_deviceProfileIds x) \<le> MAX_ID_SIZE"
proof
  fix x :: DeviceProfileFilterOptions
  assume ok: "length (dpo_deviceIds x) \<le> MAX_ID_SIZE \<and> length (dpo_wiseDeviceIds x) \<le> MAX_ID_SIZE \<and>
     length (dpo_deviceProfileIds x) \<le> MAX_ID_SIZE"
  then show "writes view (DeviceProfileFilterOptions_Marshalling P x) (filter_items x)"
    unfolding DeviceProfileFilterOptions_Marshalling_def filter_items_def append_Cons append_Nil
    by (intro writes_steps writes_Cons writes_ignoring strings.writes ints.writes; simp)
  show "reads view (DeviceProfileFilterOptions_UnMarshalling P) (filter_items x) DeviceProfileFilterOptions_default x"
    unfolding DeviceProfileFilterOptions_UnMarshalling_def filter_items_def append_Cons append_Nil
    using ok strings.reads ints.reads
    by (cases x; intro reads_steps reads_more_nested; simp add: DeviceProfileFilterOptions_default_def)
qed

definition icon_filter_items :: "DeviceIconInfoFilterOptions \<Rightarrow> pitem list" where
  "icon_filter_items x =
     vec_items (\<lambda>s. [PString s]) (dio_productIds x) @
     [PString (dio_internalModel x), PString (dio_subProductId x), PString (dio_imageType x), PString (dio_specName x)]"

sublocale roomy_parcel \<subseteq> icon_filter: codec P view "DeviceIconInfoFilterOptions_Marshalling P"
  "DeviceIconInfoFilterOptions_UnMarshalling P" DeviceIconInfoFilterOptions_default icon_filter_items
  "\<lambda>x. length (dio_productIds x) \<le> MAX_ID_SIZE"
proof
  fix x :: DeviceIconInfoFilterOptions
  assume ok: "length (dio_productIds x) \<le> MAX_ID_SIZE"
  then show "writes view (DeviceIconInfoFilterOptions_Marshalling P x) (icon_filter_items x)"
    unfolding DeviceIconInfoFilterOptions_Marshalling_def icon_filter_items_def
    by (intro writes_Cons writes_ignoring strings.writes writes_steps; simp)
  show "reads view (DeviceIconInfoFilterOptions_UnMarshalling P) (icon_filter_items x) DeviceIconInfoFilterOptions_default x"
    unfolding DeviceIconInfoFilterOptions_UnMarshalling_def icon_filter_items_def
    using ok strings.reads
    by (cases x; intro reads_more_nested reads_steps; simp add: DeviceIconInfoFilterOptions_default_def)
qed

section \<open>Subscriptions\<close>

definition types_ok :: "ProfileChangeType list \<Rightarrow> bool" where
  "types_ok ts \<longleftrightarrow> ts \<noteq> [] \<and> length ts \<le> MAX_SUBSCRIBE_CHANGE_SIZE \<and> distinct ts \<and>
     PROFILE_CHANGE_TYPE_MIN \<notin> set ts \<and> PROFILE_CHANGE_TYPE_MAX \<notin> set ts"

lemma change_number_inverse:
  "CHANGE_TYPES ! nat (change_number t) = t"
  "t \<noteq> PROFILE_CHANGE_TYPE_MIN \<Longrightarrow> 0 < change_number t"
  "t \<noteq> PROFILE_CHANGE_TYPE_MAX \<Longrightarrow> change_number t < 21"
  by (cases t; simp add: change_number_def CHANGE_TYPES_def)+

abbreviation type_items :: "ProfileChangeType list \<Rightarrow> pitem list" where
  "type_items ts \<equiv> vec_items (\<lambda>t. [PInt Int32 (change_number t)]) ts"

context roomy_parcel
begin

lemma read_types_items:
  assumes "distinct (xs @ ts)" "PROFILE_CHANGE_TYPE_MIN \<notin> set ts" "PROFILE_CHANGE_TYPE_MAX \<notin> set ts"
  shows "view p = map (\<lambda>t. PInt Int32 (change_number t)) ts @ rest \<Longrightarrow>
    \<exists>p'. read_types P (length ts) xs p = ((True, xs @ ts), p') \<and> view p' = rest"
  using assms
proof (induction ts arbitrary: xs p)
  case Nil
  then show ?case by simp
next
  case (Cons t ts)
  have n: "0 < change_number t" "change_number t < 21"
    using Cons.prems change_number_inverse(2,3) by auto
  from Cons.prems(1) obtain p1 where 1: "ReadInt P Uint32 p = (Some (change_number t mod 2 ^ 32), p1)"
    "view p1 = map (\<lambda>t. PInt Int32 (change_number t)) ts @ rest" using ReadUint32_item by fastforce
  have m: "change_number t mod 2 ^ 32 = change_number t" using n by simp
  have step: "read_types P (length (t # ts)) xs p = read_types P (length ts) (xs @ [t]) p1"
    using 1 n m Cons.prems(2) by (simp add: ReadInt_value_def change_number_inverse(1))
  have "\<exists>p'. read_types P (length ts) (xs @ [t]) p1 = ((True, (xs @ [t]) @ ts), p') \<and> view p' = rest"
    by (rule Cons.IH [OF 1(2)]) (use Cons.prems in auto)
  with step show ?case by simp
qed

end

sublocale roomy_parcel \<subseteq> change_types: codec P view "Marshalling_changeTypes P" "UnMarshalling_changeTypes P" "[]"
  type_items types_ok
proof
  fix ts :: "ProfileChangeType list"
  assume ok: "types_ok ts"
  show "writes view (Marshalling_changeTypes P ts) (type_items ts)"
    unfolding Marshalling_changeTypes_def
    by (rule writes_vec) (use ok writes_item in \<open>auto simp: types_ok_def\<close>)
  show "reads view (UnMarshalling_changeTypes P) (type_items ts) [] ts"
    unfolding reads_def
  proof (intro allI impI)
    fix p rest
    assume "view p = type_items ts @ rest"
    then have v: "view p = PInt Uint32 (u32 (length ts)) # (map (\<lambda>t. PInt Int32 (change_number t)) ts @ rest)"
      by (simp add: vec_items_def concat_singletons)
    obtain p1 where 1: "ReadInt P Uint32 p = (Some (u32 (length ts)), p1)"
      "view p1 = map (\<lambda>t. PInt Int32 (change_number t)) ts @ rest" using ReadInt_item [OF v] by blast
    have "u32 (length ts) = int (length ts)" using ok by (simp add: types_ok_def u32_def)
    with 1 read_types_items [of "[]" ts p1 rest] ok
    show "\<exists>p'. UnMarshalling_changeTypes P [] p = ((True, ts), p') \<and> view p' = rest"
      by (simp add: UnMarshalling_changeTypes_def ReadInt_value_def types_ok_def)
  qed
qed

definition subscribe_ok :: "SubscribeInfo \<Rightarrow> bool" where
  "subscribe_ok x \<longleftrightarrow> types_ok (si_subscribeChangeTypes x) \<and> si_listener x \<noteq> None"

definition subscribe_items :: "SubscribeInfo \<Rightarrow> pitem list" where
  "subscribe_items x =
     [PInt Int32 (si_saId x), PString (si_subscribeKey x)] @ type_items (si_subscribeChangeTypes x) @
     [PRemote (si_listener x)]"

sublocale roomy_parcel \<subseteq> subscribe: codec P view "SubscribeInfo_Marshalling P" "SubscribeInfo_UnMarshalling P"
  SubscribeInfo_default subscribe_items subscribe_ok
proof
  fix x :: SubscribeInfo
  assume ok: "subscribe_ok x"
  then show "writes view (SubscribeInfo_Marshalling P x) (subscribe_items x)"
    unfolding SubscribeInfo_Marshalling_def subscribe_items_def append_Cons append_Nil
    by (intro writes_steps writes_Cons writes_ignoring change_types.writes; simp add: subscribe_ok_def)
  have remote: "reads view (read_all [\<lambda>x p. let (l, p) = ReadRemote P p in ((l \<noteq> None, x\<lparr>si_listener := l\<rparr>), p)])
      [PRemote (si_listener x)] y (y\<lparr>si_listener := si_listener x\<rparr>)" for y
    by (rule reads_one) (use ok in \<open>auto simp: reads_def subscribe_ok_def dest: ReadRemote_item\<close>)
  show "reads view (SubscribeInfo_UnMarshalling P) (subscribe_items x) SubscribeInfo_default x"
    unfolding SubscribeInfo_UnMarshalling_def subscribe_items_def append_Cons append_Nil
    using ok remote [of "x\<lparr>si_listener := None\<rparr>"] change_types.reads
    by (cases x; intro reads_steps reads_more_nested; simp add: SubscribeInfo_default_def subscribe_ok_def)
qed

section \<open>Maps\<close>

text \<open>A map is written in the order of its keys and built up again in that order.\<close>

lemma omap_put_last: "\<forall>x\<in>set (map fst m). x < k \<Longrightarrow> omap_put k v m = m @ [(k, v)]"
  by (induction m) (auto simp: omap_put.simps)

lemma put_param_item:
  assumes "CHR ''#'' \<notin> set k"
  shows "put_param (k @ SEPARATOR @ v) m = omap_put k v m"
proof -
  have "takeWhile (\<lambda>c. c \<noteq> CHR ''#'') (k @ CHR ''#'' # v) = k" using assms by (auto simp: takeWhile_tail)
  then show ?thesis by (simp add: put_param_def str_find_single)
qed

definition params_ok :: "(string, string) omap \<Rightarrow> bool" where
  "params_ok m \<longleftrightarrow> omap_wf m \<and> m \<noteq> [] \<and> length m \<le> MAX_PARAM_SIZE \<and> (\<forall>k\<in>set (map fst m). CHR ''#'' \<notin> set k)"

abbreviation param_items :: "(string, string) omap \<Rightarrow> pitem list" where
  "param_items m \<equiv> vec_items (\<lambda>(k, v). [PString (k @ SEPARATOR @ v)]) m"

definition listener_key :: "SubscribeInfo \<Rightarrow> string" where
  "listener_key si = si_subscribeKey si @ SEPARATOR @ to_string (si_saId si)"

definition listeners_ok :: "(string, SubscribeInfo) omap \<Rightarrow> bool" where
  "listeners_ok m \<longleftrightarrow> omap_wf m \<and> m \<noteq> [] \<and> length m \<le> MAX_LISTENER_SIZE \<and>
     (\<forall>(k, si)\<in>set m. k = listener_key si \<and> subscribe_ok si)"

abbreviation listener_items :: "(string, SubscribeInfo) omap \<Rightarrow> pitem list" where
  "listener_items m \<equiv> vec_items (\<lambda>(_, si). subscribe_items si) m"

context roomy_parcel
begin

lemma read_params_items:
  assumes "omap_wf (m @ kvs)" "\<forall>k\<in>set (map fst kvs). CHR ''#'' \<notin> set k"
  shows "view p = map (\<lambda>(k, v). PString (k @ SEPARATOR @ v)) kvs @ rest \<Longrightarrow>
    \<exists>p'. read_params P (length kvs) m p = ((True, m @ kvs), p') \<and> view p' = rest"
  using assms
proof (induction kvs arbitrary: m p)
  case Nil
  then show ?case by simp
next
  case (Cons kv kvs)
  obtain k v where kv: "kv = (k, v)" by force
  from Cons.prems(1) obtain p1 where 1: "ReadString P p = (Some (k @ SEPARATOR @ v), p1)"
    "view p1 = map (\<lambda>(k, v). PString (k @ SEPARATOR @ v)) kvs @ rest" using ReadString_item by (fastforce simp: kv)
  have "omap_put k v m = m @ [(k, v)]"
    by (rule omap_put_last) (use Cons.prems(2) in \<open>auto simp: kv omap_wf_def sorted_wrt_append\<close>)
  then have "read_params P (length (kv # kvs)) m p = read_params P (length kvs) (m @ [kv]) p1"
    using 1 put_param_item [of k v m] Cons.prems(3) by (simp add: kv)
  moreover have "\<exists>p'. read_params P (length kvs) (m @ [kv]) p1 = ((True, (m @ [kv]) @ kvs), p') \<and> view p' = rest"
    by (rule Cons.IH [OF 1(2)]) (use Cons.prems in auto)
  ultimately show ?case by simp
qed

lemma read_listeners_items:
  assumes "omap_wf (m @ kvs)" "\<forall>(k, si)\<in>set kvs. k = listener_key si \<and> subscribe_ok si"
  shows "view p = concat (map (\<lambda>(_, si). subscribe_items si) kvs) @ rest \<Longrightarrow>
    \<exists>p'. read_listeners P (length kvs) m p = ((True, m @ kvs), p') \<and> view p' = rest"
  using assms
proof (induction kvs arbitrary: m p)
  case Nil
  then show ?case by simp
next
  case (Cons kv kvs)
  obtain k si where kv: "kv = (k, si)" by force
  have ok: "k = listener_key si" "subscribe_ok si" using Cons.prems(3) by (simp_all add: kv)
  have "view p = subscribe_items si @ (concat (map (\<lambda>(_, si). subscribe_items si) kvs) @ rest)"
    using Cons.prems(1) by (simp add: kv)
  with subscribe.reads [OF ok(2)] obtain p1 where
    1: "SubscribeInfo_UnMarshalling P SubscribeInfo_default p = ((True, si), p1)"
      "view p1 = concat (map (\<lambda>(_, si). subscribe_items si) kvs) @ rest" by (rule readsD)
  have "omap_put k si m = m @ [(k, si)]"
    by (rule omap_put_last) (use Cons.prems(2) in \<open>auto simp: kv omap_wf_def sorted_wrt_append\<close>)
  then have "read_listeners P (length (kv # kvs)) m p = read_listeners P (length kvs) (m @ [kv]) p1"
    using 1 ok(1) by (simp add: kv listener_key_def)
  moreover have "\<exists>p'. read_listeners P (length kvs) (m @ [kv]) p1 = ((True, (m @ [kv]) @ kvs), p') \<and> view p' = rest"
    by (rule Cons.IH [OF 1(2)]) (use Cons.prems in auto)
  ultimately show ?case by simp
qed

lemma reads_counted:
  assumes "view p = vec_items f xs @ rest" "xs \<noteq> []" "length xs \<le> limit" "limit < 2 ^ 32"
  obtains p1 where "ReadInt_value P Uint32 p = (int (length xs), p1)" "view p1 = concat (map f xs) @ rest"
proof -
  have "view p = PInt Uint32 (u32 (length xs)) # (concat (map f xs) @ rest)"
    using assms(1) by (simp add: vec_items_def)
  from ReadInt_item [OF this] show ?thesis
    using that u32_small [OF assms(3,4)] by (auto simp: ReadInt_value_def)
qed

end

sublocale roomy_parcel \<subseteq> params: codec P view "Marshalling_params P" "UnMarshalling_params P" "[]"
  param_items params_ok
proof
  fix m :: "(string, string) omap"
  assume ok: "params_ok m"
  show "writes view (Marshalling_params P m) (param_items m)"
    unfolding Marshalling_params_def
    by (rule writes_vec) (use ok writes_item in \<open>auto simp: params_ok_def\<close>)
  show "reads view (UnMarshalling_params P) (param_items m) [] m"
    unfolding reads_def
  proof (intro allI impI)
    fix p rest
    assume "view p = param_items m @ rest"
    then obtain p1 where 1: "ReadInt_value P Uint32 p = (int (length m), p1)"
      "view p1 = concat (map (\<lambda>(k, v). [PString (k @ SEPARATOR @ v)]) m) @ rest"
      by (rule reads_counted [where limit = MAX_PARAM_SIZE]) (use ok in \<open>simp_all add: params_ok_def\<close>)
    have "concat (map (\<lambda>(k, v). [PString (k @ SEPARATOR @ v)]) m) = map (\<lambda>(k, v). PString (k @ SEPARATOR @ v)) m"
      by (induction m) auto
    with 1 read_params_items [of "[]" m p1 rest] ok
    show "\<exists>p'. UnMarshalling_params P [] p = ((True, m), p') \<and> view p' = rest"
      by (simp add: UnMarshalling_params_def params_ok_def)
  qed
qed

sublocale roomy_parcel \<subseteq> listeners: codec P view "Marshalling_listeners P" "UnMarshalling_listeners P" "[]"
  listener_items listeners_ok
proof
  fix m :: "(string, SubscribeInfo) omap"
  assume ok: "listeners_ok m"
  show "writes view (Marshalling_listeners P m) (listener_items m)"
    unfolding Marshalling_listeners_def
    by (rule writes_vec) (use ok subscribe.writes in \<open>auto simp: listeners_ok_def\<close>)
  show "reads view (UnMarshalling_listeners P) (listener_items m) [] m"
    unfolding reads_def
  proof (intro allI impI)
    fix p rest
    assume "view p = listener_items m @ rest"
    then obtain p1 where 1: "ReadInt_value P Uint32 p = (int (length m), p1)"
      "view p1 = concat (map (\<lambda>(_, si). subscribe_items si) m) @ rest"
      by (rule reads_counted [where limit = MAX_LISTENER_SIZE]) (use ok in \<open>simp_all add: listeners_ok_def\<close>)
    with read_listeners_items [of "[]" m p1 rest] ok
    show "\<exists>p'. UnMarshalling_listeners P [] p = ((True, m), p') \<and> view p' = rest"
      by (simp add: UnMarshalling_listeners_def listeners_ok_def)
  qed
qed

section \<open>Vectors of objects\<close>

definition vec_ok :: "('x \<Rightarrow> bool) \<Rightarrow> 'x list \<Rightarrow> bool" where
  "vec_ok ok xs \<longleftrightarrow> list_all ok xs \<and> xs \<noteq> [] \<and> length xs \<le> MAX_PROFILE_SIZE"

sublocale roomy_parcel \<subseteq> trustDevices: codec P view "Marshalling_trustDevices P" "UnMarshalling_trustDevices P" "[]"
  "vec_items (trust_items)" "vec_ok (\<lambda>x. length (tp_serviceIdList x) \<le> MAX_SERVICE_SIZE)"
  by unfold_locales (use trust_device.vec_writes trust_device.vec_reads [where xs = "[]"] in
    \<open>auto simp: Marshalling_trustDevices_def UnMarshalling_trustDevices_def vec_ok_def\<close>)

sublocale roomy_parcel \<subseteq> acls: codec P view "Marshalling_acls P" "UnMarshalling_acls P" "[]"
  "vec_items (acl_items)" "vec_ok (\<lambda>_. True)"
  by unfold_locales (use acl.vec_writes acl.vec_reads [where xs = "[]"] in
    \<open>auto simp: Marshalling_acls_def UnMarshalling_acls_def vec_ok_def\<close>)

sublocale roomy_parcel \<subseteq> devices: codec P view "Marshalling_devices P" "UnMarshalling_devices P" "[]"
  "vec_items (items DeviceProfile_Marshalling)" "vec_ok (\<lambda>x. dp_id x = 0)"
  by unfold_locales (use device.vec_writes device.vec_reads [where xs = "[]"] in
    \<open>auto simp: Marshalling_devices_def UnMarshalling_devices_def vec_ok_def\<close>)

sublocale roomy_parcel \<subseteq> products: codec P view "Marshalling_products P" "UnMarshalling_products P" "[]"
  "vec_items (items ProductInfo_Marshalling)" "vec_ok (\<lambda>_. True)"
  by unfold_locales (use product.vec_writes product.vec_reads [where xs = "[]"] in
    \<open>auto simp: Marshalling_products_def UnMarshalling_products_def vec_ok_def\<close>)

sublocale roomy_parcel \<subseteq> services: codec P view "Marshalling_services P" "UnMarshalling_services P" "[]"
  "vec_items (items ServiceProfile_Marshalling)" "vec_ok (\<lambda>_. True)"
  by unfold_locales (use service.vec_writes service.vec_reads [where xs = "[]"] in
    \<open>auto simp: Marshalling_services_def UnMarshalling_services_def vec_ok_def\<close>)

sublocale roomy_parcel \<subseteq> chars: codec P view "Marshalling_chars P" "UnMarshalling_chars P" "[]"
  "vec_items (items CharacteristicProfile_Marshalling)" "vec_ok (\<lambda>_. True)"
  by unfold_locales (use char.vec_writes char.vec_reads [where xs = "[]"] in
    \<open>auto simp: Marshalling_chars_def UnMarshalling_chars_def vec_ok_def\<close>)

sublocale roomy_parcel \<subseteq> trusted: codec P view "Marshalling_trusted P" "UnMarshalling_trusted P" "[]"
  "vec_items (items TrustedDeviceInfo_Marshalling)" "vec_ok (\<lambda>_. True)"
  by unfold_locales (use trusted_info.vec_writes trusted_info.vec_reads [where xs = "[]"] in
    \<open>auto simp: Marshalling_trusted_def UnMarshalling_trusted_def vec_ok_def\<close>)

sublocale roomy_parcel \<subseteq> serviceInfos: codec P view "Marshalling_serviceInfos P" "UnMarshalling_serviceInfos P" "[]"
  "vec_items (items ServiceInfo_Marshalling)" "\<lambda>xs. length xs \<le> MAX_PROFILE_SIZE"
proof
  fix xs :: "ServiceInfo list"
  assume len: "length xs \<le> MAX_PROFILE_SIZE"
  have all: "list_all (\<lambda>_. True) xs" by (simp add: list_all_iff)
  have "Marshalling_serviceInfos P xs = write_vec P False MAX_PROFILE_SIZE (ServiceInfo_Marshalling P) xs"
    using len u32_small [OF len] by (simp add: Marshalling_serviceInfos_def write_vec_def fun_eq_iff Let_def split: prod.split)
  with service_info.vec_writes(1) [OF all _ len, of False]
  show "writes view (Marshalling_serviceInfos P xs) (vec_items (items ServiceInfo_Marshalling) xs)" by simp
  from service_info.vec_reads [OF all _ len, of False "[]"]
  show "reads view (UnMarshalling_serviceInfos P) (vec_items (items ServiceInfo_Marshalling) xs) [] xs"
    by (simp add: UnMarshalling_serviceInfos_def)
qed

text \<open>Raw data crosses in a parcel that has none yet.\<close>

context roomy_parcel
begin

lemma bytes_written:
  assumes "length bs \<le> MAX_ICON_SIZE" "bs \<noteq> []" "list_all (\<lambda>y. \<not> is_raw y) (view p)"
  shows "\<exists>p'. Marshalling_bytes P bs p = (True, p') \<and> view p' = view p @ [PInt Uint32 (int (length bs)), PRaw bs]"
proof -
  have u: "u32 (length bs) = int (length bs)" using assms(1) by (simp add: u32_def)
  have "writes view (WInt P Uint32 (int (length bs))) [PInt Uint32 (int (length bs))]" by (rule writes_item) simp
  then obtain p1 where 1: "WInt P Uint32 (int (length bs)) p = (True, p1)"
    "view p1 = view p @ [PInt Uint32 (int (length bs))]" by (rule writesD)
  have "fst (pa_write P (PRaw bs) p1)" by (rule room_raw) (use 1(2) assms(3) in simp)
  then obtain p2 where 2: "pa_write P (PRaw bs) p1 = (True, p2)" by (metis prod.collapse)
  with wrote [OF 2] 1 u assms(1,2) show ?thesis by (simp add: Marshalling_bytes_def)
qed

lemma bytes_read:
  assumes "length bs \<le> MAX_ICON_SIZE" "bs \<noteq> []"
  shows "reads view (UnMarshalling_bytes P) [PInt Uint32 (int (length bs)), PRaw bs] xs bs"
  unfolding reads_def
proof (intro allI impI)
  fix p rest
  assume "view p = [PInt Uint32 (int (length bs)), PRaw bs] @ rest"
  then obtain p1 where 1: "ReadInt P Uint32 p = (Some (int (length bs)), p1)" "view p1 = PRaw bs # rest"
    using ReadInt_item by fastforce
  obtain p2 where "ReadRaw P (int (length bs)) p1 = (Some bs, p2)" "view p2 = rest"
    using ReadRaw_item [OF 1(2)] by blast
  with 1 assms show "\<exists>p'. UnMarshalling_bytes P xs p = ((True, bs), p') \<and> view p' = rest"
    by (simp add: UnMarshalling_bytes_def ReadInt_value_def)
qed

end

end
