(* ===== verification/IpcProxy.thy ===== *)
theory IpcProxy
  imports MarshallingLaws
begin

text \<open>
  The two ends of a call between processes: \<open>DistributedDeviceProfileProxy\<close>
  (\<open>interfaces/innerkits/core/src/distributed_device_profile_proxy.cpp\<close>), which writes the arguments into
  a parcel and reads the answer, and \<open>DistributedDeviceProfileStubNew\<close>
  (\<open>services/core/src/distributed_device_profile_stub_new.cpp\<close>), which reads the arguments, calls the
  service and writes the answer. The operations of the service are the fields of a record over its
  state; the framework's transport is a function from request code and parcels to an error code.
  Session keys are not wiped from memory here.
\<close>

section \<open>Request codes\<close>

definition DpIpcInterfaceCode :: "(string \<times> int) list" where
  "DpIpcInterfaceCode =
     [(''MIN'', 0),
      (''PUT_ACL_PROFILE'', 7),
      (''UPDATE_ACL_PROFILE'', 8),
      (''GET_TRUST_DEVICE_PROFILE'', 9),
      (''GET_ALL_TRUST_DEVICE_PROFILE'', 10),
      (''GET_ACL_PROFILE'', 11),
      (''GET_ALL_ACL_PROFILE'', 12),
      (''DELETE_ACL_PROFILE'', 13),
      (''PUT_SERVICE_PROFILE'', 14),
      (''PUT_SERVICE_PROFILE_BATCH'', 15),
      (''PUT_CHAR_PROFILE'', 16),
      (''PUT_CHAR_PROFILE_BATCH'', 17),
      (''GET_DEVICE_PROFILE_NEW'', 18),
      (''GET_SERVICE_PROFILE'', 19),
      (''GET_CHAR_PROFILE'', 20),
      (''DEL_SERVICE_PROFILE'', 21),
      (''DEL_CHAR_PROFILE'', 22),
      (''SUBSCRIBE_DEVICE_PROFILE'', 23),
      (''UNSUBSCRIBE_DEVICE_PROFILE'', 24),
      (''SYNC_DEVICE_PROFILE_NEW'', 25),
      (''SEND_SUBSCRIBE_INFOS'', 26),
      (''ON_SYNC_COMPLETED'', 27),
      (''ON_TRUST_DEVICE_PROFILE_ADD'', 28),
      (''ON_TRUST_DEVICE_PROFILE_UPDATE'', 29),
      (''ON_TRUST_DEVICE_PROFILE_DELETE'', 30),
      (''ON_DEVICE_PROFILE_ADD'', 31),
      (''ON_DEVICE_PROFILE_UPDATE'', 32),
      (''ON_DEVICE_PROFILE_DELETE'', 33),
      (''ON_SERVICE_PROFILE_ADD'', 34),
      (''ON_SERVICE_PROFILE_UPDATE'', 35),
      (''ON_SERVICE_PROFILE_DELETE'', 36),
      (''ON_CHAR_PROFILE_ADD'', 37),
      (''ON_CHAR_PROFILE_UPDATE'', 38),
      (''ON_CHAR_PROFILE_DELETE'', 39),
      (''ON_DEVICE_PROFILE_INITED'', 40),
      (''SUBSCRIBE_DEVICE_PROFILE_INITED'', 41),
      (''UNSUBSCRIBE_DEVICE_PROFILE_INITED'', 42),
      (''ON_TRUST_DEVICE_PROFILE_ACTIVE'', 43),
      (''ON_TRUST_DEVICE_PROFILE_INACTIVE'', 44),
      (''PUT_ALL_TRUSTED_DEVICES'', 45),
      (''PUT_DEVICE_PROFILE_BATCH'', 46),
      (''GET_DEVICE_PROFILES'', 47),
      (''GET_DEVICE_ICON_INFOS'', 48),
      (''PUT_DEVICE_ICON_INFO_BATCH'', 49),
      (''PUT_PRODUCT_INFO_BATCH'', 50),
      (''DELETE_DEVICE_PROFILE_BATCH'', 51),
      (''PUT_SERVICE_INFO'', 52),
      (''DELETE_SERVICE_INFO'', 53),
      (''GET_ALL_SERVICE_INFO_LIST'', 54),
      (''PUT_SESSION_KEY'', 55),
      (''GET_SESSION_KEY'', 56),
      (''UPDATE_SESSION_KEY'', 57),
      (''DELETE_SESSION_KEY'', 58),
      (''ON_PINCODE_INVALID'', 59),
      (''SUBSCRIBE_PINCODE_INVALID'', 60),
      (''UNSUBSCRIBE_PINCODE_INVALID'', 61),
      (''PUT_LOCAL_SERVICE_INFO'', 62),
      (''UPDATE_LOCAL_SERVICE_INFO'', 63),
      (''GET_LOCAL_SERVICE_INFO_BY_BINDLE_AND_PINTYPE'', 64),
      (''DELETE_LOCAL_SERVICE_INFO'', 65),
      (''GET_ALL_ACL_INCLUDE_LNN_ACL'', 66),
      (''ON_BUSINESS_EVENT'', 67),
      (''REGISTER_BUSINESS_CALLBACK'', 68),
      (''UNREGISTER_BUSINESS_CALLBACK'', 69),
      (''PUT_BUSINESS_EVENT'', 70),
      (''GET_BUSINESS_EVENT'', 71),
      (''SYNC_STATIC_PROFILE'', 72),
      (''GET_SERVICE_INFO_BY_USER_INFO'', 73),
      (''ON_SERVICE_INFO_INSERT'', 74),
      (''ON_SERVICE_INFO_UPDATE'', 75),
      (''ON_SERVICE_INFO_DELETE'', 76),
      (''SUBSCRIBE_SERVICE_INFO_CALLBACK'', 77),
      (''GET_SESSION_KEY_BY_SESSIONKEYID'', 78),
      (''ON_DEVICE_ACL_INACTIVE_BY_DELETE'', 79),
      (''ON_DEVICE_ACL_INACTIVE_BY_UPDATE'', 80),
      (''ON_ACCOUNT_ACL_DELETE'', 81),
      (''ON_ACCOUNT_ACL_INACTIVE'', 82),
      (''ON_ACCOUNT_ACL_ADD'', 83),
      (''ON_ACCOUNT_ACL_ACTIVE'', 84),
      (''MAX'', 85)]"

abbreviation "PUT_ACL_PROFILE \<equiv> (7 :: int)"
abbreviation "UPDATE_ACL_PROFILE \<equiv> (8 :: int)"
abbreviation "GET_TRUST_DEVICE_PROFILE \<equiv> (9 :: int)"
abbreviation "GET_ALL_TRUST_DEVICE_PROFILE \<equiv> (10 :: int)"
abbreviation "GET_ACL_PROFILE \<equiv> (11 :: int)"
abbreviation "GET_ALL_ACL_PROFILE \<equiv> (12 :: int)"
abbreviation "DELETE_ACL_PROFILE \<equiv> (13 :: int)"
abbreviation "PUT_SERVICE_PROFILE \<equiv> (14 :: int)"
abbreviation "PUT_SERVICE_PROFILE_BATCH \<equiv> (15 :: int)"
abbreviation "PUT_CHAR_PROFILE \<equiv> (16 :: int)"
abbreviation "PUT_CHAR_PROFILE_BATCH \<equiv> (17 :: int)"
abbreviation "GET_DEVICE_PROFILE_NEW \<equiv> (18 :: int)"
abbreviation "GET_SERVICE_PROFILE \<equiv> (19 :: int)"
abbreviation "GET_CHAR_PROFILE \<equiv> (20 :: int)"
abbreviation "DEL_SERVICE_PROFILE \<equiv> (21 :: int)"
abbreviation "DEL_CHAR_PROFILE \<equiv> (22 :: int)"
abbreviation "SUBSCRIBE_DEVICE_PROFILE \<equiv> (23 :: int)"
abbreviation "UNSUBSCRIBE_DEVICE_PROFILE \<equiv> (24 :: int)"
abbreviation "SYNC_DEVICE_PROFILE_NEW \<equiv> (25 :: int)"
abbreviation "SEND_SUBSCRIBE_INFOS \<equiv> (26 :: int)"
abbreviation "SUBSCRIBE_DEVICE_PROFILE_INITED \<equiv> (41 :: int)"
abbreviation "UNSUBSCRIBE_DEVICE_PROFILE_INITED \<equiv> (42 :: int)"
abbreviation "PUT_ALL_TRUSTED_DEVICES \<equiv> (45 :: int)"
abbreviation "PUT_DEVICE_PROFILE_BATCH \<equiv> (46 :: int)"
abbreviation "GET_DEVICE_PROFILES \<equiv> (47 :: int)"
abbreviation "GET_DEVICE_ICON_INFOS \<equiv> (48 :: int)"
abbreviation "PUT_DEVICE_ICON_INFO_BATCH \<equiv> (49 :: int)"
abbreviation "PUT_PRODUCT_INFO_BATCH \<equiv> (50 :: int)"
abbreviation "DELETE_DEVICE_PROFILE_BATCH \<equiv> (51 :: int)"
abbreviation "PUT_SERVICE_INFO \<equiv> (52 :: int)"
abbreviation "DELETE_SERVICE_INFO \<equiv> (53 :: int)"
abbreviation "GET_ALL_SERVICE_INFO_LIST \<equiv> (54 :: int)"
abbreviation "PUT_SESSION_KEY \<equiv> (55 :: int)"
abbreviation "GET_SESSION_KEY \<equiv> (56 :: int)"
abbreviation "UPDATE_SESSION_KEY \<equiv> (57 :: int)"
abbreviation "DELETE_SESSION_KEY \<equiv> (58 :: int)"
abbreviation "SUBSCRIBE_PINCODE_INVALID \<equiv> (60 :: int)"
abbreviation "UNSUBSCRIBE_PINCODE_INVALID \<equiv> (61 :: int)"
abbreviation "PUT_LOCAL_SERVICE_INFO \<equiv> (62 :: int)"
abbreviation "UPDATE_LOCAL_SERVICE_INFO \<equiv> (63 :: int)"
abbreviation "GET_LOCAL_SERVICE_INFO_BY_BINDLE_AND_PINTYPE \<equiv> (64 :: int)"
abbreviation "DELETE_LOCAL_SERVICE_INFO \<equiv> (65 :: int)"
abbreviation "GET_ALL_ACL_INCLUDE_LNN_ACL \<equiv> (66 :: int)"
abbreviation "REGISTER_BUSINESS_CALLBACK \<equiv> (68 :: int)"
abbreviation "UNREGISTER_BUSINESS_CALLBACK \<equiv> (69 :: int)"
abbreviation "PUT_BUSINESS_EVENT \<equiv> (70 :: int)"
abbreviation "GET_BUSINESS_EVENT \<equiv> (71 :: int)"
abbreviation "SYNC_STATIC_PROFILE \<equiv> (72 :: int)"
abbreviation "GET_SERVICE_INFO_BY_USER_INFO \<equiv> (73 :: int)"
abbreviation "SUBSCRIBE_SERVICE_INFO_CALLBACK \<equiv> (77 :: int)"
abbreviation "GET_SESSION_KEY_BY_SESSIONKEYID \<equiv> (78 :: int)"

section \<open>The interface of the service\<close>

record 's IDistributedDeviceProfile =
  svc_IsStopped :: "'s \<Rightarrow> bool"
  svc_ExitIdleState :: "'s \<Rightarrow> bool \<times> 's"
  svc_AddRunningIpcCount :: "'s \<Rightarrow> 's"
  svc_SubtractRunningIpcCount :: "'s \<Rightarrow> 's"
  svc_DelayUnloadTask :: "'s \<Rightarrow> 's"
  svc_IsInited :: "'s \<Rightarrow> bool"
  svc_PutAccessControlProfile :: "AccessControlProfile \<Rightarrow> 's \<Rightarrow> dp_ret \<times> 's"
  svc_UpdateAccessControlProfile :: "AccessControlProfile \<Rightarrow> 's \<Rightarrow> dp_ret \<times> 's"
  svc_GetTrustDeviceProfile :: "string \<Rightarrow> TrustDeviceProfile \<Rightarrow> 's \<Rightarrow> (dp_ret \<times> TrustDeviceProfile) \<times> 's"
  svc_GetAllTrustDeviceProfile :: "TrustDeviceProfile list \<Rightarrow> 's \<Rightarrow> (dp_ret \<times> TrustDeviceProfile list) \<times> 's"
  svc_GetAccessControlProfile :: "(string, string) omap \<Rightarrow> AccessControlProfile list \<Rightarrow> 's \<Rightarrow> (dp_ret \<times> AccessControlProfile list) \<times> 's"
  svc_GetAllAccessControlProfile :: "AccessControlProfile list \<Rightarrow> 's \<Rightarrow> (dp_ret \<times> AccessControlProfile list) \<times> 's"
  svc_GetAllAclIncludeLnnAcl :: "AccessControlProfile list \<Rightarrow> 's \<Rightarrow> (dp_ret \<times> AccessControlProfile list) \<times> 's"
  svc_DeleteAccessControlProfile :: "int \<Rightarrow> 's \<Rightarrow> dp_ret \<times> 's"
  svc_PutSessionKey :: "int \<Rightarrow> 8 word list \<Rightarrow> int \<Rightarrow> 's \<Rightarrow> (dp_ret \<times> int) \<times> 's"
  svc_GetSessionKey :: "int \<Rightarrow> int \<Rightarrow> 8 word list \<Rightarrow> 's \<Rightarrow> (dp_ret \<times> 8 word list) \<times> 's"
  svc_GetSessionKeyBySessionKeyId :: "int \<Rightarrow> 8 word list \<Rightarrow> 's \<Rightarrow> (dp_ret \<times> 8 word list) \<times> 's"
  svc_UpdateSessionKey :: "int \<Rightarrow> int \<Rightarrow> 8 word list \<Rightarrow> 's \<Rightarrow> dp_ret \<times> 's"
  svc_DeleteSessionKey :: "int \<Rightarrow> int \<Rightarrow> 's \<Rightarrow> dp_ret \<times> 's"
  svc_PutServiceProfile :: "ServiceProfile \<Rightarrow> 's \<Rightarrow> dp_ret \<times> 's"
  svc_PutServiceProfileBatch :: "ServiceProfile list \<Rightarrow> 's \<Rightarrow> dp_ret \<times> 's"
  svc_PutCharacteristicProfile :: "CharacteristicProfile \<Rightarrow> 's \<Rightarrow> dp_ret \<times> 's"
  svc_PutCharacteristicProfileBatch :: "CharacteristicProfile list \<Rightarrow> 's \<Rightarrow> dp_ret \<times> 's"
  svc_GetDeviceProfile :: "string \<Rightarrow> DeviceProfile \<Rightarrow> 's \<Rightarrow> (dp_ret \<times> DeviceProfile) \<times> 's"
  svc_GetServiceProfile :: "string \<Rightarrow> string \<Rightarrow> ServiceProfile \<Rightarrow> 's \<Rightarrow> (dp_ret \<times> ServiceProfile) \<times> 's"
  svc_GetCharacteristicProfile :: "string \<Rightarrow> string \<Rightarrow> string \<Rightarrow> CharacteristicProfile \<Rightarrow> 's \<Rightarrow> (dp_ret \<times> CharacteristicProfile) \<times> 's"
  svc_DeleteServiceProfile :: "string \<Rightarrow> string \<Rightarrow> bool \<Rightarrow> int \<Rightarrow> 's \<Rightarrow> dp_ret \<times> 's"
  svc_DeleteCharacteristicProfile :: "string \<Rightarrow> string \<Rightarrow> string \<Rightarrow> bool \<Rightarrow> int \<Rightarrow> 's \<Rightarrow> dp_ret \<times> 's"
  svc_SubscribeDeviceProfile :: "SubscribeInfo \<Rightarrow> 's \<Rightarrow> dp_ret \<times> 's"
  svc_UnSubscribeDeviceProfile :: "SubscribeInfo \<Rightarrow> 's \<Rightarrow> dp_ret \<times> 's"
  svc_SyncDeviceProfile :: "DpSyncOptions \<Rightarrow> nat option \<Rightarrow> 's \<Rightarrow> dp_ret \<times> 's"
  svc_SyncStaticProfile :: "DpSyncOptions \<Rightarrow> nat option \<Rightarrow> 's \<Rightarrow> dp_ret \<times> 's"
  svc_SendSubscribeInfos :: "(string, SubscribeInfo) omap \<Rightarrow> 's \<Rightarrow> dp_ret \<times> 's"
  svc_SubscribeDeviceProfileInited :: "int \<Rightarrow> nat option \<Rightarrow> 's \<Rightarrow> dp_ret \<times> 's"
  svc_UnSubscribeDeviceProfileInited :: "int \<Rightarrow> 's \<Rightarrow> dp_ret \<times> 's"
  svc_PutAllTrustedDevices :: "TrustedDeviceInfo list \<Rightarrow> 's \<Rightarrow> dp_ret \<times> 's"
  svc_PutLocalServiceInfo :: "LocalServiceInfo \<Rightarrow> 's \<Rightarrow> dp_ret \<times> 's"
  svc_UpdateLocalServiceInfo :: "LocalServiceInfo \<Rightarrow> 's \<Rightarrow> dp_ret \<times> 's"
  svc_GetLocalServiceInfoByBundleAndPinType :: "string \<Rightarrow> int \<Rightarrow> LocalServiceInfo \<Rightarrow> 's \<Rightarrow> (dp_ret \<times> LocalServiceInfo) \<times> 's"
  svc_DeleteLocalServiceInfo :: "string \<Rightarrow> int \<Rightarrow> 's \<Rightarrow> dp_ret \<times> 's"
  svc_PutDeviceProfileBatch :: "DeviceProfile list \<Rightarrow> 's \<Rightarrow> dp_ret \<times> 's"
  svc_GetDeviceProfiles :: "DeviceProfileFilterOptions \<Rightarrow> DeviceProfile list \<Rightarrow> 's \<Rightarrow> (dp_ret \<times> DeviceProfile list) \<times> 's"
  svc_SubscribePinCodeInvalid :: "string \<Rightarrow> int \<Rightarrow> nat option \<Rightarrow> 's \<Rightarrow> dp_ret \<times> 's"
  svc_UnSubscribePinCodeInvalid :: "string \<Rightarrow> int \<Rightarrow> 's \<Rightarrow> dp_ret \<times> 's"
  svc_PutProductInfoBatch :: "ProductInfo list \<Rightarrow> 's \<Rightarrow> dp_ret \<times> 's"
  svc_PutDeviceIconInfoBatch :: "DeviceIconInfo list \<Rightarrow> 's \<Rightarrow> dp_ret \<times> 's"
  svc_GetDeviceIconInfos :: "DeviceIconInfoFilterOptions \<Rightarrow> DeviceIconInfo list \<Rightarrow> 's \<Rightarrow> (dp_ret \<times> DeviceIconInfo list) \<times> 's"
  svc_DeleteDeviceProfileBatch :: "DeviceProfile list \<Rightarrow> 's \<Rightarrow> dp_ret \<times> 's"
  svc_RegisterBusinessCallback :: "string \<Rightarrow> string \<Rightarrow> nat option \<Rightarrow> 's \<Rightarrow> dp_ret \<times> 's"
  svc_UnRegisterBusinessCallback :: "string \<Rightarrow> string \<Rightarrow> 's \<Rightarrow> dp_ret \<times> 's"
  svc_PutBusinessEvent :: "BusinessEvent \<Rightarrow> 's \<Rightarrow> dp_ret \<times> 's"
  svc_GetBusinessEvent :: "BusinessEvent \<Rightarrow> 's \<Rightarrow> (dp_ret \<times> BusinessEvent) \<times> 's"
  svc_PutServiceInfo :: "ServiceInfo \<Rightarrow> 's \<Rightarrow> dp_ret \<times> 's"
  svc_DeleteServiceInfo :: "UserInfo \<Rightarrow> 's \<Rightarrow> dp_ret \<times> 's"
  svc_GetAllServiceInfoList :: "ServiceInfo list \<Rightarrow> 's \<Rightarrow> (dp_ret \<times> ServiceInfo list) \<times> 's"
  svc_GetServiceInfosByUserInfo :: "UserInfo \<Rightarrow> ServiceInfo list \<Rightarrow> 's \<Rightarrow> (dp_ret \<times> ServiceInfo list) \<times> 's"
  svc_SubscribeAllServiceInfo :: "int \<Rightarrow> nat option \<Rightarrow> 's \<Rightarrow> dp_ret \<times> 's"

section \<open>Calls of the proxy\<close>

type_synonym ('p, 's) handler = "'p \<Rightarrow> 'p \<Rightarrow> 's \<Rightarrow> (dp_ret \<times> 'p) \<times> 's"
type_synonym ('p, 's) remote = "int \<Rightarrow> ('p, 's) handler"

definition IDistributedDeviceProfile_Descriptor :: string where
  "IDistributedDeviceProfile_Descriptor = ''OHOS.DeviceProfile.IDistributedDeviceProfile''"

text \<open>The arguments with the code each gives when it cannot be written; \<open>Some\<close> is that code.\<close>

fun write_args :: "('p writer \<times> dp_ret) list \<Rightarrow> 'p \<Rightarrow> dp_ret option \<times> 'p" where
  "write_args [] p = (None, p)"
| "write_args ((w, fail) # ws) p = (let (ok, p) = w p in if \<not> ok then (Some fail, p) else write_args ws p)"

definition proxy_call ::
  "'p Parcel \<Rightarrow> ('p, 's) remote option \<Rightarrow> int \<Rightarrow> ('p writer \<times> dp_ret) list \<Rightarrow> 's \<Rightarrow> (dp_ret \<times> 'p) \<times> 's" where
  "proxy_call P remote code args s =
     (case remote of
        None \<Rightarrow> ((DP_IPC_REMOTE_OBJECT_NULLPTR, pa_new P), s)
      | Some send \<Rightarrow>
          (case write_args ((pa_write P (PToken IDistributedDeviceProfile_Descriptor), pa_errFlatten P) # args)
                  (pa_new P) of
             (Some fail, _) \<Rightarrow> ((fail, pa_new P), s)
           | (None, data) \<Rightarrow>
               let ((errCode, reply), s) = send code data (pa_new P) s in
               if errCode \<noteq> DP_SUCCESS then ((errCode, reply), s)
               else (ReadInt_value P Int32 reply, s)))"

definition proxy_put ::
  "'p Parcel \<Rightarrow> ('p, 's) remote option \<Rightarrow> int \<Rightarrow> ('p writer \<times> dp_ret) list \<Rightarrow> 's \<Rightarrow> dp_ret \<times> 's" where
  "proxy_put P remote code args s = (let ((ret, _), s) = proxy_call P remote code args s in (ret, s))"

definition proxy_get ::
  "'p Parcel \<Rightarrow> ('p, 's) remote option \<Rightarrow> int \<Rightarrow> ('p writer \<times> dp_ret) list \<Rightarrow> ('p, 'x) reader \<Rightarrow> dp_ret \<Rightarrow>
   'x \<Rightarrow> 's \<Rightarrow> (dp_ret \<times> 'x) \<times> 's" where
  "proxy_get P remote code args r fail x s =
     (let ((ret, reply), s) = proxy_call P remote code args s in
      if ret \<noteq> DP_SUCCESS then ((ret, x), s)
      else let ((ok, x), _) = r x reply in ((if ok then DP_SUCCESS else fail, x), s))"

definition Proxy_PutAccessControlProfile ::
  "'p Parcel \<Rightarrow> ('p, 's) remote option \<Rightarrow> AccessControlProfile \<Rightarrow> 's \<Rightarrow> dp_ret \<times> 's" where
  "Proxy_PutAccessControlProfile P remote p = proxy_put P remote PUT_ACL_PROFILE
     [(AccessControlProfile_Marshalling P p, DP_WRITE_PARCEL_FAIL)]"

definition Proxy_UpdateAccessControlProfile ::
  "'p Parcel \<Rightarrow> ('p, 's) remote option \<Rightarrow> AccessControlProfile \<Rightarrow> 's \<Rightarrow> dp_ret \<times> 's" where
  "Proxy_UpdateAccessControlProfile P remote p = proxy_put P remote UPDATE_ACL_PROFILE
     [(AccessControlProfile_Marshalling P p, DP_WRITE_PARCEL_FAIL)]"

definition Proxy_GetTrustDeviceProfile ::
  "'p Parcel \<Rightarrow> ('p, 's) remote option \<Rightarrow> string \<Rightarrow> TrustDeviceProfile \<Rightarrow> 's \<Rightarrow> (dp_ret \<times> TrustDeviceProfile) \<times> 's" where
  "Proxy_GetTrustDeviceProfile P remote deviceId x = proxy_get P remote GET_TRUST_DEVICE_PROFILE
     [(WString P deviceId, pa_errFlatten P)]
     (TrustDeviceProfile_UnMarshalling P) (DP_WRITE_PARCEL_FAIL) x"

definition Proxy_GetAllTrustDeviceProfile ::
  "'p Parcel \<Rightarrow> ('p, 's) remote option \<Rightarrow> TrustDeviceProfile list \<Rightarrow> 's \<Rightarrow> (dp_ret \<times> TrustDeviceProfile list) \<times> 's" where
  "Proxy_GetAllTrustDeviceProfile P remote  x = proxy_get P remote GET_ALL_TRUST_DEVICE_PROFILE
     []
     (UnMarshalling_trustDevices P) (DP_READ_PARCEL_FAIL) x"

definition Proxy_GetAccessControlProfile ::
  "'p Parcel \<Rightarrow> ('p, 's) remote option \<Rightarrow> (string, string) omap \<Rightarrow> AccessControlProfile list \<Rightarrow> 's \<Rightarrow> (dp_ret \<times> AccessControlProfile list) \<times> 's" where
  "Proxy_GetAccessControlProfile P remote params x = proxy_get P remote GET_ACL_PROFILE
     [(Marshalling_params P params, DP_WRITE_PARCEL_FAIL)]
     (UnMarshalling_acls P) (DP_READ_PARCEL_FAIL) x"

definition Proxy_GetAllAccessControlProfile ::
  "'p Parcel \<Rightarrow> ('p, 's) remote option \<Rightarrow> AccessControlProfile list \<Rightarrow> 's \<Rightarrow> (dp_ret \<times> AccessControlProfile list) \<times> 's" where
  "Proxy_GetAllAccessControlProfile P remote  x = proxy_get P remote GET_ALL_ACL_PROFILE
     []
     (UnMarshalling_acls P) (DP_READ_PARCEL_FAIL) x"

definition Proxy_GetAllAclIncludeLnnAcl ::
  "'p Parcel \<Rightarrow> ('p, 's) remote option \<Rightarrow> AccessControlProfile list \<Rightarrow> 's \<Rightarrow> (dp_ret \<times> AccessControlProfile list) \<times> 's" where
  "Proxy_GetAllAclIncludeLnnAcl P remote  x = proxy_get P remote GET_ALL_ACL_INCLUDE_LNN_ACL
     []
     (UnMarshalling_acls P) (DP_READ_PARCEL_FAIL) x"

definition Proxy_DeleteAccessControlProfile ::
  "'p Parcel \<Rightarrow> ('p, 's) remote option \<Rightarrow> int \<Rightarrow> 's \<Rightarrow> dp_ret \<times> 's" where
  "Proxy_DeleteAccessControlProfile P remote accessControlId = proxy_put P remote DELETE_ACL_PROFILE
     [(WInt P Int32 accessControlId, pa_errFlatten P)]"

definition Proxy_PutSessionKey ::
  "'p Parcel \<Rightarrow> ('p, 's) remote option \<Rightarrow> int \<Rightarrow> 8 word list \<Rightarrow> int \<Rightarrow> 's \<Rightarrow> (dp_ret \<times> int) \<times> 's" where
  "Proxy_PutSessionKey P remote userId sessionKey x = proxy_get P remote PUT_SESSION_KEY
     [(WInt P Uint32 userId, pa_errFlatten P),
      (Marshalling_bytes P sessionKey, DP_WRITE_PARCEL_FAIL)]
     (read_value (ReadInt P Int32)) (pa_errFlatten P) x"

definition Proxy_GetSessionKey ::
  "'p Parcel \<Rightarrow> ('p, 's) remote option \<Rightarrow> int \<Rightarrow> int \<Rightarrow> 8 word list \<Rightarrow> 's \<Rightarrow> (dp_ret \<times> 8 word list) \<times> 's" where
  "Proxy_GetSessionKey P remote userId sessionKeyId x = proxy_get P remote GET_SESSION_KEY
     [(WInt P Uint32 userId, pa_errFlatten P),
      (WInt P Int32 sessionKeyId, pa_errFlatten P)]
     (UnMarshalling_bytes P) (DP_WRITE_PARCEL_FAIL) x"

definition Proxy_GetSessionKeyBySessionKeyId ::
  "'p Parcel \<Rightarrow> ('p, 's) remote option \<Rightarrow> int \<Rightarrow> 8 word list \<Rightarrow> 's \<Rightarrow> (dp_ret \<times> 8 word list) \<times> 's" where
  "Proxy_GetSessionKeyBySessionKeyId P remote sessionKeyId x = proxy_get P remote GET_SESSION_KEY_BY_SESSIONKEYID
     [(WInt P Int32 sessionKeyId, pa_errFlatten P)]
     (UnMarshalling_bytes P) (DP_WRITE_PARCEL_FAIL) x"

definition Proxy_UpdateSessionKey ::
  "'p Parcel \<Rightarrow> ('p, 's) remote option \<Rightarrow> int \<Rightarrow> int \<Rightarrow> 8 word list \<Rightarrow> 's \<Rightarrow> dp_ret \<times> 's" where
  "Proxy_UpdateSessionKey P remote userId sessionKeyId sessionKey = proxy_put P remote UPDATE_SESSION_KEY
     [(WInt P Uint32 userId, pa_errFlatten P),
      (WInt P Int32 sessionKeyId, pa_errFlatten P),
      (Marshalling_bytes P sessionKey, DP_WRITE_PARCEL_FAIL)]"

definition Proxy_DeleteSessionKey ::
  "'p Parcel \<Rightarrow> ('p, 's) remote option \<Rightarrow> int \<Rightarrow> int \<Rightarrow> 's \<Rightarrow> dp_ret \<times> 's" where
  "Proxy_DeleteSessionKey P remote userId sessionKeyId = proxy_put P remote DELETE_SESSION_KEY
     [(WInt P Uint32 userId, pa_errFlatten P),
      (WInt P Int32 sessionKeyId, pa_errFlatten P)]"

definition Proxy_PutServiceProfile ::
  "'p Parcel \<Rightarrow> ('p, 's) remote option \<Rightarrow> ServiceProfile \<Rightarrow> 's \<Rightarrow> dp_ret \<times> 's" where
  "Proxy_PutServiceProfile P remote p = proxy_put P remote PUT_SERVICE_PROFILE
     [(ServiceProfile_Marshalling P p, DP_WRITE_PARCEL_FAIL)]"

definition Proxy_PutServiceProfileBatch ::
  "'p Parcel \<Rightarrow> ('p, 's) remote option \<Rightarrow> ServiceProfile list \<Rightarrow> 's \<Rightarrow> dp_ret \<times> 's" where
  "Proxy_PutServiceProfileBatch P remote ps = proxy_put P remote PUT_SERVICE_PROFILE_BATCH
     [(Marshalling_services P ps, DP_WRITE_PARCEL_FAIL)]"

definition Proxy_PutCharacteristicProfile ::
  "'p Parcel \<Rightarrow> ('p, 's) remote option \<Rightarrow> CharacteristicProfile \<Rightarrow> 's \<Rightarrow> dp_ret \<times> 's" where
  "Proxy_PutCharacteristicProfile P remote p = proxy_put P remote PUT_CHAR_PROFILE
     [(CharacteristicProfile_Marshalling P p, DP_WRITE_PARCEL_FAIL)]"

definition Proxy_PutCharacteristicProfileBatch ::
  "'p Parcel \<Rightarrow> ('p, 's) remote option \<Rightarrow> CharacteristicProfile list \<Rightarrow> 's \<Rightarrow> dp_ret \<times> 's" where
  "Proxy_PutCharacteristicProfileBatch P remote ps = proxy_put P remote PUT_CHAR_PROFILE_BATCH
     [(Marshalling_chars P ps, DP_WRITE_PARCEL_FAIL)]"

definition Proxy_GetDeviceProfile ::
  "'p Parcel \<Rightarrow> ('p, 's) remote option \<Rightarrow> string \<Rightarrow> DeviceProfile \<Rightarrow> 's \<Rightarrow> (dp_ret \<times> DeviceProfile) \<times> 's" where
  "Proxy_GetDeviceProfile P remote deviceId x = proxy_get P remote GET_DEVICE_PROFILE_NEW
     [(WString P deviceId, pa_errFlatten P),
      (WBool P (dp_isMultiUser x), pa_errFlatten P),
      (WInt P Int32 (dp_userId x), pa_errFlatten P)]
     (DeviceProfile_UnMarshalling P) DP_READ_PARCEL_FAIL x"

definition Proxy_GetServiceProfile ::
  "'p Parcel \<Rightarrow> ('p, 's) remote option \<Rightarrow> string \<Rightarrow> string \<Rightarrow> ServiceProfile \<Rightarrow> 's \<Rightarrow> (dp_ret \<times> ServiceProfile) \<times> 's" where
  "Proxy_GetServiceProfile P remote deviceId serviceName x = proxy_get P remote GET_SERVICE_PROFILE
     [(WString P deviceId, pa_errFlatten P),
      (WString P serviceName, pa_errFlatten P),
      (WBool P (sp_isMultiUser x), pa_errFlatten P),
      (WInt P Int32 (sp_userId x), pa_errFlatten P)]
     (ServiceProfile_UnMarshalling P) DP_READ_PARCEL_FAIL x"

definition Proxy_GetCharacteristicProfile ::
  "'p Parcel \<Rightarrow> ('p, 's) remote option \<Rightarrow> string \<Rightarrow> string \<Rightarrow> string \<Rightarrow> CharacteristicProfile \<Rightarrow> 's \<Rightarrow> (dp_ret \<times> CharacteristicProfile) \<times> 's" where
  "Proxy_GetCharacteristicProfile P remote deviceId serviceName charKey x = proxy_get P remote GET_CHAR_PROFILE
     [(WString P deviceId, pa_errFlatten P),
      (WString P serviceName, pa_errFlatten P),
      (WString P charKey, pa_errFlatten P),
      (WBool P (cp_isMultiUser x), pa_errFlatten P),
      (WInt P Int32 (cp_userId x), pa_errFlatten P)]
     (CharacteristicProfile_UnMarshalling P) DP_READ_PARCEL_FAIL x"

definition Proxy_DeleteServiceProfile ::
  "'p Parcel \<Rightarrow> ('p, 's) remote option \<Rightarrow> string \<Rightarrow> string \<Rightarrow> bool \<Rightarrow> int \<Rightarrow> 's \<Rightarrow> dp_ret \<times> 's" where
  "Proxy_DeleteServiceProfile P remote deviceId serviceName isMultiUser userId = proxy_put P remote DEL_SERVICE_PROFILE
     [(WString P deviceId, pa_errFlatten P),
      (WString P serviceName, pa_errFlatten P),
      (WBool P isMultiUser, pa_errFlatten P),
      (WInt P Int32 userId, pa_errFlatten P)]"

definition Proxy_DeleteCharacteristicProfile ::
  "'p Parcel \<Rightarrow> ('p, 's) remote option \<Rightarrow> string \<Rightarrow> string \<Rightarrow> string \<Rightarrow> bool \<Rightarrow> int \<Rightarrow> 's \<Rightarrow> dp_ret \<times> 's" where
  "Proxy_DeleteCharacteristicProfile P remote deviceId serviceName charKey isMultiUser userId = proxy_put P remote DEL_CHAR_PROFILE
     [(WString P deviceId, pa_errFlatten P),
      (WString P serviceName, pa_errFlatten P),
      (WString P charKey, pa_errFlatten P),
      (WBool P isMultiUser, pa_errFlatten P),
      (WInt P Int32 userId, pa_errFlatten P)]"

definition Proxy_SubscribeDeviceProfile ::
  "'p Parcel \<Rightarrow> ('p, 's) remote option \<Rightarrow> SubscribeInfo \<Rightarrow> 's \<Rightarrow> dp_ret \<times> 's" where
  "Proxy_SubscribeDeviceProfile P remote info = proxy_put P remote SUBSCRIBE_DEVICE_PROFILE
     [(SubscribeInfo_Marshalling P info, DP_WRITE_PARCEL_FAIL)]"

definition Proxy_UnSubscribeDeviceProfile ::
  "'p Parcel \<Rightarrow> ('p, 's) remote option \<Rightarrow> SubscribeInfo \<Rightarrow> 's \<Rightarrow> dp_ret \<times> 's" where
  "Proxy_UnSubscribeDeviceProfile P remote info = proxy_put P remote UNSUBSCRIBE_DEVICE_PROFILE
     [(SubscribeInfo_Marshalling P info, DP_WRITE_PARCEL_FAIL)]"

definition Proxy_SyncDeviceProfile ::
  "'p Parcel \<Rightarrow> ('p, 's) remote option \<Rightarrow> DpSyncOptions \<Rightarrow> nat option \<Rightarrow> 's \<Rightarrow> dp_ret \<times> 's" where
  "Proxy_SyncDeviceProfile P remote options callback = proxy_put P remote SYNC_DEVICE_PROFILE_NEW
     [(DpSyncOptions_Marshalling P options, DP_WRITE_PARCEL_FAIL),
      (WRemote P callback, pa_errFlatten P)]"

definition Proxy_SyncStaticProfile ::
  "'p Parcel \<Rightarrow> ('p, 's) remote option \<Rightarrow> DpSyncOptions \<Rightarrow> nat option \<Rightarrow> 's \<Rightarrow> dp_ret \<times> 's" where
  "Proxy_SyncStaticProfile P remote options callback = proxy_put P remote SYNC_STATIC_PROFILE
     [(DpSyncOptions_Marshalling P options, DP_WRITE_PARCEL_FAIL),
      (WRemote P callback, pa_errFlatten P)]"

definition Proxy_SendSubscribeInfos ::
  "'p Parcel \<Rightarrow> ('p, 's) remote option \<Rightarrow> (string, SubscribeInfo) omap \<Rightarrow> 's \<Rightarrow> dp_ret \<times> 's" where
  "Proxy_SendSubscribeInfos P remote listenerMap = proxy_put P remote SEND_SUBSCRIBE_INFOS
     [(Marshalling_listeners P listenerMap, DP_WRITE_PARCEL_FAIL)]"

definition Proxy_SubscribeDeviceProfileInited ::
  "'p Parcel \<Rightarrow> ('p, 's) remote option \<Rightarrow> int \<Rightarrow> nat option \<Rightarrow> 's \<Rightarrow> dp_ret \<times> 's" where
  "Proxy_SubscribeDeviceProfileInited P remote saId callback = proxy_put P remote SUBSCRIBE_DEVICE_PROFILE_INITED
     [(WInt P Int32 saId, pa_errFlatten P),
      (WRemote P callback, pa_errFlatten P)]"

definition Proxy_UnSubscribeDeviceProfileInited ::
  "'p Parcel \<Rightarrow> ('p, 's) remote option \<Rightarrow> int \<Rightarrow> 's \<Rightarrow> dp_ret \<times> 's" where
  "Proxy_UnSubscribeDeviceProfileInited P remote saId = proxy_put P remote UNSUBSCRIBE_DEVICE_PROFILE_INITED
     [(WInt P Int32 saId, pa_errFlatten P)]"

definition Proxy_PutAllTrustedDevices ::
  "'p Parcel \<Rightarrow> ('p, 's) remote option \<Rightarrow> TrustedDeviceInfo list \<Rightarrow> 's \<Rightarrow> dp_ret \<times> 's" where
  "Proxy_PutAllTrustedDevices P remote infos = proxy_put P remote PUT_ALL_TRUSTED_DEVICES
     [(Marshalling_trusted P infos, DP_WRITE_PARCEL_FAIL)]"

definition Proxy_PutLocalServiceInfo ::
  "'p Parcel \<Rightarrow> ('p, 's) remote option \<Rightarrow> LocalServiceInfo \<Rightarrow> 's \<Rightarrow> dp_ret \<times> 's" where
  "Proxy_PutLocalServiceInfo P remote info = proxy_put P remote PUT_LOCAL_SERVICE_INFO
     [(LocalServiceInfo_Marshalling P info, DP_WRITE_PARCEL_FAIL)]"

definition Proxy_UpdateLocalServiceInfo ::
  "'p Parcel \<Rightarrow> ('p, 's) remote option \<Rightarrow> LocalServiceInfo \<Rightarrow> 's \<Rightarrow> dp_ret \<times> 's" where
  "Proxy_UpdateLocalServiceInfo P remote info = proxy_put P remote UPDATE_LOCAL_SERVICE_INFO
     [(LocalServiceInfo_Marshalling P info, DP_WRITE_PARCEL_FAIL)]"

definition Proxy_GetLocalServiceInfoByBundleAndPinType ::
  "'p Parcel \<Rightarrow> ('p, 's) remote option \<Rightarrow> string \<Rightarrow> int \<Rightarrow> LocalServiceInfo \<Rightarrow> 's \<Rightarrow> (dp_ret \<times> LocalServiceInfo) \<times> 's" where
  "Proxy_GetLocalServiceInfoByBundleAndPinType P remote bundleName pinExchangeType x = proxy_get P remote GET_LOCAL_SERVICE_INFO_BY_BINDLE_AND_PINTYPE
     [(WString P bundleName, pa_errFlatten P),
      (WInt P Int32 pinExchangeType, pa_errFlatten P)]
     (LocalServiceInfo_UnMarshalling P) (DP_READ_PARCEL_FAIL) x"

definition Proxy_DeleteLocalServiceInfo ::
  "'p Parcel \<Rightarrow> ('p, 's) remote option \<Rightarrow> string \<Rightarrow> int \<Rightarrow> 's \<Rightarrow> dp_ret \<times> 's" where
  "Proxy_DeleteLocalServiceInfo P remote bundleName pinExchangeType = proxy_put P remote DELETE_LOCAL_SERVICE_INFO
     [(WString P bundleName, pa_errFlatten P),
      (WInt P Int32 pinExchangeType, pa_errFlatten P)]"

definition Proxy_PutDeviceProfileBatch ::
  "'p Parcel \<Rightarrow> ('p, 's) remote option \<Rightarrow> DeviceProfile list \<Rightarrow> 's \<Rightarrow> dp_ret \<times> 's" where
  "Proxy_PutDeviceProfileBatch P remote ps = proxy_put P remote PUT_DEVICE_PROFILE_BATCH
     [(Marshalling_devices P ps, DP_WRITE_PARCEL_FAIL)]"

definition Proxy_GetDeviceProfiles ::
  "'p Parcel \<Rightarrow> ('p, 's) remote option \<Rightarrow> DeviceProfileFilterOptions \<Rightarrow> DeviceProfile list \<Rightarrow> 's \<Rightarrow> (dp_ret \<times> DeviceProfile list) \<times> 's" where
  "Proxy_GetDeviceProfiles P remote options x = proxy_get P remote GET_DEVICE_PROFILES
     [(DeviceProfileFilterOptions_Marshalling P options, DP_WRITE_PARCEL_FAIL)]
     (UnMarshalling_devices P) (DP_READ_PARCEL_FAIL) x"

definition Proxy_SubscribePinCodeInvalid ::
  "'p Parcel \<Rightarrow> ('p, 's) remote option \<Rightarrow> string \<Rightarrow> int \<Rightarrow> nat option \<Rightarrow> 's \<Rightarrow> dp_ret \<times> 's" where
  "Proxy_SubscribePinCodeInvalid P remote bundleName pinExchangeType callback = proxy_put P remote SUBSCRIBE_PINCODE_INVALID
     [(WString P bundleName, pa_errFlatten P),
      (WInt P Int32 pinExchangeType, pa_errFlatten P),
      (WRemote P callback, pa_errFlatten P)]"

definition Proxy_UnSubscribePinCodeInvalid ::
  "'p Parcel \<Rightarrow> ('p, 's) remote option \<Rightarrow> string \<Rightarrow> int \<Rightarrow> 's \<Rightarrow> dp_ret \<times> 's" where
  "Proxy_UnSubscribePinCodeInvalid P remote bundleName pinExchangeType = proxy_put P remote UNSUBSCRIBE_PINCODE_INVALID
     [(WString P bundleName, pa_errFlatten P),
      (WInt P Int32 pinExchangeType, pa_errFlatten P)]"

definition Proxy_PutProductInfoBatch ::
  "'p Parcel \<Rightarrow> ('p, 's) remote option \<Rightarrow> ProductInfo list \<Rightarrow> 's \<Rightarrow> dp_ret \<times> 's" where
  "Proxy_PutProductInfoBatch P remote infos = proxy_put P remote PUT_PRODUCT_INFO_BATCH
     [(Marshalling_products P infos, DP_WRITE_PARCEL_FAIL)]"

definition Proxy_PutDeviceIconInfoBatch ::
  "'p Parcel \<Rightarrow> ('p, 's) remote option \<Rightarrow> DeviceIconInfo list \<Rightarrow> 's \<Rightarrow> dp_ret \<times> 's" where
  "Proxy_PutDeviceIconInfoBatch P remote infos = proxy_put P remote PUT_DEVICE_ICON_INFO_BATCH
     [(Marshalling_icons P infos, DP_WRITE_PARCEL_FAIL)]"

definition Proxy_GetDeviceIconInfos ::
  "'p Parcel \<Rightarrow> ('p, 's) remote option \<Rightarrow> DeviceIconInfoFilterOptions \<Rightarrow> DeviceIconInfo list \<Rightarrow> 's \<Rightarrow> (dp_ret \<times> DeviceIconInfo list) \<times> 's" where
  "Proxy_GetDeviceIconInfos P remote options x = proxy_get P remote GET_DEVICE_ICON_INFOS
     [(DeviceIconInfoFilterOptions_Marshalling P options, DP_WRITE_PARCEL_FAIL)]
     (UnMarshalling_icons P) (DP_WRITE_PARCEL_FAIL) x"

definition Proxy_DeleteDeviceProfileBatch ::
  "'p Parcel \<Rightarrow> ('p, 's) remote option \<Rightarrow> DeviceProfile list \<Rightarrow> 's \<Rightarrow> dp_ret \<times> 's" where
  "Proxy_DeleteDeviceProfileBatch P remote ps = proxy_put P remote DELETE_DEVICE_PROFILE_BATCH
     [(Marshalling_devices P ps, DP_WRITE_PARCEL_FAIL)]"

definition Proxy_RegisterBusinessCallback ::
  "'p Parcel \<Rightarrow> ('p, 's) remote option \<Rightarrow> string \<Rightarrow> string \<Rightarrow> nat option \<Rightarrow> 's \<Rightarrow> dp_ret \<times> 's" where
  "Proxy_RegisterBusinessCallback P remote saId businessKey callback = proxy_put P remote REGISTER_BUSINESS_CALLBACK
     [(WString P saId, pa_errFlatten P),
      (WString P businessKey, pa_errFlatten P),
      (WRemote P callback, pa_errFlatten P)]"

definition Proxy_UnRegisterBusinessCallback ::
  "'p Parcel \<Rightarrow> ('p, 's) remote option \<Rightarrow> string \<Rightarrow> string \<Rightarrow> 's \<Rightarrow> dp_ret \<times> 's" where
  "Proxy_UnRegisterBusinessCallback P remote saId businessKey = proxy_put P remote UNREGISTER_BUSINESS_CALLBACK
     [(WString P saId, pa_errFlatten P),
      (WString P businessKey, pa_errFlatten P)]"

definition Proxy_PutBusinessEvent ::
  "'p Parcel \<Rightarrow> ('p, 's) remote option \<Rightarrow> BusinessEvent \<Rightarrow> 's \<Rightarrow> dp_ret \<times> 's" where
  "Proxy_PutBusinessEvent P remote event = proxy_put P remote PUT_BUSINESS_EVENT
     [(BusinessEvent_Marshalling P event, DP_WRITE_PARCEL_FAIL)]"

definition Proxy_GetBusinessEvent ::
  "'p Parcel \<Rightarrow> ('p, 's) remote option \<Rightarrow> BusinessEvent \<Rightarrow> 's \<Rightarrow> (dp_ret \<times> BusinessEvent) \<times> 's" where
  "Proxy_GetBusinessEvent P remote x = proxy_get P remote GET_BUSINESS_EVENT
     [(BusinessEvent_Marshalling P x, DP_WRITE_PARCEL_FAIL)] (BusinessEvent_UnMarshalling P) DP_READ_PARCEL_FAIL x"

definition Proxy_PutServiceInfo ::
  "'p Parcel \<Rightarrow> ('p, 's) remote option \<Rightarrow> ServiceInfo \<Rightarrow> 's \<Rightarrow> dp_ret \<times> 's" where
  "Proxy_PutServiceInfo P remote info = proxy_put P remote PUT_SERVICE_INFO
     [(ServiceInfo_Marshalling P info, DP_WRITE_PARCEL_FAIL)]"

definition Proxy_DeleteServiceInfo ::
  "'p Parcel \<Rightarrow> ('p, 's) remote option \<Rightarrow> UserInfo \<Rightarrow> 's \<Rightarrow> dp_ret \<times> 's" where
  "Proxy_DeleteServiceInfo P remote userInfo = proxy_put P remote DELETE_SERVICE_INFO
     [(UserInfo_Marshalling P userInfo, DP_WRITE_PARCEL_FAIL)]"

definition Proxy_GetAllServiceInfoList ::
  "'p Parcel \<Rightarrow> ('p, 's) remote option \<Rightarrow> ServiceInfo list \<Rightarrow> 's \<Rightarrow> (dp_ret \<times> ServiceInfo list) \<times> 's" where
  "Proxy_GetAllServiceInfoList P remote  x = proxy_get P remote GET_ALL_SERVICE_INFO_LIST
     []
     (UnMarshalling_serviceInfos P) (DP_READ_PARCEL_FAIL) x"

definition Proxy_GetServiceInfosByUserInfo ::
  "'p Parcel \<Rightarrow> ('p, 's) remote option \<Rightarrow> UserInfo \<Rightarrow> ServiceInfo list \<Rightarrow> 's \<Rightarrow> (dp_ret \<times> ServiceInfo list) \<times> 's" where
  "Proxy_GetServiceInfosByUserInfo P remote userInfo x = proxy_get P remote GET_SERVICE_INFO_BY_USER_INFO
     [(UserInfo_Marshalling P userInfo, DP_WRITE_PARCEL_FAIL)]
     (UnMarshalling_serviceInfos P) (DP_READ_PARCEL_FAIL) x"

definition Proxy_SubscribeAllServiceInfo ::
  "'p Parcel \<Rightarrow> ('p, 's) remote option \<Rightarrow> int \<Rightarrow> nat option \<Rightarrow> 's \<Rightarrow> dp_ret \<times> 's" where
  "Proxy_SubscribeAllServiceInfo P remote saId listener = proxy_put P remote SUBSCRIBE_SERVICE_INFO_CALLBACK
     [(WInt P Int32 saId, pa_errFlatten P),
      (WRemote P listener, pa_errFlatten P)]"

end
