(* ===== verification/IpcStub.thy ===== *)
theory IpcStub
  imports IpcProxy
begin

text \<open>
  The handlers of \<open>DistributedDeviceProfileStubNew\<close> and the dispatch of a request to them. A handler
  reads its arguments in turn; the first that cannot be read ends it with a code and the service is
  not called.
\<close>

section \<open>Reading the arguments\<close>

type_synonym ('p, 'a) rd = "'p \<Rightarrow> (dp_ret + 'a) \<times> 'p"

definition rd_unit :: "'a \<Rightarrow> ('p, 'a) rd" where
  "rd_unit a p = (Inr a, p)"

definition rd_pair :: "('p, 'a) rd \<Rightarrow> ('p, 'b) rd \<Rightarrow> ('p, 'a \<times> 'b) rd" where
  "rd_pair f g p = (case f p of
       (Inl e, p) \<Rightarrow> (Inl e, p)
     | (Inr a, p) \<Rightarrow> (case g p of (Inl e, p) \<Rightarrow> (Inl e, p) | (Inr b, p) \<Rightarrow> (Inr (a, b), p)))"

definition rd_obj :: "('p, 'x) reader \<Rightarrow> 'x \<Rightarrow> dp_ret \<Rightarrow> ('p, 'x) rd" where
  "rd_obj r d fail p = (let ((ok, x), p) = r d p in (if ok then Inr x else Inl fail, p))"

text \<open>\<open>READ_HELPER\<close>.\<close>

definition rd_helper :: "'p Parcel \<Rightarrow> ('p \<Rightarrow> 'v option \<times> 'p) \<Rightarrow> ('p, 'v) rd" where
  "rd_helper P f p = (case f p of (None, p) \<Rightarrow> (Inl (pa_errFlatten P), p) | (Some v, p) \<Rightarrow> (Inr v, p))"

abbreviation rd_int :: "'p Parcel \<Rightarrow> int_kind \<Rightarrow> ('p, int) rd" where
  "rd_int P k \<equiv> rd_helper P (ReadInt P k)"

abbreviation rd_string :: "'p Parcel \<Rightarrow> ('p, string) rd" where
  "rd_string P \<equiv> rd_helper P (ReadString P)"

abbreviation rd_bool :: "'p Parcel \<Rightarrow> ('p, bool) rd" where
  "rd_bool P \<equiv> rd_helper P (ReadBool P)"

definition rd_remote :: "'p Parcel \<Rightarrow> ('p, nat option) rd" where
  "rd_remote P p = (let (l, p) = ReadRemote P p in (Inr l, p))"

definition rd_remote_object :: "'p Parcel \<Rightarrow> ('p, nat option) rd" where
  "rd_remote_object P p = (let (l, p) = ReadRemote P p in (if l = None then Inl (pa_errFlatten P) else Inr l, p))"

section \<open>Handlers\<close>

definition stub_put ::
  "'p Parcel \<Rightarrow> ('p, 'a) rd \<Rightarrow> ('a \<Rightarrow> 's \<Rightarrow> dp_ret \<times> 's) \<Rightarrow> dp_ret \<Rightarrow> ('p, 's) handler" where
  "stub_put P rd f fail data reply s =
     (case rd data of
        (Inl e, _) \<Rightarrow> ((e, reply), s)
      | (Inr a, _) \<Rightarrow>
          let (ret, s) = f a s; (ok, reply) = WInt P Int32 ret reply
          in ((if ok then DP_SUCCESS else fail, reply), s))"

definition stub_get ::
  "'p Parcel \<Rightarrow> ('p, 'a) rd \<Rightarrow> ('a \<Rightarrow> 's \<Rightarrow> (dp_ret \<times> 'x) \<times> 's) \<Rightarrow> dp_ret \<Rightarrow> ('x \<Rightarrow> 'p writer) \<Rightarrow> dp_ret \<Rightarrow>
   ('p, 's) handler" where
  "stub_get P rd f fail w outFail data reply s =
     (case rd data of
        (Inl e, _) \<Rightarrow> ((e, reply), s)
      | (Inr a, _) \<Rightarrow>
          let ((ret, x), s) = f a s; (ok, reply) = WInt P Int32 ret reply in
          if \<not> ok then ((fail, reply), s)
          else let (ok, reply) = w x reply in ((if ok then DP_SUCCESS else outFail, reply), s))"

definition PutAccessControlProfileInner :: "'p Parcel \<Rightarrow> 's IDistributedDeviceProfile \<Rightarrow> ('p, 's) handler" where
  "PutAccessControlProfileInner P svc = stub_put P (rd_obj (AccessControlProfile_UnMarshalling P) AccessControlProfile_default DP_READ_PARCEL_FAIL)
     (svc_PutAccessControlProfile svc) (DP_WRITE_PARCEL_FAIL)"

definition UpdateAccessControlProfileInner :: "'p Parcel \<Rightarrow> 's IDistributedDeviceProfile \<Rightarrow> ('p, 's) handler" where
  "UpdateAccessControlProfileInner P svc = stub_put P (rd_obj (AccessControlProfile_UnMarshalling P) AccessControlProfile_default DP_READ_PARCEL_FAIL)
     (svc_UpdateAccessControlProfile svc) (pa_errFlatten P)"

definition GetTrustDeviceProfileInner :: "'p Parcel \<Rightarrow> 's IDistributedDeviceProfile \<Rightarrow> ('p, 's) handler" where
  "GetTrustDeviceProfileInner P svc = stub_get P (rd_string P)
     (\<lambda>deviceId. svc_GetTrustDeviceProfile svc deviceId TrustDeviceProfile_default) (pa_errFlatten P) (TrustDeviceProfile_Marshalling P) (DP_WRITE_PARCEL_FAIL)"

definition GetAllTrustDeviceProfileInner :: "'p Parcel \<Rightarrow> 's IDistributedDeviceProfile \<Rightarrow> ('p, 's) handler" where
  "GetAllTrustDeviceProfileInner P svc = stub_get P (rd_unit ())
     (\<lambda>_. svc_GetAllTrustDeviceProfile svc []) (pa_errFlatten P) (Marshalling_trustDevices P) (DP_READ_PARCEL_FAIL)"

definition GetAccessControlProfileInner :: "'p Parcel \<Rightarrow> 's IDistributedDeviceProfile \<Rightarrow> ('p, 's) handler" where
  "GetAccessControlProfileInner P svc = stub_get P (rd_obj (UnMarshalling_params P) [] DP_READ_PARCEL_FAIL)
     (\<lambda>params. svc_GetAccessControlProfile svc params []) (pa_errFlatten P) (Marshalling_acls P) (DP_WRITE_PARCEL_FAIL)"

definition GetAllAccessControlProfileInner :: "'p Parcel \<Rightarrow> 's IDistributedDeviceProfile \<Rightarrow> ('p, 's) handler" where
  "GetAllAccessControlProfileInner P svc = stub_get P (rd_unit ())
     (\<lambda>_. svc_GetAllAccessControlProfile svc []) (pa_errFlatten P) (Marshalling_acls P) (DP_WRITE_PARCEL_FAIL)"

definition GetAllAclIncludeLnnAclInner :: "'p Parcel \<Rightarrow> 's IDistributedDeviceProfile \<Rightarrow> ('p, 's) handler" where
  "GetAllAclIncludeLnnAclInner P svc = stub_get P (rd_unit ())
     (\<lambda>_. svc_GetAllAclIncludeLnnAcl svc []) (pa_errFlatten P) (Marshalling_acls P) (DP_WRITE_PARCEL_FAIL)"

definition DeleteAccessControlProfileInner :: "'p Parcel \<Rightarrow> 's IDistributedDeviceProfile \<Rightarrow> ('p, 's) handler" where
  "DeleteAccessControlProfileInner P svc = stub_put P (rd_int P Int32)
     (svc_DeleteAccessControlProfile svc) (pa_errFlatten P)"

definition PutSessionKeyInner :: "'p Parcel \<Rightarrow> 's IDistributedDeviceProfile \<Rightarrow> ('p, 's) handler" where
  "PutSessionKeyInner P svc = stub_get P (rd_pair (rd_int P Uint32) (rd_obj (UnMarshalling_bytes P) [] DP_WRITE_PARCEL_FAIL))
     (\<lambda>(userId, sessionKey). svc_PutSessionKey svc userId sessionKey 0) (DP_WRITE_PARCEL_FAIL) (WInt P Int32) (pa_errFlatten P)"

definition GetSessionKeyInner :: "'p Parcel \<Rightarrow> 's IDistributedDeviceProfile \<Rightarrow> ('p, 's) handler" where
  "GetSessionKeyInner P svc = stub_get P (rd_pair (rd_int P Uint32) (rd_int P Int32))
     (\<lambda>(userId, sessionKeyId). svc_GetSessionKey svc userId sessionKeyId []) (DP_WRITE_PARCEL_FAIL) (Marshalling_bytes P) (DP_WRITE_PARCEL_FAIL)"

definition GetSessionKeyBySessionKeyIdInner :: "'p Parcel \<Rightarrow> 's IDistributedDeviceProfile \<Rightarrow> ('p, 's) handler" where
  "GetSessionKeyBySessionKeyIdInner P svc = stub_get P (rd_int P Int32)
     (\<lambda>sessionKeyId. svc_GetSessionKeyBySessionKeyId svc sessionKeyId []) (DP_WRITE_PARCEL_FAIL) (Marshalling_bytes P) (DP_WRITE_PARCEL_FAIL)"

definition UpdateSessionKeyInner :: "'p Parcel \<Rightarrow> 's IDistributedDeviceProfile \<Rightarrow> ('p, 's) handler" where
  "UpdateSessionKeyInner P svc = stub_put P (rd_pair (rd_int P Uint32) (rd_pair (rd_int P Int32) (rd_obj (UnMarshalling_bytes P) [] DP_WRITE_PARCEL_FAIL)))
     (\<lambda>(userId, sessionKeyId, sessionKey). svc_UpdateSessionKey svc userId sessionKeyId sessionKey) (DP_WRITE_PARCEL_FAIL)"

definition DeleteSessionKeyInner :: "'p Parcel \<Rightarrow> 's IDistributedDeviceProfile \<Rightarrow> ('p, 's) handler" where
  "DeleteSessionKeyInner P svc = stub_put P (rd_pair (rd_int P Uint32) (rd_int P Int32))
     (\<lambda>(userId, sessionKeyId). svc_DeleteSessionKey svc userId sessionKeyId) (DP_WRITE_PARCEL_FAIL)"

definition PutServiceProfileInner :: "'p Parcel \<Rightarrow> 's IDistributedDeviceProfile \<Rightarrow> ('p, 's) handler" where
  "PutServiceProfileInner P svc = stub_put P (rd_obj (ServiceProfile_UnMarshalling P) ServiceProfile_default DP_READ_PARCEL_FAIL)
     (svc_PutServiceProfile svc) (pa_errFlatten P)"

definition PutServiceProfileBatchInner :: "'p Parcel \<Rightarrow> 's IDistributedDeviceProfile \<Rightarrow> ('p, 's) handler" where
  "PutServiceProfileBatchInner P svc = stub_put P (rd_obj (UnMarshalling_services P) [] DP_READ_PARCEL_FAIL)
     (svc_PutServiceProfileBatch svc) (pa_errFlatten P)"

definition PutCharacteristicProfileInner :: "'p Parcel \<Rightarrow> 's IDistributedDeviceProfile \<Rightarrow> ('p, 's) handler" where
  "PutCharacteristicProfileInner P svc = stub_put P (rd_obj (CharacteristicProfile_UnMarshalling P) CharacteristicProfile_default DP_READ_PARCEL_FAIL)
     (svc_PutCharacteristicProfile svc) (pa_errFlatten P)"

definition PutCharacteristicProfileBatchInner :: "'p Parcel \<Rightarrow> 's IDistributedDeviceProfile \<Rightarrow> ('p, 's) handler" where
  "PutCharacteristicProfileBatchInner P svc = stub_put P (rd_obj (UnMarshalling_chars P) [] DP_READ_PARCEL_FAIL)
     (svc_PutCharacteristicProfileBatch svc) (pa_errFlatten P)"

definition GetDeviceProfileInner :: "'p Parcel \<Rightarrow> 's IDistributedDeviceProfile \<Rightarrow> ('p, 's) handler" where
  "GetDeviceProfileInner P svc = stub_get P (rd_pair (rd_string P) (rd_pair (rd_bool P) (rd_int P Int32)))
     (\<lambda>(deviceId, isMultiUser, userId). svc_GetDeviceProfile svc deviceId (DeviceProfile_default\<lparr>dp_isMultiUser := isMultiUser, dp_userId := userId\<rparr>))
     (pa_errFlatten P) (DeviceProfile_Marshalling P) DP_WRITE_PARCEL_FAIL"

definition GetServiceProfileInner :: "'p Parcel \<Rightarrow> 's IDistributedDeviceProfile \<Rightarrow> ('p, 's) handler" where
  "GetServiceProfileInner P svc = stub_get P (rd_pair (rd_string P) (rd_pair (rd_string P) (rd_pair (rd_bool P) (rd_int P Int32))))
     (\<lambda>(deviceId, serviceName, isMultiUser, userId). svc_GetServiceProfile svc deviceId serviceName (ServiceProfile_default\<lparr>sp_isMultiUser := isMultiUser, sp_userId := userId\<rparr>))
     (pa_errFlatten P) (ServiceProfile_Marshalling P) DP_WRITE_PARCEL_FAIL"

definition GetCharacteristicProfileInner :: "'p Parcel \<Rightarrow> 's IDistributedDeviceProfile \<Rightarrow> ('p, 's) handler" where
  "GetCharacteristicProfileInner P svc = stub_get P (rd_pair (rd_string P) (rd_pair (rd_string P) (rd_pair (rd_string P) (rd_pair (rd_bool P) (rd_int P Int32)))))
     (\<lambda>(deviceId, serviceName, charKey, isMultiUser, userId). svc_GetCharacteristicProfile svc deviceId serviceName charKey (CharacteristicProfile_default\<lparr>cp_isMultiUser := isMultiUser, cp_userId := userId\<rparr>))
     (pa_errFlatten P) (CharacteristicProfile_Marshalling P) DP_WRITE_PARCEL_FAIL"

definition DeleteServiceProfileInner :: "'p Parcel \<Rightarrow> 's IDistributedDeviceProfile \<Rightarrow> ('p, 's) handler" where
  "DeleteServiceProfileInner P svc = stub_put P (rd_pair (rd_string P) (rd_pair (rd_string P) (rd_pair (rd_bool P) (rd_int P Int32))))
     (\<lambda>(deviceId, serviceName, isMultiUser, userId). svc_DeleteServiceProfile svc deviceId serviceName isMultiUser userId) (pa_errFlatten P)"

definition DeleteCharacteristicProfileInner :: "'p Parcel \<Rightarrow> 's IDistributedDeviceProfile \<Rightarrow> ('p, 's) handler" where
  "DeleteCharacteristicProfileInner P svc = stub_put P (rd_pair (rd_string P) (rd_pair (rd_string P) (rd_pair (rd_string P) (rd_pair (rd_bool P) (rd_int P Int32)))))
     (\<lambda>(deviceId, serviceName, charKey, isMultiUser, userId). svc_DeleteCharacteristicProfile svc deviceId serviceName charKey isMultiUser userId) (pa_errFlatten P)"

definition SubscribeDeviceProfileInner :: "'p Parcel \<Rightarrow> 's IDistributedDeviceProfile \<Rightarrow> ('p, 's) handler" where
  "SubscribeDeviceProfileInner P svc = stub_put P (rd_obj (SubscribeInfo_UnMarshalling P) SubscribeInfo_default DP_READ_PARCEL_FAIL)
     (svc_SubscribeDeviceProfile svc) (pa_errFlatten P)"

definition UnSubscribeDeviceProfileInner :: "'p Parcel \<Rightarrow> 's IDistributedDeviceProfile \<Rightarrow> ('p, 's) handler" where
  "UnSubscribeDeviceProfileInner P svc = stub_put P (rd_obj (SubscribeInfo_UnMarshalling P) SubscribeInfo_default DP_READ_PARCEL_FAIL)
     (svc_UnSubscribeDeviceProfile svc) (pa_errFlatten P)"

definition SyncDeviceProfileInner :: "'p Parcel \<Rightarrow> 's IDistributedDeviceProfile \<Rightarrow> ('p, 's) handler" where
  "SyncDeviceProfileInner P svc = stub_put P (rd_pair (rd_obj (DpSyncOptions_UnMarshalling P) DpSyncOptions_default DP_READ_PARCEL_FAIL) (rd_remote P))
     (\<lambda>(options, callback). svc_SyncDeviceProfile svc options callback) (pa_errFlatten P)"

definition SyncStaticProfileInner :: "'p Parcel \<Rightarrow> 's IDistributedDeviceProfile \<Rightarrow> ('p, 's) handler" where
  "SyncStaticProfileInner P svc = stub_put P (rd_pair (rd_obj (DpSyncOptions_UnMarshalling P) DpSyncOptions_default DP_READ_PARCEL_FAIL) (rd_remote P))
     (\<lambda>(options, callback). svc_SyncStaticProfile svc options callback) (pa_errFlatten P)"

definition SendSubscribeInfosInner :: "'p Parcel \<Rightarrow> 's IDistributedDeviceProfile \<Rightarrow> ('p, 's) handler" where
  "SendSubscribeInfosInner P svc = stub_put P (rd_obj (UnMarshalling_listeners P) [] DP_READ_PARCEL_FAIL)
     (svc_SendSubscribeInfos svc) (pa_errFlatten P)"

definition SubscribeDeviceProfileInitedInner :: "'p Parcel \<Rightarrow> 's IDistributedDeviceProfile \<Rightarrow> ('p, 's) handler" where
  "SubscribeDeviceProfileInitedInner P svc = stub_put P (rd_pair (rd_int P Int32) (rd_remote_object P))
     (\<lambda>(saId, callback). svc_SubscribeDeviceProfileInited svc saId callback) (pa_errFlatten P)"

definition UnSubscribeDeviceProfileInitedInner :: "'p Parcel \<Rightarrow> 's IDistributedDeviceProfile \<Rightarrow> ('p, 's) handler" where
  "UnSubscribeDeviceProfileInitedInner P svc = stub_put P (rd_int P Int32)
     (svc_UnSubscribeDeviceProfileInited svc) (pa_errFlatten P)"

definition PutAllTrustedDevicesInner :: "'p Parcel \<Rightarrow> 's IDistributedDeviceProfile \<Rightarrow> ('p, 's) handler" where
  "PutAllTrustedDevicesInner P svc = stub_put P (rd_obj (UnMarshalling_trusted P) [] DP_READ_PARCEL_FAIL)
     (svc_PutAllTrustedDevices svc) (pa_errFlatten P)"

definition PutLocalServiceInfoInner :: "'p Parcel \<Rightarrow> 's IDistributedDeviceProfile \<Rightarrow> ('p, 's) handler" where
  "PutLocalServiceInfoInner P svc = stub_put P (rd_obj (LocalServiceInfo_UnMarshalling P) LocalServiceInfo_default DP_READ_PARCEL_FAIL)
     (svc_PutLocalServiceInfo svc) (DP_WRITE_PARCEL_FAIL)"

definition UpdateLocalServiceInfoInner :: "'p Parcel \<Rightarrow> 's IDistributedDeviceProfile \<Rightarrow> ('p, 's) handler" where
  "UpdateLocalServiceInfoInner P svc = stub_put P (rd_obj (LocalServiceInfo_UnMarshalling P) LocalServiceInfo_default DP_READ_PARCEL_FAIL)
     (svc_UpdateLocalServiceInfo svc) (DP_WRITE_PARCEL_FAIL)"

definition GetLocalServiceInfoByBundleAndPinTypeInner :: "'p Parcel \<Rightarrow> 's IDistributedDeviceProfile \<Rightarrow> ('p, 's) handler" where
  "GetLocalServiceInfoByBundleAndPinTypeInner P svc = stub_get P (rd_pair (rd_string P) (rd_int P Int32))
     (\<lambda>(bundleName, pinExchangeType). svc_GetLocalServiceInfoByBundleAndPinType svc bundleName pinExchangeType LocalServiceInfo_default) (pa_errFlatten P) (LocalServiceInfo_Marshalling P) (DP_WRITE_PARCEL_FAIL)"

definition DeleteLocalServiceInfoInner :: "'p Parcel \<Rightarrow> 's IDistributedDeviceProfile \<Rightarrow> ('p, 's) handler" where
  "DeleteLocalServiceInfoInner P svc = stub_put P (rd_pair (rd_string P) (rd_int P Int32))
     (\<lambda>(bundleName, pinExchangeType). svc_DeleteLocalServiceInfo svc bundleName pinExchangeType) (DP_WRITE_PARCEL_FAIL)"

definition PutDeviceProfileBatchInner :: "'p Parcel \<Rightarrow> 's IDistributedDeviceProfile \<Rightarrow> ('p, 's) handler" where
  "PutDeviceProfileBatchInner P svc = stub_put P (rd_obj (UnMarshalling_devices P) [] DP_READ_PARCEL_FAIL)
     (svc_PutDeviceProfileBatch svc) (pa_errFlatten P)"

definition GetDeviceProfilesInner :: "'p Parcel \<Rightarrow> 's IDistributedDeviceProfile \<Rightarrow> ('p, 's) handler" where
  "GetDeviceProfilesInner P svc = stub_get P (rd_obj (DeviceProfileFilterOptions_UnMarshalling P) DeviceProfileFilterOptions_default DP_READ_PARCEL_FAIL)
     (\<lambda>options. svc_GetDeviceProfiles svc options []) (pa_errFlatten P) (Marshalling_devices P) (DP_WRITE_PARCEL_FAIL)"

definition SubscribePinCodeInvalidInner :: "'p Parcel \<Rightarrow> 's IDistributedDeviceProfile \<Rightarrow> ('p, 's) handler" where
  "SubscribePinCodeInvalidInner P svc = stub_put P (rd_pair (rd_string P) (rd_pair (rd_int P Int32) (rd_remote_object P)))
     (\<lambda>(bundleName, pinExchangeType, callback). svc_SubscribePinCodeInvalid svc bundleName pinExchangeType callback) (pa_errFlatten P)"

definition UnSubscribePinCodeInvalidInner :: "'p Parcel \<Rightarrow> 's IDistributedDeviceProfile \<Rightarrow> ('p, 's) handler" where
  "UnSubscribePinCodeInvalidInner P svc = stub_put P (rd_pair (rd_string P) (rd_int P Int32))
     (\<lambda>(bundleName, pinExchangeType). svc_UnSubscribePinCodeInvalid svc bundleName pinExchangeType) (pa_errFlatten P)"

definition PutProductInfoBatchInner :: "'p Parcel \<Rightarrow> 's IDistributedDeviceProfile \<Rightarrow> ('p, 's) handler" where
  "PutProductInfoBatchInner P svc = stub_put P (rd_obj (UnMarshalling_products P) [] DP_READ_PARCEL_FAIL)
     (svc_PutProductInfoBatch svc) (pa_errFlatten P)"

definition PutDeviceIconInfoBatchInner :: "'p Parcel \<Rightarrow> 's IDistributedDeviceProfile \<Rightarrow> ('p, 's) handler" where
  "PutDeviceIconInfoBatchInner P svc = stub_put P (rd_obj (UnMarshalling_icons P) [] DP_READ_PARCEL_FAIL)
     (svc_PutDeviceIconInfoBatch svc) (pa_errFlatten P)"

definition GetDeviceIconInfosInner :: "'p Parcel \<Rightarrow> 's IDistributedDeviceProfile \<Rightarrow> ('p, 's) handler" where
  "GetDeviceIconInfosInner P svc = stub_get P (rd_obj (DeviceIconInfoFilterOptions_UnMarshalling P) DeviceIconInfoFilterOptions_default DP_READ_PARCEL_FAIL)
     (\<lambda>options. svc_GetDeviceIconInfos svc options []) (pa_errFlatten P) (Marshalling_icons P) (DP_READ_PARCEL_FAIL)"

definition DeleteDeviceProfileBatchInner :: "'p Parcel \<Rightarrow> 's IDistributedDeviceProfile \<Rightarrow> ('p, 's) handler" where
  "DeleteDeviceProfileBatchInner P svc = stub_put P (rd_obj (UnMarshalling_devices P) [] DP_READ_PARCEL_FAIL)
     (svc_DeleteDeviceProfileBatch svc) (pa_errFlatten P)"

definition RegisterBusinessCallbackInner :: "'p Parcel \<Rightarrow> 's IDistributedDeviceProfile \<Rightarrow> ('p, 's) handler" where
  "RegisterBusinessCallbackInner P svc = stub_put P (rd_pair (rd_string P) (rd_pair (rd_string P) (rd_remote_object P)))
     (\<lambda>(saId, businessKey, callback). svc_RegisterBusinessCallback svc saId businessKey callback) (pa_errFlatten P)"

definition UnRegisterBusinessCallbackInner :: "'p Parcel \<Rightarrow> 's IDistributedDeviceProfile \<Rightarrow> ('p, 's) handler" where
  "UnRegisterBusinessCallbackInner P svc = stub_put P (rd_pair (rd_string P) (rd_string P))
     (\<lambda>(saId, businessKey). svc_UnRegisterBusinessCallback svc saId businessKey) (pa_errFlatten P)"

definition PutBusinessEventInner :: "'p Parcel \<Rightarrow> 's IDistributedDeviceProfile \<Rightarrow> ('p, 's) handler" where
  "PutBusinessEventInner P svc = stub_put P (rd_obj (BusinessEvent_UnMarshalling P) BusinessEvent_default DP_READ_PARCEL_FAIL)
     (svc_PutBusinessEvent svc) (DP_WRITE_PARCEL_FAIL)"

definition GetBusinessEventInner :: "'p Parcel \<Rightarrow> 's IDistributedDeviceProfile \<Rightarrow> ('p, 's) handler" where
  "GetBusinessEventInner P svc = stub_get P (rd_obj (BusinessEvent_UnMarshalling P) BusinessEvent_default DP_READ_PARCEL_FAIL) (svc_GetBusinessEvent svc)
     (DP_WRITE_PARCEL_FAIL) (BusinessEvent_Marshalling P) DP_WRITE_PARCEL_FAIL"

definition PutServiceInfoInner :: "'p Parcel \<Rightarrow> 's IDistributedDeviceProfile \<Rightarrow> ('p, 's) handler" where
  "PutServiceInfoInner P svc = stub_put P (rd_obj (ServiceInfo_UnMarshalling P) ServiceInfo_default DP_READ_PARCEL_FAIL)
     (svc_PutServiceInfo svc) (DP_WRITE_PARCEL_FAIL)"

definition DeleteServiceInfoInner :: "'p Parcel \<Rightarrow> 's IDistributedDeviceProfile \<Rightarrow> ('p, 's) handler" where
  "DeleteServiceInfoInner P svc = stub_put P (rd_obj (UserInfo_UnMarshalling P) UserInfo_default DP_READ_PARCEL_FAIL)
     (svc_DeleteServiceInfo svc) (pa_errFlatten P)"

definition GetAllServiceInfoListInner :: "'p Parcel \<Rightarrow> 's IDistributedDeviceProfile \<Rightarrow> ('p, 's) handler" where
  "GetAllServiceInfoListInner P svc = stub_get P (rd_unit ())
     (\<lambda>_. svc_GetAllServiceInfoList svc []) (pa_errFlatten P) (Marshalling_serviceInfos P) (DP_READ_PARCEL_FAIL)"

definition GetServiceInfosByUserInfoInner :: "'p Parcel \<Rightarrow> 's IDistributedDeviceProfile \<Rightarrow> ('p, 's) handler" where
  "GetServiceInfosByUserInfoInner P svc = stub_get P (rd_obj (UserInfo_UnMarshalling P) UserInfo_default DP_READ_PARCEL_FAIL)
     (\<lambda>userInfo. svc_GetServiceInfosByUserInfo svc userInfo []) (pa_errFlatten P) (Marshalling_serviceInfos P) (DP_READ_PARCEL_FAIL)"

definition SubscribeAllServiceInfoInner :: "'p Parcel \<Rightarrow> 's IDistributedDeviceProfile \<Rightarrow> ('p, 's) handler" where
  "SubscribeAllServiceInfoInner P svc = stub_put P (rd_pair (rd_int P Int32) (rd_remote_object P))
     (\<lambda>(saId, listener). svc_SubscribeAllServiceInfo svc saId listener) (pa_errFlatten P)"

section \<open>Dispatch\<close>

definition aclAndSubscribeFuncs :: "int list" where
  "aclAndSubscribeFuncs =
     [PUT_ACL_PROFILE, UPDATE_ACL_PROFILE, GET_TRUST_DEVICE_PROFILE,
      GET_ALL_TRUST_DEVICE_PROFILE, GET_ACL_PROFILE, GET_ALL_ACL_PROFILE,
      GET_ALL_ACL_INCLUDE_LNN_ACL, DELETE_ACL_PROFILE, SUBSCRIBE_DEVICE_PROFILE,
      UNSUBSCRIBE_DEVICE_PROFILE, SEND_SUBSCRIBE_INFOS, PUT_SERVICE_PROFILE,
      PUT_SERVICE_PROFILE_BATCH, PUT_CHAR_PROFILE, PUT_CHAR_PROFILE_BATCH,
      SUBSCRIBE_DEVICE_PROFILE_INITED, UNSUBSCRIBE_DEVICE_PROFILE_INITED, PUT_ALL_TRUSTED_DEVICES,
      PUT_DEVICE_PROFILE_BATCH, GET_DEVICE_PROFILES, DELETE_DEVICE_PROFILE_BATCH,
      GET_DEVICE_ICON_INFOS, PUT_DEVICE_ICON_INFO_BATCH, PUT_PRODUCT_INFO_BATCH,
      PUT_SESSION_KEY, GET_SESSION_KEY, UPDATE_SESSION_KEY,
      DELETE_SESSION_KEY, SUBSCRIBE_PINCODE_INVALID, UNSUBSCRIBE_PINCODE_INVALID,
      SUBSCRIBE_SERVICE_INFO_CALLBACK, PUT_SERVICE_INFO, DELETE_SERVICE_INFO,
      GET_ALL_SERVICE_INFO_LIST, GET_SERVICE_INFO_BY_USER_INFO, GET_SESSION_KEY_BY_SESSIONKEYID]"

text \<open>A switch is a table with a default; \<open>other\<close> is the handler of the framework.\<close>

definition NotifyServiceInfoEventInner ::
  "'p Parcel \<Rightarrow> 's IDistributedDeviceProfile \<Rightarrow> ('p, 's) remote \<Rightarrow> ('p, 's) remote" where
  "NotifyServiceInfoEventInner P svc other code =
     (case map_of
        [(SUBSCRIBE_SERVICE_INFO_CALLBACK, SubscribeAllServiceInfoInner P svc),
         (PUT_SERVICE_INFO, PutServiceInfoInner P svc),
         (DELETE_SERVICE_INFO, DeleteServiceInfoInner P svc),
         (GET_ALL_SERVICE_INFO_LIST, GetAllServiceInfoListInner P svc),
         (GET_SERVICE_INFO_BY_USER_INFO, GetServiceInfosByUserInfoInner P svc)] code of
        None \<Rightarrow> other code
      | Some h \<Rightarrow> h)"

definition NotifyProfileDataEventInner ::
  "'p Parcel \<Rightarrow> 's IDistributedDeviceProfile \<Rightarrow> ('p, 's) remote \<Rightarrow> ('p, 's) remote" where
  "NotifyProfileDataEventInner P svc other code =
     (case map_of
        [(SUBSCRIBE_DEVICE_PROFILE, SubscribeDeviceProfileInner P svc),
         (UNSUBSCRIBE_DEVICE_PROFILE, UnSubscribeDeviceProfileInner P svc),
         (SEND_SUBSCRIBE_INFOS, SendSubscribeInfosInner P svc),
         (PUT_SERVICE_PROFILE, PutServiceProfileInner P svc),
         (PUT_SERVICE_PROFILE_BATCH, PutServiceProfileBatchInner P svc),
         (PUT_CHAR_PROFILE, PutCharacteristicProfileInner P svc),
         (PUT_CHAR_PROFILE_BATCH, PutCharacteristicProfileBatchInner P svc),
         (SUBSCRIBE_DEVICE_PROFILE_INITED, SubscribeDeviceProfileInitedInner P svc),
         (UNSUBSCRIBE_DEVICE_PROFILE_INITED, UnSubscribeDeviceProfileInitedInner P svc),
         (PUT_ALL_TRUSTED_DEVICES, PutAllTrustedDevicesInner P svc),
         (PUT_DEVICE_PROFILE_BATCH, PutDeviceProfileBatchInner P svc),
         (GET_DEVICE_PROFILES, GetDeviceProfilesInner P svc),
         (GET_DEVICE_ICON_INFOS, GetDeviceIconInfosInner P svc),
         (PUT_DEVICE_ICON_INFO_BATCH, PutDeviceIconInfoBatchInner P svc),
         (PUT_PRODUCT_INFO_BATCH, PutProductInfoBatchInner P svc),
         (DELETE_DEVICE_PROFILE_BATCH, DeleteDeviceProfileBatchInner P svc),
         (SUBSCRIBE_PINCODE_INVALID, SubscribePinCodeInvalidInner P svc),
         (UNSUBSCRIBE_PINCODE_INVALID, UnSubscribePinCodeInvalidInner P svc)] code of
        None \<Rightarrow> NotifyServiceInfoEventInner P svc other code
      | Some h \<Rightarrow> h)"

definition NotifyAclEventInner ::
  "'p Parcel \<Rightarrow> 's IDistributedDeviceProfile \<Rightarrow> ('p, 's) remote \<Rightarrow> ('p, 's) remote" where
  "NotifyAclEventInner P svc other code =
     (case map_of
        [(PUT_ACL_PROFILE, PutAccessControlProfileInner P svc),
         (UPDATE_ACL_PROFILE, UpdateAccessControlProfileInner P svc),
         (GET_TRUST_DEVICE_PROFILE, GetTrustDeviceProfileInner P svc),
         (GET_ALL_TRUST_DEVICE_PROFILE, GetAllTrustDeviceProfileInner P svc),
         (GET_ACL_PROFILE, GetAccessControlProfileInner P svc),
         (GET_ALL_ACL_PROFILE, GetAllAccessControlProfileInner P svc),
         (GET_ALL_ACL_INCLUDE_LNN_ACL, GetAllAclIncludeLnnAclInner P svc),
         (DELETE_ACL_PROFILE, DeleteAccessControlProfileInner P svc),
         (PUT_SESSION_KEY, PutSessionKeyInner P svc),
         (GET_SESSION_KEY, GetSessionKeyInner P svc),
         (UPDATE_SESSION_KEY, UpdateSessionKeyInner P svc),
         (DELETE_SESSION_KEY, DeleteSessionKeyInner P svc),
         (GET_SESSION_KEY_BY_SESSIONKEYID, GetSessionKeyBySessionKeyIdInner P svc)] code of
        None \<Rightarrow> NotifyProfileDataEventInner P svc other code
      | Some h \<Rightarrow> h)"

definition NotifyLocalServiceEventInner ::
  "'p Parcel \<Rightarrow> 's IDistributedDeviceProfile \<Rightarrow> ('p, 's) remote \<Rightarrow> ('p, 's) remote" where
  "NotifyLocalServiceEventInner P svc other code =
     (case map_of
        [(PUT_LOCAL_SERVICE_INFO, PutLocalServiceInfoInner P svc),
         (UPDATE_LOCAL_SERVICE_INFO, UpdateLocalServiceInfoInner P svc),
         (GET_LOCAL_SERVICE_INFO_BY_BINDLE_AND_PINTYPE, GetLocalServiceInfoByBundleAndPinTypeInner P svc),
         (DELETE_LOCAL_SERVICE_INFO, DeleteLocalServiceInfoInner P svc),
         (REGISTER_BUSINESS_CALLBACK, RegisterBusinessCallbackInner P svc),
         (UNREGISTER_BUSINESS_CALLBACK, UnRegisterBusinessCallbackInner P svc),
         (PUT_BUSINESS_EVENT, PutBusinessEventInner P svc),
         (GET_BUSINESS_EVENT, GetBusinessEventInner P svc)] code of
        None \<Rightarrow> other code
      | Some h \<Rightarrow> h)"

definition NotifyEventInner ::
  "'p Parcel \<Rightarrow> 's IDistributedDeviceProfile \<Rightarrow> ('p, 's) remote \<Rightarrow> ('p, 's) remote" where
  "NotifyEventInner P svc other code =
     (case map_of
        [(GET_DEVICE_PROFILE_NEW, GetDeviceProfileInner P svc),
         (GET_SERVICE_PROFILE, GetServiceProfileInner P svc),
         (GET_CHAR_PROFILE, GetCharacteristicProfileInner P svc),
         (DEL_SERVICE_PROFILE, DeleteServiceProfileInner P svc),
         (DEL_CHAR_PROFILE, DeleteCharacteristicProfileInner P svc),
         (SYNC_DEVICE_PROFILE_NEW, SyncDeviceProfileInner P svc),
         (SYNC_STATIC_PROFILE, SyncStaticProfileInner P svc)] code of
        None \<Rightarrow> NotifyLocalServiceEventInner P svc other code
      | Some h \<Rightarrow> h)"

definition OnRemoteRequest ::
  "'p Parcel \<Rightarrow> 's IDistributedDeviceProfile \<Rightarrow> ('p, 's) remote \<Rightarrow> ('p, 's) remote" where
  "OnRemoteRequest P svc other code data reply s =
     (if svc_IsStopped svc s then ((DP_SERVICE_STOPPED, reply), s)
      else
        let (exitIdle, s) = svc_ExitIdleState svc s in
        if \<not> exitIdle then ((DP_SERVICE_ON_IDLE, reply), s)
        else
          let s = svc_DelayUnloadTask svc (svc_AddRunningIpcCount svc s); (token, data) = ReadToken P data in
          if token \<noteq> IDistributedDeviceProfile_Descriptor
          then ((DP_INTERFACE_CHECK_FAILED, reply), svc_SubtractRunningIpcCount svc s)
          else if code \<in> set aclAndSubscribeFuncs
          then let (r, s) = NotifyAclEventInner P svc other code data reply s in (r, svc_SubtractRunningIpcCount svc s)
          else if \<not> svc_IsInited svc s then ((DP_LOAD_SERVICE_ERR, reply), svc_SubtractRunningIpcCount svc s)
          else let (r, s) = NotifyEventInner P svc other code data reply s in (r, svc_SubtractRunningIpcCount svc s))"

end
