(* ===== verification/IpcLaws.thy ===== *)
theory IpcLaws
  imports IpcStub
begin

text \<open>
  A call through the proxy over the dispatch of the stub is a call of the service. The argument is made
  once, for any argument list and any handler: the arguments written are the arguments read
  (\<open>sends\<close>, \<open>rd_reads\<close>), a request is dispatched by its code, and the answer written is the answer read.
\<close>

section \<open>Arguments\<close>

text \<open>\<open>G\<close> is what is asked of the parcel before: raw data can be written only once.\<close>

definition sends :: "('p \<Rightarrow> pitem list) \<Rightarrow> (pitem list \<Rightarrow> bool) \<Rightarrow> ('p writer \<times> dp_ret) list \<Rightarrow> pitem list \<Rightarrow> bool" where
  "sends view G args xs \<longleftrightarrow> (\<forall>p. G (view p) \<longrightarrow> (\<exists>p'. write_args args p = (None, p') \<and> view p' = view p @ xs))"

definition rd_reads :: "('p \<Rightarrow> pitem list) \<Rightarrow> ('p, 'a) rd \<Rightarrow> pitem list \<Rightarrow> 'a \<Rightarrow> bool" where
  "rd_reads view rd xs a \<longleftrightarrow> (\<forall>p rest. view p = xs @ rest \<longrightarrow> (\<exists>p'. rd p = (Inr a, p') \<and> view p' = rest))"

abbreviation any_parcel :: "pitem list \<Rightarrow> bool" where
  "any_parcel \<equiv> \<lambda>_. True"

abbreviation no_raw :: "pitem list \<Rightarrow> bool" where
  "no_raw \<equiv> list_all (\<lambda>x. \<not> is_raw x)"

lemma sends_Nil: "sends view G [] []"
  by (simp add: sends_def)

lemma sends_any: "sends view any_parcel args xs \<Longrightarrow> sends view G args xs"
  by (simp add: sends_def)

lemma sends_Cons:
  assumes "writes view w xs" "sends view any_parcel args ys"
  shows "sends view any_parcel ((w, e) # args) (xs @ ys)"
  unfolding sends_def
proof (intro allI impI)
  fix p
  obtain p1 where 1: "w p = (True, p1)" "view p1 = view p @ xs" using assms(1) by (rule writesD)
  moreover obtain p2 where "write_args args p1 = (None, p2)" "view p2 = view p1 @ ys"
    using assms(2) unfolding sends_def by blast
  ultimately show "\<exists>p'. write_args ((w, e) # args) p = (None, p') \<and> view p' = view p @ xs @ ys" by simp
qed

lemma rd_reads_whole:
  assumes "rd_reads view rd xs a" "view p = xs"
  obtains p' where "rd p = (Inr a, p')"
proof -
  from assms(2) have "view p = xs @ []" by simp
  with assms(1) that show thesis unfolding rd_reads_def by blast
qed

lemma reads_whole:
  assumes "reads view r xs d x" "view p = xs"
  obtains p' where "r d p = ((True, x), p')"
proof -
  from assms(2) have "view p = xs @ []" by simp
  with assms(1) that show thesis by (metis readsD)
qed

lemma sends_one:
  assumes "sends view G [(w, e)] xs" "G (view p)"
  obtains p' where "w p = (True, p')" "view p' = view p @ xs"
  using assms unfolding sends_def by (cases "w p") (fastforce split: if_splits)

lemma rd_reads_unit: "rd_reads view (rd_unit a) [] a"
  by (simp add: rd_reads_def rd_unit_def)

lemma rd_reads_pair:
  assumes "rd_reads view f xs a" "rd_reads view g ys b"
  shows "rd_reads view (rd_pair f g) (xs @ ys) (a, b)"
  unfolding rd_reads_def
proof (intro allI impI)
  fix p rest
  assume "view p = (xs @ ys) @ rest"
  then obtain p1 where 1: "f p = (Inr a, p1)" "view p1 = ys @ rest"
    using assms(1) unfolding rd_reads_def by auto
  then obtain p2 where "g p1 = (Inr b, p2)" "view p2 = rest" using assms(2) unfolding rd_reads_def by blast
  with 1 show "\<exists>p'. rd_pair f g p = (Inr (a, b), p') \<and> view p' = rest" by (simp add: rd_pair_def)
qed

lemma rd_reads_more:
  assumes "rd_reads view f [x] a" "rd_reads view g ys b"
  shows "rd_reads view (rd_pair f g) (x # ys) (a, b)"
  using rd_reads_pair [OF assms] by simp

lemma sends_last:
  assumes "writes view w xs"
  shows "sends view G [(w, e)] xs"
  using sends_any [OF sends_Cons [OF assms sends_Nil]] by simp

lemma rd_reads_obj: "reads view r xs d x \<Longrightarrow> rd_reads view (rd_obj r d e) xs x"
  unfolding reads_def rd_reads_def rd_obj_def by fastforce

context roomy_parcel
begin

lemma sends_item:
  assumes "\<not> is_raw x" "sends view G args ys" "\<And>zs. G' zs \<Longrightarrow> G (zs @ [x])"
  shows "sends view G' ((pa_write P x, e) # args) (x # ys)"
  unfolding sends_def
proof (intro allI impI)
  fix p
  assume "G' (view p)"
  obtain p1 where 1: "pa_write P x p = (True, p1)" "view p1 = view p @ [x]"
    using writes_item [OF assms(1)] by (rule writesD)
  moreover obtain p2 where "write_args args p1 = (None, p2)" "view p2 = view p1 @ ys"
    using assms(2,3) \<open>G' (view p)\<close> 1(2) unfolding sends_def by metis
  ultimately show "\<exists>p'. write_args ((pa_write P x, e) # args) p = (None, p') \<and> view p' = view p @ x # ys" by simp
qed

lemma sends_more:
  "\<not> is_raw x \<Longrightarrow> sends view any_parcel args ys \<Longrightarrow> sends view G ((pa_write P x, e) # args) (x # ys)"
  by (rule sends_item [where G = any_parcel]) auto

lemma sends_more_raw:
  "\<not> is_raw x \<Longrightarrow> sends view no_raw args ys \<Longrightarrow> sends view no_raw ((pa_write P x, e) # args) (x # ys)"
  by (rule sends_item [where G = no_raw]) auto

lemma sends_bytes:
  "length bs \<le> MAX_ICON_SIZE \<Longrightarrow> bs \<noteq> [] \<Longrightarrow>
   sends view no_raw [(Marshalling_bytes P bs, e)] [PInt Uint32 (int (length bs)), PRaw bs]"
  unfolding sends_def using bytes_written by fastforce

lemma rd_reads_int: "rd_reads view (rd_int P k) [PInt k i] i"
  unfolding rd_reads_def rd_helper_def using ReadInt_item by fastforce

lemma rd_reads_string: "rd_reads view (rd_string P) [PString s] s"
  unfolding rd_reads_def rd_helper_def using ReadString_item by fastforce

lemma rd_reads_bool: "rd_reads view (rd_bool P) [PBool b] b"
  unfolding rd_reads_def rd_helper_def using ReadBool_item by fastforce

lemma rd_reads_remote: "rd_reads view (rd_remote P) [PRemote l] l"
  unfolding rd_reads_def rd_remote_def using ReadRemote_item by fastforce

lemma rd_reads_remote_object: "l \<noteq> None \<Longrightarrow> rd_reads view (rd_remote_object P) [PRemote l] l"
  unfolding rd_reads_def rd_remote_object_def using ReadRemote_item by fastforce

lemmas rd_reads_items = rd_reads_int rd_reads_string rd_reads_bool rd_reads_remote rd_reads_remote_object

end

section \<open>The service behind the stub\<close>

definition entered :: "'s IDistributedDeviceProfile \<Rightarrow> 's \<Rightarrow> 's" where
  "entered svc s = svc_DelayUnloadTask svc (svc_AddRunningIpcCount svc (snd (svc_ExitIdleState svc s)))"

text \<open>The service runs, leaves its idle state and has its data loaded.\<close>

definition service_ready :: "'s IDistributedDeviceProfile \<Rightarrow> 's \<Rightarrow> bool" where
  "service_ready svc s \<longleftrightarrow>
     \<not> svc_IsStopped svc s \<and> fst (svc_ExitIdleState svc s) \<and> svc_IsInited svc (entered svc s)"

text \<open>A call of the service inside the count of running calls; an out-parameter is set on success only.\<close>

definition in_service :: "'s IDistributedDeviceProfile \<Rightarrow> ('s \<Rightarrow> 'r \<times> 's) \<Rightarrow> 's \<Rightarrow> 'r \<times> 's" where
  "in_service svc f s = (let (r, s) = f (entered svc s) in (r, svc_SubtractRunningIpcCount svc s))"

definition on_success :: "'x \<Rightarrow> ('s \<Rightarrow> (dp_ret \<times> 'x) \<times> 's) \<Rightarrow> 's \<Rightarrow> (dp_ret \<times> 'x) \<times> 's" where
  "on_success d f s = (let ((ret, x), s) = f s in ((ret, if ret = DP_SUCCESS then x else d), s))"

text \<open>What the service answers to a call fits into the answer.\<close>

definition answer_ok :: "('x \<Rightarrow> bool) \<Rightarrow> 's IDistributedDeviceProfile \<Rightarrow> ('s \<Rightarrow> (dp_ret \<times> 'x) \<times> 's) \<Rightarrow> 's \<Rightarrow> bool" where
  "answer_ok ok svc f s \<longleftrightarrow> ok (snd (fst (f (entered svc s))))"

definition dispatch ::
  "'p Parcel \<Rightarrow> 's IDistributedDeviceProfile \<Rightarrow> ('p, 's) remote \<Rightarrow> ('p, 's) remote" where
  "dispatch P svc other code =
     (if code \<in> set aclAndSubscribeFuncs then NotifyAclEventInner P svc other code
      else NotifyEventInner P svc other code)"

context roomy_parcel
begin

lemma request_served:
  assumes "service_ready svc s" "view data = PToken IDistributedDeviceProfile_Descriptor # xs"
    and h: "dispatch P svc other code = h"
  obtains data' where "view data' = xs"
    "OnRemoteRequest P svc other code data reply s = in_service svc (h data' reply) s"
proof -
  obtain data' where 1: "ReadToken P data = (IDistributedDeviceProfile_Descriptor, data')" "view data' = xs"
    using ReadToken_item [OF assms(2)] by blast
  obtain s1 where "svc_ExitIdleState svc s = (True, s1)"
    using assms(1) unfolding service_ready_def by (metis prod.collapse)
  with 1 assms(1) that [of data'] show thesis
    by (simp add: OnRemoteRequest_def service_ready_def in_service_def entered_def dispatch_def h [symmetric] Let_def split: prod.split)
qed

lemma data_written:
  assumes "sends view no_raw args xs"
  obtains data where
    "write_args ((pa_write P (PToken IDistributedDeviceProfile_Descriptor), e) # args) (pa_new P) = (None, data)"
    "view data = PToken IDistributedDeviceProfile_Descriptor # xs"
proof -
  have "sends view no_raw ((pa_write P (PToken IDistributedDeviceProfile_Descriptor), e) # args)
      (PToken IDistributedDeviceProfile_Descriptor # xs)"
    by (rule sends_item [OF _ assms]) auto
  with new that show thesis by (force simp: sends_def)
qed

lemma proxy_call_written:
  assumes "write_args ((pa_write P (PToken IDistributedDeviceProfile_Descriptor), pa_errFlatten P) # args)
      (pa_new P) = (None, data)"
    and "send code data (pa_new P) s = ((DP_SUCCESS, reply), s')" "ReadInt P Int32 reply = (Some ret, r)"
  shows "proxy_call P (Some send) code args s = ((ret, r), s')"
  unfolding proxy_call_def option.case assms(1) by (simp add: assms(2,3) ReadInt_value_def)

lemma put_served:
  assumes ready: "service_ready svc s" and "dispatch P svc other code = stub_put P rd f fail"
    and "sends view no_raw args xs" "rd_reads view rd xs a"
  shows "proxy_put P (Some (OnRemoteRequest P svc other)) code args s = in_service svc (f a) s"
proof -
  obtain data where 1: "write_args ((pa_write P (PToken IDistributedDeviceProfile_Descriptor), pa_errFlatten P) # args)
      (pa_new P) = (None, data)" "view data = PToken IDistributedDeviceProfile_Descriptor # xs"
    using assms(3) by (rule data_written)
  obtain data' where 2: "view data' = xs" "OnRemoteRequest P svc other code data (pa_new P) s =
      in_service svc (stub_put P rd f fail data' (pa_new P)) s"
    using ready 1(2) assms(2) by (rule request_served)
  obtain d where 3: "rd data' = (Inr a, d)" using assms(4) 2(1) by (rule rd_reads_whole)
  obtain ret s1 where 4: "f a (entered svc s) = (ret, s1)" by fastforce
  obtain reply where 5: "WInt P Int32 ret (pa_new P) = (True, reply)" "view reply = [PInt Int32 ret]"
    using writes_item [of "PInt Int32 ret"] new by (metis append_Nil is_raw_simps(1) writesD)
  obtain r where 6: "ReadInt P Int32 reply = (Some ret, r)" using ReadInt_item [OF 5(2)] by blast
  have 7: "OnRemoteRequest P svc other code data (pa_new P) s = ((DP_SUCCESS, reply), svc_SubtractRunningIpcCount svc s1)"
    by (simp add: 2(2) in_service_def stub_put_def 3 4 5(1))
  show ?thesis
    by (simp add: proxy_put_def in_service_def 4
        proxy_call_written [where send = "OnRemoteRequest P svc other" and code = code, OF 1(1) 7 6])
qed

lemma get_served:
  assumes ready: "service_ready svc s" and "dispatch P svc other code = stub_get P rd f fail w outFail"
    and "sends view no_raw args xs" "rd_reads view rd xs a"
    and answer: "f a (entered svc s) = ((ret, x), s1)"
      "sends view no_raw [(w x, e)] ys" "ret = DP_SUCCESS \<Longrightarrow> reads view r ys d x"
  shows "proxy_get P (Some (OnRemoteRequest P svc other)) code args r inFail d s =
    in_service svc (on_success d (f a)) s"
proof -
  obtain data where 1: "write_args ((pa_write P (PToken IDistributedDeviceProfile_Descriptor), pa_errFlatten P) # args)
      (pa_new P) = (None, data)" "view data = PToken IDistributedDeviceProfile_Descriptor # xs"
    using assms(3) by (rule data_written)
  obtain data' where 2: "view data' = xs" "OnRemoteRequest P svc other code data (pa_new P) s =
      in_service svc (stub_get P rd f fail w outFail data' (pa_new P)) s"
    using ready 1(2) assms(2) by (rule request_served)
  obtain dd where 3: "rd data' = (Inr a, dd)" using assms(4) 2(1) by (rule rd_reads_whole)
  obtain reply where 5: "WInt P Int32 ret (pa_new P) = (True, reply)" "view reply = [PInt Int32 ret]"
    using writes_item [of "PInt Int32 ret"] new by (metis append_Nil is_raw_simps(1) writesD)
  obtain reply' where 6: "w x reply = (True, reply')" "view reply' = PInt Int32 ret # ys"
    by (rule sends_one [OF answer(2), of reply]) (simp_all add: 5(2))
  obtain r1 where 7: "ReadInt P Int32 reply' = (Some ret, r1)" "view r1 = ys" using ReadInt_item [OF 6(2)] by blast
  have 8: "\<exists>p. r d r1 = ((True, x), p)" if "ret = DP_SUCCESS"
    using answer(3) [OF that] 7(2) by (metis reads_whole)
  have 9: "OnRemoteRequest P svc other code data (pa_new P) s = ((DP_SUCCESS, reply'), svc_SubtractRunningIpcCount svc s1)"
    by (simp add: 2(2) in_service_def stub_get_def 3 answer(1) 5(1) 6(1))
  show ?thesis
    using 8 by (auto simp: proxy_get_def in_service_def on_success_def answer(1)
        proxy_call_written [where send = "OnRemoteRequest P svc other" and code = code, OF 1(1) 9 7(1)])
qed

text \<open>What the stub cannot read ends the request, the service not called; an answer it cannot write
  ends it too, the service called.\<close>

lemma proxy_call_failed:
  assumes "write_args ((pa_write P (PToken IDistributedDeviceProfile_Descriptor), pa_errFlatten P) # args)
      (pa_new P) = (None, data)"
    and "send code data (pa_new P) s = ((e, reply), s')" "e \<noteq> DP_SUCCESS"
  shows "proxy_call P (Some send) code args s = ((e, reply), s')"
  unfolding proxy_call_def option.case assms(1) by (simp add: assms(2,3))

lemma put_refused:
  assumes ready: "service_ready svc s" and "dispatch P svc other code = stub_put P rd f fail"
    and "sends view no_raw args xs" and unread: "\<And>p. view p = xs \<Longrightarrow> \<exists>p'. rd p = (Inl e, p')" "e \<noteq> DP_SUCCESS"
  shows "proxy_put P (Some (OnRemoteRequest P svc other)) code args s =
    (e, svc_SubtractRunningIpcCount svc (entered svc s))"
proof -
  obtain data where 1: "write_args ((pa_write P (PToken IDistributedDeviceProfile_Descriptor), pa_errFlatten P) # args)
      (pa_new P) = (None, data)" "view data = PToken IDistributedDeviceProfile_Descriptor # xs"
    using assms(3) by (rule data_written)
  obtain data' where 2: "view data' = xs" "OnRemoteRequest P svc other code data (pa_new P) s =
      in_service svc (stub_put P rd f fail data' (pa_new P)) s"
    using ready 1(2) assms(2) by (rule request_served)
  obtain d where 3: "rd data' = (Inl e, d)" using unread(1) [OF 2(1)] by blast
  have 4: "OnRemoteRequest P svc other code data (pa_new P) s = ((e, pa_new P), svc_SubtractRunningIpcCount svc (entered svc s))"
    by (simp add: 2(2) in_service_def stub_put_def 3)
  show ?thesis
    by (simp add: proxy_put_def
        proxy_call_failed [where send = "OnRemoteRequest P svc other" and code = code, OF 1(1) 4 unread(2)])
qed

lemma get_unwritten:
  assumes ready: "service_ready svc s" and "dispatch P svc other code = stub_get P rd f fail w outFail"
    and "sends view no_raw args xs" "rd_reads view rd xs a"
    and answer: "f a (entered svc s) = ((ret, x), s1)" "\<And>p. \<not> fst (w x p)" "outFail \<noteq> DP_SUCCESS"
  shows "proxy_get P (Some (OnRemoteRequest P svc other)) code args r inFail d s =
    ((outFail, d), svc_SubtractRunningIpcCount svc s1)"
proof -
  obtain data where 1: "write_args ((pa_write P (PToken IDistributedDeviceProfile_Descriptor), pa_errFlatten P) # args)
      (pa_new P) = (None, data)" "view data = PToken IDistributedDeviceProfile_Descriptor # xs"
    using assms(3) by (rule data_written)
  obtain data' where 2: "view data' = xs" "OnRemoteRequest P svc other code data (pa_new P) s =
      in_service svc (stub_get P rd f fail w outFail data' (pa_new P)) s"
    using ready 1(2) assms(2) by (rule request_served)
  obtain dd where 3: "rd data' = (Inr a, dd)" using assms(4) 2(1) by (rule rd_reads_whole)
  obtain reply where 5: "WInt P Int32 ret (pa_new P) = (True, reply)"
    using writes_item [of "PInt Int32 ret"] by (meson is_raw_simps(1) writesD)
  obtain reply' where 6: "w x reply = (False, reply')" using answer(2) [of reply] by (metis prod.collapse)
  have 7: "OnRemoteRequest P svc other code data (pa_new P) s = ((outFail, reply'), svc_SubtractRunningIpcCount svc s1)"
    by (simp add: 2(2) in_service_def stub_get_def 3 answer(1) 5 6)
  show ?thesis
    using answer(3) by (simp add: proxy_get_def
        proxy_call_failed [where send = "OnRemoteRequest P svc other" and code = code, OF 1(1) 7 answer(3)])
qed

text \<open>An answer written that the proxy cannot read.\<close>

lemma get_unread:
  assumes ready: "service_ready svc s" and "dispatch P svc other code = stub_get P rd f fail w outFail"
    and "sends view no_raw args xs" "rd_reads view rd xs a"
    and answer: "f a (entered svc s) = ((ret, x), s1)"
      "sends view no_raw [(w x, e)] ys" "\<And>p. view p = ys \<Longrightarrow> \<exists>p'. r d p = ((False, d), p')"
  shows "proxy_get P (Some (OnRemoteRequest P svc other)) code args r inFail d s =
    ((if ret = DP_SUCCESS then inFail else ret, d), svc_SubtractRunningIpcCount svc s1)"
proof -
  obtain data where 1: "write_args ((pa_write P (PToken IDistributedDeviceProfile_Descriptor), pa_errFlatten P) # args)
      (pa_new P) = (None, data)" "view data = PToken IDistributedDeviceProfile_Descriptor # xs"
    using assms(3) by (rule data_written)
  obtain data' where 2: "view data' = xs" "OnRemoteRequest P svc other code data (pa_new P) s =
      in_service svc (stub_get P rd f fail w outFail data' (pa_new P)) s"
    using ready 1(2) assms(2) by (rule request_served)
  obtain dd where 3: "rd data' = (Inr a, dd)" using assms(4) 2(1) by (rule rd_reads_whole)
  obtain reply where 5: "WInt P Int32 ret (pa_new P) = (True, reply)" "view reply = [PInt Int32 ret]"
    using writes_item [of "PInt Int32 ret"] new by (metis append_Nil is_raw_simps(1) writesD)
  obtain reply' where 6: "w x reply = (True, reply')" "view reply' = PInt Int32 ret # ys"
    by (rule sends_one [OF answer(2), of reply]) (simp_all add: 5(2))
  obtain r1 where 7: "ReadInt P Int32 reply' = (Some ret, r1)" "view r1 = ys" using ReadInt_item [OF 6(2)] by blast
  obtain r2 where 8: "r d r1 = ((False, d), r2)" using answer(3) [OF 7(2)] by blast
  have 9: "OnRemoteRequest P svc other code data (pa_new P) s = ((DP_SUCCESS, reply'), svc_SubtractRunningIpcCount svc s1)"
    by (simp add: 2(2) in_service_def stub_get_def 3 answer(1) 5(1) 6(1))
  show ?thesis
    using 8 by (simp add: proxy_get_def
        proxy_call_written [where send = "OnRemoteRequest P svc other" and code = code, OF 1(1) 9 7(1)])
qed

end

end
