(* ===== verification/IpcServed.thy ===== *)
theory IpcServed
  imports IpcLaws
begin

text \<open>
  The calls of the interface, one by one: through the proxy and the stub each is the call of the
  service. Icons are left out: a parcel takes raw data only once, and each icon has some.
\<close>

definition bytes_ok :: "8 word list \<Rightarrow> bool" where
  "bytes_ok bs \<longleftrightarrow> bs \<noteq> [] \<and> length bs \<le> MAX_ICON_SIZE"

definition filter_ok :: "DeviceProfileFilterOptions \<Rightarrow> bool" where
  "filter_ok x \<longleftrightarrow> length (dpo_deviceIds x) \<le> MAX_ID_SIZE \<and> length (dpo_wiseDeviceIds x) \<le> MAX_ID_SIZE \<and>
     length (dpo_deviceProfileIds x) \<le> MAX_ID_SIZE"

lemma dispatch_simps:
  "dispatch P svc other PUT_ACL_PROFILE = PutAccessControlProfileInner P svc"
  "dispatch P svc other UPDATE_ACL_PROFILE = UpdateAccessControlProfileInner P svc"
  "dispatch P svc other GET_TRUST_DEVICE_PROFILE = GetTrustDeviceProfileInner P svc"
  "dispatch P svc other GET_ALL_TRUST_DEVICE_PROFILE = GetAllTrustDeviceProfileInner P svc"
  "dispatch P svc other GET_ACL_PROFILE = GetAccessControlProfileInner P svc"
  "dispatch P svc other GET_ALL_ACL_PROFILE = GetAllAccessControlProfileInner P svc"
  "dispatch P svc other GET_ALL_ACL_INCLUDE_LNN_ACL = GetAllAclIncludeLnnAclInner P svc"
  "dispatch P svc other DELETE_ACL_PROFILE = DeleteAccessControlProfileInner P svc"
  "dispatch P svc other PUT_SESSION_KEY = PutSessionKeyInner P svc"
  "dispatch P svc other GET_SESSION_KEY = GetSessionKeyInner P svc"
  "dispatch P svc other GET_SESSION_KEY_BY_SESSIONKEYID = GetSessionKeyBySessionKeyIdInner P svc"
  "dispatch P svc other UPDATE_SESSION_KEY = UpdateSessionKeyInner P svc"
  "dispatch P svc other DELETE_SESSION_KEY = DeleteSessionKeyInner P svc"
  "dispatch P svc other PUT_SERVICE_PROFILE = PutServiceProfileInner P svc"
  "dispatch P svc other PUT_SERVICE_PROFILE_BATCH = PutServiceProfileBatchInner P svc"
  "dispatch P svc other PUT_CHAR_PROFILE = PutCharacteristicProfileInner P svc"
  "dispatch P svc other PUT_CHAR_PROFILE_BATCH = PutCharacteristicProfileBatchInner P svc"
  "dispatch P svc other GET_DEVICE_PROFILE_NEW = GetDeviceProfileInner P svc"
  "dispatch P svc other GET_SERVICE_PROFILE = GetServiceProfileInner P svc"
  "dispatch P svc other GET_CHAR_PROFILE = GetCharacteristicProfileInner P svc"
  "dispatch P svc other DEL_SERVICE_PROFILE = DeleteServiceProfileInner P svc"
  "dispatch P svc other DEL_CHAR_PROFILE = DeleteCharacteristicProfileInner P svc"
  "dispatch P svc other SUBSCRIBE_DEVICE_PROFILE = SubscribeDeviceProfileInner P svc"
  "dispatch P svc other UNSUBSCRIBE_DEVICE_PROFILE = UnSubscribeDeviceProfileInner P svc"
  "dispatch P svc other SYNC_DEVICE_PROFILE_NEW = SyncDeviceProfileInner P svc"
  "dispatch P svc other SYNC_STATIC_PROFILE = SyncStaticProfileInner P svc"
  "dispatch P svc other SEND_SUBSCRIBE_INFOS = SendSubscribeInfosInner P svc"
  "dispatch P svc other SUBSCRIBE_DEVICE_PROFILE_INITED = SubscribeDeviceProfileInitedInner P svc"
  "dispatch P svc other UNSUBSCRIBE_DEVICE_PROFILE_INITED = UnSubscribeDeviceProfileInitedInner P svc"
  "dispatch P svc other PUT_ALL_TRUSTED_DEVICES = PutAllTrustedDevicesInner P svc"
  "dispatch P svc other PUT_LOCAL_SERVICE_INFO = PutLocalServiceInfoInner P svc"
  "dispatch P svc other UPDATE_LOCAL_SERVICE_INFO = UpdateLocalServiceInfoInner P svc"
  "dispatch P svc other GET_LOCAL_SERVICE_INFO_BY_BINDLE_AND_PINTYPE = GetLocalServiceInfoByBundleAndPinTypeInner P svc"
  "dispatch P svc other DELETE_LOCAL_SERVICE_INFO = DeleteLocalServiceInfoInner P svc"
  "dispatch P svc other PUT_DEVICE_PROFILE_BATCH = PutDeviceProfileBatchInner P svc"
  "dispatch P svc other GET_DEVICE_PROFILES = GetDeviceProfilesInner P svc"
  "dispatch P svc other SUBSCRIBE_PINCODE_INVALID = SubscribePinCodeInvalidInner P svc"
  "dispatch P svc other UNSUBSCRIBE_PINCODE_INVALID = UnSubscribePinCodeInvalidInner P svc"
  "dispatch P svc other PUT_PRODUCT_INFO_BATCH = PutProductInfoBatchInner P svc"
  "dispatch P svc other PUT_DEVICE_ICON_INFO_BATCH = PutDeviceIconInfoBatchInner P svc"
  "dispatch P svc other GET_DEVICE_ICON_INFOS = GetDeviceIconInfosInner P svc"
  "dispatch P svc other DELETE_DEVICE_PROFILE_BATCH = DeleteDeviceProfileBatchInner P svc"
  "dispatch P svc other REGISTER_BUSINESS_CALLBACK = RegisterBusinessCallbackInner P svc"
  "dispatch P svc other UNREGISTER_BUSINESS_CALLBACK = UnRegisterBusinessCallbackInner P svc"
  "dispatch P svc other PUT_BUSINESS_EVENT = PutBusinessEventInner P svc"
  "dispatch P svc other GET_BUSINESS_EVENT = GetBusinessEventInner P svc"
  "dispatch P svc other PUT_SERVICE_INFO = PutServiceInfoInner P svc"
  "dispatch P svc other DELETE_SERVICE_INFO = DeleteServiceInfoInner P svc"
  "dispatch P svc other GET_ALL_SERVICE_INFO_LIST = GetAllServiceInfoListInner P svc"
  "dispatch P svc other GET_SERVICE_INFO_BY_USER_INFO = GetServiceInfosByUserInfoInner P svc"
  "dispatch P svc other SUBSCRIBE_SERVICE_INFO_CALLBACK = SubscribeAllServiceInfoInner P svc"
  by (simp_all add: dispatch_def aclAndSubscribeFuncs_def NotifyAclEventInner_def NotifyProfileDataEventInner_def
      NotifyServiceInfoEventInner_def NotifyEventInner_def NotifyLocalServiceEventInner_def)

lemmas dispatch_SyncDeviceProfile = dispatch_simps(25)
lemmas dispatch_GetAllTrustDeviceProfile = dispatch_simps(4)
lemmas dispatch_GetDeviceProfiles = dispatch_simps(36)
lemmas dispatch_GetAllAccessControlProfile = dispatch_simps(6)

context roomy_parcel
begin

lemma bytes_sent:
  "bytes_ok bs \<Longrightarrow> sends view no_raw [(Marshalling_bytes P bs, e)] [PInt Uint32 (int (length bs)), PRaw bs]"
  by (rule sends_bytes) (auto simp: bytes_ok_def)

lemma bytes_got: "bytes_ok bs \<Longrightarrow> reads view (UnMarshalling_bytes P) [PInt Uint32 (int (length bs)), PRaw bs] xs bs"
  by (rule bytes_read) (auto simp: bytes_ok_def)

text \<open>The readers of these classes set every field, whatever object they are given.\<close>

lemma device_any:
  assumes "dp_id x = 0"
  shows "reads view (DeviceProfile_UnMarshalling P) (items DeviceProfile_Marshalling x)
    (DeviceProfile_default\<lparr>dp_isMultiUser := m, dp_userId := u\<rparr>) x"
  using assms by (simp add: DeviceProfile_Marshalling_def DeviceProfile_UnMarshalling_def)
    (intro reads_steps; simp add: DeviceProfile_default_def)

lemma service_any: "reads view (ServiceProfile_UnMarshalling P) (items ServiceProfile_Marshalling x) d x"
  by (simp add: ServiceProfile_Marshalling_def ServiceProfile_UnMarshalling_def) (intro reads_steps; simp)

lemma char_any: "reads view (CharacteristicProfile_UnMarshalling P) (items CharacteristicProfile_Marshalling x) d x"
  by (simp add: CharacteristicProfile_Marshalling_def CharacteristicProfile_UnMarshalling_def) (intro reads_steps; simp)

lemma event_any:
  "reads view (BusinessEvent_UnMarshalling P) [PString (be_businessKey x), PString (be_businessValue x)] d x"
  using event.reads [OF TrueI, of x]
  by (cases d) (simp add: reads_def BusinessEvent_UnMarshalling_def BusinessEvent_default_def)

section \<open>Calls without an answer\<close>

lemma PutAccessControlProfile_served:
  assumes ready: "service_ready svc s"
  shows "Proxy_PutAccessControlProfile P (Some (OnRemoteRequest P svc other)) p s = in_service svc (svc_PutAccessControlProfile svc p) s"
  using put_served [OF ready dispatch_simps(1) [unfolded PutAccessControlProfileInner_def]
    sends_last [OF acl.writes [OF TrueI]]
    rd_reads_obj [OF acl.reads [OF TrueI]]]
  by (simp add: Proxy_PutAccessControlProfile_def)

lemma UpdateAccessControlProfile_served:
  assumes ready: "service_ready svc s"
  shows "Proxy_UpdateAccessControlProfile P (Some (OnRemoteRequest P svc other)) p s = in_service svc (svc_UpdateAccessControlProfile svc p) s"
  using put_served [OF ready dispatch_simps(2) [unfolded UpdateAccessControlProfileInner_def]
    sends_last [OF acl.writes [OF TrueI]]
    rd_reads_obj [OF acl.reads [OF TrueI]]]
  by (simp add: Proxy_UpdateAccessControlProfile_def)

lemma DeleteAccessControlProfile_served:
  assumes ready: "service_ready svc s"
  shows "Proxy_DeleteAccessControlProfile P (Some (OnRemoteRequest P svc other)) accessControlId s = in_service svc (svc_DeleteAccessControlProfile svc accessControlId) s"
  using put_served [OF ready dispatch_simps(8) [unfolded DeleteAccessControlProfileInner_def]
    sends_more [OF is_raw_simps(1) sends_Nil]
    rd_reads_int]
  by (simp add: Proxy_DeleteAccessControlProfile_def)

lemma UpdateSessionKey_served:
  assumes ready: "service_ready svc s"
    and oks: "bytes_ok sessionKey"
  shows "Proxy_UpdateSessionKey P (Some (OnRemoteRequest P svc other)) userId sessionKeyId sessionKey s = in_service svc (svc_UpdateSessionKey svc userId sessionKeyId sessionKey) s"
  using put_served [OF ready dispatch_simps(12) [unfolded UpdateSessionKeyInner_def]
    sends_more_raw [OF is_raw_simps(1) sends_more_raw [OF is_raw_simps(1) bytes_sent [OF oks]]]
    rd_reads_more [OF rd_reads_int rd_reads_more [OF rd_reads_int rd_reads_obj [OF bytes_got [OF oks]]]]]
  by (simp add: Proxy_UpdateSessionKey_def)

lemma DeleteSessionKey_served:
  assumes ready: "service_ready svc s"
  shows "Proxy_DeleteSessionKey P (Some (OnRemoteRequest P svc other)) userId sessionKeyId s = in_service svc (svc_DeleteSessionKey svc userId sessionKeyId) s"
  using put_served [OF ready dispatch_simps(13) [unfolded DeleteSessionKeyInner_def]
    sends_more [OF is_raw_simps(1) sends_more [OF is_raw_simps(1) sends_Nil]]
    rd_reads_more [OF rd_reads_int rd_reads_int]]
  by (simp add: Proxy_DeleteSessionKey_def)

lemma PutServiceProfile_served:
  assumes ready: "service_ready svc s"
  shows "Proxy_PutServiceProfile P (Some (OnRemoteRequest P svc other)) p s = in_service svc (svc_PutServiceProfile svc p) s"
  using put_served [OF ready dispatch_simps(14) [unfolded PutServiceProfileInner_def]
    sends_last [OF service.writes [OF TrueI]]
    rd_reads_obj [OF service.reads [OF TrueI]]]
  by (simp add: Proxy_PutServiceProfile_def)

lemma PutServiceProfileBatch_served:
  assumes ready: "service_ready svc s"
    and oks: "vec_ok (\<lambda>_. True) ps"
  shows "Proxy_PutServiceProfileBatch P (Some (OnRemoteRequest P svc other)) ps s = in_service svc (svc_PutServiceProfileBatch svc ps) s"
  using put_served [OF ready dispatch_simps(15) [unfolded PutServiceProfileBatchInner_def]
    sends_last [OF services.writes [OF oks]]
    rd_reads_obj [OF services.reads [OF oks]]]
  by (simp add: Proxy_PutServiceProfileBatch_def)

lemma PutCharacteristicProfile_served:
  assumes ready: "service_ready svc s"
  shows "Proxy_PutCharacteristicProfile P (Some (OnRemoteRequest P svc other)) p s = in_service svc (svc_PutCharacteristicProfile svc p) s"
  using put_served [OF ready dispatch_simps(16) [unfolded PutCharacteristicProfileInner_def]
    sends_last [OF char.writes [OF TrueI]]
    rd_reads_obj [OF char.reads [OF TrueI]]]
  by (simp add: Proxy_PutCharacteristicProfile_def)

lemma PutCharacteristicProfileBatch_served:
  assumes ready: "service_ready svc s"
    and oks: "vec_ok (\<lambda>_. True) ps"
  shows "Proxy_PutCharacteristicProfileBatch P (Some (OnRemoteRequest P svc other)) ps s = in_service svc (svc_PutCharacteristicProfileBatch svc ps) s"
  using put_served [OF ready dispatch_simps(17) [unfolded PutCharacteristicProfileBatchInner_def]
    sends_last [OF chars.writes [OF oks]]
    rd_reads_obj [OF chars.reads [OF oks]]]
  by (simp add: Proxy_PutCharacteristicProfileBatch_def)

lemma DeleteServiceProfile_served:
  assumes ready: "service_ready svc s"
  shows "Proxy_DeleteServiceProfile P (Some (OnRemoteRequest P svc other)) deviceId serviceName isMultiUser userId s = in_service svc (svc_DeleteServiceProfile svc deviceId serviceName isMultiUser userId) s"
  using put_served [OF ready dispatch_simps(21) [unfolded DeleteServiceProfileInner_def]
    sends_more [OF is_raw_simps(2) sends_more [OF is_raw_simps(2) sends_more [OF is_raw_simps(3) sends_more [OF is_raw_simps(1) sends_Nil]]]]
    rd_reads_more [OF rd_reads_string rd_reads_more [OF rd_reads_string rd_reads_more [OF rd_reads_bool rd_reads_int]]]]
  by (simp add: Proxy_DeleteServiceProfile_def)

lemma DeleteCharacteristicProfile_served:
  assumes ready: "service_ready svc s"
  shows "Proxy_DeleteCharacteristicProfile P (Some (OnRemoteRequest P svc other)) deviceId serviceName charKey isMultiUser userId s = in_service svc (svc_DeleteCharacteristicProfile svc deviceId serviceName charKey isMultiUser userId) s"
  using put_served [OF ready dispatch_simps(22) [unfolded DeleteCharacteristicProfileInner_def]
    sends_more [OF is_raw_simps(2) sends_more [OF is_raw_simps(2) sends_more [OF is_raw_simps(2) sends_more [OF is_raw_simps(3) sends_more [OF is_raw_simps(1) sends_Nil]]]]]
    rd_reads_more [OF rd_reads_string rd_reads_more [OF rd_reads_string rd_reads_more [OF rd_reads_string rd_reads_more [OF rd_reads_bool rd_reads_int]]]]]
  by (simp add: Proxy_DeleteCharacteristicProfile_def)

lemma SubscribeDeviceProfile_served:
  assumes ready: "service_ready svc s"
    and oks: "subscribe_ok info"
  shows "Proxy_SubscribeDeviceProfile P (Some (OnRemoteRequest P svc other)) info s = in_service svc (svc_SubscribeDeviceProfile svc info) s"
  using put_served [OF ready dispatch_simps(23) [unfolded SubscribeDeviceProfileInner_def]
    sends_last [OF subscribe.writes [OF oks]]
    rd_reads_obj [OF subscribe.reads [OF oks]]]
  by (simp add: Proxy_SubscribeDeviceProfile_def)

lemma UnSubscribeDeviceProfile_served:
  assumes ready: "service_ready svc s"
    and oks: "subscribe_ok info"
  shows "Proxy_UnSubscribeDeviceProfile P (Some (OnRemoteRequest P svc other)) info s = in_service svc (svc_UnSubscribeDeviceProfile svc info) s"
  using put_served [OF ready dispatch_simps(24) [unfolded UnSubscribeDeviceProfileInner_def]
    sends_last [OF subscribe.writes [OF oks]]
    rd_reads_obj [OF subscribe.reads [OF oks]]]
  by (simp add: Proxy_UnSubscribeDeviceProfile_def)

lemma SyncDeviceProfile_served:
  assumes ready: "service_ready svc s"
    and oks: "so_syncMode options \<in> {0, 1, 2} \<and> length (so_syncDeviceIds options) \<le> MAX_DEVICE_SIZE"
  shows "Proxy_SyncDeviceProfile P (Some (OnRemoteRequest P svc other)) options callback s = in_service svc (svc_SyncDeviceProfile svc options callback) s"
  using put_served [OF ready dispatch_simps(25) [unfolded SyncDeviceProfileInner_def]
    sends_any [OF sends_Cons [OF sync.writes [OF oks] sends_more [OF is_raw_simps(4) sends_Nil]]]
    rd_reads_pair [OF rd_reads_obj [OF sync.reads [OF oks]] rd_reads_remote]]
  by (simp add: Proxy_SyncDeviceProfile_def)

lemma SyncStaticProfile_served:
  assumes ready: "service_ready svc s"
    and oks: "so_syncMode options \<in> {0, 1, 2} \<and> length (so_syncDeviceIds options) \<le> MAX_DEVICE_SIZE"
  shows "Proxy_SyncStaticProfile P (Some (OnRemoteRequest P svc other)) options callback s = in_service svc (svc_SyncStaticProfile svc options callback) s"
  using put_served [OF ready dispatch_simps(26) [unfolded SyncStaticProfileInner_def]
    sends_any [OF sends_Cons [OF sync.writes [OF oks] sends_more [OF is_raw_simps(4) sends_Nil]]]
    rd_reads_pair [OF rd_reads_obj [OF sync.reads [OF oks]] rd_reads_remote]]
  by (simp add: Proxy_SyncStaticProfile_def)

lemma SendSubscribeInfos_served:
  assumes ready: "service_ready svc s"
    and oks: "listeners_ok listenerMap"
  shows "Proxy_SendSubscribeInfos P (Some (OnRemoteRequest P svc other)) listenerMap s = in_service svc (svc_SendSubscribeInfos svc listenerMap) s"
  using put_served [OF ready dispatch_simps(27) [unfolded SendSubscribeInfosInner_def]
    sends_last [OF listeners.writes [OF oks]]
    rd_reads_obj [OF listeners.reads [OF oks]]]
  by (simp add: Proxy_SendSubscribeInfos_def)

lemma SubscribeDeviceProfileInited_served:
  assumes ready: "service_ready svc s"
    and oks: "callback \<noteq> None"
  shows "Proxy_SubscribeDeviceProfileInited P (Some (OnRemoteRequest P svc other)) saId callback s = in_service svc (svc_SubscribeDeviceProfileInited svc saId callback) s"
  using put_served [OF ready dispatch_simps(28) [unfolded SubscribeDeviceProfileInitedInner_def]
    sends_more [OF is_raw_simps(1) sends_more [OF is_raw_simps(4) sends_Nil]]
    rd_reads_more [OF rd_reads_int rd_reads_remote_object [OF oks]]]
  by (simp add: Proxy_SubscribeDeviceProfileInited_def)

lemma UnSubscribeDeviceProfileInited_served:
  assumes ready: "service_ready svc s"
  shows "Proxy_UnSubscribeDeviceProfileInited P (Some (OnRemoteRequest P svc other)) saId s = in_service svc (svc_UnSubscribeDeviceProfileInited svc saId) s"
  using put_served [OF ready dispatch_simps(29) [unfolded UnSubscribeDeviceProfileInitedInner_def]
    sends_more [OF is_raw_simps(1) sends_Nil]
    rd_reads_int]
  by (simp add: Proxy_UnSubscribeDeviceProfileInited_def)

lemma PutAllTrustedDevices_served:
  assumes ready: "service_ready svc s"
    and oks: "vec_ok (\<lambda>_. True) infos"
  shows "Proxy_PutAllTrustedDevices P (Some (OnRemoteRequest P svc other)) infos s = in_service svc (svc_PutAllTrustedDevices svc infos) s"
  using put_served [OF ready dispatch_simps(30) [unfolded PutAllTrustedDevicesInner_def]
    sends_last [OF trusted.writes [OF oks]]
    rd_reads_obj [OF trusted.reads [OF oks]]]
  by (simp add: Proxy_PutAllTrustedDevices_def)

lemma PutLocalServiceInfo_served:
  assumes ready: "service_ready svc s"
  shows "Proxy_PutLocalServiceInfo P (Some (OnRemoteRequest P svc other)) info s = in_service svc (svc_PutLocalServiceInfo svc info) s"
  using put_served [OF ready dispatch_simps(31) [unfolded PutLocalServiceInfoInner_def]
    sends_last [OF local_service.writes [OF TrueI]]
    rd_reads_obj [OF local_service.reads [OF TrueI]]]
  by (simp add: Proxy_PutLocalServiceInfo_def)

lemma UpdateLocalServiceInfo_served:
  assumes ready: "service_ready svc s"
  shows "Proxy_UpdateLocalServiceInfo P (Some (OnRemoteRequest P svc other)) info s = in_service svc (svc_UpdateLocalServiceInfo svc info) s"
  using put_served [OF ready dispatch_simps(32) [unfolded UpdateLocalServiceInfoInner_def]
    sends_last [OF local_service.writes [OF TrueI]]
    rd_reads_obj [OF local_service.reads [OF TrueI]]]
  by (simp add: Proxy_UpdateLocalServiceInfo_def)

lemma DeleteLocalServiceInfo_served:
  assumes ready: "service_ready svc s"
  shows "Proxy_DeleteLocalServiceInfo P (Some (OnRemoteRequest P svc other)) bundleName pinExchangeType s = in_service svc (svc_DeleteLocalServiceInfo svc bundleName pinExchangeType) s"
  using put_served [OF ready dispatch_simps(34) [unfolded DeleteLocalServiceInfoInner_def]
    sends_more [OF is_raw_simps(2) sends_more [OF is_raw_simps(1) sends_Nil]]
    rd_reads_more [OF rd_reads_string rd_reads_int]]
  by (simp add: Proxy_DeleteLocalServiceInfo_def)

lemma PutDeviceProfileBatch_served:
  assumes ready: "service_ready svc s"
    and oks: "vec_ok (\<lambda>x. dp_id x = 0) ps"
  shows "Proxy_PutDeviceProfileBatch P (Some (OnRemoteRequest P svc other)) ps s = in_service svc (svc_PutDeviceProfileBatch svc ps) s"
  using put_served [OF ready dispatch_simps(35) [unfolded PutDeviceProfileBatchInner_def]
    sends_last [OF devices.writes [OF oks]]
    rd_reads_obj [OF devices.reads [OF oks]]]
  by (simp add: Proxy_PutDeviceProfileBatch_def)

lemma SubscribePinCodeInvalid_served:
  assumes ready: "service_ready svc s"
    and oks: "callback \<noteq> None"
  shows "Proxy_SubscribePinCodeInvalid P (Some (OnRemoteRequest P svc other)) bundleName pinExchangeType callback s = in_service svc (svc_SubscribePinCodeInvalid svc bundleName pinExchangeType callback) s"
  using put_served [OF ready dispatch_simps(37) [unfolded SubscribePinCodeInvalidInner_def]
    sends_more [OF is_raw_simps(2) sends_more [OF is_raw_simps(1) sends_more [OF is_raw_simps(4) sends_Nil]]]
    rd_reads_more [OF rd_reads_string rd_reads_more [OF rd_reads_int rd_reads_remote_object [OF oks]]]]
  by (simp add: Proxy_SubscribePinCodeInvalid_def)

lemma UnSubscribePinCodeInvalid_served:
  assumes ready: "service_ready svc s"
  shows "Proxy_UnSubscribePinCodeInvalid P (Some (OnRemoteRequest P svc other)) bundleName pinExchangeType s = in_service svc (svc_UnSubscribePinCodeInvalid svc bundleName pinExchangeType) s"
  using put_served [OF ready dispatch_simps(38) [unfolded UnSubscribePinCodeInvalidInner_def]
    sends_more [OF is_raw_simps(2) sends_more [OF is_raw_simps(1) sends_Nil]]
    rd_reads_more [OF rd_reads_string rd_reads_int]]
  by (simp add: Proxy_UnSubscribePinCodeInvalid_def)

lemma PutProductInfoBatch_served:
  assumes ready: "service_ready svc s"
    and oks: "vec_ok (\<lambda>_. True) infos"
  shows "Proxy_PutProductInfoBatch P (Some (OnRemoteRequest P svc other)) infos s = in_service svc (svc_PutProductInfoBatch svc infos) s"
  using put_served [OF ready dispatch_simps(39) [unfolded PutProductInfoBatchInner_def]
    sends_last [OF products.writes [OF oks]]
    rd_reads_obj [OF products.reads [OF oks]]]
  by (simp add: Proxy_PutProductInfoBatch_def)

lemma DeleteDeviceProfileBatch_served:
  assumes ready: "service_ready svc s"
    and oks: "vec_ok (\<lambda>x. dp_id x = 0) ps"
  shows "Proxy_DeleteDeviceProfileBatch P (Some (OnRemoteRequest P svc other)) ps s = in_service svc (svc_DeleteDeviceProfileBatch svc ps) s"
  using put_served [OF ready dispatch_simps(42) [unfolded DeleteDeviceProfileBatchInner_def]
    sends_last [OF devices.writes [OF oks]]
    rd_reads_obj [OF devices.reads [OF oks]]]
  by (simp add: Proxy_DeleteDeviceProfileBatch_def)

lemma RegisterBusinessCallback_served:
  assumes ready: "service_ready svc s"
    and oks: "callback \<noteq> None"
  shows "Proxy_RegisterBusinessCallback P (Some (OnRemoteRequest P svc other)) saId businessKey callback s = in_service svc (svc_RegisterBusinessCallback svc saId businessKey callback) s"
  using put_served [OF ready dispatch_simps(43) [unfolded RegisterBusinessCallbackInner_def]
    sends_more [OF is_raw_simps(2) sends_more [OF is_raw_simps(2) sends_more [OF is_raw_simps(4) sends_Nil]]]
    rd_reads_more [OF rd_reads_string rd_reads_more [OF rd_reads_string rd_reads_remote_object [OF oks]]]]
  by (simp add: Proxy_RegisterBusinessCallback_def)

lemma UnRegisterBusinessCallback_served:
  assumes ready: "service_ready svc s"
  shows "Proxy_UnRegisterBusinessCallback P (Some (OnRemoteRequest P svc other)) saId businessKey s = in_service svc (svc_UnRegisterBusinessCallback svc saId businessKey) s"
  using put_served [OF ready dispatch_simps(44) [unfolded UnRegisterBusinessCallbackInner_def]
    sends_more [OF is_raw_simps(2) sends_more [OF is_raw_simps(2) sends_Nil]]
    rd_reads_more [OF rd_reads_string rd_reads_string]]
  by (simp add: Proxy_UnRegisterBusinessCallback_def)

lemma PutBusinessEvent_served:
  assumes ready: "service_ready svc s"
  shows "Proxy_PutBusinessEvent P (Some (OnRemoteRequest P svc other)) event s = in_service svc (svc_PutBusinessEvent svc event) s"
  using put_served [OF ready dispatch_simps(45) [unfolded PutBusinessEventInner_def]
    sends_last [OF event.writes [OF TrueI]]
    rd_reads_obj [OF event.reads [OF TrueI]]]
  by (simp add: Proxy_PutBusinessEvent_def)

lemma PutServiceInfo_served:
  assumes ready: "service_ready svc s"
  shows "Proxy_PutServiceInfo P (Some (OnRemoteRequest P svc other)) info s = in_service svc (svc_PutServiceInfo svc info) s"
  using put_served [OF ready dispatch_simps(47) [unfolded PutServiceInfoInner_def]
    sends_last [OF service_info.writes [OF TrueI]]
    rd_reads_obj [OF service_info.reads [OF TrueI]]]
  by (simp add: Proxy_PutServiceInfo_def)

lemma DeleteServiceInfo_served:
  assumes ready: "service_ready svc s"
  shows "Proxy_DeleteServiceInfo P (Some (OnRemoteRequest P svc other)) userInfo s = in_service svc (svc_DeleteServiceInfo svc userInfo) s"
  using put_served [OF ready dispatch_simps(48) [unfolded DeleteServiceInfoInner_def]
    sends_last [OF user_info.writes [OF TrueI]]
    rd_reads_obj [OF user_info.reads [OF TrueI]]]
  by (simp add: Proxy_DeleteServiceInfo_def)

lemma SubscribeAllServiceInfo_served:
  assumes ready: "service_ready svc s"
    and oks: "listener \<noteq> None"
  shows "Proxy_SubscribeAllServiceInfo P (Some (OnRemoteRequest P svc other)) saId listener s = in_service svc (svc_SubscribeAllServiceInfo svc saId listener) s"
  using put_served [OF ready dispatch_simps(51) [unfolded SubscribeAllServiceInfoInner_def]
    sends_more [OF is_raw_simps(1) sends_more [OF is_raw_simps(4) sends_Nil]]
    rd_reads_more [OF rd_reads_int rd_reads_remote_object [OF oks]]]
  by (simp add: Proxy_SubscribeAllServiceInfo_def)

section \<open>Calls with an answer\<close>

lemma GetTrustDeviceProfile_served:
  assumes ready: "service_ready svc s"
    and answer: "answer_ok (\<lambda>x. length (tp_serviceIdList x) \<le> MAX_SERVICE_SIZE) svc (svc_GetTrustDeviceProfile svc deviceId TrustDeviceProfile_default) s"
  shows "Proxy_GetTrustDeviceProfile P (Some (OnRemoteRequest P svc other)) deviceId TrustDeviceProfile_default s =
    in_service svc (on_success TrustDeviceProfile_default (svc_GetTrustDeviceProfile svc deviceId TrustDeviceProfile_default)) s"
proof -
  obtain ret x' s1 where ans: "svc_GetTrustDeviceProfile svc deviceId TrustDeviceProfile_default (entered svc s) = ((ret, x'), s1)" by (metis prod.collapse)
  then have ok: "length (tp_serviceIdList x') \<le> MAX_SERVICE_SIZE" using answer by (simp add: answer_ok_def)
  show ?thesis
    unfolding Proxy_GetTrustDeviceProfile_def
    using get_served [OF ready dispatch_simps(3) [unfolded GetTrustDeviceProfileInner_def]
      sends_more [OF is_raw_simps(2) sends_Nil]
      rd_reads_string _ sends_last [OF trust_device.writes [OF ok]] trust_device.reads [OF ok]]
    by (simp add: ans)
qed

lemma GetAllTrustDeviceProfile_served:
  assumes ready: "service_ready svc s"
    and answer: "answer_ok (\<lambda>x. vec_ok (\<lambda>x. length (tp_serviceIdList x) \<le> MAX_SERVICE_SIZE) x) svc (svc_GetAllTrustDeviceProfile svc []) s"
  shows "Proxy_GetAllTrustDeviceProfile P (Some (OnRemoteRequest P svc other)) [] s =
    in_service svc (on_success [] (svc_GetAllTrustDeviceProfile svc [])) s"
proof -
  obtain ret x' s1 where ans: "svc_GetAllTrustDeviceProfile svc [] (entered svc s) = ((ret, x'), s1)" by (metis prod.collapse)
  then have ok: "vec_ok (\<lambda>x. length (tp_serviceIdList x) \<le> MAX_SERVICE_SIZE) x'" using answer by (simp add: answer_ok_def)
  show ?thesis
    unfolding Proxy_GetAllTrustDeviceProfile_def
    using get_served [OF ready dispatch_simps(4) [unfolded GetAllTrustDeviceProfileInner_def]
      sends_Nil
      rd_reads_unit _ sends_last [OF trustDevices.writes [OF ok]] trustDevices.reads [OF ok]]
    by (simp add: ans)
qed

lemma GetAccessControlProfile_served:
  assumes ready: "service_ready svc s"
    and oks: "params_ok params"
    and answer: "answer_ok (\<lambda>x. vec_ok (\<lambda>_. True) x) svc (svc_GetAccessControlProfile svc params []) s"
  shows "Proxy_GetAccessControlProfile P (Some (OnRemoteRequest P svc other)) params [] s =
    in_service svc (on_success [] (svc_GetAccessControlProfile svc params [])) s"
proof -
  obtain ret x' s1 where ans: "svc_GetAccessControlProfile svc params [] (entered svc s) = ((ret, x'), s1)" by (metis prod.collapse)
  then have ok: "vec_ok (\<lambda>_. True) x'" using answer by (simp add: answer_ok_def)
  show ?thesis
    unfolding Proxy_GetAccessControlProfile_def
    using get_served [OF ready dispatch_simps(5) [unfolded GetAccessControlProfileInner_def]
      sends_last [OF params.writes [OF oks]]
      rd_reads_obj [OF params.reads [OF oks]] _ sends_last [OF acls.writes [OF ok]] acls.reads [OF ok]]
    by (simp add: ans)
qed

lemma GetAllAccessControlProfile_served:
  assumes ready: "service_ready svc s"
    and answer: "answer_ok (\<lambda>x. vec_ok (\<lambda>_. True) x) svc (svc_GetAllAccessControlProfile svc []) s"
  shows "Proxy_GetAllAccessControlProfile P (Some (OnRemoteRequest P svc other)) [] s =
    in_service svc (on_success [] (svc_GetAllAccessControlProfile svc [])) s"
proof -
  obtain ret x' s1 where ans: "svc_GetAllAccessControlProfile svc [] (entered svc s) = ((ret, x'), s1)" by (metis prod.collapse)
  then have ok: "vec_ok (\<lambda>_. True) x'" using answer by (simp add: answer_ok_def)
  show ?thesis
    unfolding Proxy_GetAllAccessControlProfile_def
    using get_served [OF ready dispatch_simps(6) [unfolded GetAllAccessControlProfileInner_def]
      sends_Nil
      rd_reads_unit _ sends_last [OF acls.writes [OF ok]] acls.reads [OF ok]]
    by (simp add: ans)
qed

lemma GetAllAclIncludeLnnAcl_served:
  assumes ready: "service_ready svc s"
    and answer: "answer_ok (\<lambda>x. vec_ok (\<lambda>_. True) x) svc (svc_GetAllAclIncludeLnnAcl svc []) s"
  shows "Proxy_GetAllAclIncludeLnnAcl P (Some (OnRemoteRequest P svc other)) [] s =
    in_service svc (on_success [] (svc_GetAllAclIncludeLnnAcl svc [])) s"
proof -
  obtain ret x' s1 where ans: "svc_GetAllAclIncludeLnnAcl svc [] (entered svc s) = ((ret, x'), s1)" by (metis prod.collapse)
  then have ok: "vec_ok (\<lambda>_. True) x'" using answer by (simp add: answer_ok_def)
  show ?thesis
    unfolding Proxy_GetAllAclIncludeLnnAcl_def
    using get_served [OF ready dispatch_simps(7) [unfolded GetAllAclIncludeLnnAclInner_def]
      sends_Nil
      rd_reads_unit _ sends_last [OF acls.writes [OF ok]] acls.reads [OF ok]]
    by (simp add: ans)
qed

lemma PutSessionKey_served:
  assumes ready: "service_ready svc s"
    and oks: "bytes_ok sessionKey"
  shows "Proxy_PutSessionKey P (Some (OnRemoteRequest P svc other)) userId sessionKey 0 s =
    in_service svc (on_success 0 (svc_PutSessionKey svc userId sessionKey 0)) s"
proof -
  obtain ret x' s1 where ans: "svc_PutSessionKey svc userId sessionKey 0 (entered svc s) = ((ret, x'), s1)" by (metis prod.collapse)
  show ?thesis
    unfolding Proxy_PutSessionKey_def
    using get_served [OF ready dispatch_simps(9) [unfolded PutSessionKeyInner_def]
      sends_more_raw [OF is_raw_simps(1) bytes_sent [OF oks]]
      rd_reads_more [OF rd_reads_int rd_reads_obj [OF bytes_got [OF oks]]] _ sends_more [OF is_raw_simps(1) sends_Nil] reads_value_int]
    by (simp add: ans)
qed

lemma GetSessionKey_served:
  assumes ready: "service_ready svc s"
    and answer: "answer_ok (\<lambda>x. bytes_ok x) svc (svc_GetSessionKey svc userId sessionKeyId []) s"
  shows "Proxy_GetSessionKey P (Some (OnRemoteRequest P svc other)) userId sessionKeyId [] s =
    in_service svc (on_success [] (svc_GetSessionKey svc userId sessionKeyId [])) s"
proof -
  obtain ret x' s1 where ans: "svc_GetSessionKey svc userId sessionKeyId [] (entered svc s) = ((ret, x'), s1)" by (metis prod.collapse)
  then have ok: "bytes_ok x'" using answer by (simp add: answer_ok_def)
  show ?thesis
    unfolding Proxy_GetSessionKey_def
    using get_served [OF ready dispatch_simps(10) [unfolded GetSessionKeyInner_def]
      sends_more [OF is_raw_simps(1) sends_more [OF is_raw_simps(1) sends_Nil]]
      rd_reads_more [OF rd_reads_int rd_reads_int] _ bytes_sent [OF ok] bytes_got [OF ok]]
    by (simp add: ans)
qed

lemma GetSessionKeyBySessionKeyId_served:
  assumes ready: "service_ready svc s"
    and answer: "answer_ok (\<lambda>x. bytes_ok x) svc (svc_GetSessionKeyBySessionKeyId svc sessionKeyId []) s"
  shows "Proxy_GetSessionKeyBySessionKeyId P (Some (OnRemoteRequest P svc other)) sessionKeyId [] s =
    in_service svc (on_success [] (svc_GetSessionKeyBySessionKeyId svc sessionKeyId [])) s"
proof -
  obtain ret x' s1 where ans: "svc_GetSessionKeyBySessionKeyId svc sessionKeyId [] (entered svc s) = ((ret, x'), s1)" by (metis prod.collapse)
  then have ok: "bytes_ok x'" using answer by (simp add: answer_ok_def)
  show ?thesis
    unfolding Proxy_GetSessionKeyBySessionKeyId_def
    using get_served [OF ready dispatch_simps(11) [unfolded GetSessionKeyBySessionKeyIdInner_def]
      sends_more [OF is_raw_simps(1) sends_Nil]
      rd_reads_int _ bytes_sent [OF ok] bytes_got [OF ok]]
    by (simp add: ans)
qed

lemma GetDeviceProfile_served:
  assumes ready: "service_ready svc s"
    and answer: "answer_ok (\<lambda>x. dp_id x = 0) svc (svc_GetDeviceProfile svc deviceId (DeviceProfile_default\<lparr>dp_isMultiUser := isMultiUser, dp_userId := userId\<rparr>)) s"
  shows "Proxy_GetDeviceProfile P (Some (OnRemoteRequest P svc other)) deviceId (DeviceProfile_default\<lparr>dp_isMultiUser := isMultiUser, dp_userId := userId\<rparr>) s =
    in_service svc (on_success (DeviceProfile_default\<lparr>dp_isMultiUser := isMultiUser, dp_userId := userId\<rparr>) (svc_GetDeviceProfile svc deviceId (DeviceProfile_default\<lparr>dp_isMultiUser := isMultiUser, dp_userId := userId\<rparr>))) s"
proof -
  obtain ret x' s1 where ans: "svc_GetDeviceProfile svc deviceId (DeviceProfile_default\<lparr>dp_isMultiUser := isMultiUser, dp_userId := userId\<rparr>) (entered svc s) = ((ret, x'), s1)" by (metis prod.collapse)
  then have ok: "dp_id x' = 0" using answer by (simp add: answer_ok_def)
  show ?thesis
    unfolding Proxy_GetDeviceProfile_def
    using get_served [OF ready dispatch_simps(18) [unfolded GetDeviceProfileInner_def]
      sends_more [OF is_raw_simps(2) sends_more [OF is_raw_simps(3) sends_more [OF is_raw_simps(1) sends_Nil]]]
      rd_reads_more [OF rd_reads_string rd_reads_more [OF rd_reads_bool rd_reads_int]] _ sends_last [OF device.writes [OF ok]] device_any [OF ok]]
    by (simp add: ans)
qed

lemma GetServiceProfile_served:
  assumes ready: "service_ready svc s"
  shows "Proxy_GetServiceProfile P (Some (OnRemoteRequest P svc other)) deviceId serviceName (ServiceProfile_default\<lparr>sp_isMultiUser := isMultiUser, sp_userId := userId\<rparr>) s =
    in_service svc (on_success (ServiceProfile_default\<lparr>sp_isMultiUser := isMultiUser, sp_userId := userId\<rparr>) (svc_GetServiceProfile svc deviceId serviceName (ServiceProfile_default\<lparr>sp_isMultiUser := isMultiUser, sp_userId := userId\<rparr>))) s"
proof -
  obtain ret x' s1 where ans: "svc_GetServiceProfile svc deviceId serviceName (ServiceProfile_default\<lparr>sp_isMultiUser := isMultiUser, sp_userId := userId\<rparr>) (entered svc s) = ((ret, x'), s1)" by (metis prod.collapse)
  show ?thesis
    unfolding Proxy_GetServiceProfile_def
    using get_served [OF ready dispatch_simps(19) [unfolded GetServiceProfileInner_def]
      sends_more [OF is_raw_simps(2) sends_more [OF is_raw_simps(2) sends_more [OF is_raw_simps(3) sends_more [OF is_raw_simps(1) sends_Nil]]]]
      rd_reads_more [OF rd_reads_string rd_reads_more [OF rd_reads_string rd_reads_more [OF rd_reads_bool rd_reads_int]]] _ sends_last [OF service.writes [OF TrueI]] service_any]
    by (simp add: ans)
qed

lemma GetCharacteristicProfile_served:
  assumes ready: "service_ready svc s"
  shows "Proxy_GetCharacteristicProfile P (Some (OnRemoteRequest P svc other)) deviceId serviceName charKey (CharacteristicProfile_default\<lparr>cp_isMultiUser := isMultiUser, cp_userId := userId\<rparr>) s =
    in_service svc (on_success (CharacteristicProfile_default\<lparr>cp_isMultiUser := isMultiUser, cp_userId := userId\<rparr>) (svc_GetCharacteristicProfile svc deviceId serviceName charKey (CharacteristicProfile_default\<lparr>cp_isMultiUser := isMultiUser, cp_userId := userId\<rparr>))) s"
proof -
  obtain ret x' s1 where ans: "svc_GetCharacteristicProfile svc deviceId serviceName charKey (CharacteristicProfile_default\<lparr>cp_isMultiUser := isMultiUser, cp_userId := userId\<rparr>) (entered svc s) = ((ret, x'), s1)" by (metis prod.collapse)
  show ?thesis
    unfolding Proxy_GetCharacteristicProfile_def
    using get_served [OF ready dispatch_simps(20) [unfolded GetCharacteristicProfileInner_def]
      sends_more [OF is_raw_simps(2) sends_more [OF is_raw_simps(2) sends_more [OF is_raw_simps(2) sends_more [OF is_raw_simps(3) sends_more [OF is_raw_simps(1) sends_Nil]]]]]
      rd_reads_more [OF rd_reads_string rd_reads_more [OF rd_reads_string rd_reads_more [OF rd_reads_string rd_reads_more [OF rd_reads_bool rd_reads_int]]]] _ sends_last [OF char.writes [OF TrueI]] char_any]
    by (simp add: ans)
qed

lemma GetLocalServiceInfoByBundleAndPinType_served:
  assumes ready: "service_ready svc s"
  shows "Proxy_GetLocalServiceInfoByBundleAndPinType P (Some (OnRemoteRequest P svc other)) bundleName pinExchangeType LocalServiceInfo_default s =
    in_service svc (on_success LocalServiceInfo_default (svc_GetLocalServiceInfoByBundleAndPinType svc bundleName pinExchangeType LocalServiceInfo_default)) s"
proof -
  obtain ret x' s1 where ans: "svc_GetLocalServiceInfoByBundleAndPinType svc bundleName pinExchangeType LocalServiceInfo_default (entered svc s) = ((ret, x'), s1)" by (metis prod.collapse)
  show ?thesis
    unfolding Proxy_GetLocalServiceInfoByBundleAndPinType_def
    using get_served [OF ready dispatch_simps(33) [unfolded GetLocalServiceInfoByBundleAndPinTypeInner_def]
      sends_more [OF is_raw_simps(2) sends_more [OF is_raw_simps(1) sends_Nil]]
      rd_reads_more [OF rd_reads_string rd_reads_int] _ sends_last [OF local_service.writes [OF TrueI]] local_service.reads [OF TrueI]]
    by (simp add: ans)
qed

lemma GetDeviceProfiles_served:
  assumes ready: "service_ready svc s"
    and oks: "filter_ok options"
    and answer: "answer_ok (\<lambda>x. vec_ok (\<lambda>x. dp_id x = 0) x) svc (svc_GetDeviceProfiles svc options []) s"
  shows "Proxy_GetDeviceProfiles P (Some (OnRemoteRequest P svc other)) options [] s =
    in_service svc (on_success [] (svc_GetDeviceProfiles svc options [])) s"
proof -
  obtain ret x' s1 where ans: "svc_GetDeviceProfiles svc options [] (entered svc s) = ((ret, x'), s1)" by (metis prod.collapse)
  then have ok: "vec_ok (\<lambda>x. dp_id x = 0) x'" using answer by (simp add: answer_ok_def)
  show ?thesis
    unfolding Proxy_GetDeviceProfiles_def
    using get_served [OF ready dispatch_simps(36) [unfolded GetDeviceProfilesInner_def]
      sends_last [OF profile_filter.writes [OF oks [unfolded filter_ok_def]]]
      rd_reads_obj [OF profile_filter.reads [OF oks [unfolded filter_ok_def]]] _ sends_last [OF devices.writes [OF ok]] devices.reads [OF ok]]
    by (simp add: ans)
qed

lemma GetBusinessEvent_served:
  assumes ready: "service_ready svc s"
  shows "Proxy_GetBusinessEvent P (Some (OnRemoteRequest P svc other)) x s =
    in_service svc (on_success x (svc_GetBusinessEvent svc x)) s"
proof -
  obtain ret x' s1 where ans: "svc_GetBusinessEvent svc x (entered svc s) = ((ret, x'), s1)" by (metis prod.collapse)
  show ?thesis
    unfolding Proxy_GetBusinessEvent_def
    using get_served [OF ready dispatch_simps(46) [unfolded GetBusinessEventInner_def]
      sends_last [OF event.writes [OF TrueI]]
      rd_reads_obj [OF event.reads [OF TrueI]] _ sends_last [OF event.writes [OF TrueI]] event_any]
    by (simp add: ans)
qed

lemma GetAllServiceInfoList_served:
  assumes ready: "service_ready svc s"
    and answer: "answer_ok (\<lambda>x. length x \<le> MAX_PROFILE_SIZE) svc (svc_GetAllServiceInfoList svc []) s"
  shows "Proxy_GetAllServiceInfoList P (Some (OnRemoteRequest P svc other)) [] s =
    in_service svc (on_success [] (svc_GetAllServiceInfoList svc [])) s"
proof -
  obtain ret x' s1 where ans: "svc_GetAllServiceInfoList svc [] (entered svc s) = ((ret, x'), s1)" by (metis prod.collapse)
  then have ok: "length x' \<le> MAX_PROFILE_SIZE" using answer by (simp add: answer_ok_def)
  show ?thesis
    unfolding Proxy_GetAllServiceInfoList_def
    using get_served [OF ready dispatch_simps(49) [unfolded GetAllServiceInfoListInner_def]
      sends_Nil
      rd_reads_unit _ sends_last [OF serviceInfos.writes [OF ok]] serviceInfos.reads [OF ok]]
    by (simp add: ans)
qed

lemma GetServiceInfosByUserInfo_served:
  assumes ready: "service_ready svc s"
    and answer: "answer_ok (\<lambda>x. length x \<le> MAX_PROFILE_SIZE) svc (svc_GetServiceInfosByUserInfo svc userInfo []) s"
  shows "Proxy_GetServiceInfosByUserInfo P (Some (OnRemoteRequest P svc other)) userInfo [] s =
    in_service svc (on_success [] (svc_GetServiceInfosByUserInfo svc userInfo [])) s"
proof -
  obtain ret x' s1 where ans: "svc_GetServiceInfosByUserInfo svc userInfo [] (entered svc s) = ((ret, x'), s1)" by (metis prod.collapse)
  then have ok: "length x' \<le> MAX_PROFILE_SIZE" using answer by (simp add: answer_ok_def)
  show ?thesis
    unfolding Proxy_GetServiceInfosByUserInfo_def
    using get_served [OF ready dispatch_simps(50) [unfolded GetServiceInfosByUserInfoInner_def]
      sends_last [OF user_info.writes [OF TrueI]]
      rd_reads_obj [OF user_info.reads [OF TrueI]] _ sends_last [OF serviceInfos.writes [OF ok]] serviceInfos.reads [OF ok]]
    by (simp add: ans)
qed

end

end
