(* ===== verification/IpcProps.thy ===== *)
theory IpcProps
  imports IpcServed
begin

text \<open>
  What the calls between processes promise: values cross them unchanged, a call through proxy and stub
  is the call of the service, and what cannot be read or written ends with a code, the service not
  called or its answer kept back.
\<close>

section \<open>A service\<close>

text \<open>The witnesses run on a service that counts its running calls and lists what was called.\<close>

definition demo_put :: "int \<Rightarrow> int \<times> int list \<Rightarrow> dp_ret \<times> (int \<times> int list)" where
  "demo_put code s = (DP_SUCCESS, (fst s, snd s @ [code]))"

definition demo_get :: "int \<Rightarrow> 'x \<Rightarrow> int \<times> int list \<Rightarrow> (dp_ret \<times> 'x) \<times> (int \<times> int list)" where
  "demo_get code x s = ((DP_SUCCESS, x), (fst s, snd s @ [code]))"

definition demo_service :: "(int \<times> int list) IDistributedDeviceProfile" where
  "demo_service = \<lparr>
     svc_IsStopped = (\<lambda>_. False),
     svc_ExitIdleState = Pair True,
     svc_AddRunningIpcCount = (\<lambda>(n, calls). (n + 1, calls)),
     svc_SubtractRunningIpcCount = (\<lambda>(n, calls). (n - 1, calls)),
     svc_DelayUnloadTask = (\<lambda>s. s),
     svc_IsInited = (\<lambda>_. True),
     svc_PutAccessControlProfile = (\<lambda>_. demo_put PUT_ACL_PROFILE),
     svc_UpdateAccessControlProfile = (\<lambda>_. demo_put UPDATE_ACL_PROFILE),
     svc_GetTrustDeviceProfile = (\<lambda>_ _. demo_get GET_TRUST_DEVICE_PROFILE TrustDeviceProfile_default),
     svc_GetAllTrustDeviceProfile = (\<lambda>_. demo_get GET_ALL_TRUST_DEVICE_PROFILE [TrustDeviceProfile_default]),
     svc_GetAccessControlProfile = (\<lambda>_ _. demo_get GET_ACL_PROFILE [AccessControlProfile_default]),
     svc_GetAllAccessControlProfile = (\<lambda>_. demo_get GET_ALL_ACL_PROFILE [AccessControlProfile_default]),
     svc_GetAllAclIncludeLnnAcl = (\<lambda>_. demo_get GET_ALL_ACL_INCLUDE_LNN_ACL [AccessControlProfile_default]),
     svc_DeleteAccessControlProfile = (\<lambda>_. demo_put DELETE_ACL_PROFILE),
     svc_PutSessionKey = (\<lambda>_ _ _. demo_get PUT_SESSION_KEY 5),
     svc_GetSessionKey = (\<lambda>_ _ _. demo_get GET_SESSION_KEY [7]),
     svc_GetSessionKeyBySessionKeyId = (\<lambda>_ _. demo_get GET_SESSION_KEY_BY_SESSIONKEYID [7]),
     svc_UpdateSessionKey = (\<lambda>_ _ _. demo_put UPDATE_SESSION_KEY),
     svc_DeleteSessionKey = (\<lambda>_ _. demo_put DELETE_SESSION_KEY),
     svc_PutServiceProfile = (\<lambda>_. demo_put PUT_SERVICE_PROFILE),
     svc_PutServiceProfileBatch = (\<lambda>_. demo_put PUT_SERVICE_PROFILE_BATCH),
     svc_PutCharacteristicProfile = (\<lambda>_. demo_put PUT_CHAR_PROFILE),
     svc_PutCharacteristicProfileBatch = (\<lambda>_. demo_put PUT_CHAR_PROFILE_BATCH),
     svc_GetDeviceProfile = (\<lambda>_ _. demo_get GET_DEVICE_PROFILE_NEW DeviceProfile_default),
     svc_GetServiceProfile = (\<lambda>_ _ _. demo_get GET_SERVICE_PROFILE ServiceProfile_default),
     svc_GetCharacteristicProfile = (\<lambda>_ _ _ _. demo_get GET_CHAR_PROFILE CharacteristicProfile_default),
     svc_DeleteServiceProfile = (\<lambda>_ _ _ _. demo_put DEL_SERVICE_PROFILE),
     svc_DeleteCharacteristicProfile = (\<lambda>_ _ _ _ _. demo_put DEL_CHAR_PROFILE),
     svc_SubscribeDeviceProfile = (\<lambda>_. demo_put SUBSCRIBE_DEVICE_PROFILE),
     svc_UnSubscribeDeviceProfile = (\<lambda>_. demo_put UNSUBSCRIBE_DEVICE_PROFILE),
     svc_SyncDeviceProfile = (\<lambda>_ _. demo_put SYNC_DEVICE_PROFILE_NEW),
     svc_SyncStaticProfile = (\<lambda>_ _. demo_put SYNC_STATIC_PROFILE),
     svc_SendSubscribeInfos = (\<lambda>_. demo_put SEND_SUBSCRIBE_INFOS),
     svc_SubscribeDeviceProfileInited = (\<lambda>_ _. demo_put SUBSCRIBE_DEVICE_PROFILE_INITED),
     svc_UnSubscribeDeviceProfileInited = (\<lambda>_. demo_put UNSUBSCRIBE_DEVICE_PROFILE_INITED),
     svc_PutAllTrustedDevices = (\<lambda>_. demo_put PUT_ALL_TRUSTED_DEVICES),
     svc_PutLocalServiceInfo = (\<lambda>_. demo_put PUT_LOCAL_SERVICE_INFO),
     svc_UpdateLocalServiceInfo = (\<lambda>_. demo_put UPDATE_LOCAL_SERVICE_INFO),
     svc_GetLocalServiceInfoByBundleAndPinType = (\<lambda>_ _ _. demo_get GET_LOCAL_SERVICE_INFO_BY_BINDLE_AND_PINTYPE LocalServiceInfo_default),
     svc_DeleteLocalServiceInfo = (\<lambda>_ _. demo_put DELETE_LOCAL_SERVICE_INFO),
     svc_PutDeviceProfileBatch = (\<lambda>_. demo_put PUT_DEVICE_PROFILE_BATCH),
     svc_GetDeviceProfiles = (\<lambda>_ _. demo_get GET_DEVICE_PROFILES [DeviceProfile_default]),
     svc_SubscribePinCodeInvalid = (\<lambda>_ _ _. demo_put SUBSCRIBE_PINCODE_INVALID),
     svc_UnSubscribePinCodeInvalid = (\<lambda>_ _. demo_put UNSUBSCRIBE_PINCODE_INVALID),
     svc_PutProductInfoBatch = (\<lambda>_. demo_put PUT_PRODUCT_INFO_BATCH),
     svc_PutDeviceIconInfoBatch = (\<lambda>_. demo_put PUT_DEVICE_ICON_INFO_BATCH),
     svc_GetDeviceIconInfos = (\<lambda>_ _. demo_get GET_DEVICE_ICON_INFOS []),
     svc_DeleteDeviceProfileBatch = (\<lambda>_. demo_put DELETE_DEVICE_PROFILE_BATCH),
     svc_RegisterBusinessCallback = (\<lambda>_ _ _. demo_put REGISTER_BUSINESS_CALLBACK),
     svc_UnRegisterBusinessCallback = (\<lambda>_ _. demo_put UNREGISTER_BUSINESS_CALLBACK),
     svc_PutBusinessEvent = (\<lambda>_. demo_put PUT_BUSINESS_EVENT),
     svc_GetBusinessEvent = (\<lambda>_. demo_get GET_BUSINESS_EVENT BusinessEvent_default),
     svc_PutServiceInfo = (\<lambda>_. demo_put PUT_SERVICE_INFO),
     svc_DeleteServiceInfo = (\<lambda>_. demo_put DELETE_SERVICE_INFO),
     svc_GetAllServiceInfoList = (\<lambda>_. demo_get GET_ALL_SERVICE_INFO_LIST []),
     svc_GetServiceInfosByUserInfo = (\<lambda>_ _. demo_get GET_SERVICE_INFO_BY_USER_INFO []),
     svc_SubscribeAllServiceInfo = (\<lambda>_ _. demo_put SUBSCRIBE_SERVICE_INFO_CALLBACK)\<rparr>"

lemma demo_service_simps [simp]:
  "service_ready demo_service s" "entered demo_service s = (fst s + 1, snd s)"
  by (cases s; simp add: service_ready_def entered_def demo_service_def)+

section \<open>Values\<close>

context roomy_parcel
begin

lemmas crossings = acl.value_crosses [OF TrueI] accesser.value_crosses [OF TrueI] accessee.value_crosses [OF TrueI]
  service.value_crosses [OF TrueI] char.value_crosses [OF TrueI] service_info.value_crosses [OF TrueI]
  local_service.value_crosses [OF TrueI] trusted_info.value_crosses [OF TrueI] event.value_crosses [OF TrueI]
  trust_device.value_crosses device.value_crosses subscribe.value_crosses sync.value_crosses params.value_crosses
  listeners.value_crosses acls.value_crosses devices.value_crosses strings.value_crosses change_types.value_crosses

end


section \<open>Calls\<close>

text \<open>C23: Through the proxy and the stub, each call that has no answer is the call of the service with
  the same arguments, with the code and the effect of the service, inside the count of running calls.\<close>

theorem ipc_calls_transparent:
  assumes "roomy_parcel P view"
    and "service_ready svc s"
    and "bytes_ok sessionKey"
    and "vec_ok (\<lambda>_. True) sps"
    and "vec_ok (\<lambda>_. True) cps"
    and "subscribe_ok info"
    and "so_syncMode options \<in> {0, 1, 2} \<and> length (so_syncDeviceIds options) \<le> MAX_DEVICE_SIZE"
    and "listeners_ok listenerMap"
    and "listener \<noteq> None"
    and "vec_ok (\<lambda>_. True) infos"
    and "vec_ok (\<lambda>x. dp_id x = 0) dps"
    and "vec_ok (\<lambda>_. True) products"
  shows
    "Proxy_PutAccessControlProfile P (Some (OnRemoteRequest P svc other)) acl s = in_service svc (svc_PutAccessControlProfile svc acl) s \<and>
     Proxy_UpdateAccessControlProfile P (Some (OnRemoteRequest P svc other)) acl s = in_service svc (svc_UpdateAccessControlProfile svc acl) s \<and>
     Proxy_DeleteAccessControlProfile P (Some (OnRemoteRequest P svc other)) accessControlId s = in_service svc (svc_DeleteAccessControlProfile svc accessControlId) s \<and>
     Proxy_UpdateSessionKey P (Some (OnRemoteRequest P svc other)) keyUser sessionKeyId sessionKey s = in_service svc (svc_UpdateSessionKey svc keyUser sessionKeyId sessionKey) s \<and>
     Proxy_DeleteSessionKey P (Some (OnRemoteRequest P svc other)) keyUser sessionKeyId s = in_service svc (svc_DeleteSessionKey svc keyUser sessionKeyId) s \<and>
     Proxy_PutServiceProfile P (Some (OnRemoteRequest P svc other)) sp s = in_service svc (svc_PutServiceProfile svc sp) s \<and>
     Proxy_PutServiceProfileBatch P (Some (OnRemoteRequest P svc other)) sps s = in_service svc (svc_PutServiceProfileBatch svc sps) s \<and>
     Proxy_PutCharacteristicProfile P (Some (OnRemoteRequest P svc other)) cp s = in_service svc (svc_PutCharacteristicProfile svc cp) s \<and>
     Proxy_PutCharacteristicProfileBatch P (Some (OnRemoteRequest P svc other)) cps s = in_service svc (svc_PutCharacteristicProfileBatch svc cps) s \<and>
     Proxy_DeleteServiceProfile P (Some (OnRemoteRequest P svc other)) deviceId serviceName isMultiUser userId s = in_service svc (svc_DeleteServiceProfile svc deviceId serviceName isMultiUser userId) s \<and>
     Proxy_DeleteCharacteristicProfile P (Some (OnRemoteRequest P svc other)) deviceId serviceName charKey isMultiUser userId s = in_service svc (svc_DeleteCharacteristicProfile svc deviceId serviceName charKey isMultiUser userId) s \<and>
     Proxy_SubscribeDeviceProfile P (Some (OnRemoteRequest P svc other)) info s = in_service svc (svc_SubscribeDeviceProfile svc info) s \<and>
     Proxy_UnSubscribeDeviceProfile P (Some (OnRemoteRequest P svc other)) info s = in_service svc (svc_UnSubscribeDeviceProfile svc info) s \<and>
     Proxy_SyncDeviceProfile P (Some (OnRemoteRequest P svc other)) options callback s = in_service svc (svc_SyncDeviceProfile svc options callback) s \<and>
     Proxy_SyncStaticProfile P (Some (OnRemoteRequest P svc other)) options callback s = in_service svc (svc_SyncStaticProfile svc options callback) s \<and>
     Proxy_SendSubscribeInfos P (Some (OnRemoteRequest P svc other)) listenerMap s = in_service svc (svc_SendSubscribeInfos svc listenerMap) s \<and>
     Proxy_SubscribeDeviceProfileInited P (Some (OnRemoteRequest P svc other)) saId listener s = in_service svc (svc_SubscribeDeviceProfileInited svc saId listener) s \<and>
     Proxy_UnSubscribeDeviceProfileInited P (Some (OnRemoteRequest P svc other)) saId s = in_service svc (svc_UnSubscribeDeviceProfileInited svc saId) s \<and>
     Proxy_PutAllTrustedDevices P (Some (OnRemoteRequest P svc other)) infos s = in_service svc (svc_PutAllTrustedDevices svc infos) s \<and>
     Proxy_PutLocalServiceInfo P (Some (OnRemoteRequest P svc other)) lsi s = in_service svc (svc_PutLocalServiceInfo svc lsi) s \<and>
     Proxy_UpdateLocalServiceInfo P (Some (OnRemoteRequest P svc other)) lsi s = in_service svc (svc_UpdateLocalServiceInfo svc lsi) s \<and>
     Proxy_DeleteLocalServiceInfo P (Some (OnRemoteRequest P svc other)) bundleName pinExchangeType s = in_service svc (svc_DeleteLocalServiceInfo svc bundleName pinExchangeType) s \<and>
     Proxy_PutDeviceProfileBatch P (Some (OnRemoteRequest P svc other)) dps s = in_service svc (svc_PutDeviceProfileBatch svc dps) s \<and>
     Proxy_DeleteDeviceProfileBatch P (Some (OnRemoteRequest P svc other)) dps s = in_service svc (svc_DeleteDeviceProfileBatch svc dps) s \<and>
     Proxy_SubscribePinCodeInvalid P (Some (OnRemoteRequest P svc other)) bundleName pinExchangeType listener s = in_service svc (svc_SubscribePinCodeInvalid svc bundleName pinExchangeType listener) s \<and>
     Proxy_UnSubscribePinCodeInvalid P (Some (OnRemoteRequest P svc other)) bundleName pinExchangeType s = in_service svc (svc_UnSubscribePinCodeInvalid svc bundleName pinExchangeType) s \<and>
     Proxy_PutProductInfoBatch P (Some (OnRemoteRequest P svc other)) products s = in_service svc (svc_PutProductInfoBatch svc products) s \<and>
     Proxy_RegisterBusinessCallback P (Some (OnRemoteRequest P svc other)) saName businessKey listener s = in_service svc (svc_RegisterBusinessCallback svc saName businessKey listener) s \<and>
     Proxy_UnRegisterBusinessCallback P (Some (OnRemoteRequest P svc other)) saName businessKey s = in_service svc (svc_UnRegisterBusinessCallback svc saName businessKey) s \<and>
     Proxy_PutBusinessEvent P (Some (OnRemoteRequest P svc other)) event s = in_service svc (svc_PutBusinessEvent svc event) s \<and>
     Proxy_PutServiceInfo P (Some (OnRemoteRequest P svc other)) svi s = in_service svc (svc_PutServiceInfo svc svi) s \<and>
     Proxy_DeleteServiceInfo P (Some (OnRemoteRequest P svc other)) userInfo s = in_service svc (svc_DeleteServiceInfo svc userInfo) s \<and>
     Proxy_SubscribeAllServiceInfo P (Some (OnRemoteRequest P svc other)) saId listener s = in_service svc (svc_SubscribeAllServiceInfo svc saId listener) s"
  by (intro conjI)
    (rule roomy_parcel.PutAccessControlProfile_served [OF assms(1) assms(2)]
      roomy_parcel.UpdateAccessControlProfile_served [OF assms(1) assms(2)]
      roomy_parcel.DeleteAccessControlProfile_served [OF assms(1) assms(2)]
      roomy_parcel.UpdateSessionKey_served [OF assms(1) assms(2) assms(3)]
      roomy_parcel.DeleteSessionKey_served [OF assms(1) assms(2)]
      roomy_parcel.PutServiceProfile_served [OF assms(1) assms(2)]
      roomy_parcel.PutServiceProfileBatch_served [OF assms(1) assms(2) assms(4)]
      roomy_parcel.PutCharacteristicProfile_served [OF assms(1) assms(2)]
      roomy_parcel.PutCharacteristicProfileBatch_served [OF assms(1) assms(2) assms(5)]
      roomy_parcel.DeleteServiceProfile_served [OF assms(1) assms(2)]
      roomy_parcel.DeleteCharacteristicProfile_served [OF assms(1) assms(2)]
      roomy_parcel.SubscribeDeviceProfile_served [OF assms(1) assms(2) assms(6)]
      roomy_parcel.UnSubscribeDeviceProfile_served [OF assms(1) assms(2) assms(6)]
      roomy_parcel.SyncDeviceProfile_served [OF assms(1) assms(2) assms(7)]
      roomy_parcel.SyncStaticProfile_served [OF assms(1) assms(2) assms(7)]
      roomy_parcel.SendSubscribeInfos_served [OF assms(1) assms(2) assms(8)]
      roomy_parcel.SubscribeDeviceProfileInited_served [OF assms(1) assms(2) assms(9)]
      roomy_parcel.UnSubscribeDeviceProfileInited_served [OF assms(1) assms(2)]
      roomy_parcel.PutAllTrustedDevices_served [OF assms(1) assms(2) assms(10)]
      roomy_parcel.PutLocalServiceInfo_served [OF assms(1) assms(2)]
      roomy_parcel.UpdateLocalServiceInfo_served [OF assms(1) assms(2)]
      roomy_parcel.DeleteLocalServiceInfo_served [OF assms(1) assms(2)]
      roomy_parcel.PutDeviceProfileBatch_served [OF assms(1) assms(2) assms(11)]
      roomy_parcel.DeleteDeviceProfileBatch_served [OF assms(1) assms(2) assms(11)]
      roomy_parcel.SubscribePinCodeInvalid_served [OF assms(1) assms(2) assms(9)]
      roomy_parcel.UnSubscribePinCodeInvalid_served [OF assms(1) assms(2)]
      roomy_parcel.PutProductInfoBatch_served [OF assms(1) assms(2) assms(12)]
      roomy_parcel.RegisterBusinessCallback_served [OF assms(1) assms(2) assms(9)]
      roomy_parcel.UnRegisterBusinessCallback_served [OF assms(1) assms(2)]
      roomy_parcel.PutBusinessEvent_served [OF assms(1) assms(2)]
      roomy_parcel.PutServiceInfo_served [OF assms(1) assms(2)]
      roomy_parcel.DeleteServiceInfo_served [OF assms(1) assms(2)]
      roomy_parcel.SubscribeAllServiceInfo_served [OF assms(1) assms(2) assms(9)])+


section \<open>Bounds\<close>

text \<open>The options a client builds by adding devices one by one.\<close>

definition sync_request :: "string list \<Rightarrow> DpSyncOptions" where
  "sync_request ids = foldl (\<lambda>x d. AddDevice d x) DpSyncOptions_default ids"

lemma sync_request_simps [simp]:
  "so_syncMode (sync_request ids) = 2" "so_syncDeviceIds (sync_request ids) = take (MAX_DEVICE_SIZE + 1) ids"
proof -
  have "so_syncMode (sync_request ids) = 2 \<and> so_syncDeviceIds (sync_request ids) = take (MAX_DEVICE_SIZE + 1) ids"
    by (induction ids rule: rev_induct) (auto simp: sync_request_def AddDevice_def DpSyncOptions_default_def)
  then show "so_syncMode (sync_request ids) = 2" "so_syncDeviceIds (sync_request ids) = take (MAX_DEVICE_SIZE + 1) ids"
    by auto
qed

context roomy_parcel
begin

lemma sync_written:
  assumes "so_syncMode x \<in> {0, 1, 2}" "length (so_syncDeviceIds x) < 2 ^ 31"
  shows "writes view (DpSyncOptions_Marshalling P x) (sync_items x)"
proof -
  from assms have i32: "to_i32 (so_syncMode x) = so_syncMode x"
    "to_i32 (int (length (so_syncDeviceIds x))) = int (length (so_syncDeviceIds x))"
    by (auto intro!: to_i32_small)
  show ?thesis
    unfolding DpSyncOptions_Marshalling_def sync_items_def append_Cons append_Nil i32
    by (intro writes_steps writes_map_items; simp)
qed

lemma sync_unread:
  assumes "length (so_syncDeviceIds x) > MAX_DEVICE_SIZE" "view p = sync_items x @ rest"
  shows "\<exists>p'. rd_obj (DpSyncOptions_UnMarshalling P) DpSyncOptions_default e p = (Inl e, p')"
proof -
  obtain p1 where 1: "ReadInt P Int32 p = (Some (so_syncMode x), p1)"
    "view p1 = PInt Int32 (int (length (so_syncDeviceIds x))) # map PString (so_syncDeviceIds x) @ rest"
    using ReadInt_item assms(2) by (fastforce simp: sync_items_def)
  obtain p2 where "ReadInt P Int32 p1 = (Some (int (length (so_syncDeviceIds x))), p2)"
    using ReadInt_item [OF 1(2)] by blast
  with 1 assms(1) show ?thesis
    by (simp add: rd_obj_def DpSyncOptions_UnMarshalling_def into_def read_sized_def)
qed

lemma sync_too_many:
  assumes "service_ready svc s" "length ids > MAX_DEVICE_SIZE"
  shows "Proxy_SyncDeviceProfile P (Some (OnRemoteRequest P svc other)) (sync_request ids) callback s =
    (DP_READ_PARCEL_FAIL, svc_SubtractRunningIpcCount svc (entered svc s))"
proof -
  have "sends view any_parcel [(DpSyncOptions_Marshalling P (sync_request ids), DP_WRITE_PARCEL_FAIL),
      (WRemote P callback, pa_errFlatten P)] (sync_items (sync_request ids) @ [PRemote callback])"
    by (rule sends_Cons [OF sync_written sends_more [OF is_raw_simps(4) sends_Nil]]) simp_all
  then have "sends view no_raw [(DpSyncOptions_Marshalling P (sync_request ids), DP_WRITE_PARCEL_FAIL),
      (WRemote P callback, pa_errFlatten P)] (sync_items (sync_request ids) @ [PRemote callback])"
    by (rule sends_any)
  moreover have "\<exists>p'. rd_pair (rd_obj (DpSyncOptions_UnMarshalling P) DpSyncOptions_default DP_READ_PARCEL_FAIL)
      (rd_remote P) p = (Inl DP_READ_PARCEL_FAIL, p')"
    if "view p = sync_items (sync_request ids) @ [PRemote callback]" for p
    using sync_unread [OF _ that, of DP_READ_PARCEL_FAIL] assms(2) by (auto simp: rd_pair_def)
  ultimately show ?thesis
    unfolding Proxy_SyncDeviceProfile_def
    using put_refused [OF assms(1) dispatch_SyncDeviceProfile [unfolded SyncDeviceProfileInner_def]] by simp
qed

end

text \<open>C26: The options hold at most one device more than the limit, \<open>AddDevice\<close> comparing the size
  before it adds. Up to the limit a synchronisation is the call of the service; above it the reader
  refuses the options the client was allowed to build, and the service is not called.\<close>

theorem sync_devices_bound:
  assumes "roomy_parcel P view" "service_ready svc s"
  shows "length (so_syncDeviceIds (sync_request ids)) = min (length ids) (MAX_DEVICE_SIZE + 1) \<and>
    Proxy_SyncDeviceProfile P (Some (OnRemoteRequest P svc other)) (sync_request ids) callback s =
      (if length ids \<le> MAX_DEVICE_SIZE
       then in_service svc (svc_SyncDeviceProfile svc (sync_request ids) callback) s
       else (DP_READ_PARCEL_FAIL, svc_SubtractRunningIpcCount svc (entered svc s)))"
  using roomy_parcel.SyncDeviceProfile_served [OF assms, of "sync_request ids" other callback]
    roomy_parcel.sync_too_many [OF assms, of ids other callback]
  by (auto simp: min_def)

section \<open>Refusals\<close>

context roomy_parcel
begin

lemma empty_acls_written: "sends view no_raw [(Marshalling_acls P [], e)] [PInt Uint32 0]"
  using sends_last [OF acl.vec_writes(1) [of "[]" False MAX_PROFILE_SIZE], of no_raw e]
  by (simp add: Marshalling_acls_def vec_items_def u32_def)

lemma empty_acls_unread: "view p = [PInt Uint32 0] \<Longrightarrow> \<exists>p'. UnMarshalling_acls P [] p = ((False, []), p')"
  using ReadInt_item [of p Uint32 0 "[]"] by (auto simp: UnMarshalling_acls_def read_vec_def ReadInt_value_def)

lemma empty_trustDevices_unwritten: "\<not> fst (Marshalling_trustDevices P [] p)"
  by (auto simp: Marshalling_trustDevices_def write_vec_def split: prod.split)

lemma empty_devices_unwritten: "\<not> fst (Marshalling_devices P [] p)"
  by (auto simp: Marshalling_devices_def write_vec_def split: prod.split)

lemma filter_sent:
  "filter_ok options \<Longrightarrow> sends view no_raw [(DeviceProfileFilterOptions_Marshalling P options, e)] (filter_items options)"
  by (rule sends_last [OF profile_filter.writes]) (simp add: filter_ok_def)

lemma filter_got:
  "filter_ok options \<Longrightarrow> rd_reads view (rd_obj (DeviceProfileFilterOptions_UnMarshalling P)
     DeviceProfileFilterOptions_default e) (filter_items options) options"
  by (rule rd_reads_obj [OF profile_filter.reads]) (simp add: filter_ok_def)

end

text \<open>A list without elements cannot be answered. The trusted devices and the device profiles are
  refused by the writer, so that the code of the service, success or error, is lost; the lists of the
  access control are refused by the reader, so that success becomes an error.\<close>

theorem empty_answers_refused:
  assumes "roomy_parcel P view" "service_ready svc s" "filter_ok options"
    and "svc_GetAllTrustDeviceProfile svc [] (entered svc s) = ((ret1, []), s1)"
    and "svc_GetDeviceProfiles svc options [] (entered svc s) = ((ret2, []), s2)"
    and "svc_GetAllAccessControlProfile svc [] (entered svc s) = ((ret3, []), s3)"
  shows "Proxy_GetAllTrustDeviceProfile P (Some (OnRemoteRequest P svc other)) [] s =
      ((DP_READ_PARCEL_FAIL, []), svc_SubtractRunningIpcCount svc s1) \<and>
    Proxy_GetDeviceProfiles P (Some (OnRemoteRequest P svc other)) options [] s =
      ((DP_WRITE_PARCEL_FAIL, []), svc_SubtractRunningIpcCount svc s2) \<and>
    Proxy_GetAllAccessControlProfile P (Some (OnRemoteRequest P svc other)) [] s =
      ((if ret3 = DP_SUCCESS then DP_READ_PARCEL_FAIL else ret3, []), svc_SubtractRunningIpcCount svc s3)"
proof (intro conjI)
  note rp = assms(1)
  show "Proxy_GetAllTrustDeviceProfile P (Some (OnRemoteRequest P svc other)) [] s =
      ((DP_READ_PARCEL_FAIL, []), svc_SubtractRunningIpcCount svc s1)"
    unfolding Proxy_GetAllTrustDeviceProfile_def
    by (rule roomy_parcel.get_unwritten [OF rp assms(2) dispatch_GetAllTrustDeviceProfile [unfolded GetAllTrustDeviceProfileInner_def]
          sends_Nil rd_reads_unit assms(4) roomy_parcel.empty_trustDevices_unwritten [OF rp]]) simp
  show "Proxy_GetDeviceProfiles P (Some (OnRemoteRequest P svc other)) options [] s =
      ((DP_WRITE_PARCEL_FAIL, []), svc_SubtractRunningIpcCount svc s2)"
    unfolding Proxy_GetDeviceProfiles_def
    by (rule roomy_parcel.get_unwritten [OF rp assms(2) dispatch_GetDeviceProfiles [unfolded GetDeviceProfilesInner_def]
          _ _ assms(5) roomy_parcel.empty_devices_unwritten [OF rp]])
      (rule roomy_parcel.filter_sent [OF rp assms(3)] roomy_parcel.filter_got [OF rp assms(3)] | simp)+
  show "Proxy_GetAllAccessControlProfile P (Some (OnRemoteRequest P svc other)) [] s =
      ((if ret3 = DP_SUCCESS then DP_READ_PARCEL_FAIL else ret3, []), svc_SubtractRunningIpcCount svc s3)"
    unfolding Proxy_GetAllAccessControlProfile_def
    by (rule roomy_parcel.get_unread [where f = "\<lambda>_. svc_GetAllAccessControlProfile svc []" and w = "Marshalling_acls P" and x = "[]" and
            r = "UnMarshalling_acls P" and d = "[]", OF rp assms(2) dispatch_GetAllAccessControlProfile [unfolded GetAllAccessControlProfileInner_def]
          sends_Nil rd_reads_unit assms(6) roomy_parcel.empty_acls_written [OF rp] roomy_parcel.empty_acls_unread [OF rp]])
qed

section \<open>Witnesses\<close>

abbreviation demo_remote :: "(pitem list, int \<times> int list) remote option" where
  "demo_remote \<equiv> Some (OnRemoteRequest list_parcel demo_service (\<lambda>_ _ reply s. ((1, reply), s)))"

definition demo_info :: SubscribeInfo where
  "demo_info = SubscribeInfo_default\<lparr>si_saId := 4801, si_subscribeKey := ''k'',
     si_subscribeChangeTypes := [DEVICE_PROFILE_ADD, CHAR_PROFILE_UPDATE], si_listener := Some 7\<rparr>"

lemma demo_info_ok [simp]: "subscribe_ok demo_info" "listeners_ok [(listener_key demo_info, demo_info)]"
  by (auto simp: subscribe_ok_def listeners_ok_def demo_info_def types_ok_def omap_wf_def)


lemma ipc_calls_transparent_witness:
  "Proxy_PutAccessControlProfile list_parcel demo_remote AccessControlProfile_default (0, []) =
     (DP_SUCCESS, (0, [PUT_ACL_PROFILE])) \<and>
   Proxy_SubscribeDeviceProfile list_parcel demo_remote demo_info (0, []) =
     (DP_SUCCESS, (0, [SUBSCRIBE_DEVICE_PROFILE]))"
  using ipc_calls_transparent [OF list_parcel.roomy_parcel_axioms, of demo_service "(0, [])" "[1, 2]"
      "[ServiceProfile_default]" "[CharacteristicProfile_default]" demo_info "sync_request [''d'']"
      "[(listener_key demo_info, demo_info)]" "Some 3" "[TrustedDeviceInfo_default]" "[DeviceProfile_default]"
      "[ProductInfo_default]" "\<lambda>_ _ reply s. ((1, reply), s)" AccessControlProfile_default]
  by (simp add: bytes_ok_def vec_ok_def DeviceProfile_default_def
      in_service_def) (simp add: demo_service_def demo_put_def)

lemma demo_defaults [simp]:
  "dp_id DeviceProfile_default = 0" "tp_serviceIdList TrustDeviceProfile_default = []"
  "filter_ok DeviceProfileFilterOptions_default"
  by (simp_all add: DeviceProfile_default_def TrustDeviceProfile_default_def filter_ok_def
      DeviceProfileFilterOptions_default_def)

lemma demo_answers:
  "svc_SubtractRunningIpcCount demo_service s = (fst s - 1, snd s)"
  "svc_GetTrustDeviceProfile demo_service a2 b2 s = demo_get GET_TRUST_DEVICE_PROFILE TrustDeviceProfile_default s"
  "svc_GetAllTrustDeviceProfile demo_service a3 s = demo_get GET_ALL_TRUST_DEVICE_PROFILE [TrustDeviceProfile_default] s"
  "svc_GetAccessControlProfile demo_service a4 b4 s = demo_get GET_ACL_PROFILE [AccessControlProfile_default] s"
  "svc_GetAllAccessControlProfile demo_service a5 s = demo_get GET_ALL_ACL_PROFILE [AccessControlProfile_default] s"
  "svc_GetAllAclIncludeLnnAcl demo_service a6 s = demo_get GET_ALL_ACL_INCLUDE_LNN_ACL [AccessControlProfile_default] s"
  "svc_PutSessionKey demo_service a7 b7 c7 s = demo_get PUT_SESSION_KEY 5 s"
  "svc_GetSessionKey demo_service a8 b8 c8 s = demo_get GET_SESSION_KEY [7] s"
  "svc_GetSessionKeyBySessionKeyId demo_service a9 b9 s = demo_get GET_SESSION_KEY_BY_SESSIONKEYID [7] s"
  "svc_GetDeviceProfile demo_service a10 b10 s = demo_get GET_DEVICE_PROFILE_NEW DeviceProfile_default s"
  "svc_GetServiceProfile demo_service a11 b11 c11 s = demo_get GET_SERVICE_PROFILE ServiceProfile_default s"
  "svc_GetCharacteristicProfile demo_service a12 b12 c12 d12 s = demo_get GET_CHAR_PROFILE CharacteristicProfile_default s"
  "svc_GetLocalServiceInfoByBundleAndPinType demo_service a13 b13 c13 s = demo_get GET_LOCAL_SERVICE_INFO_BY_BINDLE_AND_PINTYPE LocalServiceInfo_default s"
  "svc_GetDeviceProfiles demo_service a14 b14 s = demo_get GET_DEVICE_PROFILES [DeviceProfile_default] s"
  "svc_GetDeviceIconInfos demo_service a15 b15 s = demo_get GET_DEVICE_ICON_INFOS [] s"
  "svc_GetBusinessEvent demo_service a16 s = demo_get GET_BUSINESS_EVENT BusinessEvent_default s"
  "svc_GetAllServiceInfoList demo_service a17 s = demo_get GET_ALL_SERVICE_INFO_LIST [] s"
  "svc_GetServiceInfosByUserInfo demo_service a18 b18 s = demo_get GET_SERVICE_INFO_BY_USER_INFO [] s"
  by (cases s; simp add: demo_service_def)+


lemma sync_devices_bound_witness:
  "Proxy_SyncDeviceProfile list_parcel demo_remote (sync_request (replicate 1001 ''d'')) (Some 1) (0, []) =
     (DP_READ_PARCEL_FAIL, (0, []))"
  using sync_devices_bound [OF list_parcel.roomy_parcel_axioms, of demo_service "(0, [])" "replicate 1001 ''d''"
      "\<lambda>_ _ reply s. ((1, reply), s)" "Some 1"]
  by (simp) (simp add: demo_service_def)

definition demo_empty :: "(int \<times> int list) IDistributedDeviceProfile" where
  "demo_empty = demo_service\<lparr>svc_GetAllTrustDeviceProfile := \<lambda>x s. ((DP_NOT_FIND_DATA, []), s),
     svc_GetDeviceProfiles := \<lambda>_ x s. ((DP_NOT_FIND_DATA, []), s),
     svc_GetAllAccessControlProfile := \<lambda>x s. ((DP_SUCCESS, []), s)\<rparr>"

lemma demo_empty_simps [simp]:
  "service_ready demo_empty s" "entered demo_empty s = (fst s + 1, snd s)"
  "svc_GetAllTrustDeviceProfile demo_empty x s = ((DP_NOT_FIND_DATA, []), s)"
  "svc_GetDeviceProfiles demo_empty y z s = ((DP_NOT_FIND_DATA, []), s)"
  "svc_GetAllAccessControlProfile demo_empty w s = ((DP_SUCCESS, []), s)"
  by (cases s; simp add: service_ready_def entered_def demo_empty_def demo_service_def)+

lemma empty_answers_refused_witness:
  "fst (Proxy_GetAllTrustDeviceProfile list_parcel (Some (OnRemoteRequest list_parcel demo_empty (\<lambda>_ _ reply s. ((1, reply), s)))) []
     (0, [])) = (DP_READ_PARCEL_FAIL, [])"
  using empty_answers_refused [OF list_parcel.roomy_parcel_axioms, of demo_empty "(0, [])"
      DeviceProfileFilterOptions_default DP_NOT_FIND_DATA "(1, [])" DP_NOT_FIND_DATA "(1, [])" DP_SUCCESS "(1, [])"
      "\<lambda>_ _ reply s. ((1, reply), s)"]
  by simp

end
