(* ===== verification/Permission.thy ===== *)
theory Permission
  imports DpErrors DpPrelude
begin

text \<open>
  \<open>PermissionManager\<close> (\<open>services/core/src/permissionmanager/permission_manager.cpp\<close>): which processes
  may call which interface, and the two permissions of the platform. The table is read from a JSON
  file; the parser cJSON is not part of the repository, so its functions are the fields of a record
  over an opaque type of values, and so is what the platform says of the caller. A set of names is a
  list without repetitions.
\<close>

section \<open>The platform\<close>

text \<open>A null pointer is \<open>None\<close>; \<open>cj_children\<close> are the values along \<open>child\<close> and \<open>next\<close>.\<close>

record 'j CJson =
  cj_Parse :: "string \<Rightarrow> 'j option"
  cj_IsObject :: "'j option \<Rightarrow> bool"
  cj_GetArraySize :: "'j option \<Rightarrow> int"
  cj_GetObjectItem :: "'j option \<Rightarrow> string \<Rightarrow> 'j option"
  cj_IsArray :: "'j option \<Rightarrow> bool"
  cj_children :: "'j option \<Rightarrow> 'j list"
  cj_IsString :: "'j \<Rightarrow> bool"
  cj_valuestring :: "'j \<Rightarrow> string"

text \<open>\<open>pe_file\<close> resolves and reads a file; the rest is what \<open>IPCSkeleton\<close> and \<open>AccessTokenKit\<close> say of the
  calling process, \<open>pe_NativeTokenInfo\<close> its name unless asking for it fails.\<close>

record 'j PermissionEnv =
  pe_json :: "'j CJson"
  pe_file :: "string \<Rightarrow> string option"
  pe_CallingTokenID :: int
  pe_isNative :: bool
  pe_VerifyAccessToken :: "string \<Rightarrow> bool"
  pe_NativeTokenInfo :: "string option"

record PermissionManager =
  permissionMap :: "(string, string list) umap"

definition PermissionManager_new :: PermissionManager where
  "PermissionManager_new = \<lparr>permissionMap = []\<rparr>"

abbreviation "INVALID_TOKEN_ID \<equiv> (0 :: int)"
abbreviation "MAX_INTERFACE_SIZE \<equiv> (60 :: int)"
abbreviation "PATH_MAX \<equiv> (4096 :: nat)"
abbreviation "ALL_PROC \<equiv> ''all''"
abbreviation "PERMISSION_JSON_PATH \<equiv> ''/system/etc/deviceprofile/permission.json''"
abbreviation "DP_SERVICE_ACCESS_PERMISSION \<equiv> ''ohos.permission.ACCESS_SERVICE_DP''"
abbreviation "DP_SERVICE_SYNC_PERMISSION \<equiv> ''ohos.permission.SYNC_PROFILE_DP''"

text \<open>The names of the interfaces (\<open>common/src/constants\<close>); the plain names are those of the request codes.\<close>

abbreviation "PUT_SERVICE_INFO_name \<equiv> ''PutServiceInfo''"
abbreviation "DELETE_SERVICE_INFO_name \<equiv> ''DeleteServiceInfo''"
abbreviation "GET_ALL_SERVICE_INFO_LIST_name \<equiv> ''GetAllServiceInfoList''"
abbreviation "GET_SERVICE_INFO_BY_USER_INFO_name \<equiv> ''GetServiceInfosByUserInfo''"
abbreviation "PUT_LOCAL_SERVICE_INFO_name \<equiv> ''PutLocalServiceInfo''"
abbreviation "UPDATE_LOCAL_SERVICE_INFO_name \<equiv> ''UpdateLocalServiceInfo''"
abbreviation "GET_LOCAL_SERVICE_INFO_BY_BINDLE_AND_PINTYPE_name \<equiv> ''GetLocalServiceInfoByBundleAndPinType''"
abbreviation "DELETE_LOCAL_SERVICE_INFO_name \<equiv> ''DeleteLocalServiceInfo''"
abbreviation "PUT_ACCESS_CONTROL_PROFILE_name \<equiv> ''PutAccessControlProfile''"
abbreviation "UPDATE_ACCESS_CONTROL_PROFILE_name \<equiv> ''UpdateAccessControlProfile''"
abbreviation "GET_ACCESS_CONTROL_PROFILE_name \<equiv> ''GetAccessControlProfile''"
abbreviation "GET_ALL_ACCESS_CONTROL_PROFILE_name \<equiv> ''GetAllAccessControlProfile''"
abbreviation "GET_ALL_ACL_INCLUDE_LNN_ACL_name \<equiv> ''GetAllAclIncludeLnnAcl''"
abbreviation "DELETE_ACCESS_CONTROL_PROFILE_name \<equiv> ''DeleteAccessControlProfile''"
abbreviation "GET_TRUST_DEVICE_PROFILE_name \<equiv> ''GetTrustDeviceProfile''"
abbreviation "GET_ALL_TRUST_DEVICE_PROFILE_name \<equiv> ''GetAllTrustDeviceProfile''"
abbreviation "PUT_DEVICE_PROFILE_BATCH_name \<equiv> ''PutDeviceProfileBatch''"
abbreviation "DELETE_DEVICE_PROFILE_BATCH_name \<equiv> ''DeleteDeviceProfileBatch''"
abbreviation "GET_DEVICE_PROFILES_name \<equiv> ''GetDeviceProfiles''"
abbreviation "PUT_PRODUCT_INFO_BATCH_name \<equiv> ''PutProductInfoBatch''"
abbreviation "PUT_DEVICE_ICON_INFO_BATCH_name \<equiv> ''PutDeviceIconInfoBatch''"
abbreviation "GET_DEVICE_ICON_INFOS_name \<equiv> ''GetDeviceIconInfos''"
abbreviation "PUT_SESSION_KEY_name \<equiv> ''PutSessionKey''"
abbreviation "GET_SESSION_KEY_name \<equiv> ''GetSessionKey''"
abbreviation "UPDATE_SESSION_KEY_name \<equiv> ''UpdateSessionKey''"
abbreviation "DELETE_SESSION_KEY_name \<equiv> ''DeleteSessionKey''"
abbreviation "PUT_SERVICE_PROFILE_name \<equiv> ''PutServiceProfile''"
abbreviation "PUT_SERVICE_PROFILE_BATCH_name \<equiv> ''PutServiceProfileBatch''"
abbreviation "PUT_CHARACTERISTIC_PROFILE_name \<equiv> ''PutCharacteristicProfile''"
abbreviation "PUT_CHARACTERISTIC_PROFILE_BATCH_name \<equiv> ''PutCharacteristicProfileBatch''"
abbreviation "GET_DEVICE_PROFILE_name \<equiv> ''GetDeviceProfile''"
abbreviation "GET_SERVICE_PROFILE_name \<equiv> ''GetServiceProfile''"
abbreviation "GET_CHARACTERISTIC_PROFILE_name \<equiv> ''GetCharacteristicProfile''"
abbreviation "DELETE_SERVICE_PROFILE_name \<equiv> ''DeleteServiceProfile''"
abbreviation "DELETE_CHARACTERISTIC_PROFILE_name \<equiv> ''DeleteCharacteristicProfile''"
abbreviation "SUBSCRIBE_DEVICE_PROFILE_name \<equiv> ''SubscribeDeviceProfile''"
abbreviation "UNSUBSCRIBE_DEVICE_PROFILE_name \<equiv> ''UnSubscribeDeviceProfile''"
abbreviation "SYNC_DEVICE_PROFILE_name \<equiv> ''SyncDeviceProfile''"
abbreviation "PUT_ALL_TRUSTED_DEVICES_name \<equiv> ''PutAllTrustedDevices''"

section \<open>Loading the table\<close>

definition SetPermissionMap :: "'j CJson \<Rightarrow> 'j option \<Rightarrow> string \<Rightarrow> PermissionManager \<Rightarrow> PermissionManager" where
  "SetPermissionMap J permissionJson interfaceName pm =
     (let item = cj_GetObjectItem J permissionJson interfaceName;
          itemSize = cj_GetArraySize J item
      in if \<not> cj_IsArray J item \<or> itemSize = 0 \<or> itemSize > MAX_INTERFACE_SIZE then pm
         else let names = remdups (map (cj_valuestring J) (filter (cj_IsString J) (cj_children J item)))
              in pm\<lparr>permissionMap := AList.update interfaceName names (permissionMap pm)\<rparr>)"

definition rdb_interfaces :: "string list" where
  "rdb_interfaces =
     [PUT_SERVICE_INFO_name,
      DELETE_SERVICE_INFO_name,
      GET_ALL_SERVICE_INFO_LIST_name,
      GET_SERVICE_INFO_BY_USER_INFO_name,
      PUT_LOCAL_SERVICE_INFO_name,
      UPDATE_LOCAL_SERVICE_INFO_name,
      GET_LOCAL_SERVICE_INFO_BY_BINDLE_AND_PINTYPE_name,
      DELETE_LOCAL_SERVICE_INFO_name,
      PUT_ACCESS_CONTROL_PROFILE_name,
      UPDATE_ACCESS_CONTROL_PROFILE_name,
      GET_ACCESS_CONTROL_PROFILE_name,
      GET_ALL_ACCESS_CONTROL_PROFILE_name,
      GET_ALL_ACL_INCLUDE_LNN_ACL_name,
      DELETE_ACCESS_CONTROL_PROFILE_name,
      GET_TRUST_DEVICE_PROFILE_name,
      GET_ALL_TRUST_DEVICE_PROFILE_name,
      PUT_DEVICE_PROFILE_BATCH_name,
      DELETE_DEVICE_PROFILE_BATCH_name,
      GET_DEVICE_PROFILES_name,
      PUT_PRODUCT_INFO_BATCH_name,
      PUT_DEVICE_ICON_INFO_BATCH_name,
      GET_DEVICE_ICON_INFOS_name,
      PUT_SESSION_KEY_name,
      GET_SESSION_KEY_name,
      UPDATE_SESSION_KEY_name,
      DELETE_SESSION_KEY_name]"

definition kv_interfaces :: "string list" where
  "kv_interfaces =
     [PUT_SERVICE_PROFILE_name,
      PUT_SERVICE_PROFILE_BATCH_name,
      PUT_CHARACTERISTIC_PROFILE_name,
      PUT_CHARACTERISTIC_PROFILE_BATCH_name,
      GET_DEVICE_PROFILE_name,
      GET_SERVICE_PROFILE_name,
      GET_CHARACTERISTIC_PROFILE_name,
      DELETE_SERVICE_PROFILE_name,
      DELETE_CHARACTERISTIC_PROFILE_name,
      SUBSCRIBE_DEVICE_PROFILE_name,
      UNSUBSCRIBE_DEVICE_PROFILE_name,
      SYNC_DEVICE_PROFILE_name,
      PUT_ALL_TRUSTED_DEVICES_name]"

definition SetRdbPermissionMap :: "'j CJson \<Rightarrow> 'j option \<Rightarrow> PermissionManager \<Rightarrow> PermissionManager" where
  "SetRdbPermissionMap J permissionJson pm =
     (let n = cj_GetArraySize J permissionJson in
      if n = 0 \<or> n > MAX_INTERFACE_SIZE then pm
      else fold (SetPermissionMap J permissionJson) rdb_interfaces pm)"

definition SetKVPermissionMap :: "'j CJson \<Rightarrow> 'j option \<Rightarrow> PermissionManager \<Rightarrow> PermissionManager" where
  "SetKVPermissionMap J permissionJson pm =
     (let n = cj_GetArraySize J permissionJson in
      if n = 0 \<or> n > MAX_INTERFACE_SIZE then pm
      else fold (SetPermissionMap J permissionJson) kv_interfaces pm)"

definition ParsePermissionJson :: "'j CJson \<Rightarrow> 'j option \<Rightarrow> PermissionManager \<Rightarrow> dp_ret \<times> PermissionManager" where
  "ParsePermissionJson J permissionJson pm =
     (let n = cj_GetArraySize J permissionJson in
      if n = 0 \<or> n > MAX_INTERFACE_SIZE then (DP_PARSE_PERMISSION_JSON_FAIL, pm)
      else (DP_SUCCESS, SetKVPermissionMap J permissionJson (SetRdbPermissionMap J permissionJson pm)))"

definition LoadPermissionCfg :: "'j PermissionEnv \<Rightarrow> string \<Rightarrow> PermissionManager \<Rightarrow> dp_ret \<times> PermissionManager" where
  "LoadPermissionCfg E filePath pm =
     (if filePath = [] \<or> length filePath > PATH_MAX then (DP_PARSE_PERMISSION_JSON_FAIL, pm)
      else (case pe_file E filePath of
          None \<Rightarrow> (DP_PARSE_PERMISSION_JSON_FAIL, pm)
        | Some content \<Rightarrow>
            let permissionJson = cj_Parse (pe_json E) content in
            if \<not> cj_IsObject (pe_json E) permissionJson then (DP_PARSE_PERMISSION_JSON_FAIL, pm)
            else ParsePermissionJson (pe_json E) permissionJson pm))"

definition Permission_Init :: "'j PermissionEnv \<Rightarrow> PermissionManager \<Rightarrow> dp_ret \<times> PermissionManager" where
  "Permission_Init E pm =
     (let (ret, pm) = LoadPermissionCfg E PERMISSION_JSON_PATH pm in
      if ret \<noteq> DP_SUCCESS then (ret, pm) else (DP_SUCCESS, pm))"

definition Permission_UnInit :: "PermissionManager \<Rightarrow> dp_ret \<times> PermissionManager" where
  "Permission_UnInit pm = (DP_SUCCESS, pm\<lparr>permissionMap := []\<rparr>)"

section \<open>Checks\<close>

definition GetCallerProcName :: "'j PermissionEnv \<Rightarrow> string" where
  "GetCallerProcName E = (case pe_NativeTokenInfo E of None \<Rightarrow> [] | Some processName \<Rightarrow> processName)"

text \<open>Looking up with \<open>[]\<close> adds an empty set for an interface that is not in the table.\<close>

definition CheckInterfacePermission :: "'j PermissionEnv \<Rightarrow> string \<Rightarrow> PermissionManager \<Rightarrow> bool \<times> PermissionManager" where
  "CheckInterfacePermission E interfaceName pm =
     (let callProcName = GetCallerProcName E;
          (permittedProcNames, pm) = (case map_of (permissionMap pm) interfaceName of
              None \<Rightarrow> ([], pm\<lparr>permissionMap := AList.update interfaceName [] (permissionMap pm)\<rparr>)
            | Some names \<Rightarrow> (names, pm))
      in (callProcName \<in> set permittedProcNames \<or> ALL_PROC \<in> set permittedProcNames, pm))"

definition IsCallerTrust :: "'j PermissionEnv \<Rightarrow> string \<Rightarrow> PermissionManager \<Rightarrow> bool \<times> PermissionManager" where
  "IsCallerTrust E interfaceName pm =
     (if pe_CallingTokenID E = INVALID_TOKEN_ID then (False, pm)
      else if \<not> pe_isNative E then (False, pm)
      else let (ok, pm) = CheckInterfacePermission E interfaceName pm in
        if \<not> ok then (False, pm) else (True, pm))"

definition CheckCallerPermission :: "'j PermissionEnv \<Rightarrow> bool" where
  "CheckCallerPermission E =
     (if pe_CallingTokenID E = INVALID_TOKEN_ID then False
      else if \<not> pe_isNative E then False
      else pe_VerifyAccessToken E DP_SERVICE_ACCESS_PERMISSION)"

definition CheckCallerSyncPermission :: "'j PermissionEnv \<Rightarrow> bool" where
  "CheckCallerSyncPermission E =
     (if pe_CallingTokenID E = INVALID_TOKEN_ID then False
      else if \<not> pe_isNative E then False
      else pe_VerifyAccessToken E DP_SERVICE_SYNC_PERMISSION)"

section \<open>Laws\<close>

text \<open>The processes the file permits for an interface, and what makes an entry of the file count.\<close>

definition permitted :: "'j CJson \<Rightarrow> 'j option \<Rightarrow> string \<Rightarrow> string set option" where
  "permitted J json name =
     (let item = cj_GetObjectItem J json name in
      if name \<in> set (rdb_interfaces @ kv_interfaces) \<and> cj_IsArray J item \<and>
         cj_GetArraySize J item \<noteq> 0 \<and> cj_GetArraySize J item \<le> MAX_INTERFACE_SIZE
      then Some (cj_valuestring J ` {v \<in> set (cj_children J item). cj_IsString J v})
      else None)"

lemma lookup_SetPermissionMap:
  "map_of (permissionMap (SetPermissionMap J json i pm)) name =
     (if name = i \<and> cj_IsArray J (cj_GetObjectItem J json i) \<and> cj_GetArraySize J (cj_GetObjectItem J json i) \<noteq> 0 \<and>
         cj_GetArraySize J (cj_GetObjectItem J json i) \<le> MAX_INTERFACE_SIZE
      then Some (remdups (map (cj_valuestring J) (filter (cj_IsString J) (cj_children J (cj_GetObjectItem J json i)))))
      else map_of (permissionMap pm) name)"
  by (simp add: SetPermissionMap_def Let_def)

lemma lookup_fold:
  "map_option set (map_of (permissionMap (fold (SetPermissionMap J json) is pm)) name) =
     (let item = cj_GetObjectItem J json name in
      if name \<in> set is \<and> cj_IsArray J item \<and> cj_GetArraySize J item \<noteq> 0 \<and> cj_GetArraySize J item \<le> MAX_INTERFACE_SIZE
      then Some (cj_valuestring J ` {v \<in> set (cj_children J item). cj_IsString J v})
      else map_option set (map_of (permissionMap pm) name))"
  by (induction "is" arbitrary: pm) (auto simp: lookup_SetPermissionMap Let_def)

lemma ParsePermissionJson_table:
  assumes "ParsePermissionJson J json PermissionManager_new = (DP_SUCCESS, pm)"
  shows "map_option set (map_of (permissionMap pm) name) = permitted J json name"
proof -
  from assms have "pm = fold (SetPermissionMap J json) (rdb_interfaces @ kv_interfaces) PermissionManager_new"
    by (auto simp: ParsePermissionJson_def SetRdbPermissionMap_def SetKVPermissionMap_def Let_def split: if_splits)
  then show ?thesis
    unfolding permitted_def by (simp add: lookup_fold PermissionManager_new_def Let_def)
qed

lemma IsCallerTrust_iff:
  "fst (IsCallerTrust E name pm) \<longleftrightarrow> pe_CallingTokenID E \<noteq> INVALID_TOKEN_ID \<and> pe_isNative E \<and>
     (\<exists>names. map_of (permissionMap pm) name = Some names \<and> (GetCallerProcName E \<in> set names \<or> ALL_PROC \<in> set names))"
  by (auto simp: IsCallerTrust_def CheckInterfacePermission_def Let_def split: option.splits)

lemma IsCallerTrust_keeps:
  "fst (IsCallerTrust E' name' (snd (IsCallerTrust E name pm))) = fst (IsCallerTrust E' name' pm)"
  by (auto simp: IsCallerTrust_iff) (auto simp: IsCallerTrust_def CheckInterfacePermission_def Let_def split: option.splits if_splits)

text \<open>C29: After the table was loaded, a caller is trusted for an interface exactly when it is a native
  process with a valid token that the file lists for this interface, by its name or by \<open>all\<close>, in an
  array of at most 60 entries, and the service knows the interface. Checks do not change later checks, a
  file that cannot be read or parsed leaves the table as it was, and after \<open>UnInit\<close> nobody is trusted.\<close>

theorem permission_exact:
  fixes E E' :: "'j PermissionEnv"
  shows "(Permission_Init E PermissionManager_new = (DP_SUCCESS, pm) \<longrightarrow>
      (\<exists>content json. pe_file E PERMISSION_JSON_PATH = Some content \<and> cj_Parse (pe_json E) content = json \<and>
        (\<forall>(E' :: 'j PermissionEnv) name. fst (IsCallerTrust E' name pm) \<longleftrightarrow> pe_CallingTokenID E' \<noteq> INVALID_TOKEN_ID \<and> pe_isNative E' \<and>
           (\<exists>procs. permitted (pe_json E) json name = Some procs \<and>
              (GetCallerProcName E' \<in> procs \<or> ALL_PROC \<in> procs))))) \<and>
   (\<forall>ret pm'. Permission_Init E pm = (ret, pm') \<and> ret \<noteq> DP_SUCCESS \<longrightarrow> pm' = pm) \<and>
   fst (IsCallerTrust E' name' (snd (IsCallerTrust E name pm))) = fst (IsCallerTrust E' name' pm) \<and>
   \<not> fst (IsCallerTrust E name (snd (Permission_UnInit pm)))"
proof (intro conjI impI allI)
  assume init: "Permission_Init E PermissionManager_new = (DP_SUCCESS, pm)"
  then obtain content where c: "pe_file E PERMISSION_JSON_PATH = Some content"
    "ParsePermissionJson (pe_json E) (cj_Parse (pe_json E) content) PermissionManager_new = (DP_SUCCESS, pm)"
    by (auto simp: Permission_Init_def LoadPermissionCfg_def Let_def split: prod.splits if_splits option.splits)
  have "map_of (permissionMap pm) i = Some names \<Longrightarrow>
      permitted (pe_json E) (cj_Parse (pe_json E) content) i = Some (set names)" for i names
    using ParsePermissionJson_table [OF c(2), of i] by simp
  moreover have "permitted (pe_json E) (cj_Parse (pe_json E) content) i = Some procs \<Longrightarrow>
      \<exists>names. map_of (permissionMap pm) i = Some names \<and> set names = procs" for i procs
    using ParsePermissionJson_table [OF c(2), of i] by (cases "map_of (permissionMap pm) i") auto
  ultimately show "\<exists>content json. pe_file E PERMISSION_JSON_PATH = Some content \<and> cj_Parse (pe_json E) content = json \<and>
        (\<forall>(E' :: 'j PermissionEnv) name. fst (IsCallerTrust E' name pm) \<longleftrightarrow> pe_CallingTokenID E' \<noteq> INVALID_TOKEN_ID \<and> pe_isNative E' \<and>
           (\<exists>procs. permitted (pe_json E) json name = Some procs \<and>
              (GetCallerProcName E' \<in> procs \<or> ALL_PROC \<in> procs)))"
    using c(1) by (fastforce simp: IsCallerTrust_iff)
next
  fix ret pm'
  assume "Permission_Init E pm = (ret, pm') \<and> ret \<noteq> DP_SUCCESS"
  then show "pm' = pm"
    by (auto simp: Permission_Init_def LoadPermissionCfg_def ParsePermissionJson_def Let_def
        split: prod.splits if_splits option.splits)
next
  show "fst (IsCallerTrust E' name' (snd (IsCallerTrust E name pm))) = fst (IsCallerTrust E' name' pm)"
    by (rule IsCallerTrust_keeps)
  show "\<not> fst (IsCallerTrust E name (snd (Permission_UnInit pm)))"
    by (simp add: IsCallerTrust_iff Permission_UnInit_def)
qed

text \<open>A file that permits \<open>device_manager\<close> to put access control lists.\<close>

definition demo_cjson :: "nat CJson" where
  "demo_cjson = \<lparr>cj_Parse = (\<lambda>s. if s = ''{}'' then Some 0 else None), cj_IsObject = (\<lambda>v. v = Some 0),
     cj_GetArraySize = (\<lambda>v. case v of None \<Rightarrow> 0 | Some _ \<Rightarrow> 1),
     cj_GetObjectItem = (\<lambda>v k. if k = PUT_ACCESS_CONTROL_PROFILE_name then Some 1 else None),
     cj_IsArray = (\<lambda>v. v = Some 1), cj_children = (\<lambda>v. if v = Some 1 then [2] else []),
     cj_IsString = (\<lambda>v. v = 2), cj_valuestring = (\<lambda>_. ''device_manager'')\<rparr>"

definition demo_caller :: "string \<Rightarrow> nat PermissionEnv" where
  "demo_caller name = \<lparr>pe_json = demo_cjson, pe_file = (\<lambda>_. Some ''{}''), pe_CallingTokenID = 7, pe_isNative = True,
     pe_VerifyAccessToken = (\<lambda>_. True), pe_NativeTokenInfo = Some name\<rparr>"

lemma demo_caller_init: "fst (Permission_Init (demo_caller n) pm) = DP_SUCCESS"
  by (simp add: Permission_Init_def LoadPermissionCfg_def ParsePermissionJson_def demo_caller_def demo_cjson_def Let_def)

lemma demo_permitted:
  "permitted demo_cjson (Some 0) i = (if i = PUT_ACCESS_CONTROL_PROFILE_name then Some {''device_manager''} else None)"
  by (auto simp: permitted_def demo_cjson_def rdb_interfaces_def Let_def)

lemma demo_caller_simps [simp]:
  "pe_json (demo_caller n) = demo_cjson" "pe_file (demo_caller n) f = Some ''{}''" "cj_Parse demo_cjson ''{}'' = Some 0"
  "pe_CallingTokenID (demo_caller n) = 7" "pe_isNative (demo_caller n)" "GetCallerProcName (demo_caller n) = n"
  by (simp_all add: demo_caller_def demo_cjson_def GetCallerProcName_def)

lemma permission_exact_witness:
  "let pm = snd (Permission_Init (demo_caller ''x'') PermissionManager_new) in
   fst (IsCallerTrust (demo_caller ''device_manager'') PUT_ACCESS_CONTROL_PROFILE_name pm) \<and>
   \<not> fst (IsCallerTrust (demo_caller ''softbus_server'') PUT_ACCESS_CONTROL_PROFILE_name pm) \<and>
   \<not> fst (IsCallerTrust (demo_caller ''device_manager'') GET_SESSION_KEY_name pm)"
proof -
  obtain pm where init: "Permission_Init (demo_caller ''x'') PermissionManager_new = (DP_SUCCESS, pm)"
    using demo_caller_init [of "''x''" PermissionManager_new] by (metis prod.collapse)
  then show ?thesis
    using permission_exact [of "demo_caller ''x''" pm] by (simp add: demo_permitted)
qed

end
