(* ===== verification/DpService.thy ===== *)
theory DpService
  imports IpcStub Permission "HOL-Library.Product_Lexorder"
begin

text \<open>
  \<open>DistributedDeviceProfileServiceNew\<close>
  (\<open>services/core/src/distributed_device_profile_service_new.cpp\<close>): every request is checked against the
  permissions of its caller and passed to a manager; profiles put before the data service is ready wait
  in temporary maps; callbacks are kept per subscriber; start, stop and idle of the service. The
  managers are a record of operations over a state \<open>'m\<close>. Reports to the radar and the wait times are
  left out; the build is the one with switches.
\<close>

section \<open>State\<close>

text \<open>\<open>se_cast l\<close>: the remote object \<open>l\<close> has the interface of the callback. The handler of events takes a
  task or refuses it.\<close>

record 'j ServiceEnv =
  se_permission :: "'j PermissionEnv"
  se_localUdid :: string
  se_cast :: "nat \<Rightarrow> bool"
  se_eventHandler :: bool
  se_PostTask :: bool
  se_CancelIdle :: bool
  se_Publish :: bool
  se_accountSaId :: int
  se_USER_SWITCHED :: string
  se_USER_REMOVED :: string

text \<open>What the service does to the outside, in order.\<close>

datatype service_event = OnDpInited nat | OnPincodeInvalid nat LocalServiceInfo | OnBusinessEvent nat BusinessEvent
  | SubscribeAccountEvents | OnStartFail int | AddSystemAbilityListeners

record 'm DpService =
  sn_isInited :: bool
  sn_isStopped :: bool
  sn_runningIpcCount :: int
  sn_unloadHandler :: bool
  sn_unloadTask :: bool
  sn_depSaIds :: "int list"
  sn_dynamicProfileMap :: "(string, string) omap"
  sn_switchProfileMap :: "(string, CharacteristicProfile) omap"
  sn_dpInitedCallbackMap :: "(int, nat) omap"
  sn_pinCodeCallbackMap :: "(string \<times> int, nat) omap"
  sn_businessCallbackMap :: "(string \<times> string, nat) omap"
  sn_permission :: PermissionManager
  sn_events :: "service_event list"
  sn_managers :: 'm

text \<open>The operations of the managers the service calls.\<close>

record 'm Managers =
  mg_PutAccessControlProfile :: "AccessControlProfile \<Rightarrow> 'm \<Rightarrow> dp_ret \<times> 'm"
  mg_UpdateAccessControlProfile :: "AccessControlProfile \<Rightarrow> 'm \<Rightarrow> dp_ret \<times> 'm"
  mg_GetTrustDeviceProfile :: "string \<Rightarrow> TrustDeviceProfile \<Rightarrow> 'm \<Rightarrow> (dp_ret \<times> TrustDeviceProfile) \<times> 'm"
  mg_GetAllTrustDeviceProfile :: "TrustDeviceProfile list \<Rightarrow> 'm \<Rightarrow> (dp_ret \<times> TrustDeviceProfile list) \<times> 'm"
  mg_GetAccessControlProfile :: "(string, string) omap \<Rightarrow> AccessControlProfile list \<Rightarrow> 'm \<Rightarrow> (dp_ret \<times> AccessControlProfile list) \<times> 'm"
  mg_GetAllAccessControlProfile :: "AccessControlProfile list \<Rightarrow> 'm \<Rightarrow> (dp_ret \<times> AccessControlProfile list) \<times> 'm"
  mg_GetAllAclIncludeLnnAcl :: "AccessControlProfile list \<Rightarrow> 'm \<Rightarrow> (dp_ret \<times> AccessControlProfile list) \<times> 'm"
  mg_DeleteAccessControlProfile :: "int \<Rightarrow> 'm \<Rightarrow> dp_ret \<times> 'm"
  mg_PutSessionKey :: "int \<Rightarrow> 8 word list \<Rightarrow> int \<Rightarrow> 'm \<Rightarrow> (dp_ret \<times> int) \<times> 'm"
  mg_GetSessionKey :: "int \<Rightarrow> int \<Rightarrow> 8 word list \<Rightarrow> 'm \<Rightarrow> (dp_ret \<times> 8 word list) \<times> 'm"
  mg_GetSessionKeyBySessionKeyId :: "int \<Rightarrow> 8 word list \<Rightarrow> 'm \<Rightarrow> (dp_ret \<times> 8 word list) \<times> 'm"
  mg_UpdateSessionKey :: "int \<Rightarrow> int \<Rightarrow> 8 word list \<Rightarrow> 'm \<Rightarrow> dp_ret \<times> 'm"
  mg_DeleteSessionKey :: "int \<Rightarrow> int \<Rightarrow> 'm \<Rightarrow> dp_ret \<times> 'm"
  mg_PutServiceProfile :: "ServiceProfile \<Rightarrow> 'm \<Rightarrow> dp_ret \<times> 'm"
  mg_PutServiceProfileBatch :: "ServiceProfile list \<Rightarrow> 'm \<Rightarrow> dp_ret \<times> 'm"
  mg_PutCharacteristicProfile :: "CharacteristicProfile \<Rightarrow> 'm \<Rightarrow> dp_ret \<times> 'm"
  mg_PutCharacteristicProfileBatch :: "CharacteristicProfile list \<Rightarrow> 'm \<Rightarrow> dp_ret \<times> 'm"
  mg_GetDeviceProfile :: "string \<Rightarrow> DeviceProfile \<Rightarrow> 'm \<Rightarrow> (dp_ret \<times> DeviceProfile) \<times> 'm"
  mg_GetServiceProfile :: "string \<Rightarrow> string \<Rightarrow> ServiceProfile \<Rightarrow> 'm \<Rightarrow> (dp_ret \<times> ServiceProfile) \<times> 'm"
  mg_GetCharacteristicProfile :: "string \<Rightarrow> string \<Rightarrow> string \<Rightarrow> CharacteristicProfile \<Rightarrow> 'm \<Rightarrow> (dp_ret \<times> CharacteristicProfile) \<times> 'm"
  mg_DeleteServiceProfile :: "string \<Rightarrow> string \<Rightarrow> bool \<Rightarrow> int \<Rightarrow> 'm \<Rightarrow> dp_ret \<times> 'm"
  mg_DeleteCharacteristicProfile :: "string \<Rightarrow> string \<Rightarrow> string \<Rightarrow> bool \<Rightarrow> int \<Rightarrow> 'm \<Rightarrow> dp_ret \<times> 'm"
  mg_SubscribeDeviceProfile :: "SubscribeInfo \<Rightarrow> 'm \<Rightarrow> dp_ret \<times> 'm"
  mg_UnSubscribeDeviceProfile :: "SubscribeInfo \<Rightarrow> 'm \<Rightarrow> dp_ret \<times> 'm"
  mg_SyncDeviceProfile :: "DpSyncOptions \<Rightarrow> nat option \<Rightarrow> 'm \<Rightarrow> dp_ret \<times> 'm"
  mg_SyncStaticProfile :: "DpSyncOptions \<Rightarrow> nat option \<Rightarrow> 'm \<Rightarrow> dp_ret \<times> 'm"
  mg_SendSubscribeInfos :: "(string, SubscribeInfo) omap \<Rightarrow> 'm \<Rightarrow> dp_ret \<times> 'm"
  mg_PutAllTrustedDevices :: "TrustedDeviceInfo list \<Rightarrow> 'm \<Rightarrow> dp_ret \<times> 'm"
  mg_PutLocalServiceInfo :: "LocalServiceInfo \<Rightarrow> 'm \<Rightarrow> dp_ret \<times> 'm"
  mg_UpdateLocalServiceInfo :: "LocalServiceInfo \<Rightarrow> 'm \<Rightarrow> dp_ret \<times> 'm"
  mg_GetLocalServiceInfoByBundleAndPinType :: "string \<Rightarrow> int \<Rightarrow> LocalServiceInfo \<Rightarrow> 'm \<Rightarrow> (dp_ret \<times> LocalServiceInfo) \<times> 'm"
  mg_DeleteLocalServiceInfo :: "string \<Rightarrow> int \<Rightarrow> 'm \<Rightarrow> dp_ret \<times> 'm"
  mg_PutDeviceProfileBatch :: "DeviceProfile list \<Rightarrow> 'm \<Rightarrow> dp_ret \<times> 'm"
  mg_GetDeviceProfiles :: "DeviceProfileFilterOptions \<Rightarrow> DeviceProfile list \<Rightarrow> 'm \<Rightarrow> (dp_ret \<times> DeviceProfile list) \<times> 'm"
  mg_PutProductInfoBatch :: "ProductInfo list \<Rightarrow> 'm \<Rightarrow> dp_ret \<times> 'm"
  mg_PutDeviceIconInfoBatch :: "DeviceIconInfo list \<Rightarrow> 'm \<Rightarrow> dp_ret \<times> 'm"
  mg_GetDeviceIconInfos :: "DeviceIconInfoFilterOptions \<Rightarrow> DeviceIconInfo list \<Rightarrow> 'm \<Rightarrow> (dp_ret \<times> DeviceIconInfo list) \<times> 'm"
  mg_DeleteDeviceProfileBatch :: "DeviceProfile list \<Rightarrow> 'm \<Rightarrow> dp_ret \<times> 'm"
  mg_PutBusinessEvent :: "BusinessEvent \<Rightarrow> 'm \<Rightarrow> dp_ret \<times> 'm"
  mg_GetBusinessEvent :: "BusinessEvent \<Rightarrow> 'm \<Rightarrow> (dp_ret \<times> BusinessEvent) \<times> 'm"
  mg_PutServiceInfo :: "ServiceInfo \<Rightarrow> 'm \<Rightarrow> dp_ret \<times> 'm"
  mg_DeleteServiceInfo :: "UserInfo \<Rightarrow> 'm \<Rightarrow> dp_ret \<times> 'm"
  mg_GetAllServiceInfoList :: "ServiceInfo list \<Rightarrow> 'm \<Rightarrow> (dp_ret \<times> ServiceInfo list) \<times> 'm"
  mg_GetServiceInfosByUserInfo :: "UserInfo \<Rightarrow> ServiceInfo list \<Rightarrow> 'm \<Rightarrow> (dp_ret \<times> ServiceInfo list) \<times> 'm"
  mg_SubscribeAllServiceInfo :: "int \<Rightarrow> nat option \<Rightarrow> 'm \<Rightarrow> dp_ret \<times> 'm"
  mg_Switch_PutCharacteristicProfile :: "CharacteristicProfile \<Rightarrow> 'm \<Rightarrow> dp_ret \<times> 'm"
  mg_Switch_PutCharacteristicProfileBatch :: "CharacteristicProfile list \<Rightarrow> 'm \<Rightarrow> dp_ret \<times> 'm"
  mg_Switch_GetCharacteristicProfile :: "string \<Rightarrow> string \<Rightarrow> string \<Rightarrow> CharacteristicProfile \<Rightarrow> 'm \<Rightarrow> (dp_ret \<times> CharacteristicProfile) \<times> 'm"
  mg_Static_GetCharacteristicProfile :: "string \<Rightarrow> string \<Rightarrow> string \<Rightarrow> CharacteristicProfile \<Rightarrow> 'm \<Rightarrow> (dp_ret \<times> CharacteristicProfile) \<times> 'm"
  mg_IsServiceProfileExist :: "ServiceProfile \<Rightarrow> 'm \<Rightarrow> bool"
  mg_IsCharProfileExist :: "CharacteristicProfile \<Rightarrow> 'm \<Rightarrow> bool"
  mg_IsDeviceOnline :: "'m \<Rightarrow> bool"
  mg_IsFirstInitDB :: "'m \<Rightarrow> bool"
  mg_SavePutTempCache :: "(string, string) omap \<Rightarrow> 'm \<Rightarrow> dp_ret \<times> 'm"
  mg_ResetFirst :: "'m \<Rightarrow> 'm"
  mg_DeleteRemovedUserData :: "int \<Rightarrow> 'm \<Rightarrow> dp_ret \<times> 'm"
  mg_SetCurrentForegroundUserID :: "int \<Rightarrow> 'm \<Rightarrow> 'm"
  mg_EventHandlerFactory_Init :: "'m \<Rightarrow> 'm"
  mg_SubscribeProfileManager_Init :: "'m \<Rightarrow> 'm"
  mg_TrustProfileManager_Init :: "'m \<Rightarrow> dp_ret \<times> 'm"
  mg_ProfileDataManager_Init :: "'m \<Rightarrow> dp_ret \<times> 'm"
  mg_DMAdapter_Init :: "'m \<Rightarrow> dp_ret \<times> 'm"
  mg_SwitchProfileManager_Init :: "'m \<Rightarrow> dp_ret \<times> 'm"
  mg_DeviceProfileManager_Init :: "'m \<Rightarrow> dp_ret \<times> 'm"
  mg_StaticProfileManager_Init :: "'m \<Rightarrow> dp_ret \<times> 'm"
  mg_ProfileCache_Init :: "'m \<Rightarrow> dp_ret \<times> 'm"
  mg_StaticCapabilityCollector_Init :: "'m \<Rightarrow> dp_ret \<times> 'm"
  mg_LocalServiceInfoManager_Init :: "'m \<Rightarrow> dp_ret \<times> 'm"
  mg_MultiUserManager_Init :: "'m \<Rightarrow> dp_ret \<times> 'm"
  mg_ServiceInfoManager_Init :: "'m \<Rightarrow> dp_ret \<times> 'm"
  mg_SettingsDataManager_Init :: "'m \<Rightarrow> dp_ret \<times> 'm"
  mg_ContentSensorManager_Init :: "'m \<Rightarrow> dp_ret \<times> 'm"
  mg_BusinessEventManager_Init :: "'m \<Rightarrow> dp_ret \<times> 'm"
  mg_TrustProfileManager_UnInit :: "'m \<Rightarrow> dp_ret \<times> 'm"
  mg_ProfileDataManager_UnInit :: "'m \<Rightarrow> dp_ret \<times> 'm"
  mg_SwitchProfileManager_UnInit :: "'m \<Rightarrow> dp_ret \<times> 'm"
  mg_DeviceProfileManager_UnInit :: "'m \<Rightarrow> dp_ret \<times> 'm"
  mg_StaticProfileManager_UnInit :: "'m \<Rightarrow> dp_ret \<times> 'm"
  mg_BusinessEventManager_UnInit :: "'m \<Rightarrow> dp_ret \<times> 'm"
  mg_ProfileCache_UnInit :: "'m \<Rightarrow> dp_ret \<times> 'm"
  mg_SubscribeProfileManager_UnInit :: "'m \<Rightarrow> dp_ret \<times> 'm"
  mg_StaticCapabilityCollector_UnInit :: "'m \<Rightarrow> dp_ret \<times> 'm"
  mg_SettingsDataManager_UnInit :: "'m \<Rightarrow> dp_ret \<times> 'm"
  mg_ContentSensorManager_UnInit :: "'m \<Rightarrow> dp_ret \<times> 'm"
  mg_DMAdapter_UnInit :: "'m \<Rightarrow> dp_ret \<times> 'm"
  mg_EventHandlerFactory_UnInit :: "'m \<Rightarrow> dp_ret \<times> 'm"
  mg_ServiceInfoManager_UnInit :: "'m \<Rightarrow> dp_ret \<times> 'm"

abbreviation "MAX_CALLBACK_LEN \<equiv> (1000 :: nat)"
abbreviation "MAX_SAID \<equiv> (16777215 :: int)"
abbreviation "INVALID_PINCODE \<equiv> ''******''"
abbreviation "DEFAULT_PIN_EXCHANGE_TYPE \<equiv> (-1 :: int)"
abbreviation "WRTE_CACHE_PROFILE_RETRY_TIMES \<equiv> (20 :: nat)"
abbreviation "IDLE_REASON_LOW_MEMORY \<equiv> ''resourceschedule.memmgr.low.memory.prepare''"
abbreviation "SA_READY_INTO_IDLE \<equiv> (0 :: int)"
abbreviation "SA_REFUSE_INTO_IDLE \<equiv> (-1 :: int)"

definition sn_event :: "service_event \<Rightarrow> 'm DpService \<Rightarrow> 'm DpService" where
  "sn_event e s = s\<lparr>sn_events := sn_events s @ [e]\<rparr>"

definition on_managers :: "('m \<Rightarrow> 'r \<times> 'm) \<Rightarrow> 'm DpService \<Rightarrow> 'r \<times> 'm DpService" where
  "on_managers f s = (let (r, m) = f (sn_managers s) in (r, s\<lparr>sn_managers := m\<rparr>))"

section \<open>Permissions\<close>

definition if_trusted ::
  "'j ServiceEnv \<Rightarrow> string \<Rightarrow> 'r \<Rightarrow> ('m DpService \<Rightarrow> 'r \<times> 'm DpService) \<Rightarrow> 'm DpService \<Rightarrow> 'r \<times> 'm DpService" where
  "if_trusted E interfaceName denied f s =
     (let (ok, pm) = IsCallerTrust (se_permission E) interfaceName (sn_permission s); s = s\<lparr>sn_permission := pm\<rparr>
      in if \<not> ok then (denied, s) else f s)"

definition if_permitted ::
  "'j ServiceEnv \<Rightarrow> 'r \<Rightarrow> ('m DpService \<Rightarrow> 'r \<times> 'm DpService) \<Rightarrow> 'm DpService \<Rightarrow> 'r \<times> 'm DpService" where
  "if_permitted E denied f s = (if \<not> CheckCallerPermission (se_permission E) then (denied, s) else f s)"

definition if_sync_permitted ::
  "'j ServiceEnv \<Rightarrow> 'r \<Rightarrow> ('m DpService \<Rightarrow> 'r \<times> 'm DpService) \<Rightarrow> 'm DpService \<Rightarrow> 'r \<times> 'm DpService" where
  "if_sync_permitted E denied f s = (if \<not> CheckCallerSyncPermission (se_permission E) then (denied, s) else f s)"

section \<open>Profiles that wait for the data service\<close>

text \<open>The entries of a batch, or the code of the first profile that is refused.\<close>

fun svr_entries :: "'j ServiceEnv \<Rightarrow> 'm Managers \<Rightarrow> 'm \<Rightarrow> ServiceProfile list \<Rightarrow> (string, string) omap \<Rightarrow>
    dp_ret + (string, string) omap" where
  "svr_entries E M m [] entries = Inr entries"
| "svr_entries E M m (item # ps) entries =
     (if \<not> IsSvrProfileValid (se_localUdid E) item then Inl DP_INVALID_PARAM
      else if mg_IsServiceProfileExist M item m then Inl DP_CACHE_EXIST
      else svr_entries E M m ps (snd (ServiceProfileToEntries item entries False)))"

definition AddSvrProfilesToCache ::
  "'j ServiceEnv \<Rightarrow> 'm Managers \<Rightarrow> ServiceProfile list \<Rightarrow> 'm DpService \<Rightarrow> dp_ret \<times> 'm DpService" where
  "AddSvrProfilesToCache E M serviceProfiles s =
     (if serviceProfiles = [] then (DP_INVALID_PARAM, s)
      else case svr_entries E M (sn_managers s) serviceProfiles [] of
          Inl ret \<Rightarrow> (ret, s)
        | Inr entries \<Rightarrow> (DP_SUCCESS,
            s\<lparr>sn_dynamicProfileMap := fold (\<lambda>(key, val). omap_put key val) entries (sn_dynamicProfileMap s)\<rparr>))"

fun char_entries :: "'j ServiceEnv \<Rightarrow> 'm Managers \<Rightarrow> 'm \<Rightarrow> CharacteristicProfile list \<Rightarrow> (string, string) omap \<Rightarrow>
    CharacteristicProfile list \<Rightarrow> dp_ret + (string, string) omap \<times> CharacteristicProfile list" where
  "char_entries E M m [] entries switches = Inr (entries, switches)"
| "char_entries E M m (item # ps) entries switches =
     (if \<not> IsCharProfileValid (se_localUdid E) item then Inl DP_INVALID_PARAM
      else if mg_IsCharProfileExist M item m then Inl DP_CACHE_EXIST
      else if cp_characteristicKey item = SWITCH_STATUS then char_entries E M m ps entries (switches @ [item])
      else char_entries E M m ps (snd (CharacteristicProfileToEntries item entries False)) switches)"

text \<open>When the batch has a switch, the whole batch goes to the map of the switches, as in the code.\<close>

definition AddCharProfilesToCache ::
  "'j ServiceEnv \<Rightarrow> 'm Managers \<Rightarrow> CharacteristicProfile list \<Rightarrow> 'm DpService \<Rightarrow> dp_ret \<times> 'm DpService" where
  "AddCharProfilesToCache E M charProfiles s =
     (if charProfiles = [] then (DP_INVALID_PARAM, s)
      else case char_entries E M (sn_managers s) charProfiles [] [] of
          Inl ret \<Rightarrow> (ret, s)
        | Inr (entries, switchCharProfiles) \<Rightarrow>
            let s = s\<lparr>sn_dynamicProfileMap := fold (\<lambda>(key, val). omap_put key val) entries (sn_dynamicProfileMap s)\<rparr>;
                s = (if switchCharProfiles \<noteq> []
                  then s\<lparr>sn_switchProfileMap := fold (\<lambda>item. omap_put
                         (GenerateCharProfileKey (cp_deviceId item) (cp_serviceName item) (cp_characteristicKey item)) item)
                         charProfiles (sn_switchProfileMap s)\<rparr>
                  else s)
            in (DP_SUCCESS, s))"

definition SaveSwitchProfilesFromTempCache :: "'m Managers \<Rightarrow> 'm DpService \<Rightarrow> dp_ret \<times> 'm DpService" where
  "SaveSwitchProfilesFromTempCache M s =
     (if sn_switchProfileMap s = [] then (DP_SUCCESS, s)
      else let switchCharProfiles = map snd (sn_switchProfileMap s); s = s\<lparr>sn_switchProfileMap := []\<rparr>
        in on_managers (mg_Switch_PutCharacteristicProfileBatch M switchCharProfiles) s)"

definition GetDynamicProfilesFromTempCache :: "'m DpService \<Rightarrow> (string, string) omap \<Rightarrow> (string, string) omap" where
  "GetDynamicProfilesFromTempCache s entries =
     (if sn_dynamicProfileMap s = [] then entries
      else fold (\<lambda>(key, val). omap_put key val) (sn_dynamicProfileMap s) entries)"

text \<open>The attempts to save; the result says whether one succeeded.\<close>

fun save_loop :: "'m Managers \<Rightarrow> (string, string) omap \<Rightarrow> nat \<Rightarrow> 'm DpService \<Rightarrow> bool \<times> 'm DpService" where
  "save_loop M entries 0 s = (False, s)"
| "save_loop M entries (Suc tryTimes) s =
     (let (ret, s) = on_managers (mg_SavePutTempCache M entries) s in
      if ret = DP_SUCCESS then (True, s) else save_loop M entries tryTimes s)"

text \<open>The caller holds the lock that every put needs, so nothing arrives while the code sleeps.\<close>

definition SaveDynamicProfilesFromTempCache :: "'m Managers \<Rightarrow> 'm DpService \<Rightarrow> dp_ret \<times> 'm DpService" where
  "SaveDynamicProfilesFromTempCache M s =
     (let entries = GetDynamicProfilesFromTempCache s [];
          entries = (if entries = [] \<and> mg_IsFirstInitDB M (sn_managers s)
                     then GetDynamicProfilesFromTempCache s entries else entries);
          (saved, s) = save_loop M entries WRTE_CACHE_PROFILE_RETRY_TIMES s;
          s = (if \<not> saved then s\<lparr>sn_managers := mg_ResetFirst M (sn_managers s)\<rparr> else s)
      in (DP_SUCCESS, s\<lparr>sn_dynamicProfileMap := []\<rparr>))"

definition ClearProfileCache :: "'m DpService \<Rightarrow> 'm DpService" where
  "ClearProfileCache s = s\<lparr>sn_dynamicProfileMap := [], sn_switchProfileMap := []\<rparr>"

section \<open>Notifications\<close>

definition NotifyDeviceProfileInited :: "'j ServiceEnv \<Rightarrow> 'm DpService \<Rightarrow> dp_ret \<times> 'm DpService" where
  "NotifyDeviceProfileInited E s =
     (DP_SUCCESS, fold (\<lambda>(saId, l) s. if \<not> se_cast E l then s else sn_event (OnDpInited l) s) (sn_dpInitedCallbackMap s) s)"

text \<open>A task that was taken runs.\<close>

definition NotifyPinCodeInvalid :: "'j ServiceEnv \<Rightarrow> LocalServiceInfo \<Rightarrow> 'm DpService \<Rightarrow> dp_ret \<times> 'm DpService" where
  "NotifyPinCodeInvalid E info s =
     (case map_of (sn_pinCodeCallbackMap s) (ls_bundleName info, ls_pinExchangeType info) of
        None \<Rightarrow> (DP_SUCCESS, s)
      | Some l \<Rightarrow>
          if \<not> se_cast E l then (DP_NULLPTR, s)
          else if \<not> se_eventHandler E \<or> \<not> se_PostTask E then (DP_POST_TASK_FAILED, s)
          else (DP_SUCCESS, sn_event (OnPincodeInvalid l info) s))"

definition NotifyBusinessEvent :: "'j ServiceEnv \<Rightarrow> BusinessEvent \<Rightarrow> 'm DpService \<Rightarrow> dp_ret \<times> 'm DpService" where
  "NotifyBusinessEvent E event s =
     (DP_SUCCESS, fold (\<lambda>(key, l) s.
        if snd key \<noteq> be_businessKey event then s
        else if \<not> se_cast E l then s
        else if \<not> se_eventHandler E \<or> \<not> se_PostTask E then s
        else sn_event (OnBusinessEvent l event) s) (sn_businessCallbackMap s) s)"

section \<open>Requests\<close>

definition PutCharacteristicProfileBatchPreprocess :: "'j ServiceEnv \<Rightarrow> CharacteristicProfile list \<Rightarrow> dp_ret" where
  "PutCharacteristicProfileBatchPreprocess E charProfiles =
     (if \<not> CheckCallerPermission (se_permission E) then DP_PERMISSION_DENIED
      else if charProfiles = [] then DP_INVALID_PARAM
      else if length charProfiles > MAX_CHAR_SIZE then DP_INVALID_PARAM
      else DP_SUCCESS)"

definition Svc_PutAccessControlProfile :: "'j ServiceEnv \<Rightarrow> 'm Managers \<Rightarrow> AccessControlProfile \<Rightarrow> 'm DpService \<Rightarrow> dp_ret \<times> 'm DpService" where
  "Svc_PutAccessControlProfile E M p = if_trusted E PUT_ACCESS_CONTROL_PROFILE_name DP_PERMISSION_DENIED
     (on_managers (mg_PutAccessControlProfile M p))"

definition Svc_UpdateAccessControlProfile :: "'j ServiceEnv \<Rightarrow> 'm Managers \<Rightarrow> AccessControlProfile \<Rightarrow> 'm DpService \<Rightarrow> dp_ret \<times> 'm DpService" where
  "Svc_UpdateAccessControlProfile E M p = if_trusted E UPDATE_ACCESS_CONTROL_PROFILE_name DP_PERMISSION_DENIED
     (on_managers (mg_UpdateAccessControlProfile M p))"

definition Svc_GetTrustDeviceProfile :: "'j ServiceEnv \<Rightarrow> 'm Managers \<Rightarrow> string \<Rightarrow> TrustDeviceProfile \<Rightarrow> 'm DpService \<Rightarrow> (dp_ret \<times> TrustDeviceProfile) \<times> 'm DpService" where
  "Svc_GetTrustDeviceProfile E M deviceId x = if_trusted E GET_TRUST_DEVICE_PROFILE_name (DP_PERMISSION_DENIED, x)
     (on_managers (mg_GetTrustDeviceProfile M deviceId x))"

definition Svc_GetAllTrustDeviceProfile :: "'j ServiceEnv \<Rightarrow> 'm Managers \<Rightarrow> TrustDeviceProfile list \<Rightarrow> 'm DpService \<Rightarrow> (dp_ret \<times> TrustDeviceProfile list) \<times> 'm DpService" where
  "Svc_GetAllTrustDeviceProfile E M x = if_trusted E GET_ALL_TRUST_DEVICE_PROFILE_name (DP_PERMISSION_DENIED, x)
     (on_managers (mg_GetAllTrustDeviceProfile M x))"

definition Svc_GetAccessControlProfile :: "'j ServiceEnv \<Rightarrow> 'm Managers \<Rightarrow> (string, string) omap \<Rightarrow> AccessControlProfile list \<Rightarrow> 'm DpService \<Rightarrow> (dp_ret \<times> AccessControlProfile list) \<times> 'm DpService" where
  "Svc_GetAccessControlProfile E M params x = if_trusted E GET_ACCESS_CONTROL_PROFILE_name (DP_PERMISSION_DENIED, x)
     (on_managers (mg_GetAccessControlProfile M params x))"

definition Svc_GetAllAccessControlProfile :: "'j ServiceEnv \<Rightarrow> 'm Managers \<Rightarrow> AccessControlProfile list \<Rightarrow> 'm DpService \<Rightarrow> (dp_ret \<times> AccessControlProfile list) \<times> 'm DpService" where
  "Svc_GetAllAccessControlProfile E M x = if_trusted E GET_ALL_ACCESS_CONTROL_PROFILE_name (DP_PERMISSION_DENIED, x)
     (on_managers (mg_GetAllAccessControlProfile M x))"

definition Svc_GetAllAclIncludeLnnAcl :: "'j ServiceEnv \<Rightarrow> 'm Managers \<Rightarrow> AccessControlProfile list \<Rightarrow> 'm DpService \<Rightarrow> (dp_ret \<times> AccessControlProfile list) \<times> 'm DpService" where
  "Svc_GetAllAclIncludeLnnAcl E M x = if_trusted E GET_ALL_ACL_INCLUDE_LNN_ACL_name (DP_PERMISSION_DENIED, x)
     (on_managers (mg_GetAllAclIncludeLnnAcl M x))"

definition Svc_DeleteAccessControlProfile :: "'j ServiceEnv \<Rightarrow> 'm Managers \<Rightarrow> int \<Rightarrow> 'm DpService \<Rightarrow> dp_ret \<times> 'm DpService" where
  "Svc_DeleteAccessControlProfile E M accessControlId = if_trusted E DELETE_ACCESS_CONTROL_PROFILE_name DP_PERMISSION_DENIED
     (on_managers (mg_DeleteAccessControlProfile M accessControlId))"

definition Svc_PutSessionKey :: "'j ServiceEnv \<Rightarrow> 'm Managers \<Rightarrow> int \<Rightarrow> 8 word list \<Rightarrow> int \<Rightarrow> 'm DpService \<Rightarrow> (dp_ret \<times> int) \<times> 'm DpService" where
  "Svc_PutSessionKey E M userId sessionKey x = if_trusted E PUT_SESSION_KEY_name (DP_PERMISSION_DENIED, x)
     (on_managers (mg_PutSessionKey M userId sessionKey x))"

definition Svc_GetSessionKey :: "'j ServiceEnv \<Rightarrow> 'm Managers \<Rightarrow> int \<Rightarrow> int \<Rightarrow> 8 word list \<Rightarrow> 'm DpService \<Rightarrow> (dp_ret \<times> 8 word list) \<times> 'm DpService" where
  "Svc_GetSessionKey E M userId sessionKeyId x = if_trusted E GET_SESSION_KEY_name (DP_PERMISSION_DENIED, x)
     (on_managers (mg_GetSessionKey M userId sessionKeyId x))"

definition Svc_GetSessionKeyBySessionKeyId :: "'j ServiceEnv \<Rightarrow> 'm Managers \<Rightarrow> int \<Rightarrow> 8 word list \<Rightarrow> 'm DpService \<Rightarrow> (dp_ret \<times> 8 word list) \<times> 'm DpService" where
  "Svc_GetSessionKeyBySessionKeyId E M sessionKeyId x = if_trusted E GET_SESSION_KEY_name (DP_PERMISSION_DENIED, x)
     (on_managers (mg_GetSessionKeyBySessionKeyId M sessionKeyId x))"

definition Svc_UpdateSessionKey :: "'j ServiceEnv \<Rightarrow> 'm Managers \<Rightarrow> int \<Rightarrow> int \<Rightarrow> 8 word list \<Rightarrow> 'm DpService \<Rightarrow> dp_ret \<times> 'm DpService" where
  "Svc_UpdateSessionKey E M userId sessionKeyId sessionKey = if_trusted E UPDATE_SESSION_KEY_name DP_PERMISSION_DENIED
     (on_managers (mg_UpdateSessionKey M userId sessionKeyId sessionKey))"

definition Svc_DeleteSessionKey :: "'j ServiceEnv \<Rightarrow> 'm Managers \<Rightarrow> int \<Rightarrow> int \<Rightarrow> 'm DpService \<Rightarrow> dp_ret \<times> 'm DpService" where
  "Svc_DeleteSessionKey E M userId sessionKeyId = if_trusted E DELETE_SESSION_KEY_name DP_PERMISSION_DENIED
     (on_managers (mg_DeleteSessionKey M userId sessionKeyId))"

definition Svc_PutServiceProfile :: "'j ServiceEnv \<Rightarrow> 'm Managers \<Rightarrow> ServiceProfile \<Rightarrow> 'm DpService \<Rightarrow> dp_ret \<times> 'm DpService" where
  "Svc_PutServiceProfile E M p = if_permitted E DP_PERMISSION_DENIED (\<lambda>s.
     if \<not> sn_isInited s then AddSvrProfilesToCache E M [p] s
     else on_managers (mg_PutServiceProfile M p) s)"

definition Svc_PutServiceProfileBatch :: "'j ServiceEnv \<Rightarrow> 'm Managers \<Rightarrow> ServiceProfile list \<Rightarrow> 'm DpService \<Rightarrow> dp_ret \<times> 'm DpService" where
  "Svc_PutServiceProfileBatch E M ps = if_permitted E DP_PERMISSION_DENIED (\<lambda>s.
     if \<not> sn_isInited s then AddSvrProfilesToCache E M ps s
     else on_managers (mg_PutServiceProfileBatch M ps) s)"

definition Svc_PutCharacteristicProfile :: "'j ServiceEnv \<Rightarrow> 'm Managers \<Rightarrow> CharacteristicProfile \<Rightarrow> 'm DpService \<Rightarrow> dp_ret \<times> 'm DpService" where
  "Svc_PutCharacteristicProfile E M p = if_permitted E DP_PERMISSION_DENIED (\<lambda>s.
     if \<not> sn_isInited s then AddCharProfilesToCache E M [p] s
     else if cp_characteristicKey p = SWITCH_STATUS then on_managers (mg_Switch_PutCharacteristicProfile M p) s
     else on_managers (mg_PutCharacteristicProfile M p) s)"

definition Svc_PutCharacteristicProfileBatch :: "'j ServiceEnv \<Rightarrow> 'm Managers \<Rightarrow> CharacteristicProfile list \<Rightarrow> 'm DpService \<Rightarrow> dp_ret \<times> 'm DpService" where
  "Svc_PutCharacteristicProfileBatch E M ps s =
     (let preprocessRes = PutCharacteristicProfileBatchPreprocess E ps in
      if preprocessRes \<noteq> DP_SUCCESS then (preprocessRes, s)
      else if \<not> sn_isInited s then AddCharProfilesToCache E M ps s
      else
        let switchCharProfiles = filter (\<lambda>p. cp_characteristicKey p = SWITCH_STATUS) ps;
            dynamicCharProfiles = filter (\<lambda>p. cp_characteristicKey p \<noteq> SWITCH_STATUS) ps;
            (switchRes, s) = (if length switchCharProfiles > 0
               then on_managers (mg_Switch_PutCharacteristicProfileBatch M switchCharProfiles) s else (DP_SUCCESS, s));
            (dynamicRes, s) = (if length dynamicCharProfiles > 0
               then on_managers (mg_PutCharacteristicProfileBatch M dynamicCharProfiles) s else (DP_SUCCESS, s))
        in if switchRes \<noteq> DP_SUCCESS \<or> dynamicRes \<noteq> DP_SUCCESS then (DP_PUT_CHAR_BATCH_FAIL, s)
           else (DP_SUCCESS, s))"

definition Svc_GetDeviceProfile :: "'j ServiceEnv \<Rightarrow> 'm Managers \<Rightarrow> string \<Rightarrow> DeviceProfile \<Rightarrow> 'm DpService \<Rightarrow> (dp_ret \<times> DeviceProfile) \<times> 'm DpService" where
  "Svc_GetDeviceProfile E M deviceId x = if_permitted E (DP_PERMISSION_DENIED, x)
     (on_managers (mg_GetDeviceProfile M deviceId x))"

definition Svc_GetServiceProfile :: "'j ServiceEnv \<Rightarrow> 'm Managers \<Rightarrow> string \<Rightarrow> string \<Rightarrow> ServiceProfile \<Rightarrow> 'm DpService \<Rightarrow> (dp_ret \<times> ServiceProfile) \<times> 'm DpService" where
  "Svc_GetServiceProfile E M deviceId serviceName x = if_permitted E (DP_PERMISSION_DENIED, x)
     (on_managers (mg_GetServiceProfile M deviceId serviceName x))"

definition Svc_GetCharacteristicProfile :: "'j ServiceEnv \<Rightarrow> 'm Managers \<Rightarrow> string \<Rightarrow> string \<Rightarrow> string \<Rightarrow> CharacteristicProfile \<Rightarrow> 'm DpService \<Rightarrow> (dp_ret \<times> CharacteristicProfile) \<times> 'm DpService" where
  "Svc_GetCharacteristicProfile E M deviceId serviceName charKey x = if_permitted E (DP_PERMISSION_DENIED, x)
     (if charKey = SWITCH_STATUS
      then on_managers (mg_Switch_GetCharacteristicProfile M deviceId serviceName charKey x)
      else if charKey = STATIC_CHARACTERISTIC_KEY
      then on_managers (mg_Static_GetCharacteristicProfile M deviceId serviceName charKey x)
      else on_managers (mg_GetCharacteristicProfile M deviceId serviceName charKey x))"

definition Svc_DeleteServiceProfile :: "'j ServiceEnv \<Rightarrow> 'm Managers \<Rightarrow> string \<Rightarrow> string \<Rightarrow> bool \<Rightarrow> int \<Rightarrow> 'm DpService \<Rightarrow> dp_ret \<times> 'm DpService" where
  "Svc_DeleteServiceProfile E M deviceId serviceName isMultiUser userId = if_permitted E DP_PERMISSION_DENIED
     (on_managers (mg_DeleteServiceProfile M deviceId serviceName isMultiUser userId))"

definition Svc_DeleteCharacteristicProfile :: "'j ServiceEnv \<Rightarrow> 'm Managers \<Rightarrow> string \<Rightarrow> string \<Rightarrow> string \<Rightarrow> bool \<Rightarrow> int \<Rightarrow> 'm DpService \<Rightarrow> dp_ret \<times> 'm DpService" where
  "Svc_DeleteCharacteristicProfile E M deviceId serviceName charKey isMultiUser userId = if_permitted E DP_PERMISSION_DENIED
     (on_managers (mg_DeleteCharacteristicProfile M deviceId serviceName charKey isMultiUser userId))"

definition Svc_SubscribeDeviceProfile :: "'j ServiceEnv \<Rightarrow> 'm Managers \<Rightarrow> SubscribeInfo \<Rightarrow> 'm DpService \<Rightarrow> dp_ret \<times> 'm DpService" where
  "Svc_SubscribeDeviceProfile E M info = if_permitted E DP_PERMISSION_DENIED
     (on_managers (mg_SubscribeDeviceProfile M info))"

definition Svc_UnSubscribeDeviceProfile :: "'j ServiceEnv \<Rightarrow> 'm Managers \<Rightarrow> SubscribeInfo \<Rightarrow> 'm DpService \<Rightarrow> dp_ret \<times> 'm DpService" where
  "Svc_UnSubscribeDeviceProfile E M info = if_permitted E DP_PERMISSION_DENIED
     (on_managers (mg_UnSubscribeDeviceProfile M info))"

definition Svc_SyncDeviceProfile :: "'j ServiceEnv \<Rightarrow> 'm Managers \<Rightarrow> DpSyncOptions \<Rightarrow> nat option \<Rightarrow> 'm DpService \<Rightarrow> dp_ret \<times> 'm DpService" where
  "Svc_SyncDeviceProfile E M options callback = if_sync_permitted E DP_PERMISSION_DENIED
     (on_managers (mg_SyncDeviceProfile M options callback))"

definition Svc_SyncStaticProfile :: "'j ServiceEnv \<Rightarrow> 'm Managers \<Rightarrow> DpSyncOptions \<Rightarrow> nat option \<Rightarrow> 'm DpService \<Rightarrow> dp_ret \<times> 'm DpService" where
  "Svc_SyncStaticProfile E M options callback = if_sync_permitted E DP_PERMISSION_DENIED
     (on_managers (mg_SyncStaticProfile M options callback))"

definition Svc_SendSubscribeInfos :: "'j ServiceEnv \<Rightarrow> 'm Managers \<Rightarrow> (string, SubscribeInfo) omap \<Rightarrow> 'm DpService \<Rightarrow> dp_ret \<times> 'm DpService" where
  "Svc_SendSubscribeInfos E M listenerMap = on_managers (mg_SendSubscribeInfos M listenerMap)"

definition Svc_SubscribeDeviceProfileInited :: "'j ServiceEnv \<Rightarrow> 'm Managers \<Rightarrow> int \<Rightarrow> nat option \<Rightarrow> 'm DpService \<Rightarrow> dp_ret \<times> 'm DpService" where
  "Svc_SubscribeDeviceProfileInited E M saId callback = if_permitted E DP_PERMISSION_DENIED (\<lambda>s.
     case callback of
       None \<Rightarrow> (DP_INVALID_PARAM, s)
     | Some l \<Rightarrow>
         if saId \<le> 0 \<or> saId > MAX_SAID then (DP_INVALID_PARAM, s)
         else if sn_isInited s \<and> \<not> se_cast E l then (DP_NULLPTR, s)
         else
           let s = (if sn_isInited s then sn_event (OnDpInited l) s else s) in
           if length (sn_dpInitedCallbackMap s) > MAX_CALLBACK_LEN then (DP_INVALID_PARAM, s)
           else (DP_SUCCESS, s\<lparr>sn_dpInitedCallbackMap := omap_put saId l (sn_dpInitedCallbackMap s)\<rparr>))"

definition Svc_UnSubscribeDeviceProfileInited :: "'j ServiceEnv \<Rightarrow> 'm Managers \<Rightarrow> int \<Rightarrow> 'm DpService \<Rightarrow> dp_ret \<times> 'm DpService" where
  "Svc_UnSubscribeDeviceProfileInited E M saId = if_permitted E DP_PERMISSION_DENIED (\<lambda>s.
     (DP_SUCCESS, s\<lparr>sn_dpInitedCallbackMap := AList.delete saId (sn_dpInitedCallbackMap s)\<rparr>))"

definition Svc_PutAllTrustedDevices :: "'j ServiceEnv \<Rightarrow> 'm Managers \<Rightarrow> TrustedDeviceInfo list \<Rightarrow> 'm DpService \<Rightarrow> dp_ret \<times> 'm DpService" where
  "Svc_PutAllTrustedDevices E M infos = if_trusted E PUT_ALL_TRUSTED_DEVICES_name DP_PERMISSION_DENIED
     (on_managers (mg_PutAllTrustedDevices M infos))"

definition Svc_PutLocalServiceInfo :: "'j ServiceEnv \<Rightarrow> 'm Managers \<Rightarrow> LocalServiceInfo \<Rightarrow> 'm DpService \<Rightarrow> dp_ret \<times> 'm DpService" where
  "Svc_PutLocalServiceInfo E M info = if_permitted E DP_PERMISSION_DENIED (\<lambda>s.
     let (ret, s) = on_managers (mg_PutLocalServiceInfo M info) s
     in if ret = DP_SUCCESS \<and> ls_pinCode info = INVALID_PINCODE then (ret, snd (NotifyPinCodeInvalid E info s)) else (ret, s))"

definition Svc_UpdateLocalServiceInfo :: "'j ServiceEnv \<Rightarrow> 'm Managers \<Rightarrow> LocalServiceInfo \<Rightarrow> 'm DpService \<Rightarrow> dp_ret \<times> 'm DpService" where
  "Svc_UpdateLocalServiceInfo E M info = if_permitted E DP_PERMISSION_DENIED (\<lambda>s.
     let (ret, s) = on_managers (mg_UpdateLocalServiceInfo M info) s
     in if ret = DP_SUCCESS \<and> ls_pinCode info = INVALID_PINCODE then (ret, snd (NotifyPinCodeInvalid E info s)) else (ret, s))"

definition Svc_GetLocalServiceInfoByBundleAndPinType :: "'j ServiceEnv \<Rightarrow> 'm Managers \<Rightarrow> string \<Rightarrow> int \<Rightarrow> LocalServiceInfo \<Rightarrow> 'm DpService \<Rightarrow> (dp_ret \<times> LocalServiceInfo) \<times> 'm DpService" where
  "Svc_GetLocalServiceInfoByBundleAndPinType E M bundleName pinExchangeType x = if_permitted E (DP_PERMISSION_DENIED, x)
     (on_managers (mg_GetLocalServiceInfoByBundleAndPinType M bundleName pinExchangeType x))"

definition Svc_DeleteLocalServiceInfo :: "'j ServiceEnv \<Rightarrow> 'm Managers \<Rightarrow> string \<Rightarrow> int \<Rightarrow> 'm DpService \<Rightarrow> dp_ret \<times> 'm DpService" where
  "Svc_DeleteLocalServiceInfo E M bundleName pinExchangeType = if_permitted E DP_PERMISSION_DENIED
     (on_managers (mg_DeleteLocalServiceInfo M bundleName pinExchangeType))"

definition Svc_PutDeviceProfileBatch :: "'j ServiceEnv \<Rightarrow> 'm Managers \<Rightarrow> DeviceProfile list \<Rightarrow> 'm DpService \<Rightarrow> dp_ret \<times> 'm DpService" where
  "Svc_PutDeviceProfileBatch E M ps = if_permitted E DP_PERMISSION_DENIED
     (on_managers (mg_PutDeviceProfileBatch M ps))"

definition Svc_GetDeviceProfiles :: "'j ServiceEnv \<Rightarrow> 'm Managers \<Rightarrow> DeviceProfileFilterOptions \<Rightarrow> DeviceProfile list \<Rightarrow> 'm DpService \<Rightarrow> (dp_ret \<times> DeviceProfile list) \<times> 'm DpService" where
  "Svc_GetDeviceProfiles E M options x = if_permitted E (DP_PERMISSION_DENIED, x)
     (on_managers (mg_GetDeviceProfiles M options x))"

definition Svc_SubscribePinCodeInvalid :: "'j ServiceEnv \<Rightarrow> 'm Managers \<Rightarrow> string \<Rightarrow> int \<Rightarrow> nat option \<Rightarrow> 'm DpService \<Rightarrow> dp_ret \<times> 'm DpService" where
  "Svc_SubscribePinCodeInvalid E M bundleName pinExchangeType callback = if_permitted E DP_PERMISSION_DENIED (\<lambda>s.
     if bundleName = [] then (DP_INVALID_PARAM, s)
     else if pinExchangeType = DEFAULT_PIN_EXCHANGE_TYPE then (DP_INVALID_PARAM, s)
     else case callback of
       None \<Rightarrow> (DP_INVALID_PARAM, s)
     | Some l \<Rightarrow>
         if length (sn_pinCodeCallbackMap s) > MAX_CALLBACK_LEN then (DP_INVALID_PARAM, s)
         else (DP_SUCCESS, s\<lparr>sn_pinCodeCallbackMap :=
                 omap_put (bundleName, pinExchangeType) l (sn_pinCodeCallbackMap s)\<rparr>))"

definition Svc_UnSubscribePinCodeInvalid :: "'j ServiceEnv \<Rightarrow> 'm Managers \<Rightarrow> string \<Rightarrow> int \<Rightarrow> 'm DpService \<Rightarrow> dp_ret \<times> 'm DpService" where
  "Svc_UnSubscribePinCodeInvalid E M bundleName pinExchangeType = if_permitted E DP_PERMISSION_DENIED (\<lambda>s.
     if bundleName = [] then (DP_INVALID_PARAM, s)
     else if pinExchangeType = DEFAULT_PIN_EXCHANGE_TYPE then (DP_INVALID_PARAM, s)
     else (DP_SUCCESS, s\<lparr>sn_pinCodeCallbackMap :=
             AList.delete (bundleName, pinExchangeType) (sn_pinCodeCallbackMap s)\<rparr>))"

definition Svc_PutProductInfoBatch :: "'j ServiceEnv \<Rightarrow> 'm Managers \<Rightarrow> ProductInfo list \<Rightarrow> 'm DpService \<Rightarrow> dp_ret \<times> 'm DpService" where
  "Svc_PutProductInfoBatch E M infos = if_permitted E DP_PERMISSION_DENIED
     (on_managers (mg_PutProductInfoBatch M infos))"

definition Svc_PutDeviceIconInfoBatch :: "'j ServiceEnv \<Rightarrow> 'm Managers \<Rightarrow> DeviceIconInfo list \<Rightarrow> 'm DpService \<Rightarrow> dp_ret \<times> 'm DpService" where
  "Svc_PutDeviceIconInfoBatch E M infos = if_permitted E DP_PERMISSION_DENIED
     (on_managers (mg_PutDeviceIconInfoBatch M infos))"

definition Svc_GetDeviceIconInfos :: "'j ServiceEnv \<Rightarrow> 'm Managers \<Rightarrow> DeviceIconInfoFilterOptions \<Rightarrow> DeviceIconInfo list \<Rightarrow> 'm DpService \<Rightarrow> (dp_ret \<times> DeviceIconInfo list) \<times> 'm DpService" where
  "Svc_GetDeviceIconInfos E M options x = if_permitted E (DP_PERMISSION_DENIED, x)
     (on_managers (mg_GetDeviceIconInfos M options x))"

definition Svc_DeleteDeviceProfileBatch :: "'j ServiceEnv \<Rightarrow> 'm Managers \<Rightarrow> DeviceProfile list \<Rightarrow> 'm DpService \<Rightarrow> dp_ret \<times> 'm DpService" where
  "Svc_DeleteDeviceProfileBatch E M ps = if_permitted E DP_PERMISSION_DENIED
     (on_managers (mg_DeleteDeviceProfileBatch M ps))"

definition Svc_RegisterBusinessCallback :: "'j ServiceEnv \<Rightarrow> 'm Managers \<Rightarrow> string \<Rightarrow> string \<Rightarrow> nat option \<Rightarrow> 'm DpService \<Rightarrow> dp_ret \<times> 'm DpService" where
  "Svc_RegisterBusinessCallback E M saId businessKey callback = if_permitted E DP_PERMISSION_DENIED (\<lambda>s.
     if saId = [] \<or> businessKey = [] then (DP_INVALID_PARAM, s)
     else case callback of
       None \<Rightarrow> (DP_INVALID_PARAM, s)
     | Some l \<Rightarrow>
         if \<not> se_cast E l then (DP_NULLPTR, s)
         else if map_of (sn_businessCallbackMap s) (saId, businessKey) \<noteq> None then (DP_INVALID_PARAM, s)
         else if length (sn_businessCallbackMap s) > MAX_CALLBACK_LEN then (DP_INVALID_PARAM, s)
         else (DP_SUCCESS, s\<lparr>sn_businessCallbackMap := omap_put (saId, businessKey) l (sn_businessCallbackMap s)\<rparr>))"

definition Svc_UnRegisterBusinessCallback :: "'j ServiceEnv \<Rightarrow> 'm Managers \<Rightarrow> string \<Rightarrow> string \<Rightarrow> 'm DpService \<Rightarrow> dp_ret \<times> 'm DpService" where
  "Svc_UnRegisterBusinessCallback E M saId businessKey = if_permitted E DP_PERMISSION_DENIED (\<lambda>s.
     if saId = [] \<or> businessKey = [] then (DP_INVALID_PARAM, s)
     else if map_of (sn_businessCallbackMap s) (saId, businessKey) = None then (DP_INVALID_PARAM, s)
     else (DP_SUCCESS, s\<lparr>sn_businessCallbackMap := AList.delete (saId, businessKey) (sn_businessCallbackMap s)\<rparr>))"

definition Svc_PutBusinessEvent :: "'j ServiceEnv \<Rightarrow> 'm Managers \<Rightarrow> BusinessEvent \<Rightarrow> 'm DpService \<Rightarrow> dp_ret \<times> 'm DpService" where
  "Svc_PutBusinessEvent E M event = if_permitted E DP_PERMISSION_DENIED (\<lambda>s.
     let (ret, s) = on_managers (mg_PutBusinessEvent M event) s in
     if ret \<noteq> DP_SUCCESS then (ret, s)
     else let (ret, s) = NotifyBusinessEvent E event s in
       if ret \<noteq> DP_SUCCESS then (DP_NOTIFY_BUSINESS_EVENT_FAIL, s) else (DP_SUCCESS, s))"

definition Svc_GetBusinessEvent :: "'j ServiceEnv \<Rightarrow> 'm Managers \<Rightarrow> BusinessEvent \<Rightarrow> 'm DpService \<Rightarrow> (dp_ret \<times> BusinessEvent) \<times> 'm DpService" where
  "Svc_GetBusinessEvent E M x = if_permitted E (DP_PERMISSION_DENIED, x)
     (on_managers (mg_GetBusinessEvent M x))"

definition Svc_PutServiceInfo :: "'j ServiceEnv \<Rightarrow> 'm Managers \<Rightarrow> ServiceInfo \<Rightarrow> 'm DpService \<Rightarrow> dp_ret \<times> 'm DpService" where
  "Svc_PutServiceInfo E M info = if_permitted E DP_PERMISSION_DENIED (\<lambda>s.
     let (ret, s) = on_managers (mg_PutServiceInfo M info) s in if ret \<noteq> DP_SUCCESS then (ret, s) else (DP_SUCCESS, s))"

definition Svc_DeleteServiceInfo :: "'j ServiceEnv \<Rightarrow> 'm Managers \<Rightarrow> UserInfo \<Rightarrow> 'm DpService \<Rightarrow> dp_ret \<times> 'm DpService" where
  "Svc_DeleteServiceInfo E M userInfo = if_permitted E DP_PERMISSION_DENIED (\<lambda>s.
     let (ret, s) = on_managers (mg_DeleteServiceInfo M userInfo) s in if ret \<noteq> DP_SUCCESS then (ret, s) else (DP_SUCCESS, s))"

definition Svc_GetAllServiceInfoList :: "'j ServiceEnv \<Rightarrow> 'm Managers \<Rightarrow> ServiceInfo list \<Rightarrow> 'm DpService \<Rightarrow> (dp_ret \<times> ServiceInfo list) \<times> 'm DpService" where
  "Svc_GetAllServiceInfoList E M x = if_permitted E (DP_PERMISSION_DENIED, x) (\<lambda>s.
     let ((ret, x), s) = on_managers (mg_GetAllServiceInfoList M x) s in if ret \<noteq> DP_SUCCESS then ((ret, x), s) else ((DP_SUCCESS, x), s))"

definition Svc_GetServiceInfosByUserInfo :: "'j ServiceEnv \<Rightarrow> 'm Managers \<Rightarrow> UserInfo \<Rightarrow> ServiceInfo list \<Rightarrow> 'm DpService \<Rightarrow> (dp_ret \<times> ServiceInfo list) \<times> 'm DpService" where
  "Svc_GetServiceInfosByUserInfo E M userInfo x = if_permitted E (DP_PERMISSION_DENIED, x) (\<lambda>s.
     let ((ret, x), s) = on_managers (mg_GetServiceInfosByUserInfo M userInfo x) s in if ret \<noteq> DP_SUCCESS then ((ret, x), s) else ((DP_SUCCESS, x), s))"

definition Svc_SubscribeAllServiceInfo :: "'j ServiceEnv \<Rightarrow> 'm Managers \<Rightarrow> int \<Rightarrow> nat option \<Rightarrow> 'm DpService \<Rightarrow> dp_ret \<times> 'm DpService" where
  "Svc_SubscribeAllServiceInfo E M saId listener = if_permitted E DP_PERMISSION_DENIED (\<lambda>s.
     if listener = None then (DP_INVALID_PARAM, s)
     else if saId \<le> 0 \<or> saId > MAX_SAID then (DP_INVALID_PARAM, s)
     else on_managers (mg_SubscribeAllServiceInfo M saId listener) s)"

section \<open>Running calls, idle and unload\<close>

definition Svc_AddRunningIpcCount :: "'m DpService \<Rightarrow> 'm DpService" where
  "Svc_AddRunningIpcCount s = s\<lparr>sn_runningIpcCount := to_i32 (sn_runningIpcCount s + 1)\<rparr>"

definition Svc_SubtractRunningIpcCount :: "'m DpService \<Rightarrow> 'm DpService" where
  "Svc_SubtractRunningIpcCount s = s\<lparr>sn_runningIpcCount := to_i32 (sn_runningIpcCount s - 1)\<rparr>"

definition ExitIdleState :: "'j ServiceEnv \<Rightarrow> 'm DpService \<Rightarrow> bool \<times> 'm DpService" where
  "ExitIdleState E s = (se_CancelIdle E, s)"

definition IsReadyIntoIdle :: "'m Managers \<Rightarrow> 'm DpService \<Rightarrow> bool" where
  "IsReadyIntoIdle M s \<longleftrightarrow>
     (if sn_runningIpcCount s > 0 then False
      else if mg_IsDeviceOnline M (sn_managers s) then False
      else True)"

definition OnIdle :: "'m Managers \<Rightarrow> string \<Rightarrow> 'm DpService \<Rightarrow> int" where
  "OnIdle M reason s =
     (if reason = IDLE_REASON_LOW_MEMORY
      then (if IsReadyIntoIdle M s then SA_READY_INTO_IDLE else SA_REFUSE_INTO_IDLE)
      else SA_READY_INTO_IDLE)"

definition CreateUnloadHandler :: "'j ServiceEnv \<Rightarrow> 'm DpService \<Rightarrow> dp_ret \<times> 'm DpService" where
  "CreateUnloadHandler E s =
     (let s = (if \<not> sn_unloadHandler s then s\<lparr>sn_unloadHandler := se_eventHandler E\<rparr> else s) in
      if \<not> sn_unloadHandler s then (DP_UNLOAD_HANDLER_NULLPTR, s) else (DP_SUCCESS, s))"

definition DestroyUnloadHandler :: "'m DpService \<Rightarrow> dp_ret \<times> 'm DpService" where
  "DestroyUnloadHandler s =
     (if \<not> sn_unloadHandler s then (DP_UNLOAD_HANDLER_NULLPTR, s)
      else (DP_SUCCESS, s\<lparr>sn_unloadTask := False, sn_unloadHandler := False\<rparr>))"

text \<open>The pending task is replaced by a new one.\<close>

definition DelayUnloadTask :: "'m DpService \<Rightarrow> 'm DpService" where
  "DelayUnloadTask s = (if \<not> sn_unloadHandler s then s else s\<lparr>sn_unloadTask := True\<rparr>)"

section \<open>Start and stop\<close>

text \<open>The managers are started in order. \<open>Some\<close> is the code that ends the start when one fails; a failure
  without a code is only logged.\<close>

fun run_inits :: "(('m \<Rightarrow> dp_ret \<times> 'm) \<times> dp_ret option) list \<Rightarrow> 'm \<Rightarrow> dp_ret \<times> 'm" where
  "run_inits [] m = (DP_SUCCESS, m)"
| "run_inits ((f, fail) # fs) m =
     (let (ret, m) = f m in
      if ret \<noteq> DP_SUCCESS then (case fail of Some e \<Rightarrow> (e, m) | None \<Rightarrow> run_inits fs m) else run_inits fs m)"

definition Svc_Init :: "'j ServiceEnv \<Rightarrow> 'm Managers \<Rightarrow> 'm DpService \<Rightarrow> dp_ret \<times> 'm DpService" where
  "Svc_Init E M s =
     (let s = s\<lparr>sn_managers := mg_EventHandlerFactory_Init M (sn_managers s)\<rparr>;
          (ret, pm) = Permission_Init (se_permission E) (sn_permission s); s = s\<lparr>sn_permission := pm\<rparr> in
      if ret \<noteq> DP_SUCCESS then (ret, s)
      else let (_, s) = on_managers (run_inits
                 [(mg_TrustProfileManager_Init M, None), (mg_ProfileDataManager_Init M, None)]) s
        in (DP_SUCCESS, s\<lparr>sn_managers := mg_SubscribeProfileManager_Init M (sn_managers s)\<rparr>))"

definition PostInitNext :: "'j ServiceEnv \<Rightarrow> 'm Managers \<Rightarrow> 'm DpService \<Rightarrow> dp_ret \<times> 'm DpService" where
  "PostInitNext E M s =
     (let (ret, s) = on_managers (run_inits
            [(mg_SettingsDataManager_Init M, Some DP_SETTINGSDATA_MANAGER_INIT_FAIL),
             (mg_ContentSensorManager_Init M, Some DP_CONTENT_SENSOR_MANAGER_INIT_FAIL),
             (mg_BusinessEventManager_Init M, Some DP_BUSINESS_EVENT_MANAGER_INIT_FAIL)]) s in
      if ret \<noteq> DP_SUCCESS then (ret, s)
      else
        let (_, s) = SaveSwitchProfilesFromTempCache M s;
            (_, s) = SaveDynamicProfilesFromTempCache M s;
            s = s\<lparr>sn_isInited := True\<rparr>;
            (_, s) = NotifyDeviceProfileInited E s
        in (DP_SUCCESS, s))"

definition PostInit :: "'j ServiceEnv \<Rightarrow> 'm Managers \<Rightarrow> 'm DpService \<Rightarrow> dp_ret \<times> 'm DpService" where
  "PostInit E M s =
     (let (ret, s) = on_managers (run_inits
            [(mg_DMAdapter_Init M, Some DP_DM_ADAPTER_INIT_FAIL),
             (mg_SwitchProfileManager_Init M, Some DP_DEVICE_PROFILE_MANAGER_INIT_FAIL),
             (mg_DeviceProfileManager_Init M, Some DP_DEVICE_PROFILE_MANAGER_INIT_FAIL),
             (mg_StaticProfileManager_Init M, Some DP_CONTENT_SENSOR_MANAGER_INIT_FAIL),
             (mg_ProfileCache_Init M, Some DP_CACHE_INIT_FAIL),
             (mg_StaticCapabilityCollector_Init M, Some DP_CONTENT_SENSOR_MANAGER_INIT_FAIL),
             (mg_LocalServiceInfoManager_Init M, Some DP_LOCAL_SERVICE_INFO_MANAGER_INIT_FAIL),
             (mg_MultiUserManager_Init M, Some DP_MULTI_USER_MANAGER_INIT_FAIL),
             (mg_ServiceInfoManager_Init M, None)]) s in
      if ret \<noteq> DP_SUCCESS then (ret, s) else PostInitNext E M s)"

definition UnInitNext :: "'m Managers \<Rightarrow> 'm DpService \<Rightarrow> dp_ret \<times> 'm DpService" where
  "UnInitNext M s =
     (let (ret, s) = on_managers (run_inits [(mg_ProfileCache_UnInit M, Some DP_CACHE_INIT_FAIL)]) s in
      if ret \<noteq> DP_SUCCESS then (ret, s)
      else
        let (ret, pm) = Permission_UnInit (sn_permission s); s = s\<lparr>sn_permission := pm\<rparr> in
        if ret \<noteq> DP_SUCCESS then (DP_DEVICE_MANAGER_UNINIT_FAIL, s)
        else on_managers (run_inits
            [(mg_SubscribeProfileManager_UnInit M, Some DP_SUBSCRIBE_DEVICE_PROFILE_MANAGER_UNINIT_FAIL),
             (mg_StaticCapabilityCollector_UnInit M, Some DP_CONTENT_SENSOR_MANAGER_UNINIT_FAIL),
             (mg_SettingsDataManager_UnInit M, Some DP_SETTINGSDATA_MANAGER_UNINIT_FAIL),
             (mg_ContentSensorManager_UnInit M, Some DP_CONTENT_SENSOR_MANAGER_UNINIT_FAIL),
             (mg_DMAdapter_UnInit M, Some DP_DM_ADAPTER_UNINIT_FAIL),
             (mg_EventHandlerFactory_UnInit M, Some DP_CACHE_UNINIT_FAIL),
             (mg_ServiceInfoManager_UnInit M, None)]) s)"

definition Svc_UnInit :: "'m Managers \<Rightarrow> 'm DpService \<Rightarrow> dp_ret \<times> 'm DpService" where
  "Svc_UnInit M s =
     (let s = s\<lparr>sn_isInited := False\<rparr>;
          (ret, s) = on_managers (run_inits
            [(mg_TrustProfileManager_UnInit M, Some DP_TRUST_PROFILE_MANAGER_UNINIT_FAIL),
             (mg_ProfileDataManager_UnInit M, Some DP_PROFILE_DATA_MANAGER_UNINIT_FAIL),
             (mg_SwitchProfileManager_UnInit M, Some DP_DEVICE_PROFILE_MANAGER_UNINIT_FAIL),
             (mg_DeviceProfileManager_UnInit M, Some DP_DEVICE_PROFILE_MANAGER_UNINIT_FAIL),
             (mg_StaticProfileManager_UnInit M, Some DP_CONTENT_SENSOR_MANAGER_UNINIT_FAIL),
             (mg_BusinessEventManager_UnInit M, Some DP_BUSINESS_EVENT_MANAGER_UNINIT_FAIL)]) s in
      if ret \<noteq> DP_SUCCESS then (ret, s)
      else let (ret, s) = UnInitNext M s in
        if ret \<noteq> DP_SUCCESS then (ret, s)
        else (DP_SUCCESS, ClearProfileCache (snd (DestroyUnloadHandler s))))"

definition OnStart :: "'j ServiceEnv \<Rightarrow> 'm Managers \<Rightarrow> 'm DpService \<Rightarrow> 'm DpService" where
  "OnStart E M s =
     (let (initRet, s) = Svc_Init E M s in
      if initRet \<noteq> DP_SUCCESS then sn_event (OnStartFail initRet) s
      else let s = sn_event AddSystemAbilityListeners s in
        if \<not> se_Publish E then s
        else let (ret, s) = CreateUnloadHandler E s in if ret = DP_SUCCESS then DelayUnloadTask s else s)"

definition OnStop :: "'m Managers \<Rightarrow> 'm DpService \<Rightarrow> 'm DpService" where
  "OnStop M s = snd (Svc_UnInit M (s\<lparr>sn_isStopped := True\<rparr>))"

text \<open>\<open>PostInit\<close> runs when the last service it depends on is there.\<close>

definition OnAddSystemAbility :: "'j ServiceEnv \<Rightarrow> 'm Managers \<Rightarrow> int \<Rightarrow> 'm DpService \<Rightarrow> 'm DpService" where
  "OnAddSystemAbility E M systemAbilityId s =
     (let s = (if systemAbilityId = se_accountSaId E then sn_event SubscribeAccountEvents s else s) in
      if sn_isInited s then s
      else if sn_depSaIds s = [] then s
      else let s = s\<lparr>sn_depSaIds := removeAll systemAbilityId (sn_depSaIds s)\<rparr> in
        if sn_depSaIds s \<noteq> [] then s else snd (PostInit E M s))"

definition AccountCommonEventCallback ::
  "'j ServiceEnv \<Rightarrow> 'm Managers \<Rightarrow> int \<Rightarrow> string \<Rightarrow> 'm DpService \<Rightarrow> 'm DpService" where
  "AccountCommonEventCallback E M userId commonEventType s =
     (if commonEventType = se_USER_SWITCHED E
      then let s = s\<lparr>sn_managers := mg_SetCurrentForegroundUserID M userId (sn_managers s)\<rparr>
        in snd (on_managers (mg_ContentSensorManager_Init M) s)
      else if commonEventType = se_USER_REMOVED E
      then snd (on_managers (mg_DeleteRemovedUserData M userId) s)
      else s)"

section \<open>The interface\<close>

text \<open>The service as the stub calls it.\<close>

definition service_ops :: "'j ServiceEnv \<Rightarrow> 'm Managers \<Rightarrow> 'm DpService IDistributedDeviceProfile" where
  "service_ops E M = \<lparr>
     svc_IsStopped = sn_isStopped,
     svc_ExitIdleState = ExitIdleState E,
     svc_AddRunningIpcCount = Svc_AddRunningIpcCount,
     svc_SubtractRunningIpcCount = Svc_SubtractRunningIpcCount,
     svc_DelayUnloadTask = DelayUnloadTask,
     svc_IsInited = sn_isInited,
     svc_PutAccessControlProfile = Svc_PutAccessControlProfile E M,
     svc_UpdateAccessControlProfile = Svc_UpdateAccessControlProfile E M,
     svc_GetTrustDeviceProfile = Svc_GetTrustDeviceProfile E M,
     svc_GetAllTrustDeviceProfile = Svc_GetAllTrustDeviceProfile E M,
     svc_GetAccessControlProfile = Svc_GetAccessControlProfile E M,
     svc_GetAllAccessControlProfile = Svc_GetAllAccessControlProfile E M,
     svc_GetAllAclIncludeLnnAcl = Svc_GetAllAclIncludeLnnAcl E M,
     svc_DeleteAccessControlProfile = Svc_DeleteAccessControlProfile E M,
     svc_PutSessionKey = Svc_PutSessionKey E M,
     svc_GetSessionKey = Svc_GetSessionKey E M,
     svc_GetSessionKeyBySessionKeyId = Svc_GetSessionKeyBySessionKeyId E M,
     svc_UpdateSessionKey = Svc_UpdateSessionKey E M,
     svc_DeleteSessionKey = Svc_DeleteSessionKey E M,
     svc_PutServiceProfile = Svc_PutServiceProfile E M,
     svc_PutServiceProfileBatch = Svc_PutServiceProfileBatch E M,
     svc_PutCharacteristicProfile = Svc_PutCharacteristicProfile E M,
     svc_PutCharacteristicProfileBatch = Svc_PutCharacteristicProfileBatch E M,
     svc_GetDeviceProfile = Svc_GetDeviceProfile E M,
     svc_GetServiceProfile = Svc_GetServiceProfile E M,
     svc_GetCharacteristicProfile = Svc_GetCharacteristicProfile E M,
     svc_DeleteServiceProfile = Svc_DeleteServiceProfile E M,
     svc_DeleteCharacteristicProfile = Svc_DeleteCharacteristicProfile E M,
     svc_SubscribeDeviceProfile = Svc_SubscribeDeviceProfile E M,
     svc_UnSubscribeDeviceProfile = Svc_UnSubscribeDeviceProfile E M,
     svc_SyncDeviceProfile = Svc_SyncDeviceProfile E M,
     svc_SyncStaticProfile = Svc_SyncStaticProfile E M,
     svc_SendSubscribeInfos = Svc_SendSubscribeInfos E M,
     svc_SubscribeDeviceProfileInited = Svc_SubscribeDeviceProfileInited E M,
     svc_UnSubscribeDeviceProfileInited = Svc_UnSubscribeDeviceProfileInited E M,
     svc_PutAllTrustedDevices = Svc_PutAllTrustedDevices E M,
     svc_PutLocalServiceInfo = Svc_PutLocalServiceInfo E M,
     svc_UpdateLocalServiceInfo = Svc_UpdateLocalServiceInfo E M,
     svc_GetLocalServiceInfoByBundleAndPinType = Svc_GetLocalServiceInfoByBundleAndPinType E M,
     svc_DeleteLocalServiceInfo = Svc_DeleteLocalServiceInfo E M,
     svc_PutDeviceProfileBatch = Svc_PutDeviceProfileBatch E M,
     svc_GetDeviceProfiles = Svc_GetDeviceProfiles E M,
     svc_SubscribePinCodeInvalid = Svc_SubscribePinCodeInvalid E M,
     svc_UnSubscribePinCodeInvalid = Svc_UnSubscribePinCodeInvalid E M,
     svc_PutProductInfoBatch = Svc_PutProductInfoBatch E M,
     svc_PutDeviceIconInfoBatch = Svc_PutDeviceIconInfoBatch E M,
     svc_GetDeviceIconInfos = Svc_GetDeviceIconInfos E M,
     svc_DeleteDeviceProfileBatch = Svc_DeleteDeviceProfileBatch E M,
     svc_RegisterBusinessCallback = Svc_RegisterBusinessCallback E M,
     svc_UnRegisterBusinessCallback = Svc_UnRegisterBusinessCallback E M,
     svc_PutBusinessEvent = Svc_PutBusinessEvent E M,
     svc_GetBusinessEvent = Svc_GetBusinessEvent E M,
     svc_PutServiceInfo = Svc_PutServiceInfo E M,
     svc_DeleteServiceInfo = Svc_DeleteServiceInfo E M,
     svc_GetAllServiceInfoList = Svc_GetAllServiceInfoList E M,
     svc_GetServiceInfosByUserInfo = Svc_GetServiceInfosByUserInfo E M,
     svc_SubscribeAllServiceInfo = Svc_SubscribeAllServiceInfo E M\<rparr>"

end
