(* ===== verification/RequestLaws.thy ===== *)
theory RequestLaws
  imports IpcStub
begin

text \<open>
  What every operation of a service keeps, every request keeps: whatever its code, whatever its parcel
  holds, and also when it is refused. The contract \<open>steady_service\<close> asks it of the operations one by one.
\<close>

definition keeps :: "('s \<Rightarrow> bool) \<Rightarrow> ('s \<Rightarrow> 'r \<times> 's) \<Rightarrow> bool" where
  "keeps good f \<longleftrightarrow> (\<forall>s. good s \<longrightarrow> good (snd (f s)))"

definition handler_keeps :: "('s \<Rightarrow> bool) \<Rightarrow> ('p, 's) handler \<Rightarrow> bool" where
  "handler_keeps good h \<longleftrightarrow> (\<forall>data reply. keeps good (h data reply))"

lemma keepsI: "(\<And>s. good s \<Longrightarrow> good (snd (f s))) \<Longrightarrow> keeps good f"
  by (simp add: keeps_def)

lemma keepsD: "keeps good f \<Longrightarrow> good s \<Longrightarrow> good (snd (f s))"
  by (simp add: keeps_def)

lemma stub_put_keeps:
  assumes "\<And>a. keeps good (f a)"
  shows "handler_keeps good (stub_put P rd f fail)"
  unfolding handler_keeps_def
proof (intro allI keepsI)
  fix data reply s
  assume "good s"
  with keepsD [OF assms] have "good (snd (f a s))" for a .
  then have "f a s = (ret, s') \<Longrightarrow> good s'" for a ret s' by (metis snd_conv)
  then show "good (snd (stub_put P rd f fail data reply s))"
    using \<open>good s\<close> by (auto simp: stub_put_def Let_def split: prod.split sum.split)
qed

lemma stub_get_keeps:
  assumes "\<And>a. keeps good (f a)"
  shows "handler_keeps good (stub_get P rd f fail w outFail)"
  unfolding handler_keeps_def
proof (intro allI keepsI)
  fix data reply s
  assume "good s"
  with keepsD [OF assms] have "good (snd (f a s))" for a .
  then have "f a s = ((ret, x), s') \<Longrightarrow> good s'" for a ret x s' by (metis snd_conv)
  then show "good (snd (stub_get P rd f fail w outFail data reply s))"
    using \<open>good s\<close> by (auto simp: stub_get_def Let_def split: prod.split sum.split)
qed

lemma table_keeps:
  assumes "list_all (\<lambda>(_, h). handler_keeps good h) table" "handler_keeps good other"
  shows "handler_keeps good (case map_of table code of None \<Rightarrow> other | Some h \<Rightarrow> h)"
  using assms by (auto simp: list_all_iff split: option.split dest: map_of_SomeD)

locale steady_service =
  fixes svc :: "'s IDistributedDeviceProfile" and good :: "'s \<Rightarrow> bool"
  assumes PutAccessControlProfile: "\<And>a0. keeps good (svc_PutAccessControlProfile svc a0)"
    and UpdateAccessControlProfile: "\<And>a0. keeps good (svc_UpdateAccessControlProfile svc a0)"
    and GetTrustDeviceProfile: "\<And>a0 a1. keeps good (svc_GetTrustDeviceProfile svc a0 a1)"
    and GetAllTrustDeviceProfile: "\<And>a0. keeps good (svc_GetAllTrustDeviceProfile svc a0)"
    and GetAccessControlProfile: "\<And>a0 a1. keeps good (svc_GetAccessControlProfile svc a0 a1)"
    and GetAllAccessControlProfile: "\<And>a0. keeps good (svc_GetAllAccessControlProfile svc a0)"
    and GetAllAclIncludeLnnAcl: "\<And>a0. keeps good (svc_GetAllAclIncludeLnnAcl svc a0)"
    and DeleteAccessControlProfile: "\<And>a0. keeps good (svc_DeleteAccessControlProfile svc a0)"
    and PutSessionKey: "\<And>a0 a1 a2. keeps good (svc_PutSessionKey svc a0 a1 a2)"
    and GetSessionKey: "\<And>a0 a1 a2. keeps good (svc_GetSessionKey svc a0 a1 a2)"
    and GetSessionKeyBySessionKeyId: "\<And>a0 a1. keeps good (svc_GetSessionKeyBySessionKeyId svc a0 a1)"
    and UpdateSessionKey: "\<And>a0 a1 a2. keeps good (svc_UpdateSessionKey svc a0 a1 a2)"
    and DeleteSessionKey: "\<And>a0 a1. keeps good (svc_DeleteSessionKey svc a0 a1)"
    and PutServiceProfile: "\<And>a0. keeps good (svc_PutServiceProfile svc a0)"
    and PutServiceProfileBatch: "\<And>a0. keeps good (svc_PutServiceProfileBatch svc a0)"
    and PutCharacteristicProfile: "\<And>a0. keeps good (svc_PutCharacteristicProfile svc a0)"
    and PutCharacteristicProfileBatch: "\<And>a0. keeps good (svc_PutCharacteristicProfileBatch svc a0)"
    and GetDeviceProfile: "\<And>a0 a1. keeps good (svc_GetDeviceProfile svc a0 a1)"
    and GetServiceProfile: "\<And>a0 a1 a2. keeps good (svc_GetServiceProfile svc a0 a1 a2)"
    and GetCharacteristicProfile: "\<And>a0 a1 a2 a3. keeps good (svc_GetCharacteristicProfile svc a0 a1 a2 a3)"
    and DeleteServiceProfile: "\<And>a0 a1 a2 a3. keeps good (svc_DeleteServiceProfile svc a0 a1 a2 a3)"
    and DeleteCharacteristicProfile: "\<And>a0 a1 a2 a3 a4. keeps good (svc_DeleteCharacteristicProfile svc a0 a1 a2 a3 a4)"
    and SubscribeDeviceProfile: "\<And>a0. keeps good (svc_SubscribeDeviceProfile svc a0)"
    and UnSubscribeDeviceProfile: "\<And>a0. keeps good (svc_UnSubscribeDeviceProfile svc a0)"
    and SyncDeviceProfile: "\<And>a0 a1. keeps good (svc_SyncDeviceProfile svc a0 a1)"
    and SyncStaticProfile: "\<And>a0 a1. keeps good (svc_SyncStaticProfile svc a0 a1)"
    and SendSubscribeInfos: "\<And>a0. keeps good (svc_SendSubscribeInfos svc a0)"
    and SubscribeDeviceProfileInited: "\<And>a0 a1. keeps good (svc_SubscribeDeviceProfileInited svc a0 a1)"
    and UnSubscribeDeviceProfileInited: "\<And>a0. keeps good (svc_UnSubscribeDeviceProfileInited svc a0)"
    and PutAllTrustedDevices: "\<And>a0. keeps good (svc_PutAllTrustedDevices svc a0)"
    and PutLocalServiceInfo: "\<And>a0. keeps good (svc_PutLocalServiceInfo svc a0)"
    and UpdateLocalServiceInfo: "\<And>a0. keeps good (svc_UpdateLocalServiceInfo svc a0)"
    and GetLocalServiceInfoByBundleAndPinType: "\<And>a0 a1 a2. keeps good (svc_GetLocalServiceInfoByBundleAndPinType svc a0 a1 a2)"
    and DeleteLocalServiceInfo: "\<And>a0 a1. keeps good (svc_DeleteLocalServiceInfo svc a0 a1)"
    and PutDeviceProfileBatch: "\<And>a0. keeps good (svc_PutDeviceProfileBatch svc a0)"
    and GetDeviceProfiles: "\<And>a0 a1. keeps good (svc_GetDeviceProfiles svc a0 a1)"
    and SubscribePinCodeInvalid: "\<And>a0 a1 a2. keeps good (svc_SubscribePinCodeInvalid svc a0 a1 a2)"
    and UnSubscribePinCodeInvalid: "\<And>a0 a1. keeps good (svc_UnSubscribePinCodeInvalid svc a0 a1)"
    and PutProductInfoBatch: "\<And>a0. keeps good (svc_PutProductInfoBatch svc a0)"
    and PutDeviceIconInfoBatch: "\<And>a0. keeps good (svc_PutDeviceIconInfoBatch svc a0)"
    and GetDeviceIconInfos: "\<And>a0 a1. keeps good (svc_GetDeviceIconInfos svc a0 a1)"
    and DeleteDeviceProfileBatch: "\<And>a0. keeps good (svc_DeleteDeviceProfileBatch svc a0)"
    and RegisterBusinessCallback: "\<And>a0 a1 a2. keeps good (svc_RegisterBusinessCallback svc a0 a1 a2)"
    and UnRegisterBusinessCallback: "\<And>a0 a1. keeps good (svc_UnRegisterBusinessCallback svc a0 a1)"
    and PutBusinessEvent: "\<And>a0. keeps good (svc_PutBusinessEvent svc a0)"
    and GetBusinessEvent: "\<And>a0. keeps good (svc_GetBusinessEvent svc a0)"
    and PutServiceInfo: "\<And>a0. keeps good (svc_PutServiceInfo svc a0)"
    and DeleteServiceInfo: "\<And>a0. keeps good (svc_DeleteServiceInfo svc a0)"
    and GetAllServiceInfoList: "\<And>a0. keeps good (svc_GetAllServiceInfoList svc a0)"
    and GetServiceInfosByUserInfo: "\<And>a0 a1. keeps good (svc_GetServiceInfosByUserInfo svc a0 a1)"
    and SubscribeAllServiceInfo: "\<And>a0 a1. keeps good (svc_SubscribeAllServiceInfo svc a0 a1)"
begin

lemmas service_keeps =
  PutAccessControlProfile UpdateAccessControlProfile GetTrustDeviceProfile GetAllTrustDeviceProfile
  GetAccessControlProfile GetAllAccessControlProfile GetAllAclIncludeLnnAcl DeleteAccessControlProfile
  PutSessionKey GetSessionKey GetSessionKeyBySessionKeyId UpdateSessionKey
  DeleteSessionKey PutServiceProfile PutServiceProfileBatch PutCharacteristicProfile
  PutCharacteristicProfileBatch GetDeviceProfile GetServiceProfile GetCharacteristicProfile
  DeleteServiceProfile DeleteCharacteristicProfile SubscribeDeviceProfile UnSubscribeDeviceProfile
  SyncDeviceProfile SyncStaticProfile SendSubscribeInfos SubscribeDeviceProfileInited
  UnSubscribeDeviceProfileInited PutAllTrustedDevices PutLocalServiceInfo UpdateLocalServiceInfo
  GetLocalServiceInfoByBundleAndPinType DeleteLocalServiceInfo PutDeviceProfileBatch GetDeviceProfiles
  SubscribePinCodeInvalid UnSubscribePinCodeInvalid PutProductInfoBatch PutDeviceIconInfoBatch
  GetDeviceIconInfos DeleteDeviceProfileBatch RegisterBusinessCallback UnRegisterBusinessCallback
  PutBusinessEvent GetBusinessEvent PutServiceInfo DeleteServiceInfo
  GetAllServiceInfoList GetServiceInfosByUserInfo SubscribeAllServiceInfo

lemmas handler_defs =
  PutAccessControlProfileInner_def UpdateAccessControlProfileInner_def GetTrustDeviceProfileInner_def
  GetAllTrustDeviceProfileInner_def GetAccessControlProfileInner_def GetAllAccessControlProfileInner_def
  GetAllAclIncludeLnnAclInner_def DeleteAccessControlProfileInner_def PutSessionKeyInner_def
  GetSessionKeyInner_def GetSessionKeyBySessionKeyIdInner_def UpdateSessionKeyInner_def
  DeleteSessionKeyInner_def PutServiceProfileInner_def PutServiceProfileBatchInner_def
  PutCharacteristicProfileInner_def PutCharacteristicProfileBatchInner_def GetDeviceProfileInner_def
  GetServiceProfileInner_def GetCharacteristicProfileInner_def DeleteServiceProfileInner_def
  DeleteCharacteristicProfileInner_def SubscribeDeviceProfileInner_def UnSubscribeDeviceProfileInner_def
  SyncDeviceProfileInner_def SyncStaticProfileInner_def SendSubscribeInfosInner_def
  SubscribeDeviceProfileInitedInner_def UnSubscribeDeviceProfileInitedInner_def PutAllTrustedDevicesInner_def
  PutLocalServiceInfoInner_def UpdateLocalServiceInfoInner_def GetLocalServiceInfoByBundleAndPinTypeInner_def
  DeleteLocalServiceInfoInner_def PutDeviceProfileBatchInner_def GetDeviceProfilesInner_def
  SubscribePinCodeInvalidInner_def UnSubscribePinCodeInvalidInner_def PutProductInfoBatchInner_def
  PutDeviceIconInfoBatchInner_def GetDeviceIconInfosInner_def DeleteDeviceProfileBatchInner_def
  RegisterBusinessCallbackInner_def UnRegisterBusinessCallbackInner_def PutBusinessEventInner_def
  GetBusinessEventInner_def PutServiceInfoInner_def DeleteServiceInfoInner_def
  GetAllServiceInfoListInner_def GetServiceInfosByUserInfoInner_def SubscribeAllServiceInfoInner_def

lemma handlers_keep:
  "handler_keeps good (PutAccessControlProfileInner P svc)"
  "handler_keeps good (UpdateAccessControlProfileInner P svc)"
  "handler_keeps good (GetTrustDeviceProfileInner P svc)"
  "handler_keeps good (GetAllTrustDeviceProfileInner P svc)"
  "handler_keeps good (GetAccessControlProfileInner P svc)"
  "handler_keeps good (GetAllAccessControlProfileInner P svc)"
  "handler_keeps good (GetAllAclIncludeLnnAclInner P svc)"
  "handler_keeps good (DeleteAccessControlProfileInner P svc)"
  "handler_keeps good (PutSessionKeyInner P svc)"
  "handler_keeps good (GetSessionKeyInner P svc)"
  "handler_keeps good (GetSessionKeyBySessionKeyIdInner P svc)"
  "handler_keeps good (UpdateSessionKeyInner P svc)"
  "handler_keeps good (DeleteSessionKeyInner P svc)"
  "handler_keeps good (PutServiceProfileInner P svc)"
  "handler_keeps good (PutServiceProfileBatchInner P svc)"
  "handler_keeps good (PutCharacteristicProfileInner P svc)"
  "handler_keeps good (PutCharacteristicProfileBatchInner P svc)"
  "handler_keeps good (GetDeviceProfileInner P svc)"
  "handler_keeps good (GetServiceProfileInner P svc)"
  "handler_keeps good (GetCharacteristicProfileInner P svc)"
  "handler_keeps good (DeleteServiceProfileInner P svc)"
  "handler_keeps good (DeleteCharacteristicProfileInner P svc)"
  "handler_keeps good (SubscribeDeviceProfileInner P svc)"
  "handler_keeps good (UnSubscribeDeviceProfileInner P svc)"
  "handler_keeps good (SyncDeviceProfileInner P svc)"
  "handler_keeps good (SyncStaticProfileInner P svc)"
  "handler_keeps good (SendSubscribeInfosInner P svc)"
  "handler_keeps good (SubscribeDeviceProfileInitedInner P svc)"
  "handler_keeps good (UnSubscribeDeviceProfileInitedInner P svc)"
  "handler_keeps good (PutAllTrustedDevicesInner P svc)"
  "handler_keeps good (PutLocalServiceInfoInner P svc)"
  "handler_keeps good (UpdateLocalServiceInfoInner P svc)"
  "handler_keeps good (GetLocalServiceInfoByBundleAndPinTypeInner P svc)"
  "handler_keeps good (DeleteLocalServiceInfoInner P svc)"
  "handler_keeps good (PutDeviceProfileBatchInner P svc)"
  "handler_keeps good (GetDeviceProfilesInner P svc)"
  "handler_keeps good (SubscribePinCodeInvalidInner P svc)"
  "handler_keeps good (UnSubscribePinCodeInvalidInner P svc)"
  "handler_keeps good (PutProductInfoBatchInner P svc)"
  "handler_keeps good (PutDeviceIconInfoBatchInner P svc)"
  "handler_keeps good (GetDeviceIconInfosInner P svc)"
  "handler_keeps good (DeleteDeviceProfileBatchInner P svc)"
  "handler_keeps good (RegisterBusinessCallbackInner P svc)"
  "handler_keeps good (UnRegisterBusinessCallbackInner P svc)"
  "handler_keeps good (PutBusinessEventInner P svc)"
  "handler_keeps good (GetBusinessEventInner P svc)"
  "handler_keeps good (PutServiceInfoInner P svc)"
  "handler_keeps good (DeleteServiceInfoInner P svc)"
  "handler_keeps good (GetAllServiceInfoListInner P svc)"
  "handler_keeps good (GetServiceInfosByUserInfoInner P svc)"
  "handler_keeps good (SubscribeAllServiceInfoInner P svc)"
  by (unfold handler_defs; (rule stub_put_keeps stub_get_keeps); auto simp: service_keeps split: prod.split)+

lemma dispatch_keeps:
  assumes "handler_keeps good (other code)"
  shows "handler_keeps good (NotifyAclEventInner P svc other code)" "handler_keeps good (NotifyEventInner P svc other code)"
proof -
  have 1: "handler_keeps good (NotifyServiceInfoEventInner P svc other code)"
    unfolding NotifyServiceInfoEventInner_def by (rule table_keeps) (simp_all add: handlers_keep assms)
  have 2: "handler_keeps good (NotifyProfileDataEventInner P svc other code)"
    unfolding NotifyProfileDataEventInner_def by (rule table_keeps) (simp_all add: handlers_keep 1)
  have 3: "handler_keeps good (NotifyLocalServiceEventInner P svc other code)"
    unfolding NotifyLocalServiceEventInner_def by (rule table_keeps) (simp_all add: handlers_keep assms)
  show "handler_keeps good (NotifyAclEventInner P svc other code)"
    unfolding NotifyAclEventInner_def by (rule table_keeps) (simp_all add: handlers_keep 2)
  show "handler_keeps good (NotifyEventInner P svc other code)"
    unfolding NotifyEventInner_def by (rule table_keeps) (simp_all add: handlers_keep 3)
qed

lemma request_keeps:
  assumes "keeps good (svc_ExitIdleState svc)" "handler_keeps good (other code)"
    and "\<And>s. good (svc_AddRunningIpcCount svc s) = good s" "\<And>s. good (svc_SubtractRunningIpcCount svc s) = good s"
    and "\<And>s. good (svc_DelayUnloadTask svc s) = good s"
  shows "handler_keeps good (OnRemoteRequest P svc other code)"
  unfolding handler_keeps_def
proof (intro allI keepsI)
  fix data reply s
  assume "good s"
  with keepsD [OF assms(1)] have 1: "good (snd (svc_ExitIdleState svc s))" .
  have 2: "good s1 \<Longrightarrow> good (snd (NotifyAclEventInner P svc other code d r s1))"
    "good s1 \<Longrightarrow> good (snd (NotifyEventInner P svc other code d r s1))" for d r s1
    using dispatch_keeps [where other = other and code = code, OF assms(2)] unfolding handler_keeps_def by (blast dest: keepsD)+
  show "good (snd (OnRemoteRequest P svc other code data reply s))"
    unfolding OnRemoteRequest_def using \<open>good s\<close> 1 2
    by (auto simp: Let_def assms(3-5) case_prod_beta split: prod.split)
qed

end

end
