(* ===== verification/DpServiceLaws.thy ===== *)
theory DpServiceLaws
  imports DpService RequestLaws
begin

text \<open>
  The service: what a refused caller gets, what every step keeps of its state, and lemmas on the profiles that wait
  for the data service. The locale \<open>service_frame\<close> lists what a predicate on states must survive to
  survive every request; it is used for the invariant and for the count of running calls.
\<close>

section \<open>Refusals\<close>

text \<open>The state after a check of the table, which no later check sees.\<close>

definition asked :: "'j ServiceEnv \<Rightarrow> string \<Rightarrow> 'm DpService \<Rightarrow> 'm DpService" where
  "asked E name s = s\<lparr>sn_permission := snd (IsCallerTrust (se_permission E) name (sn_permission s))\<rparr>"

lemma if_permitted_denied: "\<not> CheckCallerPermission (se_permission E) \<Longrightarrow> if_permitted E d f s = (d, s)"
  by (simp add: if_permitted_def)

lemma if_sync_permitted_denied: "\<not> CheckCallerSyncPermission (se_permission E) \<Longrightarrow> if_sync_permitted E d f s = (d, s)"
  by (simp add: if_sync_permitted_def)

lemma if_trusted_denied: "\<not> fst (IsCallerTrust (se_permission E) name (sn_permission s)) \<Longrightarrow>
    if_trusted E name d f s = (d, asked E name s)"
  by (simp add: if_trusted_def asked_def case_prod_beta Let_def)

lemmas denied = if_permitted_denied if_sync_permitted_denied if_trusted_denied

lemmas svc_defs =
  Svc_PutAccessControlProfile_def Svc_UpdateAccessControlProfile_def Svc_GetTrustDeviceProfile_def
  Svc_GetAllTrustDeviceProfile_def Svc_GetAccessControlProfile_def Svc_GetAllAccessControlProfile_def
  Svc_GetAllAclIncludeLnnAcl_def Svc_DeleteAccessControlProfile_def Svc_PutSessionKey_def
  Svc_GetSessionKey_def Svc_GetSessionKeyBySessionKeyId_def Svc_UpdateSessionKey_def
  Svc_DeleteSessionKey_def Svc_PutServiceProfile_def Svc_PutServiceProfileBatch_def
  Svc_PutCharacteristicProfile_def Svc_PutCharacteristicProfileBatch_def Svc_GetDeviceProfile_def
  Svc_GetServiceProfile_def Svc_GetCharacteristicProfile_def Svc_DeleteServiceProfile_def
  Svc_DeleteCharacteristicProfile_def Svc_SubscribeDeviceProfile_def Svc_UnSubscribeDeviceProfile_def
  Svc_SyncDeviceProfile_def Svc_SyncStaticProfile_def Svc_SendSubscribeInfos_def
  Svc_SubscribeDeviceProfileInited_def Svc_UnSubscribeDeviceProfileInited_def Svc_PutAllTrustedDevices_def
  Svc_PutLocalServiceInfo_def Svc_UpdateLocalServiceInfo_def Svc_GetLocalServiceInfoByBundleAndPinType_def
  Svc_DeleteLocalServiceInfo_def Svc_PutDeviceProfileBatch_def Svc_GetDeviceProfiles_def
  Svc_SubscribePinCodeInvalid_def Svc_UnSubscribePinCodeInvalid_def Svc_PutProductInfoBatch_def
  Svc_PutDeviceIconInfoBatch_def Svc_GetDeviceIconInfos_def Svc_DeleteDeviceProfileBatch_def
  Svc_RegisterBusinessCallback_def Svc_UnRegisterBusinessCallback_def Svc_PutBusinessEvent_def
  Svc_GetBusinessEvent_def Svc_PutServiceInfo_def Svc_DeleteServiceInfo_def
  Svc_GetAllServiceInfoList_def Svc_GetServiceInfosByUserInfo_def Svc_SubscribeAllServiceInfo_def

section \<open>What requests leave alone\<close>

text \<open>A property of the service that the managers, the table of permissions and the events do not touch,
  and that the service's own maps keep, is kept by every request.\<close>

locale service_frame =
  fixes good :: "'m DpService \<Rightarrow> bool" and env :: "'j ServiceEnv itself"
  assumes managers: "good (s\<lparr>sn_managers := m\<rparr>) = good s"
    and permission: "good (s\<lparr>sn_permission := pm\<rparr>) = good s"
    and event: "good (sn_event e s) = good s"
    and services_wait: "\<And>E :: 'j ServiceEnv. good s \<Longrightarrow> \<not> sn_isInited s \<Longrightarrow> good (snd (AddSvrProfilesToCache E M ps s))"
    and chars_wait: "\<And>E :: 'j ServiceEnv. good s \<Longrightarrow> \<not> sn_isInited s \<Longrightarrow> good (snd (AddCharProfilesToCache E M cs s))"
    and inited_put: "good s \<Longrightarrow> length (sn_dpInitedCallbackMap s) \<le> MAX_CALLBACK_LEN \<Longrightarrow>
      good (s\<lparr>sn_dpInitedCallbackMap := omap_put i l (sn_dpInitedCallbackMap s)\<rparr>)"
    and pin_put: "good s \<Longrightarrow> length (sn_pinCodeCallbackMap s) \<le> MAX_CALLBACK_LEN \<Longrightarrow>
      good (s\<lparr>sn_pinCodeCallbackMap := omap_put bi l (sn_pinCodeCallbackMap s)\<rparr>)"
    and business_put: "good s \<Longrightarrow> length (sn_businessCallbackMap s) \<le> MAX_CALLBACK_LEN \<Longrightarrow>
      good (s\<lparr>sn_businessCallbackMap := omap_put bk l (sn_businessCallbackMap s)\<rparr>)"
    and inited_delete: "good s \<Longrightarrow> good (s\<lparr>sn_dpInitedCallbackMap := AList.delete i (sn_dpInitedCallbackMap s)\<rparr>)"
    and pin_delete: "good s \<Longrightarrow> good (s\<lparr>sn_pinCodeCallbackMap := AList.delete bi (sn_pinCodeCallbackMap s)\<rparr>)"
    and business_delete: "good s \<Longrightarrow> good (s\<lparr>sn_businessCallbackMap := AList.delete bk (sn_businessCallbackMap s)\<rparr>)"
begin

lemmas good_cong = managers permission event
lemmas drop_callback = inited_delete pin_delete business_delete

lemma keeps_on_managers: "keeps good (on_managers f)"
  by (rule keepsI) (simp add: on_managers_def case_prod_beta good_cong)

lemma keeps_if:
  assumes "keeps good f"
  shows "keeps good (if_permitted E d f)" "keeps good (if_sync_permitted E d f)"
    "keeps good (if_trusted E name d f)"
  by (rule keepsI; use keepsD [OF assms] in
      \<open>simp add: if_permitted_def if_sync_permitted_def if_trusted_def case_prod_beta Let_def good_cong\<close>)+

lemma pin_notify: "good (snd (NotifyPinCodeInvalid E info s)) = good s"
  by (simp add: NotifyPinCodeInvalid_def good_cong split: option.split)

lemma fold_good:
  "(\<And>x s. good (g x s) = good s) \<Longrightarrow> good (fold g xs s) = good s"
  by (induction xs arbitrary: s) auto

lemma business_notify: "good (snd (NotifyBusinessEvent E event s)) = good s"
  unfolding NotifyBusinessEvent_def snd_conv
  by (rule fold_good) (simp add: good_cong split: prod.split)

lemma callbacks_keep:
  "keeps good (Svc_SubscribeDeviceProfileInited E M i l)"
  "keeps good (Svc_SubscribePinCodeInvalid E M b i l)" "keeps good (Svc_RegisterBusinessCallback E M b k l)"
proof -
  show "keeps good (Svc_SubscribeDeviceProfileInited E M i l)"
    unfolding Svc_SubscribeDeviceProfileInited_def
  proof (rule keeps_if(1), rule keepsI)
    fix s :: "'m DpService"
    assume "good s"
    then have s: "good (sn_event e s)" for e by (simp add: good_cong)
    show "good (snd (case l of None \<Rightarrow> (DP_INVALID_PARAM, s)
     | Some l \<Rightarrow>
         if i \<le> 0 \<or> i > MAX_SAID then (DP_INVALID_PARAM, s)
         else if sn_isInited s \<and> \<not> se_cast E l then (DP_NULLPTR, s)
         else
           let s = (if sn_isInited s then sn_event (OnDpInited l) s else s) in
           if length (sn_dpInitedCallbackMap s) > MAX_CALLBACK_LEN then (DP_INVALID_PARAM, s)
           else (DP_SUCCESS, s\<lparr>sn_dpInitedCallbackMap := omap_put i l (sn_dpInitedCallbackMap s)\<rparr>)))"
      using s \<open>good s\<close> by (simp add: inited_put Let_def split: option.split)
  qed
  show "keeps good (Svc_SubscribePinCodeInvalid E M b i l)"
    unfolding Svc_SubscribePinCodeInvalid_def
    by (rule keeps_if(1), rule keepsI) (simp add: pin_put split: option.split)
  show "keeps good (Svc_RegisterBusinessCallback E M b k l)"
    unfolding Svc_RegisterBusinessCallback_def
    by (rule keeps_if(1), rule keepsI) (simp add: business_put split: option.split)
qed

lemma callbacks_drop_keep:
  "keeps good (Svc_UnSubscribeDeviceProfileInited E M i)"
  "keeps good (Svc_UnSubscribePinCodeInvalid E M b i)" "keeps good (Svc_UnRegisterBusinessCallback E M b k)"
  unfolding svc_defs
  by (rule keeps_if(1), rule keepsI, simp add: drop_callback)+

lemma when_inited_keeps:
  assumes "\<And>s. good s \<Longrightarrow> \<not> sn_isInited s \<Longrightarrow> good (snd (g s))"
  shows "keeps good (\<lambda>s. if \<not> sn_isInited s then g s else on_managers f s)"
    "keeps good (\<lambda>s. if \<not> sn_isInited s then g s else if c then on_managers f' s else on_managers f s)"
  by (rule keepsI; simp add: assms keepsD [OF keeps_on_managers])+

lemma run_next_keeps:
  assumes "\<And>r s. good s \<Longrightarrow> good (snd (g r s))"
  shows "keeps good (\<lambda>s. let (r, s) = on_managers f s in g r s)"
  by (rule keepsI) (simp add: case_prod_beta assms keepsD [OF keeps_on_managers])

lemma puts_keep:
  fixes E :: "'j ServiceEnv"
  shows "keeps good (Svc_PutServiceProfile E M p)" "keeps good (Svc_PutServiceProfileBatch E M ps)"
  "keeps good (Svc_PutCharacteristicProfile E M c)"
  unfolding svc_defs by (rule keeps_if(1), rule when_inited_keeps, simp add: services_wait chars_wait)+

lemma notifiers_keep:
  "keeps good (Svc_PutLocalServiceInfo E M info)" "keeps good (Svc_UpdateLocalServiceInfo E M info)"
  "keeps good (Svc_PutBusinessEvent E M event)"
  unfolding svc_defs
  by (rule keeps_if(1), rule run_next_keeps, simp add: pin_notify business_notify case_prod_beta Let_def)+

lemma char_batch_keeps:
  fixes E :: "'j ServiceEnv"
  shows "keeps good (Svc_PutCharacteristicProfileBatch E M ps)"
  by (rule keepsI) (auto simp: Svc_PutCharacteristicProfileBatch_def chars_wait Let_def case_prod_beta
      dest: keepsD [OF keeps_on_managers] split: prod.split)

lemma requests_keep:
  "keeps good (Svc_PutAccessControlProfile E M a0)"
  "keeps good (Svc_UpdateAccessControlProfile E M b0)"
  "keeps good (Svc_GetTrustDeviceProfile E M c0 c1)"
  "keeps good (Svc_GetAllTrustDeviceProfile E M d0)"
  "keeps good (Svc_GetAccessControlProfile E M e0 e1)"
  "keeps good (Svc_GetAllAccessControlProfile E M f0)"
  "keeps good (Svc_GetAllAclIncludeLnnAcl E M g0)"
  "keeps good (Svc_DeleteAccessControlProfile E M h0)"
  "keeps good (Svc_PutSessionKey E M i0 i1 i2)"
  "keeps good (Svc_GetSessionKey E M j0 j1 j2)"
  "keeps good (Svc_GetSessionKeyBySessionKeyId E M k0 k1)"
  "keeps good (Svc_UpdateSessionKey E M l0 l1 l2)"
  "keeps good (Svc_DeleteSessionKey E M m0 m1)"
  "keeps good (Svc_GetDeviceProfile E M n0 n1)"
  "keeps good (Svc_GetServiceProfile E M o0 o1 o2)"
  "keeps good (Svc_GetCharacteristicProfile E M p0 p1 p2 p3)"
  "keeps good (Svc_DeleteServiceProfile E M q0 q1 q2 q3)"
  "keeps good (Svc_DeleteCharacteristicProfile E M r0 r1 r2 r3 r4)"
  "keeps good (Svc_SubscribeDeviceProfile E M s0)"
  "keeps good (Svc_UnSubscribeDeviceProfile E M t0)"
  "keeps good (Svc_SyncDeviceProfile E M u0 u1)"
  "keeps good (Svc_SyncStaticProfile E M v0 v1)"
  "keeps good (Svc_SendSubscribeInfos E M w0)"
  "keeps good (Svc_PutAllTrustedDevices E M x0)"
  "keeps good (Svc_GetLocalServiceInfoByBundleAndPinType E M y0 y1 y2)"
  "keeps good (Svc_DeleteLocalServiceInfo E M z0 z1)"
  "keeps good (Svc_PutDeviceProfileBatch E M aa0)"
  "keeps good (Svc_GetDeviceProfiles E M bb0 bb1)"
  "keeps good (Svc_PutProductInfoBatch E M cc0)"
  "keeps good (Svc_PutDeviceIconInfoBatch E M dd0)"
  "keeps good (Svc_GetDeviceIconInfos E M ee0 ee1)"
  "keeps good (Svc_DeleteDeviceProfileBatch E M ff0)"
  "keeps good (Svc_GetBusinessEvent E M gg0)"
  unfolding svc_defs
  by (auto intro!: keeps_if keeps_on_managers)

lemma service_infos_keep:
  "keeps good (Svc_PutServiceInfo E M info)" "keeps good (Svc_DeleteServiceInfo E M u)"
  "keeps good (Svc_SubscribeAllServiceInfo E M i l)"
  "keeps good (Svc_GetAllServiceInfoList E M x)" "keeps good (Svc_GetServiceInfosByUserInfo E M u x)"
  unfolding svc_defs
  by (rule keeps_if(1), rule keepsI,
      simp add: Let_def case_prod_beta keepsD [OF keeps_on_managers] keepsD [OF keeps_on_managers, of _ "mg_GetAllServiceInfoList M x"])+

lemmas all_requests_keep = requests_keep service_infos_keep callbacks_keep callbacks_drop_keep puts_keep notifiers_keep
  char_batch_keeps

end

sublocale service_frame \<subseteq> steady: steady_service "service_ops E M" good
  for E :: "'j ServiceEnv" and M :: "'m Managers"
  by unfold_locales (simp_all add: service_ops_def all_requests_keep)

section \<open>Reachable states\<close>

definition service_inv :: "'m DpService \<Rightarrow> bool" where
  "service_inv s \<longleftrightarrow>
     omap_wf (sn_dpInitedCallbackMap s) \<and> omap_wf (sn_pinCodeCallbackMap s) \<and> omap_wf (sn_businessCallbackMap s) \<and>
     length (sn_dpInitedCallbackMap s) \<le> MAX_CALLBACK_LEN + 1 \<and>
     length (sn_pinCodeCallbackMap s) \<le> MAX_CALLBACK_LEN + 1 \<and>
     length (sn_businessCallbackMap s) \<le> MAX_CALLBACK_LEN + 1 \<and>
     omap_wf (sn_dynamicProfileMap s) \<and> omap_wf (sn_switchProfileMap s) \<and>
     (sn_isInited s \<longrightarrow> sn_dynamicProfileMap s = [] \<and> sn_switchProfileMap s = []) \<and>
     (sn_unloadTask s \<longrightarrow> sn_unloadHandler s)"

lemma service_inv_cong:
  "service_inv (s\<lparr>sn_managers := m\<rparr>) = service_inv s" "service_inv (s\<lparr>sn_permission := pm\<rparr>) = service_inv s"
  "service_inv (sn_event e s) = service_inv s" "service_inv (s\<lparr>sn_runningIpcCount := n\<rparr>) = service_inv s"
  "service_inv (s\<lparr>sn_depSaIds := ids\<rparr>) = service_inv s" "service_inv (s\<lparr>sn_isStopped := b\<rparr>) = service_inv s"
  by (simp_all add: service_inv_def sn_event_def)

lemma omap_wf_fold_key: "omap_wf m \<Longrightarrow> omap_wf (fold (\<lambda>x. omap_put (key x) x) xs m)"
  by (induction xs arbitrary: m) (auto intro: omap_wf_put)

interpretation inv: service_frame service_inv "TYPE('j ServiceEnv)"
proof
  fix s :: "'m DpService" and i l bi bk
  assume s: "service_inv s"
  show "length (sn_dpInitedCallbackMap s) \<le> MAX_CALLBACK_LEN \<Longrightarrow>
      service_inv (s\<lparr>sn_dpInitedCallbackMap := omap_put i l (sn_dpInitedCallbackMap s)\<rparr>)"
    using s length_omap_put [of i l "sn_dpInitedCallbackMap s"] by (simp add: service_inv_def omap_wf_put)
  show "length (sn_pinCodeCallbackMap s) \<le> MAX_CALLBACK_LEN \<Longrightarrow>
      service_inv (s\<lparr>sn_pinCodeCallbackMap := omap_put bi l (sn_pinCodeCallbackMap s)\<rparr>)"
    using s length_omap_put [of bi l "sn_pinCodeCallbackMap s"] by (simp add: service_inv_def omap_wf_put)
  show "length (sn_businessCallbackMap s) \<le> MAX_CALLBACK_LEN \<Longrightarrow>
      service_inv (s\<lparr>sn_businessCallbackMap := omap_put bk l (sn_businessCallbackMap s)\<rparr>)"
    using s length_omap_put [of bk l "sn_businessCallbackMap s"] by (simp add: service_inv_def omap_wf_put)
  show "service_inv (s\<lparr>sn_dpInitedCallbackMap := AList.delete i (sn_dpInitedCallbackMap s)\<rparr>)"
    using s umap_delete_length [of i "sn_dpInitedCallbackMap s"] by (auto simp: service_inv_def omap_wf_delete)
  show "service_inv (s\<lparr>sn_pinCodeCallbackMap := AList.delete bi (sn_pinCodeCallbackMap s)\<rparr>)"
    using s umap_delete_length [of bi "sn_pinCodeCallbackMap s"] by (auto simp: service_inv_def omap_wf_delete)
  show "service_inv (s\<lparr>sn_businessCallbackMap := AList.delete bk (sn_businessCallbackMap s)\<rparr>)"
    using s umap_delete_length [of bk "sn_businessCallbackMap s"] by (auto simp: service_inv_def omap_wf_delete)
  fix E :: "'j ServiceEnv" and M ps cs
  assume "\<not> sn_isInited s"
  with s show "service_inv (snd (AddSvrProfilesToCache E M ps s))" "service_inv (snd (AddCharProfilesToCache E M cs s))"
    by (auto simp: AddSvrProfilesToCache_def AddCharProfilesToCache_def service_inv_def omap_wf_fold omap_wf_fold_key
        Let_def split: sum.split prod.split)
qed (simp_all add: service_inv_cong)

text \<open>The count of running calls is a matter of \<open>OnRemoteRequest\<close> alone.\<close>

interpretation count: service_frame "\<lambda>s. sn_runningIpcCount s = n" "TYPE('j ServiceEnv)"
  for n
  by unfold_locales (auto simp: sn_event_def AddSvrProfilesToCache_def AddCharProfilesToCache_def Let_def
      split: sum.split prod.split)

lemma service_request_keeps:
  assumes "\<And>data reply s. snd (other code data reply s) = s" "service_inv s"
  shows "service_inv (snd (OnRemoteRequest P (service_ops E M) other code data reply s))"
proof -
  have "handler_keeps service_inv (OnRemoteRequest P (service_ops E M) other code)"
  proof (rule inv.steady.request_keeps)
    show "keeps service_inv (svc_ExitIdleState (service_ops E M))"
      by (rule keepsI) (simp add: service_ops_def ExitIdleState_def)
    show "handler_keeps service_inv (other code)" by (simp add: handler_keeps_def keeps_def assms(1))
    show "service_inv (svc_AddRunningIpcCount (service_ops E M) s) = service_inv s"
      "service_inv (svc_SubtractRunningIpcCount (service_ops E M) s) = service_inv s" for s
      by (simp_all add: service_ops_def Svc_AddRunningIpcCount_def Svc_SubtractRunningIpcCount_def service_inv_cong)
    show "service_inv (svc_DelayUnloadTask (service_ops E M) s) = service_inv s" for s
      by (auto simp: service_ops_def DelayUnloadTask_def service_inv_def)
  qed
  then show ?thesis unfolding handler_keeps_def by (blast intro: keepsD assms(2))
qed

text \<open>Start, stop and events keep it too.\<close>

lemma run_managers_inv: "service_inv (snd (on_managers f s)) = service_inv s"
  by (simp add: on_managers_def case_prod_beta service_inv_cong)

lemma service_init_inv: "service_inv (snd (Svc_Init E M s)) = service_inv s"
  by (simp add: Svc_Init_def Let_def case_prod_beta service_inv_cong run_managers_inv)

lemma save_loop_managers: "\<exists>m. snd (save_loop M es n s) = s\<lparr>sn_managers := m\<rparr>"
proof (induction n arbitrary: s)
  case 0
  have "s = s\<lparr>sn_managers := sn_managers s\<rparr>" by simp
  then show ?case by (metis save_loop.simps(1) snd_conv)
next
  case (Suc n)
  obtain ret m where 1: "on_managers (mg_SavePutTempCache M es) s = (ret, s\<lparr>sn_managers := m\<rparr>)"
    by (cases "mg_SavePutTempCache M es (sn_managers s)") (simp add: on_managers_def)
  obtain m' where "snd (save_loop M es n (s\<lparr>sn_managers := m\<rparr>)) = s\<lparr>sn_managers := m'\<rparr>"
    using Suc.IH [of "s\<lparr>sn_managers := m\<rparr>"] by auto
  with 1 show ?case by auto
qed

lemma save_dynamic_state:
  "\<exists>m. snd (SaveDynamicProfilesFromTempCache M s) = s\<lparr>sn_managers := m, sn_dynamicProfileMap := []\<rparr>"
proof -
  define es where "es = (if GetDynamicProfilesFromTempCache s [] = [] \<and> mg_IsFirstInitDB M (sn_managers s)
    then GetDynamicProfilesFromTempCache s (GetDynamicProfilesFromTempCache s []) else GetDynamicProfilesFromTempCache s [])"
  obtain b s1 where 1: "save_loop M es WRTE_CACHE_PROFILE_RETRY_TIMES s = (b, s1)" by fastforce
  then have "snd (SaveDynamicProfilesFromTempCache M s) =
      (if \<not> b then s1\<lparr>sn_managers := mg_ResetFirst M (sn_managers s1)\<rparr> else s1)\<lparr>sn_dynamicProfileMap := []\<rparr>"
    unfolding SaveDynamicProfilesFromTempCache_def Let_def es_def [symmetric] by simp
  moreover obtain m where "s1 = s\<lparr>sn_managers := m\<rparr>"
    using save_loop_managers [of M es WRTE_CACHE_PROFILE_RETRY_TIMES s] 1 by auto
  ultimately show ?thesis by (cases b) auto
qed

lemma save_switch_state:
  "\<exists>m. snd (SaveSwitchProfilesFromTempCache M s) = s\<lparr>sn_switchProfileMap := [], sn_managers := m\<rparr>"
proof (cases "sn_switchProfileMap s = []")
  case True
  then have "snd (SaveSwitchProfilesFromTempCache M s) = s\<lparr>sn_switchProfileMap := [], sn_managers := sn_managers s\<rparr>"
    by (cases s) (simp add: SaveSwitchProfilesFromTempCache_def)
  then show ?thesis by blast
next
  case False
  then show ?thesis by (auto simp: SaveSwitchProfilesFromTempCache_def on_managers_def Let_def case_prod_beta)
qed

lemma inited_notify_inv: "service_inv (snd (NotifyDeviceProfileInited E s)) = service_inv s"
  unfolding NotifyDeviceProfileInited_def snd_conv
  by (rule inv.fold_good) (simp add: service_inv_cong split: prod.split)

lemma cleared_inv:
  "service_inv s \<Longrightarrow> service_inv (s\<lparr>sn_dynamicProfileMap := [], sn_switchProfileMap := []\<rparr>)"
  "service_inv s \<Longrightarrow> service_inv (s\<lparr>sn_isInited := False\<rparr>)"
  "service_inv s \<Longrightarrow> service_inv (s\<lparr>sn_unloadTask := False, sn_unloadHandler := False\<rparr>)"
  by (auto simp: service_inv_def omap_wf_def)

lemma post_init_next_inv:
  assumes "service_inv s"
  shows "service_inv (snd (PostInitNext E M s))"
proof -
  define s1 where "s1 = snd (on_managers (run_inits
            [(mg_SettingsDataManager_Init M, Some DP_SETTINGSDATA_MANAGER_INIT_FAIL),
             (mg_ContentSensorManager_Init M, Some DP_CONTENT_SENSOR_MANAGER_INIT_FAIL),
             (mg_BusinessEventManager_Init M, Some DP_BUSINESS_EVENT_MANAGER_INIT_FAIL)]) s)"
  have 1: "service_inv s1" using assms by (simp add: s1_def run_managers_inv)
  obtain m where 2: "snd (SaveSwitchProfilesFromTempCache M s1) = s1\<lparr>sn_switchProfileMap := [], sn_managers := m\<rparr>"
    using save_switch_state [of M s1] by blast
  obtain m' where 3: "snd (SaveDynamicProfilesFromTempCache M (s1\<lparr>sn_switchProfileMap := [], sn_managers := m\<rparr>)) =
      s1\<lparr>sn_switchProfileMap := [], sn_managers := m, sn_managers := m', sn_dynamicProfileMap := []\<rparr>"
    using save_dynamic_state [of M "s1\<lparr>sn_switchProfileMap := [], sn_managers := m\<rparr>"] by blast
  have 4: "service_inv (s1\<lparr>sn_switchProfileMap := [], sn_managers := m', sn_dynamicProfileMap := [], sn_isInited := True\<rparr>)"
    using 1 by (simp add: service_inv_def omap_wf_def)
  show ?thesis
    using 1 4 by (simp add: PostInitNext_def case_prod_beta Let_def s1_def [symmetric] 2 3 inited_notify_inv)
qed

lemma post_init_inv: "service_inv s \<Longrightarrow> service_inv (snd (PostInit E M s))"
  by (simp add: PostInit_def case_prod_beta Let_def run_managers_inv post_init_next_inv)

lemma uninit_inv:
  assumes "service_inv s"
  shows "service_inv (snd (Svc_UnInit M s))"
proof -
  have 1: "service_inv (snd (UnInitNext M s)) = service_inv s" for s
    by (simp add: UnInitNext_def Permission_UnInit_def case_prod_beta Let_def run_managers_inv service_inv_cong)
  have 2: "service_inv s \<Longrightarrow> service_inv (snd (DestroyUnloadHandler s))" for s
    by (simp add: DestroyUnloadHandler_def cleared_inv(3))
  show ?thesis
    using cleared_inv(2) [OF assms]
    by (simp add: Svc_UnInit_def case_prod_beta Let_def run_managers_inv 1 2 ClearProfileCache_def cleared_inv(1))
qed

lemma unload_inv:
  "service_inv s \<Longrightarrow> service_inv (snd (CreateUnloadHandler E s))" "service_inv s \<Longrightarrow> service_inv (DelayUnloadTask s)"
  by (auto simp: CreateUnloadHandler_def DelayUnloadTask_def Let_def service_inv_def)

lemma start_inv: "service_inv s \<Longrightarrow> service_inv (OnStart E M s)"
  by (simp add: OnStart_def case_prod_beta Let_def service_init_inv service_inv_cong unload_inv)

lemma events_inv:
  assumes "service_inv s"
  shows "service_inv (OnStop M s)" "service_inv (OnAddSystemAbility E M i s)"
    "service_inv (AccountCommonEventCallback E M u t s)"
proof -
  show "service_inv (OnStop M s)" using assms by (simp add: OnStop_def uninit_inv service_inv_cong)
  show "service_inv (OnAddSystemAbility E M i s)"
    using assms by (simp add: OnAddSystemAbility_def Let_def post_init_inv service_inv_cong)
  show "service_inv (AccountCommonEventCallback E M u t s)"
    using assms by (simp add: AccountCommonEventCallback_def Let_def run_managers_inv service_inv_cong)
qed

definition DpService_new :: "int list \<Rightarrow> 'm \<Rightarrow> 'm DpService" where
  "DpService_new deps m = \<lparr>sn_isInited = False, sn_isStopped = False, sn_runningIpcCount = 0,
     sn_unloadHandler = False, sn_unloadTask = False, sn_depSaIds = deps, sn_dynamicProfileMap = [],
     sn_switchProfileMap = [], sn_dpInitedCallbackMap = [], sn_pinCodeCallbackMap = [],
     sn_businessCallbackMap = [], sn_permission = PermissionManager_new, sn_events = [], sn_managers = m\<rparr>"

text \<open>What can happen to the service. A request comes in any environment, with any code and parcel;
  \<open>other\<close>, the handler of the framework, does not touch the service.\<close>

inductive service_step :: "'p Parcel \<Rightarrow> 'j ServiceEnv set \<Rightarrow> 'm Managers \<Rightarrow> 'm DpService \<Rightarrow> 'm DpService \<Rightarrow> bool"
  for P :: "'p Parcel" and envs :: "'j ServiceEnv set" and M :: "'m Managers" where
  request: "E \<in> envs \<Longrightarrow> (\<And>data reply s. snd (other code data reply s) = s) \<Longrightarrow>
     service_step P envs M s (snd (OnRemoteRequest P (service_ops E M) other code data reply s))"
| start: "E \<in> envs \<Longrightarrow> service_step P envs M s (OnStart E M s)"
| stop: "service_step P envs M s (OnStop M s)"
| add_ability: "E \<in> envs \<Longrightarrow> service_step P envs M s (OnAddSystemAbility E M i s)"
| account: "E \<in> envs \<Longrightarrow> service_step P envs M s (AccountCommonEventCallback E M u t s)"

lemma request_count:
  assumes "\<And>data reply s. snd (other code data reply s) = s"
    and "- (2 ^ 31) \<le> sn_runningIpcCount s" "sn_runningIpcCount s < 2 ^ 31 - 1"
  shows "sn_runningIpcCount (snd (OnRemoteRequest P (service_ops E M) other code data reply s)) = sn_runningIpcCount s"
proof -
  define n where "n = sn_runningIpcCount s + 1"
  have n: "to_i32 n = n" "to_i32 (n - 1) = sn_runningIpcCount s"
    using assms(2,3) by (auto simp: n_def to_i32_small)
  let ?s1 = "DelayUnloadTask (Svc_AddRunningIpcCount s)"
  have in1: "sn_runningIpcCount ?s1 = n" by (simp add: DelayUnloadTask_def Svc_AddRunningIpcCount_def n n_def [symmetric])
  have "handler_keeps (\<lambda>s. sn_runningIpcCount s = n) (other code)"
    by (simp add: handler_keeps_def keeps_def assms(1))
  note count.steady.dispatch_keeps [where E = E and M = M and P = P and other = other and code = code, OF this]
  with in1 have acl: "sn_runningIpcCount (snd (NotifyAclEventInner P (service_ops E M) other code d r ?s1)) = n"
    and ev: "sn_runningIpcCount (snd (NotifyEventInner P (service_ops E M) other code d r ?s1)) = n" for d r
    unfolding handler_keeps_def by (blast dest: keepsD)+
  have ops: "svc_IsStopped (service_ops E M) = sn_isStopped" "svc_ExitIdleState (service_ops E M) = ExitIdleState E"
    "svc_AddRunningIpcCount (service_ops E M) = Svc_AddRunningIpcCount"
    "svc_SubtractRunningIpcCount (service_ops E M) = Svc_SubtractRunningIpcCount"
    "svc_DelayUnloadTask (service_ops E M) = DelayUnloadTask" "svc_IsInited (service_ops E M) = sn_isInited"
    by (simp_all add: service_ops_def)
  have sub: "sn_runningIpcCount t = n \<Longrightarrow> sn_runningIpcCount (Svc_SubtractRunningIpcCount t) = sn_runningIpcCount s" for t
    by (simp add: Svc_SubtractRunningIpcCount_def n)
  show ?thesis
    by (simp add: OnRemoteRequest_def ops ExitIdleState_def case_prod_beta Let_def sub in1 acl ev)
qed

lemma on_managers_count: "sn_runningIpcCount (snd (on_managers f s)) = sn_runningIpcCount s"
  by (simp add: on_managers_def case_prod_beta)

lemma save_switch_count: "sn_runningIpcCount (snd (SaveSwitchProfilesFromTempCache M s)) = sn_runningIpcCount s"
  using save_switch_state [of M s] by auto

lemma save_dynamic_count: "sn_runningIpcCount (snd (SaveDynamicProfilesFromTempCache M s)) = sn_runningIpcCount s"
  using save_dynamic_state [of M s] by auto

lemma notify_inited_count: "sn_runningIpcCount (snd (NotifyDeviceProfileInited E s)) = sn_runningIpcCount s"
proof -
  have "sn_runningIpcCount (fold (\<lambda>(saId, l) s. if \<not> se_cast E l then s else sn_event (OnDpInited l) s) xs s) =
      sn_runningIpcCount s" for xs
    by (induction xs arbitrary: s) (auto simp: sn_event_def split: prod.split)
  then show ?thesis by (simp add: NotifyDeviceProfileInited_def)
qed

lemma post_init_next_count: "sn_runningIpcCount (snd (PostInitNext E M s)) = sn_runningIpcCount s"
  by (simp add: PostInitNext_def case_prod_beta Let_def on_managers_count notify_inited_count save_dynamic_count
      save_switch_count)

lemma post_init_count: "sn_runningIpcCount (snd (PostInit E M s)) = sn_runningIpcCount s"
  by (simp add: PostInit_def case_prod_beta Let_def on_managers_count post_init_next_count)

lemma other_steps_count:
  "sn_runningIpcCount (OnStart E M s) = sn_runningIpcCount s" "sn_runningIpcCount (OnStop M s) = sn_runningIpcCount s"
  "sn_runningIpcCount (OnAddSystemAbility E M i s) = sn_runningIpcCount s"
  "sn_runningIpcCount (AccountCommonEventCallback E M u t s) = sn_runningIpcCount s"
proof -
  show "sn_runningIpcCount (OnStart E M s) = sn_runningIpcCount s"
    by (simp add: OnStart_def Svc_Init_def CreateUnloadHandler_def DelayUnloadTask_def sn_event_def on_managers_count
        case_prod_beta Let_def)
  show "sn_runningIpcCount (OnStop M s) = sn_runningIpcCount s"
    by (simp add: OnStop_def Svc_UnInit_def UnInitNext_def Permission_UnInit_def DestroyUnloadHandler_def
        ClearProfileCache_def on_managers_count case_prod_beta Let_def)
  show "sn_runningIpcCount (OnAddSystemAbility E M i s) = sn_runningIpcCount s"
    by (simp add: OnAddSystemAbility_def Let_def post_init_count sn_event_def)
  show "sn_runningIpcCount (AccountCommonEventCallback E M u t s) = sn_runningIpcCount s"
    by (simp add: AccountCommonEventCallback_def Let_def on_managers_count)
qed

lemma service_step_inv:
  assumes "service_step P envs M s s'" "service_inv s \<and> sn_runningIpcCount s = 0"
  shows "service_inv s' \<and> sn_runningIpcCount s' = 0"
  using assms
  by (induction rule: service_step.induct)
    (simp_all add: service_request_keeps request_count start_inv events_inv other_steps_count)

lemma service_inv_new: "service_inv (DpService_new deps m)"
  by (simp add: service_inv_def DpService_new_def omap_wf_def)

section \<open>Profiles that wait\<close>

text \<open>What a data store does with the entries handed over; a failed attempt changes nothing.\<close>

definition saves :: "'m Managers \<Rightarrow> ('m \<Rightarrow> string \<Rightarrow> string option) \<Rightarrow> bool" where
  "saves M db \<longleftrightarrow> (\<forall>es m. omap_wf es \<longrightarrow> db (snd (mg_SavePutTempCache M es m)) =
     (if fst (mg_SavePutTempCache M es m) = DP_SUCCESS then db m ++ map_of es else db m))"

definition attempt :: "'m Managers \<Rightarrow> (string, string) omap \<Rightarrow> 'm \<Rightarrow> 'm" where
  "attempt M es m = snd (mg_SavePutTempCache M es m)"

lemma save_loop_attempts:
  assumes "saves M db" "omap_wf es"
  shows "save_loop M es n s = (b, s') \<Longrightarrow>
     (b \<longleftrightarrow> (\<exists>k<n. fst (mg_SavePutTempCache M es ((attempt M es ^^ k) (sn_managers s))) = DP_SUCCESS)) \<and>
     db (sn_managers s') = (if b then db (sn_managers s) ++ map_of es else db (sn_managers s))"
proof (induction n arbitrary: s)
  case 0
  then show ?case by simp
next
  case (Suc n)
  obtain ret m where 1: "mg_SavePutTempCache M es (sn_managers s) = (ret, m)" by fastforce
  then have 2: "db m = (if ret = DP_SUCCESS then db (sn_managers s) ++ map_of es else db (sn_managers s))"
    using assms unfolding saves_def by (metis fst_conv snd_conv)
  show ?case
  proof (cases "ret = DP_SUCCESS")
    case True
    have "fst (mg_SavePutTempCache M es ((attempt M es ^^ 0) (sn_managers s))) = DP_SUCCESS" using 1 True by simp
    then have "\<exists>k<Suc n. fst (mg_SavePutTempCache M es ((attempt M es ^^ k) (sn_managers s))) = DP_SUCCESS" by blast
    with Suc.prems 1 2 True show ?thesis by (auto simp: on_managers_def)
  next
    case False
    with Suc.prems 1 have loop: "save_loop M es n (s\<lparr>sn_managers := m\<rparr>) = (b, s')" by (simp add: on_managers_def)
    have m: "m = attempt M es (sn_managers s)" using 1 by (simp add: attempt_def)
    have "(\<exists>k<Suc n. fst (mg_SavePutTempCache M es ((attempt M es ^^ k) (sn_managers s))) = DP_SUCCESS) \<longleftrightarrow>
        (\<exists>k<n. fst (mg_SavePutTempCache M es ((attempt M es ^^ k) m)) = DP_SUCCESS)"
      using 1 False unfolding m by (simp add: Ex_less_Suc2 funpow_swap1)
    with Suc.IH [OF loop] 2 False show ?thesis by (cases b) auto
  qed
qed

lemma svr_entries_single:
  "svr_entries E M m [p] [] = Inr es \<Longrightarrow> es = snd (ServiceProfileToEntries p [] False)"
  by (simp split: if_splits)

lemma map_of_fold_put:
  "omap_wf kvs \<Longrightarrow> map_of (fold (\<lambda>(k, v). omap_put k v) kvs m) = map_of m ++ map_of kvs"
proof (induction kvs arbitrary: m)
  case Nil
  then show ?case by simp
next
  case (Cons kv kvs)
  obtain k v where kv: "kv = (k, v)" by fastforce
  from Cons.prems have wf: "omap_wf kvs" and new: "k \<notin> fst ` set kvs"
    by (auto simp: omap_wf_def kv)
  then have "map_of kvs k = None" by (simp add: map_of_eq_None_iff)
  then show ?case using Cons.IH [OF wf] by (auto simp: kv map_add_def fun_eq_iff split: option.split)
qed

end
