(* ===== verification/ServiceProps.thy ===== *)
theory ServiceProps
  imports DpServiceLaws MarshallingLaws
begin

text \<open>
  What the service promises: who is refused, the states it can reach, what becomes of profiles put before the data
  service is ready, who is told of a business event.
\<close>

section \<open>Managers for the witnesses\<close>

text \<open>Managers over a data store that may fail once before it saves; everything else succeeds.\<close>

definition demo_managers :: "(nat \<times> (string, string) omap) Managers" where
  "demo_managers = \<lparr>
     mg_PutAccessControlProfile = (\<lambda>_ m. (DP_SUCCESS, m)),
     mg_UpdateAccessControlProfile = (\<lambda>_ m. (DP_SUCCESS, m)),
     mg_GetTrustDeviceProfile = (\<lambda>_ x m. ((DP_SUCCESS, x), m)),
     mg_GetAllTrustDeviceProfile = (\<lambda>x m. ((DP_SUCCESS, x), m)),
     mg_GetAccessControlProfile = (\<lambda>_ x m. ((DP_SUCCESS, x), m)),
     mg_GetAllAccessControlProfile = (\<lambda>x m. ((DP_SUCCESS, x), m)),
     mg_GetAllAclIncludeLnnAcl = (\<lambda>x m. ((DP_SUCCESS, x), m)),
     mg_DeleteAccessControlProfile = (\<lambda>_ m. (DP_SUCCESS, m)),
     mg_PutSessionKey = (\<lambda>_ _ x m. ((DP_SUCCESS, x), m)),
     mg_GetSessionKey = (\<lambda>_ _ x m. ((DP_SUCCESS, x), m)),
     mg_GetSessionKeyBySessionKeyId = (\<lambda>_ x m. ((DP_SUCCESS, x), m)),
     mg_UpdateSessionKey = (\<lambda>_ _ _ m. (DP_SUCCESS, m)),
     mg_DeleteSessionKey = (\<lambda>_ _ m. (DP_SUCCESS, m)),
     mg_PutServiceProfile = (\<lambda>_ m. (DP_SUCCESS, m)),
     mg_PutServiceProfileBatch = (\<lambda>_ m. (DP_SUCCESS, m)),
     mg_PutCharacteristicProfile = (\<lambda>_ m. (DP_SUCCESS, m)),
     mg_PutCharacteristicProfileBatch = (\<lambda>_ m. (DP_SUCCESS, m)),
     mg_GetDeviceProfile = (\<lambda>_ x m. ((DP_SUCCESS, x), m)),
     mg_GetServiceProfile = (\<lambda>_ _ x m. ((DP_SUCCESS, x), m)),
     mg_GetCharacteristicProfile = (\<lambda>_ _ _ x m. ((DP_SUCCESS, x), m)),
     mg_DeleteServiceProfile = (\<lambda>_ _ _ _ m. (DP_SUCCESS, m)),
     mg_DeleteCharacteristicProfile = (\<lambda>_ _ _ _ _ m. (DP_SUCCESS, m)),
     mg_SubscribeDeviceProfile = (\<lambda>_ m. (DP_SUCCESS, m)),
     mg_UnSubscribeDeviceProfile = (\<lambda>_ m. (DP_SUCCESS, m)),
     mg_SyncDeviceProfile = (\<lambda>_ _ m. (DP_SUCCESS, m)),
     mg_SyncStaticProfile = (\<lambda>_ _ m. (DP_SUCCESS, m)),
     mg_SendSubscribeInfos = (\<lambda>_ m. (DP_SUCCESS, m)),
     mg_PutAllTrustedDevices = (\<lambda>_ m. (DP_SUCCESS, m)),
     mg_PutLocalServiceInfo = (\<lambda>_ m. (DP_SUCCESS, m)),
     mg_UpdateLocalServiceInfo = (\<lambda>_ m. (DP_SUCCESS, m)),
     mg_GetLocalServiceInfoByBundleAndPinType = (\<lambda>_ _ x m. ((DP_SUCCESS, x), m)),
     mg_DeleteLocalServiceInfo = (\<lambda>_ _ m. (DP_SUCCESS, m)),
     mg_PutDeviceProfileBatch = (\<lambda>_ m. (DP_SUCCESS, m)),
     mg_GetDeviceProfiles = (\<lambda>_ x m. ((DP_SUCCESS, x), m)),
     mg_PutProductInfoBatch = (\<lambda>_ m. (DP_SUCCESS, m)),
     mg_PutDeviceIconInfoBatch = (\<lambda>_ m. (DP_SUCCESS, m)),
     mg_GetDeviceIconInfos = (\<lambda>_ x m. ((DP_SUCCESS, x), m)),
     mg_DeleteDeviceProfileBatch = (\<lambda>_ m. (DP_SUCCESS, m)),
     mg_PutBusinessEvent = (\<lambda>_ m. (DP_SUCCESS, m)),
     mg_GetBusinessEvent = (\<lambda>x m. ((DP_SUCCESS, x), m)),
     mg_PutServiceInfo = (\<lambda>_ m. (DP_SUCCESS, m)),
     mg_DeleteServiceInfo = (\<lambda>_ m. (DP_SUCCESS, m)),
     mg_GetAllServiceInfoList = (\<lambda>x m. ((DP_SUCCESS, x), m)),
     mg_GetServiceInfosByUserInfo = (\<lambda>_ x m. ((DP_SUCCESS, x), m)),
     mg_SubscribeAllServiceInfo = (\<lambda>_ _ m. (DP_SUCCESS, m)),
     mg_Switch_PutCharacteristicProfile = (\<lambda>_ m. (DP_SUCCESS, m)),
     mg_Switch_PutCharacteristicProfileBatch = (\<lambda>_ m. (DP_SUCCESS, m)),
     mg_Switch_GetCharacteristicProfile = (\<lambda>_ _ _ x m. ((DP_SUCCESS, x), m)),
     mg_Static_GetCharacteristicProfile = (\<lambda>_ _ _ x m. ((DP_SUCCESS, x), m)),
     mg_IsServiceProfileExist = (\<lambda>_ _. False),
     mg_IsCharProfileExist = (\<lambda>_ _. False),
     mg_IsDeviceOnline = (\<lambda>_. False),
     mg_IsFirstInitDB = (\<lambda>_. False),
     mg_SavePutTempCache = (\<lambda>es m. case m of (0, db) \<Rightarrow> (DP_SUCCESS, (0, fold (\<lambda>(k, v). omap_put k v) es db)) | (Suc _, db) \<Rightarrow> (DP_PUT_KV_DB_FAIL, (0, db))),
     mg_ResetFirst = (\<lambda>m. m),
     mg_DeleteRemovedUserData = (\<lambda>_ m. (DP_SUCCESS, m)),
     mg_SetCurrentForegroundUserID = (\<lambda>_ m. m),
     mg_EventHandlerFactory_Init = (\<lambda>m. m),
     mg_SubscribeProfileManager_Init = (\<lambda>m. m),
     mg_TrustProfileManager_Init = (\<lambda>m. (DP_SUCCESS, m)),
     mg_ProfileDataManager_Init = (\<lambda>m. (DP_SUCCESS, m)),
     mg_DMAdapter_Init = (\<lambda>m. (DP_SUCCESS, m)),
     mg_SwitchProfileManager_Init = (\<lambda>m. (DP_SUCCESS, m)),
     mg_DeviceProfileManager_Init = (\<lambda>m. (DP_SUCCESS, m)),
     mg_StaticProfileManager_Init = (\<lambda>m. (DP_SUCCESS, m)),
     mg_ProfileCache_Init = (\<lambda>m. (DP_SUCCESS, m)),
     mg_StaticCapabilityCollector_Init = (\<lambda>m. (DP_SUCCESS, m)),
     mg_LocalServiceInfoManager_Init = (\<lambda>m. (DP_SUCCESS, m)),
     mg_MultiUserManager_Init = (\<lambda>m. (DP_SUCCESS, m)),
     mg_ServiceInfoManager_Init = (\<lambda>m. (DP_SUCCESS, m)),
     mg_SettingsDataManager_Init = (\<lambda>m. (DP_SUCCESS, m)),
     mg_ContentSensorManager_Init = (\<lambda>m. (DP_SUCCESS, m)),
     mg_BusinessEventManager_Init = (\<lambda>m. (DP_SUCCESS, m)),
     mg_TrustProfileManager_UnInit = (\<lambda>m. (DP_SUCCESS, m)),
     mg_ProfileDataManager_UnInit = (\<lambda>m. (DP_SUCCESS, m)),
     mg_SwitchProfileManager_UnInit = (\<lambda>m. (DP_SUCCESS, m)),
     mg_DeviceProfileManager_UnInit = (\<lambda>m. (DP_SUCCESS, m)),
     mg_StaticProfileManager_UnInit = (\<lambda>m. (DP_SUCCESS, m)),
     mg_BusinessEventManager_UnInit = (\<lambda>m. (DP_SUCCESS, m)),
     mg_ProfileCache_UnInit = (\<lambda>m. (DP_SUCCESS, m)),
     mg_SubscribeProfileManager_UnInit = (\<lambda>m. (DP_SUCCESS, m)),
     mg_StaticCapabilityCollector_UnInit = (\<lambda>m. (DP_SUCCESS, m)),
     mg_SettingsDataManager_UnInit = (\<lambda>m. (DP_SUCCESS, m)),
     mg_ContentSensorManager_UnInit = (\<lambda>m. (DP_SUCCESS, m)),
     mg_DMAdapter_UnInit = (\<lambda>m. (DP_SUCCESS, m)),
     mg_EventHandlerFactory_UnInit = (\<lambda>m. (DP_SUCCESS, m)),
     mg_ServiceInfoManager_UnInit = (\<lambda>m. (DP_SUCCESS, m))\<rparr>"

definition demo_env :: "nat ServiceEnv" where
  "demo_env = \<lparr>se_permission = demo_caller ''device_manager'', se_localUdid = ''udid'', se_cast = (\<lambda>_. True),
     se_eventHandler = True, se_PostTask = True, se_CancelIdle = True, se_Publish = True, se_accountSaId = 200,
     se_USER_SWITCHED = ''switched'', se_USER_REMOVED = ''removed''\<rparr>"

lemma demo_env_permitted [simp]: "CheckCallerPermission (se_permission demo_env)"
  by (simp add: demo_env_def CheckCallerPermission_def demo_caller_def)

section \<open>Refusals\<close>

text \<open>C28: A caller without the permissions of the platform that the table does not list gets
  \<open>DP_PERMISSION_DENIED\<close> from every request; values are returned as they came, no manager is called and
  nothing of the service changes. One request asks for no permission: \<open>SendSubscribeInfos\<close> always reaches
  its manager.\<close>

theorem service_denied:
  assumes "\<not> CheckCallerPermission (se_permission E)" "\<not> CheckCallerSyncPermission (se_permission E)"
    and "\<And>name. \<not> fst (IsCallerTrust (se_permission E) name (sn_permission s))"
  shows
    "(\<forall>a0. Svc_PutAccessControlProfile E M a0 s = (DP_PERMISSION_DENIED, asked E PUT_ACCESS_CONTROL_PROFILE_name s)) \<and>
     (\<forall>a0. Svc_UpdateAccessControlProfile E M a0 s = (DP_PERMISSION_DENIED, asked E UPDATE_ACCESS_CONTROL_PROFILE_name s)) \<and>
     (\<forall>a0 a1. Svc_GetTrustDeviceProfile E M a0 a1 s = ((DP_PERMISSION_DENIED, a1), asked E GET_TRUST_DEVICE_PROFILE_name s)) \<and>
     (\<forall>a0. Svc_GetAllTrustDeviceProfile E M a0 s = ((DP_PERMISSION_DENIED, a0), asked E GET_ALL_TRUST_DEVICE_PROFILE_name s)) \<and>
     (\<forall>a0 a1. Svc_GetAccessControlProfile E M a0 a1 s = ((DP_PERMISSION_DENIED, a1), asked E GET_ACCESS_CONTROL_PROFILE_name s)) \<and>
     (\<forall>a0. Svc_GetAllAccessControlProfile E M a0 s = ((DP_PERMISSION_DENIED, a0), asked E GET_ALL_ACCESS_CONTROL_PROFILE_name s)) \<and>
     (\<forall>a0. Svc_GetAllAclIncludeLnnAcl E M a0 s = ((DP_PERMISSION_DENIED, a0), asked E GET_ALL_ACL_INCLUDE_LNN_ACL_name s)) \<and>
     (\<forall>a0. Svc_DeleteAccessControlProfile E M a0 s = (DP_PERMISSION_DENIED, asked E DELETE_ACCESS_CONTROL_PROFILE_name s)) \<and>
     (\<forall>a0 a1 a2. Svc_PutSessionKey E M a0 a1 a2 s = ((DP_PERMISSION_DENIED, a2), asked E PUT_SESSION_KEY_name s)) \<and>
     (\<forall>a0 a1 a2. Svc_GetSessionKey E M a0 a1 a2 s = ((DP_PERMISSION_DENIED, a2), asked E GET_SESSION_KEY_name s)) \<and>
     (\<forall>a0 a1. Svc_GetSessionKeyBySessionKeyId E M a0 a1 s = ((DP_PERMISSION_DENIED, a1), asked E GET_SESSION_KEY_name s)) \<and>
     (\<forall>a0 a1 a2. Svc_UpdateSessionKey E M a0 a1 a2 s = (DP_PERMISSION_DENIED, asked E UPDATE_SESSION_KEY_name s)) \<and>
     (\<forall>a0 a1. Svc_DeleteSessionKey E M a0 a1 s = (DP_PERMISSION_DENIED, asked E DELETE_SESSION_KEY_name s)) \<and>
     (\<forall>a0. Svc_PutServiceProfile E M a0 s = (DP_PERMISSION_DENIED, s)) \<and>
     (\<forall>a0. Svc_PutServiceProfileBatch E M a0 s = (DP_PERMISSION_DENIED, s)) \<and>
     (\<forall>a0. Svc_PutCharacteristicProfile E M a0 s = (DP_PERMISSION_DENIED, s)) \<and>
     (\<forall>a0. Svc_PutCharacteristicProfileBatch E M a0 s = (DP_PERMISSION_DENIED, s)) \<and>
     (\<forall>a0 a1. Svc_GetDeviceProfile E M a0 a1 s = ((DP_PERMISSION_DENIED, a1), s)) \<and>
     (\<forall>a0 a1 a2. Svc_GetServiceProfile E M a0 a1 a2 s = ((DP_PERMISSION_DENIED, a2), s)) \<and>
     (\<forall>a0 a1 a2 a3. Svc_GetCharacteristicProfile E M a0 a1 a2 a3 s = ((DP_PERMISSION_DENIED, a3), s)) \<and>
     (\<forall>a0 a1 a2 a3. Svc_DeleteServiceProfile E M a0 a1 a2 a3 s = (DP_PERMISSION_DENIED, s)) \<and>
     (\<forall>a0 a1 a2 a3 a4. Svc_DeleteCharacteristicProfile E M a0 a1 a2 a3 a4 s = (DP_PERMISSION_DENIED, s)) \<and>
     (\<forall>a0. Svc_SubscribeDeviceProfile E M a0 s = (DP_PERMISSION_DENIED, s)) \<and>
     (\<forall>a0. Svc_UnSubscribeDeviceProfile E M a0 s = (DP_PERMISSION_DENIED, s)) \<and>
     (\<forall>a0 a1. Svc_SyncDeviceProfile E M a0 a1 s = (DP_PERMISSION_DENIED, s)) \<and>
     (\<forall>a0 a1. Svc_SyncStaticProfile E M a0 a1 s = (DP_PERMISSION_DENIED, s)) \<and>
     (\<forall>a0 a1. Svc_SubscribeDeviceProfileInited E M a0 a1 s = (DP_PERMISSION_DENIED, s)) \<and>
     (\<forall>a0. Svc_UnSubscribeDeviceProfileInited E M a0 s = (DP_PERMISSION_DENIED, s)) \<and>
     (\<forall>a0. Svc_PutAllTrustedDevices E M a0 s = (DP_PERMISSION_DENIED, asked E PUT_ALL_TRUSTED_DEVICES_name s)) \<and>
     (\<forall>a0. Svc_PutLocalServiceInfo E M a0 s = (DP_PERMISSION_DENIED, s)) \<and>
     (\<forall>a0. Svc_UpdateLocalServiceInfo E M a0 s = (DP_PERMISSION_DENIED, s)) \<and>
     (\<forall>a0 a1 a2. Svc_GetLocalServiceInfoByBundleAndPinType E M a0 a1 a2 s = ((DP_PERMISSION_DENIED, a2), s)) \<and>
     (\<forall>a0 a1. Svc_DeleteLocalServiceInfo E M a0 a1 s = (DP_PERMISSION_DENIED, s)) \<and>
     (\<forall>a0. Svc_PutDeviceProfileBatch E M a0 s = (DP_PERMISSION_DENIED, s)) \<and>
     (\<forall>a0 a1. Svc_GetDeviceProfiles E M a0 a1 s = ((DP_PERMISSION_DENIED, a1), s)) \<and>
     (\<forall>a0 a1 a2. Svc_SubscribePinCodeInvalid E M a0 a1 a2 s = (DP_PERMISSION_DENIED, s)) \<and>
     (\<forall>a0 a1. Svc_UnSubscribePinCodeInvalid E M a0 a1 s = (DP_PERMISSION_DENIED, s)) \<and>
     (\<forall>a0. Svc_PutProductInfoBatch E M a0 s = (DP_PERMISSION_DENIED, s)) \<and>
     (\<forall>a0. Svc_PutDeviceIconInfoBatch E M a0 s = (DP_PERMISSION_DENIED, s)) \<and>
     (\<forall>a0 a1. Svc_GetDeviceIconInfos E M a0 a1 s = ((DP_PERMISSION_DENIED, a1), s)) \<and>
     (\<forall>a0. Svc_DeleteDeviceProfileBatch E M a0 s = (DP_PERMISSION_DENIED, s)) \<and>
     (\<forall>a0 a1 a2. Svc_RegisterBusinessCallback E M a0 a1 a2 s = (DP_PERMISSION_DENIED, s)) \<and>
     (\<forall>a0 a1. Svc_UnRegisterBusinessCallback E M a0 a1 s = (DP_PERMISSION_DENIED, s)) \<and>
     (\<forall>a0. Svc_PutBusinessEvent E M a0 s = (DP_PERMISSION_DENIED, s)) \<and>
     (\<forall>a0. Svc_GetBusinessEvent E M a0 s = ((DP_PERMISSION_DENIED, a0), s)) \<and>
     (\<forall>a0. Svc_PutServiceInfo E M a0 s = (DP_PERMISSION_DENIED, s)) \<and>
     (\<forall>a0. Svc_DeleteServiceInfo E M a0 s = (DP_PERMISSION_DENIED, s)) \<and>
     (\<forall>a0. Svc_GetAllServiceInfoList E M a0 s = ((DP_PERMISSION_DENIED, a0), s)) \<and>
     (\<forall>a0 a1. Svc_GetServiceInfosByUserInfo E M a0 a1 s = ((DP_PERMISSION_DENIED, a1), s)) \<and>
     (\<forall>a0 a1. Svc_SubscribeAllServiceInfo E M a0 a1 s = (DP_PERMISSION_DENIED, s)) \<and>
     (\<forall>listenerMap. Svc_SendSubscribeInfos E M listenerMap s =
        (let (ret, m) = mg_SendSubscribeInfos M listenerMap (sn_managers s) in (ret, s\<lparr>sn_managers := m\<rparr>)))"
  by (intro conjI allI; simp add: svc_defs denied assms on_managers_def PutCharacteristicProfileBatchPreprocess_def)

lemma service_denied_witness:
  "let E = demo_env\<lparr>se_permission := (demo_caller ''device_manager'')\<lparr>pe_isNative := False\<rparr>\<rparr>;
       s = DpService_new [] (0, [(''k'', ''v'')])
   in fst (Svc_PutServiceProfile E demo_managers ServiceProfile_default s) = DP_PERMISSION_DENIED \<and>
      fst (Svc_DeleteSessionKey E demo_managers 100 7 s) = DP_PERMISSION_DENIED"
proof -
  define E where "E = demo_env\<lparr>se_permission := (demo_caller ''device_manager'')\<lparr>pe_isNative := False\<rparr>\<rparr>"
  define s :: "(nat \<times> (string, string) omap) DpService" where "s = DpService_new [] (0, [(''k'', ''v'')])"
  have "\<not> CheckCallerPermission (se_permission E)" "\<not> CheckCallerSyncPermission (se_permission E)"
    "\<And>name. \<not> fst (IsCallerTrust (se_permission E) name (sn_permission s))"
    by (simp_all add: E_def CheckCallerPermission_def CheckCallerSyncPermission_def IsCallerTrust_iff)
  from service_denied [OF this, where M = demo_managers] show ?thesis
    unfolding Let_def E_def [symmetric] s_def [symmetric] by simp
qed

section \<open>Reachable states\<close>

text \<open>C27: In every state the service can reach, by requests of any code and content from any caller, by
  start, stop, the arrival of other services and account events, the maps of callbacks have distinct
  ordered keys and at most 1001 entries, no profile waits once the data is loaded, an unload task has a
  handler, and no ended request is still counted as running.\<close>

theorem service_invariant:
  assumes "(service_step P envs M)\<^sup>*\<^sup>* (DpService_new deps m) s"
  shows "service_inv s \<and> sn_runningIpcCount s = 0"
  using assms
proof (induction rule: rtranclp_induct)
  case base
  show ?case by (simp add: service_inv_new) (simp add: DpService_new_def)
next
  case (step s s')
  then show ?case using service_step_inv by blast
qed


lemma service_invariant_witness:
  "service_inv (OnStop demo_managers (OnStart demo_env demo_managers (DpService_new [300] (1, [])))) \<and>
   sn_runningIpcCount (OnStop demo_managers (OnStart demo_env demo_managers (DpService_new [300] (1, [])))) = 0"
proof (rule service_invariant [of list_parcel "{demo_env}" demo_managers])
  have "service_step list_parcel {demo_env} demo_managers s (OnStart demo_env demo_managers s)" for s
    by (rule service_step.start) simp
  then show "(service_step list_parcel {demo_env} demo_managers)\<^sup>*\<^sup>* (DpService_new [300] (1, []))
     (OnStop demo_managers (OnStart demo_env demo_managers (DpService_new [300] (1, []))))"
    by (meson converse_rtranclp_into_rtranclp r_into_rtranclp service_step.stop)
qed

section \<open>Business events\<close>

text \<open>The listeners of a key, in the order of the map.\<close>

definition listeners_of :: "string \<Rightarrow> (string \<times> string, nat) omap \<Rightarrow> nat list" where
  "listeners_of key m = map snd (filter (\<lambda>((saId, k), l). k = key) m)"

lemma notify_fold:
  "fold (\<lambda>(key, l) s. if snd key \<noteq> be_businessKey event then s else if \<not> se_cast E l then s
        else if \<not> se_eventHandler E \<or> \<not> se_PostTask E then s else sn_event (OnBusinessEvent l event) s) m s =
   s\<lparr>sn_events := sn_events s @ (if se_eventHandler E \<and> se_PostTask E
       then map (\<lambda>l. OnBusinessEvent l event) (filter (se_cast E) (listeners_of (be_businessKey event) m)) else [])\<rparr>"
  by (induction m arbitrary: s) (auto simp: listeners_of_def sn_event_def)

text \<open>A permitted business event that its manager stores is announced once to each listener registered
  for its key whose interface is right, in the order of the map and to no other; one that the manager
  refuses is announced to nobody and gives the code of the manager.\<close>

lemma business_request:
  assumes "CheckCallerPermission (se_permission E)" "se_eventHandler E" "se_PostTask E"
    and "mg_PutBusinessEvent M event (sn_managers s) = (ret, m)"
  shows "Svc_PutBusinessEvent E M event s = (ret, s\<lparr>sn_managers := m, sn_events := sn_events s @
     (if ret = DP_SUCCESS
      then map (\<lambda>l. OnBusinessEvent l event)
        (filter (se_cast E) (listeners_of (be_businessKey event) (sn_businessCallbackMap s)))
      else [])\<rparr>)"
  using assms
  by (cases s) (auto simp: Svc_PutBusinessEvent_def if_permitted_def on_managers_def NotifyBusinessEvent_def notify_fold)

section \<open>Profiles that wait\<close>

lemma notify_inited_events: "\<exists>es. snd (NotifyDeviceProfileInited E s) = s\<lparr>sn_events := es\<rparr>"
proof -
  have "\<exists>es. fold (\<lambda>(saId, l) s. if \<not> se_cast E l then s else sn_event (OnDpInited l) s) xs s = s\<lparr>sn_events := es\<rparr>" for xs
  proof (induction xs arbitrary: s)
    case Nil
    have "s = s\<lparr>sn_events := sn_events s\<rparr>" by simp
    then show ?case by (metis fold_simps(1))
  next
    case (Cons x xs)
    obtain i l where x: "x = (i, l)" by fastforce
    from Cons [of s] Cons [of "sn_event (OnDpInited l) s"] show ?case by (auto simp: x sn_event_def)
  qed
  then show ?thesis by (simp add: NotifyDeviceProfileInited_def)
qed

text \<open>\<open>es\<close> are saved: the store recovers within the attempts the service makes.\<close>

definition recovers :: "'m Managers \<Rightarrow> bool" where
  "recovers M \<longleftrightarrow> (\<forall>es m. \<exists>k<WRTE_CACHE_PROFILE_RETRY_TIMES.
     fst (mg_SavePutTempCache M es ((attempt M es ^^ k) m)) = DP_SUCCESS)"

text \<open>The other managers that work between a put and the save leave the data alone.\<close>

definition spares :: "'m Managers \<Rightarrow> ('m \<Rightarrow> string \<Rightarrow> string option) \<Rightarrow> bool" where
  "spares M db \<longleftrightarrow> (\<forall>m. db (snd (mg_SettingsDataManager_Init M m)) = db m \<and>
     db (snd (mg_ContentSensorManager_Init M m)) = db m \<and> db (snd (mg_BusinessEventManager_Init M m)) = db m \<and>
     (\<forall>ps. db (snd (mg_Switch_PutCharacteristicProfileBatch M ps m)) = db m))"

lemma spares_run_inits:
  "\<forall>f\<in>fst ` set fs. \<forall>m. db (snd (f m)) = db m \<Longrightarrow> db (snd (run_inits fs m)) = db m"
proof (induction fs arbitrary: m)
  case Nil
  then show ?case by simp
next
  case (Cons p fs)
  obtain f e where p: "p = (f, e)" by fastforce
  obtain ret m' where fm: "f m = (ret, m')" by fastforce
  with Cons.prems have "db m' = db m" by (metis p fst_conv image_eqI list.set_intros(1) snd_conv)
  moreover have "db (snd (run_inits fs m')) = db m'" using Cons by simp
  ultimately show ?case by (simp add: p fm split: option.split)
qed

lemma spares_switch:
  assumes "spares M db"
  shows "db (sn_managers (snd (SaveSwitchProfilesFromTempCache M s))) = db (sn_managers s)"
  using assms by (auto simp: spares_def SaveSwitchProfilesFromTempCache_def on_managers_def Let_def case_prod_beta)

lemma waiting_entries:
  "omap_wf (sn_dynamicProfileMap s) \<Longrightarrow>
    map_of (GetDynamicProfilesFromTempCache s []) = map_of (sn_dynamicProfileMap s)"
  by (simp add: GetDynamicProfilesFromTempCache_def map_of_fold_put)

lemma save_dynamic_saves:
  assumes "saves M db" "recovers M" "omap_wf (sn_dynamicProfileMap s)"
  shows "db (sn_managers (snd (SaveDynamicProfilesFromTempCache M s))) =
    db (sn_managers s) ++ map_of (sn_dynamicProfileMap s)"
proof -
  define es where "es = (if GetDynamicProfilesFromTempCache s [] = [] \<and> mg_IsFirstInitDB M (sn_managers s)
    then GetDynamicProfilesFromTempCache s (GetDynamicProfilesFromTempCache s []) else GetDynamicProfilesFromTempCache s [])"
  obtain b s' where loop: "save_loop M es WRTE_CACHE_PROFILE_RETRY_TIMES s = (b, s')" by fastforce
  have es: "map_of es = map_of (sn_dynamicProfileMap s)"
    using waiting_entries [OF assms(3)] by (auto simp: es_def)
  have wf: "omap_wf es"
    by (auto simp: es_def GetDynamicProfilesFromTempCache_def omap_wf_fold)
  have "b" "db (sn_managers s') = db (sn_managers s) ++ map_of es"
    using save_loop_attempts [OF assms(1) wf loop] assms(2) unfolding recovers_def by auto
  with loop es show ?thesis
    unfolding SaveDynamicProfilesFromTempCache_def Let_def es_def [symmetric] by simp
qed

lemma service_entries_wf: "omap_wf (snd (ServiceProfileToEntries p [] False))"
  by (simp add: ServiceProfileToEntries_def Let_def omap_wf_put)

lemma put_waits:
  assumes "CheckCallerPermission (se_permission E)" "\<not> sn_isInited s"
    and "Svc_PutServiceProfile E M p s = (DP_SUCCESS, s1)"
  shows "s1 = s\<lparr>sn_dynamicProfileMap :=
      fold (\<lambda>(k, v). omap_put k v) (snd (ServiceProfileToEntries p [] False)) (sn_dynamicProfileMap s)\<rparr>"
  using assms by (auto simp: Svc_PutServiceProfile_def if_permitted_def AddSvrProfilesToCache_def split: if_splits)

lemma inits_spare:
  assumes "spares M db"
  shows "db (snd (run_inits [(mg_SettingsDataManager_Init M, a), (mg_ContentSensorManager_Init M, b),
    (mg_BusinessEventManager_Init M, c)] m)) = db m"
  by (rule spares_run_inits) (use assms in \<open>simp add: spares_def\<close>)

lemma post_init_next_saves:
  assumes "saves M db" "recovers M" "spares M db" "omap_wf (sn_dynamicProfileMap s)"
    and "PostInitNext E M s = (DP_SUCCESS, s')"
  shows "sn_isInited s' \<and> sn_dynamicProfileMap s' = [] \<and> sn_switchProfileMap s' = [] \<and>
    db (sn_managers s') = db (sn_managers s) ++ map_of (sn_dynamicProfileMap s)"
proof -
  define m where "m = snd (run_inits
            [(mg_SettingsDataManager_Init M, Some DP_SETTINGSDATA_MANAGER_INIT_FAIL),
             (mg_ContentSensorManager_Init M, Some DP_CONTENT_SENSOR_MANAGER_INIT_FAIL),
             (mg_BusinessEventManager_Init M, Some DP_BUSINESS_EVENT_MANAGER_INIT_FAIL)] (sn_managers s))"
  define s1 where "s1 = s\<lparr>sn_managers := m\<rparr>"
  define s2 where "s2 = snd (SaveSwitchProfilesFromTempCache M s1)"
  define s3 where "s3 = snd (SaveDynamicProfilesFromTempCache M s2)"
  have s': "s' = snd (NotifyDeviceProfileInited E (s3\<lparr>sn_isInited := True\<rparr>))"
    using assms(5) by (auto simp: PostInitNext_def on_managers_def case_prod_beta Let_def m_def s1_def s2_def s3_def split: if_splits)
  have notify: "\<exists>es. snd (NotifyDeviceProfileInited E s) = s\<lparr>sn_events := es\<rparr>" for s
    by (rule notify_inited_events)
  obtain m2 where s2: "s2 = s1\<lparr>sn_switchProfileMap := [], sn_managers := m2\<rparr>"
    using save_switch_state [of M s1] unfolding s2_def by blast
  obtain m3 where s3: "s3 = s2\<lparr>sn_managers := m3, sn_dynamicProfileMap := []\<rparr>"
    using save_dynamic_state [of M s2] unfolding s3_def by blast
  have "db (sn_managers s3) = db (sn_managers s2) ++ map_of (sn_dynamicProfileMap s2)"
    unfolding s3_def by (rule save_dynamic_saves) (use assms s2 s1_def in simp_all)
  moreover have "db (sn_managers s2) = db m" unfolding s2_def by (simp add: spares_switch [OF assms(3)] s1_def)
  moreover have "db m = db (sn_managers s)" unfolding m_def by (rule inits_spare [OF assms(3)])
  ultimately have "db (sn_managers s3) = db (sn_managers s) ++ map_of (sn_dynamicProfileMap s)"
    using s2 by (simp add: s1_def)
  moreover obtain es where "s' = s3\<lparr>sn_isInited := True, sn_events := es\<rparr>" using notify s' by blast
  ultimately show ?thesis using s2 s3 by simp
qed


lemma demo_saves: "saves demo_managers (map_of \<circ> snd)"
  by (auto simp: saves_def demo_managers_def map_of_fold_put split: nat.split prod.split)

lemma demo_recovers: "recovers demo_managers"
  unfolding recovers_def
proof (intro allI)
  fix es :: "(string, string) omap" and m :: "nat \<times> (string, string) omap"
  obtain n kvs where m: "m = (n, kvs)" by fastforce
  show "\<exists>k<WRTE_CACHE_PROFILE_RETRY_TIMES. fst (mg_SavePutTempCache demo_managers es ((attempt demo_managers es ^^ k) m)) = DP_SUCCESS"
  proof (cases n)
    case 0
    then show ?thesis by (intro exI [of _ 0]) (simp add: m demo_managers_def)
  next
    case (Suc n')
    then show ?thesis by (intro exI [of _ 1]) (simp add: m demo_managers_def attempt_def)
  qed
qed

lemma demo_spares: "spares demo_managers db"
  by (simp add: spares_def demo_managers_def)


section \<open>Batches with switches\<close>

lemma char_entries_switches:
  "char_entries E M m ps es sw = Inr (es', sw') \<Longrightarrow>
    sw' = sw @ filter (\<lambda>p. cp_characteristicKey p = SWITCH_STATUS) ps"
  by (induction E M m ps es sw rule: char_entries.induct) (auto split: if_splits)

lemma char_entries_refused: "char_entries E M m ps es sw = Inl ret \<Longrightarrow> ret \<noteq> DP_SUCCESS"
  by (induction E M m ps es sw rule: char_entries.induct) (auto split: if_splits)

lemma map_of_fold_key:
  "map_of (fold (\<lambda>x. omap_put (key x) x) xs m) k =
    (case filter (\<lambda>x. key x = k) xs of [] \<Rightarrow> map_of m k | _ \<Rightarrow> Some (last (filter (\<lambda>x. key x = k) xs)))"
  by (induction xs arbitrary: m) (auto split: list.split)

abbreviation char_key :: "CharacteristicProfile \<Rightarrow> string" where
  "char_key p \<equiv> GenerateCharProfileKey (cp_deviceId p) (cp_serviceName p) (cp_characteristicKey p)"

text \<open>What becomes of a batch of characteristics depends on when it comes. Once the data service is
  ready, its switches go to the manager of the switches and the others to the manager of the profiles,
  each list in order, when not empty. Before, a batch that has a switch waits as a whole for the manager
  of the switches: every profile of the batch, the ordinary ones too, and the last one for a key is the
  one that stays.\<close>

theorem mixed_batch:
  assumes "CheckCallerPermission (se_permission E)" "ps \<noteq> []" "length ps \<le> MAX_CHAR_SIZE"
  shows "(sn_isInited s \<longrightarrow>
      (let switches = filter (\<lambda>p. cp_characteristicKey p = SWITCH_STATUS) ps;
           others = filter (\<lambda>p. cp_characteristicKey p \<noteq> SWITCH_STATUS) ps;
           (r1, m1) = (if switches = [] then (DP_SUCCESS, sn_managers s)
             else mg_Switch_PutCharacteristicProfileBatch M switches (sn_managers s));
           (r2, m2) = (if others = [] then (DP_SUCCESS, m1) else mg_PutCharacteristicProfileBatch M others m1)
       in Svc_PutCharacteristicProfileBatch E M ps s =
         (if r1 = DP_SUCCESS \<and> r2 = DP_SUCCESS then DP_SUCCESS else DP_PUT_CHAR_BATCH_FAIL, s\<lparr>sn_managers := m2\<rparr>))) \<and>
   (\<not> sn_isInited s \<and> Svc_PutCharacteristicProfileBatch E M ps s = (DP_SUCCESS, s1) \<and>
      (\<exists>p\<in>set ps. cp_characteristicKey p = SWITCH_STATUS) \<longrightarrow>
      (\<forall>p\<in>set ps. map_of (sn_switchProfileMap s1) (char_key p) =
         Some (last (filter (\<lambda>q. char_key q = char_key p) ps))))"
proof (intro conjI impI)
  have pre: "PutCharacteristicProfileBatchPreprocess E ps = DP_SUCCESS"
    using assms by (simp add: PutCharacteristicProfileBatchPreprocess_def)
  show "let switches = filter (\<lambda>p. cp_characteristicKey p = SWITCH_STATUS) ps;
           others = filter (\<lambda>p. cp_characteristicKey p \<noteq> SWITCH_STATUS) ps;
           (r1, m1) = (if switches = [] then (DP_SUCCESS, sn_managers s)
             else mg_Switch_PutCharacteristicProfileBatch M switches (sn_managers s));
           (r2, m2) = (if others = [] then (DP_SUCCESS, m1) else mg_PutCharacteristicProfileBatch M others m1)
       in Svc_PutCharacteristicProfileBatch E M ps s =
         (if r1 = DP_SUCCESS \<and> r2 = DP_SUCCESS then DP_SUCCESS else DP_PUT_CHAR_BATCH_FAIL, s\<lparr>sn_managers := m2\<rparr>)"
    if "sn_isInited s"
    using that pre
    by (cases s) (auto simp: Svc_PutCharacteristicProfileBatch_def on_managers_def Let_def split: prod.split)
  assume put: "\<not> sn_isInited s \<and> Svc_PutCharacteristicProfileBatch E M ps s = (DP_SUCCESS, s1) \<and>
      (\<exists>p\<in>set ps. cp_characteristicKey p = SWITCH_STATUS)"
  then obtain es sw where ce: "char_entries E M (sn_managers s) ps [] [] = Inr (es, sw)"
    using pre assms(2)
    by (auto simp: Svc_PutCharacteristicProfileBatch_def AddCharProfilesToCache_def Let_def split: sum.splits
      dest: char_entries_refused)
  then have "sw \<noteq> []" using put char_entries_switches [OF ce] by (auto simp: filter_empty_conv)
  then have "sn_switchProfileMap s1 = fold (\<lambda>x. omap_put (char_key x) x) ps (sn_switchProfileMap s)"
    using put pre assms(2) ce
    by (auto simp: Svc_PutCharacteristicProfileBatch_def AddCharProfilesToCache_def Let_def)
  then show "\<forall>p\<in>set ps. map_of (sn_switchProfileMap s1) (char_key p) =
         Some (last (filter (\<lambda>q. char_key q = char_key p) ps))"
    by (auto simp: map_of_fold_key filter_empty_conv split: list.split)
qed

lemma mixed_batch_witness:
  "let p = \<lambda>k. CharacteristicProfile_default \<lparr>cp_deviceId := ''udid'', cp_serviceName := ''svc'',
         cp_characteristicKey := k, cp_characteristicValue := ''1''\<rparr>;
       s1 = snd (Svc_PutCharacteristicProfileBatch demo_env demo_managers [p ''color'', p SWITCH_STATUS]
         (DpService_new [] (0, [])))
   in map_of (sn_switchProfileMap s1) (char_key (p ''color'')) = Some (p ''color'')"
proof -
  define p where "p = (\<lambda>k. CharacteristicProfile_default \<lparr>cp_deviceId := ''udid'', cp_serviceName := ''svc'',
         cp_characteristicKey := k, cp_characteristicValue := ''1''\<rparr>)"
  define s :: "(nat \<times> (string, string) omap) DpService" where "s = DpService_new [] (0, [])"
  define s1 where "s1 = snd (Svc_PutCharacteristicProfileBatch demo_env demo_managers [p ''color'', p SWITCH_STATUS] s)"
  have "fst (Svc_PutCharacteristicProfileBatch demo_env demo_managers [p ''color'', p SWITCH_STATUS] s) = DP_SUCCESS"
    by (simp add: Svc_PutCharacteristicProfileBatch_def PutCharacteristicProfileBatchPreprocess_def AddCharProfilesToCache_def
      s_def DpService_new_def IsCharProfileValid_def IsKeyValid_def IsLocalUdid_def p_def Let_def)
      (simp add: demo_env_def demo_managers_def)
  then have put: "Svc_PutCharacteristicProfileBatch demo_env demo_managers [p ''color'', p SWITCH_STATUS] s = (DP_SUCCESS, s1)"
    unfolding s1_def by (metis prod.collapse)
  have "\<not> sn_isInited s" by (simp add: s_def DpService_new_def)
  with put mixed_batch [of demo_env "[p ''color'', p SWITCH_STATUS]" s demo_managers s1]
  have "map_of (sn_switchProfileMap s1) (char_key (p ''color'')) =
      Some (last (filter (\<lambda>q. char_key q = char_key (p ''color'')) [p ''color'', p SWITCH_STATUS]))"
    by (auto simp: p_def)
  also have "\<dots> = Some (p ''color'')"
    by (simp add: p_def GenerateCharProfileKey_def)
  finally show ?thesis
    by (simp add: p_def [symmetric] s_def [symmetric] s1_def [symmetric])
qed

end
