(* ===== verification/DynamicProfiles.thy ===== *)
theory DynamicProfiles
  imports ProfileControl TrustTypes IpcTypes
begin

text \<open>
  \<open>DeviceProfileManager\<close> (\<open>services/core/src/deviceprofilemanager/device_profile_manager.cpp\<close>) and
  \<open>MultiUserManager\<close> (\<open>services/core/src/multiusermanager/multi_user_manager.cpp\<close>): the dynamic profiles of
  all users in one key-value store, where the profiles of the foreground user are kept twice, under keys
  with and without the number of the user; what is put before the first save; synchronisation; the
  repair of the data when a device comes online and the change of the foreground user. The mutexes make
  each access to the store atomic; a task that was taken and a detached thread run at once.
\<close>

section \<open>State\<close>

text \<open>What the managers ask of the system. The adapter for other systems is a library that is loaded at
  run time: whether it is found (\<open>de_dlopen\<close>, \<open>de_noload\<close> when only asked whether it is loaded), has the
  function, gives an object, and what the object answers.\<close>

record 'a DmEnv =
  de_localUdid :: string
  de_localUuid :: string
  de_systemUdid :: string
  de_newStore :: 'a
  de_StoreInit :: "'a \<Rightarrow> dp_ret \<times> 'a"
  de_ForegroundOsAccount :: "int \<times> int"
  de_OsAccountDomain :: "int \<Rightarrow> string option"
  de_callerProcName :: string
  de_eventHandler :: bool
  de_PostTask :: bool
  de_dlopen :: bool
  de_noload :: bool
  de_dlsym :: bool
  de_create :: bool
  de_Initialize :: dp_ret
  de_SyncProfile :: "string \<Rightarrow> string \<Rightarrow> bool \<Rightarrow> dp_ret"
  de_cast :: "nat \<Rightarrow> bool"
  de_IsDeviceE2ESync :: bool
  de_IsEnterpriseSpaceEnable :: bool
  de_IsP2p :: "int \<Rightarrow> bool"
  de_GetAccessControlProfile :: "(string, string) omap \<Rightarrow> dp_ret \<times> AccessControlProfile list"

text \<open>Calls to the adapter, to callbacks and to the manager of static profiles.\<close>

datatype dm_call = AdapterRelease | LibraryClose | AdapterSync string string nat bool
  | AdapterOnline string string bool | AdapterFixDiff | SyncFailed nat "string list" | SyncStatic TrustedDeviceInfo

record ('a, 'w) DeviceProfileManager =
  dm_stores :: "('a, 'w) Stores"
  dm_isFirst :: bool
  dm_putTempCache :: "(string, string) omap"
  dm_isAdapterSoLoaded :: bool
  dm_dpSyncAdapter :: bool
  dm_foregroundUserId :: int
  dm_log :: "dm_call list"

abbreviation "MAX_MAP_LEN \<equiv> (1000 :: nat)"
abbreviation "MIN_USER_ID \<equiv> (0 :: int)"
abbreviation "MAX_USER_ID \<equiv> (100000 :: int)"
abbreviation "PUSH_PULL_mode \<equiv> (2 :: int)"

definition dm_call :: "dm_call \<Rightarrow> ('a, 'w) DeviceProfileManager \<Rightarrow> ('a, 'w) DeviceProfileManager" where
  "dm_call c s = s\<lparr>dm_log := dm_log s @ [c]\<rparr>"

definition dm_set_store :: "'a \<Rightarrow> ('a, 'w) DeviceProfileManager \<Rightarrow> ('a, 'w) DeviceProfileManager" where
  "dm_set_store a s = s\<lparr>dm_stores := (dm_stores s)\<lparr>st_kv := Some a\<rparr>\<rparr>"

text \<open>\<open>dm_task\<close>: a task runs when there is a handler and it takes the task.\<close>

definition dm_task :: "'a DmEnv \<Rightarrow> (('a, 'w) DeviceProfileManager \<Rightarrow> ('a, 'w) DeviceProfileManager) \<Rightarrow>
    ('a, 'w) DeviceProfileManager \<Rightarrow> ('a, 'w) DeviceProfileManager" where
  "dm_task E t s = (if \<not> de_eventHandler E \<or> \<not> de_PostTask E then s else t s)"

section \<open>The foreground user\<close>

definition GetForegroundUserIDFromOs :: "'a DmEnv \<Rightarrow> dp_ret \<times> int" where
  "GetForegroundUserIDFromOs E =
     (let (res, foregroundId) = de_ForegroundOsAccount E in
      if res \<noteq> DP_SUCCESS \<or> foregroundId = DEFAULT_USER_ID then (DP_GET_FOREGROUND_ID_FAIL, foregroundId)
      else (DP_SUCCESS, foregroundId))"

definition GetCurrentForegroundUserID ::
  "'a DmEnv \<Rightarrow> ('a, 'w) DeviceProfileManager \<Rightarrow> int \<times> ('a, 'w) DeviceProfileManager" where
  "GetCurrentForegroundUserID E s =
     (let s = (if dm_foregroundUserId s = DEFAULT_USER_ID
               then s\<lparr>dm_foregroundUserId := snd (GetForegroundUserIDFromOs E)\<rparr> else s)
      in (dm_foregroundUserId s, s))"

definition CurrentIsEnterpriseSpace ::
  "'a DmEnv \<Rightarrow> ('a, 'w) DeviceProfileManager \<Rightarrow> bool \<times> ('a, 'w) DeviceProfileManager" where
  "CurrentIsEnterpriseSpace E s =
     (let (userId, s) = GetCurrentForegroundUserID E s in
      case de_OsAccountDomain E userId of
        None \<Rightarrow> (False, s)
      | Some accountName \<Rightarrow> (accountName \<noteq> [], s))"

section \<open>Storing profiles\<close>

definition AddToPutTempCache ::
  "(string, string) omap \<Rightarrow> ('a, 'w) DeviceProfileManager \<Rightarrow> ('a, 'w) DeviceProfileManager" where
  "AddToPutTempCache values s =
     (if values = [] then s
      else if length (dm_putTempCache s) > MAX_MAP_LEN then s
      else s\<lparr>dm_putTempCache := put_all values (dm_putTempCache s)\<rparr>)"

text \<open>The entries of a profile: with the number of its user, and without when the user is the one in
  the foreground or the profile is not kept per user.\<close>

definition add_user_entries :: "'a DmEnv \<Rightarrow> ((string, string) omap \<Rightarrow> bool \<Rightarrow> dp_ret \<times> (string, string) omap) \<Rightarrow>
    bool \<Rightarrow> int \<Rightarrow> (string, string) omap \<times> ('a, 'w) DeviceProfileManager \<Rightarrow>
    (string, string) omap \<times> ('a, 'w) DeviceProfileManager" where
  "add_user_entries E toEntries isMultiUser userId = (\<lambda>(entries, s).
     if isMultiUser
     then let entries = snd (toEntries entries True);
              (foreground, s) = GetCurrentForegroundUserID E s
          in (if foreground = userId then snd (toEntries entries False) else entries, s)
     else (snd (toEntries entries False), s))"

definition store_entries :: "'a IKVAdapter \<Rightarrow> (string, string) omap \<Rightarrow> ('a, 'w) DeviceProfileManager \<Rightarrow>
    dp_ret \<times> ('a, 'w) DeviceProfileManager" where
  "store_entries ik entries s =
     (if dm_isFirst s then (DP_SUCCESS, AddToPutTempCache entries s)
      else case st_kv (dm_stores s) of
        None \<Rightarrow> (DP_KV_DB_PTR_NULL, s)
      | Some a \<Rightarrow>
          let (ret, a) = ik_PutBatch ik entries a; s = dm_set_store a s in
          if ret \<noteq> DP_SUCCESS then (DP_PUT_KV_DB_FAIL, s) else (DP_SUCCESS, s))"

definition Dm_PutDeviceProfile :: "'a DmEnv \<Rightarrow> 'a IKVAdapter \<Rightarrow> DeviceProfile \<Rightarrow> ('a, 'w) DeviceProfileManager \<Rightarrow>
    dp_ret \<times> ('a, 'w) DeviceProfileManager" where
  "Dm_PutDeviceProfile E ik p s =
     (if \<not> IsDevProfileValid (de_localUdid E) p then (DP_INVALID_PARAMS, s)
      else let (entries, s) = add_user_entries E (DeviceProfileToEntries p) (dp_isMultiUser p) (dp_userId p) ([], s)
        in store_entries ik entries s)"

definition Dm_PutServiceProfile :: "'a DmEnv \<Rightarrow> 'a IKVAdapter \<Rightarrow> ServiceProfile \<Rightarrow> ('a, 'w) DeviceProfileManager \<Rightarrow>
    dp_ret \<times> ('a, 'w) DeviceProfileManager" where
  "Dm_PutServiceProfile E ik p s =
     (if \<not> IsSvrProfileValid (de_localUdid E) p then (DP_INVALID_PARAMS, s)
      else let (entries, s) = add_user_entries E (ServiceProfileToEntries p) (sp_isMultiUser p) (sp_userId p) ([], s)
        in store_entries ik entries s)"

text \<open>An invalid profile of a batch is skipped.\<close>

definition Dm_PutServiceProfileBatch :: "'a DmEnv \<Rightarrow> 'a IKVAdapter \<Rightarrow> ServiceProfile list \<Rightarrow>
    ('a, 'w) DeviceProfileManager \<Rightarrow> dp_ret \<times> ('a, 'w) DeviceProfileManager" where
  "Dm_PutServiceProfileBatch E ik ps s =
     (let (entries, s) = fold (\<lambda>p (entries, s).
            if \<not> IsSvrProfileValid (de_localUdid E) p then (entries, s)
            else add_user_entries E (ServiceProfileToEntries p) (sp_isMultiUser p) (sp_userId p) (entries, s)) ps ([], s)
      in store_entries ik entries s)"

definition Dm_PutCharacteristicProfile :: "'a DmEnv \<Rightarrow> 'a IKVAdapter \<Rightarrow> CharacteristicProfile \<Rightarrow>
    ('a, 'w) DeviceProfileManager \<Rightarrow> dp_ret \<times> ('a, 'w) DeviceProfileManager" where
  "Dm_PutCharacteristicProfile E ik p s =
     (if \<not> IsCharProfileValid (de_localUdid E) p then (DP_INVALID_PARAMS, s)
      else let (entries, s) =
          add_user_entries E (CharacteristicProfileToEntries p) (cp_isMultiUser p) (cp_userId p) ([], s)
        in store_entries ik entries s)"

definition Dm_PutCharacteristicProfileBatch :: "'a DmEnv \<Rightarrow> 'a IKVAdapter \<Rightarrow> CharacteristicProfile list \<Rightarrow>
    ('a, 'w) DeviceProfileManager \<Rightarrow> dp_ret \<times> ('a, 'w) DeviceProfileManager" where
  "Dm_PutCharacteristicProfileBatch E ik ps s =
     (let (entries, s) = fold (\<lambda>p (entries, s).
            if \<not> IsCharProfileValid (de_localUdid E) p then (entries, s)
            else add_user_entries E (CharacteristicProfileToEntries p) (cp_isMultiUser p) (cp_userId p) (entries, s))
          ps ([], s)
      in store_entries ik entries s)"

text \<open>\<open>entries\<close> is returned with what was added to it.\<close>

definition SavePutTempCache :: "'a IKVAdapter \<Rightarrow> (string, string) omap \<Rightarrow> ('a, 'w) DeviceProfileManager \<Rightarrow>
    (dp_ret \<times> (string, string) omap) \<times> ('a, 'w) DeviceProfileManager" where
  "SavePutTempCache ik entries s =
     (let entries = put_all (dm_putTempCache s) entries in
      if entries = [] then ((DP_SUCCESS, entries), s\<lparr>dm_isFirst := False, dm_putTempCache := []\<rparr>)
      else case st_kv (dm_stores s) of
        None \<Rightarrow> ((DP_GET_KV_DB_FAIL, entries), s)
      | Some a \<Rightarrow>
          let (ret, a) = ik_PutBatch ik entries a; s = dm_set_store a s in
          if ret \<noteq> DP_SUCCESS then ((ret, entries), s)
          else ((ret, entries), s\<lparr>dm_isFirst := False, dm_putTempCache := []\<rparr>))"

definition IsFirstInitDB :: "('a, 'w) DeviceProfileManager \<Rightarrow> bool" where
  "IsFirstInitDB s = dm_isFirst s"

definition ResetFirst :: "('a, 'w) DeviceProfileManager \<Rightarrow> ('a, 'w) DeviceProfileManager" where
  "ResetFirst s = s\<lparr>dm_isFirst := False\<rparr>"

section \<open>Reading and deleting profiles\<close>

definition IsMultiUserValid :: "'a DmEnv \<Rightarrow> string \<Rightarrow> bool \<Rightarrow> int \<Rightarrow> ('a, 'w) DeviceProfileManager \<Rightarrow>
    dp_ret \<times> ('a, 'w) DeviceProfileManager" where
  "IsMultiUserValid E deviceId isMultiUser userId s =
     (if deviceId = [] \<or> isMultiUser \<and> userId \<le> 0 \<or> \<not> isMultiUser \<and> userId \<noteq> DEFAULT_USER_ID
      then (DP_GET_MULTI_USER_PROFILE_PARAMS_INVALID, s)
      else if isMultiUser \<and> deviceId = de_localUdid E
      then let (foreground, s) = GetCurrentForegroundUserID E s in
        if userId \<noteq> foreground then (DP_GET_LOCAL_PROFILE_IS_NOT_FOREGROUND_ID, s) else (DP_SUCCESS, s)
      else (DP_SUCCESS, s))"

definition Dm_GetDeviceProfile :: "'a DmEnv \<Rightarrow> 'a IKVAdapter \<Rightarrow> string \<Rightarrow> DeviceProfile \<Rightarrow>
    ('a, 'w) DeviceProfileManager \<Rightarrow> (dp_ret \<times> DeviceProfile) \<times> ('a, 'w) DeviceProfileManager" where
  "Dm_GetDeviceProfile E ik deviceId p s =
     (let p = p\<lparr>dp_deviceId := deviceId\<rparr>;
          (res, s) = IsMultiUserValid E (dp_deviceId p) (dp_isMultiUser p) (dp_userId p) s in
      if res \<noteq> DP_SUCCESS then ((res, p), s)
      else (Ctl_GetDeviceProfile ik deviceId p (dm_stores s), s))"

definition Dm_GetServiceProfile :: "'a DmEnv \<Rightarrow> 'a IKVAdapter \<Rightarrow> string \<Rightarrow> string \<Rightarrow> ServiceProfile \<Rightarrow>
    ('a, 'w) DeviceProfileManager \<Rightarrow> (dp_ret \<times> ServiceProfile) \<times> ('a, 'w) DeviceProfileManager" where
  "Dm_GetServiceProfile E ik deviceId serviceName p s =
     (let p = p\<lparr>sp_deviceId := deviceId\<rparr>;
          (res, s) = IsMultiUserValid E (sp_deviceId p) (sp_isMultiUser p) (sp_userId p) s in
      if res \<noteq> DP_SUCCESS then ((res, p), s)
      else (Ctl_GetServiceProfile ik deviceId serviceName p (dm_stores s), s))"

definition Dm_GetCharacteristicProfile :: "'a DmEnv \<Rightarrow> 'a IKVAdapter \<Rightarrow> string \<Rightarrow> string \<Rightarrow> string \<Rightarrow>
    CharacteristicProfile \<Rightarrow> ('a, 'w) DeviceProfileManager \<Rightarrow>
    (dp_ret \<times> CharacteristicProfile) \<times> ('a, 'w) DeviceProfileManager" where
  "Dm_GetCharacteristicProfile E ik deviceId serviceName characteristicKey p s =
     (let p = p\<lparr>cp_deviceId := deviceId\<rparr>;
          (res, s) = IsMultiUserValid E (cp_deviceId p) (cp_isMultiUser p) (cp_userId p) s in
      if res \<noteq> DP_SUCCESS then ((res, p), s)
      else (Ctl_GetCharacteristicProfile ik deviceId serviceName characteristicKey p (dm_stores s), s))"

text \<open>\<open>ProfileControlUtils\<close> asks for the foreground user when it deletes the profile of a user.\<close>

definition asked_foreground :: "'a DmEnv \<Rightarrow> bool \<Rightarrow> ('a, 'w) DeviceProfileManager \<Rightarrow>
    int \<times> ('a, 'w) DeviceProfileManager" where
  "asked_foreground E asks s = (if asks then GetCurrentForegroundUserID E s else (dm_foregroundUserId s, s))"

definition Dm_DeleteServiceProfile :: "'a DmEnv \<Rightarrow> 'a IKVAdapter \<Rightarrow> string \<Rightarrow> string \<Rightarrow> bool \<Rightarrow> int \<Rightarrow>
    ('a, 'w) DeviceProfileManager \<Rightarrow> dp_ret \<times> ('a, 'w) DeviceProfileManager" where
  "Dm_DeleteServiceProfile E ik deviceId serviceName isMultiUser userId s =
     (let (foreground, s) = asked_foreground E (isMultiUser \<and> st_kv (dm_stores s) \<noteq> None \<and> IsKeyValid deviceId \<and>
             IsLocalUdid (de_localUdid E) deviceId \<and> IsKeyValid serviceName) s;
          (res, st) = Ctl_DeleteServiceProfile ik (de_localUdid E) foreground deviceId serviceName isMultiUser userId
             (dm_stores s)
      in (res, s\<lparr>dm_stores := st\<rparr>))"

definition Dm_DeleteCharacteristicProfile :: "'a DmEnv \<Rightarrow> 'a IKVAdapter \<Rightarrow> string \<Rightarrow> string \<Rightarrow> string \<Rightarrow> bool \<Rightarrow> int \<Rightarrow>
    ('a, 'w) DeviceProfileManager \<Rightarrow> dp_ret \<times> ('a, 'w) DeviceProfileManager" where
  "Dm_DeleteCharacteristicProfile E ik deviceId serviceName characteristicKey isMultiUser userId s =
     (let (foreground, s) = asked_foreground E (isMultiUser \<and> st_kv (dm_stores s) \<noteq> None \<and> IsKeyValid deviceId \<and>
             IsLocalUdid (de_localUdid E) deviceId \<and> IsKeyValid serviceName \<and> IsKeyValid characteristicKey) s;
          (res, st) = Ctl_DeleteCharacteristicProfile ik (de_localUdid E) foreground deviceId serviceName
             characteristicKey isMultiUser userId (dm_stores s)
      in (res, s\<lparr>dm_stores := st\<rparr>))"

definition Dm_GetAllDeviceProfile where
  "Dm_GetAllDeviceProfile ik ps s = Ctl_GetAllDeviceProfile ik ps (dm_stores s)"

definition Dm_GetAllServiceProfile where
  "Dm_GetAllServiceProfile ik ps s = Ctl_GetAllServiceProfile ik ps (dm_stores s)"

definition Dm_GetAllCharacteristicProfile where
  "Dm_GetAllCharacteristicProfile ik ps s = Ctl_GetAllCharacteristicProfile ik ps (dm_stores s)"

section \<open>Batches by key\<close>

definition DeleteBatchByKeys :: "'a IKVAdapter \<Rightarrow> string list \<Rightarrow> ('a, 'w) DeviceProfileManager \<Rightarrow>
    dp_ret \<times> ('a, 'w) DeviceProfileManager" where
  "DeleteBatchByKeys ik delKeys s =
     (if delKeys = [] then (DP_SUCCESS, s)
      else case st_kv (dm_stores s) of
        None \<Rightarrow> (DP_KV_DB_PTR_NULL, s)
      | Some a \<Rightarrow>
          let (ret, a) = ik_DeleteBatch ik delKeys a; s = dm_set_store a s in
          if ret \<noteq> DP_SUCCESS then (DP_DEL_KV_DB_FAIL, s) else (DP_SUCCESS, s))"

definition SaveBatchByKeys :: "'a IKVAdapter \<Rightarrow> (string, string) omap \<Rightarrow> ('a, 'w) DeviceProfileManager \<Rightarrow>
    dp_ret \<times> ('a, 'w) DeviceProfileManager" where
  "SaveBatchByKeys ik entries s =
     (if entries = [] then (DP_SUCCESS, s)
      else case st_kv (dm_stores s) of
        None \<Rightarrow> (DP_GET_KV_DB_FAIL, s)
      | Some a \<Rightarrow>
          let (ret, a) = ik_PutBatch ik entries a; s = dm_set_store a s in
          if ret \<noteq> DP_SUCCESS then (ret, s) else (DP_SUCCESS, s))"

definition GetProfilesByOwner :: "'a IKVAdapter \<Rightarrow> string \<Rightarrow> (string, string) omap \<Rightarrow> ('a, 'w) DeviceProfileManager \<Rightarrow>
    dp_ret \<times> (string, string) omap" where
  "GetProfilesByOwner ik uuid values s =
     (if uuid = [] then (DP_INVALID_PARAM, values)
      else case st_kv (dm_stores s) of
        None \<Rightarrow> (DP_KV_DB_PTR_NULL, values)
      | Some a \<Rightarrow>
          let (ret, values) = ik_GetDeviceEntries ik uuid values a in
          if ret \<noteq> DP_SUCCESS then (DP_GET_DEVICE_ENTRIES_FAIL, values) else (DP_SUCCESS, values))"

definition GetProfilesByKeyPrefix :: "'a IKVAdapter \<Rightarrow> string \<Rightarrow> (string, string) omap \<Rightarrow>
    ('a, 'w) DeviceProfileManager \<Rightarrow> dp_ret \<times> (string, string) omap" where
  "GetProfilesByKeyPrefix ik udid values s =
     (if udid = [] then (DP_INVALID_PARAM, values)
      else case st_kv (dm_stores s) of
        None \<Rightarrow> (DP_KV_DB_PTR_NULL, values)
      | Some a \<Rightarrow>
          let (ret, values) = ik_GetByPrefix ik (DEV_PREFIX @ SEPARATOR @ udid) values a in
          if ret \<noteq> DP_SUCCESS then (DP_GET_KV_DB_FAIL, values)
          else let (ret, values) = ik_GetByPrefix ik (SVR_PREFIX @ SEPARATOR @ udid) values a in
            if ret \<noteq> DP_SUCCESS then (DP_GET_KV_DB_FAIL, values)
            else let (ret, values) = ik_GetByPrefix ik (CHAR_PREFIX @ SEPARATOR @ udid) values a in
              if ret \<noteq> DP_SUCCESS then (DP_GET_KV_DB_FAIL, values) else (DP_SUCCESS, values))"

definition GetEntriesByKeys :: "'a IKVAdapter \<Rightarrow> string list \<Rightarrow> ('a, 'w) DeviceProfileManager \<Rightarrow>
    (string \<times> string) list" where
  "GetEntriesByKeys ik keys s =
     (if keys = [] then []
      else case st_kv (dm_stores s) of
        None \<Rightarrow> []
      | Some a \<Rightarrow> concat (map (\<lambda>key. let (ret, val) = ik_Get ik key [] a in
            if ret \<noteq> DP_SUCCESS then [] else [(key, val)]) keys))"

section \<open>Users\<close>

definition DeleteRemovedUserData :: "'a DmEnv \<Rightarrow> 'a IKVAdapter \<Rightarrow> int \<Rightarrow> ('a, 'w) DeviceProfileManager \<Rightarrow>
    dp_ret \<times> ('a, 'w) DeviceProfileManager" where
  "DeleteRemovedUserData E ik userId s =
     (if userId < MIN_USER_ID \<or> userId > MAX_USER_ID then (DP_INVALID_PARAM, s)
      else if de_localUdid E = [] then (DP_GET_LOCAL_UDID_FAILED, s)
      else let (getRet, allLocalEntries) = GetProfilesByKeyPrefix ik (de_localUdid E) [] s in
        if getRet \<noteq> DP_SUCCESS then (getRet, s)
        else let keysToDelete = filter (\<lambda>key. userId = GetUserIdFromDbKey key) (map fst allLocalEntries) in
          if keysToDelete = [] then (DP_SUCCESS, s)
          else case st_kv (dm_stores s) of
            None \<Rightarrow> (DP_KV_DB_PTR_NULL, s)
          | Some a \<Rightarrow>
              let (delRet, a) = ik_DeleteBatch ik keysToDelete a in (delRet, dm_set_store a s))"

text \<open>The two loops of \<open>OnUserChange\<close>; the set of keys is a list without repetitions.\<close>

definition last_user_keys :: "int \<Rightarrow> (string, string) omap \<Rightarrow> string list" where
  "last_user_keys lastUserId profileMap =
     remdups (filter (\<lambda>k. k \<noteq> []) (map RemoveUserIdFromDbKey
       (filter (\<lambda>key. GetUserIdFromDbKey key \<noteq> DEFAULT_USER_ID \<and> GetUserIdFromDbKey key = lastUserId)
         (map fst profileMap))))"

definition cur_user_profiles :: "int \<Rightarrow> (string, string) omap \<Rightarrow> (string, string) omap" where
  "cur_user_profiles curUserId profileMap =
     filter (\<lambda>(key, _). GetUserIdFromDbKey key \<noteq> DEFAULT_USER_ID \<and> GetUserIdFromDbKey key = curUserId) profileMap"

definition without_user :: "(string, string) omap \<Rightarrow> string list \<Rightarrow> string list \<times> (string, string) omap" where
  "without_user curUserProfiles lastKeys =
     fold (\<lambda>(key, val) (lastKeys, cur).
        let k = RemoveUserIdFromDbKey key in
        if k \<noteq> [] then (removeAll k lastKeys, omap_put k val cur) else (lastKeys, cur)) curUserProfiles (lastKeys, [])"

definition OnUserChange :: "'a DmEnv \<Rightarrow> 'a IKVAdapter \<Rightarrow> int \<Rightarrow> int \<Rightarrow> ('a, 'w) DeviceProfileManager \<Rightarrow>
    ('a, 'w) DeviceProfileManager" where
  "OnUserChange E ik lastUserId curUserId s =
     (if lastUserId = curUserId then s
      else if de_localUdid E = [] then s
      else let (ret, profileMap) = GetProfilesByKeyPrefix ik (de_localUdid E) [] s in
        if ret \<noteq> DP_SUCCESS \<or> profileMap = [] then s
        else let (delKeys, curUserProfilesWithoutUID) =
               without_user (cur_user_profiles curUserId profileMap) (last_user_keys lastUserId profileMap);
             (ret, s) = SaveBatchByKeys ik curUserProfilesWithoutUID s in
          if ret \<noteq> DP_SUCCESS then s else snd (DeleteBatchByKeys ik delKeys s))"

definition SetCurrentForegroundUserID :: "'a DmEnv \<Rightarrow> 'a IKVAdapter \<Rightarrow> int \<Rightarrow> ('a, 'w) DeviceProfileManager \<Rightarrow>
    ('a, 'w) DeviceProfileManager" where
  "SetCurrentForegroundUserID E ik userId s =
     (OnUserChange E ik (dm_foregroundUserId s) userId s)\<lparr>dm_foregroundUserId := userId\<rparr>"

definition MultiUser_Init :: "'a DmEnv \<Rightarrow> 'a IKVAdapter \<Rightarrow> ('a, 'w) DeviceProfileManager \<Rightarrow>
    dp_ret \<times> ('a, 'w) DeviceProfileManager" where
  "MultiUser_Init E ik s =
     (let (res, foregroundId) = de_ForegroundOsAccount E in (DP_SUCCESS, SetCurrentForegroundUserID E ik foregroundId s))"

section \<open>The adapter for other systems\<close>

text \<open>The library stays open after it was loaded; the checks of its constant name always pass.\<close>

definition LoadDpSyncAdapter :: "'a DmEnv \<Rightarrow> ('a, 'w) DeviceProfileManager \<Rightarrow>
    bool \<times> ('a, 'w) DeviceProfileManager" where
  "LoadDpSyncAdapter E s =
     (if dm_isAdapterSoLoaded s \<and> dm_dpSyncAdapter s then (True, s)
      else if \<not> de_noload E \<and> \<not> de_dlopen E then (False, s)
      else if \<not> de_dlsym E then (False, dm_call LibraryClose s)
      else if \<not> de_create E then (False, dm_call LibraryClose s)
      else if de_Initialize E \<noteq> DP_SUCCESS
      then (False, (dm_call AdapterRelease s)\<lparr>dm_dpSyncAdapter := False, dm_isAdapterSoLoaded := False\<rparr>)
      else (True, s\<lparr>dm_dpSyncAdapter := True, dm_isAdapterSoLoaded := True\<rparr>))"

definition UnloadDpSyncAdapter :: "'a DmEnv \<Rightarrow> ('a, 'w) DeviceProfileManager \<Rightarrow> ('a, 'w) DeviceProfileManager" where
  "UnloadDpSyncAdapter E s =
     (let s = (if dm_dpSyncAdapter s then dm_call AdapterRelease s else s);
          s = s\<lparr>dm_dpSyncAdapter := False\<rparr>
      in if de_noload E then (dm_call LibraryClose s)\<lparr>dm_isAdapterSoLoaded := False\<rparr> else s)"

definition SyncWithNotOHBasedDeviceFailed :: "'a DmEnv \<Rightarrow> (string \<times> string \<times> bool) list \<Rightarrow> nat \<Rightarrow>
    ('a, 'w) DeviceProfileManager \<Rightarrow> ('a, 'w) DeviceProfileManager" where
  "SyncWithNotOHBasedDeviceFailed E notOHBasedDevices callback s =
     (let syncResults = omap_of (map (\<lambda>(udid, networkId, isP2p). (networkId, ())) notOHBasedDevices) in
      if \<not> de_cast E callback then s else dm_call (SyncFailed callback (map fst syncResults)) s)"

definition RunloadedFunction :: "'a DmEnv \<Rightarrow> string \<Rightarrow> string \<Rightarrow> nat \<Rightarrow> bool \<Rightarrow> ('a, 'w) DeviceProfileManager \<Rightarrow>
    dp_ret \<times> ('a, 'w) DeviceProfileManager" where
  "RunloadedFunction E peerUdid peerNetId callback isP2p s =
     (if \<not> dm_dpSyncAdapter s then (DP_LOAD_SYNC_ADAPTER_FAILED, s)
      else let s = dm_call (AdapterSync peerUdid peerNetId callback isP2p) s in
        if de_SyncProfile E peerUdid peerNetId isP2p \<noteq> DP_SUCCESS then (DP_LOAD_SYNC_ADAPTER_FAILED, s)
        else (DP_SUCCESS, s))"

definition SyncWithNotOHBasedDevice :: "'a DmEnv \<Rightarrow> (string \<times> string \<times> bool) list \<Rightarrow> nat \<Rightarrow>
    ('a, 'w) DeviceProfileManager \<Rightarrow> dp_ret \<times> ('a, 'w) DeviceProfileManager" where
  "SyncWithNotOHBasedDevice E notOHBasedDevices callback s =
     (let (loaded, s) = LoadDpSyncAdapter E s in
      if \<not> loaded then (DP_LOAD_SYNC_ADAPTER_FAILED, SyncWithNotOHBasedDeviceFailed E notOHBasedDevices callback s)
      else (DP_SUCCESS, fold (\<lambda>(peerUdid, peerNetworkId, isP2p) s.
              let (ret, s) = RunloadedFunction E peerUdid peerNetworkId callback isP2p s in
              if ret \<noteq> DP_SUCCESS
              then SyncWithNotOHBasedDeviceFailed E [(peerUdid, peerNetworkId, isP2p)] callback s else s)
            notOHBasedDevices s))"

definition Dm_SyncDeviceProfile :: "'a DmEnv \<Rightarrow> 'a IKVAdapter \<Rightarrow> DpSyncOptions \<Rightarrow> nat option \<Rightarrow>
    ('a, 'w) DeviceProfileManager \<Rightarrow> dp_ret \<times> ('a, 'w) DeviceProfileManager" where
  "Dm_SyncDeviceProfile E ik syncOptions syncCompletedCallback s =
     (case syncCompletedCallback of
        None \<Rightarrow> (DP_INVALID_PARAMS, s)
      | Some callback \<Rightarrow>
          let (_, ohBasedDevices, notOHBasedDevices) = Cache_FilterAndGroupOnlineDevices (de_IsP2p E)
                 (so_syncDeviceIds syncOptions) [] [] (st_cache (dm_stores s)) in
          if ohBasedDevices = [] \<and> notOHBasedDevices = [] then (DP_INVALID_PARAMS, s)
          else let (ret, s) =
            (if ohBasedDevices = [] then (DP_SUCCESS, s)
             else let c = snd (Cache_AddSyncListener (de_callerProcName E) syncCompletedCallback (st_cache (dm_stores s)));
                      s = s\<lparr>dm_stores := (dm_stores s)\<lparr>st_cache := c\<rparr>\<rparr>
               in case st_kv (dm_stores s) of
                    None \<Rightarrow> (DP_SYNC_DEVICE_FAIL, s)
                  | Some a \<Rightarrow>
                      let (syncResult, a) = ik_Sync ik ohBasedDevices (so_syncMode syncOptions) a;
                          s = dm_set_store a s in
                      if syncResult \<noteq> DP_SUCCESS then (DP_SYNC_DEVICE_FAIL, s) else (DP_SUCCESS, s)) in
            if ret \<noteq> DP_SUCCESS then (ret, s)
            else (DP_SUCCESS, if notOHBasedDevices \<noteq> []
                   then snd (SyncWithNotOHBasedDevice E notOHBasedDevices callback s) else s))"

section \<open>Repair when a device comes online\<close>

definition FixLocalData :: "'a IKVAdapter \<Rightarrow> string \<Rightarrow> (string, string) omap \<Rightarrow> ('a, 'w) DeviceProfileManager \<Rightarrow>
    ('a, 'w) DeviceProfileManager" where
  "FixLocalData ik localUdid localDataByOwner s =
     (if localDataByOwner = [] then s
      else let (ret, localDataByKeyPrefix) = GetProfilesByKeyPrefix ik localUdid [] s in
        if ret \<noteq> DP_SUCCESS then s
        else if localDataByKeyPrefix = [] then s
        else let delKeys = filter (\<lambda>key. map_of localDataByOwner key = None) (map fst localDataByKeyPrefix) in
          if delKeys = [] then s else snd (DeleteBatchByKeys ik delKeys s))"

abbreviation "NON_OHBASE_NEED_CLEAR_SVR_NAMES \<equiv> {''collaborationFwk'', ''Nfc_Publish_Br_Mac_Address''}"

definition other_system_stale :: "string \<Rightarrow> bool" where
  "other_system_stale key \<longleftrightarrow>
     (case split_key key of
        None \<Rightarrow> False
      | Some res \<Rightarrow>
          if length res < 3 then False
          else if EndsWith (res ! 2) OH_PROFILE_SUFFIX then True
          else (res ! 0 = SVR_PREFIX \<or> res ! 0 = CHAR_PREFIX) \<and> res ! 2 \<in> NON_OHBASE_NEED_CLEAR_SVR_NAMES)"

definition FixRemoteDataWhenPeerIsNonOH :: "'a IKVAdapter \<Rightarrow> string \<Rightarrow> ('a, 'w) DeviceProfileManager \<Rightarrow>
    ('a, 'w) DeviceProfileManager" where
  "FixRemoteDataWhenPeerIsNonOH ik remoteUdid s =
     (let (ret, remoteDataByKeyPrefix) = GetProfilesByKeyPrefix ik remoteUdid [] s in
      if ret \<noteq> DP_SUCCESS then s
      else let delKeys = filter other_system_stale (map fst remoteDataByKeyPrefix) in
        if delKeys = [] then s else snd (DeleteBatchByKeys ik delKeys s))"

text \<open>The store is not null here: the caller has just read from it.\<close>

definition FixRemoteDataWhenPeerIsOHBase :: "'a IKVAdapter \<Rightarrow> string \<Rightarrow> (string, string) omap \<Rightarrow>
    ('a, 'w) DeviceProfileManager \<Rightarrow> ('a, 'w) DeviceProfileManager" where
  "FixRemoteDataWhenPeerIsOHBase ik remoteUdid localDataByOwner s =
     (let delKeys = filter (\<lambda>key. str_find remoteUdid key \<noteq> None) (map fst localDataByOwner) in
      if delKeys = [] then s
      else case st_kv (dm_stores s) of
        None \<Rightarrow> s
      | Some a \<Rightarrow> dm_set_store (snd (ik_DeleteBatch ik delKeys a)) s)"

definition FixDataOnDeviceOnline :: "'a DmEnv \<Rightarrow> 'a IKVAdapter \<Rightarrow> TrustedDeviceInfo \<Rightarrow>
    ('a, 'w) DeviceProfileManager \<Rightarrow> ('a, 'w) DeviceProfileManager" where
  "FixDataOnDeviceOnline E ik deviceInfo s =
     (if td_networkId deviceInfo = [] then s
      else dm_task E (\<lambda>s.
        if de_localUdid E = [] \<or> de_localUuid E = [] then s
        else let (ret, localDataByOwner) = GetProfilesByOwner ik (de_localUuid E) [] s in
          if ret \<noteq> DP_SUCCESS then s
          else let s = FixLocalData ik (de_localUdid E) localDataByOwner s in
            if td_udid deviceInfo = [] then s
            else if td_osType deviceInfo \<noteq> OHOS_TYPE then FixRemoteDataWhenPeerIsNonOH ik (td_udid deviceInfo) s
            else FixRemoteDataWhenPeerIsOHBase ik (td_udid deviceInfo) localDataByOwner s) s)"

definition NotifyNotOHBaseOnline :: "'a DmEnv \<Rightarrow> TrustedDeviceInfo \<Rightarrow> ('a, 'w) DeviceProfileManager \<Rightarrow>
    ('a, 'w) DeviceProfileManager" where
  "NotifyNotOHBaseOnline E deviceInfo s =
     (if td_networkId deviceInfo = [] then s
      else if td_osType deviceInfo = OHOS_TYPE then s
      else if \<not> de_IsP2p E (td_authForm deviceInfo) then s
      else dm_task E (\<lambda>s.
        if td_udid deviceInfo = [] then s
        else if \<not> dm_dpSyncAdapter s then s
        else dm_call (AdapterOnline (td_udid deviceInfo) (td_networkId deviceInfo)
               (de_IsP2p E (td_authForm deviceInfo))) s) s)"

definition E2ESyncDynamicProfile :: "'a DmEnv \<Rightarrow> 'a IKVAdapter \<Rightarrow> TrustedDeviceInfo \<Rightarrow>
    ('a, 'w) DeviceProfileManager \<Rightarrow> ('a, 'w) DeviceProfileManager" where
  "E2ESyncDynamicProfile E ik deviceInfo s = dm_task E (\<lambda>s.
     if td_networkId deviceInfo = [] then s
     else if td_osType deviceInfo \<noteq> OHOS_TYPE then s
     else case st_kv (dm_stores s) of
       None \<Rightarrow> s
     | Some a \<Rightarrow> dm_set_store (snd (ik_Sync ik [td_networkId deviceInfo] PUSH_PULL_mode a)) s) s"

definition IsDeviceE2ESync :: "'a DmEnv \<Rightarrow> ('a, 'w) DeviceProfileManager \<Rightarrow>
    bool \<times> ('a, 'w) DeviceProfileManager" where
  "IsDeviceE2ESync E s =
     (if \<not> de_IsDeviceE2ESync E then (False, s)
      else if de_IsEnterpriseSpaceEnable E
      then let (enterprise, s) = CurrentIsEnterpriseSpace E s in (enterprise, s)
      else (True, s))"

definition OnDeviceOnline :: "'a DmEnv \<Rightarrow> 'a IKVAdapter \<Rightarrow> TrustedDeviceInfo \<Rightarrow>
    ('a, 'w) DeviceProfileManager \<Rightarrow> ('a, 'w) DeviceProfileManager" where
  "OnDeviceOnline E ik deviceInfo s =
     (let s = FixDataOnDeviceOnline E ik deviceInfo s;
          s = NotifyNotOHBaseOnline E deviceInfo s;
          (e2e, s) = IsDeviceE2ESync E s in
      if e2e then dm_call (SyncStatic deviceInfo) (E2ESyncDynamicProfile E ik deviceInfo s) else s)"

definition FixDiffProfiles :: "('a, 'w) DeviceProfileManager \<Rightarrow> ('a, 'w) DeviceProfileManager" where
  "FixDiffProfiles s = (if \<not> dm_dpSyncAdapter s then s else dm_call AdapterFixDiff s)"

text \<open>The two questions about trust: \<open>BindType\<close> \<open>SAME_ACCOUNT\<close> is 1, \<open>POINT_TO_POINT\<close> is 256, an active
  \<open>Status\<close> is 1. The user is not used.\<close>

definition trusted_by :: "'a DmEnv \<Rightarrow> int \<Rightarrow> string \<Rightarrow> bool" where
  "trusted_by E bindType deviceId =
     (if deviceId = [] then False
      else let params = omap_of [(''bundleName'', []), (''bindType'', to_string bindType), (''status'', to_string 1)];
               (res, profile) = de_GetAccessControlProfile E params in
        if res \<noteq> DP_SUCCESS \<or> profile = [] then False
        else list_ex (\<lambda>item. acl_trustDeviceId item = deviceId) profile)"

definition IsSameAccount :: "'a DmEnv \<Rightarrow> string \<Rightarrow> int \<Rightarrow> bool" where
  "IsSameAccount E deviceId userId = trusted_by E 1 deviceId"

definition HasTrustP2PRelation :: "'a DmEnv \<Rightarrow> string \<Rightarrow> int \<Rightarrow> bool" where
  "HasTrustP2PRelation E deviceId userId = trusted_by E 256 deviceId"

section \<open>Start and stop\<close>

definition Dm_Init :: "'a DmEnv \<Rightarrow> 'a IKVAdapter \<Rightarrow> ('a, 'w) DeviceProfileManager \<Rightarrow>
    dp_ret \<times> ('a, 'w) DeviceProfileManager" where
  "Dm_Init E ik s =
     (let (initResult, a) = de_StoreInit E (de_newStore E); s = dm_set_store a s in
      if initResult \<noteq> DP_SUCCESS then (initResult, s)
      else
        let (status, values) = ik_GetByPrefix ik (GenerateDeviceProfileKey (de_systemUdid E)) [] a;
            s = (if status = DP_SUCCESS then s\<lparr>dm_isFirst := values = []\<rparr> else s);
            (_, s) = LoadDpSyncAdapter E s
        in (initResult, s))"

definition Dm_UnInit :: "'a DmEnv \<Rightarrow> ('a, 'w) DeviceProfileManager \<Rightarrow> dp_ret \<times> ('a, 'w) DeviceProfileManager" where
  "Dm_UnInit E s =
     (case st_kv (dm_stores s) of
        None \<Rightarrow> (DP_KV_DB_PTR_NULL, s)
      | Some _ \<Rightarrow>
          (DP_SUCCESS, UnloadDpSyncAdapter E
            (s\<lparr>dm_stores := (dm_stores s)\<lparr>st_kv := None\<rparr>, dm_putTempCache := []\<rparr>)))"

definition Dm_ReInit :: "'a DmEnv \<Rightarrow> 'a IKVAdapter \<Rightarrow> ('a, 'w) DeviceProfileManager \<Rightarrow>
    dp_ret \<times> ('a, 'w) DeviceProfileManager" where
  "Dm_ReInit E ik s = Dm_Init E ik (snd (Dm_UnInit E s))"

end
