(* ===== verification/DynamicLaws.thy ===== *)
theory DynamicLaws
  imports DynamicProfiles KvAdapter
begin

text \<open>
  The dynamic profiles: what a change of the foreground user and the removal of a user do to the store,
  over every adapter that keeps its promises. The locale \<open>ikv_reader\<close> extends the promises of the
  adapter by the reads that collect several prefixes.
\<close>

section \<open>Reading several prefixes\<close>

locale ikv_reader = ikv_adapter ik db
  for ik :: "'a IKVAdapter" and db :: "'a \<Rightarrow> string \<rightharpoonup> string" +
  assumes collect: "ik_GetByPrefix ik p ws a = (r, vs) \<Longrightarrow> omap_wf ws \<Longrightarrow>
      (if r = DP_SUCCESS
       then omap_wf vs \<and> map_of vs = map_of ws ++ keep_keys (prefix p) (db a) \<and> keep_keys (prefix p) (db a) \<noteq> Map.empty
       else vs = ws)"

sublocale kv_store \<subseteq> reader: ikv_reader "KVAdapter_ops ks" "kv_db kv"
proof
  fix p ws r vs and a :: "('m, 's) KVAdapter"
  assume "ik_GetByPrefix (KVAdapter_ops ks) p ws a = (r, vs)" and wf: "omap_wf ws"
  then have get: "KVAdapter_GetByPrefix ks p ws a = (r, vs)" by (simp add: KVAdapter_ops_def)
  show "if r = DP_SUCCESS
       then omap_wf vs \<and> map_of vs = map_of ws ++ keep_keys (prefix p) (kv_db kv a) \<and>
         keep_keys (prefix p) (kv_db kv a) \<noteq> Map.empty
       else vs = ws"
  proof (cases "r = DP_SUCCESS")
    case True
    with get obtain s es where s: "kvStorePtr a = Some s" "ks_GetEntries ks s p = (KV_SUCCESS, es)"
      and es: "es \<noteq> []" "vs = put_all es ws"
      by (auto simp: KVAdapter_GetByPrefix_def Let_def split: option.splits prod.splits if_splits)
    from entries [OF s(2)] have "distinct (map fst es)" "map_of es = keep_keys (prefix p) (kv s)" by auto
    moreover from this es(1) have "keep_keys (prefix p) (kv s) \<noteq> Map.empty"
      by (metis map_of_eq_empty_iff)
    ultimately show ?thesis
      using True es(2) s(1) wf by (simp add: kv_db_def map_of_put_all put_all_wf)
  next
    case False
    with get show ?thesis
      by (auto simp: KVAdapter_GetByPrefix_def Let_def split: option.splits prod.splits if_splits)
  qed
qed

context kv_store begin

lemma reader_promises: "ikv_reader (KVAdapter_ops ks) (kv_db kv)" by (rule reader.ikv_reader_axioms)

end

lemmas mem_promises = kv_store.reader_promises [OF mem.kv_store_axioms]

interpretation mem_reader: ikv_reader "KVAdapter_ops mem_store" "kv_db map_of"
  by (rule mem_promises)

text \<open>The keys of a device in the code's sense: the prefix is not closed by a separator.\<close>

definition local_key :: "string \<Rightarrow> string \<Rightarrow> bool" where
  "local_key udid k \<longleftrightarrow> prefix (DEV_PREFIX @ SEPARATOR @ udid) k \<or> prefix (SVR_PREFIX @ SEPARATOR @ udid) k \<or>
     prefix (CHAR_PREFIX @ SEPARATOR @ udid) k"

definition has_entries :: "(string \<rightharpoonup> string) \<Rightarrow> string \<Rightarrow> bool" where
  "has_entries m p \<longleftrightarrow> (\<exists>k. prefix p k \<and> m k \<noteq> None)"

lemma has_entries_iff: "has_entries m p \<longleftrightarrow> keep_keys (prefix p) m \<noteq> Map.empty"
  by (auto simp: has_entries_def keep_keys_def fun_eq_iff)

lemma has_entries_local:
  "has_entries m (SVR_PREFIX @ SEPARATOR @ udid) \<Longrightarrow> keep_keys (local_key udid) m \<noteq> Map.empty"
proof -
  assume "has_entries m (SVR_PREFIX @ SEPARATOR @ udid)"
  then obtain k where "prefix (SVR_PREFIX @ SEPARATOR @ udid) k" "m k \<noteq> None" unfolding has_entries_def by blast
  then have "keep_keys (local_key udid) m k \<noteq> None" unfolding keep_keys_def local_key_def by simp
  then show ?thesis by force
qed

context ikv_reader begin

lemma local_data:
  assumes "GetProfilesByKeyPrefix ik udid [] s = (DP_SUCCESS, values)"
  shows "udid \<noteq> [] \<and> (\<exists>a. st_kv (dm_stores s) = Some a \<and> omap_wf values \<and>
    map_of values = keep_keys (local_key udid) (db a) \<and>
    has_entries (db a) (DEV_PREFIX @ SEPARATOR @ udid) \<and> has_entries (db a) (SVR_PREFIX @ SEPARATOR @ udid) \<and>
    has_entries (db a) (CHAR_PREFIX @ SEPARATOR @ udid))"
proof -
  from assms obtain a v1 v2 where a: "udid \<noteq> []" "st_kv (dm_stores s) = Some a"
    and g: "ik_GetByPrefix ik (DEV_PREFIX @ SEPARATOR @ udid) [] a = (DP_SUCCESS, v1)"
      "ik_GetByPrefix ik (SVR_PREFIX @ SEPARATOR @ udid) v1 a = (DP_SUCCESS, v2)"
      "ik_GetByPrefix ik (CHAR_PREFIX @ SEPARATOR @ udid) v2 a = (DP_SUCCESS, values)"
    unfolding GetProfilesByKeyPrefix_def Let_def by (auto split: if_splits option.splits prod.splits)
  note v1 = collect [OF g(1) omap_wf_Nil, simplified]
  note v2 = collect [OF g(2), simplified]
  note v3 = collect [OF g(3), simplified]
  have "map_of values = keep_keys (local_key udid) (db a)"
    using v1 v2 v3 by (auto simp: keep_keys_def local_key_def map_add_def fun_eq_iff split: option.splits)
  then show ?thesis using v1 v2 v3 a by (simp add: has_entries_iff)
qed

text \<open>Reading fails as soon as one of the three kinds of profile has no entry.\<close>

lemma no_data:
  assumes "udid \<noteq> []" "st_kv (dm_stores s) = Some a"
    and "\<not> (has_entries (db a) (DEV_PREFIX @ SEPARATOR @ udid) \<and> has_entries (db a) (SVR_PREFIX @ SEPARATOR @ udid) \<and>
      has_entries (db a) (CHAR_PREFIX @ SEPARATOR @ udid))"
  shows "fst (GetProfilesByKeyPrefix ik udid [] s) = DP_GET_KV_DB_FAIL"
proof -
  obtain r vs where g: "GetProfilesByKeyPrefix ik udid [] s = (r, vs)" by fastforce
  then have "r = DP_SUCCESS \<or> r = DP_GET_KV_DB_FAIL"
    using assms(1,2) unfolding GetProfilesByKeyPrefix_def Let_def by (auto split: if_splits prod.splits)
  moreover have "r \<noteq> DP_SUCCESS"
    using local_data [of udid s vs] g assms(2,3) by auto
  ultimately show ?thesis using g by simp
qed

lemma save_batch:
  assumes "SaveBatchByKeys ik vs s = (r, s')" "st_kv (dm_stores s) = Some a" "omap_wf vs"
  shows "\<exists>a'. st_kv (dm_stores s') = Some a' \<and> db a' = (if r = DP_SUCCESS then db a ++ map_of vs else db a)"
  using assms put_batch [of vs a]
  by (auto simp: SaveBatchByKeys_def dm_set_store_def Let_def split: if_splits prod.splits)

lemma delete_batch_keys:
  assumes "DeleteBatchByKeys ik del s = (r, s')" "st_kv (dm_stores s) = Some a"
  shows "\<exists>a'. st_kv (dm_stores s') = Some a' \<and> (r = DP_SUCCESS \<longrightarrow> db a' = keep_keys (\<lambda>k. k \<notin> set del) (db a)) \<and>
    (\<exists>gone\<subseteq>set del. db a' = keep_keys (\<lambda>k. k \<notin> gone) (db a))"
proof (cases "del = []")
  case True
  with assms show ?thesis by (auto simp: DeleteBatchByKeys_def keep_keys_def)
next
  case False
  obtain ret a' where d: "ik_DeleteBatch ik del a = (ret, a')" by fastforce
  have s': "st_kv (dm_stores s') = Some a'" "r = DP_SUCCESS \<longleftrightarrow> ret = DP_SUCCESS"
    using assms False d by (auto simp: DeleteBatchByKeys_def dm_set_store_def Let_def split: if_splits)
  from delete_batch [OF d] show ?thesis unfolding s'(2) using s'(1) by blast
qed

end

section \<open>The copies of a user\<close>

text \<open>The value that a user has under its own key for an entry that is also kept without user.\<close>

definition user_copy :: "string \<Rightarrow> int \<Rightarrow> (string \<rightharpoonup> string) \<Rightarrow> (string \<rightharpoonup> string)" where
  "user_copy udid u m k =
     (let key = k @ SEPARATOR @ to_string u in
      if local_key udid key \<and> u \<noteq> DEFAULT_USER_ID \<and> GetUserIdFromDbKey key = u \<and> RemoveUserIdFromDbKey key = k \<and> k \<noteq> []
      then m key else None)"

text \<open>Keys as the code writes them: the number of the user, in decimal, is the last field.\<close>

definition canonical :: "string \<Rightarrow> (string \<rightharpoonup> string) \<Rightarrow> bool" where
  "canonical udid m \<longleftrightarrow> (\<forall>key. local_key udid key \<and> m key \<noteq> None \<and> GetUserIdFromDbKey key \<noteq> DEFAULT_USER_ID \<and>
     RemoveUserIdFromDbKey key \<noteq> [] \<longrightarrow>
     key = RemoveUserIdFromDbKey key @ SEPARATOR @ to_string (GetUserIdFromDbKey key))"

lemma user_copy_iff:
  assumes "canonical udid m"
  shows "user_copy udid u m k = Some v \<longleftrightarrow> u \<noteq> DEFAULT_USER_ID \<and> k \<noteq> [] \<and>
    (\<exists>key. local_key udid key \<and> m key = Some v \<and> GetUserIdFromDbKey key = u \<and> RemoveUserIdFromDbKey key = k)"
    (is "?l \<longleftrightarrow> ?r")
proof
  show "?l \<Longrightarrow> ?r" by (auto simp: user_copy_def Let_def split: if_splits)
next
  assume r: ?r
  then obtain key where key: "local_key udid key" "m key = Some v" "GetUserIdFromDbKey key = u" "RemoveUserIdFromDbKey key = k"
    by blast
  with r assms have "key = k @ SEPARATOR @ to_string u" unfolding canonical_def by auto
  with key r show ?l by (simp add: user_copy_def)
qed

lemma without_user_keys:
  "set (fst (without_user L del)) = set del - {RemoveUserIdFromDbKey key |key. key \<in> fst ` set L \<and> RemoveUserIdFromDbKey key \<noteq> []}"
proof -
  have "set (fst (fold (\<lambda>(key, val) (lastKeys, cur). let k = RemoveUserIdFromDbKey key in
        if k \<noteq> [] then (removeAll k lastKeys, omap_put k val cur) else (lastKeys, cur)) L (del, new))) =
      set del - {RemoveUserIdFromDbKey key |key. key \<in> fst ` set L \<and> RemoveUserIdFromDbKey key \<noteq> []}" for new
  proof (induction L arbitrary: del new)
    case (Cons e L)
    obtain key v where e: "e = (key, v)" by fastforce
    show ?case
    proof (cases "RemoveUserIdFromDbKey key = []")
      case True
      then show ?thesis using Cons by (auto simp: e)
    next
      case False
      then show ?thesis using Cons [of "removeAll (RemoveUserIdFromDbKey key) del"] by (auto simp: e Let_def)
    qed
  qed simp
  then show ?thesis by (simp add: without_user_def)
qed

lemma without_user_new:
  "snd (without_user L del) = put_all (map (\<lambda>(key, v). (RemoveUserIdFromDbKey key, v))
     (filter (\<lambda>(key, v). RemoveUserIdFromDbKey key \<noteq> []) L)) []"
proof -
  have "snd (fold (\<lambda>(key, val) (lastKeys, cur). let k = RemoveUserIdFromDbKey key in
        if k \<noteq> [] then (removeAll k lastKeys, omap_put k val cur) else (lastKeys, cur)) L (del, new)) =
      put_all (map (\<lambda>(key, v). (RemoveUserIdFromDbKey key, v)) (filter (\<lambda>(key, v). RemoveUserIdFromDbKey key \<noteq> []) L)) new" for new
    by (induction L arbitrary: del new) (auto simp: Let_def put_all_def)
  then show ?thesis by (simp add: without_user_def)
qed

text \<open>What \<open>OnUserChange\<close> computes from the local entries \<open>M\<close> of a store \<open>m\<close>.\<close>

lemma copies_new:
  assumes "canonical udid m" "omap_wf M" "map_of M = keep_keys (local_key udid) m"
  shows "map_of (snd (without_user (cur_user_profiles u M) del)) = user_copy udid u m"
proof -
  let ?L = "filter (\<lambda>(key, v). RemoveUserIdFromDbKey key \<noteq> []) (cur_user_profiles u M)"
  have M: "(key, v) \<in> set M \<longleftrightarrow> local_key udid key \<and> m key = Some v" for key v
    using map_of_eq_Some_iff [OF omap_wf_distinct [OF assms(2)], of key v] assms(3)
    by (auto simp: keep_keys_def split: if_splits)
  have L: "(key, v) \<in> set ?L \<longleftrightarrow> u \<noteq> DEFAULT_USER_ID \<and> RemoveUserIdFromDbKey key \<noteq> [] \<and> local_key udid key \<and>
      m key = Some v \<and> GetUserIdFromDbKey key = u" for key v
    by (auto simp: cur_user_profiles_def M)
  have key: "key = RemoveUserIdFromDbKey key @ SEPARATOR @ to_string u" if "key \<in> fst ` set ?L" for key
  proof -
    from that obtain v where "(key, v) \<in> set ?L" by auto
    with assms(1) show ?thesis unfolding L canonical_def by auto
  qed
  have "distinct (map fst ?L)"
    using omap_wf_distinct [OF assms(2)] by (auto simp: cur_user_profiles_def distinct_map_filter)
  moreover have "inj_on RemoveUserIdFromDbKey (fst ` set ?L)"
    by (rule inj_onI) (metis key)
  ultimately have "distinct (map RemoveUserIdFromDbKey (map fst ?L))"
    unfolding distinct_map [of RemoveUserIdFromDbKey "map fst ?L"] set_map by blast
  moreover have "map fst (map (\<lambda>(key, v). (RemoveUserIdFromDbKey key, v)) L) = map RemoveUserIdFromDbKey (map fst L)"
    for L :: "(string, string) omap"
    by (induction L) auto
  ultimately have dist: "distinct (map fst (map (\<lambda>(key, v). (RemoveUserIdFromDbKey key, v)) ?L))" by (simp only:)
  have item: "(k, v) \<in> set (map (\<lambda>(key, v). (RemoveUserIdFromDbKey key, v)) ?L) \<longleftrightarrow>
      (\<exists>key. (key, v) \<in> set ?L \<and> RemoveUserIdFromDbKey key = k)" for k v
    unfolding set_map by force
  have "map_of (snd (without_user (cur_user_profiles u M) del)) k = Some v \<longleftrightarrow> user_copy udid u m k = Some v" for k v
  proof -
    have "map_of (snd (without_user (cur_user_profiles u M) del)) k = Some v \<longleftrightarrow>
        (\<exists>key. (key, v) \<in> set ?L \<and> RemoveUserIdFromDbKey key = k)"
      unfolding without_user_new map_of_put_all [OF dist] item [symmetric]
      using map_of_eq_Some_iff [OF dist, of k v] by simp
    then show ?thesis unfolding L user_copy_iff [OF assms(1)] by blast
  qed
  then show ?thesis by (metis ext not_Some_eq option.exhaust)
qed

lemma last_keys:
  assumes "canonical udid m" "omap_wf M" "map_of M = keep_keys (local_key udid) m"
  shows "k \<in> set (last_user_keys u M) \<longleftrightarrow> user_copy udid u m k \<noteq> None"
proof -
  have "map_of M key \<noteq> None \<longleftrightarrow> key \<in> fst ` set M" for key by (simp add: map_of_eq_None_iff)
  then have M: "key \<in> fst ` set M \<longleftrightarrow> local_key udid key \<and> m key \<noteq> None" for key
    unfolding assms(3) keep_keys_def by (metis (full_types))
  have "k \<in> set (last_user_keys u M) \<longleftrightarrow> k \<noteq> [] \<and> (\<exists>key\<in>fst ` set M. GetUserIdFromDbKey key \<noteq> DEFAULT_USER_ID \<and>
      GetUserIdFromDbKey key = u \<and> RemoveUserIdFromDbKey key = k)"
    unfolding last_user_keys_def by auto
  also have "\<dots> \<longleftrightarrow> (\<exists>v. u \<noteq> DEFAULT_USER_ID \<and> k \<noteq> [] \<and>
      (\<exists>key. local_key udid key \<and> m key = Some v \<and> GetUserIdFromDbKey key = u \<and> RemoveUserIdFromDbKey key = k))"
    unfolding M Bex_def by blast
  also have "\<dots> \<longleftrightarrow> (\<exists>v. user_copy udid u m k = Some v)" unfolding user_copy_iff [OF assms(1)] by blast
  finally show ?thesis by simp
qed

lemma copies_left:
  assumes "canonical udid m" "omap_wf M" "map_of M = keep_keys (local_key udid) m"
    and "without_user (cur_user_profiles cur M) (last_user_keys old M) = (del, new)"
  shows "k \<in> set del \<longleftrightarrow> user_copy udid old m k \<noteq> None \<and> user_copy udid cur m k = None"
proof -
  have M: "(key, v) \<in> set M \<longleftrightarrow> local_key udid key \<and> m key = Some v" for key v
    using map_of_eq_Some_iff [OF omap_wf_distinct [OF assms(2)], of key v] assms(3)
    by (auto simp: keep_keys_def split: if_splits)
  have "set del = set (last_user_keys old M) -
      {RemoveUserIdFromDbKey key |key. key \<in> fst ` set (cur_user_profiles cur M) \<and> RemoveUserIdFromDbKey key \<noteq> []}"
    using without_user_keys [of "cur_user_profiles cur M" "last_user_keys old M"] assms(4) by simp
  moreover have "k \<in> {RemoveUserIdFromDbKey key |key. key \<in> fst ` set (cur_user_profiles cur M) \<and> RemoveUserIdFromDbKey key \<noteq> []}
      \<longleftrightarrow> (\<exists>v. user_copy udid cur m k = Some v)"
    unfolding user_copy_iff [OF assms(1)] cur_user_profiles_def by (force simp: M)
  ultimately show ?thesis using last_keys [OF assms(1-3), of k old] by simp
qed


section \<open>Removed users\<close>

text \<open>C33: Removing a user deletes exactly the local entries that carry its number, when the deletion succeeds.
  When the device has no entry of one of the three kinds, the call fails and the data of the user
  stays.\<close>

theorem removed_user_effect:
  assumes "ikv_reader ik db" "st_kv (dm_stores s) = Some a" "MIN_USER_ID \<le> u" "u \<le> MAX_USER_ID" "de_localUdid E \<noteq> []"
    and "DeleteRemovedUserData E ik u s = (r, s')"
  shows "(r = DP_SUCCESS \<longrightarrow> (\<exists>a'. st_kv (dm_stores s') = Some a' \<and>
      db a' = keep_keys (\<lambda>k. \<not> (local_key (de_localUdid E) k \<and> GetUserIdFromDbKey k = u)) (db a))) \<and>
    (\<not> (\<forall>p\<in>{DEV_PREFIX, SVR_PREFIX, CHAR_PREFIX}. has_entries (db a) (p @ SEPARATOR @ de_localUdid E)) \<longrightarrow>
      r = DP_GET_KV_DB_FAIL \<and> s' = s)"
proof (intro conjI impI)
  assume "\<not> (\<forall>p\<in>{DEV_PREFIX, SVR_PREFIX, CHAR_PREFIX}. has_entries (db a) (p @ SEPARATOR @ de_localUdid E))"
  with ikv_reader.no_data [OF assms(1,5,2)] have "fst (GetProfilesByKeyPrefix ik (de_localUdid E) [] s) = DP_GET_KV_DB_FAIL"
    by auto
  then show "r = DP_GET_KV_DB_FAIL" "s' = s"
    using assms(3-6) by (auto simp: DeleteRemovedUserData_def Let_def case_prod_beta)
next
  assume r: "r = DP_SUCCESS"
  obtain ret M where read: "GetProfilesByKeyPrefix ik (de_localUdid E) [] s = (ret, M)" by fastforce
  with r assms(3-6) have ret: "ret = DP_SUCCESS"
    by (auto simp: DeleteRemovedUserData_def Let_def split: if_splits)
  from ikv_reader.local_data [OF assms(1) read [unfolded ret]] assms(2) have M: "omap_wf M"
    "map_of M = keep_keys (local_key (de_localUdid E)) (db a)" by auto
  define del where "del = filter (\<lambda>key. u = GetUserIdFromDbKey key) (map fst M)"
  have del: "k \<in> set del \<longleftrightarrow> local_key (de_localUdid E) k \<and> db a k \<noteq> None \<and> GetUserIdFromDbKey k = u" for k
  proof -
    have "k \<in> set (map fst M) \<longleftrightarrow> map_of M k \<noteq> None" by (simp add: map_of_eq_None_iff)
    then show ?thesis unfolding M(2) del_def by (auto simp: keep_keys_def)
  qed
  have call: "(r, s') = (if del = [] then (DP_SUCCESS, s)
      else let (delRet, a) = ik_DeleteBatch ik del a in (delRet, dm_set_store a s))"
    using assms(3-5) unfolding assms(6) [symmetric] DeleteRemovedUserData_def del_def
    by (simp add: read ret assms(2))
  show "\<exists>a'. st_kv (dm_stores s') = Some a' \<and>
      db a' = keep_keys (\<lambda>k. \<not> (local_key (de_localUdid E) k \<and> GetUserIdFromDbKey k = u)) (db a)"
  proof (cases "del = []")
    case True
    then have s': "s' = s" using call by simp
    have kept: "keep_keys (\<lambda>k. \<not> (local_key (de_localUdid E) k \<and> GetUserIdFromDbKey k = u)) (db a) = db a"
    proof -
      have none: "\<not> (local_key (de_localUdid E) k \<and> db a k \<noteq> None \<and> GetUserIdFromDbKey k = u)" for k
        using del [of k] True by simp
      show ?thesis
      proof (rule ext)
        fix k
        show "keep_keys (\<lambda>k. \<not> (local_key (de_localUdid E) k \<and> GetUserIdFromDbKey k = u)) (db a) k = db a k"
          using none [of k] by (cases "db a k") (auto simp: keep_keys_def)
      qed
    qed
    show ?thesis unfolding s' kept by (intro exI [of _ a] conjI assms(2) refl)
  next
    case False
    obtain d a' where d: "ik_DeleteBatch ik del a = (d, a')" by fastforce
    with False r call have "d = DP_SUCCESS" "s' = dm_set_store a' s" by auto
    moreover have "db a' = keep_keys (\<lambda>k. k \<notin> set del) (db a)"
      using ikv_adapter.delete_batch [OF ikv_reader.axioms(1) [OF assms(1)] d] \<open>d = DP_SUCCESS\<close> by simp
    moreover have "keep_keys (\<lambda>k. k \<notin> set del) (db a) =
        keep_keys (\<lambda>k. \<not> (local_key (de_localUdid E) k \<and> GetUserIdFromDbKey k = u)) (db a)"
      unfolding keep_keys_def del by (intro ext) (simp, blast?)
    ultimately show ?thesis by (simp add: dm_set_store_def)
  qed
qed

section \<open>A store with two users\<close>

definition demo_dm_env :: "'a \<Rightarrow> 'a DmEnv" where
  "demo_dm_env a = \<lparr>de_localUdid = ''u'', de_localUuid = ''uuid'', de_systemUdid = ''u'', de_newStore = a,
     de_StoreInit = (\<lambda>a. (DP_SUCCESS, a)), de_ForegroundOsAccount = (DP_SUCCESS, 100), de_OsAccountDomain = (\<lambda>_. None),
     de_callerProcName = ''caller'', de_eventHandler = True, de_PostTask = True, de_dlopen = False, de_noload = False,
     de_dlsym = False, de_create = False, de_Initialize = DP_SUCCESS, de_SyncProfile = (\<lambda>_ _ _. DP_SUCCESS),
     de_cast = (\<lambda>_. True), de_IsDeviceE2ESync = False, de_IsEnterpriseSpaceEnable = False, de_IsP2p = (\<lambda>_. True),
     de_GetAccessControlProfile = (\<lambda>_. (DP_SUCCESS, []))\<rparr>"

definition demo_two_users :: "(string, string) umap" where
  "demo_two_users = [(''dev#u#n'', ''x''), (''svr#u#s#t'', ''old''), (''svr#u#s#t#100'', ''old''),
     (''svr#u#s#t#101'', ''new''), (''char#u#s#c#v'', ''p''), (''char#u#s#c#v#100'', ''p'')]"

definition demo_dm :: "'a \<Rightarrow> 'w SwitchAdapter \<Rightarrow> ('a, 'w) DeviceProfileManager" where
  "demo_dm a w = \<lparr>dm_stores = \<lparr>st_kv = Some a, st_cache = ProfileCache_new, st_switch = w\<rparr>, dm_isFirst = False,
     dm_putTempCache = [], dm_isAdapterSoLoaded = False, dm_dpSyncAdapter = False, dm_foregroundUserId = 100, dm_log = []\<rparr>"

lemma demo_users:
  "GetUserIdFromDbKey ''dev#u#n'' = DEFAULT_USER_ID" "GetUserIdFromDbKey ''svr#u#s#t'' = DEFAULT_USER_ID"
  "GetUserIdFromDbKey ''svr#u#s#t#100'' = 100" "GetUserIdFromDbKey ''svr#u#s#t#101'' = 101"
  "GetUserIdFromDbKey ''char#u#s#c#v'' = DEFAULT_USER_ID" "GetUserIdFromDbKey ''char#u#s#c#v#100'' = 100"
  by code_simp+

lemma demo_read:
  "GetProfilesByKeyPrefix (KVAdapter_ops mem_store) ''u'' [] (demo_dm (mem_adapter demo_two_users) w) =
    (DP_SUCCESS, omap_of demo_two_users)"
  by (simp add: GetProfilesByKeyPrefix_def demo_dm_def KVAdapter_ops_def KVAdapter_GetByPrefix_def mem_adapter_def
    mem_store_def demo_two_users_def put_all_def omap_of_def omap_put.simps clearjunk.simps)

lemma demo_batches:
  "without_user (cur_user_profiles 101 (omap_of demo_two_users)) (last_user_keys 100 (omap_of demo_two_users)) =
    ([''char#u#s#c#v''], [(''svr#u#s#t'', ''new'')])"
  by code_simp

lemma demo_removed:
  "RemoveUserIdFromDbKey ''svr#u#s#t#100'' = ''svr#u#s#t''" "RemoveUserIdFromDbKey ''svr#u#s#t#101'' = ''svr#u#s#t''"
  "RemoveUserIdFromDbKey ''char#u#s#c#v#100'' = ''char#u#s#c#v''" "to_string 100 = ''100''" "to_string 101 = ''101''"
  by code_simp+

lemma demo_canonical: "canonical ''u'' (map_of demo_two_users)"
proof -
  have "key \<in> set (map fst demo_two_users)" if "map_of demo_two_users key \<noteq> None" for key
    using that by (simp add: map_of_eq_None_iff)
  then show ?thesis
    unfolding canonical_def by (auto simp: demo_two_users_def demo_users demo_removed)
qed

lemma demo_copies:
  "user_copy ''u'' 101 (map_of demo_two_users) ''svr#u#s#t'' = Some ''new''"
  "user_copy ''u'' 101 (map_of demo_two_users) ''char#u#s#c#v'' = None"
  "user_copy ''u'' 100 (map_of demo_two_users) ''char#u#s#c#v'' = Some ''p''"
  "user_copy ''u'' 101 (map_of demo_two_users) ''dev#u#n'' = None"
  "user_copy ''u'' 100 (map_of demo_two_users) ''dev#u#n'' = None"
  by code_simp+

abbreviation demo_dm_state :: "((unit, (string, string) umap) KVAdapter, unit) DeviceProfileManager" where
  "demo_dm_state \<equiv> demo_dm (mem_adapter demo_two_users) \<lparr>observer = True, switchData = ()\<rparr>"


lemma removed_user_effect_witness:
  "let s' = snd (DeleteRemovedUserData (demo_dm_env (mem_adapter [])) (KVAdapter_ops mem_store) 100 demo_dm_state)
   in \<exists>a'. st_kv (dm_stores s') = Some a' \<and> kv_db map_of a' ''svr#u#s#t#100'' = None \<and>
     kv_db map_of a' ''svr#u#s#t#101'' = Some ''new'' \<and> kv_db map_of a' ''svr#u#s#t'' = Some ''old''"
proof -
  let ?E = "demo_dm_env (mem_adapter [])" and ?ik = "KVAdapter_ops mem_store"
  have u: "de_localUdid ?E = ''u''" and st: "st_kv (dm_stores demo_dm_state) = Some (mem_adapter demo_two_users)"
    and db: "kv_db map_of (mem_adapter demo_two_users) = map_of demo_two_users"
    by (simp_all add: demo_dm_env_def demo_dm_def kv_db_def mem_adapter_def)
  have keys: "filter (\<lambda>key. GetUserIdFromDbKey key = 100) (map fst (omap_of demo_two_users)) =
      [''char#u#s#c#v#100'', ''svr#u#s#t#100'']"
    by code_simp
  obtain r s' where run: "DeleteRemovedUserData ?E ?ik 100 demo_dm_state = (r, s')" by fastforce
  moreover have "r = DP_SUCCESS"
    using run unfolding DeleteRemovedUserData_def u demo_read
    by (simp add: eq_commute [of 100] keys st) (auto simp: KVAdapter_ops_def KVAdapter_DeleteBatch_def mem_adapter_def delKeyBatches.simps
        mem_store_def Let_def split: if_splits prod.splits)
  moreover have "local_key ''u'' ''svr#u#s#t#100''" by (simp add: local_key_def)
  ultimately show ?thesis
    using removed_user_effect [OF mem_promises st _ _ _ run, unfolded u db]
    by (auto simp: keep_keys_def demo_users) (simp_all add: demo_two_users_def)
qed

end
