(* ===== verification/ServiceInfos.thy ===== *)
theory ServiceInfos
  imports TrustOps Permission IpcTypes KvAdapter
begin

text \<open>
  The service infos: \<open>ServiceInfoManager\<close> (\<open>serviceinfo_manager/service_info_manager.cpp\<close>) over its
  adapter \<open>ServiceInfoKvAdapter\<close> (\<open>persistenceadapter/kvadapter/service_info_kv_adapter.cpp\<close>), the texts
  they are stored as (\<open>ProfileUtils::ServiceInfoToEntries\<close>), and \<open>SubscribeServiceInfoManager\<close>, which tells
  the subscribers of a change. The infos of all devices are in one store; those of the local device are
  also put in a second store that the data service synchronises. The parser cJSON is not part of the
  repository: its functions are the record \<open>CJsonDoc\<close>, an argument of the operations. The mutexes make
  each access to a store atomic.
\<close>

section \<open>The adapter\<close>

record ('m, 's) ServiceInfoKvAdapter =
  sik_kvStorePtr :: "'s option"
  sik_kvDataMgr :: 'm
  sik_deathRecipient :: bool
  sik_isInited :: bool

definition Sik_Put :: "'s SingleKvStore \<Rightarrow> string \<Rightarrow> string \<Rightarrow> ('m, 's) ServiceInfoKvAdapter \<Rightarrow>
    dp_ret \<times> ('m, 's) ServiceInfoKvAdapter" where
  "Sik_Put ks key val a =
     (if key = [] \<or> length key > MAX_STRING_LEN \<or> val = [] \<or> length val > MAX_STRING_LEN
      then (DP_INVALID_PARAMS, a)
      else case sik_kvStorePtr a of
        None \<Rightarrow> (DP_KV_DB_PTR_NULL, a)
      | Some s \<Rightarrow>
          let (status, s) = ks_Put ks s key val; a = a\<lparr>sik_kvStorePtr := Some s\<rparr> in
          if status \<noteq> KV_SUCCESS then (DP_PUT_KV_DB_FAIL, a) else (DP_SUCCESS, a))"

definition Sik_Get :: "'s SingleKvStore \<Rightarrow> string \<Rightarrow> string \<Rightarrow> ('m, 's) ServiceInfoKvAdapter \<Rightarrow> dp_ret \<times> string" where
  "Sik_Get ks key val a =
     (case sik_kvStorePtr a of
        None \<Rightarrow> (DP_KV_DB_PTR_NULL, val)
      | Some s \<Rightarrow>
          let (status, kvValue) = ks_Get ks s key in
          if status \<noteq> KV_SUCCESS then (DP_GET_KV_DB_FAIL, val) else (DP_SUCCESS, kvValue))"

definition Sik_Delete :: "'s SingleKvStore \<Rightarrow> string \<Rightarrow> ('m, 's) ServiceInfoKvAdapter \<Rightarrow>
    dp_ret \<times> ('m, 's) ServiceInfoKvAdapter" where
  "Sik_Delete ks key a =
     (case sik_kvStorePtr a of
        None \<Rightarrow> (DP_KV_DB_PTR_NULL, a)
      | Some s \<Rightarrow>
          let (status, s) = ks_Delete ks s key; a = a\<lparr>sik_kvStorePtr := Some s\<rparr> in
          if status \<noteq> KV_SUCCESS then (DP_DEL_KV_DB_FAIL, a) else (DP_SUCCESS, a))"

definition Sik_DeleteBatch :: "'s SingleKvStore \<Rightarrow> string list \<Rightarrow> ('m, 's) ServiceInfoKvAdapter \<Rightarrow>
    dp_ret \<times> ('m, 's) ServiceInfoKvAdapter" where
  "Sik_DeleteBatch ks keys a =
     (if keys = [] \<or> length keys > MAX_PROFILE_SIZE then (DP_INVALID_PARAMS, a)
      else case sik_kvStorePtr a of
        None \<Rightarrow> (DP_KV_DB_PTR_NULL, a)
      | Some s \<Rightarrow>
          let (ret, s) = delete_batches ks (delKeyBatches keys 0) s in
          (ret, a\<lparr>sik_kvStorePtr := Some s\<rparr>))"

definition Sik_PutBatch :: "'s SingleKvStore \<Rightarrow> (string, string) omap \<Rightarrow> ('m, 's) ServiceInfoKvAdapter \<Rightarrow>
    dp_ret \<times> ('m, 's) ServiceInfoKvAdapter" where
  "Sik_PutBatch ks values a =
     (if values = [] \<or> length values > MAX_PROFILE_SIZE then (DP_INVALID_PARAMS, a)
      else case sik_kvStorePtr a of
        None \<Rightarrow> (DP_KV_DB_PTR_NULL, a)
      | Some s \<Rightarrow>
          let (status, s) = ks_PutBatch ks s values; a = a\<lparr>sik_kvStorePtr := Some s\<rparr> in
          if status \<noteq> KV_SUCCESS then (DP_PUT_KV_DB_FAIL, a) else (DP_SUCCESS, a))"

text \<open>Unlike \<open>KVAdapter\<close>, a prefix without entries has its own result.\<close>

definition Sik_GetByPrefix :: "'s SingleKvStore \<Rightarrow> string \<Rightarrow> (string, string) omap \<Rightarrow> ('m, 's) ServiceInfoKvAdapter \<Rightarrow>
    dp_ret \<times> (string, string) omap" where
  "Sik_GetByPrefix ks keyPrefix values a =
     (case sik_kvStorePtr a of
        None \<Rightarrow> (DP_KV_DB_PTR_NULL, values)
      | Some s \<Rightarrow>
          let (status, allEntries) = ks_GetEntries ks s keyPrefix in
          if status \<noteq> KV_SUCCESS then (DP_GET_KV_DB_FAIL, values)
          else if allEntries = [] then (DP_NOT_FIND_DATA, values)
          else if length allEntries > MAX_DB_SIZE then (DP_INVALID_PARAMS, values)
          else (DP_SUCCESS, put_all allEntries values))"

definition Sik_DeleteByPrefix :: "string \<Rightarrow> ('m, 's) ServiceInfoKvAdapter \<Rightarrow> dp_ret \<times> ('m, 's) ServiceInfoKvAdapter" where
  "Sik_DeleteByPrefix keyPrefix a = (DP_SUCCESS, a)"

definition Sik_Sync :: "string list \<Rightarrow> int \<Rightarrow> ('m, 's) ServiceInfoKvAdapter \<Rightarrow> dp_ret \<times> ('m, 's) ServiceInfoKvAdapter" where
  "Sik_Sync deviceList syncMode a = (DP_SUCCESS, a)"

definition Sik_GetDeviceEntries :: "string \<Rightarrow> (string, string) omap \<Rightarrow> ('m, 's) ServiceInfoKvAdapter \<Rightarrow>
    dp_ret \<times> (string, string) omap" where
  "Sik_GetDeviceEntries udid values a = (DP_SUCCESS, values)"

definition Sik_RemoveDeviceData :: "string \<Rightarrow> ('m, 's) ServiceInfoKvAdapter \<Rightarrow> dp_ret \<times> ('m, 's) ServiceInfoKvAdapter" where
  "Sik_RemoveDeviceData uuid a = (DP_SUCCESS, a)"

definition ServiceInfoKvAdapter_ops :: "'s SingleKvStore \<Rightarrow> ('m, 's) ServiceInfoKvAdapter IKVAdapter" where
  "ServiceInfoKvAdapter_ops ks =
     \<lparr>ik_Put = Sik_Put ks, ik_PutBatch = Sik_PutBatch ks, ik_Delete = Sik_Delete ks,
      ik_DeleteByPrefix = Sik_DeleteByPrefix, ik_Get = Sik_Get ks, ik_GetByPrefix = Sik_GetByPrefix ks,
      ik_Sync = Sik_Sync, ik_GetDeviceEntries = Sik_GetDeviceEntries,
      ik_DeleteBatch = Sik_DeleteBatch ks, ik_RemoveDeviceData = Sik_RemoveDeviceData\<rparr>"

definition Sik_GetKvStorePtr :: "('m, 's) DistributedKvDataManager \<Rightarrow> ('m, 's) ServiceInfoKvAdapter \<Rightarrow>
    kv_status \<times> ('m, 's) ServiceInfoKvAdapter" where
  "Sik_GetKvStorePtr km a =
     (let (status, ptr, m) = km_GetSingleKvStore km (sik_kvDataMgr a);
          a = a\<lparr>sik_kvStorePtr := ptr, sik_kvDataMgr := m\<rparr> in
      (if status = KV_SUCCESS \<and> ptr = None then KV_ERROR else status, a))"

definition Sik_RegisterKvStoreDeathListener where
  "Sik_RegisterKvStoreDeathListener km a =
     (DP_SUCCESS, a\<lparr>sik_kvDataMgr := km_RegisterDeathRecipient km (sik_kvDataMgr a) (sik_deathRecipient a)\<rparr>)"

definition Sik_UnregisterKvStoreDeathListener where
  "Sik_UnregisterKvStoreDeathListener km a =
     (DP_SUCCESS, a\<lparr>sik_kvDataMgr := km_UnRegisterDeathRecipient km (sik_kvDataMgr a) (sik_deathRecipient a)\<rparr>)"

fun Sik_Init_loop :: "('m, 's) DistributedKvDataManager \<Rightarrow> nat \<Rightarrow> kv_status \<Rightarrow> ('m, 's) ServiceInfoKvAdapter \<Rightarrow>
    dp_ret \<times> ('m, 's) ServiceInfoKvAdapter" where
  "Sik_Init_loop km 0 status a =
     (if sik_kvStorePtr a = None then (DP_KV_DB_PTR_NULL, a)
      else if status \<noteq> KV_SUCCESS then (DP_KV_DB_PTR_NULL, a)
      else (DP_SUCCESS, a\<lparr>sik_isInited := True\<rparr>))"
| "Sik_Init_loop km (Suc tryTimes) status a =
     (let (status, a) = Sik_GetKvStorePtr km a in
      if status = KV_SUCCESS
      then let a = snd (Sik_RegisterKvStoreDeathListener km a) in (DP_SUCCESS, a\<lparr>sik_isInited := True\<rparr>)
      else Sik_Init_loop km tryTimes status a)"

definition Sik_Init :: "('m, 's) DistributedKvDataManager \<Rightarrow> ('m, 's) ServiceInfoKvAdapter \<Rightarrow>
    dp_ret \<times> ('m, 's) ServiceInfoKvAdapter" where
  "Sik_Init km a = (if sik_isInited a then (DP_SUCCESS, a) else Sik_Init_loop km MAX_INIT_RETRY_TIMES KV_SUCCESS a)"

definition Sik_UnInit :: "('m, 's) DistributedKvDataManager \<Rightarrow> ('m, 's) ServiceInfoKvAdapter \<Rightarrow>
    dp_ret \<times> ('m, 's) ServiceInfoKvAdapter" where
  "Sik_UnInit km a =
     (if sik_isInited a
      then let a = snd (Sik_UnregisterKvStoreDeathListener km a) in
        if sik_kvStorePtr a = None then (DP_KV_DB_PTR_NULL, a\<lparr>sik_isInited := False\<rparr>)
        else (DP_SUCCESS, a\<lparr>sik_kvStorePtr := None, sik_isInited := False\<rparr>)
      else (DP_SUCCESS, a))"

text \<open>The task of \<open>OnRemoteDied\<close> runs \<open>ReInit\<close>.\<close>

definition Sik_ReInit where "Sik_ReInit km a = Sik_Init km (snd (Sik_UnInit km a))"

section \<open>Infos as texts\<close>

text \<open>A function of the C library sees a string up to its first NUL. \<open>cj_has_valuestring\<close>: the pointer is
  set; \<open>cj_AddStringToObject\<close> and \<open>cj_AddNumberToObject\<close> change the object they are given.\<close>

definition c_str :: "string \<Rightarrow> string" where
  "c_str s = takeWhile (\<lambda>c. c \<noteq> CHR 0x00) s"

record 'j CJsonDoc = "'j CJson" +
  cj_CreateObject :: "'j option"
  cj_AddStringToObject :: "'j \<Rightarrow> string \<Rightarrow> string \<Rightarrow> 'j"
  cj_AddNumberToObject :: "'j \<Rightarrow> string \<Rightarrow> int \<Rightarrow> 'j"
  cj_PrintUnformatted :: "'j \<Rightarrow> string option"
  cj_has_valuestring :: "'j \<Rightarrow> bool"
  cj_IsNumber :: "'j \<Rightarrow> bool"
  cj_valueint :: "'j \<Rightarrow> int"

abbreviation "UD_ID \<equiv> ''udid''"
abbreviation "USER_ID_name \<equiv> ''userId''"
abbreviation "SERVICEID \<equiv> ''serviceId''"
abbreviation "DISPLAYID \<equiv> ''displayId''"
abbreviation "SERVICE_OWNER_TOKEN_ID \<equiv> ''serviceOwnerTokenId''"
abbreviation "SERVICE_OWNER_PKG_NAME \<equiv> ''serviceOwnerPkgName''"
abbreviation "SERVICE_REGISTER_TOKEN_ID \<equiv> ''serviceRegisterTokenId''"
abbreviation "TIME_STAMP \<equiv> ''timeStamp''"
abbreviation "PUBLISH_STATE \<equiv> ''publishState''"
abbreviation "SERVICE_TYPE_name \<equiv> ''serviceType''"
abbreviation "SERVICE_NAME_name \<equiv> ''serviceName''"
abbreviation "SERVICE_DISPLAY_NAME \<equiv> ''serviceDisplayName''"
abbreviation "CUSTOM_DATA \<equiv> ''customData''"
abbreviation "SERVICE_CODE \<equiv> ''serviceCode''"
abbreviation "DATA_LEN \<equiv> ''dataLen''"
abbreviation "EXTRA_DATA_name \<equiv> ''extraData''"
abbreviation "VERSION_name \<equiv> ''version''"
abbreviation "DESCRIPTION_name \<equiv> ''description''"
abbreviation "SERINFO_PREFIX \<equiv> ''serInfo''"
abbreviation "DEFAULT_SERVICE_ID \<equiv> (-1 :: int)"

definition IsSvrInfoValid :: "ServiceInfo \<Rightarrow> bool" where
  "IsSvrInfoValid i =
     (if svi_serviceOwnerPkgName i = [] \<or> svi_serviceType i = [] \<or> svi_serviceName i = [] \<or>
         svi_serviceDisplayName i = [] \<or> svi_customData i = [] \<or> svi_serviceCode i = [] \<or> svi_version i = [] \<or>
         svi_description i = [] then False
      else if svi_userId i = DEFAULT_USER_ID \<or> svi_displayId i = -1 \<or> svi_serviceOwnerTokenId i = -1 \<or>
         svi_serviceRegisterTokenId i = -1 \<or> svi_serviceId i = DEFAULT_SERVICE_ID \<or> svi_timeStamp i = -1 \<or>
         svi_publishState i = -1 \<or> svi_dataLen i = 0 then False
      else IsKeyValid (svi_udid i))"

definition service_info_key :: "ServiceInfo \<Rightarrow> string" where
  "service_info_key i = SERINFO_PREFIX @ SEPARATOR @ svi_udid i @ SEPARATOR @ to_string (svi_userId i) @
     SEPARATOR @ to_string (svi_serviceId i)"

definition service_info_json :: "'j CJsonDoc \<Rightarrow> ServiceInfo \<Rightarrow> 'j \<Rightarrow> 'j" where
  "service_info_json J i jsonObj =
     (let str = \<lambda>name s j. cj_AddStringToObject J j name (c_str s);
          num = \<lambda>name n j. cj_AddNumberToObject J j name n;
          j = str UD_ID (svi_udid i) jsonObj;
          j = num USER_ID_name (svi_userId i) j;
          j = str DISPLAYID (to_string (svi_displayId i)) j;
          j = num SERVICE_OWNER_TOKEN_ID (svi_serviceOwnerTokenId i) j;
          j = str SERVICE_OWNER_PKG_NAME (svi_serviceOwnerPkgName i) j;
          j = num SERVICE_REGISTER_TOKEN_ID (svi_serviceRegisterTokenId i) j;
          j = str SERVICEID (to_string (svi_serviceId i)) j;
          j = str TIME_STAMP (to_string (svi_timeStamp i)) j;
          j = num PUBLISH_STATE (svi_publishState i) j;
          j = str SERVICE_TYPE_name (svi_serviceType i) j;
          j = str SERVICE_NAME_name (svi_serviceName i) j;
          j = str SERVICE_DISPLAY_NAME (svi_serviceDisplayName i) j;
          j = str CUSTOM_DATA (svi_customData i) j;
          j = str SERVICE_CODE (svi_serviceCode i) j;
          j = num DATA_LEN (svi_dataLen i) j;
          j = str EXTRA_DATA_name (svi_extraData i) j;
          j = str VERSION_name (svi_version i) j;
          j = str DESCRIPTION_name (svi_description i) j
      in j)"

definition ServiceInfoToEntries :: "'j CJsonDoc \<Rightarrow> ServiceInfo \<Rightarrow> (string, string) omap \<Rightarrow> dp_ret \<times> (string, string) omap" where
  "ServiceInfoToEntries J profile values =
     (let DBKey = service_info_key profile in
      case cj_CreateObject J of
        None \<Rightarrow> (DP_INVALID_PARAMS, values)
      | Some jsonObj \<Rightarrow>
          (case cj_PrintUnformatted J (service_info_json J profile jsonObj) of
            None \<Rightarrow> (DP_INVALID_PARAMS, values)
          | Some jsonStr \<Rightarrow> (DP_SUCCESS, omap_put DBKey jsonStr values)))"

section \<open>Texts as infos\<close>

record 'j ParsedJSONFields =
  udidItem :: "'j option"
  userIdItem :: "'j option"
  serviceIdItem :: "'j option"
  displayIdItem :: "'j option"
  serviceOwnerTokenIdItem :: "'j option"
  serviceOwnerPkgNameItem :: "'j option"
  serviceRegisterTokenIdItem :: "'j option"
  timeStampItem :: "'j option"
  publishStateItem :: "'j option"
  serviceTypeItem :: "'j option"
  serviceNameItem :: "'j option"
  serviceDisplayNameItem :: "'j option"
  customDataItem :: "'j option"
  serviceCodeItem :: "'j option"
  dataLenItem :: "'j option"
  extraDataItem :: "'j option"
  versionItem :: "'j option"
  descriptionItem :: "'j option"

text \<open>What an item holds; the code reads items only where the checks below found them set.\<close>

definition item_string :: "'j CJsonDoc \<Rightarrow> 'j option \<Rightarrow> string" where
  "item_string J item = (case item of None \<Rightarrow> [] | Some j \<Rightarrow> cj_valuestring J j)"

definition item_int :: "'j CJsonDoc \<Rightarrow> 'j option \<Rightarrow> int" where
  "item_int J item = (case item of None \<Rightarrow> 0 | Some j \<Rightarrow> cj_valueint J j)"

definition IsStringFieldValid :: "'j CJsonDoc \<Rightarrow> 'j option \<Rightarrow> bool" where
  "IsStringFieldValid J item = (case item of None \<Rightarrow> False | Some j \<Rightarrow> cj_has_valuestring J j)"

definition IsNumberItem :: "'j CJsonDoc \<Rightarrow> 'j option \<Rightarrow> bool" where
  "IsNumberItem J item = (case item of None \<Rightarrow> False | Some j \<Rightarrow> cj_IsNumber J j)"

definition ValidateStringFields :: "'j CJsonDoc \<Rightarrow> 'j ParsedJSONFields \<Rightarrow> bool" where
  "ValidateStringFields J f \<longleftrightarrow>
     \<not> (\<not> IsStringFieldValid J (udidItem f) \<or> \<not> IsStringFieldValid J (serviceOwnerPkgNameItem f) \<or>
        \<not> IsStringFieldValid J (serviceTypeItem f) \<or> \<not> IsStringFieldValid J (serviceNameItem f) \<or>
        \<not> IsStringFieldValid J (serviceDisplayNameItem f) \<or> \<not> IsStringFieldValid J (customDataItem f) \<or>
        \<not> IsStringFieldValid J (serviceCodeItem f) \<or> \<not> IsStringFieldValid J (extraDataItem f) \<or>
        \<not> IsStringFieldValid J (versionItem f) \<or> \<not> IsStringFieldValid J (descriptionItem f) \<or>
        \<not> IsStringFieldValid J (displayIdItem f) \<or> \<not> IsStringFieldValid J (serviceIdItem f) \<or>
        \<not> IsStringFieldValid J (timeStampItem f))"

definition ValidateNumberFields :: "'j CJsonDoc \<Rightarrow> 'j ParsedJSONFields \<Rightarrow> bool" where
  "ValidateNumberFields J f \<longleftrightarrow>
     (if userIdItem f = None \<or> serviceOwnerTokenIdItem f = None \<or> serviceRegisterTokenIdItem f = None \<or>
         publishStateItem f = None \<or> dataLenItem f = None then False
      else if \<not> IsNumberItem J (userIdItem f) \<or> \<not> IsNumberItem J (serviceOwnerTokenIdItem f) \<or>
         \<not> IsNumberItem J (serviceRegisterTokenIdItem f) \<or> \<not> IsNumberItem J (publishStateItem f) \<or>
         \<not> IsNumberItem J (dataLenItem f) then False
      else if \<not> IsNumStr (item_string J (displayIdItem f)) \<or> \<not> IsNumStr (item_string J (serviceIdItem f)) \<or>
         \<not> IsNumStr (item_string J (timeStampItem f)) then False
      else True)"

definition ParseAndValidateJSON :: "'j CJsonDoc \<Rightarrow> 'j \<Rightarrow> bool \<times> 'j ParsedJSONFields" where
  "ParseAndValidateJSON J jsonObj =
     (let item = cj_GetObjectItem J (Some jsonObj);
          fields = \<lparr>udidItem = item UD_ID, userIdItem = item USER_ID_name, serviceIdItem = item SERVICEID,
            displayIdItem = item DISPLAYID, serviceOwnerTokenIdItem = item SERVICE_OWNER_TOKEN_ID,
            serviceOwnerPkgNameItem = item SERVICE_OWNER_PKG_NAME,
            serviceRegisterTokenIdItem = item SERVICE_REGISTER_TOKEN_ID, timeStampItem = item TIME_STAMP,
            publishStateItem = item PUBLISH_STATE, serviceTypeItem = item SERVICE_TYPE_name,
            serviceNameItem = item SERVICE_NAME_name, serviceDisplayNameItem = item SERVICE_DISPLAY_NAME,
            customDataItem = item CUSTOM_DATA, serviceCodeItem = item SERVICE_CODE, dataLenItem = item DATA_LEN,
            extraDataItem = item EXTRA_DATA_name, versionItem = item VERSION_name,
            descriptionItem = item DESCRIPTION_name\<rparr>
      in if \<not> ValidateStringFields J fields then (False, fields)
         else if \<not> ValidateNumberFields J fields then (False, fields)
         else (True, fields))"

text \<open>The conversions of \<open>int\<close> to \<open>int8_t\<close> and \<open>uint32_t\<close>.\<close>

definition to_i8 :: "int \<Rightarrow> int" where
  "to_i8 i = signed_take_bit 7 i"

definition to_u32 :: "int \<Rightarrow> int" where
  "to_u32 i = take_bit 32 i"

definition FillServiceInfo :: "'j CJsonDoc \<Rightarrow> 'j ParsedJSONFields \<Rightarrow> ServiceInfo \<Rightarrow> ServiceInfo" where
  "FillServiceInfo J f i =
     i\<lparr>svi_udid := item_string J (udidItem f),
       svi_userId := item_int J (userIdItem f),
       svi_displayId := atoll (item_string J (displayIdItem f)),
       svi_serviceOwnerTokenId := item_int J (serviceOwnerTokenIdItem f),
       svi_serviceOwnerPkgName := item_string J (serviceOwnerPkgNameItem f),
       svi_serviceRegisterTokenId := item_int J (serviceRegisterTokenIdItem f),
       svi_serviceId := atoll (item_string J (serviceIdItem f)),
       svi_timeStamp := atoll (item_string J (timeStampItem f)),
       svi_publishState := to_i8 (item_int J (publishStateItem f)),
       svi_serviceType := item_string J (serviceTypeItem f),
       svi_serviceName := item_string J (serviceNameItem f),
       svi_serviceDisplayName := item_string J (serviceDisplayNameItem f),
       svi_customData := item_string J (customDataItem f),
       svi_serviceCode := item_string J (serviceCodeItem f),
       svi_dataLen := to_u32 (item_int J (dataLenItem f)),
       svi_extraData := item_string J (extraDataItem f),
       svi_version := item_string J (versionItem f),
       svi_description := item_string J (descriptionItem f)\<rparr>"

section \<open>The manager\<close>

text \<open>\<open>None\<close> is a null adapter; the environment makes and opens the adapters.\<close>

record ('a, 'b, 'j) SimEnv =
  sme_json :: "'j CJsonDoc"
  sme_localUdid :: string
  sme_local :: "'a IKVAdapter"
  sme_newLocal :: 'a
  sme_LocalInit :: "'a \<Rightarrow> dp_ret \<times> 'a"
  sme_LocalUnInit :: "'a \<Rightarrow> dp_ret \<times> 'a"
  sme_sync :: "'b IKVAdapter"
  sme_newSync :: 'b
  sme_SyncInit :: "'b \<Rightarrow> dp_ret \<times> 'b"

record ('a, 'b) ServiceInfoManager =
  serviceInfoKvAdapter :: "'a option"
  syncServiceInfoKvAdapter :: "'b option"

definition Sim_Init :: "('a, 'b, 'j) SimEnv \<Rightarrow> ('a, 'b) ServiceInfoManager \<Rightarrow> dp_ret \<times> ('a, 'b) ServiceInfoManager" where
  "Sim_Init E s =
     (let (localRet, a) = sme_LocalInit E (sme_newLocal E); s = s\<lparr>serviceInfoKvAdapter := Some a\<rparr> in
      if localRet \<noteq> DP_SUCCESS then (DP_INIT_DB_FAILED, s)
      else let (syncRet, b) = sme_SyncInit E (sme_newSync E); s = s\<lparr>syncServiceInfoKvAdapter := Some b\<rparr> in
        if syncRet \<noteq> DP_SUCCESS
        then let s = (case serviceInfoKvAdapter s of
                 None \<Rightarrow> s
               | Some a \<Rightarrow> s\<lparr>serviceInfoKvAdapter := Some (snd (sme_LocalUnInit E a))\<rparr>)
             in (DP_INIT_DB_FAILED, s\<lparr>syncServiceInfoKvAdapter := None\<rparr>)
        else (DP_SUCCESS, s))"

definition Sim_UnInit :: "('a, 'b) ServiceInfoManager \<Rightarrow> dp_ret \<times> ('a, 'b) ServiceInfoManager" where
  "Sim_UnInit s =
     (case serviceInfoKvAdapter s of
        None \<Rightarrow> (DP_KV_DB_PTR_NULL, s)
      | Some a \<Rightarrow>
          let s = s\<lparr>serviceInfoKvAdapter := None\<rparr> in
          (case syncServiceInfoKvAdapter s of
            None \<Rightarrow> (DP_KV_DB_PTR_NULL, s)
          | Some b \<Rightarrow> (DP_SUCCESS, s\<lparr>syncServiceInfoKvAdapter := None\<rparr>)))"

definition Sim_ReInit where "Sim_ReInit E s = Sim_Init E (snd (Sim_UnInit s))"

definition PutServiceInfo :: "('a, 'b, 'j) SimEnv \<Rightarrow> ServiceInfo \<Rightarrow> ('a, 'b) ServiceInfoManager \<Rightarrow>
    dp_ret \<times> ('a, 'b) ServiceInfoManager" where
  "PutServiceInfo E i s =
     (if \<not> IsSvrInfoValid i then (DP_INVALID_PARAMS, s)
      else let entries = snd (ServiceInfoToEntries (sme_json E) i []) in
        case serviceInfoKvAdapter s of
          None \<Rightarrow> (DP_KV_DB_PTR_NULL, s)
        | Some a \<Rightarrow>
            let (ret, a) = ik_PutBatch (sme_local E) entries a; s = s\<lparr>serviceInfoKvAdapter := Some a\<rparr> in
            if ret \<noteq> DP_SUCCESS then (DP_PUT_KV_DB_FAIL, s)
            else if svi_udid i \<noteq> sme_localUdid E then (DP_SUCCESS, s)
            else case syncServiceInfoKvAdapter s of
                None \<Rightarrow> (DP_KV_DB_PTR_NULL, s)
              | Some b \<Rightarrow>
                  let (ret, b) = ik_PutBatch (sme_sync E) entries b; s = s\<lparr>syncServiceInfoKvAdapter := Some b\<rparr> in
                  if ret \<noteq> DP_SUCCESS then (DP_PUT_KV_DB_FAIL, s) else (DP_SUCCESS, s))"

definition IsKeyMatch :: "string \<Rightarrow> UserInfo \<Rightarrow> bool" where
  "IsKeyMatch remaining u =
     (case split_key remaining of
        None \<Rightarrow> False
      | Some parts \<Rightarrow>
          if length parts \<noteq> 2 then False
          else if ui_userId u = DEFAULT_ID \<and> ui_serviceId u = DEFAULT_SERVICE_ID then True
          else if ui_userId u \<noteq> DEFAULT_ID \<and> ui_serviceId u = DEFAULT_SERVICE_ID
          then parts ! 0 = to_string (ui_userId u)
          else if ui_userId u = DEFAULT_ID \<and> ui_serviceId u \<noteq> DEFAULT_SERVICE_ID
          then parts ! 1 = to_string (ui_serviceId u)
          else parts ! 0 = to_string (ui_userId u) \<and> parts ! 1 = to_string (ui_serviceId u))"

definition DeleteSyncServiceInfo :: "('a, 'b, 'j) SimEnv \<Rightarrow> string list \<Rightarrow> ('a, 'b) ServiceInfoManager \<Rightarrow>
    dp_ret \<times> ('a, 'b) ServiceInfoManager" where
  "DeleteSyncServiceInfo E matchedKeys s =
     (case syncServiceInfoKvAdapter s of
        None \<Rightarrow> (DP_KV_DB_PTR_NULL, s)
      | Some b \<Rightarrow>
          let (ret, b) = ik_DeleteBatch (sme_sync E) matchedKeys b; s = s\<lparr>syncServiceInfoKvAdapter := Some b\<rparr> in
          if ret \<noteq> DP_SUCCESS then (DP_DEL_KV_DB_FAIL, s) else (DP_SUCCESS, s))"

text \<open>The adapter found in the first critical section is the one of the second: nothing runs in between.\<close>

definition DeleteServiceInfo :: "('a, 'b, 'j) SimEnv \<Rightarrow> UserInfo \<Rightarrow> ('a, 'b) ServiceInfoManager \<Rightarrow>
    dp_ret \<times> ('a, 'b) ServiceInfoManager" where
  "DeleteServiceInfo E u s =
     (if ui_udid u = [] then (DP_INVALID_PARAMS, s)
      else let pre = SERINFO_PREFIX @ SEPARATOR @ ui_udid u @ SEPARATOR in
        case serviceInfoKvAdapter s of
          None \<Rightarrow> (DP_KV_DB_PTR_NULL, s)
        | Some a \<Rightarrow>
            let (ret, entries) = ik_GetByPrefix (sme_local E) pre [] a in
            if ret \<noteq> DP_SUCCESS then (DP_GET_KV_DB_FAIL, s)
            else let matchedKeys = filter (\<lambda>key. IsKeyMatch (drop (length pre) key) u) (map fst entries);
                     (ret, a) = ik_DeleteBatch (sme_local E) matchedKeys a;
                     s = s\<lparr>serviceInfoKvAdapter := Some a\<rparr> in
              if ret \<noteq> DP_SUCCESS then (DP_DEL_KV_DB_FAIL, s)
              else if ui_udid u \<noteq> sme_localUdid E then (DP_SUCCESS, s)
              else let (ret, s) = DeleteSyncServiceInfo E matchedKeys s in
                if ret \<noteq> DP_SUCCESS then (ret, s) else (DP_SUCCESS, s))"

fun all_infos :: "'j CJsonDoc \<Rightarrow> (string \<times> string) list \<Rightarrow> ServiceInfo list \<Rightarrow> dp_ret \<times> ServiceInfo list" where
  "all_infos J [] serviceInfos = (DP_SUCCESS, serviceInfos)"
| "all_infos J ((keyStr, val) # es) serviceInfos =
     (case cj_Parse J (c_str val) of
        None \<Rightarrow> all_infos J es serviceInfos
      | Some jsonObj \<Rightarrow>
          let (ok, fields) = ParseAndValidateJSON J jsonObj in
          if \<not> ok then (DP_INVALID_PARAMS, serviceInfos)
          else all_infos J es (serviceInfos @ [FillServiceInfo J fields ServiceInfo_default]))"

definition GetAllServiceInfoList :: "('a, 'b, 'j) SimEnv \<Rightarrow> ServiceInfo list \<Rightarrow> ('a, 'b) ServiceInfoManager \<Rightarrow>
    dp_ret \<times> ServiceInfo list" where
  "GetAllServiceInfoList E serviceInfos s =
     (case serviceInfoKvAdapter s of
        None \<Rightarrow> (DP_KV_DB_PTR_NULL, serviceInfos)
      | Some a \<Rightarrow>
          let (ret, allEntries) = ik_GetByPrefix (sme_local E) [] [] a in
          if ret \<noteq> DP_SUCCESS then (ret, serviceInfos) else all_infos (sme_json E) allEntries serviceInfos)"

definition ProcessServiceInfoEntry :: "'j CJsonDoc \<Rightarrow> string \<Rightarrow> UserInfo \<Rightarrow> ServiceInfo list \<Rightarrow> dp_ret \<times> ServiceInfo list" where
  "ProcessServiceInfoEntry J val u serviceInfos =
     (case cj_Parse J (c_str val) of
        None \<Rightarrow> (DP_LOAD_JSON_FILE_FAIL, serviceInfos)
      | Some jsonObj \<Rightarrow>
          let (ok, f) = ParseAndValidateJSON J jsonObj in
          if \<not> ok then (DP_INVALID_PARAMS, serviceInfos)
          else if udidItem f \<noteq> None \<and> item_string J (udidItem f) = ui_udid u \<and>
              (ui_userId u = DEFAULT_USER_ID \<or> userIdItem f \<noteq> None \<and> item_int J (userIdItem f) = ui_userId u) \<and>
              (ui_serviceId u = DEFAULT_SERVICE_ID \<or>
               serviceIdItem f \<noteq> None \<and> atoll (item_string J (serviceIdItem f)) = ui_serviceId u)
          then (DP_SUCCESS, serviceInfos @ [FillServiceInfo J f ServiceInfo_default])
          else (DP_SUCCESS, serviceInfos))"

fun user_infos :: "'j CJsonDoc \<Rightarrow> UserInfo \<Rightarrow> (string \<times> string) list \<Rightarrow> ServiceInfo list \<Rightarrow> dp_ret \<times> ServiceInfo list" where
  "user_infos J u [] serviceInfos = (DP_SUCCESS, serviceInfos)"
| "user_infos J u ((key, val) # es) serviceInfos =
     (let (ret, serviceInfos) = ProcessServiceInfoEntry J val u serviceInfos in
      if ret \<noteq> DP_SUCCESS then (ret, serviceInfos) else user_infos J u es serviceInfos)"

definition GetServiceInfosByUserInfo :: "('a, 'b, 'j) SimEnv \<Rightarrow> UserInfo \<Rightarrow> ServiceInfo list \<Rightarrow>
    ('a, 'b) ServiceInfoManager \<Rightarrow> dp_ret \<times> ServiceInfo list" where
  "GetServiceInfosByUserInfo E u serviceInfos s =
     (if ui_udid u = [] then (DP_INVALID_PARAMS, serviceInfos)
      else case serviceInfoKvAdapter s of
        None \<Rightarrow> (DP_KV_DB_PTR_NULL, serviceInfos)
      | Some a \<Rightarrow>
          let (ret, allEntries) = ik_GetByPrefix (sme_local E) [] [] a in
          if ret \<noteq> DP_SUCCESS then (ret, serviceInfos)
          else let (ret, serviceInfos) = user_infos (sme_json E) u allEntries serviceInfos in
            if ret \<noteq> DP_SUCCESS then (ret, serviceInfos)
            else if serviceInfos = [] then (DP_NOT_FIND_DATA, serviceInfos) else (DP_SUCCESS, serviceInfos))"

definition Sim_GetEntriesByKeys :: "('a, 'b, 'j) SimEnv \<Rightarrow> string list \<Rightarrow> ('a, 'b) ServiceInfoManager \<Rightarrow>
    (string \<times> string) list" where
  "Sim_GetEntriesByKeys E keys s =
     (if keys = [] then []
      else case syncServiceInfoKvAdapter s of
        None \<Rightarrow> []
      | Some b \<Rightarrow> concat (map (\<lambda>key. let (ret, val) = ik_Get (sme_sync E) key [] b in
            if ret \<noteq> DP_SUCCESS then [] else [(key, val)]) keys))"

section \<open>Subscribers\<close>

text \<open>A callback is told from a thread of its own, which runs at once; the calls are returned in the order of
  the subscribers. Casting a listener to the interface gives a null pointer for some (\<open>cast\<close>).\<close>

datatype service_info_call = OnServiceInfoInsert nat "ServiceInfo list" | OnServiceInfoUpdate nat "ServiceInfo list"
  | OnServiceInfoDelete nat "ServiceInfo list"

record SubscribeServiceInfoManager =
  serviceInfoMap :: "(int, nat option) omap"


definition Ssi_Init :: "SubscribeServiceInfoManager \<Rightarrow> dp_ret \<times> SubscribeServiceInfoManager" where
  "Ssi_Init m = (DP_SUCCESS, m)"

definition Ssi_UnInit :: "SubscribeServiceInfoManager \<Rightarrow> dp_ret \<times> SubscribeServiceInfoManager" where
  "Ssi_UnInit m = (DP_SUCCESS, m\<lparr>serviceInfoMap := []\<rparr>)"

definition live_listeners :: "(nat \<Rightarrow> bool) \<Rightarrow> SubscribeServiceInfoManager \<Rightarrow> nat list" where
  "live_listeners cast m = concat (map (\<lambda>(saId, listener). case listener of
     None \<Rightarrow> [] | Some l \<Rightarrow> if cast l then [l] else []) (serviceInfoMap m))"

definition NotifyServiceInfoAdd where
  "NotifyServiceInfoAdd cast infos m = (DP_SUCCESS, map (\<lambda>l. OnServiceInfoInsert l infos) (live_listeners cast m))"

definition NotifyServiceInfoUpdate where
  "NotifyServiceInfoUpdate cast infos m = (DP_SUCCESS, map (\<lambda>l. OnServiceInfoUpdate l infos) (live_listeners cast m))"

definition NotifyServiceInfoDelete where
  "NotifyServiceInfoDelete cast infos m = (DP_SUCCESS, map (\<lambda>l. OnServiceInfoDelete l infos) (live_listeners cast m))"

definition SubscribeServiceInfo :: "int \<Rightarrow> nat option \<Rightarrow> SubscribeServiceInfoManager \<Rightarrow>
    dp_ret \<times> SubscribeServiceInfoManager" where
  "SubscribeServiceInfo saId listener m =
     (if length (serviceInfoMap m) > MAX_LISTENER_SIZE then (DP_EXCEED_MAX_SIZE_FAIL, m)
      else (DP_SUCCESS, m\<lparr>serviceInfoMap := omap_put saId listener (AList.delete saId (serviceInfoMap m))\<rparr>))"

end
