(* ===== verification/ChangeListener.thy ===== *)
theory ChangeListener
  imports ServiceInfos DynamicProfiles SubscribeProfile
begin

text \<open>
  What the data service reports to this service (\<open>deviceprofilemanager/listener\<close>): \<open>KvDataChangeListener\<close>
  announces changed profiles to the subscribers and applies the changes of service infos of other devices;
  \<open>SwitchUpdater\<close> turns the switch word of a device into changes of its switch profiles and keeps the words of
  devices that are not online; \<open>KvSyncCompletedListener\<close>, \<open>KvDeathRecipient\<close> and
  \<open>SyncSubscriberDeathRecipient\<close> answer the end of a synchronisation and the death of a peer. The state
  joins the managers that are called; a task that was taken and a detached thread run at once.
\<close>

section \<open>State\<close>

text \<open>\<open>ls_deliveries\<close> and \<open>ls_serviceCalls\<close> are the calls made to subscribers, in order.\<close>

record ('a, 'w, 'la, 'lb) ListenerState =
  ls_dm :: "('a, 'w) DeviceProfileManager"
  ls_sub :: SubscribeManager
  ls_sim :: "('la, 'lb) ServiceInfoManager"
  ls_ssi :: SubscribeServiceInfoManager
  ls_switchCacheMap :: "(string, 32 word) omap"
  ls_deliveries :: "delivery list"
  ls_serviceCalls :: "service_info_call list"

record ('a, 'la, 'lb, 'j) ListenerEnv =
  le_ik :: "'a IKVAdapter"
  le_sim :: "('la, 'lb, 'j) SimEnv"
  le_localUdid :: string
  le_localNetworkId :: string
  le_cast :: "nat \<Rightarrow> bool"

abbreviation "STATIC_STORE_ID \<equiv> ''dp_kv_static_store''"
abbreviation "MAX_SWITCH_CACHE_SIZE \<equiv> (1000 :: nat)"

definition ls_cache :: "('a, 'w, 'la, 'lb) ListenerState \<Rightarrow> ProfileCache" where
  "ls_cache s = st_cache (dm_stores (ls_dm s))"

definition ls_set_cache :: "ProfileCache \<Rightarrow> ('a, 'w, 'la, 'lb) ListenerState \<Rightarrow> ('a, 'w, 'la, 'lb) ListenerState" where
  "ls_set_cache c s = s\<lparr>ls_dm := (ls_dm s)\<lparr>dm_stores := (dm_stores (ls_dm s))\<lparr>st_cache := c\<rparr>\<rparr>\<rparr>"

definition ls_notify :: "ProfileType \<Rightarrow> ChangeType \<Rightarrow> string \<Rightarrow> string \<Rightarrow> ('a, 'w, 'la, 'lb) ListenerState \<Rightarrow>
    dp_ret \<times> ('a, 'w, 'la, 'lb) ListenerState" where
  "ls_notify profileType changeType dbKey dbValue s =
     (let (res, calls) = NotifyProfileChange (ls_cache s) profileType changeType dbKey dbValue (ls_sub s)
      in (res, s\<lparr>ls_deliveries := ls_deliveries s @ calls\<rparr>))"

section \<open>Changed profiles\<close>

text \<open>The two maps link a key whose name ends in the suffix to the key without it and back.\<close>

definition filter_record :: "string \<times> string \<Rightarrow>
    (string, string) omap \<times> (string, string) omap \<times> (string, string) omap \<Rightarrow>
    (string, string) omap \<times> (string, string) omap \<times> (string, string) omap" where
  "filter_record item maps =
     (let (dbKey, val) = item; (entriesMap, ohSuffix2NonMaps, non2OhSuffixMaps) = maps in
      case split_key dbKey of
        None \<Rightarrow> maps
      | Some res \<Rightarrow>
          if length res < 3 then maps
          else if res ! 0 \<noteq> DEV_PREFIX \<and> res ! 0 \<noteq> SVR_PREFIX \<and> res ! 0 \<noteq> CHAR_PREFIX then maps
          else if res ! 0 = CHAR_PREFIX \<and> length res > 4 \<and> res ! 4 = CHARACTERISTIC_KEY then maps
          else let entriesMap = omap_put dbKey val entriesMap in
            if EndsWith (res ! 2) OH_PROFILE_SUFFIX
            then (entriesMap,
                  omap_put dbKey (JoinString (res[2 := CheckAndRemoveOhSuffix (res ! 2)]) SEPARATOR) ohSuffix2NonMaps,
                  non2OhSuffixMaps)
            else if IsNeedAddOhSuffix (res ! 2) (hd res = SVR_PREFIX)
            then (entriesMap, ohSuffix2NonMaps,
                  omap_put dbKey (JoinString (res[2 := CheckAndAddOhSuffix (res ! 2) (hd res = SVR_PREFIX)]) SEPARATOR)
                    non2OhSuffixMaps)
            else (entriesMap, ohSuffix2NonMaps, non2OhSuffixMaps))"

definition FilterEntries :: "'a IKVAdapter \<Rightarrow> (string \<times> string) list \<Rightarrow> (string, string) omap \<Rightarrow> bool \<Rightarrow>
    ('a, 'w) DeviceProfileManager \<Rightarrow> (string, string) omap" where
  "FilterEntries ik records entriesMap isDelete dm =
     (let (entriesMap, ohSuffix2NonMaps, non2OhSuffixMaps) = fold filter_record records (entriesMap, [], []);
          entriesMap = fold (\<lambda>(_, nonOhSuffixKey). AList.delete nonOhSuffixKey) ohSuffix2NonMaps entriesMap;
          non2OhSuffixMaps = fold (\<lambda>(_, nonOhSuffixKey). AList.delete nonOhSuffixKey) ohSuffix2NonMaps non2OhSuffixMaps
      in if isDelete then entriesMap
         else if non2OhSuffixMaps = [] then entriesMap
         else let ohSuffix2NonMaps = fold (\<lambda>(nonOhSuffixKey, ohSuffixKey). omap_put ohSuffixKey nonOhSuffixKey)
                    non2OhSuffixMaps [];
                  ohSuffixKeys = map snd non2OhSuffixMaps;
                  entries = GetEntriesByKeys ik ohSuffixKeys dm
           in if entries = [] then entriesMap
              else fold (\<lambda>(key, _). AList.delete (case map_of ohSuffix2NonMaps key of None \<Rightarrow> [] | Some k \<Rightarrow> k))
                     entries entriesMap)"

definition announce :: "ChangeType \<Rightarrow> (string, string) omap \<Rightarrow> ('a, 'w, 'la, 'lb) ListenerState \<Rightarrow>
    ('a, 'w, 'la, 'lb) ListenerState" where
  "announce changeType entries s =
     fold (\<lambda>(dbKey, dbValue) s. snd (ls_notify (GetProfileType dbKey) changeType dbKey dbValue s)) entries s"

definition HandleAddChange where
  "HandleAddChange E insertRecords s =
     announce ADD (FilterEntries (le_ik E) insertRecords [] False (ls_dm s)) s"

definition HandleUpdateChange where
  "HandleUpdateChange E updateRecords s =
     announce UPDATE (FilterEntries (le_ik E) updateRecords [] False (ls_dm s)) s"

definition HandleDeleteChange where
  "HandleDeleteChange E deleteRecords s =
     announce DELETE (FilterEntries (le_ik E) deleteRecords [] True (ls_dm s)) s"

definition bounded_records :: "'x list \<Rightarrow> bool" where
  "bounded_records xs \<longleftrightarrow> xs \<noteq> [] \<and> length xs \<le> MAX_DB_RECORD_SIZE"

text \<open>The local changes: inserted, updated and deleted entries.\<close>

definition OnChange_local :: "('a, 'la, 'lb, 'j) ListenerEnv \<Rightarrow> string \<Rightarrow> (string \<times> string) list \<Rightarrow> (string \<times> string) list \<Rightarrow>
    (string \<times> string) list \<Rightarrow> ('a, 'w, 'la, 'lb) ListenerState \<Rightarrow> ('a, 'w, 'la, 'lb) ListenerState" where
  "OnChange_local E storeId insertKeys updateKeys deleteKeys s =
     (if storeId = STATIC_STORE_ID then s
      else let s = (if bounded_records insertKeys then HandleAddChange E insertKeys s else s);
               s = (if bounded_records updateKeys then HandleUpdateChange E updateKeys s else s)
           in (if bounded_records deleteKeys then HandleDeleteChange E deleteKeys s else s))"

section \<open>Service infos of other devices\<close>

definition ConvertRecordsToMap :: "(string \<times> string) list \<Rightarrow> (string, string) omap \<Rightarrow> (string, string) omap" where
  "ConvertRecordsToMap records entriesMap =
     fold (\<lambda>(dbKey, val) entriesMap.
       case split_key dbKey of
         Some res \<Rightarrow> if length res = 4 \<and> res ! 0 \<noteq> SERINFO_PREFIX then entriesMap else omap_put dbKey val entriesMap
       | None \<Rightarrow> omap_put dbKey val entriesMap) records entriesMap"

definition EntriesToUserInfo :: "('la, 'lb, 'j) SimEnv \<Rightarrow> string \<Rightarrow> UserInfo \<Rightarrow> ServiceInfo \<Rightarrow>
    ('la, 'lb) ServiceInfoManager \<Rightarrow> dp_ret \<times> UserInfo \<times> ServiceInfo" where
  "EntriesToUserInfo E key userInfo serviceInfo sim =
     (case split_key key of
        None \<Rightarrow> (DP_INVALID_PARAMS, userInfo, serviceInfo)
      | Some res \<Rightarrow>
          if length res \<noteq> 4 then (DP_INVALID_PARAMS, userInfo, serviceInfo)
          else let userInfo = userInfo\<lparr>ui_udid := res ! 1, ui_userId := atoi (res ! 2), ui_serviceId := atoll (res ! 3)\<rparr>;
                   (ret, serviceInfos) = GetServiceInfosByUserInfo E userInfo [] sim
            in if ret \<noteq> DP_SUCCESS then (ret, userInfo, serviceInfo)
               else if serviceInfos \<noteq> [] then (DP_SUCCESS, userInfo, hd serviceInfos)
               else (DP_SUCCESS, userInfo, serviceInfo))"

text \<open>The loops keep the manager and the infos of other devices found so far.\<close>

fun insert_or_update :: "('la, 'lb, 'j) SimEnv \<Rightarrow> string \<Rightarrow> (string \<times> string) list \<Rightarrow>
    ServiceInfo list \<times> ('la, 'lb) ServiceInfoManager \<Rightarrow> ServiceInfo list \<times> ('la, 'lb) ServiceInfoManager" where
  "insert_or_update E lu [] st = st"
| "insert_or_update E lu ((dbKey, dbValue) # es) (infos, sim) =
     (case cj_Parse (sme_json E) (c_str dbValue) of
        None \<Rightarrow> insert_or_update E lu es (infos, sim)
      | Some jsonObj \<Rightarrow>
          let (ok, fields) = ParseAndValidateJSON (sme_json E) jsonObj in
          if \<not> ok then insert_or_update E lu es (infos, sim)
          else let serviceInfo = FillServiceInfo (sme_json E) fields ServiceInfo_default;
                   (ret, sim) = PutServiceInfo E serviceInfo sim
            in insert_or_update E lu es
                 (if ret = DP_SUCCESS \<and> svi_udid serviceInfo \<noteq> lu then infos @ [serviceInfo] else infos, sim))"

definition ProcessInsertOrUpdate :: "('la, 'lb, 'j) SimEnv \<Rightarrow> string list \<Rightarrow> string \<Rightarrow> ServiceInfo list \<Rightarrow>
    ('la, 'lb) ServiceInfoManager \<Rightarrow> ServiceInfo list \<times> ('la, 'lb) ServiceInfoManager" where
  "ProcessInsertOrUpdate E keyList lu serviceInfos sim =
     (let allentries = Sim_GetEntriesByKeys E keyList sim in
      if \<not> bounded_records allentries then (serviceInfos, sim)
      else insert_or_update E lu (ConvertRecordsToMap allentries []) (serviceInfos, sim))"

fun process_deletes :: "('la, 'lb, 'j) SimEnv \<Rightarrow> string \<Rightarrow> (string \<times> string) list \<Rightarrow>
    ServiceInfo list \<times> ('la, 'lb) ServiceInfoManager \<Rightarrow> ServiceInfo list \<times> ('la, 'lb) ServiceInfoManager" where
  "process_deletes E lu [] st = st"
| "process_deletes E lu ((dbKey, dbValue) # es) (infos, sim) =
     (let (ret, userInfo, serviceInfo) = EntriesToUserInfo E dbKey UserInfo_default ServiceInfo_default sim in
      if ret \<noteq> DP_SUCCESS then process_deletes E lu es (infos, sim)
      else let (ret, sim) = DeleteServiceInfo E userInfo sim in
        process_deletes E lu es
          (if ret = DP_SUCCESS \<and> ui_udid userInfo \<noteq> lu then infos @ [serviceInfo] else infos, sim))"

definition ProcessDelete :: "('la, 'lb, 'j) SimEnv \<Rightarrow> string list \<Rightarrow> string \<Rightarrow> ServiceInfo list \<Rightarrow>
    ('la, 'lb) ServiceInfoManager \<Rightarrow> ServiceInfo list \<times> ('la, 'lb) ServiceInfoManager" where
  "ProcessDelete E keyList lu serviceInfos sim =
     (if \<not> bounded_records keyList then (serviceInfos, sim)
      else process_deletes E lu (ConvertRecordsToMap (map (\<lambda>key. (key, [])) keyList) []) (serviceInfos, sim))"

datatype ChangeOp = OP_INSERT | OP_UPDATE | OP_DELETE | OP_BUTT

definition ProcessChangeOp :: "('a, 'la, 'lb, 'j) ListenerEnv \<Rightarrow> string list \<Rightarrow> ChangeOp \<Rightarrow>
    ('a, 'w, 'la, 'lb) ListenerState \<Rightarrow> ('a, 'w, 'la, 'lb) ListenerState" where
  "ProcessChangeOp E keyList oper s =
     (let lu = le_localUdid E;
          run = (\<lambda>process notify.
            let (serviceInfos, sim) = process (le_sim E) keyList lu [] (ls_sim s); s = s\<lparr>ls_sim := sim\<rparr> in
            if serviceInfos \<noteq> []
            then s\<lparr>ls_serviceCalls := ls_serviceCalls s @ snd (notify (le_cast E) serviceInfos (ls_ssi s))\<rparr> else s)
      in case oper of
           OP_INSERT \<Rightarrow> run ProcessInsertOrUpdate NotifyServiceInfoAdd
         | OP_UPDATE \<Rightarrow> run ProcessInsertOrUpdate NotifyServiceInfoUpdate
         | OP_DELETE \<Rightarrow> run ProcessDelete NotifyServiceInfoDelete
         | OP_BUTT \<Rightarrow> s)"

text \<open>The changes that came from another device: keys only.\<close>

definition OnChange_cloud :: "('a, 'la, 'lb, 'j) ListenerEnv \<Rightarrow> string \<Rightarrow> string list \<Rightarrow> string list \<Rightarrow> string list \<Rightarrow>
    ('a, 'w, 'la, 'lb) ListenerState \<Rightarrow> ('a, 'w, 'la, 'lb) ListenerState" where
  "OnChange_cloud E origin_store insertKeys updateKeys deleteKeys s =
     (if origin_store = STATIC_STORE_ID
      then ProcessChangeOp E deleteKeys OP_DELETE (ProcessChangeOp E updateKeys OP_UPDATE (ProcessChangeOp E insertKeys OP_INSERT s))
      else let insertRecords = GetEntriesByKeys (le_ik E) insertKeys (ls_dm s);
               s = (if bounded_records insertRecords then HandleAddChange E insertRecords s else s);
               updateRecords = GetEntriesByKeys (le_ik E) updateKeys (ls_dm s);
               s = (if bounded_records updateRecords then HandleUpdateChange E updateRecords s else s)
           in (if bounded_records deleteKeys
               then HandleDeleteChange E (map (\<lambda>key. (key, [])) deleteKeys) s else s))"

section \<open>Switches\<close>

definition GenerateSwitchNotify :: "string \<Rightarrow> string \<Rightarrow> string \<Rightarrow> string \<Rightarrow> ChangeType \<Rightarrow>
    ('a, 'w, 'la, 'lb) ListenerState \<Rightarrow> dp_ret \<times> ('a, 'w, 'la, 'lb) ListenerState" where
  "GenerateSwitchNotify udid serviceName charKey charValue changeType s =
     (if \<not> IsKeyValid udid \<or> \<not> IsKeyValid serviceName \<or> \<not> IsKeyValid charKey \<or> \<not> IsKeyValid charValue
      then (DP_INVALID_PARAMS, s)
      else let newSwitchProfile = CharacteristicProfile_make udid serviceName charKey charValue in
        if Cache_IsCharProfileExist newSwitchProfile (ls_cache s) then (DP_SUCCESS, s)
        else let s = ls_set_cache (snd (Cache_AddCharProfile newSwitchProfile (ls_cache s))) s;
                 dbKey = GetDbKeyByProfile newSwitchProfile;
                 (res, s) = ls_notify (GetProfileType dbKey) changeType dbKey (cp_characteristicValue newSwitchProfile) s
          in if res \<noteq> DP_SUCCESS then (DP_GENERATE_SWITCH_NOTIFY_FAIL, s) else (DP_SUCCESS, s))"

text \<open>The loop over the positions of the switch word; the name found last stays in the variable.\<close>

fun switch_loop :: "string \<Rightarrow> string \<Rightarrow> 32 word \<Rightarrow> nat list \<Rightarrow> string \<Rightarrow> ('a, 'w, 'la, 'lb) ListenerState \<Rightarrow>
    ('a, 'w, 'la, 'lb) ListenerState" where
  "switch_loop lu udid switchValue [] serviceName s = s"
| "switch_loop lu udid switchValue (i # is) serviceName s =
     (let itemSwitchValue = to_string (uint (drop_bit i switchValue AND 1));
          (res, serviceName) = Cache_GetServiceNameByPos (int i) SWITCH_SERVICE_MAP serviceName in
      if res \<noteq> DP_SUCCESS \<or> serviceName = [] then s
      else let (res, s) = GenerateSwitchNotify udid serviceName SWITCH_STATUS itemSwitchValue UPDATE s in
        if res \<noteq> DP_SUCCESS then s
        else let s = (if udid = lu then ls_set_cache (Cache_SetCurSwitch switchValue (ls_cache s)) s else s)
          in switch_loop lu udid switchValue is serviceName s)"

definition HandleSwitchUpdateChange :: "string \<Rightarrow> string \<Rightarrow> 32 word \<Rightarrow> ('a, 'w, 'la, 'lb) ListenerState \<Rightarrow>
    ('a, 'w, 'la, 'lb) ListenerState" where
  "HandleSwitchUpdateChange lu udid switchValue s = switch_loop lu udid switchValue [0..<nat SWITCH_FLAG_MAX] [] s"

definition AddSwitchCacheMap :: "string \<Rightarrow> 32 word \<Rightarrow> ('a, 'w, 'la, 'lb) ListenerState \<Rightarrow>
    ('a, 'w, 'la, 'lb) ListenerState" where
  "AddSwitchCacheMap netWorkId switchValue s =
     (if length (ls_switchCacheMap s) > MAX_SWITCH_CACHE_SIZE then s
      else s\<lparr>ls_switchCacheMap := omap_put netWorkId switchValue (ls_switchCacheMap s)\<rparr>)"

definition EraseSwitchCacheMap :: "string \<Rightarrow> ('a, 'w, 'la, 'lb) ListenerState \<Rightarrow> ('a, 'w, 'la, 'lb) ListenerState" where
  "EraseSwitchCacheMap netWorkId s = s\<lparr>ls_switchCacheMap := AList.delete netWorkId (ls_switchCacheMap s)\<rparr>"

definition Switch_OnDeviceOnline :: "string \<Rightarrow> TrustedDeviceInfo \<Rightarrow> ('a, 'w, 'la, 'lb) ListenerState \<Rightarrow>
    ('a, 'w, 'la, 'lb) ListenerState" where
  "Switch_OnDeviceOnline lu deviceInfo s =
     (let onlineNetworkId = td_networkId deviceInfo; onlineUdid = td_udid deviceInfo in
      if onlineNetworkId = [] then s
      else if onlineUdid = [] then s
      else case map_of (ls_switchCacheMap s) onlineNetworkId of
          None \<Rightarrow> s
        | Some switchValue \<Rightarrow> EraseSwitchCacheMap onlineNetworkId (HandleSwitchUpdateChange lu onlineUdid switchValue s))"

definition OnSwitchChange :: "string \<Rightarrow> string \<Rightarrow> string \<Rightarrow> 32 word \<Rightarrow> ('a, 'w, 'la, 'lb) ListenerState \<Rightarrow>
    ('a, 'w, 'la, 'lb) ListenerState" where
  "OnSwitchChange lu localNetworkId netWorkId switchValue s =
     (if netWorkId = [] then s
      else let (res, udid) = Cache_GetUdidByNetWorkId lu localNetworkId netWorkId [] (ls_cache s) in
        if res = DP_GET_UDID_BY_NETWORKID_FAIL then AddSwitchCacheMap netWorkId switchValue s
        else if res \<noteq> DP_SUCCESS \<or> udid = [] then s
        else HandleSwitchUpdateChange lu udid switchValue (EraseSwitchCacheMap netWorkId s))"

section \<open>Synchronisation and death of a peer\<close>

text \<open>The calls of a listener at the end of a synchronisation: which were told of which results.\<close>

datatype sync_status = SUCCEEDED | FAILED

definition SyncCompleted_results :: "(string, kv_status) omap \<Rightarrow> (string, sync_status) omap" where
  "SyncCompleted_results results =
     map (\<lambda>(deviceId, status). (deviceId, if status = KV_SUCCESS then SUCCEEDED else FAILED)) results"

definition NotifySyncCompleted :: "(nat \<Rightarrow> bool) \<Rightarrow> (string, sync_status) omap \<Rightarrow> ProfileCache \<Rightarrow>
    (nat \<times> (string, sync_status) omap) list \<times> ProfileCache" where
  "NotifySyncCompleted cast syncResults c =
     (let syncListeners = snd (Cache_GetSyncListeners [] c);
          calls = concat (map (\<lambda>(_, listener). case listener of
              None \<Rightarrow> [] | Some l \<Rightarrow> if cast l then [(l, syncResults)] else []) syncListeners)
      in (calls, snd (Cache_RemoveSyncListeners syncListeners c)))"

text \<open>Which manager a recipient restarts when the data service dies, by the name of its store.\<close>

datatype reinit_target = ReInitDeviceProfileManager | ReInitStaticProfileManager | ReInitServiceInfoManager

definition KvDeath_OnRemoteDied :: "bool \<Rightarrow> bool \<Rightarrow> string \<Rightarrow> reinit_target list" where
  "KvDeath_OnRemoteDied handler posted storeId =
     (if \<not> handler then []
      else if \<not> posted then []
      else (if storeId = ''dp_kv_store'' then [ReInitDeviceProfileManager] else []) @
           (if storeId = STATIC_STORE_ID then [ReInitStaticProfileManager] else []) @
           (if storeId = ''dp_kv_store_business'' then [ReInitDeviceProfileManager] else []) @
           (if storeId = ''dp_kv_store_service_info_profile'' then [ReInitServiceInfoManager] else []))"

definition SyncSubscriber_OnRemoteDied :: "nat option \<Rightarrow> ProfileCache \<Rightarrow> ProfileCache" where
  "SyncSubscriber_OnRemoteDied remote c =
     (case remote of None \<Rightarrow> c | Some l \<Rightarrow> snd (Cache_RemoveSyncListener_object (Some l) c))"

end
