(* ===== verification/ServiceInfoLaws.thy ===== *)
theory ServiceInfoLaws
  imports ServiceInfos
begin

text \<open>
  The service infos: what the texts of the infos keep, and the store as a registry of infos by device, user
  and service. The locale \<open>info_store\<close> has the promises of the two adapters that the manager relies on;
  \<open>ServiceInfoKvAdapter\<close> keeps them, but not those of \<open>ikv_adapter\<close>, since it deletes nothing by prefix. The
  locale \<open>cjson_doc\<close> states what cJSON documents of the calls that build, print, parse and read an object;
  it is interpreted on a printer and parser of flat objects.
\<close>

section \<open>The adapters\<close>

locale info_store =
  fixes ik :: "'a IKVAdapter" and db :: "'a \<Rightarrow> string \<rightharpoonup> string"
  assumes put_batch: "ik_PutBatch ik vs a = (r, a') \<Longrightarrow> omap_wf vs \<Longrightarrow>
      db a' = (if r = DP_SUCCESS then db a ++ map_of vs else db a)"
    and put_batch_Nil: "ik_PutBatch ik [] a = (r, a') \<Longrightarrow> r \<noteq> DP_SUCCESS"
    and get_prefix: "ik_GetByPrefix ik p [] a = (DP_SUCCESS, vs) \<Longrightarrow>
      omap_wf vs \<and> map_of vs = keep_keys (\<lambda>k. prefix p k) (db a)"
    and delete_batch: "ik_DeleteBatch ik del a = (r, a') \<Longrightarrow>
      (r = DP_SUCCESS \<longrightarrow> db a' = keep_keys (\<lambda>k. k \<notin> set del) (db a)) \<and>
      (\<exists>gone\<subseteq>set del. db a' = keep_keys (\<lambda>k. k \<notin> gone) (db a))"

definition sik_db :: "('s \<Rightarrow> string \<rightharpoonup> string) \<Rightarrow> ('m, 's) ServiceInfoKvAdapter \<Rightarrow> string \<rightharpoonup> string" where
  "sik_db kv a = (case sik_kvStorePtr a of None \<Rightarrow> Map.empty | Some s \<Rightarrow> kv s)"

sublocale kv_store \<subseteq> sik: info_store "ServiceInfoKvAdapter_ops ks" "sik_db kv"
proof
  fix vs r and a a' :: "('m, 's) ServiceInfoKvAdapter"
  assume "ik_PutBatch (ServiceInfoKvAdapter_ops ks) vs a = (r, a')" "omap_wf vs"
  then show "sik_db kv a' = (if r = DP_SUCCESS then sik_db kv a ++ map_of vs else sik_db kv a)"
    by (auto simp: ServiceInfoKvAdapter_ops_def Sik_PutBatch_def sik_db_def Let_def
        dest!: put_batch [OF _ omap_wf_distinct] split: option.splits prod.splits if_splits)
next
  fix r and a a' :: "('m, 's) ServiceInfoKvAdapter"
  assume "ik_PutBatch (ServiceInfoKvAdapter_ops ks) [] a = (r, a')"
  then show "r \<noteq> DP_SUCCESS" by (auto simp: ServiceInfoKvAdapter_ops_def Sik_PutBatch_def)
next
  fix p vs and a :: "('m, 's) ServiceInfoKvAdapter"
  assume "ik_GetByPrefix (ServiceInfoKvAdapter_ops ks) p [] a = (DP_SUCCESS, vs)"
  then obtain s es where "sik_kvStorePtr a = Some s" "ks_GetEntries ks s p = (KV_SUCCESS, es)" "vs = put_all es []"
    by (auto simp: ServiceInfoKvAdapter_ops_def Sik_GetByPrefix_def Let_def split: option.splits prod.splits if_splits)
  with entries show "omap_wf vs \<and> map_of vs = keep_keys (\<lambda>k. prefix p k) (sik_db kv a)"
    by (auto simp: sik_db_def put_all_wf map_of_put_all)
next
  fix del r and a a' :: "('m, 's) ServiceInfoKvAdapter"
  assume d: "ik_DeleteBatch (ServiceInfoKvAdapter_ops ks) del a = (r, a')"
  show "(r = DP_SUCCESS \<longrightarrow> sik_db kv a' = keep_keys (\<lambda>k. k \<notin> set del) (sik_db kv a)) \<and>
    (\<exists>gone\<subseteq>set del. sik_db kv a' = keep_keys (\<lambda>k. k \<notin> gone) (sik_db kv a))"
  proof (cases "a' = a \<and> r \<noteq> DP_SUCCESS")
    case True
    then show ?thesis by (auto intro!: exI [of _ "{}"])
  next
    case False
    with d obtain s s' where s: "sik_kvStorePtr a = Some s" "delete_batches ks (delKeyBatches del 0) s = (r, s')"
      "a' = a\<lparr>sik_kvStorePtr := Some s'\<rparr>"
      by (auto simp: ServiceInfoKvAdapter_ops_def Sik_DeleteBatch_def split: option.splits if_splits prod.splits)
    from delete_batches_kv [OF s(2)] s(1,3) show ?thesis by (auto simp: sik_db_def concat_delKeyBatches)
  qed
qed

context kv_store begin

lemma sik_promises: "info_store (ServiceInfoKvAdapter_ops ks) (sik_db kv)" by (rule sik.info_store_axioms)

text \<open>The adapter of the synchronised store keeps the same promises.\<close>

lemma kv_info_store: "info_store (KVAdapter_ops ks) (kv_db kv)"
proof
  fix r and a a' :: "('m, 's) KVAdapter"
  assume "ik_PutBatch (KVAdapter_ops ks) [] a = (r, a')"
  then show "r \<noteq> DP_SUCCESS" by (auto simp: KVAdapter_ops_def KVAdapter_PutBatch_def)
next
  fix p vs and a :: "('m, 's) KVAdapter"
  assume "ik_GetByPrefix (KVAdapter_ops ks) p [] a = (DP_SUCCESS, vs)"
  from adapter.get_prefix [OF this] show "omap_wf vs \<and> map_of vs = keep_keys (\<lambda>k. prefix p k) (kv_db kv a)" by blast
qed (fact adapter.put_batch adapter.delete_batch)+

end

lemmas mem_sik_promises = kv_store.sik_promises [OF mem.kv_store_axioms]

interpretation mem_sik: info_store "ServiceInfoKvAdapter_ops mem_store" "sik_db map_of"
  by (rule mem_sik_promises)

section \<open>Documents\<close>

datatype cj_scalar = CJ_String string | CJ_Number int

definition lower :: "char \<Rightarrow> char" where
  "lower c = (if (65 :: nat) \<le> of_char c \<and> of_char c \<le> (90 :: nat) then char_of (of_char c + (32 :: nat)) else c)"

text \<open>\<open>cJSON_GetObjectItem\<close> compares names without case; \<open>valueint\<close> saturates.\<close>

fun ci_lookup :: "string \<Rightarrow> (string \<times> cj_scalar) list \<Rightarrow> cj_scalar option" where
  "ci_lookup name [] = None"
| "ci_lookup name ((n, v) # l) = (if map lower n = map lower name then Some v else ci_lookup name l)"

definition clamp_int :: "int \<Rightarrow> int" where
  "clamp_int n = (if n \<ge> 2 ^ 31 then 2 ^ 31 - 1 else if n < - (2 ^ 31) then - (2 ^ 31) else n)"

text \<open>Strings without NUL and numbers that a \<open>double\<close> holds exactly.\<close>

definition nul_free :: "string \<Rightarrow> bool" where
  "nul_free s \<longleftrightarrow> CHR 0x00 \<notin> set s"

fun scalar_ok :: "cj_scalar \<Rightarrow> bool" where
  "scalar_ok (CJ_String s) = nul_free s"
| "scalar_ok (CJ_Number n) = (\<bar>n\<bar> \<le> 2 ^ 53)"

definition is_item :: "'j CJsonDoc \<Rightarrow> cj_scalar \<Rightarrow> 'j \<Rightarrow> bool" where
  "is_item J v j = (case v of
     CJ_String s \<Rightarrow> cj_has_valuestring J j \<and> cj_valuestring J j = s \<and> \<not> cj_IsNumber J j
   | CJ_Number n \<Rightarrow> \<not> cj_has_valuestring J j \<and> cj_IsNumber J j \<and> cj_valueint J j = clamp_int n)"

locale cjson_doc =
  fixes J :: "'j CJsonDoc" and fs :: "'j \<Rightarrow> (string \<times> cj_scalar) list"
  assumes create: "cj_CreateObject J = Some j \<Longrightarrow> fs j = []"
    and add_string: "fs (cj_AddStringToObject J j k s) = fs j @ [(k, CJ_String s)]"
    and add_number: "fs (cj_AddNumberToObject J j k n) = fs j @ [(k, CJ_Number n)]"
    and print_parse: "cj_PrintUnformatted J j = Some t \<Longrightarrow> \<forall>(k, v)\<in>set (fs j). nul_free k \<and> scalar_ok v \<Longrightarrow>
      nul_free t \<and> (\<exists>j'. cj_Parse J t = Some j' \<and> fs j' = fs j)"
    and item: "case ci_lookup k (fs j) of
        None \<Rightarrow> cj_GetObjectItem J (Some j) k = None
      | Some v \<Rightarrow> \<exists>i. cj_GetObjectItem J (Some j) k = Some i \<and> is_item J v i"

lemma c_str_id: "nul_free s \<Longrightarrow> c_str s = s"
  by (auto simp: nul_free_def c_str_def intro: takeWhile_eq_all_conv [THEN iffD2])

lemma nul_free_append [simp]: "nul_free (s @ t) \<longleftrightarrow> nul_free s \<and> nul_free t"
  by (simp add: nul_free_def)

lemma nul_free_Nil [simp]: "nul_free []"
  by (simp add: nul_free_def)

lemma nul_free_Cons [simp]: "nul_free (c # s) \<longleftrightarrow> c \<noteq> CHR 0x00 \<and> nul_free s"
  by (auto simp: nul_free_def)

lemma nul_free_to_string [simp]: "nul_free (to_string i)"
proof -
  have "CHR 0x00 \<notin> set (nat_string n)" for n
    using nat_string_digits [of n] unfolding list_all_iff is_digit_def by fastforce
  then show ?thesis by (simp add: nul_free_def to_string_def)
qed

section \<open>What a text keeps of an info\<close>

text \<open>An info as the code can hold it: each number in its type, no NUL in a string.\<close>

definition int_in :: "nat \<Rightarrow> int \<Rightarrow> bool" where
  "int_in n i \<longleftrightarrow> - (2 ^ n) \<le> i \<and> i < 2 ^ n"

definition info_ok :: "ServiceInfo \<Rightarrow> bool" where
  "info_ok i \<longleftrightarrow>
     list_all nul_free [svi_udid i, svi_serviceOwnerPkgName i, svi_serviceType i, svi_serviceName i,
       svi_serviceDisplayName i, svi_customData i, svi_serviceCode i, svi_extraData i, svi_version i,
       svi_description i] \<and>
     list_all (int_in 31) [svi_userId i, svi_serviceOwnerTokenId i, svi_serviceRegisterTokenId i] \<and>
     list_all (int_in 63) [svi_displayId i, svi_serviceId i, svi_timeStamp i] \<and>
     int_in 7 (svi_publishState i) \<and> 0 \<le> svi_dataLen i \<and> svi_dataLen i < 2 ^ 32"

text \<open>The length is read back as an \<open>int\<close>: from \<open>2 ^ 31\<close> on it becomes the greatest one.\<close>

definition as_stored :: "ServiceInfo \<Rightarrow> ServiceInfo" where
  "as_stored i = i\<lparr>svi_dataLen := min (svi_dataLen i) (2 ^ 31 - 1)\<rparr>"

definition parse_info :: "'j CJsonDoc \<Rightarrow> string \<Rightarrow> ServiceInfo option" where
  "parse_info J t =
     (case cj_Parse J (c_str t) of
        None \<Rightarrow> None
      | Some jsonObj \<Rightarrow>
          let (ok, fields) = ParseAndValidateJSON J jsonObj in
          if ok then Some (FillServiceInfo J fields ServiceInfo_default) else None)"

definition info_fields :: "ServiceInfo \<Rightarrow> (string \<times> cj_scalar) list" where
  "info_fields i =
     [(UD_ID, CJ_String (svi_udid i)), (USER_ID_name, CJ_Number (svi_userId i)),
      (DISPLAYID, CJ_String (to_string (svi_displayId i))),
      (SERVICE_OWNER_TOKEN_ID, CJ_Number (svi_serviceOwnerTokenId i)),
      (SERVICE_OWNER_PKG_NAME, CJ_String (svi_serviceOwnerPkgName i)),
      (SERVICE_REGISTER_TOKEN_ID, CJ_Number (svi_serviceRegisterTokenId i)),
      (SERVICEID, CJ_String (to_string (svi_serviceId i))), (TIME_STAMP, CJ_String (to_string (svi_timeStamp i))),
      (PUBLISH_STATE, CJ_Number (svi_publishState i)), (SERVICE_TYPE_name, CJ_String (svi_serviceType i)),
      (SERVICE_NAME_name, CJ_String (svi_serviceName i)),
      (SERVICE_DISPLAY_NAME, CJ_String (svi_serviceDisplayName i)), (CUSTOM_DATA, CJ_String (svi_customData i)),
      (SERVICE_CODE, CJ_String (svi_serviceCode i)), (DATA_LEN, CJ_Number (svi_dataLen i)),
      (EXTRA_DATA_name, CJ_String (svi_extraData i)), (VERSION_name, CJ_String (svi_version i)),
      (DESCRIPTION_name, CJ_String (svi_description i))]"

lemma lower_names:
  "map lower UD_ID = ''udid''" "map lower USER_ID_name = ''userid''" "map lower DISPLAYID = ''displayid''"
  "map lower SERVICE_OWNER_TOKEN_ID = ''serviceownertokenid''"
  "map lower SERVICE_OWNER_PKG_NAME = ''serviceownerpkgname''"
  "map lower SERVICE_REGISTER_TOKEN_ID = ''serviceregistertokenid''" "map lower SERVICEID = ''serviceid''"
  "map lower TIME_STAMP = ''timestamp''" "map lower PUBLISH_STATE = ''publishstate''"
  "map lower SERVICE_TYPE_name = ''servicetype''" "map lower SERVICE_NAME_name = ''servicename''"
  "map lower SERVICE_DISPLAY_NAME = ''servicedisplayname''" "map lower CUSTOM_DATA = ''customdata''"
  "map lower SERVICE_CODE = ''servicecode''" "map lower DATA_LEN = ''datalen''"
  "map lower EXTRA_DATA_name = ''extradata''" "map lower VERSION_name = ''version''"
  "map lower DESCRIPTION_name = ''description''"
  by code_simp+

lemma ci_lookup_fields:
  "ci_lookup UD_ID (info_fields i) = Some (CJ_String (svi_udid i))"
  "ci_lookup USER_ID_name (info_fields i) = Some (CJ_Number (svi_userId i))"
  "ci_lookup DISPLAYID (info_fields i) = Some (CJ_String (to_string (svi_displayId i)))"
  "ci_lookup SERVICE_OWNER_TOKEN_ID (info_fields i) = Some (CJ_Number (svi_serviceOwnerTokenId i))"
  "ci_lookup SERVICE_OWNER_PKG_NAME (info_fields i) = Some (CJ_String (svi_serviceOwnerPkgName i))"
  "ci_lookup SERVICE_REGISTER_TOKEN_ID (info_fields i) = Some (CJ_Number (svi_serviceRegisterTokenId i))"
  "ci_lookup SERVICEID (info_fields i) = Some (CJ_String (to_string (svi_serviceId i)))"
  "ci_lookup TIME_STAMP (info_fields i) = Some (CJ_String (to_string (svi_timeStamp i)))"
  "ci_lookup PUBLISH_STATE (info_fields i) = Some (CJ_Number (svi_publishState i))"
  "ci_lookup SERVICE_TYPE_name (info_fields i) = Some (CJ_String (svi_serviceType i))"
  "ci_lookup SERVICE_NAME_name (info_fields i) = Some (CJ_String (svi_serviceName i))"
  "ci_lookup SERVICE_DISPLAY_NAME (info_fields i) = Some (CJ_String (svi_serviceDisplayName i))"
  "ci_lookup CUSTOM_DATA (info_fields i) = Some (CJ_String (svi_customData i))"
  "ci_lookup SERVICE_CODE (info_fields i) = Some (CJ_String (svi_serviceCode i))"
  "ci_lookup DATA_LEN (info_fields i) = Some (CJ_Number (svi_dataLen i))"
  "ci_lookup EXTRA_DATA_name (info_fields i) = Some (CJ_String (svi_extraData i))"
  "ci_lookup VERSION_name (info_fields i) = Some (CJ_String (svi_version i))"
  "ci_lookup DESCRIPTION_name (info_fields i) = Some (CJ_String (svi_description i))"
  by (simp_all only: info_fields_def ci_lookup.simps lower_names) simp_all

context cjson_doc begin

lemma json_fields:
  assumes "cj_CreateObject J = Some j" "info_ok i"
  shows "fs (service_info_json J i j) = info_fields i"
  using assms(2) create [OF assms(1)]
  by (simp add: service_info_json_def info_fields_def add_string add_number info_ok_def c_str_id Let_def)

lemma string_item:
  assumes "ci_lookup k (fs j) = Some (CJ_String s)"
  shows "IsStringFieldValid J (cj_GetObjectItem J (Some j) k) \<and> item_string J (cj_GetObjectItem J (Some j) k) = s"
  using item [where k = k and j = j] assms by (auto simp: is_item_def IsStringFieldValid_def item_string_def)

lemma number_item:
  assumes "ci_lookup k (fs j) = Some (CJ_Number n)"
  shows "cj_GetObjectItem J (Some j) k \<noteq> None \<and> IsNumberItem J (cj_GetObjectItem J (Some j) k) \<and>
    item_int J (cj_GetObjectItem J (Some j) k) = clamp_int n"
  using item [where k = k and j = j] assms by (auto simp: is_item_def IsNumberItem_def item_int_def)

end

lemma clamp_int_id: "int_in 31 i \<Longrightarrow> clamp_int i = i"
  by (simp add: clamp_int_def int_in_def)

lemma atoll_to_string: "int_in 63 i \<Longrightarrow> atoll (to_string i) = i"
  by (simp add: atoll_def atoi_val_to_string int_in_def signed_take_bit_int_eq_self)

lemma to_i8_clamp: "int_in 7 i \<Longrightarrow> to_i8 (clamp_int i) = i"
  by (simp add: clamp_int_def int_in_def to_i8_def signed_take_bit_int_eq_self)

lemma to_u32_clamp: "0 \<le> n \<Longrightarrow> to_u32 (clamp_int n) = min n (2 ^ 31 - 1)"
  by (simp add: clamp_int_def to_u32_def take_bit_int_eq_self)

context cjson_doc begin

lemma parse_fields:
  assumes "cj_Parse J (c_str t) = Some j" and fs: "fs j = info_fields i" and ok: "info_ok i"
  shows "parse_info J t = Some (as_stored i)"
proof -
  note s = string_item [of _ j, unfolded fs] and n = number_item [of _ j, unfolded fs]
  note items = s [OF ci_lookup_fields(1)] n [OF ci_lookup_fields(2)] s [OF ci_lookup_fields(3)]
    n [OF ci_lookup_fields(4)] s [OF ci_lookup_fields(5)] n [OF ci_lookup_fields(6)] s [OF ci_lookup_fields(7)]
    s [OF ci_lookup_fields(8)] n [OF ci_lookup_fields(9)] s [OF ci_lookup_fields(10)] s [OF ci_lookup_fields(11)]
    s [OF ci_lookup_fields(12)] s [OF ci_lookup_fields(13)] s [OF ci_lookup_fields(14)] n [OF ci_lookup_fields(15)]
    s [OF ci_lookup_fields(16)] s [OF ci_lookup_fields(17)] s [OF ci_lookup_fields(18)]
  from ok show ?thesis
    by (simp add: parse_info_def assms(1) ParseAndValidateJSON_def ValidateStringFields_def
        ValidateNumberFields_def FillServiceInfo_def items IsNumStr_to_string as_stored_def info_ok_def
        clamp_int_id atoll_to_string to_i8_clamp to_u32_clamp Let_def ServiceInfo_default_def)
qed

text \<open>The text of an info is read back as the info, the length aside.\<close>

lemma entries_parse:
  assumes "ServiceInfoToEntries J i [] = (r, es)" "info_ok i"
  shows "es = [] \<or> (\<exists>t. es = [(service_info_key i, t)] \<and> parse_info J t = Some (as_stored i))"
proof (cases "r = DP_SUCCESS \<and> es \<noteq> []")
  case True
  then obtain j where c: "cj_CreateObject J = Some j"
    using assms(1) by (cases "cj_CreateObject J") (simp_all add: ServiceInfoToEntries_def)
  with True obtain t where p: "cj_PrintUnformatted J (service_info_json J i j) = Some t"
    using assms(1) by (cases "cj_PrintUnformatted J (service_info_json J i j)") (simp_all add: ServiceInfoToEntries_def)
  have es: "es = [(service_info_key i, t)]" using assms(1) c p by (simp add: ServiceInfoToEntries_def omap_put.simps)
  note j = c p es
  note fs = json_fields [OF j(1) assms(2)]
  have "\<forall>(k, v)\<in>set (info_fields i). nul_free k \<and> scalar_ok v"
    using assms(2) by (simp add: info_fields_def info_ok_def int_in_def abs_le_iff)
  from print_parse [OF j(2), unfolded fs, OF this] obtain j' where "nul_free t" "cj_Parse J t = Some j'" "fs j' = info_fields i"
    by blast
  then show ?thesis using j(3) parse_fields [of t j' i] assms(2) by (simp add: c_str_id)
next
  case False
  with assms(1) have "es = []" by (simp add: ServiceInfoToEntries_def split: option.splits)
  then show ?thesis ..
qed

end

end
