(* ===== verification/ServiceRegistry.thy ===== *)
theory ServiceRegistry
  imports ServiceInfoLaws
begin

text \<open>
  The store of \<open>ServiceInfoManager\<close> as a registry: a map from device, user and service to the info that was put
  last. Putting an info updates the map, deleting removes the infos the request names, and a query gives the
  infos of the map it names. The locale \<open>info_registry\<close> joins the promises of the adapter and of cJSON; it is
  interpreted on the adapter over a store in memory and on documents of flat objects, where the operations
  are evaluated.
\<close>

section \<open>Keys\<close>

lemma to_string_inj: "to_string i = to_string j \<longleftrightarrow> i = j"
  by (metis atoi_val_to_string)

definition info_id :: "ServiceInfo \<Rightarrow> string \<times> int \<times> int" where
  "info_id i = (svi_udid i, svi_userId i, svi_serviceId i)"

definition id_key :: "string \<times> int \<times> int \<Rightarrow> string" where
  "id_key = (\<lambda>(udid, userId, serviceId). SERINFO_PREFIX @ SEPARATOR @ udid @ SEPARATOR @ to_string userId @
     SEPARATOR @ to_string serviceId)"

lemma service_info_key_id: "service_info_key i = id_key (info_id i)"
  by (simp add: service_info_key_def id_key_def info_id_def)

lemma id_key_parts:
  "split_on CHR ''#'' (id_key (udid, u, s)) = SERINFO_PREFIX # split_on CHR ''#'' udid @ [to_string u, to_string s]"
proof -
  have "split_on CHR ''#'' (id_key (udid, u, s)) =
      split_on CHR ''#'' SERINFO_PREFIX @ split_on CHR ''#'' udid @ split_on CHR ''#'' (to_string u) @ split_on CHR ''#'' (to_string s)"
    using split_on_append [of "CHR ''#''" SERINFO_PREFIX] by (simp add: id_key_def split_on_append del: split_on.simps)
  moreover have "split_on CHR ''#'' SERINFO_PREFIX = [SERINFO_PREFIX]" by code_simp
  ultimately show ?thesis by (simp add: split_on_no_sep sep_notin_to_string)
qed

lemma id_key_inj:
  assumes "id_key x = id_key y"
  shows "x = y"
proof -
  obtain d u s d' u' s' where [simp]: "x = (d, u, s)" "y = (d', u', s')" by (metis prod_cases3)
  from assms have "split_on CHR ''#'' d @ [to_string u, to_string s] = split_on CHR ''#'' d' @ [to_string u', to_string s']"
    using id_key_parts [of d u s] id_key_parts [of d' u' s'] by simp
  then have "(split_on CHR ''#'' d @ [to_string u]) @ [to_string s] = (split_on CHR ''#'' d' @ [to_string u']) @ [to_string s']"
    by simp
  then have "split_on CHR ''#'' d = split_on CHR ''#'' d'" "u = u'" "s = s'" unfolding append1_eq_conv to_string_inj by auto
  moreover from this(1) have "d = d'" by (metis join_split)
  ultimately show ?thesis by simp
qed

text \<open>The infos that a request for a user names.\<close>

definition info_matches :: "UserInfo \<Rightarrow> string \<times> int \<times> int \<Rightarrow> bool" where
  "info_matches u = (\<lambda>(udid, userId, serviceId). udid = ui_udid u \<and>
     (ui_userId u = DEFAULT_USER_ID \<or> userId = ui_userId u) \<and>
     (ui_serviceId u = DEFAULT_SERVICE_ID \<or> serviceId = ui_serviceId u))"

lemma key_match:
  fixes u :: UserInfo
  assumes "CHR ''#'' \<notin> set (fst x)"
  defines "pre \<equiv> SERINFO_PREFIX @ SEPARATOR @ ui_udid u @ SEPARATOR"
  shows "prefix pre (id_key x) \<and> IsKeyMatch (drop (length pre) (id_key x)) u \<longleftrightarrow> info_matches u x"
proof -
  obtain d a b where x [simp]: "x = (d, a, b)" by (metis prod_cases3)
  have parts: "split_on CHR ''#'' (id_key x) = [SERINFO_PREFIX, d, to_string a, to_string b]"
    using assms(1) by (simp add: id_key_parts split_on_no_sep)
  have same: "IsKeyMatch (to_string a @ SEPARATOR @ to_string b) u \<longleftrightarrow>
      (ui_userId u = DEFAULT_USER_ID \<or> a = ui_userId u) \<and> (ui_serviceId u = DEFAULT_SERVICE_ID \<or> b = ui_serviceId u)"
    by (auto simp: IsKeyMatch_def split_key_def split_on_append split_on_no_sep sep_notin_to_string to_string_inj)
  show ?thesis
  proof
    assume m: "prefix pre (id_key x) \<and> IsKeyMatch (drop (length pre) (id_key x)) u"
    then obtain r where r: "id_key x = pre @ r" by (auto simp: prefix_def)
    with m have "IsKeyMatch r u" by simp
    then have two: "length (split_on CHR ''#'' r) = 2"
      by (auto simp: IsKeyMatch_def split_key_def split: if_splits)
    have "split_on CHR ''#'' (id_key x) = split_on CHR ''#'' SERINFO_PREFIX @ split_on CHR ''#'' (ui_udid u) @ split_on CHR ''#'' r"
      unfolding r pre_def
      using split_on_append [of "CHR ''#''" SERINFO_PREFIX "ui_udid u @ SEPARATOR @ r"] split_on_append [of "CHR ''#''" "ui_udid u" r]
      by (simp del: split_on.simps)
    moreover have "split_on CHR ''#'' SERINFO_PREFIX = [SERINFO_PREFIX]" by code_simp
    ultimately have eq: "[d, to_string a, to_string b] = split_on CHR ''#'' (ui_udid u) @ split_on CHR ''#'' r"
      unfolding parts by simp
    then have "length (split_on CHR ''#'' (ui_udid u)) = 1" using two by (metis length_append add_right_cancel length_Cons list.size(3) numeral_2_eq_2 One_nat_def plus_1_eq_Suc)
    then obtain f where f: "split_on CHR ''#'' (ui_udid u) = [f]" by (auto simp: length_Suc_conv)
    then have "ui_udid u = f" using join_split [of "CHR ''#''" "ui_udid u"] by simp
    with f eq have d: "d = ui_udid u" by simp
    then have "r = to_string a @ SEPARATOR @ to_string b" using r by (simp add: id_key_def pre_def)
    with \<open>IsKeyMatch r u\<close> same d show "info_matches u x" by (simp add: info_matches_def)
  next
    assume m: "info_matches u x"
    then have "id_key x = pre @ to_string a @ SEPARATOR @ to_string b" by (simp add: info_matches_def id_key_def pre_def)
    with m same show "prefix pre (id_key x) \<and> IsKeyMatch (drop (length pre) (id_key x)) u"
      by (simp add: info_matches_def)
  qed
qed

section \<open>Documents of flat objects\<close>

text \<open>Objects whose fields are strings and numbers, printed and parsed as JSON.\<close>

datatype flat_json = FlatObject "(string \<times> cj_scalar) list" | FlatItem cj_scalar

fun flat_fields :: "flat_json \<Rightarrow> (string \<times> cj_scalar) list" where
  "flat_fields (FlatObject l) = l"
| "flat_fields (FlatItem v) = []"

abbreviation "QUOTE \<equiv> CHR 0x22"
abbreviation "BACKSLASH \<equiv> CHR 0x5C"

fun flat_escape :: "string \<Rightarrow> string" where
  "flat_escape [] = []"
| "flat_escape (c # s) = (if c = QUOTE \<or> c = BACKSLASH then [BACKSLASH, c] else [c]) @ flat_escape s"

fun flat_unescape :: "string \<Rightarrow> (string \<times> string) option" where
  "flat_unescape [] = None"
| "flat_unescape (c # s) =
     (if c = QUOTE then Some ([], s)
      else if c = BACKSLASH then (case s of [] \<Rightarrow> None | d # s \<Rightarrow> map_option (apfst (Cons d)) (flat_unescape s))
      else map_option (apfst (Cons c)) (flat_unescape s))"

definition flat_quoted :: "string \<Rightarrow> string" where
  "flat_quoted s = QUOTE # flat_escape s @ [QUOTE]"

fun flat_value :: "cj_scalar \<Rightarrow> string" where
  "flat_value (CJ_String s) = flat_quoted s"
| "flat_value (CJ_Number n) = to_string n"

fun flat_members :: "(string \<times> cj_scalar) list \<Rightarrow> string" where
  "flat_members [] = ''}''"
| "flat_members ((k, v) # l) = flat_quoted k @ '':'' @ flat_value v @ (if l = [] then [] else '','') @ flat_members l"

definition number_char :: "char \<Rightarrow> bool" where
  "number_char c \<longleftrightarrow> is_digit c \<or> c = CHR ''-''"

definition flat_read_value :: "string \<Rightarrow> (cj_scalar \<times> string) option" where
  "flat_read_value t =
     (case t of [] \<Rightarrow> None
      | c # r \<Rightarrow> if c = QUOTE then map_option (apfst CJ_String) (flat_unescape r)
          else Some (CJ_Number (atoi_val (takeWhile number_char t)), dropWhile number_char t))"

fun flat_read :: "nat \<Rightarrow> string \<Rightarrow> (string \<times> cj_scalar) list option" where
  "flat_read 0 t = None"
| "flat_read (Suc n) t =
     (if t = ''}'' then Some []
      else if t = [] \<or> hd t \<noteq> QUOTE then None
      else case flat_unescape (tl t) of
          None \<Rightarrow> None
        | Some (k, t) \<Rightarrow>
            if t = [] \<or> hd t \<noteq> CHR '':'' then None
            else case flat_read_value (tl t) of
                None \<Rightarrow> None
              | Some (v, t) \<Rightarrow>
                  if t = [] then None
                  else map_option (Cons (k, v)) (flat_read n (if hd t = CHR '','' then tl t else t)))"

definition flat_parse :: "string \<Rightarrow> flat_json option" where
  "flat_parse t = (if t = [] \<or> hd t \<noteq> CHR 0x7B then None
     else map_option FlatObject (flat_read (Suc (length t)) (tl t)))"

definition flat_json :: "flat_json CJsonDoc" where
  "flat_json =
     \<lparr>cj_Parse = flat_parse,
      cj_IsObject = (\<lambda>j. case j of Some (FlatObject l) \<Rightarrow> True | _ \<Rightarrow> False),
      cj_GetArraySize = (\<lambda>j. case j of Some x \<Rightarrow> int (length (flat_fields x)) | _ \<Rightarrow> 0),
      cj_GetObjectItem = (\<lambda>j k. case j of None \<Rightarrow> None | Some x \<Rightarrow> map_option FlatItem (ci_lookup k (flat_fields x))),
      cj_IsArray = (\<lambda>_. False),
      cj_children = (\<lambda>j. case j of None \<Rightarrow> [] | Some x \<Rightarrow> map (FlatItem \<circ> snd) (flat_fields x)),
      cj_IsString = (\<lambda>j. case j of FlatItem (CJ_String s) \<Rightarrow> True | _ \<Rightarrow> False),
      cj_valuestring = (\<lambda>j. case j of FlatItem (CJ_String s) \<Rightarrow> s | _ \<Rightarrow> []),
      cj_CreateObject = Some (FlatObject []),
      cj_AddStringToObject = (\<lambda>j k s. FlatObject (flat_fields j @ [(k, CJ_String s)])),
      cj_AddNumberToObject = (\<lambda>j k n. FlatObject (flat_fields j @ [(k, CJ_Number n)])),
      cj_PrintUnformatted = (\<lambda>j. Some (CHR 0x7B # flat_members (flat_fields j))),
      cj_has_valuestring = (\<lambda>j. case j of FlatItem (CJ_String s) \<Rightarrow> True | _ \<Rightarrow> False),
      cj_IsNumber = (\<lambda>j. case j of FlatItem (CJ_Number n) \<Rightarrow> True | _ \<Rightarrow> False),
      cj_valueint = (\<lambda>j. case j of FlatItem (CJ_Number n) \<Rightarrow> clamp_int n | _ \<Rightarrow> 0)\<rparr>"

lemma flat_unescape_escape: "flat_unescape (flat_escape s @ QUOTE # t) = Some (s, t)"
  by (induction s) auto

lemma number_chars: "c \<in> set (to_string n) \<Longrightarrow> number_char c"
  using nat_string_digits by (auto simp: to_string_def number_char_def list_all_iff split: if_splits)

lemma flat_read_value:
  assumes "t \<noteq> []" "\<not> number_char (hd t)"
  shows "flat_read_value (flat_value v @ t) = Some (v, t)"
proof (cases v)
  case (CJ_String s)
  then show ?thesis by (simp add: flat_read_value_def flat_quoted_def flat_unescape_escape)
next
  case (CJ_Number n)
  obtain c r where c: "to_string n = c # r" by (cases "to_string n") (auto simp: to_string_def split: if_splits)
  with number_chars [of c n] have "number_char c" by simp
  then have "c \<noteq> QUOTE" by (auto simp: number_char_def is_digit_def)
  moreover have "takeWhile number_char (to_string n @ t) = to_string n" "dropWhile number_char (to_string n @ t) = t"
    using number_chars [of _ n] assms by (cases t; auto simp: takeWhile_append dropWhile_append)+
  ultimately show ?thesis using CJ_Number c atoi_val_to_string [of n] by (simp add: flat_read_value_def)
qed

lemma flat_members_hd: "flat_members l \<noteq> [] \<and> (hd (flat_members l) = QUOTE \<or> hd (flat_members l) = CHR ''}'')"
  by (cases l) (auto simp: flat_quoted_def)

lemma flat_read_members: "length l < n \<Longrightarrow> flat_read n (flat_members l) = Some l"
proof (induction l arbitrary: n)
  case Nil
  then show ?case by (cases n) simp_all
next
  case (Cons e l)
  obtain k v where e: "e = (k, v)" by fastforce
  obtain m where n: "n = Suc m" "length l < m" using Cons.prems by (cases n) auto
  let ?t = "(if l = [] then [] else '','') @ flat_members l"
  have t: "?t \<noteq> []" "\<not> number_char (hd ?t)" "hd ?t \<noteq> QUOTE"
    "(if hd ?t = CHR '','' then tl ?t else ?t) = flat_members l"
    using flat_members_hd [of l] by (cases l; auto simp: number_char_def is_digit_def)+
  have "flat_members (e # l) = QUOTE # flat_escape k @ QUOTE # CHR '':'' # flat_value v @ ?t"
    by (simp add: e flat_quoted_def)
  then show ?case
    using flat_read_value [OF t(1,2), of v] t Cons.IH [OF n(2)] by (simp add: n(1) flat_unescape_escape e)
qed

lemma length_flat_members: "length l < Suc (length (flat_members l))"
  by (induction l rule: flat_members.induct) auto

lemma nul_free_flat: "\<forall>(k, v)\<in>set l. nul_free k \<and> scalar_ok v \<Longrightarrow> nul_free (flat_members l)"
proof (induction l)
  case (Cons e l)
  obtain k v where e: "e = (k, v)" by fastforce
  have esc: "nul_free s \<Longrightarrow> nul_free (flat_escape s)" for s by (induction s) auto
  have "nul_free (flat_value v)" using Cons.prems e by (cases v) (auto simp: flat_quoted_def esc)
  with Cons e esc show ?case by (auto simp: flat_quoted_def)
qed simp

interpretation flat: cjson_doc flat_json flat_fields
proof
  fix j t
  assume p: "cj_PrintUnformatted flat_json j = Some t" and ok: "\<forall>(k, v)\<in>set (flat_fields j). nul_free k \<and> scalar_ok v"
  from p have t: "t = CHR 0x7B # flat_members (flat_fields j)" by (simp add: flat_json_def)
  have "flat_read (Suc (length t)) (tl t) = Some (flat_fields j)"
    using flat_read_members [of "flat_fields j" "Suc (length t)"] length_flat_members [of "flat_fields j"] t by simp
  then have "cj_Parse flat_json t = Some (FlatObject (flat_fields j))" by (simp add: t flat_json_def flat_parse_def)
  then show "nul_free t \<and> (\<exists>j'. cj_Parse flat_json t = Some j' \<and> flat_fields j' = flat_fields j)"
    using nul_free_flat [OF ok] t by auto
next
  fix k j
  show "case ci_lookup k (flat_fields j) of None \<Rightarrow> cj_GetObjectItem flat_json (Some j) k = None
    | Some v \<Rightarrow> \<exists>i. cj_GetObjectItem flat_json (Some j) k = Some i \<and> is_item flat_json v i"
    by (cases "ci_lookup k (flat_fields j)") (auto simp: flat_json_def is_item_def split: cj_scalar.split)
qed (auto simp: flat_json_def)

section \<open>The registry\<close>

definition registry :: "'j CJsonDoc \<Rightarrow> (string \<rightharpoonup> string) \<Rightarrow> (string \<times> int \<times> int \<rightharpoonup> ServiceInfo)" where
  "registry J m = (\<lambda>id. Option.bind (m (id_key id)) (parse_info J))"

text \<open>A store that only the manager writes: each key is that of the info in its text.\<close>

definition registry_ok :: "'j CJsonDoc \<Rightarrow> (string \<rightharpoonup> string) \<Rightarrow> bool" where
  "registry_ok J m \<longleftrightarrow> (\<forall>k t. m k = Some t \<longrightarrow>
     (\<exists>i. CHR ''#'' \<notin> set (svi_udid i) \<and> k = service_info_key i \<and> parse_info J t = Some i))"

lemma registry_okD:
  assumes "registry_ok J m" "m k = Some t"
  obtains i where "CHR ''#'' \<notin> set (svi_udid i)" "k = id_key (info_id i)" "parse_info J t = Some i"
    "registry J m (info_id i) = Some i"
proof -
  from assms obtain i where i: "CHR ''#'' \<notin> set (svi_udid i)" "k = service_info_key i" "parse_info J t = Some i"
    unfolding registry_ok_def by blast
  then show thesis using that [of i] assms(2) by (simp add: registry_def service_info_key_id)
qed

lemma registry_SomeD:
  assumes "registry_ok J m" "registry J m x = Some i"
  shows "x = info_id i \<and> (\<exists>t. m (id_key x) = Some t \<and> parse_info J t = Some i) \<and> CHR ''#'' \<notin> set (fst x)"
proof -
  from assms(2) obtain t where t: "m (id_key x) = Some t" "parse_info J t = Some i"
    unfolding registry_def bind_eq_Some_conv by blast
  from assms(1) t(1) obtain i' where i': "CHR ''#'' \<notin> set (svi_udid i')" "id_key x = id_key (info_id i')"
    "parse_info J t = Some i'" by (rule registry_okD)
  with t(2) have "i' = i" by simp
  with i' t show ?thesis by (auto simp: info_id_def dest: id_key_inj)
qed

lemma registry_ok_update:
  assumes "registry_ok J m" "parse_info J t = Some i" "CHR ''#'' \<notin> set (svi_udid i)" "service_info_key i = k"
  shows "registry_ok J (m(k \<mapsto> t)) \<and> registry J (m(k \<mapsto> t)) = (registry J m)(info_id i \<mapsto> i)"
proof
  show "registry_ok J (m(k \<mapsto> t))" using assms unfolding registry_ok_def by auto
  show "registry J (m(k \<mapsto> t)) = (registry J m)(info_id i \<mapsto> i)"
    using assms(2,4) id_key_inj by (auto simp: registry_def service_info_key_id fun_eq_iff)
qed

lemma registry_ok_keep: "registry_ok J m \<Longrightarrow> registry_ok J (keep_keys P m)"
  unfolding registry_ok_def keep_keys_def by auto

locale info_registry = info_store ik db + cjson_doc J fs
  for ik :: "'a IKVAdapter" and db :: "'a \<Rightarrow> string \<rightharpoonup> string" and J :: "'j CJsonDoc" and fs
begin

lemma as_stored_id: "info_id (as_stored i) = info_id i" "svi_udid (as_stored i) = svi_udid i"
  "service_info_key (as_stored i) = service_info_key i"
  by (simp_all add: info_id_def as_stored_def service_info_key_def)

text \<open>Putting the entries of an info.\<close>

lemma put_entries:
  assumes "ServiceInfoToEntries J i [] = (r0, es)" "info_ok i" "IsKeyValid (svi_udid i)" "registry_ok J (db a)"
    and "ik_PutBatch ik es a = (r, a')"
  shows "registry_ok J (db a') \<and>
    registry J (db a') = (if r = DP_SUCCESS then (registry J (db a))(info_id i \<mapsto> as_stored i) else registry J (db a))"
proof (cases "r = DP_SUCCESS")
  case True
  with assms(5) put_batch_Nil have "es \<noteq> []" by blast
  with entries_parse [OF assms(1,2)] obtain t where t: "es = [(service_info_key i, t)]" "parse_info J t = Some (as_stored i)"
    by blast
  then have "db a' = (db a)(service_info_key i \<mapsto> t)"
    using put_batch [OF assms(5)] True by (simp add: omap_wf_def)
  moreover have "CHR ''#'' \<notin> set (svi_udid (as_stored i))" using assms(3) by (simp add: as_stored_id IsKeyValid_iff)
  ultimately show ?thesis
    using registry_ok_update [OF assms(4) t(2) _ refl] True by (simp add: as_stored_id)
next
  case False
  have "omap_wf es" using entries_parse [OF assms(1,2)] by (auto simp: omap_wf_def)
  with put_batch [OF assms(5)] False have "db a' = db a" by simp
  with False assms(4) show ?thesis by simp
qed

lemma process_entry:
  assumes "parse_info J t = Some i"
  shows "ProcessServiceInfoEntry J t u infos =
    (DP_SUCCESS, if info_matches u (info_id i) then infos @ [i] else infos)"
proof -
  from assms obtain j f where j: "cj_Parse J (c_str t) = Some j" "ParseAndValidateJSON J j = (True, f)"
    "i = FillServiceInfo J f ServiceInfo_default"
    by (auto simp: parse_info_def split: option.splits prod.splits if_splits)
  then have "ValidateStringFields J f" "ValidateNumberFields J f"
    by (auto simp: ParseAndValidateJSON_def Let_def split: if_splits)
  then have "udidItem f \<noteq> None" "userIdItem f \<noteq> None" "serviceIdItem f \<noteq> None"
    by (auto simp: ValidateStringFields_def ValidateNumberFields_def IsStringFieldValid_def split: option.splits if_splits)
  then show ?thesis
    by (auto simp: ProcessServiceInfoEntry_def j info_matches_def info_id_def FillServiceInfo_def)
qed

lemma user_infos_eq:
  "\<forall>(k, t)\<in>set es. parse_info J t \<noteq> None \<Longrightarrow>
   user_infos J u es infos = (DP_SUCCESS, infos @ filter (info_matches u \<circ> info_id) (map (\<lambda>(k, t). the (parse_info J t)) es))"
proof (induction es arbitrary: infos)
  case (Cons e es)
  obtain k t where e: "e = (k, t)" by fastforce
  with Cons.prems obtain i where "parse_info J t = Some i" by auto
  with process_entry [OF this, of u infos] Cons e show ?case by simp
qed simp

lemma entries_of_store:
  assumes "registry_ok J m" "omap_wf es" "map_of es = m"
  shows "\<forall>(k, t)\<in>set es. parse_info J t \<noteq> None" "distinct (map (\<lambda>(k, t). the (parse_info J t)) es)"
    "set (map (\<lambda>(k, t). the (parse_info J t)) es) = {i. registry J m (info_id i) = Some i}"
proof -
  have at: "(k, t) \<in> set es \<longleftrightarrow> m k = Some t" for k t
    using map_of_eq_Some_iff [OF omap_wf_distinct [OF assms(2)]] assms(3) by metis
  have key: "\<exists>i. parse_info J t = Some i \<and> k = id_key (info_id i) \<and> registry J m (info_id i) = Some i" if "(k, t) \<in> set es" for k t
    using that registry_okD [OF assms(1)] unfolding at by metis
  from key show parse: "\<forall>(k, t)\<in>set es. parse_info J t \<noteq> None" by fastforce
  have "inj_on (\<lambda>(k, t). the (parse_info J t)) (set es)"
  proof (rule inj_onI)
    fix x y
    assume x: "x \<in> set es" and y: "y \<in> set es"
      and eq: "(case x of (k, t) \<Rightarrow> the (parse_info J t)) = (case y of (k, t) \<Rightarrow> the (parse_info J t))"
    obtain k t k' t' where [simp]: "x = (k, t)" "y = (k', t')" by fastforce
    from key [of k t] key [of k' t'] x y eq have "k = k'" by auto
    with at x y show "x = y" by simp
  qed
  moreover have "distinct es" using omap_wf_distinct [OF assms(2)] distinct_map by blast
  ultimately show "distinct (map (\<lambda>(k, t). the (parse_info J t)) es)" by (simp add: distinct_map)
  show "set (map (\<lambda>(k, t). the (parse_info J t)) es) = {i. registry J m (info_id i) = Some i}"
  proof (intro set_eqI iffI)
    fix i assume "i \<in> set (map (\<lambda>(k, t). the (parse_info J t)) es)"
    then show "i \<in> {i. registry J m (info_id i) = Some i}" using key by fastforce
  next
    fix i assume "i \<in> {i. registry J m (info_id i) = Some i}"
    with registry_SomeD [OF assms(1), of "info_id i" i] obtain t where "(id_key (info_id i), t) \<in> set es" "parse_info J t = Some i"
      unfolding at by auto
    then show "i \<in> set (map (\<lambda>(k, t). the (parse_info J t)) es)" by force
  qed
qed

end

section \<open>The manager refines the registry\<close>

lemma put_refines:
  assumes reg: "info_registry (sme_local E) db (sme_json E) fs"
    and a: "serviceInfoKvAdapter s = Some a" "registry_ok (sme_json E) (db a)"
    and put: "info_ok i" "PutServiceInfo E i s = (r, s1)"
  shows "\<exists>a1. serviceInfoKvAdapter s1 = Some a1 \<and> registry_ok (sme_json E) (db a1) \<and>
    registry (sme_json E) (db a1) \<in> {registry (sme_json E) (db a), (registry (sme_json E) (db a))(info_id i \<mapsto> as_stored i)} \<and>
    (r = DP_SUCCESS \<longrightarrow> registry (sme_json E) (db a1) = (registry (sme_json E) (db a))(info_id i \<mapsto> as_stored i))"
proof (cases "IsSvrInfoValid i")
  case True
  then have valid: "IsKeyValid (svi_udid i)" by (auto simp: IsSvrInfoValid_def split: if_splits)
  obtain r0 es where es: "ServiceInfoToEntries (sme_json E) i [] = (r0, es)" by fastforce
  obtain ret a1 where p: "ik_PutBatch (sme_local E) es a = (ret, a1)" by fastforce
  have s1: "serviceInfoKvAdapter s1 = Some a1" "r = DP_SUCCESS \<Longrightarrow> ret = DP_SUCCESS"
    using put(2) a(1) True es p by (auto simp: PutServiceInfo_def Let_def split: if_splits option.splits prod.splits)
  from info_registry.put_entries [OF reg es put(1) valid a(2) p] s1 show ?thesis by auto
next
  case False
  with put(2) a show ?thesis by (auto simp: PutServiceInfo_def)
qed

lemma delete_refines:
  assumes reg: "info_registry (sme_local E) db (sme_json E) fs"
    and a: "serviceInfoKvAdapter s = Some a" "registry_ok (sme_json E) (db a)"
    and del: "DeleteServiceInfo E u s = (r, s1)"
  shows "\<exists>a1. serviceInfoKvAdapter s1 = Some a1 \<and> registry_ok (sme_json E) (db a1) \<and>
    (\<forall>x. registry (sme_json E) (db a1) x = registry (sme_json E) (db a) x \<or>
      info_matches u x \<and> registry (sme_json E) (db a1) x = None) \<and>
    (r = DP_SUCCESS \<longrightarrow> (\<forall>x. registry (sme_json E) (db a1) x =
      (if info_matches u x then None else registry (sme_json E) (db a) x)))"
proof -
  let ?J = "sme_json E"
  define pre where "pre = SERINFO_PREFIX @ SEPARATOR @ ui_udid u @ SEPARATOR"
  note call = del [unfolded DeleteServiceInfo_def, folded pre_def]
  have same: ?thesis if "s1 = s" "r \<noteq> DP_SUCCESS" using that a by auto
  obtain g es where g: "ik_GetByPrefix (sme_local E) pre [] a = (g, es)" by fastforce
  define ks where "ks = filter (\<lambda>key. IsKeyMatch (drop (length pre) key) u) (map fst es)"
  obtain d a1 where d: "ik_DeleteBatch (sme_local E) ks a = (d, a1)" by fastforce
  show ?thesis
  proof (cases "ui_udid u = [] \<or> g \<noteq> DP_SUCCESS")
    case True
    have "s1 = s \<and> r \<noteq> DP_SUCCESS"
      using True call a(1) g by (auto simp: Let_def split: if_splits)
    then show ?thesis using same by simp
  next
    case False
    have call: "serviceInfoKvAdapter s1 = Some a1 \<and> (r = DP_SUCCESS \<longrightarrow> d = DP_SUCCESS)"
      using False call a(1) g d [unfolded ks_def]
      by (auto simp: DeleteSyncServiceInfo_def Let_def split: if_splits option.splits prod.splits)
    have store: "info_store (sme_local E) db" using reg by (rule info_registry.axioms(1))
    from info_store.get_prefix [OF store, of pre a es] g False have es: "map_of es = keep_keys (prefix pre) (db a)" by simp
    have ks: "id_key x \<in> set ks \<longleftrightarrow> db a (id_key x) \<noteq> None \<and> info_matches u x" if "CHR ''#'' \<notin> set (fst x)" for x
    proof -
      have "id_key x \<in> set (map fst es) \<longleftrightarrow> map_of es (id_key x) \<noteq> None" by (simp add: map_of_eq_None_iff)
      then show ?thesis
        using key_match [OF that, of u] unfolding es ks_def by (auto simp: keep_keys_def pre_def)
    qed
    have reg_keep: "registry ?J (keep_keys (\<lambda>k. k \<notin> gone) (db a)) x =
        (if id_key x \<in> gone then None else registry ?J (db a) x)" for gone x
      by (simp add: registry_def keep_keys_def)
    have none: "registry ?J (db a) x = None" if "CHR ''#'' \<in> set (fst x)" for x
      using registry_SomeD [OF a(2), of x] that by (cases "registry ?J (db a) x") auto
    from info_store.delete_batch [OF store d] obtain gone where gone: "gone \<subseteq> set ks"
      "db a1 = keep_keys (\<lambda>k. k \<notin> gone) (db a)" and all: "d = DP_SUCCESS \<longrightarrow> db a1 = keep_keys (\<lambda>k. k \<notin> set ks) (db a)" by blast
    have "registry ?J (db a1) x = registry ?J (db a) x \<or> info_matches u x \<and> registry ?J (db a1) x = None" for x
      using ks [of x] none [of x] gone(1) unfolding gone(2) reg_keep by (cases "CHR ''#'' \<in> set (fst x)") auto
    moreover have "registry ?J (db a1) x = (if info_matches u x then None else registry ?J (db a) x)" if "r = DP_SUCCESS" for x
    proof -
      from that call all have "db a1 = keep_keys (\<lambda>k. k \<notin> set ks) (db a)" by simp
      then show ?thesis using ks [of x] none [of x] reg_keep [of "set ks" x]
        by (cases "CHR ''#'' \<in> set (fst x)") (auto simp: registry_def)
    qed
    moreover have "registry_ok ?J (db a1)" unfolding gone(2) using a(2) by (rule registry_ok_keep)
    ultimately show ?thesis using call by blast
  qed
qed

lemma query_refines:
  assumes reg: "info_registry (sme_local E) db (sme_json E) fs"
    and a: "serviceInfoKvAdapter s = Some a" "registry_ok (sme_json E) (db a)"
    and query: "GetServiceInfosByUserInfo E u [] s = (DP_SUCCESS, infos)"
  shows "infos \<noteq> [] \<and> distinct infos \<and>
    set infos = {i. registry (sme_json E) (db a) (info_id i) = Some i \<and> info_matches u (info_id i)}"
proof -
  from query a(1) obtain es where g: "ik_GetByPrefix (sme_local E) [] [] a = (DP_SUCCESS, es)"
    and ui: "user_infos (sme_json E) u es [] = (DP_SUCCESS, infos)" "infos \<noteq> []"
    by (auto simp: GetServiceInfosByUserInfo_def Let_def split: if_splits prod.splits)
  have es: "omap_wf es" "map_of es = db a"
    using info_store.get_prefix [OF info_registry.axioms(1) [OF reg] g] by (simp_all add: keep_keys_def)
  note all = info_registry.entries_of_store [OF reg a(2) es]
  have infos: "infos = filter (info_matches u \<circ> info_id) (map (\<lambda>(k, t). the (parse_info (sme_json E) t)) es)"
    using info_registry.user_infos_eq [OF reg all(1), of u "[]"] ui(1) by simp
  show ?thesis using ui(2) all(2,3) unfolding infos set_filter by (auto intro: distinct_filter)
qed


text \<open>C35: The text an info is stored as is read back as the same info, except that a length of \<open>2 ^ 31\<close> or more
  comes back as \<open>2 ^ 31 - 1\<close>: it is written as an unsigned number and read as a signed one.\<close>

theorem service_info_text:
  assumes "cjson_doc J fs" "info_ok i" "ServiceInfoToEntries J i [] = (DP_SUCCESS, es)" "es \<noteq> []"
  shows "map fst es = [service_info_key i] \<and> all_infos J es [] = (DP_SUCCESS, [as_stored i]) \<and>
    (all_infos J es [] = (DP_SUCCESS, [i]) \<longleftrightarrow> svi_dataLen i < 2 ^ 31)"
proof -
  from cjson_doc.entries_parse [OF assms(1,3,2)] assms(4) obtain t where
    t: "es = [(service_info_key i, t)]" "parse_info J t = Some (as_stored i)" by blast
  then have all: "all_infos J es [] = (DP_SUCCESS, [as_stored i])"
    by (auto simp: parse_info_def split: option.splits prod.splits if_splits)
  have "as_stored i = i \<longleftrightarrow> svi_dataLen i < 2 ^ 31"
  proof
    assume "as_stored i = i"
    then have "svi_dataLen (as_stored i) = svi_dataLen i" by simp
    then show "svi_dataLen i < 2 ^ 31" by (simp add: as_stored_def)
  qed (simp add: as_stored_def)
  with all t show ?thesis by simp
qed

section \<open>A registry in memory\<close>

lemma mem_registry: "info_registry (ServiceInfoKvAdapter_ops mem_store) (sik_db map_of) flat_json flat_fields"
  by (intro info_registry.intro mem_sik_promises flat.cjson_doc_axioms)

interpretation mem_registry: info_registry "ServiceInfoKvAdapter_ops mem_store" "sik_db map_of" flat_json flat_fields
  by (rule mem_registry)

definition demo_sim_env :: "(((unit, (string, string) umap) ServiceInfoKvAdapter), ((unit, (string, string) umap) KVAdapter), flat_json) SimEnv" where
  "demo_sim_env =
     \<lparr>sme_json = flat_json, sme_localUdid = ''u'',
      sme_local = ServiceInfoKvAdapter_ops mem_store,
      sme_newLocal = \<lparr>sik_kvStorePtr = None, sik_kvDataMgr = (), sik_deathRecipient = True, sik_isInited = False\<rparr>,
      sme_LocalInit = (\<lambda>a. (DP_SUCCESS, a\<lparr>sik_kvStorePtr := Some [], sik_isInited := True\<rparr>)),
      sme_LocalUnInit = (\<lambda>a. (DP_SUCCESS, a)),
      sme_sync = KVAdapter_ops mem_store,
      sme_newSync = \<lparr>kvStorePtr = None, kvDataMgr = (), dataChangeListener = True, syncCompletedListener = False,
        deathRecipient = True\<rparr>,
      sme_SyncInit = (\<lambda>b. (DP_SUCCESS, b\<lparr>kvStorePtr := Some []\<rparr>))\<rparr>"

definition demo_service_info :: "string \<Rightarrow> int \<Rightarrow> int \<Rightarrow> int \<Rightarrow> ServiceInfo" where
  "demo_service_info udid userId serviceId len =
     \<lparr>svi_udid = udid, svi_userId = userId, svi_displayId = 7, svi_serviceOwnerTokenId = 1, svi_serviceOwnerPkgName = ''pkg'',
      svi_serviceRegisterTokenId = 2, svi_serviceId = serviceId, svi_timeStamp = 1700000000000, svi_publishState = 1,
      svi_serviceType = ''type'', svi_serviceName = ''name'', svi_serviceDisplayName = ''display'', svi_customData = ''data'',
      svi_serviceCode = ''code'', svi_dataLen = len, svi_extraData = [], svi_version = ''1'', svi_description = ''text''\<rparr>"

definition demo_sim :: "(((unit, (string, string) umap) ServiceInfoKvAdapter), ((unit, (string, string) umap) KVAdapter)) ServiceInfoManager" where
  "demo_sim = snd (Sim_Init demo_sim_env \<lparr>serviceInfoKvAdapter = None, syncServiceInfoKvAdapter = None\<rparr>)"

lemma demo_env_registry: "info_registry (sme_local demo_sim_env) (sik_db map_of) (sme_json demo_sim_env) flat_fields"
  by (simp add: demo_sim_env_def mem_registry)

lemma demo_sim_empty: "\<exists>a. serviceInfoKvAdapter demo_sim = Some a \<and> registry_ok (sme_json demo_sim_env) (sik_db map_of a)"
  by (simp add: demo_sim_def Sim_Init_def demo_sim_env_def sik_db_def registry_ok_def)

lemma demo_service_info_ok: "info_ok (demo_service_info ''u'' 100 5 4294967295)"
  by (simp add: info_ok_def demo_service_info_def int_in_def)

definition demo_registered where
  "demo_registered = snd (PutServiceInfo demo_sim_env (demo_service_info ''u'' 100 5 4294967295) demo_sim)"

definition demo_user :: UserInfo where
  "demo_user = \<lparr>ui_udid = ''u'', ui_userId = 100, ui_serviceId = -1\<rparr>"

lemma demo_registered_ok:
  "\<exists>a. serviceInfoKvAdapter demo_registered = Some a \<and> registry_ok (sme_json demo_sim_env) (sik_db map_of a)"
proof -
  obtain r s1 where put: "PutServiceInfo demo_sim_env (demo_service_info ''u'' 100 5 4294967295) demo_sim = (r, s1)" by fastforce
  from demo_sim_empty obtain a where "serviceInfoKvAdapter demo_sim = Some a" "registry_ok (sme_json demo_sim_env) (sik_db map_of a)"
    by blast
  from put_refines [OF demo_env_registry this demo_service_info_ok put] put show ?thesis by (auto simp: demo_registered_def)
qed

lemma demo_put: "fst (PutServiceInfo demo_sim_env (demo_service_info ''u'' 100 5 4294967295) demo_sim) = DP_SUCCESS"
  by code_simp

lemma demo_delete: "fst (DeleteServiceInfo demo_sim_env demo_user demo_registered) = DP_SUCCESS"
  by code_simp

lemma demo_query:
  "GetServiceInfosByUserInfo demo_sim_env demo_user [] demo_registered =
    (DP_SUCCESS, [demo_service_info ''u'' 100 5 2147483647])"
  by code_simp


theorem service_info_text_witness:
  "\<exists>es. ServiceInfoToEntries flat_json (demo_service_info ''u'' 100 5 4294967295) [] = (DP_SUCCESS, es) \<and>
    all_infos flat_json es [] = (DP_SUCCESS, [demo_service_info ''u'' 100 5 2147483647])"
proof -
  obtain es where es: "ServiceInfoToEntries flat_json (demo_service_info ''u'' 100 5 4294967295) [] = (DP_SUCCESS, es)" "es \<noteq> []"
    by (simp add: ServiceInfoToEntries_def flat_json_def)
  from service_info_text [OF flat.cjson_doc_axioms demo_service_info_ok es] es show ?thesis
    by (simp add: as_stored_def demo_service_info_def)
qed

end
