(* ===== verification/ListenerLaws.thy ===== *)
theory ListenerLaws
  imports ChangeListener ControlLaws SubscribeLaws ServiceRegistry DynamicLaws
begin

text \<open>
  The listeners: which of the changed entries are announced, and what the subscribers are told of a switch. A
  profile that other systems know under a name without the suffix is kept twice; of the two entries only
  the one with the suffix is announced.
\<close>

section \<open>The entries that are announced\<close>

definition announced_parts :: "string \<Rightarrow> string list option" where
  "announced_parts k =
     (case split_key k of
        None \<Rightarrow> None
      | Some res \<Rightarrow>
          if length res < 3 \<or> res ! 0 \<notin> {DEV_PREFIX, SVR_PREFIX, CHAR_PREFIX} \<or>
             (res ! 0 = CHAR_PREFIX \<and> length res > 4 \<and> res ! 4 = CHARACTERISTIC_KEY)
          then None else Some res)"

text \<open>The other key of a profile that is kept twice, for a key with and for one without the suffix.\<close>

definition without_oh :: "string \<Rightarrow> string option" where
  "without_oh k =
     (case announced_parts k of
        None \<Rightarrow> None
      | Some res \<Rightarrow> if EndsWith (res ! 2) OH_PROFILE_SUFFIX
          then Some (JoinString (res[2 := CheckAndRemoveOhSuffix (res ! 2)]) SEPARATOR) else None)"

definition with_oh :: "string \<Rightarrow> string option" where
  "with_oh k =
     (case announced_parts k of
        None \<Rightarrow> None
      | Some res \<Rightarrow> if \<not> EndsWith (res ! 2) OH_PROFILE_SUFFIX \<and> IsNeedAddOhSuffix (res ! 2) (res ! 0 = SVR_PREFIX)
          then Some (JoinString (res[2 := (res ! 2) @ OH_PROFILE_SUFFIX]) SEPARATOR) else None)"

definition stored :: "'a IKVAdapter \<Rightarrow> ('a, 'w) DeviceProfileManager \<Rightarrow> string \<Rightarrow> bool" where
  "stored ik dm k \<longleftrightarrow> (\<exists>a. st_kv (dm_stores dm) = Some a \<and> fst (ik_Get ik k [] a) = DP_SUCCESS)"

definition announced :: "'a IKVAdapter \<Rightarrow> ('a, 'w) DeviceProfileManager \<Rightarrow> bool \<Rightarrow> (string \<times> string) list \<Rightarrow> (string \<rightharpoonup> string)" where
  "announced ik dm isDelete recs = (\<lambda>k.
     if announced_parts k = None \<or> (\<exists>k'\<in>fst ` set recs. without_oh k' = Some k) \<or>
        (\<not> isDelete \<and> (\<exists>k'. with_oh k = Some k' \<and> stored ik dm k'))
     then None else map_of (rev recs) k)"

lemma filter_record_eq:
  "filter_record (k, v) (m, m2, m3) =
     (if announced_parts k = None then (m, m2, m3)
      else (omap_put k v m, case without_oh k of None \<Rightarrow> m2 | Some k' \<Rightarrow> omap_put k k' m2,
            case with_oh k of None \<Rightarrow> m3 | Some k' \<Rightarrow> omap_put k k' m3))"
proof (cases "split_key k")
  case (Some res)
  then have "res \<noteq> []" by (auto simp: split_key_def split: if_splits)
  then have "hd res = res ! 0" by (simp add: hd_conv_nth)
  with Some show ?thesis
    by (simp add: filter_record_def announced_parts_def without_oh_def with_oh_def Let_def CheckAndAddOhSuffix_def)
qed (simp add: filter_record_def announced_parts_def)

lemma without_with: "without_oh k = Some k' \<Longrightarrow> with_oh k = None"
  by (auto simp: without_oh_def with_oh_def split: option.splits if_splits)

lemma fold_filter_record:
  assumes "fold filter_record recs (m, m2, m3) = (m', m2', m3')" "omap_wf m" "omap_wf m2" "omap_wf m3"
  shows "omap_wf m' \<and> omap_wf m2' \<and> omap_wf m3' \<and>
    map_of m' = map_of m ++ (\<lambda>k. if announced_parts k = None then None else map_of (rev recs) k) \<and>
    map_of m2' = map_of m2 ++ (\<lambda>k. if k \<in> fst ` set recs then without_oh k else None) \<and>
    map_of m3' = map_of m3 ++ (\<lambda>k. if k \<in> fst ` set recs then with_oh k else None)"
  using assms
proof (induction recs arbitrary: m m2 m3)
  case Nil
  then show ?case by (simp add: map_add_def fun_eq_iff split: option.split)
next
  case (Cons e recs)
  obtain k v where e: "e = (k, v)" by fastforce
  obtain n n2 n3 where n: "filter_record (k, v) (m, m2, m3) = (n, n2, n3)" by (metis prod_cases3)
  have none: "announced_parts k = None \<Longrightarrow> without_oh k = None \<and> with_oh k = None"
    by (simp add: without_oh_def with_oh_def)
  have wf: "omap_wf n" "omap_wf n2" "omap_wf n3"
    using n Cons.prems(2-4) by (auto simp: filter_record_eq omap_wf_put split: if_splits option.splits)
  have maps: "map_of n = (if announced_parts k = None then map_of m else (map_of m)(k \<mapsto> v))"
    "map_of n2 = (case without_oh k of None \<Rightarrow> map_of m2 | Some k' \<Rightarrow> (map_of m2)(k \<mapsto> k'))"
    "map_of n3 = (case with_oh k of None \<Rightarrow> map_of m3 | Some k' \<Rightarrow> (map_of m3)(k \<mapsto> k'))"
    using n none by (auto simp: filter_record_eq split: if_splits option.splits)
  from Cons.prems(1) n have "fold filter_record recs (n, n2, n3) = (m', m2', m3')" by (simp add: e)
  from Cons.IH [OF this wf] show ?case
    unfolding maps by (auto simp: e map_add_def fun_eq_iff split: option.splits)
qed

lemma map_of_fold_delete:
  "map_of (fold (\<lambda>e. AList.delete (f e)) l m) k = (if k \<in> f ` set l then None else map_of m k)"
  by (induction l arbitrary: m) auto

lemma omap_wf_fold_delete: "omap_wf m \<Longrightarrow> omap_wf (fold (\<lambda>e. AList.delete (f e)) l m)"
  by (induction l arbitrary: m) (auto simp: omap_wf_delete)

lemma announced_partsD:
  "announced_parts k = Some res \<Longrightarrow> res = split_on CHR ''#'' k \<and> length res \<ge> 3 \<and> res \<noteq> [] \<and> join_with SEPARATOR res = k"
  by (auto simp: announced_parts_def split_key_def join_split split: if_splits)

lemma with_oh_inj:
  assumes "with_oh k = Some n" "with_oh k' = Some n"
  shows "k = k'"
proof -
  from assms obtain r r' where r: "announced_parts k = Some r" "announced_parts k' = Some r'"
    and n: "n = join_with SEPARATOR (r[2 := r ! 2 @ OH_PROFILE_SUFFIX])" "n = join_with SEPARATOR (r'[2 := r' ! 2 @ OH_PROFILE_SUFFIX])"
    by (auto simp: with_oh_def JoinString_join split: option.splits if_splits)
  have parts: "split_on CHR ''#'' (join_with SEPARATOR (r[2 := r ! 2 @ OH_PROFILE_SUFFIX])) = r[2 := r ! 2 @ OH_PROFILE_SUFFIX]"
    if "announced_parts k = Some r" for k r
  proof (rule split_join)
    from announced_partsD [OF that] have "r ! 2 \<in> set r" "r = split_on CHR ''#'' k" by (auto intro: nth_mem)
    then show "\<forall>x\<in>set (r[2 := r ! 2 @ OH_PROFILE_SUFFIX]). CHR ''#'' \<notin> set x"
      using split_on_fields [of _ "CHR ''#''" k] set_update_subset_insert [of r 2 "r ! 2 @ OH_PROFILE_SUFFIX"] by auto
  qed (use announced_partsD [OF that] in simp)
  from parts [OF r(1)] parts [OF r(2)] n have eq: "r[2 := r ! 2 @ OH_PROFILE_SUFFIX] = r'[2 := r' ! 2 @ OH_PROFILE_SUFFIX]" by simp
  have len: "length r \<ge> 3" "length r' \<ge> 3" using announced_partsD r by blast+
  from eq have "length r = length r'" by (metis length_list_update)
  moreover have "r ! i = r' ! i" if "i < length r" for i
  proof (cases "i = 2")
    case True
    have "(r[2 := r ! 2 @ OH_PROFILE_SUFFIX]) ! 2 = (r'[2 := r' ! 2 @ OH_PROFILE_SUFFIX]) ! 2" using eq by (rule arg_cong)
    then have "r ! 2 @ OH_PROFILE_SUFFIX = r' ! 2 @ OH_PROFILE_SUFFIX" using len by simp
    with True show ?thesis by simp
  next
    case False
    have "(r[2 := r ! 2 @ OH_PROFILE_SUFFIX]) ! i = (r'[2 := r' ! 2 @ OH_PROFILE_SUFFIX]) ! i" using eq by (rule arg_cong)
    with False show ?thesis by simp
  qed
  ultimately have "r = r'" by (simp add: list_eq_iff_nth_eq)
  with announced_partsD [OF r(1)] announced_partsD [OF r(2)] show ?thesis by metis
qed

lemma fst_GetEntriesByKeys:
  "key \<in> fst ` set (GetEntriesByKeys ik ks dm) \<longleftrightarrow> key \<in> set ks \<and> stored ik dm key"
proof (cases "st_kv (dm_stores dm)")
  case (Some a)
  have "key \<in> fst ` set (concat (map (\<lambda>key. let (ret, val) = ik_Get ik key [] a in if ret \<noteq> DP_SUCCESS then [] else [(key, val)]) ks)) \<longleftrightarrow>
      key \<in> set ks \<and> fst (ik_Get ik key [] a) = DP_SUCCESS" for ks
    by (induction ks) (auto simp: Let_def case_prod_beta)
  with Some show ?thesis by (simp add: GetEntriesByKeys_def stored_def)
qed (simp add: GetEntriesByKeys_def stored_def)

text \<open>The keys with the suffix that the store has, for the keys \<open>m3\<close> without.\<close>

lemma stored_twins:
  assumes "omap_wf m3" "\<forall>(k, n)\<in>set m3. with_oh k = Some n"
  defines "bk \<equiv> fold (\<lambda>(k, n). omap_put n k) m3 []"
  shows "k \<in> (\<lambda>(key, _). case map_of bk key of None \<Rightarrow> [] | Some k \<Rightarrow> k) ` set (GetEntriesByKeys ik (map snd m3) dm) \<longleftrightarrow>
    (\<exists>n. (k, n) \<in> set m3 \<and> stored ik dm n)"
proof -
  have inv: "map_of (fold (\<lambda>(k, n). omap_put n k) l acc) = map_of acc ++ map_of (rev (map (\<lambda>(k, n). (n, k)) l))"
    for l :: "(string \<times> string) list" and acc by (induction l arbitrary: acc) auto
  have "distinct (map snd m3)"
  proof -
    have "inj_on snd (set m3)"
    proof (rule inj_onI)
      fix x y assume xy: "x \<in> set m3" "y \<in> set m3" "snd x = snd y"
      obtain k n k' n' where [simp]: "x = (k, n)" "y = (k', n')" by fastforce
      from xy assms(2) have "with_oh k = Some n" "with_oh k' = Some n" by auto
      with xy(3) with_oh_inj [of k n k'] show "x = y" by simp
    qed
    moreover have "distinct m3" using omap_wf_distinct [OF assms(1)] distinct_map by blast
    ultimately show ?thesis by (simp add: distinct_map)
  qed
  moreover have "map fst (map (\<lambda>(k, n). (n, k)) l) = map snd l" for l :: "(string \<times> string) list" by (induction l) auto
  ultimately have "distinct (map fst (rev (map (\<lambda>(k, n). (n, k)) m3)))" by (metis distinct_rev rev_map)
  from map_of_eq_Some_iff [OF this] have bk: "map_of bk n = Some k" if "(k, n) \<in> set m3" for k n
    using that by (force simp: bk_def inv)
  let ?g = "\<lambda>key. case map_of bk key of None \<Rightarrow> [] | Some k \<Rightarrow> k"
  have "(\<lambda>(key, _). ?g key) ` set (GetEntriesByKeys ik (map snd m3) dm) = ?g ` fst ` set (GetEntriesByKeys ik (map snd m3) dm)"
    by (simp add: image_image case_prod_beta)
  moreover have "fst ` set (GetEntriesByKeys ik (map snd m3) dm) = {key. key \<in> snd ` set m3 \<and> stored ik dm key}"
    using fst_GetEntriesByKeys [of _ ik "map snd m3" dm] by auto
  ultimately have "k \<in> (\<lambda>(key, _). ?g key) ` set (GetEntriesByKeys ik (map snd m3) dm) \<longleftrightarrow>
      k \<in> ?g ` {key. key \<in> snd ` set m3 \<and> stored ik dm key}" by simp
  also have "\<dots> \<longleftrightarrow> (\<exists>n. (k, n) \<in> set m3 \<and> stored ik dm n)"
  proof
    assume "k \<in> ?g ` {key. key \<in> snd ` set m3 \<and> stored ik dm key}"
    then obtain k' n where "(k', n) \<in> set m3" "stored ik dm n" "k = ?g n" by auto
    with bk show "\<exists>n. (k, n) \<in> set m3 \<and> stored ik dm n" by auto
  next
    assume "\<exists>n. (k, n) \<in> set m3 \<and> stored ik dm n"
    then obtain n where n: "(k, n) \<in> set m3" "stored ik dm n" by blast
    have "k = ?g n" using bk [OF n(1)] by simp
    moreover have "n \<in> {key. key \<in> snd ` set m3 \<and> stored ik dm key}" using n by force
    ultimately show "k \<in> ?g ` {key. key \<in> snd ` set m3 \<and> stored ik dm key}" by (rule image_eqI)
  qed
  finally show ?thesis .
qed

lemma filter_entries:
  "omap_wf (FilterEntries ik recs [] isDelete dm) \<and>
   map_of (FilterEntries ik recs [] isDelete dm) = announced ik dm isDelete recs"
proof -
  obtain m m2 m3 where f: "fold filter_record recs ([], [], []) = (m, m2, m3)" by (metis prod_cases3)
  from fold_filter_record [OF f] have wf: "omap_wf m" "omap_wf m2" "omap_wf m3"
    and m: "map_of m = (\<lambda>k. if announced_parts k = None then None else map_of (rev recs) k)"
    and m2: "map_of m2 = (\<lambda>k. if k \<in> fst ` set recs then without_oh k else None)"
    and m3: "map_of m3 = (\<lambda>k. if k \<in> fst ` set recs then with_oh k else None)" by simp_all
  define e1 where "e1 = fold (\<lambda>(_, k). AList.delete k) m2 m"
  define n3 where "n3 = fold (\<lambda>(_, k). AList.delete k) m2 m3"
  have snd_eq: "(\<lambda>(_, k). AList.delete k) = (\<lambda>e. AList.delete (snd e))" by (simp add: fun_eq_iff case_prod_beta)
  have twin: "k \<in> snd ` set m2 \<longleftrightarrow> (\<exists>k'\<in>fst ` set recs. without_oh k' = Some k)" for k
  proof -
    have "(k', k) \<in> set m2 \<longleftrightarrow> k' \<in> fst ` set recs \<and> without_oh k' = Some k" for k'
      using map_of_eq_Some_iff [OF omap_wf_distinct [OF wf(2)], of k' k] unfolding m2 by (auto split: if_splits)
    then show ?thesis by force
  qed
  have e1: "omap_wf e1" "map_of e1 k = (if k \<in> snd ` set m2 then None else map_of m k)" for k
    unfolding e1_def snd_eq using wf by (simp_all add: omap_wf_fold_delete map_of_fold_delete)
  have n3: "omap_wf n3" "map_of n3 k = (if k \<in> snd ` set m2 then None else map_of m3 k)" for k
    unfolding n3_def snd_eq using wf by (simp_all add: omap_wf_fold_delete map_of_fold_delete)
  have n3_at: "(k, n) \<in> set n3 \<longleftrightarrow> k \<notin> snd ` set m2 \<and> k \<in> fst ` set recs \<and> with_oh k = Some n" for k n
    using map_of_eq_Some_iff [OF omap_wf_distinct [OF n3(1)], of k n] unfolding n3(2) m3 by (auto split: if_splits)
  define bk where "bk = fold (\<lambda>(k, n). omap_put n k) n3 []"
  let ?g = "\<lambda>(key, _ :: string). case map_of bk key of None \<Rightarrow> [] | Some k \<Rightarrow> k"
  let ?es = "GetEntriesByKeys ik (map snd n3) dm"
  have g_eq: "(\<lambda>(key, _). AList.delete (case map_of bk key of None \<Rightarrow> [] | Some k \<Rightarrow> k)) = (\<lambda>e. AList.delete (?g e))"
    by (simp add: fun_eq_iff case_prod_beta)
  have run: "FilterEntries ik recs [] isDelete dm = (if isDelete then e1 else fold (\<lambda>e. AList.delete (?g e)) ?es e1)"
    unfolding FilterEntries_def f e1_def [symmetric] n3_def [symmetric] Let_def prod.case g_eq [symmetric] bk_def [symmetric]
    by (auto simp: e1_def n3_def bk_def GetEntriesByKeys_def)
  have all: "\<forall>(k, n)\<in>set n3. with_oh k = Some n" using n3_at by auto
  have late: "k \<in> ?g ` set ?es \<longleftrightarrow> (\<exists>n. (k, n) \<in> set n3 \<and> stored ik dm n)" for k
    unfolding bk_def by (rule stored_twins [OF n3(1) all])
  have wf_run: "omap_wf (FilterEntries ik recs [] isDelete dm)"
    unfolding run using e1(1) by (simp add: omap_wf_fold_delete)
  have "map_of (FilterEntries ik recs [] isDelete dm) k = announced ik dm isDelete recs k" for k
  proof -
    have "k \<notin> fst ` set recs \<Longrightarrow> map_of (rev recs) k = None" by (simp add: map_of_eq_None_iff)
    then show ?thesis
      unfolding run announced_def using late [of k] n3_at [of k]
      by (auto simp: map_of_fold_delete e1(2) m twin)
  qed
  with wf_run show ?thesis by auto
qed

section \<open>Announcements\<close>

definition told :: "ProfileCache \<Rightarrow> SubscribeManager \<Rightarrow> ChangeType \<Rightarrow> (string \<times> string) list \<Rightarrow> delivery list" where
  "told c m ct es = concat (map (\<lambda>(k, v). snd (NotifyProfileChange c (GetProfileType k) ct k v m)) es)"

lemma announce_told:
  "announce ct es s = s\<lparr>ls_deliveries := ls_deliveries s @ told (ls_cache s) (ls_sub s) ct es\<rparr>"
proof (induction es arbitrary: s)
  case Nil
  then show ?case by (simp add: announce_def told_def)
next
  case (Cons e es)
  obtain k v where e: "e = (k, v)" by fastforce
  have "announce ct (e # es) s = announce ct es (snd (ls_notify (GetProfileType k) ct k v s))"
    by (simp add: announce_def e)
  also have "snd (ls_notify (GetProfileType k) ct k v s) =
      s\<lparr>ls_deliveries := ls_deliveries s @ snd (NotifyProfileChange (ls_cache s) (GetProfileType k) ct k v (ls_sub s))\<rparr>"
    by (simp add: ls_notify_def case_prod_beta)
  finally show ?case unfolding Cons by (simp add: told_def e ls_cache_def)
qed


section \<open>Switches\<close>

definition switch_profile :: "string \<Rightarrow> string \<Rightarrow> 32 word \<Rightarrow> nat \<Rightarrow> CharacteristicProfile" where
  "switch_profile udid name w i = CharacteristicProfile_make udid name SWITCH_STATUS (switch_value w i)"

definition switch_key :: "string \<Rightarrow> string \<Rightarrow> string" where
  "switch_key udid name = GenerateDBKey (GenerateCharProfileKey udid name SWITCH_STATUS) CHARACTERISTIC_VALUE DEFAULT_USER_ID"

lemma switch_name_checks:
  "list_all (\<lambda>(name, pos). \<not> IsNeedAddOhSuffix name True \<and> \<not> EndsWith name OH_PROFILE_SUFFIX \<and> length name \<le> 40)
     SWITCH_SERVICE_MAP"
  by code_simp

lemma switch_name_plain:
  "(name, i) \<in> set SWITCH_SERVICE_MAP \<Longrightarrow>
   CheckAndAddOhSuffix name True = name \<and> CheckAndRemoveOhSuffix name = name \<and> length name \<le> 40"
  using switch_name_checks by (auto simp: list_all_iff CheckAndAddOhSuffix_def CheckAndRemoveOhSuffix_def)

lemma switch_entry:
  assumes udid: "IsKeyValid udid" "length udid \<le> 64" and name: "(name, i) \<in> set SWITCH_SERVICE_MAP"
  shows "GetDbKeyByProfile (switch_profile udid name w j) = switch_key udid name"
    and "GetProfileType (switch_key udid name) = CHAR_PROFILE"
    and "DBKeyToSubcribeKey (switch_key udid name) = switch_key udid name"
    and "GetDeviceIdByDBKey (switch_key udid name) = udid"
    and "GetNonOhSuffixServiceNameByDBKey (switch_key udid name) = name"
    and "GetCharKeyByDBKey (switch_key udid name) = SWITCH_STATUS"
    and "char_of_entry (switch_key udid name) (switch_value w j) = switch_profile udid name w j"
proof -
  note plain = switch_name_plain [OF name] and valid = switch_names [OF name]
  have no_sep: "CHR ''#'' \<notin> set udid" "CHR ''#'' \<notin> set name" "udid \<noteq> []" "name \<noteq> []"
    using udid(1) valid by (auto simp: IsKeyValid_iff)
  have key: "switch_key udid name = ''char#'' @ udid @ ''#'' @ name @ ''#SwitchStatus#characteristicValue''"
    by (simp add: switch_key_def key_build)
  have split: "split_key (switch_key udid name) = Some [CHAR_PREFIX, udid, name, SWITCH_STATUS, CHARACTERISTIC_VALUE]"
    unfolding switch_key_def by (subst split_char_key) (use no_sep in \<open>simp_all add: user_fields_def\<close>)
  then have "split_on CHR ''#'' (switch_key udid name) = [CHAR_PREFIX, udid, name, SWITCH_STATUS, CHARACTERISTIC_VALUE]"
    by (simp add: split_key_def split: if_splits)
  then have join: "join_with SEPARATOR [CHAR_PREFIX, udid, name, SWITCH_STATUS, CHARACTERISTIC_VALUE] = switch_key udid name"
    using join_split [of "CHR ''#''" "switch_key udid name"] by (simp only:)
  have len: "len_ok (switch_key udid name)" using udid(2) plain by (simp add: len_ok_def key)
  show "GetDbKeyByProfile (switch_profile udid name w j) = switch_key udid name"
    using no_sep plain by (simp add: GetDbKeyByProfile_def switch_profile_def CharacteristicProfile_make_def key)
  show "GetProfileType (switch_key udid name) = CHAR_PROFILE"
    using len by (simp add: GetProfileType_def StartsWith_def key str_find_0_iff Let_def)
  show "DBKeyToSubcribeKey (switch_key udid name) = switch_key udid name"
    using DBKeyToSubcribeKey_split [OF split] no_sep plain join by simp
  show dev: "GetDeviceIdByDBKey (switch_key udid name) = udid"
    using len by (simp add: GetDeviceIdByDBKey_def key_field_def split)
  show svc: "GetNonOhSuffixServiceNameByDBKey (switch_key udid name) = name"
    using len plain no_sep by (simp add: GetNonOhSuffixServiceNameByDBKey_def GetServiceNameByDBKey_def key_field_def split Let_def)
  show ck: "GetCharKeyByDBKey (switch_key udid name) = SWITCH_STATUS"
    using len by (simp add: GetCharKeyByDBKey_def key_field_def split)
  have user: "GetUserIdFromDbKey (switch_key udid name) = DEFAULT_USER_ID"
    using len by (simp add: GetUserIdFromDbKey_def split Let_def)
  have pr: "GetProfileProperty (switch_key udid name) DEFAULT_USER_ID = CHARACTERISTIC_VALUE"
    using len by (simp add: GetProfileProperty_def split user Let_def)
  show "char_of_entry (switch_key udid name) (switch_value w j) = switch_profile udid name w j"
    by (simp add: char_of_entry_def EntriesToCharProfile_def omap_put.simps dev svc ck GetProfilePropertiesMap_def
        CharacteristicProfile_default_def CharacteristicProfile_make_def switch_profile_def Let_def pr user IsPropertyValid_def
        switch_value_def)
qed

definition switch_name :: "nat \<Rightarrow> string" where
  "switch_name i = snd (Cache_GetServiceNameByPos (int i) SWITCH_SERVICE_MAP [])"

lemma switch_name_at:
  assumes "i < 5"
  shows "Cache_GetServiceNameByPos (int i) SWITCH_SERVICE_MAP nm = (DP_SUCCESS, switch_name i)"
    and "(switch_name i, i) \<in> set SWITCH_SERVICE_MAP"
proof -
  from switch_name_of_pos [OF assms] obtain name where n: "(name, i) \<in> set SWITCH_SERVICE_MAP"
    "Cache_GetServiceNameByPos (int i) SWITCH_SERVICE_MAP [] = (DP_SUCCESS, name)" by blast
  then show "(switch_name i, i) \<in> set SWITCH_SERVICE_MAP" by (simp add: switch_name_def)
  from n(2) show "Cache_GetServiceNameByPos (int i) SWITCH_SERVICE_MAP nm = (DP_SUCCESS, switch_name i)"
    by (auto simp: Cache_GetServiceNameByPos_def switch_name_def split: if_splits option.splits)
qed

abbreviation "switch_cache_key udid i \<equiv> GenerateCharProfileKey udid (switch_name i) SWITCH_STATUS"

lemma switch_cache_key_inj:
  assumes "i < 5" "j < 5"
  shows "switch_cache_key udid i = switch_cache_key udid j \<longleftrightarrow> i = j"
proof
  assume "switch_cache_key udid i = switch_cache_key udid j"
  then have "switch_name i = switch_name j" by (simp add: GenerateCharProfileKey_def)
  with switch_name_at(2) [OF assms(1)] switch_name_at(2) [OF assms(2)] show "i = j"
    using switch_names(1) [of "switch_name i" i] switch_names [of "switch_name i" j] by auto
qed simp

definition switch_told :: "string \<Rightarrow> 32 word \<Rightarrow> ProfileCache \<Rightarrow> SubscribeManager \<Rightarrow> nat \<Rightarrow> delivery list" where
  "switch_told udid w c m i =
     (let p = switch_profile udid (switch_name i) w i in
      if Cache_IsCharProfileExist p c then []
      else snd (notify_subscribers (switch_key udid (switch_name i)) CHAR_PROFILE_UPDATE
             (OnCharacteristicProfileUpdate p p) m))"

lemma switch_value_bit: "to_string (uint (drop_bit i w AND 1)) = switch_value w i" for w :: "32 word"
proof -
  have "drop_bit i w AND 1 = of_bool (bit w i)" by (rule bit_word_eqI) (auto simp: bit_simps bit_1_iff)
  then show ?thesis unfolding \<open>drop_bit i w AND 1 = _\<close> by (simp add: switch_value_def to_string_bit)
qed

lemma set_cache_simps [simp]:
  "ls_cache (ls_set_cache c s) = c" "ls_sub (ls_set_cache c s) = ls_sub s"
  "ls_deliveries (ls_set_cache c s) = ls_deliveries s"
  "ls_cache (s\<lparr>ls_deliveries := d\<rparr>) = ls_cache s" "ls_set_cache c (s\<lparr>ls_deliveries := d\<rparr>) = (ls_set_cache c s)\<lparr>ls_deliveries := d\<rparr>"
  by (simp_all add: ls_cache_def ls_set_cache_def)

text \<open>One switch: the profile is put in the cache before the subscribers are told, so the old profile they
  are told of is the new one.\<close>

lemma generate_switch:
  assumes udid: "IsKeyValid udid" "length udid \<le> 64" and i: "i < 5"
    and room: "length (charProfileMap (ls_cache s)) \<le> MAX_CHAR_SIZE"
  shows "GenerateSwitchNotify udid (switch_name i) SWITCH_STATUS (switch_value w i) UPDATE s =
    (DP_SUCCESS, if Cache_IsCharProfileExist (switch_profile udid (switch_name i) w i) (ls_cache s) then s
      else (ls_set_cache (snd (Cache_AddCharProfile (switch_profile udid (switch_name i) w i) (ls_cache s))) s)
        \<lparr>ls_deliveries := ls_deliveries s @ switch_told udid w (ls_cache s) (ls_sub s) i\<rparr>)"
proof -
  let ?n = "switch_name i" and ?p = "switch_profile udid (switch_name i) w i"
  let ?c = "snd (Cache_AddCharProfile ?p (ls_cache s))"
  note name = switch_name_at(2) [OF i]
  note entry = switch_entry [OF udid name]
  have valid: "IsKeyValid ?n" "IsKeyValid SWITCH_STATUS" "IsKeyValid (switch_value w i)"
    using switch_names [OF name] switch_status_valid by (auto simp: switch_value_def IsKeyValid_iff)
  have old: "snd (Cache_GetCharacteristicProfile udid ?n SWITCH_STATUS CharacteristicProfile_default ?c) = ?p"
    using room udid valid
    by (simp add: Cache_AddCharProfile_def Cache_GetCharacteristicProfile_def switch_profile_def CharacteristicProfile_make_def Let_def)
  have "NotifyProfileChange ?c CHAR_PROFILE UPDATE (switch_key udid ?n) (switch_value w i) (ls_sub s) =
      notify_subscribers (switch_key udid ?n) CHAR_PROFILE_UPDATE (OnCharacteristicProfileUpdate ?p ?p) (ls_sub s)"
    by (simp add: NotifyProfileChange_dispatch NotifyCharProfileUpdate_def entry old)
  moreover have "fst (notify_subscribers k t ev m) = DP_SUCCESS" for k t ev m by (simp add: notify_subscribers_def Let_def)
  moreover have "CharacteristicProfile_make udid ?n SWITCH_STATUS (switch_value w i) = ?p"
    "cp_characteristicValue ?p = switch_value w i"
    by (simp_all add: switch_profile_def CharacteristicProfile_make_def)
  ultimately show ?thesis
    using udid valid by (simp add: GenerateSwitchNotify_def entry ls_notify_def switch_told_def Let_def case_prod_beta)
qed

lemma exists_iff:
  assumes "IsKeyValid udid" "i < 5"
  shows "Cache_IsCharProfileExist (switch_profile udid (switch_name i) w i) c \<longleftrightarrow>
    map_of (charProfileMap c) (switch_cache_key udid i) = Some (switch_profile udid (switch_name i) w i)"
  using assms switch_names [OF switch_name_at(2) [OF assms(2)]] switch_status_valid
  by (auto simp: Cache_IsCharProfileExist_def switch_profile_def CharacteristicProfile_make_def split: option.split)

lemma switch_loop_told:
  assumes udid: "IsKeyValid udid" "length udid \<le> 64"
  shows "distinct is \<Longrightarrow> \<forall>i\<in>set is. i < 5 \<Longrightarrow> length (charProfileMap (ls_cache s)) + length is \<le> Suc MAX_CHAR_SIZE \<Longrightarrow>
    ls_deliveries (switch_loop lu udid w is nm s) =
      ls_deliveries s @ concat (map (switch_told udid w (ls_cache s) (ls_sub s)) is) \<and>
    ls_sub (switch_loop lu udid w is nm s) = ls_sub s \<and>
    (\<forall>i\<in>set is. map_of (charProfileMap (ls_cache (switch_loop lu udid w is nm s))) (switch_cache_key udid i) =
      Some (switch_profile udid (switch_name i) w i)) \<and>
    (\<forall>k. k \<notin> switch_cache_key udid ` set is \<longrightarrow>
      map_of (charProfileMap (ls_cache (switch_loop lu udid w is nm s))) k = map_of (charProfileMap (ls_cache s)) k) \<and>
    (udid = lu \<longrightarrow> is \<noteq> [] \<longrightarrow> curLocalSwitch (ls_cache (switch_loop lu udid w is nm s)) = w)"
proof (induction "is" arbitrary: s nm)
  case (Cons i js)
  let ?p = "switch_profile udid (switch_name i) w i"
  have i: "i < 5" and js: "distinct js" "\<forall>j\<in>set js. j < 5" "i \<notin> set js" using Cons.prems by auto
  have room: "length (charProfileMap (ls_cache s)) \<le> MAX_CHAR_SIZE" using Cons.prems(3) by simp
  define c where "c = (if Cache_IsCharProfileExist ?p (ls_cache s) then ls_cache s else snd (Cache_AddCharProfile ?p (ls_cache s)))"
  define s1 where "s1 = snd (GenerateSwitchNotify udid (switch_name i) SWITCH_STATUS (switch_value w i) UPDATE s)"
  define s2 where "s2 = (if udid = lu then ls_set_cache (Cache_SetCurSwitch w (ls_cache s1)) s1 else s1)"
  have gen: "GenerateSwitchNotify udid (switch_name i) SWITCH_STATUS (switch_value w i) UPDATE s = (DP_SUCCESS, s1)"
    unfolding s1_def generate_switch [OF udid i room] by simp
  have s1: "ls_deliveries s1 = ls_deliveries s @ switch_told udid w (ls_cache s) (ls_sub s) i" "ls_sub s1 = ls_sub s"
    "ls_cache s1 = c"
    unfolding s1_def generate_switch [OF udid i room] by (auto simp: c_def switch_told_def ls_set_cache_def ls_cache_def)
  have s2: "ls_deliveries s2 = ls_deliveries s1" "ls_sub s2 = ls_sub s1" "charProfileMap (ls_cache s2) = charProfileMap c"
    "udid = lu \<longrightarrow> curLocalSwitch (ls_cache s2) = w"
    by (simp_all add: s2_def s1(3) Cache_SetCurSwitch_def)
  have switch_names_i: "IsKeyValid (switch_name i)" "switch_name i \<noteq> []"
    using switch_names [OF switch_name_at(2) [OF i]] by (auto simp: IsKeyValid_iff)
  have step: "switch_loop lu udid w (i # js) nm s = switch_loop lu udid w js (switch_name i) s2"
    using gen switch_names_i by (simp add: switch_name_at(1) [OF i] switch_value_bit s2_def)
  have add: "charProfileMap (snd (Cache_AddCharProfile ?p (ls_cache s))) =
      AList.update (switch_cache_key udid i) ?p (charProfileMap (ls_cache s))"
    using udid switch_names_i switch_status_valid room
    by (simp add: Cache_AddCharProfile_def switch_profile_def CharacteristicProfile_make_def Let_def)
  have c_map: "map_of (charProfileMap c) = (map_of (charProfileMap (ls_cache s)))(switch_cache_key udid i \<mapsto> ?p)"
    unfolding c_def exists_iff [OF udid(1) i] by (auto simp: add update_conv')
  have "length (charProfileMap c) \<le> Suc (length (charProfileMap (ls_cache s)))"
    using add_char_frame(2) [of ?p "ls_cache s"] by (simp add: c_def)
  then have len: "length (charProfileMap (ls_cache s2)) + length js \<le> Suc MAX_CHAR_SIZE" using Cons.prems(3) s2(3) by simp
  note IH = Cons.IH [OF js(1,2) len, of "switch_name i"]
  have other: "switch_cache_key udid i \<notin> switch_cache_key udid ` set js"
    using js switch_cache_key_inj [OF i] by auto
  have same: "switch_told udid w (ls_cache s2) m j = switch_told udid w (ls_cache s) m j" if "j \<in> set js" for j m
  proof -
    from that js have "switch_cache_key udid j \<noteq> switch_cache_key udid i" "j < 5" using switch_cache_key_inj [of j i] i by auto
    then show ?thesis by (simp add: switch_told_def exists_iff [OF udid(1)] s2(3) c_map)
  qed
  have concat_eq: "map (switch_told udid w (ls_cache s2) m) js = map (switch_told udid w (ls_cache s) m) js" for m
    using same by simp
  have "udid = lu \<longrightarrow> curLocalSwitch (ls_cache (switch_loop lu udid w js (switch_name i) s2)) = w"
    using IH s2(4) by (cases js) auto
  with IH other show ?case unfolding step s2(1,2) s1(1,2) s2(3) c_map concat_eq by (auto simp: concat_eq)
qed simp


section \<open>A peer with a service under two names\<close>

definition demo_listener_env :: "((unit, (string, string) umap) KVAdapter, (unit, (string, string) umap) ServiceInfoKvAdapter,
    (unit, (string, string) umap) KVAdapter, flat_json) ListenerEnv" where
  "demo_listener_env = \<lparr>le_ik = KVAdapter_ops mem_store, le_sim = demo_sim_env, le_localUdid = ''u'',
     le_localNetworkId = ''n'', le_cast = (\<lambda>_. True)\<rparr>"

definition demo_listener :: "((unit, (string, string) umap) KVAdapter, unit, (unit, (string, string) umap) ServiceInfoKvAdapter,
    (unit, (string, string) umap) KVAdapter) ListenerState" where
  "demo_listener = \<lparr>ls_dm = demo_dm (mem_adapter [(''svr#p#appInfo_OH#t'', ''new'')]) \<lparr>observer = True, switchData = ()\<rparr>,
     ls_sub = snd (Sub_SubscribeDeviceProfile (SubscribeInfo_make 7 ''char#p#SwitchStatus_DcShareSwitch#SwitchStatus#characteristicValue''
       [CHAR_PROFILE_UPDATE] (Some 3) (-1)) SubscribeManager_new),
     ls_sim = demo_sim, ls_ssi = \<lparr>serviceInfoMap = []\<rparr>, ls_switchCacheMap = [], ls_deliveries = [], ls_serviceCalls = []\<rparr>"

abbreviation "demo_records \<equiv> [(''svr#p#appInfo#t'', ''old''), (''svr#p#other#t'', ''1''), (''char#p#s#c#characteristicKey'', ''c''), (''x'', ''y'')]"



end
