(* ===== verification/BusinessEvents.thy ===== *)
theory BusinessEvents
  imports IpcTypes KvAdapter
begin

text \<open>
  The business events: \<open>BusinessEventManager\<close> (\<open>businesseventmanager/business_event_manager.cpp\<close>) over
  \<open>BusinessEventAdapter\<close> (\<open>persistenceadapter/kvadapter/business_event_adapter.cpp\<close>). An event is a key
  of a fixed set with a value. The operations of the interface of adapters that the manager does not need
  answer \<open>DP_SUCCESS\<close> without doing anything. The mutexes make each access to the store atomic.
\<close>

section \<open>The adapter\<close>

record ('m, 's) BusinessEventAdapter =
  bea_kvStorePtr :: "'s option"
  bea_kvDataMgr :: 'm
  bea_deathRecipient :: bool
  bea_isInited :: bool

definition BusinessEventAdapter_new :: "bool \<Rightarrow> 'm \<Rightarrow> ('m, 's) BusinessEventAdapter" where
  "BusinessEventAdapter_new deathListener m =
     \<lparr>bea_kvStorePtr = None, bea_kvDataMgr = m, bea_deathRecipient = deathListener, bea_isInited = False\<rparr>"

definition Bea_GetKvStorePtr :: "('m, 's) DistributedKvDataManager \<Rightarrow> ('m, 's) BusinessEventAdapter \<Rightarrow>
    kv_status \<times> ('m, 's) BusinessEventAdapter" where
  "Bea_GetKvStorePtr km a =
     (let (status, ptr, m) = km_GetSingleKvStore km (bea_kvDataMgr a);
          a = a\<lparr>bea_kvStorePtr := ptr, bea_kvDataMgr := m\<rparr> in
      (if status = KV_SUCCESS \<and> ptr = None then KV_ERROR else status, a))"

definition Bea_RegisterKvStoreDeathListener where
  "Bea_RegisterKvStoreDeathListener km a =
     (DP_SUCCESS, a\<lparr>bea_kvDataMgr := km_RegisterDeathRecipient km (bea_kvDataMgr a) (bea_deathRecipient a)\<rparr>)"

definition Bea_UnregisterKvStoreDeathListener where
  "Bea_UnregisterKvStoreDeathListener km a =
     (DP_SUCCESS, a\<lparr>bea_kvDataMgr := km_UnRegisterDeathRecipient km (bea_kvDataMgr a) (bea_deathRecipient a)\<rparr>)"

text \<open>A pointer that is set after a failed attempt is taken, but nobody watches over that store.\<close>

fun Bea_Init_loop :: "('m, 's) DistributedKvDataManager \<Rightarrow> nat \<Rightarrow> ('m, 's) BusinessEventAdapter \<Rightarrow>
    dp_ret \<times> ('m, 's) BusinessEventAdapter" where
  "Bea_Init_loop km 0 a =
     (if bea_kvStorePtr a = None then (DP_KV_DB_PTR_NULL, a)
      else (DP_SUCCESS, a\<lparr>bea_isInited := True\<rparr>))"
| "Bea_Init_loop km (Suc tryTimes) a =
     (let (status, a) = Bea_GetKvStorePtr km a in
      if status = KV_SUCCESS
      then let a = snd (Bea_RegisterKvStoreDeathListener km a) in (DP_SUCCESS, a\<lparr>bea_isInited := True\<rparr>)
      else Bea_Init_loop km tryTimes a)"

definition Bea_Init :: "('m, 's) DistributedKvDataManager \<Rightarrow> ('m, 's) BusinessEventAdapter \<Rightarrow>
    dp_ret \<times> ('m, 's) BusinessEventAdapter" where
  "Bea_Init km a = (if bea_isInited a then (DP_SUCCESS, a) else Bea_Init_loop km MAX_INIT_RETRY_TIMES a)"

definition Bea_UnInit :: "('m, 's) DistributedKvDataManager \<Rightarrow> ('m, 's) BusinessEventAdapter \<Rightarrow>
    dp_ret \<times> ('m, 's) BusinessEventAdapter" where
  "Bea_UnInit km a =
     (if bea_isInited a
      then if bea_kvStorePtr a = None then (DP_KV_DB_PTR_NULL, a)
        else let a = snd (Bea_UnregisterKvStoreDeathListener km a) in
          (DP_SUCCESS, a\<lparr>bea_kvStorePtr := None, bea_isInited := False\<rparr>)
      else (DP_SUCCESS, a))"

definition Bea_ReInit where "Bea_ReInit km a = Bea_Init km (snd (Bea_UnInit km a))"

definition Bea_OnRemoteDied where "Bea_OnRemoteDied km a = snd (Bea_ReInit km a)"

definition Bea_Put :: "'s SingleKvStore \<Rightarrow> string \<Rightarrow> string \<Rightarrow> ('m, 's) BusinessEventAdapter \<Rightarrow>
    dp_ret \<times> ('m, 's) BusinessEventAdapter" where
  "Bea_Put ks key val a =
     (if key = [] \<or> length key > MAX_STRING_LEN \<or> val = [] \<or> length val > MAX_STRING_LEN
      then (DP_INVALID_PARAMS, a)
      else case bea_kvStorePtr a of
        None \<Rightarrow> (DP_KV_DB_PTR_NULL, a)
      | Some s \<Rightarrow>
          let (status, s) = ks_Put ks s key val; a = a\<lparr>bea_kvStorePtr := Some s\<rparr> in
          if status \<noteq> KV_SUCCESS then (DP_PUT_KV_DB_FAIL, a) else (DP_SUCCESS, a))"

definition Bea_Get :: "'s SingleKvStore \<Rightarrow> string \<Rightarrow> string \<Rightarrow> ('m, 's) BusinessEventAdapter \<Rightarrow> dp_ret \<times> string" where
  "Bea_Get ks key val a =
     (case bea_kvStorePtr a of
        None \<Rightarrow> (DP_KV_DB_PTR_NULL, val)
      | Some s \<Rightarrow>
          let (status, kvValue) = ks_Get ks s key in
          if status \<noteq> KV_SUCCESS then (DP_GET_KV_DB_FAIL, val) else (DP_SUCCESS, kvValue))"

definition Bea_Delete :: "'s SingleKvStore \<Rightarrow> string \<Rightarrow> ('m, 's) BusinessEventAdapter \<Rightarrow>
    dp_ret \<times> ('m, 's) BusinessEventAdapter" where
  "Bea_Delete ks key a =
     (case bea_kvStorePtr a of
        None \<Rightarrow> (DP_KV_DB_PTR_NULL, a)
      | Some s \<Rightarrow>
          let (status, s) = ks_Delete ks s key; a = a\<lparr>bea_kvStorePtr := Some s\<rparr> in
          if status \<noteq> KV_SUCCESS then (DP_DEL_KV_DB_FAIL, a) else (DP_SUCCESS, a))"

definition Bea_DeleteBatch :: "string list \<Rightarrow> ('m, 's) BusinessEventAdapter \<Rightarrow> dp_ret \<times> ('m, 's) BusinessEventAdapter" where
  "Bea_DeleteBatch keys a = (DP_SUCCESS, a)"

definition Bea_PutBatch :: "(string, string) omap \<Rightarrow> ('m, 's) BusinessEventAdapter \<Rightarrow>
    dp_ret \<times> ('m, 's) BusinessEventAdapter" where
  "Bea_PutBatch values a = (DP_SUCCESS, a)"

definition Bea_GetByPrefix :: "string \<Rightarrow> (string, string) omap \<Rightarrow> ('m, 's) BusinessEventAdapter \<Rightarrow>
    dp_ret \<times> (string, string) omap" where
  "Bea_GetByPrefix keyPrefix values a = (DP_SUCCESS, values)"

definition Bea_DeleteByPrefix :: "string \<Rightarrow> ('m, 's) BusinessEventAdapter \<Rightarrow> dp_ret \<times> ('m, 's) BusinessEventAdapter" where
  "Bea_DeleteByPrefix keyPrefix a = (DP_SUCCESS, a)"

definition Bea_Sync :: "string list \<Rightarrow> int \<Rightarrow> ('m, 's) BusinessEventAdapter \<Rightarrow> dp_ret \<times> ('m, 's) BusinessEventAdapter" where
  "Bea_Sync deviceList syncMode a = (DP_SUCCESS, a)"

definition Bea_GetDeviceEntries :: "string \<Rightarrow> (string, string) omap \<Rightarrow> ('m, 's) BusinessEventAdapter \<Rightarrow>
    dp_ret \<times> (string, string) omap" where
  "Bea_GetDeviceEntries udid values a = (DP_SUCCESS, values)"

definition Bea_RemoveDeviceData :: "string \<Rightarrow> ('m, 's) BusinessEventAdapter \<Rightarrow> dp_ret \<times> ('m, 's) BusinessEventAdapter" where
  "Bea_RemoveDeviceData uuid a = (DP_SUCCESS, a)"

section \<open>The manager\<close>

record ('m, 's) BusinessEventManager =
  businessEventAdapter :: "('m, 's) BusinessEventAdapter option"

abbreviation "DP_REJECT_KEY \<equiv> ''business_id_cast+_reject_event''"
abbreviation "DP_DISTURBANCE_KEY \<equiv> ''business_id_cast+_disturbance_event''"

definition IsValidKey :: "string \<Rightarrow> bool" where
  "IsValidKey key \<longleftrightarrow> key \<in> {DP_REJECT_KEY, DP_DISTURBANCE_KEY}"

text \<open>\<open>m\<close> is the data manager of the new adapter.\<close>

definition Bem_Init :: "('m, 's) DistributedKvDataManager \<Rightarrow> 'm \<Rightarrow> ('m, 's) BusinessEventManager \<Rightarrow>
    dp_ret \<times> ('m, 's) BusinessEventManager" where
  "Bem_Init km m b =
     (let (ret, a) = Bea_Init km (BusinessEventAdapter_new True m); b = b\<lparr>businessEventAdapter := Some a\<rparr> in
      if ret \<noteq> DP_SUCCESS then (DP_INIT_DB_FAILED, b) else (DP_SUCCESS, b))"

definition Bem_UnInit :: "('m, 's) DistributedKvDataManager \<Rightarrow> ('m, 's) BusinessEventManager \<Rightarrow>
    dp_ret \<times> ('m, 's) BusinessEventManager" where
  "Bem_UnInit km b =
     (case businessEventAdapter b of
        None \<Rightarrow> (DP_KV_DB_PTR_NULL, b)
      | Some a \<Rightarrow>
          let (_, a) = Bea_UnInit km a; b = b\<lparr>businessEventAdapter := Some a\<rparr> in
          (DP_SUCCESS, b\<lparr>businessEventAdapter := None\<rparr>))"

definition Bem_PutBusinessEvent :: "'s SingleKvStore \<Rightarrow> BusinessEvent \<Rightarrow> ('m, 's) BusinessEventManager \<Rightarrow>
    dp_ret \<times> ('m, 's) BusinessEventManager" where
  "Bem_PutBusinessEvent ks event b =
     (if be_businessKey event = [] \<or> be_businessValue event = [] then (DP_INVALID_PARAM, b)
      else if \<not> IsValidKey (be_businessKey event) then (DP_INVALID_PARAM, b)
      else case businessEventAdapter b of
        None \<Rightarrow> (DP_KV_DB_PTR_NULL, b)
      | Some a \<Rightarrow>
          let (ret, a) = Bea_Put ks (be_businessKey event) (be_businessValue event) a;
              b = b\<lparr>businessEventAdapter := Some a\<rparr> in
          if ret \<noteq> DP_SUCCESS then (DP_PUT_BUSINESS_EVENT_FAIL, b) else (DP_SUCCESS, b))"

definition Bem_GetBusinessEvent :: "'s SingleKvStore \<Rightarrow> BusinessEvent \<Rightarrow> ('m, 's) BusinessEventManager \<Rightarrow>
    dp_ret \<times> BusinessEvent" where
  "Bem_GetBusinessEvent ks event b =
     (if be_businessKey event = [] then (DP_INVALID_PARAM, event)
      else if \<not> IsValidKey (be_businessKey event) then (DP_INVALID_PARAM, event)
      else case businessEventAdapter b of
        None \<Rightarrow> (DP_KV_DB_PTR_NULL, event)
      | Some a \<Rightarrow>
          let (ret, val) = Bea_Get ks (be_businessKey event) [] a in
          if ret \<noteq> DP_SUCCESS then (DP_GET_BUSINESS_EVENT_FAIL, event)
          else (DP_SUCCESS, event\<lparr>be_businessValue := val\<rparr>))"

end
