(* ===== verification/BusinessLaws.thy ===== *)
theory BusinessLaws
  imports BusinessEvents ServiceProps
begin

text \<open>
  The business events from the request to the store: the manager of \<open>BusinessEvents\<close> in the place the
  service of \<open>DpService\<close> keeps for it.
\<close>

section \<open>The adapter and its store\<close>

text \<open>An adapter that is initialised has a store; initialisation ends with one or with an error.\<close>

definition bea_ok :: "('m, 's) BusinessEventAdapter \<Rightarrow> bool" where
  "bea_ok a \<longleftrightarrow> (bea_isInited a \<longrightarrow> bea_kvStorePtr a \<noteq> None)"

definition bea_started :: "dp_ret \<Rightarrow> ('m, 's) BusinessEventAdapter \<Rightarrow> bool" where
  "bea_started r a \<longleftrightarrow> r = DP_SUCCESS \<and> bea_isInited a \<and> bea_kvStorePtr a \<noteq> None \<or>
     r = DP_KV_DB_PTR_NULL \<and> \<not> bea_isInited a \<and> bea_kvStorePtr a = None"

lemma Bea_Init_loop_started:
  "Bea_Init_loop km n a = (r, a') \<Longrightarrow> \<not> bea_isInited a \<Longrightarrow> bea_started r a'"
proof (induction km n a rule: Bea_Init_loop.induct)
  case (2 km n a)
  obtain st b where g: "Bea_GetKvStorePtr km a = (st, b)" by fastforce
  then have "\<not> bea_isInited b" "st = KV_SUCCESS \<longrightarrow> bea_kvStorePtr b \<noteq> None"
    using 2 (3) by (auto simp: Bea_GetKvStorePtr_def Let_def split: prod.splits if_splits)
  with 2 g show ?case
    by (auto simp: Let_def Bea_RegisterKvStoreDeathListener_def bea_started_def split: if_splits)
qed (auto simp: bea_started_def split: if_splits)

lemma Bea_Init_started: "Bea_Init km a = (r, a') \<Longrightarrow> bea_ok a \<Longrightarrow> bea_started r a'"
  using Bea_Init_loop_started [of km MAX_INIT_RETRY_TIMES a r a']
  by (auto simp: Bea_Init_def bea_ok_def bea_started_def simp del: Bea_Init_loop.simps split: if_splits)

lemma Bea_UnInit_ok: "bea_ok a \<Longrightarrow> Bea_UnInit km a = (r, a') \<Longrightarrow> r = DP_SUCCESS \<and> bea_ok a' \<and> \<not> bea_isInited a'"
  by (auto simp: Bea_UnInit_def Bea_UnregisterKvStoreDeathListener_def bea_ok_def Let_def split: if_splits)

lemma Bea_ReInit_started: "Bea_ReInit km a = (r, a') \<Longrightarrow> bea_ok a \<Longrightarrow> bea_started r a'"
  using Bea_Init_started Bea_UnInit_ok by (metis Bea_ReInit_def prod.collapse)

definition bem_db :: "('s \<Rightarrow> string \<rightharpoonup> string) \<Rightarrow> ('m, 's) BusinessEventManager \<Rightarrow> string \<rightharpoonup> string" where
  "bem_db kv b = (case businessEventAdapter b of None \<Rightarrow> Map.empty
     | Some a \<Rightarrow> (case bea_kvStorePtr a of None \<Rightarrow> Map.empty | Some s \<Rightarrow> kv s))"

definition event_ok :: "BusinessEvent \<Rightarrow> bool" where
  "event_ok e \<longleftrightarrow> IsValidKey (be_businessKey e) \<and> be_businessValue e \<noteq> [] \<and> length (be_businessValue e) \<le> MAX_STRING_LEN"

lemma IsValidKey_len: "IsValidKey k \<Longrightarrow> k \<noteq> [] \<and> length k \<le> MAX_STRING_LEN"
  by (auto simp: IsValidKey_def)

context kv_store begin

lemma put_event:
  assumes "Bem_PutBusinessEvent ks e b = (r, b')"
  shows "(r = DP_SUCCESS \<longrightarrow> event_ok e) \<and>
    bem_db kv b' = (if r = DP_SUCCESS then (bem_db kv b)(be_businessKey e \<mapsto> be_businessValue e) else bem_db kv b)"
  using assms put
  by (auto simp: Bem_PutBusinessEvent_def Bea_Put_def bem_db_def event_ok_def Let_def
      split: if_splits option.splits prod.splits)

lemma get_event:
  assumes "Bem_GetBusinessEvent ks e b = (r, e')"
  shows "if r = DP_SUCCESS then e' = e\<lparr>be_businessValue := the (bem_db kv b (be_businessKey e))\<rparr> \<and>
      bem_db kv b (be_businessKey e) \<noteq> None else e' = e"
  using assms get
  by (auto simp: Bem_GetBusinessEvent_def Bea_Get_def bem_db_def Let_def
      split: if_splits option.splits prod.splits)

end

section \<open>The requests\<close>

text \<open>The managers \<open>M\<close> with the manager of this theory as the first part of their state.\<close>

definition business_managers :: "('m, 's) DistributedKvDataManager \<Rightarrow> 'm \<Rightarrow> 's SingleKvStore \<Rightarrow>
    (('m, 's) BusinessEventManager \<times> 'r) Managers \<Rightarrow> (('m, 's) BusinessEventManager \<times> 'r) Managers" where
  "business_managers km m0 ks M = M\<lparr>
     mg_PutBusinessEvent := (\<lambda>e (b, m). let (r, b) = Bem_PutBusinessEvent ks e b in (r, (b, m))),
     mg_GetBusinessEvent := (\<lambda>e (b, m). (Bem_GetBusinessEvent ks e b, (b, m))),
     mg_BusinessEventManager_Init := (\<lambda>(b, m). let (r, b) = Bem_Init km m0 b in (r, (b, m))),
     mg_BusinessEventManager_UnInit := (\<lambda>(b, m). let (r, b) = Bem_UnInit km b in (r, (b, m)))\<rparr>"

definition announced_to :: "'j ServiceEnv \<Rightarrow> BusinessEvent \<Rightarrow> 'm DpService \<Rightarrow> service_event list" where
  "announced_to E e s = map (\<lambda>l. OnBusinessEvent l e)
     (filter (se_cast E) (listeners_of (be_businessKey e) (sn_businessCallbackMap s)))"

text \<open>C31: Business events from the request to the store. A put that succeeds has one of the two keys and a
  value within the limit, stores it and nothing else, and is announced once to each listener of its key;
  a put that fails changes nothing and is announced to nobody. A get that succeeds brings back what is
  stored under the key, hence the event itself after its put, until another event of that key is put.\<close>

theorem business_event_served:
  assumes "kv_store ks kv" "CheckCallerPermission (se_permission E)" "se_eventHandler E" "se_PostTask E"
    and "Svc_PutBusinessEvent E (business_managers km m0 ks M) e s = (r, s1)"
    and "Svc_GetBusinessEvent E (business_managers km m0 ks M) (e\<lparr>be_businessValue := v\<rparr>) s1 = ((r', e'), s2)"
  shows "let db = (\<lambda>s. bem_db kv (fst (sn_managers s))) in
    (r = DP_SUCCESS \<longrightarrow> event_ok e \<and> sn_events s1 = sn_events s @ announced_to E e s) \<and>
    (r \<noteq> DP_SUCCESS \<longrightarrow> sn_events s1 = sn_events s) \<and>
    db s1 = (if r = DP_SUCCESS then (db s)(be_businessKey e \<mapsto> be_businessValue e) else db s) \<and>
    snd (sn_managers s1) = snd (sn_managers s) \<and> s2 = s1 \<and>
    (r' = DP_SUCCESS \<longrightarrow> db s1 (be_businessKey e) = Some (be_businessValue e') \<and>
       be_businessKey e' = be_businessKey e \<and> (r = DP_SUCCESS \<longrightarrow> e' = e))"
proof -
  obtain b m where bm: "sn_managers s = (b, m)" by fastforce
  obtain r0 b' where p: "Bem_PutBusinessEvent ks e b = (r0, b')" by fastforce
  have "mg_PutBusinessEvent (business_managers km m0 ks M) e (sn_managers s) = (r0, (b', m))"
    by (simp add: business_managers_def bm p)
  from business_request [OF assms(2-4) this] assms(5) have s1: "r = r0"
    "s1 = s\<lparr>sn_managers := (b', m), sn_events := sn_events s @ (if r0 = DP_SUCCESS then announced_to E e s else [])\<rparr>"
    by (simp_all add: announced_to_def)
  from assms(2,6) s1 have g: "Bem_GetBusinessEvent ks (e\<lparr>be_businessValue := v\<rparr>) b' = (r', e')" "s2 = s1"
    by (auto simp: Svc_GetBusinessEvent_def if_permitted_def on_managers_def business_managers_def)
  from kv_store.put_event [OF assms(1) p] kv_store.get_event [OF assms(1) g(1)] g(2) show ?thesis
    unfolding Let_def by (auto simp: s1 bm split: if_splits)
qed

text \<open>A put and a get of a started service over the store in memory.\<close>

definition demo_business :: "((nat, (string, string) umap) BusinessEventManager \<times> unit) DpService" where
  "demo_business = (DpService_new [] (\<lparr>businessEventAdapter =
       Some ((BusinessEventAdapter_new True 0)\<lparr>bea_kvStorePtr := Some [], bea_isInited := True\<rparr>)\<rparr>, ()))
     \<lparr>sn_businessCallbackMap := [((''a'', DP_REJECT_KEY), 1), ((''b'', DP_DISTURBANCE_KEY), 2)]\<rparr>"

lemma business_event_served_witness:
  "\<forall>M. let e = \<lparr>be_businessKey = DP_REJECT_KEY, be_businessValue = ''v''\<rparr>;
       M = business_managers mem_manager 0 mem_store M;
       s1 = snd (Svc_PutBusinessEvent demo_env M e demo_business)
   in sn_events s1 = [OnBusinessEvent 1 e] \<and>
      bem_db map_of (fst (sn_managers s1)) = [DP_REJECT_KEY \<mapsto> ''v''] \<and>
      fst (Svc_GetBusinessEvent demo_env M (e\<lparr>be_businessValue := []\<rparr>) s1) = (DP_SUCCESS, e)"
proof (intro allI, unfold Let_def)
  fix M :: "((nat, (string, string) umap) BusinessEventManager \<times> unit) Managers"
  let ?e = "\<lparr>be_businessKey = DP_REJECT_KEY, be_businessValue = ''v''\<rparr>"
  let ?M = "business_managers mem_manager 0 mem_store M"
  let ?put = "Svc_PutBusinessEvent demo_env ?M ?e demo_business"
  let ?get = "Svc_GetBusinessEvent demo_env ?M (?e\<lparr>be_businessValue := []\<rparr>) (snd ?put)"
  note run = Svc_PutBusinessEvent_def Svc_GetBusinessEvent_def if_permitted_def on_managers_def business_managers_def
    NotifyBusinessEvent_def Bem_PutBusinessEvent_def Bem_GetBusinessEvent_def Bea_Put_def Bea_Get_def
    demo_business_def mem_store_def DpService_new_def BusinessEventAdapter_new_def IsValidKey_def
  have r: "se_eventHandler demo_env" "se_PostTask demo_env" "se_cast demo_env = (\<lambda>_. True)" by (simp_all add: demo_env_def)
  have put: "fst ?put = DP_SUCCESS" by (simp add: run demo_env_permitted)
  have get: "fst (fst ?get) = DP_SUCCESS" by (simp add: run r sn_event_def)
  have l: "announced_to demo_env ?e demo_business = [OnBusinessEvent 1 ?e]" "sn_events demo_business = []"
    "bem_db map_of (fst (sn_managers demo_business)) = Map.empty"
    by (simp_all add: announced_to_def r demo_business_def DpService_new_def listeners_of_def BusinessEventAdapter_new_def bem_db_def)
  from business_event_served [OF mem.kv_store_axioms demo_env_permitted r(1,2), of mem_manager 0 M ?e demo_business
      "fst ?put" "snd ?put" "[]" "fst (fst ?get)" "snd (fst ?get)" "snd ?get"] put get
  show "sn_events (snd ?put) = [OnBusinessEvent 1 ?e] \<and>
      bem_db map_of (fst (sn_managers (snd ?put))) = [DP_REJECT_KEY \<mapsto> ''v''] \<and>
      fst ?get = (DP_SUCCESS, ?e)"
    unfolding Let_def l by (auto simp: prod_eq_iff)
qed

end
