(* ===== verification/RdbOpen.thy ===== *)
theory RdbOpen
  imports RdbStore SqlText
begin

text \<open>
  Opening the databases of the relational store. The files, the helper that opens them and the copy of a
  database to another file belong to the platform: they are the further fields of \<open>RdbFiles\<close>, over the
  state \<open>'h\<close> of the files. This theory has the callback of \<open>RdbAdapter\<close> that creates and upgrades its
  tables, and the move of its database to another directory (\<open>persistenceadapter/rdbadapter/rdb_adapter.cpp\<close>).
\<close>

section \<open>Files and callbacks\<close>

text \<open>What a query on a bare store gives: the status and value of \<open>GetRowCount\<close>, and the rows that
  \<open>GoToNextRow\<close> reaches, where \<open>None\<close> is a row that \<open>GetRow\<close> cannot deliver.\<close>

record SqlResult =
  sr_status :: rdb_ret
  sr_rowCount :: nat
  sr_rows :: "ValuesBucket option list"

record 'r RdbOpenCallback =
  oc_OnCreate :: "'r \<Rightarrow> dp_ret \<times> 'r"
  oc_OnUpgrade :: "int \<Rightarrow> int \<Rightarrow> 'r \<Rightarrow> dp_ret \<times> 'r"

record ('r, 'h) RdbFiles = "'r RdbStore" +
  rdb_QuerySql :: "string \<Rightarrow> rdb_value list \<Rightarrow> 'r \<Rightarrow> SqlResult option"
  rdb_GetRebuilt :: "'r \<Rightarrow> rdb_ret \<times> bool"
  rdb_Backup :: "'r \<Rightarrow> string \<Rightarrow> 'h \<Rightarrow> rdb_ret \<times> 'h"
  rh_GetRdbStore :: "string \<Rightarrow> int \<Rightarrow> 'r RdbOpenCallback \<Rightarrow> 'h \<Rightarrow> 'r option \<times> 'h"
  rh_DeleteRdbStore :: "string \<Rightarrow> 'h \<Rightarrow> rdb_ret \<times> 'h"
  rh_access :: "string \<Rightarrow> 'h \<Rightarrow> bool"

abbreviation "RDB_PATH \<equiv> ''/data/service/el1/public/database/distributed_device_profile_service/''"
abbreviation "ACL_RDB_PATH \<equiv> ''/data/service/el1/public/database/distributed_device_profile_service/acl_db/''"
abbreviation "DATABASE_NAME \<equiv> ''dp_rdb.db''"
definition RDB_FILE :: string where "RDB_FILE = RDB_PATH @ DATABASE_NAME"

definition ACL_RDB_FILE :: string where "ACL_RDB_FILE = ACL_RDB_PATH @ DATABASE_NAME"

abbreviation "RDB_VERSION \<equiv> (1 :: int)"
abbreviation "RDB_VERSION_5_1 \<equiv> (2 :: int)"
abbreviation "RDB_VERSION_5_1_2 \<equiv> (3 :: int)"
abbreviation "RDB_INIT_MAX_TIMES \<equiv> (5 :: nat)"

text \<open>The shape all \<open>GetRDBPtr\<close> share: a store that was rebuilt is restored from its copy. A store that
  cannot be restored stays in the pointer.\<close>

definition open_store :: "('r, 'h) RdbFiles \<Rightarrow> string \<Rightarrow> int \<Rightarrow> 'r RdbOpenCallback \<Rightarrow> 'h \<Rightarrow>
    dp_ret \<times> 'r option \<times> 'h" where
  "open_store F path version helper h =
     (let (store, h) = rh_GetRdbStore F path version helper h in
      case store of
        None \<Rightarrow> (DP_RDB_DB_PTR_NULL, None, h)
      | Some s \<Rightarrow>
          let (errCode, rebuilt) = rdb_GetRebuilt F s in
          if errCode \<noteq> E_OK then (DP_GET_RDBSTORE_FAIL, Some s, h)
          else if rebuilt
          then let (restoreRet, s) = rdb_Restore F s in
               if restoreRet \<noteq> E_OK then (DP_RDB_DATABASE_RESTORE_FAIL, Some s, h) else (DP_SUCCESS, Some s, h)
          else (DP_SUCCESS, Some s, h))"

text \<open>The retries; \<open>store\<close> is the pointer that is filled.\<close>

fun open_retry :: "('h \<Rightarrow> dp_ret \<times> 'r option \<times> 'h) \<Rightarrow> nat \<Rightarrow> 'r option \<Rightarrow> 'h \<Rightarrow> dp_ret \<times> 'r option \<times> 'h" where
  "open_retry get 0 store h = (DP_RDBADAPTER_INIT_FAIL, store, h)"
| "open_retry get (Suc retryTimes) store h =
     (let (ret, store, h) = get h in
      if ret = DP_SUCCESS then (DP_SUCCESS, store, h) else open_retry get retryTimes store h)"

text \<open>Statements and steps that end at the first failure.\<close>

fun exec_all :: "('r, 'x) RdbStore_scheme \<Rightarrow> dp_ret \<Rightarrow> string list \<Rightarrow> 'r \<Rightarrow> dp_ret \<times> 'r" where
  "exec_all rs fail [] s = (DP_SUCCESS, s)"
| "exec_all rs fail (sql # sqls) s =
     (let (ret, s) = rdb_ExecuteSql rs sql s in
      if ret \<noteq> E_OK then (fail, s) else exec_all rs fail sqls s)"

fun run_steps :: "('r \<Rightarrow> dp_ret \<times> 'r) list \<Rightarrow> 'r \<Rightarrow> dp_ret \<times> 'r" where
  "run_steps [] s = (DP_SUCCESS, s)"
| "run_steps (f # fs) s = (let (ret, s) = f s in if ret \<noteq> DP_SUCCESS then (ret, s) else run_steps fs s)"

section \<open>Creating and upgrading the tables of the access control lists\<close>

definition Oc_CreateTable where
  "Oc_CreateTable rs = exec_all rs DP_CREATE_TABLE_FAIL
     [CREATE_TURST_DEVICE_TABLE_SQL, CREATE_ACCESS_CONTROL_TABLE_SQL, CREATE_ACCESSER_TABLE_SQL,
      CREATE_ACCESSEE_TABLE_SQL]"

definition Oc_CreateUniqueIndex where
  "Oc_CreateUniqueIndex rs = exec_all rs DP_CREATE_UNIQUE_INDEX_FAIL
     [CREATE_TURST_DEVICE_TABLE_UNIQUE_INDEX_SQL, CREATE_ACCESS_CONTROL_TABLE_UNIQUE_INDEX_SQL,
      CREATE_ACCESSER_TABLE_UNIQUE_INDEX_SQL, CREATE_ACCESSEE_TABLE_UNIQUE_INDEX_SQL]"

definition AddAcerColumnOneToTwo where
  "AddAcerColumnOneToTwo rs = exec_all rs DP_CREATE_TABLE_FAIL
     [ALTER_TABLE_ACER_ADD_COLUMN_ACER_DEVICE_NAME, ALTER_TABLE_ACER_ADD_COLUMN_ACER_SERVICE_NAME,
      ALTER_TABLE_ACER_ADD_COLUMN_ACER_CREDENTIAL_ID, ALTER_TABLE_ACER_ADD_COLUMN_ACER_STATUS,
      ALTER_TABLE_ACER_ADD_COLUMN_ACER_SESSION_KEY_ID, ALTER_TABLE_ACER_ADD_COLUMN_ACER_SESSION_KEY_TIMESTAMP]"

definition AddAceeColumnOneToTwo where
  "AddAceeColumnOneToTwo rs = exec_all rs DP_CREATE_TABLE_FAIL
     [ALTER_TABLE_ACEE_ADD_COLUMN_ACEE_DEVICE_NAME, ALTER_TABLE_ACEE_ADD_COLUMN_ACEE_SERVICE_NAME,
      ALTER_TABLE_ACEE_ADD_COLUMN_ACEE_CREDENTIAL_ID, ALTER_TABLE_ACEE_ADD_COLUMN_ACEE_STATUS,
      ALTER_TABLE_ACEE_ADD_COLUMN_ACEE_SESSION_KEY_ID, ALTER_TABLE_ACEE_ADD_COLUMN_ACEE_SESSION_KEY_TIMESTAMP]"

definition AddAclColumnTwoToThree where
  "AddAclColumnTwoToThree rs = exec_all rs DP_CREATE_TABLE_FAIL
     [ALTER_TABLE_ACCESS_CONTROL_ADD_COLUMN_EXTRA_DATA]"

definition AddAcerColumnTwoToThree where
  "AddAcerColumnTwoToThree rs = exec_all rs DP_CREATE_TABLE_FAIL
     [ALTER_TABLE_ACER_ADD_COLUMN_ACER_CREDENTIAL_ID_STR, ALTER_TABLE_ACER_ADD_COLUMN_ACER_EXTRA_DATA]"

definition AddAceeColumnTwoToThree where
  "AddAceeColumnTwoToThree rs = exec_all rs DP_CREATE_TABLE_FAIL
     [ALTER_TABLE_ACEE_ADD_COLUMN_ACEE_CREDENTIAL_ID_STR, ALTER_TABLE_ACEE_ADD_COLUMN_ACEE_EXTRA_DATA]"

definition DropAndRebuildIndex where
  "DropAndRebuildIndex rs = exec_all rs DP_CREATE_TABLE_FAIL
     [DROP_OLD_UNIQUE_INDEX_ON_ACER, DROP_OLD_UNIQUE_INDEX_ON_ACEE, CREATE_ACCESSER_TABLE_UNIQUE_INDEX_SQL,
      CREATE_ACCESSEE_TABLE_UNIQUE_INDEX_SQL]"

definition UpgradeVersionOneToTwo where
  "UpgradeVersionOneToTwo rs =
     run_steps [AddAcerColumnOneToTwo rs, AddAceeColumnOneToTwo rs, DropAndRebuildIndex rs]"

definition UpgradeVersionTwoToThree where
  "UpgradeVersionTwoToThree rs =
     run_steps [AddAclColumnTwoToThree rs, AddAcerColumnTwoToThree rs, AddAceeColumnTwoToThree rs,
       DropAndRebuildIndex rs]"

definition Oc_OnCreate :: "('r, 'x) RdbStore_scheme \<Rightarrow> 'r \<Rightarrow> dp_ret \<times> 'r" where
  "Oc_OnCreate rs s =
     (let (ret, s) = Oc_CreateTable rs s in
      if ret \<noteq> DP_SUCCESS then (DP_CREATE_TABLE_FAIL, s)
      else let (ret, s) = Oc_CreateUniqueIndex rs s in
        if ret \<noteq> DP_SUCCESS then (DP_CREATE_UNIQUE_INDEX_FAIL, s) else (DP_SUCCESS, s))"

text \<open>The results of the upgrades are dropped.\<close>

definition Oc_OnUpgrade :: "('r, 'x) RdbStore_scheme \<Rightarrow> int \<Rightarrow> int \<Rightarrow> 'r \<Rightarrow> dp_ret \<times> 'r" where
  "Oc_OnUpgrade rs oldVersion newVersion s =
     (let s = (if oldVersion = RDB_VERSION \<and> newVersion = RDB_VERSION_5_1
               then snd (UpgradeVersionOneToTwo rs s) else s);
          s = (if oldVersion = RDB_VERSION_5_1 \<and> newVersion = RDB_VERSION_5_1_2
               then snd (UpgradeVersionTwoToThree rs s) else s);
          s = (if oldVersion = RDB_VERSION \<and> newVersion = RDB_VERSION_5_1_2
               then let s = snd (UpgradeVersionOneToTwo rs s) in snd (UpgradeVersionTwoToThree rs s) else s)
      in (DP_SUCCESS, s))"

definition OpenCallback :: "('r, 'x) RdbStore_scheme \<Rightarrow> 'r RdbOpenCallback" where
  "OpenCallback rs = \<lparr>oc_OnCreate = Oc_OnCreate rs, oc_OnUpgrade = Oc_OnUpgrade rs\<rparr>"

section \<open>Opening and moving the database\<close>

definition RdbAdapter_GetRDBPtr where
  "RdbAdapter_GetRDBPtr F DBVersion path = open_store F path DBVersion (OpenCallback F)"

definition ConnectDB :: "('r, 'h) RdbFiles \<Rightarrow> int \<Rightarrow> string \<Rightarrow> 'r option \<Rightarrow> 'h \<Rightarrow> dp_ret \<times> 'r option \<times> 'h" where
  "ConnectDB F DBVersion path store h =
     open_retry (RdbAdapter_GetRDBPtr F DBVersion path) RDB_INIT_MAX_TIMES store h"

definition MigrateDatabase :: "('r, 'h) RdbFiles \<Rightarrow> 'r RdbAdapter \<Rightarrow> 'h \<Rightarrow> dp_ret \<times> 'r RdbAdapter \<times> 'h" where
  "MigrateDatabase F a h =
     (let (ret, pre, h) = ConnectDB F RDB_VERSION_5_1_2 RDB_FILE (ra_preMigStore a) h;
          a = a\<lparr>ra_preMigStore := pre\<rparr> in
      if ret \<noteq> DP_SUCCESS then (ret, a, h)
      else case ra_preMigStore a of
        None \<Rightarrow> (DP_RDB_DB_PTR_NULL, a, h)
      | Some s \<Rightarrow>
          let (ret, h) = rdb_Backup F s ACL_RDB_FILE h in
          if ret \<noteq> E_OK then (DP_PRE_MIGRATION_DB_AVAILABLE, a, h)
          else let (ret, post, h) = ConnectDB F RDB_VERSION_5_1_2 ACL_RDB_FILE (ra_postMigStore a) h;
                   a = a\<lparr>ra_postMigStore := post\<rparr> in
            if ret \<noteq> DP_SUCCESS then (DP_PRE_MIGRATION_DB_AVAILABLE, a, h)
            else let (ret, h) = rh_DeleteRdbStore F RDB_FILE h in
              if ret \<noteq> E_OK
              then if \<not> rh_access F RDB_FILE h
                then (DP_PRE_MIGRATION_DB_UNAVAILABLE, a, h)
                else let a = a\<lparr>ra_preMigStore := None\<rparr>;
                         (ret, pre, h) = ConnectDB F RDB_VERSION_5_1_2 RDB_FILE (ra_preMigStore a) h;
                         a = a\<lparr>ra_preMigStore := pre\<rparr> in
                  if ret \<noteq> DP_SUCCESS then (ret, a, h) else (DP_PRE_MIGRATION_DB_AVAILABLE, a, h)
              else (DP_SUCCESS, a, h))"

definition CheckMigrateDB :: "('r, 'h) RdbFiles \<Rightarrow> 'r RdbAdapter \<Rightarrow> 'h \<Rightarrow> dp_ret \<times> 'r RdbAdapter \<times> 'h" where
  "CheckMigrateDB F a h =
     (if \<not> rh_access F RDB_FILE h then (DP_NOT_NEED_MIGRATION, a, h)
      else let (migrateRet, a, h) = MigrateDatabase F a h in
        if migrateRet = DP_PRE_MIGRATION_DB_AVAILABLE
        then if ra_preMigStore a = None then (DP_RDB_DB_PTR_NULL, a, h)
          else (DP_SUCCESS, a\<lparr>ra_store := ra_preMigStore a, ra_postMigStore := None\<rparr>, h)
        else if migrateRet \<noteq> DP_SUCCESS then (migrateRet, a, h)
        else if ra_postMigStore a = None then (DP_RDB_DB_PTR_NULL, a, h)
        else (DP_SUCCESS, a\<lparr>ra_store := ra_postMigStore a, ra_preMigStore := None\<rparr>, h))"

definition RdbAdapter_Init :: "('r, 'h) RdbFiles \<Rightarrow> 'r RdbAdapter \<Rightarrow> 'h \<Rightarrow> dp_ret \<times> 'r RdbAdapter \<times> 'h" where
  "RdbAdapter_Init F a h =
     (let (ret, a, h) = CheckMigrateDB F a h in
      if ret \<noteq> DP_NOT_NEED_MIGRATION then (ret, a, h)
      else let (ret, store, h) = ConnectDB F RDB_VERSION_5_1_2 ACL_RDB_FILE (ra_store a) h;
               a = a\<lparr>ra_store := store\<rparr> in
        if ret \<noteq> DP_SUCCESS then (ret, a, h) else (DP_SUCCESS, a, h))"

end
