(* ===== verification/DataAdapters.thy ===== *)
theory DataAdapters
  imports RdbOpen
begin

text \<open>
  The adapters of the other relational databases: \<open>ProfileDataRdbAdapter\<close>, \<open>LocalServiceInfoRdbAdapter\<close> and
  \<open>ServiceInfoRdbAdapter\<close> (\<open>persistenceadapter/rdbadapter\<close>). They differ in their tables, their file and
  the callback that upgrades it. \<open>IsExistTable\<close> and \<open>IsExistColumn\<close> are from
  \<open>common/src/utils/profile_utils.cpp\<close>.
\<close>

section \<open>The shape of the adapters\<close>

record 'r DataAdapter =
  da_store :: "'r option"

definition data_put :: "('r, 'h) RdbFiles \<Rightarrow> string list \<Rightarrow> int \<Rightarrow> string \<Rightarrow> ValuesBucket \<Rightarrow> 'r DataAdapter \<Rightarrow>
    (dp_ret \<times> int) \<times> 'r DataAdapter" where
  "data_put F tables outRowId table values a =
     (if table \<notin> set tables then ((DP_RDBADAPTER_TABLE_NOT_EXIST, outRowId), a)
      else case da_store a of
        None \<Rightarrow> ((DP_RDB_DB_PTR_NULL, outRowId), a)
      | Some s \<Rightarrow>
          let (r, s) = with_restore F (rdb_Insert F table values) DP_RDBADAPTER_PUT_FAIL s
          in (r, a\<lparr>da_store := Some s\<rparr>))"

definition data_delete :: "('r, 'h) RdbFiles \<Rightarrow> string list \<Rightarrow> int \<Rightarrow> string \<Rightarrow> string list \<Rightarrow> rdb_value list \<Rightarrow>
    'r DataAdapter \<Rightarrow> (dp_ret \<times> int) \<times> 'r DataAdapter" where
  "data_delete F tables deleteRows table whereClause bindArgs a =
     (if table \<notin> set tables then ((DP_RDBADAPTER_TABLE_NOT_EXIST, deleteRows), a)
      else case da_store a of
        None \<Rightarrow> ((DP_RDB_DB_PTR_NULL, deleteRows), a)
      | Some s \<Rightarrow>
          let (r, s) = with_restore F (rdb_Delete F table whereClause bindArgs) DP_RDBADAPTER_DELETE_FAIL s
          in (r, a\<lparr>da_store := Some s\<rparr>))"

definition data_update :: "('r, 'h) RdbFiles \<Rightarrow> string list \<Rightarrow> int \<Rightarrow> string \<Rightarrow> ValuesBucket \<Rightarrow> string list \<Rightarrow>
    rdb_value list \<Rightarrow> 'r DataAdapter \<Rightarrow> (dp_ret \<times> int) \<times> 'r DataAdapter" where
  "data_update F tables changedRows table values whereClause bindArgs a =
     (if table \<notin> set tables then ((DP_RDBADAPTER_TABLE_NOT_EXIST, changedRows), a)
      else case da_store a of
        None \<Rightarrow> ((DP_RDB_DB_PTR_NULL, changedRows), a)
      | Some s \<Rightarrow>
          let (r, s) = with_restore F (rdb_Update F table values whereClause bindArgs) DP_RDBADAPTER_UPDATE_FAIL s
          in (r, a\<lparr>da_store := Some s\<rparr>))"

definition data_get :: "('r, 'h) RdbFiles \<Rightarrow> sql_query \<Rightarrow> rdb_value list \<Rightarrow> 'r DataAdapter \<Rightarrow>
    ResultSet option \<times> 'r DataAdapter" where
  "data_get F sql args a =
     (case da_store a of
        None \<Rightarrow> (None, a)
      | Some s \<Rightarrow>
          (case rdb_QueryByStep F sql args s of
             None \<Rightarrow> (None, a)
           | Some resultSet \<Rightarrow>
               if rs_status resultSet = E_SQLITE_CORRUPT
               then let (ret, s) = rdb_Restore F s; a = a\<lparr>da_store := Some s\<rparr> in
                    if ret \<noteq> E_OK then (None, a) else (rdb_QueryByStep F sql args s, a)
               else (Some resultSet, a)))"

definition data_create_table :: "('r, 'h) RdbFiles \<Rightarrow> string \<Rightarrow> 'r DataAdapter \<Rightarrow> dp_ret \<times> 'r DataAdapter" where
  "data_create_table F sql a =
     (case da_store a of
        None \<Rightarrow> (DP_RDB_DB_PTR_NULL, a)
      | Some s \<Rightarrow>
          let (ret, s) = rdb_ExecuteSql F sql s; a = a\<lparr>da_store := Some s\<rparr> in
          if ret \<noteq> E_OK then (DP_RDBADAPTER_TABLE_NOT_EXIST, a) else (DP_SUCCESS, a))"

definition data_init :: "('h \<Rightarrow> dp_ret \<times> 'r option \<times> 'h) \<Rightarrow> 'r DataAdapter \<Rightarrow> 'h \<Rightarrow> dp_ret \<times> 'r DataAdapter \<times> 'h" where
  "data_init get a h =
     (let (ret, store, h) = open_retry get RDB_INIT_MAX_TIMES (da_store a) h in (ret, a\<lparr>da_store := store\<rparr>, h))"

definition data_uninit :: "'r DataAdapter \<Rightarrow> dp_ret \<times> 'r DataAdapter" where
  "data_uninit a = (DP_SUCCESS, a\<lparr>da_store := None\<rparr>)"

definition data_is_init :: "'r DataAdapter \<Rightarrow> bool" where
  "data_is_init a \<longleftrightarrow> da_store a \<noteq> None"

section \<open>The local service infos\<close>

abbreviation "LOCAL_SERVICE_INFO_TABLE \<equiv> ''local_service_info''"
abbreviation "LOCAL_SERVICE_INFO_FILE \<equiv> RDB_PATH @ ''local_service_info_store.db''"

definition LSI_TABLES :: "string list" where "LSI_TABLES = [LOCAL_SERVICE_INFO_TABLE]"

definition LocalServiceInfoOpenCallback :: "'r RdbOpenCallback" where
  "LocalServiceInfoOpenCallback = \<lparr>oc_OnCreate = (\<lambda>s. (DP_SUCCESS, s)), oc_OnUpgrade = (\<lambda>_ _ s. (DP_SUCCESS, s))\<rparr>"

definition Lsa_GetRDBPtr where
  "Lsa_GetRDBPtr F = open_store F LOCAL_SERVICE_INFO_FILE RDB_VERSION LocalServiceInfoOpenCallback"

definition Lsa_Init where "Lsa_Init F = data_init (Lsa_GetRDBPtr F)"
definition Lsa_UnInit where "Lsa_UnInit = data_uninit"
definition Lsa_Put where "Lsa_Put F = data_put F LSI_TABLES"
definition Lsa_Delete where "Lsa_Delete F = data_delete F LSI_TABLES"
definition Lsa_Update where "Lsa_Update F = data_update F LSI_TABLES"
definition Lsa_Get where "Lsa_Get F = data_get F"
definition Lsa_IsInit where "Lsa_IsInit = data_is_init"
definition Lsa_CreateTable where "Lsa_CreateTable F = data_create_table F"

section \<open>The service infos\<close>

abbreviation "SERVICE_INFO_PROFILE_TABLE \<equiv> ''service_info_profile''"
abbreviation "SERVICE_INFO_PROFILE_FILE \<equiv> RDB_PATH @ ''service_info_store.db''"

definition SIP_TABLES :: "string list" where "SIP_TABLES = [SERVICE_INFO_PROFILE_TABLE]"

definition ServiceInfoOpenCallback :: "'r RdbOpenCallback" where
  "ServiceInfoOpenCallback = \<lparr>oc_OnCreate = (\<lambda>s. (DP_SUCCESS, s)), oc_OnUpgrade = (\<lambda>_ _ s. (DP_SUCCESS, s))\<rparr>"

definition Sia_GetRDBPtr where
  "Sia_GetRDBPtr F = open_store F SERVICE_INFO_PROFILE_FILE RDB_VERSION ServiceInfoOpenCallback"

definition Sia_Init where "Sia_Init F = data_init (Sia_GetRDBPtr F)"
definition Sia_UnInit where "Sia_UnInit = data_uninit"
definition Sia_Put where "Sia_Put F = data_put F SIP_TABLES"
definition Sia_Delete where "Sia_Delete F = data_delete F SIP_TABLES"
definition Sia_Update where "Sia_Update F = data_update F SIP_TABLES"
definition Sia_Get where "Sia_Get F = data_get F"
definition Sia_IsInit where "Sia_IsInit = data_is_init"
definition Sia_CreateTable where "Sia_CreateTable F = data_create_table F"

section \<open>The profile data\<close>

abbreviation "DEVICE_PROFILE_TABLE \<equiv> ''device_profile''"
abbreviation "DEVICE_ICON_INFO_TABLE \<equiv> ''device_icon_info''"
abbreviation "PRODUCT_INFO_TABLE \<equiv> ''product_info''"
abbreviation "PROFILE_DATA_FILE \<equiv> RDB_PATH @ ''profile_data.db''"
abbreviation "PROFILE_DATA_VER_3 \<equiv> (3 :: int)"

definition PDA_TABLES :: "string list" where
  "PDA_TABLES = [DEVICE_PROFILE_TABLE, ''service_profile'', ''characteristic_profile'', DEVICE_ICON_INFO_TABLE,
     PRODUCT_INFO_TABLE]"

definition TABLE_EXIST_COLUMN_SQL :: string where
  "TABLE_EXIST_COLUMN_SQL = ''SELECT EXISTS ('' @ [CHR 0x0A] @ ''    SELECT 1 '' @ [CHR 0x0A] @
     ''    FROM PRAGMA_TABLE_INFO(?) '' @ [CHR 0x0A] @ ''    WHERE '' @ [CHR 0x0A] @
     ''        name = ? AND'' @ [CHR 0x0A] @ ''        type = ?'' @ [CHR 0x0A] @ '') AS result;''"

definition TABLE_EXIST_TABLE_SQL :: string where
  "TABLE_EXIST_TABLE_SQL = ''SELECT name FROM sqlite_master WHERE type='' @ [CHR 0x27] @ ''table'' @ [CHR 0x27] @
     '' AND name=?;''"

text \<open>The answer and the error code that is set beside it.\<close>

definition IsExistColumn :: "('r, 'h) RdbFiles \<Rightarrow> string \<Rightarrow> string \<Rightarrow> string \<Rightarrow> 'r \<Rightarrow> bool \<times> dp_ret" where
  "IsExistColumn F tabName colName colType s =
     (case rdb_QuerySql F TABLE_EXIST_COLUMN_SQL [RStr tabName, RStr colName, RStr colType] s of
        None \<Rightarrow> (False, DP_GET_RESULTSET_FAIL)
      | Some rs \<Rightarrow>
          if sr_status rs \<noteq> E_OK then (False, DP_GET_RESULTSET_FAIL)
          else if sr_rowCount rs = 0 then (False, DP_NOT_FIND_DATA)
          else (case sr_rows rs of
            [] \<Rightarrow> (False, DP_GET_RESULTSET_FAIL)
          | None # _ \<Rightarrow> (False, DP_GET_RESULTSET_FAIL)
          | Some row # _ \<Rightarrow>
              let result = row_int row ''result'' in
              if result \<noteq> 0 \<and> result \<noteq> 1 then (False, DP_INVALID_SQL_RESULT) else (result = 1, DP_SUCCESS)))"

definition IsExistTable :: "('r, 'h) RdbFiles \<Rightarrow> string \<Rightarrow> 'r \<Rightarrow> bool \<times> dp_ret" where
  "IsExistTable F tabName s =
     (case rdb_QuerySql F TABLE_EXIST_TABLE_SQL [RStr tabName] s of
        None \<Rightarrow> (False, DP_GET_RESULTSET_FAIL)
      | Some rs \<Rightarrow>
          if sr_status rs \<noteq> E_OK then (False, DP_GET_RESULTSET_FAIL)
          else if sr_rowCount rs = 0 then (False, DP_SUCCESS)
          else (case sr_rows rs of
            [] \<Rightarrow> (False, DP_GET_RESULTSET_FAIL)
          | None # _ \<Rightarrow> (False, DP_GET_RESULTSET_FAIL)
          | Some row # _ \<Rightarrow> (row_str row ''name'' = tabName, DP_SUCCESS)))"

text \<open>The codes of the platform, which \<open>CheckAndAlterTable\<close> hands on: \<open>rdb_number\<close> is the number of a status;
  it is an argument.\<close>

record RdbTableAlterInfo =
  tabName :: string
  colName :: string
  colType :: string
  alterSql :: string

definition CheckAndAlterTable :: "(rdb_ret \<Rightarrow> dp_ret) \<Rightarrow> ('r, 'h) RdbFiles \<Rightarrow> RdbTableAlterInfo \<Rightarrow> 'r \<Rightarrow> dp_ret \<times> 'r" where
  "CheckAndAlterTable rdb_number F info s =
     (let (isExistTable, ret) = IsExistTable F (tabName info) s in
      if ret \<noteq> DP_SUCCESS then (ret, s)
      else if \<not> isExistTable then (DP_SUCCESS, s)
      else let (isExistColumn, ret) = IsExistColumn F (tabName info) (colName info) (colType info) s in
        if ret \<noteq> DP_SUCCESS then (ret, s)
        else if isExistColumn then (DP_SUCCESS, s)
        else let (ret, s) = rdb_ExecuteSql F (alterSql info) s in
          if ret \<noteq> E_OK then (rdb_number ret, s) else (DP_SUCCESS, s))"

definition UpdateFromVer1To2 :: "(rdb_ret \<Rightarrow> dp_ret) \<Rightarrow> ('r, 'h) RdbFiles \<Rightarrow> 'r \<Rightarrow> dp_ret \<times> 'r" where
  "UpdateFromVer1To2 rdb_number F =
     run_steps (map (CheckAndAlterTable rdb_number F)
       [\<lparr>tabName = DEVICE_PROFILE_TABLE, colName = ''productName'', colType = ''TEXT'',
         alterSql = ''ALTER TABLE device_profile ADD COLUMN productName TEXT''\<rparr>,
        \<lparr>tabName = DEVICE_PROFILE_TABLE, colName = ''internalModel'', colType = ''TEXT'',
         alterSql = ''ALTER TABLE device_profile RENAME COLUMN innerModel TO internalModel''\<rparr>,
        \<lparr>tabName = DEVICE_ICON_INFO_TABLE, colName = ''internalModel'', colType = ''TEXT'',
         alterSql = ''ALTER TABLE device_icon_info ADD COLUMN internalModel TEXT''\<rparr>])"

definition UpdateToVer3 :: "(rdb_ret \<Rightarrow> dp_ret) \<Rightarrow> ('r, 'h) RdbFiles \<Rightarrow> 'r \<Rightarrow> dp_ret \<times> 'r" where
  "UpdateToVer3 rdb_number F =
     CheckAndAlterTable rdb_number F
       \<lparr>tabName = DEVICE_ICON_INFO_TABLE, colName = ''modifyTime'', colType = ''BIGINT'',
        alterSql = ''ALTER TABLE device_icon_info ADD COLUMN modifyTime BIGINT  DEFAULT 0''\<rparr>"

definition Pdc_OnUpgrade :: "(rdb_ret \<Rightarrow> dp_ret) \<Rightarrow> ('r, 'h) RdbFiles \<Rightarrow> int \<Rightarrow> int \<Rightarrow> 'r \<Rightarrow> dp_ret \<times> 'r" where
  "Pdc_OnUpgrade rdb_number F oldVersion newVersion s =
     (let (ret, s) = (if oldVersion = RDB_VERSION \<and> newVersion \<ge> RDB_VERSION_5_1
                      then UpdateFromVer1To2 rdb_number F s else (DP_SUCCESS, s)) in
      if ret \<noteq> DP_SUCCESS then (ret, s)
      else let (ret, s) = (if oldVersion < PROFILE_DATA_VER_3 \<and> newVersion = PROFILE_DATA_VER_3
                           then UpdateToVer3 rdb_number F s else (DP_SUCCESS, s)) in
        if ret \<noteq> DP_SUCCESS then (ret, s) else (DP_SUCCESS, s))"

definition ProfileDataOpenCallback :: "(rdb_ret \<Rightarrow> dp_ret) \<Rightarrow> ('r, 'h) RdbFiles \<Rightarrow> 'r RdbOpenCallback" where
  "ProfileDataOpenCallback rdb_number F =
     \<lparr>oc_OnCreate = (\<lambda>s. (DP_SUCCESS, s)), oc_OnUpgrade = Pdc_OnUpgrade rdb_number F\<rparr>"

definition Pda_GetRDBPtr where
  "Pda_GetRDBPtr rdb_number F = open_store F PROFILE_DATA_FILE PROFILE_DATA_VER_3 (ProfileDataOpenCallback rdb_number F)"

definition Pda_Init where "Pda_Init rdb_number F = data_init (Pda_GetRDBPtr rdb_number F)"
definition Pda_UnInit where "Pda_UnInit = data_uninit"
definition Pda_Put where "Pda_Put F = data_put F PDA_TABLES"
definition Pda_Delete where "Pda_Delete F = data_delete F PDA_TABLES"
definition Pda_Update where "Pda_Update F = data_update F PDA_TABLES"
definition Pda_Get where "Pda_Get F = data_get F"
definition Pda_IsInit where "Pda_IsInit = data_is_init"
definition Pda_CreateTable where "Pda_CreateTable F = data_create_table F"

end
