(* ===== verification/DataTables.thy ===== *)
theory DataTables
  imports DataAdapters
begin

text \<open>
  What the code expects of the tables of \<open>DataAdapters\<close>, in the locale \<open>data_files\<close>: rows are numbered where
  the statement that creates the table says so, no two rows agree on the columns of its unique index, and
  a query gives the rows that its conditions select. The adapters keep these laws; \<open>mem_files\<close> is a store
  in memory that has them.
\<close>

section \<open>Tables\<close>

definition auto_id :: "string \<Rightarrow> bool" where
  "auto_id t \<longleftrightarrow> t \<in> {DEVICE_PROFILE_TABLE, DEVICE_ICON_INFO_TABLE}"

definition unique_cols :: "string \<Rightarrow> string list" where
  "unique_cols t =
     (if t = DEVICE_PROFILE_TABLE then [''deviceId'', ''userId'']
      else if t = DEVICE_ICON_INFO_TABLE then [''productId'', ''subProductId'', ''imageType'', ''specName'']
      else if t = PRODUCT_INFO_TABLE then [''productId'']
      else if t = LOCAL_SERVICE_INFO_TABLE then [''bundleName'', ''pinExchangeType'']
      else [''deviceId'', ''userId'', ''tokenId'', ''serviceId''])"

definition key_of :: "string \<Rightarrow> ValuesBucket \<Rightarrow> rdb_value option list" where
  "key_of t r = map (map_of r) (unique_cols t)"

definition row_id :: "ValuesBucket \<Rightarrow> int" where
  "row_id r = row_int r ''id''"

definition keys_ok :: "string \<Rightarrow> ValuesBucket list \<Rightarrow> bool" where
  "keys_ok t rows \<longleftrightarrow> distinct (map (key_of t) rows) \<and>
     (auto_id t \<longrightarrow> distinct (map row_id rows) \<and> (\<forall>r\<in>set rows. row_id r > 0 \<and> map_of r ''id'' = Some (RInt (row_id r))))"

definition new_row :: "string \<Rightarrow> int \<Rightarrow> ValuesBucket \<Rightarrow> ValuesBucket" where
  "new_row t n v = (if auto_id t then (''id'', RInt n) # v else v)"

definition row_put :: "ValuesBucket \<Rightarrow> ValuesBucket \<Rightarrow> ValuesBucket" where
  "row_put v r = fold (\<lambda>(c, x). AList.update c x) v r"

definition put_rows :: "ValuesBucket \<Rightarrow> string list \<Rightarrow> rdb_value list \<Rightarrow> ValuesBucket list \<Rightarrow> ValuesBucket list" where
  "put_rows v cols args rows = map (\<lambda>r. if row_matches cols args r then row_put v r else r) rows"

fun cond_holds :: "where_cond list \<Rightarrow> rdb_value list \<Rightarrow> ValuesBucket \<Rightarrow> bool" where
  "cond_holds [] args r = True"
| "cond_holds (WEq c # cs) args r =
     ((case args of [] \<Rightarrow> False | x # _ \<Rightarrow> map_of r c = Some x) \<and> cond_holds cs (drop 1 args) r)"
| "cond_holds (WIn c n # cs) args r =
     (map_of r c \<in> Some ` set (take n args) \<and> cond_holds cs (drop n args) r)"

text \<open>The join of the icons with the products; its conditions name the columns of the icons \<open>a.\<close>.\<close>

definition SELECT_DEVICE_ICON_INFO_TABLE :: string where
  "SELECT_DEVICE_ICON_INFO_TABLE = ''SELECT a.*,b.imageVersion FROM device_icon_info a '' @
     ''    LEFT JOIN product_info b ON a.productId = b.productId '' @ ''    WHERE ''"

definition join_product :: "ValuesBucket list \<Rightarrow> ValuesBucket \<Rightarrow> ValuesBucket" where
  "join_product products r =
     (case find (\<lambda>p. map_of p ''productId'' = map_of r ''productId'') products of
        None \<Rightarrow> r
      | Some p \<Rightarrow> (case map_of p ''imageVersion'' of None \<Rightarrow> r | Some x \<Rightarrow> r @ [(''imageVersion'', x)]))"

fun unaliased :: "where_cond \<Rightarrow> where_cond" where
  "unaliased (WEq c) = WEq (drop 2 c)"
| "unaliased (WIn c n) = WIn (drop 2 c) n"

definition first_icon :: "where_cond list \<Rightarrow> rdb_value list \<Rightarrow> tables \<Rightarrow> ValuesBucket list" where
  "first_icon conds args d = take 1 (map (join_product (d PRODUCT_INFO_TABLE))
     (sort_key row_id (filter (cond_holds (map unaliased conds) args) (d DEVICE_ICON_INFO_TABLE))))"

section \<open>The first row with a key\<close>

lemma find_as_filter: "find P xs = (case filter P xs of [] \<Rightarrow> None | x # _ \<Rightarrow> Some x)"
  by (induction xs) auto

lemma find_key_append:
  "f y \<notin> f ` set xs \<Longrightarrow> find (\<lambda>x. f x = k) (xs @ [y]) = (if k = f y then Some y else find (\<lambda>x. f x = k) xs)"
  by (induction xs) auto

lemma find_key_None: "find (\<lambda>x. f x = k) xs = None \<longleftrightarrow> k \<notin> f ` set xs"
  by (induction xs) auto

lemma find_key_replace:
  "find (\<lambda>x. f x = k) (map (\<lambda>x. if f x = f y then y else x) xs) =
     (if k = f y \<and> k \<in> f ` set xs then Some y else find (\<lambda>x. f x = k) xs)"
proof (induction xs)
  case (Cons x xs)
  then show ?case by (cases "f x = f y"; cases "k = f y") (simp_all add: find_key_None, force?)
qed simp

lemma find_key_remove:
  "find (\<lambda>x. f x = k) (filter (\<lambda>x. f x \<noteq> j) xs) = (if k = j then None else find (\<lambda>x. f x = k) xs)"
  by (induction xs) auto

section \<open>The laws\<close>

definition rows_added :: "string \<Rightarrow> ValuesBucket \<Rightarrow> tables \<Rightarrow> tables \<Rightarrow> bool" where
  "rows_added t v d d' \<longleftrightarrow> (keys_ok t (d t) \<longrightarrow>
     (\<exists>n. d' = d(t := d t @ [new_row t n v]) \<and> keys_ok t (d' t)))"

definition rows_put :: "string \<Rightarrow> ValuesBucket \<Rightarrow> string list \<Rightarrow> rdb_value list \<Rightarrow> tables \<Rightarrow> tables \<Rightarrow> bool" where
  "rows_put t v cols args d d' \<longleftrightarrow> (keys_ok t (d t) \<longrightarrow>
     d' = d(t := put_rows v cols args (d t)) \<and> keys_ok t (d' t))"

definition data_db :: "('r \<Rightarrow> tables) \<Rightarrow> 'r DataAdapter \<Rightarrow> tables" where
  "data_db tab a = (case da_store a of None \<Rightarrow> (\<lambda>_. []) | Some s \<Rightarrow> tab s)"

locale data_files =
  fixes F :: "('r, 'h) RdbFiles" and tab :: "'r \<Rightarrow> tables"
  assumes insert: "rdb_Insert F t v s = ((ret, n), s') \<Longrightarrow> ''id'' \<notin> fst ` set v \<Longrightarrow>
      (if ret = E_OK then rows_added t v (tab s) (tab s') else tab s' = tab s)"
    and update: "rdb_Update F t v cols args s = ((ret, n), s') \<Longrightarrow> ''id'' \<notin> fst ` set v \<Longrightarrow>
      (if ret = E_OK then rows_put t v cols args (tab s) (tab s') else tab s' = tab s)"
    and delete: "rdb_Delete F t cols args s = ((ret, n), s') \<Longrightarrow>
      tab s' = (if ret = E_OK then deleted t cols args (tab s) else tab s)"
    and query: "rdb_QueryByStep F (SelectWhere t conds) args s = Some r \<Longrightarrow>
      rs_status r = E_SQLITE_CORRUPT \<or>
      rs_status r = E_OK \<and> rs_rows r = filter (cond_holds conds args) (tab s t)"
    and first: "rdb_QueryByStep F (SelectFirst SELECT_DEVICE_ICON_INFO_TABLE conds) args s = Some r \<Longrightarrow>
      rs_status r = E_SQLITE_CORRUPT \<or> rs_status r = E_OK \<and> rs_rows r = first_icon conds args (tab s)"
    and restore: "rdb_Restore F s = (ret, s') \<Longrightarrow> tab s' = tab s \<and>
      (ret = E_OK \<longrightarrow> (\<forall>q args r. rdb_QueryByStep F q args s' = Some r \<longrightarrow> rs_status r = E_OK))"
begin

lemma restored_tab: "rdb_Restore F s = (ret, s') \<Longrightarrow> tab s' = tab s"
  using restore by blast

lemma put_data:
  assumes "data_put F ts n t v a = ((ret, n'), a')" "''id'' \<notin> fst ` set v"
  shows "if ret = DP_SUCCESS then rows_added t v (data_db tab a) (data_db tab a') else data_db tab a' = data_db tab a"
proof -
  have "if ret = DP_SUCCESS then rows_added t v (tab s) (tab s') else tab s' = tab s"
    if "with_restore F (rdb_Insert F t v) DP_RDBADAPTER_PUT_FAIL s = ((ret, n'), s')" for s s'
    using that by (rule with_restore_keeps [rotated 3]) (auto dest: insert [OF _ assms(2)] restored_tab)
  with assms(1) show ?thesis
    by (auto simp: data_put_def data_db_def Let_def split: option.splits prod.splits if_splits)
qed

lemma update_data:
  assumes "data_update F ts n t v cols args a = ((ret, n'), a')" "''id'' \<notin> fst ` set v"
  shows "if ret = DP_SUCCESS then rows_put t v cols args (data_db tab a) (data_db tab a') else data_db tab a' = data_db tab a"
proof -
  have "if ret = DP_SUCCESS then rows_put t v cols args (tab s) (tab s') else tab s' = tab s"
    if "with_restore F (rdb_Update F t v cols args) DP_RDBADAPTER_UPDATE_FAIL s = ((ret, n'), s')" for s s'
    using that by (rule with_restore_keeps [rotated 3]) (auto dest: update [OF _ assms(2)] restored_tab)
  with assms(1) show ?thesis
    by (auto simp: data_update_def data_db_def Let_def split: option.splits prod.splits if_splits)
qed

lemma delete_data:
  assumes "data_delete F ts n t cols args a = ((ret, n'), a')"
  shows "data_db tab a' = (if ret = DP_SUCCESS then deleted t cols args (data_db tab a) else data_db tab a)"
proof -
  have "if ret = DP_SUCCESS then tab s' = deleted t cols args (tab s) else tab s' = tab s"
    if "with_restore F (rdb_Delete F t cols args) DP_RDBADAPTER_DELETE_FAIL s = ((ret, n'), s')" for s s'
    using that by (rule with_restore_keeps [rotated 3, where P = "\<lambda>d d'. d' = deleted t cols args d"])
      (auto dest: delete restored_tab)
  with assms show ?thesis
    by (auto simp: data_delete_def data_db_def Let_def split: option.splits prod.splits if_splits)
qed

lemma get_data: "data_get F q args a = (r, a') \<Longrightarrow> data_db tab a' = data_db tab a"
  by (auto simp: data_get_def data_db_def Let_def split: option.splits prod.splits if_splits dest: restored_tab)

lemma restored_rows:
  assumes "rdb_Restore F s = (E_OK, s')" "rdb_QueryByStep F q args s' = Some x"
  shows "rs_status x = E_OK \<and> tab s' = tab s"
  using restore [OF assms(1)] assms(2) by blast

lemma where_data:
  assumes "data_get F (SelectWhere t conds) args a = (Some x, a')"
  shows "rs_status x = E_OK \<and> rs_rows x = filter (cond_holds conds args) (data_db tab a t)"
  using assms
  by (auto simp: data_get_def data_db_def Let_def split: option.splits prod.splits if_splits dest: query) (use restored_rows query in fastforce)+

lemma first_data:
  assumes "data_get F (SelectFirst SELECT_DEVICE_ICON_INFO_TABLE conds) args a = (Some x, a')"
  shows "rs_status x = E_OK \<and> rs_rows x = first_icon conds args (data_db tab a)"
  using assms
  by (auto simp: data_get_def data_db_def Let_def split: option.splits prod.splits if_splits dest: first) (use restored_rows first in fastforce)+

end

end
