(* ===== verification/RdbMigration.thy ===== *)
theory RdbMigration
  imports RdbOpen
begin

text \<open>
  The move of the database of the access control lists to its own directory, whatever fails on the way.
  The locale \<open>rdb_files\<close> states what the platform documents of files and stores: \<open>content\<close> is the data in
  a file, \<open>data\<close> the data of an open store, both as far as creating and upgrading tables keeps them.
\<close>

locale rdb_files =
  fixes F :: "('r, 'h) RdbFiles" and content :: "'h \<Rightarrow> string \<Rightarrow> 'd option" and data :: "'r \<Rightarrow> 'd"
  assumes open_some: "rh_GetRdbStore F p v (OpenCallback F) h = (Some s, h') \<Longrightarrow>
      content h p \<in> {None, Some (data s)} \<and> content h' = (content h)(p \<mapsto> data s)"
    and open_none: "rh_GetRdbStore F p v (OpenCallback F) h = (None, h') \<Longrightarrow> content h' = content h"
    and restored: "rdb_Restore F s = (ret, s') \<Longrightarrow> data s' = data s"
    and backup: "rdb_Backup F s p h = (ret, h') \<Longrightarrow>
      (ret = E_OK \<longrightarrow> content h' p = Some (data s)) \<and> (\<forall>q. q \<noteq> p \<longrightarrow> content h' q = content h q)"
    and remove: "rh_DeleteRdbStore F p h = (ret, h') \<Longrightarrow>
      content h' p \<in> {None, content h p} \<and> (\<forall>q. q \<noteq> p \<longrightarrow> content h' q = content h q)"
    and accessed: "rh_access F p h \<longleftrightarrow> content h p \<noteq> None"
begin

definition connected :: "string \<Rightarrow> 'h \<Rightarrow> 'h \<Rightarrow> bool" where
  "connected p h h' \<longleftrightarrow> (\<forall>q. q \<noteq> p \<longrightarrow> content h' q = content h q) \<and>
     (content h p \<noteq> None \<longrightarrow> content h' p = content h p)"

lemma open_store_data:
  assumes "open_store F p v (OpenCallback F) h = (r, st, h')"
  shows "connected p h h' \<and> (r = DP_SUCCESS \<longrightarrow>
    (\<exists>s. st = Some s \<and> content h' p = Some (data s) \<and> content h p \<in> {None, Some (data s)}))"
proof (cases "rh_GetRdbStore F p v (OpenCallback F) h")
  case (Pair s0 h0)
  show ?thesis
  proof (cases s0)
    case None
    with assms Pair open_none [of p v h h0] show ?thesis by (auto simp: open_store_def connected_def)
  next
    case (Some s)
    with Pair open_some have s: "content h p \<in> {None, Some (data s)}" "content h0 = (content h)(p \<mapsto> data s)" by blast+
    from assms Pair Some have "h' = h0" "r = DP_SUCCESS \<longrightarrow> (\<exists>s'. st = Some s' \<and> data s' = data s)"
      by (auto simp: open_store_def Let_def dest: restored split: prod.splits if_splits)
    with s show ?thesis by (auto simp: connected_def)
  qed
qed

lemma open_retry_data:
  "open_retry (RdbAdapter_GetRDBPtr F v p) n st h = (r, st', h') \<Longrightarrow>
   connected p h h' \<and> r \<in> {DP_SUCCESS, DP_RDBADAPTER_INIT_FAIL} \<and> (r = DP_SUCCESS \<longrightarrow>
    (\<exists>s. st' = Some s \<and> content h' p = Some (data s) \<and> content h p \<in> {None, Some (data s)}))"
proof (induction n arbitrary: st h)
  case 0
  then show ?case by (auto simp: connected_def)
next
  case (Suc n)
  obtain r0 st0 h0 where o: "open_store F p v (OpenCallback F) h = (r0, st0, h0)" by (metis prod.exhaust)
  note d = open_store_data [OF o]
  show ?case
  proof (cases "r0 = DP_SUCCESS")
    case True
    with Suc.prems o d show ?thesis by (auto simp: RdbAdapter_GetRDBPtr_def)
  next
    case False
    with Suc.prems o have "open_retry (RdbAdapter_GetRDBPtr F v p) n st0 h0 = (r, st', h')"
      by (simp add: RdbAdapter_GetRDBPtr_def)
    from Suc.IH [OF this] d show ?thesis by (auto simp: connected_def)
  qed
qed

lemmas connect_data = open_retry_data [where n = RDB_INIT_MAX_TIMES, folded ConnectDB_def]

end

lemma files_differ [simp]: "RDB_FILE \<noteq> ACL_RDB_FILE" "ACL_RDB_FILE \<noteq> RDB_FILE"
  by (simp_all add: RDB_FILE_def ACL_RDB_FILE_def)

context rdb_files begin

text \<open>What a migration of the data \<open>d\<close> may leave: which file has it, and which store the caller takes.\<close>

definition moved :: "'d \<Rightarrow> dp_ret \<Rightarrow> 'r RdbAdapter \<Rightarrow> 'h \<Rightarrow> bool" where
  "moved d r a h \<longleftrightarrow> (content h RDB_FILE = Some d \<or> content h ACL_RDB_FILE = Some d) \<and> r \<noteq> DP_NOT_NEED_MIGRATION \<and>
     (r = DP_PRE_MIGRATION_DB_AVAILABLE \<longrightarrow> content h RDB_FILE = Some d \<and> (\<exists>s. ra_preMigStore a = Some s \<and> data s = d)) \<and>
     (r = DP_SUCCESS \<longrightarrow> content h ACL_RDB_FILE = Some d \<and> (\<exists>s. ra_postMigStore a = Some s \<and> data s = d))"

lemma migrate_moved:
  assumes "content h RDB_FILE = Some d" "MigrateDatabase F a h = (r, a', h')"
  shows "moved d r a' h' \<and> ra_store a' = ra_store a"
proof -
  obtain r1 st1 h1 where 1: "ConnectDB F RDB_VERSION_5_1_2 RDB_FILE (ra_preMigStore a) h = (r1, st1, h1)"
    by (metis prod.exhaust)
  note c1 = connect_data [OF 1]
  show ?thesis
  proof (cases "r1 = DP_SUCCESS")
    case False
    with assms 1 c1 show ?thesis
      by (auto simp: MigrateDatabase_def moved_def connected_def)
  next
    case r1: True
    with c1 assms(1) obtain s where s: "st1 = Some s" "data s = d" "content h1 RDB_FILE = Some d" by auto
    obtain r2 h2 where 2: "rdb_Backup F s ACL_RDB_FILE h1 = (r2, h2)" by fastforce
    note b = backup [OF 2]
    then have old2: "content h2 RDB_FILE = Some d" using s by simp
    show ?thesis
    proof (cases "r2 = E_OK")
      case False
      with assms(2) 1 r1 s 2 old2 show ?thesis by (auto simp: MigrateDatabase_def moved_def)
    next
      case r2: True
      with b s have new2: "content h2 ACL_RDB_FILE = Some d" by simp
      obtain r3 st3 h3 where 3: "ConnectDB F RDB_VERSION_5_1_2 ACL_RDB_FILE (ra_postMigStore a) h2 = (r3, st3, h3)"
        by (metis prod.exhaust)
      note c3 = connect_data [OF 3]
      have old3: "content h3 RDB_FILE = Some d" using c3 old2 by (simp add: connected_def)
      show ?thesis
      proof (cases "r3 = DP_SUCCESS")
        case False
        with assms(2) 1 r1 s 2 r2 3 old3 show ?thesis by (auto simp: MigrateDatabase_def moved_def)
      next
        case r3: True
        with c3 new2 obtain t where t: "st3 = Some t" "data t = d" "content h3 ACL_RDB_FILE = Some d" by auto
        obtain r4 h4 where 4: "rh_DeleteRdbStore F RDB_FILE h3 = (r4, h4)" by fastforce
        note d4 = remove [OF 4]
        then have new4: "content h4 ACL_RDB_FILE = Some d" using t by simp
        obtain r5 st5 h5 where 5: "ConnectDB F RDB_VERSION_5_1_2 RDB_FILE None h4 = (r5, st5, h5)" by (metis prod.exhaust)
        note c5 = connect_data [OF 5]
        have run: "(r, a', h') =
          (if r4 = E_OK then (DP_SUCCESS, a\<lparr>ra_preMigStore := st1, ra_postMigStore := st3\<rparr>, h4)
           else if content h4 RDB_FILE = None
           then (DP_PRE_MIGRATION_DB_UNAVAILABLE, a\<lparr>ra_preMigStore := st1, ra_postMigStore := st3\<rparr>, h4)
           else (if r5 = DP_SUCCESS then DP_PRE_MIGRATION_DB_AVAILABLE else r5,
             a\<lparr>ra_preMigStore := st5, ra_postMigStore := st3\<rparr>, h5))"
          using assms(2) 1 r1 s(1) 2 r2 3 r3 4 5 by (auto simp: MigrateDatabase_def accessed split: if_splits)
        show ?thesis
        proof (cases "r4 = E_OK \<or> content h4 RDB_FILE = None")
          case True
          with run new4 t show ?thesis by (auto simp: moved_def split: if_splits)
        next
          case False
          with d4 old3 have old4: "content h4 RDB_FILE = Some d" by auto
          with c5 have "content h5 RDB_FILE = Some d" "r5 = DP_SUCCESS \<longrightarrow> (\<exists>s. st5 = Some s \<and> data s = d)"
            "r5 \<in> {DP_SUCCESS, DP_RDBADAPTER_INIT_FAIL}" by (auto simp: connected_def)
          with run False show ?thesis by (auto simp: moved_def split: if_splits)
        qed
      qed
    qed
  qed
qed

lemma init_keeps_data:
  assumes "content h RDB_FILE = Some d" "RdbAdapter_Init F a h = (r, a', h')"
  shows "(content h' RDB_FILE = Some d \<or> content h' ACL_RDB_FILE = Some d) \<and>
    (r = DP_SUCCESS \<longrightarrow> (\<exists>s. ra_store a' = Some s \<and> data s = d)) \<and> (r \<noteq> DP_SUCCESS \<longrightarrow> ra_store a' = ra_store a)"
proof -
  obtain r1 a1 h1 where m: "MigrateDatabase F a h = (r1, a1, h1)" by (metis prod.exhaust)
  from migrate_moved [OF assms(1) m] assms m show ?thesis
    by (auto simp: RdbAdapter_Init_def CheckMigrateDB_def accessed moved_def split: if_splits)
qed

lemma init_new_data:
  assumes "content h RDB_FILE = None" "RdbAdapter_Init F a h = (r, a', h')"
  shows "connected ACL_RDB_FILE h h' \<and> r \<in> {DP_SUCCESS, DP_RDBADAPTER_INIT_FAIL} \<and>
    (r = DP_SUCCESS \<longrightarrow> (\<exists>s. ra_store a' = Some s \<and> content h' ACL_RDB_FILE = Some (data s) \<and> content h ACL_RDB_FILE \<in> {None, Some (data s)}))"
proof -
  obtain r1 st1 h1 where c: "ConnectDB F RDB_VERSION_5_1_2 ACL_RDB_FILE (ra_store a) h = (r1, st1, h1)" by (metis prod.exhaust)
  from connect_data [OF c] assms c show ?thesis
    by (auto simp: RdbAdapter_Init_def CheckMigrateDB_def accessed split: if_splits)
qed

end

end
