(* ===== verification/DataMemory.thy ===== *)
theory DataMemory
  imports DataTables RdbMigration
begin

text \<open>
  Databases in memory: files of tables as association lists, with the laws of \<open>data_files\<close> and \<open>rdb_files\<close>.
  A row that would break a unique index is refused.
\<close>

type_synonym mem_data = "(string, ValuesBucket list) umap"

definition mem_data_tab :: "mem_data \<Rightarrow> tables" where
  "mem_data_tab s t = (case map_of s t of None \<Rightarrow> [] | Some rows \<Rightarrow> rows)"

definition mem_data_set :: "string \<Rightarrow> ValuesBucket list \<Rightarrow> int \<Rightarrow> mem_data \<Rightarrow> (rdb_ret \<times> int) \<times> mem_data" where
  "mem_data_set t rows n s = (if keys_ok t rows then ((E_OK, n), AList.update t rows s) else ((E_RDB_ERROR, -1), s))"

definition next_row_id :: "ValuesBucket list \<Rightarrow> int" where
  "next_row_id rows = 1 + fold (\<lambda>r n. max n (row_id r)) rows 0"

definition mem_data_query :: "sql_query \<Rightarrow> rdb_value list \<Rightarrow> mem_data \<Rightarrow> ValuesBucket list" where
  "mem_data_query q args s =
     (case q of
        SelectWhere t conds \<Rightarrow> filter (cond_holds conds args) (mem_data_tab s t)
      | SelectFirst select conds \<Rightarrow>
          if select = SELECT_DEVICE_ICON_INFO_TABLE then first_icon conds args (mem_data_tab s) else []
      | _ \<Rightarrow> [])"

definition mem_files :: "(mem_data, (string, mem_data) umap) RdbFiles" where
  "mem_files =
     \<lparr>rdb_Insert = (\<lambda>t v s. let rows = mem_data_tab s t; n = next_row_id rows in
        mem_data_set t (rows @ [new_row t n v]) n s),
      rdb_Update = (\<lambda>t v cols args s. mem_data_set t (put_rows v cols args (mem_data_tab s t)) 1 s),
      rdb_Delete = (\<lambda>t cols args s. ((E_OK, 1), AList.update t (deleted t cols args (mem_data_tab s) t) s)),
      rdb_QueryByStep = (\<lambda>q args s. Some \<lparr>rs_status = E_OK, rs_rows = mem_data_query q args s\<rparr>),
      rdb_Restore = (\<lambda>s. (E_OK, s)),
      rdb_ExecuteSql = (\<lambda>_ s. (E_OK, s)),
      rdb_QuerySql = (\<lambda>_ _ _. None),
      rdb_GetRebuilt = (\<lambda>_. (E_OK, False)),
      rdb_Backup = (\<lambda>s p h. (E_OK, AList.update p s h)),
      rh_GetRdbStore = (\<lambda>p v helper h. let s = (case map_of h p of None \<Rightarrow> [] | Some s \<Rightarrow> s) in
        (Some s, AList.update p s h)),
      rh_DeleteRdbStore = (\<lambda>p h. (E_OK, AList.delete p h)),
      rh_access = (\<lambda>p h. map_of h p \<noteq> None)\<rparr>"

lemma mem_data_set_tab:
  "mem_data_set t rows n s = ((ret, n'), s') \<Longrightarrow>
   mem_data_tab s' = (if ret = E_OK then (mem_data_tab s)(t := rows) else mem_data_tab s) \<and> (ret = E_OK \<longrightarrow> keys_ok t rows)"
  by (auto simp: mem_data_set_def mem_data_tab_def fun_eq_iff update_conv' split: if_splits)

interpretation mem_data: data_files mem_files mem_data_tab
proof
  fix t v s ret n s'
  assume "rdb_Insert mem_files t v s = ((ret, n), s')"
  then have "mem_data_set t (mem_data_tab s t @ [new_row t (next_row_id (mem_data_tab s t)) v])
      (next_row_id (mem_data_tab s t)) s = ((ret, n), s')"
    by (simp add: mem_files_def Let_def)
  from mem_data_set_tab [OF this] show "if ret = E_OK then rows_added t v (mem_data_tab s) (mem_data_tab s') else mem_data_tab s' = mem_data_tab s"
    unfolding rows_added_def by auto
next
  fix t v cols args s ret n s'
  assume "rdb_Update mem_files t v cols args s = ((ret, n), s')"
  then have "mem_data_set t (put_rows v cols args (mem_data_tab s t)) 1 s = ((ret, n), s')"
    by (simp add: mem_files_def)
  from mem_data_set_tab [OF this] show "if ret = E_OK then rows_put t v cols args (mem_data_tab s) (mem_data_tab s') else mem_data_tab s' = mem_data_tab s"
    unfolding rows_put_def by auto
next
  fix t cols args s ret n s'
  assume "rdb_Delete mem_files t cols args s = ((ret, n), s')"
  then show "mem_data_tab s' = (if ret = E_OK then deleted t cols args (mem_data_tab s) else mem_data_tab s)"
    by (auto simp: mem_files_def mem_data_tab_def deleted_def fun_eq_iff update_conv')
qed (auto simp: mem_files_def mem_data_query_def)

interpretation mem_files: rdb_files mem_files map_of "\<lambda>s. s"
  by unfold_locales (auto simp: mem_files_def Let_def update_conv' delete_conv' split: option.splits)

section \<open>The move of the database\<close>


lemma mem_connect:
  "map_of h p = Some s \<Longrightarrow> ConnectDB mem_files v p st h = (DP_SUCCESS, Some s, AList.update p s h)"
  by (simp add: ConnectDB_def RdbAdapter_GetRDBPtr_def open_store_def mem_files_def eval_nat_numeral Let_def)

lemma mem_files_ops:
  "rdb_Backup mem_files s p h = (E_OK, AList.update p s h)"
  "rh_DeleteRdbStore mem_files p h = (E_OK, AList.delete p h)"
  "rh_access mem_files p h \<longleftrightarrow> map_of h p \<noteq> None"
  by (simp_all add: mem_files_def)


end
