(* ===== verification/LocalServiceInfos.thy ===== *)
theory LocalServiceInfos
  imports DataMemory IpcTypes
begin

text \<open>
  The infos of the services of this device: \<open>LocalServiceInfoManager\<close>
  (\<open>localserviceinfomanager/local_service_info_manager.cpp\<close>) over \<open>LocalServiceInfoRdbAdapter\<close>, with its
  statements (\<open>services/core/src/common/dp_services_constants.cpp\<close>), and that the table is a map from
  bundle names and types of pin exchange to infos.
\<close>

section \<open>Statements and rows\<close>

definition CREATE_LOCAL_SERVICE_INFO_TABLE_UNIQUE_INDEX_SQL :: string where
  "CREATE_LOCAL_SERVICE_INFO_TABLE_UNIQUE_INDEX_SQL =
     ''CREATE UNIQUE INDEX IF NOT EXISTS unique_local_service_info ON local_service_info '' @
     ''(bundleName, pinExchangeType)''"

definition CREATE_LOCAL_SERVICE_INFO_TABLE_SQL :: string where
  "CREATE_LOCAL_SERVICE_INFO_TABLE_SQL =
     ''CREATE TABLE IF NOT EXISTS local_service_info ('' @ [CHR 0x0A] @
     ''    bundleName TEXT,'' @ [CHR 0x0A] @ ''    authBoxType INTEGER,'' @ [CHR 0x0A] @
     ''    authType INTEGER,'' @ [CHR 0x0A] @ ''    pinExchangeType INTEGER,'' @ [CHR 0x0A] @
     ''    pinCode TEXT,'' @ [CHR 0x0A] @ ''    description TEXT,'' @ [CHR 0x0A] @
     ''    extraInfo TEXT'' @ [CHR 0x0A] @ '')''"

definition SELECT_LOCAL_SERVICE_INFO_WHERE_BUNDLENAME_PINEXCHANGETYPE :: string where
  "SELECT_LOCAL_SERVICE_INFO_WHERE_BUNDLENAME_PINEXCHANGETYPE =
     ''SELECT * FROM local_service_info WHERE bundleName = ? AND pinExchangeType = ?''"

text \<open>The statement as a query, and the condition of the deletion and the update as its columns.\<close>

definition select_local_info :: sql_query where
  "select_local_info = SelectWhere LOCAL_SERVICE_INFO_TABLE [WEq ''bundleName'', WEq ''pinExchangeType'']"

definition LOCAL_SERVICE_INFO_UNIQUE_INDEX_EQUAL_CONDITION :: "string list" where
  "LOCAL_SERVICE_INFO_UNIQUE_INDEX_EQUAL_CONDITION = [''bundleName'', ''pinExchangeType'']"

lemma select_local_info_text:
  "sql_text select_local_info = SELECT_LOCAL_SERVICE_INFO_WHERE_BUNDLENAME_PINEXCHANGETYPE"
  by (simp add: select_local_info_def SELECT_LOCAL_SERVICE_INFO_WHERE_BUNDLENAME_PINEXCHANGETYPE_def)

definition LocalServiceInfoToEntries :: "LocalServiceInfo \<Rightarrow> ValuesBucket" where
  "LocalServiceInfoToEntries i =
     [(''bundleName'', RStr (ls_bundleName i)), (''authBoxType'', RInt (ls_authBoxType i)),
      (''authType'', RInt (ls_authType i)), (''pinExchangeType'', RInt (ls_pinExchangeType i)),
      (''pinCode'', RStr (ls_pinCode i)), (''description'', RStr (ls_description i)),
      (''extraInfo'', RStr (ls_extraInfo i))]"

definition ConvertToLocalServiceInfo :: "ValuesBucket option \<Rightarrow> LocalServiceInfo \<Rightarrow> dp_ret \<times> LocalServiceInfo" where
  "ConvertToLocalServiceInfo row i =
     (case row of
        None \<Rightarrow> (DP_GET_RESULTSET_FAIL, i)
      | Some r \<Rightarrow>
          (DP_SUCCESS,
           \<lparr>ls_bundleName = row_str r ''bundleName'', ls_authBoxType = row_int r ''authBoxType'',
            ls_authType = row_int r ''authType'', ls_pinExchangeType = row_int r ''pinExchangeType'',
            ls_pinCode = row_str r ''pinCode'', ls_description = row_str r ''description'',
            ls_extraInfo = row_str r ''extraInfo''\<rparr>))"

section \<open>The manager\<close>

definition Lsi_CreateTable :: "('r, 'h) RdbFiles \<Rightarrow> 'r DataAdapter \<Rightarrow> dp_ret \<times> 'r DataAdapter" where
  "Lsi_CreateTable F a =
     (let (ret, a) = Lsa_CreateTable F CREATE_LOCAL_SERVICE_INFO_TABLE_SQL a in
      if ret \<noteq> DP_SUCCESS then (DP_CREATE_TABLE_FAIL, a) else (DP_SUCCESS, a))"

definition Lsi_CreateIndex :: "('r, 'h) RdbFiles \<Rightarrow> 'r DataAdapter \<Rightarrow> dp_ret \<times> 'r DataAdapter" where
  "Lsi_CreateIndex F a =
     (let (ret, a) = Lsa_CreateTable F CREATE_LOCAL_SERVICE_INFO_TABLE_UNIQUE_INDEX_SQL a in
      if ret \<noteq> DP_SUCCESS then (DP_CREATE_UNIQUE_INDEX_FAIL, a) else (DP_SUCCESS, a))"

definition Lsi_Init :: "('r, 'h) RdbFiles \<Rightarrow> 'r DataAdapter \<Rightarrow> 'h \<Rightarrow> dp_ret \<times> 'r DataAdapter \<times> 'h" where
  "Lsi_Init F a h =
     (let (ret, a, h) = Lsa_Init F a h in
      if ret \<noteq> DP_SUCCESS then (DP_INIT_DB_FAILED, a, h)
      else let a = snd (Lsi_CreateTable F a); a = snd (Lsi_CreateIndex F a) in (DP_SUCCESS, a, h))"

definition Lsi_UnInit :: "'r DataAdapter \<Rightarrow> dp_ret \<times> 'r DataAdapter" where
  "Lsi_UnInit a = (let (ret, a) = Lsa_UnInit a in if ret \<noteq> DP_SUCCESS then (DP_UNINIT_FAIL, a) else (DP_SUCCESS, a))"

definition GetLocalServiceInfoByBundleAndPinType :: "('r, 'h) RdbFiles \<Rightarrow> string \<Rightarrow> int \<Rightarrow> LocalServiceInfo \<Rightarrow>
    'r DataAdapter \<Rightarrow> (dp_ret \<times> LocalServiceInfo) \<times> 'r DataAdapter" where
  "GetLocalServiceInfoByBundleAndPinType F bundleName pinExchangeType info a =
     (if bundleName = [] \<or> pinExchangeType = 0 then ((DP_INVALID_PARAM, info), a)
      else let (resultSet, a) = Lsa_Get F select_local_info [RStr bundleName, RInt pinExchangeType] a in
        case resultSet of
          None \<Rightarrow> ((DP_GET_RESULTSET_FAIL, info), a)
        | Some rs \<Rightarrow>
            (case rs_rows rs of
               [] \<Rightarrow> ((DP_NOT_FIND_DATA, info), a)
             | row # _ \<Rightarrow> ((DP_SUCCESS, snd (ConvertToLocalServiceInfo (Some row) info)), a)))"

definition PutLocalServiceInfo :: "('r, 'h) RdbFiles \<Rightarrow> LocalServiceInfo \<Rightarrow> 'r DataAdapter \<Rightarrow> dp_ret \<times> 'r DataAdapter" where
  "PutLocalServiceInfo F i a =
     (if ls_bundleName i = [] \<or> ls_pinExchangeType i = 0 then (DP_INVALID_PARAM, a)
      else let ((getRet, _), a) = GetLocalServiceInfoByBundleAndPinType F (ls_bundleName i) (ls_pinExchangeType i)
                 LocalServiceInfo_default a in
        if getRet = DP_SUCCESS then (DP_LOCAL_SERVICE_INFO_EXISTS, a)
        else let ((ret, _), a) = Lsa_Put F (-1) LOCAL_SERVICE_INFO_TABLE (LocalServiceInfoToEntries i) a in
          if ret \<noteq> DP_SUCCESS then (DP_PUT_LOCAL_SERVICE_INFO_FAIL, a) else (DP_SUCCESS, a))"

definition DeleteLocalServiceInfo :: "('r, 'h) RdbFiles \<Rightarrow> string \<Rightarrow> int \<Rightarrow> 'r DataAdapter \<Rightarrow> dp_ret \<times> 'r DataAdapter" where
  "DeleteLocalServiceInfo F bundleName pinExchangeType a =
     (if bundleName = [] \<or> pinExchangeType = 0 then (DP_INVALID_PARAM, a)
      else let ((getRet, _), a) = GetLocalServiceInfoByBundleAndPinType F bundleName pinExchangeType
                 LocalServiceInfo_default a in
        if getRet = DP_NOT_FIND_DATA then (DP_SUCCESS, a)
        else if getRet \<noteq> DP_SUCCESS then (getRet, a)
        else let ((ret, _), a) = Lsa_Delete F (-1) LOCAL_SERVICE_INFO_TABLE
                   LOCAL_SERVICE_INFO_UNIQUE_INDEX_EQUAL_CONDITION [RStr bundleName, RInt pinExchangeType] a in
          if ret \<noteq> DP_SUCCESS then (DP_DELETE_LOCAL_SERVICE_INFO_FAIL, a) else (DP_SUCCESS, a))"

definition UpdateLocalServiceInfo :: "('r, 'h) RdbFiles \<Rightarrow> LocalServiceInfo \<Rightarrow> 'r DataAdapter \<Rightarrow> dp_ret \<times> 'r DataAdapter" where
  "UpdateLocalServiceInfo F i a =
     (if ls_bundleName i = [] \<or> ls_pinExchangeType i = 0 then (DP_INVALID_PARAM, a)
      else let ((getRet, _), a) = GetLocalServiceInfoByBundleAndPinType F (ls_bundleName i) (ls_pinExchangeType i)
                 LocalServiceInfo_default a in
        if getRet = DP_NOT_FIND_DATA then (getRet, a)
        else if getRet \<noteq> DP_SUCCESS then (getRet, a)
        else let ((ret, _), a) = Lsa_Update F (-1) LOCAL_SERVICE_INFO_TABLE (LocalServiceInfoToEntries i)
                   LOCAL_SERVICE_INFO_UNIQUE_INDEX_EQUAL_CONDITION
                   [RStr (ls_bundleName i), RInt (ls_pinExchangeType i)] a in
          if ret \<noteq> DP_SUCCESS then (DP_UPDATE_LOCAL_SERVICE_INFO_FAIL, a) else (DP_SUCCESS, a))"

section \<open>The table as a map\<close>

definition info_of :: "ValuesBucket \<Rightarrow> LocalServiceInfo" where
  "info_of r = snd (ConvertToLocalServiceInfo (Some r) LocalServiceInfo_default)"

definition info_ident :: "LocalServiceInfo \<Rightarrow> string \<times> int" where
  "info_ident i = (ls_bundleName i, ls_pinExchangeType i)"

definition stored_infos :: "tables \<Rightarrow> LocalServiceInfo list" where
  "stored_infos d = map info_of (d LOCAL_SERVICE_INFO_TABLE)"

definition local_infos :: "tables \<Rightarrow> string \<times> int \<Rightarrow> LocalServiceInfo option" where
  "local_infos d k = find (\<lambda>i. info_ident i = k) (stored_infos d)"

definition infos_ok :: "tables \<Rightarrow> bool" where
  "infos_ok d \<longleftrightarrow> d LOCAL_SERVICE_INFO_TABLE = map LocalServiceInfoToEntries (stored_infos d) \<and>
     distinct (map info_ident (stored_infos d)) \<and> (\<forall>k\<in>set (map info_ident (stored_infos d)). fst k \<noteq> [] \<and> snd k \<noteq> 0)"

lemma convert_entries [simp]: "ConvertToLocalServiceInfo (Some (LocalServiceInfoToEntries i)) x = (DP_SUCCESS, i)"
  by (simp add: ConvertToLocalServiceInfo_def LocalServiceInfoToEntries_def row_str_def row_int_def)

lemma info_of_entries [simp]: "info_of (LocalServiceInfoToEntries i) = i"
  by (simp add: info_of_def)

lemma entries_key: "key_of LOCAL_SERVICE_INFO_TABLE (LocalServiceInfoToEntries i) =
    [Some (RStr (ls_bundleName i)), Some (RInt (ls_pinExchangeType i))]"
  by (simp add: key_of_def unique_cols_def LocalServiceInfoToEntries_def)

lemma entries_match:
  "row_matches LOCAL_SERVICE_INFO_UNIQUE_INDEX_EQUAL_CONDITION [RStr b, RInt p] (LocalServiceInfoToEntries i) \<longleftrightarrow>
     info_ident i = (b, p)"
  "cond_holds [WEq ''bundleName'', WEq ''pinExchangeType''] [RStr b, RInt p] (LocalServiceInfoToEntries i) \<longleftrightarrow>
     info_ident i = (b, p)"
  by (simp_all add: row_matches_def LOCAL_SERVICE_INFO_UNIQUE_INDEX_EQUAL_CONDITION_def LocalServiceInfoToEntries_def
      info_ident_def)

lemma entries_put [simp]: "row_put (LocalServiceInfoToEntries i) (LocalServiceInfoToEntries j) = LocalServiceInfoToEntries i"
  by (simp add: row_put_def LocalServiceInfoToEntries_def)

lemma entries_no_id [simp]: "''id'' \<notin> fst ` set (LocalServiceInfoToEntries i)"
  by (simp add: LocalServiceInfoToEntries_def)

lemma infos_keys: "keys_ok LOCAL_SERVICE_INFO_TABLE (map LocalServiceInfoToEntries is) \<longleftrightarrow> distinct (map info_ident is)"
  by (auto simp: keys_ok_def auto_id_def distinct_map entries_key info_ident_def inj_on_def o_def)

lemma infos_okI:
  assumes "d LOCAL_SERVICE_INFO_TABLE = map LocalServiceInfoToEntries is" "distinct (map info_ident is)"
    and "\<forall>i\<in>set is. ls_bundleName i \<noteq> [] \<and> ls_pinExchangeType i \<noteq> 0"
  shows "infos_ok d" "stored_infos d = is"
proof -
  show "stored_infos d = is" by (simp add: stored_infos_def assms(1) o_def)
  then show "infos_ok d" using assms by (auto simp: infos_ok_def info_ident_def)
qed

context data_files begin

lemma get_info:
  assumes "infos_ok (data_db tab a)" "GetLocalServiceInfoByBundleAndPinType F b p x a = ((r, y), a')"
  shows "data_db tab a' = data_db tab a \<and> (r \<noteq> DP_SUCCESS \<longrightarrow> y = x) \<and>
    (r = DP_SUCCESS \<longrightarrow> local_infos (data_db tab a) (b, p) = Some y) \<and>
    (r = DP_NOT_FIND_DATA \<longrightarrow> local_infos (data_db tab a) (b, p) = None) \<and> (r = DP_SUCCESS \<or> r = DP_NOT_FIND_DATA \<longrightarrow> b \<noteq> [] \<and> p \<noteq> 0)"
proof (cases "b = [] \<or> p = 0")
  case True
  with assms show ?thesis by (auto simp: GetLocalServiceInfoByBundleAndPinType_def)
next
  case False
  obtain rs a0 where g: "data_get F select_local_info [RStr b, RInt p] a = (rs, a0)" by fastforce
  note db = get_data [OF g]
  show ?thesis
  proof (cases rs)
    case None
    with assms(2) False g db show ?thesis by (auto simp: GetLocalServiceInfoByBundleAndPinType_def Lsa_Get_def)
  next
    case (Some x0)
    let ?is = "stored_infos (data_db tab a)"
    from where_data [OF g [unfolded select_local_info_def Some]] assms(1)
    have rows: "rs_rows x0 = map LocalServiceInfoToEntries (filter (\<lambda>i. info_ident i = (b, p)) ?is)"
      by (simp add: infos_ok_def filter_map o_def entries_match del: cond_holds.simps)
    with assms(2) False g db Some show ?thesis
      by (auto simp: find_as_filter GetLocalServiceInfoByBundleAndPinType_def Lsa_Get_def local_infos_def
          split: list.splits)
  qed
qed

lemma put_info:
  assumes ok: "infos_ok (data_db tab a)" and p: "PutLocalServiceInfo F i a = (r, a')"
  shows "infos_ok (data_db tab a') \<and> local_infos (data_db tab a') = (if r = DP_SUCCESS
      then (local_infos (data_db tab a))(info_ident i \<mapsto> i) else local_infos (data_db tab a)) \<and>
    (r = DP_SUCCESS \<longrightarrow> local_infos (data_db tab a) (info_ident i) = None) \<and>
    (r = DP_LOCAL_SERVICE_INFO_EXISTS \<longrightarrow> local_infos (data_db tab a) (info_ident i) \<noteq> None)"
proof -
  let ?is = "stored_infos (data_db tab a)"
  obtain r0 y a0 where g: "GetLocalServiceInfoByBundleAndPinType F (ls_bundleName i) (ls_pinExchangeType i)
      LocalServiceInfo_default a = ((r0, y), a0)" by (metis prod.exhaust)
  note q = get_info [OF ok g, folded info_ident_def]
  obtain r1 n a1 where d: "data_put F LSI_TABLES (-1) LOCAL_SERVICE_INFO_TABLE (LocalServiceInfoToEntries i) a0 = ((r1, n), a1)"
    by (metis prod.exhaust)
  note put = put_data [OF d entries_no_id]
  show ?thesis
  proof (cases "ls_bundleName i = [] \<or> ls_pinExchangeType i = 0 \<or> r0 = DP_SUCCESS \<or> r1 \<noteq> DP_SUCCESS")
    case True
    with p g d q put ok show ?thesis by (auto simp: PutLocalServiceInfo_def Lsa_Put_def split: if_splits)
  next
    case False
    with p g d have r: "r = DP_SUCCESS" "a' = a1" by (auto simp: PutLocalServiceInfo_def Lsa_Put_def)
    have tab0: "data_db tab a0 LOCAL_SERVICE_INFO_TABLE = map LocalServiceInfoToEntries ?is" "distinct (map info_ident ?is)"
      using q ok by (auto simp: infos_ok_def)
    with put False have tab1: "data_db tab a1 LOCAL_SERVICE_INFO_TABLE = map LocalServiceInfoToEntries (?is @ [i])"
      "keys_ok LOCAL_SERVICE_INFO_TABLE (map LocalServiceInfoToEntries (?is @ [i]))"
      by (auto simp: rows_added_def infos_keys new_row_def auto_id_def)
    then have dist: "distinct (map info_ident (?is @ [i]))" by (simp only: infos_keys)
    have valid: "\<forall>j\<in>set (?is @ [i]). ls_bundleName j \<noteq> [] \<and> ls_pinExchangeType j \<noteq> 0"
      using ok False by (auto simp: infos_ok_def info_ident_def)
    note ok1 = infos_okI [where d = "data_db tab a1", OF tab1(1) dist valid]
    have new: "info_ident i \<notin> info_ident ` set ?is" using dist by auto
    show ?thesis
      using new ok1 r by (auto simp: local_infos_def fun_eq_iff find_key_append find_key_None [THEN iffD2])
  qed
qed

lemma delete_info:
  assumes ok: "infos_ok (data_db tab a)" and p: "DeleteLocalServiceInfo F b p a = (r, a')"
  shows "infos_ok (data_db tab a') \<and> local_infos (data_db tab a') =
    (if r = DP_SUCCESS then (local_infos (data_db tab a))((b, p) := None) else local_infos (data_db tab a))"
proof -
  let ?is = "stored_infos (data_db tab a)"
  obtain r0 y a0 where g: "GetLocalServiceInfoByBundleAndPinType F b p LocalServiceInfo_default a = ((r0, y), a0)"
    by (metis prod.exhaust)
  note q = get_info [OF ok g]
  obtain r1 n a1 where d: "data_delete F LSI_TABLES (-1) LOCAL_SERVICE_INFO_TABLE
      LOCAL_SERVICE_INFO_UNIQUE_INDEX_EQUAL_CONDITION [RStr b, RInt p] a0 = ((r1, n), a1)"
    by (metis prod.exhaust)
  note del = delete_data [OF d]
  show ?thesis
  proof (cases "b = [] \<or> p = 0 \<or> r0 \<noteq> DP_SUCCESS \<or> r1 \<noteq> DP_SUCCESS")
    case True
    then show ?thesis
    proof (cases "r0 = DP_NOT_FIND_DATA")
      case nf: True
      with q have "(local_infos (data_db tab a))((b, p) := None) = local_infos (data_db tab a)" by auto
      with nf True p g d q del ok show ?thesis by (auto simp: DeleteLocalServiceInfo_def Lsa_Delete_def split: if_splits)
    next
      case False
      with True p g d q del ok show ?thesis by (auto simp: DeleteLocalServiceInfo_def Lsa_Delete_def split: if_splits)
    qed
  next
    case False
    with p g d have r: "r = DP_SUCCESS" "a' = a1" by (auto simp: DeleteLocalServiceInfo_def Lsa_Delete_def)
    let ?js = "filter (\<lambda>i. info_ident i \<noteq> (b, p)) ?is"
    have "data_db tab a0 LOCAL_SERVICE_INFO_TABLE = map LocalServiceInfoToEntries ?is" using q ok by (auto simp: infos_ok_def)
    with del False have tab1: "data_db tab a1 LOCAL_SERVICE_INFO_TABLE = map LocalServiceInfoToEntries ?js"
      by (simp add: deleted_def filter_map o_def entries_match)
    moreover have "distinct (map info_ident ?js)" using ok by (auto simp: infos_ok_def intro: distinct_map_filter)
    moreover have "\<forall>j\<in>set ?js. ls_bundleName j \<noteq> [] \<and> ls_pinExchangeType j \<noteq> 0"
      using ok by (auto simp: infos_ok_def info_ident_def)
    ultimately have "infos_ok (data_db tab a1)" "stored_infos (data_db tab a1) = ?js" by (rule infos_okI)+
    with r show ?thesis by (auto simp: local_infos_def fun_eq_iff find_key_remove)
  qed
qed

lemma update_info:
  assumes ok: "infos_ok (data_db tab a)" and p: "UpdateLocalServiceInfo F i a = (r, a')"
  shows "infos_ok (data_db tab a') \<and> local_infos (data_db tab a') = (if r = DP_SUCCESS
      then (local_infos (data_db tab a))(info_ident i \<mapsto> i) else local_infos (data_db tab a)) \<and>
    (r = DP_SUCCESS \<longrightarrow> local_infos (data_db tab a) (info_ident i) \<noteq> None)"
proof -
  let ?is = "stored_infos (data_db tab a)"
  obtain r0 y a0 where g: "GetLocalServiceInfoByBundleAndPinType F (ls_bundleName i) (ls_pinExchangeType i)
      LocalServiceInfo_default a = ((r0, y), a0)" by (metis prod.exhaust)
  note q = get_info [OF ok g, folded info_ident_def]
  obtain r1 n a1 where d: "data_update F LSI_TABLES (-1) LOCAL_SERVICE_INFO_TABLE (LocalServiceInfoToEntries i)
      LOCAL_SERVICE_INFO_UNIQUE_INDEX_EQUAL_CONDITION [RStr (ls_bundleName i), RInt (ls_pinExchangeType i)] a0 = ((r1, n), a1)"
    by (metis prod.exhaust)
  note upd = update_data [OF d entries_no_id]
  show ?thesis
  proof (cases "ls_bundleName i = [] \<or> ls_pinExchangeType i = 0 \<or> r0 \<noteq> DP_SUCCESS \<or> r1 \<noteq> DP_SUCCESS")
    case True
    with p g d q upd ok show ?thesis by (auto simp: UpdateLocalServiceInfo_def Lsa_Update_def split: if_splits)
  next
    case False
    with p g d have r: "r = DP_SUCCESS" "a' = a1" by (auto simp: UpdateLocalServiceInfo_def Lsa_Update_def)
    let ?js = "map (\<lambda>j. if info_ident j = info_ident i then i else j) ?is"
    have tab0: "data_db tab a0 LOCAL_SERVICE_INFO_TABLE = map LocalServiceInfoToEntries ?is" "distinct (map info_ident ?is)"
      using q ok by (auto simp: infos_ok_def)
    have same: "put_rows (LocalServiceInfoToEntries i) LOCAL_SERVICE_INFO_UNIQUE_INDEX_EQUAL_CONDITION
        [RStr (ls_bundleName i), RInt (ls_pinExchangeType i)] (map LocalServiceInfoToEntries ?is) =
        map LocalServiceInfoToEntries ?js"
      by (auto simp: put_rows_def entries_match info_ident_def)
    from upd False tab0 same have tab1: "data_db tab a1 LOCAL_SERVICE_INFO_TABLE = map LocalServiceInfoToEntries ?js"
      by (simp add: rows_put_def infos_keys)
    have "map info_ident ?js = map info_ident ?is" by simp
    with tab0 have dist: "distinct (map info_ident ?js)" by metis
    have valid: "\<forall>j\<in>set ?js. ls_bundleName j \<noteq> [] \<and> ls_pinExchangeType j \<noteq> 0"
      using ok False by (auto simp: infos_ok_def info_ident_def)
    note ok1 = infos_okI [where d = "data_db tab a1", OF tab1 dist valid]
    have known: "local_infos (data_db tab a) (info_ident i) \<noteq> None" using q False by auto
    then have "info_ident i \<in> info_ident ` set ?is" by (simp only: local_infos_def find_key_None) blast
    with ok1 r known show ?thesis by (auto simp: local_infos_def fun_eq_iff find_key_replace)
  qed
qed

end

text \<open>C13: The infos of the local services are a map. Over every store that keeps its laws, with a table that
  holds valid infos of different identities: a put that succeeds adds one info under an identity that had
  none; an update that succeeds replaces the info of its identity; a deletion that succeeds removes the one
  of its identity, if there is one; all that fail change nothing, and the table stays valid. A query gives the
  info of its identity, and says that there is none only when there is none.\<close>

theorem local_info_registry:
  assumes "data_files F tab" "infos_ok (data_db tab a)"
    and "PutLocalServiceInfo F i a = (r1, a1)" "DeleteLocalServiceInfo F b p a = (r2, a2)"
    and "UpdateLocalServiceInfo F i a = (r3, a3)"
    and "GetLocalServiceInfoByBundleAndPinType F b p x a = ((r4, y), a4)"
  shows "infos_ok (data_db tab a1) \<and> infos_ok (data_db tab a2) \<and> infos_ok (data_db tab a3) \<and>
    (let R = local_infos (data_db tab a); k = info_ident i in
      local_infos (data_db tab a1) = (if r1 = DP_SUCCESS then R(k \<mapsto> i) else R) \<and>
      (r1 = DP_SUCCESS \<longrightarrow> R k = None) \<and> (r1 = DP_LOCAL_SERVICE_INFO_EXISTS \<longrightarrow> R k \<noteq> None) \<and>
      local_infos (data_db tab a2) = (if r2 = DP_SUCCESS then R((b, p) := None) else R) \<and>
      local_infos (data_db tab a3) = (if r3 = DP_SUCCESS then R(k \<mapsto> i) else R) \<and> (r3 = DP_SUCCESS \<longrightarrow> R k \<noteq> None) \<and>
      data_db tab a4 = data_db tab a \<and> (r4 = DP_SUCCESS \<longrightarrow> R (b, p) = Some y) \<and>
      (r4 = DP_NOT_FIND_DATA \<longrightarrow> R (b, p) = None) \<and> (r4 \<noteq> DP_SUCCESS \<longrightarrow> y = x))"
  unfolding Let_def
  using data_files.put_info [OF assms(1-3)] data_files.delete_info [OF assms(1,2,4)]
    data_files.update_info [OF assms(1,2,5)] data_files.get_info [OF assms(1,2,6)] by blast

definition demo_local_info :: LocalServiceInfo where
  "demo_local_info = LocalServiceInfo_default\<lparr>ls_bundleName := ''bundle'', ls_pinExchangeType := 1, ls_pinCode := ''123456''\<rparr>"

lemma local_info_registry_witness:
  "local_infos (data_db mem_data_tab (snd (PutLocalServiceInfo mem_files demo_local_info \<lparr>da_store = Some []\<rparr>))) =
     [(''bundle'', 1) \<mapsto> demo_local_info]"
proof -
  let ?a = "\<lparr>da_store = Some []\<rparr> :: mem_data DataAdapter"
  obtain a1 where p: "PutLocalServiceInfo mem_files demo_local_info ?a = (DP_SUCCESS, a1)"
    by (simp add: demo_local_info_def PutLocalServiceInfo_def GetLocalServiceInfoByBundleAndPinType_def
        Lsa_Get_def Lsa_Put_def data_get_def data_put_def LSI_TABLES_def mem_files_def with_restore_def Let_def
        mem_data_query_def select_local_info_def mem_data_tab_def mem_data_set_def new_row_def auto_id_def keys_ok_def)
  obtain r2 a2 where d: "DeleteLocalServiceInfo mem_files [] 0 ?a = (r2, a2)" by fastforce
  obtain r3 a3 where u: "UpdateLocalServiceInfo mem_files demo_local_info ?a = (r3, a3)" by fastforce
  obtain r4 y a4 where g: "GetLocalServiceInfoByBundleAndPinType mem_files [] 0 LocalServiceInfo_default ?a = ((r4, y), a4)"
    by (metis prod.exhaust)
  have empty: "data_db mem_data_tab ?a = (\<lambda>_. [])" by (simp add: data_db_def mem_data_tab_def fun_eq_iff)
  have "infos_ok (data_db mem_data_tab ?a)" by (simp add: empty infos_ok_def stored_infos_def)
  from local_info_registry [OF mem_data.data_files_axioms this p d u g]
  have "local_infos (data_db mem_data_tab a1) = (local_infos (\<lambda>_. []))(info_ident demo_local_info \<mapsto> demo_local_info)"
    by (simp add: empty Let_def)
  moreover have "local_infos (\<lambda>_. []) = Map.empty" by (simp add: fun_eq_iff local_infos_def stored_infos_def)
  moreover have "info_ident demo_local_info = (''bundle'', 1)" by (simp add: info_ident_def demo_local_info_def)
  ultimately show ?thesis by (simp add: p)
qed

end
