(* ===== verification/ProfileDaos.thy ===== *)
theory ProfileDaos
  imports DataTables IpcTypes
begin

text \<open>
  The tables of the profile data: \<open>DeviceProfileDao\<close>, \<open>DeviceIconInfoDao\<close> and \<open>ProductInfoDao\<close>
  (\<open>services/core/src/profiledatamanager\<close>) over \<open>ProfileDataRdbAdapter\<close>, with their statements
  (\<open>services/core/src/common/dp_services_constants.cpp\<close>). A query is built as a text and the list of its
  arguments; the store is asked with the query of that text, which the lemmas on the texts show. A mutex
  makes each access to the store atomic.
\<close>

section \<open>Statements\<close>

definition SELECT_DEVICE_PROFILE_TABLE :: string where
  "SELECT_DEVICE_PROFILE_TABLE = ''SELECT * FROM device_profile WHERE ''"

definition SELECT_DEVICE_PROFILE_TABLE_WHERE_DEVID_USERID :: string where
  "SELECT_DEVICE_PROFILE_TABLE_WHERE_DEVID_USERID = ''SELECT * FROM device_profile WHERE deviceId = ? AND userId = ?''"

definition CREATE_DEVICE_PROFILE_TABLE_SQL :: string where
  "CREATE_DEVICE_PROFILE_TABLE_SQL =
     ''CREATE TABLE IF NOT EXISTS device_profile ('' @ [CHR 0x0A] @
     ''    id                 INTEGER PRIMARY KEY AUTOINCREMENT,'' @ [CHR 0x0A] @ ''    deviceId           TEXT    NOT NULL,'' @ [CHR 0x0A] @
     ''    userId             INTEGER,'' @ [CHR 0x0A] @ ''    accountId          TEXT,'' @ [CHR 0x0A] @
     ''    productId          TEXT,'' @ [CHR 0x0A] @ ''    subProductId       TEXT,'' @ [CHR 0x0A] @
     ''    model              TEXT,'' @ [CHR 0x0A] @ ''    devType            TEXT,'' @ [CHR 0x0A] @
     ''    deviceName         TEXT,'' @ [CHR 0x0A] @ ''    manu               TEXT,'' @ [CHR 0x0A] @
     ''    sn                 TEXT,'' @ [CHR 0x0A] @ ''    hiv                TEXT,'' @ [CHR 0x0A] @
     ''    mac                TEXT,'' @ [CHR 0x0A] @ ''    bleMac             TEXT,'' @ [CHR 0x0A] @
     ''    brMac              TEXT,'' @ [CHR 0x0A] @ ''    sleMac             TEXT,'' @ [CHR 0x0A] @
     ''    fwv                TEXT,'' @ [CHR 0x0A] @ ''    hwv                TEXT,'' @ [CHR 0x0A] @
     ''    swv                TEXT,'' @ [CHR 0x0A] @ ''    protType           INTEGER,'' @ [CHR 0x0A] @
     ''    setupType          INTEGER,'' @ [CHR 0x0A] @ ''    wiseUserId         TEXT,'' @ [CHR 0x0A] @
     ''    wiseDeviceId       TEXT,'' @ [CHR 0x0A] @ ''    registerTime       TEXT,'' @ [CHR 0x0A] @
     ''    modifyTime         TEXT,'' @ [CHR 0x0A] @ ''    shareTime          TEXT,'' @ [CHR 0x0A] @
     ''    internalModel      TEXT,'' @ [CHR 0x0A] @ ''    productName        TEXT'' @ [CHR 0x0A] @
     '')''"

definition CREATE_DEVICE_PROFILE_TABLE_UNIQUE_INDEX_SQL :: string where
  "CREATE_DEVICE_PROFILE_TABLE_UNIQUE_INDEX_SQL =
     ''CREATE UNIQUE INDEX IF NOT EXISTS unique_device_profile  ON device_profile (deviceId, userId)''"

definition CREATE_DEVICE_PROFILE_WISE_DEVICEID_INDEX_SQL :: string where
  "CREATE_DEVICE_PROFILE_WISE_DEVICEID_INDEX_SQL =
     ''CREATE INDEX IF NOT EXISTS index_wiseDeviceId  ON device_profile (wiseDeviceId)''"

definition CREATE_DEVICE_ICON_INFO_TABLE_SQL :: string where
  "CREATE_DEVICE_ICON_INFO_TABLE_SQL =
     ''CREATE TABLE IF NOT EXISTS device_icon_info'' @
     ''    (id           INTEGER PRIMARY KEY AUTOINCREMENT,'' @
     ''    productId     TEXT,'' @
     ''    subProductId  TEXT,'' @
     ''    imageType     TEXT,'' @
     ''    specName      TEXT,'' @
     ''    version       TEXT,'' @
     ''    url           TEXT,'' @
     ''    icon          blob,'' @
     ''    internalModel    TEXT,'' @
     ''    modifyTime    BIGINT DEFAULT 0);''"

definition CREATE_DEVICE_ICON_INFO_TABLE_UNIQUE_INDEX_SQL :: string where
  "CREATE_DEVICE_ICON_INFO_TABLE_UNIQUE_INDEX_SQL =
     ''CREATE UNIQUE INDEX if not exists '' @
     ''    unique_device_icon_info ON device_icon_info (productId, subProductId, imageType, specName);''"

definition CREATE_PRODUCT_INFO_TABLE_SQL :: string where
  "CREATE_PRODUCT_INFO_TABLE_SQL =
     ''CREATE TABLE IF NOT EXISTS product_info '' @
     ''    (productId          TEXT PRIMARY KEY,'' @
     ''    model               TEXT,'' @
     ''    productName         TEXT,'' @
     ''    productShortName    TEXT,'' @
     ''    imageVersion        TEXT);''"

definition SELECT_PRODUCT_INFO_TABLE :: string where
  "SELECT_PRODUCT_INFO_TABLE = ''SELECT * FROM product_info WHERE ''"

section \<open>Device profiles\<close>

definition Dpd_DeviceProfileToEntries :: "DeviceProfile \<Rightarrow> ValuesBucket" where
  "Dpd_DeviceProfileToEntries p =
     [(''deviceId'', RStr (dp_deviceId p)), (''model'', RStr (dp_deviceModel p)),
      (''devType'', RStr (dp_devType p)), (''manu'', RStr (dp_manu p)),
      (''sn'', RStr (dp_sn p)), (''productId'', RStr (dp_productId p)),
      (''productName'', RStr (dp_productName p)), (''subProductId'', RStr (dp_subProductId p)),
      (''hiv'', RStr (dp_hiv p)), (''mac'', RStr (dp_mac p)),
      (''fwv'', RStr (dp_fwv p)), (''hwv'', RStr (dp_hwv p)),
      (''swv'', RStr (dp_swv p)), (''protType'', RInt (dp_protType p)),
      (''deviceName'', RStr (dp_deviceName p)), (''wiseUserId'', RStr (dp_wiseUserId p)),
      (''wiseDeviceId'', RStr (dp_wiseDeviceId p)), (''registerTime'', RStr (dp_registerTime p)),
      (''internalModel'', RStr (dp_internalModel p)), (''modifyTime'', RStr (dp_modifyTime p)),
      (''shareTime'', RStr (dp_shareTime p)), (''userId'', RInt (dp_userId p)),
      (''accountId'', RStr (dp_accountId p)), (''bleMac'', RStr (dp_bleMac p)),
      (''brMac'', RStr (dp_brMac p)), (''sleMac'', RStr (dp_sleMac p)),
      (''setupType'', RInt (dp_setupType p))]"

definition ConvertToDeviceProfile :: "ValuesBucket option \<Rightarrow> DeviceProfile \<Rightarrow> dp_ret \<times> DeviceProfile" where
  "ConvertToDeviceProfile row p =
     (case row of
        None \<Rightarrow> (DP_GET_RESULTSET_FAIL, p)
      | Some r \<Rightarrow>
          (DP_SUCCESS,
           p\<lparr>dp_id := row_int r ''id'',
             dp_deviceId := row_str r ''deviceId'', dp_deviceModel := row_str r ''model'',
             dp_devType := row_str r ''devType'', dp_manu := row_str r ''manu'',
             dp_sn := row_str r ''sn'', dp_productId := row_str r ''productId'',
             dp_productName := row_str r ''productName'', dp_subProductId := row_str r ''subProductId'',
             dp_hiv := row_str r ''hiv'', dp_mac := row_str r ''mac'',
             dp_fwv := row_str r ''fwv'', dp_hwv := row_str r ''hwv'',
             dp_swv := row_str r ''swv'', dp_protType := row_int r ''protType'',
             dp_deviceName := row_str r ''deviceName'', dp_wiseUserId := row_str r ''wiseUserId'',
             dp_wiseDeviceId := row_str r ''wiseDeviceId'', dp_registerTime := row_str r ''registerTime'',
             dp_internalModel := row_str r ''internalModel'', dp_modifyTime := row_str r ''modifyTime'',
             dp_shareTime := row_str r ''shareTime'', dp_userId := row_int r ''userId'',
             dp_accountId := row_str r ''accountId'', dp_bleMac := row_str r ''bleMac'',
             dp_brMac := row_str r ''brMac'', dp_sleMac := row_str r ''sleMac'',
             dp_setupType := row_int r ''setupType''\<rparr>))"

text \<open>The two overloads of \<open>GenerateSqlAndCondition\<close> add a place and an argument for each value and turn the
  last comma into the end of the list.\<close>

definition GenerateSqlAndCondition :: "rdb_value list \<Rightarrow> string \<Rightarrow> rdb_value list \<Rightarrow> string \<times> rdb_value list" where
  "GenerateSqlAndCondition params sql condition =
     (let (sql, condition) = fold (\<lambda>param (sql, condition). (sql @ ''?,'', condition @ [param])) params (sql, condition);
          sql = butlast sql
      in (sql @ '') AND '', condition))"

definition GenerateSqlAndCondition_ints where
  "GenerateSqlAndCondition_ints params = GenerateSqlAndCondition (map RInt params)"

definition GenerateSqlAndCondition_strings where
  "GenerateSqlAndCondition_strings params = GenerateSqlAndCondition (map RStr params)"

abbreviation "AND_LENGTH \<equiv> (5 :: nat)"
abbreviation "WHERE_LENGTH \<equiv> (7 :: nat)"

definition CreateQuerySqlAndCondition :: "DeviceProfileFilterOptions \<Rightarrow> string \<times> rdb_value list" where
  "CreateQuerySqlAndCondition f =
     (let sql = SELECT_DEVICE_PROFILE_TABLE; condition = []; matchCondition = False;
          (sql, condition, matchCondition) =
            (if dpo_deviceProfileIds f \<noteq> []
             then let (sql, condition) = GenerateSqlAndCondition_ints (dpo_deviceProfileIds f) (sql @ ''id IN('') condition
                  in (sql, condition, True) else (sql, condition, matchCondition));
          (sql, condition, matchCondition) =
            (if dpo_deviceIds f \<noteq> []
             then let (sql, condition) = GenerateSqlAndCondition_strings (dpo_deviceIds f) (sql @ ''deviceId IN('') condition
                  in (sql, condition, True) else (sql, condition, matchCondition));
          (sql, condition, matchCondition) =
            (if dpo_userId f \<noteq> DEFAULT_USER_ID
             then (sql @ ''userId = ? AND '', condition @ [RInt (dpo_userId f)], True) else (sql, condition, matchCondition));
          (sql, condition, matchCondition) =
            (if dpo_accountId f \<noteq> []
             then (sql @ ''accountId = ? AND '', condition @ [RStr (dpo_accountId f)], True)
             else (sql, condition, matchCondition));
          (sql, condition, matchCondition) =
            (if dpo_wiseDeviceIds f \<noteq> []
             then let (sql, condition) = GenerateSqlAndCondition_strings (dpo_wiseDeviceIds f) (sql @ ''wiseDeviceId IN('') condition
                  in (sql, condition, True) else (sql, condition, matchCondition))
      in if matchCondition then (take (length sql - AND_LENGTH) sql, condition)
         else (take (length sql - WHERE_LENGTH) sql, condition))"

text \<open>The conditions of that text, with the arguments in its order.\<close>

definition device_conds :: "DeviceProfileFilterOptions \<Rightarrow> where_cond list" where
  "device_conds f =
     (if dpo_deviceProfileIds f \<noteq> [] then [WIn ''id'' (length (dpo_deviceProfileIds f))] else []) @
     (if dpo_deviceIds f \<noteq> [] then [WIn ''deviceId'' (length (dpo_deviceIds f))] else []) @
     (if dpo_userId f \<noteq> DEFAULT_USER_ID then [WEq ''userId''] else []) @
     (if dpo_accountId f \<noteq> [] then [WEq ''accountId''] else []) @
     (if dpo_wiseDeviceIds f \<noteq> [] then [WIn ''wiseDeviceId'' (length (dpo_wiseDeviceIds f))] else [])"

definition device_args :: "DeviceProfileFilterOptions \<Rightarrow> rdb_value list" where
  "device_args f =
     map RInt (dpo_deviceProfileIds f) @ map RStr (dpo_deviceIds f) @
     (if dpo_userId f \<noteq> DEFAULT_USER_ID then [RInt (dpo_userId f)] else []) @
     (if dpo_accountId f \<noteq> [] then [RStr (dpo_accountId f)] else []) @ map RStr (dpo_wiseDeviceIds f)"

definition Dpd_CreateTable :: "('r, 'h) RdbFiles \<Rightarrow> 'r DataAdapter \<Rightarrow> dp_ret \<times> 'r DataAdapter" where
  "Dpd_CreateTable F a =
     (let (ret, a) = Pda_CreateTable F CREATE_DEVICE_PROFILE_TABLE_SQL a in
      if ret \<noteq> DP_SUCCESS then (DP_CREATE_TABLE_FAIL, a) else (DP_SUCCESS, a))"

definition Dpd_CreateIndex :: "('r, 'h) RdbFiles \<Rightarrow> 'r DataAdapter \<Rightarrow> dp_ret \<times> 'r DataAdapter" where
  "Dpd_CreateIndex F a =
     (let (ret, a) = Pda_CreateTable F CREATE_DEVICE_PROFILE_TABLE_UNIQUE_INDEX_SQL a in
      if ret \<noteq> DP_SUCCESS then (DP_CREATE_UNIQUE_INDEX_FAIL, a)
      else let (ret, a) = Pda_CreateTable F CREATE_DEVICE_PROFILE_WISE_DEVICEID_INDEX_SQL a in
        if ret \<noteq> DP_SUCCESS then (DP_CREATE_INDEX_FAIL, a) else (DP_SUCCESS, a))"

definition Dpd_Init :: "(rdb_ret \<Rightarrow> dp_ret) \<Rightarrow> ('r, 'h) RdbFiles \<Rightarrow> 'r DataAdapter \<Rightarrow> 'h \<Rightarrow> dp_ret \<times> 'r DataAdapter \<times> 'h" where
  "Dpd_Init rdb_number F a h =
     (let (ret, a, h) = (if \<not> Pda_IsInit a then Pda_Init rdb_number F a h else (DP_SUCCESS, a, h)) in
      if ret \<noteq> DP_SUCCESS then (DP_INIT_DB_FAILED, a, h)
      else let a = snd (Dpd_CreateTable F a); a = snd (Dpd_CreateIndex F a) in (DP_SUCCESS, a, h))"

definition Dpd_UnInit :: "'r DataAdapter \<Rightarrow> dp_ret \<times> 'r DataAdapter" where
  "Dpd_UnInit a =
     (if \<not> Pda_IsInit a then (DP_SUCCESS, a)
      else let (ret, a) = Pda_UnInit a in if ret \<noteq> DP_SUCCESS then (DP_UNINIT_FAIL, a) else (DP_SUCCESS, a))"

text \<open>After the insertion the number of the row is read, into a copy that is dropped.\<close>

definition Dpd_PutDeviceProfile :: "('r, 'h) RdbFiles \<Rightarrow> DeviceProfile \<Rightarrow> 'r DataAdapter \<Rightarrow> dp_ret \<times> 'r DataAdapter" where
  "Dpd_PutDeviceProfile F p a =
     (let ((ret, _), a) = Pda_Put F (-1) DEVICE_PROFILE_TABLE (Dpd_DeviceProfileToEntries p) a in
      if ret \<noteq> DP_SUCCESS then (DP_PUT_TRUST_DEVICE_PROFILE_FAIL, a)
      else let (resultSet, a) = Pda_Get F (SelectWhere DEVICE_PROFILE_TABLE [WEq ''deviceId'', WEq ''userId''])
                 [RStr (dp_deviceId p), RInt (dp_userId p)] a in
        if resultSet = None then (DP_GET_RESULTSET_FAIL, a) else (DP_SUCCESS, a))"

definition Dpd_GetDeviceProfiles :: "('r, 'h) RdbFiles \<Rightarrow> DeviceProfileFilterOptions \<Rightarrow> DeviceProfile list \<Rightarrow> 'r DataAdapter \<Rightarrow>
    (dp_ret \<times> DeviceProfile list) \<times> 'r DataAdapter" where
  "Dpd_GetDeviceProfiles F f deviceProfiles a =
     (let (resultSet, a) = Pda_Get F (SelectWhere DEVICE_PROFILE_TABLE (device_conds f)) (device_args f) a in
      case resultSet of
        None \<Rightarrow> ((DP_GET_RESULTSET_FAIL, deviceProfiles), a)
      | Some rs \<Rightarrow>
          if rs_rows rs = [] then ((DP_NOT_FIND_DATA, deviceProfiles), a)
          else let deviceProfiles = deviceProfiles @
                     map (\<lambda>r. snd (ConvertToDeviceProfile (Some r) DeviceProfile_default)) (rs_rows rs) in
            if deviceProfiles = [] then ((DP_NOT_FIND_DATA, deviceProfiles), a) else ((DP_SUCCESS, deviceProfiles), a))"

definition ID_EQUAL_CONDITION :: "string list" where "ID_EQUAL_CONDITION = [''id'']"

definition Dpd_DeleteDeviceProfile :: "('r, 'h) RdbFiles \<Rightarrow> DeviceProfile \<Rightarrow> 'r DataAdapter \<Rightarrow> dp_ret \<times> 'r DataAdapter" where
  "Dpd_DeleteDeviceProfile F p a =
     (let ((ret, _), a) = Pda_Delete F (-1) DEVICE_PROFILE_TABLE ID_EQUAL_CONDITION [RInt (dp_id p)] a in
      if ret \<noteq> DP_SUCCESS then (DP_DELETE_TRUST_DEVICE_PROFILE_FAIL, a) else (DP_SUCCESS, a))"

definition Dpd_UpdateDeviceProfile :: "('r, 'h) RdbFiles \<Rightarrow> DeviceProfile \<Rightarrow> 'r DataAdapter \<Rightarrow> dp_ret \<times> 'r DataAdapter" where
  "Dpd_UpdateDeviceProfile F p a =
     (let ((ret, _), a) = Pda_Update F (-1) DEVICE_PROFILE_TABLE (Dpd_DeviceProfileToEntries p) ID_EQUAL_CONDITION
            [RInt (dp_id p)] a in
      if ret \<noteq> DP_SUCCESS then (DP_UPDATE_TRUST_DEVICE_PROFILE_FAIL, a) else (DP_SUCCESS, a))"

section \<open>Icons\<close>

definition row_blob :: "ValuesBucket \<Rightarrow> string \<Rightarrow> 8 word list" where
  "row_blob r col = (case map_of r col of Some (RBlob b) \<Rightarrow> b | _ \<Rightarrow> [])"

definition DeviceIconInfoToEntries :: "DeviceIconInfo \<Rightarrow> ValuesBucket" where
  "DeviceIconInfoToEntries i =
     [(''productId'', RStr (di_productId i)), (''internalModel'', RStr (di_internalModel i)),
      (''subProductId'', RStr (di_subProductId i)), (''imageType'', RStr (di_imageType i)),
      (''specName'', RStr (di_specName i)), (''version'', RStr (di_version i)), (''url'', RStr (di_url i))] @
     (if di_icon i \<noteq> [] then [(''icon'', RBlob (di_icon i))] else []) @
     [(''modifyTime'', RInt (di_modifyTime i))]"

definition ConvertToDeviceIconInfo :: "ValuesBucket option \<Rightarrow> DeviceIconInfo \<Rightarrow> dp_ret \<times> DeviceIconInfo" where
  "ConvertToDeviceIconInfo row i =
     (case row of
        None \<Rightarrow> (DP_GET_RESULTSET_FAIL, i)
      | Some r \<Rightarrow>
          (DP_SUCCESS,
           \<lparr>di_id = row_int r ''id'', di_productId = row_str r ''productId'',
            di_internalModel = row_str r ''internalModel'', di_subProductId = row_str r ''subProductId'',
            di_imageType = row_str r ''imageType'', di_specName = row_str r ''specName'',
            di_version = row_str r ''version'', di_wiseVersion = row_str r ''imageVersion'',
            di_url = row_str r ''url'', di_icon = row_blob r ''icon'', di_modifyTime = row_int r ''modifyTime''\<rparr>))"

text \<open>The result is false, and the text of no use, when the options name neither product nor image nor spec.\<close>

definition Icon_CreateQuerySqlAndCondition :: "DeviceIconInfoFilterOptions \<Rightarrow> bool \<times> string \<times> rdb_value list" where
  "Icon_CreateQuerySqlAndCondition f =
     (let sql = SELECT_DEVICE_ICON_INFO_TABLE; condition = []; flag = False;
          (sql, condition, flag) =
            (if dio_productIds f \<noteq> []
             then let (sql, condition) = fold (\<lambda>prodId (sql, condition). (sql @ ''?,'', condition @ [RStr prodId]))
                         (dio_productIds f) (sql @ ''a.'' @ ''productId'' @ '' IN('', condition);
                      sql = butlast sql
                  in (sql @ '') AND '', condition, True)
             else (sql, condition, flag));
          (sql, condition, flag) =
            (if dio_imageType f \<noteq> []
             then (sql @ ''a.'' @ ''imageType'' @ '' = ? AND '', condition @ [RStr (dio_imageType f)], True)
             else (sql, condition, flag));
          (sql, condition, flag) =
            (if dio_specName f \<noteq> []
             then (sql @ ''a.'' @ ''specName'' @ '' = ? AND '', condition @ [RStr (dio_specName f)], True)
             else (sql, condition, flag))
      in if flag
         then (True, sql @ ''a.'' @ ''subProductId'' @ '' = ? AND '' @ ''a.'' @ ''internalModel'' @ '' = ? ORDER By a.id LIMIT 1 '',
               condition @ [RStr (dio_subProductId f), RStr (dio_internalModel f)])
         else (False, sql, condition))"

definition icon_conds :: "DeviceIconInfoFilterOptions \<Rightarrow> where_cond list" where
  "icon_conds f =
     (if dio_productIds f \<noteq> [] then [WIn ''a.productId'' (length (dio_productIds f))] else []) @
     (if dio_imageType f \<noteq> [] then [WEq ''a.imageType''] else []) @
     (if dio_specName f \<noteq> [] then [WEq ''a.specName''] else []) @
     [WEq ''a.subProductId'', WEq ''a.internalModel'']"

definition icon_args :: "DeviceIconInfoFilterOptions \<Rightarrow> rdb_value list" where
  "icon_args f =
     map RStr (dio_productIds f) @ (if dio_imageType f \<noteq> [] then [RStr (dio_imageType f)] else []) @
     (if dio_specName f \<noteq> [] then [RStr (dio_specName f)] else []) @ [RStr (dio_subProductId f), RStr (dio_internalModel f)]"

definition Did_CreateTable :: "('r, 'h) RdbFiles \<Rightarrow> 'r DataAdapter \<Rightarrow> dp_ret \<times> 'r DataAdapter" where
  "Did_CreateTable F a =
     (let (ret, a) = Pda_CreateTable F CREATE_DEVICE_ICON_INFO_TABLE_SQL a in
      if ret \<noteq> DP_SUCCESS then (DP_CREATE_TABLE_FAIL, a) else (DP_SUCCESS, a))"

definition Did_CreateIndex :: "('r, 'h) RdbFiles \<Rightarrow> 'r DataAdapter \<Rightarrow> dp_ret \<times> 'r DataAdapter" where
  "Did_CreateIndex F a =
     (let (ret, a) = Pda_CreateTable F CREATE_DEVICE_ICON_INFO_TABLE_UNIQUE_INDEX_SQL a in
      if ret \<noteq> DP_SUCCESS then (DP_CREATE_UNIQUE_INDEX_FAIL, a) else (DP_SUCCESS, a))"

definition Did_Init :: "(rdb_ret \<Rightarrow> dp_ret) \<Rightarrow> ('r, 'h) RdbFiles \<Rightarrow> 'r DataAdapter \<Rightarrow> 'h \<Rightarrow> dp_ret \<times> 'r DataAdapter \<times> 'h" where
  "Did_Init rdb_number F a h =
     (let (ret, a, h) = (if \<not> Pda_IsInit a then Pda_Init rdb_number F a h else (DP_SUCCESS, a, h)) in
      if ret \<noteq> DP_SUCCESS then (DP_INIT_DB_FAILED, a, h)
      else let a = snd (Did_CreateTable F a); a = snd (Did_CreateIndex F a) in (DP_SUCCESS, a, h))"

definition Did_UnInit :: "'r DataAdapter \<Rightarrow> dp_ret \<times> 'r DataAdapter" where
  "Did_UnInit a =
     (if \<not> Pda_IsInit a then (DP_SUCCESS, a)
      else let (ret, a) = Pda_UnInit a in if ret \<noteq> DP_SUCCESS then (DP_UNINIT_FAIL, a) else (DP_SUCCESS, a))"

definition Did_PutDeviceIconInfo :: "('r, 'h) RdbFiles \<Rightarrow> DeviceIconInfo \<Rightarrow> 'r DataAdapter \<Rightarrow> dp_ret \<times> 'r DataAdapter" where
  "Did_PutDeviceIconInfo F i a =
     (let ((ret, _), a) = Pda_Put F (-1) DEVICE_ICON_INFO_TABLE (DeviceIconInfoToEntries i) a in
      if ret \<noteq> DP_SUCCESS then (DP_PUT_DEVICE_ICON_INFO_FAIL, a) else (DP_SUCCESS, a))"

definition Did_GetDeviceIconInfos :: "('r, 'h) RdbFiles \<Rightarrow> DeviceIconInfoFilterOptions \<Rightarrow> DeviceIconInfo list \<Rightarrow>
    'r DataAdapter \<Rightarrow> (dp_ret \<times> DeviceIconInfo list) \<times> 'r DataAdapter" where
  "Did_GetDeviceIconInfos F f deviceIconInfos a =
     (if \<not> fst (Icon_CreateQuerySqlAndCondition f) then ((DP_INVALID_PARAMS, deviceIconInfos), a)
      else let (resultSet, a) = Pda_Get F (SelectFirst SELECT_DEVICE_ICON_INFO_TABLE (icon_conds f)) (icon_args f) a in
        case resultSet of
          None \<Rightarrow> ((DP_GET_RESULTSET_FAIL, deviceIconInfos), a)
        | Some rs \<Rightarrow>
            if rs_rows rs = [] then ((DP_NOT_FIND_DATA, deviceIconInfos), a)
            else let deviceIconInfos = deviceIconInfos @
                       map (\<lambda>r. snd (ConvertToDeviceIconInfo (Some r) DeviceIconInfo_default)) (rs_rows rs) in
              if deviceIconInfos = [] then ((DP_NOT_FIND_DATA, deviceIconInfos), a) else ((DP_SUCCESS, deviceIconInfos), a))"

definition Did_DeleteDeviceIconInfo :: "('r, 'h) RdbFiles \<Rightarrow> DeviceIconInfo \<Rightarrow> 'r DataAdapter \<Rightarrow> dp_ret \<times> 'r DataAdapter" where
  "Did_DeleteDeviceIconInfo F i a =
     (let ((ret, _), a) = Pda_Delete F (-1) DEVICE_ICON_INFO_TABLE ID_EQUAL_CONDITION [RInt (di_id i)] a in
      if ret \<noteq> DP_SUCCESS then (DP_DEL_DEVICE_ICON_INFO_FAIL, a) else (DP_SUCCESS, a))"

definition Did_UpdateDeviceIconInfo :: "('r, 'h) RdbFiles \<Rightarrow> DeviceIconInfo \<Rightarrow> 'r DataAdapter \<Rightarrow> dp_ret \<times> 'r DataAdapter" where
  "Did_UpdateDeviceIconInfo F i a =
     (let ((ret, _), a) = Pda_Update F (-1) DEVICE_ICON_INFO_TABLE (DeviceIconInfoToEntries i) ID_EQUAL_CONDITION
            [RInt (di_id i)] a in
      if ret \<noteq> DP_SUCCESS then (DP_UPDATE_DEVICE_ICON_INFO_FAIL, a) else (DP_SUCCESS, a))"

section \<open>Products\<close>

definition ProductInfoToEntries :: "ProductInfo \<Rightarrow> ValuesBucket" where
  "ProductInfoToEntries i =
     [(''productId'', RStr (pi_productId i)), (''model'', RStr (pi_model i)), (''productName'', RStr (pi_productName i)),
      (''productShortName'', RStr (pi_productShortName i)), (''imageVersion'', RStr (pi_imageVersion i))]"

definition ConvertToProductInfo :: "ValuesBucket option \<Rightarrow> ProductInfo \<Rightarrow> dp_ret \<times> ProductInfo" where
  "ConvertToProductInfo row i =
     (case row of
        None \<Rightarrow> (DP_GET_RESULTSET_FAIL, i)
      | Some r \<Rightarrow>
          (DP_SUCCESS,
           \<lparr>pi_productId = row_str r ''productId'', pi_model = row_str r ''model'',
            pi_productName = row_str r ''productName'', pi_productShortName = row_str r ''productShortName'',
            pi_imageVersion = row_str r ''imageVersion''\<rparr>))"

definition Product_CreateQuerySqlAndCondition :: "string list \<Rightarrow> bool \<times> string \<times> rdb_value list" where
  "Product_CreateQuerySqlAndCondition productIds =
     (let sql = SELECT_PRODUCT_INFO_TABLE in
      if productIds \<noteq> []
      then let (sql, condition) = fold (\<lambda>prodId (sql, condition). (sql @ ''?,'', condition @ [RStr prodId]))
                  productIds (sql @ ''productId'' @ '' IN('', []);
               sql = butlast sql
           in (True, sql @ '')'', condition)
      else (False, sql, []))"

definition Pid_CreateTable :: "('r, 'h) RdbFiles \<Rightarrow> 'r DataAdapter \<Rightarrow> dp_ret \<times> 'r DataAdapter" where
  "Pid_CreateTable F a =
     (let (ret, a) = Pda_CreateTable F CREATE_PRODUCT_INFO_TABLE_SQL a in
      if ret \<noteq> DP_SUCCESS then (DP_CREATE_TABLE_FAIL, a) else (DP_SUCCESS, a))"

definition Pid_CreateIndex :: "'r DataAdapter \<Rightarrow> dp_ret \<times> 'r DataAdapter" where
  "Pid_CreateIndex a = (DP_SUCCESS, a)"

definition Pid_Init :: "(rdb_ret \<Rightarrow> dp_ret) \<Rightarrow> ('r, 'h) RdbFiles \<Rightarrow> 'r DataAdapter \<Rightarrow> 'h \<Rightarrow> dp_ret \<times> 'r DataAdapter \<times> 'h" where
  "Pid_Init rdb_number F a h =
     (let (ret, a, h) = (if \<not> Pda_IsInit a then Pda_Init rdb_number F a h else (DP_SUCCESS, a, h)) in
      if ret \<noteq> DP_SUCCESS then (DP_INIT_DB_FAILED, a, h)
      else let a = snd (Pid_CreateTable F a); a = snd (Pid_CreateIndex a) in (DP_SUCCESS, a, h))"

definition Pid_UnInit :: "'r DataAdapter \<Rightarrow> dp_ret \<times> 'r DataAdapter" where
  "Pid_UnInit a =
     (if \<not> Pda_IsInit a then (DP_SUCCESS, a)
      else let (ret, a) = Pda_UnInit a in if ret \<noteq> DP_SUCCESS then (DP_UNINIT_FAIL, a) else (DP_SUCCESS, a))"

definition Pid_PutProductInfo :: "('r, 'h) RdbFiles \<Rightarrow> ProductInfo \<Rightarrow> 'r DataAdapter \<Rightarrow> dp_ret \<times> 'r DataAdapter" where
  "Pid_PutProductInfo F i a =
     (let ((ret, _), a) = Pda_Put F (-1) PRODUCT_INFO_TABLE (ProductInfoToEntries i) a in
      if ret \<noteq> DP_SUCCESS then (DP_PUT_PRODUCT_INFO_FAIL, a) else (DP_SUCCESS, a))"

definition Pid_GetProductInfos :: "('r, 'h) RdbFiles \<Rightarrow> string list \<Rightarrow> ProductInfo list \<Rightarrow> 'r DataAdapter \<Rightarrow>
    (dp_ret \<times> ProductInfo list) \<times> 'r DataAdapter" where
  "Pid_GetProductInfos F productIds productInfos a =
     (if \<not> fst (Product_CreateQuerySqlAndCondition productIds) then ((DP_INVALID_PARAMS, productInfos), a)
      else let (resultSet, a) = Pda_Get F (SelectWhere PRODUCT_INFO_TABLE [WIn ''productId'' (length productIds)])
                 (map RStr productIds) a in
        case resultSet of
          None \<Rightarrow> ((DP_GET_RESULTSET_FAIL, productInfos), a)
        | Some rs \<Rightarrow>
            if rs_rows rs = [] then ((DP_NOT_FIND_DATA, productInfos), a)
            else let productInfos = productInfos @
                       map (\<lambda>r. snd (ConvertToProductInfo (Some r) ProductInfo_default)) (rs_rows rs) in
              if productInfos = [] then ((DP_NOT_FIND_DATA, productInfos), a) else ((DP_SUCCESS, productInfos), a))"

definition PRODUCT_ID_EQUAL :: "string list" where "PRODUCT_ID_EQUAL = [''productId'']"

definition Pid_DeleteProductInfo :: "('r, 'h) RdbFiles \<Rightarrow> ProductInfo \<Rightarrow> 'r DataAdapter \<Rightarrow> dp_ret \<times> 'r DataAdapter" where
  "Pid_DeleteProductInfo F i a =
     (let ((ret, _), a) = Pda_Delete F (-1) PRODUCT_INFO_TABLE PRODUCT_ID_EQUAL [RStr (pi_productId i)] a in
      if ret \<noteq> DP_SUCCESS then (DP_DEL_PRODUCT_INFO_FAIL, a) else (DP_SUCCESS, a))"

definition Pid_UpdateProductInfo :: "('r, 'h) RdbFiles \<Rightarrow> ProductInfo \<Rightarrow> 'r DataAdapter \<Rightarrow> dp_ret \<times> 'r DataAdapter" where
  "Pid_UpdateProductInfo F i a =
     (let ((ret, _), a) = Pda_Update F (-1) PRODUCT_INFO_TABLE (ProductInfoToEntries i) PRODUCT_ID_EQUAL
            [RStr (pi_productId i)] a in
      if ret \<noteq> DP_SUCCESS then (DP_UPDATE_PRODUCT_INFO_FAIL, a) else (DP_SUCCESS, a))"

section \<open>The texts\<close>

text \<open>\<open>open_text\<close>: a text that still waits for more conditions; each has the separator after it.\<close>

definition open_text :: "where_cond list \<Rightarrow> string" where
  "open_text conds = concat (map (\<lambda>c. cond_text c @ '' AND '') conds)"

lemma open_text_join: "conds \<noteq> [] \<Longrightarrow> open_text conds = join_with '' AND '' (map cond_text conds) @ '' AND ''"
  by (induction conds rule: induct_list012) (auto simp: open_text_def)

lemma open_text_append [simp]: "open_text (xs @ ys) = open_text xs @ open_text ys" "open_text [] = []"
  by (simp_all add: open_text_def)

lemma fold_places:
  "fold (\<lambda>p (sql, condition). (sql @ ''?,'', condition @ [g p])) ps (sql, condition) =
     (sql @ concat (replicate (length ps) ''?,''), condition @ map g ps)"
  by (induction ps arbitrary: sql condition) auto

lemma places: "n > 0 \<Longrightarrow> concat (replicate n ''?,'') = join_with '','' (replicate n ''?'') @ '',''"
proof (induction n rule: nat_induct_non_zero)
  case (Suc n)
  then obtain m where "n = Suc m" by (cases n) auto
  with Suc show ?case by simp
qed simp

lemma generate_text:
  "ps \<noteq> [] \<Longrightarrow> GenerateSqlAndCondition ps (sql @ c @ '' IN('') condition =
     (sql @ open_text [WIn c (length ps)], condition @ ps)"
  using fold_places [of "\<lambda>p. p" ps "sql @ c @ '' IN(''" condition] places [of "length ps"]
  by (simp add: GenerateSqlAndCondition_def butlast_append open_text_def)

lemma generate_device_texts:
  "ids \<noteq> [] \<Longrightarrow> GenerateSqlAndCondition_ints ids (sql @ ''id IN('') condition =
     (sql @ open_text [WIn ''id'' (length ids)], condition @ map RInt ids)"
  "ds \<noteq> [] \<Longrightarrow> GenerateSqlAndCondition_strings ds (sql @ ''deviceId IN('') condition =
     (sql @ open_text [WIn ''deviceId'' (length ds)], condition @ map RStr ds)"
  "ds \<noteq> [] \<Longrightarrow> GenerateSqlAndCondition_strings ds (sql @ ''wiseDeviceId IN('') condition =
     (sql @ open_text [WIn ''wiseDeviceId'' (length ds)], condition @ map RStr ds)"
  using generate_text [of "map RInt ids" sql "''id''" condition]
    generate_text [of "map RStr ds" sql "''deviceId''" condition]
    generate_text [of "map RStr ds" sql "''wiseDeviceId''" condition]
  by (simp_all add: GenerateSqlAndCondition_ints_def GenerateSqlAndCondition_strings_def)

lemma device_texts:
  "''userId = ? AND '' = open_text [WEq ''userId'']" "''accountId = ? AND '' = open_text [WEq ''accountId'']"
  by (simp_all add: open_text_def)

text \<open>One step of the text: \<open>wins c n\<close> and \<open>weqs c b\<close> are its condition, where it has one.\<close>

definition wins :: "string \<Rightarrow> nat \<Rightarrow> where_cond list" where
  "wins c n = (if n \<noteq> 0 then [WIn c n] else [])"

definition weqs :: "string \<Rightarrow> bool \<Rightarrow> where_cond list" where
  "weqs c b = (if b then [WEq c] else [])"

lemma device_steps:
  "(if ids \<noteq> [] then case GenerateSqlAndCondition_ints ids (sql @ ''id IN('') condition of (sql, condition) \<Rightarrow> (sql, condition, True)
    else (sql, condition, m)) = (sql @ open_text (wins ''id'' (length ids)), condition @ map RInt ids, ids \<noteq> [] \<or> m)"
  "(if ds \<noteq> [] then case GenerateSqlAndCondition_strings ds (sql @ ''deviceId IN('') condition of (sql, condition) \<Rightarrow> (sql, condition, True)
    else (sql, condition, m)) = (sql @ open_text (wins ''deviceId'' (length ds)), condition @ map RStr ds, ds \<noteq> [] \<or> m)"
  "(if ds \<noteq> [] then case GenerateSqlAndCondition_strings ds (sql @ ''wiseDeviceId IN('') condition of (sql, condition) \<Rightarrow> (sql, condition, True)
    else (sql, condition, m)) = (sql @ open_text (wins ''wiseDeviceId'' (length ds)), condition @ map RStr ds, ds \<noteq> [] \<or> m)"
  "(if u \<noteq> DEFAULT_USER_ID then (sql @ ''userId = ? AND '', condition @ [RInt u], True) else (sql, condition, m)) =
     (sql @ open_text (weqs ''userId'' (u \<noteq> DEFAULT_USER_ID)), condition @ (if u \<noteq> DEFAULT_USER_ID then [RInt u] else []), u \<noteq> DEFAULT_USER_ID \<or> m)"
  "(if c \<noteq> [] then (sql @ ''accountId = ? AND '', condition @ [RStr c], True) else (sql, condition, m)) =
     (sql @ open_text (weqs ''accountId'' (c \<noteq> [])), condition @ (if c \<noteq> [] then [RStr c] else []), c \<noteq> [] \<or> m)"
  by (simp_all add: generate_device_texts wins_def weqs_def device_texts)

lemma device_query_text:
  "CreateQuerySqlAndCondition f = (sql_text (SelectWhere DEVICE_PROFILE_TABLE (device_conds f)), device_args f)"
proof -
  have conds: "device_conds f = wins ''id'' (length (dpo_deviceProfileIds f)) @ wins ''deviceId'' (length (dpo_deviceIds f)) @
      weqs ''userId'' (dpo_userId f \<noteq> DEFAULT_USER_ID) @ weqs ''accountId'' (dpo_accountId f \<noteq> []) @
      wins ''wiseDeviceId'' (length (dpo_wiseDeviceIds f))"
    by (simp add: device_conds_def wins_def weqs_def)
  have run: "CreateQuerySqlAndCondition f =
      (let sql = SELECT_DEVICE_PROFILE_TABLE @ open_text (device_conds f) in
       (take (length sql - (if device_conds f \<noteq> [] then AND_LENGTH else WHERE_LENGTH)) sql, device_args f))"
  proof -
    have some: "(dpo_wiseDeviceIds f \<noteq> [] \<or> dpo_accountId f \<noteq> [] \<or> dpo_userId f \<noteq> DEFAULT_USER_ID \<or>
        dpo_deviceIds f \<noteq> [] \<or> dpo_deviceProfileIds f \<noteq> [] \<or> False) \<longleftrightarrow> device_conds f \<noteq> []"
      by (auto simp: device_conds_def)
    have args: "device_args f = ((((([] @ map RInt (dpo_deviceProfileIds f)) @ map RStr (dpo_deviceIds f)) @
        (if dpo_userId f \<noteq> DEFAULT_USER_ID then [RInt (dpo_userId f)] else [])) @
        (if dpo_accountId f \<noteq> [] then [RStr (dpo_accountId f)] else [])) @ map RStr (dpo_wiseDeviceIds f))"
      by (simp add: device_args_def)
    have sql: "((((SELECT_DEVICE_PROFILE_TABLE @ open_text (wins ''id'' (length (dpo_deviceProfileIds f)))) @
        open_text (wins ''deviceId'' (length (dpo_deviceIds f)))) @ open_text (weqs ''userId'' (dpo_userId f \<noteq> DEFAULT_USER_ID))) @
        open_text (weqs ''accountId'' (dpo_accountId f \<noteq> []))) @ open_text (wins ''wiseDeviceId'' (length (dpo_wiseDeviceIds f))) =
        SELECT_DEVICE_PROFILE_TABLE @ open_text (device_conds f)"
      by (simp only: conds open_text_append append_assoc)
    show ?thesis
      unfolding CreateQuerySqlAndCondition_def Let_def device_steps prod.case some sql args
      by (cases "device_conds f = []") simp_all
  qed
  show ?thesis
  proof (cases "device_conds f = []")
    case True
    then show ?thesis by (simp add: run SELECT_DEVICE_PROFILE_TABLE_def Let_def)
  next
    case False
    then show ?thesis by (simp add: run open_text_join SELECT_DEVICE_PROFILE_TABLE_def Let_def)
  qed
qed

lemma icon_query_text:
  "fst (Icon_CreateQuerySqlAndCondition f) \<longleftrightarrow> dio_productIds f \<noteq> [] \<or> dio_imageType f \<noteq> [] \<or> dio_specName f \<noteq> []"
  "fst (Icon_CreateQuerySqlAndCondition f) \<Longrightarrow> snd (Icon_CreateQuerySqlAndCondition f) =
     (sql_text (SelectFirst SELECT_DEVICE_ICON_INFO_TABLE (icon_conds f)), icon_args f)"
proof -
  let ?last = "join_with '' AND '' (map cond_text [WEq ''a.subProductId'', WEq ''a.internalModel''])"
  have join: "join_with '' AND '' (map cond_text (cs @ [WEq ''a.subProductId'', WEq ''a.internalModel''])) = open_text cs @ ?last" for cs
    by (induction cs rule: induct_list012) (simp_all add: open_text_def)
  show "fst (Icon_CreateQuerySqlAndCondition f) \<longleftrightarrow> dio_productIds f \<noteq> [] \<or> dio_imageType f \<noteq> [] \<or> dio_specName f \<noteq> []"
    by (simp add: Icon_CreateQuerySqlAndCondition_def Let_def split: prod.splits)
  then show "snd (Icon_CreateQuerySqlAndCondition f) =
      (sql_text (SelectFirst SELECT_DEVICE_ICON_INFO_TABLE (icon_conds f)), icon_args f)"
    if "fst (Icon_CreateQuerySqlAndCondition f)"
    using that places [of "length (dio_productIds f)"] join [of "butlast (butlast (icon_conds f))"]
    by (simp add: Icon_CreateQuerySqlAndCondition_def icon_conds_def icon_args_def fold_places butlast_append
        open_text_def Let_def)
qed

lemma product_query_text:
  "Product_CreateQuerySqlAndCondition ids =
     (if ids = [] then (False, SELECT_PRODUCT_INFO_TABLE, [])
      else (True, sql_text (SelectWhere PRODUCT_INFO_TABLE [WIn ''productId'' (length ids)]), map RStr ids))"
  using places [of "length ids"]
  by (simp add: Product_CreateQuerySqlAndCondition_def fold_places butlast_append SELECT_PRODUCT_INFO_TABLE_def)

end
