(* ===== verification/ProfileData.thy ===== *)
theory ProfileData
  imports ProfileDaos DataMemory
begin

text \<open>
  \<open>ProfileDataManager\<close> (\<open>profiledatamanager/profile_data_manager.cpp\<close>): the profiles of devices, the icons
  and the products in their tables, inserted where there is no row yet and updated where there is one.
  The foreground user, which the manager of users keeps, is the argument \<open>fg\<close>.
\<close>

section \<open>The manager\<close>

record 'r ProfileDataManager =
  pdm_isInited :: bool
  pdm_adapter :: "'r DataAdapter"

definition pdm_run :: "('r DataAdapter \<Rightarrow> 'v \<times> 'r DataAdapter) \<Rightarrow> 'r ProfileDataManager \<Rightarrow> 'v \<times> 'r ProfileDataManager" where
  "pdm_run f m = (let (v, a) = f (pdm_adapter m) in (v, m\<lparr>pdm_adapter := a\<rparr>))"

definition Pdm_Init :: "(rdb_ret \<Rightarrow> dp_ret) \<Rightarrow> ('r, 'h) RdbFiles \<Rightarrow> 'r ProfileDataManager \<Rightarrow> 'h \<Rightarrow>
    dp_ret \<times> 'r ProfileDataManager \<times> 'h" where
  "Pdm_Init rdb_number F m h =
     (if pdm_isInited m then (DP_SUCCESS, m, h)
      else let (ret, a, h) = Dpd_Init rdb_number F (pdm_adapter m) h; m = m\<lparr>pdm_adapter := a\<rparr> in
        if ret \<noteq> DP_SUCCESS then (DP_DEVICE_PROFILE_DAO_INIT_FAIL, m, h)
        else let (ret, a, h) = Pid_Init rdb_number F (pdm_adapter m) h; m = m\<lparr>pdm_adapter := a\<rparr> in
          if ret \<noteq> DP_SUCCESS then (DP_PRODUCT_INFO_DAO_INIT_FAIL, m, h)
          else let (ret, a, h) = Did_Init rdb_number F (pdm_adapter m) h; m = m\<lparr>pdm_adapter := a\<rparr> in
            if ret \<noteq> DP_SUCCESS then (DP_DEVICE_ICON_INFO_DAO_INIT_FAIL, m, h)
            else (DP_SUCCESS, m\<lparr>pdm_isInited := True\<rparr>, h))"

definition Pdm_UnInit :: "'r ProfileDataManager \<Rightarrow> dp_ret \<times> 'r ProfileDataManager" where
  "Pdm_UnInit m =
     (let (ret, m) = pdm_run Dpd_UnInit m in
      if ret \<noteq> DP_SUCCESS then (DP_DEVICE_PROFILE_DAO_UNINIT_FAIL, m)
      else let (ret, m) = pdm_run Pid_UnInit m in
        if ret \<noteq> DP_SUCCESS then (DP_PRODUCT_INFO_DAO_UNINIT_FAIL, m)
        else let (ret, m) = pdm_run Did_UnInit m in
          if ret \<noteq> DP_SUCCESS then (DP_DEVICE_ICON_INFO_DAO_UNINIT_FAIL, m)
          else (DP_SUCCESS, m\<lparr>pdm_isInited := False\<rparr>))"

text \<open>Only a string with both symbols is filtered.\<close>

definition FilterInvaildSymbol :: "string \<Rightarrow> bool" where
  "FilterInvaildSymbol str =
     (if length str = 0 \<or> length str > MAX_STRING_LEN then False
      else if str_find SEPARATOR str = None then False
      else if str_find ''/'' str = None then False
      else True)"

definition Pdm_PutDeviceProfile :: "('r, 'h) RdbFiles \<Rightarrow> int \<Rightarrow> DeviceProfile \<Rightarrow> 'r ProfileDataManager \<Rightarrow>
    dp_ret \<times> 'r ProfileDataManager" where
  "Pdm_PutDeviceProfile F fg p m =
     (if dp_deviceId p = [] \<or> FilterInvaildSymbol (dp_deviceId p) then (DP_INVALID_PARAMS, m)
      else let p = (if dp_userId p = DEFAULT_USER_ID then p\<lparr>dp_userId := fg\<rparr> else p);
               filterOptions = (AddDeviceIds (dp_deviceId p) DeviceProfileFilterOptions_default)\<lparr>dpo_userId := dp_userId p\<rparr>;
               ((ret, oldDeviceProfiles), m) = pdm_run (Dpd_GetDeviceProfiles F filterOptions []) m in
        if ret \<noteq> DP_SUCCESS \<and> ret \<noteq> DP_NOT_FIND_DATA then (ret, m)
        else let p = (case oldDeviceProfiles of [] \<Rightarrow> p\<lparr>dp_id := DEFAULT_ID\<rparr> | q # _ \<Rightarrow> p\<lparr>dp_id := dp_id q\<rparr>);
                 (ret, m) = (if dp_id p \<le> 0 then pdm_run (Dpd_PutDeviceProfile F p) m
                             else pdm_run (Dpd_UpdateDeviceProfile F p) m) in
          if ret \<noteq> DP_SUCCESS then (ret, m) else (DP_SUCCESS, m))"

text \<open>The options come back with the user they are completed with.\<close>

definition Pdm_GetDeviceProfiles :: "('r, 'h) RdbFiles \<Rightarrow> int \<Rightarrow> DeviceProfileFilterOptions \<Rightarrow> DeviceProfile list \<Rightarrow>
    'r ProfileDataManager \<Rightarrow> (dp_ret \<times> DeviceProfileFilterOptions \<times> DeviceProfile list) \<times> 'r ProfileDataManager" where
  "Pdm_GetDeviceProfiles F fg options deviceProfiles m =
     (let options = (if dpo_userId options = DEFAULT_USER_ID then options\<lparr>dpo_userId := fg\<rparr> else options);
          ((ret, deviceProfiles), m) = pdm_run (Dpd_GetDeviceProfiles F options deviceProfiles) m in
      if ret \<noteq> DP_SUCCESS then ((ret, options, deviceProfiles), m)
      else if deviceProfiles = [] then ((DP_DEVICE_PROFILE_NOT_FOUND, options, deviceProfiles), m)
      else ((DP_SUCCESS, options, deviceProfiles), m))"

text \<open>The loop of the deletion; a later failure replaces the result.\<close>

definition delete_profiles :: "('r, 'h) RdbFiles \<Rightarrow> DeviceProfile list \<Rightarrow> dp_ret \<Rightarrow> 'r ProfileDataManager \<Rightarrow>
    dp_ret \<times> 'r ProfileDataManager" where
  "delete_profiles F ps ret m =
     fold (\<lambda>dp (ret, m). let (delRet, m) = pdm_run (Dpd_DeleteDeviceProfile F dp) m in
        (if delRet \<noteq> DP_SUCCESS then delRet else ret, m)) ps (ret, m)"

definition Pdm_DeleteDeviceProfileBatch :: "('r, 'h) RdbFiles \<Rightarrow> int \<Rightarrow> DeviceProfile list \<Rightarrow> 'r ProfileDataManager \<Rightarrow>
    dp_ret \<times> 'r ProfileDataManager" where
  "Pdm_DeleteDeviceProfileBatch F fg deviceProfiles m =
     (if deviceProfiles = [] then (DP_INVALID_PARAM, m)
      else let filterOptions = fold (\<lambda>item. AddDeviceIds (dp_deviceId item)) deviceProfiles
                 (DeviceProfileFilterOptions_default\<lparr>dpo_userId := dp_userId (hd deviceProfiles)\<rparr>);
               ((ret, _, oldDeviceProfiles), m) = Pdm_GetDeviceProfiles F fg filterOptions [] m in
        if ret \<noteq> DP_SUCCESS then (ret, m)
        else let (ret, m) = delete_profiles F oldDeviceProfiles ret m in
          if ret \<noteq> DP_SUCCESS then (ret, m) else (DP_SUCCESS, m))"

text \<open>The loop of the put: a result that is \<open>DP_SUCCESS\<close> stays, whatever the later puts answer.\<close>

abbreviation "RET_INIT \<equiv> (-1 :: int)"

definition put_profiles :: "('r, 'h) RdbFiles \<Rightarrow> int \<Rightarrow> DeviceProfile list \<Rightarrow> dp_ret \<Rightarrow> 'r ProfileDataManager \<Rightarrow>
    dp_ret \<times> 'r ProfileDataManager" where
  "put_profiles F fg ps ret m =
     fold (\<lambda>p (ret, m). let (putRet, m) = Pdm_PutDeviceProfile F fg p m in
        (if ret \<noteq> DP_SUCCESS then putRet else ret, m)) ps (ret, m)"

definition Pdm_PutDeviceProfileBatch :: "('r, 'h) RdbFiles \<Rightarrow> int \<Rightarrow> DeviceProfile list \<Rightarrow> 'r ProfileDataManager \<Rightarrow>
    dp_ret \<times> 'r ProfileDataManager" where
  "Pdm_PutDeviceProfileBatch F fg deviceProfiles m =
     (if deviceProfiles = [] then (DP_INVALID_PARAM, m)
      else let (ret, m) = put_profiles F fg deviceProfiles RET_INIT m in
        if ret \<noteq> DP_SUCCESS then (ret, m) else (DP_SUCCESS, m))"

definition Pdm_GetDeviceIconInfos :: "('r, 'h) RdbFiles \<Rightarrow> DeviceIconInfoFilterOptions \<Rightarrow> DeviceIconInfo list \<Rightarrow>
    'r ProfileDataManager \<Rightarrow> (dp_ret \<times> DeviceIconInfo list) \<times> 'r ProfileDataManager" where
  "Pdm_GetDeviceIconInfos F f deviceIconInfos m =
     (if dio_productIds f = [] \<or> dio_imageType f = [] \<or> dio_specName f = [] then ((DP_INVALID_PARAM, deviceIconInfos), m)
      else let ((ret, deviceIconInfos), m) = pdm_run (Did_GetDeviceIconInfos F f deviceIconInfos) m in
        if ret \<noteq> DP_SUCCESS then ((ret, deviceIconInfos), m) else ((DP_SUCCESS, deviceIconInfos), m))"

definition Pdm_PutDeviceIconInfo :: "('r, 'h) RdbFiles \<Rightarrow> DeviceIconInfo \<Rightarrow> 'r ProfileDataManager \<Rightarrow>
    dp_ret \<times> 'r ProfileDataManager" where
  "Pdm_PutDeviceIconInfo F i m =
     (let filterOptions = DeviceIconInfoFilterOptions_default\<lparr>dio_productIds := [di_productId i],
            dio_subProductId := di_subProductId i, dio_imageType := di_imageType i, dio_specName := di_specName i\<rparr>;
          ((ret, deviceIconInfos), m) = pdm_run (Did_GetDeviceIconInfos F filterOptions []) m in
      if ret \<noteq> DP_SUCCESS \<and> ret \<noteq> DP_NOT_FIND_DATA then (ret, m)
      else let (ret, m) = (case deviceIconInfos of
               [] \<Rightarrow> pdm_run (Did_PutDeviceIconInfo F i) m
             | j # _ \<Rightarrow> pdm_run (Did_UpdateDeviceIconInfo F (i\<lparr>di_id := di_id j\<rparr>)) m) in
        if ret \<noteq> DP_SUCCESS then (ret, m) else (DP_SUCCESS, m))"

text \<open>A batch of icons or products ends at the first failure.\<close>

fun put_each :: "('x \<Rightarrow> 'm \<Rightarrow> dp_ret \<times> 'm) \<Rightarrow> 'x list \<Rightarrow> 'm \<Rightarrow> dp_ret \<times> 'm" where
  "put_each put [] m = (DP_SUCCESS, m)"
| "put_each put (x # xs) m = (let (ret, m) = put x m in if ret \<noteq> DP_SUCCESS then (ret, m) else put_each put xs m)"

definition Pdm_PutDeviceIconInfoBatch :: "('r, 'h) RdbFiles \<Rightarrow> DeviceIconInfo list \<Rightarrow> 'r ProfileDataManager \<Rightarrow>
    dp_ret \<times> 'r ProfileDataManager" where
  "Pdm_PutDeviceIconInfoBatch F deviceIconInfos m =
     (if deviceIconInfos = [] then (DP_INVALID_PARAM, m) else put_each (Pdm_PutDeviceIconInfo F) deviceIconInfos m)"

definition Pdm_PutProductInfo :: "('r, 'h) RdbFiles \<Rightarrow> ProductInfo \<Rightarrow> 'r ProfileDataManager \<Rightarrow>
    dp_ret \<times> 'r ProfileDataManager" where
  "Pdm_PutProductInfo F i m =
     (if pi_productId i = [] then (DP_INVALID_PARAM, m)
      else let ((ret, productInfos), m) = pdm_run (Pid_GetProductInfos F [pi_productId i] []) m in
        if ret \<noteq> DP_SUCCESS \<and> ret \<noteq> DP_NOT_FIND_DATA then (ret, m)
        else let (ret, m) = (if productInfos = [] then pdm_run (Pid_PutProductInfo F i) m
                             else pdm_run (Pid_UpdateProductInfo F i) m) in
          if ret \<noteq> DP_SUCCESS then (ret, m) else (DP_SUCCESS, m))"

definition Pdm_PutProductInfoBatch :: "('r, 'h) RdbFiles \<Rightarrow> ProductInfo list \<Rightarrow> 'r ProfileDataManager \<Rightarrow>
    dp_ret \<times> 'r ProfileDataManager" where
  "Pdm_PutProductInfoBatch F productInfos m =
     (if productInfos = [] then (DP_INVALID_PARAM, m) else put_each (Pdm_PutProductInfo F) productInfos m)"

end
