(* ===== verification/ProfileDataLaws.thy ===== *)
theory ProfileDataLaws
  imports ProfileData
begin

text \<open>
  What the operations of \<open>ProfileData\<close> do to the tables, over every store with the laws of \<open>data_files\<close>: the
  table of device profiles as a map from device and user to a profile, and what a batch answers.
\<close>

section \<open>Rows of device profiles\<close>

text \<open>\<open>kept\<close>: a profile as it comes back; the fields of the other store have no column.\<close>

definition kept :: "DeviceProfile \<Rightarrow> DeviceProfile" where
  "kept p = p\<lparr>dp_manufactureName := [], dp_storageCapability := 0, dp_osSysCap := [], dp_osApiLevel := 0,
     dp_osVersion := [], dp_osType := 0, dp_isMultiUser := False\<rparr>"

definition device_row :: "DeviceProfile \<Rightarrow> ValuesBucket" where
  "device_row p = (''id'', RInt (dp_id p)) # Dpd_DeviceProfileToEntries p"

definition device_of :: "ValuesBucket \<Rightarrow> DeviceProfile" where
  "device_of r = snd (ConvertToDeviceProfile (Some r) DeviceProfile_default)"

definition profile_ident :: "DeviceProfile \<Rightarrow> string \<times> int" where
  "profile_ident p = (dp_deviceId p, dp_userId p)"

definition stored_profiles :: "tables \<Rightarrow> DeviceProfile list" where
  "stored_profiles d = map device_of (d DEVICE_PROFILE_TABLE)"

definition devices :: "tables \<Rightarrow> string \<times> int \<Rightarrow> DeviceProfile option" where
  "devices d k = find (\<lambda>p. profile_ident p = k) (stored_profiles d)"

definition profiles_ok :: "tables \<Rightarrow> bool" where
  "profiles_ok d \<longleftrightarrow> d DEVICE_PROFILE_TABLE = map device_row (stored_profiles d) \<and>
     keys_ok DEVICE_PROFILE_TABLE (d DEVICE_PROFILE_TABLE)"

definition profile_selected :: "DeviceProfileFilterOptions \<Rightarrow> DeviceProfile \<Rightarrow> bool" where
  "profile_selected f p \<longleftrightarrow>
     (dpo_deviceProfileIds f = [] \<or> dp_id p \<in> set (dpo_deviceProfileIds f)) \<and>
     (dpo_deviceIds f = [] \<or> dp_deviceId p \<in> set (dpo_deviceIds f)) \<and>
     (dpo_userId f = DEFAULT_USER_ID \<or> dp_userId p = dpo_userId f) \<and>
     (dpo_accountId f = [] \<or> dp_accountId p = dpo_accountId f) \<and>
     (dpo_wiseDeviceIds f = [] \<or> dp_wiseDeviceId p \<in> set (dpo_wiseDeviceIds f))"

lemma kept_kept [simp]: "kept (kept p) = kept p" "profile_ident (kept p) = profile_ident p" "dp_id (kept p) = dp_id p"
  by (simp_all add: kept_def profile_ident_def)

lemma kept_device_of [simp]: "kept (device_of r) = device_of r"
  by (simp add: kept_def device_of_def ConvertToDeviceProfile_def DeviceProfile_default_def)

lemma device_row_kept [simp]: "device_row (kept p) = device_row p"
  by (simp add: device_row_def kept_def Dpd_DeviceProfileToEntries_def)

lemma row_columns [simp]:
  "map_of (device_row p) ''id'' = Some (RInt (dp_id p))" "map_of (device_row p) ''deviceId'' = Some (RStr (dp_deviceId p))"
  "map_of (device_row p) ''userId'' = Some (RInt (dp_userId p))" "map_of (device_row p) ''accountId'' = Some (RStr (dp_accountId p))"
  "map_of (device_row p) ''wiseDeviceId'' = Some (RStr (dp_wiseDeviceId p))"
  by (simp_all add: device_row_def Dpd_DeviceProfileToEntries_def)

lemma device_of_row [simp]: "device_of (device_row p) = kept p"
  by (simp add: device_of_def ConvertToDeviceProfile_def DeviceProfile_default_def kept_def device_row_def
      Dpd_DeviceProfileToEntries_def row_str_def row_int_def)

lemma row_id_row [simp]: "row_id (device_row p) = dp_id p"
  by (simp add: row_id_def row_int_def)

lemma profile_entries_row [simp]:
  "''id'' \<notin> fst ` set (Dpd_DeviceProfileToEntries p)"
  "new_row DEVICE_PROFILE_TABLE n (Dpd_DeviceProfileToEntries p) = device_row (p\<lparr>dp_id := n\<rparr>)"
  by (simp_all add: Dpd_DeviceProfileToEntries_def new_row_def auto_id_def device_row_def)

lemma row_put_row [simp]: "row_put (Dpd_DeviceProfileToEntries p) (device_row q) = device_row (p\<lparr>dp_id := dp_id q\<rparr>)"
  by (simp add: row_put_def Dpd_DeviceProfileToEntries_def device_row_def)

lemma row_match_id [simp]: "row_matches ID_EQUAL_CONDITION [RInt n] (device_row p) \<longleftrightarrow> dp_id p = n"
  by (simp add: row_matches_def ID_EQUAL_CONDITION_def)

lemma profile_keys:
  "keys_ok DEVICE_PROFILE_TABLE (map device_row ps) \<longleftrightarrow> distinct (map profile_ident ps) \<and>
     distinct (map dp_id ps) \<and> (\<forall>p\<in>set ps. dp_id p > 0)"
  by (auto simp: keys_ok_def auto_id_def key_of_def unique_cols_def profile_ident_def distinct_map inj_on_def o_def)

lemma profiles_okI:
  assumes "d DEVICE_PROFILE_TABLE = map device_row ps" "\<forall>p\<in>set ps. kept p = p" "keys_ok DEVICE_PROFILE_TABLE (map device_row ps)"
  shows "profiles_ok d" "stored_profiles d = ps"
proof -
  show "stored_profiles d = ps" using assms(2) by (simp add: stored_profiles_def assms(1) map_idI)
  then show "profiles_ok d" using assms(1,3) by (simp add: profiles_ok_def)
qed

lemma stored_kept: "p \<in> set (stored_profiles d) \<Longrightarrow> kept p = p"
  by (auto simp: stored_profiles_def)

lemma profiles_okD:
  assumes "profiles_ok d"
  shows "d DEVICE_PROFILE_TABLE = map device_row (stored_profiles d)" "distinct (map profile_ident (stored_profiles d))"
    "distinct (map dp_id (stored_profiles d))" "\<forall>p\<in>set (stored_profiles d). dp_id p > 0"
    "keys_ok DEVICE_PROFILE_TABLE (d DEVICE_PROFILE_TABLE)"
proof -
  from assms show t: "d DEVICE_PROFILE_TABLE = map device_row (stored_profiles d)"
    and k: "keys_ok DEVICE_PROFILE_TABLE (d DEVICE_PROFILE_TABLE)" unfolding profiles_ok_def by blast+
  from k show "distinct (map profile_ident (stored_profiles d))"
    "distinct (map dp_id (stored_profiles d))" "\<forall>p\<in>set (stored_profiles d). dp_id p > 0"
    unfolding t profile_keys by blast+
qed

lemma conds_select: "cond_holds (device_conds f) (device_args f) (device_row p) \<longleftrightarrow> profile_selected f p"
  by (cases "dpo_deviceProfileIds f = []"; cases "dpo_deviceIds f = []"; cases "dpo_userId f = DEFAULT_USER_ID";
      cases "dpo_accountId f = []"; cases "dpo_wiseDeviceIds f = []")
    (simp_all add: device_conds_def device_args_def profile_selected_def image_iff eq_commute)

section \<open>The operations on rows\<close>

definition same_others :: "tables \<Rightarrow> tables \<Rightarrow> bool" where
  "same_others d d' \<longleftrightarrow> (\<forall>t. t \<noteq> DEVICE_PROFILE_TABLE \<longrightarrow> d' t = d t)"

lemma same_others_refl [simp]: "same_others d d" "same_others d (d(DEVICE_PROFILE_TABLE := x))"
  by (simp_all add: same_others_def)

context data_files begin

lemma dao_get:
  assumes "profiles_ok (data_db tab a)" "Dpd_GetDeviceProfiles F f ps a = ((r, qs), a')"
  shows "data_db tab a' = data_db tab a \<and> (let sel = filter (profile_selected f) (stored_profiles (data_db tab a)) in
    (r = DP_SUCCESS \<longrightarrow> sel \<noteq> [] \<and> qs = ps @ sel) \<and> (r = DP_NOT_FIND_DATA \<longrightarrow> sel = []) \<and> (r \<noteq> DP_SUCCESS \<longrightarrow> qs = ps))"
proof -
  let ?ps = "stored_profiles (data_db tab a)"
  obtain rs a0 where g: "data_get F (SelectWhere DEVICE_PROFILE_TABLE (device_conds f)) (device_args f) a = (rs, a0)"
    by fastforce
  note db = get_data [OF g]
  show ?thesis
  proof (cases rs)
    case None
    with assms(2) g db show ?thesis by (auto simp: Dpd_GetDeviceProfiles_def Pda_Get_def)
  next
    case (Some x)
    have "rs_rows x = map device_row (filter (profile_selected f) ?ps)"
      using where_data [OF g [unfolded Some]] profiles_okD(1) [OF assms(1)] by (simp add: filter_map o_def conds_select)
    moreover have "map device_of (map device_row (filter (profile_selected f) ?ps)) = filter (profile_selected f) ?ps"
      by (auto simp: o_def intro!: map_idI stored_kept)
    ultimately show ?thesis
      using assms(2) g db Some
      by (auto simp: Dpd_GetDeviceProfiles_def Pda_Get_def Let_def device_of_def [symmetric] o_def split: if_splits)
  qed
qed

lemma dao_put:
  assumes ok: "profiles_ok (data_db tab a)" and p: "Dpd_PutDeviceProfile F p a = (r, a')"
  shows "data_db tab a' = data_db tab a \<and> r = DP_PUT_TRUST_DEVICE_PROFILE_FAIL \<or>
    r \<in> {DP_SUCCESS, DP_GET_RESULTSET_FAIL} \<and> profiles_ok (data_db tab a') \<and> same_others (data_db tab a) (data_db tab a') \<and>
    (\<exists>n. stored_profiles (data_db tab a') = stored_profiles (data_db tab a) @ [kept (p\<lparr>dp_id := n\<rparr>)])"
proof -
  let ?ps = "stored_profiles (data_db tab a)"
  obtain r1 n1 a1 where i: "data_put F PDA_TABLES (-1) DEVICE_PROFILE_TABLE (Dpd_DeviceProfileToEntries p) a = ((r1, n1), a1)"
    by (metis prod.exhaust)
  obtain rs a2 where g: "data_get F (SelectWhere DEVICE_PROFILE_TABLE [WEq ''deviceId'', WEq ''userId''])
      [RStr (dp_deviceId p), RInt (dp_userId p)] a1 = (rs, a2)" by fastforce
  note put = put_data [OF i profile_entries_row(1)] and same = get_data [OF g]
  show ?thesis
  proof (cases "r1 = DP_SUCCESS")
    case False
    with p i put show ?thesis by (auto simp: Dpd_PutDeviceProfile_def Pda_Put_def)
  next
    case True
    with p i g have r: "r \<in> {DP_SUCCESS, DP_GET_RESULTSET_FAIL}" "a' = a2"
      by (auto simp: Dpd_PutDeviceProfile_def Pda_Put_def Pda_Get_def split: if_splits)
    from True put profiles_okD(5) [OF ok] obtain n where
      d1: "data_db tab a1 = (data_db tab a)(DEVICE_PROFILE_TABLE := data_db tab a DEVICE_PROFILE_TABLE @ [device_row (p\<lparr>dp_id := n\<rparr>)])"
      and k1: "keys_ok DEVICE_PROFILE_TABLE (data_db tab a1 DEVICE_PROFILE_TABLE)"
      unfolding rows_added_def profile_entries_row by auto
    have t1: "data_db tab a1 DEVICE_PROFILE_TABLE = map device_row (?ps @ [kept (p\<lparr>dp_id := n\<rparr>)])"
      using d1 profiles_okD(1) [OF ok] by simp
    have "\<forall>q\<in>set (?ps @ [kept (p\<lparr>dp_id := n\<rparr>)]). kept q = q" by (auto dest: stored_kept)
    note new = profiles_okI [where d = "data_db tab a1", OF t1 this k1 [unfolded t1]]
    have "same_others (data_db tab a) (data_db tab a')" unfolding r(2) same d1 by simp
    with r new same show ?thesis by metis
  qed
qed

lemma dao_update:
  assumes ok: "profiles_ok (data_db tab a)" and p: "Dpd_UpdateDeviceProfile F p a = (r, a')"
  shows "if r = DP_SUCCESS then profiles_ok (data_db tab a') \<and> same_others (data_db tab a) (data_db tab a') \<and>
      stored_profiles (data_db tab a') = map (\<lambda>q. if dp_id q = dp_id p then kept p else q) (stored_profiles (data_db tab a))
    else r = DP_UPDATE_TRUST_DEVICE_PROFILE_FAIL \<and> data_db tab a' = data_db tab a"
proof -
  let ?ps = "stored_profiles (data_db tab a)"
  obtain r1 n1 a1 where i: "data_update F PDA_TABLES (-1) DEVICE_PROFILE_TABLE (Dpd_DeviceProfileToEntries p)
      ID_EQUAL_CONDITION [RInt (dp_id p)] a = ((r1, n1), a1)" by (metis prod.exhaust)
  note put = update_data [OF i profile_entries_row(1)]
  show ?thesis
  proof (cases "r1 = DP_SUCCESS")
    case False
    with p i put show ?thesis by (auto simp: Dpd_UpdateDeviceProfile_def Pda_Update_def)
  next
    case True
    with p i have r: "r = DP_SUCCESS" "a' = a1" by (auto simp: Dpd_UpdateDeviceProfile_def Pda_Update_def)
    let ?qs = "map (\<lambda>q. if dp_id q = dp_id p then kept p else q) ?ps"
    from True put profiles_okD(5) [OF ok] have d1: "data_db tab a1 = (data_db tab a)(DEVICE_PROFILE_TABLE :=
        put_rows (Dpd_DeviceProfileToEntries p) ID_EQUAL_CONDITION [RInt (dp_id p)] (data_db tab a DEVICE_PROFILE_TABLE))"
      and k1: "keys_ok DEVICE_PROFILE_TABLE (data_db tab a1 DEVICE_PROFILE_TABLE)"
      unfolding rows_put_def by auto
    have "put_rows (Dpd_DeviceProfileToEntries p) ID_EQUAL_CONDITION [RInt (dp_id p)] (map device_row ?ps) = map device_row ?qs"
      by (auto simp: put_rows_def)
    then have t1: "data_db tab a1 DEVICE_PROFILE_TABLE = map device_row ?qs"
      unfolding d1 profiles_okD(1) [OF ok] by simp
    have "\<forall>q\<in>set ?qs. kept q = q" by (auto dest: stored_kept)
    note new = profiles_okI [where d = "data_db tab a1", OF t1 this k1 [unfolded t1]]
    have "same_others (data_db tab a) (data_db tab a')" unfolding r(2) d1 by simp
    with r new show ?thesis by simp
  qed
qed

lemma dao_delete:
  assumes ok: "profiles_ok (data_db tab a)" and p: "Dpd_DeleteDeviceProfile F p a = (r, a')"
  shows "if r = DP_SUCCESS then profiles_ok (data_db tab a') \<and> same_others (data_db tab a) (data_db tab a') \<and>
      stored_profiles (data_db tab a') = filter (\<lambda>q. dp_id q \<noteq> dp_id p) (stored_profiles (data_db tab a))
    else data_db tab a' = data_db tab a"
proof -
  let ?ps = "stored_profiles (data_db tab a)"
  obtain r1 n1 a1 where i: "data_delete F PDA_TABLES (-1) DEVICE_PROFILE_TABLE ID_EQUAL_CONDITION [RInt (dp_id p)] a =
      ((r1, n1), a1)" by (metis prod.exhaust)
  note del = delete_data [OF i]
  show ?thesis
  proof (cases "r1 = DP_SUCCESS")
    case False
    with p i del show ?thesis by (auto simp: Dpd_DeleteDeviceProfile_def Pda_Delete_def)
  next
    case True
    with p i have r: "r = DP_SUCCESS" "a' = a1" by (auto simp: Dpd_DeleteDeviceProfile_def Pda_Delete_def)
    let ?qs = "filter (\<lambda>q. dp_id q \<noteq> dp_id p) ?ps"
    from True del have d1: "data_db tab a1 = (data_db tab a)(DEVICE_PROFILE_TABLE := map device_row ?qs)"
      by (simp add: deleted_def profiles_okD(1) [OF ok] filter_map o_def)
    then have t1: "data_db tab a1 DEVICE_PROFILE_TABLE = map device_row ?qs" by simp
    have "\<forall>q\<in>set ?qs. kept q = q" by (auto dest: stored_kept)
    moreover have "keys_ok DEVICE_PROFILE_TABLE (map device_row ?qs)"
      using profiles_okD(2-4) [OF ok] unfolding profile_keys by (auto intro: distinct_map_filter)
    ultimately have "profiles_ok (data_db tab a1)" "stored_profiles (data_db tab a1) = ?qs"
      by (rule profiles_okI [where d = "data_db tab a1", OF t1])+
    moreover have "same_others (data_db tab a) (data_db tab a')" unfolding r(2) d1 by simp
    ultimately show ?thesis using r by simp
  qed
qed

end

section \<open>The operations of the manager\<close>

text \<open>The tables of a manager, the user a profile is stored under, and the profiles a deletion is about.\<close>

abbreviation pdm_db :: "('r \<Rightarrow> tables) \<Rightarrow> 'r ProfileDataManager \<Rightarrow> tables" where
  "pdm_db tab m \<equiv> data_db tab (pdm_adapter m)"

definition user_or :: "int \<Rightarrow> int \<Rightarrow> int" where
  "user_or fg u = (if u = DEFAULT_USER_ID then fg else u)"

definition to_delete :: "int \<Rightarrow> DeviceProfile list \<Rightarrow> DeviceProfile \<Rightarrow> bool" where
  "to_delete fg ps p \<longleftrightarrow> dp_userId p = user_or fg (dp_userId (hd ps)) \<and>
     dp_deviceId p \<in> dp_deviceId ` set (take MAX_DEVICE_SIZE ps)"

lemma pdm_run_eq: "pdm_run f m = (v, m') \<longleftrightarrow> (\<exists>a. f (pdm_adapter m) = (v, a) \<and> m' = m\<lparr>pdm_adapter := a\<rparr>)"
  by (auto simp: pdm_run_def Let_def split: prod.splits)

lemma add_devices:
  "fold (\<lambda>p. AddDeviceIds (dp_deviceId p)) ps f =
     f\<lparr>dpo_deviceIds := dpo_deviceIds f @ take (MAX_DEVICE_SIZE - length (dpo_deviceIds f)) (map dp_deviceId ps)\<rparr>"
proof (induction ps arbitrary: f)
  case (Cons p ps)
  show ?case
  proof (cases "length (dpo_deviceIds f) < MAX_DEVICE_SIZE")
    case True
    then obtain n where "MAX_DEVICE_SIZE - length (dpo_deviceIds f) = Suc n" by (metis Suc_diff_Suc)
    moreover from this have "MAX_DEVICE_SIZE - Suc (length (dpo_deviceIds f)) = n" by simp
    moreover from True have "AddDeviceIds (dp_deviceId p) f = f\<lparr>dpo_deviceIds := dpo_deviceIds f @ [dp_deviceId p]\<rparr>"
      by (simp add: AddDeviceIds_def)
    ultimately show ?thesis by (simp add: Cons)
  next
    case False
    then have "AddDeviceIds (dp_deviceId p) f = f" by (simp add: AddDeviceIds_def)
    with False show ?thesis by (simp add: Cons)
  qed
qed simp

lemma find_in: "find P xs = Some x \<Longrightarrow> x \<in> set xs \<and> P x"
  by (induction xs) (auto split: if_splits)

context data_files begin

lemma pdm_get:
  assumes "profiles_ok (pdm_db tab m)" "Pdm_GetDeviceProfiles F fg f ps m = ((r, g, qs), m')"
  shows "pdm_db tab m' = pdm_db tab m \<and> g = f\<lparr>dpo_userId := user_or fg (dpo_userId f)\<rparr> \<and>
    (let sel = filter (profile_selected g) (stored_profiles (pdm_db tab m)) in
      (r = DP_SUCCESS \<longrightarrow> sel \<noteq> [] \<and> qs = ps @ sel) \<and> (r = DP_NOT_FIND_DATA \<longrightarrow> sel = []) \<and> (r \<noteq> DP_SUCCESS \<longrightarrow> qs = ps))"
proof -
  define f' where "f' = f\<lparr>dpo_userId := user_or fg (dpo_userId f)\<rparr>"
  have f': "(if dpo_userId f = DEFAULT_USER_ID then f\<lparr>dpo_userId := fg\<rparr> else f) = f'"
    by (simp add: f'_def user_or_def)
  obtain r0 qs0 a0 where g: "Dpd_GetDeviceProfiles F f' ps (pdm_adapter m) = ((r0, qs0), a0)" by (metis prod.exhaust)
  from assms(2) g dao_get [OF assms(1) g] show ?thesis
    by (auto simp: Pdm_GetDeviceProfiles_def f' f'_def [symmetric] pdm_run_def Let_def split: if_splits)
qed

lemma pdm_put:
  assumes ok: "profiles_ok (pdm_db tab m)" and p: "Pdm_PutDeviceProfile F fg p m = (r, m')"
    and user: "user_or fg (dp_userId p) \<noteq> DEFAULT_USER_ID"
  defines "q \<equiv> p\<lparr>dp_userId := user_or fg (dp_userId p)\<rparr>"
  shows "profiles_ok (pdm_db tab m') \<and> same_others (pdm_db tab m) (pdm_db tab m') \<and>
    (let D = devices (pdm_db tab m); k = profile_ident q;
         stored = (\<exists>n. devices (pdm_db tab m') = D(k \<mapsto> kept (q\<lparr>dp_id := n\<rparr>)) \<and>
           (case D k of None \<Rightarrow> n \<notin> dp_id ` set (stored_profiles (pdm_db tab m)) | Some old \<Rightarrow> n = dp_id old)) in
      (r = DP_SUCCESS \<longrightarrow> stored) \<and>
      (r \<noteq> DP_SUCCESS \<longrightarrow> pdm_db tab m' = pdm_db tab m \<or> r = DP_GET_RESULTSET_FAIL \<and> D k = None \<and> stored))"
proof -
  let ?d = "pdm_db tab m" and ?ps = "stored_profiles (pdm_db tab m)" and ?k = "profile_ident q"
  let ?f = "(AddDeviceIds (dp_deviceId q) DeviceProfileFilterOptions_default)\<lparr>dpo_userId := dp_userId q\<rparr>"
  have q: "(if dp_userId p = DEFAULT_USER_ID then p\<lparr>dp_userId := fg\<rparr> else p) = q" by (simp add: q_def user_or_def)
  obtain r0 qs a0 where g: "Dpd_GetDeviceProfiles F ?f [] (pdm_adapter m) = ((r0, qs), a0)" by (metis prod.exhaust)
  have sel: "profile_selected ?f x \<longleftrightarrow> profile_ident x = ?k" for x
    using user by (auto simp: profile_selected_def profile_ident_def AddDeviceIds_def DeviceProfileFilterOptions_default_def q_def)
  from dao_get [OF ok g, unfolded Let_def sel] have same: "data_db tab a0 = ?d"
    and qs: "r0 \<in> {DP_SUCCESS, DP_NOT_FIND_DATA} \<longrightarrow> qs = filter (\<lambda>x. profile_ident x = ?k) ?ps" by auto
  note run = p [unfolded Pdm_PutDeviceProfile_def Let_def q pdm_run_def g prod.case]
  show ?thesis
  proof (cases "(dp_deviceId p = [] \<or> FilterInvaildSymbol (dp_deviceId p)) \<or> r0 \<notin> {DP_SUCCESS, DP_NOT_FIND_DATA}")
    case True
    with run same ok show ?thesis by (auto split: if_splits)
  next
    case False
    then have qs: "qs = filter (\<lambda>x. profile_ident x = ?k) ?ps" using qs by blast
    have D: "devices ?d ?k = (case qs of [] \<Rightarrow> None | x # _ \<Rightarrow> Some x)" by (simp add: devices_def find_as_filter qs)
    have ok0: "profiles_ok (data_db tab a0)" using ok same by simp
    show ?thesis
    proof (cases qs)
      case Nil
      then have none: "devices ?d ?k = None" using D by simp
      then have new: "?k \<notin> profile_ident ` set ?ps" unfolding devices_def find_key_None .
      obtain r1 a1 where i: "Dpd_PutDeviceProfile F (q\<lparr>dp_id := DEFAULT_ID\<rparr>) a0 = (r1, a1)" by fastforce
      from run False Nil i have r: "r = r1" "pdm_adapter m' = a1" by (auto split: if_splits)
      from dao_put [OF ok0 i] show ?thesis
      proof (elim disjE conjE exE)
        assume "data_db tab a1 = data_db tab a0" "r1 = DP_PUT_TRUST_DEVICE_PROFILE_FAIL"
        with r same ok show ?thesis by simp
      next
        fix n
        assume *: "r1 \<in> {DP_SUCCESS, DP_GET_RESULTSET_FAIL}" "profiles_ok (data_db tab a1)"
          "same_others (data_db tab a0) (data_db tab a1)"
          "stored_profiles (data_db tab a1) = stored_profiles (data_db tab a0) @ [kept (q\<lparr>dp_id := DEFAULT_ID, dp_id := n\<rparr>)]"
        let ?q = "kept (q\<lparr>dp_id := n\<rparr>)"
        have k: "profile_ident ?q = ?k" by (simp add: profile_ident_def kept_def)
        have "devices (data_db tab a1) = (devices ?d)(?k \<mapsto> ?q)"
          using new *(4) by (simp add: devices_def fun_eq_iff same find_key_append [where f = profile_ident and y = ?q, unfolded k])
        moreover have "n \<notin> dp_id ` set ?ps" using profiles_okD(3) [OF *(2)] *(4) same by simp
        ultimately show ?thesis using * r same none by (auto simp: Let_def)
      qed
    next
      case (Cons old rest)
      then have some: "devices ?d ?k = Some old" using D by simp
      then have old: "old \<in> set ?ps" "profile_ident old = ?k" unfolding devices_def by (auto dest: find_in)
      then have pos: "dp_id old > 0" using profiles_okD(4) [OF ok] by blast
      obtain r1 a1 where i: "Dpd_UpdateDeviceProfile F (q\<lparr>dp_id := dp_id old\<rparr>) a0 = (r1, a1)" by fastforce
      from run False Cons i pos have r: "r = r1" "pdm_adapter m' = a1" by (auto split: if_splits)
      let ?q = "kept (q\<lparr>dp_id := dp_id old\<rparr>)"
      have k: "profile_ident ?q = ?k" "dp_id ?q = dp_id old" by (simp_all add: profile_ident_def kept_def)
      show ?thesis
      proof (cases "r1 = DP_SUCCESS")
        case False
        with dao_update [OF ok0 i] r same ok show ?thesis by simp
      next
        case True
        have by_ident: "dp_id x = dp_id old \<longleftrightarrow> profile_ident x = ?k" if "x \<in> set ?ps" for x
          using that old profiles_okD(2,3) [OF ok] by (metis distinct_map inj_onD)
        have "stored_profiles (data_db tab a1) = map (\<lambda>x. if profile_ident x = ?k then ?q else x) ?ps"
          using dao_update [OF ok0 i] True same by (simp add: by_ident)
        moreover have "?k \<in> profile_ident ` set ?ps" using old by (metis imageI)
        ultimately have "devices (data_db tab a1) = (devices ?d)(?k \<mapsto> ?q)"
          using find_key_replace [where f = profile_ident and y = ?q and xs = ?ps, unfolded k]
          by (simp add: devices_def fun_eq_iff)
        with dao_update [OF ok0 i] True r same some show ?thesis by (auto simp: Let_def)
      qed
    qed
  qed
qed

lemma delete_loop:
  assumes "profiles_ok (pdm_db tab m)" "delete_profiles F ps ret m = (r, m')"
  shows "profiles_ok (pdm_db tab m') \<and> same_others (pdm_db tab m) (pdm_db tab m') \<and> (\<exists>N\<subseteq>dp_id ` set ps.
    stored_profiles (pdm_db tab m') = filter (\<lambda>q. dp_id q \<notin> N) (stored_profiles (pdm_db tab m)) \<and>
    (r = DP_SUCCESS \<longrightarrow> ret = DP_SUCCESS \<and> N = dp_id ` set ps))"
  using assms
proof (induction ps arbitrary: ret m)
  case Nil
  then show ?case by (simp add: delete_profiles_def)
next
  case (Cons p ps)
  obtain r1 a1 where d: "Dpd_DeleteDeviceProfile F p (pdm_adapter m) = (r1, a1)" by fastforce
  let ?m = "m\<lparr>pdm_adapter := a1\<rparr>" and ?ret = "if r1 \<noteq> DP_SUCCESS then r1 else ret"
  note one = dao_delete [OF Cons.prems(1) d]
  then have ok: "profiles_ok (pdm_db tab ?m)" and same: "same_others (pdm_db tab m) (pdm_db tab ?m)"
    using Cons.prems(1) by (simp_all split: if_splits)
  have rest: "delete_profiles F ps ?ret ?m = (r, m')"
    using Cons.prems(2) d by (simp add: delete_profiles_def pdm_run_def)
  from Cons.IH [OF ok rest] obtain N where N: "N \<subseteq> dp_id ` set ps"
      "stored_profiles (pdm_db tab m') = filter (\<lambda>q. dp_id q \<notin> N) (stored_profiles (pdm_db tab ?m))"
      "r = DP_SUCCESS \<longrightarrow> ?ret = DP_SUCCESS \<and> N = dp_id ` set ps" and
    more: "profiles_ok (pdm_db tab m')" "same_others (pdm_db tab ?m) (pdm_db tab m')" by blast
  let ?N = "if r1 = DP_SUCCESS then insert (dp_id p) N else N"
  have "stored_profiles (pdm_db tab m') = filter (\<lambda>q. dp_id q \<notin> ?N) (stored_profiles (pdm_db tab m))"
    using N(2) one by (auto intro: filter_cong split: if_splits)
  moreover have "?N \<subseteq> dp_id ` set (p # ps)" using N(1) by auto
  moreover have "r = DP_SUCCESS \<longrightarrow> ret = DP_SUCCESS \<and> ?N = dp_id ` set (p # ps)" using N(3) by (auto split: if_splits)
  moreover have "same_others (pdm_db tab m) (pdm_db tab m')" using same more(2) by (simp add: same_others_def)
  ultimately show ?case using more(1) by blast
qed

lemma pdm_delete:
  assumes ok: "profiles_ok (pdm_db tab m)" and p: "Pdm_DeleteDeviceProfileBatch F fg ps m = (r, m')"
    and user: "user_or fg (dp_userId (hd ps)) \<noteq> DEFAULT_USER_ID"
  shows "profiles_ok (pdm_db tab m') \<and> same_others (pdm_db tab m) (pdm_db tab m') \<and>
    (let S = stored_profiles (pdm_db tab m); S' = stored_profiles (pdm_db tab m') in
      set S' \<subseteq> set S \<and> filter (\<lambda>q. \<not> to_delete fg ps q) S' = filter (\<lambda>q. \<not> to_delete fg ps q) S \<and>
      (r = DP_SUCCESS \<longrightarrow> S' = filter (\<lambda>q. \<not> to_delete fg ps q) S))"
proof (cases "ps = []")
  case True
  with p ok show ?thesis by (simp add: Pdm_DeleteDeviceProfileBatch_def)
next
  case False
  let ?S = "stored_profiles (pdm_db tab m)"
  let ?f = "fold (\<lambda>item. AddDeviceIds (dp_deviceId item)) ps
    (DeviceProfileFilterOptions_default\<lparr>dpo_userId := dp_userId (hd ps)\<rparr>)"
  obtain r0 g qs m0 where q: "Pdm_GetDeviceProfiles F fg ?f [] m = ((r0, g, qs), m0)" by (metis prod.exhaust)
  note get = pdm_get [OF ok q]
  then have g: "profile_selected g x \<longleftrightarrow> to_delete fg ps x" for x
    using False user by (auto simp: add_devices profile_selected_def to_delete_def DeviceProfileFilterOptions_default_def
        take_map)
  show ?thesis
  proof (cases "r0 = DP_SUCCESS")
    case False
    with p q get ok \<open>ps \<noteq> []\<close> show ?thesis by (auto simp: Pdm_DeleteDeviceProfileBatch_def Let_def split: prod.splits)
  next
    case True
    with get have "qs = [] @ filter (profile_selected g) ?S" unfolding Let_def by blast
    then have qs: "qs = filter (to_delete fg ps) ?S" by (simp add: g cong: filter_cong)
    from get have db: "pdm_db tab m0 = pdm_db tab m" by blast
    obtain r1 m1 where l: "delete_profiles F qs r0 m0 = (r1, m1)" by fastforce
    with p q \<open>ps \<noteq> []\<close> True have r: "r = r1" "m' = m1"
      by (auto simp: Pdm_DeleteDeviceProfileBatch_def Let_def split: if_splits)
    from delete_loop [OF _ l, unfolded db, OF ok, folded r] obtain N where N: "N \<subseteq> dp_id ` set qs"
        "stored_profiles (pdm_db tab m') = filter (\<lambda>q. dp_id q \<notin> N) ?S" "r = DP_SUCCESS \<longrightarrow> N = dp_id ` set qs"
      and more: "profiles_ok (pdm_db tab m')" "same_others (pdm_db tab m) (pdm_db tab m')" by blast
    have hit: "x \<in> set ?S \<Longrightarrow> dp_id x \<in> dp_id ` set qs \<longleftrightarrow> to_delete fg ps x" for x
      using profiles_okD(3) [OF ok] unfolding qs distinct_map by (auto dest: inj_onD)
    have "filter (\<lambda>q. \<not> to_delete fg ps q) (stored_profiles (pdm_db tab m')) = filter (\<lambda>q. \<not> to_delete fg ps q) ?S"
      unfolding N(2) filter_filter by (rule filter_cong) (use hit N(1) in blast)+
    moreover have "r = DP_SUCCESS \<longrightarrow> stored_profiles (pdm_db tab m') = filter (\<lambda>q. \<not> to_delete fg ps q) ?S"
      using N(2,3) hit by (auto intro!: filter_cong)
    ultimately show ?thesis using more N(2) by (simp add: Let_def)
  qed
qed

end

text \<open>C14: The table of device profiles is a map. Over every store that keeps its laws, with a well formed
  table: a put that succeeds stores the profile, without the fields that have no column, under its device
  and user (the foreground user where it names none), with the number of the row it replaces or a new one; a
  put that fails changes nothing, unless only the reading after an insertion failed. A deletion that succeeds
  removes exactly the profiles of the devices given, up to 1000, for the user of the first of them; one that
  fails removes no others. A query gives exactly the profiles its options select and says that there are
  none only when there are none. Other tables are untouched.\<close>

theorem device_profile_table:
  assumes "data_files F tab" "profiles_ok (pdm_db tab m)"
    and "Pdm_PutDeviceProfile F fg p m = (r1, m1)" "user_or fg (dp_userId p) \<noteq> DEFAULT_USER_ID"
    and "Pdm_DeleteDeviceProfileBatch F fg ps m = (r2, m2)" "user_or fg (dp_userId (hd ps)) \<noteq> DEFAULT_USER_ID"
    and "Pdm_GetDeviceProfiles F fg f [] m = ((r3, g, qs), m3)"
  shows "(\<forall>m'\<in>{m1, m2}. profiles_ok (pdm_db tab m') \<and> same_others (pdm_db tab m) (pdm_db tab m')) \<and>
    (let q = p\<lparr>dp_userId := user_or fg (dp_userId p)\<rparr>; D = devices (pdm_db tab m); k = profile_ident q;
         stored = (\<exists>n. devices (pdm_db tab m1) = D(k \<mapsto> kept (q\<lparr>dp_id := n\<rparr>)) \<and>
           (case D k of None \<Rightarrow> n \<notin> dp_id ` set (stored_profiles (pdm_db tab m)) | Some old \<Rightarrow> n = dp_id old)) in
      (r1 = DP_SUCCESS \<longrightarrow> stored) \<and>
      (r1 \<noteq> DP_SUCCESS \<longrightarrow> pdm_db tab m1 = pdm_db tab m \<or> r1 = DP_GET_RESULTSET_FAIL \<and> D k = None \<and> stored)) \<and>
    (let S = stored_profiles (pdm_db tab m); S2 = stored_profiles (pdm_db tab m2) in
      set S2 \<subseteq> set S \<and> filter (\<lambda>q. \<not> to_delete fg ps q) S2 = filter (\<lambda>q. \<not> to_delete fg ps q) S \<and>
      (r2 = DP_SUCCESS \<longrightarrow> S2 = filter (\<lambda>q. \<not> to_delete fg ps q) S)) \<and>
    (let sel = filter (profile_selected (f\<lparr>dpo_userId := user_or fg (dpo_userId f)\<rparr>)) (stored_profiles (pdm_db tab m)) in
      pdm_db tab m3 = pdm_db tab m \<and> (r3 = DP_SUCCESS \<longrightarrow> sel \<noteq> [] \<and> qs = sel) \<and>
      (r3 = DP_NOT_FIND_DATA \<longrightarrow> sel = []) \<and> (r3 \<noteq> DP_SUCCESS \<longrightarrow> qs = []))"
proof -
  note put = data_files.pdm_put [OF assms(1-4)] and del = data_files.pdm_delete [OF assms(1,2,5,6)]
    and get = data_files.pdm_get [OF assms(1,2,7)]
  from get have g: "g = f\<lparr>dpo_userId := user_or fg (dpo_userId f)\<rparr>" by blast
  from put del show ?thesis using get [unfolded g] unfolding Let_def append_Nil by simp
qed

definition demo_device :: DeviceProfile where
  "demo_device = DeviceProfile_default\<lparr>dp_deviceId := ''udid'', dp_deviceName := ''tablet''\<rparr>"

lemma device_profile_table_witness:
  "\<exists>n. devices (pdm_db mem_data_tab (snd (Pdm_PutDeviceProfile mem_files 100 demo_device
     \<lparr>pdm_isInited = True, pdm_adapter = \<lparr>da_store = Some []\<rparr>\<rparr>))) =
     [(''udid'', 100) \<mapsto> kept (demo_device\<lparr>dp_userId := 100, dp_id := n\<rparr>)]"
proof -
  let ?m = "\<lparr>pdm_isInited = True, pdm_adapter = \<lparr>da_store = Some []\<rparr>\<rparr> :: mem_data ProfileDataManager"
  obtain m1 where p: "Pdm_PutDeviceProfile mem_files 100 demo_device ?m = (DP_SUCCESS, m1)"
    by (simp add: demo_device_def DeviceProfile_default_def Pdm_PutDeviceProfile_def FilterInvaildSymbol_def
        pdm_run_def Dpd_GetDeviceProfiles_def Dpd_PutDeviceProfile_def Pda_Get_def Pda_Put_def data_get_def data_put_def
        PDA_TABLES_def mem_files_def with_restore_def Let_def mem_data_query_def mem_data_tab_def mem_data_set_def
        new_row_def auto_id_def keys_ok_def next_row_id_def row_id_def row_int_def)
  obtain r2 m2 where d: "Pdm_DeleteDeviceProfileBatch mem_files 100 [demo_device] ?m = (r2, m2)" by fastforce
  obtain r3 g qs m3 where q: "Pdm_GetDeviceProfiles mem_files 100 DeviceProfileFilterOptions_default [] ?m = ((r3, g, qs), m3)"
    by (metis prod.exhaust)
  have empty: "data_db mem_data_tab \<lparr>da_store = Some []\<rparr> = (\<lambda>_. [])" by (simp add: data_db_def mem_data_tab_def fun_eq_iff)
  have ok: "profiles_ok (pdm_db mem_data_tab ?m)" by (simp add: empty profiles_ok_def stored_profiles_def keys_ok_def)
  have user: "user_or 100 (dp_userId demo_device) = 100" "user_or 100 (dp_userId (hd [demo_device])) = 100"
    by (simp_all add: user_or_def demo_device_def DeviceProfile_default_def)
  have "devices (\<lambda>_. []) = Map.empty" by (simp add: fun_eq_iff devices_def stored_profiles_def)
  moreover have "profile_ident (demo_device\<lparr>dp_userId := 100\<rparr>) = (''udid'', 100)"
    by (simp add: profile_ident_def demo_device_def)
  ultimately show ?thesis
    using device_profile_table [OF mem_data.data_files_axioms ok p _ d _ q] by (auto simp: user empty p Let_def)
qed

text \<open>C15: The three classes build for every filter the text and the arguments of the structured query the
  store is asked with: one condition for each field of the filter that is set, joined by \<open>AND\<close>, a place for each
  argument in the order of the text, no \<open>WHERE\<close> without a condition. For device profiles the arguments make the
  conditions hold of exactly the profiles the filter selects.\<close>

theorem profile_query_text:
  "CreateQuerySqlAndCondition f = (sql_text (SelectWhere DEVICE_PROFILE_TABLE (device_conds f)), device_args f) \<and>
   cond_holds (device_conds f) (device_args f) (device_row p) = profile_selected f p \<and>
   Icon_CreateQuerySqlAndCondition i =
     (if dio_productIds i = [] \<and> dio_imageType i = [] \<and> dio_specName i = []
      then (False, SELECT_DEVICE_ICON_INFO_TABLE, [])
      else (True, sql_text (SelectFirst SELECT_DEVICE_ICON_INFO_TABLE (icon_conds i)), icon_args i)) \<and>
   Product_CreateQuerySqlAndCondition ids =
     (if ids = [] then (False, SELECT_PRODUCT_INFO_TABLE, [])
      else (True, sql_text (SelectWhere PRODUCT_INFO_TABLE [WIn ''productId'' (length ids)]), map RStr ids))"
proof -
  have "Icon_CreateQuerySqlAndCondition i = (False, SELECT_DEVICE_ICON_INFO_TABLE, [])"
    if "dio_productIds i = [] \<and> dio_imageType i = [] \<and> dio_specName i = []"
    using that by (simp add: Icon_CreateQuerySqlAndCondition_def)
  moreover have "Icon_CreateQuerySqlAndCondition i =
      (True, sql_text (SelectFirst SELECT_DEVICE_ICON_INFO_TABLE (icon_conds i)), icon_args i)"
    if "\<not> (dio_productIds i = [] \<and> dio_imageType i = [] \<and> dio_specName i = [])"
    using that icon_query_text [of i] by (cases "Icon_CreateQuerySqlAndCondition i") auto
  ultimately show ?thesis by (simp add: device_query_text conds_select product_query_text)
qed

end
