(* ===== verification/StaticProfiles.thy ===== *)
theory StaticProfiles
  imports ServiceInfos DynamicProfiles
begin

text \<open>
  The static profiles: \<open>StaticCapabilityLoader\<close> (\<open>staticcapabilityloader/static_capability_loader.cpp\<close>),
  which reads the capabilities of this device and the profiles of each version from two files,
  \<open>StaticCapabilityCollector\<close> (\<open>staticcapabilitycollector\<close>), which stores them, and
  \<open>StaticProfileManager\<close> (\<open>deviceprofilemanager/static_profile_manager.cpp\<close>), which serves the profiles of all
  devices: a device publishes its version and one character per capability, and the profiles are made
  from the file of the reader. Files, the loading of a library and cJSON are arguments.
\<close>

section \<open>Surroundings\<close>

record 'j CJsonText = "'j CJsonDoc" +
  cj_GetObjectItemCaseSensitive :: "'j option \<Rightarrow> string \<Rightarrow> 'j option"
  cj_Print :: "'j \<Rightarrow> string option"

text \<open>\<open>se_file\<close> finds, resolves and reads a configuration file; \<open>se_collector\<close>: whether the library is loaded,
  has the entry point, and what that returns is a pointer that is set.\<close>

record ('j, 'a) StaticEnv =
  se_json :: "'j CJsonText"
  se_file :: "string \<Rightarrow> string option"
  se_collector :: "string \<Rightarrow> bool option option"
  se_localUdid :: string
  se_newStore :: 'a
  se_StoreInit :: "'a \<Rightarrow> dp_ret \<times> 'a"
  se_PostTask :: bool
  se_callerProcName :: string
  se_IsP2p :: "int \<Rightarrow> bool"

text \<open>The string of an item, where the code goes on only if there is one.\<close>

definition json_string :: "'j CJsonText \<Rightarrow> 'j \<Rightarrow> string \<Rightarrow> string option" where
  "json_string J json name =
     (case cj_GetObjectItemCaseSensitive J (Some json) name of
        None \<Rightarrow> None
      | Some item \<Rightarrow> if \<not> cj_IsString J item \<or> \<not> cj_has_valuestring J item then None else Some (cj_valuestring J item))"

abbreviation "STATIC_CAPABILITY_PATH \<equiv> ''etc/deviceprofile/dp_static_capability_cfg.json''"
abbreviation "STATIC_INFO_PATH \<equiv> ''etc/deviceprofile/dp_static_info_cfg.json''"
abbreviation "STATIC_CAPABILITY_ATTRIBUTE \<equiv> ''static_capability''"
abbreviation "STATIC_INFO \<equiv> ''static_info''"
abbreviation "STATIC_CAPABILITY_SVR_ID \<equiv> ''static_cap_svr_id''"
abbreviation "STATIC_CAPABILITY_CHAR_ID \<equiv> ''static_capability''"
abbreviation "STATIC_CAPABILITY_VERSION \<equiv> ''staticCapabilityVersion''"
abbreviation "STATIC_CAPABILITY_VALUE \<equiv> ''staticCapabilityValue''"
abbreviation "DP_VERSION \<equiv> ''DPVersion''"
abbreviation "ABILITIES \<equiv> ''abilities''"
abbreviation "ABILITY_KEY \<equiv> ''abilityKey''"
abbreviation "ABILITY_VALUE \<equiv> ''abilityValue''"
abbreviation "STATIC_CAP_HANDLER_NAME \<equiv> ''service_name''"
abbreviation "STATIC_CAP_HANDLER_LOC \<equiv> ''handler_loc''"
abbreviation "NOT_SUPPORT_STATIC_VAL \<equiv> CHR ''0''"
abbreviation "SUPPORT_STATIC_VAL \<equiv> CHR ''1''"
abbreviation "DEFAULT_STATIC_VAL \<equiv> ''0''"
abbreviation "MAX_STATIC_CAPABILITY_SIZE \<equiv> (100 :: int)"

definition CAPABILITY_FLAG_MAP :: "(string, nat) umap" where
  "CAPABILITY_FLAG_MAP = [(''dmsfwk_svr_id'', 0), (''pasteboardService'', 1), (''distributedfiledaemon'', 2),
     (''distributedIntent'', 3)]"

section \<open>The loader: capabilities\<close>

definition Loader_Init :: dp_ret where "Loader_Init = DP_SUCCESS"
definition Loader_UnInit :: dp_ret where "Loader_UnInit = DP_SUCCESS"

definition LoadJsonFile :: "('j, 'a) StaticEnv \<Rightarrow> string \<Rightarrow> string \<Rightarrow> dp_ret \<times> string" where
  "LoadJsonFile E filePath fileContent =
     (if filePath = [] \<or> length filePath > MAX_STRING_LEN then (DP_INVALID_PARAM, fileContent)
      else case se_file E filePath of
        None \<Rightarrow> (DP_LOAD_JSON_FILE_FAIL, fileContent)
      | Some content \<Rightarrow> (DP_SUCCESS, content))"

definition InitStaticCapability :: "int \<Rightarrow> string" where
  "InitStaticCapability n = concat (replicate (nat n) DEFAULT_STATIC_VAL)"

text \<open>The collector that the entry point returns is only tested for being there.\<close>

definition GetStaticCapabilityValue :: "('j, 'a) StaticEnv \<Rightarrow> string \<Rightarrow> bool" where
  "GetStaticCapabilityValue E handlerLoc =
     (if length handlerLoc = 0 \<or> length handlerLoc > PATH_MAX then False
      else case se_collector E handlerLoc of
        None \<Rightarrow> False
      | Some None \<Rightarrow> False
      | Some (Some isSupportStaticCapability) \<Rightarrow> isSupportStaticCapability)"

definition SetStaticCapabilityFlag :: "('j, 'a) StaticEnv \<Rightarrow> string \<Rightarrow> string \<Rightarrow> string \<Rightarrow> string" where
  "SetStaticCapabilityFlag E handlerName handlerLoc staticCapability =
     (if handlerName = [] \<or> length handlerName > MAX_STRING_LEN then staticCapability
      else if handlerLoc = [] \<or> length handlerLoc > MAX_STRING_LEN then staticCapability
      else case map_of CAPABILITY_FLAG_MAP handlerName of
        None \<Rightarrow> staticCapability
      | Some capabilityFlag \<Rightarrow>
          if capabilityFlag \<ge> length staticCapability then staticCapability
          else staticCapability[capabilityFlag :=
            if GetStaticCapabilityValue E handlerLoc then SUPPORT_STATIC_VAL else NOT_SUPPORT_STATIC_VAL])"

definition SetStaticCapability :: "('j, 'a) StaticEnv \<Rightarrow> 'j option \<Rightarrow> string \<Rightarrow> string" where
  "SetStaticCapability E items staticCapability =
     (let J = se_json E in
      if \<not> cj_IsArray J items then staticCapability
      else fold (\<lambda>item cap.
        if \<not> cj_IsObject J (Some item) then cap
        else case json_string J item STATIC_CAP_HANDLER_NAME of
          None \<Rightarrow> cap
        | Some handlerName \<Rightarrow>
            (case json_string J item STATIC_CAP_HANDLER_LOC of
               None \<Rightarrow> cap
             | Some handlerLoc \<Rightarrow> SetStaticCapabilityFlag E handlerName handlerLoc cap))
        (cj_children J items) staticCapability)"

definition GetStaticCapability :: "('j, 'a) StaticEnv \<Rightarrow> 'j option \<Rightarrow> string \<Rightarrow> dp_ret \<times> string" where
  "GetStaticCapability E json staticCapability =
     (let J = se_json E in
      if \<not> cj_IsObject J json then (DP_INVALID_PARAM, staticCapability)
      else let staticCapabilities = cj_GetObjectItem J json STATIC_CAPABILITY_ATTRIBUTE in
        if \<not> cj_IsArray J staticCapabilities then (DP_PARSE_STATIC_CAP_FAIL, staticCapability)
        else let capabilityNum = cj_GetArraySize J staticCapabilities in
          if capabilityNum = 0 \<or> capabilityNum > MAX_STATIC_CAPABILITY_SIZE then (DP_PARSE_STATIC_CAP_FAIL, staticCapability)
          else (DP_SUCCESS, SetStaticCapability E staticCapabilities (InitStaticCapability capabilityNum)))"

definition LoadStaticCapability :: "('j, 'a) StaticEnv \<Rightarrow> string \<Rightarrow> dp_ret \<times> string" where
  "LoadStaticCapability E staticCapability =
     (let (loadJsonResult, fileContent) = LoadJsonFile E STATIC_CAPABILITY_PATH [] in
      if loadJsonResult \<noteq> DP_SUCCESS then (loadJsonResult, staticCapability)
      else let json = cj_Parse (se_json E) (c_str fileContent) in
        if \<not> cj_IsObject (se_json E) json then (DP_LOAD_STATIC_CAP_FAIL, staticCapability)
        else let (getCapResult, staticCapability) = GetStaticCapability E json staticCapability in
          if getCapResult \<noteq> DP_SUCCESS then (getCapResult, staticCapability) else (DP_SUCCESS, staticCapability))"

definition HasStaticCapability :: "string \<Rightarrow> string \<Rightarrow> bool" where
  "HasStaticCapability serviceId staticCapability =
     (case map_of CAPABILITY_FLAG_MAP serviceId of
        None \<Rightarrow> False
      | Some capabilityFlag \<Rightarrow>
          if capabilityFlag \<ge> length staticCapability then False
          else staticCapability ! capabilityFlag = SUPPORT_STATIC_VAL)"

section \<open>The loader: versions and profiles\<close>

text \<open>The rule of versions, \<open>^(\d+\.){3}\d+$\<close>: four numbers with points between them.\<close>

definition IsValidVersion :: "string \<Rightarrow> bool" where
  "IsValidVersion version =
     (let parts = split_on CHR ''.'' version in length parts = 4 \<and> list_all (\<lambda>p. p \<noteq> [] \<and> list_all is_digit p) parts)"

definition StaticVersionCheck :: "string \<Rightarrow> string \<Rightarrow> bool" where
  "StaticVersionCheck peerVersion localVersion =
     (if peerVersion = localVersion then True
      else if \<not> IsValidVersion peerVersion \<or> \<not> IsValidVersion localVersion then False
      else True)"

text \<open>The list of versions in the file, where its size is allowed.\<close>

definition static_infos :: "'j CJsonText \<Rightarrow> 'j option \<Rightarrow> 'j list option" where
  "static_infos J staticInfoJson =
     (if \<not> cj_IsObject J staticInfoJson then None
      else let staticInfos = cj_GetObjectItem J staticInfoJson STATIC_INFO in
        if \<not> cj_IsArray J staticInfos then None
        else let staticInfoNum = cj_GetArraySize J staticInfos in
          if staticInfoNum = 0 \<or> staticInfoNum > MAX_STATIC_CAPABILITY_SIZE then None
          else Some (cj_children J staticInfos))"

definition GetLatestStaticInfoJson :: "'j CJsonText \<Rightarrow> 'j option \<Rightarrow> 'j option" where
  "GetLatestStaticInfoJson J staticInfoJson =
     (case static_infos J staticInfoJson of
        None \<Rightarrow> None
      | Some staticInfos \<Rightarrow>
          let n = nat (cj_GetArraySize J (cj_GetObjectItem J staticInfoJson STATIC_INFO) - 1) in
          if n < length staticInfos then Some (staticInfos ! n) else None)"

definition GetStaticInfoJsonByVersion :: "'j CJsonText \<Rightarrow> 'j option \<Rightarrow> string \<Rightarrow> 'j option" where
  "GetStaticInfoJsonByVersion J staticInfoJson staticVersion =
     (if \<not> cj_IsObject J staticInfoJson then None
      else if staticVersion = [] \<or> length staticVersion > MAX_STRING_LEN then None
      else case static_infos J staticInfoJson of
        None \<Rightarrow> None
      | Some staticInfos \<Rightarrow>
          find (\<lambda>item. cj_IsObject J (Some item) \<and>
            (case json_string J item DP_VERSION of None \<Rightarrow> False | Some version \<Rightarrow> StaticVersionCheck staticVersion version))
          staticInfos)"

definition GetStaticVersion :: "'j CJsonText \<Rightarrow> 'j option \<Rightarrow> string \<Rightarrow> dp_ret \<times> string" where
  "GetStaticVersion J lastStaticInfo staticVersion =
     (if \<not> cj_IsObject J lastStaticInfo then (DP_GET_STATIC_INFO_FAIL, staticVersion)
      else case (case lastStaticInfo of None \<Rightarrow> None | Some info \<Rightarrow> json_string J info DP_VERSION) of
        None \<Rightarrow> (DP_GET_STATIC_INFO_FAIL, staticVersion)
      | Some version \<Rightarrow> (DP_SUCCESS, version))"

text \<open>One ability of the list: the service it is for and the text of its value.\<close>

definition ability :: "'j CJsonText \<Rightarrow> string \<Rightarrow> 'j \<Rightarrow> (string \<times> string) option" where
  "ability J staticCapability abilityItem =
     (if \<not> cj_IsObject J (Some abilityItem) then None
      else case json_string J abilityItem ABILITY_KEY of
        None \<Rightarrow> None
      | Some serviceId \<Rightarrow>
          (case cj_GetObjectItemCaseSensitive J (Some abilityItem) ABILITY_VALUE of
             None \<Rightarrow> None
           | Some abilityValueItem \<Rightarrow>
               if \<not> cj_IsObject J (Some abilityValueItem) then None
               else if \<not> HasStaticCapability serviceId staticCapability then None
               else (case cj_Print J abilityValueItem of None \<Rightarrow> None | Some charValue \<Rightarrow> Some (serviceId, charValue))))"

definition GenerateStaticProfiles :: "'j CJsonText \<Rightarrow> string \<Rightarrow> string \<Rightarrow> 'j option \<Rightarrow>
    (string, CharacteristicProfile) umap \<Rightarrow> dp_ret \<times> (string, CharacteristicProfile) umap" where
  "GenerateStaticProfiles J deviceId staticCapability staticInfoJson charProfiles =
     (if deviceId = [] \<or> length deviceId > MAX_STRING_LEN then (DP_INVALID_PARAM, charProfiles)
      else if \<not> cj_IsObject J staticInfoJson then (DP_GET_STATIC_INFO_FAIL, charProfiles)
      else let abilitiesJson = cj_GetObjectItemCaseSensitive J staticInfoJson ABILITIES in
        if \<not> cj_IsArray J abilitiesJson then (DP_GET_STATIC_INFO_FAIL, charProfiles)
        else (DP_SUCCESS, fold (\<lambda>abilityItem charProfiles.
          case ability J staticCapability abilityItem of
            None \<Rightarrow> charProfiles
          | Some (serviceId, charValue) \<Rightarrow>
              AList.update (GenerateCharProfileKey deviceId serviceId STATIC_CHARACTERISTIC_KEY)
                (CharacteristicProfile_make deviceId serviceId STATIC_CHARACTERISTIC_KEY charValue) charProfiles)
          (cj_children J abilitiesJson) charProfiles))"

definition GetStaticInfo :: "('j, 'a) StaticEnv \<Rightarrow> 'j option \<Rightarrow> string \<Rightarrow> string \<Rightarrow> (string, CharacteristicProfile) umap \<Rightarrow>
    dp_ret \<times> string \<times> (string, CharacteristicProfile) umap" where
  "GetStaticInfo E staticInfoJson staticCapability staticVersion charProfiles =
     (let J = se_json E in
      if \<not> cj_IsObject J staticInfoJson then (DP_INVALID_PARAM, staticVersion, charProfiles)
      else case GetLatestStaticInfoJson J staticInfoJson of
        None \<Rightarrow> (DP_GET_STATIC_INFO_FAIL, staticVersion, charProfiles)
      | Some lastStaticInfoJson \<Rightarrow>
          let staticVersion = snd (GetStaticVersion J (Some lastStaticInfoJson) staticVersion);
              charProfiles = snd (GenerateStaticProfiles J (se_localUdid E) staticCapability (Some lastStaticInfoJson) charProfiles)
          in (DP_SUCCESS, staticVersion, charProfiles))"

definition GetStaticInfoByVersion :: "('j, 'a) StaticEnv \<Rightarrow> string \<Rightarrow> string \<Rightarrow> 'j option \<Rightarrow> string \<Rightarrow>
    (string, CharacteristicProfile) umap \<Rightarrow> dp_ret \<times> (string, CharacteristicProfile) umap" where
  "GetStaticInfoByVersion E deviceId staticCapability staticInfoJson staticVersion charProfiles =
     (let J = se_json E in
      if deviceId = [] \<or> length deviceId > MAX_STRING_LEN then (DP_INVALID_PARAM, charProfiles)
      else if \<not> cj_IsObject J staticInfoJson then (DP_INVALID_PARAM, charProfiles)
      else if staticVersion = [] \<or> length staticVersion > MAX_STRING_LEN then (DP_INVALID_PARAM, charProfiles)
      else case GetStaticInfoJsonByVersion J staticInfoJson staticVersion of
        None \<Rightarrow> (DP_GET_STATIC_INFO_FAIL, charProfiles)
      | Some json \<Rightarrow> (DP_SUCCESS, snd (GenerateStaticProfiles J deviceId staticCapability (Some json) charProfiles)))"

definition LoadStaticInfo :: "('j, 'a) StaticEnv \<Rightarrow> string \<Rightarrow> string \<Rightarrow> (string, CharacteristicProfile) umap \<Rightarrow>
    dp_ret \<times> string \<times> (string, CharacteristicProfile) umap" where
  "LoadStaticInfo E staticCapability staticVersion charProfiles =
     (if staticCapability = [] \<or> length staticCapability > MAX_STRING_LEN then (DP_INVALID_PARAM, staticVersion, charProfiles)
      else let (loadJsonResult, fileContent) = LoadJsonFile E STATIC_INFO_PATH [] in
        if loadJsonResult \<noteq> DP_SUCCESS then (loadJsonResult, staticVersion, charProfiles)
        else let staticInfoJson = cj_Parse (se_json E) (c_str fileContent) in
          if \<not> cj_IsObject (se_json E) staticInfoJson then (DP_PARSE_STATIC_INFO_FAIL, staticVersion, charProfiles)
          else let (getInfoResult, staticVersion, charProfiles) =
                     GetStaticInfo E staticInfoJson staticCapability staticVersion charProfiles in
            if getInfoResult \<noteq> DP_SUCCESS then (getInfoResult, staticVersion, charProfiles)
            else (DP_SUCCESS, staticVersion, charProfiles))"

definition LoadStaticProfiles :: "('j, 'a) StaticEnv \<Rightarrow> string \<Rightarrow> string \<Rightarrow> string \<Rightarrow> (string, CharacteristicProfile) umap \<Rightarrow>
    dp_ret \<times> (string, CharacteristicProfile) umap" where
  "LoadStaticProfiles E deviceId staticCapability staticVersion charProfiles =
     (if deviceId = [] \<or> length deviceId > MAX_STRING_LEN then (DP_INVALID_PARAM, charProfiles)
      else if staticCapability = [] \<or> length staticCapability > MAX_STRING_LEN then (DP_INVALID_PARAM, charProfiles)
      else if staticVersion = [] \<or> length staticVersion > MAX_STRING_LEN then (DP_INVALID_PARAM, charProfiles)
      else let (loadJsonResult, fileContent) = LoadJsonFile E STATIC_INFO_PATH [] in
        if loadJsonResult \<noteq> DP_SUCCESS then (loadJsonResult, charProfiles)
        else let staticInfoJson = cj_Parse (se_json E) (c_str fileContent) in
          if \<not> cj_IsObject (se_json E) staticInfoJson then (DP_PARSE_STATIC_INFO_FAIL, charProfiles)
          else let (getInfoResult, charProfiles) =
                     GetStaticInfoByVersion E deviceId staticCapability staticInfoJson staticVersion charProfiles in
            if getInfoResult \<noteq> DP_SUCCESS then (getInfoResult, charProfiles) else (DP_SUCCESS, charProfiles))"

section \<open>The manager\<close>

text \<open>The store of the manager stands beside the cache all managers share; the calls to the death recipient
  of a listener are a log.\<close>

record ('a, 'w) StaticProfileManager =
  sm_stores :: "('a, 'w) Stores"
  sm_syncListenerMap :: "(string, nat option) omap"
  sm_deathCalls :: "(nat \<times> bool) list"

definition sm_set_store :: "'a option \<Rightarrow> ('a, 'w) StaticProfileManager \<Rightarrow> ('a, 'w) StaticProfileManager" where
  "sm_set_store a m = m\<lparr>sm_stores := (sm_stores m)\<lparr>st_kv := a\<rparr>\<rparr>"

definition Static_Init :: "('j, 'a) StaticEnv \<Rightarrow> ('a, 'w) StaticProfileManager \<Rightarrow> dp_ret \<times> ('a, 'w) StaticProfileManager" where
  "Static_Init E m = (let (initResult, a) = se_StoreInit E (se_newStore E) in (initResult, sm_set_store (Some a) m))"

definition Static_UnInit :: "('a, 'w) StaticProfileManager \<Rightarrow> dp_ret \<times> ('a, 'w) StaticProfileManager" where
  "Static_UnInit m = (if st_kv (sm_stores m) = None then (DP_NULLPTR, m) else (DP_SUCCESS, sm_set_store None m))"

definition Static_ReInit :: "('j, 'a) StaticEnv \<Rightarrow> ('a, 'w) StaticProfileManager \<Rightarrow> dp_ret \<times> ('a, 'w) StaticProfileManager" where
  "Static_ReInit E m = Static_Init E (snd (Static_UnInit m))"

definition Static_PutCharacteristicProfile :: "('j, 'a) StaticEnv \<Rightarrow> 'a IKVAdapter \<Rightarrow> CharacteristicProfile \<Rightarrow>
    ('a, 'w) StaticProfileManager \<Rightarrow> dp_ret \<times> ('a, 'w) StaticProfileManager" where
  "Static_PutCharacteristicProfile E ik p m =
     (let (putResult, st) = Ctl_PutCharacteristicProfile ik (se_localUdid E) p (sm_stores m)
      in (putResult, m\<lparr>sm_stores := st\<rparr>))"

definition GenerateStaticInfoProfile :: "('j, 'a) StaticEnv \<Rightarrow> CharacteristicProfile \<Rightarrow> (string, CharacteristicProfile) umap \<Rightarrow>
    dp_ret \<times> (string, CharacteristicProfile) umap" where
  "GenerateStaticInfoProfile E p staticInfoProfiles =
     (let J = se_json E; charValueJson = cj_Parse J (c_str (cp_characteristicValue p)) in
      case charValueJson of
        None \<Rightarrow> (DP_PARSE_STATIC_CAP_FAIL, staticInfoProfiles)
      | Some json \<Rightarrow>
          if \<not> cj_IsObject J charValueJson then (DP_PARSE_STATIC_CAP_FAIL, staticInfoProfiles)
          else case json_string J json STATIC_CAPABILITY_VERSION of
            None \<Rightarrow> (DP_PARSE_STATIC_CAP_FAIL, staticInfoProfiles)
          | Some staticCapabilityVersion \<Rightarrow>
              (case json_string J json STATIC_CAPABILITY_VALUE of
                 None \<Rightarrow> (DP_PARSE_STATIC_CAP_FAIL, staticInfoProfiles)
               | Some staticCapabilityValue \<Rightarrow>
                   (DP_SUCCESS, snd (LoadStaticProfiles E (cp_deviceId p) staticCapabilityValue staticCapabilityVersion
                      staticInfoProfiles))))"

definition Static_GetCharacteristicProfile :: "('j, 'a) StaticEnv \<Rightarrow> 'a IKVAdapter \<Rightarrow> string \<Rightarrow> string \<Rightarrow> string \<Rightarrow>
    CharacteristicProfile \<Rightarrow> ('a, 'w) StaticProfileManager \<Rightarrow> (dp_ret \<times> CharacteristicProfile) \<times> ('a, 'w) StaticProfileManager" where
  "Static_GetCharacteristicProfile E ik deviceId serviceName characteristicKey charProfile m =
     (if \<not> IsKeyValid deviceId \<or> \<not> IsKeyValid serviceName \<or> \<not> IsKeyValid characteristicKey
      then ((DP_INVALID_PARAMS, charProfile), m)
      else let (ret, p) = Cache_GetStaticCharacteristicProfile deviceId serviceName characteristicKey charProfile
                 (st_cache (sm_stores m)) in
        if ret = DP_SUCCESS then ((DP_SUCCESS, p), m)
        else let (getResult, staticCapabilityProfile) = Ctl_GetCharacteristicProfile ik deviceId
                   STATIC_CAPABILITY_SVR_ID STATIC_CAPABILITY_CHAR_ID CharacteristicProfile_default (sm_stores m) in
          if getResult \<noteq> DP_SUCCESS then ((getResult, charProfile), m)
          else let (generateProfileResult, staticInfoProfiles) = GenerateStaticInfoProfile E staticCapabilityProfile [] in
            if generateProfileResult \<noteq> DP_SUCCESS then ((generateProfileResult, charProfile), m)
            else case map_of staticInfoProfiles (GenerateCharProfileKey deviceId serviceName characteristicKey) of
              None \<Rightarrow> ((DP_NOT_FOUND_FAIL, charProfile), m)
            | Some p \<Rightarrow>
                let st = sm_stores m; c = snd (Cache_AddStaticCharProfileBatch staticInfoProfiles (st_cache st))
                in ((DP_SUCCESS, p), m\<lparr>sm_stores := st\<lparr>st_cache := c\<rparr>\<rparr>))"

definition Static_GetAllCharacteristicProfile :: "'a IKVAdapter \<Rightarrow> CharacteristicProfile list \<Rightarrow>
    ('a, 'w) StaticProfileManager \<Rightarrow> dp_ret \<times> CharacteristicProfile list" where
  "Static_GetAllCharacteristicProfile ik ps m =
     (let (getAllResult, ps) = Ctl_GetAllCharacteristicProfile ik ps (sm_stores m) in
      if getAllResult \<noteq> DP_SUCCESS then (getAllResult, ps) else (DP_SUCCESS, ps))"

text \<open>The task of \<open>E2ESyncStaticProfile\<close> runs at once where the handler takes it.\<close>

definition E2ESyncStaticProfile :: "('j, 'a) StaticEnv \<Rightarrow> 'a IKVAdapter \<Rightarrow> TrustedDeviceInfo \<Rightarrow>
    ('a, 'w) StaticProfileManager \<Rightarrow> ('a, 'w) StaticProfileManager" where
  "E2ESyncStaticProfile E ik deviceInfo m =
     (if \<not> se_PostTask E then m
      else if td_networkId deviceInfo = [] then m
      else if td_osType deviceInfo \<noteq> OHOS_TYPE then m
      else case st_kv (sm_stores m) of
        None \<Rightarrow> m
      | Some a \<Rightarrow> sm_set_store (Some (snd (ik_Sync ik [td_networkId deviceInfo] PUSH_PULL_mode a))) m)"

definition Static_AddSyncListener :: "string \<Rightarrow> nat option \<Rightarrow> ('a, 'w) StaticProfileManager \<Rightarrow>
    dp_ret \<times> ('a, 'w) StaticProfileManager" where
  "Static_AddSyncListener caller syncListener m =
     (case syncListener of
        None \<Rightarrow> (DP_INVALID_PARAMS, m)
      | Some l \<Rightarrow>
          if caller = [] \<or> length caller > MAX_STRING_LEN then (DP_INVALID_PARAMS, m)
          else if length (sm_syncListenerMap m) > MAX_LISTENER_SIZE then (DP_EXCEED_MAX_SIZE_FAIL, m)
          else (DP_SUCCESS, m\<lparr>sm_deathCalls := sm_deathCalls m @ [(l, True)],
                 sm_syncListenerMap := omap_put caller syncListener (sm_syncListenerMap m)\<rparr>))"

definition SyncStaticProfile :: "('j, 'a) StaticEnv \<Rightarrow> 'a IKVAdapter \<Rightarrow> DpSyncOptions \<Rightarrow> nat option \<Rightarrow>
    ('a, 'w) StaticProfileManager \<Rightarrow> dp_ret \<times> ('a, 'w) StaticProfileManager" where
  "SyncStaticProfile E ik syncOptions syncCompletedCallback m =
     (if syncCompletedCallback = None then (DP_INVALID_PARAMS, m)
      else let (_, ohBasedDevices, _) = Cache_FilterAndGroupOnlineDevices (se_IsP2p E) (so_syncDeviceIds syncOptions) [] []
                 (st_cache (sm_stores m)) in
        if ohBasedDevices = [] then (DP_INVALID_PARAMS, m)
        else let (addRet, m) = Static_AddSyncListener (se_callerProcName E) syncCompletedCallback m in
          if addRet \<noteq> DP_SUCCESS then (addRet, m)
          else case st_kv (sm_stores m) of
            None \<Rightarrow> (DP_NULLPTR, m)
          | Some a \<Rightarrow>
              let (syncResult, a) = ik_Sync ik ohBasedDevices (so_syncMode syncOptions) a; m = sm_set_store (Some a) m in
              if syncResult \<noteq> DP_SUCCESS then (DP_SYNC_DEVICE_FAIL, m) else (DP_SUCCESS, m))"

definition Static_GetSyncListeners :: "(string, nat option) omap \<Rightarrow> ('a, 'w) StaticProfileManager \<Rightarrow> (string, nat option) omap" where
  "Static_GetSyncListeners syncListeners m = fold (\<lambda>(k, l). omap_put k l) (sm_syncListenerMap m) syncListeners"

definition Static_RemoveSyncListeners :: "(string, nat option) omap \<Rightarrow> ('a, 'w) StaticProfileManager \<Rightarrow>
    ('a, 'w) StaticProfileManager" where
  "Static_RemoveSyncListeners syncListeners m =
     (let (gone, rest) = partition (\<lambda>e. fst e \<in> fst ` set syncListeners) (sm_syncListenerMap m)
      in m\<lparr>sm_deathCalls := sm_deathCalls m @ remove_calls gone, sm_syncListenerMap := rest\<rparr>)"

section \<open>The collector\<close>

definition AddStaticInfoToCache :: "(string, CharacteristicProfile) umap \<Rightarrow> ProfileCache \<Rightarrow> dp_ret \<times> ProfileCache" where
  "AddStaticInfoToCache staticProfileMap c =
     (DP_SUCCESS, fold (\<lambda>(_, p) c. snd (Cache_AddStaticCharProfile p c)) staticProfileMap c)"

definition AddStaticCapabilityToDB :: "('j, 'a) StaticEnv \<Rightarrow> 'a IKVAdapter \<Rightarrow> string \<Rightarrow> string \<Rightarrow>
    ('a, 'w) StaticProfileManager \<Rightarrow> dp_ret \<times> ('a, 'w) StaticProfileManager" where
  "AddStaticCapabilityToDB E ik staticVersion staticCapability m =
     (let J = se_json E in
      if staticVersion = [] \<or> length staticVersion \<ge> MAX_STRING_LEN then (DP_INVALID_PARAM, m)
      else if staticCapability = [] \<or> length staticCapability \<ge> MAX_STRING_LEN then (DP_INVALID_PARAM, m)
      else case cj_CreateObject J of
        None \<Rightarrow> (DP_STATIC_COLLECT_FAIL, m)
      | Some json \<Rightarrow>
          if \<not> cj_IsObject J (Some json) then (DP_STATIC_COLLECT_FAIL, m)
          else let json = cj_AddStringToObject J json STATIC_CAPABILITY_VERSION (c_str staticVersion);
                   json = cj_AddStringToObject J json STATIC_CAPABILITY_VALUE (c_str staticCapability) in
            case cj_Print J json of
              None \<Rightarrow> (DP_STATIC_COLLECT_FAIL, m)
            | Some characteristicValue \<Rightarrow>
                (DP_SUCCESS, snd (Static_PutCharacteristicProfile E ik (CharacteristicProfile_make (se_localUdid E)
                   STATIC_CAPABILITY_SVR_ID STATIC_CAPABILITY_CHAR_ID characteristicValue) m)))"

definition CollectStaticCapability :: "('j, 'a) StaticEnv \<Rightarrow> 'a IKVAdapter \<Rightarrow> ('a, 'w) StaticProfileManager \<Rightarrow>
    dp_ret \<times> ('a, 'w) StaticProfileManager" where
  "CollectStaticCapability E ik m =
     (let (ret, staticCapability) = LoadStaticCapability E [] in
      if ret \<noteq> DP_SUCCESS \<or> staticCapability = [] then (DP_STATIC_COLLECT_FAIL, m)
      else let (_, staticVersion, staticProfileMap) = LoadStaticInfo E staticCapability [] [] in
        if staticVersion = [] \<or> staticProfileMap = [] then (DP_STATIC_COLLECT_FAIL, m)
        else let st = sm_stores m;
                 m = m\<lparr>sm_stores := st\<lparr>st_cache := snd (AddStaticInfoToCache staticProfileMap (st_cache st))\<rparr>\<rparr>;
                 m = snd (AddStaticCapabilityToDB E ik staticVersion staticCapability m)
             in (DP_SUCCESS, m))"

definition Collector_Init :: "('j, 'a) StaticEnv \<Rightarrow> 'a IKVAdapter \<Rightarrow> ('a, 'w) StaticProfileManager \<Rightarrow>
    dp_ret \<times> ('a, 'w) StaticProfileManager" where
  "Collector_Init E ik m = (DP_SUCCESS, snd (CollectStaticCapability E ik m))"

definition Collector_UnInit :: dp_ret where "Collector_UnInit = DP_SUCCESS"

end
