(* ===== verification/StaticLaws.thy ===== *)
theory StaticLaws
  imports StaticProfiles
begin

text \<open>
  The theorems on static profiles: which character of the capabilities a device publishes says what, and
  which profile a reader gets, over any files, libraries and JSON functions.
\<close>

section \<open>Capabilities\<close>

text \<open>The handlers a list names, in its order, and those with a name and a place of an allowed length.\<close>

definition handler :: "'j CJsonText \<Rightarrow> 'j \<Rightarrow> (string \<times> string) option" where
  "handler J item =
     (if cj_IsObject J (Some item)
      then (case (json_string J item STATIC_CAP_HANDLER_NAME, json_string J item STATIC_CAP_HANDLER_LOC) of
        (Some name, Some loc) \<Rightarrow> Some (name, loc) | _ \<Rightarrow> None)
      else None)"

definition valid_handler :: "string \<times> string \<Rightarrow> bool" where
  "valid_handler h \<longleftrightarrow> fst h \<noteq> [] \<and> length (fst h) \<le> MAX_STRING_LEN \<and> snd h \<noteq> [] \<and> length (snd h) \<le> MAX_STRING_LEN"

definition handlers :: "'j CJsonText \<Rightarrow> 'j list \<Rightarrow> (string \<times> string) list" where
  "handlers J items = filter valid_handler (List.map_filter (handler J) items)"

definition last_of :: "string \<Rightarrow> (string \<times> 'b) list \<Rightarrow> 'b option" where
  "last_of s xs = map_of (rev xs) s"

lemma last_of_simps [simp]:
  "last_of s [] = None" "last_of s (xs @ [(t, x)]) = (if s = t then Some x else last_of s xs)"
  by (simp_all add: last_of_def)

lemma set_capability_fold:
  "SetStaticCapability E items cap = (if cj_IsArray (se_json E) items
     then fold (\<lambda>(n, l). SetStaticCapabilityFlag E n l) (handlers (se_json E) (cj_children (se_json E) items)) cap else cap)"
proof -
  have "fold (\<lambda>item cap.
        if \<not> cj_IsObject (se_json E) (Some item) then cap
        else case json_string (se_json E) item STATIC_CAP_HANDLER_NAME of
          None \<Rightarrow> cap
        | Some handlerName \<Rightarrow>
            (case json_string (se_json E) item STATIC_CAP_HANDLER_LOC of
               None \<Rightarrow> cap
             | Some handlerLoc \<Rightarrow> SetStaticCapabilityFlag E handlerName handlerLoc cap)) items cap =
      fold (\<lambda>(n, l). SetStaticCapabilityFlag E n l) (handlers (se_json E) items) cap" for items cap
    by (induction items arbitrary: cap)
      (auto simp: handlers_def List.map_filter_simps handler_def valid_handler_def SetStaticCapabilityFlag_def split: option.splits)
  then show ?thesis by (simp add: SetStaticCapability_def Let_def)
qed

lemma flags_inject:
  "map_of CAPABILITY_FLAG_MAP s = Some f \<Longrightarrow> map_of CAPABILITY_FLAG_MAP t = Some f \<Longrightarrow> s = t"
  by (auto simp: CAPABILITY_FLAG_MAP_def split: if_splits)

lemma set_flags:
  assumes "\<forall>h\<in>set hs. valid_handler h"
  shows "let cap = fold (\<lambda>(n, l). SetStaticCapabilityFlag E n l) hs (replicate k NOT_SUPPORT_STATIC_VAL) in
    length cap = k \<and> set cap \<subseteq> {NOT_SUPPORT_STATIC_VAL, SUPPORT_STATIC_VAL} \<and>
    (\<forall>s f. map_of CAPABILITY_FLAG_MAP s = Some f \<longrightarrow> f < k \<longrightarrow>
      (cap ! f = SUPPORT_STATIC_VAL) = (case last_of s hs of None \<Rightarrow> False | Some l \<Rightarrow> GetStaticCapabilityValue E l))"
  using assms
proof (induction hs rule: rev_induct)
  case Nil
  then show ?case by auto
next
  case (snoc h hs)
  obtain n l where h: "h = (n, l)" by fastforce
  define cap where "cap = fold (\<lambda>(n, l). SetStaticCapabilityFlag E n l) hs (replicate k NOT_SUPPORT_STATIC_VAL)"
  from snoc have IH: "length cap = k" "set cap \<subseteq> {NOT_SUPPORT_STATIC_VAL, SUPPORT_STATIC_VAL}"
    "\<And>s f. map_of CAPABILITY_FLAG_MAP s = Some f \<Longrightarrow> f < k \<Longrightarrow>
      (cap ! f = SUPPORT_STATIC_VAL) = (case last_of s hs of None \<Rightarrow> False | Some l \<Rightarrow> GetStaticCapabilityValue E l)"
    by (simp_all add: cap_def Let_def)
  let ?v = "if GetStaticCapabilityValue E l then SUPPORT_STATIC_VAL else NOT_SUPPORT_STATIC_VAL"
  have set: "SetStaticCapabilityFlag E n l cap = (case map_of CAPABILITY_FLAG_MAP n of None \<Rightarrow> cap | Some f \<Rightarrow> cap[f := ?v])"
    using snoc.prems h by (auto simp: SetStaticCapabilityFlag_def valid_handler_def list_update_beyond split: option.splits)
  have sub: "set (cap[f := ?v]) \<subseteq> {NOT_SUPPORT_STATIC_VAL, SUPPORT_STATIC_VAL}" for f
    using IH(2) set_update_subset_insert [of cap f ?v] by auto
  have flag: "(SetStaticCapabilityFlag E n l cap ! f = SUPPORT_STATIC_VAL) =
      (case last_of s (hs @ [(n, l)]) of None \<Rightarrow> False | Some l \<Rightarrow> GetStaticCapabilityValue E l)"
    if "map_of CAPABILITY_FLAG_MAP s = Some f" "f < k" for s f
  proof (cases "s = n")
    case True
    with that IH(1) show ?thesis by (simp add: set)
  next
    case False
    with that(1) have "map_of CAPABILITY_FLAG_MAP n \<noteq> Some f" by (auto dest: flags_inject)
    then have "SetStaticCapabilityFlag E n l cap ! f = cap ! f" by (auto simp: set split: option.splits)
    with False IH(3) [OF that] show ?thesis by simp
  qed
  have "length (SetStaticCapabilityFlag E n l cap) = k" using IH(1) by (simp add: set split: option.splits)
  moreover have "set (SetStaticCapabilityFlag E n l cap) \<subseteq> {NOT_SUPPORT_STATIC_VAL, SUPPORT_STATIC_VAL}"
    unfolding set using IH(2) by (cases "map_of CAPABILITY_FLAG_MAP n") (simp_all only: option.case sub)
  ultimately show ?case using flag by (simp add: h cap_def Let_def)
qed

text \<open>C37: The capabilities a device publishes say what its list of handlers says. When the list is read,
  there is one character per entry, at least one and at most 100, each \<open>0\<close> or \<open>1\<close>; a service has a capability
  exactly when it is one of the known services, its place is within the length, and the library of the last valid entry that
  names it is loaded and gives a collector. When it is not read the caller keeps its value.\<close>

theorem static_capability_flags:
  assumes "GetStaticCapability E json cap = (r, cap')"
  shows "(r \<noteq> DP_SUCCESS \<longrightarrow> cap' = cap) \<and>
    (r = DP_SUCCESS \<longrightarrow>
      (let items = cj_GetObjectItem (se_json E) json STATIC_CAPABILITY_ATTRIBUTE;
           hs = handlers (se_json E) (cj_children (se_json E) items); n = cj_GetArraySize (se_json E) items in
        length cap' = nat n \<and> n \<le> MAX_STATIC_CAPABILITY_SIZE \<and> n \<noteq> 0 \<and>
        set cap' \<subseteq> {NOT_SUPPORT_STATIC_VAL, SUPPORT_STATIC_VAL} \<and>
        (\<forall>s. HasStaticCapability s cap' \<longleftrightarrow>
          (\<exists>f. map_of CAPABILITY_FLAG_MAP s = Some f \<and> f < length cap') \<and>
          (\<exists>l. last_of s hs = Some l \<and> GetStaticCapabilityValue E l))))"
proof -
  let ?items = "cj_GetObjectItem (se_json E) json STATIC_CAPABILITY_ATTRIBUTE"
  let ?hs = "handlers (se_json E) (cj_children (se_json E) ?items)" and ?n = "cj_GetArraySize (se_json E) ?items"
  have "\<forall>h\<in>set ?hs. valid_handler h" by (simp add: handlers_def)
  note flags = set_flags [OF this, of E "nat ?n", unfolded Let_def]
  have init: "InitStaticCapability ?n = replicate (nat ?n) NOT_SUPPORT_STATIC_VAL"
    unfolding InitStaticCapability_def by (induction "nat ?n") simp_all
  show ?thesis
  proof (cases "r = DP_SUCCESS")
    case False
    with assms show ?thesis by (auto simp: GetStaticCapability_def Let_def split: if_splits)
  next
    case True
    with assms have size: "?n \<noteq> 0" "?n \<le> MAX_STATIC_CAPABILITY_SIZE"
      and cap': "cap' = fold (\<lambda>(n, l). SetStaticCapabilityFlag E n l) ?hs (replicate (nat ?n) NOT_SUPPORT_STATIC_VAL)"
      by (auto simp: GetStaticCapability_def Let_def set_capability_fold init split: if_splits)
    from flags have "length cap' = nat ?n" "set cap' \<subseteq> {NOT_SUPPORT_STATIC_VAL, SUPPORT_STATIC_VAL}"
      and flag: "map_of CAPABILITY_FLAG_MAP s = Some f \<Longrightarrow> f < nat ?n \<Longrightarrow>
        (cap' ! f = SUPPORT_STATIC_VAL) = (case last_of s ?hs of None \<Rightarrow> False | Some l \<Rightarrow> GetStaticCapabilityValue E l)" for s f
      unfolding cap' by blast+
    with size True show ?thesis
      by (auto simp: Let_def HasStaticCapability_def not_le split: option.splits)
  qed
qed

datatype demo_json = JS string | JA "demo_json list" | JO "(string \<times> demo_json) list"

definition demo_get :: "demo_json option \<Rightarrow> string \<Rightarrow> demo_json option" where
  "demo_get j k = (case j of Some (JO l) \<Rightarrow> map_of l k | _ \<Rightarrow> None)"

definition demo_children :: "demo_json option \<Rightarrow> demo_json list" where
  "demo_children j = (case j of Some (JA l) \<Rightarrow> l | Some (JO l) \<Rightarrow> map snd l | _ \<Rightarrow> [])"

definition demo_document :: demo_json where
  "demo_document = JO [(STATIC_CAPABILITY_ATTRIBUTE, JA
     [JO [(STATIC_CAP_HANDLER_NAME, JS ''pasteboardService''), (STATIC_CAP_HANDLER_LOC, JS ''lib.so'')],
      JO [(STATIC_CAP_HANDLER_NAME, JS ''dmsfwk_svr_id''), (STATIC_CAP_HANDLER_LOC, JS ''none.so'')]])]"

definition demo_cjson_text :: "demo_json CJsonText" where
  "demo_cjson_text =
     \<lparr>cj_Parse = (\<lambda>_. Some demo_document), cj_IsObject = (\<lambda>j. case j of Some (JO _) \<Rightarrow> True | _ \<Rightarrow> False),
      cj_GetArraySize = (\<lambda>j. int (length (demo_children j))), cj_GetObjectItem = demo_get,
      cj_IsArray = (\<lambda>j. case j of Some (JA _) \<Rightarrow> True | _ \<Rightarrow> False), cj_children = demo_children,
      cj_IsString = (\<lambda>j. case j of JS _ \<Rightarrow> True | _ \<Rightarrow> False), cj_valuestring = (\<lambda>j. case j of JS s \<Rightarrow> s | _ \<Rightarrow> []),
      cj_CreateObject = Some (JO []),
      cj_AddStringToObject = (\<lambda>j k s. case j of JO l \<Rightarrow> JO (l @ [(k, JS s)]) | _ \<Rightarrow> j),
      cj_AddNumberToObject = (\<lambda>j _ _. j), cj_PrintUnformatted = (\<lambda>_. None),
      cj_has_valuestring = (\<lambda>j. case j of JS _ \<Rightarrow> True | _ \<Rightarrow> False), cj_IsNumber = (\<lambda>_. False), cj_valueint = (\<lambda>_. 0),
      cj_GetObjectItemCaseSensitive = demo_get, cj_Print = (\<lambda>_. None)\<rparr>"

definition demo_static_env :: "(demo_json, unit) StaticEnv" where
  "demo_static_env =
     \<lparr>se_json = demo_cjson_text, se_file = (\<lambda>_. Some []),
      se_collector = (\<lambda>l. if l = ''lib.so'' then Some (Some True) else None), se_localUdid = ''udid'',
      se_newStore = (), se_StoreInit = (\<lambda>s. (DP_SUCCESS, s)), se_PostTask = False, se_callerProcName = [],
      se_IsP2p = (\<lambda>_. False)\<rparr>"

lemma static_capability_flags_witness:
  "HasStaticCapability ''pasteboardService'' (snd (GetStaticCapability demo_static_env (Some demo_document) [])) \<and>
   \<not> HasStaticCapability ''dmsfwk_svr_id'' (snd (GetStaticCapability demo_static_env (Some demo_document) []))"
proof -
  obtain r cap' where g: "GetStaticCapability demo_static_env (Some demo_document) [] = (r, cap')" by fastforce
  let ?hs = "handlers demo_cjson_text (cj_children demo_cjson_text
      (cj_GetObjectItem demo_cjson_text (Some demo_document) STATIC_CAPABILITY_ATTRIBUTE))"
  have "fst (GetStaticCapability demo_static_env (Some demo_document) []) = DP_SUCCESS" by code_simp
  then have r: "r = DP_SUCCESS" by (simp add: g)
  have n: "cj_GetArraySize demo_cjson_text (cj_GetObjectItem demo_cjson_text (Some demo_document) STATIC_CAPABILITY_ATTRIBUTE) = 2"
    by code_simp
  have last: "last_of ''pasteboardService'' ?hs = Some ''lib.so''" "last_of ''dmsfwk_svr_id'' ?hs = Some ''none.so''"
    by code_simp+
  have loaded: "GetStaticCapabilityValue demo_static_env ''lib.so''" "\<not> GetStaticCapabilityValue demo_static_env ''none.so''"
    by code_simp+
  have flag: "map_of CAPABILITY_FLAG_MAP ''pasteboardService'' = Some 1" by (simp add: CAPABILITY_FLAG_MAP_def)
  have json: "se_json demo_static_env = demo_cjson_text" by (simp add: demo_static_env_def)
  from static_capability_flags [OF g] r have "length cap' = 2" and
    "HasStaticCapability s cap' \<longleftrightarrow> (\<exists>f. map_of CAPABILITY_FLAG_MAP s = Some f \<and> f < length cap') \<and>
      (\<exists>l. last_of s ?hs = Some l \<and> GetStaticCapabilityValue demo_static_env l)" for s
    by (simp_all add: json n Let_def)
  then show ?thesis using last loaded flag by (simp add: g)
qed

section \<open>Versions\<close>

definition number_text :: "string \<Rightarrow> bool" where
  "number_text s \<longleftrightarrow> s \<noteq> [] \<and> list_all is_digit s"

lemma number_no_point: "number_text s \<Longrightarrow> CHR ''.'' \<notin> set s"
  by (auto simp: number_text_def list_all_iff is_digit_def dest!: bspec)

text \<open>A valid version is four numbers with points between them.\<close>

definition version_text :: "string list \<Rightarrow> string \<Rightarrow> bool" where
  "version_text ns v \<longleftrightarrow> length ns = 4 \<and> list_all number_text ns \<and> v = join_with ''.'' ns"

lemma valid_version_iff:
  "IsValidVersion v \<longleftrightarrow> (\<exists>ns. version_text ns v)"
proof
  assume "IsValidVersion v"
  then have "version_text (split_on CHR ''.'' v) v"
    by (simp add: version_text_def IsValidVersion_def Let_def number_text_def [abs_def] join_split)
  then show "\<exists>ns. version_text ns v" by blast
next
  assume "\<exists>ns. version_text ns v"
  then obtain ns where n: "length ns = 4" "list_all number_text ns" and v: "v = join_with ''.'' ns"
    unfolding version_text_def by blast
  then have "ns \<noteq> []" "\<forall>x\<in>set ns. CHR ''.'' \<notin> set x" by (auto simp: list_all_iff dest: number_no_point)
  then have "split_on CHR ''.'' v = ns" unfolding v by (rule split_join)
  with n show "IsValidVersion v" by (simp add: IsValidVersion_def number_text_def [abs_def])
qed

section \<open>Profiles\<close>

text \<open>What a device publishes: its version and its capabilities.\<close>

definition published :: "'j CJsonText \<Rightarrow> string \<Rightarrow> (string \<times> string) option" where
  "published J value =
     (case cj_Parse J (c_str value) of
        None \<Rightarrow> None
      | Some json \<Rightarrow>
          if \<not> cj_IsObject J (Some json) then None
          else (case (json_string J json STATIC_CAPABILITY_VERSION, json_string J json STATIC_CAPABILITY_VALUE) of
            (Some version, Some capability) \<Rightarrow> Some (version, capability) | _ \<Rightarrow> None))"

text \<open>The services with a capability, and the texts of their profiles, that the file of the reader has for that.\<close>

definition abilities_of :: "'j CJsonText \<Rightarrow> string \<Rightarrow> 'j \<Rightarrow> (string \<times> string) list" where
  "abilities_of J capability info =
     (let abilities = cj_GetObjectItemCaseSensitive J (Some info) ABILITIES in
      if cj_IsArray J abilities then List.map_filter (ability J capability) (cj_children J abilities) else [])"

definition readable :: "string \<Rightarrow> bool" where
  "readable s \<longleftrightarrow> s \<noteq> [] \<and> length s \<le> MAX_STRING_LEN"

definition local_abilities :: "('j, 'a) StaticEnv \<Rightarrow> string \<Rightarrow> string \<Rightarrow> (string \<times> string) list" where
  "local_abilities E version capability =
     (case se_file E STATIC_INFO_PATH of
        Some content \<Rightarrow>
          (case GetStaticInfoJsonByVersion (se_json E) (cj_Parse (se_json E) (c_str content)) version of
             Some info \<Rightarrow> if readable capability then abilities_of (se_json E) capability info else []
           | None \<Rightarrow> [])
      | None \<Rightarrow> [])"

definition static_profile :: "string \<Rightarrow> string \<times> string \<Rightarrow> CharacteristicProfile" where
  "static_profile d = (\<lambda>(s, v). CharacteristicProfile_make d s STATIC_CHARACTERISTIC_KEY v)"

abbreviation "static_key d s \<equiv> GenerateCharProfileKey d s STATIC_CHARACTERISTIC_KEY"

lemma map_filter_fold:
  "fold (\<lambda>x M. case f x of None \<Rightarrow> M | Some (s, v) \<Rightarrow> g s v M) xs M = fold (\<lambda>(s, v) M. g s v M) (List.map_filter f xs) M"
  by (induction xs arbitrary: M) (auto simp: List.map_filter_simps split: option.splits)

lemma generate_abilities:
  "readable d \<Longrightarrow> cj_IsObject J (Some info) \<Longrightarrow> snd (GenerateStaticProfiles J d cap (Some info) M) =
     fold (\<lambda>(s, v). AList.update (static_key d s) (static_profile d (s, v))) (abilities_of J cap info) M"
  by (simp add: GenerateStaticProfiles_def readable_def abilities_of_def map_filter_fold Let_def static_profile_def)

lemma version_object: "GetStaticInfoJsonByVersion J json v = Some info \<Longrightarrow>
    cj_IsObject J json \<and> cj_IsObject J (Some info) \<and> readable v"
  by (auto simp: GetStaticInfoJsonByVersion_def readable_def find_Some_iff split: if_splits option.splits)

lemma load_abilities:
  "snd (LoadStaticProfiles E d cap v []) =
     (if readable d then fold (\<lambda>(s, x). AList.update (static_key d s) (static_profile d (s, x))) (local_abilities E v cap) [] else [])"
proof (cases "se_file E STATIC_INFO_PATH")
  case None
  then show ?thesis by (simp add: LoadStaticProfiles_def LoadJsonFile_def readable_def local_abilities_def)
next
  case (Some content)
  let ?json = "cj_Parse (se_json E) (c_str content)"
  show ?thesis
  proof (cases "GetStaticInfoJsonByVersion (se_json E) ?json v")
    case None
    with Some show ?thesis
      by (simp add: LoadStaticProfiles_def LoadJsonFile_def local_abilities_def GetStaticInfoByVersion_def Let_def readable_def)
  next
    case info: (Some info)
    note obj = version_object [OF info]
    with Some info show ?thesis
      by (auto simp: LoadStaticProfiles_def LoadJsonFile_def local_abilities_def GetStaticInfoByVersion_def Let_def
          generate_abilities) (auto simp: readable_def)
  qed
qed

lemma map_of_updates:
  "map_of (fold (\<lambda>(s, v). AList.update (f s) (g (s, v))) xs []) k =
     map_option g (find (\<lambda>(s, v). f s = k) (rev xs))"
  by (induction xs rule: rev_induct) auto

lemma in_map_filter: "y \<in> set (List.map_filter f xs) \<longleftrightarrow> (\<exists>x\<in>set xs. f x = Some y)"
  by (induction xs) (auto simp: List.map_filter_simps split: option.splits)

lemma ability_has: "ability J cap x = Some (s, v) \<Longrightarrow> HasStaticCapability s cap"
  by (auto simp: ability_def split: option.splits if_splits)

lemma ability_known:
  assumes "(s, v) \<in> set (local_abilities E ver cap)"
  shows "IsKeyValid s"
proof -
  have "HasStaticCapability s cap"
    using assms by (auto simp: local_abilities_def abilities_of_def Let_def in_map_filter dest: ability_has
        split: option.splits if_splits)
  then show ?thesis by (auto simp: HasStaticCapability_def CAPABILITY_FLAG_MAP_def IsKeyValid_iff split: option.splits if_splits)
qed

lemma static_key_eq:
  assumes "IsKeyValid s'" "IsKeyValid d" "IsKeyValid s" "IsKeyValid c"
  shows "static_key d' s' = GenerateCharProfileKey d s c \<longleftrightarrow> d' = d \<and> s' = s \<and> c = STATIC_CHARACTERISTIC_KEY"
proof
  assume eq: "static_key d' s' = GenerateCharProfileKey d s c"
  have "split_on CHR ''#'' (GenerateCharProfileKey d s c) = [CHAR_PREFIX, d, s, c]"
    using assms by (auto simp: GenerateCharProfileKey_def key_simps IsKeyValid_iff)
  moreover have "split_on CHR ''#'' (static_key d' s') = CHAR_PREFIX # split_on CHR ''#'' d' @ [s', STATIC_CHARACTERISTIC_KEY]"
    using assms(1) split_on_append [of "CHR ''#''" d' "s' @ CHR ''#'' # STATIC_CHARACTERISTIC_KEY"]
    by (simp add: GenerateCharProfileKey_def key_simps IsKeyValid_iff)
  ultimately have "split_on CHR ''#'' d' @ [s', STATIC_CHARACTERISTIC_KEY] = [d] @ [s, c]" by (simp add: eq)
  then have "split_on CHR ''#'' d' = [d]" "s' = s" "c = STATIC_CHARACTERISTIC_KEY"
    by (auto simp: append_eq_append_conv)
  moreover from this(1) have "d' = d" by (metis join_split join_with.simps(2))
  ultimately show "d' = d \<and> s' = s \<and> c = STATIC_CHARACTERISTIC_KEY" by blast
qed auto

text \<open>The answer as the files, the published value and the cache determine it.\<close>

definition static_answer :: "('j, 'a) StaticEnv \<Rightarrow> 'a IKVAdapter \<Rightarrow> string \<Rightarrow> string \<Rightarrow> string \<Rightarrow> CharacteristicProfile \<Rightarrow>
    ('a, 'w) Stores \<Rightarrow> dp_ret \<times> CharacteristicProfile" where
  "static_answer E ik d s c x st =
     (if \<not> (IsKeyValid d \<and> IsKeyValid s \<and> IsKeyValid c) then (DP_INVALID_PARAMS, x)
      else case map_of (staticCharProfileMap (st_cache st)) (GenerateCharProfileKey d s c) of
        Some q \<Rightarrow> (DP_SUCCESS, q)
      | None \<Rightarrow>
          let (ret, p) = Ctl_GetCharacteristicProfile ik d STATIC_CAPABILITY_SVR_ID STATIC_CAPABILITY_CHAR_ID
                 CharacteristicProfile_default st in
          if ret \<noteq> DP_SUCCESS then (ret, x)
          else case published (se_json E) (cp_characteristicValue p) of
            None \<Rightarrow> (DP_PARSE_STATIC_CAP_FAIL, x)
          | Some (version, capability) \<Rightarrow>
              (case last_of s (local_abilities E version capability) of
                 Some v \<Rightarrow> if c = STATIC_CHARACTERISTIC_KEY \<and> cp_deviceId p = d then (DP_SUCCESS, static_profile d (s, v))
                   else (DP_NOT_FOUND_FAIL, x)
               | None \<Rightarrow> (DP_NOT_FOUND_FAIL, x)))"

lemma generate_published:
  "GenerateStaticInfoProfile E p [] = (case published (se_json E) (cp_characteristicValue p) of
     None \<Rightarrow> (DP_PARSE_STATIC_CAP_FAIL, [])
   | Some (version, capability) \<Rightarrow> (DP_SUCCESS, snd (LoadStaticProfiles E (cp_deviceId p) capability version [])))"
  by (auto simp: GenerateStaticInfoProfile_def published_def Let_def split: option.splits)

lemma find_ability:
  assumes "\<forall>(s', v)\<in>set xs. IsKeyValid s'" "IsKeyValid d" "IsKeyValid s" "IsKeyValid c"
  shows "find (\<lambda>(s', v). static_key d' s' = GenerateCharProfileKey d s c) (rev xs) =
    (if d' = d \<and> c = STATIC_CHARACTERISTIC_KEY then map_option (\<lambda>v. (s, v)) (last_of s xs) else None)"
  using assms(1)
proof (induction xs rule: rev_induct)
  case (snoc x xs)
  obtain t v where x: "x = (t, v)" by fastforce
  with snoc.prems have "IsKeyValid t" by simp
  note eq = static_key_eq [OF this assms(2-4), of d']
  from snoc show ?case by (auto simp: x eq)
qed simp


end
