(* ===== verification/Spec2Isabelle.thy ===== *)
theory Spec2Isabelle
  imports ControlLaws SubscribeLaws TrustQueries IpcProps ServiceProps DynamicLaws ListenerLaws BusinessLaws
    LocalServiceInfos ProfileDataLaws StaticLaws
begin

text \<open>
  A verification development for the device profile service of OpenHarmony
  (\<open>distributed_device_profile\<close>). The service keeps what a device knows about itself and about
  trusted devices: profiles of devices, services and characteristics, in a cache and in a
  distributed key-value store; the switches of the local device, packed in one word; the devices
  that are online; and the access control lists, in a relational store.

  \<^bold>\<open>How the parts interact.\<close> A client calls the proxy, which writes the arguments into a parcel; the
  stub of the service reads them, calls the service and writes the answer. The service checks the
  permissions of the caller and passes the request to a manager: \<open>TrustProfileManager\<close> for the access
  control lists, over \<open>RdbAdapter\<close> and the relational store; \<open>DeviceProfileManager\<close> for the dynamic profiles
  of all users; \<open>SwitchProfileManager\<close> for the switches; \<open>SubscribeProfileManager\<close> for the listeners.
  \<open>ProfileControlUtils\<close> looks in \<open>ProfileCache\<close> first, turns profiles into string entries and back with
  \<open>ProfileUtils\<close>, and stores the entries through an \<open>IKVAdapter\<close>. \<open>KVAdapter\<close> implements that interface
  over the distributed data service, \<open>SwitchAdapter\<close> does the same for the switches.

  \<^bold>\<open>Theories and sources\<close> (paths under \<open>src/\<close>; a definition has the name of the function it
  models, with the class in front where several classes have one of that name):
  \<^item> \<open>DpErrors\<close>: \<open>common/include/constants/distributed_device_profile_errors.h\<close>; the codes are
    ascending, so no two errors are confused.
  \<^item> \<open>DpPrelude\<close>: the parts of the C++ standard library the code uses; \<open>std::map\<close> is an
    association list sorted by key (\<open>omap\<close>), \<open>std::unordered_map\<close> one in any order (\<open>umap\<close>).
  \<^item> \<open>DpTypes\<close>: constants, enumerations and the profile classes (\<open>common/include/constants\<close>,
    \<open>common/include/interfaces\<close>) as records.
  \<^item> \<open>ProfileUtils\<close>, \<open>ProfileKeys\<close>, \<open>ProfileEntries\<close>: \<open>common/src/utils/profile_utils.cpp\<close>: strings
    and validation, database keys, profiles as entries. The locale \<open>key_scheme\<close> states once what a
    kind of key promises and is interpreted for the three kinds.
  \<^item> \<open>KvAdapter\<close>: \<open>persistenceadapter/kvadapter/kv_adapter.cpp\<close>. The locale \<open>kv_store\<close> has the laws
    the code expects of the data service, \<open>ikv_adapter\<close> the contract the adapter gives its clients;
    a \<open>sublocale\<close> shows that the adapter fulfils it over every such store, and a store in memory
    interprets both.
  \<^item> \<open>ProfileCache\<close>, \<open>CacheLaws\<close>: \<open>utils/profile_cache.cpp\<close> and its laws: the locales \<open>keyed_cache\<close>
    and \<open>keyed_cache_del\<close> for the tables, the step relation \<open>cache_step\<close> with the invariant of the
    reachable caches, the switch word bit by bit, the online devices.
  \<^item> \<open>SwitchStore\<close>: \<open>persistenceadapter/kvadapter/switch_adapter.cpp\<close>.
  \<^item> \<open>ProfileControl\<close>, \<open>ControlLaws\<close>: \<open>utils/profile_control_utils.cpp\<close> and
    \<open>deviceprofilemanager/switch_profile_manager.cpp\<close>; what is stored is read back, deletion removes
    exactly its entries, cache and switch word agree; two theorems show where they do not.

  \<^item> \<open>DynamicProfiles\<close>, \<open>DynamicLaws\<close>: \<open>deviceprofilemanager/device_profile_manager.cpp\<close> and
    \<open>multiusermanager/multi_user_manager.cpp\<close>. The locale \<open>ikv_reader\<close> extends the contract of the
    adapter; over it, what a change of the foreground user and the removal of a user do to the store.
  \<^item> \<open>ServiceInfos\<close>, \<open>ServiceInfoLaws\<close>, \<open>ServiceRegistry\<close>: \<open>serviceinfo_manager/service_info_manager.cpp\<close>,
    its adapter \<open>service_info_kv_adapter.cpp\<close> and \<open>subscribe_service_info_manager.cpp\<close>. The locale
    \<open>cjson_doc\<close> has the laws expected of the JSON library, \<open>info_store\<close> the contract of the adapter;
    \<open>info_registry\<close> joins them and shows the manager to be a finite map from identities to infos.
  \<^item> \<open>ChangeListener\<close>, \<open>ListenerLaws\<close>: \<open>deviceprofilemanager/listener\<close>: what the data service calls when
    entries or switches change, when a synchronisation ends and when it dies; which announcements a
    change of the store leads to.
  \<^item> \<open>SubscribeProfile\<close>, \<open>SubscribeLaws\<close>: \<open>subscribeprofilemanager/subscribe_profile_manager.cpp\<close>: the
    table of subscriptions with its step relation and invariant, who is called on a change, and that
    the keys of subscribers are those of the database.
  \<^item> \<open>RdbStore\<close>, \<open>SqlText\<close>: \<open>persistenceadapter/rdbadapter/rdb_adapter.cpp\<close> over a relational store that is an
    argument, with the statements of \<open>common/src/constants\<close>. \<open>RdbOpen\<close> has the rest of that file: opening the
    database, moving it to its new directory, creating and upgrading its tables. The locale \<open>rdb_files\<close> of
    \<open>RdbMigration\<close> has the laws expected of the files; what is in them survives every failure.
  \<^item> \<open>DataAdapters\<close>, \<open>DataTables\<close>: the three other adapters of \<open>persistenceadapter/rdbadapter\<close>; the locale
    \<open>data_files\<close> says what the statements do to the rows of a table. \<open>DataMemory\<close> is a store in memory that
    interprets both locales.
  \<^item> \<open>LocalServiceInfos\<close>: \<open>localserviceinfomanager/local_service_info_manager.cpp\<close>, shown to be a finite map
    from identities to infos.
  \<^item> \<open>ProfileDaos\<close>, \<open>ProfileData\<close>, \<open>ProfileDataLaws\<close>: \<open>profiledatamanager\<close>: device profiles, icons and products as
    rows, and their manager. The text of each query is shown to be that of the structured query the store is
    asked with, and the table of device profiles to be a map from device and user to a profile.
  \<^item> \<open>StaticProfiles\<close>, \<open>StaticLaws\<close>: \<open>staticcapabilityloader/static_capability_loader.cpp\<close>,
    \<open>static_capability_collector.cpp\<close> and \<open>deviceprofilemanager/static_profile_manager.cpp\<close>: what the published
    capabilities say and which static profile a reader gets.
  \<^item> \<open>BusinessEvents\<close>, \<open>BusinessLaws\<close>: \<open>business_event_adapter.cpp\<close> and
    \<open>businesseventmanager/business_event_manager.cpp\<close>, with the way of an event from the request to the store.
  \<^item> \<open>TrustTypes\<close>, \<open>TrustManager\<close>, \<open>TrustOps\<close>: the classes of the access control lists and
    \<open>trustprofilemanager/trust_profile_manager.cpp\<close>, as programs in the state monad. \<open>StateLogic\<close> and
    \<open>TrustLogic\<close> give weakest preconditions for them; \<open>TrustLaws\<close> and \<open>TrustReads\<close> what each step does to
    the tables; \<open>TrustProps\<close>, \<open>TrustStatus\<close> and \<open>TrustQueries\<close> the theorems on put, update, delete, the status of the
    devices and the queries, over every store with the laws of the locales there. \<open>TrustExample\<close> is a store in
    memory, for the witnesses.
  \<^item> \<open>Parcel\<close>, \<open>IpcTypes\<close>, \<open>Marshalling\<close>: \<open>common/include/utils/macro_utils.h\<close>, the classes that only calls
    use, and the \<open>Marshalling\<close> and \<open>UnMarshalling\<close> of every class and vector. The locale \<open>codec\<close> says
    that what was written is read back; \<open>MarshallingLaws\<close> has one \<open>sublocale\<close> per class.
  \<^item> \<open>IpcProxy\<close>, \<open>IpcStub\<close>: \<open>distributed_device_profile_proxy.cpp\<close> and
    \<open>distributed_device_profile_stub_new.cpp\<close>. \<open>IpcLaws\<close> has the rules for a request and its answer,
    \<open>IpcServed\<close> one lemma per request, \<open>IpcProps\<close> the theorems.
  \<^item> \<open>Permission\<close>: \<open>permissionmanager/permission_manager.cpp\<close>; the JSON parser is an argument.
  \<^item> \<open>DpService\<close>: \<open>distributed_device_profile_service_new.cpp\<close>, every request and the life of the service.
    \<open>RequestLaws\<close> shows that a predicate kept by every operation of a service is kept by every request
    of any content, \<open>DpServiceLaws\<close> that the operations of this one keep its invariant, \<open>ServiceProps\<close>
    has the theorems.

  \<^bold>\<open>Conventions.\<close> An operation takes the state and returns its result code with the out-parameters
  and the new state; an out-parameter the code leaves alone keeps the value it came with. A lock
  makes an operation atomic, so interleavings are sequences of operations. What is not in the
  repository (data service, local udid and network id, foreground user, remote objects) is an
  argument; a null pointer is \<open>None\<close>. Logging is left out. Strings are lists of characters,
  \<open>uint32_t\<close> and the switch word are 32-bit words, and \<open>int32_t\<close> and \<open>int64_t\<close> are \<open>int\<close> where no
  arithmetic is done on them; \<open>atoi\<close> is modelled on 32 bits.

  \<^bold>\<open>Bounds and termination.\<close> The loop that opens the store runs at most \<open>MAX_INIT_RETRY_TIMES\<close> (30)
  times as in the code, the one that opens a relational database at most \<open>RDB_INIT_MAX_TIMES\<close> (5) times;
  batches have \<open>MAX_BATCH_SIZE\<close> (128) keys and the recursion that cuts them has a
  termination proof. \<open>SplitString\<close> does not end for an empty separator, so its loop is a partial
  function; it is shown to end for every other separator and not to end for that one, and to equal a
  structural split for the separator the code uses. The table of switches of devices that are not online
  holds up to 1001 words and the map of a switch word is read at the positions below 5.

  \<^bold>\<open>Not modelled.\<close> The collectors that read system parameters,
  session keys (the asset store of the system), the client that finds and loads the service, radar and dump.
\<close>

end
